(* ===== verification/Prelude.thy ===== *)
theory Prelude
  imports Main "HOL-Library.Word" "HOL-Library.Sublist"
begin

text \<open>
  The shared vocabulary of the development: the machine integers and byte buffers of
  the Rust sources, \<open>Result\<close> with the \<open>?\<close> operator, and a small calculus of buffer
  readers and writers.

  A \<open>&mut impl Buf\<close> argument is a byte list that is passed in and returned advanced
  (\<open>('e, 'a) reader\<close>); a \<open>&mut impl BufMut\<close> argument is the list of bytes written so
  far (\<open>'e writer\<close>), the growable \<open>BytesMut\<close> of the callers. A function that returns
  \<open>Err\<close> returns no buffer: no caller in the modelled code reads a buffer after an error.

  The three judgements \<open>carries\<close>, \<open>yields\<close> and \<open>extends_input\<close> have one structural rule per
  combinator, collected in \<open>carries_rules\<close>, \<open>yields_rules\<close> and \<open>extends_rules\<close>; the proofs about
  every codec of the later theories are applications of these collections.
\<close>

section \<open>Machine integers\<close>

type_synonym u8 = "8 word"
type_synonym i8 = "8 word"
type_synonym i16 = "16 word"
type_synonym u16 = "16 word"
type_synonym i32 = "32 word"
type_synonym u32 = "32 word"
type_synonym i64 = "64 word"
type_synonym u64 = "64 word"
type_synonym bytes = "u8 list"

text \<open>
  A \<open>usize\<close> is a natural number; the targets are 64-bit, so the operations that can
  overflow compare against \<open>usize_max\<close>.
\<close>

definition usize_max :: nat where
  "usize_max = 2 ^ 64 - 1"

definition usize_saturating_add :: "nat \<Rightarrow> nat \<Rightarrow> nat" where
  "usize_saturating_add a b = min usize_max (a + b)"

text \<open>
  \<open>iN::try_from(usize)\<close> and \<open>usize::try_from(iN)\<close>: \<open>None\<close> is the \<open>TryFromIntError\<close>.
\<close>

definition int_try_from :: "nat \<Rightarrow> 'a::len word option" where
  "int_try_from n = (if n < 2 ^ (LENGTH('a) - 1) then Some (of_nat n) else None)"

definition usize_try_from :: "'a::len word \<Rightarrow> nat option" where
  "usize_try_from w = (if 0 \<le> sint w then Some (nat (sint w)) else None)"

lemma sint_of_nat_small:
  assumes "n < 2 ^ (LENGTH('a) - 1)"
  shows "sint (of_nat n :: 'a::len word) = int n"
proof -
  have "int n < 2 ^ (LENGTH('a) - 1)"
    using assms by (metis of_nat_less_iff of_nat_numeral of_nat_power)
  then have "- (2 ^ (LENGTH('a) - 1)) \<le> int n \<and> int n < 2 ^ (LENGTH('a) - 1)"
    by (simp add: order_trans[of _ 0])
  then show ?thesis
    by (simp add: signed_of_nat signed_take_bit_int_eq_self)
qed

lemma usize_try_from_of_nat [simp]:
  "n < 2 ^ (LENGTH('a) - 1) \<Longrightarrow> usize_try_from (of_nat n :: 'a::len word) = Some n"
  by (simp add: usize_try_from_def sint_of_nat_small)

lemma usize_try_from_Some:
  assumes "usize_try_from (w :: 'a::len word) = Some n"
  shows "n < 2 ^ (LENGTH('a) - 1)" and "w = of_nat n"
proof -
  have n: "0 \<le> sint w" "n = nat (sint w)"
    using assms by (auto simp: usize_try_from_def split: if_splits)
  have "int n < 2 ^ (LENGTH('a) - 1)"
    using n sint_lt[of w] by simp
  then show "n < 2 ^ (LENGTH('a) - 1)"
    by (metis of_nat_less_iff of_nat_numeral of_nat_power)
  show "w = of_nat n"
    using n by simp
qed

lemma unat_word_less: "unat (w :: 'a::len word) < 2 ^ LENGTH('a)"
  using unsigned_less[of w, where ?'a = nat] .

lemma int_try_from_eq_Some:
  "int_try_from n = Some (w :: 'a::len word) \<longleftrightarrow> n < 2 ^ (LENGTH('a) - 1) \<and> w = of_nat n"
  by (auto simp: int_try_from_def)

section \<open>Results\<close>

type_synonym ('e, 'a) result = "'e + 'a"

abbreviation Ok :: "'a \<Rightarrow> ('e, 'a) result" where
  "Ok \<equiv> Inr"

abbreviation Err :: "'e \<Rightarrow> ('e, 'a) result" where
  "Err \<equiv> Inl"

definition and_then :: "('e, 'a) result \<Rightarrow> ('a \<Rightarrow> ('e, 'b) result) \<Rightarrow> ('e, 'b) result" where
  "and_then r f = (case r of Err e \<Rightarrow> Err e | Ok x \<Rightarrow> f x)"

definition map_err :: "('e \<Rightarrow> 'f) \<Rightarrow> ('e, 'a) result \<Rightarrow> ('f, 'a) result" where
  "map_err g r = (case r of Err e \<Rightarrow> Err (g e) | Ok x \<Rightarrow> Ok x)"

lemma and_then_Ok [simp]: "and_then (Ok x) f = f x"
  by (simp add: and_then_def)

lemma and_then_Err [simp]: "and_then (Err e) f = Err e"
  by (simp add: and_then_def)

lemma and_then_eq_Ok: "and_then r f = Ok y \<longleftrightarrow> (\<exists>x. r = Ok x \<and> f x = Ok y)"
  by (cases r) simp_all

lemma map_err_Ok [simp]: "map_err g (Ok x) = Ok x"
  by (simp add: map_err_def)

lemma map_err_Err [simp]: "map_err g (Err e) = Err (g e)"
  by (simp add: map_err_def)

lemma map_err_eq_Ok [simp]: "map_err g r = Ok y \<longleftrightarrow> r = Ok y"
  by (cases r) simp_all

section \<open>Readers and writers\<close>

type_synonym ('e, 'a) reader = "bytes \<Rightarrow> ('e, 'a \<times> bytes) result"
type_synonym 'e writer = "bytes \<Rightarrow> ('e, bytes) result"

definition read_ok :: "'a \<Rightarrow> ('e, 'a) reader" where
  "read_ok x buf = Ok (x, buf)"

definition read_err :: "'e \<Rightarrow> ('e, 'a) reader" where
  "read_err e buf = Err e"

definition read_then :: "('e, 'a) reader \<Rightarrow> ('a \<Rightarrow> ('e, 'b) reader) \<Rightarrow> ('e, 'b) reader" where
  "read_then r f buf = and_then (r buf) (\<lambda>(x, buf'). f x buf')"

text \<open>A check that touches no buffer, such as \<open>check_version(..)?\<close>.\<close>

definition checked :: "('e, unit) result \<Rightarrow> ('e, 'a) reader \<Rightarrow> ('e, 'a) reader" where
  "checked c r buf = and_then c (\<lambda>_. r buf)"

fun write_all :: "'e writer list \<Rightarrow> 'e writer" where
  "write_all [] buf = Ok buf"
| "write_all (w # ws) buf = and_then (w buf) (write_all ws)"

definition write_check :: "('e, unit) result \<Rightarrow> 'e writer" where
  "write_check c buf = and_then c (\<lambda>_. Ok buf)"

definition put_slice :: "bytes \<Rightarrow> 'e writer" where
  "put_slice bs buf = Ok (buf @ bs)"

subsection \<open>What a writer appends\<close>

definition produces :: "'e writer \<Rightarrow> bytes \<Rightarrow> bool" where
  "produces w bs \<longleftrightarrow> (\<forall>buf. w buf = Ok (buf @ bs))"

definition emitted :: "'e writer \<Rightarrow> bytes" where
  "emitted w = (case w [] of Err _ \<Rightarrow> [] | Ok bs \<Rightarrow> bs)"

lemma produces_emitted: "produces w bs \<Longrightarrow> emitted w = bs"
  by (simp add: produces_def emitted_def)

lemma producesD: "produces w bs \<Longrightarrow> w buf = Ok (buf @ bs)"
  by (simp add: produces_def)

lemma produces_Cons:
  "produces w bs \<Longrightarrow> produces (write_all ws) cs \<Longrightarrow> produces (write_all (w # ws)) (bs @ cs)"
  by (simp add: produces_def)

lemma produces_unique: "produces w bs \<Longrightarrow> produces w cs \<Longrightarrow> bs = cs"
  using produces_emitted by metis

lemma write_all_append:
  "write_all (ws @ vs) buf = and_then (write_all ws buf) (write_all vs)"
  by (induction ws arbitrary: buf) (auto simp: and_then_def split: sum.splits)

subsection \<open>What a reader accepts\<close>

text \<open>\<open>reads r bs x\<close>: on any input that starts with \<open>bs\<close>, \<open>r\<close> consumes exactly \<open>bs\<close> and
  returns \<open>x\<close>.\<close>

definition reads :: "('e, 'a) reader \<Rightarrow> bytes \<Rightarrow> 'a \<Rightarrow> bool" where
  "reads r bs x \<longleftrightarrow> (\<forall>rest. r (bs @ rest) = Ok (x, rest))"

text \<open>\<open>extends_input r\<close>: more input behind what \<open>r\<close> needs does not change its result.\<close>

definition extends_input :: "('e, 'a) reader \<Rightarrow> bool" where
  "extends_input r \<longleftrightarrow>
     (\<forall>buf x rest more. r buf = Ok (x, rest) \<longrightarrow> r (buf @ more) = Ok (x, rest @ more))"

text \<open>\<open>yields n r P\<close>: a successful \<open>r\<close> consumes a prefix of at least \<open>n\<close> bytes, and its
  result satisfies \<open>P\<close>.\<close>

definition yields :: "nat \<Rightarrow> ('e, 'a) reader \<Rightarrow> ('a \<Rightarrow> bool) \<Rightarrow> bool" where
  "yields n r P \<longleftrightarrow>
     (\<forall>buf x rest. r buf = Ok (x, rest) \<longrightarrow> P x \<and> (\<exists>used. buf = used @ rest \<and> n \<le> length used))"

named_theorems extends_rules
named_theorems yields_rules
named_theorems carries_rules

lemma readsD: "reads r bs x \<Longrightarrow> r (bs @ rest) = Ok (x, rest)"
  by (simp add: reads_def)

lemma reads_unique: "reads r bs x \<Longrightarrow> reads r bs y \<Longrightarrow> x = y"
  by (auto simp: reads_def)

lemma reads_then:
  "reads r bs x \<Longrightarrow> reads (f x) cs y \<Longrightarrow> reads (read_then r f) (bs @ cs) y"
  by (simp add: reads_def read_then_def)

lemma extends_ok [extends_rules]: "extends_input (read_ok x)"
  by (simp add: extends_input_def read_ok_def)

lemma extends_err [extends_rules]: "extends_input (read_err e)"
  by (simp add: extends_input_def read_err_def)

lemma extends_then [extends_rules]:
  "extends_input r \<Longrightarrow> (\<And>x. extends_input (f x)) \<Longrightarrow> extends_input (read_then r f)"
  by (fastforce simp: extends_input_def read_then_def and_then_eq_Ok)

lemma extends_checked [extends_rules]: "extends_input r \<Longrightarrow> extends_input (checked c r)"
  by (fastforce simp: extends_input_def checked_def and_then_eq_Ok)

lemma extends_if [extends_rules]:
  "(c \<Longrightarrow> extends_input r) \<Longrightarrow> (\<not> c \<Longrightarrow> extends_input s) \<Longrightarrow> extends_input (if c then r else s)"
  by simp

lemma extends_inputD:
  "extends_input r \<Longrightarrow> r buf = Ok (x, rest) \<Longrightarrow> r (buf @ more) = Ok (x, rest @ more)"
  by (simp add: extends_input_def)

lemma yields_ok [yields_rules]: "P x \<Longrightarrow> yields 0 (read_ok x) P"
  by (simp add: yields_def read_ok_def)

lemma yields_err [yields_rules]: "yields n (read_err e) P"
  by (simp add: yields_def read_err_def)

lemma yields_if:
  "(c \<Longrightarrow> yields n r P) \<Longrightarrow> (\<not> c \<Longrightarrow> yields n s P) \<Longrightarrow> yields n (if c then r else s) P"
  by simp

lemma yieldsD:
  assumes "yields n r P" and "r buf = Ok (x, rest)"
  shows "P x" and "\<exists>used. buf = used @ rest \<and> n \<le> length used"
  using assms by (simp_all add: yields_def)

lemma yields_then [yields_rules]:
  assumes "yields n r P" and "\<And>x. P x \<Longrightarrow> yields m (f x) Q"
  shows "yields (n + m) (read_then r f) Q"
  unfolding yields_def
proof (intro allI impI)
  fix buf y rest
  assume "read_then r f buf = Ok (y, rest)"
  then obtain x mid where r: "r buf = Ok (x, mid)" and f: "f x mid = Ok (y, rest)"
    by (auto simp: read_then_def and_then_eq_Ok)
  have x: "P x"
    using assms(1) r by (rule yieldsD)
  obtain u where u: "buf = u @ mid" "n \<le> length u"
    using yieldsD(2)[OF assms(1) r] by blast
  have y: "Q y"
    using assms(2)[OF x] f by (rule yieldsD)
  obtain v where v: "mid = v @ rest" "m \<le> length v"
    using yieldsD(2)[OF assms(2)[OF x] f] by blast
  have "buf = (u @ v) @ rest" and "n + m \<le> length (u @ v)"
    using u v by simp_all
  with y show "Q y \<and> (\<exists>used. buf = used @ rest \<and> n + m \<le> length used)"
    by blast
qed

lemma yields_then_0:
  "yields n r P \<Longrightarrow> (\<And>x. P x \<Longrightarrow> yields 0 (f x) Q) \<Longrightarrow> yields n (read_then r f) Q"
  using yields_then[of n r P 0 f Q] by simp

lemma yields_checked [yields_rules]:
  "(c = Ok () \<Longrightarrow> yields n r P) \<Longrightarrow> yields n (checked c r) P"
  by (auto simp: yields_def checked_def and_then_eq_Ok)

lemma yields_weaken: "yields n r P \<Longrightarrow> m \<le> n \<Longrightarrow> yields m r P"
  unfolding yields_def by (meson le_trans)

lemma yields_dropI:
  assumes "\<And>buf x rest. r buf = Ok (x, rest) \<Longrightarrow> P x \<and> n \<le> length buf \<and> rest = drop n buf"
  shows "yields n r P"
  unfolding yields_def
proof (intro allI impI)
  fix buf x rest
  assume "r buf = Ok (x, rest)"
  then have "P x" "n \<le> length buf" "rest = drop n buf"
    using assms by blast+
  then show "P x \<and> (\<exists>used. buf = used @ rest \<and> n \<le> length used)"
    by (auto intro!: exI[of _ "take n buf"])
qed

lemma yields_mono: "yields n r P \<Longrightarrow> (\<And>x. P x \<Longrightarrow> Q x) \<Longrightarrow> yields n r Q"
  unfolding yields_def by blast

subsection \<open>A writer and a reader that agree\<close>

text \<open>\<open>carries w r n x\<close>: \<open>w\<close> succeeds on every buffer and appends \<open>n\<close> bytes, from which \<open>r\<close>
  recovers \<open>x\<close>, whatever bytes follow.\<close>

definition carries :: "'e writer \<Rightarrow> ('e, 'a) reader \<Rightarrow> nat \<Rightarrow> 'a \<Rightarrow> bool" where
  "carries w r n x \<longleftrightarrow> (\<exists>bs. produces w bs \<and> reads r bs x \<and> length bs = n)"

lemma carriesI: "produces w bs \<Longrightarrow> reads r bs x \<Longrightarrow> length bs = n \<Longrightarrow> carries w r n x"
  by (auto simp: carries_def)

lemma carriesE:
  assumes "carries w r n x"
  obtains bs where "produces w bs" and "reads r bs x" and "length bs = n"
  using assms by (auto simp: carries_def)

lemma carries_cong_len: "carries w r n x \<Longrightarrow> n = m \<Longrightarrow> carries w r m x"
  by simp

lemma carries_done [carries_rules]: "x = y \<Longrightarrow> carries (write_all []) (read_ok x) 0 y"
  by (simp add: carries_def produces_def reads_def read_ok_def)

lemma carries_step [carries_rules]:
  assumes "carries w r n x" and "carries (write_all ws) (f x) m y"
  shows "carries (write_all (w # ws)) (read_then r f) (n + m) y"
proof -
  obtain bs where bs: "produces w bs" "reads r bs x" "length bs = n"
    using assms(1) by (rule carriesE)
  obtain cs where cs: "produces (write_all ws) cs" "reads (f x) cs y" "length cs = m"
    using assms(2) by (rule carriesE)
  show ?thesis
  proof (rule carriesI)
    show "produces (write_all (w # ws)) (bs @ cs)"
      using bs(1) cs(1) by (rule produces_Cons)
    show "reads (read_then r f) (bs @ cs) y"
      using bs(2) cs(2) by (rule reads_then)
  qed (simp add: bs(3) cs(3))
qed

lemma carries_checked [carries_rules]:
  "c = Ok () \<Longrightarrow> carries (write_all ws) r n x
    \<Longrightarrow> carries (write_all (write_check c # ws)) (checked c r) n x"
  by (auto simp: carries_def produces_def reads_def write_check_def checked_def)

end
