(* ===== verification/Wire.thy ===== *)
theory Wire
  imports Prelude
begin

text \<open>
  The error type of the protocol crate (\<open>crates/protocol/src/error.rs\<close>), the standard
  library's UTF-8 validation that its string decoders call, and the contract of its
  codec traits (\<open>crates/protocol/src/codec.rs\<close>) as the locale \<open>wire_codec\<close>.
\<close>

section \<open>Errors\<close>

text \<open>\<open>core::str::Utf8Error\<close>: \<open>valid_up_to\<close> and \<open>error_len\<close>.\<close>

datatype utf8_error = Utf8Error nat "nat option"

datatype ProtocolError =
    UnexpectedEof nat
  | InvalidValue string
  | InvalidUtf8 utf8_error
  | VarintTooLong nat
  | UnsupportedVersion i16 i16
  | SchemaMismatch string
  | TagNotValidForVersion u32 i16
  | LengthOverflow string nat

type_synonym 'a wire_result = "(ProtocolError, 'a) result"
type_synonym 'a decoder = "(ProtocolError, 'a) reader"
type_synonym encoder = "ProtocolError writer"

section \<open>UTF-8 validation\<close>

text \<open>
  A Rust \<open>String\<close> is its UTF-8 bytes. The checks are those of
  \<open>core::str::from_utf8\<close>: \<open>utf8_width\<close> is the width the first byte announces, and
  \<open>utf8_step\<close> is the width of a well-formed first character, or the \<open>error_len\<close> of the
  error that stops the validation there.
\<close>

definition utf8_width :: "u8 \<Rightarrow> nat" where
  "utf8_width b =
     (if b < 0x80 then 1
      else if 0xC2 \<le> b \<and> b \<le> 0xDF then 2
      else if 0xE0 \<le> b \<and> b \<le> 0xEF then 3
      else if 0xF0 \<le> b \<and> b \<le> 0xF4 then 4
      else 0)"

definition continuation :: "u8 \<Rightarrow> bool" where
  "continuation b \<longleftrightarrow> 0x80 \<le> b \<and> b \<le> 0xBF"

definition second_ok :: "u8 \<Rightarrow> u8 \<Rightarrow> bool" where
  "second_ok b c =
     (if b = 0xE0 then 0xA0 \<le> c \<and> c \<le> 0xBF
      else if b = 0xED then 0x80 \<le> c \<and> c \<le> 0x9F
      else if b = 0xF0 then 0x90 \<le> c \<and> c \<le> 0xBF
      else if b = 0xF4 then 0x80 \<le> c \<and> c \<le> 0x8F
      else continuation c)"

fun utf8_tail :: "nat \<Rightarrow> nat \<Rightarrow> bytes \<Rightarrow> (nat option, unit) result" where
  "utf8_tail 0 seen bs = Ok ()"
| "utf8_tail (Suc k) seen [] = Err None"
| "utf8_tail (Suc k) seen (b # bs) =
     (if continuation b then utf8_tail k (Suc seen) bs else Err (Some seen))"

fun utf8_step :: "bytes \<Rightarrow> (nat option, nat) result" where
  "utf8_step [] = Err None"
| "utf8_step (b # bs) =
     (let w = utf8_width b in
      if w = 0 then Err (Some 1)
      else if w = 1 then Ok 1
      else case bs of
             [] \<Rightarrow> Err None
           | c # cs \<Rightarrow>
               if second_ok b c then and_then (utf8_tail (w - 2) 2 cs) (\<lambda>_. Ok w)
               else Err (Some 1))"

lemma utf8_step_pos: "utf8_step bs = Ok w \<Longrightarrow> 0 < w"
  by (cases bs) (auto simp: Let_def and_then_eq_Ok split: if_splits list.splits)

function from_utf8 :: "nat \<Rightarrow> bytes \<Rightarrow> (utf8_error, unit) result" where
  "from_utf8 off bs =
     (if bs = [] then Ok ()
      else case utf8_step bs of
             Err e \<Rightarrow> Err (Utf8Error off e)
           | Ok w \<Rightarrow> from_utf8 (off + w) (drop w bs))"
  by pat_completeness auto
termination
  by (relation "measure (\<lambda>(off, bs). length bs)") (auto dest: utf8_step_pos)

declare from_utf8.simps [simp del]

definition utf8 :: "bytes \<Rightarrow> bool" where
  "utf8 bs \<longleftrightarrow> from_utf8 0 bs = Ok ()"

section \<open>The codec contract\<close>

text \<open>
  The traits \<open>Encode\<close> and \<open>Decode\<close> promise that \<open>encode\<close> writes exactly \<open>encoded_len\<close>
  bytes and that \<open>decode\<close> reads back what \<open>encode\<close> wrote. \<open>wf\<close> describes the values that
  have an encoding: for those, encoding succeeds. The other two laws are about input that
  no encoder wrote: a successful decode consumes at least one byte of the input, returns
  a value that has an encoding, and does not depend on the bytes behind the ones it
  consumed.
\<close>

locale wire_codec =
  fixes enc :: "'a \<Rightarrow> 'e writer"
    and dec :: "('e, 'a) reader"
    and len :: "'a \<Rightarrow> nat"
    and wf :: "'a \<Rightarrow> bool"
  assumes codec_carries: "wf x \<Longrightarrow> carries (enc x) dec (len x) x"
    and codec_yields: "yields 1 dec wf"
    and codec_extends: "extends_input dec"
begin

lemma encodes:
  assumes "wf x"
  obtains bs where "enc x [] = Ok bs" and "length bs = len x"
    and "\<And>buf. enc x buf = Ok (buf @ bs)" and "\<And>rest. dec (bs @ rest) = Ok (x, rest)"
proof -
  obtain bs where "produces (enc x) bs" "reads dec bs x" "length bs = len x"
    using codec_carries[OF assms] by (rule carriesE)
  then show thesis
    using that[of bs] by (simp add: produces_def reads_def)
qed

lemma round_trip:
  "wf x \<Longrightarrow> \<exists>bs. enc x buf = Ok (buf @ bs) \<and> length bs = len x \<and> dec (bs @ rest) = Ok (x, rest)"
  using encodes[of x] by metis

lemma decoded_wf: "dec bs = Ok (x, rest) \<Longrightarrow> wf x"
  using codec_yields by (rule yieldsD)

lemma decoded_prefix: "dec bs = Ok (x, rest) \<Longrightarrow> \<exists>used. used \<noteq> [] \<and> bs = used @ rest"
  using yieldsD(2)[OF codec_yields] by fastforce

lemma len_pos: "wf x \<Longrightarrow> 0 < len x"
  using encodes[of x] decoded_prefix by (metis append.right_neutral length_greater_0_conv)

text \<open>A decoded value encodes again, and the new encoding decodes to the same value.\<close>

lemma re_encode:
  assumes "dec bs = Ok (x, rest)"
  shows "\<exists>cs. enc x [] = Ok cs \<and> dec (cs @ rest) = Ok (x, rest)"
  using encodes[OF decoded_wf[OF assms]] by metis

text \<open>No proper prefix of an encoding decodes, so a truncated frame is always an error.\<close>

lemma truncated:
  assumes "wf x" and "enc x [] = Ok bs" and "n < length bs"
  shows "\<exists>e. dec (take n bs) = Err e"
proof (cases "dec (take n bs)")
  case (Inr p)
  obtain y rest where p: "p = (y, rest)"
    by (cases p)
  have "dec (take n bs @ drop n bs) = Ok (y, rest @ drop n bs)"
    using codec_extends Inr[unfolded p] by (rule extends_inputD)
  moreover have "dec (bs @ []) = Ok (x, [])"
    using encodes[OF assms(1)] assms(2) by (metis sum.inject(2))
  ultimately have "drop n bs = []"
    by simp
  with assms(3) show ?thesis
    by simp
qed simp

text \<open>The whole contract of one value in one statement.\<close>

lemma contract:
  assumes "wf x"
  shows "\<exists>bs. enc x buf = Ok (buf @ bs) \<and> length bs = len x \<and> dec (bs @ rest) = Ok (x, rest)
    \<and> (\<forall>n. n < length bs \<longrightarrow> (\<exists>e. dec (take n bs) = Err e))"
proof -
  obtain bs where "enc x [] = Ok bs" "length bs = len x" "enc x buf = Ok (buf @ bs)"
    "dec (bs @ rest) = Ok (x, rest)"
    using encodes[OF assms] by metis
  then show ?thesis
    using truncated[OF assms] by blast
qed

text \<open>Two values with the same encoding are equal, and no encoding is a proper prefix of another.\<close>

lemma prefix_free:
  assumes "wf x" and "wf y" and "enc x [] = Ok bs" and "enc y [] = Ok (bs @ cs)"
  shows "x = y \<and> cs = []"
proof -
  have "dec (bs @ cs) = Ok (x, cs)"
    using encodes[OF assms(1)] assms(3) by (metis sum.inject(2))
  moreover have "dec ((bs @ cs) @ []) = Ok (y, [])"
    using encodes[OF assms(2)] assms(4) by (metis sum.inject(2))
  ultimately show ?thesis
    by simp
qed

end

end
