(* ===== verification/Fixed.thy ===== *)
theory Fixed
  imports Wire
begin

text \<open>
  The fixed-width primitives of \<open>crates/protocol/src/primitives/fixed.rs\<close> and the 16-byte
  UUID of \<open>uuid.rs\<close>: big-endian integers behind an end-of-buffer check.
\<close>

section \<open>Big-endian words\<close>

fun be_bytes :: "nat \<Rightarrow> 'a::len word \<Rightarrow> bytes" where
  "be_bytes 0 w = []"
| "be_bytes (Suc n) w = be_bytes n (drop_bit 8 w) @ [ucast w]"

lemma be_bytes_numeral:
  "be_bytes (numeral k) w = be_bytes (pred_numeral k) (drop_bit 8 w) @ [ucast w]"
  by (simp add: numeral_eq_Suc)

definition be_word :: "bytes \<Rightarrow> 'a::len word" where
  "be_word bs = foldl (\<lambda>acc b. push_bit 8 acc + ucast b) 0 bs"

lemma length_be_bytes [simp]: "length (be_bytes n w) = n"
  by (induction n arbitrary: w) simp_all

lemma be_word_snoc: "be_word (bs @ [b]) = push_bit 8 (be_word bs) + ucast b"
  by (simp add: be_word_def)

lemma push_ucast_or:
  "push_bit 8 w + ucast (b :: u8) = (or (push_bit 8 w) (ucast b) :: 'a::len word)"
  by (rule disjunctive_add) (auto simp: bit_simps dest: bit_imp_le_length)

lemma be_word_be_bytes: "be_word (be_bytes n w) = take_bit (8 * n) (w :: 'a::len word)"
proof (induction n arbitrary: w)
  case (Suc n)
  have "be_word (be_bytes (Suc n) w) = or (push_bit 8 (take_bit (8 * n) (drop_bit 8 w))) (ucast (ucast w :: u8))"
    by (simp add: be_word_snoc Suc.IH push_ucast_or)
  also have "\<dots> = take_bit (8 * Suc n) w"
    by (rule bit_eqI) (auto simp: bit_simps)
  finally show ?case .
qed (simp add: be_word_def)

lemma be_word_inverse [simp]:
  "LENGTH('a) = 8 * n \<Longrightarrow> be_word (be_bytes n w) = (w :: 'a::len word)"
  by (simp add: be_word_be_bytes take_bit_word_eq_self)

section \<open>The primitives\<close>

definition need :: "nat \<Rightarrow> bytes \<Rightarrow> unit wire_result" where
  "need n buf =
     (if length buf < n then Err (UnexpectedEof (n - length buf)) else Ok ())"

text \<open>\<open>Buf::get_i8\<close> .. \<open>Buf::get_u64\<close> read big-endian and advance; each primitive calls \<open>need\<close> first.\<close>

definition buf_get :: "nat \<Rightarrow> 'a::len word decoder" where
  "buf_get n buf = Ok (be_word (take n buf), drop n buf)"

definition put_i8 :: "i8 \<Rightarrow> 'e writer" where
  "put_i8 v = put_slice (be_bytes 1 v)"

definition get_i8 :: "i8 decoder" where
  "get_i8 buf = and_then (need 1 buf) (\<lambda>_. buf_get 1 buf)"

definition put_i16 :: "i16 \<Rightarrow> 'e writer" where
  "put_i16 v = put_slice (be_bytes 2 v)"

definition get_i16 :: "i16 decoder" where
  "get_i16 buf = and_then (need 2 buf) (\<lambda>_. buf_get 2 buf)"

definition put_u16 :: "u16 \<Rightarrow> 'e writer" where
  "put_u16 v = put_slice (be_bytes 2 v)"

definition get_u16 :: "u16 decoder" where
  "get_u16 buf = and_then (need 2 buf) (\<lambda>_. buf_get 2 buf)"

definition put_i32 :: "i32 \<Rightarrow> 'e writer" where
  "put_i32 v = put_slice (be_bytes 4 v)"

definition get_i32 :: "i32 decoder" where
  "get_i32 buf = and_then (need 4 buf) (\<lambda>_. buf_get 4 buf)"

definition put_i64 :: "i64 \<Rightarrow> 'e writer" where
  "put_i64 v = put_slice (be_bytes 8 v)"

definition get_i64 :: "i64 decoder" where
  "get_i64 buf = and_then (need 8 buf) (\<lambda>_. buf_get 8 buf)"

definition put_u32 :: "u32 \<Rightarrow> 'e writer" where
  "put_u32 v = put_slice (be_bytes 4 v)"

definition get_u32 :: "u32 decoder" where
  "get_u32 buf = and_then (need 4 buf) (\<lambda>_. buf_get 4 buf)"

definition put_bool :: "bool \<Rightarrow> 'e writer" where
  "put_bool v = put_slice [if v then 1 else 0]"

definition get_bool :: "bool decoder" where
  "get_bool buf =
     and_then (need 1 buf) (\<lambda>_.
       read_then (buf_get 1) (\<lambda>b :: u8.
         if b = 0 then read_ok False
         else if b = 1 then read_ok True
         else read_err (InvalidValue ''boolean must be 0 or 1'')) buf)"

text \<open>An \<open>f64\<close> travels as its IEEE 754 bit pattern, so the pattern stands for the value.\<close>

type_synonym f64 = "64 word"

definition put_f64 :: "f64 \<Rightarrow> 'e writer" where
  "put_f64 v = put_slice (be_bytes 8 v)"

definition get_f64 :: "f64 decoder" where
  "get_f64 buf = and_then (need 8 buf) (\<lambda>_. buf_get 8 buf)"

section \<open>UUIDs\<close>

text \<open>\<open>Uuid\<close> is a newtype over \<open>[u8; 16]\<close>; its length is the invariant \<open>uuid_wf\<close>.\<close>

datatype Uuid = Uuid bytes

definition uuid_wf :: "Uuid \<Rightarrow> bool" where
  "uuid_wf u \<longleftrightarrow> (case u of Uuid bs \<Rightarrow> length bs = 16)"

definition Uuid_ZERO :: Uuid where
  "Uuid_ZERO = Uuid (replicate 16 0)"

definition put_uuid :: "Uuid \<Rightarrow> 'e writer" where
  "put_uuid u = (case u of Uuid bs \<Rightarrow> put_slice bs)"

definition get_uuid :: "Uuid decoder" where
  "get_uuid buf =
     (if length buf < 16 then Err (UnexpectedEof (16 - length buf))
      else Ok (Uuid (take 16 buf), drop 16 buf))"

section \<open>Contracts\<close>

text \<open>One argument serves every big-endian primitive.\<close>

lemma fixed_get_Ok:
  "and_then (need n buf) (\<lambda>_. buf_get n buf) = Ok (x, rest)
   \<longleftrightarrow> n \<le> length buf \<and> x = be_word (take n buf) \<and> rest = drop n buf"
  by (auto simp: need_def buf_get_def)

lemma fixed_codec:
  assumes "LENGTH('a::len) = 8 * n" and "0 < n"
    and put: "\<And>v. put v = put_slice (be_bytes n (v :: 'a word))"
    and get: "\<And>buf. get buf = and_then (need n buf) (\<lambda>_. buf_get n buf)"
  shows "wire_codec put get (\<lambda>_. n) (\<lambda>_. True)"
proof
  fix x :: "'a word"
  show "carries (put x) get n x"
  proof (rule carriesI)
    show "produces (put x) (be_bytes n x)"
      by (simp add: produces_def put put_slice_def)
    show "reads get (be_bytes n x) x"
      using assms(1) by (simp add: reads_def get fixed_get_Ok)
  qed simp
next
  show "yields 1 get (\<lambda>_. True)"
  proof (rule yields_weaken)
    show "yields n get (\<lambda>_. True)"
      by (rule yields_dropI) (simp add: get fixed_get_Ok)
  qed (use assms(2) in simp)
next
  show "extends_input get"
    by (auto simp: extends_input_def get fixed_get_Ok)
qed

interpretation i8: wire_codec put_i8 get_i8 "\<lambda>_. 1" "\<lambda>_. True"
  by (rule fixed_codec) (simp_all add: put_i8_def get_i8_def)

interpretation i16: wire_codec put_i16 get_i16 "\<lambda>_. 2" "\<lambda>_. True"
  by (rule fixed_codec) (simp_all add: put_i16_def get_i16_def)

interpretation u16: wire_codec put_u16 get_u16 "\<lambda>_. 2" "\<lambda>_. True"
  by (rule fixed_codec) (simp_all add: put_u16_def get_u16_def)

interpretation i32: wire_codec put_i32 get_i32 "\<lambda>_. 4" "\<lambda>_. True"
  by (rule fixed_codec) (simp_all add: put_i32_def get_i32_def)

interpretation i64: wire_codec put_i64 get_i64 "\<lambda>_. 8" "\<lambda>_. True"
  by (rule fixed_codec) (simp_all add: put_i64_def get_i64_def)

interpretation u32: wire_codec put_u32 get_u32 "\<lambda>_. 4" "\<lambda>_. True"
  by (rule fixed_codec) (simp_all add: put_u32_def get_u32_def)

interpretation f64: wire_codec put_f64 get_f64 "\<lambda>_. 8" "\<lambda>_. True"
  by (rule fixed_codec) (simp_all add: put_f64_def get_f64_def)

lemma get_bool_Ok:
  "get_bool buf = Ok (x, rest) \<longleftrightarrow> buf = (if x then 1 else 0) # rest"
  by (cases buf)
    (auto simp: get_bool_def need_def read_then_def buf_get_def be_word_def read_ok_def
      read_err_def split: if_splits)

interpretation bool: wire_codec put_bool get_bool "\<lambda>_. 1" "\<lambda>_. True"
proof
  fix x :: bool
  show "carries (put_bool x) get_bool 1 x"
    by (rule carriesI[of _ "[if x then 1 else 0]"])
      (simp_all add: produces_def put_bool_def put_slice_def reads_def get_bool_Ok)
qed (auto simp: yields_def extends_input_def get_bool_Ok)

lemma get_uuid_Ok:
  "get_uuid buf = Ok (u, rest)
   \<longleftrightarrow> 16 \<le> length buf \<and> u = Uuid (take 16 buf) \<and> rest = drop 16 buf"
  by (auto simp: get_uuid_def)

interpretation uuid: wire_codec put_uuid get_uuid "\<lambda>_. 16" uuid_wf
proof
  fix u assume "uuid_wf u"
  then obtain bs where u: "u = Uuid bs" "length bs = 16"
    by (cases u) (simp add: uuid_wf_def)
  show "carries (put_uuid u) get_uuid 16 u"
    by (rule carriesI[of _ bs])
      (simp_all add: u produces_def put_uuid_def put_slice_def reads_def get_uuid_Ok)
next
  show "yields 1 get_uuid uuid_wf"
  proof (rule yields_weaken)
    show "yields 16 get_uuid uuid_wf"
      by (rule yields_dropI) (auto simp: get_uuid_Ok uuid_wf_def)
  qed simp
next
  show "extends_input get_uuid"
    by (auto simp: extends_input_def get_uuid_Ok)
qed

end
