(* ===== verification/Varint.thy ===== *)
theory Varint
  imports Fixed
begin

unbundle bit_operations_syntax

text \<open>
  The variable-length integers of \<open>crates/protocol/src/primitives/varint.rs\<close>: unsigned
  LEB128 in 32 and 64 bits, the zigzag forms built on it, and the length predictions.
  The 32-bit and the 64-bit loop of the source have the same text; the model writes the
  loop once, over the word width.
\<close>

section \<open>The loops\<close>

definition MAX_VARINT_BYTES :: nat where
  "MAX_VARINT_BYTES = 5"

definition MAX_VARLONG_BYTES :: nat where
  "MAX_VARLONG_BYTES = 10"

lemma drop_bit_7_less: "w \<noteq> 0 \<Longrightarrow> unat (drop_bit 7 (w :: 'a::len word)) < unat w"
  by (subst unat_drop_bit_eq) (simp add: drop_bit_eq_div unat_gt_0)

function put_uv_loop :: "'a::len word \<Rightarrow> bytes \<Rightarrow> bytes" where
  "put_uv_loop v buf =
     (if v AND NOT 0x7F \<noteq> 0
      then put_uv_loop (drop_bit 7 v) (buf @ [ucast (v AND 0x7F) OR 0x80])
      else buf @ [ucast v])"
  by pat_completeness auto
termination
  by (relation "measure (\<lambda>(v, buf). unat v)") (auto intro!: drop_bit_7_less)

declare put_uv_loop.simps [simp del]

fun get_uv_loop :: "nat \<Rightarrow> nat \<Rightarrow> 'a::len word \<Rightarrow> nat \<Rightarrow> 'a word decoder" where
  "get_uv_loop 0 mx acc shift buf = Err (VarintTooLong mx)"
| "get_uv_loop (Suc k) mx acc shift [] = Err (UnexpectedEof 1)"
| "get_uv_loop (Suc k) mx acc shift (b # buf) =
     (let acc' = acc OR push_bit shift (ucast (b AND 0x7F)) in
      if b AND 0x80 = 0 then Ok (acc', buf)
      else get_uv_loop k mx acc' (shift + 7) buf)"

section \<open>The primitives\<close>

definition put_uvarint :: "u32 \<Rightarrow> 'e writer" where
  "put_uvarint v buf = Ok (put_uv_loop v buf)"

definition get_uvarint :: "u32 decoder" where
  "get_uvarint = get_uv_loop MAX_VARINT_BYTES MAX_VARINT_BYTES 0 0"

definition put_uvarlong :: "u64 \<Rightarrow> 'e writer" where
  "put_uvarlong v buf = Ok (put_uv_loop v buf)"

definition get_uvarlong :: "u64 decoder" where
  "get_uvarlong = get_uv_loop MAX_VARLONG_BYTES MAX_VARLONG_BYTES 0 0"

text \<open>\<open>BITS - leading_zeros\<close>, the position above the highest set bit.\<close>

fun bit_width :: "nat \<Rightarrow> nat" where
  "bit_width n = (if n = 0 then 0 else Suc (bit_width (n div 2)))"

declare bit_width.simps [simp del]

definition leading_zeros :: "'a::len word \<Rightarrow> nat" where
  "leading_zeros w = LENGTH('a) - bit_width (unat w)"

definition div_ceil :: "nat \<Rightarrow> nat \<Rightarrow> nat" where
  "div_ceil a b = (a + b - 1) div b"

definition uvarint_len :: "u32 \<Rightarrow> nat" where
  "uvarint_len v = (if v < 0x80 then 1 else div_ceil (32 - leading_zeros v) 7)"

definition uvarlong_len :: "u64 \<Rightarrow> nat" where
  "uvarlong_len v = (if v < 0x80 then 1 else div_ceil (64 - leading_zeros v) 7)"

definition compact_length :: "nat \<Rightarrow> string \<Rightarrow> u32 wire_result" where
  "compact_length n what =
     (if n + 1 \<le> usize_max \<and> n + 1 < 2 ^ 32 then Ok (of_nat (n + 1))
      else Err (LengthOverflow what n))"

definition usize_uvarint_len :: "nat \<Rightarrow> nat" where
  "usize_uvarint_len v =
     (if v < 0x80 then 1 else div_ceil (64 - leading_zeros (of_nat v :: u64)) 7)"

text \<open>The zigzag map: \<open>(v << 1) ^ (v >> (BITS - 1))\<close> with an arithmetic right shift.\<close>

definition zigzag :: "'a::len word \<Rightarrow> 'a word" where
  "zigzag v = push_bit 1 v XOR signed_drop_bit (LENGTH('a) - 1) v"

definition unzigzag :: "'a::len word \<Rightarrow> 'a word" where
  "unzigzag zz = drop_bit 1 zz XOR - (zz AND 1)"

definition put_varint :: "i32 \<Rightarrow> 'e writer" where
  "put_varint v = put_uvarint (zigzag v)"

definition get_varint :: "i32 decoder" where
  "get_varint = read_then get_uvarint (\<lambda>zz. read_ok (unzigzag zz))"

definition varint_len :: "i32 \<Rightarrow> nat" where
  "varint_len v = uvarint_len (zigzag v)"

definition put_varlong :: "i64 \<Rightarrow> 'e writer" where
  "put_varlong v = put_uvarlong (zigzag v)"

definition get_varlong :: "i64 decoder" where
  "get_varlong = read_then get_uvarlong (\<lambda>zz. read_ok (unzigzag zz))"

definition varlong_len :: "i64 \<Rightarrow> nat" where
  "varlong_len v = uvarlong_len (zigzag v)"

section \<open>The bytes the loop writes\<close>

text \<open>The loop appends \<open>uv_bytes v\<close>, most significant group last.\<close>

definition uv_bytes :: "'a::len word \<Rightarrow> bytes" where
  "uv_bytes v = put_uv_loop v []"

lemma put_uv_loop_append: "put_uv_loop v (buf @ cs) = buf @ put_uv_loop v cs"
proof (induction v cs arbitrary: buf rule: put_uv_loop.induct)
  case (1 v cs)
  show ?case
  proof (cases "v AND NOT 0x7F \<noteq> 0")
    case True
    then show ?thesis
      using "1.IH"[OF True, of buf]
      by (simp add: put_uv_loop.simps[of v "buf @ cs"] put_uv_loop.simps[of v cs])
  next
    case False
    then show ?thesis
      by (simp add: put_uv_loop.simps[of v "buf @ cs"] put_uv_loop.simps[of v cs])
  qed
qed

lemma put_uv_loop_eq: "put_uv_loop v buf = buf @ uv_bytes v"
  using put_uv_loop_append[of v buf "[]"] by (simp add: uv_bytes_def)

lemma uv_bytes_rec:
  "uv_bytes v =
     (if v AND NOT 0x7F \<noteq> 0 then (ucast (v AND 0x7F) OR 0x80) # uv_bytes (drop_bit 7 v)
      else [ucast v])"
  by (subst uv_bytes_def, subst put_uv_loop.simps) (simp add: put_uv_loop_eq)

lemma mask_7: "(0x7F :: 'a::len word) = mask 7"
  by (simp add: mask_eq_exp_minus_1)

lemma high_bits_zero:
  "v AND NOT (0x7F :: 'a::len word) = 0 \<longleftrightarrow> (\<forall>k. bit v k \<longrightarrow> k < 7)"
  unfolding mask_7 by (auto simp: bit_eq_iff bit_simps dest: bit_imp_le_length)

lemma high_bits_zero_unat: "v AND NOT (0x7F :: 'a::len word) = 0 \<longleftrightarrow> unat v < 128"
proof -
  have "v AND NOT (0x7F :: 'a word) = 0 \<longleftrightarrow> take_bit 7 v = v"
    unfolding high_bits_zero by (auto simp: bit_eq_iff bit_simps dest: bit_imp_le_length)
  also have "\<dots> \<longleftrightarrow> unat (take_bit 7 v) = unat v"
    by (simp only: word_unat_eq_iff)
  also have "\<dots> \<longleftrightarrow> unat v < 128"
    by (simp add: unsigned_take_bit_eq take_bit_nat_eq_self_iff)
  finally show ?thesis .
qed

lemma bit_128_int: "bit (128 :: int) k \<longleftrightarrow> k = 7"
proof -
  have "(128 :: int) = 2 ^ 7"
    by simp
  then show ?thesis
    by (simp only: bit_exp_iff) simp
qed

lemma bit_0x80: "bit (0x80 :: u8) k \<longleftrightarrow> k = 7"
  by (auto simp: bit_numeral_word_iff bit_128_int)

lemma more_byte_flag: "(ucast w OR 0x80) AND 0x80 \<noteq> (0 :: u8)"
proof -
  have "bit ((ucast w OR 0x80) AND 0x80 :: u8) 7"
    by (simp add: bit_and_iff bit_or_iff bit_0x80)
  then show ?thesis by auto
qed

lemma more_byte_payload:
  "8 \<le> LENGTH('a::len) \<Longrightarrow>
   ucast ((ucast (v AND 0x7F) OR 0x80) AND (0x7F :: u8)) = take_bit 7 (v :: 'a word)"
  unfolding mask_7 by (rule bit_eqI) (auto simp: bit_simps bit_128_int)

lemma last_byte_flag:
  "v AND NOT (0x7F :: 'a::len word) = 0 \<Longrightarrow> ucast v AND (0x80 :: u8) = 0"
  unfolding high_bits_zero by (intro bit_eqI) (auto simp: bit_simps bit_128_int)

lemma last_byte_payload:
  assumes "v AND NOT (0x7F :: 'a::len word) = 0"
  shows "ucast (ucast v AND (0x7F :: u8)) = v"
proof -
  have "bit v k \<Longrightarrow> k < 7" for k
    using assms unfolding high_bits_zero by blast
  then show ?thesis
    unfolding mask_7 by (auto intro!: bit_eqI simp: bit_simps) fastforce+
qed

lemma join_groups:
  "(acc OR push_bit s (take_bit 7 v)) OR push_bit (s + 7) (drop_bit 7 v)
   = acc OR push_bit s (v :: 'a::len word)"
proof (rule bit_word_eqI)
  fix n assume "n < LENGTH('a)"
  show "bit ((acc OR push_bit s (take_bit 7 v)) OR push_bit (s + 7) (drop_bit 7 v)) n
        = bit (acc OR push_bit s v) n"
  proof (cases "s + 7 \<le> n")
    case True
    then obtain j where "n = s + 7 + j"
      using le_Suc_ex by blast
    then show ?thesis
      by (auto simp: bit_simps)
  qed (auto simp: bit_simps)
qed

text \<open>The reader undoes the writer, provided it has an iteration for every byte.\<close>

lemma get_put_uv_loop:
  assumes "8 \<le> LENGTH('a::len)" and "length (uv_bytes v) \<le> k"
  shows "get_uv_loop k mx acc s (uv_bytes (v :: 'a word) @ rest) = Ok (acc OR push_bit s v, rest)"
  using assms(2)
proof (induction "unat v" arbitrary: v k acc s rule: less_induct)
  case less
  show ?case
  proof (cases "v AND NOT (0x7F :: 'a word) = 0")
    case True
    have v: "uv_bytes v = [ucast v]"
      using True by (subst uv_bytes_rec) simp
    then obtain k' where "k = Suc k'"
      using less.prems by (cases k) simp_all
    then show ?thesis
      using True by (simp add: v Let_def last_byte_flag last_byte_payload)
  next
    case False
    let ?b = "ucast (v AND 0x7F) OR 0x80 :: u8"
    have v: "uv_bytes v = ?b # uv_bytes (drop_bit 7 v)"
      using False by (subst uv_bytes_rec) simp
    then obtain k' where k: "k = Suc k'" "length (uv_bytes (drop_bit 7 v)) \<le> k'"
      using less.prems by (cases k) simp_all
    have "unat (drop_bit 7 v) < unat v"
      using False by (intro drop_bit_7_less) auto
    note IH = less.hyps[OF this k(2)]
    show ?thesis
      by (simp add: v k(1) Let_def more_byte_flag more_byte_payload[OF assms(1)] IH join_groups
          del: unsigned_or_eq)
  qed
qed

lemma get_uv_loop_extends: "extends_input (get_uv_loop k mx acc s)"
  unfolding extends_input_def
proof (intro allI impI)
  fix buf x rest more
  assume "get_uv_loop k mx acc s buf = Ok (x, rest)"
  then show "get_uv_loop k mx acc s (buf @ more) = Ok (x, rest @ more)"
    by (induction k mx acc s buf rule: get_uv_loop.induct) (auto simp: Let_def split: if_splits)
qed

lemma get_uv_loop_yields: "yields 1 (get_uv_loop k mx acc s) (\<lambda>_. True)"
  unfolding yields_def
proof (intro allI impI)
  fix buf x rest
  assume "get_uv_loop k mx acc s buf = Ok (x, rest)"
  then show "True \<and> (\<exists>used. buf = used @ rest \<and> 1 \<le> length used)"
  proof (induction k mx acc s buf rule: get_uv_loop.induct)
    case (3 k mx acc s b buf)
    show ?case
    proof (cases "b AND 0x80 = 0")
      case True
      then show ?thesis
        using "3.prems" by (auto simp: Let_def)
    next
      case False
      then obtain used where "buf = used @ rest"
        using 3 by (auto simp: Let_def)
      then show ?thesis
        by (auto intro!: exI[of _ "b # used"])
    qed
  qed simp_all
qed

section \<open>Lengths\<close>

lemma bit_width_0 [simp]: "bit_width 0 = 0"
  by (simp add: bit_width.simps)

lemma bit_width_pos: "0 < n \<Longrightarrow> bit_width n = Suc (bit_width (n div 2))"
  by (simp add: bit_width.simps[of n])

lemma bit_width_le_iff: "bit_width n \<le> k \<longleftrightarrow> n < 2 ^ k"
proof (induction n arbitrary: k rule: bit_width.induct)
  case (1 n)
  show ?case
  proof (cases "n = 0")
    case False
    then have "bit_width n = Suc (bit_width (n div 2))"
      by (simp add: bit_width_pos)
    then show ?thesis
      using "1.IH"[OF False, of "k - 1"] False by (cases k) (auto simp: less_mult_imp_div_less)
  qed simp
qed

lemma bit_width_shift:
  assumes "64 \<le> n"
  shows "bit_width n = 7 + bit_width (n div 128)"
proof -
  have "bit_width n \<le> k \<longleftrightarrow> 7 + bit_width (n div 128) \<le> k" for k
  proof (cases "k < 7")
    case True
    then have "(2 :: nat) ^ k \<le> 2 ^ 6"
      by (intro power_increasing) simp_all
    with assms True show ?thesis
      by (simp add: bit_width_le_iff)
  next
    case False
    then obtain j where "k = 7 + j"
      using le_Suc_ex by (metis not_less)
    then show ?thesis
      by (simp add: bit_width_le_iff div_less_iff_less_mult power_add mult.commute)
  qed
  then show ?thesis
    by (metis order_antisym order_refl)
qed

lemma bit_width_unat: "bit_width (unat (w :: 'a::len word)) \<le> LENGTH('a)"
  by (simp add: bit_width_le_iff)

lemma width_of_leading_zeros: "LENGTH('a) - leading_zeros (w :: 'a::len word) = bit_width (unat w)"
  using bit_width_unat[of w] by (simp add: leading_zeros_def)

lemma length_uv_bytes:
  "length (uv_bytes (v :: 'a::len word)) = (if unat v < 128 then 1 else div_ceil (bit_width (unat v)) 7)"
proof (induction "unat v" arbitrary: v rule: less_induct)
  case less
  show ?case
  proof (cases "unat v < 128")
    case True
    then have "v AND NOT 0x7F = 0"
      by (simp only: high_bits_zero_unat)
    then show ?thesis
      using True by (subst uv_bytes_rec) simp
  next
    case False
    then have v: "v AND NOT 0x7F \<noteq> 0"
      unfolding high_bits_zero_unat .
    let ?w = "drop_bit 7 v"
    have w: "unat ?w = unat v div 128"
      by (subst unat_drop_bit_eq) (simp add: drop_bit_eq_div)
    have "unat ?w < unat v"
      using v by (intro drop_bit_7_less) auto
    then have "length (uv_bytes v) = Suc (if unat ?w < 128 then 1 else div_ceil (bit_width (unat ?w)) 7)"
      using v less.hyps[of ?w] by (subst uv_bytes_rec) simp
    also have "(if unat ?w < 128 then 1 else div_ceil (bit_width (unat ?w)) 7) = div_ceil (bit_width (unat ?w)) 7"
    proof (cases "unat ?w < 128")
      case True
      then have "bit_width (unat ?w) \<le> 7"
        by (simp add: bit_width_le_iff)
      moreover have "\<not> bit_width (unat ?w) \<le> 0"
        using False unfolding bit_width_le_iff w by simp
      ultimately show ?thesis
        using True by (simp add: div_ceil_def)
    qed simp
    also have "Suc (div_ceil (bit_width (unat ?w)) 7) = div_ceil (bit_width (unat v)) 7"
      using False by (simp add: w bit_width_shift[of "unat v"] div_ceil_def)
    finally show ?thesis
      using False by simp
  qed
qed

lemma uvarint_len_eq: "uvarint_len v = length (uv_bytes v)"
  using width_of_leading_zeros[of v]
  by (simp add: uvarint_len_def length_uv_bytes word_less_nat_alt)

lemma uvarlong_len_eq: "uvarlong_len v = length (uv_bytes v)"
  using width_of_leading_zeros[of v]
  by (simp add: uvarlong_len_def length_uv_bytes word_less_nat_alt)

lemma uvarint_len_max: "uvarint_len v \<le> MAX_VARINT_BYTES"
  using bit_width_unat[of v]
  by (simp add: uvarint_len_eq length_uv_bytes MAX_VARINT_BYTES_def div_ceil_def) arith

lemma uvarlong_len_max: "uvarlong_len v \<le> MAX_VARLONG_BYTES"
  using bit_width_unat[of v]
  by (simp add: uvarlong_len_eq length_uv_bytes MAX_VARLONG_BYTES_def div_ceil_def) arith

lemma uvarint_len_pos: "0 < uvarint_len v"
  by (simp add: uvarint_len_eq uv_bytes_rec[of v])

lemma usize_uvarint_len_eq:
  assumes "n < 2 ^ 32"
  shows "usize_uvarint_len n = uvarint_len (of_nat n)"
proof -
  have n: "unat (of_nat n :: u32) = n" "unat (of_nat n :: u64) = n"
    using assms by (simp_all add: unat_of_nat take_bit_nat_eq_self)
  show ?thesis
    using width_of_leading_zeros[of "of_nat n :: u64"] width_of_leading_zeros[of "of_nat n :: u32"]
    by (simp add: usize_uvarint_len_def uvarint_len_def n word_less_nat_alt)
qed

section \<open>Zigzag\<close>

lemma minus_and_1: "- (w AND 1) = (if bit w 0 then - 1 else (0 :: 'a::len word))"
  by (simp add: and_one_eq bit_0 mod_2_eq_odd)

lemma bit_zigzag:
  fixes v :: "'a::len word"
  assumes "k < LENGTH('a)"
  shows "bit (zigzag v) k \<longleftrightarrow> ((0 < k \<and> bit v (k - 1)) \<noteq> bit v (LENGTH('a) - 1))"
proof -
  have "bit (signed_drop_bit (LENGTH('a) - 1) v) k \<longleftrightarrow> bit v (LENGTH('a) - 1)"
    using assms by (cases k) (auto simp: bit_signed_drop_bit_iff)
  then show ?thesis
    unfolding zigzag_def bit_xor_iff bit_push_bit_iff using assms by (auto simp: Suc_le_eq)
qed

lemma bit_unzigzag:
  fixes w :: "'a::len word"
  assumes "k < LENGTH('a)"
  shows "bit (unzigzag w) k \<longleftrightarrow> (bit w (Suc k) \<noteq> bit w 0)"
proof -
  have "bit (- (w AND 1)) k \<longleftrightarrow> bit w 0"
    using assms by (simp add: minus_and_1)
  then show ?thesis
    unfolding unzigzag_def bit_xor_iff bit_drop_bit_eq by (simp add: comp_def)
qed

lemma unzigzag_zigzag [simp]: "unzigzag (zigzag v) = v"
proof (rule bit_word_eqI)
  fix n assume n: "n < LENGTH('a)"
  show "bit (unzigzag (zigzag v)) n = bit v n"
  proof (cases "Suc n < LENGTH('a)")
    case True
    then show ?thesis
      by (auto simp: bit_unzigzag bit_zigzag)
  next
    case False
    then have "n = LENGTH('a) - 1" and "\<not> bit (zigzag v) (Suc n)"
      using n by (auto dest: bit_imp_le_length)
    then show ?thesis
      using n by (simp add: bit_unzigzag bit_zigzag)
  qed
qed

lemma zigzag_unzigzag [simp]: "zigzag (unzigzag w) = w"
proof (rule bit_word_eqI)
  fix n assume n: "n < LENGTH('a)"
  have "\<not> bit w (LENGTH('a))"
    by (auto dest: bit_imp_le_length)
  then have "bit (unzigzag w) (LENGTH('a) - 1) \<longleftrightarrow> bit w 0"
    by (simp add: bit_unzigzag)
  then show "bit (zigzag (unzigzag w)) n = bit w n"
    using n by (cases n) (auto simp: bit_zigzag bit_unzigzag)
qed

lemma signed_drop_bit_all:
  "signed_drop_bit (LENGTH('a) - 1) (v :: 'a::len word) = (if sint v < 0 then - 1 else 0)"
proof -
  have "bit (signed_drop_bit (LENGTH('a) - 1) v) k \<longleftrightarrow> sint v < 0" if "k < LENGTH('a)" for k
    using that bit_last_iff[of v] by (cases k) (auto simp: bit_signed_drop_bit_iff)
  then show ?thesis
    by (intro bit_word_eqI) (auto simp: bit_minus_1_iff)
qed

lemma zigzag_value:
  "uint (zigzag (v :: 'a::len word)) = (if 0 \<le> sint v then 2 * sint v else - 2 * sint v - 1)"
proof -
  let ?x = "if 0 \<le> sint v then 2 * sint v else - 2 * sint v - 1"
  have half: "2 * (2 :: int) ^ (LENGTH('a) - 1) = 2 ^ LENGTH('a)"
    by (metis One_nat_def Suc_diff_Suc len_gt_0 diff_zero power_Suc)
  have "push_bit 1 v = (2 * of_int (sint v) :: 'a word)"
    by simp
  then have "zigzag v = of_int ?x"
    unfolding zigzag_def signed_drop_bit_all by (auto simp: not_eq_complement simp flip: not_diff_distrib)
  moreover have "0 \<le> ?x" "?x < 2 ^ LENGTH('a)"
    using sint_ge[of v] sint_lt[of v] half by auto
  ultimately show ?thesis
    by (simp add: take_bit_int_eq_self unsigned_of_int)
qed

lemma get_uv_loop_too_long:
  "\<forall>b \<in> set bs. b AND 0x80 \<noteq> 0 \<Longrightarrow>
   get_uv_loop (length bs) mx acc shift (bs @ rest) = Err (VarintTooLong mx)"
  by (induction bs arbitrary: acc shift) (simp_all add: Let_def)

section \<open>Contracts\<close>

lemma uv_codec_carries:
  assumes "8 \<le> LENGTH('a::len)" and "length (uv_bytes v) \<le> k"
    and "\<And>buf. put buf = Ok (put_uv_loop (v :: 'a word) buf)"
  shows "carries put (get_uv_loop k mx 0 0) (length (uv_bytes v)) v"
proof (rule carriesI)
  show "produces put (uv_bytes v)"
    by (simp add: produces_def assms(3) put_uv_loop_eq)
  show "reads (get_uv_loop k mx 0 0) (uv_bytes v) v"
    using get_put_uv_loop[OF assms(1,2), of mx 0 0] by (simp add: reads_def)
qed simp

interpretation uvarint: wire_codec put_uvarint get_uvarint uvarint_len "\<lambda>_. True"
proof
  fix v :: u32
  show "carries (put_uvarint v) get_uvarint (uvarint_len v) v"
    unfolding get_uvarint_def uvarint_len_eq
    using uvarint_len_max[of v] by (intro uv_codec_carries) (simp_all add: put_uvarint_def uvarint_len_eq)
qed (simp_all only: get_uvarint_def get_uv_loop_yields get_uv_loop_extends)

lemma put_uvarint_eq: "put_uvarint v buf = Ok (buf @ uv_bytes v)"
  by (simp add: put_uvarint_def put_uv_loop_eq)

lemma get_uvarint_uv_bytes [simp]: "get_uvarint (uv_bytes v @ rest) = Ok (v, rest)"
  unfolding get_uvarint_def
  using get_put_uv_loop[of v MAX_VARINT_BYTES MAX_VARINT_BYTES 0 0 rest] uvarint_len_max[of v]
  by (simp add: uvarint_len_eq)

interpretation uvarlong: wire_codec put_uvarlong get_uvarlong uvarlong_len "\<lambda>_. True"
proof
  fix v :: u64
  show "carries (put_uvarlong v) get_uvarlong (uvarlong_len v) v"
    unfolding get_uvarlong_def uvarlong_len_eq
    using uvarlong_len_max[of v] by (intro uv_codec_carries) (simp_all add: put_uvarlong_def uvarlong_len_eq)
qed (simp_all only: get_uvarlong_def get_uv_loop_yields get_uv_loop_extends)

text \<open>The zigzag forms inherit the contract through the bijection.\<close>

lemma zigzag_carries:
  assumes "carries w r n (zigzag v)"
  shows "carries w (read_then r (\<lambda>zz. read_ok (unzigzag zz))) n v"
proof -
  obtain bs where "produces w bs" "reads r bs (zigzag v)" "length bs = n"
    using assms by (rule carriesE)
  then show ?thesis
    by (intro carriesI[of _ bs]) (simp_all add: reads_def read_then_def read_ok_def)
qed

lemma zigzag_yields:
  "yields 1 r (\<lambda>_. True) \<Longrightarrow> yields 1 (read_then r (\<lambda>zz. read_ok (unzigzag zz))) (\<lambda>_. True)"
  using yields_then[of 1 r "\<lambda>_. True" 0 "\<lambda>zz. read_ok (unzigzag zz)" "\<lambda>_. True"]
  by (simp add: yields_ok)

interpretation varint: wire_codec put_varint get_varint varint_len "\<lambda>_. True"
proof
  fix v :: i32
  show "carries (put_varint v) get_varint (varint_len v) v"
    unfolding put_varint_def get_varint_def varint_len_def
    by (intro zigzag_carries uvarint.codec_carries) simp
next
  show "yields 1 get_varint (\<lambda>_. True)"
    unfolding get_varint_def by (intro zigzag_yields uvarint.codec_yields)
next
  show "extends_input get_varint"
    unfolding get_varint_def by (intro extends_rules uvarint.codec_extends)
qed

interpretation varlong: wire_codec put_varlong get_varlong varlong_len "\<lambda>_. True"
proof
  fix v :: i64
  show "carries (put_varlong v) get_varlong (varlong_len v) v"
    unfolding put_varlong_def get_varlong_def varlong_len_def
    by (intro zigzag_carries uvarlong.codec_carries) simp
next
  show "yields 1 get_varlong (\<lambda>_. True)"
    unfolding get_varlong_def by (intro zigzag_yields uvarlong.codec_yields)
next
  show "extends_input get_varlong"
    unfolding get_varlong_def by (intro extends_rules uvarlong.codec_extends)
qed

section \<open>Properties\<close>

text \<open>
  C25: every 32-bit and every 64-bit value is written as a varint of exactly the predicted number
  of bytes, between 1 and 5 (10 for 64 bits), and reading those bytes gives the value back and
  leaves the rest of the input.
\<close>

theorem varint_round_trip:
  "(\<exists>bs. (put_uvarint v :: encoder) buf = Ok (buf @ bs) \<and> length bs = uvarint_len v \<and> 1 \<le> length bs
      \<and> length bs \<le> MAX_VARINT_BYTES \<and> get_uvarint (bs @ rest) = Ok (v, rest))
   \<and> (\<exists>bs. (put_uvarlong w :: encoder) buf = Ok (buf @ bs) \<and> length bs = uvarlong_len w \<and> 1 \<le> length bs
      \<and> length bs \<le> MAX_VARLONG_BYTES \<and> get_uvarlong (bs @ rest) = Ok (w, rest))"
  using uvarint.round_trip[of v buf rest] uvarlong.round_trip[of w buf rest]
    uvarint.len_pos[of v] uvarlong.len_pos[of w] uvarint_len_max[of v] uvarlong_len_max[of w]
  by (metis One_nat_def Suc_leI)

text \<open>
  C37: zigzag maps a signed value to \<open>2 * n\<close> or \<open>- 2 * n - 1\<close>, so values of small magnitude
  have short encodings, and the signed varints read back what was written.
\<close>

theorem zigzag_varint:
  "uint (zigzag (v :: i32)) = (if 0 \<le> sint v then 2 * sint v else - 2 * sint v - 1)
   \<and> (\<exists>bs. (put_varint v :: encoder) buf = Ok (buf @ bs) \<and> length bs = varint_len v
      \<and> get_varint (bs @ rest) = Ok (v, rest))"
  using zigzag_value[of v] varint.round_trip[of v buf rest] by simp

text \<open>
  Five bytes that all announce a continuation are refused as too long, whatever follows, so
  a varint never makes the reader consume more than five bytes.
\<close>

theorem varint_too_long:
  assumes "length bs = MAX_VARINT_BYTES" and "\<forall>b \<in> set bs. b AND 0x80 \<noteq> 0"
  shows "get_uvarint (bs @ rest) = Err (VarintTooLong MAX_VARINT_BYTES)"
  using get_uv_loop_too_long[OF assms(2)] assms(1) by (simp add: get_uvarint_def)

theorem varint_too_long_witness:
  "get_uvarint ([0x80, 0xFF, 0x81, 0x80, 0x80] @ [1]) = Err (VarintTooLong MAX_VARINT_BYTES)"
  by (rule varint_too_long) (simp_all add: MAX_VARINT_BYTES_def)

end
