(* ===== verification/StringBytes.thy ===== *)
theory StringBytes
  imports Varint
begin

text \<open>
  Strings and byte strings: \<open>crates/protocol/src/primitives/string_bytes.rs\<close> (the owned
  decoders) and \<open>string_bytes_borrowed.rs\<close> (the zero-copy decoders). A borrowed slice
  and an owned copy hold the same bytes, so both flavours return byte lists here.
\<close>

section \<open>Shared reads\<close>

text \<open>The remaining-bytes check and the copy that follow every length prefix.\<close>

definition take_bytes :: "nat \<Rightarrow> bytes decoder" where
  "take_bytes n buf =
     (if length buf < n then Err (UnexpectedEof (n - length buf))
      else Ok (take n buf, drop n buf))"

text \<open>\<open>String::from_utf8\<close> with its error mapped into \<open>ProtocolError::InvalidUtf8\<close>.\<close>

definition string_from :: "bytes \<Rightarrow> bytes decoder" where
  "string_from v =
     (case from_utf8 0 v of Err e \<Rightarrow> read_err (InvalidUtf8 e) | Ok _ \<Rightarrow> read_ok v)"

definition ok_or :: "'a option \<Rightarrow> ProtocolError \<Rightarrow> 'a decoder" where
  "ok_or opt e = (case opt of None \<Rightarrow> read_err e | Some x \<Rightarrow> read_ok x)"

section \<open>STRING\<close>

definition put_string :: "bytes \<Rightarrow> encoder" where
  "put_string s =
     (case int_try_from (length s) of
        None \<Rightarrow> (\<lambda>buf. Err (LengthOverflow ''STRING'' (length s)))
      | Some len \<Rightarrow> write_all [put_i16 len, put_slice s])"

definition put_nullable_string :: "bytes option \<Rightarrow> encoder" where
  "put_nullable_string s = (case s of None \<Rightarrow> put_i16 (- 1) | Some s \<Rightarrow> put_string s)"

definition get_nullable_string_owned :: "bytes option decoder" where
  "get_nullable_string_owned =
     read_then get_i16 (\<lambda>l.
       case usize_try_from l of
         None \<Rightarrow> read_ok None
       | Some n \<Rightarrow> read_then (take_bytes n) (\<lambda>v. read_then (string_from v) (\<lambda>s. read_ok (Some s))))"

definition get_string_owned :: "bytes decoder" where
  "get_string_owned =
     read_then get_nullable_string_owned (\<lambda>o'.
       ok_or o' (InvalidValue ''non-nullable STRING was null''))"

definition string_len :: "bytes \<Rightarrow> nat" where
  "string_len s = 2 + length s"

definition nullable_string_len :: "bytes option \<Rightarrow> nat" where
  "nullable_string_len s = 2 + (case s of None \<Rightarrow> 0 | Some s \<Rightarrow> length s)"

section \<open>COMPACT\_STRING\<close>

definition put_compact_string :: "bytes \<Rightarrow> encoder" where
  "put_compact_string s buf =
     and_then (compact_length (length s) ''COMPACT_STRING'') (\<lambda>n.
       write_all [put_uvarint n, put_slice s] buf)"

definition put_compact_nullable_string :: "bytes option \<Rightarrow> encoder" where
  "put_compact_nullable_string s =
     (case s of None \<Rightarrow> put_uvarint 0 | Some s \<Rightarrow> put_compact_string s)"

definition get_compact_nullable_string_owned :: "bytes option decoder" where
  "get_compact_nullable_string_owned =
     read_then get_uvarint (\<lambda>raw.
       if raw = 0 then read_ok None
       else read_then (take_bytes (unat (raw - 1))) (\<lambda>v.
              read_then (string_from v) (\<lambda>s. read_ok (Some s))))"

definition get_compact_string_owned :: "bytes decoder" where
  "get_compact_string_owned =
     read_then get_compact_nullable_string_owned (\<lambda>o'.
       ok_or o' (InvalidValue ''non-nullable COMPACT_STRING was null''))"

definition compact_string_len :: "bytes \<Rightarrow> nat" where
  "compact_string_len s =
     usize_saturating_add (usize_uvarint_len (usize_saturating_add (length s) 1)) (length s)"

definition compact_nullable_string_len :: "bytes option \<Rightarrow> nat" where
  "compact_nullable_string_len s =
     (case s of None \<Rightarrow> uvarint_len 0 | Some s \<Rightarrow> compact_string_len s)"

section \<open>BYTES and COMPACT\_BYTES\<close>

definition put_bytes :: "bytes \<Rightarrow> encoder" where
  "put_bytes b =
     (case int_try_from (length b) of
        None \<Rightarrow> (\<lambda>buf. Err (LengthOverflow ''BYTES'' (length b)))
      | Some len \<Rightarrow> write_all [put_i32 len, put_slice b])"

definition put_nullable_bytes :: "bytes option \<Rightarrow> encoder" where
  "put_nullable_bytes b = (case b of None \<Rightarrow> put_i32 (- 1) | Some b \<Rightarrow> put_bytes b)"

definition get_nullable_bytes_owned :: "bytes option decoder" where
  "get_nullable_bytes_owned =
     read_then get_i32 (\<lambda>l.
       case usize_try_from l of
         None \<Rightarrow> read_ok None
       | Some n \<Rightarrow> read_then (take_bytes n) (\<lambda>v. read_ok (Some v)))"

definition get_bytes_owned :: "bytes decoder" where
  "get_bytes_owned =
     read_then get_nullable_bytes_owned (\<lambda>o'.
       ok_or o' (InvalidValue ''non-nullable BYTES was null''))"

definition bytes_len :: "bytes \<Rightarrow> nat" where
  "bytes_len b = 4 + length b"

definition nullable_bytes_len :: "bytes option \<Rightarrow> nat" where
  "nullable_bytes_len b = 4 + (case b of None \<Rightarrow> 0 | Some b \<Rightarrow> length b)"

definition put_compact_bytes :: "bytes \<Rightarrow> encoder" where
  "put_compact_bytes b buf =
     and_then (compact_length (length b) ''COMPACT_BYTES'') (\<lambda>n.
       write_all [put_uvarint n, put_slice b] buf)"

definition put_compact_nullable_bytes :: "bytes option \<Rightarrow> encoder" where
  "put_compact_nullable_bytes b =
     (case b of None \<Rightarrow> put_uvarint 0 | Some b \<Rightarrow> put_compact_bytes b)"

definition compact_bytes_len :: "bytes \<Rightarrow> nat" where
  "compact_bytes_len b =
     usize_saturating_add (usize_uvarint_len (usize_saturating_add (length b) 1)) (length b)"

definition compact_bytes_len_from_size :: "nat \<Rightarrow> nat" where
  "compact_bytes_len_from_size n =
     usize_saturating_add (usize_uvarint_len (usize_saturating_add n 1)) n"

definition compact_nullable_bytes_len :: "bytes option \<Rightarrow> nat" where
  "compact_nullable_bytes_len b =
     (case b of None \<Rightarrow> uvarint_len 0 | Some b \<Rightarrow> compact_bytes_len b)"

definition get_compact_nullable_bytes_owned :: "bytes option decoder" where
  "get_compact_nullable_bytes_owned =
     read_then get_uvarint (\<lambda>raw.
       if raw = 0 then read_ok None
       else read_then (take_bytes (unat (raw - 1))) (\<lambda>v. read_ok (Some v)))"

definition get_compact_bytes_owned :: "bytes decoder" where
  "get_compact_bytes_owned =
     read_then get_compact_nullable_bytes_owned (\<lambda>o'.
       ok_or o' (InvalidValue ''non-nullable COMPACT_BYTES was null''))"

section \<open>The borrowed decoders\<close>

definition get_string_borrowed :: "bytes decoder" where
  "get_string_borrowed =
     read_then get_i16 (\<lambda>l.
       case usize_try_from l of
         None \<Rightarrow> read_err (InvalidValue ''non-nullable STRING was null'')
       | Some n \<Rightarrow> read_then (take_bytes n) string_from)"

definition get_nullable_string_borrowed :: "bytes option decoder" where
  "get_nullable_string_borrowed =
     read_then get_i16 (\<lambda>l.
       case usize_try_from l of
         None \<Rightarrow> read_ok None
       | Some n \<Rightarrow> read_then (take_bytes n) (\<lambda>v. read_then (string_from v) (\<lambda>s. read_ok (Some s))))"

definition get_compact_string_borrowed :: "bytes decoder" where
  "get_compact_string_borrowed =
     read_then get_uvarint (\<lambda>raw.
       if raw = 0 then read_err (InvalidValue ''non-nullable COMPACT_STRING was null'')
       else read_then (take_bytes (unat (raw - 1))) string_from)"

definition get_compact_nullable_string_borrowed :: "bytes option decoder" where
  "get_compact_nullable_string_borrowed =
     read_then get_uvarint (\<lambda>raw.
       if raw = 0 then read_ok None
       else read_then (take_bytes (unat (raw - 1))) (\<lambda>v.
              read_then (string_from v) (\<lambda>s. read_ok (Some s))))"

definition get_bytes_borrowed :: "bytes decoder" where
  "get_bytes_borrowed =
     read_then get_i32 (\<lambda>l.
       case usize_try_from l of
         None \<Rightarrow> read_err (InvalidValue ''non-nullable BYTES was null'')
       | Some n \<Rightarrow> take_bytes n)"

definition get_nullable_bytes_borrowed :: "bytes option decoder" where
  "get_nullable_bytes_borrowed =
     read_then get_i32 (\<lambda>l.
       case usize_try_from l of
         None \<Rightarrow> read_ok None
       | Some n \<Rightarrow> read_then (take_bytes n) (\<lambda>v. read_ok (Some v)))"

definition get_compact_bytes_borrowed :: "bytes decoder" where
  "get_compact_bytes_borrowed =
     read_then get_uvarint (\<lambda>raw.
       if raw = 0 then read_err (InvalidValue ''non-nullable COMPACT_BYTES was null'')
       else take_bytes (unat (raw - 1)))"

definition get_compact_nullable_bytes_borrowed :: "bytes option decoder" where
  "get_compact_nullable_bytes_borrowed =
     read_then get_uvarint (\<lambda>raw.
       if raw = 0 then read_ok None
       else read_then (take_bytes (unat (raw - 1))) (\<lambda>v. read_ok (Some v)))"

section \<open>Values that have an encoding\<close>

definition string_wf :: "bytes \<Rightarrow> bool" where
  "string_wf s \<longleftrightarrow> utf8 s \<and> length s < 2 ^ 15"

definition compact_string_wf :: "bytes \<Rightarrow> bool" where
  "compact_string_wf s \<longleftrightarrow> utf8 s \<and> length s + 1 < 2 ^ 32"

definition bytes_wf :: "bytes \<Rightarrow> bool" where
  "bytes_wf b \<longleftrightarrow> length b < 2 ^ 31"

definition compact_bytes_wf :: "bytes \<Rightarrow> bool" where
  "compact_bytes_wf b \<longleftrightarrow> length b + 1 < 2 ^ 32"

section \<open>Contracts\<close>

subsection \<open>The shared reads\<close>

lemma reads_take_bytes: "reads (f v) [] y \<Longrightarrow> reads (read_then (take_bytes (length v)) f) v y"
  by (simp add: reads_def read_then_def take_bytes_def)

lemma reads_take_bytes_only: "reads (take_bytes (length v)) v v"
  by (simp add: reads_def take_bytes_def)

lemma extends_take_bytes [extends_rules]: "extends_input (take_bytes n)"
  by (auto simp: extends_input_def take_bytes_def split: if_splits)

lemma yields_take_bytes [yields_rules]: "yields n (take_bytes n) (\<lambda>v. length v = n)"
  by (rule yields_dropI) (auto simp: take_bytes_def split: if_splits)

lemma reads_string_from: "utf8 v \<Longrightarrow> reads (string_from v) [] v"
  by (simp add: reads_def string_from_def utf8_def read_ok_def)

lemma extends_string_from [extends_rules]: "extends_input (string_from v)"
  by (auto simp: string_from_def intro: extends_rules split: sum.splits)

lemma yields_string_from [yields_rules]: "yields 0 (string_from v) (\<lambda>s. s = v \<and> utf8 s)"
  by (auto simp: string_from_def utf8_def intro: yields_rules split: sum.splits)

lemma extends_ok_or [extends_rules]: "extends_input (ok_or x e)"
  by (auto simp: ok_or_def intro: extends_rules split: option.splits)

lemma extends_case_option [extends_rules]:
  "extends_input r \<Longrightarrow> (\<And>n. extends_input (f n)) \<Longrightarrow> extends_input (case x of None \<Rightarrow> r | Some n \<Rightarrow> f n)"
  by (cases x) simp_all

lemma carries_slice: "reads r v y \<Longrightarrow> carries (write_all [put_slice v]) r (length v) y"
  by (rule carriesI[of _ v]) (simp_all add: produces_def put_slice_def)

lemma carries_ok_or:
  assumes "carries w r n (Some x)"
  shows "carries w (read_then r (\<lambda>v. ok_or v e)) n x"
proof -
  obtain bs where "produces w bs" "reads r bs (Some x)" "length bs = n"
    using assms by (rule carriesE)
  then show ?thesis
    by (intro carriesI[of _ bs]) (simp_all add: reads_def read_then_def ok_or_def read_ok_def)
qed

lemma yields_ok_or:
  assumes "yields 1 r (pred_option P)"
  shows "yields 1 (read_then r (\<lambda>v. ok_or v e)) P"
proof -
  have "yields 0 (ok_or v e) P" if "pred_option P v" for v
    using that by (cases v) (simp_all add: ok_or_def yields_ok yields_err)
  then show ?thesis
    by (rule yields_then_0[OF assms])
qed

text \<open>A nullable codec gives the non-nullable one.\<close>

lemma non_null_codec:
  assumes "wire_codec enc dec len (pred_option P)"
    and "\<And>x. enc' x = enc (Some x)" and "\<And>x. len' x = len (Some x)"
    and "dec' = read_then dec (\<lambda>v. ok_or v e)"
  shows "wire_codec enc' dec' len' P"
proof -
  have c: "P x \<Longrightarrow> carries (enc (Some x)) dec (len (Some x)) (Some x)" for x
    using wire_codec.codec_carries[OF assms(1), of "Some x"] by simp
  show ?thesis
  proof
    show "P x \<Longrightarrow> carries (enc' x) dec' (len' x) x" for x
      unfolding assms(2-4) by (intro carries_ok_or c)
    show "yields 1 dec' P"
      unfolding assms(4) using wire_codec.codec_yields[OF assms(1)] by (rule yields_ok_or)
    show "extends_input dec'"
      unfolding assms(4) using wire_codec.codec_extends[OF assms(1)] by (intro extends_rules)
  qed
qed

subsection \<open>Prefixes\<close>

lemma minus_1_not_usize [simp]: "usize_try_from (- 1 :: 'a::len word) = None"
  by (simp add: usize_try_from_def)

lemma compact_length_Ok:
  "compact_length n what = Ok p \<longleftrightarrow> n + 1 < 2 ^ 32 \<and> p = of_nat (n + 1)"
  by (auto simp: compact_length_def usize_max_def)

lemma compact_prefix:
  assumes "n + 1 < 2 ^ 32"
  shows "(of_nat (n + 1) :: u32) \<noteq> 0" and "unat ((of_nat (n + 1) :: u32) - 1) = n"
proof -
  have "unat (of_nat (n + 1) :: u32) = n + 1"
    using assms by (simp only: unat_of_nat take_bit_nat_eq_self) simp
  then show "(of_nat (n + 1) :: u32) \<noteq> 0"
    by (metis Suc_eq_plus1 nat.distinct(1) unat_0)
  show "unat ((of_nat (n + 1) :: u32) - 1) = n"
    using assms by (simp add: unat_of_nat take_bit_nat_eq_self)
qed

lemma compact_prefix_bound:
  assumes "(raw :: u32) \<noteq> 0"
  shows "unat (raw - 1) + 1 < 2 ^ 32"
proof -
  have "unat (raw - 1) = unat raw - 1"
    using assms by (simp add: unat_minus_one)
  moreover have "unat raw < 2 ^ 32"
    using unat_word_less[of raw] by simp
  moreover have "0 < unat raw"
    using assms by (simp add: unat_gt_0)
  ultimately show ?thesis
    by linarith
qed

lemma saturating_compact_len:
  assumes "n + 1 < 2 ^ 32"
  shows "usize_saturating_add (usize_uvarint_len (usize_saturating_add n 1)) n
    = uvarint_len (of_nat (n + 1)) + n"
proof -
  have "usize_saturating_add n 1 = n + 1"
    using assms by (simp add: usize_saturating_add_def usize_max_def)
  moreover have "uvarint_len (of_nat (n + 1)) + n \<le> usize_max"
    using assms uvarint_len_max[of "of_nat (n + 1)"] by (simp add: usize_max_def MAX_VARINT_BYTES_def)
  ultimately show ?thesis
    using assms by (simp only: usize_uvarint_len_eq) (simp add: usize_saturating_add_def)
qed

subsection \<open>The codecs\<close>

text \<open>
  What follows a prefix: \<open>body v\<close> checks the bytes \<open>v\<close> (UTF-8 for strings, nothing for
  byte strings) and reads no more input.
\<close>

definition body_spec :: "(bytes \<Rightarrow> bytes option decoder) \<Rightarrow> (bytes \<Rightarrow> bool) \<Rightarrow> bool" where
  "body_spec body Q \<longleftrightarrow>
     (\<forall>v. (Q v \<longrightarrow> reads (body v) [] (Some v)) \<and> yields 0 (body v) (\<lambda>x. x = Some v \<and> Q v)
        \<and> extends_input (body v))"

lemma body_specD:
  assumes "body_spec body Q"
  shows "Q v \<Longrightarrow> reads (body v) [] (Some v)" and "yields 0 (body v) (\<lambda>x. x = Some v \<and> Q v)"
    and "extends_input (body v)"
  using assms by (simp_all add: body_spec_def)

lemma string_body: "body_spec (\<lambda>v. read_then (string_from v) (\<lambda>s. read_ok (Some s))) utf8"
proof -
  have "reads (read_then (string_from v) (\<lambda>s. read_ok (Some s))) [] (Some v)" if "utf8 v" for v
    using reads_then[OF reads_string_from[OF that], of "\<lambda>s. read_ok (Some s)" "[]" "Some v"]
    by (simp add: reads_def read_ok_def)
  moreover have "yields 0 (read_then (string_from v) (\<lambda>s. read_ok (Some s))) (\<lambda>x. x = Some v \<and> utf8 v)" for v
    by (rule yields_then_0[OF yields_string_from]) (simp add: yields_ok)
  ultimately show ?thesis
    by (simp add: body_spec_def extends_rules)
qed

lemma bytes_body: "body_spec (\<lambda>v. read_ok (Some v)) (\<lambda>_. True)"
  by (simp add: body_spec_def reads_def read_ok_def yields_def extends_input_def)

lemma signed_prefix_codec:
  fixes pput :: "'w::len word \<Rightarrow> encoder"
  assumes pfx: "wire_codec pput pget (\<lambda>_. k) (\<lambda>_. True)" and body: "body_spec body Q"
    and enc: "\<And>x. enc x = (case x of None \<Rightarrow> pput (- 1) | Some v \<Rightarrow>
      (case int_try_from (length v) of None \<Rightarrow> err v | Some l \<Rightarrow> write_all [pput l, put_slice v]))"
    and dec: "dec = read_then pget (\<lambda>l. case usize_try_from l of None \<Rightarrow> read_ok None
      | Some n \<Rightarrow> read_then (take_bytes n) body)"
    and len: "\<And>x. len x = k + (case x of None \<Rightarrow> 0 | Some v \<Rightarrow> length v)"
  shows "wire_codec enc dec len (pred_option (\<lambda>v. Q v \<and> length v < 2 ^ (LENGTH('w) - 1)))"
proof
  note p = wire_codec.codec_carries[OF pfx] and b = body_specD[OF body]
  fix x
  assume wf: "pred_option (\<lambda>v. Q v \<and> length v < 2 ^ (LENGTH('w) - 1)) x"
  show "carries (enc x) dec (len x) x"
  proof (cases x)
    case None
    obtain bs where "produces (pput (- 1)) bs" "reads pget bs (- 1)" "length bs = k"
      using p[of "- 1"] by (auto elim: carriesE)
    then show ?thesis
      unfolding None enc dec len
      by (intro carriesI[of _ bs]) (simp_all add: reads_def read_then_def read_ok_def)
  next
    case (Some v)
    with wf have v: "Q v" "length v < 2 ^ (LENGTH('w) - 1)"
      by simp_all
    have "carries (write_all [pput (of_nat (length v)), put_slice v]) dec (k + length v) (Some v)"
      unfolding dec using v
      by (intro carries_step[OF p] carries_slice) (simp_all add: reads_take_bytes b)
    with v show ?thesis
      by (simp add: Some enc len int_try_from_def)
  qed
next
  note b = body_specD[OF body]
  show "yields 1 dec (pred_option (\<lambda>v. Q v \<and> length v < 2 ^ (LENGTH('w) - 1)))"
    unfolding dec
  proof (rule yields_then_0[OF wire_codec.codec_yields[OF pfx]])
    fix l :: "'w word"
    show "yields 0 (case usize_try_from l of None \<Rightarrow> read_ok None | Some n \<Rightarrow> read_then (take_bytes n) body)
      (pred_option (\<lambda>v. Q v \<and> length v < 2 ^ (LENGTH('w) - 1)))"
    proof (cases "usize_try_from l")
      case (Some n)
      then have n: "n < 2 ^ (LENGTH('w) - 1)"
        by (rule usize_try_from_Some)
      have "yields n (read_then (take_bytes n) body) (pred_option (\<lambda>v. Q v \<and> length v < 2 ^ (LENGTH('w) - 1)))"
        by (rule yields_then_0[OF yields_take_bytes], rule yields_mono[OF b(2)]) (use n in auto)
      with Some show ?thesis
        by (simp add: yields_weaken)
    qed (simp add: yields_ok)
  qed
next
  show "extends_input dec"
    unfolding dec using wire_codec.codec_extends[OF pfx] body_specD(3)[OF body]
    by (intro extends_rules)
qed

lemma compact_prefix_codec:
  assumes body: "body_spec body Q"
    and enc: "\<And>x buf. enc x buf = (case x of None \<Rightarrow> put_uvarint 0 buf | Some v \<Rightarrow>
      and_then (compact_length (length v) what) (\<lambda>n. write_all [put_uvarint n, put_slice v] buf))"
    and dec: "dec = read_then get_uvarint (\<lambda>raw. if raw = 0 then read_ok None
      else read_then (take_bytes (unat (raw - 1))) body)"
    and len: "\<And>x. len x = (case x of None \<Rightarrow> uvarint_len 0 | Some v \<Rightarrow>
      usize_saturating_add (usize_uvarint_len (usize_saturating_add (length v) 1)) (length v))"
  shows "wire_codec enc dec len (pred_option (\<lambda>v. Q v \<and> length v + 1 < 2 ^ 32))"
proof
  note b = body_specD[OF body]
  fix x
  assume wf: "pred_option (\<lambda>v. Q v \<and> length v + 1 < 2 ^ 32) x"
  show "carries (enc x) dec (len x) x"
  proof (cases x)
    case None
    obtain bs where "produces (put_uvarint 0 :: encoder) bs" "reads get_uvarint bs 0" "length bs = uvarint_len 0"
      using uvarint.codec_carries[of 0] by (auto elim: carriesE)
    then show ?thesis
      unfolding None dec
      by (intro carriesI[of _ bs]) (simp_all add: produces_def enc len reads_def read_then_def read_ok_def)
  next
    case (Some v)
    with wf have v: "Q v" "length v + 1 < 2 ^ 32"
      by simp_all
    let ?p = "of_nat (length v + 1) :: u32"
    have "carries (write_all [put_uvarint ?p, put_slice v]) dec (uvarint_len ?p + length v) (Some v)"
      unfolding dec using v compact_prefix[OF v(2)]
      by (intro carries_step[OF uvarint.codec_carries] carries_slice) (simp_all add: reads_take_bytes b)
    moreover have "enc x = write_all [put_uvarint ?p, put_slice v]"
      using v by (intro ext) (simp add: Some enc compact_length_def usize_max_def)
    ultimately show ?thesis
      using saturating_compact_len[OF v(2)] by (simp add: Some len)
  qed
next
  note b = body_specD[OF body]
  show "yields 1 dec (pred_option (\<lambda>v. Q v \<and> length v + 1 < 2 ^ 32))"
    unfolding dec
  proof (rule yields_then_0[OF uvarint.codec_yields])
    fix raw :: u32
    show "yields 0 (if raw = 0 then read_ok None else read_then (take_bytes (unat (raw - 1))) body)
      (pred_option (\<lambda>v. Q v \<and> length v + 1 < 2 ^ 32))"
    proof (cases "raw = 0")
      case False
      have "yields (unat (raw - 1)) (read_then (take_bytes (unat (raw - 1))) body)
        (pred_option (\<lambda>v. Q v \<and> length v + 1 < 2 ^ 32))"
        using compact_prefix_bound[OF False]
        by (intro yields_then_0[OF yields_take_bytes] yields_mono[OF b(2)]) auto
      with False show ?thesis
        by (simp add: yields_weaken)
    qed (simp add: yields_ok)
  qed
next
  show "extends_input dec"
    unfolding dec using body_specD(3)[OF body]
    by (intro extends_rules uvarint.codec_extends)
qed

interpretation nullable_string: wire_codec put_nullable_string get_nullable_string_owned
  nullable_string_len "pred_option string_wf"
  using signed_prefix_codec[OF i16.wire_codec_axioms string_body, of put_nullable_string
      "\<lambda>v buf. Err (LengthOverflow ''STRING'' (length v))" get_nullable_string_owned nullable_string_len]
  by (simp add: put_nullable_string_def put_string_def get_nullable_string_owned_def
      nullable_string_len_def string_wf_def[abs_def] split: option.splits)

interpretation string: wire_codec put_string get_string_owned string_len string_wf
  by (rule non_null_codec[OF nullable_string.wire_codec_axioms])
    (simp_all add: put_nullable_string_def string_len_def nullable_string_len_def get_string_owned_def)

interpretation nullable_bytes: wire_codec put_nullable_bytes get_nullable_bytes_owned
  nullable_bytes_len "pred_option bytes_wf"
  using signed_prefix_codec[OF i32.wire_codec_axioms bytes_body, of put_nullable_bytes
      "\<lambda>v buf. Err (LengthOverflow ''BYTES'' (length v))" get_nullable_bytes_owned nullable_bytes_len]
  by (simp add: put_nullable_bytes_def put_bytes_def get_nullable_bytes_owned_def
      nullable_bytes_len_def bytes_wf_def[abs_def] split: option.splits)

interpretation byte_string: wire_codec put_bytes get_bytes_owned bytes_len bytes_wf
  by (rule non_null_codec[OF nullable_bytes.wire_codec_axioms])
    (simp_all add: put_nullable_bytes_def bytes_len_def nullable_bytes_len_def get_bytes_owned_def)

interpretation compact_nullable_string: wire_codec put_compact_nullable_string
  get_compact_nullable_string_owned compact_nullable_string_len "pred_option compact_string_wf"
  using compact_prefix_codec[OF string_body, of put_compact_nullable_string "''COMPACT_STRING''"
      get_compact_nullable_string_owned compact_nullable_string_len]
  by (simp add: put_compact_nullable_string_def put_compact_string_def compact_string_wf_def[abs_def]
      get_compact_nullable_string_owned_def compact_nullable_string_len_def compact_string_len_def
      split: option.splits)

interpretation compact_string: wire_codec put_compact_string get_compact_string_owned
  compact_string_len compact_string_wf
  by (rule non_null_codec[OF compact_nullable_string.wire_codec_axioms])
    (simp_all add: put_compact_nullable_string_def compact_nullable_string_len_def
      get_compact_string_owned_def)

interpretation compact_nullable_bytes: wire_codec put_compact_nullable_bytes
  get_compact_nullable_bytes_owned compact_nullable_bytes_len "pred_option compact_bytes_wf"
  using compact_prefix_codec[OF bytes_body, of put_compact_nullable_bytes "''COMPACT_BYTES''"
      get_compact_nullable_bytes_owned compact_nullable_bytes_len]
  by (simp add: put_compact_nullable_bytes_def put_compact_bytes_def compact_bytes_wf_def[abs_def]
      get_compact_nullable_bytes_owned_def compact_nullable_bytes_len_def compact_bytes_len_def
      split: option.splits)

interpretation compact_bytes: wire_codec put_compact_bytes get_compact_bytes_owned
  compact_bytes_len compact_bytes_wf
  by (rule non_null_codec[OF compact_nullable_bytes.wire_codec_axioms])
    (simp_all add: put_compact_nullable_bytes_def compact_nullable_bytes_len_def
      get_compact_bytes_owned_def)

subsection \<open>Borrowed and owned agree\<close>

lemma read_then_assoc: "read_then (read_then r f) g = read_then r (\<lambda>x. read_then (f x) g)"
  by (auto simp: fun_eq_iff read_then_def and_then_def split: sum.splits prod.splits)

lemma read_then_ok [simp]: "read_then (read_ok x) f = f x" "read_then r read_ok = r"
  by (auto simp: fun_eq_iff read_then_def read_ok_def and_then_def split: sum.splits)

lemma read_then_err [simp]: "read_then (read_err e) f = read_err e"
  by (simp add: fun_eq_iff read_then_def read_err_def)

lemma read_then_if: "read_then (if c then r else s) f = (if c then read_then r f else read_then s f)"
  by simp

lemma read_then_case_option:
  "read_then (case x of None \<Rightarrow> r | Some n \<Rightarrow> g n) f
   = (case x of None \<Rightarrow> read_then r f | Some n \<Rightarrow> read_then (g n) f)"
  by (cases x) simp_all

lemmas reader_algebra = read_then_assoc read_then_if read_then_case_option ok_or_def

text \<open>
  Every zero-copy decoder computes what its owned counterpart computes: the same value,
  the same remaining input, the same error.
\<close>

lemma string_borrowed_eq: "get_string_borrowed = get_string_owned"
  by (simp add: get_string_borrowed_def get_string_owned_def get_nullable_string_owned_def
      reader_algebra cong: option.case_cong)

lemma nullable_string_borrowed_eq: "get_nullable_string_borrowed = get_nullable_string_owned"
  by (simp add: get_nullable_string_borrowed_def get_nullable_string_owned_def)

lemma compact_string_borrowed_eq: "get_compact_string_borrowed = get_compact_string_owned"
  by (simp add: get_compact_string_borrowed_def get_compact_string_owned_def
      get_compact_nullable_string_owned_def reader_algebra cong: if_cong)

lemma compact_nullable_string_borrowed_eq:
  "get_compact_nullable_string_borrowed = get_compact_nullable_string_owned"
  by (simp add: get_compact_nullable_string_borrowed_def get_compact_nullable_string_owned_def)

lemma bytes_borrowed_eq: "get_bytes_borrowed = get_bytes_owned"
  by (simp add: get_bytes_borrowed_def get_bytes_owned_def get_nullable_bytes_owned_def
      reader_algebra cong: option.case_cong)

lemma nullable_bytes_borrowed_eq: "get_nullable_bytes_borrowed = get_nullable_bytes_owned"
  by (simp add: get_nullable_bytes_borrowed_def get_nullable_bytes_owned_def)

lemma compact_bytes_borrowed_eq: "get_compact_bytes_borrowed = get_compact_bytes_owned"
  by (simp add: get_compact_bytes_borrowed_def get_compact_bytes_owned_def
      get_compact_nullable_bytes_owned_def reader_algebra cong: if_cong)

lemma compact_nullable_bytes_borrowed_eq:
  "get_compact_nullable_bytes_borrowed = get_compact_nullable_bytes_owned"
  by (simp add: get_compact_nullable_bytes_borrowed_def get_compact_nullable_bytes_owned_def)

section \<open>Properties\<close>

text \<open>
  A string of valid UTF-8 that fits a compact length prefix is written in exactly the
  predicted number of bytes and read back unchanged, by the owned and by the zero-copy decoder.
\<close>

theorem compact_string_round_trip:
  assumes "utf8 s" and "length s + 1 < 2 ^ 32"
  shows "\<exists>bs. put_compact_string s buf = Ok (buf @ bs) \<and> length bs = compact_string_len s
    \<and> get_compact_string_owned (bs @ rest) = Ok (s, rest)
    \<and> get_compact_string_borrowed (bs @ rest) = Ok (s, rest)"
  using compact_string.round_trip[of s buf rest] assms
  by (simp add: compact_string_wf_def compact_string_borrowed_eq)

theorem compact_string_round_trip_witness:
  "\<exists>bs. put_compact_string [0x6F, 0xC3, 0xA9] [7] = Ok ([7] @ bs)
    \<and> length bs = compact_string_len [0x6F, 0xC3, 0xA9]
    \<and> get_compact_string_owned (bs @ [9]) = Ok ([0x6F, 0xC3, 0xA9], [9])
    \<and> get_compact_string_borrowed (bs @ [9]) = Ok ([0x6F, 0xC3, 0xA9], [9])"
  by (rule compact_string_round_trip)
    (simp_all add: utf8_def from_utf8.simps utf8_width_def second_ok_def continuation_def)

text \<open>
  C39: the two flavours of every string and bytes decoder agree on every input: same value, same
  remaining input, same error.
\<close>

theorem borrowed_decoders_equal_owned:
  "get_string_borrowed = get_string_owned
   \<and> get_nullable_string_borrowed = get_nullable_string_owned
   \<and> get_compact_string_borrowed = get_compact_string_owned
   \<and> get_compact_nullable_string_borrowed = get_compact_nullable_string_owned
   \<and> get_bytes_borrowed = get_bytes_owned
   \<and> get_nullable_bytes_borrowed = get_nullable_bytes_owned
   \<and> get_compact_bytes_borrowed = get_compact_bytes_owned
   \<and> get_compact_nullable_bytes_borrowed = get_compact_nullable_bytes_owned"
  by (intro conjI string_borrowed_eq nullable_string_borrowed_eq compact_string_borrowed_eq
      compact_nullable_string_borrowed_eq bytes_borrowed_eq nullable_bytes_borrowed_eq
      compact_bytes_borrowed_eq compact_nullable_bytes_borrowed_eq)

text \<open>
  A string decoder returns only valid UTF-8 that the matching encoder accepts again, and no
  proper prefix of an encoded string decodes.
\<close>

theorem string_decoder_sound:
  assumes "get_nullable_string_owned buf = Ok (v, rest)"
  shows "pred_option (\<lambda>s. utf8 s \<and> length s < 2 ^ 15) v
    \<and> (\<exists>bs. put_nullable_string v [] = Ok bs
         \<and> get_nullable_string_owned (bs @ rest) = Ok (v, rest)
         \<and> (\<forall>n. n < length bs \<longrightarrow> (\<exists>e. get_nullable_string_owned (take n bs) = Err e)))"
proof -
  have wf: "pred_option string_wf v"
    using assms by (rule nullable_string.decoded_wf)
  moreover have "pred_option string_wf = pred_option (\<lambda>s. utf8 s \<and> length s < 2 ^ 15)"
    by (simp add: string_wf_def[abs_def])
  moreover obtain bs where "put_nullable_string v [] = Ok bs"
    "get_nullable_string_owned (bs @ rest) = Ok (v, rest)"
    using nullable_string.re_encode[OF assms] by blast
  moreover from wf this(1) have "\<exists>e. get_nullable_string_owned (take n bs) = Err e" if "n < length bs" for n
    using that by (rule nullable_string.truncated)
  ultimately show ?thesis
    by auto
qed

theorem string_decoder_sound_witness:
  "pred_option (\<lambda>s. utf8 s \<and> length s < 2 ^ 15) (Some [0x61])
    \<and> (\<exists>bs. put_nullable_string (Some [0x61]) [] = Ok bs
         \<and> get_nullable_string_owned (bs @ [5]) = Ok (Some [0x61], [5])
         \<and> (\<forall>n. n < length bs \<longrightarrow> (\<exists>e. get_nullable_string_owned (take n bs) = Err e)))"
  by (rule string_decoder_sound[of "[0, 1, 0x61, 5]"])
    (simp add: get_nullable_string_owned_def read_then_def get_i16_def need_def buf_get_def be_word_def
      usize_try_from_def take_bytes_def string_from_def read_ok_def from_utf8.simps utf8_width_def)

end
