(* ===== verification/ArrayLen.thy ===== *)
theory ArrayLen
  imports StringBytes
begin

text \<open>
  The array-length prefixes of \<open>crates/protocol/src/primitives/array.rs\<close>, in the
  fixed-width and the compact (flexible) form, nullable and not, with the bound against the
  remaining input that keeps a hostile length from reserving memory.
\<close>

definition int32_length :: "nat \<Rightarrow> i32 wire_result" where
  "int32_length n =
     (case int_try_from n of None \<Rightarrow> Err (LengthOverflow ''array'' n) | Some l \<Rightarrow> Ok l)"

definition put_array_len :: "nat \<Rightarrow> bool \<Rightarrow> encoder" where
  "put_array_len n flexible buf =
     (if flexible
      then and_then (compact_length n ''array'') (\<lambda>p. put_uvarint p buf)
      else and_then (int32_length n) (\<lambda>l. put_i32 l buf))"

definition put_nullable_array_len :: "nat option \<Rightarrow> bool \<Rightarrow> encoder" where
  "put_nullable_array_len len flexible buf =
     (case (flexible, len) of
        (False, None) \<Rightarrow> put_i32 (- 1) buf
      | (False, Some n) \<Rightarrow> and_then (int32_length n) (\<lambda>l. put_i32 l buf)
      | (True, None) \<Rightarrow> put_uvarint 0 buf
      | (True, Some n) \<Rightarrow> and_then (compact_length n ''array'') (\<lambda>p. put_uvarint p buf))"

definition array_len_prefix_len :: "nat \<Rightarrow> bool \<Rightarrow> nat" where
  "array_len_prefix_len n flexible =
     (if flexible then usize_uvarint_len (usize_saturating_add n 1) else 4)"

definition nullable_array_len_prefix_len :: "nat option \<Rightarrow> bool \<Rightarrow> nat" where
  "nullable_array_len_prefix_len len flexible =
     (case (flexible, len) of
        (False, _) \<Rightarrow> 4
      | (True, None) \<Rightarrow> uvarint_len 0
      | (True, Some n) \<Rightarrow> usize_uvarint_len (usize_saturating_add n 1))"

text \<open>The final check of both readers: a length above \<open>buf.remaining()\<close> is refused.\<close>

definition within_remaining :: "nat \<Rightarrow> 'a \<Rightarrow> 'a decoder" where
  "within_remaining n x buf =
     (if n > length buf then Err (InvalidValue ''array length exceeds remaining buffer'')
      else Ok (x, buf))"

definition get_array_len :: "bool \<Rightarrow> nat decoder" where
  "get_array_len flexible =
     (if flexible
      then read_then get_uvarint (\<lambda>raw.
        if raw = 0 then read_err (InvalidValue ''non-nullable array was null (compact encoding)'')
        else within_remaining (unat (raw - 1)) (unat (raw - 1)))
      else read_then get_i32 (\<lambda>l.
        case usize_try_from l of
          None \<Rightarrow> read_err (InvalidValue ''non-nullable array had negative length'')
        | Some n \<Rightarrow> within_remaining n n))"

definition get_nullable_array_len :: "bool \<Rightarrow> nat option decoder" where
  "get_nullable_array_len flexible =
     (if flexible
      then read_then get_uvarint (\<lambda>raw.
        if raw = 0 then read_ok None
        else within_remaining (unat (raw - 1)) (Some (unat (raw - 1))))
      else read_then get_i32 (\<lambda>l.
        case usize_try_from l of
          None \<Rightarrow> read_ok None
        | Some n \<Rightarrow> within_remaining n (Some n)))"

section \<open>Laws\<close>

lemma extends_within_remaining [extends_rules]: "extends_input (within_remaining n x)"
  by (auto simp: extends_input_def within_remaining_def split: if_splits)

lemma within_remaining_Ok:
  "within_remaining n x buf = Ok (y, rest) \<longleftrightarrow> n \<le> length buf \<and> y = x \<and> rest = buf"
  by (auto simp: within_remaining_def)

lemma yields_within_remaining: "yields 0 (within_remaining n x) (\<lambda>y. y = x)"
  by (auto simp: yields_def within_remaining_Ok)

text \<open>The prefixes that the two writers can write.\<close>

definition array_len_wf :: "bool \<Rightarrow> nat \<Rightarrow> bool" where
  "array_len_wf flexible n \<longleftrightarrow> (if flexible then n + 1 < 2 ^ 32 else n < 2 ^ 31)"

lemma array_len_round_trip:
  assumes "array_len_wf flexible n"
  obtains bs where "produces (put_array_len n flexible) bs"
    and "length bs = array_len_prefix_len n flexible"
    and "\<And>rest. get_array_len flexible (bs @ rest) =
      (if n \<le> length rest then Ok (n, rest)
       else Err (InvalidValue ''array length exceeds remaining buffer''))"
proof (cases flexible)
  case True
  then have n: "n + 1 < 2 ^ 32"
    using assms by (simp add: array_len_wf_def)
  obtain bs where bs: "produces (put_uvarint (of_nat (n + 1)) :: encoder) bs"
    "reads get_uvarint bs (of_nat (n + 1))" "length bs = uvarint_len (of_nat (n + 1))"
    using uvarint.codec_carries[of "of_nat (n + 1)"] by (auto elim: carriesE)
  show thesis
  proof (rule that)
    show "produces (put_array_len n flexible) bs"
      using bs(1) n True by (simp add: produces_def put_array_len_def compact_length_def usize_max_def)
    have "usize_saturating_add n 1 = n + 1"
      using n by (simp add: usize_saturating_add_def usize_max_def)
    then show "length bs = array_len_prefix_len n flexible"
      using bs(3) True n by (simp only: array_len_prefix_len_def usize_uvarint_len_eq) simp
    show "get_array_len flexible (bs @ rest) =
      (if n \<le> length rest then Ok (n, rest)
       else Err (InvalidValue ''array length exceeds remaining buffer''))" for rest
      using True readsD[OF bs(2)] compact_prefix[OF n]
      by (simp add: get_array_len_def read_then_def within_remaining_def)
  qed
next
  case False
  then have n: "n < 2 ^ (LENGTH(32) - 1)"
    using assms by (simp add: array_len_wf_def)
  obtain bs where bs: "produces (put_i32 (of_nat n) :: encoder) bs" "reads get_i32 bs (of_nat n)" "length bs = 4"
    using i32.codec_carries[of "of_nat n"] by (auto elim: carriesE)
  show thesis
  proof (rule that)
    show "produces (put_array_len n flexible) bs"
      using bs(1) n False by (simp add: produces_def put_array_len_def int32_length_def int_try_from_def)
    show "length bs = array_len_prefix_len n flexible"
      using bs(3) False by (simp add: array_len_prefix_len_def)
    show "get_array_len flexible (bs @ rest) =
      (if n \<le> length rest then Ok (n, rest)
       else Err (InvalidValue ''array length exceeds remaining buffer''))" for rest
      using False readsD[OF bs(2)] usize_try_from_of_nat[OF n]
      by (simp add: get_array_len_def read_then_def within_remaining_def)
  qed
qed

lemma extends_get_array_len [extends_rules]: "extends_input (get_array_len flexible)"
  unfolding get_array_len_def
  by (intro extends_rules uvarint.codec_extends i32.codec_extends)

lemma yields_get_array_len [yields_rules]:
  "yields 1 (get_array_len flexible) (array_len_wf flexible)"
proof (cases flexible)
  case True
  have "yields 0 (if raw = 0 then read_err e else within_remaining (unat (raw - 1)) (unat (raw - 1)))
    (array_len_wf flexible)" for raw :: u32 and e
    using compact_prefix_bound[of raw] True
    by (auto intro: yields_err yields_mono[OF yields_within_remaining] simp: array_len_wf_def)
  with True show ?thesis
    unfolding get_array_len_def by (simp only: if_True) (rule yields_then_0[OF uvarint.codec_yields])
next
  case False
  have "yields 0 (case usize_try_from l of None \<Rightarrow> read_err e | Some n \<Rightarrow> within_remaining n n)
    (array_len_wf flexible)" for l :: i32 and e
    using usize_try_from_Some(1)[of l] False
    by (auto intro: yields_err yields_mono[OF yields_within_remaining] simp: array_len_wf_def
        split: option.splits)
  with False show ?thesis
    unfolding get_array_len_def by (simp only: if_False) (rule yields_then_0[OF i32.codec_yields])
qed

text \<open>The allocation bound: a length that either reader returns is covered by the bytes left.\<close>

lemma get_array_len_bound:
  "get_array_len flexible buf = Ok (n, rest) \<Longrightarrow> n \<le> length rest"
  by (auto simp: get_array_len_def read_then_def and_then_eq_Ok within_remaining_Ok read_err_def
      split: if_splits option.splits)

lemma get_nullable_array_len_bound:
  "get_nullable_array_len flexible buf = Ok (Some n, rest) \<Longrightarrow> n \<le> length rest"
  by (auto simp: get_nullable_array_len_def read_then_def and_then_eq_Ok within_remaining_Ok
      read_ok_def split: if_splits option.splits)

section \<open>Properties\<close>

text \<open>
  C24: an array length that a reader returns, in either form and nullable or not, is at most the
  number of bytes left, so an element count taken from the wire never reserves more elements
  than the input has bytes.
\<close>

theorem array_len_within_input:
  "(case get_array_len flexible buf of Err _ \<Rightarrow> True | Ok (n, rest) \<Rightarrow> n \<le> length rest)
   \<and> (case get_nullable_array_len flexible buf of
        Ok (Some n, rest) \<Rightarrow> n \<le> length rest | _ \<Rightarrow> True)"
  by (auto split: sum.splits prod.splits option.splits
      dest: get_array_len_bound get_nullable_array_len_bound)

text \<open>
  An array length is written in exactly the predicted number of bytes and read back when at
  least that many bytes follow; with fewer bytes behind it the reader refuses it.
\<close>

theorem array_len_exact:
  assumes "if flexible then n + 1 < 2 ^ 32 else n < 2 ^ 31"
  shows "\<exists>bs. put_array_len n flexible buf = Ok (buf @ bs)
    \<and> length bs = array_len_prefix_len n flexible
    \<and> get_array_len flexible (bs @ rest) =
        (if n \<le> length rest then Ok (n, rest)
         else Err (InvalidValue ''array length exceeds remaining buffer''))"
proof -
  have "array_len_wf flexible n"
    using assms by (simp add: array_len_wf_def)
  then obtain bs where bs: "produces (put_array_len n flexible) bs"
    "length bs = array_len_prefix_len n flexible"
    "\<forall>rest. get_array_len flexible (bs @ rest) =
      (if n \<le> length rest then Ok (n, rest)
       else Err (InvalidValue ''array length exceeds remaining buffer''))"
    by (rule array_len_round_trip) blast
  then show ?thesis
    by (auto simp: produces_def)
qed

theorem array_len_exact_witness:
  "\<exists>bs. put_array_len 300 True [] = Ok ([] @ bs) \<and> length bs = array_len_prefix_len 300 True
    \<and> get_array_len True (bs @ [1]) =
        (if 300 \<le> length [1 :: u8] then Ok (300, [1])
         else Err (InvalidValue ''array length exceeds remaining buffer''))"
  by (rule array_len_exact) simp

end
