(* ===== verification/TaggedFields.thy ===== *)
theory TaggedFields
  imports ArrayLen "HOL-Library.Multiset"
begin

text \<open>
  KIP-482 tagged fields, \<open>crates/protocol/src/tagged_fields.rs\<close>. The reader hands each
  entry to a \<open>known\<close> closure and keeps the entries the closure does not recognise; the
  writer merges known and unknown entries in ascending tag order. The closure is an
  \<open>FnMut\<close>, so it carries a state \<open>'s\<close> (the fields of the message being decoded).
\<close>

record UnknownTaggedField =
  uf_tag :: u32
  uf_bytes :: bytes

type_synonym UnknownTaggedFields = "UnknownTaggedField list"
type_synonym 's known_fields = "'s \<Rightarrow> u32 \<Rightarrow> (bool \<times> 's) decoder"

section \<open>Reading\<close>

fun read_tagged_loop ::
  "'s known_fields \<Rightarrow> nat \<Rightarrow> u32 option \<Rightarrow> UnknownTaggedFields \<Rightarrow> 's \<Rightarrow> (UnknownTaggedFields \<times> 's) decoder" where
  "read_tagged_loop known 0 last_tag unknown s = read_ok (unknown, s)"
| "read_tagged_loop known (Suc n) last_tag unknown s =
     read_then get_uvarint (\<lambda>t.
       if (case last_tag of None \<Rightarrow> False | Some prev \<Rightarrow> t \<le> prev)
       then read_err (InvalidValue ''tagged fields not strictly ascending'')
       else read_then get_uvarint (\<lambda>size.
         read_then (take_bytes (unat size)) (\<lambda>payload.
           case known s t payload of
             Err e \<Rightarrow> read_err e
           | Ok ((recognised, s'), left) \<Rightarrow>
               if \<not> recognised
               then read_tagged_loop known n (Some t)
                      (unknown @ [\<lparr>uf_tag = t, uf_bytes = payload\<rparr>]) s'
               else if left \<noteq> []
               then read_err (InvalidValue ''tagged field decoder did not consume all bytes'')
               else read_tagged_loop known n (Some t) unknown s')))"

definition read_tagged_fields :: "'s known_fields \<Rightarrow> 's \<Rightarrow> (UnknownTaggedFields \<times> 's) decoder" where
  "read_tagged_fields known s =
     read_then get_uvarint (\<lambda>count. read_tagged_loop known (unat count) None [] s)"

section \<open>Writing\<close>

text \<open>\<open>WriteTaggedFields\<close>: the entries added so far, in the order of the \<open>add\<close> calls.\<close>

record WriteTaggedFields =
  entries :: "(u32 \<times> bytes) list"

definition WriteTaggedFields_new :: WriteTaggedFields where
  "WriteTaggedFields_new = \<lparr>entries = []\<rparr>"

definition add_tagged :: "u32 \<Rightarrow> bytes \<Rightarrow> WriteTaggedFields \<Rightarrow> WriteTaggedFields" where
  "add_tagged t payload w = w\<lparr>entries := entries w @ [(t, payload)]\<rparr>"

definition varint_length :: "nat \<Rightarrow> string \<Rightarrow> u32 wire_result" where
  "varint_length n what = (if n < 2 ^ 32 then Ok (of_nat n) else Err (LengthOverflow what n))"

definition write_entry :: "u32 \<times> bytes \<Rightarrow> encoder" where
  "write_entry e =
     (case e of (t, payload) \<Rightarrow>
        write_all
          [put_uvarint t,
           (\<lambda>buf. and_then (varint_length (length payload) ''tagged field'') (\<lambda>n. put_uvarint n buf)),
           put_slice payload])"

definition write_tagged :: "WriteTaggedFields \<Rightarrow> UnknownTaggedFields \<Rightarrow> encoder" where
  "write_tagged w unknown =
     (let es = sort_key fst (entries w @ map (\<lambda>u. (uf_tag u, uf_bytes u)) unknown)
      in write_all
           ((\<lambda>buf. and_then (varint_length (length es) ''tagged-field count'') (\<lambda>n. put_uvarint n buf))
            # map write_entry es))"

definition tagged_fields_len :: "(u32 \<times> nat) list \<Rightarrow> UnknownTaggedFields \<Rightarrow> nat" where
  "tagged_fields_len known unknown =
     usize_uvarint_len (length known + length unknown)
     + (\<Sum>(t, n) \<leftarrow> known. uvarint_len t + usize_uvarint_len n + n)
     + (\<Sum>u \<leftarrow> unknown. uvarint_len (uf_tag u) + usize_uvarint_len (length (uf_bytes u)) + length (uf_bytes u))"

text \<open>
  \<open>encode_to_bytes\<close>: the payload a closure writes into a fresh buffer. In a build with
  debug assertions a wrong \<open>predicted_len\<close> panics, which is \<open>None\<close> here.
\<close>

definition encode_to_bytes :: "nat \<Rightarrow> encoder \<Rightarrow> bytes wire_result option" where
  "encode_to_bytes predicted_len w =
     (case w [] of
        Err e \<Rightarrow> Some (Err e)
      | Ok buf \<Rightarrow> if length buf = predicted_len then Some (Ok buf) else None)"

section \<open>The trailer on the wire\<close>

text \<open>The abstract content of a trailer: tag and payload pairs in the order written.\<close>

definition entry_bytes :: "u32 \<times> bytes \<Rightarrow> bytes" where
  "entry_bytes e = uv_bytes (fst e) @ uv_bytes (of_nat (length (snd e)) :: u32) @ snd e"

definition trailer_bytes :: "(u32 \<times> bytes) list \<Rightarrow> bytes" where
  "trailer_bytes es = uv_bytes (of_nat (length es) :: u32) @ concat (map entry_bytes es)"

definition trailer_wf :: "(u32 \<times> bytes) list \<Rightarrow> bool" where
  "trailer_wf es \<longleftrightarrow> length es < 2 ^ 32 \<and> (\<forall>e \<in> set es. length (snd e) < 2 ^ 32)"

text \<open>The result the reader must produce on those entries, with no bytes involved.\<close>

fun dispatch ::
  "'s known_fields \<Rightarrow> UnknownTaggedFields \<Rightarrow> 's \<Rightarrow> (u32 \<times> bytes) list \<Rightarrow> (UnknownTaggedFields \<times> 's) wire_result" where
  "dispatch known unknown s [] = Ok (unknown, s)"
| "dispatch known unknown s ((t, payload) # es) =
     and_then (known s t payload) (\<lambda>((recognised, s'), left).
       if \<not> recognised then dispatch known (unknown @ [\<lparr>uf_tag = t, uf_bytes = payload\<rparr>]) s' es
       else if left \<noteq> []
       then Err (InvalidValue ''tagged field decoder did not consume all bytes'')
       else dispatch known unknown s' es)"

lemma unat_of_nat_u32: "n < 2 ^ 32 \<Longrightarrow> unat (of_nat n :: u32) = n"
  by (simp add: unat_of_nat take_bit_nat_eq_self)

lemma write_entry_produces:
  "length (snd e) < 2 ^ 32 \<Longrightarrow> produces (write_entry e) (entry_bytes e)"
  by (cases e) (simp add: produces_def write_entry_def entry_bytes_def put_uvarint_eq
      varint_length_def put_slice_def)

lemma write_entries_produce:
  "\<forall>e \<in> set es. length (snd e) < 2 ^ 32 \<Longrightarrow>
   produces (write_all (map write_entry es)) (concat (map entry_bytes es))"
proof (induction es)
  case Nil
  then show ?case by (simp add: produces_def)
next
  case (Cons e es)
  then show ?case
    by (simp add: produces_Cons write_entry_produces del: write_all.simps)
qed

lemma write_tagged_produces:
  assumes "es = sort_key fst (entries w @ map (\<lambda>u. (uf_tag u, uf_bytes u)) unknown)"
    and "trailer_wf es"
  shows "produces (write_tagged w unknown) (trailer_bytes es)"
proof -
  have "produces (\<lambda>buf. and_then (varint_length (length es) what) (\<lambda>n. put_uvarint n buf))
    (uv_bytes (of_nat (length es) :: u32))" for what
    using assms(2) by (simp add: produces_def trailer_wf_def varint_length_def put_uvarint_eq)
  then show ?thesis
    unfolding write_tagged_def Let_def assms(1)[symmetric] trailer_bytes_def
    by (rule produces_Cons) (use assms(2) in \<open>simp add: write_entries_produce trailer_wf_def\<close>)
qed

lemma read_trailer_loop:
  assumes "sorted_wrt (<) (map fst es)" and "\<forall>e \<in> set es. length (snd e) < 2 ^ 32"
    and "\<forall>prev. last_tag = Some prev \<longrightarrow> (\<forall>e \<in> set es. prev < fst e)"
  shows "read_tagged_loop known (length es) last_tag unknown s (concat (map entry_bytes es) @ rest)
    = and_then (dispatch known unknown s es) (\<lambda>r. Ok (r, rest))"
  using assms
proof (induction es arbitrary: last_tag unknown s)
  case Nil
  then show ?case by (simp add: read_ok_def)
next
  case (Cons e es)
  obtain t payload where e: "e = (t, payload)"
    by (cases e)
  have IH: "read_tagged_loop known (length es) (Some t) u s' (concat (map entry_bytes es) @ rest)
    = and_then (dispatch known u s' es) (\<lambda>r. Ok (r, rest))" for u s'
    using Cons.prems by (intro Cons.IH) (auto simp: e)
  have t: "\<not> (case last_tag of None \<Rightarrow> False | Some prev \<Rightarrow> t \<le> prev)"
    using Cons.prems(3) by (auto simp: e not_le split: option.splits)
  have n: "unat (of_nat (length payload) :: u32) = length payload"
    using Cons.prems(2) by (simp add: e unat_of_nat_u32)
  have eb: "entry_bytes (t, payload) = uv_bytes t @ uv_bytes (of_nat (length payload) :: u32) @ payload"
    by (simp add: entry_bytes_def)
  show ?case
    using t by (cases "known s t payload")
      (auto simp: e eb read_then_def take_bytes_def n IH read_err_def
        split: prod.splits)
qed

lemma read_trailer:
  assumes "sorted_wrt (<) (map fst es)" and "trailer_wf es"
  shows "read_tagged_fields known s (trailer_bytes es @ rest)
    = and_then (dispatch known [] s es) (\<lambda>r. Ok (r, rest))"
  using assms
  by (simp add: read_tagged_fields_def trailer_bytes_def read_then_def trailer_wf_def
      unat_of_nat_u32 read_trailer_loop)

section \<open>Exact size\<close>

lemma length_uv_bytes_of_nat:
  "n < 2 ^ 32 \<Longrightarrow> length (uv_bytes (of_nat n :: u32)) = usize_uvarint_len n"
  by (simp add: usize_uvarint_len_eq uvarint_len_eq)

lemma length_entry_bytes:
  "length (snd e) < 2 ^ 32 \<Longrightarrow>
   length (entry_bytes e) = uvarint_len (fst e) + usize_uvarint_len (length (snd e)) + length (snd e)"
  by (simp add: entry_bytes_def uvarint_len_eq length_uv_bytes_of_nat)

definition payload_sizes :: "(u32 \<times> bytes) list \<Rightarrow> (u32 \<times> nat) list" where
  "payload_sizes es = map (\<lambda>(t, p). (t, length p)) es"

lemma sum_list_mset_cong:
  "mset xs = mset ys \<Longrightarrow> (\<Sum>x \<leftarrow> xs. f x :: nat) = (\<Sum>y \<leftarrow> ys. f y)"
  by (metis mset_map sum_mset_sum_list)

lemma tagged_fields_len_exact:
  assumes es: "es = sort_key fst (entries w @ map (\<lambda>u. (uf_tag u, uf_bytes u)) unknown)"
    and wf: "trailer_wf es"
  shows "length (trailer_bytes es) = tagged_fields_len (payload_sizes (entries w)) unknown"
proof -
  let ?size = "\<lambda>e. uvarint_len (fst e) + usize_uvarint_len (length (snd e)) + length (snd e)"
  let ?all = "entries w @ map (\<lambda>u. (uf_tag u, uf_bytes u)) unknown"
  have n: "length es = length (entries w) + length unknown"
    by (simp add: es)
  have "length (concat (map entry_bytes es)) = (\<Sum>e \<leftarrow> es. length (entry_bytes e))"
    by (simp add: length_concat comp_def)
  also have "\<dots> = (\<Sum>e \<leftarrow> es. ?size e)"
    using wf by (intro arg_cong[of _ _ sum_list] map_cong refl) (simp add: length_entry_bytes trailer_wf_def)
  also have "\<dots> = (\<Sum>e \<leftarrow> ?all. ?size e)"
    by (rule sum_list_mset_cong) (simp add: es)
  finally have body: "length (concat (map entry_bytes es)) = (\<Sum>e \<leftarrow> ?all. ?size e)" .
  have "length (uv_bytes (of_nat (length es) :: u32)) = usize_uvarint_len (length es)"
    using wf by (simp add: length_uv_bytes_of_nat trailer_wf_def)
  then show ?thesis
    using body n
    by (simp add: trailer_bytes_def tagged_fields_len_def payload_sizes_def comp_def split_beta)
qed

section \<open>What the reader returns\<close>

definition unknown_wf :: "UnknownTaggedFields \<Rightarrow> bool" where
  "unknown_wf u \<longleftrightarrow> sorted_wrt (<) (map uf_tag u) \<and> length u < 2 ^ 32
     \<and> (\<forall>x \<in> set u. length (uf_bytes x) < 2 ^ 32)"

lemma extends_read_tagged_loop: "extends_input (read_tagged_loop known n last_tag unknown s)"
proof (induction n arbitrary: last_tag unknown s)
  case (Suc n)
  show ?case
    unfolding read_tagged_loop.simps
    by (intro extends_rules uvarint.codec_extends)
      (simp split: sum.splits prod.splits add: Suc.IH extends_err)
qed (simp add: extends_ok)

lemma extends_read_tagged_fields [extends_rules]: "extends_input (read_tagged_fields known s)"
  unfolding read_tagged_fields_def
  by (intro extends_rules uvarint.codec_extends extends_read_tagged_loop)

text \<open>The unknown entries a loop adds: at most one per round, ascending and above the last tag.\<close>

definition collected :: "nat \<Rightarrow> u32 option \<Rightarrow> UnknownTaggedFields \<Rightarrow> UnknownTaggedFields \<Rightarrow> bool" where
  "collected n last_tag unknown u \<longleftrightarrow>
     (\<exists>new. u = unknown @ new \<and> length new \<le> n \<and> sorted_wrt (<) (map uf_tag new)
        \<and> (\<forall>x \<in> set new. length (uf_bytes x) < 2 ^ 32 \<and> (\<forall>prev. last_tag = Some prev \<longrightarrow> prev < uf_tag x)))"

lemma collected_skip:
  assumes "collected n (Some t) unknown u" and "\<And>prev. last_tag = Some prev \<Longrightarrow> prev < t"
  shows "collected (Suc n) last_tag unknown u"
  using assms unfolding collected_def by (fastforce intro: less_trans)

lemma collected_keep:
  assumes "collected n (Some t) (unknown @ [\<lparr>uf_tag = t, uf_bytes = p\<rparr>]) u" and "length p < 2 ^ 32"
    and "\<And>prev. last_tag = Some prev \<Longrightarrow> prev < t"
  shows "collected (Suc n) last_tag unknown u"
proof -
  obtain new where new: "u = unknown @ \<lparr>uf_tag = t, uf_bytes = p\<rparr> # new" "length new \<le> n"
    "sorted_wrt (<) (map uf_tag new)" "\<forall>x \<in> set new. length (uf_bytes x) < 2 ^ 32 \<and> t < uf_tag x"
    using assms(1) by (auto simp: collected_def)
  then show ?thesis
    using assms(2,3) unfolding collected_def
    by (intro exI[of _ "\<lparr>uf_tag = t, uf_bytes = p\<rparr> # new"]) (auto intro: less_trans)
qed

lemma yields_read_tagged_loop:
  "yields 0 (read_tagged_loop known n last_tag unknown s) (\<lambda>(u, s'). collected n last_tag unknown u)"
proof (induction n arbitrary: last_tag unknown s)
  case 0
  then show ?case by (simp add: yields_ok collected_def)
next
  case (Suc n)
  have step: "yields 0 (case known s t p of
             Err e \<Rightarrow> read_err e
           | Ok ((recognised, s'), left) \<Rightarrow>
               if \<not> recognised
               then read_tagged_loop known n (Some t)
                      (unknown @ [\<lparr>uf_tag = t, uf_bytes = p\<rparr>]) s'
               else if left \<noteq> []
               then read_err (InvalidValue ''tagged field decoder did not consume all bytes'')
               else read_tagged_loop known n (Some t) unknown s')
       (\<lambda>(u, s'). collected (Suc n) last_tag unknown u)"
    if "\<And>prev. last_tag = Some prev \<Longrightarrow> prev < t" and "length p < 2 ^ 32" for t p
    using that
    by (auto split: sum.splits prod.splits intro!: yields_err yields_mono[OF Suc.IH]
        intro: collected_skip collected_keep)
  have size: "unat (n :: u32) < 4294967296" for n
    using unat_word_less[of n] by simp
  show ?case
    unfolding read_tagged_loop.simps
    by (intro yields_weaken[OF yields_then_0[OF uvarint.codec_yields] zero_le] yields_if yields_err
        yields_weaken[OF yields_then_0[OF yields_take_bytes] zero_le] step)
      (auto simp: size)
qed

lemma yields_read_tagged_fields [yields_rules]:
  "yields 1 (read_tagged_fields known s) (\<lambda>(u, s'). unknown_wf u)"
  unfolding read_tagged_fields_def
proof (rule yields_then_0[OF uvarint.codec_yields])
  fix count :: u32
  have "unat count < 2 ^ 32"
    using unat_word_less[of count] by simp
  then show "yields 0 (read_tagged_loop known (unat count) None [] s) (\<lambda>(u, s'). unknown_wf u)"
    by (intro yields_mono[OF yields_read_tagged_loop]) (auto simp: collected_def unknown_wf_def)
qed

section \<open>Properties\<close>

text \<open>
  C10: reading the trailer bytes of ascending entries refines the byte-free \<open>dispatch\<close>: for every
  closure of known tags the reader hands each payload to the closure in order, keeps what the
  closure does not recognise, fails where the closure fails or leaves bytes behind, and leaves
  the rest of the input.
\<close>

theorem tagged_reader_refines_dispatch:
  assumes "sorted_wrt (<) (map fst es)" and "length es < 2 ^ 32"
    and "\<forall>e \<in> set es. length (snd e) < 2 ^ 32"
  shows "read_tagged_fields known s (trailer_bytes es @ rest)
    = and_then (dispatch known [] s es) (\<lambda>r. Ok (r, rest))"
  using assms by (intro read_trailer) (simp_all add: trailer_wf_def)

theorem tagged_reader_refines_dispatch_witness:
  "read_tagged_fields (\<lambda>s tag. read_ok (False, s + tag)) 1 (trailer_bytes [(2, [7]), (5, [])] @ [9])
    = and_then (dispatch (\<lambda>s tag. read_ok (False, s + tag)) [] 1 [(2, [7]), (5, [])]) (\<lambda>r. Ok (r, [9]))"
  by (rule tagged_reader_refines_dispatch) simp_all

text \<open>
  The writer merges the known entries with the unknown ones into one ascending trailer of
  exactly the predicted size.
\<close>

theorem tagged_writer_exact:
  assumes "es = sort_key fst (entries w @ map (\<lambda>u. (uf_tag u, uf_bytes u)) unknown)"
    and "length es < 2 ^ 32" and "\<forall>e \<in> set es. length (snd e) < 2 ^ 32"
  shows "write_tagged w unknown buf = Ok (buf @ trailer_bytes es)
    \<and> length (trailer_bytes es) = tagged_fields_len (map (\<lambda>(t, p). (t, length p)) (entries w)) unknown
    \<and> sorted (map fst es)"
proof -
  have "trailer_wf es"
    using assms(2,3) by (simp add: trailer_wf_def)
  then show ?thesis
    using producesD[OF write_tagged_produces[OF assms(1)]] tagged_fields_len_exact[OF assms(1)]
    by (simp add: assms(1) payload_sizes_def)
qed

theorem tagged_writer_exact_witness:
  "write_tagged \<lparr>entries = [(3, [1, 2])]\<rparr> [\<lparr>uf_tag = 1, uf_bytes = [9]\<rparr>] []
     = Ok ([] @ trailer_bytes [(1, [9]), (3, [1, 2])])"
  by (rule conjunct1[OF tagged_writer_exact]) (simp_all add: word_le_nat_alt)

text \<open>
  The unknown fields that any read returns are strictly ascending by tag, whatever the bytes
  and the closure.
\<close>

theorem tagged_reader_ascending:
  assumes "read_tagged_fields known s buf = Ok ((u, s'), rest)"
  shows "sorted_wrt (<) (map uf_tag u)"
  using yieldsD(1)[OF yields_read_tagged_fields assms] by (simp add: unknown_wf_def)

theorem tagged_reader_ascending_witness:
  "sorted_wrt (<) (map uf_tag [\<lparr>uf_tag = 1, uf_bytes = [7]\<rparr>, \<lparr>uf_tag = 4, uf_bytes = []\<rparr>])"
  by (rule tagged_reader_ascending[of "\<lambda>s tag. read_ok (False, s)" "0 :: nat"
        "trailer_bytes [(1, [7]), (4, [])] @ [8]" _ 0 "[8]"])
    (subst read_trailer, simp_all add: trailer_wf_def read_ok_def)

end
