(* ===== verification/KrabkaCommon.thy ===== *)
theory KrabkaCommon
  imports TaggedFields
begin

text \<open>
  The framing that the krabka-private messages share, \<open>crates/protocol/src/krabka/common.rs\<close>:
  the version check, compact arrays of structs and of strings, and the tagged-fields trailer
  with no known tag. The element type of \<open>encode_array\<close> is a type that implements \<open>Encode\<close>; its
  methods are arguments here, and their contract is the locale \<open>message_codec\<close>.
\<close>

section \<open>Operations\<close>

definition FLEXIBLE :: bool where
  "FLEXIBLE = True"

definition BOOL_LEN :: nat where
  "BOOL_LEN = 1"

definition I8_LEN :: nat where
  "I8_LEN = 1"

definition I16_LEN :: nat where
  "I16_LEN = 2"

definition I32_LEN :: nat where
  "I32_LEN = 4"

definition I64_LEN :: nat where
  "I64_LEN = 8"

definition UUID_LEN :: nat where
  "UUID_LEN = 16"

definition check_version :: "i16 \<Rightarrow> i16 \<Rightarrow> i16 \<Rightarrow> i16 \<Rightarrow> unit wire_result" where
  "check_version api_key version mn mx =
     (if mn \<le>s version \<and> version \<le>s mx then Ok () else Err (UnsupportedVersion api_key version))"

text \<open>The \<open>for\<close> loop that pushes \<open>count\<close> decoded items.\<close>

fun read_times :: "nat \<Rightarrow> 'a decoder \<Rightarrow> 'a list decoder" where
  "read_times 0 item = read_ok []"
| "read_times (Suc n) item =
     read_then item (\<lambda>x. read_then (read_times n item) (\<lambda>xs. read_ok (x # xs)))"

definition encode_array :: "('a \<Rightarrow> i16 \<Rightarrow> encoder) \<Rightarrow> 'a list \<Rightarrow> i16 \<Rightarrow> encoder" where
  "encode_array encode items version =
     write_all (put_array_len (length items) FLEXIBLE # map (\<lambda>item. encode item version) items)"

definition decode_array :: "(i16 \<Rightarrow> 'a decoder) \<Rightarrow> i16 \<Rightarrow> 'a list decoder" where
  "decode_array decode version =
     read_then (get_array_len FLEXIBLE) (\<lambda>count. read_times count (decode version))"

definition array_len :: "('a \<Rightarrow> i16 \<Rightarrow> nat) \<Rightarrow> 'a list \<Rightarrow> i16 \<Rightarrow> nat" where
  "array_len encoded_len items version =
     array_len_prefix_len (length items) FLEXIBLE + (\<Sum>item \<leftarrow> items. encoded_len item version)"

definition encode_string_array :: "bytes list \<Rightarrow> encoder" where
  "encode_string_array items =
     write_all (put_array_len (length items) FLEXIBLE # map put_compact_string items)"

definition decode_string_array :: "bytes list decoder" where
  "decode_string_array =
     read_then (get_array_len FLEXIBLE) (\<lambda>count. read_times count get_compact_string_owned)"

definition string_array_len :: "bytes list \<Rightarrow> nat" where
  "string_array_len items =
     array_len_prefix_len (length items) FLEXIBLE + (\<Sum>item \<leftarrow> items. compact_string_len item)"

definition write_unknown_tagged_fields :: "UnknownTaggedFields \<Rightarrow> encoder" where
  "write_unknown_tagged_fields unknown = write_tagged WriteTaggedFields_new unknown"

text \<open>The closure \<open>|_tag, _payload| Ok(false)\<close>.\<close>

definition no_known :: "unit known_fields" where
  "no_known s tag = read_ok (False, s)"

definition read_unknown_tagged_fields :: "UnknownTaggedFields decoder" where
  "read_unknown_tagged_fields =
     read_then (read_tagged_fields no_known ()) (\<lambda>(unknown, s). read_ok unknown)"

definition unknown_tagged_fields_len :: "UnknownTaggedFields \<Rightarrow> nat" where
  "unknown_tagged_fields_len unknown = tagged_fields_len [] unknown"

section \<open>Versions\<close>

lemma check_version_0 [simp]: "check_version api_key version 0 0 = Ok () \<longleftrightarrow> version = 0"
  by (auto simp: check_version_def word_sle_eq intro: signed_word_eqI)

lemma check_version_refuses:
  "version \<noteq> 0 \<Longrightarrow> check_version api_key version 0 0 = Err (UnsupportedVersion api_key version)"
  using check_version_0[of api_key version] by (auto simp: check_version_def)

section \<open>Arrays\<close>

definition array_wf :: "('a \<Rightarrow> bool) \<Rightarrow> 'a list \<Rightarrow> bool" where
  "array_wf ok xs \<longleftrightarrow> length xs + 1 < 2 ^ 32 \<and> list_all ok xs"

locale protocol_codec = wire_codec enc dec len wf
  for enc :: "'a \<Rightarrow> encoder" and dec :: "'a decoder" and len :: "'a \<Rightarrow> nat" and wf :: "'a \<Rightarrow> bool"
begin

lemma items_carry:
  assumes "list_all wf xs"
  shows "\<exists>bs. produces (write_all (map enc xs)) bs \<and> reads (read_times (length xs) dec) bs xs
    \<and> length bs = (\<Sum>x \<leftarrow> xs. len x) \<and> length xs \<le> length bs"
  using assms
proof (induction xs)
  case Nil
  then show ?case by (simp add: produces_def reads_def read_ok_def)
next
  case (Cons x xs)
  then obtain bs where bs: "produces (write_all (map enc xs)) bs"
    "reads (read_times (length xs) dec) bs xs" "length bs = (\<Sum>x \<leftarrow> xs. len x)" "length xs \<le> length bs"
    by auto
  obtain b where b: "produces (enc x) b" "reads dec b x" "length b = len x"
    using codec_carries[of x] Cons.prems by (auto elim: carriesE)
  have "reads (read_times (length (x # xs)) dec) (b @ bs) (x # xs)"
    using b(2) bs(2) by (simp add: reads_def read_then_def read_ok_def)
  moreover have "produces (write_all (map enc (x # xs))) (b @ bs)"
    unfolding list.map using b(1) bs(1) by (rule produces_Cons)
  ultimately show ?case
    using b(3) bs(3,4) len_pos[of x] Cons.prems
    by (intro exI[of _ "b @ bs"]) (simp del: write_all.simps)
qed

lemma array_carries:
  assumes "array_wf wf xs"
  shows "carries (write_all (put_array_len (length xs) FLEXIBLE # map enc xs))
    (read_then (get_array_len FLEXIBLE) (\<lambda>n. read_times n dec))
    (array_len_prefix_len (length xs) FLEXIBLE + (\<Sum>x \<leftarrow> xs. len x)) xs"
proof -
  obtain bs where bs: "produces (write_all (map enc xs)) bs"
    "reads (read_times (length xs) dec) bs xs" "length bs = (\<Sum>x \<leftarrow> xs. len x)" "length xs \<le> length bs"
    using items_carry assms unfolding array_wf_def by metis
  have "array_len_wf FLEXIBLE (length xs)"
    using assms by (simp add: array_wf_def array_len_wf_def FLEXIBLE_def)
  then obtain p where p: "produces (put_array_len (length xs) FLEXIBLE) p"
    "length p = array_len_prefix_len (length xs) FLEXIBLE"
    "\<forall>rest. length xs \<le> length rest \<longrightarrow> get_array_len FLEXIBLE (p @ rest) = Ok (length xs, rest)"
    by (rule array_len_round_trip) simp
  show ?thesis
  proof (rule carriesI[of _ "p @ bs"])
    show "produces (write_all (put_array_len (length xs) FLEXIBLE # map enc xs)) (p @ bs)"
      using p(1) bs(1) by (rule produces_Cons)
    show "reads (read_then (get_array_len FLEXIBLE) (\<lambda>n. read_times n dec)) (p @ bs) xs"
      using p(3) bs(2,4) by (simp add: reads_def read_then_def)
  qed (simp add: p(2) bs(3))
qed

lemma items_yield: "yields 0 (read_times n dec) (\<lambda>xs. length xs = n \<and> list_all wf xs)"
proof (induction n)
  case (Suc n)
  show ?case
    unfolding read_times.simps
    by (rule yields_weaken[OF yields_then_0[OF codec_yields] zero_le], rule yields_then_0[OF Suc.IH])
      (simp add: yields_ok)
qed (simp add: yields_ok)

lemma array_yields:
  "yields 1 (read_then (get_array_len FLEXIBLE) (\<lambda>n. read_times n dec)) (array_wf wf)"
  by (rule yields_then_0[OF yields_get_array_len], rule yields_mono[OF items_yield])
    (simp add: array_wf_def array_len_wf_def FLEXIBLE_def)

lemma items_extend: "extends_input (read_times n dec)"
  by (induction n) (auto intro: extends_rules codec_extends)

lemma array_extends:
  "extends_input (read_then (get_array_len FLEXIBLE) (\<lambda>n. read_times n dec))"
  by (intro extends_rules items_extend)

end

text \<open>
  A type with \<open>Encode\<close> and \<open>Decode\<close> at one version. Every such type can be the element of a
  compact array, and the array satisfies the contract again.
\<close>

locale message_codec =
  fixes encode :: "'a \<Rightarrow> i16 \<Rightarrow> encoder"
    and decode :: "i16 \<Rightarrow> 'a decoder"
    and encoded_len :: "'a \<Rightarrow> i16 \<Rightarrow> nat"
    and wf :: "'a \<Rightarrow> bool"
    and version :: i16
  assumes message_carries: "wf x \<Longrightarrow> carries (encode x version) (decode version) (encoded_len x version) x"
    and message_yields: "yields 1 (decode version) wf"
    and message_extends: "extends_input (decode version)"

sublocale message_codec \<subseteq> item: protocol_codec
  "\<lambda>x. encode x version" "decode version" "\<lambda>x. encoded_len x version" wf
  by unfold_locales (rule message_carries message_yields message_extends; assumption?)+

sublocale message_codec \<subseteq> array: wire_codec
  "\<lambda>xs. encode_array encode xs version" "decode_array decode version"
  "\<lambda>xs. array_len encoded_len xs version" "array_wf wf"
  by unfold_locales (simp_all only: encode_array_def decode_array_def array_len_def item.array_carries
      item.array_yields item.array_extends)

interpretation string_item: protocol_codec
  put_compact_string get_compact_string_owned compact_string_len compact_string_wf
  by unfold_locales

interpretation string_array: wire_codec
  encode_string_array decode_string_array string_array_len "array_wf compact_string_wf"
  by unfold_locales (simp_all only: encode_string_array_def decode_string_array_def
      string_array_len_def string_item.array_carries string_item.array_yields string_item.array_extends)

section \<open>The trailer\<close>

lemma dispatch_unknown:
  "dispatch no_known u s es =
     Ok (u @ map (\<lambda>e. \<lparr>uf_tag = fst e, uf_bytes = snd e\<rparr>) es, s)"
  by (induction es arbitrary: u) (auto simp: read_ok_def no_known_def)

interpretation unknown_fields: wire_codec
  write_unknown_tagged_fields read_unknown_tagged_fields unknown_tagged_fields_len unknown_wf
proof
  fix u :: UnknownTaggedFields
  assume wf: "unknown_wf u"
  let ?es = "map (\<lambda>x. (uf_tag x, uf_bytes x)) u"
  have asc: "sorted_wrt (<) (map fst ?es)"
    using wf by (simp add: unknown_wf_def comp_def)
  then have "sorted (map fst ?es)"
    by (rule strict_sorted_imp_sorted)
  then have es: "?es = sort_key fst (entries WriteTaggedFields_new @ ?es)"
    by (simp add: WriteTaggedFields_new_def sort_key_id_if_sorted)
  have t: "trailer_wf ?es"
    using wf by (auto simp: unknown_wf_def trailer_wf_def)
  show "carries (write_unknown_tagged_fields u) read_unknown_tagged_fields
    (unknown_tagged_fields_len u) u"
  proof (rule carriesI)
    show "produces (write_unknown_tagged_fields u) (trailer_bytes ?es)"
      using write_tagged_produces[OF es t] by (simp add: write_unknown_tagged_fields_def)
    have "map (\<lambda>e. \<lparr>uf_tag = fst e, uf_bytes = snd e\<rparr>) ?es = u"
      by (induction u) simp_all
    then show "reads read_unknown_tagged_fields (trailer_bytes ?es) u"
      by (simp add: read_trailer[OF asc t] reads_def read_unknown_tagged_fields_def read_then_def dispatch_unknown read_ok_def)
    show "length (trailer_bytes ?es) = unknown_tagged_fields_len u"
      using tagged_fields_len_exact[OF es t]
      by (simp add: unknown_tagged_fields_len_def WriteTaggedFields_new_def payload_sizes_def)
  qed
next
  show "yields 1 read_unknown_tagged_fields unknown_wf"
    unfolding read_unknown_tagged_fields_def
    by (rule yields_then_0[OF yields_read_tagged_fields]) (auto intro: yields_ok)
next
  show "extends_input read_unknown_tagged_fields"
    unfolding read_unknown_tagged_fields_def
    by (intro extends_rules) (auto intro: extends_ok)
qed

section \<open>Rules for message codecs\<close>

text \<open>
  The contracts of the field codecs go into the three collections of the reader calculus, and the
  version ranges of the message modules into \<open>version_bounds\<close>. A message codec then satisfies its
  contract by these collections alone.
\<close>

named_theorems version_bounds

lemmas field_lens = BOOL_LEN_def I8_LEN_def I16_LEN_def I32_LEN_def I64_LEN_def UUID_LEN_def

lemmas [carries_rules] =
  bool.codec_carries i8.codec_carries i16.codec_carries i32.codec_carries i64.codec_carries
  uuid.codec_carries compact_string.codec_carries compact_nullable_string.codec_carries
  compact_bytes.codec_carries string_array.codec_carries unknown_fields.codec_carries

lemmas [yields_rules] =
  bool.codec_yields i8.codec_yields i16.codec_yields i32.codec_yields i64.codec_yields
  uuid.codec_yields compact_string.codec_yields compact_nullable_string.codec_yields
  compact_bytes.codec_yields string_array.codec_yields unknown_fields.codec_yields

lemmas [extends_rules] =
  bool.codec_extends i8.codec_extends i16.codec_extends i32.codec_extends i64.codec_extends
  uuid.codec_extends compact_string.codec_extends compact_nullable_string.codec_extends
  compact_bytes.codec_extends string_array.codec_extends unknown_fields.codec_extends

text \<open>The constants of \<open>ProtocolRequest\<close>.\<close>

record protocol_request =
  api_key :: i16
  min_version :: i16
  max_version :: i16
  latest_stable_version :: i16
  flexible_min :: i16

end
