(* ===== verification/BarrierMessages.thy ===== *)
theory BarrierMessages
  imports KrabkaCommon
begin

text \<open>
  The control-plane messages of the cross-topic barrier groups, one section per module of
  \<open>crates/protocol/src/krabka/barrier/\<close>. Each struct is a record, with the initials of the struct
  before its field names; \<open>encode\<close>, \<open>encoded_len\<close> and \<open>decode\<close> list the fields in the order of
  the source. The messages exist at version 0 only, so their contract is stated there; a struct
  that occurs inside a message has no version check and satisfies it at every version.
\<close>

section \<open>Cuts\<close>

definition CUT_STATUS_COMPLETE :: i8 where
  "CUT_STATUS_COMPLETE = 0"

definition CUT_STATUS_PARTIAL :: i8 where
  "CUT_STATUS_PARTIAL = 1"

record BarrierCutPartition =
  bcp_partition :: i32
  bcp_offset :: i64
  bcp_unknown_tagged_fields :: UnknownTaggedFields

definition BarrierCutPartition_encode :: "BarrierCutPartition \<Rightarrow> i16 \<Rightarrow> encoder" where
  "BarrierCutPartition_encode x version =
     write_all
       [put_i32 (bcp_partition x),
        put_i64 (bcp_offset x),
        write_unknown_tagged_fields (bcp_unknown_tagged_fields x)]"

definition BarrierCutPartition_encoded_len :: "BarrierCutPartition \<Rightarrow> i16 \<Rightarrow> nat" where
  "BarrierCutPartition_encoded_len x version =
     I32_LEN
     + I64_LEN
     + unknown_tagged_fields_len (bcp_unknown_tagged_fields x)"

definition BarrierCutPartition_decode :: "i16 \<Rightarrow> BarrierCutPartition decoder" where
  "BarrierCutPartition_decode version =
     read_then get_i32 (\<lambda>partition.
     read_then get_i64 (\<lambda>offset.
     read_then read_unknown_tagged_fields (\<lambda>unknown_tagged_fields.
     read_ok \<lparr>bcp_partition = partition, bcp_offset = offset,
       bcp_unknown_tagged_fields = unknown_tagged_fields\<rparr>)))"

definition BarrierCutPartition_wf :: "BarrierCutPartition \<Rightarrow> bool" where
  "BarrierCutPartition_wf x \<longleftrightarrow>
     unknown_wf (bcp_unknown_tagged_fields x)"

interpretation barrier_cut_partition: message_codec
  BarrierCutPartition_encode BarrierCutPartition_decode
  BarrierCutPartition_encoded_len BarrierCutPartition_wf version
  for version
proof
  fix x
  show "BarrierCutPartition_wf x \<Longrightarrow>
    carries (BarrierCutPartition_encode x version) (BarrierCutPartition_decode version)
      (BarrierCutPartition_encoded_len x version) x"
    unfolding BarrierCutPartition_encode_def BarrierCutPartition_decode_def
      BarrierCutPartition_encoded_len_def BarrierCutPartition_wf_def
    by (rule carries_cong_len, (rule carries_rules | simp add: field_lens version_bounds)+)
  show "yields 1 (BarrierCutPartition_decode version) BarrierCutPartition_wf"
    unfolding BarrierCutPartition_decode_def BarrierCutPartition_wf_def
    by (rule yields_weaken, (rule yields_rules | simp)+)
  show "extends_input (BarrierCutPartition_decode version)"
    unfolding BarrierCutPartition_decode_def by (intro extends_rules)
qed

lemmas [carries_rules] = barrier_cut_partition.array.codec_carries
lemmas [yields_rules] = barrier_cut_partition.array.codec_yields
lemmas [extends_rules] = barrier_cut_partition.array.codec_extends

record BarrierCutTopic =
  bct_topic :: bytes
  bct_partitions :: "BarrierCutPartition list"
  bct_unknown_tagged_fields :: UnknownTaggedFields

definition BarrierCutTopic_encode :: "BarrierCutTopic \<Rightarrow> i16 \<Rightarrow> encoder" where
  "BarrierCutTopic_encode x version =
     write_all
       [put_compact_string (bct_topic x),
        encode_array BarrierCutPartition_encode (bct_partitions x) version,
        write_unknown_tagged_fields (bct_unknown_tagged_fields x)]"

definition BarrierCutTopic_encoded_len :: "BarrierCutTopic \<Rightarrow> i16 \<Rightarrow> nat" where
  "BarrierCutTopic_encoded_len x version =
     compact_string_len (bct_topic x)
     + array_len BarrierCutPartition_encoded_len (bct_partitions x) version
     + unknown_tagged_fields_len (bct_unknown_tagged_fields x)"

definition BarrierCutTopic_decode :: "i16 \<Rightarrow> BarrierCutTopic decoder" where
  "BarrierCutTopic_decode version =
     read_then get_compact_string_owned (\<lambda>topic.
     read_then (decode_array BarrierCutPartition_decode version) (\<lambda>partitions.
     read_then read_unknown_tagged_fields (\<lambda>unknown_tagged_fields.
     read_ok \<lparr>bct_topic = topic, bct_partitions = partitions,
       bct_unknown_tagged_fields = unknown_tagged_fields\<rparr>)))"

definition BarrierCutTopic_wf :: "BarrierCutTopic \<Rightarrow> bool" where
  "BarrierCutTopic_wf x \<longleftrightarrow>
     compact_string_wf (bct_topic x)
     \<and> array_wf BarrierCutPartition_wf (bct_partitions x)
     \<and> unknown_wf (bct_unknown_tagged_fields x)"

interpretation barrier_cut_topic: message_codec
  BarrierCutTopic_encode BarrierCutTopic_decode
  BarrierCutTopic_encoded_len BarrierCutTopic_wf version
  for version
proof
  fix x
  show "BarrierCutTopic_wf x \<Longrightarrow>
    carries (BarrierCutTopic_encode x version) (BarrierCutTopic_decode version)
      (BarrierCutTopic_encoded_len x version) x"
    unfolding BarrierCutTopic_encode_def BarrierCutTopic_decode_def
      BarrierCutTopic_encoded_len_def BarrierCutTopic_wf_def
    by (rule carries_cong_len, (rule carries_rules | simp add: field_lens version_bounds)+)
  show "yields 1 (BarrierCutTopic_decode version) BarrierCutTopic_wf"
    unfolding BarrierCutTopic_decode_def BarrierCutTopic_wf_def
    by (rule yields_weaken, (rule yields_rules | simp)+)
  show "extends_input (BarrierCutTopic_decode version)"
    unfolding BarrierCutTopic_decode_def by (intro extends_rules)
qed

lemmas [carries_rules] = barrier_cut_topic.array.codec_carries
lemmas [yields_rules] = barrier_cut_topic.array.codec_yields
lemmas [extends_rules] = barrier_cut_topic.array.codec_extends

record BarrierMissingPartition =
  bmp_topic :: bytes
  bmp_partition :: i32
  bmp_unknown_tagged_fields :: UnknownTaggedFields

definition BarrierMissingPartition_encode :: "BarrierMissingPartition \<Rightarrow> i16 \<Rightarrow> encoder" where
  "BarrierMissingPartition_encode x version =
     write_all
       [put_compact_string (bmp_topic x),
        put_i32 (bmp_partition x),
        write_unknown_tagged_fields (bmp_unknown_tagged_fields x)]"

definition BarrierMissingPartition_encoded_len :: "BarrierMissingPartition \<Rightarrow> i16 \<Rightarrow> nat" where
  "BarrierMissingPartition_encoded_len x version =
     compact_string_len (bmp_topic x)
     + I32_LEN
     + unknown_tagged_fields_len (bmp_unknown_tagged_fields x)"

definition BarrierMissingPartition_decode :: "i16 \<Rightarrow> BarrierMissingPartition decoder" where
  "BarrierMissingPartition_decode version =
     read_then get_compact_string_owned (\<lambda>topic.
     read_then get_i32 (\<lambda>partition.
     read_then read_unknown_tagged_fields (\<lambda>unknown_tagged_fields.
     read_ok \<lparr>bmp_topic = topic, bmp_partition = partition,
       bmp_unknown_tagged_fields = unknown_tagged_fields\<rparr>)))"

definition BarrierMissingPartition_wf :: "BarrierMissingPartition \<Rightarrow> bool" where
  "BarrierMissingPartition_wf x \<longleftrightarrow>
     compact_string_wf (bmp_topic x)
     \<and> unknown_wf (bmp_unknown_tagged_fields x)"

interpretation barrier_missing_partition: message_codec
  BarrierMissingPartition_encode BarrierMissingPartition_decode
  BarrierMissingPartition_encoded_len BarrierMissingPartition_wf version
  for version
proof
  fix x
  show "BarrierMissingPartition_wf x \<Longrightarrow>
    carries (BarrierMissingPartition_encode x version) (BarrierMissingPartition_decode version)
      (BarrierMissingPartition_encoded_len x version) x"
    unfolding BarrierMissingPartition_encode_def BarrierMissingPartition_decode_def
      BarrierMissingPartition_encoded_len_def BarrierMissingPartition_wf_def
    by (rule carries_cong_len, (rule carries_rules | simp add: field_lens version_bounds)+)
  show "yields 1 (BarrierMissingPartition_decode version) BarrierMissingPartition_wf"
    unfolding BarrierMissingPartition_decode_def BarrierMissingPartition_wf_def
    by (rule yields_weaken, (rule yields_rules | simp)+)
  show "extends_input (BarrierMissingPartition_decode version)"
    unfolding BarrierMissingPartition_decode_def by (intro extends_rules)
qed

lemmas [carries_rules] = barrier_missing_partition.array.codec_carries
lemmas [yields_rules] = barrier_missing_partition.array.codec_yields
lemmas [extends_rules] = barrier_missing_partition.array.codec_extends

section \<open>AlterBarrierGroups\<close>

definition alter_barrier_groups_API_KEY :: i16 where
  "alter_barrier_groups_API_KEY = 1010"

definition alter_barrier_groups_MIN_VERSION :: i16 where
  [version_bounds]: "alter_barrier_groups_MIN_VERSION = 0"

definition alter_barrier_groups_MAX_VERSION :: i16 where
  [version_bounds]: "alter_barrier_groups_MAX_VERSION = 0"

definition alter_barrier_groups_FLEXIBLE_MIN :: i16 where
  "alter_barrier_groups_FLEXIBLE_MIN = 0"

definition alter_barrier_groups_is_flexible :: "i16 \<Rightarrow> bool" where
  "alter_barrier_groups_is_flexible version \<longleftrightarrow> alter_barrier_groups_FLEXIBLE_MIN \<le>s version"

record AlterableBarrierGroup =
  abg_group :: bytes
  abg_topics :: "bytes list"
  abg_interval_ms :: i64
  abg_retained_cuts :: i32
  abg_delete :: bool
  abg_unknown_tagged_fields :: UnknownTaggedFields

definition AlterableBarrierGroup_default :: AlterableBarrierGroup where
  "AlterableBarrierGroup_default =
     \<lparr>abg_group = [],
       abg_topics = [],
       abg_interval_ms = - 1,
       abg_retained_cuts = 0,
       abg_delete = False,
       abg_unknown_tagged_fields = []\<rparr>"

definition AlterableBarrierGroup_encode :: "AlterableBarrierGroup \<Rightarrow> i16 \<Rightarrow> encoder" where
  "AlterableBarrierGroup_encode x version =
     write_all
       [put_compact_string (abg_group x),
        encode_string_array (abg_topics x),
        put_i64 (abg_interval_ms x),
        put_i32 (abg_retained_cuts x),
        put_bool (abg_delete x),
        write_unknown_tagged_fields (abg_unknown_tagged_fields x)]"

definition AlterableBarrierGroup_encoded_len :: "AlterableBarrierGroup \<Rightarrow> i16 \<Rightarrow> nat" where
  "AlterableBarrierGroup_encoded_len x version =
     compact_string_len (abg_group x)
     + string_array_len (abg_topics x)
     + I64_LEN
     + I32_LEN
     + BOOL_LEN
     + unknown_tagged_fields_len (abg_unknown_tagged_fields x)"

definition AlterableBarrierGroup_decode :: "i16 \<Rightarrow> AlterableBarrierGroup decoder" where
  "AlterableBarrierGroup_decode version =
     read_then get_compact_string_owned (\<lambda>group.
     read_then decode_string_array (\<lambda>topics.
     read_then get_i64 (\<lambda>interval_ms.
     read_then get_i32 (\<lambda>retained_cuts.
     read_then get_bool (\<lambda>delete.
     read_then read_unknown_tagged_fields (\<lambda>unknown_tagged_fields.
     read_ok \<lparr>abg_group = group, abg_topics = topics, abg_interval_ms = interval_ms,
       abg_retained_cuts = retained_cuts, abg_delete = delete,
       abg_unknown_tagged_fields = unknown_tagged_fields\<rparr>))))))"

definition AlterableBarrierGroup_wf :: "AlterableBarrierGroup \<Rightarrow> bool" where
  "AlterableBarrierGroup_wf x \<longleftrightarrow>
     compact_string_wf (abg_group x)
     \<and> array_wf compact_string_wf (abg_topics x)
     \<and> unknown_wf (abg_unknown_tagged_fields x)"

interpretation alterable_barrier_group: message_codec
  AlterableBarrierGroup_encode AlterableBarrierGroup_decode
  AlterableBarrierGroup_encoded_len AlterableBarrierGroup_wf version
  for version
proof
  fix x
  show "AlterableBarrierGroup_wf x \<Longrightarrow>
    carries (AlterableBarrierGroup_encode x version) (AlterableBarrierGroup_decode version)
      (AlterableBarrierGroup_encoded_len x version) x"
    unfolding AlterableBarrierGroup_encode_def AlterableBarrierGroup_decode_def
      AlterableBarrierGroup_encoded_len_def AlterableBarrierGroup_wf_def
    by (rule carries_cong_len, (rule carries_rules | simp add: field_lens version_bounds)+)
  show "yields 1 (AlterableBarrierGroup_decode version) AlterableBarrierGroup_wf"
    unfolding AlterableBarrierGroup_decode_def AlterableBarrierGroup_wf_def
    by (rule yields_weaken, (rule yields_rules | simp)+)
  show "extends_input (AlterableBarrierGroup_decode version)"
    unfolding AlterableBarrierGroup_decode_def by (intro extends_rules)
qed

lemmas [carries_rules] = alterable_barrier_group.array.codec_carries
lemmas [yields_rules] = alterable_barrier_group.array.codec_yields
lemmas [extends_rules] = alterable_barrier_group.array.codec_extends

record AlterBarrierGroupsRequest =
  abg_req_groups :: "AlterableBarrierGroup list"
  abg_req_unknown_tagged_fields :: UnknownTaggedFields

definition AlterBarrierGroupsRequest_encode :: "AlterBarrierGroupsRequest \<Rightarrow> i16 \<Rightarrow> encoder" where
  "AlterBarrierGroupsRequest_encode x version =
     write_all
       [write_check (check_version alter_barrier_groups_API_KEY version alter_barrier_groups_MIN_VERSION alter_barrier_groups_MAX_VERSION),
        encode_array AlterableBarrierGroup_encode (abg_req_groups x) version,
        write_unknown_tagged_fields (abg_req_unknown_tagged_fields x)]"

definition AlterBarrierGroupsRequest_encoded_len :: "AlterBarrierGroupsRequest \<Rightarrow> i16 \<Rightarrow> nat" where
  "AlterBarrierGroupsRequest_encoded_len x version =
     array_len AlterableBarrierGroup_encoded_len (abg_req_groups x) version
     + unknown_tagged_fields_len (abg_req_unknown_tagged_fields x)"

definition AlterBarrierGroupsRequest_decode :: "i16 \<Rightarrow> AlterBarrierGroupsRequest decoder" where
  "AlterBarrierGroupsRequest_decode version =
     checked (check_version alter_barrier_groups_API_KEY version alter_barrier_groups_MIN_VERSION alter_barrier_groups_MAX_VERSION) (
     read_then (decode_array AlterableBarrierGroup_decode version) (\<lambda>groups.
     read_then read_unknown_tagged_fields (\<lambda>unknown_tagged_fields.
     read_ok \<lparr>abg_req_groups = groups,
       abg_req_unknown_tagged_fields = unknown_tagged_fields\<rparr>)))"

definition AlterBarrierGroupsRequest_api :: protocol_request where
  "AlterBarrierGroupsRequest_api =
     \<lparr>api_key = alter_barrier_groups_API_KEY, min_version = alter_barrier_groups_MIN_VERSION, max_version = alter_barrier_groups_MAX_VERSION,
       latest_stable_version = alter_barrier_groups_MAX_VERSION, flexible_min = alter_barrier_groups_FLEXIBLE_MIN\<rparr>"

definition AlterBarrierGroupsRequest_wf :: "AlterBarrierGroupsRequest \<Rightarrow> bool" where
  "AlterBarrierGroupsRequest_wf x \<longleftrightarrow>
     array_wf AlterableBarrierGroup_wf (abg_req_groups x)
     \<and> unknown_wf (abg_req_unknown_tagged_fields x)"

interpretation alter_barrier_groups_request: message_codec
  AlterBarrierGroupsRequest_encode AlterBarrierGroupsRequest_decode
  AlterBarrierGroupsRequest_encoded_len AlterBarrierGroupsRequest_wf 0
proof
  fix x
  show "AlterBarrierGroupsRequest_wf x \<Longrightarrow>
    carries (AlterBarrierGroupsRequest_encode x 0) (AlterBarrierGroupsRequest_decode 0)
      (AlterBarrierGroupsRequest_encoded_len x 0) x"
    unfolding AlterBarrierGroupsRequest_encode_def AlterBarrierGroupsRequest_decode_def
      AlterBarrierGroupsRequest_encoded_len_def AlterBarrierGroupsRequest_wf_def
    by (rule carries_cong_len, (rule carries_rules | simp add: field_lens version_bounds)+)
  show "yields 1 (AlterBarrierGroupsRequest_decode 0) AlterBarrierGroupsRequest_wf"
    unfolding AlterBarrierGroupsRequest_decode_def AlterBarrierGroupsRequest_wf_def
    by (rule yields_weaken, (rule yields_rules | simp)+)
  show "extends_input (AlterBarrierGroupsRequest_decode 0)"
    unfolding AlterBarrierGroupsRequest_decode_def by (intro extends_rules)
qed

record AlterBarrierGroupResult =
  abgr_group :: bytes
  abgr_error_code :: i16
  abgr_error_message :: "bytes option"
  abgr_unknown_tagged_fields :: UnknownTaggedFields

definition AlterBarrierGroupResult_encode :: "AlterBarrierGroupResult \<Rightarrow> i16 \<Rightarrow> encoder" where
  "AlterBarrierGroupResult_encode x version =
     write_all
       [put_compact_string (abgr_group x),
        put_i16 (abgr_error_code x),
        put_compact_nullable_string (abgr_error_message x),
        write_unknown_tagged_fields (abgr_unknown_tagged_fields x)]"

definition AlterBarrierGroupResult_encoded_len :: "AlterBarrierGroupResult \<Rightarrow> i16 \<Rightarrow> nat" where
  "AlterBarrierGroupResult_encoded_len x version =
     compact_string_len (abgr_group x)
     + I16_LEN
     + compact_nullable_string_len (abgr_error_message x)
     + unknown_tagged_fields_len (abgr_unknown_tagged_fields x)"

definition AlterBarrierGroupResult_decode :: "i16 \<Rightarrow> AlterBarrierGroupResult decoder" where
  "AlterBarrierGroupResult_decode version =
     read_then get_compact_string_owned (\<lambda>group.
     read_then get_i16 (\<lambda>error_code.
     read_then get_compact_nullable_string_owned (\<lambda>error_message.
     read_then read_unknown_tagged_fields (\<lambda>unknown_tagged_fields.
     read_ok \<lparr>abgr_group = group, abgr_error_code = error_code,
       abgr_error_message = error_message, abgr_unknown_tagged_fields = unknown_tagged_fields\<rparr>))))"

definition AlterBarrierGroupResult_wf :: "AlterBarrierGroupResult \<Rightarrow> bool" where
  "AlterBarrierGroupResult_wf x \<longleftrightarrow>
     compact_string_wf (abgr_group x)
     \<and> pred_option compact_string_wf (abgr_error_message x)
     \<and> unknown_wf (abgr_unknown_tagged_fields x)"

interpretation alter_barrier_group_result: message_codec
  AlterBarrierGroupResult_encode AlterBarrierGroupResult_decode
  AlterBarrierGroupResult_encoded_len AlterBarrierGroupResult_wf version
  for version
proof
  fix x
  show "AlterBarrierGroupResult_wf x \<Longrightarrow>
    carries (AlterBarrierGroupResult_encode x version) (AlterBarrierGroupResult_decode version)
      (AlterBarrierGroupResult_encoded_len x version) x"
    unfolding AlterBarrierGroupResult_encode_def AlterBarrierGroupResult_decode_def
      AlterBarrierGroupResult_encoded_len_def AlterBarrierGroupResult_wf_def
    by (rule carries_cong_len, (rule carries_rules | simp add: field_lens version_bounds)+)
  show "yields 1 (AlterBarrierGroupResult_decode version) AlterBarrierGroupResult_wf"
    unfolding AlterBarrierGroupResult_decode_def AlterBarrierGroupResult_wf_def
    by (rule yields_weaken, (rule yields_rules | simp)+)
  show "extends_input (AlterBarrierGroupResult_decode version)"
    unfolding AlterBarrierGroupResult_decode_def by (intro extends_rules)
qed

lemmas [carries_rules] = alter_barrier_group_result.array.codec_carries
lemmas [yields_rules] = alter_barrier_group_result.array.codec_yields
lemmas [extends_rules] = alter_barrier_group_result.array.codec_extends

record AlterBarrierGroupsResponse =
  abg_resp_throttle_time_ms :: i32
  abg_resp_results :: "AlterBarrierGroupResult list"
  abg_resp_unknown_tagged_fields :: UnknownTaggedFields

definition AlterBarrierGroupsResponse_encode :: "AlterBarrierGroupsResponse \<Rightarrow> i16 \<Rightarrow> encoder" where
  "AlterBarrierGroupsResponse_encode x version =
     write_all
       [write_check (check_version alter_barrier_groups_API_KEY version alter_barrier_groups_MIN_VERSION alter_barrier_groups_MAX_VERSION),
        put_i32 (abg_resp_throttle_time_ms x),
        encode_array AlterBarrierGroupResult_encode (abg_resp_results x) version,
        write_unknown_tagged_fields (abg_resp_unknown_tagged_fields x)]"

definition AlterBarrierGroupsResponse_encoded_len :: "AlterBarrierGroupsResponse \<Rightarrow> i16 \<Rightarrow> nat" where
  "AlterBarrierGroupsResponse_encoded_len x version =
     I32_LEN
     + array_len AlterBarrierGroupResult_encoded_len (abg_resp_results x) version
     + unknown_tagged_fields_len (abg_resp_unknown_tagged_fields x)"

definition AlterBarrierGroupsResponse_decode :: "i16 \<Rightarrow> AlterBarrierGroupsResponse decoder" where
  "AlterBarrierGroupsResponse_decode version =
     checked (check_version alter_barrier_groups_API_KEY version alter_barrier_groups_MIN_VERSION alter_barrier_groups_MAX_VERSION) (
     read_then get_i32 (\<lambda>throttle_time_ms.
     read_then (decode_array AlterBarrierGroupResult_decode version) (\<lambda>results.
     read_then read_unknown_tagged_fields (\<lambda>unknown_tagged_fields.
     read_ok \<lparr>abg_resp_throttle_time_ms = throttle_time_ms, abg_resp_results = results,
       abg_resp_unknown_tagged_fields = unknown_tagged_fields\<rparr>))))"

definition AlterBarrierGroupsResponse_wf :: "AlterBarrierGroupsResponse \<Rightarrow> bool" where
  "AlterBarrierGroupsResponse_wf x \<longleftrightarrow>
     array_wf AlterBarrierGroupResult_wf (abg_resp_results x)
     \<and> unknown_wf (abg_resp_unknown_tagged_fields x)"

interpretation alter_barrier_groups_response: message_codec
  AlterBarrierGroupsResponse_encode AlterBarrierGroupsResponse_decode
  AlterBarrierGroupsResponse_encoded_len AlterBarrierGroupsResponse_wf 0
proof
  fix x
  show "AlterBarrierGroupsResponse_wf x \<Longrightarrow>
    carries (AlterBarrierGroupsResponse_encode x 0) (AlterBarrierGroupsResponse_decode 0)
      (AlterBarrierGroupsResponse_encoded_len x 0) x"
    unfolding AlterBarrierGroupsResponse_encode_def AlterBarrierGroupsResponse_decode_def
      AlterBarrierGroupsResponse_encoded_len_def AlterBarrierGroupsResponse_wf_def
    by (rule carries_cong_len, (rule carries_rules | simp add: field_lens version_bounds)+)
  show "yields 1 (AlterBarrierGroupsResponse_decode 0) AlterBarrierGroupsResponse_wf"
    unfolding AlterBarrierGroupsResponse_decode_def AlterBarrierGroupsResponse_wf_def
    by (rule yields_weaken, (rule yields_rules | simp)+)
  show "extends_input (AlterBarrierGroupsResponse_decode 0)"
    unfolding AlterBarrierGroupsResponse_decode_def by (intro extends_rules)
qed

section \<open>DescribeBarrierGroups\<close>

definition describe_barrier_groups_API_KEY :: i16 where
  "describe_barrier_groups_API_KEY = 1011"

definition describe_barrier_groups_MIN_VERSION :: i16 where
  [version_bounds]: "describe_barrier_groups_MIN_VERSION = 0"

definition describe_barrier_groups_MAX_VERSION :: i16 where
  [version_bounds]: "describe_barrier_groups_MAX_VERSION = 0"

definition describe_barrier_groups_FLEXIBLE_MIN :: i16 where
  "describe_barrier_groups_FLEXIBLE_MIN = 0"

definition describe_barrier_groups_is_flexible :: "i16 \<Rightarrow> bool" where
  "describe_barrier_groups_is_flexible version \<longleftrightarrow> describe_barrier_groups_FLEXIBLE_MIN \<le>s version"

record DescribeBarrierGroupsRequest =
  dgs_req_groups :: "bytes list"
  dgs_req_unknown_tagged_fields :: UnknownTaggedFields

definition DescribeBarrierGroupsRequest_encode :: "DescribeBarrierGroupsRequest \<Rightarrow> i16 \<Rightarrow> encoder" where
  "DescribeBarrierGroupsRequest_encode x version =
     write_all
       [write_check (check_version describe_barrier_groups_API_KEY version describe_barrier_groups_MIN_VERSION describe_barrier_groups_MAX_VERSION),
        encode_string_array (dgs_req_groups x),
        write_unknown_tagged_fields (dgs_req_unknown_tagged_fields x)]"

definition DescribeBarrierGroupsRequest_encoded_len :: "DescribeBarrierGroupsRequest \<Rightarrow> i16 \<Rightarrow> nat" where
  "DescribeBarrierGroupsRequest_encoded_len x version =
     string_array_len (dgs_req_groups x)
     + unknown_tagged_fields_len (dgs_req_unknown_tagged_fields x)"

definition DescribeBarrierGroupsRequest_decode :: "i16 \<Rightarrow> DescribeBarrierGroupsRequest decoder" where
  "DescribeBarrierGroupsRequest_decode version =
     checked (check_version describe_barrier_groups_API_KEY version describe_barrier_groups_MIN_VERSION describe_barrier_groups_MAX_VERSION) (
     read_then decode_string_array (\<lambda>groups.
     read_then read_unknown_tagged_fields (\<lambda>unknown_tagged_fields.
     read_ok \<lparr>dgs_req_groups = groups,
       dgs_req_unknown_tagged_fields = unknown_tagged_fields\<rparr>)))"

definition DescribeBarrierGroupsRequest_api :: protocol_request where
  "DescribeBarrierGroupsRequest_api =
     \<lparr>api_key = describe_barrier_groups_API_KEY, min_version = describe_barrier_groups_MIN_VERSION, max_version = describe_barrier_groups_MAX_VERSION,
       latest_stable_version = describe_barrier_groups_MAX_VERSION, flexible_min = describe_barrier_groups_FLEXIBLE_MIN\<rparr>"

definition DescribeBarrierGroupsRequest_wf :: "DescribeBarrierGroupsRequest \<Rightarrow> bool" where
  "DescribeBarrierGroupsRequest_wf x \<longleftrightarrow>
     array_wf compact_string_wf (dgs_req_groups x)
     \<and> unknown_wf (dgs_req_unknown_tagged_fields x)"

interpretation describe_barrier_groups_request: message_codec
  DescribeBarrierGroupsRequest_encode DescribeBarrierGroupsRequest_decode
  DescribeBarrierGroupsRequest_encoded_len DescribeBarrierGroupsRequest_wf 0
proof
  fix x
  show "DescribeBarrierGroupsRequest_wf x \<Longrightarrow>
    carries (DescribeBarrierGroupsRequest_encode x 0) (DescribeBarrierGroupsRequest_decode 0)
      (DescribeBarrierGroupsRequest_encoded_len x 0) x"
    unfolding DescribeBarrierGroupsRequest_encode_def DescribeBarrierGroupsRequest_decode_def
      DescribeBarrierGroupsRequest_encoded_len_def DescribeBarrierGroupsRequest_wf_def
    by (rule carries_cong_len, (rule carries_rules | simp add: field_lens version_bounds)+)
  show "yields 1 (DescribeBarrierGroupsRequest_decode 0) DescribeBarrierGroupsRequest_wf"
    unfolding DescribeBarrierGroupsRequest_decode_def DescribeBarrierGroupsRequest_wf_def
    by (rule yields_weaken, (rule yields_rules | simp)+)
  show "extends_input (DescribeBarrierGroupsRequest_decode 0)"
    unfolding DescribeBarrierGroupsRequest_decode_def by (intro extends_rules)
qed

record DescribedBarrierGroup =
  described_group_group :: bytes
  described_group_error_code :: i16
  described_group_error_message :: "bytes option"
  described_group_topics :: "bytes list"
  described_group_interval_ms :: i64
  described_group_retained_cuts :: i32
  described_group_last_epoch :: i64
  described_group_coordinator_id :: i32
  described_group_unknown_tagged_fields :: UnknownTaggedFields

definition DescribedBarrierGroup_default :: DescribedBarrierGroup where
  "DescribedBarrierGroup_default =
     \<lparr>described_group_group = [],
       described_group_error_code = 0,
       described_group_error_message = None,
       described_group_topics = [],
       described_group_interval_ms = - 1,
       described_group_retained_cuts = 0,
       described_group_last_epoch = - 1,
       described_group_coordinator_id = - 1,
       described_group_unknown_tagged_fields = []\<rparr>"

definition DescribedBarrierGroup_encode :: "DescribedBarrierGroup \<Rightarrow> i16 \<Rightarrow> encoder" where
  "DescribedBarrierGroup_encode x version =
     write_all
       [put_compact_string (described_group_group x),
        put_i16 (described_group_error_code x),
        put_compact_nullable_string (described_group_error_message x),
        encode_string_array (described_group_topics x),
        put_i64 (described_group_interval_ms x),
        put_i32 (described_group_retained_cuts x),
        put_i64 (described_group_last_epoch x),
        put_i32 (described_group_coordinator_id x),
        write_unknown_tagged_fields (described_group_unknown_tagged_fields x)]"

definition DescribedBarrierGroup_encoded_len :: "DescribedBarrierGroup \<Rightarrow> i16 \<Rightarrow> nat" where
  "DescribedBarrierGroup_encoded_len x version =
     compact_string_len (described_group_group x)
     + I16_LEN
     + compact_nullable_string_len (described_group_error_message x)
     + string_array_len (described_group_topics x)
     + I64_LEN
     + I32_LEN
     + I64_LEN
     + I32_LEN
     + unknown_tagged_fields_len (described_group_unknown_tagged_fields x)"

definition DescribedBarrierGroup_decode :: "i16 \<Rightarrow> DescribedBarrierGroup decoder" where
  "DescribedBarrierGroup_decode version =
     read_then get_compact_string_owned (\<lambda>group.
     read_then get_i16 (\<lambda>error_code.
     read_then get_compact_nullable_string_owned (\<lambda>error_message.
     read_then decode_string_array (\<lambda>topics.
     read_then get_i64 (\<lambda>interval_ms.
     read_then get_i32 (\<lambda>retained_cuts.
     read_then get_i64 (\<lambda>last_epoch.
     read_then get_i32 (\<lambda>coordinator_id.
     read_then read_unknown_tagged_fields (\<lambda>unknown_tagged_fields.
     read_ok \<lparr>described_group_group = group, described_group_error_code = error_code,
       described_group_error_message = error_message, described_group_topics = topics,
       described_group_interval_ms = interval_ms,
       described_group_retained_cuts = retained_cuts, described_group_last_epoch = last_epoch,
       described_group_coordinator_id = coordinator_id,
       described_group_unknown_tagged_fields = unknown_tagged_fields\<rparr>)))))))))"

definition DescribedBarrierGroup_wf :: "DescribedBarrierGroup \<Rightarrow> bool" where
  "DescribedBarrierGroup_wf x \<longleftrightarrow>
     compact_string_wf (described_group_group x)
     \<and> pred_option compact_string_wf (described_group_error_message x)
     \<and> array_wf compact_string_wf (described_group_topics x)
     \<and> unknown_wf (described_group_unknown_tagged_fields x)"

interpretation described_barrier_group: message_codec
  DescribedBarrierGroup_encode DescribedBarrierGroup_decode
  DescribedBarrierGroup_encoded_len DescribedBarrierGroup_wf version
  for version
proof
  fix x
  show "DescribedBarrierGroup_wf x \<Longrightarrow>
    carries (DescribedBarrierGroup_encode x version) (DescribedBarrierGroup_decode version)
      (DescribedBarrierGroup_encoded_len x version) x"
    unfolding DescribedBarrierGroup_encode_def DescribedBarrierGroup_decode_def
      DescribedBarrierGroup_encoded_len_def DescribedBarrierGroup_wf_def
    by (rule carries_cong_len, (rule carries_rules | simp add: field_lens version_bounds)+)
  show "yields 1 (DescribedBarrierGroup_decode version) DescribedBarrierGroup_wf"
    unfolding DescribedBarrierGroup_decode_def DescribedBarrierGroup_wf_def
    by (rule yields_weaken, (rule yields_rules | simp)+)
  show "extends_input (DescribedBarrierGroup_decode version)"
    unfolding DescribedBarrierGroup_decode_def by (intro extends_rules)
qed

lemmas [carries_rules] = described_barrier_group.array.codec_carries
lemmas [yields_rules] = described_barrier_group.array.codec_yields
lemmas [extends_rules] = described_barrier_group.array.codec_extends

record DescribeBarrierGroupsResponse =
  dgs_resp_throttle_time_ms :: i32
  dgs_resp_groups :: "DescribedBarrierGroup list"
  dgs_resp_unknown_tagged_fields :: UnknownTaggedFields

definition DescribeBarrierGroupsResponse_encode :: "DescribeBarrierGroupsResponse \<Rightarrow> i16 \<Rightarrow> encoder" where
  "DescribeBarrierGroupsResponse_encode x version =
     write_all
       [write_check (check_version describe_barrier_groups_API_KEY version describe_barrier_groups_MIN_VERSION describe_barrier_groups_MAX_VERSION),
        put_i32 (dgs_resp_throttle_time_ms x),
        encode_array DescribedBarrierGroup_encode (dgs_resp_groups x) version,
        write_unknown_tagged_fields (dgs_resp_unknown_tagged_fields x)]"

definition DescribeBarrierGroupsResponse_encoded_len :: "DescribeBarrierGroupsResponse \<Rightarrow> i16 \<Rightarrow> nat" where
  "DescribeBarrierGroupsResponse_encoded_len x version =
     I32_LEN
     + array_len DescribedBarrierGroup_encoded_len (dgs_resp_groups x) version
     + unknown_tagged_fields_len (dgs_resp_unknown_tagged_fields x)"

definition DescribeBarrierGroupsResponse_decode :: "i16 \<Rightarrow> DescribeBarrierGroupsResponse decoder" where
  "DescribeBarrierGroupsResponse_decode version =
     checked (check_version describe_barrier_groups_API_KEY version describe_barrier_groups_MIN_VERSION describe_barrier_groups_MAX_VERSION) (
     read_then get_i32 (\<lambda>throttle_time_ms.
     read_then (decode_array DescribedBarrierGroup_decode version) (\<lambda>groups.
     read_then read_unknown_tagged_fields (\<lambda>unknown_tagged_fields.
     read_ok \<lparr>dgs_resp_throttle_time_ms = throttle_time_ms, dgs_resp_groups = groups,
       dgs_resp_unknown_tagged_fields = unknown_tagged_fields\<rparr>))))"

definition DescribeBarrierGroupsResponse_wf :: "DescribeBarrierGroupsResponse \<Rightarrow> bool" where
  "DescribeBarrierGroupsResponse_wf x \<longleftrightarrow>
     array_wf DescribedBarrierGroup_wf (dgs_resp_groups x)
     \<and> unknown_wf (dgs_resp_unknown_tagged_fields x)"

interpretation describe_barrier_groups_response: message_codec
  DescribeBarrierGroupsResponse_encode DescribeBarrierGroupsResponse_decode
  DescribeBarrierGroupsResponse_encoded_len DescribeBarrierGroupsResponse_wf 0
proof
  fix x
  show "DescribeBarrierGroupsResponse_wf x \<Longrightarrow>
    carries (DescribeBarrierGroupsResponse_encode x 0) (DescribeBarrierGroupsResponse_decode 0)
      (DescribeBarrierGroupsResponse_encoded_len x 0) x"
    unfolding DescribeBarrierGroupsResponse_encode_def DescribeBarrierGroupsResponse_decode_def
      DescribeBarrierGroupsResponse_encoded_len_def DescribeBarrierGroupsResponse_wf_def
    by (rule carries_cong_len, (rule carries_rules | simp add: field_lens version_bounds)+)
  show "yields 1 (DescribeBarrierGroupsResponse_decode 0) DescribeBarrierGroupsResponse_wf"
    unfolding DescribeBarrierGroupsResponse_decode_def DescribeBarrierGroupsResponse_wf_def
    by (rule yields_weaken, (rule yields_rules | simp)+)
  show "extends_input (DescribeBarrierGroupsResponse_decode 0)"
    unfolding DescribeBarrierGroupsResponse_decode_def by (intro extends_rules)
qed

section \<open>TriggerBarrier\<close>

definition trigger_barrier_API_KEY :: i16 where
  "trigger_barrier_API_KEY = 1012"

definition trigger_barrier_MIN_VERSION :: i16 where
  [version_bounds]: "trigger_barrier_MIN_VERSION = 0"

definition trigger_barrier_MAX_VERSION :: i16 where
  [version_bounds]: "trigger_barrier_MAX_VERSION = 0"

definition trigger_barrier_FLEXIBLE_MIN :: i16 where
  "trigger_barrier_FLEXIBLE_MIN = 0"

definition trigger_barrier_is_flexible :: "i16 \<Rightarrow> bool" where
  "trigger_barrier_is_flexible version \<longleftrightarrow> trigger_barrier_FLEXIBLE_MIN \<le>s version"

record TriggerBarrierRequest =
  tb_req_group :: bytes
  tb_req_timeout_ms :: i32
  tb_req_unknown_tagged_fields :: UnknownTaggedFields

definition TriggerBarrierRequest_encode :: "TriggerBarrierRequest \<Rightarrow> i16 \<Rightarrow> encoder" where
  "TriggerBarrierRequest_encode x version =
     write_all
       [write_check (check_version trigger_barrier_API_KEY version trigger_barrier_MIN_VERSION trigger_barrier_MAX_VERSION),
        put_compact_string (tb_req_group x),
        put_i32 (tb_req_timeout_ms x),
        write_unknown_tagged_fields (tb_req_unknown_tagged_fields x)]"

definition TriggerBarrierRequest_encoded_len :: "TriggerBarrierRequest \<Rightarrow> i16 \<Rightarrow> nat" where
  "TriggerBarrierRequest_encoded_len x version =
     compact_string_len (tb_req_group x)
     + I32_LEN
     + unknown_tagged_fields_len (tb_req_unknown_tagged_fields x)"

definition TriggerBarrierRequest_decode :: "i16 \<Rightarrow> TriggerBarrierRequest decoder" where
  "TriggerBarrierRequest_decode version =
     checked (check_version trigger_barrier_API_KEY version trigger_barrier_MIN_VERSION trigger_barrier_MAX_VERSION) (
     read_then get_compact_string_owned (\<lambda>group.
     read_then get_i32 (\<lambda>timeout_ms.
     read_then read_unknown_tagged_fields (\<lambda>unknown_tagged_fields.
     read_ok \<lparr>tb_req_group = group, tb_req_timeout_ms = timeout_ms,
       tb_req_unknown_tagged_fields = unknown_tagged_fields\<rparr>))))"

definition TriggerBarrierRequest_api :: protocol_request where
  "TriggerBarrierRequest_api =
     \<lparr>api_key = trigger_barrier_API_KEY, min_version = trigger_barrier_MIN_VERSION, max_version = trigger_barrier_MAX_VERSION,
       latest_stable_version = trigger_barrier_MAX_VERSION, flexible_min = trigger_barrier_FLEXIBLE_MIN\<rparr>"

definition TriggerBarrierRequest_wf :: "TriggerBarrierRequest \<Rightarrow> bool" where
  "TriggerBarrierRequest_wf x \<longleftrightarrow>
     compact_string_wf (tb_req_group x)
     \<and> unknown_wf (tb_req_unknown_tagged_fields x)"

interpretation trigger_barrier_request: message_codec
  TriggerBarrierRequest_encode TriggerBarrierRequest_decode
  TriggerBarrierRequest_encoded_len TriggerBarrierRequest_wf 0
proof
  fix x
  show "TriggerBarrierRequest_wf x \<Longrightarrow>
    carries (TriggerBarrierRequest_encode x 0) (TriggerBarrierRequest_decode 0)
      (TriggerBarrierRequest_encoded_len x 0) x"
    unfolding TriggerBarrierRequest_encode_def TriggerBarrierRequest_decode_def
      TriggerBarrierRequest_encoded_len_def TriggerBarrierRequest_wf_def
    by (rule carries_cong_len, (rule carries_rules | simp add: field_lens version_bounds)+)
  show "yields 1 (TriggerBarrierRequest_decode 0) TriggerBarrierRequest_wf"
    unfolding TriggerBarrierRequest_decode_def TriggerBarrierRequest_wf_def
    by (rule yields_weaken, (rule yields_rules | simp)+)
  show "extends_input (TriggerBarrierRequest_decode 0)"
    unfolding TriggerBarrierRequest_decode_def by (intro extends_rules)
qed

record TriggerBarrierResponse =
  tb_resp_throttle_time_ms :: i32
  tb_resp_error_code :: i16
  tb_resp_error_message :: "bytes option"
  tb_resp_epoch :: i64
  tb_resp_status :: i8
  tb_resp_topics :: "BarrierCutTopic list"
  tb_resp_missing :: "BarrierMissingPartition list"
  tb_resp_unknown_tagged_fields :: UnknownTaggedFields

definition TriggerBarrierResponse_encode :: "TriggerBarrierResponse \<Rightarrow> i16 \<Rightarrow> encoder" where
  "TriggerBarrierResponse_encode x version =
     write_all
       [write_check (check_version trigger_barrier_API_KEY version trigger_barrier_MIN_VERSION trigger_barrier_MAX_VERSION),
        put_i32 (tb_resp_throttle_time_ms x),
        put_i16 (tb_resp_error_code x),
        put_compact_nullable_string (tb_resp_error_message x),
        put_i64 (tb_resp_epoch x),
        put_i8 (tb_resp_status x),
        encode_array BarrierCutTopic_encode (tb_resp_topics x) version,
        encode_array BarrierMissingPartition_encode (tb_resp_missing x) version,
        write_unknown_tagged_fields (tb_resp_unknown_tagged_fields x)]"

definition TriggerBarrierResponse_encoded_len :: "TriggerBarrierResponse \<Rightarrow> i16 \<Rightarrow> nat" where
  "TriggerBarrierResponse_encoded_len x version =
     I32_LEN
     + I16_LEN
     + compact_nullable_string_len (tb_resp_error_message x)
     + I64_LEN
     + I8_LEN
     + array_len BarrierCutTopic_encoded_len (tb_resp_topics x) version
     + array_len BarrierMissingPartition_encoded_len (tb_resp_missing x) version
     + unknown_tagged_fields_len (tb_resp_unknown_tagged_fields x)"

definition TriggerBarrierResponse_decode :: "i16 \<Rightarrow> TriggerBarrierResponse decoder" where
  "TriggerBarrierResponse_decode version =
     checked (check_version trigger_barrier_API_KEY version trigger_barrier_MIN_VERSION trigger_barrier_MAX_VERSION) (
     read_then get_i32 (\<lambda>throttle_time_ms.
     read_then get_i16 (\<lambda>error_code.
     read_then get_compact_nullable_string_owned (\<lambda>error_message.
     read_then get_i64 (\<lambda>epoch.
     read_then get_i8 (\<lambda>status.
     read_then (decode_array BarrierCutTopic_decode version) (\<lambda>topics.
     read_then (decode_array BarrierMissingPartition_decode version) (\<lambda>missing.
     read_then read_unknown_tagged_fields (\<lambda>unknown_tagged_fields.
     read_ok \<lparr>tb_resp_throttle_time_ms = throttle_time_ms,
       tb_resp_error_code = error_code, tb_resp_error_message = error_message,
       tb_resp_epoch = epoch, tb_resp_status = status, tb_resp_topics = topics,
       tb_resp_missing = missing, tb_resp_unknown_tagged_fields = unknown_tagged_fields\<rparr>)))))))))"

definition TriggerBarrierResponse_wf :: "TriggerBarrierResponse \<Rightarrow> bool" where
  "TriggerBarrierResponse_wf x \<longleftrightarrow>
     pred_option compact_string_wf (tb_resp_error_message x)
     \<and> array_wf BarrierCutTopic_wf (tb_resp_topics x)
     \<and> array_wf BarrierMissingPartition_wf (tb_resp_missing x)
     \<and> unknown_wf (tb_resp_unknown_tagged_fields x)"

interpretation trigger_barrier_response: message_codec
  TriggerBarrierResponse_encode TriggerBarrierResponse_decode
  TriggerBarrierResponse_encoded_len TriggerBarrierResponse_wf 0
proof
  fix x
  show "TriggerBarrierResponse_wf x \<Longrightarrow>
    carries (TriggerBarrierResponse_encode x 0) (TriggerBarrierResponse_decode 0)
      (TriggerBarrierResponse_encoded_len x 0) x"
    unfolding TriggerBarrierResponse_encode_def TriggerBarrierResponse_decode_def
      TriggerBarrierResponse_encoded_len_def TriggerBarrierResponse_wf_def
    by (rule carries_cong_len, (rule carries_rules | simp add: field_lens version_bounds)+)
  show "yields 1 (TriggerBarrierResponse_decode 0) TriggerBarrierResponse_wf"
    unfolding TriggerBarrierResponse_decode_def TriggerBarrierResponse_wf_def
    by (rule yields_weaken, (rule yields_rules | simp)+)
  show "extends_input (TriggerBarrierResponse_decode 0)"
    unfolding TriggerBarrierResponse_decode_def by (intro extends_rules)
qed

section \<open>ListBarrierCuts\<close>

definition list_barrier_cuts_API_KEY :: i16 where
  "list_barrier_cuts_API_KEY = 1013"

definition list_barrier_cuts_MIN_VERSION :: i16 where
  [version_bounds]: "list_barrier_cuts_MIN_VERSION = 0"

definition list_barrier_cuts_MAX_VERSION :: i16 where
  [version_bounds]: "list_barrier_cuts_MAX_VERSION = 0"

definition list_barrier_cuts_FLEXIBLE_MIN :: i16 where
  "list_barrier_cuts_FLEXIBLE_MIN = 0"

definition list_barrier_cuts_is_flexible :: "i16 \<Rightarrow> bool" where
  "list_barrier_cuts_is_flexible version \<longleftrightarrow> list_barrier_cuts_FLEXIBLE_MIN \<le>s version"

record ListBarrierCutsRequest =
  lbc_req_group :: bytes
  lbc_req_from_epoch :: i64
  lbc_req_max_results :: i32
  lbc_req_unknown_tagged_fields :: UnknownTaggedFields

definition ListBarrierCutsRequest_default :: ListBarrierCutsRequest where
  "ListBarrierCutsRequest_default =
     \<lparr>lbc_req_group = [],
       lbc_req_from_epoch = 0,
       lbc_req_max_results = - 1,
       lbc_req_unknown_tagged_fields = []\<rparr>"

definition ListBarrierCutsRequest_encode :: "ListBarrierCutsRequest \<Rightarrow> i16 \<Rightarrow> encoder" where
  "ListBarrierCutsRequest_encode x version =
     write_all
       [write_check (check_version list_barrier_cuts_API_KEY version list_barrier_cuts_MIN_VERSION list_barrier_cuts_MAX_VERSION),
        put_compact_string (lbc_req_group x),
        put_i64 (lbc_req_from_epoch x),
        put_i32 (lbc_req_max_results x),
        write_unknown_tagged_fields (lbc_req_unknown_tagged_fields x)]"

definition ListBarrierCutsRequest_encoded_len :: "ListBarrierCutsRequest \<Rightarrow> i16 \<Rightarrow> nat" where
  "ListBarrierCutsRequest_encoded_len x version =
     compact_string_len (lbc_req_group x)
     + I64_LEN
     + I32_LEN
     + unknown_tagged_fields_len (lbc_req_unknown_tagged_fields x)"

definition ListBarrierCutsRequest_decode :: "i16 \<Rightarrow> ListBarrierCutsRequest decoder" where
  "ListBarrierCutsRequest_decode version =
     checked (check_version list_barrier_cuts_API_KEY version list_barrier_cuts_MIN_VERSION list_barrier_cuts_MAX_VERSION) (
     read_then get_compact_string_owned (\<lambda>group.
     read_then get_i64 (\<lambda>from_epoch.
     read_then get_i32 (\<lambda>max_results.
     read_then read_unknown_tagged_fields (\<lambda>unknown_tagged_fields.
     read_ok \<lparr>lbc_req_group = group, lbc_req_from_epoch = from_epoch,
       lbc_req_max_results = max_results, lbc_req_unknown_tagged_fields = unknown_tagged_fields\<rparr>)))))"

definition ListBarrierCutsRequest_api :: protocol_request where
  "ListBarrierCutsRequest_api =
     \<lparr>api_key = list_barrier_cuts_API_KEY, min_version = list_barrier_cuts_MIN_VERSION, max_version = list_barrier_cuts_MAX_VERSION,
       latest_stable_version = list_barrier_cuts_MAX_VERSION, flexible_min = list_barrier_cuts_FLEXIBLE_MIN\<rparr>"

definition ListBarrierCutsRequest_wf :: "ListBarrierCutsRequest \<Rightarrow> bool" where
  "ListBarrierCutsRequest_wf x \<longleftrightarrow>
     compact_string_wf (lbc_req_group x)
     \<and> unknown_wf (lbc_req_unknown_tagged_fields x)"

interpretation list_barrier_cuts_request: message_codec
  ListBarrierCutsRequest_encode ListBarrierCutsRequest_decode
  ListBarrierCutsRequest_encoded_len ListBarrierCutsRequest_wf 0
proof
  fix x
  show "ListBarrierCutsRequest_wf x \<Longrightarrow>
    carries (ListBarrierCutsRequest_encode x 0) (ListBarrierCutsRequest_decode 0)
      (ListBarrierCutsRequest_encoded_len x 0) x"
    unfolding ListBarrierCutsRequest_encode_def ListBarrierCutsRequest_decode_def
      ListBarrierCutsRequest_encoded_len_def ListBarrierCutsRequest_wf_def
    by (rule carries_cong_len, (rule carries_rules | simp add: field_lens version_bounds)+)
  show "yields 1 (ListBarrierCutsRequest_decode 0) ListBarrierCutsRequest_wf"
    unfolding ListBarrierCutsRequest_decode_def ListBarrierCutsRequest_wf_def
    by (rule yields_weaken, (rule yields_rules | simp)+)
  show "extends_input (ListBarrierCutsRequest_decode 0)"
    unfolding ListBarrierCutsRequest_decode_def by (intro extends_rules)
qed

record BarrierCut =
  bc_epoch :: i64
  bc_triggered_at :: i64
  bc_completed_at :: i64
  bc_status :: i8
  bc_topics :: "BarrierCutTopic list"
  bc_missing :: "BarrierMissingPartition list"
  bc_unknown_tagged_fields :: UnknownTaggedFields

definition BarrierCut_encode :: "BarrierCut \<Rightarrow> i16 \<Rightarrow> encoder" where
  "BarrierCut_encode x version =
     write_all
       [put_i64 (bc_epoch x),
        put_i64 (bc_triggered_at x),
        put_i64 (bc_completed_at x),
        put_i8 (bc_status x),
        encode_array BarrierCutTopic_encode (bc_topics x) version,
        encode_array BarrierMissingPartition_encode (bc_missing x) version,
        write_unknown_tagged_fields (bc_unknown_tagged_fields x)]"

definition BarrierCut_encoded_len :: "BarrierCut \<Rightarrow> i16 \<Rightarrow> nat" where
  "BarrierCut_encoded_len x version =
     I64_LEN
     + I64_LEN
     + I64_LEN
     + I8_LEN
     + array_len BarrierCutTopic_encoded_len (bc_topics x) version
     + array_len BarrierMissingPartition_encoded_len (bc_missing x) version
     + unknown_tagged_fields_len (bc_unknown_tagged_fields x)"

definition BarrierCut_decode :: "i16 \<Rightarrow> BarrierCut decoder" where
  "BarrierCut_decode version =
     read_then get_i64 (\<lambda>epoch.
     read_then get_i64 (\<lambda>triggered_at.
     read_then get_i64 (\<lambda>completed_at.
     read_then get_i8 (\<lambda>status.
     read_then (decode_array BarrierCutTopic_decode version) (\<lambda>topics.
     read_then (decode_array BarrierMissingPartition_decode version) (\<lambda>missing.
     read_then read_unknown_tagged_fields (\<lambda>unknown_tagged_fields.
     read_ok \<lparr>bc_epoch = epoch, bc_triggered_at = triggered_at,
       bc_completed_at = completed_at, bc_status = status, bc_topics = topics,
       bc_missing = missing, bc_unknown_tagged_fields = unknown_tagged_fields\<rparr>)))))))"

definition BarrierCut_wf :: "BarrierCut \<Rightarrow> bool" where
  "BarrierCut_wf x \<longleftrightarrow>
     array_wf BarrierCutTopic_wf (bc_topics x)
     \<and> array_wf BarrierMissingPartition_wf (bc_missing x)
     \<and> unknown_wf (bc_unknown_tagged_fields x)"

interpretation barrier_cut: message_codec
  BarrierCut_encode BarrierCut_decode
  BarrierCut_encoded_len BarrierCut_wf version
  for version
proof
  fix x
  show "BarrierCut_wf x \<Longrightarrow>
    carries (BarrierCut_encode x version) (BarrierCut_decode version)
      (BarrierCut_encoded_len x version) x"
    unfolding BarrierCut_encode_def BarrierCut_decode_def
      BarrierCut_encoded_len_def BarrierCut_wf_def
    by (rule carries_cong_len, (rule carries_rules | simp add: field_lens version_bounds)+)
  show "yields 1 (BarrierCut_decode version) BarrierCut_wf"
    unfolding BarrierCut_decode_def BarrierCut_wf_def
    by (rule yields_weaken, (rule yields_rules | simp)+)
  show "extends_input (BarrierCut_decode version)"
    unfolding BarrierCut_decode_def by (intro extends_rules)
qed

lemmas [carries_rules] = barrier_cut.array.codec_carries
lemmas [yields_rules] = barrier_cut.array.codec_yields
lemmas [extends_rules] = barrier_cut.array.codec_extends

record ListBarrierCutsResponse =
  lbc_resp_throttle_time_ms :: i32
  lbc_resp_error_code :: i16
  lbc_resp_error_message :: "bytes option"
  lbc_resp_cuts :: "BarrierCut list"
  lbc_resp_unknown_tagged_fields :: UnknownTaggedFields

definition ListBarrierCutsResponse_encode :: "ListBarrierCutsResponse \<Rightarrow> i16 \<Rightarrow> encoder" where
  "ListBarrierCutsResponse_encode x version =
     write_all
       [write_check (check_version list_barrier_cuts_API_KEY version list_barrier_cuts_MIN_VERSION list_barrier_cuts_MAX_VERSION),
        put_i32 (lbc_resp_throttle_time_ms x),
        put_i16 (lbc_resp_error_code x),
        put_compact_nullable_string (lbc_resp_error_message x),
        encode_array BarrierCut_encode (lbc_resp_cuts x) version,
        write_unknown_tagged_fields (lbc_resp_unknown_tagged_fields x)]"

definition ListBarrierCutsResponse_encoded_len :: "ListBarrierCutsResponse \<Rightarrow> i16 \<Rightarrow> nat" where
  "ListBarrierCutsResponse_encoded_len x version =
     I32_LEN
     + I16_LEN
     + compact_nullable_string_len (lbc_resp_error_message x)
     + array_len BarrierCut_encoded_len (lbc_resp_cuts x) version
     + unknown_tagged_fields_len (lbc_resp_unknown_tagged_fields x)"

definition ListBarrierCutsResponse_decode :: "i16 \<Rightarrow> ListBarrierCutsResponse decoder" where
  "ListBarrierCutsResponse_decode version =
     checked (check_version list_barrier_cuts_API_KEY version list_barrier_cuts_MIN_VERSION list_barrier_cuts_MAX_VERSION) (
     read_then get_i32 (\<lambda>throttle_time_ms.
     read_then get_i16 (\<lambda>error_code.
     read_then get_compact_nullable_string_owned (\<lambda>error_message.
     read_then (decode_array BarrierCut_decode version) (\<lambda>cuts.
     read_then read_unknown_tagged_fields (\<lambda>unknown_tagged_fields.
     read_ok \<lparr>lbc_resp_throttle_time_ms = throttle_time_ms,
       lbc_resp_error_code = error_code, lbc_resp_error_message = error_message,
       lbc_resp_cuts = cuts, lbc_resp_unknown_tagged_fields = unknown_tagged_fields\<rparr>))))))"

definition ListBarrierCutsResponse_wf :: "ListBarrierCutsResponse \<Rightarrow> bool" where
  "ListBarrierCutsResponse_wf x \<longleftrightarrow>
     pred_option compact_string_wf (lbc_resp_error_message x)
     \<and> array_wf BarrierCut_wf (lbc_resp_cuts x)
     \<and> unknown_wf (lbc_resp_unknown_tagged_fields x)"

interpretation list_barrier_cuts_response: message_codec
  ListBarrierCutsResponse_encode ListBarrierCutsResponse_decode
  ListBarrierCutsResponse_encoded_len ListBarrierCutsResponse_wf 0
proof
  fix x
  show "ListBarrierCutsResponse_wf x \<Longrightarrow>
    carries (ListBarrierCutsResponse_encode x 0) (ListBarrierCutsResponse_decode 0)
      (ListBarrierCutsResponse_encoded_len x 0) x"
    unfolding ListBarrierCutsResponse_encode_def ListBarrierCutsResponse_decode_def
      ListBarrierCutsResponse_encoded_len_def ListBarrierCutsResponse_wf_def
    by (rule carries_cong_len, (rule carries_rules | simp add: field_lens version_bounds)+)
  show "yields 1 (ListBarrierCutsResponse_decode 0) ListBarrierCutsResponse_wf"
    unfolding ListBarrierCutsResponse_decode_def ListBarrierCutsResponse_wf_def
    by (rule yields_weaken, (rule yields_rules | simp)+)
  show "extends_input (ListBarrierCutsResponse_decode 0)"
    unfolding ListBarrierCutsResponse_decode_def by (intro extends_rules)
qed

section \<open>WriteBarrierMarkers\<close>

definition write_barrier_markers_API_KEY :: i16 where
  "write_barrier_markers_API_KEY = 1014"

definition write_barrier_markers_MIN_VERSION :: i16 where
  [version_bounds]: "write_barrier_markers_MIN_VERSION = 0"

definition write_barrier_markers_MAX_VERSION :: i16 where
  [version_bounds]: "write_barrier_markers_MAX_VERSION = 0"

definition write_barrier_markers_FLEXIBLE_MIN :: i16 where
  "write_barrier_markers_FLEXIBLE_MIN = 0"

definition write_barrier_markers_is_flexible :: "i16 \<Rightarrow> bool" where
  "write_barrier_markers_is_flexible version \<longleftrightarrow> write_barrier_markers_FLEXIBLE_MIN \<le>s version"

record WritableBarrierPartition =
  writable_p_partition :: i32
  writable_p_expected_leader_epoch :: i32
  writable_p_unknown_tagged_fields :: UnknownTaggedFields

definition WritableBarrierPartition_default :: WritableBarrierPartition where
  "WritableBarrierPartition_default =
     \<lparr>writable_p_partition = 0,
       writable_p_expected_leader_epoch = - 1,
       writable_p_unknown_tagged_fields = []\<rparr>"

definition WritableBarrierPartition_encode :: "WritableBarrierPartition \<Rightarrow> i16 \<Rightarrow> encoder" where
  "WritableBarrierPartition_encode x version =
     write_all
       [put_i32 (writable_p_partition x),
        put_i32 (writable_p_expected_leader_epoch x),
        write_unknown_tagged_fields (writable_p_unknown_tagged_fields x)]"

definition WritableBarrierPartition_encoded_len :: "WritableBarrierPartition \<Rightarrow> i16 \<Rightarrow> nat" where
  "WritableBarrierPartition_encoded_len x version =
     I32_LEN
     + I32_LEN
     + unknown_tagged_fields_len (writable_p_unknown_tagged_fields x)"

definition WritableBarrierPartition_decode :: "i16 \<Rightarrow> WritableBarrierPartition decoder" where
  "WritableBarrierPartition_decode version =
     read_then get_i32 (\<lambda>partition.
     read_then get_i32 (\<lambda>expected_leader_epoch.
     read_then read_unknown_tagged_fields (\<lambda>unknown_tagged_fields.
     read_ok \<lparr>writable_p_partition = partition,
       writable_p_expected_leader_epoch = expected_leader_epoch,
       writable_p_unknown_tagged_fields = unknown_tagged_fields\<rparr>)))"

definition WritableBarrierPartition_wf :: "WritableBarrierPartition \<Rightarrow> bool" where
  "WritableBarrierPartition_wf x \<longleftrightarrow>
     unknown_wf (writable_p_unknown_tagged_fields x)"

interpretation writable_barrier_partition: message_codec
  WritableBarrierPartition_encode WritableBarrierPartition_decode
  WritableBarrierPartition_encoded_len WritableBarrierPartition_wf version
  for version
proof
  fix x
  show "WritableBarrierPartition_wf x \<Longrightarrow>
    carries (WritableBarrierPartition_encode x version) (WritableBarrierPartition_decode version)
      (WritableBarrierPartition_encoded_len x version) x"
    unfolding WritableBarrierPartition_encode_def WritableBarrierPartition_decode_def
      WritableBarrierPartition_encoded_len_def WritableBarrierPartition_wf_def
    by (rule carries_cong_len, (rule carries_rules | simp add: field_lens version_bounds)+)
  show "yields 1 (WritableBarrierPartition_decode version) WritableBarrierPartition_wf"
    unfolding WritableBarrierPartition_decode_def WritableBarrierPartition_wf_def
    by (rule yields_weaken, (rule yields_rules | simp)+)
  show "extends_input (WritableBarrierPartition_decode version)"
    unfolding WritableBarrierPartition_decode_def by (intro extends_rules)
qed

lemmas [carries_rules] = writable_barrier_partition.array.codec_carries
lemmas [yields_rules] = writable_barrier_partition.array.codec_yields
lemmas [extends_rules] = writable_barrier_partition.array.codec_extends

record WritableBarrierTopic =
  writable_t_topic :: bytes
  writable_t_partitions :: "WritableBarrierPartition list"
  writable_t_unknown_tagged_fields :: UnknownTaggedFields

definition WritableBarrierTopic_encode :: "WritableBarrierTopic \<Rightarrow> i16 \<Rightarrow> encoder" where
  "WritableBarrierTopic_encode x version =
     write_all
       [put_compact_string (writable_t_topic x),
        encode_array WritableBarrierPartition_encode (writable_t_partitions x) version,
        write_unknown_tagged_fields (writable_t_unknown_tagged_fields x)]"

definition WritableBarrierTopic_encoded_len :: "WritableBarrierTopic \<Rightarrow> i16 \<Rightarrow> nat" where
  "WritableBarrierTopic_encoded_len x version =
     compact_string_len (writable_t_topic x)
     + array_len WritableBarrierPartition_encoded_len (writable_t_partitions x) version
     + unknown_tagged_fields_len (writable_t_unknown_tagged_fields x)"

definition WritableBarrierTopic_decode :: "i16 \<Rightarrow> WritableBarrierTopic decoder" where
  "WritableBarrierTopic_decode version =
     read_then get_compact_string_owned (\<lambda>topic.
     read_then (decode_array WritableBarrierPartition_decode version) (\<lambda>partitions.
     read_then read_unknown_tagged_fields (\<lambda>unknown_tagged_fields.
     read_ok \<lparr>writable_t_topic = topic, writable_t_partitions = partitions,
       writable_t_unknown_tagged_fields = unknown_tagged_fields\<rparr>)))"

definition WritableBarrierTopic_wf :: "WritableBarrierTopic \<Rightarrow> bool" where
  "WritableBarrierTopic_wf x \<longleftrightarrow>
     compact_string_wf (writable_t_topic x)
     \<and> array_wf WritableBarrierPartition_wf (writable_t_partitions x)
     \<and> unknown_wf (writable_t_unknown_tagged_fields x)"

interpretation writable_barrier_topic: message_codec
  WritableBarrierTopic_encode WritableBarrierTopic_decode
  WritableBarrierTopic_encoded_len WritableBarrierTopic_wf version
  for version
proof
  fix x
  show "WritableBarrierTopic_wf x \<Longrightarrow>
    carries (WritableBarrierTopic_encode x version) (WritableBarrierTopic_decode version)
      (WritableBarrierTopic_encoded_len x version) x"
    unfolding WritableBarrierTopic_encode_def WritableBarrierTopic_decode_def
      WritableBarrierTopic_encoded_len_def WritableBarrierTopic_wf_def
    by (rule carries_cong_len, (rule carries_rules | simp add: field_lens version_bounds)+)
  show "yields 1 (WritableBarrierTopic_decode version) WritableBarrierTopic_wf"
    unfolding WritableBarrierTopic_decode_def WritableBarrierTopic_wf_def
    by (rule yields_weaken, (rule yields_rules | simp)+)
  show "extends_input (WritableBarrierTopic_decode version)"
    unfolding WritableBarrierTopic_decode_def by (intro extends_rules)
qed

lemmas [carries_rules] = writable_barrier_topic.array.codec_carries
lemmas [yields_rules] = writable_barrier_topic.array.codec_yields
lemmas [extends_rules] = writable_barrier_topic.array.codec_extends

record WriteBarrierMarkersRequest =
  wbm_req_group :: bytes
  wbm_req_epoch :: i64
  wbm_req_triggered_at :: i64
  wbm_req_topics :: "WritableBarrierTopic list"
  wbm_req_unknown_tagged_fields :: UnknownTaggedFields

definition WriteBarrierMarkersRequest_encode :: "WriteBarrierMarkersRequest \<Rightarrow> i16 \<Rightarrow> encoder" where
  "WriteBarrierMarkersRequest_encode x version =
     write_all
       [write_check (check_version write_barrier_markers_API_KEY version write_barrier_markers_MIN_VERSION write_barrier_markers_MAX_VERSION),
        put_compact_string (wbm_req_group x),
        put_i64 (wbm_req_epoch x),
        put_i64 (wbm_req_triggered_at x),
        encode_array WritableBarrierTopic_encode (wbm_req_topics x) version,
        write_unknown_tagged_fields (wbm_req_unknown_tagged_fields x)]"

definition WriteBarrierMarkersRequest_encoded_len :: "WriteBarrierMarkersRequest \<Rightarrow> i16 \<Rightarrow> nat" where
  "WriteBarrierMarkersRequest_encoded_len x version =
     compact_string_len (wbm_req_group x)
     + I64_LEN
     + I64_LEN
     + array_len WritableBarrierTopic_encoded_len (wbm_req_topics x) version
     + unknown_tagged_fields_len (wbm_req_unknown_tagged_fields x)"

definition WriteBarrierMarkersRequest_decode :: "i16 \<Rightarrow> WriteBarrierMarkersRequest decoder" where
  "WriteBarrierMarkersRequest_decode version =
     checked (check_version write_barrier_markers_API_KEY version write_barrier_markers_MIN_VERSION write_barrier_markers_MAX_VERSION) (
     read_then get_compact_string_owned (\<lambda>group.
     read_then get_i64 (\<lambda>epoch.
     read_then get_i64 (\<lambda>triggered_at.
     read_then (decode_array WritableBarrierTopic_decode version) (\<lambda>topics.
     read_then read_unknown_tagged_fields (\<lambda>unknown_tagged_fields.
     read_ok \<lparr>wbm_req_group = group, wbm_req_epoch = epoch,
       wbm_req_triggered_at = triggered_at, wbm_req_topics = topics,
       wbm_req_unknown_tagged_fields = unknown_tagged_fields\<rparr>))))))"

definition WriteBarrierMarkersRequest_api :: protocol_request where
  "WriteBarrierMarkersRequest_api =
     \<lparr>api_key = write_barrier_markers_API_KEY, min_version = write_barrier_markers_MIN_VERSION, max_version = write_barrier_markers_MAX_VERSION,
       latest_stable_version = write_barrier_markers_MAX_VERSION, flexible_min = write_barrier_markers_FLEXIBLE_MIN\<rparr>"

definition WriteBarrierMarkersRequest_wf :: "WriteBarrierMarkersRequest \<Rightarrow> bool" where
  "WriteBarrierMarkersRequest_wf x \<longleftrightarrow>
     compact_string_wf (wbm_req_group x)
     \<and> array_wf WritableBarrierTopic_wf (wbm_req_topics x)
     \<and> unknown_wf (wbm_req_unknown_tagged_fields x)"

interpretation write_barrier_markers_request: message_codec
  WriteBarrierMarkersRequest_encode WriteBarrierMarkersRequest_decode
  WriteBarrierMarkersRequest_encoded_len WriteBarrierMarkersRequest_wf 0
proof
  fix x
  show "WriteBarrierMarkersRequest_wf x \<Longrightarrow>
    carries (WriteBarrierMarkersRequest_encode x 0) (WriteBarrierMarkersRequest_decode 0)
      (WriteBarrierMarkersRequest_encoded_len x 0) x"
    unfolding WriteBarrierMarkersRequest_encode_def WriteBarrierMarkersRequest_decode_def
      WriteBarrierMarkersRequest_encoded_len_def WriteBarrierMarkersRequest_wf_def
    by (rule carries_cong_len, (rule carries_rules | simp add: field_lens version_bounds)+)
  show "yields 1 (WriteBarrierMarkersRequest_decode 0) WriteBarrierMarkersRequest_wf"
    unfolding WriteBarrierMarkersRequest_decode_def WriteBarrierMarkersRequest_wf_def
    by (rule yields_weaken, (rule yields_rules | simp)+)
  show "extends_input (WriteBarrierMarkersRequest_decode 0)"
    unfolding WriteBarrierMarkersRequest_decode_def by (intro extends_rules)
qed

record WrittenBarrierPartition =
  written_p_partition :: i32
  written_p_error_code :: i16
  written_p_offset :: i64
  written_p_unknown_tagged_fields :: UnknownTaggedFields

definition WrittenBarrierPartition_encode :: "WrittenBarrierPartition \<Rightarrow> i16 \<Rightarrow> encoder" where
  "WrittenBarrierPartition_encode x version =
     write_all
       [put_i32 (written_p_partition x),
        put_i16 (written_p_error_code x),
        put_i64 (written_p_offset x),
        write_unknown_tagged_fields (written_p_unknown_tagged_fields x)]"

definition WrittenBarrierPartition_encoded_len :: "WrittenBarrierPartition \<Rightarrow> i16 \<Rightarrow> nat" where
  "WrittenBarrierPartition_encoded_len x version =
     I32_LEN
     + I16_LEN
     + I64_LEN
     + unknown_tagged_fields_len (written_p_unknown_tagged_fields x)"

definition WrittenBarrierPartition_decode :: "i16 \<Rightarrow> WrittenBarrierPartition decoder" where
  "WrittenBarrierPartition_decode version =
     read_then get_i32 (\<lambda>partition.
     read_then get_i16 (\<lambda>error_code.
     read_then get_i64 (\<lambda>offset.
     read_then read_unknown_tagged_fields (\<lambda>unknown_tagged_fields.
     read_ok \<lparr>written_p_partition = partition, written_p_error_code = error_code,
       written_p_offset = offset, written_p_unknown_tagged_fields = unknown_tagged_fields\<rparr>))))"

definition WrittenBarrierPartition_wf :: "WrittenBarrierPartition \<Rightarrow> bool" where
  "WrittenBarrierPartition_wf x \<longleftrightarrow>
     unknown_wf (written_p_unknown_tagged_fields x)"

interpretation written_barrier_partition: message_codec
  WrittenBarrierPartition_encode WrittenBarrierPartition_decode
  WrittenBarrierPartition_encoded_len WrittenBarrierPartition_wf version
  for version
proof
  fix x
  show "WrittenBarrierPartition_wf x \<Longrightarrow>
    carries (WrittenBarrierPartition_encode x version) (WrittenBarrierPartition_decode version)
      (WrittenBarrierPartition_encoded_len x version) x"
    unfolding WrittenBarrierPartition_encode_def WrittenBarrierPartition_decode_def
      WrittenBarrierPartition_encoded_len_def WrittenBarrierPartition_wf_def
    by (rule carries_cong_len, (rule carries_rules | simp add: field_lens version_bounds)+)
  show "yields 1 (WrittenBarrierPartition_decode version) WrittenBarrierPartition_wf"
    unfolding WrittenBarrierPartition_decode_def WrittenBarrierPartition_wf_def
    by (rule yields_weaken, (rule yields_rules | simp)+)
  show "extends_input (WrittenBarrierPartition_decode version)"
    unfolding WrittenBarrierPartition_decode_def by (intro extends_rules)
qed

lemmas [carries_rules] = written_barrier_partition.array.codec_carries
lemmas [yields_rules] = written_barrier_partition.array.codec_yields
lemmas [extends_rules] = written_barrier_partition.array.codec_extends

record WrittenBarrierTopic =
  written_t_topic :: bytes
  written_t_partitions :: "WrittenBarrierPartition list"
  written_t_unknown_tagged_fields :: UnknownTaggedFields

definition WrittenBarrierTopic_encode :: "WrittenBarrierTopic \<Rightarrow> i16 \<Rightarrow> encoder" where
  "WrittenBarrierTopic_encode x version =
     write_all
       [put_compact_string (written_t_topic x),
        encode_array WrittenBarrierPartition_encode (written_t_partitions x) version,
        write_unknown_tagged_fields (written_t_unknown_tagged_fields x)]"

definition WrittenBarrierTopic_encoded_len :: "WrittenBarrierTopic \<Rightarrow> i16 \<Rightarrow> nat" where
  "WrittenBarrierTopic_encoded_len x version =
     compact_string_len (written_t_topic x)
     + array_len WrittenBarrierPartition_encoded_len (written_t_partitions x) version
     + unknown_tagged_fields_len (written_t_unknown_tagged_fields x)"

definition WrittenBarrierTopic_decode :: "i16 \<Rightarrow> WrittenBarrierTopic decoder" where
  "WrittenBarrierTopic_decode version =
     read_then get_compact_string_owned (\<lambda>topic.
     read_then (decode_array WrittenBarrierPartition_decode version) (\<lambda>partitions.
     read_then read_unknown_tagged_fields (\<lambda>unknown_tagged_fields.
     read_ok \<lparr>written_t_topic = topic, written_t_partitions = partitions,
       written_t_unknown_tagged_fields = unknown_tagged_fields\<rparr>)))"

definition WrittenBarrierTopic_wf :: "WrittenBarrierTopic \<Rightarrow> bool" where
  "WrittenBarrierTopic_wf x \<longleftrightarrow>
     compact_string_wf (written_t_topic x)
     \<and> array_wf WrittenBarrierPartition_wf (written_t_partitions x)
     \<and> unknown_wf (written_t_unknown_tagged_fields x)"

interpretation written_barrier_topic: message_codec
  WrittenBarrierTopic_encode WrittenBarrierTopic_decode
  WrittenBarrierTopic_encoded_len WrittenBarrierTopic_wf version
  for version
proof
  fix x
  show "WrittenBarrierTopic_wf x \<Longrightarrow>
    carries (WrittenBarrierTopic_encode x version) (WrittenBarrierTopic_decode version)
      (WrittenBarrierTopic_encoded_len x version) x"
    unfolding WrittenBarrierTopic_encode_def WrittenBarrierTopic_decode_def
      WrittenBarrierTopic_encoded_len_def WrittenBarrierTopic_wf_def
    by (rule carries_cong_len, (rule carries_rules | simp add: field_lens version_bounds)+)
  show "yields 1 (WrittenBarrierTopic_decode version) WrittenBarrierTopic_wf"
    unfolding WrittenBarrierTopic_decode_def WrittenBarrierTopic_wf_def
    by (rule yields_weaken, (rule yields_rules | simp)+)
  show "extends_input (WrittenBarrierTopic_decode version)"
    unfolding WrittenBarrierTopic_decode_def by (intro extends_rules)
qed

lemmas [carries_rules] = written_barrier_topic.array.codec_carries
lemmas [yields_rules] = written_barrier_topic.array.codec_yields
lemmas [extends_rules] = written_barrier_topic.array.codec_extends

record WriteBarrierMarkersResponse =
  wbm_resp_topics :: "WrittenBarrierTopic list"
  wbm_resp_unknown_tagged_fields :: UnknownTaggedFields

definition WriteBarrierMarkersResponse_encode :: "WriteBarrierMarkersResponse \<Rightarrow> i16 \<Rightarrow> encoder" where
  "WriteBarrierMarkersResponse_encode x version =
     write_all
       [write_check (check_version write_barrier_markers_API_KEY version write_barrier_markers_MIN_VERSION write_barrier_markers_MAX_VERSION),
        encode_array WrittenBarrierTopic_encode (wbm_resp_topics x) version,
        write_unknown_tagged_fields (wbm_resp_unknown_tagged_fields x)]"

definition WriteBarrierMarkersResponse_encoded_len :: "WriteBarrierMarkersResponse \<Rightarrow> i16 \<Rightarrow> nat" where
  "WriteBarrierMarkersResponse_encoded_len x version =
     array_len WrittenBarrierTopic_encoded_len (wbm_resp_topics x) version
     + unknown_tagged_fields_len (wbm_resp_unknown_tagged_fields x)"

definition WriteBarrierMarkersResponse_decode :: "i16 \<Rightarrow> WriteBarrierMarkersResponse decoder" where
  "WriteBarrierMarkersResponse_decode version =
     checked (check_version write_barrier_markers_API_KEY version write_barrier_markers_MIN_VERSION write_barrier_markers_MAX_VERSION) (
     read_then (decode_array WrittenBarrierTopic_decode version) (\<lambda>topics.
     read_then read_unknown_tagged_fields (\<lambda>unknown_tagged_fields.
     read_ok \<lparr>wbm_resp_topics = topics,
       wbm_resp_unknown_tagged_fields = unknown_tagged_fields\<rparr>)))"

definition WriteBarrierMarkersResponse_wf :: "WriteBarrierMarkersResponse \<Rightarrow> bool" where
  "WriteBarrierMarkersResponse_wf x \<longleftrightarrow>
     array_wf WrittenBarrierTopic_wf (wbm_resp_topics x)
     \<and> unknown_wf (wbm_resp_unknown_tagged_fields x)"

interpretation write_barrier_markers_response: message_codec
  WriteBarrierMarkersResponse_encode WriteBarrierMarkersResponse_decode
  WriteBarrierMarkersResponse_encoded_len WriteBarrierMarkersResponse_wf 0
proof
  fix x
  show "WriteBarrierMarkersResponse_wf x \<Longrightarrow>
    carries (WriteBarrierMarkersResponse_encode x 0) (WriteBarrierMarkersResponse_decode 0)
      (WriteBarrierMarkersResponse_encoded_len x 0) x"
    unfolding WriteBarrierMarkersResponse_encode_def WriteBarrierMarkersResponse_decode_def
      WriteBarrierMarkersResponse_encoded_len_def WriteBarrierMarkersResponse_wf_def
    by (rule carries_cong_len, (rule carries_rules | simp add: field_lens version_bounds)+)
  show "yields 1 (WriteBarrierMarkersResponse_decode 0) WriteBarrierMarkersResponse_wf"
    unfolding WriteBarrierMarkersResponse_decode_def WriteBarrierMarkersResponse_wf_def
    by (rule yields_weaken, (rule yields_rules | simp)+)
  show "extends_input (WriteBarrierMarkersResponse_decode 0)"
    unfolding WriteBarrierMarkersResponse_decode_def by (intro extends_rules)
qed

end
