(* ===== verification/FreezeMessages.thy ===== *)
theory FreezeMessages
  imports KrabkaCommon
begin

text \<open>
  The messages of the topic write-freeze registry, \<open>crates/protocol/src/krabka/freeze/\<close>, laid
  out as in \<open>BarrierMessages\<close>.
\<close>

definition PATTERN_TYPE_ANY :: i8 where
  "PATTERN_TYPE_ANY = 1"

definition PATTERN_TYPE_LITERAL :: i8 where
  "PATTERN_TYPE_LITERAL = 3"

definition PATTERN_TYPE_PREFIXED :: i8 where
  "PATTERN_TYPE_PREFIXED = 4"

section \<open>SetTopicFreeze\<close>

definition set_topic_freeze_API_KEY :: i16 where
  "set_topic_freeze_API_KEY = 1015"

definition set_topic_freeze_MIN_VERSION :: i16 where
  [version_bounds]: "set_topic_freeze_MIN_VERSION = 0"

definition set_topic_freeze_MAX_VERSION :: i16 where
  [version_bounds]: "set_topic_freeze_MAX_VERSION = 0"

definition set_topic_freeze_FLEXIBLE_MIN :: i16 where
  "set_topic_freeze_FLEXIBLE_MIN = 0"

definition set_topic_freeze_is_flexible :: "i16 \<Rightarrow> bool" where
  "set_topic_freeze_is_flexible version \<longleftrightarrow> set_topic_freeze_FLEXIBLE_MIN \<le>s version"

record SetTopicFreezeRequest =
  stf_req_scope :: bytes
  stf_req_pattern_type :: i8
  stf_req_frozen :: bool
  stf_req_reason :: bytes
  stf_req_proposal_id :: Uuid
  stf_req_set_at_ms :: i64
  stf_req_key_id :: bytes
  stf_req_signature :: bytes
  stf_req_unknown_tagged_fields :: UnknownTaggedFields

definition SetTopicFreezeRequest_default :: SetTopicFreezeRequest where
  "SetTopicFreezeRequest_default =
     \<lparr>stf_req_scope = [],
       stf_req_pattern_type = PATTERN_TYPE_LITERAL,
       stf_req_frozen = True,
       stf_req_reason = [],
       stf_req_proposal_id = Uuid_ZERO,
       stf_req_set_at_ms = 0,
       stf_req_key_id = [],
       stf_req_signature = [],
       stf_req_unknown_tagged_fields = []\<rparr>"

definition SetTopicFreezeRequest_encode :: "SetTopicFreezeRequest \<Rightarrow> i16 \<Rightarrow> encoder" where
  "SetTopicFreezeRequest_encode x version =
     write_all
       [write_check (check_version set_topic_freeze_API_KEY version set_topic_freeze_MIN_VERSION set_topic_freeze_MAX_VERSION),
        put_compact_string (stf_req_scope x),
        put_i8 (stf_req_pattern_type x),
        put_bool (stf_req_frozen x),
        put_compact_string (stf_req_reason x),
        put_uuid (stf_req_proposal_id x),
        put_i64 (stf_req_set_at_ms x),
        put_compact_string (stf_req_key_id x),
        put_compact_bytes (stf_req_signature x),
        write_unknown_tagged_fields (stf_req_unknown_tagged_fields x)]"

definition SetTopicFreezeRequest_encoded_len :: "SetTopicFreezeRequest \<Rightarrow> i16 \<Rightarrow> nat" where
  "SetTopicFreezeRequest_encoded_len x version =
     compact_string_len (stf_req_scope x)
     + I8_LEN
     + BOOL_LEN
     + compact_string_len (stf_req_reason x)
     + UUID_LEN
     + I64_LEN
     + compact_string_len (stf_req_key_id x)
     + compact_bytes_len (stf_req_signature x)
     + unknown_tagged_fields_len (stf_req_unknown_tagged_fields x)"

definition SetTopicFreezeRequest_decode :: "i16 \<Rightarrow> SetTopicFreezeRequest decoder" where
  "SetTopicFreezeRequest_decode version =
     checked (check_version set_topic_freeze_API_KEY version set_topic_freeze_MIN_VERSION set_topic_freeze_MAX_VERSION) (
     read_then get_compact_string_owned (\<lambda>scope.
     read_then get_i8 (\<lambda>pattern_type.
     read_then get_bool (\<lambda>frozen.
     read_then get_compact_string_owned (\<lambda>reason.
     read_then get_uuid (\<lambda>proposal_id.
     read_then get_i64 (\<lambda>set_at_ms.
     read_then get_compact_string_owned (\<lambda>key_id.
     read_then get_compact_bytes_owned (\<lambda>signature.
     read_then read_unknown_tagged_fields (\<lambda>unknown_tagged_fields.
     read_ok \<lparr>stf_req_scope = scope, stf_req_pattern_type = pattern_type,
       stf_req_frozen = frozen, stf_req_reason = reason, stf_req_proposal_id = proposal_id,
       stf_req_set_at_ms = set_at_ms, stf_req_key_id = key_id, stf_req_signature = signature,
       stf_req_unknown_tagged_fields = unknown_tagged_fields\<rparr>))))))))))"

definition SetTopicFreezeRequest_api :: protocol_request where
  "SetTopicFreezeRequest_api =
     \<lparr>api_key = set_topic_freeze_API_KEY, min_version = set_topic_freeze_MIN_VERSION, max_version = set_topic_freeze_MAX_VERSION,
       latest_stable_version = set_topic_freeze_MAX_VERSION, flexible_min = set_topic_freeze_FLEXIBLE_MIN\<rparr>"

definition SetTopicFreezeRequest_wf :: "SetTopicFreezeRequest \<Rightarrow> bool" where
  "SetTopicFreezeRequest_wf x \<longleftrightarrow>
     compact_string_wf (stf_req_scope x)
     \<and> compact_string_wf (stf_req_reason x)
     \<and> uuid_wf (stf_req_proposal_id x)
     \<and> compact_string_wf (stf_req_key_id x)
     \<and> compact_bytes_wf (stf_req_signature x)
     \<and> unknown_wf (stf_req_unknown_tagged_fields x)"

interpretation set_topic_freeze_request: message_codec
  SetTopicFreezeRequest_encode SetTopicFreezeRequest_decode
  SetTopicFreezeRequest_encoded_len SetTopicFreezeRequest_wf 0
proof
  fix x
  show "SetTopicFreezeRequest_wf x \<Longrightarrow>
    carries (SetTopicFreezeRequest_encode x 0) (SetTopicFreezeRequest_decode 0)
      (SetTopicFreezeRequest_encoded_len x 0) x"
    unfolding SetTopicFreezeRequest_encode_def SetTopicFreezeRequest_decode_def
      SetTopicFreezeRequest_encoded_len_def SetTopicFreezeRequest_wf_def
    by (rule carries_cong_len, (rule carries_rules | simp add: field_lens version_bounds)+)
  show "yields 1 (SetTopicFreezeRequest_decode 0) SetTopicFreezeRequest_wf"
    unfolding SetTopicFreezeRequest_decode_def SetTopicFreezeRequest_wf_def
    by (rule yields_weaken, (rule yields_rules | simp)+)
  show "extends_input (SetTopicFreezeRequest_decode 0)"
    unfolding SetTopicFreezeRequest_decode_def by (intro extends_rules)
qed

record SetTopicFreezeResponse =
  stf_resp_throttle_time_ms :: i32
  stf_resp_error_code :: i16
  stf_resp_error_message :: "bytes option"
  stf_resp_unknown_tagged_fields :: UnknownTaggedFields

definition SetTopicFreezeResponse_encode :: "SetTopicFreezeResponse \<Rightarrow> i16 \<Rightarrow> encoder" where
  "SetTopicFreezeResponse_encode x version =
     write_all
       [write_check (check_version set_topic_freeze_API_KEY version set_topic_freeze_MIN_VERSION set_topic_freeze_MAX_VERSION),
        put_i32 (stf_resp_throttle_time_ms x),
        put_i16 (stf_resp_error_code x),
        put_compact_nullable_string (stf_resp_error_message x),
        write_unknown_tagged_fields (stf_resp_unknown_tagged_fields x)]"

definition SetTopicFreezeResponse_encoded_len :: "SetTopicFreezeResponse \<Rightarrow> i16 \<Rightarrow> nat" where
  "SetTopicFreezeResponse_encoded_len x version =
     I32_LEN
     + I16_LEN
     + compact_nullable_string_len (stf_resp_error_message x)
     + unknown_tagged_fields_len (stf_resp_unknown_tagged_fields x)"

definition SetTopicFreezeResponse_decode :: "i16 \<Rightarrow> SetTopicFreezeResponse decoder" where
  "SetTopicFreezeResponse_decode version =
     checked (check_version set_topic_freeze_API_KEY version set_topic_freeze_MIN_VERSION set_topic_freeze_MAX_VERSION) (
     read_then get_i32 (\<lambda>throttle_time_ms.
     read_then get_i16 (\<lambda>error_code.
     read_then get_compact_nullable_string_owned (\<lambda>error_message.
     read_then read_unknown_tagged_fields (\<lambda>unknown_tagged_fields.
     read_ok \<lparr>stf_resp_throttle_time_ms = throttle_time_ms,
       stf_resp_error_code = error_code, stf_resp_error_message = error_message,
       stf_resp_unknown_tagged_fields = unknown_tagged_fields\<rparr>)))))"

definition SetTopicFreezeResponse_wf :: "SetTopicFreezeResponse \<Rightarrow> bool" where
  "SetTopicFreezeResponse_wf x \<longleftrightarrow>
     pred_option compact_string_wf (stf_resp_error_message x)
     \<and> unknown_wf (stf_resp_unknown_tagged_fields x)"

interpretation set_topic_freeze_response: message_codec
  SetTopicFreezeResponse_encode SetTopicFreezeResponse_decode
  SetTopicFreezeResponse_encoded_len SetTopicFreezeResponse_wf 0
proof
  fix x
  show "SetTopicFreezeResponse_wf x \<Longrightarrow>
    carries (SetTopicFreezeResponse_encode x 0) (SetTopicFreezeResponse_decode 0)
      (SetTopicFreezeResponse_encoded_len x 0) x"
    unfolding SetTopicFreezeResponse_encode_def SetTopicFreezeResponse_decode_def
      SetTopicFreezeResponse_encoded_len_def SetTopicFreezeResponse_wf_def
    by (rule carries_cong_len, (rule carries_rules | simp add: field_lens version_bounds)+)
  show "yields 1 (SetTopicFreezeResponse_decode 0) SetTopicFreezeResponse_wf"
    unfolding SetTopicFreezeResponse_decode_def SetTopicFreezeResponse_wf_def
    by (rule yields_weaken, (rule yields_rules | simp)+)
  show "extends_input (SetTopicFreezeResponse_decode 0)"
    unfolding SetTopicFreezeResponse_decode_def by (intro extends_rules)
qed

section \<open>DescribeTopicFreezes\<close>

definition describe_topic_freezes_API_KEY :: i16 where
  "describe_topic_freezes_API_KEY = 1016"

definition describe_topic_freezes_MIN_VERSION :: i16 where
  [version_bounds]: "describe_topic_freezes_MIN_VERSION = 0"

definition describe_topic_freezes_MAX_VERSION :: i16 where
  [version_bounds]: "describe_topic_freezes_MAX_VERSION = 0"

definition describe_topic_freezes_FLEXIBLE_MIN :: i16 where
  "describe_topic_freezes_FLEXIBLE_MIN = 0"

definition describe_topic_freezes_is_flexible :: "i16 \<Rightarrow> bool" where
  "describe_topic_freezes_is_flexible version \<longleftrightarrow> describe_topic_freezes_FLEXIBLE_MIN \<le>s version"

record DescribeTopicFreezesRequest =
  dtf_req_scope_filter :: "bytes option"
  dtf_req_pattern_type_filter :: i8
  dtf_req_unknown_tagged_fields :: UnknownTaggedFields

definition DescribeTopicFreezesRequest_default :: DescribeTopicFreezesRequest where
  "DescribeTopicFreezesRequest_default =
     \<lparr>dtf_req_scope_filter = None,
       dtf_req_pattern_type_filter = PATTERN_TYPE_ANY,
       dtf_req_unknown_tagged_fields = []\<rparr>"

definition DescribeTopicFreezesRequest_encode :: "DescribeTopicFreezesRequest \<Rightarrow> i16 \<Rightarrow> encoder" where
  "DescribeTopicFreezesRequest_encode x version =
     write_all
       [write_check (check_version describe_topic_freezes_API_KEY version describe_topic_freezes_MIN_VERSION describe_topic_freezes_MAX_VERSION),
        put_compact_nullable_string (dtf_req_scope_filter x),
        put_i8 (dtf_req_pattern_type_filter x),
        write_unknown_tagged_fields (dtf_req_unknown_tagged_fields x)]"

definition DescribeTopicFreezesRequest_encoded_len :: "DescribeTopicFreezesRequest \<Rightarrow> i16 \<Rightarrow> nat" where
  "DescribeTopicFreezesRequest_encoded_len x version =
     compact_nullable_string_len (dtf_req_scope_filter x)
     + I8_LEN
     + unknown_tagged_fields_len (dtf_req_unknown_tagged_fields x)"

definition DescribeTopicFreezesRequest_decode :: "i16 \<Rightarrow> DescribeTopicFreezesRequest decoder" where
  "DescribeTopicFreezesRequest_decode version =
     checked (check_version describe_topic_freezes_API_KEY version describe_topic_freezes_MIN_VERSION describe_topic_freezes_MAX_VERSION) (
     read_then get_compact_nullable_string_owned (\<lambda>scope_filter.
     read_then get_i8 (\<lambda>pattern_type_filter.
     read_then read_unknown_tagged_fields (\<lambda>unknown_tagged_fields.
     read_ok \<lparr>dtf_req_scope_filter = scope_filter,
       dtf_req_pattern_type_filter = pattern_type_filter,
       dtf_req_unknown_tagged_fields = unknown_tagged_fields\<rparr>))))"

definition DescribeTopicFreezesRequest_api :: protocol_request where
  "DescribeTopicFreezesRequest_api =
     \<lparr>api_key = describe_topic_freezes_API_KEY, min_version = describe_topic_freezes_MIN_VERSION, max_version = describe_topic_freezes_MAX_VERSION,
       latest_stable_version = describe_topic_freezes_MAX_VERSION, flexible_min = describe_topic_freezes_FLEXIBLE_MIN\<rparr>"

definition DescribeTopicFreezesRequest_wf :: "DescribeTopicFreezesRequest \<Rightarrow> bool" where
  "DescribeTopicFreezesRequest_wf x \<longleftrightarrow>
     pred_option compact_string_wf (dtf_req_scope_filter x)
     \<and> unknown_wf (dtf_req_unknown_tagged_fields x)"

interpretation describe_topic_freezes_request: message_codec
  DescribeTopicFreezesRequest_encode DescribeTopicFreezesRequest_decode
  DescribeTopicFreezesRequest_encoded_len DescribeTopicFreezesRequest_wf 0
proof
  fix x
  show "DescribeTopicFreezesRequest_wf x \<Longrightarrow>
    carries (DescribeTopicFreezesRequest_encode x 0) (DescribeTopicFreezesRequest_decode 0)
      (DescribeTopicFreezesRequest_encoded_len x 0) x"
    unfolding DescribeTopicFreezesRequest_encode_def DescribeTopicFreezesRequest_decode_def
      DescribeTopicFreezesRequest_encoded_len_def DescribeTopicFreezesRequest_wf_def
    by (rule carries_cong_len, (rule carries_rules | simp add: field_lens version_bounds)+)
  show "yields 1 (DescribeTopicFreezesRequest_decode 0) DescribeTopicFreezesRequest_wf"
    unfolding DescribeTopicFreezesRequest_decode_def DescribeTopicFreezesRequest_wf_def
    by (rule yields_weaken, (rule yields_rules | simp)+)
  show "extends_input (DescribeTopicFreezesRequest_decode 0)"
    unfolding DescribeTopicFreezesRequest_decode_def by (intro extends_rules)
qed

record DescribedTopicFreeze =
  dtf_scope :: bytes
  dtf_pattern_type :: i8
  dtf_reason :: bytes
  dtf_set_by :: bytes
  dtf_set_at_ms :: i64
  dtf_proposal_id :: Uuid
  dtf_key_id :: bytes
  dtf_signature :: bytes
  dtf_unknown_tagged_fields :: UnknownTaggedFields

definition DescribedTopicFreeze_default :: DescribedTopicFreeze where
  "DescribedTopicFreeze_default =
     \<lparr>dtf_scope = [],
       dtf_pattern_type = PATTERN_TYPE_LITERAL,
       dtf_reason = [],
       dtf_set_by = [],
       dtf_set_at_ms = 0,
       dtf_proposal_id = Uuid_ZERO,
       dtf_key_id = [],
       dtf_signature = [],
       dtf_unknown_tagged_fields = []\<rparr>"

definition DescribedTopicFreeze_encode :: "DescribedTopicFreeze \<Rightarrow> i16 \<Rightarrow> encoder" where
  "DescribedTopicFreeze_encode x version =
     write_all
       [put_compact_string (dtf_scope x),
        put_i8 (dtf_pattern_type x),
        put_compact_string (dtf_reason x),
        put_compact_string (dtf_set_by x),
        put_i64 (dtf_set_at_ms x),
        put_uuid (dtf_proposal_id x),
        put_compact_string (dtf_key_id x),
        put_compact_bytes (dtf_signature x),
        write_unknown_tagged_fields (dtf_unknown_tagged_fields x)]"

definition DescribedTopicFreeze_encoded_len :: "DescribedTopicFreeze \<Rightarrow> i16 \<Rightarrow> nat" where
  "DescribedTopicFreeze_encoded_len x version =
     compact_string_len (dtf_scope x)
     + I8_LEN
     + compact_string_len (dtf_reason x)
     + compact_string_len (dtf_set_by x)
     + I64_LEN
     + UUID_LEN
     + compact_string_len (dtf_key_id x)
     + compact_bytes_len (dtf_signature x)
     + unknown_tagged_fields_len (dtf_unknown_tagged_fields x)"

definition DescribedTopicFreeze_decode :: "i16 \<Rightarrow> DescribedTopicFreeze decoder" where
  "DescribedTopicFreeze_decode version =
     read_then get_compact_string_owned (\<lambda>scope.
     read_then get_i8 (\<lambda>pattern_type.
     read_then get_compact_string_owned (\<lambda>reason.
     read_then get_compact_string_owned (\<lambda>set_by.
     read_then get_i64 (\<lambda>set_at_ms.
     read_then get_uuid (\<lambda>proposal_id.
     read_then get_compact_string_owned (\<lambda>key_id.
     read_then get_compact_bytes_owned (\<lambda>signature.
     read_then read_unknown_tagged_fields (\<lambda>unknown_tagged_fields.
     read_ok \<lparr>dtf_scope = scope, dtf_pattern_type = pattern_type, dtf_reason = reason,
       dtf_set_by = set_by, dtf_set_at_ms = set_at_ms, dtf_proposal_id = proposal_id,
       dtf_key_id = key_id, dtf_signature = signature,
       dtf_unknown_tagged_fields = unknown_tagged_fields\<rparr>)))))))))"

definition DescribedTopicFreeze_wf :: "DescribedTopicFreeze \<Rightarrow> bool" where
  "DescribedTopicFreeze_wf x \<longleftrightarrow>
     compact_string_wf (dtf_scope x)
     \<and> compact_string_wf (dtf_reason x)
     \<and> compact_string_wf (dtf_set_by x)
     \<and> uuid_wf (dtf_proposal_id x)
     \<and> compact_string_wf (dtf_key_id x)
     \<and> compact_bytes_wf (dtf_signature x)
     \<and> unknown_wf (dtf_unknown_tagged_fields x)"

interpretation described_topic_freeze: message_codec
  DescribedTopicFreeze_encode DescribedTopicFreeze_decode
  DescribedTopicFreeze_encoded_len DescribedTopicFreeze_wf version
  for version
proof
  fix x
  show "DescribedTopicFreeze_wf x \<Longrightarrow>
    carries (DescribedTopicFreeze_encode x version) (DescribedTopicFreeze_decode version)
      (DescribedTopicFreeze_encoded_len x version) x"
    unfolding DescribedTopicFreeze_encode_def DescribedTopicFreeze_decode_def
      DescribedTopicFreeze_encoded_len_def DescribedTopicFreeze_wf_def
    by (rule carries_cong_len, (rule carries_rules | simp add: field_lens version_bounds)+)
  show "yields 1 (DescribedTopicFreeze_decode version) DescribedTopicFreeze_wf"
    unfolding DescribedTopicFreeze_decode_def DescribedTopicFreeze_wf_def
    by (rule yields_weaken, (rule yields_rules | simp)+)
  show "extends_input (DescribedTopicFreeze_decode version)"
    unfolding DescribedTopicFreeze_decode_def by (intro extends_rules)
qed

lemmas [carries_rules] = described_topic_freeze.array.codec_carries
lemmas [yields_rules] = described_topic_freeze.array.codec_yields
lemmas [extends_rules] = described_topic_freeze.array.codec_extends

record DescribeTopicFreezesResponse =
  dtf_resp_throttle_time_ms :: i32
  dtf_resp_error_code :: i16
  dtf_resp_error_message :: "bytes option"
  dtf_resp_freezes :: "DescribedTopicFreeze list"
  dtf_resp_unknown_tagged_fields :: UnknownTaggedFields

definition DescribeTopicFreezesResponse_encode :: "DescribeTopicFreezesResponse \<Rightarrow> i16 \<Rightarrow> encoder" where
  "DescribeTopicFreezesResponse_encode x version =
     write_all
       [write_check (check_version describe_topic_freezes_API_KEY version describe_topic_freezes_MIN_VERSION describe_topic_freezes_MAX_VERSION),
        put_i32 (dtf_resp_throttle_time_ms x),
        put_i16 (dtf_resp_error_code x),
        put_compact_nullable_string (dtf_resp_error_message x),
        encode_array DescribedTopicFreeze_encode (dtf_resp_freezes x) version,
        write_unknown_tagged_fields (dtf_resp_unknown_tagged_fields x)]"

definition DescribeTopicFreezesResponse_encoded_len :: "DescribeTopicFreezesResponse \<Rightarrow> i16 \<Rightarrow> nat" where
  "DescribeTopicFreezesResponse_encoded_len x version =
     I32_LEN
     + I16_LEN
     + compact_nullable_string_len (dtf_resp_error_message x)
     + array_len DescribedTopicFreeze_encoded_len (dtf_resp_freezes x) version
     + unknown_tagged_fields_len (dtf_resp_unknown_tagged_fields x)"

definition DescribeTopicFreezesResponse_decode :: "i16 \<Rightarrow> DescribeTopicFreezesResponse decoder" where
  "DescribeTopicFreezesResponse_decode version =
     checked (check_version describe_topic_freezes_API_KEY version describe_topic_freezes_MIN_VERSION describe_topic_freezes_MAX_VERSION) (
     read_then get_i32 (\<lambda>throttle_time_ms.
     read_then get_i16 (\<lambda>error_code.
     read_then get_compact_nullable_string_owned (\<lambda>error_message.
     read_then (decode_array DescribedTopicFreeze_decode version) (\<lambda>freezes.
     read_then read_unknown_tagged_fields (\<lambda>unknown_tagged_fields.
     read_ok \<lparr>dtf_resp_throttle_time_ms = throttle_time_ms,
       dtf_resp_error_code = error_code, dtf_resp_error_message = error_message,
       dtf_resp_freezes = freezes, dtf_resp_unknown_tagged_fields = unknown_tagged_fields\<rparr>))))))"

definition DescribeTopicFreezesResponse_wf :: "DescribeTopicFreezesResponse \<Rightarrow> bool" where
  "DescribeTopicFreezesResponse_wf x \<longleftrightarrow>
     pred_option compact_string_wf (dtf_resp_error_message x)
     \<and> array_wf DescribedTopicFreeze_wf (dtf_resp_freezes x)
     \<and> unknown_wf (dtf_resp_unknown_tagged_fields x)"

interpretation describe_topic_freezes_response: message_codec
  DescribeTopicFreezesResponse_encode DescribeTopicFreezesResponse_decode
  DescribeTopicFreezesResponse_encoded_len DescribeTopicFreezesResponse_wf 0
proof
  fix x
  show "DescribeTopicFreezesResponse_wf x \<Longrightarrow>
    carries (DescribeTopicFreezesResponse_encode x 0) (DescribeTopicFreezesResponse_decode 0)
      (DescribeTopicFreezesResponse_encoded_len x 0) x"
    unfolding DescribeTopicFreezesResponse_encode_def DescribeTopicFreezesResponse_decode_def
      DescribeTopicFreezesResponse_encoded_len_def DescribeTopicFreezesResponse_wf_def
    by (rule carries_cong_len, (rule carries_rules | simp add: field_lens version_bounds)+)
  show "yields 1 (DescribeTopicFreezesResponse_decode 0) DescribeTopicFreezesResponse_wf"
    unfolding DescribeTopicFreezesResponse_decode_def DescribeTopicFreezesResponse_wf_def
    by (rule yields_weaken, (rule yields_rules | simp)+)
  show "extends_input (DescribeTopicFreezesResponse_decode 0)"
    unfolding DescribeTopicFreezesResponse_decode_def by (intro extends_rules)
qed

end
