(* ===== verification/BreakGlassMessages.thy ===== *)
theory BreakGlassMessages
  imports KrabkaCommon
begin

text \<open>
  The messages of the break-glass two-person rule, \<open>crates/protocol/src/krabka/break_glass/\<close>,
  laid out as in \<open>BarrierMessages\<close>.
\<close>

section \<open>ProposeBreakGlass\<close>

definition propose_API_KEY :: i16 where
  "propose_API_KEY = 1017"

definition propose_MIN_VERSION :: i16 where
  [version_bounds]: "propose_MIN_VERSION = 0"

definition propose_MAX_VERSION :: i16 where
  [version_bounds]: "propose_MAX_VERSION = 0"

definition propose_FLEXIBLE_MIN :: i16 where
  "propose_FLEXIBLE_MIN = 0"

definition propose_is_flexible :: "i16 \<Rightarrow> bool" where
  "propose_is_flexible version \<longleftrightarrow> propose_FLEXIBLE_MIN \<le>s version"

record ProposeBreakGlassRequest =
  pbg_req_action :: i8
  pbg_req_target :: bytes
  pbg_req_reason :: bytes
  pbg_req_ttl_ms :: i64
  pbg_req_unknown_tagged_fields :: UnknownTaggedFields

definition ProposeBreakGlassRequest_encode :: "ProposeBreakGlassRequest \<Rightarrow> i16 \<Rightarrow> encoder" where
  "ProposeBreakGlassRequest_encode x version =
     write_all
       [write_check (check_version propose_API_KEY version propose_MIN_VERSION propose_MAX_VERSION),
        put_i8 (pbg_req_action x),
        put_compact_string (pbg_req_target x),
        put_compact_string (pbg_req_reason x),
        put_i64 (pbg_req_ttl_ms x),
        write_unknown_tagged_fields (pbg_req_unknown_tagged_fields x)]"

definition ProposeBreakGlassRequest_encoded_len :: "ProposeBreakGlassRequest \<Rightarrow> i16 \<Rightarrow> nat" where
  "ProposeBreakGlassRequest_encoded_len x version =
     I8_LEN
     + compact_string_len (pbg_req_target x)
     + compact_string_len (pbg_req_reason x)
     + I64_LEN
     + unknown_tagged_fields_len (pbg_req_unknown_tagged_fields x)"

definition ProposeBreakGlassRequest_decode :: "i16 \<Rightarrow> ProposeBreakGlassRequest decoder" where
  "ProposeBreakGlassRequest_decode version =
     checked (check_version propose_API_KEY version propose_MIN_VERSION propose_MAX_VERSION) (
     read_then get_i8 (\<lambda>action.
     read_then get_compact_string_owned (\<lambda>target.
     read_then get_compact_string_owned (\<lambda>reason.
     read_then get_i64 (\<lambda>ttl_ms.
     read_then read_unknown_tagged_fields (\<lambda>unknown_tagged_fields.
     read_ok \<lparr>pbg_req_action = action, pbg_req_target = target, pbg_req_reason = reason,
       pbg_req_ttl_ms = ttl_ms, pbg_req_unknown_tagged_fields = unknown_tagged_fields\<rparr>))))))"

definition ProposeBreakGlassRequest_api :: protocol_request where
  "ProposeBreakGlassRequest_api =
     \<lparr>api_key = propose_API_KEY, min_version = propose_MIN_VERSION, max_version = propose_MAX_VERSION,
       latest_stable_version = propose_MAX_VERSION, flexible_min = propose_FLEXIBLE_MIN\<rparr>"

definition ProposeBreakGlassRequest_wf :: "ProposeBreakGlassRequest \<Rightarrow> bool" where
  "ProposeBreakGlassRequest_wf x \<longleftrightarrow>
     compact_string_wf (pbg_req_target x)
     \<and> compact_string_wf (pbg_req_reason x)
     \<and> unknown_wf (pbg_req_unknown_tagged_fields x)"

interpretation propose_break_glass_request: message_codec
  ProposeBreakGlassRequest_encode ProposeBreakGlassRequest_decode
  ProposeBreakGlassRequest_encoded_len ProposeBreakGlassRequest_wf 0
proof
  fix x
  show "ProposeBreakGlassRequest_wf x \<Longrightarrow>
    carries (ProposeBreakGlassRequest_encode x 0) (ProposeBreakGlassRequest_decode 0)
      (ProposeBreakGlassRequest_encoded_len x 0) x"
    unfolding ProposeBreakGlassRequest_encode_def ProposeBreakGlassRequest_decode_def
      ProposeBreakGlassRequest_encoded_len_def ProposeBreakGlassRequest_wf_def
    by (rule carries_cong_len, (rule carries_rules | simp add: field_lens version_bounds)+)
  show "yields 1 (ProposeBreakGlassRequest_decode 0) ProposeBreakGlassRequest_wf"
    unfolding ProposeBreakGlassRequest_decode_def ProposeBreakGlassRequest_wf_def
    by (rule yields_weaken, (rule yields_rules | simp)+)
  show "extends_input (ProposeBreakGlassRequest_decode 0)"
    unfolding ProposeBreakGlassRequest_decode_def by (intro extends_rules)
qed

record ProposeBreakGlassResponse =
  pbg_resp_throttle_time_ms :: i32
  pbg_resp_error_code :: i16
  pbg_resp_error_message :: "bytes option"
  pbg_resp_proposal_id :: Uuid
  pbg_resp_expires_at_ms :: i64
  pbg_resp_unknown_tagged_fields :: UnknownTaggedFields

definition ProposeBreakGlassResponse_encode :: "ProposeBreakGlassResponse \<Rightarrow> i16 \<Rightarrow> encoder" where
  "ProposeBreakGlassResponse_encode x version =
     write_all
       [write_check (check_version propose_API_KEY version propose_MIN_VERSION propose_MAX_VERSION),
        put_i32 (pbg_resp_throttle_time_ms x),
        put_i16 (pbg_resp_error_code x),
        put_compact_nullable_string (pbg_resp_error_message x),
        put_uuid (pbg_resp_proposal_id x),
        put_i64 (pbg_resp_expires_at_ms x),
        write_unknown_tagged_fields (pbg_resp_unknown_tagged_fields x)]"

definition ProposeBreakGlassResponse_encoded_len :: "ProposeBreakGlassResponse \<Rightarrow> i16 \<Rightarrow> nat" where
  "ProposeBreakGlassResponse_encoded_len x version =
     I32_LEN
     + I16_LEN
     + compact_nullable_string_len (pbg_resp_error_message x)
     + UUID_LEN
     + I64_LEN
     + unknown_tagged_fields_len (pbg_resp_unknown_tagged_fields x)"

definition ProposeBreakGlassResponse_decode :: "i16 \<Rightarrow> ProposeBreakGlassResponse decoder" where
  "ProposeBreakGlassResponse_decode version =
     checked (check_version propose_API_KEY version propose_MIN_VERSION propose_MAX_VERSION) (
     read_then get_i32 (\<lambda>throttle_time_ms.
     read_then get_i16 (\<lambda>error_code.
     read_then get_compact_nullable_string_owned (\<lambda>error_message.
     read_then get_uuid (\<lambda>proposal_id.
     read_then get_i64 (\<lambda>expires_at_ms.
     read_then read_unknown_tagged_fields (\<lambda>unknown_tagged_fields.
     read_ok \<lparr>pbg_resp_throttle_time_ms = throttle_time_ms,
       pbg_resp_error_code = error_code, pbg_resp_error_message = error_message,
       pbg_resp_proposal_id = proposal_id, pbg_resp_expires_at_ms = expires_at_ms,
       pbg_resp_unknown_tagged_fields = unknown_tagged_fields\<rparr>)))))))"

definition ProposeBreakGlassResponse_wf :: "ProposeBreakGlassResponse \<Rightarrow> bool" where
  "ProposeBreakGlassResponse_wf x \<longleftrightarrow>
     pred_option compact_string_wf (pbg_resp_error_message x)
     \<and> uuid_wf (pbg_resp_proposal_id x)
     \<and> unknown_wf (pbg_resp_unknown_tagged_fields x)"

interpretation propose_break_glass_response: message_codec
  ProposeBreakGlassResponse_encode ProposeBreakGlassResponse_decode
  ProposeBreakGlassResponse_encoded_len ProposeBreakGlassResponse_wf 0
proof
  fix x
  show "ProposeBreakGlassResponse_wf x \<Longrightarrow>
    carries (ProposeBreakGlassResponse_encode x 0) (ProposeBreakGlassResponse_decode 0)
      (ProposeBreakGlassResponse_encoded_len x 0) x"
    unfolding ProposeBreakGlassResponse_encode_def ProposeBreakGlassResponse_decode_def
      ProposeBreakGlassResponse_encoded_len_def ProposeBreakGlassResponse_wf_def
    by (rule carries_cong_len, (rule carries_rules | simp add: field_lens version_bounds)+)
  show "yields 1 (ProposeBreakGlassResponse_decode 0) ProposeBreakGlassResponse_wf"
    unfolding ProposeBreakGlassResponse_decode_def ProposeBreakGlassResponse_wf_def
    by (rule yields_weaken, (rule yields_rules | simp)+)
  show "extends_input (ProposeBreakGlassResponse_decode 0)"
    unfolding ProposeBreakGlassResponse_decode_def by (intro extends_rules)
qed

section \<open>ApproveBreakGlass\<close>

definition approve_API_KEY :: i16 where
  "approve_API_KEY = 1018"

definition approve_MIN_VERSION :: i16 where
  [version_bounds]: "approve_MIN_VERSION = 0"

definition approve_MAX_VERSION :: i16 where
  [version_bounds]: "approve_MAX_VERSION = 0"

definition approve_FLEXIBLE_MIN :: i16 where
  "approve_FLEXIBLE_MIN = 0"

definition approve_is_flexible :: "i16 \<Rightarrow> bool" where
  "approve_is_flexible version \<longleftrightarrow> approve_FLEXIBLE_MIN \<le>s version"

record ApproveBreakGlassRequest =
  approve_req_proposal_id :: Uuid
  approve_req_key_id :: bytes
  approve_req_signature :: bytes
  approve_req_withdraw :: bool
  approve_req_unknown_tagged_fields :: UnknownTaggedFields

definition ApproveBreakGlassRequest_encode :: "ApproveBreakGlassRequest \<Rightarrow> i16 \<Rightarrow> encoder" where
  "ApproveBreakGlassRequest_encode x version =
     write_all
       [write_check (check_version approve_API_KEY version approve_MIN_VERSION approve_MAX_VERSION),
        put_uuid (approve_req_proposal_id x),
        put_compact_string (approve_req_key_id x),
        put_compact_bytes (approve_req_signature x),
        put_bool (approve_req_withdraw x),
        write_unknown_tagged_fields (approve_req_unknown_tagged_fields x)]"

definition ApproveBreakGlassRequest_encoded_len :: "ApproveBreakGlassRequest \<Rightarrow> i16 \<Rightarrow> nat" where
  "ApproveBreakGlassRequest_encoded_len x version =
     UUID_LEN
     + compact_string_len (approve_req_key_id x)
     + compact_bytes_len (approve_req_signature x)
     + BOOL_LEN
     + unknown_tagged_fields_len (approve_req_unknown_tagged_fields x)"

definition ApproveBreakGlassRequest_decode :: "i16 \<Rightarrow> ApproveBreakGlassRequest decoder" where
  "ApproveBreakGlassRequest_decode version =
     checked (check_version approve_API_KEY version approve_MIN_VERSION approve_MAX_VERSION) (
     read_then get_uuid (\<lambda>proposal_id.
     read_then get_compact_string_owned (\<lambda>key_id.
     read_then get_compact_bytes_owned (\<lambda>signature.
     read_then get_bool (\<lambda>withdraw.
     read_then read_unknown_tagged_fields (\<lambda>unknown_tagged_fields.
     read_ok \<lparr>approve_req_proposal_id = proposal_id, approve_req_key_id = key_id,
       approve_req_signature = signature, approve_req_withdraw = withdraw,
       approve_req_unknown_tagged_fields = unknown_tagged_fields\<rparr>))))))"

definition ApproveBreakGlassRequest_api :: protocol_request where
  "ApproveBreakGlassRequest_api =
     \<lparr>api_key = approve_API_KEY, min_version = approve_MIN_VERSION, max_version = approve_MAX_VERSION,
       latest_stable_version = approve_MAX_VERSION, flexible_min = approve_FLEXIBLE_MIN\<rparr>"

definition ApproveBreakGlassRequest_wf :: "ApproveBreakGlassRequest \<Rightarrow> bool" where
  "ApproveBreakGlassRequest_wf x \<longleftrightarrow>
     uuid_wf (approve_req_proposal_id x)
     \<and> compact_string_wf (approve_req_key_id x)
     \<and> compact_bytes_wf (approve_req_signature x)
     \<and> unknown_wf (approve_req_unknown_tagged_fields x)"

interpretation approve_break_glass_request: message_codec
  ApproveBreakGlassRequest_encode ApproveBreakGlassRequest_decode
  ApproveBreakGlassRequest_encoded_len ApproveBreakGlassRequest_wf 0
proof
  fix x
  show "ApproveBreakGlassRequest_wf x \<Longrightarrow>
    carries (ApproveBreakGlassRequest_encode x 0) (ApproveBreakGlassRequest_decode 0)
      (ApproveBreakGlassRequest_encoded_len x 0) x"
    unfolding ApproveBreakGlassRequest_encode_def ApproveBreakGlassRequest_decode_def
      ApproveBreakGlassRequest_encoded_len_def ApproveBreakGlassRequest_wf_def
    by (rule carries_cong_len, (rule carries_rules | simp add: field_lens version_bounds)+)
  show "yields 1 (ApproveBreakGlassRequest_decode 0) ApproveBreakGlassRequest_wf"
    unfolding ApproveBreakGlassRequest_decode_def ApproveBreakGlassRequest_wf_def
    by (rule yields_weaken, (rule yields_rules | simp)+)
  show "extends_input (ApproveBreakGlassRequest_decode 0)"
    unfolding ApproveBreakGlassRequest_decode_def by (intro extends_rules)
qed

record ApproveBreakGlassResponse =
  approve_resp_throttle_time_ms :: i32
  approve_resp_error_code :: i16
  approve_resp_error_message :: "bytes option"
  approve_resp_approvals_held :: i32
  approve_resp_approvals_required :: i32
  approve_resp_unknown_tagged_fields :: UnknownTaggedFields

definition ApproveBreakGlassResponse_encode :: "ApproveBreakGlassResponse \<Rightarrow> i16 \<Rightarrow> encoder" where
  "ApproveBreakGlassResponse_encode x version =
     write_all
       [write_check (check_version approve_API_KEY version approve_MIN_VERSION approve_MAX_VERSION),
        put_i32 (approve_resp_throttle_time_ms x),
        put_i16 (approve_resp_error_code x),
        put_compact_nullable_string (approve_resp_error_message x),
        put_i32 (approve_resp_approvals_held x),
        put_i32 (approve_resp_approvals_required x),
        write_unknown_tagged_fields (approve_resp_unknown_tagged_fields x)]"

definition ApproveBreakGlassResponse_encoded_len :: "ApproveBreakGlassResponse \<Rightarrow> i16 \<Rightarrow> nat" where
  "ApproveBreakGlassResponse_encoded_len x version =
     I32_LEN
     + I16_LEN
     + compact_nullable_string_len (approve_resp_error_message x)
     + I32_LEN
     + I32_LEN
     + unknown_tagged_fields_len (approve_resp_unknown_tagged_fields x)"

definition ApproveBreakGlassResponse_decode :: "i16 \<Rightarrow> ApproveBreakGlassResponse decoder" where
  "ApproveBreakGlassResponse_decode version =
     checked (check_version approve_API_KEY version approve_MIN_VERSION approve_MAX_VERSION) (
     read_then get_i32 (\<lambda>throttle_time_ms.
     read_then get_i16 (\<lambda>error_code.
     read_then get_compact_nullable_string_owned (\<lambda>error_message.
     read_then get_i32 (\<lambda>approvals_held.
     read_then get_i32 (\<lambda>approvals_required.
     read_then read_unknown_tagged_fields (\<lambda>unknown_tagged_fields.
     read_ok \<lparr>approve_resp_throttle_time_ms = throttle_time_ms,
       approve_resp_error_code = error_code, approve_resp_error_message = error_message,
       approve_resp_approvals_held = approvals_held,
       approve_resp_approvals_required = approvals_required,
       approve_resp_unknown_tagged_fields = unknown_tagged_fields\<rparr>)))))))"

definition ApproveBreakGlassResponse_wf :: "ApproveBreakGlassResponse \<Rightarrow> bool" where
  "ApproveBreakGlassResponse_wf x \<longleftrightarrow>
     pred_option compact_string_wf (approve_resp_error_message x)
     \<and> unknown_wf (approve_resp_unknown_tagged_fields x)"

interpretation approve_break_glass_response: message_codec
  ApproveBreakGlassResponse_encode ApproveBreakGlassResponse_decode
  ApproveBreakGlassResponse_encoded_len ApproveBreakGlassResponse_wf 0
proof
  fix x
  show "ApproveBreakGlassResponse_wf x \<Longrightarrow>
    carries (ApproveBreakGlassResponse_encode x 0) (ApproveBreakGlassResponse_decode 0)
      (ApproveBreakGlassResponse_encoded_len x 0) x"
    unfolding ApproveBreakGlassResponse_encode_def ApproveBreakGlassResponse_decode_def
      ApproveBreakGlassResponse_encoded_len_def ApproveBreakGlassResponse_wf_def
    by (rule carries_cong_len, (rule carries_rules | simp add: field_lens version_bounds)+)
  show "yields 1 (ApproveBreakGlassResponse_decode 0) ApproveBreakGlassResponse_wf"
    unfolding ApproveBreakGlassResponse_decode_def ApproveBreakGlassResponse_wf_def
    by (rule yields_weaken, (rule yields_rules | simp)+)
  show "extends_input (ApproveBreakGlassResponse_decode 0)"
    unfolding ApproveBreakGlassResponse_decode_def by (intro extends_rules)
qed

section \<open>DescribeBreakGlass\<close>

definition describe_API_KEY :: i16 where
  "describe_API_KEY = 1019"

definition describe_MIN_VERSION :: i16 where
  [version_bounds]: "describe_MIN_VERSION = 0"

definition describe_MAX_VERSION :: i16 where
  [version_bounds]: "describe_MAX_VERSION = 0"

definition describe_FLEXIBLE_MIN :: i16 where
  "describe_FLEXIBLE_MIN = 0"

definition describe_is_flexible :: "i16 \<Rightarrow> bool" where
  "describe_is_flexible version \<longleftrightarrow> describe_FLEXIBLE_MIN \<le>s version"

record DescribeBreakGlassRequest =
  dbg_req_pending_only :: bool
  dbg_req_proposal_id :: Uuid
  dbg_req_unknown_tagged_fields :: UnknownTaggedFields

definition DescribeBreakGlassRequest_encode :: "DescribeBreakGlassRequest \<Rightarrow> i16 \<Rightarrow> encoder" where
  "DescribeBreakGlassRequest_encode x version =
     write_all
       [write_check (check_version describe_API_KEY version describe_MIN_VERSION describe_MAX_VERSION),
        put_bool (dbg_req_pending_only x),
        put_uuid (dbg_req_proposal_id x),
        write_unknown_tagged_fields (dbg_req_unknown_tagged_fields x)]"

definition DescribeBreakGlassRequest_encoded_len :: "DescribeBreakGlassRequest \<Rightarrow> i16 \<Rightarrow> nat" where
  "DescribeBreakGlassRequest_encoded_len x version =
     BOOL_LEN
     + UUID_LEN
     + unknown_tagged_fields_len (dbg_req_unknown_tagged_fields x)"

definition DescribeBreakGlassRequest_decode :: "i16 \<Rightarrow> DescribeBreakGlassRequest decoder" where
  "DescribeBreakGlassRequest_decode version =
     checked (check_version describe_API_KEY version describe_MIN_VERSION describe_MAX_VERSION) (
     read_then get_bool (\<lambda>pending_only.
     read_then get_uuid (\<lambda>proposal_id.
     read_then read_unknown_tagged_fields (\<lambda>unknown_tagged_fields.
     read_ok \<lparr>dbg_req_pending_only = pending_only, dbg_req_proposal_id = proposal_id,
       dbg_req_unknown_tagged_fields = unknown_tagged_fields\<rparr>))))"

definition DescribeBreakGlassRequest_api :: protocol_request where
  "DescribeBreakGlassRequest_api =
     \<lparr>api_key = describe_API_KEY, min_version = describe_MIN_VERSION, max_version = describe_MAX_VERSION,
       latest_stable_version = describe_MAX_VERSION, flexible_min = describe_FLEXIBLE_MIN\<rparr>"

definition DescribeBreakGlassRequest_wf :: "DescribeBreakGlassRequest \<Rightarrow> bool" where
  "DescribeBreakGlassRequest_wf x \<longleftrightarrow>
     uuid_wf (dbg_req_proposal_id x)
     \<and> unknown_wf (dbg_req_unknown_tagged_fields x)"

interpretation describe_break_glass_request: message_codec
  DescribeBreakGlassRequest_encode DescribeBreakGlassRequest_decode
  DescribeBreakGlassRequest_encoded_len DescribeBreakGlassRequest_wf 0
proof
  fix x
  show "DescribeBreakGlassRequest_wf x \<Longrightarrow>
    carries (DescribeBreakGlassRequest_encode x 0) (DescribeBreakGlassRequest_decode 0)
      (DescribeBreakGlassRequest_encoded_len x 0) x"
    unfolding DescribeBreakGlassRequest_encode_def DescribeBreakGlassRequest_decode_def
      DescribeBreakGlassRequest_encoded_len_def DescribeBreakGlassRequest_wf_def
    by (rule carries_cong_len, (rule carries_rules | simp add: field_lens version_bounds)+)
  show "yields 1 (DescribeBreakGlassRequest_decode 0) DescribeBreakGlassRequest_wf"
    unfolding DescribeBreakGlassRequest_decode_def DescribeBreakGlassRequest_wf_def
    by (rule yields_weaken, (rule yields_rules | simp)+)
  show "extends_input (DescribeBreakGlassRequest_decode 0)"
    unfolding DescribeBreakGlassRequest_decode_def by (intro extends_rules)
qed

record BreakGlassApproval =
  bga_principal :: bytes
  bga_approved_at_ms :: i64
  bga_key_id :: bytes
  bga_signature :: bytes
  bga_unknown_tagged_fields :: UnknownTaggedFields

definition BreakGlassApproval_encode :: "BreakGlassApproval \<Rightarrow> i16 \<Rightarrow> encoder" where
  "BreakGlassApproval_encode x version =
     write_all
       [put_compact_string (bga_principal x),
        put_i64 (bga_approved_at_ms x),
        put_compact_string (bga_key_id x),
        put_compact_bytes (bga_signature x),
        write_unknown_tagged_fields (bga_unknown_tagged_fields x)]"

definition BreakGlassApproval_encoded_len :: "BreakGlassApproval \<Rightarrow> i16 \<Rightarrow> nat" where
  "BreakGlassApproval_encoded_len x version =
     compact_string_len (bga_principal x)
     + I64_LEN
     + compact_string_len (bga_key_id x)
     + compact_bytes_len (bga_signature x)
     + unknown_tagged_fields_len (bga_unknown_tagged_fields x)"

definition BreakGlassApproval_decode :: "i16 \<Rightarrow> BreakGlassApproval decoder" where
  "BreakGlassApproval_decode version =
     read_then get_compact_string_owned (\<lambda>principal.
     read_then get_i64 (\<lambda>approved_at_ms.
     read_then get_compact_string_owned (\<lambda>key_id.
     read_then get_compact_bytes_owned (\<lambda>signature.
     read_then read_unknown_tagged_fields (\<lambda>unknown_tagged_fields.
     read_ok \<lparr>bga_principal = principal, bga_approved_at_ms = approved_at_ms,
       bga_key_id = key_id, bga_signature = signature,
       bga_unknown_tagged_fields = unknown_tagged_fields\<rparr>)))))"

definition BreakGlassApproval_wf :: "BreakGlassApproval \<Rightarrow> bool" where
  "BreakGlassApproval_wf x \<longleftrightarrow>
     compact_string_wf (bga_principal x)
     \<and> compact_string_wf (bga_key_id x)
     \<and> compact_bytes_wf (bga_signature x)
     \<and> unknown_wf (bga_unknown_tagged_fields x)"

interpretation break_glass_approval: message_codec
  BreakGlassApproval_encode BreakGlassApproval_decode
  BreakGlassApproval_encoded_len BreakGlassApproval_wf version
  for version
proof
  fix x
  show "BreakGlassApproval_wf x \<Longrightarrow>
    carries (BreakGlassApproval_encode x version) (BreakGlassApproval_decode version)
      (BreakGlassApproval_encoded_len x version) x"
    unfolding BreakGlassApproval_encode_def BreakGlassApproval_decode_def
      BreakGlassApproval_encoded_len_def BreakGlassApproval_wf_def
    by (rule carries_cong_len, (rule carries_rules | simp add: field_lens version_bounds)+)
  show "yields 1 (BreakGlassApproval_decode version) BreakGlassApproval_wf"
    unfolding BreakGlassApproval_decode_def BreakGlassApproval_wf_def
    by (rule yields_weaken, (rule yields_rules | simp)+)
  show "extends_input (BreakGlassApproval_decode version)"
    unfolding BreakGlassApproval_decode_def by (intro extends_rules)
qed

lemmas [carries_rules] = break_glass_approval.array.codec_carries
lemmas [yields_rules] = break_glass_approval.array.codec_yields
lemmas [extends_rules] = break_glass_approval.array.codec_extends

record DescribedBreakGlassProposal =
  dbgp_proposal_id :: Uuid
  dbgp_action :: i8
  dbgp_target :: bytes
  dbgp_proposer :: bytes
  dbgp_reason :: bytes
  dbgp_created_at_ms :: i64
  dbgp_expires_at_ms :: i64
  dbgp_consumed_at_ms :: i64
  dbgp_withdrawn :: bool
  dbgp_approvals :: "BreakGlassApproval list"
  dbgp_unknown_tagged_fields :: UnknownTaggedFields

definition DescribedBreakGlassProposal_encode :: "DescribedBreakGlassProposal \<Rightarrow> i16 \<Rightarrow> encoder" where
  "DescribedBreakGlassProposal_encode x version =
     write_all
       [put_uuid (dbgp_proposal_id x),
        put_i8 (dbgp_action x),
        put_compact_string (dbgp_target x),
        put_compact_string (dbgp_proposer x),
        put_compact_string (dbgp_reason x),
        put_i64 (dbgp_created_at_ms x),
        put_i64 (dbgp_expires_at_ms x),
        put_i64 (dbgp_consumed_at_ms x),
        put_bool (dbgp_withdrawn x),
        encode_array BreakGlassApproval_encode (dbgp_approvals x) version,
        write_unknown_tagged_fields (dbgp_unknown_tagged_fields x)]"

definition DescribedBreakGlassProposal_encoded_len :: "DescribedBreakGlassProposal \<Rightarrow> i16 \<Rightarrow> nat" where
  "DescribedBreakGlassProposal_encoded_len x version =
     UUID_LEN
     + I8_LEN
     + compact_string_len (dbgp_target x)
     + compact_string_len (dbgp_proposer x)
     + compact_string_len (dbgp_reason x)
     + I64_LEN
     + I64_LEN
     + I64_LEN
     + BOOL_LEN
     + array_len BreakGlassApproval_encoded_len (dbgp_approvals x) version
     + unknown_tagged_fields_len (dbgp_unknown_tagged_fields x)"

definition DescribedBreakGlassProposal_decode :: "i16 \<Rightarrow> DescribedBreakGlassProposal decoder" where
  "DescribedBreakGlassProposal_decode version =
     read_then get_uuid (\<lambda>proposal_id.
     read_then get_i8 (\<lambda>action.
     read_then get_compact_string_owned (\<lambda>target.
     read_then get_compact_string_owned (\<lambda>proposer.
     read_then get_compact_string_owned (\<lambda>reason.
     read_then get_i64 (\<lambda>created_at_ms.
     read_then get_i64 (\<lambda>expires_at_ms.
     read_then get_i64 (\<lambda>consumed_at_ms.
     read_then get_bool (\<lambda>withdrawn.
     read_then (decode_array BreakGlassApproval_decode version) (\<lambda>approvals.
     read_then read_unknown_tagged_fields (\<lambda>unknown_tagged_fields.
     read_ok \<lparr>dbgp_proposal_id = proposal_id, dbgp_action = action,
       dbgp_target = target, dbgp_proposer = proposer, dbgp_reason = reason,
       dbgp_created_at_ms = created_at_ms, dbgp_expires_at_ms = expires_at_ms,
       dbgp_consumed_at_ms = consumed_at_ms, dbgp_withdrawn = withdrawn,
       dbgp_approvals = approvals, dbgp_unknown_tagged_fields = unknown_tagged_fields\<rparr>)))))))))))"

definition DescribedBreakGlassProposal_wf :: "DescribedBreakGlassProposal \<Rightarrow> bool" where
  "DescribedBreakGlassProposal_wf x \<longleftrightarrow>
     uuid_wf (dbgp_proposal_id x)
     \<and> compact_string_wf (dbgp_target x)
     \<and> compact_string_wf (dbgp_proposer x)
     \<and> compact_string_wf (dbgp_reason x)
     \<and> array_wf BreakGlassApproval_wf (dbgp_approvals x)
     \<and> unknown_wf (dbgp_unknown_tagged_fields x)"

interpretation described_break_glass_proposal: message_codec
  DescribedBreakGlassProposal_encode DescribedBreakGlassProposal_decode
  DescribedBreakGlassProposal_encoded_len DescribedBreakGlassProposal_wf version
  for version
proof
  fix x
  show "DescribedBreakGlassProposal_wf x \<Longrightarrow>
    carries (DescribedBreakGlassProposal_encode x version) (DescribedBreakGlassProposal_decode version)
      (DescribedBreakGlassProposal_encoded_len x version) x"
    unfolding DescribedBreakGlassProposal_encode_def DescribedBreakGlassProposal_decode_def
      DescribedBreakGlassProposal_encoded_len_def DescribedBreakGlassProposal_wf_def
    by (rule carries_cong_len, (rule carries_rules | simp add: field_lens version_bounds)+)
  show "yields 1 (DescribedBreakGlassProposal_decode version) DescribedBreakGlassProposal_wf"
    unfolding DescribedBreakGlassProposal_decode_def DescribedBreakGlassProposal_wf_def
    by (rule yields_weaken, (rule yields_rules | simp)+)
  show "extends_input (DescribedBreakGlassProposal_decode version)"
    unfolding DescribedBreakGlassProposal_decode_def by (intro extends_rules)
qed

lemmas [carries_rules] = described_break_glass_proposal.array.codec_carries
lemmas [yields_rules] = described_break_glass_proposal.array.codec_yields
lemmas [extends_rules] = described_break_glass_proposal.array.codec_extends

record DescribeBreakGlassResponse =
  dbg_resp_throttle_time_ms :: i32
  dbg_resp_error_code :: i16
  dbg_resp_error_message :: "bytes option"
  dbg_resp_proposals :: "DescribedBreakGlassProposal list"
  dbg_resp_unknown_tagged_fields :: UnknownTaggedFields

definition DescribeBreakGlassResponse_encode :: "DescribeBreakGlassResponse \<Rightarrow> i16 \<Rightarrow> encoder" where
  "DescribeBreakGlassResponse_encode x version =
     write_all
       [write_check (check_version describe_API_KEY version describe_MIN_VERSION describe_MAX_VERSION),
        put_i32 (dbg_resp_throttle_time_ms x),
        put_i16 (dbg_resp_error_code x),
        put_compact_nullable_string (dbg_resp_error_message x),
        encode_array DescribedBreakGlassProposal_encode (dbg_resp_proposals x) version,
        write_unknown_tagged_fields (dbg_resp_unknown_tagged_fields x)]"

definition DescribeBreakGlassResponse_encoded_len :: "DescribeBreakGlassResponse \<Rightarrow> i16 \<Rightarrow> nat" where
  "DescribeBreakGlassResponse_encoded_len x version =
     I32_LEN
     + I16_LEN
     + compact_nullable_string_len (dbg_resp_error_message x)
     + array_len DescribedBreakGlassProposal_encoded_len (dbg_resp_proposals x) version
     + unknown_tagged_fields_len (dbg_resp_unknown_tagged_fields x)"

definition DescribeBreakGlassResponse_decode :: "i16 \<Rightarrow> DescribeBreakGlassResponse decoder" where
  "DescribeBreakGlassResponse_decode version =
     checked (check_version describe_API_KEY version describe_MIN_VERSION describe_MAX_VERSION) (
     read_then get_i32 (\<lambda>throttle_time_ms.
     read_then get_i16 (\<lambda>error_code.
     read_then get_compact_nullable_string_owned (\<lambda>error_message.
     read_then (decode_array DescribedBreakGlassProposal_decode version) (\<lambda>proposals.
     read_then read_unknown_tagged_fields (\<lambda>unknown_tagged_fields.
     read_ok \<lparr>dbg_resp_throttle_time_ms = throttle_time_ms,
       dbg_resp_error_code = error_code, dbg_resp_error_message = error_message,
       dbg_resp_proposals = proposals, dbg_resp_unknown_tagged_fields = unknown_tagged_fields\<rparr>))))))"

definition DescribeBreakGlassResponse_wf :: "DescribeBreakGlassResponse \<Rightarrow> bool" where
  "DescribeBreakGlassResponse_wf x \<longleftrightarrow>
     pred_option compact_string_wf (dbg_resp_error_message x)
     \<and> array_wf DescribedBreakGlassProposal_wf (dbg_resp_proposals x)
     \<and> unknown_wf (dbg_resp_unknown_tagged_fields x)"

interpretation describe_break_glass_response: message_codec
  DescribeBreakGlassResponse_encode DescribeBreakGlassResponse_decode
  DescribeBreakGlassResponse_encoded_len DescribeBreakGlassResponse_wf 0
proof
  fix x
  show "DescribeBreakGlassResponse_wf x \<Longrightarrow>
    carries (DescribeBreakGlassResponse_encode x 0) (DescribeBreakGlassResponse_decode 0)
      (DescribeBreakGlassResponse_encoded_len x 0) x"
    unfolding DescribeBreakGlassResponse_encode_def DescribeBreakGlassResponse_decode_def
      DescribeBreakGlassResponse_encoded_len_def DescribeBreakGlassResponse_wf_def
    by (rule carries_cong_len, (rule carries_rules | simp add: field_lens version_bounds)+)
  show "yields 1 (DescribeBreakGlassResponse_decode 0) DescribeBreakGlassResponse_wf"
    unfolding DescribeBreakGlassResponse_decode_def DescribeBreakGlassResponse_wf_def
    by (rule yields_weaken, (rule yields_rules | simp)+)
  show "extends_input (DescribeBreakGlassResponse_decode 0)"
    unfolding DescribeBreakGlassResponse_decode_def by (intro extends_rules)
qed

end
