(* ===== verification/Hlc.thy ===== *)
theory Hlc
  imports Fixed
begin

text \<open>
  The hybrid logical clock, \<open>crates/hlc/src/\<close>: the stamp with its order and its 16-byte layout
  (\<open>stamp.rs\<close>), the record header that carries it (\<open>headers.rs\<close>), and the clock state machine
  (\<open>clock.rs\<close>).

  Every clock operation reads the physical clock once, before it takes the lock, and does the
  rest inside the lock. A reading is an argument of the operation here, and no relation between
  the readings of successive operations is assumed, so a run of the model covers every
  interleaving of threads and every clock that jumps. Extents of time (\<open>Time\<close>) are their
  microsecond counts.
\<close>

section \<open>Stamps\<close>

datatype HlcError =
    Length nat
  | NodeIdTooLarge u64
  | PeerTooFarAhead i64 i64
  | CounterOverflow

text \<open>\<open>Hlc\<close> with its fields \<open>wall\<close> (signed microseconds), \<open>counter\<close> and \<open>node\<close>.\<close>

datatype Hlc = Hlc (hlc_wall: i64) (hlc_counter: u32) (hlc_node: u64)

text \<open>The derived \<open>Ord\<close>: lexicographic, with the wall time compared as a signed number.\<close>

instantiation Hlc :: linorder
begin

definition less_Hlc :: "Hlc \<Rightarrow> Hlc \<Rightarrow> bool" where
  "less_Hlc a b \<longleftrightarrow>
     hlc_wall a <s hlc_wall b
     \<or> hlc_wall a = hlc_wall b
        \<and> (hlc_counter a < hlc_counter b
           \<or> hlc_counter a = hlc_counter b \<and> hlc_node a < hlc_node b)"

definition less_eq_Hlc :: "Hlc \<Rightarrow> Hlc \<Rightarrow> bool" where
  "less_eq_Hlc a b \<longleftrightarrow> a < b \<or> a = b"

instance
proof
  fix x y z :: Hlc
  show "(x < y) = (x \<le> y \<and> \<not> y \<le> x)"
    by (auto simp: less_eq_Hlc_def less_Hlc_def word_sless_alt)
  show "x \<le> y \<Longrightarrow> y \<le> z \<Longrightarrow> x \<le> z"
    by (auto simp: less_eq_Hlc_def less_Hlc_def word_sless_alt)
  show "x \<le> y \<Longrightarrow> y \<le> x \<Longrightarrow> x = y"
    by (auto simp: less_eq_Hlc_def less_Hlc_def word_sless_alt)
  show "x \<le> y \<or> y \<le> x"
    by (cases x; cases y) (auto simp: less_eq_Hlc_def less_Hlc_def word_sless_alt dest: signed_word_eqI)
qed (simp add: less_eq_Hlc_def)

end

definition HLC_ENCODED_LEN :: nat where
  "HLC_ENCODED_LEN = 16"

definition Hlc_encode :: "Hlc \<Rightarrow> (HlcError, bytes) result" where
  "Hlc_encode h =
     (if unat (hlc_node h) < 2 ^ 32
      then Ok (be_bytes 8 (hlc_wall h) @ be_bytes 4 (hlc_counter h)
               @ be_bytes 4 (ucast (hlc_node h) :: u32))
      else Err (NodeIdTooLarge (hlc_node h)))"

definition Hlc_decode :: "bytes \<Rightarrow> (HlcError, Hlc) result" where
  "Hlc_decode bs =
     (if length bs = HLC_ENCODED_LEN
      then Ok (Hlc (be_word (take 8 bs)) (be_word (take 4 (drop 8 bs)))
                   (ucast (be_word (drop 12 bs) :: u32)))
      else Err (Length (length bs)))"

definition HLC_HEADER :: string where
  "HLC_HEADER = ''krabka.hlc''"

definition Hlc_header :: "Hlc \<Rightarrow> (HlcError, string \<times> bytes) result" where
  "Hlc_header h = and_then (Hlc_encode h) (\<lambda>value. Ok (HLC_HEADER, value))"

text \<open>\<open>filter(..).map(..).last()?\<close> and then \<open>decode(..).ok()\<close>.\<close>

definition extract_from_headers :: "(string \<times> bytes) list \<Rightarrow> Hlc option" where
  "extract_from_headers headers =
     (let values = map snd (filter (\<lambda>(key, _). key = HLC_HEADER) headers)
      in if values = [] then None
         else case Hlc_decode (last values) of Err _ \<Rightarrow> None | Ok h \<Rightarrow> Some h)"

subsection \<open>The layout\<close>

lemma be_bytes_be_word:
  "8 * length bs \<le> LENGTH('a) \<Longrightarrow> be_bytes (length bs) (be_word bs :: 'a::len word) = bs"
proof (induction bs rule: rev_induct)
  case (snoc b bs)
  let ?w = "be_word bs :: 'a word"
  have w: "take_bit (8 * length bs) ?w = ?w"
    using snoc.IH snoc.prems be_word_be_bytes[of "length bs" ?w] by simp
  have zero: "\<not> bit ?w n" if "LENGTH('a) \<le> 8 + n" for n
  proof -
    have "8 * length bs \<le> n"
      using that snoc.prems by simp
    then show ?thesis
      using w by (metis bit_take_bit_iff not_less)
  qed
  have "drop_bit 8 (or (push_bit 8 ?w) (ucast b)) = ?w"
  proof (rule bit_word_eqI)
    fix n assume "n < LENGTH('a)"
    then show "bit (drop_bit 8 (or (push_bit 8 ?w) (ucast b))) n = bit ?w n"
      using zero[of n] by (cases "8 + n < LENGTH('a)") (auto simp: bit_simps dest: bit_imp_le_length)
  qed
  moreover have "ucast (or (push_bit 8 ?w) (ucast b)) = b"
    using snoc.prems by (intro bit_word_eqI) (auto simp: bit_simps dest: bit_imp_le_length)
  ultimately show ?case
    using snoc by (simp add: be_word_snoc push_ucast_or)
qed simp

lemma Hlc_decode_encode:
  assumes "Hlc_encode h = Ok bs"
  shows "length bs = HLC_ENCODED_LEN" and "Hlc_decode bs = Ok h"
proof -
  have n: "unat (hlc_node h) < 2 ^ 32"
    and bs: "bs = be_bytes 8 (hlc_wall h) @ be_bytes 4 (hlc_counter h) @ be_bytes 4 (ucast (hlc_node h) :: u32)"
    using assms by (simp_all add: Hlc_encode_def split: if_splits)
  show "length bs = HLC_ENCODED_LEN"
    by (simp add: bs HLC_ENCODED_LEN_def)
  have n': "take_bit 32 (hlc_node h) = hlc_node h"
  proof (rule unsigned_word_eqI[where ?'a = nat])
    show "unat (take_bit 32 (hlc_node h)) = unat (hlc_node h)"
      using n by (simp only: unsigned_take_bit_eq take_bit_nat_eq_self)
  qed
  have "ucast (ucast (hlc_node h) :: u32) = hlc_node h"
    by (subst (2) n'[symmetric]) (rule bit_word_eqI, auto simp: bit_simps)
  then show "Hlc_decode bs = Ok h"
    by (simp add: bs Hlc_decode_def HLC_ENCODED_LEN_def)
qed

lemma Hlc_encode_decode:
  assumes "Hlc_decode bs = Ok h"
  shows "Hlc_encode h = Ok bs"
proof -
  have n: "length bs = 16"
    and h: "h = Hlc (be_word (take 8 bs)) (be_word (take 4 (drop 8 bs))) (ucast (be_word (drop 12 bs) :: u32))"
    using assms by (simp_all add: Hlc_decode_def HLC_ENCODED_LEN_def split: if_splits)
  have 1: "be_bytes 8 (be_word (take 8 bs) :: i64) = take 8 bs"
    using be_bytes_be_word[of "take 8 bs", where ?'a = 64] n by simp
  have 2: "be_bytes 4 (be_word (take 4 (drop 8 bs)) :: u32) = take 4 (drop 8 bs)"
    using be_bytes_be_word[of "take 4 (drop 8 bs)", where ?'a = 32] n by simp
  have 3: "be_bytes 4 (be_word (drop 12 bs) :: u32) = drop 12 bs"
    using be_bytes_be_word[of "drop 12 bs", where ?'a = 32] n by simp
  have node: "unat (ucast (w :: u32) :: u64) < 2 ^ 32" "ucast (ucast w :: u64) = w" for w
  proof -
    have "unat (ucast w :: u64) = unat w"
      using unat_word_less[of w] by (simp add: unsigned_ucast_eq take_bit_nat_eq_self)
    then show "unat (ucast w :: u64) < 2 ^ 32"
      using unat_word_less[of w] by simp
    show "ucast (ucast w :: u64) = w"
      by (rule bit_word_eqI) (simp add: bit_simps)
  qed
  have "take 8 bs @ take 4 (drop 8 bs) @ drop 12 bs = bs"
    using append_take_drop_id[of 8 bs] append_take_drop_id[of 4 "drop 8 bs"] by simp
  then show ?thesis
    by (simp only: Hlc_encode_def h Hlc.sel node if_True 1 2 3)
qed

section \<open>The clock\<close>

text \<open>Signed \<open>max\<close> and \<open>saturating_sub\<close>, and the saturating counter increment.\<close>

definition i64_max :: "i64 \<Rightarrow> i64 \<Rightarrow> i64" where
  "i64_max a b = (if a <s b then b else a)"

definition i64_saturating_sub :: "i64 \<Rightarrow> i64 \<Rightarrow> i64" where
  "i64_saturating_sub a b = word_of_int (max (- (2 ^ 63)) (min (2 ^ 63 - 1) (sint a - sint b)))"

definition u64_saturating_add :: "u64 \<Rightarrow> u64 \<Rightarrow> u64" where
  "u64_saturating_add a b = (if unat a + unat b < 2 ^ 64 then a + b else - 1)"

record State =
  st_wall :: i64
  st_counter :: u32
  st_peer_advances :: u64
  st_refusals :: u64
  st_max_peer_ahead_micros :: i64

record HlcClock =
  clk_node :: u64
  clk_max_offset_micros :: i64
  clk_state :: State

definition DEFAULT_MAX_OFFSET :: i64 where
  "DEFAULT_MAX_OFFSET = 500000"

definition with_max_offset :: "u64 \<Rightarrow> i64 \<Rightarrow> i64 \<Rightarrow> HlcClock" where
  "with_max_offset node physical max_offset =
     \<lparr>clk_node = node, clk_max_offset_micros = i64_max max_offset 0,
      clk_state = \<lparr>st_wall = physical, st_counter = 0, st_peer_advances = 0, st_refusals = 0,
                   st_max_peer_ahead_micros = 0\<rparr>\<rparr>"

definition with_clock :: "u64 \<Rightarrow> i64 \<Rightarrow> HlcClock" where
  "with_clock node physical = with_max_offset node physical DEFAULT_MAX_OFFSET"

definition next_counter :: "u32 \<Rightarrow> (HlcError, u32) result" where
  "next_counter c = (if unat c + 1 < 2 ^ 32 then Ok (c + 1) else Err CounterOverflow)"

definition now :: "i64 \<Rightarrow> HlcClock \<Rightarrow> (HlcError, Hlc) result \<times> HlcClock" where
  "now physical c =
     (let s = clk_state c;
          wall = i64_max (st_wall s) physical
      in case (if wall = st_wall s then next_counter (st_counter s) else Ok 0) of
           Err e \<Rightarrow> (Err e, c)
         | Ok counter \<Rightarrow>
             (Ok (Hlc wall counter (clk_node c)),
              c\<lparr>clk_state := s\<lparr>st_wall := wall, st_counter := counter\<rparr>\<rparr>))"

text \<open>The counter of a receive event follows the source of the merged wall time.\<close>

definition merged_counter :: "i64 \<Rightarrow> i64 \<Rightarrow> i64 \<Rightarrow> u32 \<Rightarrow> u32 \<Rightarrow> (HlcError, u32) result" where
  "merged_counter wall local_wall peer_wall counter peer_counter =
     (if wall = local_wall \<and> wall = peer_wall then next_counter (max counter peer_counter)
      else if wall = local_wall then next_counter counter
      else if wall = peer_wall then next_counter peer_counter
      else Ok 0)"

definition observe :: "i64 \<Rightarrow> Hlc \<Rightarrow> HlcClock \<Rightarrow> (HlcError, Hlc) result \<times> HlcClock" where
  "observe physical peer c =
     (let peer_wall = hlc_wall peer;
          ahead_micros = i64_saturating_sub peer_wall physical;
          s = (clk_state c)\<lparr>st_max_peer_ahead_micros :=
                 i64_max (st_max_peer_ahead_micros (clk_state c)) ahead_micros\<rparr>
      in if clk_max_offset_micros c <s ahead_micros
         then (Err (PeerTooFarAhead ahead_micros (clk_max_offset_micros c)),
               c\<lparr>clk_state := s\<lparr>st_refusals := u64_saturating_add (st_refusals s) 1\<rparr>\<rparr>)
         else
           let local_wall = st_wall s;
               wall = i64_max (i64_max local_wall peer_wall) physical
           in case merged_counter wall local_wall peer_wall (st_counter s) (hlc_counter peer) of
                Err e \<Rightarrow> (Err e, c\<lparr>clk_state := s\<rparr>)
              | Ok counter \<Rightarrow>
                  let s' = (if local_wall <s peer_wall \<and> physical <s peer_wall
                            then s\<lparr>st_peer_advances := u64_saturating_add (st_peer_advances s) 1\<rparr>
                            else s)
                  in (Ok (Hlc wall counter (clk_node c)),
                      c\<lparr>clk_state := s'\<lparr>st_wall := wall, st_counter := counter\<rparr>\<rparr>))"

record ClockObservation =
  obs_drift :: i64
  obs_peer_advances :: u64
  obs_refusals :: u64
  obs_max_peer_ahead :: i64

definition observation :: "i64 \<Rightarrow> HlcClock \<Rightarrow> ClockObservation" where
  "observation physical c =
     \<lparr>obs_drift = i64_saturating_sub (st_wall (clk_state c)) physical,
      obs_peer_advances = st_peer_advances (clk_state c),
      obs_refusals = st_refusals (clk_state c),
      obs_max_peer_ahead = st_max_peer_ahead_micros (clk_state c)\<rparr>"

text \<open>
  The two physical clocks. \<open>SystemClock\<close> saturates the distance from the Unix epoch, which
  \<open>duration_since\<close> gives as a number of microseconds after it (\<open>Ok\<close>) or before it (\<open>Err\<close>);
  \<open>ManualClock\<close> holds one instant.
\<close>

definition SystemClock_now_micros :: "(nat, nat) result \<Rightarrow> i64" where
  "SystemClock_now_micros since_epoch =
     (case since_epoch of
        Ok after \<Rightarrow> if after < 2 ^ 63 then of_nat after else of_int (2 ^ 63 - 1)
      | Err before \<Rightarrow> if before < 2 ^ 63 then - of_nat before else of_int (- (2 ^ 63)))"

definition i64_saturating_add :: "i64 \<Rightarrow> i64 \<Rightarrow> i64" where
  "i64_saturating_add a b = word_of_int (max (- (2 ^ 63)) (min (2 ^ 63 - 1) (sint a + sint b)))"

record ManualClock =
  mc_micros :: i64

definition ManualClock_new :: "i64 \<Rightarrow> ManualClock" where
  "ManualClock_new t = \<lparr>mc_micros = t\<rparr>"

definition ManualClock_set :: "i64 \<Rightarrow> ManualClock \<Rightarrow> ManualClock" where
  "ManualClock_set t m = m\<lparr>mc_micros := t\<rparr>"

definition ManualClock_advance :: "i64 \<Rightarrow> ManualClock \<Rightarrow> ManualClock" where
  "ManualClock_advance micros m = m\<lparr>mc_micros := i64_saturating_add (mc_micros m) micros\<rparr>"

definition ManualClock_now_micros :: "ManualClock \<Rightarrow> i64" where
  "ManualClock_now_micros m = mc_micros m"

section \<open>Logical clocks in general\<close>

text \<open>
  A logical clock turns events into stamps. The contract is about one step: a stamp is above the
  clock's mark and above the stamp the event received, the mark moves to it, and an error leaves
  the mark alone. Order and causality of whole runs follow.
\<close>

fun run :: "('ev \<Rightarrow> 'c \<Rightarrow> ('e, 't) result \<times> 'c) \<Rightarrow> 'c \<Rightarrow> 'ev list \<Rightarrow> ('e, 't) result list \<times> 'c" where
  "run step c [] = ([], c)"
| "run step c (e # es) =
     (let (r, c') = step e c; (rs, c'') = run step c' es in (r # rs, c''))"

fun minted :: "('e, 't) result list \<Rightarrow> 't list" where
  "minted [] = []"
| "minted (Ok t # rs) = t # minted rs"
| "minted (Err e # rs) = minted rs"

locale logical_clock =
  fixes step :: "'ev \<Rightarrow> 'c \<Rightarrow> ('e, 't::linorder) result \<times> 'c"
    and mark :: "'c \<Rightarrow> 't"
    and received :: "'ev \<Rightarrow> 't option"
  assumes step_mints: "step e c = (Ok t, c') \<Longrightarrow> mark c < t \<and> mark c' = t"
    and step_causes: "step e c = (Ok t, c') \<Longrightarrow> received e = Some p \<Longrightarrow> p < t"
    and step_refuses: "step e c = (Err x, c') \<Longrightarrow> mark c' = mark c"
begin

lemma run_above_mark: "t \<in> set (minted (fst (run step c es))) \<Longrightarrow> mark c < t"
proof (induction es arbitrary: c)
  case (Cons e es)
  obtain r c' where s: "step e c = (r, c')"
    by (cases "step e c")
  show ?case
  proof (cases r)
    case (Inl x)
    then have "mark c' = mark c"
      using s step_refuses by blast
    then show ?thesis
      using Cons.IH[of c'] Cons.prems s Inl by (simp add: split_beta)
  next
    case (Inr u)
    then have "mark c < u" "mark c' = u"
      using s step_mints by blast+
    then show ?thesis
      using Cons s Inr by (auto simp: split_beta intro: less_trans)
  qed
qed simp

lemma run_ascending: "sorted_wrt (<) (minted (fst (run step c es)))"
proof (induction es arbitrary: c)
  case (Cons e es)
  obtain r c' where s: "step e c = (r, c')"
    by (cases "step e c")
  show ?case
  proof (cases r)
    case (Inl x)
    then show ?thesis
      using Cons s by (simp add: split_beta)
  next
    case (Inr u)
    then have "mark c' = u"
      using s step_mints by blast
    then show ?thesis
      using Cons s Inr run_above_mark[of _ c' es] by (simp add: split_beta)
  qed
qed simp

lemma run_causal:
  assumes "step e c = (Ok t, c')" and "received e = Some p"
    and "u \<in> set (minted (fst (run step c (e # es))))"
  shows "p < u"
proof -
  have "p < t" and "mark c' = t"
    using assms step_causes step_mints by blast+
  moreover have "u = t \<or> u \<in> set (minted (fst (run step c' es)))"
    using assms(1,3) by (simp add: split_beta)
  ultimately show ?thesis
    using run_above_mark[of u c' es] by (auto intro: less_trans)
qed

end

section \<open>The hybrid logical clock is a logical clock\<close>

datatype event = Now i64 | Observe i64 Hlc

fun clock_step :: "event \<Rightarrow> HlcClock \<Rightarrow> (HlcError, Hlc) result \<times> HlcClock" where
  "clock_step (Now physical) c = now physical c"
| "clock_step (Observe physical peer) c = observe physical peer c"

fun received_stamp :: "event \<Rightarrow> Hlc option" where
  "received_stamp (Now physical) = None"
| "received_stamp (Observe physical peer) = Some peer"

fun event_physical :: "event \<Rightarrow> i64" where
  "event_physical (Now physical) = physical"
| "event_physical (Observe physical peer) = physical"

definition clock_mark :: "HlcClock \<Rightarrow> Hlc" where
  "clock_mark c = Hlc (st_wall (clk_state c)) (st_counter (clk_state c)) (clk_node c)"

lemma sint_i64_max [simp]: "sint (i64_max a b) = max (sint a) (sint b)"
  by (simp add: i64_max_def word_sless_alt)

lemma i64_max_cases: "i64_max a b = a \<and> sint b \<le> sint a \<or> i64_max a b = b \<and> sint a < sint b"
  by (simp add: i64_max_def word_sless_alt)

lemma next_counter_Ok:
  "next_counter c = Ok d \<longleftrightarrow> unat c + 1 < 2 ^ 32 \<and> unat d = unat c + 1"
proof -
  have "unat (c + 1) = unat c + 1" if "unat c + 1 < 2 ^ 32"
    using that by (simp add: unat_word_ariths)
  then show ?thesis
    by (auto simp: next_counter_def word_eq_iff_unsigned[where ?'a = nat])
qed

lemma less_Hlc_iff:
  "a < b \<longleftrightarrow> sint (hlc_wall a) < sint (hlc_wall b)
     \<or> hlc_wall a = hlc_wall b
        \<and> (unat (hlc_counter a) < unat (hlc_counter b)
           \<or> hlc_counter a = hlc_counter b \<and> hlc_node a < hlc_node b)"
  by (simp add: less_Hlc_def word_sless_alt word_less_nat_alt)

lemma now_Ok:
  assumes "now physical c = (Ok t, c')"
  shows "clock_mark c < t" and "clock_mark c' = t" and "hlc_wall t = i64_max (st_wall (clk_state c)) physical"
proof -
  show "clock_mark c' = t" and "hlc_wall t = i64_max (st_wall (clk_state c)) physical"
    using assms by (auto simp: now_def Let_def clock_mark_def split: sum.splits)
  show "clock_mark c < t"
    using assms i64_max_cases[of "st_wall (clk_state c)" physical]
    by (auto simp: now_def Let_def clock_mark_def less_Hlc_iff next_counter_Ok split: sum.splits if_splits)
qed

lemma next_counter_Err: "next_counter c = Err e \<longleftrightarrow> c = - 1 \<and> e = CounterOverflow"
proof -
  have "unat c + 1 < 2 ^ 32 \<longleftrightarrow> c \<noteq> - 1"
    using unat_word_less[of c]
    by (auto simp: word_eq_iff_unsigned[where ?'a = nat] unsigned_minus_1_eq_mask mask_eq_exp_minus_1)
  then show ?thesis
    by (auto simp: next_counter_def)
qed

lemma next_counter_max [simp]: "next_counter (- 1) = Err CounterOverflow"
  by (simp add: next_counter_Err)

lemma now_Err:
  "now physical c = (Err e, c') \<longleftrightarrow>
     c' = c \<and> e = CounterOverflow \<and> st_counter (clk_state c) = - 1
     \<and> sint physical \<le> sint (st_wall (clk_state c))"
proof -
  have "i64_max w physical = w \<longleftrightarrow> sint physical \<le> sint w" for w
    using i64_max_cases[of w physical] by auto
  then show ?thesis
    by (auto simp: now_def Let_def next_counter_Err split: sum.splits if_splits)
qed

lemma sint_le_cases: "sint x \<le> sint y \<Longrightarrow> sint x < sint y \<or> y = x"
  by (metis order_le_less signed_word_eqI)

lemma merged_counter_Ok:
  assumes "merged_counter wall local_wall peer_wall counter peer_counter = Ok k"
  shows "wall = local_wall \<Longrightarrow> unat counter < unat k"
    and "wall = peer_wall \<Longrightarrow> unat peer_counter < unat k"
  using assms
  by (auto simp: merged_counter_def next_counter_Ok max_def word_le_nat_alt split: if_splits)

lemma observe_Ok:
  assumes "observe physical peer c = (Ok t, c')"
  shows "clock_mark c < t" and "peer < t" and "clock_mark c' = t"
    and "hlc_wall t = i64_max (i64_max (st_wall (clk_state c)) (hlc_wall peer)) physical"
    and "\<not> clk_max_offset_micros c <s i64_saturating_sub (hlc_wall peer) physical"
proof -
  let ?l = "st_wall (clk_state c)" and ?p = "hlc_wall peer"
  let ?w = "i64_max (i64_max ?l ?p) physical"
  show "clock_mark c' = t" and wall: "hlc_wall t = ?w"
    and "\<not> clk_max_offset_micros c <s i64_saturating_sub ?p physical"
    using assms by (auto simp: observe_def Let_def clock_mark_def split: sum.splits if_splits)
  have k: "merged_counter ?w ?l ?p (st_counter (clk_state c)) (hlc_counter peer) = Ok (hlc_counter t)"
    using assms by (auto simp: observe_def Let_def split: sum.splits if_splits)
  have "sint ?l < sint ?w \<or> ?w = ?l" and "sint ?p < sint ?w \<or> ?w = ?p"
    by (rule sint_le_cases, simp)+
  then show "clock_mark c < t" and "peer < t"
    using merged_counter_Ok[OF k] wall by (auto simp: less_Hlc_iff clock_mark_def)
qed

lemma observe_Err:
  assumes "observe physical peer c = (Err e, c')"
  shows "clock_mark c' = clock_mark c"
    and "e = CounterOverflow \<or> (\<exists>a. e = PeerTooFarAhead a (clk_max_offset_micros c)
      \<and> clk_max_offset_micros c <s a \<and> a = i64_saturating_sub (hlc_wall peer) physical)"
  using assms
  by (auto simp: observe_def Let_def clock_mark_def merged_counter_def next_counter_Err
      split: sum.splits if_splits)

interpretation hlc: logical_clock clock_step clock_mark received_stamp
proof
  fix e c t c'
  assume s: "clock_step e c = (Ok t, c')"
  show "clock_mark c < t \<and> clock_mark c' = t"
    using s by (cases e) (auto dest: now_Ok observe_Ok)
  show "received_stamp e = Some p \<Longrightarrow> p < t" for p
    using s by (cases e) (auto dest: observe_Ok)
next
  fix e c x c'
  assume "clock_step e c = (Err x, c')"
  then show "clock_mark c' = clock_mark c"
    by (cases e) (auto simp: now_Err dest: observe_Err)
qed

section \<open>How far the clock can run ahead\<close>

text \<open>The clocks reachable from \<open>c\<close> by events whose physical readings are at most \<open>P\<close>.\<close>

inductive reaches :: "int \<Rightarrow> HlcClock \<Rightarrow> HlcClock \<Rightarrow> bool" for P and c where
  start: "reaches P c c"
| event: "reaches P c c' \<Longrightarrow> sint (event_physical e) \<le> P \<Longrightarrow> clock_step e c' = (r, c'')
    \<Longrightarrow> reaches P c c''"

lemma clock_step_config:
  assumes "clock_step e c = (r, c')"
  shows "clk_max_offset_micros c' = clk_max_offset_micros c" and "clk_node c' = clk_node c"
  using assms
  by (cases e; auto simp: now_def observe_def Let_def split: sum.splits if_splits)+

lemma sint_i64_saturating_sub:
  "sint (i64_saturating_sub a b) = max (- (2 ^ 63)) (min (2 ^ 63 - 1) (sint a - sint b))"
proof -
  let ?x = "max (- (2 ^ 63)) (min (2 ^ 63 - 1) (sint a - sint b)) :: int"
  have "- (2 ^ 63) \<le> ?x \<and> ?x < 2 ^ 63"
    by auto
  then show ?thesis
    by (simp add: i64_saturating_sub_def signed_of_int signed_take_bit_int_eq_self)
qed

lemma fence_bound:
  assumes "\<not> m <s i64_saturating_sub a b" and "sint m < 2 ^ 63 - 1"
  shows "sint a \<le> sint b + sint m"
  using assms by (auto simp: word_sless_alt sint_i64_saturating_sub)

lemma clock_step_wall:
  assumes "clock_step e c = (r, c')" and "sint (clk_max_offset_micros c) < 2 ^ 63 - 1"
    and "0 \<le> sint (clk_max_offset_micros c)"
  shows "sint (st_wall (clk_state c'))
    \<le> max (sint (st_wall (clk_state c))) (sint (event_physical e) + sint (clk_max_offset_micros c))"
proof (cases r)
  case (Inl x)
  then have "clock_mark c' = clock_mark c"
    using assms(1) hlc.step_refuses by blast
  then show ?thesis
    by (simp add: clock_mark_def)
next
  case (Inr t)
  then have t: "hlc_wall t = st_wall (clk_state c')"
    using hlc.step_mints[of e c t c'] assms(1) by (auto simp: clock_mark_def)
  show ?thesis
  proof (cases e)
    case (Now physical)
    then show ?thesis
      using now_Ok(3)[of physical c t c'] assms Inr t by auto
  next
    case (Observe physical peer)
    then have o: "observe physical peer c = (Ok t, c')"
      using assms(1) Inr by simp
    have "sint (hlc_wall peer) \<le> sint physical + sint (clk_max_offset_micros c)"
      using observe_Ok(5)[OF o] assms(2) by (rule fence_bound)
    then show ?thesis
      using observe_Ok(4)[OF o] assms(3) t Observe by auto
  qed
qed

lemma reaches_invariant:
  assumes "reaches P c c'" and "0 \<le> sint (clk_max_offset_micros c)"
    and "sint (clk_max_offset_micros c) < 2 ^ 63 - 1"
    and "sint (st_wall (clk_state c)) \<le> P + sint (clk_max_offset_micros c)"
  shows "clk_max_offset_micros c' = clk_max_offset_micros c
    \<and> sint (st_wall (clk_state c')) \<le> P + sint (clk_max_offset_micros c)"
  using assms
proof (induction rule: reaches.induct)
  case (event c' e r c'')
  then have inv: "clk_max_offset_micros c' = clk_max_offset_micros c"
    "sint (st_wall (clk_state c')) \<le> P + sint (clk_max_offset_micros c)"
    by blast+
  then show ?case
    using clock_step_wall[OF event.hyps(3)] clock_step_config[OF event.hyps(3)] event.hyps(2) event.prems(1,2)
    by auto
qed simp

lemma observe_fenced:
  assumes "clk_max_offset_micros c <s i64_saturating_sub (hlc_wall peer) physical"
  shows "fst (observe physical peer c) =
    Err (PeerTooFarAhead (i64_saturating_sub (hlc_wall peer) physical) (clk_max_offset_micros c))"
  using assms by (simp add: observe_def Let_def)

lemma observe_not_fenced:
  assumes "\<not> clk_max_offset_micros c <s i64_saturating_sub (hlc_wall peer) physical"
  shows "fst (observe physical peer c) \<noteq> Err (PeerTooFarAhead a m)"
  using assms
  by (auto simp: observe_def Let_def merged_counter_def next_counter_Err split: sum.splits if_splits)

section \<open>Properties\<close>

text \<open>
  C7: the stamps that one node mints strictly increase, over every sequence of send and receive
  events and whatever the physical clock reads at each of them.
\<close>

theorem hlc_stamps_ascend:
  "sorted_wrt (<) (minted (fst (run clock_step c events)))"
  by (rule hlc.run_ascending)

text \<open>
  C23: a received stamp that the clock accepts is below the stamp of the receive event and below
  every stamp that the node mints after it, so the order agrees with cause and effect.
\<close>

theorem hlc_causality:
  assumes "observe physical peer c = (Ok t, c')"
    and "u \<in> set (minted (fst (run clock_step c (Observe physical peer # events))))"
  shows "peer < u"
  using assms by (intro hlc.run_causal[of "Observe physical peer" c t c' peer u events]) simp_all

theorem hlc_causality_witness:
  "Hlc 1005 7 2 < Hlc 1005 9 1"
  by (rule hlc_causality[of 1000 "Hlc 1005 7 2" "with_clock 1 990" "Hlc 1005 8 1" _ _ "[Now 1001]"])
    (simp_all add: observe_def now_def with_clock_def with_max_offset_def Let_def i64_max_def
      i64_saturating_sub_def merged_counter_def next_counter_def DEFAULT_MAX_OFFSET_def word_sless_alt)

lemmas clock_eval = observe_def now_def with_clock_def with_max_offset_def Let_def i64_max_def
  i64_saturating_sub_def merged_counter_def next_counter_def DEFAULT_MAX_OFFSET_def word_sless_alt
  u64_saturating_add_def



text \<open>
  The self-fence refuses exactly the stamps that are more than the maximum offset ahead of
  the physical clock (compared without overflow), and a refusal moves neither the wall time nor
  the counter; it is counted.
\<close>

theorem hlc_fence:
  assumes "sint (clk_max_offset_micros c) < 2 ^ 63 - 1" and "observe physical peer c = (r, c')"
  shows "((\<exists>a m. r = Err (PeerTooFarAhead a m)) \<longleftrightarrow>
            sint (clk_max_offset_micros c) < sint (hlc_wall peer) - sint physical)
    \<and> ((\<exists>e. r = Err e) \<longrightarrow> clock_mark c' = clock_mark c)
    \<and> ((\<exists>a m. r = Err (PeerTooFarAhead a m)) \<longrightarrow>
            st_refusals (clk_state c') = u64_saturating_add (st_refusals (clk_state c)) 1)"
proof -
  have r: "r = fst (observe physical peer c)"
    using assms(2) by simp
  have f: "clk_max_offset_micros c <s i64_saturating_sub (hlc_wall peer) physical \<longleftrightarrow>
    sint (clk_max_offset_micros c) < sint (hlc_wall peer) - sint physical"
    using assms(1) sint_ge[of "clk_max_offset_micros c"]
    by (auto simp: word_sless_alt sint_i64_saturating_sub)
  have fenced: "(\<exists>a m. r = Err (PeerTooFarAhead a m)) \<longleftrightarrow>
    sint (clk_max_offset_micros c) < sint (hlc_wall peer) - sint physical"
    using observe_fenced[of c peer physical] observe_not_fenced[of c peer physical] unfolding r f
    by blast
  moreover have "(\<exists>e. r = Err e) \<longrightarrow> clock_mark c' = clock_mark c"
    using observe_Err(1) assms(2) by blast
  moreover have "(\<exists>a m. r = Err (PeerTooFarAhead a m)) \<longrightarrow>
    st_refusals (clk_state c') = u64_saturating_add (st_refusals (clk_state c)) 1"
    using assms(2) unfolding fenced f[symmetric] by (auto simp: observe_def Let_def)
  ultimately show ?thesis
    by blast
qed

theorem hlc_fence_witness:
  "(\<exists>a m. fst (observe 1000 (Hlc 600000 7 2) (with_clock 1 990)) = Err (PeerTooFarAhead a m))
   \<and> clock_mark (snd (observe 1000 (Hlc 600000 7 2) (with_clock 1 990))) = clock_mark (with_clock 1 990)"
  using hlc_fence[of "with_clock 1 990" 1000 "Hlc 600000 7 2"]
  by (auto simp: with_clock_def with_max_offset_def DEFAULT_MAX_OFFSET_def i64_max_def word_sless_alt
      prod_eq_iff)

text \<open>
  C30: a send event fails only when the counter is \<open>u32::MAX\<close> and the physical clock is not above
  the logical wall time; otherwise it returns the physical time with counter zero, or the
  logical time with the next counter.
\<close>

theorem hlc_now:
  "fst (now physical c) =
     (if st_wall (clk_state c) <s physical then Ok (Hlc physical 0 (clk_node c))
      else if st_counter (clk_state c) = - 1 then Err CounterOverflow
      else Ok (Hlc (st_wall (clk_state c)) (st_counter (clk_state c) + 1) (clk_node c)))"
proof -
  have "next_counter k = (if k = - 1 then Err CounterOverflow else Ok (k + 1))" for k
    using next_counter_Err[of k CounterOverflow] by (simp add: next_counter_def split: if_splits)
  then show ?thesis
    by (cases "st_wall (clk_state c) <s physical")
      (auto simp: now_def Let_def i64_max_def word_sless_alt)
qed



text \<open>
  Encoding and decoding a stamp are inverse to each other in both directions: the bytes that
  encode a stamp decode to it, and every byte string that decodes is the encoding of its stamp.
\<close>

theorem hlc_layout_round_trip:
  "Hlc_encode h = Ok bs \<longleftrightarrow> Hlc_decode bs = Ok h"
  using Hlc_decode_encode(2) Hlc_encode_decode by blast

text \<open>
  A stamp that a producer appends as a header is the one a consumer extracts, whatever
  headers the record already had, earlier stamps included.
\<close>

theorem hlc_header_extracted:
  assumes "Hlc_header h = Ok kv"
  shows "extract_from_headers (headers @ [kv]) = Some h"
proof -
  obtain v where v: "Hlc_encode h = Ok v" "kv = (HLC_HEADER, v)"
    using assms by (auto simp: Hlc_header_def and_then_eq_Ok)
  then show ?thesis
    using Hlc_decode_encode(2)[OF v(1)] by (simp add: extract_from_headers_def)
qed

theorem hlc_header_extracted_witness:
  "extract_from_headers ([(''krabka.hlc'', [1]), (''k'', [])] @
     [(HLC_HEADER, [0, 0, 0, 0, 0, 0, 0, 5, 0, 0, 0, 1, 0, 0, 0, 3])]) = Some (Hlc 5 1 3)"
  by (rule hlc_header_extracted) (simp add: Hlc_header_def Hlc_encode_def be_bytes_numeral)

end
