(* ===== verification/Compression.thy ===== *)
theory Compression
  imports Fixed
begin

text \<open>
  The crate \<open>krabka-compression\<close>: codec ids and levels (\<open>codec_type.rs\<close>), the dispatch of
  \<open>lib.rs\<close> and the xerial framing of \<open>snappy.rs\<close>. The third-party libraries behind it are the
  fields of \<open>codec_libs\<close>: the raw block coder of \<open>snap\<close>, and for gzip, lz4 and zstd, whose modules
  drive streaming third-party coders, the functions the dispatch calls.
\<close>

unbundle bit_operations_syntax

section \<open>Codecs and levels\<close>

datatype CompressionError =
    FeatureDisabled string
  | InvalidData string
  | TooLarge nat
  | InvalidLevel string i32 string
  | Io string

datatype CompressionType = CompressionNone | Gzip | Snappy | Lz4 | Zstd

definition from_attribute_bits :: "u8 \<Rightarrow> CompressionType option" where
  "from_attribute_bits b =
     (let k = b AND 0x07 in
      if k = 0 then Some CompressionNone
      else if k = 1 then Some Gzip
      else if k = 2 then Some Snappy
      else if k = 3 then Some Lz4
      else if k = 4 then Some Zstd
      else None)"

fun as_attribute_bits :: "CompressionType \<Rightarrow> u8" where
  "as_attribute_bits CompressionNone = 0"
| "as_attribute_bits Gzip = 1"
| "as_attribute_bits Snappy = 2"
| "as_attribute_bits Lz4 = 3"
| "as_attribute_bits Zstd = 4"

fun codec_name :: "CompressionType \<Rightarrow> string" where
  "codec_name CompressionNone = ''none''"
| "codec_name Gzip = ''gzip''"
| "codec_name Snappy = ''snappy''"
| "codec_name Lz4 = ''lz4''"
| "codec_name Zstd = ''zstd''"

record LevelRange =
  lv_min :: i32
  lv_max :: i32
  lv_default :: i32

definition GZIP_LEVELS :: LevelRange where
  "GZIP_LEVELS = \<lparr>lv_min = 1, lv_max = 9, lv_default = - 1\<rparr>"

definition LZ4_LEVELS :: LevelRange where
  "LZ4_LEVELS = \<lparr>lv_min = 1, lv_max = 17, lv_default = 9\<rparr>"

definition ZSTD_LEVELS :: LevelRange where
  "ZSTD_LEVELS = \<lparr>lv_min = - 131072, lv_max = 22, lv_default = 3\<rparr>"

fun levels :: "CompressionType \<Rightarrow> LevelRange option" where
  "levels CompressionNone = None"
| "levels Snappy = None"
| "levels Gzip = Some GZIP_LEVELS"
| "levels Lz4 = Some LZ4_LEVELS"
| "levels Zstd = Some ZSTD_LEVELS"

definition default_level :: "CompressionType \<Rightarrow> i32 option" where
  "default_level c = map_option lv_default (levels c)"

definition min_level :: "CompressionType \<Rightarrow> i32 option" where
  "min_level c = map_option lv_min (levels c)"

definition max_level :: "CompressionType \<Rightarrow> i32 option" where
  "max_level c = map_option lv_max (levels c)"

text \<open>Decimal \<open>Display\<close> of integers.\<close>

fun show_nat :: "nat \<Rightarrow> string" where
  "show_nat n =
     (if n < 10 then [char_of (48 + n)] else show_nat (n div 10) @ [char_of (48 + n mod 10)])"

declare show_nat.simps [simp del]

definition show_i32 :: "i32 \<Rightarrow> string" where
  "show_i32 w = (if sint w < 0 then ''-'' @ show_nat (nat (- sint w)) else show_nat (nat (sint w)))"

definition check_level :: "CompressionType \<Rightarrow> i32 \<Rightarrow> (CompressionError, unit) result" where
  "check_level c level =
     (let invalid = (\<lambda>reason. Err (InvalidLevel (codec_name c) level reason)) in
      case levels c of
        None \<Rightarrow>
          invalid (''Compression levels are not defined for this compression type: '' @ codec_name c)
      | Some l \<Rightarrow>
          if c = Gzip
          then if lv_max l <s level \<or> (level <s lv_min l \<and> level \<noteq> lv_default l)
               then invalid (''Value must be between '' @ show_i32 (lv_min l) @ '' and ''
                 @ show_i32 (lv_max l) @ '' or equal to '' @ show_i32 (lv_default l))
               else Ok ()
          else if level <s lv_min l then invalid (''Value must be at least '' @ show_i32 (lv_min l))
          else if lv_max l <s level then invalid (''Value must be no more than '' @ show_i32 (lv_max l))
          else Ok ())"

section \<open>The libraries\<close>

type_synonym 'a codec_result = "(CompressionError, 'a) result"

text \<open>
  \<open>snap_compress block capacity\<close> and \<open>snap_decompress block capacity\<close> return the bytes written
  to a destination of \<open>capacity\<close> bytes; an error of \<open>snap\<close> is its message.
\<close>

record codec_libs =
  snap_max_compress_len :: "nat \<Rightarrow> nat"
  snap_compress :: "bytes \<Rightarrow> nat \<Rightarrow> (string, bytes) result"
  snap_decompress_len :: "bytes \<Rightarrow> (string, nat) result"
  snap_decompress :: "bytes \<Rightarrow> nat \<Rightarrow> (string, bytes) result"
  gzip_compress :: "bytes \<Rightarrow> bytes codec_result"
  gzip_compress_with_level :: "bytes \<Rightarrow> i32 \<Rightarrow> bytes codec_result"
  gzip_decompress :: "bytes \<Rightarrow> nat \<Rightarrow> bytes codec_result"
  lz4_compress :: "bytes \<Rightarrow> bytes codec_result"
  lz4_compress_with_level :: "bytes \<Rightarrow> i32 \<Rightarrow> bytes codec_result"
  lz4_decompress :: "bytes \<Rightarrow> nat \<Rightarrow> bytes codec_result"
  zstd_compress :: "bytes \<Rightarrow> bytes codec_result"
  zstd_compress_with_level :: "bytes \<Rightarrow> i32 \<Rightarrow> bytes codec_result"
  zstd_decompress :: "bytes \<Rightarrow> nat \<Rightarrow> bytes codec_result"

section \<open>Xerial snappy\<close>

definition XERIAL_HEADER :: bytes where
  "XERIAL_HEADER = [0x82, 0x53, 0x4E, 0x41, 0x50, 0x50, 0x59, 0, 0, 0, 0, 1, 0, 0, 0, 1]"

definition XERIAL_CHUNK :: nat where
  "XERIAL_CHUNK = 32 * 1024"

text \<open>\<open>slice::chunks\<close>.\<close>

function chunks :: "nat \<Rightarrow> 'a list \<Rightarrow> 'a list list" where
  "chunks n xs = (if xs = [] \<or> n = 0 then [] else take n xs # chunks n (drop n xs))"
  by pat_completeness auto
termination
  by (relation "measure (\<lambda>(n, xs). length xs)") auto

declare chunks.simps [simp del]

fun snappy_blocks :: "'a codec_libs_scheme \<Rightarrow> bytes list \<Rightarrow> bytes \<Rightarrow> bytes codec_result" where
  "snappy_blocks L [] out = Ok out"
| "snappy_blocks L (chunk # rest) out =
     and_then
       (map_err (\<lambda>e. InvalidData (''snappy encode: '' @ e))
         (snap_compress L chunk (snap_max_compress_len L (length chunk)))) (\<lambda>z.
     if length z < 2 ^ 32
     then snappy_blocks L rest (out @ be_bytes 4 (of_nat (length z) :: u32) @ z)
     else Err (InvalidData (''snappy chunk of '' @ show_nat (length z) @ '' bytes exceeds u32'')))"

definition snappy_compress :: "'a codec_libs_scheme \<Rightarrow> bytes \<Rightarrow> bytes codec_result" where
  "snappy_compress L data = snappy_blocks L (chunks XERIAL_CHUNK data) XERIAL_HEADER"

function snappy_unblock :: "'a codec_libs_scheme \<Rightarrow> nat \<Rightarrow> bytes \<Rightarrow> bytes \<Rightarrow> bytes codec_result" where
  "snappy_unblock L max_output out rest =
     (if rest = [] then Ok out
      else if length rest < 4 then Err (InvalidData ''snappy chunk header truncated'')
      else
        let len = unat (be_word (take 4 rest) :: u32); tail = drop 4 rest in
        if length tail < len then Err (InvalidData ''snappy chunk body truncated'')
        else
          let block = take len tail in
          case snap_decompress_len L block of
            Err e \<Rightarrow> Err (InvalidData (''snappy decode_len: '' @ e))
          | Ok max_out \<Rightarrow>
              if usize_max < length out + max_out then Err (TooLarge max_output)
              else if max_output < length out + max_out then Err (TooLarge max_output)
              else
                case snap_decompress L block max_out of
                  Err e \<Rightarrow> Err (InvalidData (''snappy decode: '' @ e))
                | Ok d \<Rightarrow> snappy_unblock L max_output (out @ d) (drop len tail))"
  by pat_completeness auto
termination
  by (relation "measure (\<lambda>(L, m, out, rest). length rest)") auto

declare snappy_unblock.simps [simp del]

definition snappy_decompress :: "'a codec_libs_scheme \<Rightarrow> bytes \<Rightarrow> nat \<Rightarrow> bytes codec_result" where
  "snappy_decompress L data max_output =
     (if length data < length XERIAL_HEADER
      then Err (InvalidData ''snappy payload too short for xerial header'')
      else if take 8 data \<noteq> take 8 XERIAL_HEADER then Err (InvalidData ''snappy missing xerial magic'')
      else snappy_unblock L max_output [] (drop (length XERIAL_HEADER) data))"

section \<open>Dispatch\<close>

fun compress :: "'a codec_libs_scheme \<Rightarrow> CompressionType \<Rightarrow> bytes \<Rightarrow> bytes codec_result" where
  "compress L CompressionNone data = Ok data"
| "compress L Gzip data = gzip_compress L data"
| "compress L Snappy data = snappy_compress L data"
| "compress L Lz4 data = lz4_compress L data"
| "compress L Zstd data = zstd_compress L data"

definition compress_with_level ::
  "'a codec_libs_scheme \<Rightarrow> CompressionType \<Rightarrow> bytes \<Rightarrow> i32 \<Rightarrow> bytes codec_result" where
  "compress_with_level L c data level =
     and_then (check_level c level) (\<lambda>_.
       case c of
         Gzip \<Rightarrow> gzip_compress_with_level L data level
       | Lz4 \<Rightarrow> lz4_compress_with_level L data level
       | Zstd \<Rightarrow> zstd_compress_with_level L data level
       | _ \<Rightarrow> compress L c data)"

fun decompress :: "'a codec_libs_scheme \<Rightarrow> CompressionType \<Rightarrow> bytes \<Rightarrow> nat \<Rightarrow> bytes codec_result" where
  "decompress L CompressionNone data max_output =
     (if max_output < length data then Err (TooLarge max_output) else Ok data)"
| "decompress L Gzip data max_output = gzip_decompress L data max_output"
| "decompress L Snappy data max_output = snappy_decompress L data max_output"
| "decompress L Lz4 data max_output = lz4_decompress L data max_output"
| "decompress L Zstd data max_output = zstd_decompress L data max_output"

section \<open>What the code relies on\<close>

text \<open>The documented behaviour of the \<open>snap\<close> block coder: a block records its decompressed length and decompresses
  to its source, and nothing is written past the destination.\<close>

definition snap_round_trips :: "'a codec_libs_scheme \<Rightarrow> bool" where
  "snap_round_trips L \<longleftrightarrow>
     (\<forall>block z. snap_compress L block (snap_max_compress_len L (length block)) = Ok z
        \<longrightarrow> snap_decompress_len L z = Ok (length block) \<and> snap_decompress L z (length block) = Ok block)"

definition snap_stays_in_bounds :: "'a codec_libs_scheme \<Rightarrow> bool" where
  "snap_stays_in_bounds L \<longleftrightarrow> (\<forall>block n d. snap_decompress L block n = Ok d \<longrightarrow> length d \<le> n)"

section \<open>The framing\<close>

lemma concat_chunks: "0 < n \<Longrightarrow> concat (chunks n xs) = xs"
  by (induction n xs rule: chunks.induct) (subst chunks.simps, auto)

text \<open>What one block contributes, and what the reader does with it.\<close>

definition framed :: "bytes \<Rightarrow> bytes" where
  "framed z = be_bytes 4 (of_nat (length z) :: u32) @ z"

lemma unat_length: "n < 2 ^ 32 \<Longrightarrow> unat (of_nat n :: u32) = n"
  by (simp add: unsigned_of_nat take_bit_nat_eq_self)

lemma snappy_unblock_framed:
  assumes "length z < 2 ^ 32" and "snap_decompress_len L z = Ok n" and "snap_decompress L z n = Ok d"
    and "max_output \<le> usize_max"
  shows "snappy_unblock L max_output out (framed z @ rest) =
    (if max_output < length out + n then Err (TooLarge max_output)
     else snappy_unblock L max_output (out @ d) rest)"
proof -
  have "snappy_unblock L max_output out buf =
    (if max_output < length out + n then Err (TooLarge max_output)
     else snappy_unblock L max_output (out @ d) rest)"
    if "buf \<noteq> []" "\<not> length buf < 4" "take 4 buf = be_bytes 4 (of_nat (length z) :: u32)"
      "drop 4 buf = z @ rest" for buf
    using that assms unat_length[OF assms(1)] by (subst snappy_unblock.simps) (simp add: Let_def)
  moreover have "framed z @ rest \<noteq> []"
    by (auto simp: framed_def dest: arg_cong[of _ _ length])
  ultimately show ?thesis
    by (simp add: framed_def)
qed

lemma snappy_blocks_eq:
  "snappy_blocks L cs out = Ok z \<Longrightarrow>
    \<exists>zs. z = out @ concat (map framed zs) \<and> list_all2 (\<lambda>c b. length b < 2 ^ 32
      \<and> snap_compress L c (snap_max_compress_len L (length c)) = Ok b) cs zs"
proof (induction L cs out arbitrary: z rule: snappy_blocks.induct)
  case (2 L c rest out)
  obtain b where b: "snap_compress L c (snap_max_compress_len L (length c)) = Ok b" "length b < 2 ^ 32"
    "snappy_blocks L rest (out @ be_bytes 4 (of_nat (length b) :: u32) @ b) = Ok z"
    using "2.prems" by (auto simp: and_then_eq_Ok split: if_splits)
  then obtain zs where "z = (out @ framed b) @ concat (map framed zs)"
    "list_all2 (\<lambda>c b. length b < 2 ^ 32
      \<and> snap_compress L c (snap_max_compress_len L (length c)) = Ok b) rest zs"
    using "2.IH"[OF b(2,3)] unfolding framed_def[of b] by blast
  with b show ?case
    by (intro exI[of _ "b # zs"]) simp
qed simp

lemma snappy_unblock_blocks:
  assumes "snap_round_trips L" and "max_output \<le> usize_max"
    and "list_all2 (\<lambda>c b. length b < 2 ^ 32
      \<and> snap_compress L c (snap_max_compress_len L (length c)) = Ok b) cs zs"
    and "length out \<le> max_output"
  shows "snappy_unblock L max_output out (concat (map framed zs)) =
    (if length out + length (concat cs) \<le> max_output then Ok (out @ concat cs)
     else Err (TooLarge max_output))"
  using assms(3,4)
proof (induction cs zs arbitrary: out rule: list_all2_induct)
  case Nil
  then show ?case by (simp add: snappy_unblock.simps)
next
  case (Cons c cs b zs)
  have "snap_decompress_len L b = Ok (length c)" "snap_decompress L b (length c) = Ok c"
    using assms(1) Cons.hyps by (auto simp: snap_round_trips_def)
  then show ?case
    using Cons.hyps Cons.prems Cons.IH[of "out @ c"] assms(2) by (simp add: snappy_unblock_framed)
qed

lemma snappy_unblock_bounded:
  "snap_stays_in_bounds L \<Longrightarrow> snappy_unblock L max_output out rest = Ok d \<Longrightarrow> length out \<le> max_output
    \<Longrightarrow> length d \<le> max_output"
proof (induction L max_output out rest rule: snappy_unblock.induct)
  case (1 L max_output out rest)
  let ?len = "unat (be_word (take 4 rest) :: u32)"
  let ?block = "take ?len (drop 4 rest)"
  show ?case
  proof (cases "rest = []")
    case True
    then show ?thesis
      using "1.prems" by (simp add: snappy_unblock.simps)
  next
    case False
    then obtain n b where n: "\<not> length rest < 4" "\<not> length (drop 4 rest) < ?len"
      "snap_decompress_len L ?block = Ok n" "\<not> usize_max < length out + n"
      "\<not> max_output < length out + n" "snap_decompress L ?block n = Ok b"
      "snappy_unblock L max_output (out @ b) (drop ?len (drop 4 rest)) = Ok d"
      using "1.prems"(2) by (subst (asm) snappy_unblock.simps)
        (auto simp: Let_def split: if_splits sum.splits)
    have "length b \<le> n"
      using "1.prems"(1) n(6) by (simp add: snap_stays_in_bounds_def)
    then show ?thesis
      using "1.IH"[OF False n(1) refl refl n(2) refl n(3,4,5,6) "1.prems"(1) n(7)] n(5) by simp
  qed
qed

section \<open>Properties\<close>

text \<open>
  A level is accepted exactly when Kafka accepts it: 1 to 9 or -1 for gzip, 1 to 17 for lz4,
  -131072 to 22 for zstd, and never for the codecs without levels; every refusal carries the codec
  and the level.
\<close>

theorem level_check_exact:
  "(check_level c level = Ok ()
      \<longleftrightarrow> (case c of
            Gzip \<Rightarrow> sint level = - 1 \<or> 1 \<le> sint level \<and> sint level \<le> 9
          | Lz4 \<Rightarrow> 1 \<le> sint level \<and> sint level \<le> 17
          | Zstd \<Rightarrow> - 131072 \<le> sint level \<and> sint level \<le> 22
          | _ \<Rightarrow> False))
   \<and> (check_level c level = Ok () \<or> (\<exists>reason. check_level c level = Err (InvalidLevel (codec_name c) level reason)))"
proof -
  have "sint level = - 1 \<longleftrightarrow> level = - 1"
    by (metis sint_n1 signed_word_eqI)
  then show ?thesis
    by (cases c) (auto simp: check_level_def Let_def GZIP_LEVELS_def LZ4_LEVELS_def ZSTD_LEVELS_def
        word_sless_alt)
qed

text \<open>
  C38: what the snappy framing wrote decompresses to the original exactly when it fits the output
  limit, and is refused as too large otherwise, for every number of blocks.
\<close>

theorem snappy_round_trip:
  assumes "snap_round_trips L" and "snappy_compress L data = Ok z" and "max_output \<le> usize_max"
  shows "snappy_decompress L z max_output =
    (if length data \<le> max_output then Ok data else Err (TooLarge max_output))"
proof -
  obtain zs where z: "z = XERIAL_HEADER @ concat (map framed zs)" "list_all2 (\<lambda>c b. length b < 2 ^ 32
      \<and> snap_compress L c (snap_max_compress_len L (length c)) = Ok b) (chunks XERIAL_CHUNK data) zs"
    using snappy_blocks_eq[OF assms(2)[unfolded snappy_compress_def]] by blast
  have "concat (chunks XERIAL_CHUNK data) = data"
    by (simp add: concat_chunks XERIAL_CHUNK_def)
  then show ?thesis
    using snappy_unblock_blocks[OF assms(1,3) z(2), of "[]"]
    by (simp add: snappy_decompress_def z(1) XERIAL_HEADER_def)
qed

text \<open>A library that stores blocks with an 8-byte length, as a concrete instance.\<close>

definition stored_libs :: codec_libs where
  "stored_libs =
     \<lparr>snap_max_compress_len = (\<lambda>n. n + 4),
      snap_compress = (\<lambda>b n. if n < length b + 4 then Err ''output buffer too small''
        else Ok (be_bytes 4 (of_nat (length b) :: u32) @ b)),
      snap_decompress_len = (\<lambda>z. if length z < 4 then Err ''empty'' else Ok (length z - 4)),
      snap_decompress = (\<lambda>z n. if length z < 4 then Err ''empty''
        else if n < length z - 4 then Err ''output buffer too small'' else Ok (drop 4 z)),
      gzip_compress = Ok, gzip_compress_with_level = (\<lambda>b l. Ok b),
      gzip_decompress = (\<lambda>z n. if n < length z then Err (TooLarge n) else Ok z),
      lz4_compress = Ok, lz4_compress_with_level = (\<lambda>b l. Ok b),
      lz4_decompress = (\<lambda>z n. if n < length z then Err (TooLarge n) else Ok z),
      zstd_compress = Ok, zstd_compress_with_level = (\<lambda>b l. Ok b),
      zstd_decompress = (\<lambda>z n. if n < length z then Err (TooLarge n) else Ok z)\<rparr>"

lemma stored_libs_laws: "snap_round_trips stored_libs" "snap_stays_in_bounds stored_libs"
  by (auto simp: snap_round_trips_def snap_stays_in_bounds_def stored_libs_def)

theorem snappy_round_trip_witness:
  "snappy_decompress stored_libs (XERIAL_HEADER @ [0, 0, 0, 6, 0, 0, 0, 2, 7, 8]) 1 =
     (if length [7, 8 :: u8] \<le> 1 then Ok [7, 8] else Err (TooLarge 1))"
  by (rule snappy_round_trip[OF stored_libs_laws(1)])
    (simp_all add: snappy_compress_def stored_libs_def chunks.simps XERIAL_CHUNK_def usize_max_def
      be_bytes_numeral)

text \<open>
  Whatever the input, the snappy decompressor returns at most the allowed number of bytes, so
  a small payload cannot expand past the limit.
\<close>

theorem snappy_output_bounded:
  assumes "snap_stays_in_bounds L" and "snappy_decompress L data max_output = Ok d"
  shows "length d \<le> max_output"
  using assms snappy_unblock_bounded[OF assms(1), of max_output "[]"]
  by (simp add: snappy_decompress_def split: if_splits)

theorem snappy_output_bounded_witness: "length [7, 8 :: u8] \<le> 2"
  by (rule snappy_output_bounded[OF stored_libs_laws(2), of "XERIAL_HEADER @ [0, 0, 0, 6, 0, 0, 0, 2, 7, 8]"])
    (simp add: snappy_decompress_def XERIAL_HEADER_def snappy_unblock.simps stored_libs_def be_word_def
      usize_max_def)

end
