(* ===== verification/BatchHeader.thy ===== *)
theory BatchHeader
  imports Varint Compression
begin

text \<open>
  The fixed part of a v2 record batch, \<open>crates/protocol/src/records/header.rs\<close>: the packed
  attributes, the 61-byte header and the in-place patch of its offset and leader epoch. Beside it
  the producer-sequence arithmetic of \<open>records/mod.rs\<close>.
\<close>

section \<open>Attributes\<close>

datatype TimestampType = CreateTime | LogAppendTime

text \<open>\<open>Attributes\<close> is a newtype over \<open>i16\<close>.\<close>

type_synonym Attributes = i16

definition TIMESTAMP_TYPE_BIT :: i16 where
  "TIMESTAMP_TYPE_BIT = push_bit 3 1"

definition TRANSACTIONAL_BIT :: i16 where
  "TRANSACTIONAL_BIT = push_bit 4 1"

definition CONTROL_BIT :: i16 where
  "CONTROL_BIT = push_bit 5 1"

definition DELETE_HORIZON_BIT :: i16 where
  "DELETE_HORIZON_BIT = push_bit 6 1"

definition compression :: "Attributes \<Rightarrow> CompressionType" where
  "compression a =
     (case from_attribute_bits (ucast (a AND 0x07)) of None \<Rightarrow> CompressionNone | Some c \<Rightarrow> c)"

definition timestamp_type :: "Attributes \<Rightarrow> TimestampType" where
  "timestamp_type a = (if a AND TIMESTAMP_TYPE_BIT \<noteq> 0 then LogAppendTime else CreateTime)"

definition is_transactional :: "Attributes \<Rightarrow> bool" where
  "is_transactional a \<longleftrightarrow> a AND TRANSACTIONAL_BIT \<noteq> 0"

definition is_control_batch :: "Attributes \<Rightarrow> bool" where
  "is_control_batch a \<longleftrightarrow> a AND CONTROL_BIT \<noteq> 0"

definition has_delete_horizon :: "Attributes \<Rightarrow> bool" where
  "has_delete_horizon a \<longleftrightarrow> a AND DELETE_HORIZON_BIT \<noteq> 0"

definition with_compression :: "CompressionType \<Rightarrow> Attributes \<Rightarrow> Attributes" where
  "with_compression c a = (a AND NOT 0x07) OR ucast (as_attribute_bits c)"

definition with_timestamp_type :: "TimestampType \<Rightarrow> Attributes \<Rightarrow> Attributes" where
  "with_timestamp_type t a =
     (case t of CreateTime \<Rightarrow> a AND NOT TIMESTAMP_TYPE_BIT | LogAppendTime \<Rightarrow> a OR TIMESTAMP_TYPE_BIT)"

definition with_transactional :: "bool \<Rightarrow> Attributes \<Rightarrow> Attributes" where
  "with_transactional b a = (if b then a OR TRANSACTIONAL_BIT else a AND NOT TRANSACTIONAL_BIT)"

definition with_control :: "bool \<Rightarrow> Attributes \<Rightarrow> Attributes" where
  "with_control b a = (if b then a OR CONTROL_BIT else a AND NOT CONTROL_BIT)"

definition with_delete_horizon_attr :: "bool \<Rightarrow> Attributes \<Rightarrow> Attributes" where
  "with_delete_horizon_attr s a = (if s then a OR DELETE_HORIZON_BIT else a AND NOT DELETE_HORIZON_BIT)"

subsection \<open>Each accessor reads its own bits\<close>

lemma bit_getters:
  "timestamp_type a = (if bit a 3 then LogAppendTime else CreateTime)"
  "is_transactional a = bit a 4" "is_control_batch a = bit a 5" "has_delete_horizon a = bit a 6"
  unfolding timestamp_type_def is_transactional_def is_control_batch_def has_delete_horizon_def
    TIMESTAMP_TYPE_BIT_def TRANSACTIONAL_BIT_def CONTROL_BIT_def DELETE_HORIZON_BIT_def
    bit_iff_and_push_bit_not_eq_0
  by (rule refl)+

lemma and_7_eqI: "(\<And>n. n < 3 \<Longrightarrow> bit a n = bit b n) \<Longrightarrow> a AND 0x07 = b AND (0x07 :: i16)"
proof (rule bit_word_eqI)
  fix n :: nat
  have m: "(0x07 :: i16) = mask 3"
    by (simp add: mask_eq_exp_minus_1)
  assume "\<And>n. n < 3 \<Longrightarrow> bit a n = bit b n"
  then show "bit (a AND 0x07) n = bit (b AND 0x07) n"
    unfolding m by (auto simp: bit_and_iff bit_mask_iff)
qed

lemma compression_cong: "(\<And>n. n < 3 \<Longrightarrow> bit a n = bit b n) \<Longrightarrow> compression a = compression b"
  unfolding compression_def by (drule and_7_eqI) simp

lemma bit_with_flag:
  "bit (if s then a OR push_bit k 1 else a AND NOT (push_bit k 1)) n
     = (if n = k \<and> n < 16 then s else bit (a :: i16) n)"
  by (auto simp: bit_simps dest: bit_imp_le_length)

lemma bit_setters:
  "bit (with_timestamp_type t a) n = (if n = 3 then t = LogAppendTime else bit a n)"
  "bit (with_transactional s a) n = (if n = 4 then s else bit a n)"
  "bit (with_control s a) n = (if n = 5 then s else bit a n)"
  "bit (with_delete_horizon_attr s a) n = (if n = 6 then s else bit a n)"
proof -
  have "with_timestamp_type t a =
    (if t = LogAppendTime then a OR push_bit 3 1 else a AND NOT (push_bit 3 1))"
    by (simp add: with_timestamp_type_def TIMESTAMP_TYPE_BIT_def split: TimestampType.split)
  then show "bit (with_timestamp_type t a) n = (if n = 3 then t = LogAppendTime else bit a n)"
    using bit_with_flag[of "t = LogAppendTime" a 3 n] by (simp only:) simp
qed (unfold with_transactional_def with_control_def with_delete_horizon_attr_def TRANSACTIONAL_BIT_def
    CONTROL_BIT_def DELETE_HORIZON_BIT_def bit_with_flag, simp_all)

lemma bit_with_compression:
  "bit (with_compression c a) n = (if n < 3 then bit (as_attribute_bits c) n else bit a n)"
proof -
  have m: "(0x07 :: i16) = mask 3"
    by (simp add: mask_eq_exp_minus_1)
  have "take_bit 3 (as_attribute_bits c) = as_attribute_bits c"
    by (cases c) simp_all
  then have "\<not> bit (as_attribute_bits c) n" if "3 \<le> n" for n
    using that by (metis bit_take_bit_iff not_less)
  then show ?thesis
    unfolding with_compression_def m
    by (auto simp: bit_simps dest: bit_imp_le_length)
qed

lemma compression_with_compression [simp]: "compression (with_compression c a) = c"
proof -
  have "with_compression c a AND 0x07 = ucast (as_attribute_bits c) AND 0x07"
    by (rule and_7_eqI) (auto simp: bit_with_compression bit_simps)
  then show ?thesis
    by (cases c) (simp_all add: compression_def from_attribute_bits_def)
qed

section \<open>The header\<close>

text \<open>\<open>RecordBatchHeader\<close>, the zero-copy view of 61 bytes.\<close>

record RecordBatchHeader =
  hdr_base_offset :: i64
  hdr_batch_length :: i32
  hdr_partition_leader_epoch :: i32
  hdr_magic :: i8
  hdr_crc :: u32
  hdr_attributes :: i16
  hdr_last_offset_delta :: i32
  hdr_base_timestamp :: i64
  hdr_max_timestamp :: i64
  hdr_producer_id :: i64
  hdr_producer_epoch :: i16
  hdr_base_sequence :: i32
  hdr_records_count :: i32

definition HEADER_LEN :: nat where
  "HEADER_LEN = 61"

definition CRC_COVERAGE_START :: nat where
  "CRC_COVERAGE_START = 21"

definition slice_at :: "nat \<Rightarrow> nat \<Rightarrow> bytes \<Rightarrow> bytes" where
  "slice_at a b bs = take (b - a) (drop a bs)"

definition ref_from_bytes :: "bytes \<Rightarrow> RecordBatchHeader option" where
  "ref_from_bytes bs =
     (if length bs = HEADER_LEN
      then Some \<lparr>hdr_base_offset = be_word (slice_at 0 8 bs),
                 hdr_batch_length = be_word (slice_at 8 12 bs),
                 hdr_partition_leader_epoch = be_word (slice_at 12 16 bs),
                 hdr_magic = be_word (slice_at 16 17 bs),
                 hdr_crc = be_word (slice_at 17 21 bs),
                 hdr_attributes = be_word (slice_at 21 23 bs),
                 hdr_last_offset_delta = be_word (slice_at 23 27 bs),
                 hdr_base_timestamp = be_word (slice_at 27 35 bs),
                 hdr_max_timestamp = be_word (slice_at 35 43 bs),
                 hdr_producer_id = be_word (slice_at 43 51 bs),
                 hdr_producer_epoch = be_word (slice_at 51 53 bs),
                 hdr_base_sequence = be_word (slice_at 53 57 bs),
                 hdr_records_count = be_word (slice_at 57 61 bs)\<rparr>
      else None)"

text \<open>\<open>BASE_OFFSET_RANGE\<close> and \<open>LEADER_EPOCH_RANGE\<close>, and a slice overwritten in place.\<close>

definition BASE_OFFSET_RANGE :: "nat \<times> nat" where
  "BASE_OFFSET_RANGE = (0, 8)"

definition LEADER_EPOCH_RANGE :: "nat \<times> nat" where
  "LEADER_EPOCH_RANGE = (12, 16)"

definition copy_from_slice :: "nat \<times> nat \<Rightarrow> bytes \<Rightarrow> bytes \<Rightarrow> bytes" where
  "copy_from_slice r src buf = take (fst r) buf @ src @ drop (snd r) buf"

definition patch_base_offset_and_leader_epoch :: "i64 \<Rightarrow> i32 \<Rightarrow> bytes \<Rightarrow> bytes" where
  "patch_base_offset_and_leader_epoch base_offset leader_epoch buf =
     copy_from_slice LEADER_EPOCH_RANGE (be_bytes 4 leader_epoch)
       (copy_from_slice BASE_OFFSET_RANGE (be_bytes 8 base_offset) buf)"

section \<open>Producer sequences\<close>

definition i32_MAX :: i32 where
  "i32_MAX = 0x7FFFFFFF"

definition increment_sequence :: "i32 \<Rightarrow> i32 \<Rightarrow> i32" where
  "increment_sequence s n = (s + n) AND i32_MAX"

definition decrement_sequence :: "i32 \<Rightarrow> i32 \<Rightarrow> i32" where
  "decrement_sequence s n = (s - n) AND i32_MAX"

subsection \<open>Laws\<close>

lemma slice_at_append_left:
  "b \<le> length xs \<Longrightarrow> slice_at a b (xs @ ys) = slice_at a b xs"
  by (cases "a \<le> length xs") (simp_all add: slice_at_def)

lemma slice_at_append_right:
  "length xs \<le> a \<Longrightarrow> slice_at a b (xs @ ys) = slice_at (a - length xs) (b - length xs) ys"
  by (simp add: slice_at_def)

lemma slice_at_be_bytes: "slice_at 0 n (be_bytes n w @ rest) = be_bytes n w"
  by (simp add: slice_at_def)

lemma patch_bytes:
  assumes "length buf = HEADER_LEN"
  shows "patch_base_offset_and_leader_epoch off e buf =
    be_bytes 8 off @ slice_at 8 12 buf @ be_bytes 4 e @ drop 16 buf"
  using assms
  by (simp add: patch_base_offset_and_leader_epoch_def copy_from_slice_def BASE_OFFSET_RANGE_def
      LEADER_EPOCH_RANGE_def slice_at_def HEADER_LEN_def)

lemma uint_sequence: "uint (w AND i32_MAX) = uint w mod 2 ^ 31"
proof -
  have "i32_MAX = mask 31"
    by (simp add: i32_MAX_def mask_eq_exp_minus_1)
  then have "w AND i32_MAX = take_bit 31 w"
    by (simp only: take_bit_eq_mask)
  then show ?thesis
    by (simp only: unsigned_take_bit_eq take_bit_int_def)
qed

lemma sint_less_31: "sint (w :: i32) < 2 ^ 31"
  using sint_lt[of w] by simp

lemma small_sint: "uint (w :: i32) < 2 ^ 31 \<Longrightarrow> sint w = uint w"
  using signed_take_bit_int_eq_self[of 31 "uint w"] unsigned_greater_eq[of w, where ?'a = int]
  by (simp add: sint_uint)

lemma nonneg_uint:
  assumes "0 \<le> sint (w :: i32)"
  shows "uint w = sint w"
proof -
  have "uint w = take_bit 32 (sint w)"
    using uint_sint[of w] by simp
  then show ?thesis
    using assms sint_less_31[of w] by (simp add: take_bit_int_eq_self)
qed

lemma sint_sequence: "sint (w AND i32_MAX) = uint w mod 2 ^ 31"
  using small_sint[of "w AND i32_MAX"] by (simp add: uint_sequence)

lemma uint_plus: "uint (a + b :: i32) mod 0x80000000 = (uint a + uint b) mod 0x80000000"
  by (simp add: uint_word_ariths mod_mod_cancel)

lemma uint_minus: "uint (a - b :: i32) mod 0x80000000 = (uint a - uint b) mod 0x80000000"
  by (simp add: uint_word_ariths mod_mod_cancel)

lemma patch_header:
  assumes "ref_from_bytes buf = Some h"
  shows "ref_from_bytes (patch_base_offset_and_leader_epoch off e buf) =
    Some (h\<lparr>hdr_base_offset := off, hdr_partition_leader_epoch := e\<rparr>)"
proof -
  have n: "length buf = 61"
    using assms by (simp add: ref_from_bytes_def HEADER_LEN_def split: if_splits)
  then have p: "patch_base_offset_and_leader_epoch off e buf =
    be_bytes 8 off @ slice_at 8 12 buf @ be_bytes 4 e @ drop 16 buf"
    by (simp add: patch_bytes HEADER_LEN_def)
  show ?thesis
    using assms n unfolding p by (auto simp: ref_from_bytes_def HEADER_LEN_def slice_at_def)
qed

section \<open>Properties\<close>

text \<open>
  The five attribute setters are independent: each changes what its own accessor reads to the
  value given and leaves what the other four accessors read.
\<close>

theorem attributes_independent:
  "compression (with_compression c a) = c
   \<and> compression (with_timestamp_type t a) = compression a
   \<and> compression (with_transactional s a) = compression a
   \<and> compression (with_control s a) = compression a
   \<and> compression (with_delete_horizon_attr s a) = compression a
   \<and> timestamp_type (with_timestamp_type t a) = t
   \<and> timestamp_type (with_compression c a) = timestamp_type a
   \<and> timestamp_type (with_transactional s a) = timestamp_type a
   \<and> timestamp_type (with_control s a) = timestamp_type a
   \<and> timestamp_type (with_delete_horizon_attr s a) = timestamp_type a
   \<and> is_transactional (with_transactional s a) = s
   \<and> is_transactional (with_compression c a) = is_transactional a
   \<and> is_transactional (with_timestamp_type t a) = is_transactional a
   \<and> is_transactional (with_control s a) = is_transactional a
   \<and> is_transactional (with_delete_horizon_attr s a) = is_transactional a
   \<and> is_control_batch (with_control s a) = s
   \<and> is_control_batch (with_compression c a) = is_control_batch a
   \<and> is_control_batch (with_timestamp_type t a) = is_control_batch a
   \<and> is_control_batch (with_transactional s a) = is_control_batch a
   \<and> is_control_batch (with_delete_horizon_attr s a) = is_control_batch a
   \<and> has_delete_horizon (with_delete_horizon_attr s a) = s
   \<and> has_delete_horizon (with_compression c a) = has_delete_horizon a
   \<and> has_delete_horizon (with_timestamp_type t a) = has_delete_horizon a
   \<and> has_delete_horizon (with_transactional s a) = has_delete_horizon a
   \<and> has_delete_horizon (with_control s a) = has_delete_horizon a"
  by (intro conjI compression_cong compression_with_compression)
    (cases t; simp add: bit_getters bit_setters bit_with_compression)+

text \<open>
  C35: on sequence numbers, which are non-negative, \<open>increment_sequence\<close> is addition modulo
  \<open>2 ^ 31\<close>, \<open>decrement_sequence\<close> undoes it, and the results are again non-negative.
\<close>

theorem sequence_arithmetic:
  assumes "0 \<le> sint s" and "0 \<le> sint n"
  shows "sint (increment_sequence s n) = (sint s + sint n) mod 2 ^ 31
    \<and> decrement_sequence (increment_sequence s n) n = s
    \<and> increment_sequence (decrement_sequence s n) n = s"
proof (intro conjI)
  have s: "uint s = sint s" "sint s < 2 ^ 31" and n: "uint n = sint n"
    using assms sint_less_31[of s] by (simp_all add: nonneg_uint)
  show "sint (increment_sequence s n) = (sint s + sint n) mod 2 ^ 31"
    by (simp add: increment_sequence_def sint_sequence uint_sequence uint_plus s n)
  show "decrement_sequence (increment_sequence s n) n = s"
    using s n assms
    by (intro unsigned_word_eqI[where ?'a = int])
      (simp add: increment_sequence_def decrement_sequence_def uint_sequence uint_plus uint_minus
        mod_diff_left_eq)
  show "increment_sequence (decrement_sequence s n) n = s"
    using s n assms
    by (intro unsigned_word_eqI[where ?'a = int])
      (simp add: increment_sequence_def decrement_sequence_def uint_sequence uint_plus uint_minus
        mod_add_left_eq)
qed

theorem sequence_arithmetic_witness:
  "sint (increment_sequence 0x7FFFFFFF 1) = (sint (0x7FFFFFFF :: i32) + sint (1 :: i32)) mod 2 ^ 31
    \<and> decrement_sequence (increment_sequence 0x7FFFFFFF 1) 1 = 0x7FFFFFFF
    \<and> increment_sequence (decrement_sequence 0x7FFFFFFF 1) 1 = 0x7FFFFFFF"
  by (rule sequence_arithmetic) simp_all

text \<open>
  Patching the base offset and the leader epoch changes these two header fields only, and
  leaves every byte that the checksum covers.
\<close>

theorem patch_keeps_crc_region:
  assumes "ref_from_bytes buf = Some h"
  shows "ref_from_bytes (patch_base_offset_and_leader_epoch off e buf) =
      Some (h\<lparr>hdr_base_offset := off, hdr_partition_leader_epoch := e\<rparr>)
    \<and> drop CRC_COVERAGE_START (patch_base_offset_and_leader_epoch off e buf)
      = drop CRC_COVERAGE_START buf"
proof -
  have "length buf = HEADER_LEN"
    using assms by (simp add: ref_from_bytes_def split: if_splits)
  then have "drop CRC_COVERAGE_START (patch_base_offset_and_leader_epoch off e buf)
    = drop CRC_COVERAGE_START buf"
    by (simp add: patch_bytes CRC_COVERAGE_START_def slice_at_def HEADER_LEN_def)
  then show ?thesis
    using patch_header[OF assms] by simp
qed

theorem patch_keeps_crc_region_witness:
  "drop CRC_COVERAGE_START (patch_base_offset_and_leader_epoch 7 3 (replicate 61 0))
     = drop CRC_COVERAGE_START (replicate 61 0)"
  by (rule conjunct2[OF patch_keeps_crc_region]) (simp add: ref_from_bytes_def HEADER_LEN_def)

end
