(* ===== verification/Records.thy ===== *)
theory Records
  imports StringBytes BatchHeader
begin

text \<open>
  One record of a v2 batch: the owned codec of \<open>crates/protocol/src/records/owned.rs\<close> and the
  zero-copy parser of \<open>borrowed.rs\<close>. The messages inside \<open>RecordParse\<close> are the constructors of
  \<open>parse_error\<close>, one per format string of the source, with its arguments.

  The encoder collects the small fields in a fixed 53-byte array, and a write past its end would
  panic. That is \<open>None\<close> in the model of \<open>encode_body\<close>; the theory shows that it does not happen
  and that the encoder writes what a field-by-field encoder without the array writes.
\<close>

section \<open>Errors\<close>

datatype SliceLabel = LabelKey | LabelValue | LabelHeaderValue nat

datatype header_error =
    KeyLength ProtocolError
  | KeyNegativeLength i32
  | KeyTruncated nat
  | KeyUtf8 utf8_error
  | ValueLength ProtocolError
  | ValueTruncated nat

datatype RecordsError =
    HeaderTooShort nat
  | UnsupportedMagic i8
  | CrcMismatch u32 u32
  | BodyTooShort nat
  | RecordParse parse_error
  | Compression CompressionError
  | ZerocopyFailure
and parse_error =
    RecordBodyLengthOverflow
  | RecordKeyLengthOverflow
  | RecordValueLengthOverflow
  | RecordHeaderCountOverflow
  | HeaderKeyLengthOverflow
  | HeaderValueLengthOverflow
  | RecordPrefixOverflow
  | RecordLength ProtocolError
  | RecordLengthNegative i64
  | TrailingInsideRecord nat
  | RecordBodyEmpty
  | TimestampDelta ProtocolError
  | OffsetDelta ProtocolError
  | FieldLength SliceLabel ProtocolError
  | HeaderCount ProtocolError
  | NegativeHeaderCount i32
  | InHeader nat header_error
  | HeaderKeyLength nat ProtocolError
  | HeaderNegativeKeyLength nat
  | HeaderKeyUtf8 nat utf8_error
  | NegativeBatchLength
  | NegativeRecordsCount i32
  | InRecord nat RecordsError
  | TrailingAfterRecords nat
  | BodyLengthExceedsI32
  | RecordsCountExceedsI32
  | BatchBufferShort

section \<open>Data\<close>

record RecordHeader =
  rh_key :: bytes
  rh_value :: "bytes option"

record Record =
  rec_attributes :: i8
  rec_timestamp_delta :: i64
  rec_offset_delta :: i32
  rec_key :: "bytes option"
  rec_value :: "bytes option"
  rec_headers :: "RecordHeader list"

record RecordSummary =
  rs_attributes :: i8
  rs_timestamp_delta :: i64
  rs_offset_delta :: i32
  rs_key :: "bytes option"
  rs_value :: "bytes option"
  rs_header_count :: nat
  rs_body_len :: nat

section \<open>Sizes\<close>

definition i32_try_from_or_max :: "nat \<Rightarrow> i32" where
  "i32_try_from_or_max n = (case int_try_from n of None \<Rightarrow> i32_MAX | Some l \<Rightarrow> l)"

definition field_len :: "nat option \<Rightarrow> nat" where
  "field_len len =
     (case len of None \<Rightarrow> varint_len (- 1) | Some n \<Rightarrow> varint_len (i32_try_from_or_max n) + n)"

definition body_len_of ::
  "i64 \<Rightarrow> i32 \<Rightarrow> nat option \<Rightarrow> nat option \<Rightarrow> (nat \<times> nat option) list \<Rightarrow> nat" where
  "body_len_of timestamp_delta offset_delta key value headers =
     1 + varlong_len timestamp_delta + varint_len offset_delta + field_len key + field_len value
     + varint_len (i32_try_from_or_max (length headers))
     + (\<Sum>(k, v) \<leftarrow> headers. field_len (Some k) + field_len v)"

definition body_len :: "Record \<Rightarrow> nat" where
  "body_len r =
     body_len_of (rec_timestamp_delta r) (rec_offset_delta r)
       (map_option length (rec_key r)) (map_option length (rec_value r))
       (map (\<lambda>h. (length (rh_key h), map_option length (rh_value h))) (rec_headers r))"

definition i64_MAX :: i64 where
  "i64_MAX = 0x7FFFFFFFFFFFFFFF"

definition Record_encoded_len :: "Record \<Rightarrow> nat" where
  "Record_encoded_len r =
     (let body = body_len r
      in varlong_len (case int_try_from body of None \<Rightarrow> i64_MAX | Some l \<Rightarrow> l) + body)"

section \<open>Encoding\<close>

definition put_length :: "parse_error \<Rightarrow> nat \<Rightarrow> RecordsError writer" where
  "put_length e n buf =
     (case int_try_from n of None \<Rightarrow> Err (RecordParse e) | Some l \<Rightarrow> put_varint l buf)"

definition put_nullable :: "parse_error \<Rightarrow> bytes option \<Rightarrow> RecordsError writer" where
  "put_nullable e v =
     (case v of
        None \<Rightarrow> put_varint (- 1)
      | Some b \<Rightarrow> write_all [put_length e (length b), put_slice b])"

definition put_record_header :: "RecordHeader \<Rightarrow> RecordsError writer" where
  "put_record_header h =
     write_all
       [put_length HeaderKeyLengthOverflow (length (rh_key h)), put_slice (rh_key h),
        put_nullable HeaderValueLengthOverflow (rh_value h)]"

definition SMALL_KEY_LEN :: nat where
  "SMALL_KEY_LEN = 32"

definition PREFIX_LEN :: nat where
  "PREFIX_LEN = 21 + SMALL_KEY_LEN"

text \<open>A write into the fixed array, of which the bytes \<open>filled\<close> are written; \<open>None\<close> is the panic of \<open>BufMut\<close>.\<close>

definition put_fixed :: "RecordsError writer \<Rightarrow> bytes \<Rightarrow> bytes option" where
  "put_fixed w filled =
     (case w filled of
        Err _ \<Rightarrow> None
      | Ok out \<Rightarrow> if length out \<le> PREFIX_LEN then Some out else None)"

definition written_prefix :: "bytes \<Rightarrow> nat \<Rightarrow> (RecordsError, bytes) result" where
  "written_prefix arr unused =
     (if unused \<le> length arr then Ok (take (length arr - unused) arr)
      else Err (RecordParse RecordPrefixOverflow))"

text \<open>\<open>written_prefix(&prefix, fields.len())\<close>: the array after the writes, and what is left of it.\<close>

definition fields_written :: "bytes \<Rightarrow> (RecordsError, bytes) result" where
  "fields_written filled =
     written_prefix (filled @ replicate (PREFIX_LEN - length filled) 0) (PREFIX_LEN - length filled)"

definition encode_rest :: "Record \<Rightarrow> bytes \<Rightarrow> RecordsError writer" where
  "encode_rest r filled =
     write_all
       ([(\<lambda>buf. and_then (fields_written filled) (\<lambda>p. put_slice p buf)),
         (case rec_key r of
            None \<Rightarrow> put_slice []
          | Some key \<Rightarrow> if SMALL_KEY_LEN < length key then put_slice key else put_slice []),
         put_nullable RecordValueLengthOverflow (rec_value r),
         put_length RecordHeaderCountOverflow (length (rec_headers r))]
        @ map put_record_header (rec_headers r))"

definition encode_body :: "Record \<Rightarrow> bytes \<Rightarrow> (RecordsError, bytes) result option" where
  "encode_body r buf =
     Option.bind (put_fixed (put_i8 (rec_attributes r)) []) (\<lambda>f1.
     Option.bind (put_fixed (put_varlong (rec_timestamp_delta r)) f1) (\<lambda>f2.
     Option.bind (put_fixed (put_varint (rec_offset_delta r)) f2) (\<lambda>f3.
     case rec_key r of
       None \<Rightarrow>
         Option.bind (put_fixed (put_varint (- 1)) f3) (\<lambda>f4. Some (encode_rest r f4 buf))
     | Some key \<Rightarrow>
         (case int_try_from (length key) of
            None \<Rightarrow>
              Some (and_then (fields_written f3) (\<lambda>_. Err (RecordParse RecordKeyLengthOverflow)))
          | Some len \<Rightarrow>
              Option.bind (put_fixed (put_varint len) f3) (\<lambda>f4.
              Option.bind (if length key \<le> SMALL_KEY_LEN then put_fixed (put_slice key) f4 else Some f4)
                (\<lambda>f5. Some (encode_rest r f5 buf)))))))"

definition Record_encode :: "Record \<Rightarrow> bytes \<Rightarrow> (RecordsError, bytes) result option" where
  "Record_encode r buf =
     (case int_try_from (body_len r) of
        None \<Rightarrow> Some (Err (RecordParse RecordBodyLengthOverflow))
      | Some l \<Rightarrow>
          (case put_varlong l buf of Err e \<Rightarrow> Some (Err e) | Ok buf' \<Rightarrow> encode_body r buf'))"

section \<open>Decoding\<close>

definition map_read_err :: "('e \<Rightarrow> 'f) \<Rightarrow> ('e, 'a) reader \<Rightarrow> ('f, 'a) reader" where
  "map_read_err f r buf = map_err f (r buf)"

definition take_body :: "nat \<Rightarrow> (RecordsError, bytes) reader" where
  "take_body n buf =
     (if length buf < n then Err (BodyTooShort (n - length buf)) else Ok (take n buf, drop n buf))"

text \<open>A record body: the next \<open>n\<close> bytes, read to their end.\<close>

definition in_body :: "nat \<Rightarrow> (RecordsError, 'a) reader \<Rightarrow> (RecordsError, 'a) reader" where
  "in_body n r buf =
     (if length buf < n then Err (BodyTooShort (n - length buf))
      else and_then (r (take n buf)) (\<lambda>(x, left).
        if left \<noteq> [] then Err (RecordParse (TrailingInsideRecord (length left)))
        else Ok (x, drop n buf)))"

definition get_record_byte :: "(RecordsError, i8) reader" where
  "get_record_byte buf =
     (case buf of [] \<Rightarrow> Err (RecordParse RecordBodyEmpty) | b # rest \<Rightarrow> Ok (be_word [b], rest))"

subsection \<open>The zero-copy parser\<close>

definition read_nullable_slice :: "SliceLabel \<Rightarrow> (RecordsError, bytes option) reader" where
  "read_nullable_slice label =
     read_then (map_read_err (\<lambda>e. RecordParse (FieldLength label e)) get_varint) (\<lambda>len.
     case usize_try_from len of
       None \<Rightarrow> read_ok None
     | Some n \<Rightarrow> read_then (take_body n) (\<lambda>head. read_ok (Some head)))"

definition parse_header :: "nat \<Rightarrow> (RecordsError, RecordHeader) reader" where
  "parse_header i =
     read_then (map_read_err (\<lambda>e. RecordParse (HeaderKeyLength i e)) get_varint) (\<lambda>key_len.
     case usize_try_from key_len of
       None \<Rightarrow> read_err (RecordParse (HeaderNegativeKeyLength i))
     | Some n \<Rightarrow>
         read_then (take_body n) (\<lambda>key.
         case from_utf8 0 key of
           Err e \<Rightarrow> read_err (RecordParse (HeaderKeyUtf8 i e))
         | Ok _ \<Rightarrow>
             read_then (read_nullable_slice (LabelHeaderValue i)) (\<lambda>value.
             read_ok \<lparr>rh_key = key, rh_value = value\<rparr>)))"

text \<open>The header loop pushes into a \<open>HeaderSink\<close>, which is a state with its \<open>push\<close>.\<close>

fun parse_headers :: "(RecordHeader \<Rightarrow> 'h \<Rightarrow> 'h) \<Rightarrow> nat \<Rightarrow> nat \<Rightarrow> 'h \<Rightarrow> (RecordsError, 'h) reader" where
  "parse_headers push i 0 sink = read_ok sink"
| "parse_headers push i (Suc n) sink =
     read_then (parse_header i) (\<lambda>h. parse_headers push (Suc i) n (push h sink))"

definition parse_body ::
  "(RecordHeader \<Rightarrow> 'h \<Rightarrow> 'h) \<Rightarrow> nat \<Rightarrow> 'h \<Rightarrow> (RecordsError, RecordSummary \<times> 'h) reader" where
  "parse_body push declared sink =
     read_then get_record_byte (\<lambda>attributes.
     read_then (map_read_err (\<lambda>e. RecordParse (TimestampDelta e)) get_varlong) (\<lambda>timestamp_delta.
     read_then (map_read_err (\<lambda>e. RecordParse (OffsetDelta e)) get_varint) (\<lambda>offset_delta.
     read_then (read_nullable_slice LabelKey) (\<lambda>key.
     read_then (read_nullable_slice LabelValue) (\<lambda>value.
     read_then (map_read_err (\<lambda>e. RecordParse (HeaderCount e)) get_varint) (\<lambda>header_count.
     case usize_try_from header_count of
       None \<Rightarrow> read_err (RecordParse (NegativeHeaderCount header_count))
     | Some n \<Rightarrow>
         read_then (parse_headers push 0 n sink) (\<lambda>headers.
         read_ok (\<lparr>rs_attributes = attributes, rs_timestamp_delta = timestamp_delta,
                   rs_offset_delta = offset_delta, rs_key = key, rs_value = value,
                   rs_header_count = n, rs_body_len = declared\<rparr>, headers))))))))"

definition parse_one_record_into ::
  "(RecordHeader \<Rightarrow> 'h \<Rightarrow> 'h) \<Rightarrow> 'h \<Rightarrow> (RecordsError, RecordSummary \<times> 'h) reader" where
  "parse_one_record_into push sink =
     read_then (map_read_err (\<lambda>e. RecordParse (RecordLength e)) get_varlong) (\<lambda>body_len.
     case usize_try_from body_len of
       None \<Rightarrow> read_err (RecordParse (RecordLengthNegative body_len))
     | Some n \<Rightarrow> in_body n (parse_body push n sink))"

definition vec_push :: "RecordHeader \<Rightarrow> RecordHeader list \<Rightarrow> RecordHeader list" where
  "vec_push h hs = hs @ [h]"

definition SkipHeaders_push :: "RecordHeader \<Rightarrow> unit \<Rightarrow> unit" where
  "SkipHeaders_push h s = ()"

definition parse_one_record :: "(RecordsError, Record) reader" where
  "parse_one_record =
     read_then (parse_one_record_into vec_push []) (\<lambda>(s, headers).
     read_ok \<lparr>rec_attributes = rs_attributes s, rec_timestamp_delta = rs_timestamp_delta s,
              rec_offset_delta = rs_offset_delta s, rec_key = rs_key s, rec_value = rs_value s,
              rec_headers = headers\<rparr>)"

subsection \<open>The owned decoder\<close>

definition decode_nullable_bytes :: "SliceLabel \<Rightarrow> (RecordsError, bytes option) reader" where
  "decode_nullable_bytes label =
     read_then (map_read_err (\<lambda>e. RecordParse (FieldLength label e)) get_varint) (\<lambda>len.
     case usize_try_from len of
       None \<Rightarrow> read_ok None
     | Some n \<Rightarrow> read_then (take_body n) (\<lambda>v. read_ok (Some v)))"

definition header_take :: "(nat \<Rightarrow> header_error) \<Rightarrow> nat \<Rightarrow> (header_error, bytes) reader" where
  "header_take e n buf =
     (if length buf < n then Err (e (n - length buf)) else Ok (take n buf, drop n buf))"

definition decode_record_header :: "(header_error, RecordHeader) reader" where
  "decode_record_header =
     read_then (map_read_err KeyLength get_varint) (\<lambda>key_len.
     case usize_try_from key_len of
       None \<Rightarrow> read_err (KeyNegativeLength key_len)
     | Some n \<Rightarrow>
         read_then (header_take KeyTruncated n) (\<lambda>key.
         case from_utf8 0 key of
           Err e \<Rightarrow> read_err (KeyUtf8 e)
         | Ok _ \<Rightarrow>
             read_then (map_read_err ValueLength get_varint) (\<lambda>value_len.
             case usize_try_from value_len of
               None \<Rightarrow> read_ok \<lparr>rh_key = key, rh_value = None\<rparr>
             | Some m \<Rightarrow>
                 read_then (header_take ValueTruncated m) (\<lambda>v.
                 read_ok \<lparr>rh_key = key, rh_value = Some v\<rparr>))))"

fun decode_headers :: "nat \<Rightarrow> nat \<Rightarrow> RecordHeader list \<Rightarrow> (RecordsError, RecordHeader list) reader" where
  "decode_headers i 0 headers = read_ok headers"
| "decode_headers i (Suc n) headers =
     read_then (map_read_err (\<lambda>e. RecordParse (InHeader i e)) decode_record_header) (\<lambda>h.
     decode_headers (Suc i) n (headers @ [h]))"

definition decode_body :: "(RecordsError, Record) reader" where
  "decode_body =
     read_then get_record_byte (\<lambda>attributes.
     read_then (map_read_err (\<lambda>e. RecordParse (TimestampDelta e)) get_varlong) (\<lambda>timestamp_delta.
     read_then (map_read_err (\<lambda>e. RecordParse (OffsetDelta e)) get_varint) (\<lambda>offset_delta.
     read_then (decode_nullable_bytes LabelKey) (\<lambda>key.
     read_then (decode_nullable_bytes LabelValue) (\<lambda>value.
     read_then (map_read_err (\<lambda>e. RecordParse (HeaderCount e)) get_varint) (\<lambda>header_count.
     case usize_try_from header_count of
       None \<Rightarrow> read_err (RecordParse (NegativeHeaderCount header_count))
     | Some n \<Rightarrow>
         read_then (decode_headers 0 n []) (\<lambda>headers.
         read_ok \<lparr>rec_attributes = attributes, rec_timestamp_delta = timestamp_delta,
                  rec_offset_delta = offset_delta, rec_key = key, rec_value = value,
                  rec_headers = headers\<rparr>)))))))"

definition Record_decode :: "(RecordsError, Record) reader" where
  "Record_decode =
     read_then (map_read_err (\<lambda>e. RecordParse (RecordLength e)) get_varlong) (\<lambda>body_len.
     case usize_try_from body_len of
       None \<Rightarrow> read_err (RecordParse (RecordLengthNegative body_len))
     | Some n \<Rightarrow> in_body n decode_body)"

section \<open>The encoder without the array\<close>

definition reference_body :: "Record \<Rightarrow> RecordsError writer" where
  "reference_body r =
     write_all
       ([put_i8 (rec_attributes r),
         put_varlong (rec_timestamp_delta r),
         put_varint (rec_offset_delta r),
         put_nullable RecordKeyLengthOverflow (rec_key r),
         put_nullable RecordValueLengthOverflow (rec_value r),
         put_length RecordHeaderCountOverflow (length (rec_headers r))]
        @ map put_record_header (rec_headers r))"

lemma put_i8_eq: "put_i8 v buf = Ok (buf @ be_bytes 1 v)"
  by (simp add: put_i8_def put_slice_def)

lemma put_varint_eq: "put_varint v buf = Ok (buf @ uv_bytes (zigzag v))"
  by (simp add: put_varint_def put_uvarint_eq)

lemma put_varlong_eq: "put_varlong v buf = Ok (buf @ uv_bytes (zigzag v))"
  by (simp add: put_varlong_def put_uvarlong_def put_uv_loop_eq)

lemma length_varint: "length (uv_bytes (w :: u32)) \<le> 5"
  using uvarint_len_max[of w] by (simp add: uvarint_len_eq MAX_VARINT_BYTES_def)

lemma length_varlong: "length (uv_bytes (w :: u64)) \<le> 10"
  using uvarlong_len_max[of w] by (simp add: uvarlong_len_eq MAX_VARLONG_BYTES_def)

lemma fields_written_Ok: "length f \<le> PREFIX_LEN \<Longrightarrow> fields_written f = Ok f"
  by (simp add: fields_written_def written_prefix_def)

lemma encode_rest_eq:
  assumes "length f \<le> PREFIX_LEN"
  shows "encode_rest r f buf =
    write_all (put_nullable RecordValueLengthOverflow (rec_value r)
      # put_length RecordHeaderCountOverflow (length (rec_headers r))
      # map put_record_header (rec_headers r))
      (buf @ f @ (case rec_key r of None \<Rightarrow> []
                  | Some key \<Rightarrow> if SMALL_KEY_LEN < length key then key else []))"
  using assms by (simp add: encode_rest_def fields_written_Ok put_slice_def split: option.split)

lemma encode_body_reference: "encode_body r buf = Some (reference_body r buf)"
proof -
  let ?a = "be_bytes 1 (rec_attributes r)" and ?t = "uv_bytes (zigzag (rec_timestamp_delta r))"
    and ?o = "uv_bytes (zigzag (rec_offset_delta r))"
  let ?tail = "write_all (put_nullable RecordValueLengthOverflow (rec_value r)
      # put_length RecordHeaderCountOverflow (length (rec_headers r))
      # map put_record_header (rec_headers r))"
  note bounds = length_varlong[of "zigzag (rec_timestamp_delta r)"]
    length_varint[of "zigzag (rec_offset_delta r)"]
  have f3: "length (?a @ ?t @ ?o) \<le> 16"
    using bounds by simp
  have puts: "put_fixed (put_i8 (rec_attributes r)) [] = Some ?a"
    "put_fixed (put_varlong (rec_timestamp_delta r)) ?a = Some (?a @ ?t)"
    "put_fixed (put_varint (rec_offset_delta r)) (?a @ ?t) = Some (?a @ ?t @ ?o)"
    using bounds
    by (simp_all add: put_fixed_def put_i8_eq put_varint_eq put_varlong_eq PREFIX_LEN_def)
  have len: "put_fixed (put_varint n) (?a @ ?t @ ?o) = Some (?a @ ?t @ ?o @ uv_bytes (zigzag n))"
    "length (?a @ ?t @ ?o @ uv_bytes (zigzag n)) \<le> 21" for n
    using f3 length_varint[of "zigzag n"] by (simp_all add: put_fixed_def put_varint_eq PREFIX_LEN_def)
  show ?thesis
  proof (cases "rec_key r")
    case None
    have "length (?a @ ?t @ ?o @ uv_bytes (zigzag (- 1 :: i32))) \<le> PREFIX_LEN"
      using len(2)[of "- 1"] by (simp add: PREFIX_LEN_def)
    then show ?thesis
      using None puts len(1)[of "- 1"]
      by (simp add: encode_body_def encode_rest_eq reference_body_def put_i8_eq put_varint_eq
          put_varlong_eq put_nullable_def)
  next
    case (Some key)
    show ?thesis
    proof (cases "int_try_from (length key) :: i32 option")
      case None
      have "fields_written (?a @ ?t @ ?o) = Ok (?a @ ?t @ ?o)"
        using f3 by (intro fields_written_Ok) (simp add: PREFIX_LEN_def)
      then show ?thesis
        using None Some puts
        by (simp add: encode_body_def reference_body_def put_i8_eq put_varint_eq put_varlong_eq
            put_nullable_def put_length_def)
    next
      case (Some l)
      let ?f4 = "?a @ ?t @ ?o @ uv_bytes (zigzag l)"
      have small: "put_fixed (put_slice key) ?f4 = Some (?f4 @ key)" "length (?f4 @ key) \<le> PREFIX_LEN"
        if "length key \<le> SMALL_KEY_LEN"
        using len(2)[of l] that by (simp_all add: put_fixed_def put_slice_def PREFIX_LEN_def)
      have "length ?f4 \<le> PREFIX_LEN"
        using len(2)[of l] by (simp add: PREFIX_LEN_def)
      then show ?thesis
        using Some \<open>rec_key r = Some key\<close> puts len(1)[of l] small
        by (simp add: encode_body_def encode_rest_eq reference_body_def put_i8_eq put_varint_eq
            put_varlong_eq put_nullable_def put_length_def put_slice_def)
    qed
  qed
qed

section \<open>What the parser reads back\<close>

definition header_wf :: "RecordHeader \<Rightarrow> bool" where
  "header_wf h \<longleftrightarrow> utf8 (rh_key h) \<and> length (rh_key h) < 2 ^ 31 \<and> pred_option bytes_wf (rh_value h)"

definition record_wf :: "Record \<Rightarrow> bool" where
  "record_wf r \<longleftrightarrow> pred_option bytes_wf (rec_key r) \<and> pred_option bytes_wf (rec_value r)
     \<and> length (rec_headers r) < 2 ^ 31 \<and> list_all header_wf (rec_headers r) \<and> body_len r < 2 ^ 63"

lemma carries_then_ok:
  "carries w r n x \<Longrightarrow> f x = read_ok y \<Longrightarrow> carries w (read_then r f) n y"
  by (auto simp: carries_def reads_def read_then_def read_ok_def)

lemma carries_err:
  assumes "produces w bs" and "reads r bs x" and "length bs = n"
  shows "carries w (map_read_err f r) n x"
  using assms by (auto simp: carries_def reads_def map_read_err_def)

lemma varint_field [carries_rules]: "carries (put_varint v) (map_read_err f get_varint) (varint_len v) v"
  by (rule carries_err[of _ "uv_bytes (zigzag v)"])
    (simp_all add: produces_def put_varint_eq reads_def get_varint_def read_then_def read_ok_def
      varint_len_def uvarint_len_eq)

lemma get_uvarlong_uv_bytes: "get_uvarlong (uv_bytes v @ rest) = Ok (v, rest)"
  unfolding get_uvarlong_def
  using get_put_uv_loop[of v MAX_VARLONG_BYTES MAX_VARLONG_BYTES 0 0 rest] uvarlong_len_max[of v]
  by (simp add: uvarlong_len_eq)

lemma varlong_field [carries_rules]: "carries (put_varlong v) (map_read_err f get_varlong) (varlong_len v) v"
  by (rule carries_err[of _ "uv_bytes (zigzag v)"])
    (simp_all add: produces_def put_varlong_eq reads_def get_varlong_def read_then_def read_ok_def
      varlong_len_def uvarlong_len_eq get_uvarlong_uv_bytes)

lemma i32_try_from_or_max_small: "n < 2 ^ 31 \<Longrightarrow> i32_try_from_or_max n = of_nat n"
  by (simp add: i32_try_from_or_max_def int_try_from_def)

lemma length_field:
  assumes "n < 2 ^ 31"
  shows "carries (put_length e n) (map_read_err f get_varint) (varint_len (i32_try_from_or_max n)) (of_nat n)"
proof -
  have "put_length e n = put_varint (of_nat n)"
    using assms by (intro ext) (simp add: put_length_def int_try_from_def)
  then show ?thesis
    using varint_field[of "of_nat n" f] assms by (simp add: i32_try_from_or_max_small)
qed

lemma usize_of_nat_i32: "n < 2 ^ 31 \<Longrightarrow> usize_try_from (of_nat n :: i32) = Some n"
  by simp

lemma usize_minus_1: "usize_try_from (- 1 :: i32) = None"
  by (simp add: usize_try_from_def)

lemma slice_field: "carries (put_slice b) (take_body (length b)) (length b) b"
  by (rule carriesI[of _ b]) (simp_all add: produces_def put_slice_def reads_def take_body_def)

lemma carries_single: "carries w r n x \<Longrightarrow> carries (write_all [w]) r n x"
  by (auto simp: carries_def produces_def)

lemma nullable_field [carries_rules]:
  assumes "pred_option bytes_wf v"
  shows "carries (put_nullable e v) (read_nullable_slice l) (field_len (map_option length v)) v"
proof (cases v)
  case None
  show ?thesis
    unfolding read_nullable_slice_def put_nullable_def None field_len_def option.case option.map
    by (rule carries_then_ok[OF varint_field]) (simp add: usize_minus_1)
next
  case (Some b)
  then have n: "length b < 2 ^ 31"
    using assms by (simp add: bytes_wf_def)
  show ?thesis
    unfolding read_nullable_slice_def put_nullable_def Some field_len_def option.case option.map
    by (rule carries_step[OF length_field[OF n]])
      (simp only: usize_of_nat_i32[OF n] option.case carries_then_ok[OF carries_single[OF slice_field]])
qed

lemma header_field:
  assumes "header_wf h"
  shows "carries (put_record_header h) (parse_header i)
    (field_len (Some (length (rh_key h))) + field_len (map_option length (rh_value h))) h"
proof -
  have n: "length (rh_key h) < 2 ^ 31" and u: "from_utf8 0 (rh_key h) = Ok ()"
    and v: "pred_option bytes_wf (rh_value h)"
    using assms by (simp_all add: header_wf_def utf8_def)
  have "carries (put_record_header h) (parse_header i)
    (varint_len (i32_try_from_or_max (length (rh_key h))) + (length (rh_key h)
      + field_len (map_option length (rh_value h)))) h"
    unfolding put_record_header_def parse_header_def
  proof (rule carries_step[OF length_field[OF n]], unfold usize_of_nat_i32[OF n] option.case,
      rule carries_step[OF slice_field], unfold u sum.case)
    show "carries (write_all [put_nullable HeaderValueLengthOverflow (rh_value h)])
      (read_then (read_nullable_slice (LabelHeaderValue i))
        (\<lambda>value. read_ok \<lparr>rh_key = rh_key h, rh_value = value\<rparr>))
      (field_len (map_option length (rh_value h))) h"
      by (rule carries_then_ok[OF carries_single[OF nullable_field[OF v]]], rule arg_cong[of _ _ read_ok])
        simp
  qed
  then show ?thesis
    by (simp add: field_len_def add.assoc)
qed

lemma headers_field:
  assumes "list_all header_wf hs"
  shows "carries (write_all (map put_record_header hs)) (parse_headers push i (length hs) sink)
    (\<Sum>h \<leftarrow> hs. field_len (Some (length (rh_key h))) + field_len (map_option length (rh_value h)))
    (fold push hs sink)"
  using assms
proof (induction hs arbitrary: i sink)
  case Nil
  then show ?case by (simp add: carries_done del: write_all.simps)
next
  case (Cons h hs)
  then show ?case
    by (simp add: carries_step[OF header_field] del: write_all.simps)
qed

definition summary_of :: "Record \<Rightarrow> nat \<Rightarrow> RecordSummary" where
  "summary_of r n =
     \<lparr>rs_attributes = rec_attributes r, rs_timestamp_delta = rec_timestamp_delta r,
      rs_offset_delta = rec_offset_delta r, rs_key = rec_key r, rs_value = rec_value r,
      rs_header_count = length (rec_headers r), rs_body_len = n\<rparr>"

lemma byte_field: "carries (put_i8 v) get_record_byte 1 v"
proof (rule carriesI[of _ "be_bytes 1 v"])
  have "be_bytes 1 v = [v]"
    by simp
  then show "reads get_record_byte (be_bytes 1 v) v"
    by (simp add: reads_def get_record_byte_def be_word_def)
qed (simp_all add: produces_def put_i8_eq)

lemma body_field:
  assumes "record_wf r"
  shows "carries (reference_body r) (parse_body push n sink) (body_len r)
    (summary_of r n, fold push (rec_headers r) sink)"
proof -
  have c: "length (rec_headers r) < 2 ^ 31" and hs: "list_all header_wf (rec_headers r)"
    and kv: "pred_option bytes_wf (rec_key r)" "pred_option bytes_wf (rec_value r)"
    using assms by (simp_all add: record_wf_def)
  have "body_len r = 1 + (varlong_len (rec_timestamp_delta r) + (varint_len (rec_offset_delta r)
    + (field_len (map_option length (rec_key r)) + (field_len (map_option length (rec_value r))
    + (varint_len (i32_try_from_or_max (length (rec_headers r)))
    + (\<Sum>h \<leftarrow> rec_headers r. field_len (Some (length (rh_key h))) + field_len (map_option length (rh_value h))))))))"
    by (simp add: body_len_def body_len_of_def comp_def)
  then show ?thesis
    unfolding reference_body_def parse_body_def append.simps
    by (simp only:) (rule carries_step[OF byte_field] carries_step[OF varlong_field]
        carries_step[OF varint_field] carries_step[OF nullable_field[OF kv(1)]]
        carries_step[OF nullable_field[OF kv(2)]] carries_step[OF length_field[OF c]]
        carries_then_ok[OF headers_field[OF hs]]
      | simp only: usize_of_nat_i32[OF c] option.case summary_of_def)+
qed

lemma carries_in_body: "carries w r n x \<Longrightarrow> carries w (in_body n r) n x"
  unfolding carries_def
proof (elim exE conjE)
  fix bs
  assume w: "produces w bs" and r: "reads r bs x" and n: "length bs = n"
  have "r bs = Ok (x, [])"
    using readsD[OF r, of "[]"] by simp
  then have "reads (in_body n r) bs x"
    using n by (simp add: reads_def in_body_def)
  with w n show "\<exists>bs. produces w bs \<and> reads (in_body n r) bs x \<and> length bs = n"
    by blast
qed

definition record_writer :: "Record \<Rightarrow> RecordsError writer" where
  "record_writer r = write_all [put_varlong (of_nat (body_len r)), reference_body r]"

lemma Record_encode_writer:
  assumes "body_len r < 2 ^ 63"
  shows "Record_encode r buf = Some (record_writer r buf)"
  using assms
  by (auto simp: Record_encode_def int_try_from_def encode_body_reference record_writer_def put_varlong_eq
      and_then_def split: sum.splits)

lemma record_into_field:
  assumes "record_wf r"
  shows "carries (record_writer r) (parse_one_record_into push sink) (Record_encoded_len r)
    (summary_of r (body_len r), fold push (rec_headers r) sink)"
proof -
  have n: "body_len r < 2 ^ (LENGTH(64) - 1)"
    using assms by (simp add: record_wf_def)
  have u: "usize_try_from (of_nat (body_len r) :: i64) = Some (body_len r)"
    using n by (rule usize_try_from_of_nat)
  have "Record_encoded_len r = varlong_len (of_nat (body_len r)) + body_len r"
    using n by (simp add: Record_encoded_len_def int_try_from_def Let_def)
  then show ?thesis
    unfolding record_writer_def parse_one_record_into_def
    by (simp only:) (rule carries_step[OF varlong_field],
        simp only: u option.case carries_single[OF carries_in_body[OF body_field[OF assms]]])
qed

lemma fold_vec_push: "fold vec_push hs acc = acc @ hs"
  by (induction hs arbitrary: acc) (simp_all add: vec_push_def)

lemma record_field:
  assumes "record_wf r"
  shows "carries (record_writer r) parse_one_record (Record_encoded_len r) r"
  unfolding parse_one_record_def
  by (rule carries_then_ok[OF record_into_field[OF assms]], unfold prod.case, rule arg_cong[of _ _ read_ok])
    (simp add: summary_of_def fold_vec_push)

section \<open>Two readers that accept the same input\<close>

definition same_ok :: "('e, 'a) reader \<Rightarrow> ('f, 'a) reader \<Rightarrow> bool" where
  "same_ok r s \<longleftrightarrow> (\<forall>buf x. r buf = Ok x \<longleftrightarrow> s buf = Ok x)"

lemma same_okD: "same_ok r s \<Longrightarrow> r buf = Ok x \<longleftrightarrow> s buf = Ok x"
  unfolding same_ok_def by blast

named_theorems same_ok_rules

lemma same_ok_refl [same_ok_rules]: "same_ok r r"
  by (simp add: same_ok_def)

lemma same_ok_ok [same_ok_rules]: "same_ok (read_ok x) (read_ok x)"
  by (simp add: same_ok_def read_ok_def)

lemma same_ok_err [same_ok_rules]: "same_ok (read_err e) (read_err f)"
  by (simp add: same_ok_def read_err_def)

lemma same_ok_map_err [same_ok_rules]: "same_ok r s \<Longrightarrow> same_ok (map_read_err f r) (map_read_err g s)"
  by (simp add: same_ok_def map_read_err_def)

lemma same_ok_map_err_left: "same_ok r s \<Longrightarrow> same_ok (map_read_err f r) s"
  by (simp add: same_ok_def map_read_err_def)

lemma same_ok_then [same_ok_rules]:
  "same_ok r s \<Longrightarrow> (\<And>x. same_ok (f x) (g x)) \<Longrightarrow> same_ok (read_then r f) (read_then s g)"
  unfolding same_ok_def read_then_def and_then_eq_Ok by fastforce

lemma same_ok_option [same_ok_rules]:
  "same_ok a b \<Longrightarrow> (\<And>x. same_ok (f x) (g x)) \<Longrightarrow>
   same_ok (case m of None \<Rightarrow> a | Some x \<Rightarrow> f x) (case m of None \<Rightarrow> b | Some x \<Rightarrow> g x)"
  by (cases m) simp_all

lemma same_ok_result [same_ok_rules]:
  "(\<And>e. same_ok (f e) (f' e)) \<Longrightarrow> (\<And>x. same_ok (g x) (g' x)) \<Longrightarrow>
   same_ok (case m of Err e \<Rightarrow> f e | Ok x \<Rightarrow> g x) (case m of Err e \<Rightarrow> f' e | Ok x \<Rightarrow> g' x)"
  by (cases m) simp_all

lemma same_ok_in_body [same_ok_rules]: "same_ok r s \<Longrightarrow> same_ok (in_body n r) (in_body n s)"
  unfolding same_ok_def in_body_def by (auto simp: and_then_eq_Ok)

lemma same_ok_take [same_ok_rules]: "same_ok (header_take e n) (take_body n)"
  by (auto simp: same_ok_def header_take_def take_body_def)

lemma decode_header_same: "same_ok decode_record_header (parse_header i)"
proof -
  have "same_ok
    (read_then (map_read_err ValueLength get_varint) (\<lambda>value_len.
      case usize_try_from value_len of
        None \<Rightarrow> read_ok \<lparr>rh_key = key, rh_value = None\<rparr>
      | Some m \<Rightarrow> read_then (header_take ValueTruncated m) (\<lambda>v. read_ok \<lparr>rh_key = key, rh_value = Some v\<rparr>)))
    (read_then (read_nullable_slice (LabelHeaderValue i)) (\<lambda>value. read_ok \<lparr>rh_key = key, rh_value = value\<rparr>))"
    for key
    unfolding read_nullable_slice_def read_then_assoc read_then_case_option read_then_ok
    by (intro same_ok_rules)
  then show ?thesis
    unfolding decode_record_header_def parse_header_def by (intro same_ok_rules)
qed

lemma decode_headers_same: "same_ok (decode_headers i n hs) (parse_headers vec_push i n hs)"
proof (induction n arbitrary: i hs)
  case (Suc n)
  then show ?case
    unfolding decode_headers.simps parse_headers.simps vec_push_def
    by (intro same_ok_rules same_ok_map_err_left decode_header_same)
qed (simp add: same_ok_ok)

lemma decode_nullable_same: "decode_nullable_bytes = read_nullable_slice"
  by (intro ext) (simp add: decode_nullable_bytes_def read_nullable_slice_def)

lemma read_then_in_body:
  "read_then (in_body n r) (\<lambda>x. read_ok (g x)) = in_body n (read_then r (\<lambda>x. read_ok (g x)))"
  by (auto simp: fun_eq_iff read_then_def in_body_def read_ok_def and_then_def split: sum.splits)

lemma Record_decode_same: "same_ok Record_decode parse_one_record"
proof -
  let ?mk = "\<lambda>(s, headers).
     read_ok \<lparr>rec_attributes = rs_attributes s, rec_timestamp_delta = rs_timestamp_delta s,
              rec_offset_delta = rs_offset_delta s, rec_key = rs_key s, rec_value = rs_value s,
              rec_headers = headers\<rparr>"
  have body: "same_ok decode_body (read_then (parse_body vec_push n []) ?mk)" for n
    unfolding decode_body_def parse_body_def read_then_assoc read_then_case_option read_then_ok
      decode_nullable_same prod.case read_then_err
    by (intro same_ok_rules decode_headers_same) (simp add: same_ok_ok)
  have rec: "?mk = (\<lambda>x. read_ok (case x of (s, headers) \<Rightarrow>
      \<lparr>rec_attributes = rs_attributes s, rec_timestamp_delta = rs_timestamp_delta s,
       rec_offset_delta = rs_offset_delta s, rec_key = rs_key s, rec_value = rs_value s,
       rec_headers = headers\<rparr>))"
    by (simp add: fun_eq_iff)
  have inside: "read_then (in_body n r) ?mk = in_body n (read_then r ?mk)" for n r
    unfolding rec by (rule read_then_in_body)
  show ?thesis
    unfolding Record_decode_def parse_one_record_def parse_one_record_into_def
      read_then_assoc read_then_case_option read_then_err inside
    by (intro same_ok_rules body)
qed

text \<open>A walk that keeps no headers accepts the same records and reports the same summaries.\<close>

lemma fold_push_snoc: "fold push (vec_push h acc) s = push h (fold push acc s)"
  by (simp add: vec_push_def)

lemma parse_headers_fold:
  "parse_headers push i n (fold push acc s) =
     read_then (parse_headers vec_push i n acc) (\<lambda>hs. read_ok (fold push hs s))"
proof (induction n arbitrary: i acc)
  case (Suc n)
  have "parse_headers push (Suc i) n (push h (fold push acc s)) =
    read_then (parse_headers vec_push (Suc i) n (vec_push h acc)) (\<lambda>hs. read_ok (fold push hs s))" for h
    using Suc.IH[of "Suc i" "vec_push h acc"] by (simp add: fold_push_snoc)
  then show ?case
    by (simp add: read_then_assoc)
qed simp

lemma parse_body_fold:
  "parse_body push n s =
     read_then (parse_body vec_push n []) (\<lambda>x. read_ok (fst x, fold push (snd x) s))"
  unfolding parse_body_def read_then_assoc read_then_case_option read_then_ok read_then_err
    parse_headers_fold[of push 0 _ "[]" s, simplified] fst_conv snd_conv
  by (rule refl)

lemma parse_one_record_into_fold:
  "parse_one_record_into push s =
     read_then (parse_one_record_into vec_push []) (\<lambda>x. read_ok (fst x, fold push (snd x) s))"
  unfolding parse_one_record_into_def read_then_assoc read_then_case_option read_then_err
    read_then_in_body parse_body_fold[of push _ s]
  by (rule refl)

section \<open>A sample record\<close>

definition sample_record :: Record where
  "sample_record =
     \<lparr>rec_attributes = 0, rec_timestamp_delta = - 5, rec_offset_delta = 2, rec_key = Some [1, 2],
      rec_value = None, rec_headers = [\<lparr>rh_key = [0x61], rh_value = Some [9]\<rparr>]\<rparr>"

lemma sample_record_wf: "record_wf sample_record" "Record_encoded_len sample_record \<le> 60"
proof -
  have bound: "varlong_len v \<le> 10" "varint_len w \<le> 5" for v w
    using uvarlong_len_max[of "zigzag v"] uvarint_len_max[of "zigzag w"]
    by (simp_all add: varlong_len_def varint_len_def MAX_VARLONG_BYTES_def MAX_VARINT_BYTES_def)
  have "body_len_of t d (Some 2) None [(1, Some 1)] \<le> 50" for t d
    unfolding body_len_of_def field_len_def
    using bound(1)[of t] bound(2)[of d] bound(2)[of "- 1"] bound(2)[of "i32_try_from_or_max 2"]
      bound(2)[of "i32_try_from_or_max 1"] bound(2)[of "i32_try_from_or_max (Suc 0)"]
    by simp
  then have len: "body_len sample_record \<le> 50"
    by (simp add: body_len_def sample_record_def numeral_2_eq_2)
  then show "record_wf sample_record"
    by (simp add: record_wf_def)
      (simp add: header_wf_def sample_record_def bytes_wf_def utf8_def from_utf8.simps utf8_width_def)
  have "varlong_len (case int_try_from (body_len sample_record) of None \<Rightarrow> i64_MAX | Some l \<Rightarrow> l) \<le> 10"
    by (rule bound(1))
  with len show "Record_encoded_len sample_record \<le> 60"
    unfolding Record_encoded_len_def Let_def by linarith
qed

section \<open>Properties\<close>

text \<open>
  The record encoder with its fixed 53-byte array never writes past the array, and writes
  exactly what the field-by-field encoder writes, errors included.
\<close>

theorem record_encoder_equals_reference:
  "encode_body r buf = Some (reference_body r buf)"
  by (rule encode_body_reference)

text \<open>
  C26: a record whose fields fit their length prefixes is written in exactly the predicted number
  of bytes, and both the owned decoder and the zero-copy parser read it back.
\<close>

theorem record_round_trip:
  assumes "record_wf r"
  shows "\<exists>bs. Record_encode r buf = Some (Ok (buf @ bs)) \<and> length bs = Record_encoded_len r
    \<and> parse_one_record (bs @ rest) = Ok (r, rest) \<and> Record_decode (bs @ rest) = Ok (r, rest)"
proof -
  obtain bs where bs: "produces (record_writer r) bs" "reads parse_one_record bs r"
    "length bs = Record_encoded_len r"
    using record_field[OF assms] by (rule carriesE)
  have "Record_encode r buf = Some (Ok (buf @ bs))"
    using assms by (simp add: Record_encode_writer record_wf_def producesD[OF bs(1)])
  then show ?thesis
    using bs(3) readsD[OF bs(2)] same_okD[OF Record_decode_same] by blast
qed

theorem record_round_trip_witness:
  "\<exists>bs. Record_encode sample_record [7] = Some (Ok ([7] @ bs))
    \<and> length bs = Record_encoded_len sample_record
    \<and> parse_one_record (bs @ []) = Ok (sample_record, [])
    \<and> Record_decode (bs @ []) = Ok (sample_record, [])"
  by (rule record_round_trip[OF sample_record_wf(1)])

text \<open>
  The owned decoder and the zero-copy parser accept exactly the same byte strings, with the
  same record and the same remaining input.
\<close>

theorem record_decoders_agree:
  "Record_decode buf = Ok (r, rest) \<longleftrightarrow> parse_one_record buf = Ok (r, rest)"
  using Record_decode_same by (rule same_okD)

text \<open>
  The validating walk that keeps no headers returns, on every input, what the collecting
  parser returns with the headers dropped: the same summary and remaining input, or the same
  error.
\<close>

theorem skipping_headers_changes_nothing:
  "parse_one_record_into SkipHeaders_push () buf =
     and_then (parse_one_record_into vec_push [] buf) (\<lambda>((summary, headers), rest). Ok ((summary, ()), rest))"
  unfolding parse_one_record_into_fold[of SkipHeaders_push "()"]
  by (auto simp: read_then_def read_ok_def and_then_def split: sum.splits)

end
