(* ===== verification/RecordBatch.thy ===== *)
theory RecordBatch
  imports Records
begin

text \<open>
  Whole v2 record batches: the owned codec of \<open>crates/protocol/src/records/owned.rs\<close> and, from
  \<open>borrowed.rs\<close>, the zero-copy decoder, the validation of the produce path and the record counter.

  The checksum functions of \<open>crc.rs\<close> wrap the third-party crate \<open>crc-fast\<close>; they are fields of
  \<open>libs\<close>, beside the compression libraries. The decompression policy enters through its output
  limit, a function of the compressed length. A buffer that is not contiguous is the list of its
  chunks. A panic is \<open>None\<close>.
\<close>

record libs = codec_libs +
  crc32c :: "bytes \<Rightarrow> u32"
  crc32c_append :: "u32 \<Rightarrow> bytes \<Rightarrow> u32"

section \<open>Owned batches\<close>

record RecordBatch =
  rb_base_offset :: i64
  rb_partition_leader_epoch :: i32
  rb_attributes :: Attributes
  rb_last_offset_delta :: i32
  rb_base_timestamp :: i64
  rb_max_timestamp :: i64
  rb_producer_id :: i64
  rb_producer_epoch :: i16
  rb_base_sequence :: i32
  rb_records :: "Record list"

definition RecordBatch_default :: RecordBatch where
  "RecordBatch_default =
     \<lparr>rb_base_offset = 0, rb_partition_leader_epoch = 0, rb_attributes = 0, rb_last_offset_delta = 0,
      rb_base_timestamp = 0, rb_max_timestamp = 0, rb_producer_id = - 1, rb_producer_epoch = - 1,
      rb_base_sequence = - 1, rb_records = []\<rparr>"

definition delete_horizon_ms :: "RecordBatch \<Rightarrow> i64 option" where
  "delete_horizon_ms b =
     (if has_delete_horizon (rb_attributes b) then Some (rb_base_timestamp b) else None)"

definition saturate_i64 :: "int \<Rightarrow> i64" where
  "saturate_i64 n = word_of_int (max (- (2 ^ 63)) (min (2 ^ 63 - 1) n))"

definition saturating_add :: "i64 \<Rightarrow> i64 \<Rightarrow> i64" where
  "saturating_add a b = saturate_i64 (sint a + sint b)"

definition saturating_sub :: "i64 \<Rightarrow> i64 \<Rightarrow> i64" where
  "saturating_sub a b = saturate_i64 (sint a - sint b)"

definition with_delete_horizon :: "RecordBatch \<Rightarrow> i64 \<Rightarrow> RecordBatch" where
  "with_delete_horizon b horizon_ms =
     b\<lparr>rb_records :=
          map (\<lambda>r. r\<lparr>rec_timestamp_delta :=
                 saturating_sub (saturating_add (rb_base_timestamp b) (rec_timestamp_delta r)) horizon_ms\<rparr>)
            (rb_records b),
        rb_base_timestamp := horizon_ms,
        rb_attributes := with_delete_horizon_attr True (rb_attributes b)\<rparr>"

subsection \<open>Lengths and checksums\<close>

definition HEADER_TAIL_LEN :: i32 where
  "HEADER_TAIL_LEN = 49"

definition checked_sub :: "i32 \<Rightarrow> i32 \<Rightarrow> i32 option" where
  "checked_sub a b = (if - (2 ^ 31) \<le> sint a - sint b \<and> sint a - sint b < 2 ^ 31 then Some (a - b) else None)"

definition checked_add :: "i32 \<Rightarrow> i32 \<Rightarrow> i32 option" where
  "checked_add a b = (if - (2 ^ 31) \<le> sint a + sint b \<and> sint a + sint b < 2 ^ 31 then Some (a + b) else None)"

definition declared_body_len :: "i32 \<Rightarrow> nat option" where
  "declared_body_len batch_length =
     Option.bind (checked_sub batch_length HEADER_TAIL_LEN) usize_try_from"

definition batch_length_for :: "nat \<Rightarrow> (RecordsError, i32) result" where
  "batch_length_for n =
     (case Option.bind (int_try_from n) (checked_add HEADER_TAIL_LEN) of
        None \<Rightarrow> Err (RecordParse BodyLengthExceedsI32)
      | Some l \<Rightarrow> Ok l)"

text \<open>\<open>slice.get(a..b)\<close>.\<close>

definition get_range :: "nat \<Rightarrow> nat \<Rightarrow> bytes \<Rightarrow> bytes option" where
  "get_range a b bs = (if a \<le> b \<and> b \<le> length bs then Some (slice_at a b bs) else None)"

definition contiguous_covered_crc :: "libs \<Rightarrow> bytes \<Rightarrow> u32 option" where
  "contiguous_covered_crc L chunk =
     Option.bind (get_range 0 HEADER_LEN chunk) (\<lambda>head.
     Option.bind (ref_from_bytes head) (\<lambda>hdr.
     if hdr_magic hdr \<noteq> 2 then None
     else Option.bind (declared_body_len (hdr_batch_length hdr)) (\<lambda>blen.
          if usize_max < HEADER_LEN + blen then None
          else map_option (crc32c L) (get_range CRC_COVERAGE_START (HEADER_LEN + blen) chunk))))"

subsection \<open>Encoding\<close>

type_synonym 'a run = "(RecordsError, 'a) result option"

definition run_then :: "'a run \<Rightarrow> ('a \<Rightarrow> 'b run) \<Rightarrow> 'b run" where
  "run_then m f = (case m of None \<Rightarrow> None | Some (Err e) \<Rightarrow> Some (Err e) | Some (Ok x) \<Rightarrow> f x)"

text \<open>Writes at the start of a slice \<open>dst\<close>; a write past its end panics.\<close>

definition put_into :: "bytes \<Rightarrow> RecordsError writer \<Rightarrow> bytes run" where
  "put_into dst w =
     (case w [] of
        Err e \<Rightarrow> Some (Err e)
      | Ok out \<Rightarrow> if length out \<le> length dst then Some (Ok (out @ drop (length out) dst)) else None)"

definition put_records_count :: "RecordBatch \<Rightarrow> RecordsError writer" where
  "put_records_count b buf =
     (case int_try_from (length (rb_records b)) of
        None \<Rightarrow> Err (RecordParse RecordsCountExceedsI32)
      | Some n \<Rightarrow> put_i32 n buf)"

definition covered_head :: "RecordBatch \<Rightarrow> bytes run" where
  "covered_head b =
     put_into (replicate (HEADER_LEN - CRC_COVERAGE_START) 0)
       (write_all
         [put_i16 (rb_attributes b),
          put_i32 (rb_last_offset_delta b),
          put_i64 (rb_base_timestamp b),
          put_i64 (rb_max_timestamp b),
          put_i64 (rb_producer_id b),
          put_i16 (rb_producer_epoch b),
          put_i32 (rb_base_sequence b),
          put_records_count b])"

definition put_header_prefix :: "RecordBatch \<Rightarrow> i32 \<Rightarrow> u32 \<Rightarrow> RecordsError writer" where
  "put_header_prefix b batch_length crc =
     write_all
       [put_i64 (rb_base_offset b),
        put_i32 batch_length,
        put_i32 (rb_partition_leader_epoch b),
        put_i8 2,
        put_u32 crc]"

fun encode_records :: "Record list \<Rightarrow> bytes \<Rightarrow> bytes run" where
  "encode_records [] buf = Some (Ok buf)"
| "encode_records (r # rs) buf = run_then (Record_encode r buf) (encode_records rs)"

definition encoded_batch_len :: "RecordBatch \<Rightarrow> nat" where
  "encoded_batch_len b = HEADER_LEN + (\<Sum>r \<leftarrow> rb_records b. Record_encoded_len r)"

definition encode_uncompressed :: "libs \<Rightarrow> RecordBatch \<Rightarrow> bytes run" where
  "encode_uncompressed L b =
     run_then (encode_records (rb_records b) (replicate HEADER_LEN 0)) (\<lambda>wire.
     run_then (Some (batch_length_for (length wire - HEADER_LEN))) (\<lambda>batch_length.
     run_then (covered_head b) (\<lambda>head.
     if length wire < CRC_COVERAGE_START then Some (Err (RecordParse BatchBufferShort))
     else
       let dst = take CRC_COVERAGE_START wire; covered = drop CRC_COVERAGE_START wire in
       if length covered < HEADER_LEN - CRC_COVERAGE_START then Some (Err (RecordParse BatchBufferShort))
       else
         let covered' = head @ drop (HEADER_LEN - CRC_COVERAGE_START) covered in
         run_then (put_into dst (put_header_prefix b batch_length (crc32c L covered')))
           (\<lambda>dst'. Some (Ok (dst' @ covered'))))))"

definition encode_header :: "libs \<Rightarrow> RecordBatch \<Rightarrow> bytes \<Rightarrow> bytes \<Rightarrow> bytes run" where
  "encode_header L b body buf =
     run_then (Some (batch_length_for (length body))) (\<lambda>batch_length.
     run_then (covered_head b) (\<lambda>head.
     Some (write_all
       [put_header_prefix b batch_length (crc32c_append L (crc32c L head) body), put_slice head] buf)))"

definition encode_with_compression_level ::
  "libs \<Rightarrow> RecordBatch \<Rightarrow> i32 option \<Rightarrow> bytes \<Rightarrow> bytes run" where
  "encode_with_compression_level L b level buf =
     (let codec = compression (rb_attributes b) in
      if level = None \<and> codec = CompressionNone
      then run_then (encode_uncompressed L b) (\<lambda>wire. Some (put_slice wire buf))
      else
        run_then (encode_records (rb_records b) []) (\<lambda>raw_body.
        run_then
          (Some (map_err Compression
            (case level of
               Some l \<Rightarrow> compress_with_level L codec raw_body l
             | None \<Rightarrow> compress L codec raw_body))) (\<lambda>body.
        run_then (encode_header L b body buf) (\<lambda>buf'. Some (put_slice body buf')))))"

definition encode_batch :: "libs \<Rightarrow> RecordBatch \<Rightarrow> bytes \<Rightarrow> bytes run" where
  "encode_batch L b buf = encode_with_compression_level L b None buf"

definition encode_to_bytes_batch :: "libs \<Rightarrow> RecordBatch \<Rightarrow> bytes run" where
  "encode_to_bytes_batch L b =
     (if compression (rb_attributes b) = CompressionNone then encode_uncompressed L b
      else encode_batch L b [])"

subsection \<open>Decoding from a chunked buffer\<close>

type_synonym frags = "bytes list"

definition remaining :: "frags \<Rightarrow> nat" where
  "remaining buf = length (concat buf)"

text \<open>\<open>Buf::chunk\<close> is empty only at the end of the buffer.\<close>

fun chunk :: "frags \<Rightarrow> bytes" where
  "chunk [] = []"
| "chunk (c # cs) = (if c = [] then chunk cs else c)"

fun advance :: "nat \<Rightarrow> frags \<Rightarrow> frags" where
  "advance n [] = []"
| "advance n (c # cs) = (if n < length c then drop n c # cs else advance (n - length c) cs)"

text \<open>\<open>copy_to_slice\<close>, after a check that \<open>n\<close> bytes remain.\<close>

definition copy_to_slice :: "nat \<Rightarrow> frags \<Rightarrow> bytes \<times> frags" where
  "copy_to_slice n buf = (take n (concat buf), advance n buf)"

text \<open>The loop \<open>for i in 0..count\<close> over the records.\<close>

fun parse_records :: "nat \<Rightarrow> nat \<Rightarrow> bytes \<Rightarrow> (RecordsError, Record list \<times> bytes) result" where
  "parse_records i 0 body = Ok ([], body)"
| "parse_records i (Suc n) body =
     (case parse_one_record body of
        Err e \<Rightarrow> Err (RecordParse (InRecord i e))
      | Ok (r, body') \<Rightarrow> and_then (parse_records (Suc i) n body') (\<lambda>(rs, rest). Ok (r # rs, rest)))"

definition verify_crc :: "u32 \<Rightarrow> u32 \<Rightarrow> (RecordsError, unit) result" where
  "verify_crc expected computed =
     (if computed = expected then Ok () else Err (CrcMismatch expected computed))"

definition batch_of :: "RecordBatchHeader \<Rightarrow> Record list \<Rightarrow> RecordBatch" where
  "batch_of hdr records =
     \<lparr>rb_base_offset = hdr_base_offset hdr, rb_partition_leader_epoch = hdr_partition_leader_epoch hdr,
      rb_attributes = hdr_attributes hdr, rb_last_offset_delta = hdr_last_offset_delta hdr,
      rb_base_timestamp = hdr_base_timestamp hdr, rb_max_timestamp = hdr_max_timestamp hdr,
      rb_producer_id = hdr_producer_id hdr, rb_producer_epoch = hdr_producer_epoch hdr,
      rb_base_sequence = hdr_base_sequence hdr, rb_records = records\<rparr>"

text \<open>The part of \<open>decode_with_policy\<close> after the body: the records and the result.\<close>

definition finish_batch :: "RecordBatchHeader \<Rightarrow> bytes \<Rightarrow> (RecordsError, RecordBatch) result" where
  "finish_batch hdr body =
     (case usize_try_from (hdr_records_count hdr) of
        None \<Rightarrow> Err (RecordParse (NegativeRecordsCount (hdr_records_count hdr)))
      | Some count \<Rightarrow>
          and_then (parse_records 0 count body) (\<lambda>(records, left).
            if left \<noteq> [] then Err (RecordParse (TrailingAfterRecords (length left)))
            else Ok (batch_of hdr records)))"

definition decode_with_policy ::
  "libs \<Rightarrow> (nat \<Rightarrow> nat) \<Rightarrow> frags \<Rightarrow> (RecordsError, RecordBatch \<times> frags) result" where
  "decode_with_policy L output_limit buf =
     (if remaining buf < HEADER_LEN then Err (HeaderTooShort (HEADER_LEN - remaining buf))
      else
        let contiguous_crc = contiguous_covered_crc L (chunk buf);
            (hdr_bytes, buf) = copy_to_slice HEADER_LEN buf in
        case ref_from_bytes hdr_bytes of
          None \<Rightarrow> Err ZerocopyFailure
        | Some hdr \<Rightarrow>
            if hdr_magic hdr \<noteq> 2 then Err (UnsupportedMagic (hdr_magic hdr))
            else case declared_body_len (hdr_batch_length hdr) of
              None \<Rightarrow> Err (RecordParse NegativeBatchLength)
            | Some blen \<Rightarrow>
                if remaining buf < blen then Err (BodyTooShort (blen - remaining buf))
                else
                  let computed = (\<lambda>body. case contiguous_crc of
                        Some c \<Rightarrow> c
                      | None \<Rightarrow> crc32c_append L
                          (crc32c L (slice_at CRC_COVERAGE_START HEADER_LEN hdr_bytes)) body);
                      verify = (\<lambda>body. verify_crc (hdr_crc hdr) (computed body));
                      codec = compression (hdr_attributes hdr);
                      inflate = (\<lambda>body. and_then (verify body) (\<lambda>_.
                        map_err Compression (decompress L codec body (output_limit (length body)))));
                      (body_for_records, rest) =
                        (if codec \<noteq> CompressionNone \<and> blen \<le> length (chunk buf)
                         then (inflate (take blen (chunk buf)), advance blen buf)
                         else
                           let (body, buf) = copy_to_slice blen buf in
                           (if codec = CompressionNone then and_then (verify body) (\<lambda>_. Ok body)
                            else inflate body, buf))
                  in and_then body_for_records (\<lambda>body.
                     and_then (finish_batch hdr body) (\<lambda>b. Ok (b, rest))))"

section \<open>Borrowed batches\<close>

datatype RecordBody = BorrowedBody bytes | OwnedBody bytes

fun body_bytes :: "RecordBody \<Rightarrow> bytes" where
  "body_bytes (BorrowedBody s) = s"
| "body_bytes (OwnedBody b) = b"

record RecordBatchBorrowed =
  bb_header :: RecordBatchHeader
  bb_body :: RecordBody

definition crc_covered :: "bytes \<Rightarrow> nat \<Rightarrow> (RecordsError, bytes) result" where
  "crc_covered batch blen =
     (case get_range CRC_COVERAGE_START (HEADER_LEN + blen) batch of
        None \<Rightarrow> Err (BodyTooShort (HEADER_LEN + blen - length batch))
      | Some c \<Rightarrow> Ok c)"

definition decode_borrow_impl :: "libs \<Rightarrow> (nat \<Rightarrow> nat) \<Rightarrow> (RecordsError, RecordBatchBorrowed) reader" where
  "decode_borrow_impl L output_limit buf =
     (if length buf < HEADER_LEN then Err (HeaderTooShort (HEADER_LEN - length buf))
      else
        let hdr_slice = take HEADER_LEN buf; rest = drop HEADER_LEN buf in
        case ref_from_bytes hdr_slice of
          None \<Rightarrow> Err ZerocopyFailure
        | Some hdr \<Rightarrow>
            if hdr_magic hdr \<noteq> 2 then Err (UnsupportedMagic (hdr_magic hdr))
            else case Option.bind (checked_sub (hdr_batch_length hdr) HEADER_TAIL_LEN) usize_try_from of
              None \<Rightarrow> Err (RecordParse NegativeBatchLength)
            | Some blen \<Rightarrow>
                if length rest < blen then Err (BodyTooShort (blen - length rest))
                else
                  let raw_body = take blen rest in
                  and_then (crc_covered buf blen) (\<lambda>covered.
                  and_then (verify_crc (hdr_crc hdr) (crc32c L covered)) (\<lambda>_.
                  let codec = compression (hdr_attributes hdr) in
                  and_then
                    (if codec = CompressionNone then Ok (BorrowedBody raw_body)
                     else and_then
                       (map_err Compression (decompress L codec raw_body (output_limit (length raw_body))))
                       (\<lambda>d. Ok (OwnedBody d))) (\<lambda>body.
                  Ok (\<lparr>bb_header = hdr, bb_body = body\<rparr>, drop blen rest)))))"

text \<open>\<open>to_owned\<close> runs the iterator, which parses \<open>count\<close> records and ignores what follows them.\<close>

fun iter_records :: "nat \<Rightarrow> bytes \<Rightarrow> (RecordsError, Record list) result" where
  "iter_records 0 body = Ok []"
| "iter_records (Suc n) body =
     and_then (parse_one_record body) (\<lambda>(r, body'). and_then (iter_records n body') (\<lambda>rs. Ok (r # rs)))"

definition to_owned :: "RecordBatchBorrowed \<Rightarrow> (RecordsError, RecordBatch) result" where
  "to_owned bb =
     and_then (iter_records (nat (max 0 (sint (hdr_records_count (bb_header bb))))) (body_bytes (bb_body bb)))
       (\<lambda>records. Ok (batch_of (bb_header bb) records))"

text \<open>\<open>PartialEq::eq\<close> of the borrowed batch.\<close>

definition borrowed_eq :: "RecordBatchBorrowed \<Rightarrow> RecordBatchBorrowed \<Rightarrow> bool" where
  "borrowed_eq a b = (case (to_owned a, to_owned b) of (Ok x, Ok y) \<Rightarrow> x = y | _ \<Rightarrow> False)"

section \<open>Validation on the produce path\<close>

record ValidatedBatch =
  vb_header :: RecordBatchHeader
  vb_total_len :: nat
  vb_raw_body :: bytes

definition validate_one_v2_batch :: "libs \<Rightarrow> bytes \<Rightarrow> (RecordsError, ValidatedBatch) result" where
  "validate_one_v2_batch L buf =
     (if length buf < HEADER_LEN then Err (HeaderTooShort (HEADER_LEN - length buf))
      else
        let hdr_slice = take HEADER_LEN buf; rest = drop HEADER_LEN buf in
        case ref_from_bytes hdr_slice of
          None \<Rightarrow> Err ZerocopyFailure
        | Some hdr \<Rightarrow>
            if hdr_magic hdr \<noteq> 2 then Err (UnsupportedMagic (hdr_magic hdr))
            else case Option.bind (checked_sub (hdr_batch_length hdr) HEADER_TAIL_LEN) usize_try_from of
              None \<Rightarrow> Err (RecordParse NegativeBatchLength)
            | Some blen \<Rightarrow>
                if length rest < blen then Err (BodyTooShort (blen - length rest))
                else
                  and_then (crc_covered buf blen) (\<lambda>covered.
                  and_then (verify_crc (hdr_crc hdr) (crc32c L covered)) (\<lambda>_.
                  Ok \<lparr>vb_header = hdr, vb_total_len = HEADER_LEN + blen,
                      vb_raw_body = take blen rest\<rparr>)))"

text \<open>
  \<open>walk_records\<close> with the parser and the visitor it is given; the visitor's state is returned on
  every path, since its effects before an error stay.
\<close>

fun walk_loop ::
  "(RecordsError, 'a) reader \<Rightarrow> ('a \<Rightarrow> 's \<Rightarrow> 's) \<Rightarrow> nat \<Rightarrow> nat \<Rightarrow> bytes \<Rightarrow> 's
     \<Rightarrow> 's \<times> (RecordsError, bytes) result" where
  "walk_loop parse visit i 0 left s = (s, Ok left)"
| "walk_loop parse visit i (Suc n) left s =
     (case parse left of
        Err e \<Rightarrow> (s, Err (RecordParse (InRecord i e)))
      | Ok (x, left') \<Rightarrow> walk_loop parse visit (Suc i) n left' (visit x s))"

definition walk_records ::
  "libs \<Rightarrow> (nat \<Rightarrow> nat) \<Rightarrow> (RecordsError, 'a) reader \<Rightarrow> ('a \<Rightarrow> 's \<Rightarrow> 's) \<Rightarrow> ValidatedBatch \<Rightarrow> 's
     \<Rightarrow> 's \<times> (RecordsError, unit) result" where
  "walk_records L output_limit parse visit vb s =
     (let count = hdr_records_count (vb_header vb) in
      if sint count < 0 then (s, Err (RecordParse (NegativeRecordsCount count)))
      else
        let codec = compression (hdr_attributes (vb_header vb)) in
        case (if codec = CompressionNone then Ok (vb_raw_body vb)
              else map_err Compression
                (decompress L codec (vb_raw_body vb) (output_limit (length (vb_raw_body vb))))) of
          Err e \<Rightarrow> (s, Err e)
        | Ok body \<Rightarrow>
            (case walk_loop parse visit 0 (nat (sint count)) body s of
               (s', Err e) \<Rightarrow> (s', Err e)
             | (s', Ok left) \<Rightarrow>
                 (s', if left \<noteq> [] then Err (RecordParse (TrailingAfterRecords (length left))) else Ok ())))"

definition validate_records_with ::
  "libs \<Rightarrow> (nat \<Rightarrow> nat) \<Rightarrow> (Record \<Rightarrow> 's \<Rightarrow> 's) \<Rightarrow> ValidatedBatch \<Rightarrow> 's \<Rightarrow> 's \<times> (RecordsError, unit) result" where
  "validate_records_with L output_limit visit = walk_records L output_limit parse_one_record visit"

definition validate_record_summaries_with ::
  "libs \<Rightarrow> (nat \<Rightarrow> nat) \<Rightarrow> (RecordSummary \<Rightarrow> 's \<Rightarrow> 's) \<Rightarrow> ValidatedBatch \<Rightarrow> 's \<Rightarrow> 's \<times> (RecordsError, unit) result" where
  "validate_record_summaries_with L output_limit visit =
     walk_records L output_limit (parse_one_record_into SkipHeaders_push ()) (\<lambda>(summary, _). visit summary)"

definition validate_records :: "libs \<Rightarrow> (nat \<Rightarrow> nat) \<Rightarrow> ValidatedBatch \<Rightarrow> (RecordsError, unit) result" where
  "validate_records L output_limit vb =
     snd (validate_record_summaries_with L output_limit (\<lambda>_ s. s) vb ())"

definition MAGIC_OFFSET :: nat where
  "MAGIC_OFFSET = 16"

function count_loop :: "bytes \<Rightarrow> nat \<Rightarrow> nat" where
  "count_loop buf acc =
     (if length buf < HEADER_LEN then acc
      else if buf ! MAGIC_OFFSET \<noteq> 2 then acc
      else case ref_from_bytes (take HEADER_LEN buf) of
        None \<Rightarrow> acc
      | Some hdr \<Rightarrow>
          (case usize_try_from (hdr_batch_length hdr) of
             None \<Rightarrow> acc
           | Some after_len \<Rightarrow>
               if 12 + after_len < HEADER_LEN then acc
               else if length buf < 12 + after_len then acc
               else count_loop (drop (12 + after_len) buf)
                      (acc + nat (max 0 (sint (hdr_records_count hdr))))))"
  by pat_completeness auto
termination
  by (relation "measure (\<lambda>(buf, acc). length buf)") (auto simp: HEADER_LEN_def)

declare count_loop.simps [simp del]

definition count_records_in_v2_batches :: "bytes \<Rightarrow> nat" where
  "count_records_in_v2_batches buf =
     (if length buf \<le> MAGIC_OFFSET \<or> buf ! MAGIC_OFFSET \<noteq> 2 then 0 else count_loop buf 0)"

section \<open>Chunked buffers\<close>

text \<open>What the code relies on in the checksum library: continuing a finished checksum is the checksum of the concatenation.\<close>

definition crc_appends :: "libs \<Rightarrow> bool" where
  "crc_appends L \<longleftrightarrow> (\<forall>a b. crc32c_append L (crc32c L a) b = crc32c L (a @ b))"

lemma concat_advance [simp]: "concat (advance n buf) = drop n (concat buf)"
  by (induction n buf rule: advance.induct) auto

lemma chunk_prefix: "\<exists>rest. concat buf = chunk buf @ rest"
  by (induction buf rule: chunk.induct) auto

lemma take_chunk: "n \<le> length (chunk buf) \<Longrightarrow> take n (chunk buf) = take n (concat buf)"
  using chunk_prefix[of buf] by auto

lemma get_range_eq_Some:
  "get_range a b bs = Some c \<longleftrightarrow> a \<le> b \<and> b \<le> length bs \<and> c = slice_at a b bs"
  by (auto simp: get_range_def)

lemma contiguous_crc_covered:
  assumes "contiguous_covered_crc L (chunk buf) = Some c"
    and "ref_from_bytes (take HEADER_LEN (concat buf)) = Some hdr"
    and "declared_body_len (hdr_batch_length hdr) = Some n"
  shows "c = crc32c L (slice_at CRC_COVERAGE_START (HEADER_LEN + n) (concat buf))"
proof -
  obtain rest where c: "concat buf = chunk buf @ rest"
    using chunk_prefix by blast
  have "HEADER_LEN \<le> length (chunk buf)"
    using assms(1) by (auto simp: contiguous_covered_crc_def bind_eq_Some_conv get_range_eq_Some split: if_splits)
  then have "slice_at 0 HEADER_LEN (chunk buf) = take HEADER_LEN (concat buf)"
    by (simp add: c slice_at_def)
  then show ?thesis
    using assms by (auto simp: contiguous_covered_crc_def bind_eq_Some_conv get_range_eq_Some c
        slice_at_append_left split: if_splits)
qed

lemma covered_split:
  assumes "HEADER_LEN + n \<le> length bs"
  shows "slice_at CRC_COVERAGE_START HEADER_LEN (take HEADER_LEN bs) @ take n (drop HEADER_LEN bs)
    = slice_at CRC_COVERAGE_START (HEADER_LEN + n) bs"
proof -
  have "take (40 + n) (drop 21 bs) = take 40 (drop 21 bs) @ take n (drop 40 (drop 21 bs))"
    by (rule take_add)
  then show ?thesis
    by (simp add: slice_at_def CRC_COVERAGE_START_def HEADER_LEN_def drop_take)
qed

text \<open>The owned decoder, on any chunking, is the zero-copy decoder followed by the record loop.\<close>

definition decode_slice :: "libs \<Rightarrow> (nat \<Rightarrow> nat) \<Rightarrow> (RecordsError, RecordBatch) reader" where
  "decode_slice L output_limit =
     read_then (decode_borrow_impl L output_limit) (\<lambda>bb buf.
       and_then (finish_batch (bb_header bb) (body_bytes (bb_body bb))) (\<lambda>b. Ok (b, buf)))"

definition flatten :: "('e, 'a \<times> frags) result \<Rightarrow> ('e, 'a \<times> bytes) result" where
  "flatten r = and_then r (\<lambda>(x, buf). Ok (x, concat buf))"

lemma computed_crc:
  assumes "crc_appends L" and "HEADER_LEN + n \<le> length (concat buf)"
    and "ref_from_bytes (take HEADER_LEN (concat buf)) = Some hdr"
    and "declared_body_len (hdr_batch_length hdr) = Some n"
  shows "(case contiguous_covered_crc L (chunk buf) of
       Some c \<Rightarrow> c
     | None \<Rightarrow> crc32c_append L
         (crc32c L (slice_at CRC_COVERAGE_START HEADER_LEN (take HEADER_LEN (concat buf))))
         (take n (drop HEADER_LEN (concat buf))))
    = crc32c L (slice_at CRC_COVERAGE_START (HEADER_LEN + n) (concat buf))"
  using assms contiguous_crc_covered[OF _ assms(3,4)] covered_split[OF assms(2)]
  by (simp add: crc_appends_def split: option.split)

lemma crc_covered_Ok:
  "HEADER_LEN + n \<le> length bs \<Longrightarrow>
    crc_covered bs n = Ok (slice_at CRC_COVERAGE_START (HEADER_LEN + n) bs)"
  by (simp add: crc_covered_def get_range_def HEADER_LEN_def CRC_COVERAGE_START_def)

lemma and_then_assoc: "and_then (and_then r f) g = and_then r (\<lambda>x. and_then (f x) g)"
  by (cases r) simp_all

lemma decode_flatten:
  assumes "crc_appends L"
  shows "flatten (decode_with_policy L lim buf) = decode_slice L lim (concat buf)"
proof -
  let ?bs = "concat buf"
  show ?thesis
  proof (cases "length ?bs < HEADER_LEN")
    case True
    then show ?thesis
      by (simp add: decode_with_policy_def decode_slice_def read_then_def decode_borrow_impl_def
          flatten_def remaining_def)
  next
    case long: False
    then obtain hdr where hdr: "ref_from_bytes (take HEADER_LEN ?bs) = Some hdr"
      by (simp add: ref_from_bytes_def)
    show ?thesis
    proof (cases "hdr_magic hdr = 2 \<and> (\<exists>n. declared_body_len (hdr_batch_length hdr) = Some n
        \<and> HEADER_LEN + n \<le> length ?bs)")
      case False
      then show ?thesis
        using long hdr
        by (auto simp: decode_with_policy_def decode_slice_def read_then_def decode_borrow_impl_def
            flatten_def remaining_def copy_to_slice_def declared_body_len_def Let_def
            split: option.split)
    next
      case True
      then obtain n where n: "hdr_magic hdr = 2" "declared_body_len (hdr_batch_length hdr) = Some n"
        "HEADER_LEN + n \<le> length ?bs"
        by blast
      note crc = computed_crc[OF assms n(3) hdr n(2)]
      show ?thesis
        using long hdr n
        by (simp add: decode_with_policy_def decode_slice_def read_then_def decode_borrow_impl_def
            flatten_def remaining_def copy_to_slice_def declared_body_len_def[symmetric] Let_def
            crc_covered_Ok take_chunk crc and_then_assoc add.commute[of HEADER_LEN]
            cong: option.case_cong)
    qed
  qed
qed

section \<open>The bytes of a batch\<close>

definition prefix_bytes :: "RecordBatchHeader \<Rightarrow> bytes" where
  "prefix_bytes h =
     be_bytes 8 (hdr_base_offset h) @ be_bytes 4 (hdr_batch_length h)
     @ be_bytes 4 (hdr_partition_leader_epoch h) @ be_bytes 1 (hdr_magic h) @ be_bytes 4 (hdr_crc h)"

definition covered_bytes :: "RecordBatchHeader \<Rightarrow> bytes" where
  "covered_bytes h =
     be_bytes 2 (hdr_attributes h) @ be_bytes 4 (hdr_last_offset_delta h)
     @ be_bytes 8 (hdr_base_timestamp h) @ be_bytes 8 (hdr_max_timestamp h)
     @ be_bytes 8 (hdr_producer_id h) @ be_bytes 2 (hdr_producer_epoch h)
     @ be_bytes 4 (hdr_base_sequence h) @ be_bytes 4 (hdr_records_count h)"

definition header_bytes :: "RecordBatchHeader \<Rightarrow> bytes" where
  "header_bytes h = prefix_bytes h @ covered_bytes h"

lemma length_layout [simp]:
  "length (prefix_bytes h) = CRC_COVERAGE_START"
  "length (covered_bytes h) = HEADER_LEN - CRC_COVERAGE_START"
  "length (header_bytes h) = HEADER_LEN"
  by (simp_all add: header_bytes_def prefix_bytes_def covered_bytes_def HEADER_LEN_def CRC_COVERAGE_START_def)

lemma ref_from_header_bytes [simp]: "ref_from_bytes (header_bytes h) = Some h"
  by (simp add: ref_from_bytes_def header_bytes_def prefix_bytes_def covered_bytes_def slice_at_def HEADER_LEN_def
      be_word_def[of "[_]"])

text \<open>The header that announces and seals \<open>body\<close> as the body of \<open>b\<close>.\<close>

definition open_header :: "RecordBatch \<Rightarrow> nat \<Rightarrow> RecordBatchHeader" where
  "open_header b n =
     \<lparr>hdr_base_offset = rb_base_offset b, hdr_batch_length = of_nat (49 + n),
      hdr_partition_leader_epoch = rb_partition_leader_epoch b, hdr_magic = 2, hdr_crc = 0,
      hdr_attributes = rb_attributes b, hdr_last_offset_delta = rb_last_offset_delta b,
      hdr_base_timestamp = rb_base_timestamp b, hdr_max_timestamp = rb_max_timestamp b,
      hdr_producer_id = rb_producer_id b, hdr_producer_epoch = rb_producer_epoch b,
      hdr_base_sequence = rb_base_sequence b,
      hdr_records_count = of_nat (length (rb_records b))\<rparr>"

definition sealed_header :: "libs \<Rightarrow> RecordBatch \<Rightarrow> bytes \<Rightarrow> RecordBatchHeader" where
  "sealed_header L b body =
     (open_header b (length body))\<lparr>hdr_crc := crc32c L (covered_bytes (open_header b (length body)) @ body)\<rparr>"

lemma covered_sealed: "covered_bytes (sealed_header L b body) = covered_bytes (open_header b (length body))"
  by (simp add: sealed_header_def covered_bytes_def)

lemma sealed_fields [simp]:
  "hdr_crc (sealed_header L b body) = crc32c L (covered_bytes (sealed_header L b body) @ body)"
  "hdr_base_offset (sealed_header L b body) = rb_base_offset b"
  "hdr_batch_length (sealed_header L b body) = of_nat (49 + length body)"
  "hdr_partition_leader_epoch (sealed_header L b body) = rb_partition_leader_epoch b"
  "hdr_magic (sealed_header L b body) = 2"
  "hdr_attributes (sealed_header L b body) = rb_attributes b"
  "hdr_records_count (sealed_header L b body) = of_nat (length (rb_records b))"
  "batch_of (sealed_header L b body) (rb_records b) = b"
  by (simp_all add: covered_sealed) (simp_all add: sealed_header_def open_header_def batch_of_def)

lemma covered_head_eq:
  assumes "length (rb_records b) < 2 ^ 31"
  shows "covered_head b = Some (Ok (covered_bytes (sealed_header L b body)))"
  using assms
  by (simp add: covered_head_def put_into_def put_records_count_def int_try_from_def covered_bytes_def
      sealed_header_def open_header_def put_i16_def put_i32_def put_i64_def put_slice_def HEADER_LEN_def
      CRC_COVERAGE_START_def)

lemma put_header_prefix_eq:
  "put_header_prefix b (of_nat (49 + length body)) (hdr_crc (sealed_header L b body)) buf
     = Ok (buf @ prefix_bytes (sealed_header L b body))"
  by (simp add: put_header_prefix_def prefix_bytes_def put_i8_def put_i32_def put_i64_def put_u32_def
      put_slice_def)

lemma run_then_simps [simp]:
  "run_then (Some (Ok x)) f = f x" "run_then (Some (Err e)) f = Some (Err e)" "run_then None f = None"
  by (simp_all add: run_then_def)

lemma batch_length_for_Ok: "n + 49 < 2 ^ 31 \<Longrightarrow> batch_length_for n = Ok (of_nat (49 + n))"
  by (simp add: batch_length_for_def int_try_from_def checked_add_def HEADER_TAIL_LEN_def sint_of_nat_small)

lemma declared_body_len_for: "n + 49 < 2 ^ 31 \<Longrightarrow> declared_body_len (of_nat (49 + n)) = Some n"
  using sint_of_nat_small[of "49 + n", where ?'a = 32]
  by (simp add: declared_body_len_def checked_sub_def HEADER_TAIL_LEN_def usize_try_from_def sint_of_nat_small)

lemma encode_header_eq:
  assumes "crc_appends L" and "length (rb_records b) < 2 ^ 31" and "length body + 49 < 2 ^ 31"
  shows "encode_header L b body buf = Some (Ok (buf @ header_bytes (sealed_header L b body)))"
  using assms
  by (simp add: encode_header_def batch_length_for_Ok covered_head_eq[of b L body] crc_appends_def
      put_header_prefix_eq[of b body L, simplified] header_bytes_def put_slice_def)

subsection \<open>The records\<close>

definition records_bytes :: "Record list \<Rightarrow> bytes" where
  "records_bytes rs = (case encode_records rs [] of Some (Ok bs) \<Rightarrow> bs | _ \<Rightarrow> [])"

lemma records_encoded:
  assumes "list_all record_wf rs"
  shows "\<exists>bs. (\<forall>buf. encode_records rs buf = Some (Ok (buf @ bs)))
    \<and> length bs = (\<Sum>r \<leftarrow> rs. Record_encoded_len r)
    \<and> (\<forall>i rest. parse_records i (length rs) (bs @ rest) = Ok (rs, rest))"
  using assms
proof (induction rs)
  case (Cons r rs)
  obtain as where as: "produces (record_writer r) as" "reads parse_one_record as r"
    "length as = Record_encoded_len r"
    using Cons.prems record_field by (auto elim: carriesE)
  have enc: "Record_encode r buf = Some (Ok (buf @ as))" for buf
    using as(1) Cons.prems by (simp add: Record_encode_writer record_wf_def produces_def)
  obtain bs where "\<And>buf. encode_records rs buf = Some (Ok (buf @ bs))"
    "length bs = (\<Sum>r \<leftarrow> rs. Record_encoded_len r)"
    "\<And>i rest. parse_records i (length rs) (bs @ rest) = Ok (rs, rest)"
    using Cons by auto
  then show ?case
    using enc as by (intro exI[of _ "as @ bs"]) (simp add: readsD)
qed simp

lemma records_bytes_laws:
  assumes "list_all record_wf rs"
  shows "encode_records rs buf = Some (Ok (buf @ records_bytes rs))"
    and "length (records_bytes rs) = (\<Sum>r \<leftarrow> rs. Record_encoded_len r)"
    and "parse_records i (length rs) (records_bytes rs @ rest) = Ok (rs, rest)"
proof -
  obtain bs where bs: "\<And>buf. encode_records rs buf = Some (Ok (buf @ bs))"
    "length bs = (\<Sum>r \<leftarrow> rs. Record_encoded_len r)"
    "\<And>i rest. parse_records i (length rs) (bs @ rest) = Ok (rs, rest)"
    using records_encoded[OF assms] by blast
  have "records_bytes rs = bs"
    using bs(1)[of "[]"] by (simp add: records_bytes_def)
  then show "encode_records rs buf = Some (Ok (buf @ records_bytes rs))"
    "length (records_bytes rs) = (\<Sum>r \<leftarrow> rs. Record_encoded_len r)"
    "parse_records i (length rs) (records_bytes rs @ rest) = Ok (rs, rest)"
    using bs by simp_all
qed

lemma finish_sealed:
  assumes "list_all record_wf (rb_records b)" and "length (rb_records b) < 2 ^ 31"
  shows "finish_batch (sealed_header L b body) (records_bytes (rb_records b)) = Ok b"
  using records_bytes_laws(3)[OF assms(1), of 0 "[]"] assms(2) by (simp add: finish_batch_def)

subsection \<open>Encoded batches\<close>

text \<open>\<open>batch_wire\<close>: the bytes of \<open>b\<close> with its records encoded, and perhaps compressed, as \<open>body\<close>.\<close>

definition batch_wire :: "libs \<Rightarrow> RecordBatch \<Rightarrow> bytes \<Rightarrow> bytes" where
  "batch_wire L b body = header_bytes (sealed_header L b body) @ body"

lemma length_batch_wire [simp]: "length (batch_wire L b body) = HEADER_LEN + length body"
  by (simp add: batch_wire_def)

lemma batch_length_for_cases:
  "batch_length_for n = (if n + 49 < 2 ^ 31 then Ok (of_nat (49 + n)) else Err (RecordParse BodyLengthExceedsI32))"
proof (cases "n < 2 ^ 31")
  case True
  then show ?thesis
    using sint_of_nat_small[of n, where ?'a = 32]
    by (simp add: batch_length_for_def int_try_from_def checked_add_def HEADER_TAIL_LEN_def)
qed (simp add: batch_length_for_def int_try_from_def)

lemma covered_head_cases:
  "covered_head b = (if length (rb_records b) < 2 ^ 31 then Some (Ok (covered_bytes (sealed_header L b body)))
    else Some (Err (RecordParse RecordsCountExceedsI32)))"
proof (cases "length (rb_records b) < 2 ^ 31")
  case True
  then show ?thesis by (simp add: covered_head_eq)
next
  case False
  then show ?thesis
    by (simp add: covered_head_def put_into_def put_records_count_def int_try_from_def put_i16_def
        put_i32_def put_i64_def put_slice_def)
qed

lemma encode_uncompressed_eq:
  assumes "encode_records (rb_records b) (replicate HEADER_LEN 0) = Some (Ok (replicate HEADER_LEN 0 @ body))"
  shows "encode_uncompressed L b =
    (if length body + 49 < 2 ^ 31
     then if length (rb_records b) < 2 ^ 31 then Some (Ok (batch_wire L b body))
          else Some (Err (RecordParse RecordsCountExceedsI32))
     else Some (Err (RecordParse BodyLengthExceedsI32)))"
proof -
  have "put_into (replicate CRC_COVERAGE_START 0)
      (put_header_prefix b (of_nat (49 + length body)) (hdr_crc (sealed_header L b body)))
    = Some (Ok (prefix_bytes (sealed_header L b body)))"
    unfolding put_into_def put_header_prefix_eq by simp
  then show ?thesis
    using assms
    by (simp add: encode_uncompressed_def batch_length_for_cases covered_head_cases[of b L body] Let_def
        batch_wire_def header_bytes_def HEADER_LEN_def CRC_COVERAGE_START_def)
qed

lemma encode_success:
  assumes "crc_appends L" and "list_all record_wf (rb_records b)"
    and "encode_with_compression_level L b level buf = Some (Ok out)"
  obtains body where "out = buf @ batch_wire L b body" and "length body + 49 < 2 ^ 31"
    and "length (rb_records b) < 2 ^ 31"
    and "(if level = None \<and> compression (rb_attributes b) = CompressionNone
          then body = records_bytes (rb_records b)
          else (case level of
                  Some l \<Rightarrow> compress_with_level L (compression (rb_attributes b)) (records_bytes (rb_records b)) l
                | None \<Rightarrow> compress L (compression (rb_attributes b)) (records_bytes (rb_records b))) = Ok body)"
proof (cases "level = None \<and> compression (rb_attributes b) = CompressionNone")
  case True
  then show thesis
    using assms(3) encode_uncompressed_eq[OF records_bytes_laws(1)[OF assms(2)], of L]
    by (intro that[of "records_bytes (rb_records b)"])
      (auto simp: encode_with_compression_level_def put_slice_def split: if_splits)
next
  case False
  let ?z = "case level of
      Some l \<Rightarrow> compress_with_level L (compression (rb_attributes b)) (records_bytes (rb_records b)) l
    | None \<Rightarrow> compress L (compression (rb_attributes b)) (records_bytes (rb_records b))"
  have run: "run_then (Some (map_err Compression ?z)) (\<lambda>body.
      run_then (encode_header L b body buf) (\<lambda>buf'. Some (put_slice body buf'))) = Some (Ok out)"
    using assms(3) records_bytes_laws(1)[OF assms(2), of "[]"]
    unfolding encode_with_compression_level_def Let_def if_not_P[OF False] by simp
  obtain body where z: "?z = Ok body"
    using run by (cases ?z) simp_all
  then have "run_then (encode_header L b body buf) (\<lambda>buf'. Some (put_slice body buf')) = Some (Ok out)"
    using run by simp
  then show thesis
    using z False assms(1) encode_header_eq[OF assms(1), of b body buf]
    by (intro that[of body])
      (auto simp: encode_header_def batch_length_for_cases covered_head_cases[of b L body] put_slice_def
        batch_wire_def split: if_splits)
qed

lemma encode_records_total: "encode_records rs buf \<noteq> None"
proof (induction rs arbitrary: buf)
  case (Cons r rs)
  have "Record_encode r buf \<noteq> None"
    by (simp add: Record_encode_def encode_body_reference split: option.split sum.split)
  then show ?case
    using Cons by (auto simp: run_then_def split: option.splits sum.splits)
qed simp

lemma run_then_not_None: "m \<noteq> None \<Longrightarrow> (\<And>x. m = Some (Ok x) \<Longrightarrow> f x \<noteq> None) \<Longrightarrow> run_then m f \<noteq> None"
  by (cases m) (auto simp: run_then_def split: sum.split)

lemma if_not_None: "x \<noteq> None \<Longrightarrow> y \<noteq> None \<Longrightarrow> (if c then x else y) \<noteq> None"
  by simp

lemma covered_head_total: "covered_head b \<noteq> None"
  using covered_head_cases[of b undefined "[]"] by simp

lemma put_prefix_total:
  "length dst = CRC_COVERAGE_START \<Longrightarrow> put_into dst (put_header_prefix b n c) \<noteq> None"
  by (simp add: put_into_def put_header_prefix_def put_i8_def put_i32_def put_i64_def put_u32_def
      put_slice_def CRC_COVERAGE_START_def)

lemma encode_header_total: "encode_header L b body buf \<noteq> None"
  unfolding encode_header_def by (intro run_then_not_None covered_head_total) simp_all

lemma encode_uncompressed_total: "encode_uncompressed L b \<noteq> None"
  unfolding encode_uncompressed_def
proof (intro run_then_not_None encode_records_total covered_head_total)
  fix wire n head
  show "(if length wire < CRC_COVERAGE_START then Some (Err (RecordParse BatchBufferShort))
    else let dst = take CRC_COVERAGE_START wire; covered = drop CRC_COVERAGE_START wire in
      if length covered < HEADER_LEN - CRC_COVERAGE_START then Some (Err (RecordParse BatchBufferShort))
      else let covered' = head @ drop (HEADER_LEN - CRC_COVERAGE_START) covered in
        run_then (put_into dst (put_header_prefix b n (crc32c L covered')))
          (\<lambda>dst'. Some (Ok (dst' @ covered')))) \<noteq> None"
  proof (cases "length wire < CRC_COVERAGE_START")
    case False
    then have "put_into (take CRC_COVERAGE_START wire) (put_header_prefix b n c) \<noteq> None" for c
      by (intro put_prefix_total) simp
    then show ?thesis
      unfolding Let_def by (intro if_not_None run_then_not_None) simp_all
  qed simp
qed simp

subsection \<open>Reading encoded batches\<close>

lemma slice_covered:
  "slice_at CRC_COVERAGE_START (HEADER_LEN + length body) (header_bytes h @ body @ rest)
     = covered_bytes h @ body"
  by (simp add: slice_at_def header_bytes_def HEADER_LEN_def CRC_COVERAGE_START_def)

lemma validate_header:
  assumes "hdr_magic h = 2" and "declared_body_len (hdr_batch_length h) = Some (length body)"
    and "hdr_crc h = crc32c L (covered_bytes h @ body)"
  shows "validate_one_v2_batch L (header_bytes h @ body @ rest) =
    Ok \<lparr>vb_header = h, vb_total_len = HEADER_LEN + length body, vb_raw_body = body\<rparr>"
  using assms
  by (simp add: validate_one_v2_batch_def declared_body_len_def Let_def crc_covered_Ok slice_covered
      verify_crc_def)

text \<open>A successful validation decides what the zero-copy decoder does.\<close>

definition body_of :: "libs \<Rightarrow> (nat \<Rightarrow> nat) \<Rightarrow> ValidatedBatch \<Rightarrow> (RecordsError, RecordBody) result" where
  "body_of L lim vb =
     (let codec = compression (hdr_attributes (vb_header vb)) in
      if codec = CompressionNone then Ok (BorrowedBody (vb_raw_body vb))
      else and_then (map_err Compression (decompress L codec (vb_raw_body vb) (lim (length (vb_raw_body vb)))))
        (\<lambda>d. Ok (OwnedBody d)))"

lemma decode_borrow_validated:
  "decode_borrow_impl L lim buf =
     and_then (validate_one_v2_batch L buf) (\<lambda>vb.
     and_then (body_of L lim vb) (\<lambda>body.
     Ok (\<lparr>bb_header = vb_header vb, bb_body = body\<rparr>, drop (vb_total_len vb) buf)))"
proof -
  have "drop n (drop HEADER_LEN buf) = drop (HEADER_LEN + n) buf" for n
    by (simp add: add.commute)
  then show ?thesis
    by (auto simp: decode_borrow_impl_def validate_one_v2_batch_def Let_def and_then_assoc body_of_def
        split: option.split)
qed

lemma declared_sealed:
  "length body + 49 < 2 ^ 31 \<Longrightarrow> declared_body_len (hdr_batch_length (sealed_header L b body)) = Some (length body)"
  by (simp only: sealed_fields declared_body_len_for)

lemma validate_wire:
  assumes "length body + 49 < 2 ^ 31"
  shows "validate_one_v2_batch L (batch_wire L b body @ rest) =
    Ok \<lparr>vb_header = sealed_header L b body, vb_total_len = length (batch_wire L b body), vb_raw_body = body\<rparr>"
  using validate_header[OF _ declared_sealed[OF assms], of L b L rest]
  by (simp add: batch_wire_def)

subsection \<open>Validation and decoding accept the same batches\<close>

lemma walk_loop_result:
  "snd (walk_loop parse_one_record visit i n left s) =
    and_then (parse_records i n left) (\<lambda>(rs, rest). Ok rest)"
  by (induction i n left arbitrary: s rule: parse_records.induct)
    (auto simp: and_then_def split: sum.splits prod.splits)

text \<open>What a parse leaves of the input.\<close>

definition leaves :: "('e, 'a) reader \<Rightarrow> bytes \<Rightarrow> ('e, bytes) result" where
  "leaves r buf = and_then (r buf) (\<lambda>(x, rest). Ok rest)"

lemma leaves_summary: "leaves (parse_one_record_into SkipHeaders_push ()) = leaves parse_one_record"
  unfolding parse_one_record_def parse_one_record_into_fold[of SkipHeaders_push "()"]
  by (auto simp: fun_eq_iff leaves_def read_then_def read_ok_def and_then_def split: sum.splits)

lemma walk_loop_leaves:
  assumes "leaves p = leaves q"
  shows "snd (walk_loop p v i n left s) = snd (walk_loop q w i n left t)"
proof (induction n arbitrary: i left s t)
  case (Suc n)
  have "leaves p left = leaves q left"
    using assms by simp
  then show ?case
    using Suc by (auto simp: leaves_def and_then_def split: sum.splits prod.splits)
qed simp

definition plain_body :: "libs \<Rightarrow> (nat \<Rightarrow> nat) \<Rightarrow> ValidatedBatch \<Rightarrow> (RecordsError, bytes) result" where
  "plain_body L lim vb =
     (let codec = compression (hdr_attributes (vb_header vb)) in
      if codec = CompressionNone then Ok (vb_raw_body vb)
      else map_err Compression (decompress L codec (vb_raw_body vb) (lim (length (vb_raw_body vb)))))"

lemma plain_body_eq: "plain_body L lim vb = and_then (body_of L lim vb) (\<lambda>body. Ok (body_bytes body))"
  by (simp add: plain_body_def body_of_def Let_def and_then_def split: sum.split)

lemma walk_records_result:
  "snd (walk_records L lim parse visit vb s) =
    (if sint (hdr_records_count (vb_header vb)) < 0
     then Err (RecordParse (NegativeRecordsCount (hdr_records_count (vb_header vb))))
     else and_then (plain_body L lim vb) (\<lambda>body.
       and_then (snd (walk_loop parse visit 0 (nat (sint (hdr_records_count (vb_header vb)))) body s)) (\<lambda>left.
       if left \<noteq> [] then Err (RecordParse (TrailingAfterRecords (length left))) else Ok ())))"
  unfolding walk_records_def Let_def plain_body_def[unfolded Let_def, symmetric]
  by (cases "plain_body L lim vb") (auto split: prod.split sum.split)

lemma validate_records_spec:
  "validate_records L lim vb =
    (if sint (hdr_records_count (vb_header vb)) < 0
     then Err (RecordParse (NegativeRecordsCount (hdr_records_count (vb_header vb))))
     else and_then (plain_body L lim vb) (\<lambda>body.
       and_then (parse_records 0 (nat (sint (hdr_records_count (vb_header vb)))) body) (\<lambda>(rs, left).
       if left \<noteq> [] then Err (RecordParse (TrailingAfterRecords (length left))) else Ok ())))"
proof -
  have walk: "snd (walk_loop (parse_one_record_into SkipHeaders_push ()) v 0 n body ()) =
    and_then (parse_records 0 n body) (\<lambda>(rs, rest). Ok rest)" for v n body
    using walk_loop_leaves[OF leaves_summary] walk_loop_result[where s = "()"] by metis
  have pair: "and_then (case x of (rs, rest) \<Rightarrow> Ok rest) f = (case x of (rs, rest) \<Rightarrow> f rest)"
    for x :: "Record list \<times> bytes" and f :: "bytes \<Rightarrow> (RecordsError, unit) result"
    by (simp split: prod.split)
  show ?thesis
    unfolding validate_records_def validate_record_summaries_with_def walk_records_result walk
      and_then_assoc pair by (rule refl)
qed

lemma validate_records_iff:
  "validate_records L lim vb = Ok () \<longleftrightarrow>
     (\<exists>body b. body_of L lim vb = Ok body \<and> finish_batch (vb_header vb) (body_bytes body) = Ok b)"
  by (auto simp: validate_records_spec plain_body_eq finish_batch_def and_then_eq_Ok usize_try_from_def
      split: if_splits)

lemma decode_slice_eq:
  "decode_slice L lim bs = Ok (b, rest) \<longleftrightarrow>
     (\<exists>vb body. validate_one_v2_batch L bs = Ok vb \<and> body_of L lim vb = Ok body
        \<and> finish_batch (vb_header vb) (body_bytes body) = Ok b \<and> rest = drop (vb_total_len vb) bs)"
  by (auto simp: decode_slice_def read_then_def decode_borrow_validated and_then_eq_Ok)

subsection \<open>Stamping, counting, re-basing\<close>

lemma validate_stamped:
  assumes "validate_one_v2_batch L buf = Ok vb"
  shows "validate_one_v2_batch L
      (patch_base_offset_and_leader_epoch off e (take HEADER_LEN buf) @ drop HEADER_LEN buf)
    = Ok (vb\<lparr>vb_header := (vb_header vb)\<lparr>hdr_base_offset := off, hdr_partition_leader_epoch := e\<rparr>\<rparr>)"
proof -
  let ?head = "patch_base_offset_and_leader_epoch off e (take HEADER_LEN buf)"
  have long: "\<not> length buf < HEADER_LEN"
    using assms by (auto simp: validate_one_v2_batch_def)
  then have n: "length (take HEADER_LEN buf) = HEADER_LEN"
    by simp
  then have len: "length ?head = HEADER_LEN"
    by (simp add: patch_bytes) (simp add: slice_at_def HEADER_LEN_def)
  obtain hdr where hdr: "ref_from_bytes (take HEADER_LEN buf) = Some hdr"
    using n by (simp add: ref_from_bytes_def)
  have "drop CRC_COVERAGE_START ?head = drop CRC_COVERAGE_START (take HEADER_LEN buf)"
    using n by (simp add: patch_bytes) (simp add: CRC_COVERAGE_START_def slice_at_def HEADER_LEN_def)
  then have "drop CRC_COVERAGE_START (?head @ drop HEADER_LEN buf)
    = drop CRC_COVERAGE_START (take HEADER_LEN buf @ drop HEADER_LEN buf)"
    using n len by (simp only: drop_append)
  then have "drop CRC_COVERAGE_START (?head @ drop HEADER_LEN buf) = drop CRC_COVERAGE_START buf"
    by simp
  then have "crc_covered (?head @ drop HEADER_LEN buf) k = crc_covered buf k" for k
    using len long by (simp add: crc_covered_def get_range_def slice_at_def)
  then show ?thesis
    using assms long len hdr patch_header[OF hdr, of off e]
    by (auto simp: validate_one_v2_batch_def Let_def and_then_eq_Ok split: if_splits option.splits)
qed

lemma count_loop_wire:
  assumes "length body + 49 < 2 ^ 31" and "length (rb_records b) < 2 ^ 31"
  shows "count_loop (batch_wire L b body @ rest) acc = count_loop rest (acc + length (rb_records b))"
proof -
  let ?h = "sealed_header L b body"
  have "usize_try_from (hdr_batch_length ?h) = Some (49 + length body)"
    unfolding sealed_fields by (rule usize_try_from_of_nat) (use assms(1) in simp)
  moreover have "(batch_wire L b body @ rest) ! MAGIC_OFFSET = 2"
    by (simp add: batch_wire_def header_bytes_def prefix_bytes_def MAGIC_OFFSET_def nth_append)
  moreover have "sint (hdr_records_count ?h) = int (length (rb_records b))"
    using assms(2) by (simp add: sint_of_nat_small)
  moreover have "take HEADER_LEN (batch_wire L b body @ rest) = header_bytes ?h"
    "drop (12 + (49 + length body)) (batch_wire L b body @ rest) = rest"
    by (simp_all add: batch_wire_def) (simp add: HEADER_LEN_def)
  ultimately show ?thesis
    by (subst count_loop.simps) (simp add: HEADER_LEN_def)
qed

lemma saturate_exact: "- (2 ^ 63) \<le> n \<Longrightarrow> n < 2 ^ 63 \<Longrightarrow> sint (saturate_i64 n) = n"
  by (simp add: saturate_i64_def sint_sbintrunc' signed_take_bit_int_eq_self)

section \<open>A concrete library\<close>

text \<open>CRC-32C bit by bit, with the reflected Castagnoli polynomial.\<close>

definition crc_bit :: "u32 \<Rightarrow> u32" where
  "crc_bit c = (if c AND 1 = 1 then drop_bit 1 c XOR 0x82F63B78 else drop_bit 1 c)"

definition crc_byte :: "u32 \<Rightarrow> u8 \<Rightarrow> u32" where
  "crc_byte c b = crc_bit (crc_bit (crc_bit (crc_bit (crc_bit (crc_bit (crc_bit (crc_bit (c XOR ucast b))))))))"

definition crc32c_reference :: "u32 \<Rightarrow> bytes \<Rightarrow> u32" where
  "crc32c_reference seed data = NOT (foldl crc_byte (NOT seed) data)"

definition reference_libs :: libs where
  "reference_libs =
     codec_libs.extend stored_libs \<lparr>crc32c = crc32c_reference 0, crc32c_append = crc32c_reference\<rparr>"

lemma reference_libs_crc: "crc_appends reference_libs"
  by (simp add: crc_appends_def reference_libs_def codec_libs.defs crc32c_reference_def)

text \<open>The reference vector of the repository's tests.\<close>

lemma crc32c_reference_vector:
  "crc32c_reference 0 [0x31, 0x32, 0x33, 0x34, 0x35, 0x36, 0x37, 0x38, 0x39] = 0xE3069283"
  by (simp add: crc32c_reference_def crc_byte_def crc_bit_def)

text \<open>What a batch needs of its codec: decompression inverts compression when the output fits the limit.\<close>

definition codec_round_trips :: "libs \<Rightarrow> CompressionType \<Rightarrow> bool" where
  "codec_round_trips L c \<longleftrightarrow>
     (\<forall>raw z n. (compress L c raw = Ok z \<or> (\<exists>level. compress_with_level L c raw level = Ok z))
        \<longrightarrow> length raw \<le> n \<longrightarrow> decompress L c z n = Ok raw)"

text \<open>A gzip batch with one record.\<close>

definition sample_batch :: RecordBatch where
  "sample_batch =
     RecordBatch_default\<lparr>rb_attributes := with_compression Gzip 0, rb_base_timestamp := 1000,
       rb_max_timestamp := 995, rb_records := [sample_record]\<rparr>"

definition plain_sample_batch :: RecordBatch where
  "plain_sample_batch = sample_batch\<lparr>rb_attributes := 0\<rparr>"

definition sample_wire :: bytes where
  "sample_wire = batch_wire reference_libs sample_batch (records_bytes [sample_record])"

lemma sample_records: "rb_records sample_batch = [sample_record]" "rb_records plain_sample_batch = [sample_record]"
  "list_all record_wf (rb_records sample_batch)" "compression (rb_attributes sample_batch) = Gzip"
  "length (records_bytes [sample_record]) \<le> 60"
  using sample_record_wf records_bytes_laws(2)[of "[sample_record]"]
  by (simp_all add: sample_batch_def plain_sample_batch_def)

lemma sample_encoded:
  "encode_with_compression_level reference_libs sample_batch (Some 6) [] = Some (Ok sample_wire)"
proof -
  have "encode_header reference_libs sample_batch (records_bytes [sample_record]) []
    = Some (Ok ([] @ header_bytes (sealed_header reference_libs sample_batch (records_bytes [sample_record]))))"
    using sample_records by (intro encode_header_eq reference_libs_crc) simp_all
  moreover have "compress_with_level reference_libs Gzip raw 6 = Ok raw" for raw
    by (simp add: compress_with_level_def check_level_def GZIP_LEVELS_def word_sless_alt reference_libs_def
        stored_libs_def codec_libs.defs)
  ultimately show ?thesis
    using records_bytes_laws(1)[OF sample_records(3), of "[]"] sample_records
    by (simp add: encode_with_compression_level_def sample_wire_def batch_wire_def put_slice_def Let_def)
qed

lemma sample_validated:
  "validate_one_v2_batch reference_libs (sample_wire @ rest) =
     Ok \<lparr>vb_header = sealed_header reference_libs sample_batch (records_bytes [sample_record]),
         vb_total_len = length sample_wire, vb_raw_body = records_bytes [sample_record]\<rparr>"
  unfolding sample_wire_def by (rule validate_wire) (use sample_records in simp)

lemma reference_gzip: "codec_round_trips reference_libs Gzip"
  by (auto simp: codec_round_trips_def reference_libs_def stored_libs_def codec_libs.defs
      compress_with_level_def and_then_eq_Ok)

section \<open>Properties\<close>


text \<open>
  C37: encoding a batch never panics, and a batch without compression whose records are well formed
  and fit the 31-bit length always encodes, to exactly the predicted number of bytes; both entry
  points write the same bytes.
\<close>

theorem batch_encoder_total:
  "encode_with_compression_level L b level buf \<noteq> None
   \<and> (list_all record_wf (rb_records b) \<and> length (rb_records b) < 2 ^ 31
      \<and> (\<Sum>r \<leftarrow> rb_records b. Record_encoded_len r) + 49 < 2 ^ 31
      \<and> compression (rb_attributes b) = CompressionNone
      \<longrightarrow> (\<exists>bs. encode_batch L b buf = Some (Ok (buf @ bs)) \<and> encode_to_bytes_batch L b = Some (Ok bs)
            \<and> length bs = encoded_batch_len b))"
proof (intro conjI impI)
  show "encode_with_compression_level L b level buf \<noteq> None"
    unfolding encode_with_compression_level_def Let_def
    by (intro if_not_None run_then_not_None encode_uncompressed_total encode_records_total
        encode_header_total) simp_all
next
  assume a: "list_all record_wf (rb_records b) \<and> length (rb_records b) < 2 ^ 31
      \<and> (\<Sum>r \<leftarrow> rb_records b. Record_encoded_len r) + 49 < 2 ^ 31
      \<and> compression (rb_attributes b) = CompressionNone"
  then have wf: "list_all record_wf (rb_records b)"
    by blast
  show "\<exists>bs. encode_batch L b buf = Some (Ok (buf @ bs)) \<and> encode_to_bytes_batch L b = Some (Ok bs)
      \<and> length bs = encoded_batch_len b"
    using a encode_uncompressed_eq[OF records_bytes_laws(1)[OF wf], of L] records_bytes_laws(2)[OF wf]
    by (simp add: encode_batch_def encode_with_compression_level_def encode_to_bytes_batch_def put_slice_def
        encoded_batch_len_def)
qed

theorem batch_encoder_total_witness:
  "\<exists>bs. encode_batch reference_libs plain_sample_batch [9] = Some (Ok ([9] @ bs))
    \<and> encode_to_bytes_batch reference_libs plain_sample_batch = Some (Ok bs)
    \<and> length bs = encoded_batch_len plain_sample_batch"
proof (rule conjunct2[OF batch_encoder_total, rule_format])
  show "list_all record_wf (rb_records plain_sample_batch) \<and> length (rb_records plain_sample_batch) < 2 ^ 31
    \<and> (\<Sum>r \<leftarrow> rb_records plain_sample_batch. Record_encoded_len r) + 49 < 2 ^ 31
    \<and> compression (rb_attributes plain_sample_batch) = CompressionNone"
    using sample_record_wf
    by (simp add: sample_records) (simp add: plain_sample_batch_def compression_def from_attribute_bits_def)
qed


text \<open>
  C13: on every input and every split of it into chunks, the owned decoder returns what the
  zero-copy decoder returns on the contiguous bytes, with the records parsed: the same batch and
  remaining input, or the same error.
\<close>

theorem owned_decoder_refines_borrowed:
  assumes "crc_appends L"
  shows "flatten (decode_with_policy L output_limit parts) =
    and_then (decode_borrow_impl L output_limit (concat parts)) (\<lambda>(bb, rest).
    and_then (finish_batch (bb_header bb) (body_bytes (bb_body bb))) (\<lambda>b. Ok (b, rest)))"
  using decode_flatten[OF assms] by (simp add: decode_slice_def read_then_def)

theorem owned_decoder_refines_borrowed_witness:
  "flatten (decode_with_policy reference_libs (\<lambda>n. n) [take 30 sample_wire, drop 30 sample_wire, [1]]) =
    and_then (decode_borrow_impl reference_libs (\<lambda>n. n) (concat [take 30 sample_wire, drop 30 sample_wire, [1]]))
      (\<lambda>(bb, rest). and_then (finish_batch (bb_header bb) (body_bytes (bb_body bb))) (\<lambda>b. Ok (b, rest)))"
  by (rule owned_decoder_refines_borrowed[OF reference_libs_crc])

text \<open>
  C14: the two-stage validation of the produce path accepts exactly the inputs that the owned
  decoder accepts, and finds the same end of the batch.
\<close>

theorem validation_equals_decoding:
  assumes "crc_appends L"
  shows "(\<exists>b. flatten (decode_with_policy L output_limit parts) = Ok (b, rest))
    \<longleftrightarrow> (\<exists>vb. validate_one_v2_batch L (concat parts) = Ok vb \<and> validate_records L output_limit vb = Ok ()
          \<and> rest = drop (vb_total_len vb) (concat parts))"
  unfolding decode_flatten[OF assms] decode_slice_eq validate_records_iff by blast

theorem validation_equals_decoding_witness:
  "(\<exists>b. flatten (decode_with_policy reference_libs (\<lambda>n. n) [sample_wire, [1]]) = Ok (b, [1]))
    \<longleftrightarrow> (\<exists>vb. validate_one_v2_batch reference_libs (concat [sample_wire, [1]]) = Ok vb
          \<and> validate_records reference_libs (\<lambda>n. n) vb = Ok ()
          \<and> [1] = drop (vb_total_len vb) (concat [sample_wire, [1]]))"
  by (rule validation_equals_decoding[OF reference_libs_crc])

text \<open>
  C22: stamping the base offset and the leader epoch into an accepted batch leaves it accepted,
  with only these two header fields changed and the verdict on its records unchanged.
\<close>

theorem stamped_batch_valid:
  assumes "validate_one_v2_batch L buf = Ok vb"
  shows "\<exists>vb'. validate_one_v2_batch L
      (patch_base_offset_and_leader_epoch off e (take HEADER_LEN buf) @ drop HEADER_LEN buf) = Ok vb'
    \<and> vb_header vb' = (vb_header vb)\<lparr>hdr_base_offset := off, hdr_partition_leader_epoch := e\<rparr>
    \<and> vb_total_len vb' = vb_total_len vb
    \<and> validate_records L output_limit vb' = validate_records L output_limit vb"
  using validate_stamped[OF assms, of off e] by (simp add: validate_records_spec plain_body_def Let_def)

theorem stamped_batch_valid_witness:
  "\<exists>vb'. validate_one_v2_batch reference_libs
      (patch_base_offset_and_leader_epoch 700 3 (take HEADER_LEN sample_wire) @ drop HEADER_LEN sample_wire) = Ok vb'
    \<and> vb_header vb' = (sealed_header reference_libs sample_batch (records_bytes [sample_record]))
        \<lparr>hdr_base_offset := 700, hdr_partition_leader_epoch := 3\<rparr>
    \<and> vb_total_len vb' = length sample_wire"
  using stamped_batch_valid[OF sample_validated[of "[]", simplified], of 700 3] by auto

text \<open>
  Over a concatenation of encoded batches the record counter returns the sum of their record
  counts, whatever their compression.
\<close>

theorem count_concatenated:
  assumes "crc_appends L"
    and "list_all2 (\<lambda>b w. list_all record_wf (rb_records b)
      \<and> (\<exists>level. encode_with_compression_level L b level [] = Some (Ok w))) bs ws"
  shows "count_records_in_v2_batches (concat ws) = (\<Sum>b \<leftarrow> bs. length (rb_records b))"
proof -
  have "\<exists>body. w = batch_wire L b body \<and> length body + 49 < 2 ^ 31 \<and> length (rb_records b) < 2 ^ 31"
    if "list_all record_wf (rb_records b)" "encode_with_compression_level L b level [] = Some (Ok w)" for b w level
    using encode_success[OF assms(1) that] by (metis append_Nil)
  then have wires: "list_all2 (\<lambda>b w. \<exists>body. w = batch_wire L b body \<and> length body + 49 < 2 ^ 31
      \<and> length (rb_records b) < 2 ^ 31) bs ws"
    using assms(2) by (auto elim!: list_all2_mono)
  then have loop: "count_loop (concat ws) acc = acc + (\<Sum>b \<leftarrow> bs. length (rb_records b))" for acc
  proof (induction bs ws arbitrary: acc rule: list_all2_induct)
    case Nil
    then show ?case by (simp add: count_loop.simps HEADER_LEN_def)
  next
    case (Cons b bs w ws)
    then show ?case by (auto simp: count_loop_wire)
  qed
  show ?thesis
  proof (cases ws)
    case Nil
    then show ?thesis using wires by (simp add: count_records_in_v2_batches_def)
  next
    case (Cons w ws')
    then obtain b body where "concat ws = batch_wire L b body @ concat ws'"
      using wires by (auto simp: list_all2_Cons2)
    then have "MAGIC_OFFSET < length (concat ws)" "concat ws ! MAGIC_OFFSET = 2"
      by (simp_all add: batch_wire_def header_bytes_def prefix_bytes_def MAGIC_OFFSET_def nth_append HEADER_LEN_def)
    then show ?thesis
      using loop[of 0] by (simp add: count_records_in_v2_batches_def)
  qed
qed

theorem count_concatenated_witness:
  "count_records_in_v2_batches (concat [sample_wire, sample_wire])
     = (\<Sum>b \<leftarrow> [sample_batch, sample_batch]. length (rb_records b))"
  using sample_records(3) sample_encoded
  by (intro count_concatenated[OF reference_libs_crc]) auto

text \<open>
  Stamping a delete horizon sets the attribute bit and stores the horizon, keeps the number of
  records and, for every record whose re-based delta fits 64 bits, its absolute timestamp.
\<close>

theorem delete_horizon_keeps_timestamps:
  "delete_horizon_ms (with_delete_horizon b h) = Some h
   \<and> length (rb_records (with_delete_horizon b h)) = length (rb_records b)
   \<and> (\<forall>i < length (rb_records b).
        let t = sint (rb_base_timestamp b) + sint (rec_timestamp_delta (rb_records b ! i)) in
        - (2 ^ 63) \<le> t \<and> t < 2 ^ 63 \<and> - (2 ^ 63) \<le> t - sint h \<and> t - sint h < 2 ^ 63
        \<longrightarrow> sint (rb_base_timestamp (with_delete_horizon b h))
              + sint (rec_timestamp_delta (rb_records (with_delete_horizon b h) ! i)) = t)"
  by (simp add: delete_horizon_ms_def with_delete_horizon_def bit_getters bit_setters Let_def
      saturating_sub_def saturating_add_def saturate_exact)

theorem delete_horizon_keeps_timestamps_witness:
  "sint (rb_base_timestamp (with_delete_horizon sample_batch 5000))
     + sint (rec_timestamp_delta (rb_records (with_delete_horizon sample_batch 5000) ! 0)) = 995"
  using conjunct2[OF conjunct2[OF delete_horizon_keeps_timestamps, of sample_batch 5000],
      rule_format, of 0]
  by (simp add: sample_batch_def sample_record_def)

text \<open>
  Equality of borrowed batches is not reflexive: a batch that claims a record its body does
  not hold differs from itself.
\<close>

theorem borrowed_eq_not_reflexive: "\<exists>bb. \<not> borrowed_eq bb bb"
proof -
  let ?bb = "\<lparr>bb_header = sealed_header reference_libs sample_batch [], bb_body = BorrowedBody []\<rparr>"
  have "\<exists>e. parse_one_record [] = Err e"
    by (simp add: parse_one_record_def parse_one_record_into_def read_then_def map_read_err_def
        get_varlong_def get_uvarlong_def MAX_VARLONG_BYTES_def numeral_eq_Suc)
  then have "\<exists>e. to_owned ?bb = Err e"
    by (auto simp: to_owned_def sample_records)
  then show ?thesis
    by (auto simp: borrowed_eq_def intro!: exI[of _ ?bb])
qed

end
