(* ===== verification/Containers.thy ===== *)
theory Containers
  imports Prelude "HOL-Library.AList" "HOL-Library.List_Lexorder"
begin

text \<open>
  The maps of the standard library as association lists. A \<open>HashMap\<close> is a list with distinct keys
  in any order, which stands for the unspecified order of its iterators: what is proved of a list
  holds for every order. A \<open>BTreeMap\<close> is a list with ascending keys. Both satisfy the locale
  \<open>finite_map\<close>, in which the facts about replaying the entries of a map are proved once.
\<close>

section \<open>The interface\<close>

locale finite_map =
  fixes ins :: "'k \<Rightarrow> 'v \<Rightarrow> ('k \<times> 'v) list \<Rightarrow> ('k \<times> 'v) list"
    and del :: "'k \<Rightarrow> ('k \<times> 'v) list \<Rightarrow> ('k \<times> 'v) list"
    and wf :: "('k \<times> 'v) list \<Rightarrow> bool"
  assumes wf_empty: "wf []"
    and wf_ins: "wf m \<Longrightarrow> wf (ins k v m)"
    and wf_del: "wf m \<Longrightarrow> wf (del k m)"
    and wf_distinct: "wf m \<Longrightarrow> distinct (map fst m)"
    and get_ins: "wf m \<Longrightarrow> map_of (ins k v m) = (map_of m)(k \<mapsto> v)"
    and get_del: "map_of (del k m) = (map_of m)(k := None)"
    and set_del: "set (del k m) = {p \<in> set m. fst p \<noteq> k}"
    and ins_snoc: "wf (m @ [(k, v)]) \<Longrightarrow> ins k v m = m @ [(k, v)]"
    and wf_prefix: "wf (m @ m') \<Longrightarrow> wf m"
begin

lemma in_set_iff: "wf m \<Longrightarrow> (k, v) \<in> set m \<longleftrightarrow> map_of m k = Some v"
  using wf_distinct by simp

lemma set_ins:
  assumes "wf m"
  shows "set (ins k v m) = insert (k, v) {p \<in> set m. fst p \<noteq> k}"
proof -
  have "(a, b) \<in> set (ins k v m) \<longleftrightarrow> (a, b) \<in> insert (k, v) {p \<in> set m. fst p \<noteq> k}" for a b
    using assms by (auto simp: in_set_iff wf_ins get_ins)
  then show ?thesis
    by auto
qed

lemma ball_ins:
  "wf m \<Longrightarrow> P (k, v) \<Longrightarrow> (\<forall>p \<in> set m. P p) \<Longrightarrow> (\<forall>p \<in> set (ins k v m). P p)"
  by (simp add: set_ins)

lemma ball_del: "(\<forall>p \<in> set m. P p) \<Longrightarrow> (\<forall>p \<in> set (del k m). P p)"
  by (simp add: set_del)

lemma replay_append: "wf (m' @ m) \<Longrightarrow> fold (\<lambda>(k, v). ins k v) m m' = m' @ m"
proof (induction m arbitrary: m')
  case (Cons p m)
  obtain k v where p: "p = (k, v)"
    by (cases p)
  have w: "wf ((m' @ [(k, v)]) @ m)"
    using Cons.prems p by simp
  then show ?case
    using Cons.IH[OF w] ins_snoc[OF wf_prefix[OF w]] by (simp add: p)
qed simp

text \<open>Inserting the entries of a map one by one, in its order, rebuilds it.\<close>

lemma replay: "wf m \<Longrightarrow> fold (\<lambda>(k, v). ins k v) m [] = m"
  using replay_append[of "[]" m] by simp

lemma replay_values:
  assumes "wf m" and "\<forall>(k, v) \<in> set m. key v = k"
  shows "fold (\<lambda>v. ins (key v) v) (map snd m) [] = m"
proof -
  have "fold (\<lambda>v. ins (key v) v) (map snd xs) acc = fold (\<lambda>(k, v). ins k v) xs acc"
    if "\<forall>(k, v) \<in> set xs. key v = k" for xs acc
    using that by (induction xs arbitrary: acc) auto
  then show ?thesis
    using assms replay by simp
qed

end

section \<open>\<open>HashMap\<close>\<close>

type_synonym ('k, 'v) hash_map = "('k \<times> 'v) list"

definition hm_insert :: "'k \<Rightarrow> 'v \<Rightarrow> ('k, 'v) hash_map \<Rightarrow> ('k, 'v) hash_map" where
  "hm_insert k v m = AList.update k v m"

definition hm_remove :: "'k \<Rightarrow> ('k, 'v) hash_map \<Rightarrow> ('k, 'v) hash_map" where
  "hm_remove k m = AList.delete k m"

definition hm_wf :: "('k, 'v) hash_map \<Rightarrow> bool" where
  "hm_wf m \<longleftrightarrow> distinct (map fst m)"

lemma update_snoc: "k \<notin> fst ` set m \<Longrightarrow> AList.update k v m = m @ [(k, v)]"
  by (induction m) auto

lemma set_delete: "set (AList.delete k m) = {p \<in> set m. fst p \<noteq> k}"
  by (auto simp: AList.delete_eq)

interpretation hm: finite_map hm_insert hm_remove hm_wf
  by unfold_locales
    (auto simp: hm_insert_def hm_remove_def hm_wf_def distinct_update distinct_delete update_conv'
      delete_conv' set_delete update_snoc)

section \<open>\<open>BTreeMap\<close>\<close>

type_synonym ('k, 'v) btree_map = "('k \<times> 'v) list"

fun bt_insert :: "'k::linorder \<Rightarrow> 'v \<Rightarrow> ('k, 'v) btree_map \<Rightarrow> ('k, 'v) btree_map" where
  "bt_insert k v [] = [(k, v)]"
| "bt_insert k v ((a, b) # m) =
     (if k < a then (k, v) # (a, b) # m
      else if k = a then (k, v) # m
      else (a, b) # bt_insert k v m)"

definition bt_remove :: "'k::linorder \<Rightarrow> ('k, 'v) btree_map \<Rightarrow> ('k, 'v) btree_map" where
  "bt_remove k m = AList.delete k m"

definition bt_wf :: "('k::linorder, 'v) btree_map \<Rightarrow> bool" where
  "bt_wf m \<longleftrightarrow> sorted_wrt (<) (map fst m)"

lemma keys_bt_insert: "fst ` set (bt_insert k v m) = insert k (fst ` set m)"
  by (induction k v m rule: bt_insert.induct) auto

lemma bt_wf_insert: "bt_wf m \<Longrightarrow> bt_wf (bt_insert k v m)"
proof (induction k v m rule: bt_insert.induct)
  case (2 k v a b m)
  have "\<forall>x \<in> fst ` set (bt_insert k v m). a < x" if "\<not> k < a" "k \<noteq> a"
    using 2 that unfolding keys_bt_insert by (auto simp: bt_wf_def)
  with 2 show ?case
    by (auto simp: bt_wf_def)
qed (simp add: bt_wf_def)

lemma bt_wf_distinct: "bt_wf m \<Longrightarrow> distinct (map fst m)"
  unfolding bt_wf_def by (simp add: strict_sorted_iff)

lemma bt_wf_remove: "bt_wf m \<Longrightarrow> bt_wf (bt_remove k m)"
  by (induction m) (auto simp: bt_remove_def AList.delete_eq bt_wf_def)

lemma map_of_bt_insert: "bt_wf m \<Longrightarrow> map_of (bt_insert k v m) = (map_of m)(k \<mapsto> v)"
proof (induction k v m rule: bt_insert.induct)
  case (2 k v a b m)
  then show ?case
    by (auto simp: bt_wf_def fun_eq_iff)
qed simp

lemma bt_insert_snoc: "bt_wf (m @ [(k, v)]) \<Longrightarrow> bt_insert k v m = m @ [(k, v)]"
  by (induction k v m rule: bt_insert.induct) (auto simp: bt_wf_def)

interpretation bt: finite_map bt_insert bt_remove "bt_wf :: ('k::linorder, 'v) btree_map \<Rightarrow> bool"
proof unfold_locales
  show "map_of (bt_remove k m) = (map_of m)(k := None)" for k and m :: "('k, 'v) btree_map"
    by (simp add: bt_remove_def delete_conv')
  show "set (bt_remove k m) = {p \<in> set m. fst p \<noteq> k}" for k and m :: "('k, 'v) btree_map"
    by (simp add: bt_remove_def set_delete)
  show "bt_wf (m @ m') \<Longrightarrow> bt_wf m" for m m' :: "('k, 'v) btree_map"
    by (simp add: bt_wf_def sorted_wrt_append)
qed (simp_all add: bt_wf_insert bt_wf_remove bt_wf_distinct map_of_bt_insert bt_insert_snoc, simp add: bt_wf_def)

end
