(* ===== verification/Acl.thy ===== *)
theory Acl
  imports Containers Wire
begin

text \<open>
  Access control entries of the metadata crate (\<open>crates/metadata/src/acl.rs\<close>) and the index that
  the authorizer queries (\<open>image/acl_index.rs\<close>). The index is shown to implement a plain set of
  entries: its contract is the locale \<open>acl_store\<close>.
\<close>

section \<open>Entries and filters\<close>

datatype ResourceType = ResTopic | ResGroup | ResCluster | ResTransactionalId | ResDelegationToken | ResUser

datatype PatternType = Literal | Prefixed

datatype PermissionType = Allow | Deny

datatype AclOperation =
    OpAll | OpRead | OpWrite | OpCreate | OpDelete | OpAlter | OpDescribe | OpClusterAction
  | OpDescribeConfigs | OpAlterConfigs | OpIdempotentWrite | OpTwoPhaseCommit | OpCreateTokens
  | OpDescribeTokens

record AclEntry =
  acl_resource_type :: ResourceType
  acl_resource_name :: bytes
  acl_pattern_type :: PatternType
  acl_principal :: bytes
  acl_host :: bytes
  acl_operation :: AclOperation
  acl_permission_type :: PermissionType

record AclEntryFilter =
  af_resource_type :: "ResourceType option"
  af_resource_name :: "bytes option"
  af_pattern_type :: "PatternType option"
  af_principal :: "bytes option"
  af_host :: "bytes option"
  af_operation :: "AclOperation option"
  af_permission_type :: "PermissionType option"

definition is_none_or :: "('a \<Rightarrow> bool) \<Rightarrow> 'a option \<Rightarrow> bool" where
  "is_none_or P x = (case x of None \<Rightarrow> True | Some y \<Rightarrow> P y)"

definition filter_matches :: "AclEntryFilter \<Rightarrow> AclEntry \<Rightarrow> bool" where
  "filter_matches f e \<longleftrightarrow>
     is_none_or (\<lambda>x. x = acl_resource_type e) (af_resource_type f)
     \<and> is_none_or (\<lambda>x. x = acl_resource_name e) (af_resource_name f)
     \<and> is_none_or (\<lambda>x. x = acl_pattern_type e) (af_pattern_type f)
     \<and> is_none_or (\<lambda>x. x = acl_principal e) (af_principal f)
     \<and> is_none_or (\<lambda>x. x = acl_host e) (af_host f)
     \<and> is_none_or (\<lambda>x. x = acl_operation e) (af_operation f)
     \<and> is_none_or (\<lambda>x. x = acl_permission_type e) (af_permission_type f)"

section \<open>The index\<close>

text \<open>The literal \<open>"*"\<close>.\<close>

definition WILDCARD_RESOURCE :: bytes where
  "WILDCARD_RESOURCE = [0x2A]"

record LiteralAcls =
  la_by_name :: "(bytes, AclEntry list) hash_map"
  la_wildcard :: "AclEntry list"

record PrefixedAcls =
  pa_by_prefix :: "(bytes, AclEntry list) hash_map"
  pa_lengths :: "(nat, nat) btree_map"

record AclIndex =
  ai_literal :: "(ResourceType, LiteralAcls) hash_map"
  ai_prefixed :: "(ResourceType, PrefixedAcls) hash_map"

definition AclIndex_default :: AclIndex where
  "AclIndex_default = \<lparr>ai_literal = [], ai_prefixed = []\<rparr>"

text \<open>\<open>map.entry(k).or_default()\<close> with what is then done to the entry.\<close>

definition or_default :: "'v \<Rightarrow> 'v option \<Rightarrow> 'v" where
  "or_default d x = (case x of None \<Rightarrow> d | Some v \<Rightarrow> v)"

definition hm_entry :: "'k \<Rightarrow> 'v \<Rightarrow> ('v \<Rightarrow> 'v) \<Rightarrow> ('k, 'v) hash_map \<Rightarrow> ('k, 'v) hash_map" where
  "hm_entry k d f m = hm_insert k (f (or_default d (map_of m k))) m"

text \<open>The two \<open>bucket\<close> functions return a reference; \<open>f\<close> is what is done to the bucket.\<close>

definition LiteralAcls_bucket :: "bytes \<Rightarrow> (AclEntry list \<Rightarrow> AclEntry list) \<Rightarrow> LiteralAcls \<Rightarrow> LiteralAcls" where
  "LiteralAcls_bucket name f la =
     (if name = WILDCARD_RESOURCE then la\<lparr>la_wildcard := f (la_wildcard la)\<rparr>
      else la\<lparr>la_by_name := hm_entry name [] f (la_by_name la)\<rparr>)"

definition PrefixedAcls_bucket :: "bytes \<Rightarrow> (AclEntry list \<Rightarrow> AclEntry list) \<Rightarrow> PrefixedAcls \<Rightarrow> PrefixedAcls" where
  "PrefixedAcls_bucket p f pa =
     (case map_of (pa_by_prefix pa) p of
        Some b \<Rightarrow> pa\<lparr>pa_by_prefix := hm_insert p (f b) (pa_by_prefix pa)\<rparr>
      | None \<Rightarrow>
          pa\<lparr>pa_by_prefix := hm_insert p (f []) (pa_by_prefix pa),
             pa_lengths := bt_insert (length p) (or_default 0 (map_of (pa_lengths pa) (length p)) + 1)
               (pa_lengths pa)\<rparr>)"

definition AclIndex_insert :: "AclEntry \<Rightarrow> AclIndex \<Rightarrow> AclIndex" where
  "AclIndex_insert entry idx =
     (let push = (\<lambda>bucket. filter (\<lambda>e. e \<noteq> entry) bucket @ [entry]) in
      case acl_pattern_type entry of
        Literal \<Rightarrow>
          idx\<lparr>ai_literal := hm_entry (acl_resource_type entry) \<lparr>la_by_name = [], la_wildcard = []\<rparr>
                (LiteralAcls_bucket (acl_resource_name entry) push) (ai_literal idx)\<rparr>
      | Prefixed \<Rightarrow>
          idx\<lparr>ai_prefixed := hm_entry (acl_resource_type entry) \<lparr>pa_by_prefix = [], pa_lengths = []\<rparr>
                (PrefixedAcls_bucket (acl_resource_name entry) push) (ai_prefixed idx)\<rparr>)"

text \<open>\<open>HashMap::retain\<close> whose closure first shrinks the value.\<close>

definition hm_retain :: "('v \<Rightarrow> 'v) \<Rightarrow> ('v \<Rightarrow> bool) \<Rightarrow> ('k, 'v) hash_map \<Rightarrow> ('k, 'v) hash_map" where
  "hm_retain f keep m = filter (\<lambda>(k, v). keep v) (map (\<lambda>(k, v). (k, f v)) m)"

definition LiteralAcls_retain :: "(AclEntry \<Rightarrow> bool) \<Rightarrow> LiteralAcls \<Rightarrow> LiteralAcls" where
  "LiteralAcls_retain keep la =
     la\<lparr>la_by_name := hm_retain (filter keep) (\<lambda>b. b \<noteq> []) (la_by_name la),
        la_wildcard := filter keep (la_wildcard la)\<rparr>"

definition LiteralAcls_is_empty :: "LiteralAcls \<Rightarrow> bool" where
  "LiteralAcls_is_empty la \<longleftrightarrow> la_by_name la = [] \<and> la_wildcard la = []"

definition forget_length :: "nat \<Rightarrow> (nat, nat) btree_map \<Rightarrow> (nat, nat) btree_map" where
  "forget_length len lengths =
     (case map_of lengths len of
        None \<Rightarrow> lengths
      | Some count \<Rightarrow>
          if count - 1 = 0 then bt_remove len lengths else bt_insert len (count - 1) lengths)"

definition PrefixedAcls_retain :: "(AclEntry \<Rightarrow> bool) \<Rightarrow> PrefixedAcls \<Rightarrow> PrefixedAcls" where
  "PrefixedAcls_retain keep pa =
     pa\<lparr>pa_by_prefix := hm_retain (filter keep) (\<lambda>b. b \<noteq> []) (pa_by_prefix pa),
        pa_lengths := fold (\<lambda>(p, b) ls. if filter keep b = [] then forget_length (length p) ls else ls)
          (pa_by_prefix pa) (pa_lengths pa)\<rparr>"

definition PrefixedAcls_is_empty :: "PrefixedAcls \<Rightarrow> bool" where
  "PrefixedAcls_is_empty pa \<longleftrightarrow> pa_by_prefix pa = []"

definition AclIndex_remove_matching :: "AclEntryFilter \<Rightarrow> AclIndex \<Rightarrow> AclIndex" where
  "AclIndex_remove_matching f idx =
     (let keep = (\<lambda>e. \<not> filter_matches f e) in
      idx\<lparr>ai_literal := hm_retain (LiteralAcls_retain keep) (\<lambda>la. \<not> LiteralAcls_is_empty la) (ai_literal idx),
          ai_prefixed := hm_retain (PrefixedAcls_retain keep) (\<lambda>pa. \<not> PrefixedAcls_is_empty pa) (ai_prefixed idx)\<rparr>)"

text \<open>\<open>str::get(..len)\<close>: \<open>None\<close> past the end and inside a character.\<close>

definition is_char_boundary :: "bytes \<Rightarrow> nat \<Rightarrow> bool" where
  "is_char_boundary s n \<longleftrightarrow> n = 0 \<or> n = length s \<or> n < length s \<and> \<not> continuation (s ! n)"

definition str_get :: "bytes \<Rightarrow> nat \<Rightarrow> bytes option" where
  "str_get s n = (if is_char_boundary s n then Some (take n s) else None)"

definition PrefixedAcls_matching :: "bytes \<Rightarrow> PrefixedAcls \<Rightarrow> AclEntry list" where
  "PrefixedAcls_matching name pa =
     concat (List.map_filter (\<lambda>p. map_of (pa_by_prefix pa) p)
       (List.map_filter (\<lambda>(len, _). str_get name len)
         (filter (\<lambda>(len, _). len \<le> length name) (pa_lengths pa))))"

definition AclIndex_matching :: "ResourceType \<Rightarrow> bytes \<Rightarrow> AclIndex \<Rightarrow> AclEntry list" where
  "AclIndex_matching rt name idx =
     (let lit = map_of (ai_literal idx) rt;
          named = (case lit of None \<Rightarrow> [] | Some la \<Rightarrow> or_default [] (map_of (la_by_name la) name));
          wild = (case lit of None \<Rightarrow> [] | Some la \<Rightarrow> la_wildcard la);
          pre = (case map_of (ai_prefixed idx) rt of None \<Rightarrow> [] | Some pa \<Rightarrow> PrefixedAcls_matching name pa)
      in named @ wild @ pre)"

definition AclIndex_iter :: "AclIndex \<Rightarrow> AclEntry list" where
  "AclIndex_iter idx =
     concat (map (\<lambda>(_, la). concat (map snd (la_by_name la)) @ la_wildcard la) (ai_literal idx))
     @ concat (map (\<lambda>(_, pa). concat (map snd (pa_by_prefix pa))) (ai_prefixed idx))"

section \<open>Levels of the index\<close>

text \<open>
  The index nests maps: resource type, then name or prefix, then a bucket. \<open>ents\<close> lists the entries
  under one value of a level, \<open>vwf k v\<close> says that the value \<open>v\<close> may stand at key \<open>k\<close>, and \<open>key\<close> is
  the key at which an entry belongs. What one level promises follows from what the level below it
  promises, so the same lemmas carry the buckets of a resource type and the resource types of the
  index.
\<close>

definition level_wf :: "('k \<Rightarrow> 'v \<Rightarrow> bool) \<Rightarrow> ('k, 'v) hash_map \<Rightarrow> bool" where
  "level_wf vwf m \<longleftrightarrow> hm_wf m \<and> (\<forall>(k, v) \<in> set m. vwf k v)"

definition level_entries :: "('v \<Rightarrow> 'e list) \<Rightarrow> ('k, 'v) hash_map \<Rightarrow> 'e list" where
  "level_entries ents m = concat (map (\<lambda>(_, v). ents v) m)"

lemma level_entries_simps [simp]:
  "level_entries ents [] = []"
  "level_entries ents ((k, v) # m) = ents v @ level_entries ents m"
  by (simp_all add: level_entries_def)

lemma level_wf_Nil [simp]: "level_wf vwf []"
  by (simp add: level_wf_def hm_wf_def)

lemma level_wf_Cons [simp]:
  "level_wf vwf ((k, v) # m) \<longleftrightarrow> k \<notin> fst ` set m \<and> vwf k v \<and> level_wf vwf m"
  by (auto simp: level_wf_def hm_wf_def)

lemma level_wf_get: "level_wf vwf m \<Longrightarrow> map_of m k = Some v \<Longrightarrow> vwf k v"
  using map_of_SomeD by (fastforce simp: level_wf_def)

lemma map_of_hm_insert [simp]: "map_of (hm_insert k v m) = (map_of m)(k \<mapsto> v)"
  by (simp add: hm_insert_def update_conv')

lemma level_wf_insert:
  assumes "level_wf vwf m" and "vwf k v"
  shows "level_wf vwf (hm_insert k v m)"
  using assms hm.ball_ins[of m "\<lambda>(k, v). vwf k v" k v] hm.wf_ins[of m k v] by (simp add: level_wf_def)

locale index_level =
  fixes ents :: "'v \<Rightarrow> 'e list"
    and vwf :: "'k \<Rightarrow> 'v \<Rightarrow> bool"
    and key :: "'e \<Rightarrow> 'k"
  assumes ents_distinct: "vwf k v \<Longrightarrow> distinct (ents v)"
    and ents_key: "vwf k v \<Longrightarrow> e \<in> set (ents v) \<Longrightarrow> key e = k"
begin

lemma entries_key: "level_wf vwf m \<Longrightarrow> e \<in> set (level_entries ents m) \<Longrightarrow> key e \<in> fst ` set m"
  by (induction m) (auto dest: ents_key)

lemma entries_distinct: "level_wf vwf m \<Longrightarrow> distinct (level_entries ents m)"
proof (induction m)
  case (Cons p m)
  obtain k v where p: "p = (k, v)"
    by (cases p)
  have "e \<notin> set (level_entries ents m)" if "e \<in> set (ents v)" for e
    using Cons.prems that entries_key[of m e] ents_key[of k v e] by (auto simp: p)
  then show ?case
    using Cons ents_distinct[of k v] by (auto simp: p)
qed simp

lemma entries_iff:
  assumes "level_wf vwf m"
  shows "e \<in> set (level_entries ents m) \<longleftrightarrow> (\<exists>v. map_of m (key e) = Some v \<and> e \<in> set (ents v))"
  using assms
proof (induction m)
  case (Cons p m)
  obtain k v where p: "p = (k, v)"
    by (cases p)
  have "map_of m k = None"
    using Cons.prems by (simp add: p map_of_eq_None_iff)
  then show ?case
    using Cons ents_key[of k v e] by (auto simp: p)
qed simp

lemma entries_insert:
  assumes "level_wf vwf m" and "vwf (key e) v"
    and "set (ents v) = insert e (case map_of m (key e) of None \<Rightarrow> {} | Some w \<Rightarrow> set (ents w))"
  shows "set (level_entries ents (hm_insert (key e) v m)) = insert e (set (level_entries ents m))"
proof -
  have "x \<in> set (level_entries ents (hm_insert (key e) v m)) \<longleftrightarrow> x \<in> insert e (set (level_entries ents m))" for x
    using assms by (auto simp: entries_iff level_wf_insert split: option.splits if_splits)
  then show ?thesis
    by blast
qed

lemma entries_retain:
  assumes "level_wf vwf m"
    and step: "\<And>k v. vwf k v \<Longrightarrow> ents (f v) = filter keep (ents v)"
    and stay: "\<And>k v. vwf k v \<Longrightarrow> stays (f v) \<Longrightarrow> vwf k (f v)"
    and drop: "\<And>k v. vwf k v \<Longrightarrow> \<not> stays (f v) \<Longrightarrow> ents (f v) = []"
  shows "level_wf vwf (hm_retain f stays m)"
    and "level_entries ents (hm_retain f stays m) = filter keep (level_entries ents m)"
proof -
  have keys: "fst ` set (hm_retain f stays m) \<subseteq> fst ` set m" for m
    by (force simp: hm_retain_def)
  show "level_wf vwf (hm_retain f stays m)"
    using assms(1)
  proof (induction m)
    case (Cons p m)
    obtain k v where p: "p = (k, v)"
      by (cases p)
    show ?case
      using Cons stay[of k v] keys[of m] by (auto simp: p hm_retain_def)
  qed (simp add: hm_retain_def)
  show "level_entries ents (hm_retain f stays m) = filter keep (level_entries ents m)"
    using assms(1)
  proof (induction m)
    case (Cons p m)
    obtain k v where p: "p = (k, v)"
      by (cases p)
    show ?case
      using Cons step[of k v] drop[of k v] by (simp add: p hm_retain_def)
  qed (simp add: hm_retain_def)
qed

end

section \<open>The invariant\<close>

definition bucket_wf :: "bytes \<Rightarrow> AclEntry list \<Rightarrow> bool" where
  "bucket_wf name b \<longleftrightarrow> b \<noteq> [] \<and> distinct b \<and> (\<forall>e \<in> set b. acl_resource_name e = name)"

interpretation bucket: index_level "\<lambda>b. b" bucket_wf acl_resource_name
  by unfold_locales (simp_all add: bucket_wf_def)

abbreviation bucket_entries :: "(bytes, AclEntry list) hash_map \<Rightarrow> AclEntry list" where
  "bucket_entries \<equiv> level_entries (\<lambda>b. b)"

definition LiteralAcls_entries :: "LiteralAcls \<Rightarrow> AclEntry list" where
  "LiteralAcls_entries la = bucket_entries (la_by_name la) @ la_wildcard la"

definition LiteralAcls_wf :: "ResourceType \<Rightarrow> LiteralAcls \<Rightarrow> bool" where
  "LiteralAcls_wf rt la \<longleftrightarrow>
     level_wf bucket_wf (la_by_name la)
     \<and> WILDCARD_RESOURCE \<notin> fst ` set (la_by_name la)
     \<and> distinct (la_wildcard la)
     \<and> (\<forall>e \<in> set (la_wildcard la). acl_resource_name e = WILDCARD_RESOURCE)
     \<and> (\<forall>e \<in> set (LiteralAcls_entries la). acl_resource_type e = rt \<and> acl_pattern_type e = Literal)"

lemma LiteralAcls_distinct:
  assumes "LiteralAcls_wf rt la"
  shows "distinct (LiteralAcls_entries la)"
proof -
  have w: "level_wf bucket_wf (la_by_name la)" "distinct (la_wildcard la)"
    "WILDCARD_RESOURCE \<notin> fst ` set (la_by_name la)"
    using assms by (simp_all add: LiteralAcls_wf_def)
  have "e \<notin> set (la_wildcard la)" if "e \<in> set (bucket_entries (la_by_name la))" for e
    using assms bucket.entries_key[OF w(1) that] w(3) unfolding LiteralAcls_wf_def by metis
  then show ?thesis
    using w bucket.entries_distinct[OF w(1)] by (auto simp: LiteralAcls_entries_def)
qed

definition LiteralAcls_live :: "ResourceType \<Rightarrow> LiteralAcls \<Rightarrow> bool" where
  "LiteralAcls_live rt la \<longleftrightarrow> LiteralAcls_wf rt la \<and> \<not> LiteralAcls_is_empty la"

interpretation literal: index_level LiteralAcls_entries LiteralAcls_live acl_resource_type
  by unfold_locales (auto simp: LiteralAcls_live_def LiteralAcls_distinct, auto simp: LiteralAcls_wf_def)

text \<open>How many of the prefixes \<open>ps\<close> have \<open>n\<close> bytes, and that \<open>lengths\<close> counts them.\<close>

definition prefixes_of_length :: "nat \<Rightarrow> bytes list \<Rightarrow> nat" where
  "prefixes_of_length n ps = length (filter (\<lambda>p. length p = n) ps)"

definition lengths_wf :: "(nat, nat) btree_map \<Rightarrow> bytes list \<Rightarrow> bool" where
  "lengths_wf ls ps \<longleftrightarrow> bt_wf ls \<and>
     (\<forall>n. map_of ls n = (let c = prefixes_of_length n ps in if c = 0 then None else Some c))"

definition PrefixedAcls_entries :: "PrefixedAcls \<Rightarrow> AclEntry list" where
  "PrefixedAcls_entries pa = bucket_entries (pa_by_prefix pa)"

definition PrefixedAcls_wf :: "ResourceType \<Rightarrow> PrefixedAcls \<Rightarrow> bool" where
  "PrefixedAcls_wf rt pa \<longleftrightarrow>
     level_wf bucket_wf (pa_by_prefix pa)
     \<and> lengths_wf (pa_lengths pa) (map fst (pa_by_prefix pa))
     \<and> (\<forall>p \<in> fst ` set (pa_by_prefix pa). utf8 p)
     \<and> (\<forall>e \<in> set (PrefixedAcls_entries pa). acl_resource_type e = rt \<and> acl_pattern_type e = Prefixed)"

definition PrefixedAcls_live :: "ResourceType \<Rightarrow> PrefixedAcls \<Rightarrow> bool" where
  "PrefixedAcls_live rt pa \<longleftrightarrow> PrefixedAcls_wf rt pa \<and> \<not> PrefixedAcls_is_empty pa"

interpretation prefixed: index_level PrefixedAcls_entries PrefixedAcls_live acl_resource_type
  by unfold_locales
    (simp_all add: PrefixedAcls_live_def PrefixedAcls_wf_def PrefixedAcls_entries_def bucket.entries_distinct)

text \<open>
  No resource type without an entry stays in the index, and no name or prefix without one, so that
  an emptied index equals a fresh one.
\<close>

definition acl_wf :: "AclIndex \<Rightarrow> bool" where
  "acl_wf idx \<longleftrightarrow> level_wf LiteralAcls_live (ai_literal idx) \<and> level_wf PrefixedAcls_live (ai_prefixed idx)"

lemma AclIndex_iter_levels:
  "AclIndex_iter idx =
     level_entries LiteralAcls_entries (ai_literal idx) @ level_entries PrefixedAcls_entries (ai_prefixed idx)"
proof -
  have "concat (map snd m) = bucket_entries m" for m
    by (simp add: level_entries_def case_prod_unfold)
  then show ?thesis
    by (simp add: AclIndex_iter_def level_entries_def LiteralAcls_entries_def PrefixedAcls_entries_def)
qed

lemma acl_pattern_of:
  assumes "acl_wf idx"
  shows "e \<in> set (level_entries LiteralAcls_entries (ai_literal idx)) \<Longrightarrow> acl_pattern_type e = Literal"
    and "e \<in> set (level_entries PrefixedAcls_entries (ai_prefixed idx)) \<Longrightarrow> acl_pattern_type e = Prefixed"
  using assms literal.entries_iff prefixed.entries_iff level_wf_get
  by (fastforce simp: acl_wf_def LiteralAcls_live_def PrefixedAcls_live_def LiteralAcls_wf_def PrefixedAcls_wf_def)+

lemma AclIndex_iter_distinct:
  assumes "acl_wf idx"
  shows "distinct (AclIndex_iter idx)"
  using assms acl_pattern_of[OF assms] literal.entries_distinct prefixed.entries_distinct
  by (fastforce simp: AclIndex_iter_levels acl_wf_def)

section \<open>Inserting\<close>

definition acl_push :: "AclEntry \<Rightarrow> AclEntry list \<Rightarrow> AclEntry list" where
  "acl_push entry b = filter (\<lambda>e. e \<noteq> entry) b @ [entry]"

lemma set_acl_push [simp]: "set (acl_push e b) = insert e (set b)"
  by (auto simp: acl_push_def)

lemma distinct_acl_push [simp]: "distinct b \<Longrightarrow> distinct (acl_push e b)"
  by (simp add: acl_push_def)

lemma bucket_wf_push:
  "level_wf bucket_wf m \<Longrightarrow>
   bucket_wf (acl_resource_name e) (acl_push e (or_default [] (map_of m (acl_resource_name e))))"
  using level_wf_get[of bucket_wf m "acl_resource_name e"]
  by (cases "map_of m (acl_resource_name e)") (auto simp: bucket_wf_def or_default_def acl_push_def)

lemma bucket_push:
  fixes e :: AclEntry
  assumes "level_wf bucket_wf m"
  defines "m' \<equiv> hm_entry (acl_resource_name e) [] (acl_push e) m"
  shows "level_wf bucket_wf m'" and "set (bucket_entries m') = insert e (set (bucket_entries m))"
proof -
  note b = bucket_wf_push[OF assms(1), of e]
  show "level_wf bucket_wf m'"
    unfolding m'_def hm_entry_def by (rule level_wf_insert[OF assms(1) b])
  show "set (bucket_entries m') = insert e (set (bucket_entries m))"
    unfolding m'_def hm_entry_def
    by (rule bucket.entries_insert[OF assms(1) b]) (simp add: or_default_def split: option.split)
qed

lemma hm_insert_keys: "fst ` set (hm_insert k v m) = insert k (fst ` set m)"
  by (simp add: hm_insert_def dom_update)

lemma LiteralAcls_push:
  assumes "LiteralAcls_wf rt la" and "acl_resource_type e = rt" and "acl_pattern_type e = Literal"
  defines "la' \<equiv> LiteralAcls_bucket (acl_resource_name e) (acl_push e) la"
  shows "LiteralAcls_live rt la'"
    and "set (LiteralAcls_entries la') = insert e (set (LiteralAcls_entries la))"
proof -
  have w: "level_wf bucket_wf (la_by_name la)"
    using assms(1) by (simp add: LiteralAcls_wf_def)
  show s: "set (LiteralAcls_entries la') = insert e (set (LiteralAcls_entries la))"
    using bucket_push[OF w, of e] by (auto simp: la'_def LiteralAcls_bucket_def LiteralAcls_entries_def)
  have "LiteralAcls_wf rt la'"
    using assms(1-3) s bucket_push[OF w, of e] unfolding LiteralAcls_wf_def
    by (auto simp: la'_def LiteralAcls_bucket_def hm_entry_def hm_insert_keys)
  moreover have "\<not> LiteralAcls_is_empty la'"
    using s by (auto simp: LiteralAcls_is_empty_def LiteralAcls_entries_def)
  ultimately show "LiteralAcls_live rt la'"
    by (simp add: LiteralAcls_live_def)
qed

lemma lengths_wf_Cons:
  assumes "lengths_wf ls ps"
  shows "lengths_wf (bt_insert (length p) (or_default 0 (map_of ls (length p)) + 1) ls) (ps @ [p])"
proof -
  have "or_default 0 (map_of ls n) = prefixes_of_length n ps" for n
    using assms by (simp add: lengths_wf_def or_default_def Let_def)
  moreover have "bt_wf ls" "\<And>n. n \<noteq> length p \<Longrightarrow> map_of ls n = (let c = prefixes_of_length n ps in if c = 0 then None else Some c)"
    using assms by (auto simp: lengths_wf_def)
  ultimately show ?thesis
    by (auto simp: lengths_wf_def bt_wf_insert map_of_bt_insert prefixes_of_length_def Let_def)
qed

lemma hm_insert_keys_list:
  "map fst (hm_insert k v m) = (if k \<in> fst ` set m then map fst m else map fst m @ [k])"
  by (simp add: hm_insert_def update_keys)

lemma PrefixedAcls_bucket_by_prefix:
  "pa_by_prefix (PrefixedAcls_bucket p f pa) = hm_entry p [] f (pa_by_prefix pa)"
  by (simp add: PrefixedAcls_bucket_def hm_entry_def or_default_def split: option.split)

lemma PrefixedAcls_push:
  assumes "PrefixedAcls_wf rt pa" and "acl_resource_type e = rt" and "acl_pattern_type e = Prefixed"
    and "utf8 (acl_resource_name e)"
  defines "pa' \<equiv> PrefixedAcls_bucket (acl_resource_name e) (acl_push e) pa"
  shows "PrefixedAcls_live rt pa'"
    and "set (PrefixedAcls_entries pa') = insert e (set (PrefixedAcls_entries pa))"
proof -
  have w: "level_wf bucket_wf (pa_by_prefix pa)" and ls: "lengths_wf (pa_lengths pa) (map fst (pa_by_prefix pa))"
    using assms(1) by (simp_all add: PrefixedAcls_wf_def)
  show s: "set (PrefixedAcls_entries pa') = insert e (set (PrefixedAcls_entries pa))"
    using bucket_push[OF w, of e] by (simp add: pa'_def PrefixedAcls_bucket_by_prefix PrefixedAcls_entries_def)
  have "lengths_wf (pa_lengths pa') (map fst (pa_by_prefix pa'))"
  proof (cases "map_of (pa_by_prefix pa) (acl_resource_name e)")
    case None
    then have "acl_resource_name e \<notin> fst ` set (pa_by_prefix pa)"
      by (simp add: map_of_eq_None_iff)
    then show ?thesis
      using None lengths_wf_Cons[OF ls, of "acl_resource_name e"]
      by (simp add: pa'_def PrefixedAcls_bucket_def hm_insert_keys_list)
  next
    case (Some b)
    then have "acl_resource_name e \<in> fst ` set (pa_by_prefix pa)"
      by (metis fst_conv imageI map_of_SomeD)
    then show ?thesis
      using ls Some by (simp add: pa'_def PrefixedAcls_bucket_def hm_insert_keys_list)
  qed
  then have "PrefixedAcls_wf rt pa'"
    using assms(1-4) s bucket_push[OF w, of e] unfolding PrefixedAcls_wf_def
    by (auto simp: pa'_def PrefixedAcls_bucket_by_prefix hm_entry_def hm_insert_keys)
  moreover have "\<not> PrefixedAcls_is_empty pa'"
    using s by (auto simp: PrefixedAcls_is_empty_def PrefixedAcls_entries_def)
  ultimately show "PrefixedAcls_live rt pa'"
    by (simp add: PrefixedAcls_live_def)
qed

text \<open>A level whose value is built from the entry's own, or from the default.\<close>

context index_level
begin

lemma entry_level:
  assumes "level_wf vwf m"
    and "\<And>v. map_of m (key e) = Some v \<Longrightarrow> vwf (key e) (f v) \<and> set (ents (f v)) = insert e (set (ents v))"
    and "vwf (key e) (f d)" and "set (ents (f d)) = {e}"
  shows "level_wf vwf (hm_entry (key e) d f m)"
    and "set (level_entries ents (hm_entry (key e) d f m)) = insert e (set (level_entries ents m))"
proof -
  have v: "vwf (key e) (f (or_default d (map_of m (key e))))"
    using assms by (simp add: or_default_def split: option.split)
  show "level_wf vwf (hm_entry (key e) d f m)"
    unfolding hm_entry_def by (rule level_wf_insert[OF assms(1) v])
  show "set (level_entries ents (hm_entry (key e) d f m)) = insert e (set (level_entries ents m))"
    unfolding hm_entry_def by (rule entries_insert[OF assms(1) v])
      (use assms in \<open>simp add: or_default_def split: option.split\<close>)
qed

end

text \<open>The name of an entry is a string; the index relies on it for prefixes.\<close>

definition acl_entry_wf :: "AclEntry \<Rightarrow> bool" where
  "acl_entry_wf e \<longleftrightarrow> (acl_pattern_type e = Prefixed \<longrightarrow> utf8 (acl_resource_name e))"

lemma AclIndex_insert_push:
  "AclIndex_insert e idx =
     (case acl_pattern_type e of
        Literal \<Rightarrow>
          idx\<lparr>ai_literal := hm_entry (acl_resource_type e) \<lparr>la_by_name = [], la_wildcard = []\<rparr>
                (LiteralAcls_bucket (acl_resource_name e) (acl_push e)) (ai_literal idx)\<rparr>
      | Prefixed \<Rightarrow>
          idx\<lparr>ai_prefixed := hm_entry (acl_resource_type e) \<lparr>pa_by_prefix = [], pa_lengths = []\<rparr>
                (PrefixedAcls_bucket (acl_resource_name e) (acl_push e)) (ai_prefixed idx)\<rparr>)"
  unfolding AclIndex_insert_def Let_def acl_push_def[abs_def] ..

lemma LiteralAcls_wf_empty: "LiteralAcls_wf rt \<lparr>la_by_name = [], la_wildcard = []\<rparr>"
  by (simp add: LiteralAcls_wf_def LiteralAcls_entries_def)

lemma PrefixedAcls_wf_empty: "PrefixedAcls_wf rt \<lparr>pa_by_prefix = [], pa_lengths = []\<rparr>"
  by (simp add: PrefixedAcls_wf_def PrefixedAcls_entries_def lengths_wf_def bt_wf_def prefixes_of_length_def)

lemma AclIndex_insert_spec:
  assumes "acl_wf idx" and "acl_entry_wf e"
  shows "acl_wf (AclIndex_insert e idx)"
    and "set (AclIndex_iter (AclIndex_insert e idx)) = insert e (set (AclIndex_iter idx))"
proof -
  have l: "level_wf LiteralAcls_live (ai_literal idx)" and p: "level_wf PrefixedAcls_live (ai_prefixed idx)"
    using assms(1) by (simp_all add: acl_wf_def)
  have lit: "LiteralAcls_wf (acl_resource_type e) v" if "map_of (ai_literal idx) (acl_resource_type e) = Some v" for v
    using level_wf_get[OF l that] by (simp add: LiteralAcls_live_def)
  have pre: "PrefixedAcls_wf (acl_resource_type e) v" if "map_of (ai_prefixed idx) (acl_resource_type e) = Some v" for v
    using level_wf_get[OF p that] by (simp add: PrefixedAcls_live_def)
  note li = literal.entry_level[OF l, of e "LiteralAcls_bucket (acl_resource_name e) (acl_push e)" "\<lparr>la_by_name = [], la_wildcard = []\<rparr>"]
  note pr = prefixed.entry_level[OF p, of e "PrefixedAcls_bucket (acl_resource_name e) (acl_push e)" "\<lparr>pa_by_prefix = [], pa_lengths = []\<rparr>"]
  have "acl_wf (AclIndex_insert e idx)
    \<and> set (AclIndex_iter (AclIndex_insert e idx)) = insert e (set (AclIndex_iter idx))"
  proof (cases "acl_pattern_type e")
    case Literal
    show ?thesis
      using li LiteralAcls_push[OF lit _ Literal] LiteralAcls_push[OF LiteralAcls_wf_empty _ Literal] p
      by (simp add: AclIndex_insert_push acl_wf_def AclIndex_iter_levels Literal LiteralAcls_entries_def[of "\<lparr>la_by_name = [], la_wildcard = []\<rparr>"])
  next
    case Prefixed
    then have u: "utf8 (acl_resource_name e)"
      using assms(2) by (simp add: acl_entry_wf_def)
    show ?thesis
      using pr PrefixedAcls_push[OF pre _ Prefixed u] PrefixedAcls_push[OF PrefixedAcls_wf_empty _ Prefixed u] l
      by (simp add: AclIndex_insert_push acl_wf_def AclIndex_iter_levels Prefixed PrefixedAcls_entries_def[of "\<lparr>pa_by_prefix = [], pa_lengths = []\<rparr>"])
  qed
  then show "acl_wf (AclIndex_insert e idx)"
    and "set (AclIndex_iter (AclIndex_insert e idx)) = insert e (set (AclIndex_iter idx))"
    by simp_all
qed

section \<open>Removing\<close>

lemma bucket_retain:
  assumes "level_wf bucket_wf m"
  shows "level_wf bucket_wf (hm_retain (filter keep) (\<lambda>b. b \<noteq> []) m)"
    and "bucket_entries (hm_retain (filter keep) (\<lambda>b. b \<noteq> []) m) = filter keep (bucket_entries m)"
  by (rule bucket.entries_retain[OF assms]; auto simp: bucket_wf_def)+

lemma hm_retain_keys: "fst ` set (hm_retain f stays m) \<subseteq> fst ` set m"
  by (force simp: hm_retain_def)

lemma LiteralAcls_retain_entries:
  "LiteralAcls_wf rt la \<Longrightarrow>
   LiteralAcls_entries (LiteralAcls_retain keep la) = filter keep (LiteralAcls_entries la)"
  by (simp add: LiteralAcls_retain_def LiteralAcls_entries_def LiteralAcls_wf_def bucket_retain)

lemma LiteralAcls_wf_retain:
  assumes "LiteralAcls_wf rt la"
  shows "LiteralAcls_wf rt (LiteralAcls_retain keep la)"
  unfolding LiteralAcls_wf_def LiteralAcls_retain_entries[OF assms]
  using assms hm_retain_keys[of "filter keep" "\<lambda>b. b \<noteq> []" "la_by_name la"]
  by (auto simp: LiteralAcls_wf_def LiteralAcls_retain_def bucket_retain)

lemma prefixes_of_length_append: "prefixes_of_length n (ps @ qs) = prefixes_of_length n ps + prefixes_of_length n qs"
  by (simp add: prefixes_of_length_def)

lemma lengths_wf_forget:
  assumes "lengths_wf ls (ps @ p # qs)"
  shows "lengths_wf (forget_length (length p) ls) (ps @ qs)"
proof -
  define c where "c = prefixes_of_length (length p) (ps @ qs)"
  have b: "bt_wf ls" and other: "map_of ls n = (let c = prefixes_of_length n (ps @ p # qs) in if c = 0 then None else Some c)" for n
    using assms by (simp_all add: lengths_wf_def)
  have at: "map_of ls (length p) = Some (Suc c)"
    using other[of "length p"] by (simp add: prefixes_of_length_def c_def)
  have "bt_wf (forget_length (length p) ls)"
    using b by (simp add: forget_length_def at bt_wf_insert bt_wf_remove)
  moreover have "map_of (forget_length (length p) ls) n
      = (let c = prefixes_of_length n (ps @ qs) in if c = 0 then None else Some c)" for n
    using other[of n] c_def
    by (auto simp: forget_length_def at map_of_bt_insert[OF b] bt.get_del prefixes_of_length_def Let_def)
  ultimately show ?thesis
    by (simp add: lengths_wf_def)
qed

lemma lengths_wf_retain:
  assumes "lengths_wf ls (ps @ map fst m)"
  shows "lengths_wf (fold (\<lambda>(p, b) ls. if filter keep b = [] then forget_length (length p) ls else ls) m ls)
    (ps @ map fst (hm_retain (filter keep) (\<lambda>b. b \<noteq> []) m))"
  using assms
proof (induction m arbitrary: ls ps)
  case (Cons x m)
  obtain p b where x: "x = (p, b)"
    by (cases x)
  show ?case
  proof (cases "filter keep b = []")
    case True
    have "lengths_wf (forget_length (length p) ls) (ps @ map fst m)"
      using Cons.prems by (auto simp: x intro: lengths_wf_forget)
    then show ?thesis
      using Cons.IH True by (simp add: x hm_retain_def)
  next
    case False
    then show ?thesis
      using Cons.IH[of ls "ps @ [p]"] Cons.prems by (simp add: x hm_retain_def)
  qed
qed (simp add: hm_retain_def)

lemma PrefixedAcls_retain_entries:
  "PrefixedAcls_wf rt pa \<Longrightarrow>
   PrefixedAcls_entries (PrefixedAcls_retain keep pa) = filter keep (PrefixedAcls_entries pa)"
  by (simp add: PrefixedAcls_retain_def PrefixedAcls_entries_def PrefixedAcls_wf_def bucket_retain)

lemma PrefixedAcls_wf_retain:
  assumes "PrefixedAcls_wf rt pa"
  shows "PrefixedAcls_wf rt (PrefixedAcls_retain keep pa)"
proof -
  have "\<forall>p \<in> fst ` set (hm_retain (filter keep) (\<lambda>b. b \<noteq> []) (pa_by_prefix pa)). utf8 p"
    using assms hm_retain_keys[of "filter keep" "\<lambda>b. b \<noteq> []" "pa_by_prefix pa"]
    unfolding PrefixedAcls_wf_def by blast
  then show ?thesis
    unfolding PrefixedAcls_wf_def PrefixedAcls_retain_entries[OF assms]
    using assms lengths_wf_retain[of "pa_lengths pa" "[]" "pa_by_prefix pa" keep]
    by (simp add: PrefixedAcls_wf_def PrefixedAcls_retain_def bucket_retain)
qed

lemma literal_step:
  assumes "LiteralAcls_live k v"
  shows "LiteralAcls_entries (LiteralAcls_retain keep v) = filter keep (LiteralAcls_entries v)"
    and "\<not> LiteralAcls_is_empty (LiteralAcls_retain keep v) \<Longrightarrow> LiteralAcls_live k (LiteralAcls_retain keep v)"
    and "\<not> \<not> LiteralAcls_is_empty (LiteralAcls_retain keep v) \<Longrightarrow> LiteralAcls_entries (LiteralAcls_retain keep v) = []"
  using assms LiteralAcls_retain_entries[of k v keep] LiteralAcls_wf_retain[of k v keep]
  by (auto simp: LiteralAcls_live_def LiteralAcls_is_empty_def LiteralAcls_entries_def)

lemma literal_retain:
  fixes keep :: "AclEntry \<Rightarrow> bool"
  assumes "level_wf LiteralAcls_live m"
  defines "m' \<equiv> hm_retain (LiteralAcls_retain keep) (\<lambda>acls. \<not> LiteralAcls_is_empty acls) m"
  shows "level_wf LiteralAcls_live m'"
    and "level_entries LiteralAcls_entries m' = filter keep (level_entries LiteralAcls_entries m)"
  unfolding m'_def by (rule literal.entries_retain[OF assms(1) literal_step]; assumption)+

lemma prefixed_step:
  assumes "PrefixedAcls_live k v"
  shows "PrefixedAcls_entries (PrefixedAcls_retain keep v) = filter keep (PrefixedAcls_entries v)"
    and "\<not> PrefixedAcls_is_empty (PrefixedAcls_retain keep v) \<Longrightarrow> PrefixedAcls_live k (PrefixedAcls_retain keep v)"
    and "\<not> \<not> PrefixedAcls_is_empty (PrefixedAcls_retain keep v) \<Longrightarrow> PrefixedAcls_entries (PrefixedAcls_retain keep v) = []"
  using assms PrefixedAcls_retain_entries[of k v keep] PrefixedAcls_wf_retain[of k v keep]
  by (auto simp: PrefixedAcls_live_def PrefixedAcls_is_empty_def PrefixedAcls_entries_def)

lemma prefixed_retain:
  fixes keep :: "AclEntry \<Rightarrow> bool"
  assumes "level_wf PrefixedAcls_live m"
  defines "m' \<equiv> hm_retain (PrefixedAcls_retain keep) (\<lambda>acls. \<not> PrefixedAcls_is_empty acls) m"
  shows "level_wf PrefixedAcls_live m'"
    and "level_entries PrefixedAcls_entries m' = filter keep (level_entries PrefixedAcls_entries m)"
  unfolding m'_def by (rule prefixed.entries_retain[OF assms(1) prefixed_step]; assumption)+

lemma AclIndex_remove_spec:
  assumes "acl_wf idx"
  shows "acl_wf (AclIndex_remove_matching f idx)"
    and "AclIndex_iter (AclIndex_remove_matching f idx)
      = filter (\<lambda>e. \<not> filter_matches f e) (AclIndex_iter idx)"
  using assms by (simp_all add: acl_wf_def AclIndex_remove_matching_def AclIndex_iter_levels Let_def
      literal_retain prefixed_retain)

lemma acl_entries_wf:
  assumes "acl_wf idx" "e \<in> set (AclIndex_iter idx)"
  shows "acl_entry_wf e"
proof (cases "acl_pattern_type e")
  case Prefixed
  have p: "level_wf PrefixedAcls_live (ai_prefixed idx)"
    using assms(1) by (simp add: acl_wf_def)
  have "e \<in> set (level_entries PrefixedAcls_entries (ai_prefixed idx))"
    using assms acl_pattern_of(1)[OF assms(1), of e] Prefixed by (auto simp: AclIndex_iter_levels)
  then obtain pa where "map_of (ai_prefixed idx) (acl_resource_type e) = Some pa" "e \<in> set (PrefixedAcls_entries pa)"
    using prefixed.entries_iff[OF p] by blast
  then have "PrefixedAcls_wf (acl_resource_type e) pa" "e \<in> set (bucket_entries (pa_by_prefix pa))"
    using level_wf_get[OF p] by (auto simp: PrefixedAcls_live_def PrefixedAcls_entries_def)
  then have "utf8 (acl_resource_name e)"
    using bucket.entries_key unfolding PrefixedAcls_wf_def by blast
  then show ?thesis
    by (simp add: acl_entry_wf_def)
qed (simp add: acl_entry_wf_def)

section \<open>Looking up\<close>

text \<open>Whole characters split off a valid string leave a valid string.\<close>

lemma from_utf8_off: "from_utf8 off bs = Ok () \<longleftrightarrow> from_utf8 0 bs = Ok ()"
proof (induction "length bs" arbitrary: off bs rule: less_induct)
  case less
  show ?case
  proof (cases "bs = []")
    case False
    show ?thesis
    proof (cases "utf8_step bs")
      case (Inr w)
      then have "length (drop w bs) < length bs"
        using False utf8_step_pos[of bs w] by simp
      then show ?thesis
        using less[of "drop w bs" "off + w"] less[of "drop w bs" w] False Inr
        by (simp add: from_utf8.simps[of off bs] from_utf8.simps[of 0 bs])
    qed (use False in \<open>simp add: from_utf8.simps[of off bs] from_utf8.simps[of 0 bs]\<close>)
  qed (simp add: from_utf8.simps)
qed

lemma utf8_unfold: "utf8 bs \<longleftrightarrow> bs = [] \<or> (\<exists>w. utf8_step bs = Ok w \<and> utf8 (drop w bs))"
proof (cases "utf8_step bs")
  case (Inr w)
  then show ?thesis
    using from_utf8_off[of w "drop w bs"] by (auto simp: utf8_def from_utf8.simps[of 0 bs])
qed (auto simp: utf8_def from_utf8.simps[of 0 bs])

lemma utf8_tail_append: "utf8_tail k n bs = Ok () \<Longrightarrow> k \<le> length bs \<and> utf8_tail k n (bs @ cs) = Ok ()"
  by (induction k n bs rule: utf8_tail.induct) (auto split: if_splits)

lemma utf8_step_append:
  assumes "utf8_step bs = Ok w"
  shows "w \<le> length bs \<and> utf8_step (bs @ cs) = Ok w"
proof (cases bs)
  case (Cons b ds)
  show ?thesis
  proof (cases "utf8_width b = 1")
    case False
    then obtain c es where ds: "ds = c # es"
      using assms Cons by (auto simp: Let_def split: if_splits list.splits)
    have "utf8_width b \<noteq> 0" "second_ok b c" "utf8_tail (utf8_width b - 2) 2 es = Ok ()" "w = utf8_width b"
      using assms Cons ds False by (auto simp: Let_def and_then_eq_Ok split: if_splits)
    then show ?thesis
      using Cons ds False utf8_tail_append[of "utf8_width b - 2" 2 es cs] by (auto simp: Let_def)
  qed (use assms Cons in \<open>simp add: Let_def\<close>)
qed (use assms in simp)

lemma utf8_split: "utf8 p \<Longrightarrow> utf8 (p @ r) \<Longrightarrow> utf8 r"
proof (induction "length p" arbitrary: p rule: less_induct)
  case less
  show ?case
  proof (cases "p = []")
    case False
    then obtain w where w: "utf8_step p = Ok w" and d: "utf8 (drop w p)"
      using less.prems(1) utf8_unfold[of p] by auto
    have "utf8 (drop w p @ r)"
      using less.prems(2) False utf8_unfold[of "p @ r"] utf8_step_append[OF w, of r] by auto
    then show ?thesis
      using less.hyps[of "drop w p"] d False utf8_step_pos[OF w] by simp
  qed (use less.prems in simp)
qed

lemma utf8_first:
  assumes "utf8 (b # bs)"
  shows "\<not> continuation b"
proof
  assume "continuation b"
  then have "utf8_width b = 0"
    by (auto simp: continuation_def utf8_width_def word_le_nat_alt word_less_nat_alt)
  then show False
    using assms utf8_unfold[of "b # bs"] by simp
qed

text \<open>A valid prefix of a valid name ends at a character boundary of the name.\<close>

lemma prefix_boundary:
  assumes "utf8 p" and "utf8 (p @ r)"
  shows "str_get (p @ r) (length p) = Some p"
  using utf8_split[OF assms] utf8_first
  by (cases r) (auto simp: str_get_def is_char_boundary_def nth_append)

text \<open>What an entry covers, as the linear scan of the authorizer decides it.\<close>

definition acl_applies :: "ResourceType \<Rightarrow> bytes \<Rightarrow> AclEntry \<Rightarrow> bool" where
  "acl_applies rt name e \<longleftrightarrow> acl_resource_type e = rt \<and>
     (case acl_pattern_type e of
        Literal \<Rightarrow> acl_resource_name e = name \<or> acl_resource_name e = WILDCARD_RESOURCE
      | Prefixed \<Rightarrow> take (length (acl_resource_name e)) name = acl_resource_name e)"

lemma probe_buckets:
  "concat (List.map_filter (map_of m) ps)
    = bucket_entries (map (\<lambda>p. (p, the (map_of m p))) (filter (\<lambda>p. map_of m p \<noteq> None) ps))"
  by (induction ps) (auto simp: List.map_filter_simps split: option.split)

lemma probe_entries:
  assumes "level_wf bucket_wf m" and "distinct ps"
  shows "distinct (concat (List.map_filter (map_of m) ps))"
    and "set (concat (List.map_filter (map_of m) ps)) = {e \<in> set (bucket_entries m). acl_resource_name e \<in> set ps}"
proof -
  let ?m = "map (\<lambda>p. (p, the (map_of m p))) (filter (\<lambda>p. map_of m p \<noteq> None) ps)"
  have "map fst ?m = filter (\<lambda>p. map_of m p \<noteq> None) ps"
    by (simp add: comp_def)
  then have w: "level_wf bucket_wf ?m"
    using assms level_wf_get[OF assms(1)] by (auto simp: level_wf_def hm_wf_def)
  show "distinct (concat (List.map_filter (map_of m) ps))"
    using bucket.entries_distinct[OF w] by (simp add: probe_buckets)
  have at: "acl_resource_name e = p" if "map_of m p = Some b" and "e \<in> set b" for e p b
    using level_wf_get[OF assms(1) that(1)] that(2) by (simp add: bucket_wf_def)
  have "e \<in> set (concat (List.map_filter (map_of m) ps)) \<longleftrightarrow> (\<exists>p \<in> set ps. \<exists>b. map_of m p = Some b \<and> e \<in> set b)" for e
    by (induction ps) (auto simp: List.map_filter_simps split: option.splits)
  also have "\<dots> e \<longleftrightarrow> e \<in> set (bucket_entries m) \<and> acl_resource_name e \<in> set ps" for e
    using at unfolding bucket.entries_iff[OF assms(1)] by metis
  finally show "set (concat (List.map_filter (map_of m) ps)) = {e \<in> set (bucket_entries m). acl_resource_name e \<in> set ps}"
    by blast
qed

lemma distinct_probes:
  assumes "distinct (map fst ls)"
  shows "distinct (List.map_filter (\<lambda>(len, _). str_get name len) (filter (\<lambda>(len, _). len \<le> length name) ls))"
  using assms
proof (induction ls)
  case (Cons x ls)
  have "length p \<in> fst ` set ls"
    if "p \<in> set (List.map_filter (\<lambda>(len, _). str_get name len) (filter (\<lambda>(len, _). len \<le> length name) ls))" for p
    using that by (force simp: List.map_filter_def str_get_def split: if_splits)
  then show ?case
    using Cons by (cases x) (force simp: List.map_filter_simps str_get_def split: option.split if_splits)
qed (simp add: List.map_filter_simps)

lemma PrefixedAcls_matching_spec:
  assumes "PrefixedAcls_wf rt pa" and "utf8 name"
  shows "distinct (PrefixedAcls_matching name pa)"
    and "set (PrefixedAcls_matching name pa) = {e \<in> set (PrefixedAcls_entries pa). acl_applies rt name e}"
proof -
  have w: "level_wf bucket_wf (pa_by_prefix pa)" and ls: "lengths_wf (pa_lengths pa) (map fst (pa_by_prefix pa))"
    and u: "\<forall>p \<in> fst ` set (pa_by_prefix pa). utf8 p"
    and en: "\<forall>e \<in> set (PrefixedAcls_entries pa). acl_resource_type e = rt \<and> acl_pattern_type e = Prefixed"
    using assms(1) by (simp_all add: PrefixedAcls_wf_def)
  let ?ps = "List.map_filter (\<lambda>(len, _). str_get name len)
    (filter (\<lambda>(len, _). len \<le> length name) (pa_lengths pa))"
  have d: "distinct ?ps"
    using ls by (intro distinct_probes bt_wf_distinct) (simp add: lengths_wf_def)
  have "p \<in> set ?ps \<longleftrightarrow> take (length p) name = p" if p: "p \<in> fst ` set (pa_by_prefix pa)" for p
  proof
    assume "p \<in> set ?ps"
    then show "take (length p) name = p"
      by (force simp: List.map_filter_def str_get_def split: if_splits)
  next
    assume "take (length p) name = p"
    then obtain r where r: "name = p @ r"
      by (metis append_take_drop_id)
    have "prefixes_of_length (length p) (map fst (pa_by_prefix pa)) \<noteq> 0"
      using p by (auto simp: prefixes_of_length_def filter_empty_conv)
    then obtain c where "(length p, c) \<in> set (pa_lengths pa)"
      using ls map_of_SomeD[of "pa_lengths pa" "length p"] by (auto simp: lengths_wf_def Let_def)
    then show "p \<in> set ?ps"
      using prefix_boundary[of p r] u p assms(2) r by (force simp: List.map_filter_def)
  qed
  then have "acl_resource_name e \<in> set ?ps \<longleftrightarrow> acl_applies rt name e" if "e \<in> set (PrefixedAcls_entries pa)" for e
    using that bucket.entries_key[OF w, of e] en by (simp add: acl_applies_def PrefixedAcls_entries_def)
  then show "set (PrefixedAcls_matching name pa) = {e \<in> set (PrefixedAcls_entries pa). acl_applies rt name e}"
    using probe_entries(2)[OF w d] by (auto simp: PrefixedAcls_matching_def PrefixedAcls_entries_def)
  show "distinct (PrefixedAcls_matching name pa)"
    using probe_entries(1)[OF w d] by (simp add: PrefixedAcls_matching_def)
qed

context index_level
begin

lemma lookup_level:
  assumes "level_wf vwf m" and "\<And>e. P e \<Longrightarrow> key e = k"
    and "\<And>v. vwf k v \<Longrightarrow> distinct (look v) \<and> set (look v) = {e \<in> set (ents v). P e}"
  defines "found \<equiv> (case map_of m k of None \<Rightarrow> [] | Some v \<Rightarrow> look v)"
  shows "distinct found" and "set found = {e \<in> set (level_entries ents m). P e}"
proof -
  have "e \<in> set found \<longleftrightarrow> e \<in> set (level_entries ents m) \<and> P e" for e
  proof (cases "map_of m k")
    case None
    then show ?thesis
      using assms(2)[of e] by (auto simp: found_def entries_iff[OF assms(1)])
  next
    case (Some v)
    have "set (look v) = {e \<in> set (ents v). P e}"
      using assms(3) level_wf_get[OF assms(1) Some] by simp
    then show ?thesis
      using assms(2)[of e] Some by (cases "P e") (simp_all add: found_def entries_iff[OF assms(1)])
  qed
  then show "set found = {e \<in> set (level_entries ents m). P e}"
    by blast
  show "distinct found"
    using assms(3) level_wf_get[OF assms(1), of k] by (simp add: found_def split: option.split)
qed

end

lemma LiteralAcls_matching_spec:
  fixes name :: bytes
  assumes "LiteralAcls_wf rt la"
  defines "found \<equiv> or_default [] (map_of (la_by_name la) name) @ la_wildcard la"
  shows "distinct found" and "set found = {e \<in> set (LiteralAcls_entries la). acl_applies rt name e}"
proof -
  have w: "level_wf bucket_wf (la_by_name la)" and wd: "distinct (la_wildcard la)"
    and k: "WILDCARD_RESOURCE \<notin> fst ` set (la_by_name la)"
    and wn: "\<forall>e \<in> set (la_wildcard la). acl_resource_name e = WILDCARD_RESOURCE"
    and en: "\<forall>e \<in> set (LiteralAcls_entries la). acl_resource_type e = rt \<and> acl_pattern_type e = Literal"
    using assms(1) by (simp_all add: LiteralAcls_wf_def)
  define b where "b = or_default [] (map_of (la_by_name la) name)"
  have "distinct b \<and> set b = {e \<in> set (bucket_entries (la_by_name la)). acl_resource_name e = name}"
    using bucket.lookup_level[OF w, of "\<lambda>e. acl_resource_name e = name" name "\<lambda>b. b"]
    by (auto simp: b_def or_default_def bucket_wf_def)
  then have sb: "set b = {e \<in> set (bucket_entries (la_by_name la)). acl_resource_name e = name}" and db: "distinct b"
    by simp_all
  have nb: "acl_resource_name e \<noteq> WILDCARD_RESOURCE" if "e \<in> set (bucket_entries (la_by_name la))" for e
    using bucket.entries_key[OF w that] k by metis
  have "e \<notin> set (la_wildcard la)" if "e \<in> set b" for e
    using that nb[of e] wn unfolding sb by blast
  then show "distinct found"
    using db wd by (auto simp: found_def b_def[symmetric])
  have "acl_applies rt name e \<longleftrightarrow> acl_resource_name e = name \<or> acl_resource_name e = WILDCARD_RESOURCE"
    if "e \<in> set (LiteralAcls_entries la)" for e
    using en that by (simp add: acl_applies_def)
  then show "set found = {e \<in> set (LiteralAcls_entries la). acl_applies rt name e}"
    using wn nb by (auto simp: found_def b_def[symmetric] sb LiteralAcls_entries_def)
qed

lemma AclIndex_matching_spec:
  assumes "acl_wf idx" and "utf8 name"
  shows "distinct (AclIndex_matching rt name idx)"
    and "set (AclIndex_matching rt name idx) = {e \<in> set (AclIndex_iter idx). acl_applies rt name e}"
proof -
  have l: "level_wf LiteralAcls_live (ai_literal idx)" and p: "level_wf PrefixedAcls_live (ai_prefixed idx)"
    using assms(1) by (simp_all add: acl_wf_def)
  define lit where "lit = (case map_of (ai_literal idx) rt of None \<Rightarrow> []
    | Some la \<Rightarrow> or_default [] (map_of (la_by_name la) name) @ la_wildcard la)"
  define pre where "pre = (case map_of (ai_prefixed idx) rt of None \<Rightarrow> [] | Some pa \<Rightarrow> PrefixedAcls_matching name pa)"
  have parts: "AclIndex_matching rt name idx = lit @ pre"
    by (simp add: AclIndex_matching_def Let_def lit_def pre_def split: option.split)
  have key: "acl_resource_type e = rt" if "acl_applies rt name e" for e
    using that by (simp add: acl_applies_def)
  have ll: "distinct (or_default [] (map_of (la_by_name la) name) @ la_wildcard la)
      \<and> set (or_default [] (map_of (la_by_name la) name) @ la_wildcard la)
        = {e \<in> set (LiteralAcls_entries la). acl_applies rt name e}" if "LiteralAcls_live rt la" for la
    using that LiteralAcls_matching_spec[of rt la name] unfolding LiteralAcls_live_def by blast
  have pl: "distinct (PrefixedAcls_matching name pa) \<and> set (PrefixedAcls_matching name pa)
      = {e \<in> set (PrefixedAcls_entries pa). acl_applies rt name e}" if "PrefixedAcls_live rt pa" for pa
    using that PrefixedAcls_matching_spec[OF _ assms(2)] unfolding PrefixedAcls_live_def by blast
  note ls = literal.lookup_level[OF l key ll, folded lit_def]
  note ps = prefixed.lookup_level[OF p key pl, folded pre_def]
  show "set (AclIndex_matching rt name idx) = {e \<in> set (AclIndex_iter idx). acl_applies rt name e}"
    using ls(2) ps(2) by (auto simp: parts AclIndex_iter_levels)
  have "acl_pattern_type e = Literal" if "e \<in> set lit" for e
    using that ls(2) acl_pattern_of(1)[OF assms(1)] by simp
  moreover have "acl_pattern_type e = Prefixed" if "e \<in> set pre" for e
    using that ps(2) acl_pattern_of(2)[OF assms(1)] by simp
  ultimately have "set lit \<inter> set pre = {}"
    by (metis PatternType.distinct(1) disjoint_iff)
  then show "distinct (AclIndex_matching rt name idx)"
    using ls(1) ps(1) by (simp add: parts)
qed

section \<open>The contract\<close>

text \<open>
  An ACL store is a set of entries under two kinds of change. The client of the contract reasons
  about a history of changes: a lookup returns exactly the entries of the set that apply, each once.
\<close>

datatype acl_change = AddAcl AclEntry | RemoveAcls AclEntryFilter

fun acl_change_wf :: "acl_change \<Rightarrow> bool" where
  "acl_change_wf (AddAcl e) = acl_entry_wf e"
| "acl_change_wf (RemoveAcls f) = True"

fun spec_change :: "acl_change \<Rightarrow> AclEntry set \<Rightarrow> AclEntry set" where
  "spec_change (AddAcl e) S = insert e S"
| "spec_change (RemoveAcls f) S = {e \<in> S. \<not> filter_matches f e}"

fun acl_change_by :: "(AclEntry \<Rightarrow> 's \<Rightarrow> 's) \<Rightarrow> (AclEntryFilter \<Rightarrow> 's \<Rightarrow> 's) \<Rightarrow> acl_change \<Rightarrow> 's \<Rightarrow> 's" where
  "acl_change_by add remove (AddAcl e) s = add e s"
| "acl_change_by add remove (RemoveAcls f) s = remove f s"

locale acl_store =
  fixes empty :: 's
    and add :: "AclEntry \<Rightarrow> 's \<Rightarrow> 's"
    and remove :: "AclEntryFilter \<Rightarrow> 's \<Rightarrow> 's"
    and lookup :: "ResourceType \<Rightarrow> bytes \<Rightarrow> 's \<Rightarrow> AclEntry list"
    and entries :: "'s \<Rightarrow> AclEntry list"
    and swf :: "'s \<Rightarrow> bool"
  assumes empty_wf: "swf empty"
    and empty_entries: "entries empty = []"
    and entries_distinct: "swf s \<Longrightarrow> distinct (entries s)"
    and add_wf: "swf s \<Longrightarrow> acl_entry_wf e \<Longrightarrow> swf (add e s)"
    and add_entries: "swf s \<Longrightarrow> acl_entry_wf e \<Longrightarrow> set (entries (add e s)) = insert e (set (entries s))"
    and remove_wf: "swf s \<Longrightarrow> swf (remove f s)"
    and remove_entries: "swf s \<Longrightarrow> set (entries (remove f s)) = {e \<in> set (entries s). \<not> filter_matches f e}"
    and lookup_distinct: "swf s \<Longrightarrow> utf8 name \<Longrightarrow> distinct (lookup rt name s)"
    and lookup_entries: "swf s \<Longrightarrow> utf8 name \<Longrightarrow> set (lookup rt name s) = {e \<in> set (entries s). acl_applies rt name e}"
    and no_entries: "swf s \<Longrightarrow> entries s = [] \<Longrightarrow> s = empty"
begin

lemma change_refines:
  assumes "swf s" and "acl_change_wf c"
  shows "swf (acl_change_by add remove c s) \<and> set (entries (acl_change_by add remove c s)) = spec_change c (set (entries s))"
  using assms by (cases c) (simp_all add: add_wf add_entries remove_wf remove_entries)

lemma history_refines:
  assumes "swf s" and "list_all acl_change_wf cs"
  shows "swf (fold (acl_change_by add remove) cs s) \<and> set (entries (fold (acl_change_by add remove) cs s)) = fold spec_change cs (set (entries s))"
  using assms by (induction cs arbitrary: s) (auto simp: change_refines)

lemma lookup_after_history:
  assumes "list_all acl_change_wf cs" and "utf8 name"
  shows "distinct (lookup rt name (fold (acl_change_by add remove) cs empty))
    \<and> set (lookup rt name (fold (acl_change_by add remove) cs empty)) = {e \<in> fold spec_change cs {}. acl_applies rt name e}"
  using history_refines[OF empty_wf assms(1)] lookup_distinct lookup_entries assms(2)
  by (simp add: empty_entries)

lemma remove_all:
  assumes "swf s" and "\<And>e. e \<in> set (entries s) \<Longrightarrow> filter_matches f e"
  shows "remove f s = empty"
proof -
  have "set (entries (remove f s)) = {}"
    using remove_entries[OF assms(1), of f] assms(2) by auto
  then show ?thesis
    using no_entries[OF remove_wf[OF assms(1)]] by simp
qed

end

lemma acl_wf_default: "acl_wf AclIndex_default"
  by (simp add: acl_wf_def AclIndex_default_def)

lemma AclIndex_no_entries:
  assumes "acl_wf idx" and "AclIndex_iter idx = []"
  shows "idx = AclIndex_default"
proof -
  have l: "level_wf LiteralAcls_live (ai_literal idx)" and p: "level_wf PrefixedAcls_live (ai_prefixed idx)"
    using assms(1) by (simp_all add: acl_wf_def)
  have b: "m = []" if "level_wf bucket_wf m" and "bucket_entries m = []" for m
    using that by (cases m) (auto simp: bucket_wf_def)
  have "ai_literal idx = []"
    using l assms(2) b by (cases "ai_literal idx")
      (auto simp: AclIndex_iter_levels LiteralAcls_entries_def LiteralAcls_live_def LiteralAcls_wf_def LiteralAcls_is_empty_def)
  moreover have "ai_prefixed idx = []"
    using p assms(2) b by (cases "ai_prefixed idx")
      (auto simp: AclIndex_iter_levels PrefixedAcls_entries_def PrefixedAcls_live_def PrefixedAcls_wf_def PrefixedAcls_is_empty_def)
  ultimately show ?thesis
    by (simp add: AclIndex_default_def)
qed

interpretation acl: acl_store AclIndex_default AclIndex_insert AclIndex_remove_matching
  AclIndex_matching AclIndex_iter acl_wf
  by unfold_locales
    (auto simp: acl_wf_default AclIndex_iter_distinct AclIndex_insert_spec AclIndex_remove_spec
      AclIndex_matching_spec AclIndex_no_entries, simp add: AclIndex_default_def AclIndex_iter_def)

abbreviation acl_step :: "acl_change \<Rightarrow> AclIndex \<Rightarrow> AclIndex" where
  "acl_step \<equiv> acl_change_by AclIndex_insert AclIndex_remove_matching"

section \<open>Properties\<close>

text \<open>
  C5: the index answers as the linear scan over a plain set of entries does. After any history of
  inserts and filtered removals, starting from the empty index, a lookup of a valid UTF-8 name
  returns exactly the entries of the set that apply to it, literal, wildcard or prefixed, and each
  of them once.
\<close>

theorem acl_lookup_exact:
  assumes "list_all acl_change_wf cs" and "utf8 name"
  shows "distinct (AclIndex_matching rt name (fold acl_step cs AclIndex_default))
    \<and> set (AclIndex_matching rt name (fold acl_step cs AclIndex_default))
      = {e \<in> fold spec_change cs {}. acl_applies rt name e}"
  by (rule acl.lookup_after_history[OF assms])

definition sample_acl :: "PatternType \<Rightarrow> bytes \<Rightarrow> AclEntry" where
  "sample_acl pt name =
     \<lparr>acl_resource_type = ResTopic, acl_resource_name = name, acl_pattern_type = pt, acl_principal = [0x61],
      acl_host = [0x2A], acl_operation = OpRead, acl_permission_type = Allow\<rparr>"

lemmas utf8_eval = utf8_def from_utf8.simps utf8_width_def second_ok_def continuation_def

theorem acl_lookup_exact_witness:
  "set (AclIndex_matching ResTopic [0x74, 0x31]
      (fold acl_step
        [AddAcl (sample_acl Literal [0x74, 0x31]), AddAcl (sample_acl Prefixed [0x74]),
         AddAcl (sample_acl Prefixed [0x75]), AddAcl (sample_acl Literal [0x2A])] AclIndex_default))
    = {sample_acl Literal [0x74, 0x31], sample_acl Prefixed [0x74], sample_acl Literal [0x2A]}"
proof -
  let ?cs = "[AddAcl (sample_acl Literal [0x74, 0x31]), AddAcl (sample_acl Prefixed [0x74]),
         AddAcl (sample_acl Prefixed [0x75]), AddAcl (sample_acl Literal [0x2A])]"
  have wf: "list_all acl_change_wf ?cs"
    by (simp add: acl_entry_wf_def sample_acl_def utf8_eval)
  have n: "utf8 [0x74, 0x31]"
    by (simp add: utf8_eval)
  have "{e \<in> fold spec_change ?cs {}. acl_applies ResTopic [0x74, 0x31] e}
    = {sample_acl Literal [0x74, 0x31], sample_acl Prefixed [0x74], sample_acl Literal [0x2A]}"
    by (auto simp: acl_applies_def sample_acl_def WILDCARD_RESOURCE_def)
  then show ?thesis
    using acl_lookup_exact[OF wf n, of ResTopic] by simp
qed

text \<open>
  The index leaves nothing behind. Removing with a filter that matches every stored entry gives
  back the empty index itself: no resource type, no bucket and no prefix length survives.
\<close>

theorem acl_removal_complete:
  assumes "list_all acl_change_wf cs"
    and "\<forall>e \<in> set (AclIndex_iter (fold acl_step cs AclIndex_default)). filter_matches f e"
  shows "AclIndex_remove_matching f (fold acl_step cs AclIndex_default) = AclIndex_default"
  using acl.remove_all acl.history_refines[OF acl.empty_wf assms(1)] assms(2) by blast

theorem acl_removal_complete_witness:
  "AclIndex_remove_matching \<lparr>af_resource_type = Some ResTopic, af_resource_name = None, af_pattern_type = None,
      af_principal = None, af_host = None, af_operation = None, af_permission_type = None\<rparr>
    (fold acl_step [AddAcl (sample_acl Prefixed [0x74]), AddAcl (sample_acl Literal [0x2A])] AclIndex_default)
    = AclIndex_default"
proof (rule acl_removal_complete)
  show "list_all acl_change_wf [AddAcl (sample_acl Prefixed [0x74]), AddAcl (sample_acl Literal [0x2A])]"
    by (simp add: acl_entry_wf_def sample_acl_def utf8_eval)
  show "\<forall>e \<in> set (AclIndex_iter
      (fold acl_step [AddAcl (sample_acl Prefixed [0x74]), AddAcl (sample_acl Literal [0x2A])] AclIndex_default)).
    filter_matches \<lparr>af_resource_type = Some ResTopic, af_resource_name = None, af_pattern_type = None,
      af_principal = None, af_host = None, af_operation = None, af_permission_type = None\<rparr> e"
    by (simp add: AclIndex_insert_def AclIndex_default_def sample_acl_def LiteralAcls_bucket_def
        PrefixedAcls_bucket_def hm_entry_def hm_insert_def or_default_def AclIndex_iter_def WILDCARD_RESOURCE_def
        filter_matches_def is_none_or_def)
qed

end
