(* ===== verification/MetadataTypes.thy ===== *)
theory MetadataTypes
  imports Acl
begin

text \<open>
  The data of the metadata crate: the records of the metadata log (\<open>records.rs\<close>,
  \<open>write_freeze.rs\<close>, \<open>break_glass.rs\<close>), the reserved directory ids (\<open>directory_id.rs\<close>), the
  errors (\<open>error.rs\<close>) and the voter set (\<open>crates/voters\<close>), with the parts of the security crate
  they embed. A string is its UTF-8 bytes, a \<open>uuid::Uuid\<close> a 128-bit word and an \<open>f64\<close> its 64 bits.
  Signed integers are \<open>int\<close>: what the code computes with them is written out where it computes.
\<close>

section \<open>Shared data\<close>

type_synonym uuid128 = "128 word"
type_synonym f64_bits = "64 word"
type_synonym NodeId = u64

text \<open>\<open>Uuid::from_u64_pair\<close> and \<open>Uuid::as_u64_pair\<close>.\<close>

definition from_u64_pair :: "u64 \<Rightarrow> u64 \<Rightarrow> uuid128" where
  "from_u64_pair hi lo = or (push_bit 64 (ucast hi)) (ucast lo)"

definition as_u64_pair :: "uuid128 \<Rightarrow> u64 \<times> u64" where
  "as_u64_pair u = (ucast (drop_bit 64 u), ucast u)"

datatype SaslMechanism = Plain | ScramSha256 | ScramSha512 | OAuthBearer | Gssapi

datatype ListenerProtocol = Plaintext | Ssl | SaslPlaintext | SaslSsl

record KafkaPrincipal =
  kp_principal_type :: bytes
  kp_name :: bytes

record ScramCredential =
  sc_mechanism :: SaslMechanism
  sc_salt :: bytes
  sc_stored_key :: bytes
  sc_server_key :: bytes
  sc_iterations :: u32

text \<open>The ASCII bytes of a string literal.\<close>

definition ascii :: "string \<Rightarrow> bytes" where
  "ascii s = map of_char s"

definition starts_with :: "bytes \<Rightarrow> bytes \<Rightarrow> bool" where
  "starts_with s p \<longleftrightarrow> take (length p) s = p"

section \<open>Reserved directory ids\<close>

definition MIGRATING :: uuid128 where
  "MIGRATING = from_u64_pair 0 0"

definition UNASSIGNED :: uuid128 where
  "UNASSIGNED = from_u64_pair 0 1"

definition LOST :: uuid128 where
  "LOST = from_u64_pair 0 2"

definition reserved :: "uuid128 \<Rightarrow> bool" where
  "reserved dir = (case as_u64_pair dir of (most, least) \<Rightarrow> most = 0 \<and> least < 100)"

definition is_online :: "uuid128 \<Rightarrow> uuid128 list \<Rightarrow> bool" where
  "is_online dir online_dirs =
     (if dir = UNASSIGNED \<or> dir = MIGRATING then True
      else if dir = LOST then False
      else online_dirs = [] \<or> dir \<in> set online_dirs)"

section \<open>Voters\<close>

record VoterEndpoint =
  ve_name :: bytes
  ve_host :: bytes
  ve_port :: u16

record KRaftVersionRange =
  kv_min :: u16
  kv_max :: u16

definition KRaftVersionRange_default :: KRaftVersionRange where
  "KRaftVersionRange_default = \<lparr>kv_min = 0, kv_max = 1\<rparr>"

record Voter =
  voter_id :: NodeId
  voter_directory_id :: uuid128
  voter_endpoints :: "VoterEndpoint list"
  voter_kraft_version :: KRaftVersionRange

type_synonym VoterSet = "(NodeId, Voter) btree_map"

definition VoterSet_from_voters :: "Voter list \<Rightarrow> VoterSet" where
  "VoterSet_from_voters vs = fold (\<lambda>v. bt_insert (voter_id v) v) vs []"

definition VoterSet_contains :: "NodeId \<Rightarrow> VoterSet \<Rightarrow> bool" where
  "VoterSet_contains n vs \<longleftrightarrow> map_of vs n \<noteq> None"

definition VoterSet_get :: "NodeId \<Rightarrow> VoterSet \<Rightarrow> Voter option" where
  "VoterSet_get n vs = map_of vs n"

definition VoterSet_ids :: "VoterSet \<Rightarrow> NodeId list" where
  "VoterSet_ids vs = map fst vs"

definition VoterSet_iter :: "VoterSet \<Rightarrow> Voter list" where
  "VoterSet_iter vs = map snd vs"

definition with_voter :: "Voter \<Rightarrow> VoterSet \<Rightarrow> VoterSet" where
  "with_voter v vs = bt_insert (voter_id v) v vs"

definition without_voter :: "NodeId \<Rightarrow> VoterSet \<Rightarrow> VoterSet" where
  "without_voter n vs = bt_remove n vs"

text \<open>The set as it is built: ascending ids, each the id of its voter.\<close>

definition voters_wf :: "VoterSet \<Rightarrow> bool" where
  "voters_wf vs \<longleftrightarrow> bt_wf vs \<and> (\<forall>(n, v) \<in> set vs. voter_id v = n)"

lemma voters_wf_insert: "voters_wf vs \<Longrightarrow> voters_wf (bt_insert (voter_id v) v vs)"
  using bt.ball_ins[of vs "\<lambda>(n, v). voter_id v = n" "voter_id v" v] by (simp add: voters_wf_def bt_wf_insert)

lemma voters_wf_fold: "voters_wf acc \<Longrightarrow> voters_wf (fold (\<lambda>v. bt_insert (voter_id v) v) vs acc)"
  by (induction vs arbitrary: acc) (simp_all add: voters_wf_insert)

lemma voters_wf_from: "voters_wf (VoterSet_from_voters vs)"
  unfolding VoterSet_from_voters_def by (rule voters_wf_fold) (simp add: voters_wf_def bt_wf_def)

lemma voters_rebuild:
  "voters_wf vs \<Longrightarrow> VoterSet_from_voters (VoterSet_iter vs) = vs"
  unfolding voters_wf_def VoterSet_from_voters_def VoterSet_iter_def
  by (rule bt.replay_values) auto

section \<open>Records of the log\<close>

record TopicRecord =
  tr_name :: bytes
  tr_topic_id :: uuid128
  tr_partitions :: int
  tr_replication_factor :: int

record PartitionRecord =
  pr_topic :: bytes
  pr_partition :: int
  pr_leader :: NodeId
  pr_replicas :: "NodeId list"
  pr_isr :: "NodeId list"
  pr_leader_epoch :: int
  pr_adding_replicas :: "NodeId list"
  pr_removing_replicas :: "NodeId list"
  pr_directories :: "uuid128 list"
  pr_partition_epoch :: int

definition default_partition_epoch :: int where
  "default_partition_epoch = -1"

record PartitionDirAssignmentRecord =
  pda_topic :: bytes
  pda_partition :: int
  pda_replica :: NodeId
  pda_directory :: uuid128

record PartitionOffsetAdvanceRecord =
  poa_topic :: bytes
  poa_partition :: int
  poa_count :: int

record PartitionElrRecord =
  elr_topic :: bytes
  elr_partition :: int
  elr_eligible_leader_replicas :: "NodeId list"
  elr_last_known_elr :: "NodeId list"

datatype LeaderRecoveryState = Recovered | Recovering

record PartitionRecoveryRecord =
  prr_topic :: bytes
  prr_partition :: int
  prr_state :: LeaderRecoveryState

record PartitionUpdateRecord =
  pu_partition :: PartitionRecord
  pu_eligible_leader_replicas :: "NodeId list option"
  pu_last_known_elr :: "NodeId list option"
  pu_recovery_state :: "LeaderRecoveryState option"

record BrokerEndpoint =
  be_name :: bytes
  be_host :: bytes
  be_port :: u16
  be_protocol :: ListenerProtocol

record BrokerRegistrationRecord =
  br_node_id :: NodeId
  br_broker_epoch :: int
  br_incarnation_id :: uuid128
  br_host :: bytes
  br_port :: u16
  br_rack :: "bytes option"
  br_endpoints :: "BrokerEndpoint list"
  br_log_dirs :: "uuid128 list"
  br_fenced :: bool
  br_in_controlled_shutdown :: bool
  br_cordoned_log_dirs :: "uuid128 list option"
  br_features :: "(bytes, int \<times> int) btree_map"

record ControllerRegistrationRecord =
  cr_node_id :: NodeId
  cr_incarnation_id :: uuid128
  cr_zk_migration_ready :: bool
  cr_endpoints :: "BrokerEndpoint list"
  cr_features :: "(bytes, int \<times> int) btree_map"

record UnregisterBrokerRecord =
  ub_node_id :: NodeId
  ub_broker_epoch :: int

datatype FencingChange = Unfence | NoFencingChange | Fence

definition FencingChange_wire_value :: "FencingChange \<Rightarrow> int" where
  "FencingChange_wire_value c = (case c of Unfence \<Rightarrow> -1 | NoFencingChange \<Rightarrow> 0 | Fence \<Rightarrow> 1)"

definition FencingChange_from_wire :: "int \<Rightarrow> FencingChange option" where
  "FencingChange_from_wire v =
     (if v = -1 then Some Unfence else if v = 0 then Some NoFencingChange
      else if v = 1 then Some Fence else None)"

definition FencingChange_apply :: "FencingChange \<Rightarrow> bool \<Rightarrow> bool" where
  "FencingChange_apply c fenced = (case c of Unfence \<Rightarrow> False | NoFencingChange \<Rightarrow> fenced | Fence \<Rightarrow> True)"

record BrokerRegistrationChangeRecord =
  brc_node_id :: NodeId
  brc_broker_epoch :: int
  brc_fenced :: FencingChange
  brc_in_controlled_shutdown :: bool
  brc_log_dirs :: "uuid128 list"
  brc_cordoned_log_dirs :: "uuid128 list option"

definition no_change :: "NodeId \<Rightarrow> int \<Rightarrow> BrokerRegistrationChangeRecord" where
  "no_change node_id broker_epoch =
     \<lparr>brc_node_id = node_id, brc_broker_epoch = broker_epoch, brc_fenced = NoFencingChange,
      brc_in_controlled_shutdown = False, brc_log_dirs = [], brc_cordoned_log_dirs = None\<rparr>"

definition applied_to :: "BrokerRegistrationChangeRecord \<Rightarrow> BrokerRegistrationRecord \<Rightarrow> BrokerRegistrationRecord" where
  "applied_to c current =
     current\<lparr>br_fenced := FencingChange_apply (brc_fenced c) (br_fenced current),
       br_in_controlled_shutdown := br_in_controlled_shutdown current \<or> brc_in_controlled_shutdown c,
       br_log_dirs := (if brc_log_dirs c = [] then br_log_dirs current else brc_log_dirs c),
       br_cordoned_log_dirs :=
         (case brc_cordoned_log_dirs c of None \<Rightarrow> br_cordoned_log_dirs current | Some ds \<Rightarrow> Some ds)\<rparr>"

record TopicConfigRecord =
  tc_topic :: bytes
  tc_overrides :: "(bytes, bytes) btree_map"

record BrokerConfigRecord =
  bc_node_id :: NodeId
  bc_config_name :: bytes
  bc_config_value :: "bytes option"

text \<open>\<open>NodeId(u64::MAX)\<close>.\<close>

definition DEFAULT_BROKER_CONFIG_NODE_ID :: NodeId where
  "DEFAULT_BROKER_CONFIG_NODE_ID = -1"

record ClientMetricsConfigRecord =
  cm_name :: bytes
  cm_configs :: "(bytes, bytes) btree_map"

record GroupConfigRecord =
  gc_group_id :: bytes
  gc_configs :: "(bytes, bytes) btree_map"

record QuotaEntity =
  qe_entity_type :: bytes
  qe_entity_name :: "bytes option"

record ClientQuotaRecord =
  cq_entity :: "QuotaEntity list"
  cq_config_key :: bytes
  cq_config_value :: "f64_bits option"

record ProducerIdsRecord =
  pi_broker_id :: NodeId
  pi_broker_epoch :: int
  pi_next_producer_id :: int

record ScramCredentialRecord =
  scr_user :: bytes
  scr_mechanism :: SaslMechanism
  scr_salt :: bytes
  scr_stored_key :: bytes
  scr_server_key :: bytes
  scr_iterations :: u32

record DeleteScramCredentialRecord =
  dsc_user :: bytes
  dsc_mechanism :: SaslMechanism

record DelegationTokenRecord =
  dtr_token_id :: bytes
  dtr_owner :: KafkaPrincipal
  dtr_requester :: KafkaPrincipal
  dtr_issue_timestamp_ms :: int
  dtr_expiry_timestamp_ms :: int
  dtr_max_timestamp_ms :: int
  dtr_renewers :: "KafkaPrincipal list"

record FeatureLevelRecord =
  fl_name :: bytes
  fl_level :: int

record TopicFreezeRecord =
  tf_scope :: bytes
  tf_pattern_type :: PatternType
  tf_frozen :: bool
  tf_reason :: bytes
  tf_set_by :: bytes
  tf_set_at_ms :: int
  tf_proposal_id :: uuid128
  tf_key_id :: bytes
  tf_signature :: bytes

datatype BreakGlassAction =
    ThawTopicFreeze | UncleanElectLeaders | UncleanRecovery | UnregisterBroker | CancelReassignment
  | DeleteTopic | DeleteRecords

record BreakGlassApproval_rec =
  ba_principal :: bytes
  ba_approved_at_ms :: int
  ba_key_id :: bytes
  ba_signature :: bytes

record BreakGlassProposalRecord =
  bp_proposal_id :: uuid128
  bp_action :: BreakGlassAction
  bp_target :: bytes
  bp_proposer :: bytes
  bp_reason :: bytes
  bp_created_at_ms :: int
  bp_expires_at_ms :: int
  bp_approvals :: "BreakGlassApproval_rec list"
  bp_consumed_at_ms :: int
  bp_withdrawn :: bool

text \<open>
  The records of one field are their field: \<open>DeleteTopicRecord\<close>, \<open>UnregisterControllerRecord\<close>,
  \<open>DeleteDelegationTokenRecord\<close>, \<open>KRaftVersionRecord\<close>, \<open>VotersRecord\<close>, \<open>FeaturesEpochRecord\<close>.
\<close>

datatype MetadataRecord =
    V1Topic TopicRecord
  | V1Partition PartitionRecord
  | V1BrokerRegistration BrokerRegistrationRecord
  | V1DeleteTopic bytes
  | V1TopicConfig TopicConfigRecord
  | V1ScramCredential ScramCredentialRecord
  | V1DeleteScramCredential DeleteScramCredentialRecord
  | V1AccessControlEntry AclEntry
  | V1DeleteAccessControlEntry AclEntryFilter
  | V1BrokerConfig BrokerConfigRecord
  | V1ClientQuota ClientQuotaRecord
  | V1ProducerIds ProducerIdsRecord
  | V1DelegationToken DelegationTokenRecord
  | V1DeleteDelegationToken bytes
  | V1UnregisterBroker UnregisterBrokerRecord
  | V1KRaftVersion u16
  | V1Voters VoterSet
  | V1FeatureLevel FeatureLevelRecord
  | V1ClientMetricsConfig ClientMetricsConfigRecord
  | V1FeaturesEpoch int
  | V1PartitionDirAssignment PartitionDirAssignmentRecord
  | V1PartitionOffsetAdvance PartitionOffsetAdvanceRecord
  | V1GroupConfig GroupConfigRecord
  | V1ControllerRegistration ControllerRegistrationRecord
  | V1TopicFreeze TopicFreezeRecord
  | V1BreakGlassProposal BreakGlassProposalRecord
  | V1DeleteBreakGlassProposal uuid128
  | V1PartitionElr PartitionElrRecord
  | V1PartitionRecovery PartitionRecoveryRecord
  | V1PartitionUpdate PartitionUpdateRecord
  | V1BrokerRegistrationChange BrokerRegistrationChangeRecord
  | V1UnregisterController NodeId

datatype MetadataError =
    TopicExists bytes
  | UnknownTopic bytes
  | InvalidPartition bytes int
  | InvalidRecord string
  | EmptyFreezeScope
  | BreakGlassApprovalsNotAnExtension uuid128
  | BreakGlassProposalConsumed uuid128
  | BreakGlassProposalWithdrawn uuid128

end
