(* ===== verification/MetadataImage.thy ===== *)
theory MetadataImage
  imports MetadataTypes "HOL-Library.Product_Lexorder"
begin

text \<open>
  The metadata image (\<open>crates/metadata/src/image.rs\<close>): the state of a cluster, changed only by
  \<open>apply_record\<close>, guarded by \<open>validate\<close> and written to and rebuilt from a snapshot by \<open>to_records\<close> and
  \<open>from_records\<close>. A \<open>HashMap\<close> of the image is an association list in some order, and the iterators
  run in that order.
\<close>

section \<open>Machine integers\<close>

definition I16_MAX :: int where
  "I16_MAX = 2 ^ 15 - 1"

definition I32_MAX :: int where
  "I32_MAX = 2 ^ 31 - 1"

definition I64_MAX :: int where
  "I64_MAX = 2 ^ 63 - 1"

text \<open>Two's complement wrap-around of an \<open>i64\<close> sum.\<close>

definition wrap_i64 :: "int \<Rightarrow> int" where
  "wrap_i64 x = (x + 2 ^ 63) mod 2 ^ 64 - 2 ^ 63"

section \<open>Delegation tokens and quota keys\<close>

type_synonym EntityKey = "(bytes \<times> bytes option) list"

record DelegationToken =
  dt_token_id :: bytes
  dt_owner :: KafkaPrincipal
  dt_requester :: KafkaPrincipal
  dt_issue_timestamp_ms :: int
  dt_expiry_timestamp_ms :: int
  dt_max_timestamp_ms :: int
  dt_renewers :: "KafkaPrincipal list"

definition DelegationToken_from_record :: "DelegationTokenRecord \<Rightarrow> DelegationToken" where
  "DelegationToken_from_record r =
     \<lparr>dt_token_id = dtr_token_id r, dt_owner = dtr_owner r, dt_requester = dtr_requester r,
      dt_issue_timestamp_ms = dtr_issue_timestamp_ms r, dt_expiry_timestamp_ms = dtr_expiry_timestamp_ms r,
      dt_max_timestamp_ms = dtr_max_timestamp_ms r, dt_renewers = dtr_renewers r\<rparr>"

definition DelegationToken_to_record :: "DelegationToken \<Rightarrow> DelegationTokenRecord" where
  "DelegationToken_to_record t =
     \<lparr>dtr_token_id = dt_token_id t, dtr_owner = dt_owner t, dtr_requester = dt_requester t,
      dtr_issue_timestamp_ms = dt_issue_timestamp_ms t, dtr_expiry_timestamp_ms = dt_expiry_timestamp_ms t,
      dtr_max_timestamp_ms = dt_max_timestamp_ms t, dtr_renewers = dt_renewers t\<rparr>"

definition owner_or_renewer :: "DelegationToken \<Rightarrow> KafkaPrincipal \<Rightarrow> bool" where
  "owner_or_renewer t p \<longleftrightarrow> dt_owner t = p \<or> dt_requester t = p \<or> p \<in> set (dt_renewers t)"

definition canonicalize_entity :: "EntityKey \<Rightarrow> EntityKey" where
  "canonicalize_entity tuple = sort_key fst tuple"

section \<open>The image\<close>

type_synonym 'v by_partition = "(bytes, (int, 'v) btree_map) hash_map"

record MetadataImage =
  mi_cluster_id :: uuid128
  mi_topics :: "(bytes, TopicRecord) hash_map"
  mi_topic_ids :: "(uuid128, bytes) hash_map"
  mi_partitions :: "PartitionRecord by_partition"
  mi_partition_next_offsets :: "int by_partition"
  mi_partition_elr :: "(NodeId list \<times> NodeId list) by_partition"
  mi_partition_recovery :: "LeaderRecoveryState by_partition"
  mi_brokers :: "(NodeId, BrokerRegistrationRecord) hash_map"
  mi_controllers :: "(NodeId, ControllerRegistrationRecord) hash_map"
  mi_topic_configs :: "(bytes, (bytes, bytes) btree_map) hash_map"
  mi_broker_configs :: "(NodeId, (bytes, bytes) btree_map) hash_map"
  mi_client_metrics_configs :: "(bytes, (bytes, bytes) btree_map) hash_map"
  mi_group_configs :: "(bytes, (bytes, bytes) btree_map) hash_map"
  mi_scram_credentials :: "(bytes \<times> SaslMechanism, ScramCredential) hash_map"
  mi_acls :: AclIndex
  mi_freezes_literal :: "(bytes, TopicFreezeRecord) hash_map"
  mi_freezes_prefixed :: "(bytes, TopicFreezeRecord) btree_map"
  mi_break_glass :: "(uuid128, BreakGlassProposalRecord) hash_map"
  mi_client_quotas :: "(EntityKey, (bytes, f64_bits) btree_map) hash_map"
  mi_producer_ids :: "ProducerIdsRecord option"
  mi_delegation_tokens :: "(bytes, DelegationToken) hash_map"
  mi_kraft_version :: u16
  mi_voters :: VoterSet
  mi_feature_levels :: "(bytes, int) btree_map"
  mi_features_epoch :: int

definition MetadataImage_new :: "uuid128 \<Rightarrow> MetadataImage" where
  "MetadataImage_new cluster_id =
     \<lparr>mi_cluster_id = cluster_id, mi_topics = [], mi_topic_ids = [], mi_partitions = [],
      mi_partition_next_offsets = [], mi_partition_elr = [], mi_partition_recovery = [], mi_brokers = [],
      mi_controllers = [], mi_topic_configs = [], mi_broker_configs = [], mi_client_metrics_configs = [],
      mi_group_configs = [], mi_scram_credentials = [], mi_acls = AclIndex_default, mi_freezes_literal = [],
      mi_freezes_prefixed = [], mi_break_glass = [], mi_client_quotas = [], mi_producer_ids = None,
      mi_delegation_tokens = [], mi_kraft_version = 0, mi_voters = [], mi_feature_levels = [],
      mi_features_epoch = -1\<rparr>"

section \<open>Readers\<close>

definition image_topics :: "MetadataImage \<Rightarrow> TopicRecord list" where
  "image_topics img = map snd (mi_topics img)"

definition image_topic :: "MetadataImage \<Rightarrow> bytes \<Rightarrow> TopicRecord option" where
  "image_topic img name = map_of (mi_topics img) name"

definition topic_by_id :: "MetadataImage \<Rightarrow> uuid128 \<Rightarrow> TopicRecord option" where
  "topic_by_id img tid =
     (case map_of (mi_topic_ids img) tid of None \<Rightarrow> None | Some name \<Rightarrow> map_of (mi_topics img) name)"

definition topic_name_by_id :: "MetadataImage \<Rightarrow> uuid128 \<Rightarrow> bytes option" where
  "topic_name_by_id img tid = map_of (mi_topic_ids img) tid"

text \<open>\<open>map.get(topic)?.get(&idx)\<close>.\<close>

definition nested_get :: "('k, ('i \<times> 'v) list) hash_map \<Rightarrow> 'k \<Rightarrow> 'i \<Rightarrow> 'v option" where
  "nested_get m k i = (case map_of m k of None \<Rightarrow> None | Some inner \<Rightarrow> map_of inner i)"

definition image_partition :: "MetadataImage \<Rightarrow> bytes \<Rightarrow> int \<Rightarrow> PartitionRecord option" where
  "image_partition img topic idx = nested_get (mi_partitions img) topic idx"

definition partitions_of :: "MetadataImage \<Rightarrow> bytes \<Rightarrow> PartitionRecord list" where
  "partitions_of img topic = map snd (or_default [] (map_of (mi_partitions img) topic))"

definition partition_next_offset :: "MetadataImage \<Rightarrow> bytes \<Rightarrow> int \<Rightarrow> int option" where
  "partition_next_offset img topic p = nested_get (mi_partition_next_offsets img) topic p"

definition partition_elr :: "MetadataImage \<Rightarrow> bytes \<Rightarrow> int \<Rightarrow> NodeId list \<times> NodeId list" where
  "partition_elr img topic p = or_default ([], []) (nested_get (mi_partition_elr img) topic p)"

definition leader_recovery_state :: "MetadataImage \<Rightarrow> bytes \<Rightarrow> int \<Rightarrow> LeaderRecoveryState" where
  "leader_recovery_state img topic p = or_default Recovered (nested_get (mi_partition_recovery img) topic p)"

definition topic_partition_count :: "MetadataImage \<Rightarrow> bytes \<Rightarrow> int" where
  "topic_partition_count img topic =
     (case map_of (mi_partitions img) topic of
        None \<Rightarrow> 0
      | Some parts \<Rightarrow> if int (length parts) \<le> I32_MAX then int (length parts) else I32_MAX)"

definition total_partitions :: "MetadataImage \<Rightarrow> nat" where
  "total_partitions img = sum_list (map (\<lambda>(_, parts). length parts) (mi_partitions img))"

definition all_partitions :: "MetadataImage \<Rightarrow> PartitionRecord list" where
  "all_partitions img = concat (map (\<lambda>(_, parts). map snd parts) (mi_partitions img))"

definition reassignments_in_flight :: "MetadataImage \<Rightarrow> PartitionRecord list" where
  "reassignments_in_flight img =
     filter (\<lambda>p. pr_adding_replicas p \<noteq> [] \<or> pr_removing_replicas p \<noteq> []) (all_partitions img)"

definition topic_config :: "MetadataImage \<Rightarrow> bytes \<Rightarrow> (bytes, bytes) btree_map option" where
  "topic_config img topic = map_of (mi_topic_configs img) topic"

definition broker_config :: "MetadataImage \<Rightarrow> NodeId \<Rightarrow> (bytes, bytes) btree_map option" where
  "broker_config img node_id = map_of (mi_broker_configs img) node_id"

definition default_broker_config :: "MetadataImage \<Rightarrow> (bytes, bytes) btree_map option" where
  "default_broker_config img = broker_config img DEFAULT_BROKER_CONFIG_NODE_ID"

datatype ThrottleKind = ThrottleLeader | ThrottleFollower | ThrottleAlterLogDirs

text \<open>
  \<open>str::parse::<i64>()\<close>: an optional sign, at least one decimal digit, nothing else, and a value
  in range.
\<close>

definition is_digit :: "u8 \<Rightarrow> bool" where
  "is_digit b \<longleftrightarrow> 0x30 \<le> b \<and> b \<le> 0x39"

definition digits_value :: "bytes \<Rightarrow> int" where
  "digits_value ds = fold (\<lambda>d acc. acc * 10 + (uint d - 0x30)) ds 0"

definition parse_i64 :: "bytes \<Rightarrow> int option" where
  "parse_i64 s =
     (let neg = (s \<noteq> [] \<and> hd s = 0x2D);
          ds = (if s \<noteq> [] \<and> (hd s = 0x2D \<or> hd s = 0x2B) then tl s else s);
          v = (if neg then - digits_value ds else digits_value ds)
      in if ds \<noteq> [] \<and> list_all is_digit ds \<and> - (2 ^ 63) \<le> v \<and> v \<le> I64_MAX then Some v else None)"

definition throttle_key :: "ThrottleKind \<Rightarrow> bytes" where
  "throttle_key kind =
     (case kind of
        ThrottleLeader \<Rightarrow> ascii ''leader.replication.throttled.rate''
      | ThrottleFollower \<Rightarrow> ascii ''follower.replication.throttled.rate''
      | ThrottleAlterLogDirs \<Rightarrow> ascii ''replica.alter.log.dirs.io.max.bytes.per.second'')"

text \<open>The rate is the \<open>i64\<close> that is handed to \<open>ByteRate::from_bytes_per_sec\<close>.\<close>

definition broker_throttle_rate :: "MetadataImage \<Rightarrow> NodeId \<Rightarrow> ThrottleKind \<Rightarrow> int option" where
  "broker_throttle_rate img node_id kind =
     (let key = throttle_key kind;
          own = Option.bind (broker_config img node_id) (\<lambda>configs. map_of configs key);
          raw = (case own of
                   Some v \<Rightarrow> Some v
                 | None \<Rightarrow> Option.bind (default_broker_config img) (\<lambda>configs. map_of configs key))
      in Option.bind raw (\<lambda>s. Option.bind (parse_i64 s) (\<lambda>v. if 0 \<le> v then Some v else None)))"

definition client_metrics_config :: "MetadataImage \<Rightarrow> bytes \<Rightarrow> (bytes, bytes) btree_map option" where
  "client_metrics_config img name = map_of (mi_client_metrics_configs img) name"

definition group_config :: "MetadataImage \<Rightarrow> bytes \<Rightarrow> (bytes, bytes) btree_map option" where
  "group_config img group_id = map_of (mi_group_configs img) group_id"

definition scram_credential :: "MetadataImage \<Rightarrow> bytes \<Rightarrow> SaslMechanism \<Rightarrow> ScramCredential option" where
  "scram_credential img user mechanism = map_of (mi_scram_credentials img) (user, mechanism)"

definition scram_credentials_users :: "MetadataImage \<Rightarrow> bytes list" where
  "scram_credentials_users img = remdups (map (\<lambda>((u, _), _). u) (mi_scram_credentials img))"

definition scram_credentials_for_user :: "MetadataImage \<Rightarrow> bytes \<Rightarrow> (SaslMechanism \<times> u32) list" where
  "scram_credentials_for_user img user =
     map (\<lambda>((_, mech), cred). (mech, sc_iterations cred))
       (filter (\<lambda>((u, _), _). u = user) (mi_scram_credentials img))"

definition image_broker :: "MetadataImage \<Rightarrow> NodeId \<Rightarrow> BrokerRegistrationRecord option" where
  "image_broker img node_id = map_of (mi_brokers img) node_id"

definition image_controller :: "MetadataImage \<Rightarrow> NodeId \<Rightarrow> ControllerRegistrationRecord option" where
  "image_controller img node_id = map_of (mi_controllers img) node_id"

definition broker_epoch :: "MetadataImage \<Rightarrow> NodeId \<Rightarrow> int option" where
  "broker_epoch img node_id = map_option br_broker_epoch (map_of (mi_brokers img) node_id)"

definition next_producer_id :: "MetadataImage \<Rightarrow> int" where
  "next_producer_id img = (case mi_producer_ids img of None \<Rightarrow> 0 | Some r \<Rightarrow> pi_next_producer_id r)"

definition matching_acls :: "MetadataImage \<Rightarrow> ResourceType \<Rightarrow> bytes \<Rightarrow> AclEntry list" where
  "matching_acls img rt rn = AclIndex_matching rt rn (mi_acls img)"

definition all_acls :: "MetadataImage \<Rightarrow> AclEntry list" where
  "all_acls img = AclIndex_iter (mi_acls img)"

definition topic_freeze :: "MetadataImage \<Rightarrow> bytes \<Rightarrow> TopicFreezeRecord option" where
  "topic_freeze img topic =
     (if mi_freezes_literal img = [] \<and> mi_freezes_prefixed img = [] then None
      else if starts_with topic (ascii ''__'') then None
      else case map_of (mi_freezes_literal img) topic of
             Some freeze \<Rightarrow> Some freeze
           | None \<Rightarrow>
               map_option snd (find (\<lambda>(scope, _). starts_with topic scope)
                 (rev (filter (\<lambda>(scope, _). scope \<le> topic) (mi_freezes_prefixed img)))))"

definition topic_freezes :: "MetadataImage \<Rightarrow> TopicFreezeRecord list" where
  "topic_freezes img = map snd (mi_freezes_literal img) @ map snd (mi_freezes_prefixed img)"

definition break_glass_proposal :: "MetadataImage \<Rightarrow> uuid128 \<Rightarrow> BreakGlassProposalRecord option" where
  "break_glass_proposal img pid = map_of (mi_break_glass img) pid"

definition delegation_token_by_id :: "MetadataImage \<Rightarrow> bytes \<Rightarrow> DelegationToken option" where
  "delegation_token_by_id img token_id = map_of (mi_delegation_tokens img) token_id"

definition delegation_tokens_by_owner :: "MetadataImage \<Rightarrow> KafkaPrincipal \<Rightarrow> DelegationToken list" where
  "delegation_tokens_by_owner img owner =
     filter (\<lambda>t. dt_owner t = owner) (map snd (mi_delegation_tokens img))"

definition delegation_tokens_visible_to :: "MetadataImage \<Rightarrow> KafkaPrincipal \<Rightarrow> DelegationToken list" where
  "delegation_tokens_visible_to img who =
     filter (\<lambda>t. owner_or_renewer t who) (map snd (mi_delegation_tokens img))"

text \<open>\<open>compute_token_hmac\<close> calls a cryptographic library, so it is a parameter.\<close>

definition delegation_token_by_hmac ::
    "(bytes \<Rightarrow> bytes \<Rightarrow> bytes) \<Rightarrow> MetadataImage \<Rightarrow> bytes \<Rightarrow> bytes \<Rightarrow> DelegationToken option" where
  "delegation_token_by_hmac compute_token_hmac img secret_key hmac =
     find (\<lambda>t. compute_token_hmac secret_key (dt_token_id t) = hmac) (map snd (mi_delegation_tokens img))"

definition METADATA_VERSION_FEATURE :: bytes where
  "METADATA_VERSION_FEATURE = ascii ''metadata.version''"

definition finalized_feature :: "MetadataImage \<Rightarrow> bytes \<Rightarrow> int option" where
  "finalized_feature img name = map_of (mi_feature_levels img) name"

definition finalized_metadata_version :: "MetadataImage \<Rightarrow> int option" where
  "finalized_metadata_version img = map_of (mi_feature_levels img) METADATA_VERSION_FEATURE"

section \<open>Applying a record\<close>

text \<open>\<open>Iterator::position\<close>.\<close>

fun position :: "('a \<Rightarrow> bool) \<Rightarrow> 'a list \<Rightarrow> nat option" where
  "position P [] = None"
| "position P (x # xs) = (if P x then Some 0 else map_option Suc (position P xs))"

definition apply_topic :: "TopicRecord \<Rightarrow> MetadataImage \<Rightarrow> MetadataImage" where
  "apply_topic t img =
     (let prev = map_of (mi_topics img) (tr_name t);
          ids = (case prev of
                   Some p \<Rightarrow> if tr_topic_id p \<noteq> tr_topic_id t then hm_remove (tr_topic_id p) (mi_topic_ids img)
                             else mi_topic_ids img
                 | None \<Rightarrow> mi_topic_ids img);
          count = (case prev of None \<Rightarrow> 0 | Some p \<Rightarrow> tr_partitions p)
      in img\<lparr>mi_topic_ids := hm_insert (tr_topic_id t) (tr_name t) ids,
             mi_topics := hm_insert (tr_name t) (t\<lparr>tr_partitions := count\<rparr>) (mi_topics img)\<rparr>)"

definition apply_partition :: "PartitionRecord \<Rightarrow> MetadataImage \<Rightarrow> MetadataImage" where
  "apply_partition p img =
     (let is_new = (nested_get (mi_partitions img) (pr_topic p) (pr_partition p) = None);
          img' = img\<lparr>mi_partitions :=
            hm_entry (pr_topic p) [] (bt_insert (pr_partition p) p) (mi_partitions img)\<rparr>
      in case map_of (mi_topics img) (pr_topic p) of
           None \<Rightarrow> img'
         | Some t \<Rightarrow>
             img'\<lparr>mi_topics := hm_insert (pr_topic p)
               (t\<lparr>tr_partitions := (if is_new then min I32_MAX (tr_partitions t + 1) else tr_partitions t),
                  tr_replication_factor :=
                    (if int (length (pr_replicas p)) \<le> I16_MAX then int (length (pr_replicas p))
                     else tr_replication_factor t)\<rparr>) (mi_topics img)\<rparr>)"

text \<open>
  The removal shared by \<open>apply_partition_elr\<close> and \<open>apply_partition_recovery\<close>: the inner entry goes,
  and the topic with it when nothing is left.
\<close>

definition nested_remove :: "bytes \<Rightarrow> int \<Rightarrow> 'v by_partition \<Rightarrow> 'v by_partition" where
  "nested_remove topic p m =
     (case map_of m topic of
        None \<Rightarrow> m
      | Some parts \<Rightarrow>
          let rest = bt_remove p parts in
          if rest = [] then hm_remove topic m else hm_insert topic rest m)"

definition nested_insert :: "'k \<Rightarrow> 'i::linorder \<Rightarrow> 'v \<Rightarrow> ('k, ('i, 'v) btree_map) hash_map \<Rightarrow> ('k, ('i, 'v) btree_map) hash_map" where
  "nested_insert k i v m = hm_entry k [] (bt_insert i v) m"

definition apply_partition_elr :: "PartitionElrRecord \<Rightarrow> MetadataImage \<Rightarrow> MetadataImage" where
  "apply_partition_elr r img =
     (if elr_eligible_leader_replicas r = [] \<and> elr_last_known_elr r = []
      then img\<lparr>mi_partition_elr := nested_remove (elr_topic r) (elr_partition r) (mi_partition_elr img)\<rparr>
      else img\<lparr>mi_partition_elr := nested_insert (elr_topic r) (elr_partition r)
             (elr_eligible_leader_replicas r, elr_last_known_elr r) (mi_partition_elr img)\<rparr>)"

definition apply_partition_recovery :: "bytes \<Rightarrow> int \<Rightarrow> LeaderRecoveryState \<Rightarrow> MetadataImage \<Rightarrow> MetadataImage" where
  "apply_partition_recovery topic p state img =
     (if state = Recovered
      then img\<lparr>mi_partition_recovery := nested_remove topic p (mi_partition_recovery img)\<rparr>
      else img\<lparr>mi_partition_recovery := nested_insert topic p state (mi_partition_recovery img)\<rparr>)"

definition apply_partition_update :: "PartitionUpdateRecord \<Rightarrow> MetadataImage \<Rightarrow> MetadataImage" where
  "apply_partition_update u img =
     (let topic = pr_topic (pu_partition u); p = pr_partition (pu_partition u);
          img1 = apply_partition (pu_partition u) img;
          img2 = (case (pu_eligible_leader_replicas u, pu_last_known_elr u) of
                    (Some eligible, Some last_known) \<Rightarrow>
                      apply_partition_elr \<lparr>elr_topic = topic, elr_partition = p,
                        elr_eligible_leader_replicas = eligible, elr_last_known_elr = last_known\<rparr> img1
                  | _ \<Rightarrow> img1)
      in case pu_recovery_state u of
           Some state \<Rightarrow> apply_partition_recovery topic p state img2
         | None \<Rightarrow> img2)"

definition apply_topic_freeze :: "TopicFreezeRecord \<Rightarrow> MetadataImage \<Rightarrow> MetadataImage" where
  "apply_topic_freeze r img =
     (case (tf_pattern_type r, tf_frozen r) of
        (Literal, True) \<Rightarrow> img\<lparr>mi_freezes_literal := hm_insert (tf_scope r) r (mi_freezes_literal img)\<rparr>
      | (Literal, False) \<Rightarrow> img\<lparr>mi_freezes_literal := hm_remove (tf_scope r) (mi_freezes_literal img)\<rparr>
      | (Prefixed, True) \<Rightarrow> img\<lparr>mi_freezes_prefixed := bt_insert (tf_scope r) r (mi_freezes_prefixed img)\<rparr>
      | (Prefixed, False) \<Rightarrow> img\<lparr>mi_freezes_prefixed := bt_remove (tf_scope r) (mi_freezes_prefixed img)\<rparr>)"

definition apply_registration_change :: "BrokerRegistrationChangeRecord \<Rightarrow> MetadataImage \<Rightarrow> MetadataImage" where
  "apply_registration_change c img =
     (case map_of (mi_brokers img) (brc_node_id c) of
        Some broker \<Rightarrow>
          if br_broker_epoch broker = brc_broker_epoch c
          then img\<lparr>mi_brokers := hm_insert (brc_node_id c) (applied_to c broker) (mi_brokers img)\<rparr>
          else img
      | None \<Rightarrow> img)"

definition apply_unregister_broker :: "UnregisterBrokerRecord \<Rightarrow> MetadataImage \<Rightarrow> MetadataImage" where
  "apply_unregister_broker r img =
     (if broker_epoch img (ub_node_id r) = Some (ub_broker_epoch r)
      then img\<lparr>mi_brokers := hm_remove (ub_node_id r) (mi_brokers img)\<rparr> else img)"

definition apply_delete_topic :: "bytes \<Rightarrow> MetadataImage \<Rightarrow> MetadataImage" where
  "apply_delete_topic name img =
     img\<lparr>mi_topic_ids :=
           (case map_of (mi_topics img) name of
              Some prev \<Rightarrow> hm_remove (tr_topic_id prev) (mi_topic_ids img)
            | None \<Rightarrow> mi_topic_ids img),
         mi_topics := hm_remove name (mi_topics img),
         mi_partitions := hm_remove name (mi_partitions img),
         mi_partition_next_offsets := hm_remove name (mi_partition_next_offsets img),
         mi_partition_elr := hm_remove name (mi_partition_elr img),
         mi_partition_recovery := hm_remove name (mi_partition_recovery img),
         mi_topic_configs := hm_remove name (mi_topic_configs img)\<rparr>"

text \<open>The whole-map replacement of topic, client-metrics and group configs.\<close>

definition replace_configs :: "'k \<Rightarrow> ('a \<times> 'b) list \<Rightarrow> ('k, ('a \<times> 'b) list) hash_map \<Rightarrow> ('k, ('a \<times> 'b) list) hash_map" where
  "replace_configs k configs m = (if configs = [] then hm_remove k m else hm_insert k configs m)"

text \<open>The key-value change of broker configs and client quotas.\<close>

definition change_config :: "'k \<Rightarrow> 'a::linorder \<Rightarrow> 'b option \<Rightarrow> ('k, ('a, 'b) btree_map) hash_map \<Rightarrow> ('k, ('a, 'b) btree_map) hash_map" where
  "change_config k name v m =
     hm_entry k [] (\<lambda>entry. case v of Some x \<Rightarrow> bt_insert name x entry | None \<Rightarrow> bt_remove name entry) m"

definition quota_key :: "QuotaEntity list \<Rightarrow> EntityKey" where
  "quota_key es = canonicalize_entity (map (\<lambda>e. (qe_entity_type e, qe_entity_name e)) es)"

definition apply_dir_assignment :: "PartitionDirAssignmentRecord \<Rightarrow> MetadataImage \<Rightarrow> MetadataImage" where
  "apply_dir_assignment r img =
     (case nested_get (mi_partitions img) (pda_topic r) (pda_partition r) of
        None \<Rightarrow> img
      | Some pr \<Rightarrow>
          (case position (\<lambda>n. n = pda_replica r) (pr_replicas pr) of
             None \<Rightarrow> img
           | Some slot \<Rightarrow>
               let n = length (pr_replicas pr);
                   dirs = (if length (pr_directories pr) < n
                           then pr_directories pr @ replicate (n - length (pr_directories pr)) MIGRATING
                           else pr_directories pr);
                   dirs' = (if slot < length dirs then dirs[slot := pda_directory r] else dirs)
               in img\<lparr>mi_partitions := nested_insert (pda_topic r) (pda_partition r)
                        (pr\<lparr>pr_directories := dirs'\<rparr>) (mi_partitions img)\<rparr>))"

definition apply_offset_advance :: "PartitionOffsetAdvanceRecord \<Rightarrow> MetadataImage \<Rightarrow> MetadataImage" where
  "apply_offset_advance r img =
     img\<lparr>mi_partition_next_offsets := nested_insert (poa_topic r) (poa_partition r)
       (wrap_i64 (or_default 0 (nested_get (mi_partition_next_offsets img) (poa_topic r) (poa_partition r)) + poa_count r))
       (mi_partition_next_offsets img)\<rparr>"

definition apply_feature_level :: "FeatureLevelRecord \<Rightarrow> MetadataImage \<Rightarrow> MetadataImage" where
  "apply_feature_level r img =
     img\<lparr>mi_feature_levels :=
           (if fl_level r = 0 then bt_remove (fl_name r) (mi_feature_levels img)
            else bt_insert (fl_name r) (fl_level r) (mi_feature_levels img)),
         mi_features_epoch := max 0 (min I64_MAX (mi_features_epoch img + 1))\<rparr>"

definition apply_producer_ids :: "ProducerIdsRecord \<Rightarrow> MetadataImage \<Rightarrow> MetadataImage" where
  "apply_producer_ids r img =
     (if next_producer_id img < pi_next_producer_id r then img\<lparr>mi_producer_ids := Some r\<rparr> else img)"

definition scram_of_record :: "ScramCredentialRecord \<Rightarrow> ScramCredential" where
  "scram_of_record r =
     \<lparr>sc_mechanism = scr_mechanism r, sc_salt = scr_salt r, sc_stored_key = scr_stored_key r,
      sc_server_key = scr_server_key r, sc_iterations = scr_iterations r\<rparr>"

fun apply_record :: "MetadataRecord \<Rightarrow> MetadataImage \<Rightarrow> MetadataImage" where
  "apply_record (V1Topic t) img = apply_topic t img"
| "apply_record (V1Partition p) img = apply_partition p img"
| "apply_record (V1BrokerRegistration b) img = img\<lparr>mi_brokers := hm_insert (br_node_id b) b (mi_brokers img)\<rparr>"
| "apply_record (V1BrokerRegistrationChange c) img = apply_registration_change c img"
| "apply_record (V1UnregisterBroker r) img = apply_unregister_broker r img"
| "apply_record (V1ControllerRegistration c) img =
     img\<lparr>mi_controllers := hm_insert (cr_node_id c) c (mi_controllers img)\<rparr>"
| "apply_record (V1UnregisterController node_id) img =
     img\<lparr>mi_controllers := hm_remove node_id (mi_controllers img)\<rparr>"
| "apply_record (V1DeleteTopic name) img = apply_delete_topic name img"
| "apply_record (V1TopicConfig c) img =
     img\<lparr>mi_topic_configs := replace_configs (tc_topic c) (tc_overrides c) (mi_topic_configs img)\<rparr>"
| "apply_record (V1ScramCredential r) img =
     img\<lparr>mi_scram_credentials := hm_insert (scr_user r, scr_mechanism r) (scram_of_record r) (mi_scram_credentials img)\<rparr>"
| "apply_record (V1DeleteScramCredential r) img =
     img\<lparr>mi_scram_credentials := hm_remove (dsc_user r, dsc_mechanism r) (mi_scram_credentials img)\<rparr>"
| "apply_record (V1AccessControlEntry e) img = img\<lparr>mi_acls := AclIndex_insert e (mi_acls img)\<rparr>"
| "apply_record (V1DeleteAccessControlEntry f) img = img\<lparr>mi_acls := AclIndex_remove_matching f (mi_acls img)\<rparr>"
| "apply_record (V1BrokerConfig r) img =
     img\<lparr>mi_broker_configs := change_config (bc_node_id r) (bc_config_name r) (bc_config_value r) (mi_broker_configs img)\<rparr>"
| "apply_record (V1ClientQuota r) img =
     img\<lparr>mi_client_quotas := change_config (quota_key (cq_entity r)) (cq_config_key r) (cq_config_value r) (mi_client_quotas img)\<rparr>"
| "apply_record (V1ProducerIds r) img = apply_producer_ids r img"
| "apply_record (V1DelegationToken r) img =
     img\<lparr>mi_delegation_tokens := hm_insert (dtr_token_id r) (DelegationToken_from_record r) (mi_delegation_tokens img)\<rparr>"
| "apply_record (V1DeleteDelegationToken token_id) img =
     img\<lparr>mi_delegation_tokens := hm_remove token_id (mi_delegation_tokens img)\<rparr>"
| "apply_record (V1KRaftVersion v) img = img\<lparr>mi_kraft_version := v\<rparr>"
| "apply_record (V1Voters vs) img = img\<lparr>mi_voters := vs\<rparr>"
| "apply_record (V1FeatureLevel r) img = apply_feature_level r img"
| "apply_record (V1ClientMetricsConfig c) img =
     img\<lparr>mi_client_metrics_configs := replace_configs (cm_name c) (cm_configs c) (mi_client_metrics_configs img)\<rparr>"
| "apply_record (V1GroupConfig c) img =
     img\<lparr>mi_group_configs := replace_configs (gc_group_id c) (gc_configs c) (mi_group_configs img)\<rparr>"
| "apply_record (V1FeaturesEpoch epoch) img = img\<lparr>mi_features_epoch := epoch\<rparr>"
| "apply_record (V1PartitionDirAssignment r) img = apply_dir_assignment r img"
| "apply_record (V1PartitionOffsetAdvance r) img = apply_offset_advance r img"
| "apply_record (V1PartitionElr r) img = apply_partition_elr r img"
| "apply_record (V1PartitionRecovery r) img = apply_partition_recovery (prr_topic r) (prr_partition r) (prr_state r) img"
| "apply_record (V1PartitionUpdate r) img = apply_partition_update r img"
| "apply_record (V1TopicFreeze r) img = apply_topic_freeze r img"
| "apply_record (V1BreakGlassProposal r) img =
     img\<lparr>mi_break_glass := hm_insert (bp_proposal_id r) r (mi_break_glass img)\<rparr>"
| "apply_record (V1DeleteBreakGlassProposal pid) img = img\<lparr>mi_break_glass := hm_remove pid (mi_break_glass img)\<rparr>"

definition from_records :: "uuid128 \<Rightarrow> MetadataRecord list \<Rightarrow> MetadataImage" where
  "from_records cluster_id records = fold apply_record records (MetadataImage_new cluster_id)"

section \<open>Snapshots\<close>

definition nested_entries :: "('k, ('i \<times> 'v) list) hash_map \<Rightarrow> ('k \<times> 'i \<times> 'v) list" where
  "nested_entries m = concat (map (\<lambda>(k, inner). map (\<lambda>(i, v). (k, i, v)) inner) m)"

definition partition_offset_advances :: "MetadataImage \<Rightarrow> MetadataRecord list" where
  "partition_offset_advances img =
     map (\<lambda>(topic, p, count). V1PartitionOffsetAdvance \<lparr>poa_topic = topic, poa_partition = p, poa_count = count\<rparr>)
       (nested_entries (mi_partition_next_offsets img))"

definition scram_to_record :: "(bytes \<times> SaslMechanism) \<times> ScramCredential \<Rightarrow> ScramCredentialRecord" where
  "scram_to_record e = (case e of ((user, mechanism), cred) \<Rightarrow>
     \<lparr>scr_user = user, scr_mechanism = mechanism, scr_salt = sc_salt cred, scr_stored_key = sc_stored_key cred,
      scr_server_key = sc_server_key cred, scr_iterations = sc_iterations cred\<rparr>)"

definition quota_entities :: "EntityKey \<Rightarrow> QuotaEntity list" where
  "quota_entities key = map (\<lambda>(t, n). \<lparr>qe_entity_type = t, qe_entity_name = n\<rparr>) key"

definition to_records :: "MetadataImage \<Rightarrow> MetadataRecord list" where
  "to_records img =
     map (\<lambda>(_, b). V1BrokerRegistration b) (mi_brokers img)
     @ map (\<lambda>(_, c). V1ControllerRegistration c) (mi_controllers img)
     @ map (\<lambda>(node_id, name, v). V1BrokerConfig \<lparr>bc_node_id = node_id, bc_config_name = name, bc_config_value = Some v\<rparr>)
         (nested_entries (mi_broker_configs img))
     @ map (\<lambda>(_, t). V1Topic t) (mi_topics img)
     @ map V1Partition (all_partitions img)
     @ partition_offset_advances img
     @ map (\<lambda>(topic, p, eligible, last_known).
           V1PartitionElr \<lparr>elr_topic = topic, elr_partition = p, elr_eligible_leader_replicas = eligible, elr_last_known_elr = last_known\<rparr>)
         (nested_entries (mi_partition_elr img))
     @ map (\<lambda>(topic, p, state). V1PartitionRecovery \<lparr>prr_topic = topic, prr_partition = p, prr_state = state\<rparr>)
         (nested_entries (mi_partition_recovery img))
     @ map (\<lambda>(topic, overrides). V1TopicConfig \<lparr>tc_topic = topic, tc_overrides = overrides\<rparr>) (mi_topic_configs img)
     @ map (\<lambda>e. V1ScramCredential (scram_to_record e)) (mi_scram_credentials img)
     @ map V1AccessControlEntry (all_acls img)
     @ map (\<lambda>(key, name, v).
           V1ClientQuota \<lparr>cq_entity = quota_entities key, cq_config_key = name, cq_config_value = Some v\<rparr>)
         (nested_entries (mi_client_quotas img))
     @ (case mi_producer_ids img of None \<Rightarrow> [] | Some r \<Rightarrow> [V1ProducerIds r])
     @ map (\<lambda>(_, t). V1DelegationToken (DelegationToken_to_record t)) (mi_delegation_tokens img)
     @ map (\<lambda>(name, configs). V1ClientMetricsConfig \<lparr>cm_name = name, cm_configs = configs\<rparr>) (mi_client_metrics_configs img)
     @ map (\<lambda>(group_id, configs). V1GroupConfig \<lparr>gc_group_id = group_id, gc_configs = configs\<rparr>) (mi_group_configs img)
     @ map V1TopicFreeze (topic_freezes img)
     @ map (\<lambda>(_, p). V1BreakGlassProposal p) (mi_break_glass img)
     @ map (\<lambda>(name, level). V1FeatureLevel \<lparr>fl_name = name, fl_level = level\<rparr>) (mi_feature_levels img)
     @ (if 0 \<le> mi_features_epoch img then [V1FeaturesEpoch (mi_features_epoch img)] else [])
     @ (if mi_kraft_version img \<noteq> 0 then [V1KRaftVersion (mi_kraft_version img)] else [])
     @ (if mi_voters img \<noteq> [] then [V1Voters (mi_voters img)] else [])"

section \<open>Validation\<close>

definition extends :: "BreakGlassApproval_rec list \<Rightarrow> BreakGlassApproval_rec list \<Rightarrow> bool" where
  "extends stored candidate \<longleftrightarrow> take (length stored) candidate = stored"

definition known_topic :: "MetadataImage \<Rightarrow> bytes \<Rightarrow> bool" where
  "known_topic img topic \<longleftrightarrow> map_of (mi_topics img) topic \<noteq> None"

fun validate :: "MetadataImage \<Rightarrow> MetadataRecord \<Rightarrow> (MetadataError, unit) result" where
  "validate img (V1Topic t) =
     (case map_of (mi_topics img) (tr_name t) of
        Some existing \<Rightarrow>
          if tr_topic_id existing \<noteq> tr_topic_id t \<or> tr_replication_factor existing \<noteq> tr_replication_factor t
             \<or> tr_partitions t \<le> topic_partition_count img (tr_name t)
          then Err (TopicExists (tr_name t)) else Ok ()
      | None \<Rightarrow> Ok ())"
| "validate img (V1Partition p) =
     (if \<not> known_topic img (pr_topic p) then Err (UnknownTopic (pr_topic p)) else Ok ())"
| "validate img (V1PartitionUpdate u) =
     (if \<not> known_topic img (pr_topic (pu_partition u)) then Err (UnknownTopic (pr_topic (pu_partition u))) else Ok ())"
| "validate img (V1PartitionElr r) =
     (if image_partition img (elr_topic r) (elr_partition r) = None then Err (UnknownTopic (elr_topic r)) else Ok ())"
| "validate img (V1PartitionRecovery r) =
     (if image_partition img (prr_topic r) (prr_partition r) = None then Err (UnknownTopic (prr_topic r)) else Ok ())"
| "validate img (V1DeleteTopic name) = (if \<not> known_topic img name then Err (UnknownTopic name) else Ok ())"
| "validate img (V1TopicConfig c) = (if \<not> known_topic img (tc_topic c) then Err (UnknownTopic (tc_topic c)) else Ok ())"
| "validate img (V1BrokerRegistrationChange c) =
     (if broker_epoch img (brc_node_id c) \<noteq> Some (brc_broker_epoch c)
      then Err (InvalidRecord ''broker registration change for an epoch the broker is not registered at'') else Ok ())"
| "validate img (V1UnregisterBroker r) =
     (if broker_epoch img (ub_node_id r) \<noteq> Some (ub_broker_epoch r)
      then Err (InvalidRecord ''broker unregistration for an epoch the broker is not registered at'') else Ok ())"
| "validate img (V1UnregisterController node_id) =
     (if map_of (mi_controllers img) node_id = None
      then Err (InvalidRecord ''controller unregistration for a controller that is not registered'') else Ok ())"
| "validate img (V1TopicFreeze f) = (if tf_scope f = [] then Err EmptyFreezeScope else Ok ())"
| "validate img (V1BreakGlassProposal p) =
     (case map_of (mi_break_glass img) (bp_proposal_id p) of
        None \<Rightarrow> Ok ()
      | Some stored \<Rightarrow>
          if bp_consumed_at_ms stored \<noteq> 0 then Err (BreakGlassProposalConsumed (bp_proposal_id p))
          else if bp_withdrawn stored then Err (BreakGlassProposalWithdrawn (bp_proposal_id p))
          else if \<not> extends (bp_approvals stored) (bp_approvals p)
          then Err (BreakGlassApprovalsNotAnExtension (bp_proposal_id p))
          else Ok ())"
| "validate img (V1ProducerIds r) =
     (if pi_next_producer_id r \<le> next_producer_id img
      then Err (InvalidRecord ''next producer ID must advance monotonically'')
      else if broker_epoch img (pi_broker_id r) \<noteq> Some (pi_broker_epoch r)
      then Err (InvalidRecord ''producer ID allocation has a stale broker epoch'') else Ok ())"
| "validate img _ = Ok ()"

section \<open>Metadata version floors\<close>

definition METADATA_VERSION_MIN :: int where "METADATA_VERSION_MIN = 7"
definition SCRAM_MIN_LEVEL :: int where "SCRAM_MIN_LEVEL = 11"
definition DELEGATION_TOKEN_MIN_LEVEL :: int where "DELEGATION_TOKEN_MIN_LEVEL = 14"
definition DIRECTORY_ASSIGNMENT_MIN_LEVEL :: int where "DIRECTORY_ASSIGNMENT_MIN_LEVEL = 17"
definition CORDONED_LOG_DIRS_MIN_LEVEL :: int where "CORDONED_LOG_DIRS_MIN_LEVEL = 30"
definition CIDR_ACL_MIN_LEVEL :: int where "CIDR_ACL_MIN_LEVEL = 32"

definition is_cidr_acl_host :: "bytes \<Rightarrow> bool" where
  "is_cidr_acl_host host \<longleftrightarrow> 0x2F \<in> set host"

definition min_required_metadata_version :: "MetadataImage \<Rightarrow> int" where
  "min_required_metadata_version img =
     (let f0 = METADATA_VERSION_MIN;
          f1 = (if mi_scram_credentials img \<noteq> [] then max f0 SCRAM_MIN_LEVEL else f0);
          f2 = (if mi_delegation_tokens img \<noteq> [] then max f1 DELEGATION_TOKEN_MIN_LEVEL else f1)
      in if list_ex (\<lambda>acl. is_cidr_acl_host (acl_host acl)) (all_acls img) then max f2 CIDR_ACL_MIN_LEVEL else f2)"

definition exact_filter :: "AclEntry \<Rightarrow> AclEntryFilter" where
  "exact_filter acl =
     \<lparr>af_resource_type = Some (acl_resource_type acl), af_resource_name = Some (acl_resource_name acl),
      af_pattern_type = Some (acl_pattern_type acl), af_principal = Some (acl_principal acl),
      af_host = Some (acl_host acl), af_operation = Some (acl_operation acl),
      af_permission_type = Some (acl_permission_type acl)\<rparr>"

definition project_broker :: "int \<Rightarrow> BrokerRegistrationRecord \<Rightarrow> BrokerRegistrationRecord" where
  "project_broker target b =
     (let b1 = (if target < DIRECTORY_ASSIGNMENT_MIN_LEVEL then b\<lparr>br_log_dirs := []\<rparr> else b)
      in if target < CORDONED_LOG_DIRS_MIN_LEVEL then b1\<lparr>br_cordoned_log_dirs := None\<rparr> else b1)"

definition migrating_records :: "PartitionRecord \<Rightarrow> MetadataRecord list" where
  "migrating_records p =
     map (\<lambda>(replica, _). V1PartitionDirAssignment
           \<lparr>pda_topic = pr_topic p, pda_partition = pr_partition p, pda_replica = replica, pda_directory = MIGRATING\<rparr>)
       (filter (\<lambda>(_, directory). directory \<noteq> MIGRATING) (zip (pr_replicas p) (pr_directories p)))"

definition metadata_version_downgrade_records :: "MetadataImage \<Rightarrow> int \<Rightarrow> MetadataRecord list" where
  "metadata_version_downgrade_records img target =
     (if target < CIDR_ACL_MIN_LEVEL then
        map (\<lambda>acl. V1DeleteAccessControlEntry (exact_filter acl))
          (sort_key (\<lambda>a. (acl_resource_name a, acl_principal a, acl_host a))
            (filter (\<lambda>acl. is_cidr_acl_host (acl_host acl)) (all_acls img)))
      else [])
     @ (if target < SCRAM_MIN_LEVEL then
          map (\<lambda>((user, mechanism), _). V1DeleteScramCredential \<lparr>dsc_user = user, dsc_mechanism = mechanism\<rparr>)
            (mi_scram_credentials img)
        else [])
     @ (if target < DELEGATION_TOKEN_MIN_LEVEL then
          map (\<lambda>(token_id, _). V1DeleteDelegationToken token_id) (mi_delegation_tokens img)
        else [])
     @ List.map_filter (\<lambda>(_, broker).
           let projected = project_broker target broker in
           if projected \<noteq> broker then Some (V1BrokerRegistration projected) else None) (mi_brokers img)
     @ (if target < DIRECTORY_ASSIGNMENT_MIN_LEVEL then concat (map migrating_records (all_partitions img)) else [])"

end
