(* ===== verification/ImageInvariant.thy ===== *)
theory ImageInvariant
  imports MetadataImage
begin

text \<open>
  The well-formedness of the metadata image: what the types and the operations of \<open>image.rs\<close> keep
  true of every image, whatever the order of the records. Keys agree with the records they index,
  no removal sentinel is stored, and no index keeps an empty bucket it would have dropped.
\<close>

section \<open>Maps with well-formed values\<close>

lemma bt_wf_short [simp]: "bt_wf []" "bt_wf [(k, v)]"
  by (simp_all add: bt_wf_def)

lemma level_wf_remove: "level_wf P m \<Longrightarrow> level_wf P (hm_remove k m)"
  using hm.ball_del[of m "\<lambda>(k, v). P k v" k] by (simp add: level_wf_def hm.wf_del)

lemma map_of_hm_remove [simp]: "map_of (hm_remove k m) = (map_of m)(k := None)"
  by (rule hm.get_del)

lemma level_wf_entry:
  assumes "level_wf P m" and "P k (f d)" and "\<And>v. P k v \<Longrightarrow> P k (f v)"
  shows "level_wf P (hm_entry k d f m)"
  unfolding hm_entry_def
  by (rule level_wf_insert[OF assms(1)])
    (use assms level_wf_get[OF assms(1)] in \<open>auto simp: or_default_def split: option.split\<close>)

text \<open>A map that is never empty, with ascending keys and values that satisfy \<open>P\<close>.\<close>

definition inner_ok :: "('i::linorder \<Rightarrow> 'v \<Rightarrow> bool) \<Rightarrow> ('i, 'v) btree_map \<Rightarrow> bool" where
  "inner_ok P inner \<longleftrightarrow> inner \<noteq> [] \<and> bt_wf inner \<and> (\<forall>(i, v) \<in> set inner. P i v)"

lemma bt_insert_nonempty [simp]: "bt_insert i v m \<noteq> []"
  by (induction i v m rule: bt_insert.induct) simp_all

lemma inner_ok_insert: "inner_ok P inner \<or> inner = [] \<Longrightarrow> P i v \<Longrightarrow> inner_ok P (bt_insert i v inner)"
  using bt.ball_ins[of inner "\<lambda>(i, v). P i v" i v] bt.wf_empty by (auto simp: inner_ok_def bt_wf_insert)

lemma inner_ok_get: "inner_ok P inner \<Longrightarrow> map_of inner i = Some v \<Longrightarrow> P i v"
  by (auto simp: inner_ok_def dest: map_of_SomeD)

lemma nested_insert_ok:
  assumes "level_wf (\<lambda>k. inner_ok (P k)) m" and "P k i v"
  shows "level_wf (\<lambda>k. inner_ok (P k)) (nested_insert k i v m)"
  unfolding nested_insert_def
  by (rule level_wf_entry[OF assms(1)]) (rule inner_ok_insert, simp_all add: assms(2))+

lemma nested_remove_ok:
  assumes "level_wf (\<lambda>k. inner_ok (P k)) m"
  shows "level_wf (\<lambda>k. inner_ok (P k)) (nested_remove topic p m)"
proof (cases "map_of m topic")
  case (Some parts)
  have ok: "inner_ok (P topic) parts"
    using level_wf_get[OF assms Some] .
  have "inner_ok (P topic) (bt_remove p parts)" if "bt_remove p parts \<noteq> []"
    using ok that bt.ball_del[of parts "\<lambda>(i, v). P topic i v" p] by (simp add: inner_ok_def bt_wf_remove)
  then show ?thesis
    using assms Some by (simp add: nested_remove_def Let_def level_wf_remove level_wf_insert)
qed (simp add: nested_remove_def assms)

lemma nested_get_ok: "level_wf (\<lambda>k. inner_ok (P k)) m \<Longrightarrow> nested_get m k i = Some v \<Longrightarrow> P k i v"
  by (auto simp: nested_get_def split: option.splits dest: level_wf_get inner_ok_get)

section \<open>The invariant\<close>

definition topic_ok :: "bytes \<Rightarrow> TopicRecord \<Rightarrow> bool" where
  "topic_ok name t \<longleftrightarrow> tr_name t = name \<and> 0 \<le> tr_partitions t \<and> tr_partitions t \<le> I32_MAX"

definition partition_ok :: "bytes \<Rightarrow> int \<Rightarrow> PartitionRecord \<Rightarrow> bool" where
  "partition_ok topic p pr \<longleftrightarrow> pr_topic pr = topic \<and> pr_partition pr = p"

definition i64_ok :: "int \<Rightarrow> bool" where
  "i64_ok x \<longleftrightarrow> - (2 ^ 63) \<le> x \<and> x \<le> I64_MAX"

definition config_ok :: "bytes \<Rightarrow> bytes \<Rightarrow> bool" where
  "config_ok k v = True"

definition quota_key_ok :: "EntityKey \<Rightarrow> bool" where
  "quota_key_ok key \<longleftrightarrow> canonicalize_entity key = key"

definition freeze_ok :: "PatternType \<Rightarrow> bytes \<Rightarrow> TopicFreezeRecord \<Rightarrow> bool" where
  "freeze_ok pt scope f \<longleftrightarrow> tf_scope f = scope \<and> tf_pattern_type f = pt \<and> tf_frozen f"

definition image_wf :: "MetadataImage \<Rightarrow> bool" where
  "image_wf img \<longleftrightarrow>
     level_wf topic_ok (mi_topics img)
     \<and> hm_wf (mi_topic_ids img)
     \<and> level_wf (\<lambda>t. inner_ok (partition_ok t)) (mi_partitions img)
     \<and> level_wf (\<lambda>t. inner_ok (\<lambda>_. i64_ok)) (mi_partition_next_offsets img)
     \<and> level_wf (\<lambda>t. inner_ok (\<lambda>_ v. v \<noteq> ([], []))) (mi_partition_elr img)
     \<and> level_wf (\<lambda>t. inner_ok (\<lambda>_ v. v \<noteq> Recovered)) (mi_partition_recovery img)
     \<and> level_wf (\<lambda>n b. br_node_id b = n) (mi_brokers img)
     \<and> level_wf (\<lambda>n c. cr_node_id c = n) (mi_controllers img)
     \<and> level_wf (\<lambda>_. inner_ok config_ok) (mi_topic_configs img)
     \<and> level_wf (\<lambda>_. bt_wf) (mi_broker_configs img)
     \<and> level_wf (\<lambda>_. inner_ok config_ok) (mi_client_metrics_configs img)
     \<and> level_wf (\<lambda>_. inner_ok config_ok) (mi_group_configs img)
     \<and> level_wf (\<lambda>(_, m) c. sc_mechanism c = m) (mi_scram_credentials img)
     \<and> acl_wf (mi_acls img)
     \<and> level_wf (freeze_ok Literal) (mi_freezes_literal img)
     \<and> bt_wf (mi_freezes_prefixed img) \<and> (\<forall>(s, f) \<in> set (mi_freezes_prefixed img). freeze_ok Prefixed s f)
     \<and> level_wf (\<lambda>i p. bp_proposal_id p = i) (mi_break_glass img)
     \<and> level_wf (\<lambda>k v. quota_key_ok k \<and> bt_wf v) (mi_client_quotas img)
     \<and> pred_option (\<lambda>r. 0 < pi_next_producer_id r) (mi_producer_ids img)
     \<and> level_wf (\<lambda>i t. dt_token_id t = i) (mi_delegation_tokens img)
     \<and> voters_wf (mi_voters img)
     \<and> bt_wf (mi_feature_levels img) \<and> (\<forall>(n, l) \<in> set (mi_feature_levels img). l \<noteq> 0)
     \<and> -1 \<le> mi_features_epoch img \<and> mi_features_epoch img \<le> I64_MAX
     \<and> (mi_features_epoch img = -1 \<longrightarrow> mi_feature_levels img = [])"

text \<open>
  What the types of a record guarantee, and that a snapshot carries a non-negative features epoch:
  the \<open>BTreeMap\<close>s are ordered, the voters are keyed by their ids and an ACL name is a string.
\<close>

fun mrecord_wf :: "MetadataRecord \<Rightarrow> bool" where
  "mrecord_wf (V1TopicConfig c) = bt_wf (tc_overrides c)"
| "mrecord_wf (V1ClientMetricsConfig c) = bt_wf (cm_configs c)"
| "mrecord_wf (V1GroupConfig c) = bt_wf (gc_configs c)"
| "mrecord_wf (V1AccessControlEntry e) = acl_entry_wf e"
| "mrecord_wf (V1Voters vs) = voters_wf vs"
| "mrecord_wf (V1FeaturesEpoch e) = (0 \<le> e \<and> e \<le> I64_MAX)"
| "mrecord_wf _ = True"

lemma image_wf_new: "image_wf (MetadataImage_new cid)"
  by (simp add: image_wf_def MetadataImage_new_def hm_wf_def bt_wf_def acl_wf_default voters_wf_def I64_MAX_def)

section \<open>Preservation\<close>

lemma wrap_i64_ok: "i64_ok (wrap_i64 x)"
  by (simp add: i64_ok_def wrap_i64_def I64_MAX_def)

lemma quota_key_canonical: "quota_key_ok (quota_key es)"
  by (simp add: quota_key_ok_def quota_key_def canonicalize_entity_def sort_key_id_if_sorted)

lemma image_wf_topic:
  assumes "image_wf img"
  shows "image_wf (apply_topic t img)"
proof -
  have w: "level_wf topic_ok (mi_topics img)"
    using assms by (simp add: image_wf_def)
  have "topic_ok (tr_name t) (t\<lparr>tr_partitions := (case map_of (mi_topics img) (tr_name t) of None \<Rightarrow> 0 | Some p \<Rightarrow> tr_partitions p)\<rparr>)"
    using level_wf_get[OF w] by (auto simp: topic_ok_def I32_MAX_def split: option.split)
  then show ?thesis
    using assms by (simp add: image_wf_def apply_topic_def Let_def level_wf_insert hm.wf_ins hm.wf_del split: option.split)
qed

lemma image_wf_partition: "image_wf img \<Longrightarrow> image_wf (apply_partition p img)"
proof -
  assume a: "image_wf img"
  have "level_wf (\<lambda>t. inner_ok (partition_ok t)) (hm_entry (pr_topic p) [] (bt_insert (pr_partition p) p) (mi_partitions img))"
    using a by (auto simp: image_wf_def partition_ok_def intro!: nested_insert_ok[unfolded nested_insert_def])
  moreover have "level_wf topic_ok (hm_insert (pr_topic p) (t\<lparr>tr_partitions := c, tr_replication_factor := r\<rparr>) (mi_topics img))"
    if "map_of (mi_topics img) (pr_topic p) = Some t" "c = min I32_MAX (tr_partitions t + 1) \<or> c = tr_partitions t" for t c r
    using a that level_wf_get[of topic_ok "mi_topics img" "pr_topic p" t]
    by (auto simp: image_wf_def topic_ok_def I32_MAX_def intro!: level_wf_insert)
  ultimately show ?thesis
    using a by (auto simp: image_wf_def apply_partition_def Let_def split: option.split)
qed

lemma image_wf_elr: "image_wf img \<Longrightarrow> image_wf (apply_partition_elr r img)"
  by (auto simp: image_wf_def apply_partition_elr_def intro!: nested_insert_ok nested_remove_ok)

lemma image_wf_recovery: "image_wf img \<Longrightarrow> image_wf (apply_partition_recovery t p s img)"
  by (auto simp: image_wf_def apply_partition_recovery_def intro!: nested_insert_ok nested_remove_ok)

lemma image_wf_update: "image_wf img \<Longrightarrow> image_wf (apply_partition_update u img)"
  by (auto simp: apply_partition_update_def Let_def image_wf_partition image_wf_elr image_wf_recovery split: option.split)

lemma image_wf_freeze: "image_wf img \<Longrightarrow> image_wf (apply_topic_freeze r img)"
  using bt.ball_ins[of "mi_freezes_prefixed img" "\<lambda>(s, f). freeze_ok Prefixed s f" "tf_scope r" r]
    bt.ball_del[of "mi_freezes_prefixed img" "\<lambda>(s, f). freeze_ok Prefixed s f" "tf_scope r"]
  by (auto simp: image_wf_def apply_topic_freeze_def freeze_ok_def bt_wf_insert bt_wf_remove
      intro!: level_wf_insert level_wf_remove split: PatternType.split bool.split)

lemma image_wf_delete_topic: "image_wf img \<Longrightarrow> image_wf (apply_delete_topic name img)"
  by (simp add: image_wf_def apply_delete_topic_def level_wf_remove hm.wf_del split: option.split)

lemma image_wf_dir: "image_wf img \<Longrightarrow> image_wf (apply_dir_assignment r img)"
  by (auto simp: image_wf_def apply_dir_assignment_def Let_def partition_ok_def
      intro!: nested_insert_ok dest: nested_get_ok split: option.split)

lemma image_wf_feature: "image_wf img \<Longrightarrow> image_wf (apply_feature_level r img)"
  using bt.ball_ins[of "mi_feature_levels img" "\<lambda>(n, l). l \<noteq> 0" "fl_name r" "fl_level r"]
    bt.ball_del[of "mi_feature_levels img" "\<lambda>(n, l). l \<noteq> 0" "fl_name r"]
  by (auto simp: image_wf_def apply_feature_level_def bt_wf_insert bt_wf_remove I64_MAX_def)

lemma image_wf_registration: "image_wf img \<Longrightarrow> image_wf (apply_registration_change c img)"
  using level_wf_get[of "\<lambda>n b. br_node_id b = n" "mi_brokers img" "brc_node_id c"]
  by (auto simp: image_wf_def apply_registration_change_def applied_to_def intro!: level_wf_insert split: option.split)

lemma image_wf_configs:
  "level_wf (\<lambda>_. inner_ok config_ok) m \<Longrightarrow> bt_wf configs \<Longrightarrow> level_wf (\<lambda>_. inner_ok config_ok) (replace_configs k configs m)"
  by (auto simp: replace_configs_def inner_ok_def config_ok_def intro!: level_wf_insert level_wf_remove)

lemma change_config_ok:
  "level_wf P m \<Longrightarrow> (\<And>v. P k v \<longleftrightarrow> bt_wf v) \<Longrightarrow> level_wf P (change_config k n v m)"
  unfolding change_config_def
  by (rule level_wf_entry) (simp_all add: bt_wf_insert bt_wf_remove bt.wf_empty split: option.split)

lemma image_wf_apply:
  assumes "image_wf img" and "mrecord_wf r"
  shows "image_wf (apply_record r img)"
proof (cases r)
  case (V1BrokerConfig c)
  then show ?thesis
    using assms by (simp add: image_wf_def change_config_ok)
next
  case (V1ClientQuota q)
  have "level_wf (\<lambda>k v. quota_key_ok k \<and> bt_wf v)
    (change_config (quota_key (cq_entity q)) (cq_config_key q) (cq_config_value q) (mi_client_quotas img))"
    using assms(1) by (intro change_config_ok) (simp_all add: image_wf_def quota_key_canonical)
  then show ?thesis
    using assms V1ClientQuota by (simp add: image_wf_def)
next
  case (V1PartitionOffsetAdvance a)
  have "level_wf (\<lambda>t. inner_ok (\<lambda>_. i64_ok)) (mi_partition_next_offsets (apply_offset_advance a img))"
    using assms(1) by (simp add: image_wf_def apply_offset_advance_def nested_insert_ok wrap_i64_ok)
  then show ?thesis
    using assms V1PartitionOffsetAdvance by (simp add: image_wf_def apply_offset_advance_def)
next
  case (V1ProducerIds p)
  then show ?thesis
    using assms by (auto simp: image_wf_def apply_producer_ids_def next_producer_id_def split: option.splits)
next
  case (V1UnregisterBroker u)
  then show ?thesis
    using assms by (simp add: image_wf_def apply_unregister_broker_def level_wf_remove)
qed (use assms in \<open>simp_all add: image_wf_topic image_wf_partition image_wf_elr image_wf_recovery image_wf_update
      image_wf_freeze image_wf_delete_topic image_wf_dir image_wf_feature image_wf_registration\<close>;
    simp add: image_wf_def level_wf_insert level_wf_remove image_wf_configs AclIndex_insert_spec
      AclIndex_remove_spec DelegationToken_from_record_def scram_of_record_def)+

lemma image_wf_history: "image_wf img \<Longrightarrow> list_all mrecord_wf rs \<Longrightarrow> image_wf (fold apply_record rs img)"
  by (induction rs arbitrary: img) (simp_all add: image_wf_apply)

end
