(* ===== verification/ImageSnapshot.thy ===== *)
theory ImageSnapshot
  imports ImageInvariant
begin

text \<open>
  Snapshots: \<open>from_records\<close> applied to \<open>to_records\<close>. Each group of records that \<open>to_records\<close> emits
  rebuilds one field of the image; the locale \<open>image_field\<close> says what a field is, so that the
  argument is made once for all of them.
\<close>

section \<open>Fields\<close>

locale image_field =
  fixes get :: "MetadataImage \<Rightarrow> 'a"
    and upd :: "('a \<Rightarrow> 'a) \<Rightarrow> MetadataImage \<Rightarrow> MetadataImage"
  assumes upd_id: "upd (\<lambda>x. x) img = img"
    and upd_upd: "upd f (upd g img) = upd (\<lambda>x. f (g x)) img"
    and upd_get: "upd (\<lambda>_. f (get img)) img = upd f img"
begin

lemma fold_field:
  assumes "\<And>x img. x \<in> set xs \<Longrightarrow> apply_record (f x) img = upd (\<lambda>_. step x (get img)) img"
  shows "fold apply_record (map f xs) img = upd (\<lambda>_. fold step xs (get img)) img"
proof -
  have "fold apply_record (map f xs) img = upd (fold step xs) img"
    using assms
  proof (induction xs arbitrary: img)
    case Nil
    then show ?case
      by (simp add: upd_id)
  next
    case (Cons x xs)
    have "fold apply_record (map f (x # xs)) img = upd (fold step xs) (upd (step x) img)"
      using Cons upd_get[of "step x" img] by simp
    then show ?case
      by (simp add: upd_upd comp_def)
  qed
  then show ?thesis
    by (simp add: upd_get)
qed

lemma replay_field:
  assumes "fold step xs e = v" and "get img = e"
    and "\<And>x img. x \<in> set xs \<Longrightarrow> apply_record (f x) img = upd (\<lambda>_. step x (get img)) img"
  shows "fold apply_record (map f xs) img = upd (\<lambda>_. v) img"
  using fold_field[of xs f step img] assms by simp

end

interpretation brokers: image_field mi_brokers mi_brokers_update by unfold_locales simp_all
interpretation controllers: image_field mi_controllers mi_controllers_update by unfold_locales simp_all
interpretation broker_configs: image_field mi_broker_configs mi_broker_configs_update by unfold_locales simp_all
interpretation next_offsets: image_field mi_partition_next_offsets mi_partition_next_offsets_update by unfold_locales simp_all
interpretation elr: image_field mi_partition_elr mi_partition_elr_update by unfold_locales simp_all
interpretation recovery: image_field mi_partition_recovery mi_partition_recovery_update by unfold_locales simp_all
interpretation topic_configs: image_field mi_topic_configs mi_topic_configs_update by unfold_locales simp_all
interpretation scram: image_field mi_scram_credentials mi_scram_credentials_update by unfold_locales simp_all
interpretation acls: image_field mi_acls mi_acls_update by unfold_locales simp_all
interpretation quotas: image_field mi_client_quotas mi_client_quotas_update by unfold_locales simp_all
interpretation tokens: image_field mi_delegation_tokens mi_delegation_tokens_update by unfold_locales simp_all
interpretation metrics: image_field mi_client_metrics_configs mi_client_metrics_configs_update by unfold_locales simp_all
interpretation groups: image_field mi_group_configs mi_group_configs_update by unfold_locales simp_all
interpretation literal_freezes: image_field mi_freezes_literal mi_freezes_literal_update by unfold_locales simp_all
interpretation prefixed_freezes: image_field mi_freezes_prefixed mi_freezes_prefixed_update by unfold_locales simp_all
interpretation break_glass: image_field mi_break_glass mi_break_glass_update by unfold_locales simp_all

section \<open>Replaying nested maps\<close>

lemma hm_entry_new: "k \<notin> fst ` set m \<Longrightarrow> hm_entry k d f m = m @ [(k, f d)]"
proof -
  assume "k \<notin> fst ` set m"
  then have "map_of m k = None"
    by (simp add: map_of_eq_None_iff)
  with \<open>k \<notin> fst ` set m\<close> show ?thesis
    by (simp add: hm_entry_def hm_insert_def or_default_def update_snoc)
qed

lemma hm_insert_last: "k \<notin> fst ` set m \<Longrightarrow> hm_insert k v (m @ [(k, x)]) = m @ [(k, v)]"
  by (induction m) (auto simp: hm_insert_def)

lemma map_of_last: "k \<notin> fst ` set m \<Longrightarrow> map_of (m @ [(k, x)]) k = Some x"
  by (simp add: map_of_eq_None_iff[THEN iffD2] map_add_def)

lemma hm_entry_last: "k \<notin> fst ` set m \<Longrightarrow> hm_entry k d f (m @ [(k, x)]) = m @ [(k, f x)]"
  by (simp add: hm_entry_def map_of_last or_default_def hm_insert_last del: map_of_append)

text \<open>
  A replay step stores a value at a key of the inner map that has none yet; \<open>g\<close> is what the step
  makes of the value that is already there.
\<close>

definition nested_step :: "('v option \<Rightarrow> 'v \<Rightarrow> 'v) \<Rightarrow> 'k \<times> 'i::linorder \<times> 'v
    \<Rightarrow> ('k, ('i, 'v) btree_map) hash_map \<Rightarrow> ('k, ('i, 'v) btree_map) hash_map" where
  "nested_step g e m = (case e of (k, i, v) \<Rightarrow> nested_insert k i (g (nested_get m k i) v) m)"

lemma nested_replay_inner:
  assumes "k \<notin> fst ` set m" and "bt_wf (done @ rest)" and "done \<noteq> []"
    and g: "\<forall>(i, v) \<in> set rest. g None v = v"
  shows "fold (nested_step g) (map (\<lambda>(i, v). (k, i, v)) rest) (m @ [(k, done)]) = m @ [(k, done @ rest)]"
  using assms(2-)
proof (induction rest arbitrary: "done")
  case (Cons e rest)
  obtain i v where e: "e = (i, v)"
    by (cases e)
  have w: "bt_wf ((done @ [(i, v)]) @ rest)"
    using Cons.prems by (simp add: e)
  have "map_of done i = None"
    using bt_wf_distinct[OF w] by (auto simp: map_of_eq_None_iff)
  then have "nested_step g (k, i, v) (m @ [(k, done)]) = m @ [(k, done @ [(i, v)])]"
    using assms(1) Cons.prems(3) bt_insert_snoc[OF bt.wf_prefix[OF w]]
    by (simp add: nested_step_def nested_insert_def nested_get_def map_of_last hm_entry_last e del: map_of_append)
  then show ?case
    using Cons.IH[OF w] Cons.prems(3) by (simp add: e)
qed simp

lemma nested_replay_one:
  assumes "k \<notin> fst ` set m" and "bt_wf inner" and "inner \<noteq> []"
    and g: "\<forall>(i, v) \<in> set inner. g None v = v"
  shows "fold (nested_step g) (map (\<lambda>(i, v). (k, i, v)) inner) m = m @ [(k, inner)]"
proof -
  obtain i v rest where inner: "inner = (i, v) # rest"
    using assms(3) by (cases inner) auto
  have "map_of m k = None"
    using assms(1) by (simp add: map_of_eq_None_iff)
  then have "nested_step g (k, i, v) m = m @ [(k, [(i, v)])]"
    using assms(1) g by (simp add: nested_step_def nested_insert_def nested_get_def hm_entry_new inner)
  then show ?thesis
    using nested_replay_inner[of k m "[(i, v)]" rest g] assms by (simp add: inner)
qed

lemma nested_replay_append:
  assumes "hm_wf (m' @ m)" and "\<forall>(k, inner) \<in> set m. bt_wf inner"
    and g: "\<forall>(_, inner) \<in> set m. \<forall>(i, v) \<in> set inner. g None v = v"
  shows "fold (nested_step g) (nested_entries m) m' = m' @ filter (\<lambda>(_, inner). inner \<noteq> []) m"
  using assms
proof (induction m arbitrary: m')
  case (Cons e m)
  obtain k inner where e: "e = (k, inner)"
    by (cases e)
  have k: "k \<notin> fst ` set m'"
    using Cons.prems(1) by (auto simp: hm_wf_def e)
  show ?case
  proof (cases "inner = []")
    case True
    have "hm_wf (m' @ m)"
      using Cons.prems(1) by (auto simp: hm_wf_def)
    then show ?thesis
      using Cons.IH[of m'] Cons.prems True by (simp add: e nested_entries_def)
  next
    case False
    have "hm_wf ((m' @ [(k, inner)]) @ m)"
      using Cons.prems(1) by (simp add: e)
    moreover have "fold (nested_step g) (map (\<lambda>(i, v). (k, i, v)) inner) m' = m' @ [(k, inner)]"
      using Cons.prems(2,3) by (intro nested_replay_one[OF k _ False]) (simp_all add: e)
    ultimately show ?thesis
      using Cons.IH[of "m' @ [(k, inner)]"] Cons.prems False by (simp add: e nested_entries_def)
  qed
qed (simp add: nested_entries_def)

lemma nested_replay:
  assumes "hm_wf m" and "\<forall>(k, inner) \<in> set m. bt_wf inner"
    and "\<forall>(_, inner) \<in> set m. \<forall>(i, v) \<in> set inner. g None v = v"
  shows "fold (nested_step g) (nested_entries m) [] = filter (\<lambda>(_, inner). inner \<noteq> []) m"
  using nested_replay_append[of "[]" m g] assms by simp

section \<open>The groups of a snapshot\<close>

lemma hm_replay:
  assumes "hm_wf m" and "\<And>k v. (k, v) \<in> set m \<Longrightarrow> step (k, v) = hm_insert k v"
  shows "fold step m [] = m"
proof -
  have "fold step m [] = fold (\<lambda>(k, v). hm_insert k v) m []"
    by (rule fold_cong) (use assms(2) in auto)
  then show ?thesis
    using hm.replay[OF assms(1)] by simp
qed

lemma nested_replay_full:
  assumes "level_wf (\<lambda>k. inner_ok (P k)) m" and "\<And>k i v. P k i v \<Longrightarrow> g None v = v"
  shows "fold (nested_step g) (nested_entries m) [] = m"
proof -
  have i: "\<forall>(k, inner) \<in> set m. inner_ok (P k) inner"
    using assms(1) by (simp add: level_wf_def)
  then have "filter (\<lambda>(_, inner). inner \<noteq> []) m = m"
    by (intro filter_True) (auto simp: inner_ok_def)
  moreover have "\<forall>(_, inner) \<in> set m. \<forall>(i, v) \<in> set inner. g None v = v"
    using i assms(2) by (fastforce simp: inner_ok_def)
  moreover have "\<forall>(k, inner) \<in> set m. bt_wf inner"
    using i by (auto simp: inner_ok_def)
  ultimately show ?thesis
    using nested_replay[of m g] assms(1) by (simp add: level_wf_def)
qed

lemma seg_brokers:
  assumes "image_wf img" and "mi_brokers b = []"
  shows "fold apply_record (map (\<lambda>(_, x). V1BrokerRegistration x) (mi_brokers img)) b = b\<lparr>mi_brokers := mi_brokers img\<rparr>"
proof (rule brokers.replay_field[where step = "\<lambda>(_, x). hm_insert (br_node_id x) x", OF _ assms(2)])
  show "fold (\<lambda>(_, x). hm_insert (br_node_id x) x) (mi_brokers img) [] = mi_brokers img"
    using assms(1) by (intro hm_replay) (auto simp: image_wf_def level_wf_def)
qed (use assms(1) in \<open>auto simp: image_wf_def level_wf_def\<close>)

lemma seg_controllers:
  assumes "image_wf img" and "mi_controllers b = []"
  shows "fold apply_record (map (\<lambda>(_, x). V1ControllerRegistration x) (mi_controllers img)) b = b\<lparr>mi_controllers := mi_controllers img\<rparr>"
proof (rule controllers.replay_field[where step = "\<lambda>(_, x). hm_insert (cr_node_id x) x", OF _ assms(2)])
  show "fold (\<lambda>(_, x). hm_insert (cr_node_id x) x) (mi_controllers img) [] = mi_controllers img"
    using assms(1) by (intro hm_replay) (auto simp: image_wf_def level_wf_def)
qed (use assms(1) in \<open>auto simp: image_wf_def level_wf_def\<close>)

lemma scram_of_to [simp]:
  "sc_mechanism c = m \<Longrightarrow> scram_of_record (scram_to_record ((u, m), c)) = c"
  by (cases c) (simp add: scram_of_record_def scram_to_record_def)

lemma scram_key [simp]:
  "scr_user (scram_to_record ((u, m), c)) = u" "scr_mechanism (scram_to_record ((u, m), c)) = m"
  by (simp_all add: scram_to_record_def)

lemma seg_scram:
  assumes "image_wf img" and "mi_scram_credentials b = []"
  shows "fold apply_record (map (\<lambda>e. V1ScramCredential (scram_to_record e)) (mi_scram_credentials img)) b
    = b\<lparr>mi_scram_credentials := mi_scram_credentials img\<rparr>"
proof (rule scram.replay_field[where step = "\<lambda>(k, x). hm_insert k x", OF _ assms(2)])
  have w: "level_wf (\<lambda>(_, m) c. sc_mechanism c = m) (mi_scram_credentials img)"
    using assms(1) by (simp add: image_wf_def)
  then show "fold (\<lambda>(k, x). hm_insert k x) (mi_scram_credentials img) [] = mi_scram_credentials img"
    by (intro hm_replay) (auto simp: level_wf_def)
  show "apply_record (V1ScramCredential (scram_to_record x)) i
    = i\<lparr>mi_scram_credentials := (\<lambda>(k, x). hm_insert k x) x (mi_scram_credentials i)\<rparr>"
    if "x \<in> set (mi_scram_credentials img)" for x i
  proof -
    obtain u m c where x: "x = ((u, m), c)"
      by (metis prod.exhaust)
    then have "sc_mechanism c = m"
      using w that by (auto simp: level_wf_def)
    then show ?thesis
      by (simp add: x)
  qed
qed

lemma token_from_to [simp]: "DelegationToken_from_record (DelegationToken_to_record t) = t"
  by (cases t) (simp add: DelegationToken_from_record_def DelegationToken_to_record_def)

lemma token_id_to [simp]: "dtr_token_id (DelegationToken_to_record t) = dt_token_id t"
  by (simp add: DelegationToken_to_record_def)

lemma seg_tokens:
  assumes "image_wf img" and "mi_delegation_tokens b = []"
  shows "fold apply_record (map (\<lambda>(_, t). V1DelegationToken (DelegationToken_to_record t)) (mi_delegation_tokens img)) b
    = b\<lparr>mi_delegation_tokens := mi_delegation_tokens img\<rparr>"
proof (rule tokens.replay_field[where step = "\<lambda>(_, t). hm_insert (dt_token_id t) t", OF _ assms(2)])
  show "fold (\<lambda>(_, t). hm_insert (dt_token_id t) t) (mi_delegation_tokens img) [] = mi_delegation_tokens img"
    using assms(1) by (intro hm_replay) (auto simp: image_wf_def level_wf_def)
qed auto

lemma seg_break_glass:
  assumes "image_wf img" and "mi_break_glass b = []"
  shows "fold apply_record (map (\<lambda>(_, p). V1BreakGlassProposal p) (mi_break_glass img)) b = b\<lparr>mi_break_glass := mi_break_glass img\<rparr>"
proof (rule break_glass.replay_field[where step = "\<lambda>(_, p). hm_insert (bp_proposal_id p) p", OF _ assms(2)])
  show "fold (\<lambda>(_, p). hm_insert (bp_proposal_id p) p) (mi_break_glass img) [] = mi_break_glass img"
    using assms(1) by (intro hm_replay) (auto simp: image_wf_def level_wf_def)
qed (use assms(1) in \<open>auto simp: image_wf_def level_wf_def\<close>)

lemma seg_topic_configs:
  assumes "image_wf img" and "mi_topic_configs b = []"
  shows "fold apply_record (map (\<lambda>(topic, overrides). V1TopicConfig \<lparr>tc_topic = topic, tc_overrides = overrides\<rparr>) (mi_topic_configs img)) b = b\<lparr>mi_topic_configs := mi_topic_configs img\<rparr>"
proof (rule topic_configs.replay_field[where step = "\<lambda>(k, x). hm_insert k x", OF _ assms(2)])
  show "fold (\<lambda>(k, x). hm_insert k x) (mi_topic_configs img) [] = mi_topic_configs img"
    using assms(1) by (intro hm_replay) (auto simp: image_wf_def level_wf_def)
qed (use assms(1) in \<open>auto simp: image_wf_def level_wf_def replace_configs_def inner_ok_def\<close>)

lemma seg_metrics:
  assumes "image_wf img" and "mi_client_metrics_configs b = []"
  shows "fold apply_record (map (\<lambda>(name, configs). V1ClientMetricsConfig \<lparr>cm_name = name, cm_configs = configs\<rparr>) (mi_client_metrics_configs img)) b = b\<lparr>mi_client_metrics_configs := mi_client_metrics_configs img\<rparr>"
proof (rule metrics.replay_field[where step = "\<lambda>(k, x). hm_insert k x", OF _ assms(2)])
  show "fold (\<lambda>(k, x). hm_insert k x) (mi_client_metrics_configs img) [] = mi_client_metrics_configs img"
    using assms(1) by (intro hm_replay) (auto simp: image_wf_def level_wf_def)
qed (use assms(1) in \<open>auto simp: image_wf_def level_wf_def replace_configs_def inner_ok_def\<close>)

lemma seg_groups:
  assumes "image_wf img" and "mi_group_configs b = []"
  shows "fold apply_record (map (\<lambda>(group_id, configs). V1GroupConfig \<lparr>gc_group_id = group_id, gc_configs = configs\<rparr>) (mi_group_configs img)) b = b\<lparr>mi_group_configs := mi_group_configs img\<rparr>"
proof (rule groups.replay_field[where step = "\<lambda>(k, x). hm_insert k x", OF _ assms(2)])
  show "fold (\<lambda>(k, x). hm_insert k x) (mi_group_configs img) [] = mi_group_configs img"
    using assms(1) by (intro hm_replay) (auto simp: image_wf_def level_wf_def)
qed (use assms(1) in \<open>auto simp: image_wf_def level_wf_def replace_configs_def inner_ok_def\<close>)

lemma seg_literal_freezes:
  assumes "image_wf img" and "mi_freezes_literal b = []"
  shows "fold apply_record (map V1TopicFreeze (map snd (mi_freezes_literal img))) b = b\<lparr>mi_freezes_literal := mi_freezes_literal img\<rparr>"
proof (rule literal_freezes.replay_field[where step = "\<lambda>f. hm_insert (tf_scope f) f", OF _ assms(2)])
  show "fold (\<lambda>f. hm_insert (tf_scope f) f) (map snd (mi_freezes_literal img)) [] = mi_freezes_literal img"
    using assms(1) by (intro hm.replay_values) (auto simp: image_wf_def level_wf_def freeze_ok_def)
qed (use assms(1) in \<open>auto simp: image_wf_def level_wf_def freeze_ok_def apply_topic_freeze_def\<close>)

lemma seg_prefixed_freezes:
  assumes "image_wf img" and "mi_freezes_prefixed b = []"
  shows "fold apply_record (map V1TopicFreeze (map snd (mi_freezes_prefixed img))) b = b\<lparr>mi_freezes_prefixed := mi_freezes_prefixed img\<rparr>"
proof (rule prefixed_freezes.replay_field[where step = "\<lambda>f. bt_insert (tf_scope f) f", OF _ assms(2)])
  show "fold (\<lambda>f. bt_insert (tf_scope f) f) (map snd (mi_freezes_prefixed img)) [] = mi_freezes_prefixed img"
    using assms(1) by (intro bt.replay_values) (auto simp: image_wf_def freeze_ok_def)
qed (use assms(1) in \<open>auto simp: image_wf_def freeze_ok_def apply_topic_freeze_def\<close>)

text \<open>Records that carry one value of a nested map.\<close>

lemma nested_step_set: "nested_step (\<lambda>_ v. v) (k, i, v) m = nested_insert k i v m"
  by (simp add: nested_step_def)

lemma nested_entries_ok:
  assumes "level_wf (\<lambda>k. inner_ok (P k)) m" and "(k, i, v) \<in> set (nested_entries m)"
  shows "P k i v"
  using assms by (fastforce simp: level_wf_def nested_entries_def inner_ok_def)

lemma seg_offsets:
  assumes "image_wf img" and "mi_partition_next_offsets b = []"
  shows "fold apply_record (partition_offset_advances img) b = b\<lparr>mi_partition_next_offsets := mi_partition_next_offsets img\<rparr>"
  unfolding partition_offset_advances_def
proof (rule next_offsets.replay_field[where step = "nested_step (\<lambda>old count. wrap_i64 (or_default 0 old + count))", OF _ assms(2)])
  have "wrap_i64 (or_default 0 None + v) = v" if "i64_ok v" for v
    using that by (simp add: or_default_def wrap_i64_def i64_ok_def I64_MAX_def)
  then show "fold (nested_step (\<lambda>old count. wrap_i64 (or_default 0 old + count))) (nested_entries (mi_partition_next_offsets img)) []
      = mi_partition_next_offsets img"
    using assms(1) by (intro nested_replay_full[where P = "\<lambda>_ _. i64_ok"]) (auto simp: image_wf_def)
qed (auto simp: apply_offset_advance_def nested_step_def)

lemma seg_elr:
  assumes "image_wf img" and "mi_partition_elr b = []"
  shows "fold apply_record (map (\<lambda>(topic, p, eligible, last_known).
      V1PartitionElr \<lparr>elr_topic = topic, elr_partition = p, elr_eligible_leader_replicas = eligible, elr_last_known_elr = last_known\<rparr>)
    (nested_entries (mi_partition_elr img))) b = b\<lparr>mi_partition_elr := mi_partition_elr img\<rparr>"
proof (rule elr.replay_field[where step = "nested_step (\<lambda>_ v. v)", OF _ assms(2)])
  have w: "level_wf (\<lambda>t. inner_ok (\<lambda>_ v. v \<noteq> ([], []))) (mi_partition_elr img)"
    using assms(1) by (simp add: image_wf_def)
  then show "fold (nested_step (\<lambda>_ v. v)) (nested_entries (mi_partition_elr img)) [] = mi_partition_elr img"
    by (rule nested_replay_full)  simp
  show "apply_record ((\<lambda>(topic, p, eligible, last_known).
      V1PartitionElr \<lparr>elr_topic = topic, elr_partition = p, elr_eligible_leader_replicas = eligible, elr_last_known_elr = last_known\<rparr>) x) i
    = i\<lparr>mi_partition_elr := nested_step (\<lambda>_ v. v) x (mi_partition_elr i)\<rparr>" if "x \<in> set (nested_entries (mi_partition_elr img))" for x i
  proof -
    obtain topic p eligible last_known where x: "x = (topic, p, eligible, last_known)"
      by (cases x)
    then have "\<not> (eligible = [] \<and> last_known = [])"
      using nested_entries_ok[OF w] that by blast
    then show ?thesis
      by (auto simp: x apply_partition_elr_def nested_step_set)
  qed
qed

lemma seg_recovery:
  assumes "image_wf img" and "mi_partition_recovery b = []"
  shows "fold apply_record (map (\<lambda>(topic, p, state). V1PartitionRecovery \<lparr>prr_topic = topic, prr_partition = p, prr_state = state\<rparr>)
    (nested_entries (mi_partition_recovery img))) b = b\<lparr>mi_partition_recovery := mi_partition_recovery img\<rparr>"
proof (rule recovery.replay_field[where step = "nested_step (\<lambda>_ v. v)", OF _ assms(2)])
  have w: "level_wf (\<lambda>t. inner_ok (\<lambda>_ v. v \<noteq> Recovered)) (mi_partition_recovery img)"
    using assms(1) by (simp add: image_wf_def)
  then show "fold (nested_step (\<lambda>_ v. v)) (nested_entries (mi_partition_recovery img)) [] = mi_partition_recovery img"
    by (rule nested_replay_full) simp
  show "apply_record ((\<lambda>(topic, p, state). V1PartitionRecovery \<lparr>prr_topic = topic, prr_partition = p, prr_state = state\<rparr>) x) i
    = i\<lparr>mi_partition_recovery := nested_step (\<lambda>_ v. v) x (mi_partition_recovery i)\<rparr>" if "x \<in> set (nested_entries (mi_partition_recovery img))" for x i
    using nested_entries_ok[OF w] that by (cases x) (auto simp: apply_partition_recovery_def nested_step_set)
qed

text \<open>Broker configs and client quotas may hold empty maps; a snapshot drops those.\<close>

definition drop_empty :: "('k \<times> 'a list) list \<Rightarrow> ('k \<times> 'a list) list" where
  "drop_empty m = filter (\<lambda>(_, inner). inner \<noteq> []) m"

lemma change_config_set: "change_config k n (Some v) = nested_step (\<lambda>_ v. v) (k, n, v)"
  by (simp add: change_config_def nested_step_def nested_insert_def fun_eq_iff)

lemma seg_broker_configs:
  assumes "image_wf img" and "mi_broker_configs b = []"
  shows "fold apply_record (map (\<lambda>(node_id, name, v).
      V1BrokerConfig \<lparr>bc_node_id = node_id, bc_config_name = name, bc_config_value = Some v\<rparr>)
    (nested_entries (mi_broker_configs img))) b = b\<lparr>mi_broker_configs := drop_empty (mi_broker_configs img)\<rparr>"
proof (rule broker_configs.replay_field[where step = "nested_step (\<lambda>_ v. v)", OF _ assms(2)])
  show "fold (nested_step (\<lambda>_ v. v)) (nested_entries (mi_broker_configs img)) [] = drop_empty (mi_broker_configs img)"
    unfolding drop_empty_def using assms(1) by (intro nested_replay) (auto simp: image_wf_def level_wf_def)
qed (auto simp: change_config_set)

lemma quota_key_entities: "quota_key_ok key \<Longrightarrow> quota_key (quota_entities key) = key"
  by (simp add: quota_key_ok_def quota_key_def quota_entities_def case_prod_unfold comp_def)

lemma seg_quotas:
  assumes "image_wf img" and "mi_client_quotas b = []"
  shows "fold apply_record (map (\<lambda>(key, name, v).
      V1ClientQuota \<lparr>cq_entity = quota_entities key, cq_config_key = name, cq_config_value = Some v\<rparr>)
    (nested_entries (mi_client_quotas img))) b = b\<lparr>mi_client_quotas := drop_empty (mi_client_quotas img)\<rparr>"
proof (rule quotas.replay_field[where step = "nested_step (\<lambda>_ v. v)", OF _ assms(2)])
  show "fold (nested_step (\<lambda>_ v. v)) (nested_entries (mi_client_quotas img)) [] = drop_empty (mi_client_quotas img)"
    unfolding drop_empty_def using assms(1) by (intro nested_replay) (auto simp: image_wf_def level_wf_def)
  show "apply_record ((\<lambda>(key, name, v).
      V1ClientQuota \<lparr>cq_entity = quota_entities key, cq_config_key = name, cq_config_value = Some v\<rparr>) x) i
    = i\<lparr>mi_client_quotas := nested_step (\<lambda>_ v. v) x (mi_client_quotas i)\<rparr>" if "x \<in> set (nested_entries (mi_client_quotas img))" for x i
  proof -
    obtain key name v where x: "x = (key, name, v)"
      by (cases x)
    then have "quota_key_ok key"
      using assms(1) that by (auto simp: image_wf_def level_wf_def nested_entries_def)
    then show ?thesis
      by (simp add: x change_config_set quota_key_entities)
  qed
qed

lemma seg_acls:
  "mi_acls b = AclIndex_default \<Longrightarrow>
   fold apply_record (map V1AccessControlEntry es) b = b\<lparr>mi_acls := fold AclIndex_insert es AclIndex_default\<rparr>"
  by (rule acls.replay_field[where step = AclIndex_insert]) simp_all

section \<open>Topics and partitions\<close>

lemma hm_insert_new: "k \<notin> fst ` set m \<Longrightarrow> hm_insert k v m = m @ [(k, v)]"
  by (simp add: hm_insert_def update_snoc)

definition fresh_topic :: "TopicRecord \<Rightarrow> TopicRecord" where
  "fresh_topic t = t\<lparr>tr_partitions := 0\<rparr>"

lemma seg_topics:
  assumes "level_wf topic_ok ts" and "\<And>n. n \<in> fst ` set ts \<Longrightarrow> n \<notin> fst ` set (mi_topics b)"
  shows "fold apply_record (map (\<lambda>(_, t). V1Topic t) ts) b
    = b\<lparr>mi_topics := mi_topics b @ map (\<lambda>(n, t). (n, fresh_topic t)) ts,
        mi_topic_ids := fold (\<lambda>(n, t). hm_insert (tr_topic_id t) n) ts (mi_topic_ids b)\<rparr>"
  using assms
proof (induction ts arbitrary: b)
  case (Cons e ts)
  obtain n t where e: "e = (n, t)"
    by (cases e)
  have n: "tr_name t = n" "n \<notin> fst ` set (mi_topics b)" "n \<notin> fst ` set ts"
    using Cons.prems by (auto simp: e topic_ok_def)
  then have "map_of (mi_topics b) n = None"
    by (simp add: map_of_eq_None_iff)
  with n have "apply_topic t b = b\<lparr>mi_topics := mi_topics b @ [(n, fresh_topic t)],
      mi_topic_ids := hm_insert (tr_topic_id t) n (mi_topic_ids b)\<rparr>" (is "_ = ?b")
    by (simp add: apply_topic_def Let_def hm_insert_new fresh_topic_def)
  moreover have "n' \<notin> fst ` set (mi_topics ?b)" if "n' \<in> fst ` set ts" for n'
    using that Cons.prems(2)[of n'] n(3) by (cases "n' = n") (auto simp: e)
  ultimately show ?case
    using Cons.IH[of ?b] Cons.prems(1) by (simp add: e)
qed simp

definition replica_count :: "PartitionRecord \<Rightarrow> int \<Rightarrow> int" where
  "replica_count p rf = (if int (length (pr_replicas p)) \<le> I16_MAX then int (length (pr_replicas p)) else rf)"

definition bump_topic :: "PartitionRecord \<Rightarrow> TopicRecord \<Rightarrow> TopicRecord" where
  "bump_topic p t = t\<lparr>tr_partitions := min I32_MAX (tr_partitions t + 1),
     tr_replication_factor := replica_count p (tr_replication_factor t)\<rparr>"

definition bump_topics :: "PartitionRecord \<Rightarrow> (bytes, TopicRecord) hash_map \<Rightarrow> (bytes, TopicRecord) hash_map" where
  "bump_topics p m = map (\<lambda>(n, t). (n, if n = pr_topic p then bump_topic p t else t)) m"

lemma hm_insert_existing:
  "hm_wf m \<Longrightarrow> map_of m k = Some t \<Longrightarrow> hm_insert k v m = map (\<lambda>(n, x). (n, if n = k then v else x)) m"
proof (induction m)
  case (Cons e m)
  obtain n x where e: "e = (n, x)"
    by (cases e)
  show ?case
  proof (cases "n = k")
    case True
    then have "map (\<lambda>(n, x). (n, if n = k then v else x)) m = m"
      using Cons.prems(1) by (intro map_idI) (force simp: e hm_wf_def)
    then show ?thesis
      using True by (simp add: e hm_insert_def)
  next
    case False
    then show ?thesis
      using Cons by (auto simp: e hm_insert_def hm_wf_def)
  qed
qed simp

lemma apply_partition_new:
  assumes "nested_get (mi_partitions b) (pr_topic p) (pr_partition p) = None" and "hm_wf (mi_topics b)"
  shows "apply_partition p b
    = b\<lparr>mi_partitions := nested_insert (pr_topic p) (pr_partition p) p (mi_partitions b),
        mi_topics := bump_topics p (mi_topics b)\<rparr>"
proof (cases "map_of (mi_topics b) (pr_topic p)")
  case None
  then have "bump_topics p (mi_topics b) = mi_topics b"
    unfolding bump_topics_def by (intro map_idI) (force simp: map_of_eq_None_iff)
  then show ?thesis
    using assms(1) None by (simp add: apply_partition_def nested_insert_def Let_def)
next
  case (Some t)
  have "hm_insert (pr_topic p) (bump_topic p t) (mi_topics b) = bump_topics p (mi_topics b)"
    unfolding bump_topics_def hm_insert_existing[OF assms(2) Some]
    using Some assms(2) by (intro map_cong) (auto simp: hm_wf_def dest: map_of_SomeD eq_key_imp_eq_value)
  then show ?thesis
    using assms(1) Some by (simp add: apply_partition_def nested_insert_def Let_def bump_topic_def replica_count_def)
qed

lemma nested_get_insert:
  "level_wf (\<lambda>_. bt_wf) m \<Longrightarrow>
   nested_get (nested_insert k i v m) k' i' = (if k' = k \<and> i' = i then Some v else nested_get m k' i')"
  using level_wf_get[of "\<lambda>_. bt_wf" m k]
  by (auto simp: nested_get_def nested_insert_def hm_entry_def or_default_def map_of_bt_insert split: option.split)

lemma level_wf_nested_insert: "level_wf (\<lambda>_. bt_wf) m \<Longrightarrow> level_wf (\<lambda>_. bt_wf) (nested_insert k i v m)"
  unfolding nested_insert_def by (rule level_wf_entry) (simp_all add: bt_wf_insert)

lemma hm_wf_bump [simp]: "hm_wf (bump_topics p m) = hm_wf m"
  by (simp add: bump_topics_def hm_wf_def comp_def case_prod_unfold)

lemma seg_partitions:
  assumes "distinct (map (\<lambda>p. (pr_topic p, pr_partition p)) ps)"
    and "\<And>p. p \<in> set ps \<Longrightarrow> nested_get (mi_partitions b) (pr_topic p) (pr_partition p) = None"
    and "level_wf (\<lambda>_. bt_wf) (mi_partitions b)" and "hm_wf (mi_topics b)"
  shows "fold apply_record (map V1Partition ps) b
    = b\<lparr>mi_partitions := fold (\<lambda>p. nested_insert (pr_topic p) (pr_partition p) p) ps (mi_partitions b),
        mi_topics := fold bump_topics ps (mi_topics b)\<rparr>"
  using assms
proof (induction ps arbitrary: b)
  case (Cons p ps)
  let ?b = "b\<lparr>mi_partitions := nested_insert (pr_topic p) (pr_partition p) p (mi_partitions b),
    mi_topics := bump_topics p (mi_topics b)\<rparr>"
  have "apply_partition p b = ?b"
    using Cons.prems by (intro apply_partition_new) simp_all
  moreover have "nested_get (mi_partitions ?b) (pr_topic q) (pr_partition q) = None" if "q \<in> set ps" for q
  proof -
    have "(pr_topic p, pr_partition p) \<notin> (\<lambda>p. (pr_topic p, pr_partition p)) ` set ps"
      using Cons.prems(1) by simp
    then have "\<not> (pr_topic q = pr_topic p \<and> pr_partition q = pr_partition p)"
      using that by (metis (no_types, lifting) image_eqI)
    then show ?thesis
      using that Cons.prems(2)[of q] Cons.prems(3) by (auto simp: nested_get_insert)
  qed
  ultimately show ?case
    using Cons.IH[of ?b] Cons.prems by (simp add: level_wf_nested_insert)
qed simp

lemma fold_bump_topics:
  "fold bump_topics ps m = map (\<lambda>(n, t). (n, fold bump_topic (filter (\<lambda>p. pr_topic p = n) ps) t)) m"
  by (induction ps arbitrary: m) (auto simp: bump_topics_def case_prod_unfold)

lemma fold_bump_topic:
  "tr_partitions t \<le> I32_MAX \<Longrightarrow>
   fold bump_topic ps t = t\<lparr>tr_partitions := min I32_MAX (tr_partitions t + int (length ps)),
     tr_replication_factor := fold replica_count ps (tr_replication_factor t)\<rparr>"
proof (induction ps arbitrary: t)
  case (Cons p ps)
  have "tr_partitions (bump_topic p t) \<le> I32_MAX"
    by (simp add: bump_topic_def)
  then show ?case
    using Cons.IH[of "bump_topic p t"] Cons.prems by (simp add: bump_topic_def min_def)
qed simp

lemma all_partitions_entries:
  "all_partitions img = map (\<lambda>(_, _, p). p) (nested_entries (mi_partitions img))"
  by (simp add: all_partitions_def nested_entries_def map_concat comp_def case_prod_unfold)

lemma nested_entries_Cons: "nested_entries ((k, inner) # m) = map (\<lambda>(i, v). (k, i, v)) inner @ nested_entries m"
  by (simp add: nested_entries_def)

lemma nested_entries_key: "(k, i, v) \<in> set (nested_entries m) \<Longrightarrow> k \<in> fst ` set m"
  by (force simp: nested_entries_def)

lemma distinct_nested_keys:
  assumes "hm_wf m" and "\<forall>e \<in> set m. distinct (map fst (snd e))"
  shows "distinct (map (\<lambda>e. (fst e, fst (snd e))) (nested_entries m))"
  using assms
proof (induction m)
  case (Cons e m)
  obtain k inner where e: "e = (k, inner)"
    by (cases e)
  have k: "k \<notin> fst ` set m" and m: "hm_wf m"
    using Cons.prems(1) by (auto simp: e hm_wf_def)
  have keys: "map (\<lambda>e. (fst e, fst (snd e))) (map (\<lambda>(i, v). (k, i, v)) inner) = map (Pair k) (map fst inner)"
    by (simp add: case_prod_unfold comp_def)
  have "distinct (map (Pair k) (map fst inner))"
    using Cons.prems(2) by (subst distinct_map) (simp add: e inj_on_def)
  moreover have "x \<notin> set (map (\<lambda>e. (fst e, fst (snd e))) (nested_entries m))" if "x \<in> set (map (Pair k) (map fst inner))" for x
    using that nested_entries_key[of k _ _ m] k by fastforce
  ultimately show ?case
    using Cons.IH[OF m] Cons.prems(2) unfolding e nested_entries_Cons map_append distinct_append keys by auto
qed (simp add: nested_entries_def)

section \<open>The whole snapshot\<close>

text \<open>A topic as a snapshot restores it: its counts come from its partitions.\<close>

definition snapshot_topic :: "MetadataImage \<Rightarrow> bytes \<Rightarrow> TopicRecord \<Rightarrow> TopicRecord" where
  "snapshot_topic img n t =
     t\<lparr>tr_partitions := topic_partition_count img n,
       tr_replication_factor := fold replica_count (partitions_of img n) (tr_replication_factor t)\<rparr>"

text \<open>
  What a snapshot restores. Everything is the image's own except what it derives: the counts of a
  topic, the topic-id index, the empty config maps it drops, and the buckets of the ACL index.
\<close>

definition snapshot_of :: "MetadataImage \<Rightarrow> MetadataImage" where
  "snapshot_of img =
     img\<lparr>mi_topics := map (\<lambda>(n, t). (n, snapshot_topic img n t)) (mi_topics img),
         mi_topic_ids := fold (\<lambda>(n, t). hm_insert (tr_topic_id t) n) (mi_topics img) [],
         mi_broker_configs := drop_empty (mi_broker_configs img),
         mi_client_quotas := drop_empty (mi_client_quotas img),
         mi_acls := fold AclIndex_insert (all_acls img) AclIndex_default\<rparr>"

lemma partitions_of_filter:
  assumes "level_wf (\<lambda>t. inner_ok (partition_ok t)) (mi_partitions img)"
  shows "filter (\<lambda>p. pr_topic p = n) (all_partitions img) = partitions_of img n"
proof -
  have "filter (\<lambda>p. pr_topic p = n) (concat (map (\<lambda>(_, parts). map snd parts) m)) = map snd (or_default [] (map_of m n))"
    if "level_wf (\<lambda>t. inner_ok (partition_ok t)) m" for m
    using that
  proof (induction m)
    case (Cons e m)
    obtain k parts where e: "e = (k, parts)"
      by (cases e)
    have p: "\<forall>x \<in> set (map snd parts). pr_topic x = k" and k: "map_of m k = None"
      using Cons.prems by (auto simp: e inner_ok_def partition_ok_def map_of_eq_None_iff)
    have "filter (\<lambda>p. pr_topic p = n) (map snd parts) = (if n = k then map snd parts else [])"
      using p by (auto intro: filter_True filter_False)
    then show ?case
      using Cons k by (auto simp: e or_default_def)
  qed (simp add: or_default_def)
  then show ?thesis
    using assms by (simp add: all_partitions_def partitions_of_def)
qed

lemma topic_count_length: "topic_partition_count img n = min I32_MAX (int (length (partitions_of img n)))"
  by (auto simp: topic_partition_count_def partitions_of_def or_default_def I32_MAX_def split: option.split)

lemma seg_topics_partitions:
  assumes "image_wf img" and "mi_topics b = []" and "mi_topic_ids b = []" and "mi_partitions b = []"
  shows "fold apply_record (map V1Partition (all_partitions img))
      (fold apply_record (map (\<lambda>(_, t). V1Topic t) (mi_topics img)) b)
    = b\<lparr>mi_topics := map (\<lambda>(n, t). (n, snapshot_topic img n t)) (mi_topics img),
        mi_topic_ids := fold (\<lambda>(n, t). hm_insert (tr_topic_id t) n) (mi_topics img) [],
        mi_partitions := mi_partitions img\<rparr>"
proof -
  have wt: "level_wf topic_ok (mi_topics img)" and wp: "level_wf (\<lambda>t. inner_ok (partition_ok t)) (mi_partitions img)"
    using assms(1) by (simp_all add: image_wf_def)
  let ?ps = "all_partitions img"
  let ?c = "b\<lparr>mi_topics := map (\<lambda>(n, t). (n, fresh_topic t)) (mi_topics img),
    mi_topic_ids := fold (\<lambda>(n, t). hm_insert (tr_topic_id t) n) (mi_topics img) []\<rparr>"
  have topics: "fold apply_record (map (\<lambda>(_, t). V1Topic t) (mi_topics img)) b = ?c"
    using seg_topics[OF wt, of b] assms by simp
  have key: "(k, i) = (pr_topic p, pr_partition p)" if "(k, i, p) \<in> set (nested_entries (mi_partitions img))" for k i p
    using nested_entries_ok[OF wp that] by (simp add: partition_ok_def)
  have keys: "map (\<lambda>p. (pr_topic p, pr_partition p)) ?ps = map (\<lambda>e. (fst e, fst (snd e))) (nested_entries (mi_partitions img))"
    unfolding all_partitions_entries using key by auto
  have "distinct (map (\<lambda>p. (pr_topic p, pr_partition p)) ?ps)"
    unfolding keys using wp by (intro distinct_nested_keys) (auto simp: level_wf_def inner_ok_def bt_wf_distinct)
  moreover have "hm_wf (mi_topics ?c)"
    using wt by (simp add: level_wf_def hm_wf_def comp_def case_prod_unfold)
  ultimately have parts: "fold apply_record (map V1Partition ?ps) ?c
      = ?c\<lparr>mi_partitions := fold (\<lambda>p. nested_insert (pr_topic p) (pr_partition p) p) ?ps [],
           mi_topics := fold bump_topics ?ps (mi_topics ?c)\<rparr>"
    using seg_partitions[of ?ps ?c] assms(4) by (simp add: nested_get_def)
  have "fold (\<lambda>p. nested_insert (pr_topic p) (pr_partition p) p) ?ps []
      = fold (nested_step (\<lambda>_ v. v)) (nested_entries (mi_partitions img)) []"
    unfolding all_partitions_entries fold_map
    by (rule fold_cong) (auto simp: nested_step_def fun_eq_iff dest: key)
  also have "\<dots> = mi_partitions img"
    by (rule nested_replay_full[OF wp]) simp
  finally have m: "fold (\<lambda>p. nested_insert (pr_topic p) (pr_partition p) p) ?ps [] = mi_partitions img" .
  have "fold bump_topics ?ps (mi_topics ?c) = map (\<lambda>(n, t). (n, snapshot_topic img n t)) (mi_topics img)"
    by (auto simp: fold_bump_topics partitions_of_filter[OF wp] fold_bump_topic fresh_topic_def snapshot_topic_def
        topic_count_length I32_MAX_def)
  then show ?thesis
    unfolding topics parts m by simp
qed

lemma seg_features:
  "fold apply_record (map (\<lambda>(name, level). V1FeatureLevel \<lparr>fl_name = name, fl_level = level\<rparr>) fs) b
    = b\<lparr>mi_feature_levels := fold (\<lambda>(n, l) m. if l = 0 then bt_remove n m else bt_insert n l m) fs (mi_feature_levels b),
        mi_features_epoch := fold (\<lambda>_ e. max 0 (min I64_MAX (e + 1))) fs (mi_features_epoch b)\<rparr>"
  by (induction fs arbitrary: b) (auto simp: apply_feature_level_def)

lemma feature_replay:
  assumes "image_wf img"
  shows "fold (\<lambda>(n, l) m. if l = 0 then bt_remove n m else bt_insert n l m) (mi_feature_levels img) [] = mi_feature_levels img"
proof -
  have "fold (\<lambda>(n, l) m. if l = 0 then bt_remove n m else bt_insert n l m) (mi_feature_levels img) []
      = fold (\<lambda>(n, l). bt_insert n l) (mi_feature_levels img) []"
    using assms by (intro fold_cong) (auto simp: image_wf_def)
  moreover have "bt_wf (mi_feature_levels img)"
    using assms by (simp add: image_wf_def)
  ultimately show ?thesis
    by (simp add: bt.replay)
qed

lemma snapshot_replay:
  assumes "image_wf img"
  shows "from_records (mi_cluster_id img) (to_records img) = snapshot_of img"
proof -
  have epoch: "mi_features_epoch img = -1 \<and> mi_feature_levels img = []" if "\<not> 0 \<le> mi_features_epoch img"
    using assms that by (auto simp: image_wf_def)
  have pids: "apply_producer_ids r b = b\<lparr>mi_producer_ids := Some r\<rparr>"
    if "mi_producer_ids img = Some r" "mi_producer_ids b = None" for r b
    using assms that by (simp add: apply_producer_ids_def next_producer_id_def image_wf_def)
  note groups = seg_brokers[OF assms] seg_controllers[OF assms] seg_broker_configs[OF assms]
    seg_topics_partitions[OF assms] seg_offsets[OF assms] seg_elr[OF assms] seg_recovery[OF assms]
    seg_topic_configs[OF assms] seg_scram[OF assms] seg_acls seg_quotas[OF assms] seg_tokens[OF assms]
    seg_metrics[OF assms] seg_groups[OF assms] seg_literal_freezes[OF assms] seg_prefixed_freezes[OF assms]
    seg_break_glass[OF assms] seg_features feature_replay[OF assms]
  show ?thesis
    unfolding from_records_def to_records_def fold_append comp_apply topic_freezes_def map_append
    by (cases "mi_producer_ids img"; cases "0 \<le> mi_features_epoch img")
      (simp_all add: groups MetadataImage_new_def pids snapshot_of_def epoch del: map_map)
qed

end
