(* ===== verification/ImageCommits.thy ===== *)
theory ImageCommits
  imports ImageSnapshot
begin

text \<open>
  The image as a state machine: the controller validates a record against the image it has and
  appends it only when that succeeds, and every replica applies what was appended. \<open>committed\<close> is
  the reachable states of that machine; invariants are proved by rule induction on it.
\<close>

section \<open>Committing records\<close>

definition submit :: "MetadataImage \<Rightarrow> MetadataRecord \<Rightarrow> (MetadataError, MetadataImage) result" where
  "submit img r = and_then (validate img r) (\<lambda>_. Ok (apply_record r img))"

fun commit_all :: "MetadataImage \<Rightarrow> MetadataRecord list \<Rightarrow> (MetadataError, MetadataImage) result" where
  "commit_all img [] = Ok img"
| "commit_all img (r # rs) = and_then (submit img r) (\<lambda>img'. commit_all img' rs)"

inductive committed :: "(MetadataImage \<Rightarrow> MetadataRecord \<Rightarrow> bool) \<Rightarrow> uuid128 \<Rightarrow> MetadataImage \<Rightarrow> bool"
  for guard cid where
  committed_new: "committed guard cid (MetadataImage_new cid)"
| committed_step:
    "committed guard cid img \<Longrightarrow> mrecord_wf r \<Longrightarrow> validate img r = Ok () \<Longrightarrow> guard img r
     \<Longrightarrow> committed guard cid (apply_record r img)"

lemma submit_Ok: "submit img r = Ok img' \<longleftrightarrow> validate img r = Ok () \<and> img' = apply_record r img"
  by (cases "validate img r") (auto simp: submit_def)

lemma commit_all_applies: "commit_all img rs = Ok img' \<Longrightarrow> img' = fold apply_record rs img"
  by (induction rs arbitrary: img) (auto simp: and_then_eq_Ok submit_Ok)

lemma commit_all_append:
  "commit_all img (rs @ qs) = and_then (commit_all img rs) (\<lambda>img'. commit_all img' qs)"
  by (induction rs arbitrary: img) (auto simp: and_then_def split: sum.split)

lemma committed_wf: "committed guard cid img \<Longrightarrow> image_wf img"
  by (induction rule: committed.induct) (simp_all add: image_wf_new image_wf_apply)

section \<open>Topics, their partitions and their side tables\<close>

definition nested_dom :: "('k, ('i \<times> 'v) list) hash_map \<Rightarrow> ('k \<times> 'i) set" where
  "nested_dom m = {(k, i). nested_get m k i \<noteq> None}"

definition image_consistent :: "MetadataImage \<Rightarrow> bool" where
  "image_consistent img \<longleftrightarrow>
     dom (map_of (mi_partitions img)) \<subseteq> dom (map_of (mi_topics img))
     \<and> dom (map_of (mi_topic_configs img)) \<subseteq> dom (map_of (mi_topics img))
     \<and> nested_dom (mi_partition_elr img) \<subseteq> nested_dom (mi_partitions img)
     \<and> nested_dom (mi_partition_recovery img) \<subseteq> nested_dom (mi_partitions img)
     \<and> (\<forall>n t. map_of (mi_topics img) n = Some t \<longrightarrow> tr_partitions t = topic_partition_count img n)"

lemma nested_wf: "level_wf (\<lambda>k. inner_ok (P k)) m \<Longrightarrow> level_wf (\<lambda>_. bt_wf) m"
  by (auto simp: level_wf_def inner_ok_def)

lemma nested_dom_insert [simp]:
  "level_wf (\<lambda>_. bt_wf) m \<Longrightarrow> nested_dom (nested_insert k i v m) = insert (k, i) (nested_dom m)"
  by (auto simp: nested_dom_def nested_get_insert)

lemma nested_get_remove:
  "nested_get (nested_remove t p m) k i = (if k = t \<and> i = p then None else nested_get m k i)"
proof (cases "map_of m t")
  case (Some parts)
  have "map_of parts j = None" if "bt_remove p parts = []" "j \<noteq> p" for j
    using bt.get_del[of p parts] that by (metis fun_upd_other map_of.simps(1))
  then show ?thesis
    using Some by (auto simp: nested_remove_def nested_get_def Let_def bt.get_del split: option.split)
qed (auto simp: nested_remove_def nested_get_def split: option.split)

lemma nested_dom_remove [simp]: "nested_dom (nested_remove t p m) = nested_dom m - {(t, p)}"
  by (auto simp: nested_dom_def nested_get_remove)

lemma nested_dom_delete [simp]: "nested_dom (hm_remove t m) = {e \<in> nested_dom m. fst e \<noteq> t}"
  by (auto simp: nested_dom_def nested_get_def split: if_splits)

lemma nested_dom_get: "(k, i) \<in> nested_dom m \<longleftrightarrow> nested_get m k i \<noteq> None"
  by (simp add: nested_dom_def)

lemma length_bt_insert:
  "bt_wf m \<Longrightarrow> length (bt_insert i v m) = (if map_of m i = None then Suc (length m) else length m)"
proof (induction i v m rule: bt_insert.induct)
  case (2 k v a b m)
  have "map_of m k = None" if "k < a"
    using 2(2) that by (force simp: bt_wf_def map_of_eq_None_iff)
  then show ?case
    using 2 by (auto simp: bt_wf_def)
qed simp

lemma count_nested_insert:
  assumes "level_wf (\<lambda>_. bt_wf) (mi_partitions img)" and "mi_partitions img' = nested_insert k i v (mi_partitions img)"
  shows "topic_partition_count img' n =
    (if n = k \<and> nested_get (mi_partitions img) k i = None then min I32_MAX (topic_partition_count img n + 1)
     else topic_partition_count img n)"
proof -
  have "bt_wf (or_default [] (map_of (mi_partitions img) k))"
    using level_wf_get[OF assms(1)] by (auto simp: or_default_def split: option.split)
  moreover have "nested_get (mi_partitions img) k i = map_of (or_default [] (map_of (mi_partitions img) k)) i"
    by (simp add: nested_get_def or_default_def split: option.split)
  moreover have "partitions_of img' n = (if n = k then map snd (bt_insert i v (or_default [] (map_of (mi_partitions img) k))) else partitions_of img n)"
    by (simp add: partitions_of_def assms(2) nested_insert_def hm_entry_def or_default_def)
  ultimately show ?thesis
    by (auto simp: topic_count_length partitions_of_def length_bt_insert)
qed

text \<open>Consistency only reads five fields.\<close>

lemma consistent_cong:
  assumes "mi_topics img' = mi_topics img" "mi_partitions img' = mi_partitions img"
    "mi_topic_configs img' = mi_topic_configs img" "mi_partition_elr img' = mi_partition_elr img"
    "mi_partition_recovery img' = mi_partition_recovery img"
  shows "image_consistent img' = image_consistent img"
  using assms by (simp add: image_consistent_def topic_partition_count_def)

lemma consistent_partition:
  assumes "image_wf img" "image_consistent img" "known_topic img (pr_topic p)"
  shows "image_consistent (apply_partition p img)"
    and "(pr_topic p, pr_partition p) \<in> nested_dom (mi_partitions (apply_partition p img))"
proof -
  have w: "level_wf (\<lambda>_. bt_wf) (mi_partitions img)"
    using assms(1) by (auto simp: image_wf_def intro: nested_wf)
  obtain t where t: "map_of (mi_topics img) (pr_topic p) = Some t"
    using assms(3) by (auto simp: known_topic_def)
  let ?img = "apply_partition p img"
  have parts: "mi_partitions ?img = nested_insert (pr_topic p) (pr_partition p) p (mi_partitions img)"
    by (simp add: apply_partition_def t Let_def nested_insert_def)
  show "(pr_topic p, pr_partition p) \<in> nested_dom (mi_partitions ?img)"
    using w by (simp add: parts)
  have other: "mi_topic_configs ?img = mi_topic_configs img" "mi_partition_elr ?img = mi_partition_elr img"
    "mi_partition_recovery ?img = mi_partition_recovery img"
    by (simp_all add: apply_partition_def t Let_def)
  have dt: "dom (map_of (mi_topics ?img)) = dom (map_of (mi_topics img))"
    using t by (auto simp: apply_partition_def Let_def)
  have dp: "dom (map_of (nested_insert (pr_topic p) (pr_partition p) p (mi_partitions img)))
      = insert (pr_topic p) (dom (map_of (mi_partitions img)))"
    by (auto simp: nested_insert_def hm_entry_def)
  obtain t' where topics: "map_of (mi_topics ?img) = (map_of (mi_topics img))(pr_topic p \<mapsto> t')"
    and t': "tr_partitions t' = (if nested_get (mi_partitions img) (pr_topic p) (pr_partition p) = None
      then min I32_MAX (tr_partitions t + 1) else tr_partitions t)"
    by (simp add: apply_partition_def t Let_def)
  have counts: "tr_partitions u = topic_partition_count img n" if "map_of (mi_topics img) n = Some u" for n u
    using that assms(2) by (simp add: image_consistent_def)
  have "tr_partitions u = topic_partition_count ?img n" if "map_of (mi_topics ?img) n = Some u" for n u
    using that t' counts[OF t] counts[of n u] count_nested_insert[OF w parts, of n]
    by (auto simp: topics split: if_splits)
  then show "image_consistent ?img"
    using assms(2) t w unfolding image_consistent_def dt other parts dp by auto
qed

lemma consistent_elr:
  assumes "image_wf img" "image_consistent img" "(elr_topic r, elr_partition r) \<in> nested_dom (mi_partitions img)"
  shows "image_consistent (apply_partition_elr r img)"
proof -
  have "level_wf (\<lambda>_. bt_wf) (mi_partition_elr img)"
    using assms(1) by (auto simp: image_wf_def intro: nested_wf)
  then show ?thesis
    using assms(2,3) by (auto simp: image_consistent_def apply_partition_elr_def topic_partition_count_def)
qed

lemma consistent_recovery:
  assumes "image_wf img" "image_consistent img" "(t, p) \<in> nested_dom (mi_partitions img)"
  shows "image_consistent (apply_partition_recovery t p s img)"
proof -
  have "level_wf (\<lambda>_. bt_wf) (mi_partition_recovery img)"
    using assms(1) by (auto simp: image_wf_def intro: nested_wf)
  then show ?thesis
    using assms(2,3) by (auto simp: image_consistent_def apply_partition_recovery_def topic_partition_count_def)
qed

lemma elr_keeps_partitions [simp]: "mi_partitions (apply_partition_elr r img) = mi_partitions img"
  by (simp add: apply_partition_elr_def)

lemma consistent_update:
  assumes "image_wf img" "image_consistent img" "known_topic img (pr_topic (pu_partition u))"
  shows "image_consistent (apply_partition_update u img)"
  using consistent_partition[OF assms] image_wf_partition[OF assms(1)]
  by (auto simp: apply_partition_update_def Let_def image_wf_elr intro!: consistent_elr consistent_recovery split: option.split)

lemma consistent_topic:
  assumes "image_consistent img" "validate img (V1Topic t) = Ok ()"
  shows "image_consistent (apply_topic t img)"
proof -
  have "topic_partition_count (apply_topic t img) n = topic_partition_count img n" for n
    by (simp add: topic_partition_count_def apply_topic_def Let_def)
  moreover have "map_of (mi_topics img) n = None \<Longrightarrow> topic_partition_count img n = 0" for n
    using assms(1) by (auto simp: image_consistent_def topic_partition_count_def dom_def split: option.split)
  ultimately show ?thesis
    using assms(1) by (auto simp: image_consistent_def apply_topic_def Let_def split: option.splits)
qed

lemma consistent_delete:
  assumes "image_consistent img"
  shows "image_consistent (apply_delete_topic n img)"
  using assms by (auto simp: image_consistent_def apply_delete_topic_def topic_partition_count_def dom_def)

text \<open>The directory list of a partition once slot \<open>slot\<close> is assigned.\<close>

definition assigned_dirs :: "PartitionRecord \<Rightarrow> nat \<Rightarrow> uuid128 \<Rightarrow> uuid128 list" where
  "assigned_dirs pr slot d =
     (let n = length (pr_replicas pr);
          dirs = (if length (pr_directories pr) < n
                  then pr_directories pr @ replicate (n - length (pr_directories pr)) MIGRATING
                  else pr_directories pr)
      in if slot < length dirs then dirs[slot := d] else dirs)"

lemma apply_dir_assignment_eq:
  "apply_dir_assignment r img =
     (case nested_get (mi_partitions img) (pda_topic r) (pda_partition r) of
        None \<Rightarrow> img
      | Some pr \<Rightarrow>
          (case position (\<lambda>n. n = pda_replica r) (pr_replicas pr) of
             None \<Rightarrow> img
           | Some slot \<Rightarrow>
               img\<lparr>mi_partitions := nested_insert (pda_topic r) (pda_partition r)
                 (pr\<lparr>pr_directories := assigned_dirs pr slot (pda_directory r)\<rparr>) (mi_partitions img)\<rparr>))"
  unfolding apply_dir_assignment_def assigned_dirs_def Let_def by (rule refl)

lemma consistent_dir:
  assumes "image_wf img" "image_consistent img"
  shows "image_consistent (apply_dir_assignment r img)"
proof (cases "apply_dir_assignment r img = img")
  case False
  then obtain pr where old: "nested_get (mi_partitions img) (pda_topic r) (pda_partition r) = Some pr"
    by (cases "nested_get (mi_partitions img) (pda_topic r) (pda_partition r)") (simp_all add: apply_dir_assignment_eq)
  with False obtain pr' where new: "apply_dir_assignment r img
      = img\<lparr>mi_partitions := nested_insert (pda_topic r) (pda_partition r) pr' (mi_partitions img)\<rparr>"
    by (cases "position (\<lambda>n. n = pda_replica r) (pr_replicas pr)") (auto simp: apply_dir_assignment_eq)
  have w: "level_wf (\<lambda>_. bt_wf) (mi_partitions img)"
    using assms(1) by (auto simp: image_wf_def intro: nested_wf)
  have "topic_partition_count (apply_dir_assignment r img) n = topic_partition_count img n" for n
    using count_nested_insert[OF w, of "apply_dir_assignment r img"] old new by simp
  moreover have "dom (map_of (nested_insert (pda_topic r) (pda_partition r) pr' (mi_partitions img))) = dom (map_of (mi_partitions img))"
    using old by (auto simp: nested_insert_def hm_entry_def nested_get_def split: option.splits)
  ultimately show ?thesis
    using assms(2) w by (auto simp: image_consistent_def new)
qed (simp add: assms(2))

lemma consistent_configs:
  assumes "image_consistent img" "known_topic img topic"
  shows "image_consistent (img\<lparr>mi_topic_configs := replace_configs topic c (mi_topic_configs img)\<rparr>)"
  using assms by (auto simp: image_consistent_def replace_configs_def known_topic_def topic_partition_count_def dom_def split: if_splits)

lemma validate_known:
  "validate img (V1Partition p) = Ok () \<Longrightarrow> known_topic img (pr_topic p)"
  "validate img (V1PartitionUpdate u) = Ok () \<Longrightarrow> known_topic img (pr_topic (pu_partition u))"
  "validate img (V1TopicConfig c) = Ok () \<Longrightarrow> known_topic img (tc_topic c)"
  "validate img (V1PartitionElr e) = Ok () \<Longrightarrow> (elr_topic e, elr_partition e) \<in> nested_dom (mi_partitions img)"
  "validate img (V1PartitionRecovery s) = Ok () \<Longrightarrow> (prr_topic s, prr_partition s) \<in> nested_dom (mi_partitions img)"
  by (auto simp: image_partition_def nested_dom_get split: if_splits)

lemma consistent_apply:
  assumes "image_wf img" "image_consistent img" "validate img r = Ok ()"
  shows "image_consistent (apply_record r img)"
proof (cases r)
  case (V1Topic t)
  then show ?thesis
    using consistent_topic[OF assms(2)] assms(3) by simp
next
  case (V1Partition p)
  then show ?thesis
    using consistent_partition(1)[OF assms(1,2) validate_known(1)] assms(3) by simp
next
  case (V1PartitionUpdate u)
  then show ?thesis
    using consistent_update[OF assms(1,2) validate_known(2)] assms(3) by simp
next
  case (V1TopicConfig c)
  then show ?thesis
    using consistent_configs[OF assms(2) validate_known(3)] assms(3) by simp
next
  case (V1PartitionElr e)
  then show ?thesis
    using consistent_elr[OF assms(1,2) validate_known(4)] assms(3) by simp
next
  case (V1PartitionRecovery s)
  then show ?thesis
    using consistent_recovery[OF assms(1,2) validate_known(5)] assms(3) by simp
next
  case (V1DeleteTopic n)
  then show ?thesis
    using consistent_delete[OF assms(2)] by simp
next
  case (V1PartitionDirAssignment d)
  then show ?thesis
    using consistent_dir[OF assms(1,2)] by simp
qed (use assms(2) in \<open>simp; subst consistent_cong[of _ img]; simp add: apply_registration_change_def
      apply_unregister_broker_def apply_producer_ids_def apply_feature_level_def apply_offset_advance_def
      apply_topic_freeze_def split: option.split PatternType.split bool.split\<close>)+

lemma committed_consistent: "committed guard cid img \<Longrightarrow> image_consistent img"
proof (induction rule: committed.induct)
  case committed_new
  then show ?case
    by (simp add: image_consistent_def MetadataImage_new_def nested_dom_def nested_get_def)
next
  case (committed_step img r)
  then show ?case
    by (simp add: consistent_apply committed_wf)
qed

section \<open>The topic-id index\<close>

text \<open>A topic record whose id no other topic carries. The controller draws ids at random.\<close>

definition fresh_topic_id :: "MetadataImage \<Rightarrow> MetadataRecord \<Rightarrow> bool" where
  "fresh_topic_id img r =
     (case r of
        V1Topic t \<Rightarrow> list_all (\<lambda>(n, u). tr_topic_id u = tr_topic_id t \<longrightarrow> n = tr_name t) (mi_topics img)
      | _ \<Rightarrow> True)"

definition ids_exact :: "MetadataImage \<Rightarrow> bool" where
  "ids_exact img \<longleftrightarrow> (\<forall>i n. map_of (mi_topic_ids img) i = Some n
     \<longleftrightarrow> (\<exists>t. map_of (mi_topics img) n = Some t \<and> tr_topic_id t = i))"

lemma ids_exactD:
  "ids_exact img \<Longrightarrow> map_of (mi_topic_ids img) i = Some n \<longleftrightarrow> (\<exists>t. map_of (mi_topics img) n = Some t \<and> tr_topic_id t = i)"
  by (simp add: ids_exact_def)

lemma ids_exact_cong:
  assumes "mi_topic_ids img' = mi_topic_ids img"
    and "\<And>n. map_option tr_topic_id (map_of (mi_topics img') n) = map_option tr_topic_id (map_of (mi_topics img) n)"
  shows "ids_exact img' = ids_exact img"
proof -
  have at: "(\<exists>t. map_of (mi_topics im) n = Some t \<and> tr_topic_id t = i) \<longleftrightarrow> map_option tr_topic_id (map_of (mi_topics im) n) = Some i" for im n i
    by auto
  show ?thesis
    unfolding ids_exact_def assms(1) at assms(2) by (rule refl)
qed

lemma ids_unique:
  assumes "ids_exact img" "map_of (mi_topics img) n = Some t" "map_of (mi_topics img) m = Some u" "tr_topic_id t = tr_topic_id u"
  shows "n = m"
proof -
  have "map_of (mi_topic_ids img) (tr_topic_id u) = Some n" "map_of (mi_topic_ids img) (tr_topic_id u) = Some m"
    using assms ids_exactD[OF assms(1)] by auto
  then show ?thesis
    by simp
qed

lemma ids_exact_topic:
  assumes e: "ids_exact img" and f: "fresh_topic_id img (V1Topic t)"
  shows "ids_exact (apply_topic t img)"
proof -
  let ?prev = "map_of (mi_topics img) (tr_name t)"
  have fresh: "n = tr_name t" if "map_of (mi_topics img) n = Some u" "tr_topic_id u = tr_topic_id t" for n u
    using f that map_of_SomeD[OF that(1)] by (auto simp: fresh_topic_id_def list_all_iff)
  have ids: "map_of (mi_topic_ids (apply_topic t img)) i
      = (if i = tr_topic_id t then Some (tr_name t)
         else if map_option tr_topic_id ?prev = Some i then None else map_of (mi_topic_ids img) i)" for i
    by (auto simp: apply_topic_def Let_def split: option.split)
  obtain t' where topics: "map_of (mi_topics (apply_topic t img)) = (map_of (mi_topics img))(tr_name t \<mapsto> t')"
    and t': "tr_topic_id t' = tr_topic_id t"
    by (simp add: apply_topic_def Let_def)
  show ?thesis
    unfolding ids_exact_def ids topics using t' fresh ids_exactD[OF e] by (auto split: if_splits dest: ids_unique[OF e])
qed

lemma ids_exact_delete:
  assumes "ids_exact img"
  shows "ids_exact (apply_delete_topic n img)"
  using assms ids_exactD[OF assms]
  by (auto simp: ids_exact_def apply_delete_topic_def split: option.splits if_splits dest: ids_unique[OF assms])

lemma partition_keeps_ids:
  "mi_topic_ids (apply_partition p img) = mi_topic_ids img"
  "map_option tr_topic_id (map_of (mi_topics (apply_partition p img)) n) = map_option tr_topic_id (map_of (mi_topics img) n)"
  by (auto simp: apply_partition_def Let_def split: option.split)

lemma update_topics:
  "mi_topics (apply_partition_update u img) = mi_topics (apply_partition (pu_partition u) img)"
  "mi_topic_ids (apply_partition_update u img) = mi_topic_ids (apply_partition (pu_partition u) img)"
  by (simp_all add: apply_partition_update_def Let_def apply_partition_elr_def apply_partition_recovery_def split: option.split)

lemma ids_exact_apply:
  assumes "ids_exact img" "fresh_topic_id img r"
  shows "ids_exact (apply_record r img)"
proof (cases r)
  case (V1Topic t)
  then show ?thesis
    using ids_exact_topic[OF assms(1)] assms(2) by simp
next
  case (V1DeleteTopic n)
  then show ?thesis
    using ids_exact_delete[OF assms(1)] by simp
qed (use assms(1) in \<open>simp; subst ids_exact_cong[of _ img]; simp add: partition_keeps_ids update_topics
      apply_registration_change_def apply_unregister_broker_def apply_producer_ids_def apply_feature_level_def
      apply_offset_advance_def apply_topic_freeze_def apply_partition_elr_def apply_partition_recovery_def
      apply_dir_assignment_eq split: option.split PatternType.split bool.split\<close>)+

lemma committed_ids: "committed fresh_topic_id cid img \<Longrightarrow> ids_exact img"
  by (induction rule: committed.induct) (simp_all add: ids_exact_apply, simp add: ids_exact_def MetadataImage_new_def)

section \<open>Producer ids\<close>

fun allocated :: "MetadataRecord list \<Rightarrow> int list" where
  "allocated [] = []"
| "allocated (V1ProducerIds r # rs) = pi_next_producer_id r # allocated rs"
| "allocated (_ # rs) = allocated rs"

lemma next_producer_id_other:
  "(\<And>p. r \<noteq> V1ProducerIds p) \<Longrightarrow> next_producer_id (apply_record r img) = next_producer_id img"
  by (cases r) (auto simp: next_producer_id_def apply_topic_def apply_partition_def apply_partition_update_def
      apply_registration_change_def apply_unregister_broker_def apply_feature_level_def apply_delete_topic_def
      apply_offset_advance_def apply_topic_freeze_def apply_partition_elr_def apply_partition_recovery_def
      apply_dir_assignment_eq Let_def split: option.split PatternType.split bool.split)

lemma allocated_other: "(\<And>p. r \<noteq> V1ProducerIds p) \<Longrightarrow> allocated (r # rs) = allocated rs"
  by (cases r) auto

lemma allocations_increase:
  "commit_all img rs = Ok img' \<Longrightarrow>
   sorted_wrt (<) (next_producer_id img # allocated rs) \<and> next_producer_id img' = last (next_producer_id img # allocated rs)"
proof (induction rs arbitrary: img)
  case (Cons r rs)
  have v: "validate img r = Ok ()" and c: "commit_all (apply_record r img) rs = Ok img'"
    using Cons.prems by (auto simp: and_then_eq_Ok submit_Ok)
  note IH = Cons.IH[OF c]
  show ?case
  proof (cases "\<exists>p. r = V1ProducerIds p")
    case True
    then obtain p where r: "r = V1ProducerIds p"
      by blast
    have lt: "next_producer_id img < pi_next_producer_id p"
      using v by (auto simp: r split: if_splits)
    then have "next_producer_id (apply_record r img) = pi_next_producer_id p"
      by (simp add: r apply_producer_ids_def next_producer_id_def[of "img\<lparr>mi_producer_ids := Some p\<rparr>"])
    then show ?thesis
      using IH lt by (auto simp: r)
  next
    case False
    then show ?thesis
      using IH next_producer_id_other[of r img] allocated_other[of r rs] by auto
  qed
qed simp

section \<open>Break-glass proposals\<close>

definition settled :: "BreakGlassProposalRecord \<Rightarrow> bool" where
  "settled p \<longleftrightarrow> bp_consumed_at_ms p \<noteq> 0 \<or> bp_withdrawn p"

definition proposal_after :: "BreakGlassProposalRecord \<Rightarrow> BreakGlassProposalRecord \<Rightarrow> bool" where
  "proposal_after p q \<longleftrightarrow> extends (bp_approvals p) (bp_approvals q) \<and> (settled p \<longrightarrow> q = p)"

lemma extends_trans: "extends a b \<Longrightarrow> extends b c \<Longrightarrow> extends a c"
proof -
  assume "extends a b" "extends b c"
  then have "take (length a) (take (length b) c) = a" "length a \<le> length b"
    by (auto simp: extends_def) (metis length_take min.cobounded1 nat_le_linear min_def)
  then show ?thesis
    by (simp add: extends_def min_absorb1)
qed

lemma proposal_after_trans: "proposal_after p q \<Longrightarrow> proposal_after q r \<Longrightarrow> proposal_after p r"
  unfolding proposal_after_def using extends_trans by blast

lemma proposal_after_refl: "proposal_after p p"
  by (simp add: proposal_after_def extends_def)

lemma break_glass_other:
  "(\<And>p. r \<noteq> V1BreakGlassProposal p) \<Longrightarrow> (\<And>i. r \<noteq> V1DeleteBreakGlassProposal i) \<Longrightarrow>
   mi_break_glass (apply_record r img) = mi_break_glass img"
  by (cases r) (auto simp: apply_topic_def apply_partition_def apply_partition_update_def apply_producer_ids_def
      apply_registration_change_def apply_unregister_broker_def apply_feature_level_def apply_delete_topic_def
      apply_offset_advance_def apply_topic_freeze_def apply_partition_elr_def apply_partition_recovery_def
      apply_dir_assignment_eq Let_def split: option.split PatternType.split bool.split)

lemma proposal_step:
  assumes "break_glass_proposal img i = Some p" "validate img r = Ok ()" "r \<noteq> V1DeleteBreakGlassProposal i"
  shows "\<exists>q. break_glass_proposal (apply_record r img) i = Some q \<and> proposal_after p q"
proof (cases r)
  case (V1BreakGlassProposal q)
  then show ?thesis
    using assms by (cases "bp_proposal_id q = i")
      (auto simp: break_glass_proposal_def proposal_after_def settled_def extends_def split: if_splits)
next
  case (V1DeleteBreakGlassProposal j)
  then show ?thesis
    using assms proposal_after_refl[of p] by (simp add: break_glass_proposal_def)
qed (use assms proposal_after_refl[of p] break_glass_other[of r img] in \<open>auto simp: break_glass_proposal_def\<close>)

lemma proposal_history:
  "commit_all img rs = Ok img' \<Longrightarrow> break_glass_proposal img i = Some p \<Longrightarrow> V1DeleteBreakGlassProposal i \<notin> set rs
   \<Longrightarrow> \<exists>q. break_glass_proposal img' i = Some q \<and> proposal_after p q"
proof (induction rs arbitrary: img p)
  case (Cons r rs)
  have v: "validate img r = Ok ()" and c: "commit_all (apply_record r img) rs = Ok img'"
    using Cons.prems(1) by (auto simp: and_then_eq_Ok submit_Ok)
  obtain q where q: "break_glass_proposal (apply_record r img) i = Some q" "proposal_after p q"
    using proposal_step[OF Cons.prems(2) v] Cons.prems(3) by auto
  show ?case
    using Cons.IH[OF c q(1)] Cons.prems(3) proposal_after_trans[OF q(2)] by auto
qed (use proposal_after_refl in auto)

end
