(* ===== verification/ImageReads.thy ===== *)
theory ImageReads
  imports ImageCommits
begin

text \<open>
  What the readers of the image return after an operation: the resolution of write freezes, the
  deletion of a topic, directory assignments, and the records of a metadata-version downgrade.
\<close>

section \<open>Write freezes\<close>

lemma starts_with_iff: "starts_with t p \<longleftrightarrow> (\<exists>r. t = p @ r)"
  unfolding starts_with_def by (metis append_eq_conv_conj append_take_drop_id)

lemma starts_with_le: "starts_with t p \<Longrightarrow> p \<le> t"
proof -
  have "p \<le> p @ r" for r :: bytes
    by (induction p) simp_all
  then show "starts_with t p \<Longrightarrow> p \<le> t"
    by (auto simp: starts_with_iff)
qed

text \<open>Among the prefixes of one name, the order of the keys is the order of their lengths.\<close>

lemma prefixes_ordered:
  assumes "starts_with t p" "starts_with t q"
  shows "p \<le> q \<longleftrightarrow> length p \<le> length q"
proof -
  have nested: "starts_with q p" if "starts_with t p" "starts_with t q" "length p \<le> length q" for p q
    using that by (metis append_take_drop_id min_absorb1 starts_with_def starts_with_iff take_take)
  show ?thesis
  proof
    assume "length p \<le> length q"
    then show "p \<le> q"
      using nested assms starts_with_le by blast
  next
    assume le: "p \<le> q"
    show "length p \<le> length q"
    proof (rule ccontr)
      assume "\<not> length p \<le> length q"
      then have "q \<le> p" and "p \<noteq> q"
        using nested[of q p] assms starts_with_le by auto
      with le show False
        by simp
    qed
  qed
qed

lemma find_rev_max:
  fixes m :: "('k::linorder \<times> 'v) list"
  assumes "sorted_wrt (<) (map fst m)"
  shows "find P (rev m) = Some x \<longleftrightarrow> x \<in> set m \<and> P x \<and> (\<forall>y \<in> set m. P y \<longrightarrow> fst y \<le> fst x)"
  using assms
proof (induction m rule: rev_induct)
  case (snoc y m)
  have lt: "fst z < fst y" if "z \<in> set m" for z
    using snoc.prems that by (auto simp: sorted_wrt_append)
  have s: "sorted_wrt (<) (map fst m)"
    using snoc.prems by (simp add: sorted_wrt_append)
  show ?case
  proof (cases "P y")
    case True
    have "z = y" if "z \<in> set (m @ [y])" "fst y \<le> fst z" for z
      using that lt[of z] by (auto dest: leD)
    then have "x = y" if "x \<in> set (m @ [y])" "\<forall>z \<in> set (m @ [y]). P z \<longrightarrow> fst z \<le> fst x"
      using True that by simp
    moreover have "\<forall>z \<in> set (m @ [y]). P z \<longrightarrow> fst z \<le> fst y"
      using lt less_imp_le by fastforce
    ultimately have "x = y \<longleftrightarrow> x \<in> set (m @ [y]) \<and> P x \<and> (\<forall>z \<in> set (m @ [y]). P z \<longrightarrow> fst z \<le> fst x)"
      using True by (metis in_set_conv_decomp)
    then show ?thesis
      using True by auto
  next
    case False
    then show ?thesis
      using snoc.IH[OF s] by auto
  qed
qed simp

definition internal_topic :: "bytes \<Rightarrow> bool" where
  "internal_topic topic \<longleftrightarrow> starts_with topic (ascii ''__'')"

text \<open>The freeze that covers a topic: a literal entry, else the entry of its longest frozen prefix.\<close>

definition covers :: "MetadataImage \<Rightarrow> bytes \<Rightarrow> TopicFreezeRecord \<Rightarrow> bool" where
  "covers img topic f \<longleftrightarrow>
     map_of (mi_freezes_literal img) topic = Some f
     \<or> map_of (mi_freezes_literal img) topic = None
       \<and> (\<exists>s. map_of (mi_freezes_prefixed img) s = Some f \<and> starts_with topic s
            \<and> (\<forall>s'. s' \<in> fst ` set (mi_freezes_prefixed img) \<longrightarrow> starts_with topic s' \<longrightarrow> length s' \<le> length s))"

lemma topic_freeze_covers:
  assumes "image_wf img"
  shows "topic_freeze img topic = Some f \<longleftrightarrow> \<not> internal_topic topic \<and> covers img topic f"
proof -
  let ?m = "mi_freezes_prefixed img"
  have b: "bt_wf ?m"
    using assms by (simp add: image_wf_def)
  let ?l = "filter (\<lambda>(scope, _). scope \<le> topic) ?m"
  have l: "sorted_wrt (<) (map fst ?l)"
    using b by (simp add: bt_wf_def sorted_wrt_filter sorted_wrt_map)
  have "map_option snd (find (\<lambda>(scope, _). starts_with topic scope) (rev ?l)) = Some f
      \<longleftrightarrow> (\<exists>s. (s, f) \<in> set ?m \<and> starts_with topic s \<and> (\<forall>y \<in> set ?l. starts_with topic (fst y) \<longrightarrow> fst y \<le> s))"
    using find_rev_max[OF l, of "\<lambda>(scope, _). starts_with topic scope"] starts_with_le
    by (auto simp: case_prod_unfold)
  also have "\<dots> \<longleftrightarrow> (\<exists>s. map_of ?m s = Some f \<and> starts_with topic s
      \<and> (\<forall>s'. s' \<in> fst ` set ?m \<longrightarrow> starts_with topic s' \<longrightarrow> length s' \<le> length s))"
  proof -
    have "(\<forall>y \<in> set ?l. starts_with topic (fst y) \<longrightarrow> fst y \<le> s)
        \<longleftrightarrow> (\<forall>s'. s' \<in> fst ` set ?m \<longrightarrow> starts_with topic s' \<longrightarrow> length s' \<le> length s)" if "starts_with topic s" for s
      using prefixes_ordered[OF _ that] starts_with_le[of topic] by force
    then show ?thesis
      using bt_wf_distinct[OF b] by auto
  qed
  finally show ?thesis
    by (auto simp: topic_freeze_def internal_topic_def covers_def split: option.split)
qed

section \<open>Deleting a topic\<close>

definition no_trace :: "MetadataImage \<Rightarrow> bytes \<Rightarrow> bool" where
  "no_trace img n \<longleftrightarrow>
     image_topic img n = None \<and> partitions_of img n = [] \<and> topic_config img n = None
     \<and> (\<forall>p. image_partition img n p = None \<and> partition_next_offset img n p = None
          \<and> partition_elr img n p = ([], []) \<and> leader_recovery_state img n p = Recovered)
     \<and> (\<forall>i. topic_name_by_id img i \<noteq> Some n)"

definition same_topic :: "MetadataImage \<Rightarrow> MetadataImage \<Rightarrow> bytes \<Rightarrow> bool" where
  "same_topic img img' n \<longleftrightarrow>
     image_topic img' n = image_topic img n \<and> partitions_of img' n = partitions_of img n
     \<and> topic_config img' n = topic_config img n
     \<and> (\<forall>p. partition_next_offset img' n p = partition_next_offset img n p
          \<and> partition_elr img' n p = partition_elr img n p
          \<and> leader_recovery_state img' n p = leader_recovery_state img n p)
     \<and> (\<forall>i. topic_name_by_id img' i = Some n \<longleftrightarrow> topic_name_by_id img i = Some n)"

lemma delete_topic_reads:
  assumes "ids_exact img"
  shows "no_trace (apply_delete_topic n img) n" and "m \<noteq> n \<Longrightarrow> same_topic img (apply_delete_topic n img) m"
proof -
  have "ids_exact (apply_delete_topic n img)"
    by (rule ids_exact_delete[OF assms])
  then show "no_trace (apply_delete_topic n img) n"
    by (auto simp: no_trace_def image_topic_def partitions_of_def topic_config_def image_partition_def or_default_def
        partition_next_offset_def partition_elr_def leader_recovery_state_def topic_name_by_id_def nested_get_def
        ids_exactD) (auto simp: apply_delete_topic_def)
  show "same_topic img (apply_delete_topic n img) m" if "m \<noteq> n"
    using that ids_exactD[OF assms] ids_unique[OF assms]
    by (auto simp: same_topic_def apply_delete_topic_def image_topic_def partitions_of_def topic_config_def
        partition_next_offset_def partition_elr_def leader_recovery_state_def topic_name_by_id_def nested_get_def
        split: option.split)
qed

section \<open>Directory assignments\<close>

lemma position_Some: "position P xs = Some i \<Longrightarrow> i < length xs \<and> P (xs ! i)"
  by (induction xs arbitrary: i) (auto split: if_splits)

lemma length_assigned_dirs: "length (assigned_dirs pr slot d) = max (length (pr_directories pr)) (length (pr_replicas pr))"
  by (simp add: assigned_dirs_def Let_def)

lemma nth_assigned_dirs:
  assumes "slot < length (pr_replicas pr)" "i < length (assigned_dirs pr slot d)"
  shows "assigned_dirs pr slot d ! i =
    (if i = slot then d else if i < length (pr_directories pr) then pr_directories pr ! i else MIGRATING)"
  using assms by (auto simp: assigned_dirs_def Let_def nth_append nth_list_update)

lemma dir_assignment_reads:
  assumes "image_wf img" "image_partition img (pda_topic r) (pda_partition r) = Some pr"
    "position (\<lambda>n. n = pda_replica r) (pr_replicas pr) = Some slot"
  shows "image_partition (apply_dir_assignment r img) t p =
    (if t = pda_topic r \<and> p = pda_partition r
     then Some (pr\<lparr>pr_directories := assigned_dirs pr slot (pda_directory r)\<rparr>) else image_partition img t p)"
    and "(apply_dir_assignment r img)\<lparr>mi_partitions := mi_partitions img\<rparr> = img"
proof -
  have w: "level_wf (\<lambda>_. bt_wf) (mi_partitions img)"
    using assms(1) by (auto simp: image_wf_def intro: nested_wf)
  show "image_partition (apply_dir_assignment r img) t p =
    (if t = pda_topic r \<and> p = pda_partition r
     then Some (pr\<lparr>pr_directories := assigned_dirs pr slot (pda_directory r)\<rparr>) else image_partition img t p)"
    using assms(2,3) w by (simp add: apply_dir_assignment_eq image_partition_def nested_get_insert)
  show "(apply_dir_assignment r img)\<lparr>mi_partitions := mi_partitions img\<rparr> = img"
    using assms(2,3) by (simp add: apply_dir_assignment_eq image_partition_def)
qed

section \<open>Downgrades\<close>

lemma exact_filter_matches [simp]: "filter_matches (exact_filter a) e \<longleftrightarrow> e = a"
  by (cases a; cases e) (auto simp: filter_matches_def exact_filter_def is_none_or_def)

lemma remove_exact:
  "acl_wf idx \<Longrightarrow> acl_wf (fold AclIndex_remove_matching (map exact_filter as) idx)
    \<and> set (AclIndex_iter (fold AclIndex_remove_matching (map exact_filter as) idx)) = set (AclIndex_iter idx) - set as"
proof (induction as arbitrary: idx)
  case (Cons a as)
  show ?case
    using Cons.IH[OF AclIndex_remove_spec(1)[OF Cons.prems]] AclIndex_remove_spec(2)[OF Cons.prems, of "exact_filter a"]
    by auto
qed simp

lemma fold_hm_remove: "set (fold hm_remove ks m) = {e \<in> set m. fst e \<notin> set ks}"
proof (induction ks arbitrary: m)
  case (Cons k ks)
  show ?case
    using Cons.IH[of "hm_remove k m"] by (auto simp: hm.set_del)
qed simp

lemma remove_all_keys: "fold hm_remove (map fst m) m = []"
proof -
  have "set (fold hm_remove (map fst m) m) = {}"
    by (auto simp: fold_hm_remove)
  then show ?thesis
    by simp
qed

lemma down_acls:
  "fold apply_record (map (\<lambda>a. V1DeleteAccessControlEntry (exact_filter a)) as) b
    = b\<lparr>mi_acls := fold AclIndex_remove_matching (map exact_filter as) (mi_acls b)\<rparr>"
  using acls.fold_field[of as "\<lambda>a. V1DeleteAccessControlEntry (exact_filter a)" "\<lambda>a. AclIndex_remove_matching (exact_filter a)" b]
  by (simp add: fold_map comp_def)

lemma down_scram:
  "fold apply_record (map (\<lambda>((u, m), _). V1DeleteScramCredential \<lparr>dsc_user = u, dsc_mechanism = m\<rparr>) cs) b
    = b\<lparr>mi_scram_credentials := fold hm_remove (map fst cs) (mi_scram_credentials b)\<rparr>"
  using scram.fold_field[of cs "\<lambda>((u, m), _). V1DeleteScramCredential \<lparr>dsc_user = u, dsc_mechanism = m\<rparr>" "\<lambda>c. hm_remove (fst c)" b]
  by (auto simp: fold_map comp_def)

lemma down_tokens:
  "fold apply_record (map (\<lambda>(i, _). V1DeleteDelegationToken i) ts) b
    = b\<lparr>mi_delegation_tokens := fold hm_remove (map fst ts) (mi_delegation_tokens b)\<rparr>"
  using tokens.fold_field[of ts "\<lambda>(i, _). V1DeleteDelegationToken i" "\<lambda>t. hm_remove (fst t)" b]
  by (auto simp: fold_map comp_def)

definition projected_records :: "int \<Rightarrow> (NodeId, BrokerRegistrationRecord) hash_map \<Rightarrow> MetadataRecord list" where
  "projected_records target m = List.map_filter (\<lambda>(_, broker).
     let projected = project_broker target broker in
     if projected \<noteq> broker then Some (V1BrokerRegistration projected) else None) m"

lemma hm_insert_middle: "k \<notin> fst ` set xs \<Longrightarrow> hm_insert k v (xs @ (k, x) # ys) = xs @ (k, v) # ys"
  by (induction xs) (auto simp: hm_insert_def)

lemma project_node_id [simp]: "br_node_id (project_broker target b) = br_node_id b"
  by (simp add: project_broker_def Let_def)

lemma down_brokers:
  assumes "level_wf (\<lambda>n b. br_node_id b = n) (xs @ ys)" "mi_brokers b = map (\<lambda>(n, x). (n, project_broker target x)) xs @ ys"
  shows "fold apply_record (projected_records target ys) b
    = b\<lparr>mi_brokers := map (\<lambda>(n, x). (n, project_broker target x)) (xs @ ys)\<rparr>"
  using assms
proof (induction ys arbitrary: xs b)
  case Nil
  then show ?case
    by (simp add: projected_records_def List.map_filter_simps)
next
  case (Cons e ys)
  obtain n x where e: "e = (n, x)"
    by (cases e)
  have n: "br_node_id x = n" "n \<notin> fst ` set (map (\<lambda>(n, x). (n, project_broker target x)) xs)"
    using Cons.prems(1) by (force simp: e level_wf_def hm_wf_def)+
  have w: "level_wf (\<lambda>n b. br_node_id b = n) ((xs @ [(n, x)]) @ ys)"
    using Cons.prems(1) by (simp add: e)
  let ?b = "b\<lparr>mi_brokers := map (\<lambda>(n, x). (n, project_broker target x)) (xs @ [(n, x)]) @ ys\<rparr>"
  have "fold apply_record (projected_records target [(n, x)]) b = ?b"
    using Cons.prems(2) n hm_insert_middle[OF n(2), of "project_broker target x" x ys]
    by (auto simp: projected_records_def List.map_filter_simps Let_def e)
  moreover have "projected_records target (e # ys) = projected_records target [(n, x)] @ projected_records target ys"
    by (simp add: e projected_records_def List.map_filter_simps Let_def)
  ultimately show ?case
    using Cons.IH[OF w, of ?b] by (simp add: e)
qed

text \<open>What a sequence of directory assignments does to one partition.\<close>

definition assign_replica :: "NodeId \<Rightarrow> uuid128 \<Rightarrow> PartitionRecord \<Rightarrow> PartitionRecord" where
  "assign_replica n d pr =
     (case position (\<lambda>m. m = n) (pr_replicas pr) of
        None \<Rightarrow> pr
      | Some slot \<Rightarrow> pr\<lparr>pr_directories := assigned_dirs pr slot d\<rparr>)"

definition dir_step :: "PartitionDirAssignmentRecord \<Rightarrow> PartitionRecord by_partition \<Rightarrow> PartitionRecord by_partition" where
  "dir_step r m =
     (case nested_get m (pda_topic r) (pda_partition r) of
        None \<Rightarrow> m
      | Some pr \<Rightarrow> nested_insert (pda_topic r) (pda_partition r) (assign_replica (pda_replica r) (pda_directory r) pr) m)"

lemma hm_insert_same: "hm_wf m \<Longrightarrow> map_of m k = Some v \<Longrightarrow> hm_insert k v m = m"
  by (simp add: hm_insert_existing) (rule map_idI, auto simp: hm_wf_def dest: map_of_SomeD eq_key_imp_eq_value)

lemma bt_insert_same: "bt_wf m \<Longrightarrow> map_of m k = Some v \<Longrightarrow> bt_insert k v m = m"
proof (induction k v m rule: bt_insert.induct)
  case (2 k v a b m)
  then show ?case
    by (auto simp: bt_wf_def dest: map_of_SomeD) (force dest: map_of_SomeD)
qed simp

lemma nested_insert_same:
  assumes "level_wf (\<lambda>_. bt_wf) m" "nested_get m k i = Some v"
  shows "nested_insert k i v m = m"
proof -
  obtain inner where k: "map_of m k = Some inner" and i: "map_of inner i = Some v"
    using assms(2) by (auto simp: nested_get_def split: option.splits)
  have "bt_wf inner"
    using level_wf_get[OF assms(1) k] .
  then show ?thesis
    using assms(1) k i by (simp add: nested_insert_def hm_entry_def or_default_def bt_insert_same hm_insert_same level_wf_def)
qed

lemma apply_dir_step:
  "level_wf (\<lambda>_. bt_wf) (mi_partitions img) \<Longrightarrow>
   apply_dir_assignment r img = img\<lparr>mi_partitions := dir_step r (mi_partitions img)\<rparr>"
  by (auto simp: apply_dir_assignment_eq dir_step_def assign_replica_def nested_insert_same split: option.split)

lemma dir_step_wf: "level_wf (\<lambda>_. bt_wf) m \<Longrightarrow> level_wf (\<lambda>_. bt_wf) (dir_step r m)"
  by (simp add: dir_step_def level_wf_nested_insert split: option.split)

lemma fold_dir_steps:
  "level_wf (\<lambda>_. bt_wf) (mi_partitions img) \<Longrightarrow>
   fold apply_record (map V1PartitionDirAssignment rs) img = img\<lparr>mi_partitions := fold dir_step rs (mi_partitions img)\<rparr>"
  by (induction rs arbitrary: img) (simp_all add: apply_dir_step dir_step_wf)

lemma nested_get_dir_step:
  "level_wf (\<lambda>_. bt_wf) m \<Longrightarrow> nested_get (dir_step r m) k i =
     (if (k, i) = (pda_topic r, pda_partition r)
      then map_option (assign_replica (pda_replica r) (pda_directory r)) (nested_get m k i) else nested_get m k i)"
  by (auto simp: dir_step_def nested_get_insert split: option.split)

lemma nested_get_dir_steps:
  "level_wf (\<lambda>_. bt_wf) m \<Longrightarrow> nested_get (fold dir_step rs m) k i =
     map_option (fold (\<lambda>r. assign_replica (pda_replica r) (pda_directory r))
       (filter (\<lambda>r. (pda_topic r, pda_partition r) = (k, i)) rs)) (nested_get m k i)"
proof (induction rs arbitrary: m)
  case (Cons r rs)
  show ?case
    using Cons.IH[OF dir_step_wf[OF Cons.prems, of r]] Cons.prems
    by (auto simp: nested_get_dir_step option.map_comp comp_def)
qed (simp add: option.map_id)

text \<open>
  Setting every replica whose directory is not \<open>MIGRATING\<close> to \<open>MIGRATING\<close>: the other fields stay, and
  no other directory is left.
\<close>

lemma position_distinct:
  assumes "distinct xs" "i < length xs"
  shows "position (\<lambda>m. m = xs ! i) xs = Some i"
  using assms
proof (induction xs arbitrary: i)
  case (Cons x xs)
  then show ?case
    by (cases i) auto
qed simp

definition migrated :: "NodeId set \<Rightarrow> PartitionRecord \<Rightarrow> PartitionRecord \<Rightarrow> bool" where
  "migrated N p q \<longleftrightarrow> q\<lparr>pr_directories := pr_directories p\<rparr> = p
     \<and> length (pr_directories q) \<le> length (pr_replicas p)
     \<and> (\<forall>i < length (pr_directories q). pr_directories q ! i \<noteq> MIGRATING \<longrightarrow>
          pr_replicas p ! i \<notin> N \<and> i < length (pr_directories p) \<and> pr_directories q ! i = pr_directories p ! i)"

lemma migrated_step:
  assumes "distinct (pr_replicas p)" "migrated N p q"
  shows "migrated (insert n N) p (assign_replica n MIGRATING q)"
proof -
  have rep: "pr_replicas q = pr_replicas p"
    using assms(2) unfolding migrated_def by (metis PartitionRecord.ext_inject PartitionRecord.surjective PartitionRecord.update_convs(9))
  have len: "length (pr_directories q) \<le> length (pr_replicas p)"
    using assms(2) by (simp add: migrated_def)
  show ?thesis
  proof (cases "position (\<lambda>m. m = n) (pr_replicas p)")
    case None
    then have "n \<notin> set (pr_replicas p)"
      using position_distinct[OF assms(1)] by (metis in_set_conv_nth option.distinct(1))
    then have "pr_replicas p ! i \<noteq> n" if "i < length (pr_replicas p)" for i
      using that nth_mem by metis
    then show ?thesis
      using assms(2) len None by (auto simp: migrated_def assign_replica_def rep)
  next
    case (Some slot)
    have slot: "slot < length (pr_replicas p)" "pr_replicas p ! slot = n"
      using position_Some[OF Some] by auto
    have "pr_replicas p ! i \<noteq> n" if "i < length (pr_replicas p)" "i \<noteq> slot" for i
      using that slot assms(1) by (auto simp: nth_eq_iff_index_eq)
    then show ?thesis
      using assms(2) len slot Some nth_assigned_dirs[of slot q _ MIGRATING]
      by (auto simp: migrated_def assign_replica_def rep length_assigned_dirs max_def split: if_splits)
  qed
qed

definition migrating_assignments :: "PartitionRecord \<Rightarrow> PartitionDirAssignmentRecord list" where
  "migrating_assignments p =
     map (\<lambda>(replica, _). \<lparr>pda_topic = pr_topic p, pda_partition = pr_partition p, pda_replica = replica, pda_directory = MIGRATING\<rparr>)
       (filter (\<lambda>(_, directory). directory \<noteq> MIGRATING) (zip (pr_replicas p) (pr_directories p)))"

lemma migrating_records_eq: "migrating_records p = map V1PartitionDirAssignment (migrating_assignments p)"
  by (simp add: migrating_records_def migrating_assignments_def case_prod_unfold)

lemma migrated_fold:
  assumes "distinct (pr_replicas p)" "migrated N p q"
  shows "migrated (fst ` set zs \<union> N) p (fold (\<lambda>z. assign_replica (fst z) MIGRATING) zs q)"
  using assms(2)
proof (induction zs arbitrary: N q)
  case (Cons z zs)
  show ?case
    using Cons.IH[OF migrated_step[OF assms(1) Cons.prems, of "fst z"]] by (simp add: insert_commute Un_commute)
qed simp

lemma migrating_assignments_clear:
  assumes "distinct (pr_replicas p)" "length (pr_directories p) \<le> length (pr_replicas p)"
  defines "q \<equiv> fold (\<lambda>r. assign_replica (pda_replica r) (pda_directory r)) (migrating_assignments p) p"
  shows "q\<lparr>pr_directories := pr_directories p\<rparr> = p \<and> set (pr_directories q) \<subseteq> {MIGRATING}"
proof -
  let ?zs = "filter (\<lambda>(_, directory). directory \<noteq> MIGRATING) (zip (pr_replicas p) (pr_directories p))"
  have "q = fold (\<lambda>z. assign_replica (fst z) MIGRATING) ?zs p"
    by (simp add: q_def migrating_assignments_def fold_map comp_def case_prod_unfold)
  then have m: "migrated (fst ` set ?zs) p q"
    using migrated_fold[OF assms(1), of "{}" p ?zs] assms(2) by (simp add: migrated_def)
  have "pr_directories q ! i = MIGRATING" if i: "i < length (pr_directories q)" for i
  proof (rule ccontr)
    assume ne: "pr_directories q ! i \<noteq> MIGRATING"
    then have r: "pr_replicas p ! i \<notin> fst ` set ?zs" "i < length (pr_directories p)" "pr_directories p ! i \<noteq> MIGRATING"
      using m i by (auto simp: migrated_def)
    have "(pr_replicas p ! i, pr_directories p ! i) \<in> set ?zs"
      using r(2,3) assms(2) by (auto simp: set_zip)
    then show False
      using r(1) by force
  qed
  then show ?thesis
    using m by (auto simp: migrated_def in_set_conv_nth)
qed

lemma assignments_of_one:
  assumes "level_wf (\<lambda>t. inner_ok (partition_ok t)) (mi_partitions img)" "image_partition img k i = Some p"
  shows "filter (\<lambda>r. (pda_topic r, pda_partition r) = (k, i)) (concat (map migrating_assignments (all_partitions img)))
    = migrating_assignments p"
proof -
  have one: "filter (\<lambda>r. (pda_topic r, pda_partition r) = (k, i)) (migrating_assignments x)
      = (if (pr_topic x, pr_partition x) = (k, i) then migrating_assignments x else [])" for x
    by (auto simp: migrating_assignments_def filter_empty_conv intro!: filter_True)
  have e: "(k, i, p) \<in> set (nested_entries (mi_partitions img))"
    using assms(2) by (fastforce simp: image_partition_def nested_get_def nested_entries_def split: option.splits dest: map_of_SomeD)
  have key: "(k, i) = (pr_topic p, pr_partition p)" if "(k, i, p) \<in> set (nested_entries (mi_partitions img))" for k i p
    using nested_entries_ok[OF assms(1) that] by (simp add: partition_ok_def)
  have keys: "map (\<lambda>p. (pr_topic p, pr_partition p)) (all_partitions img) = map (\<lambda>e. (fst e, fst (snd e))) (nested_entries (mi_partitions img))"
    unfolding all_partitions_entries using key by auto
  have d: "distinct (map (\<lambda>p. (pr_topic p, pr_partition p)) (all_partitions img))"
    unfolding keys using assms(1) by (intro distinct_nested_keys) (auto simp: level_wf_def inner_ok_def bt_wf_distinct)
  have p: "p \<in> set (all_partitions img)" "(pr_topic p, pr_partition p) = (k, i)"
    using e key[OF e] unfolding all_partitions_entries by force+
  have "concat (map (\<lambda>x. if (pr_topic x, pr_partition x) = (k, i) then f x else []) ps) = f p"
    if "p \<in> set ps" "distinct (map (\<lambda>p. (pr_topic p, pr_partition p)) ps)" for ps and f :: "PartitionRecord \<Rightarrow> PartitionDirAssignmentRecord list"
    using that
  proof (induction ps)
    case (Cons x ps)
    show ?case
    proof (cases "x = p")
      case True
      then have "\<forall>y \<in> set ps. (pr_topic y, pr_partition y) \<noteq> (k, i)"
        using Cons.prems(2) p(2) by (force simp: image_iff)
      then have "concat (map (\<lambda>x. if (pr_topic x, pr_partition x) = (k, i) then f x else []) ps) = []"
        by (auto simp: concat_eq_Nil_conv)
      then show ?thesis
        using True p(2) by simp
    next
      case False
      then have "p \<in> set ps"
        using Cons.prems(1) by simp
      moreover have "(pr_topic x, pr_partition x) \<noteq> (k, i)"
        using Cons.prems(2) p(2) \<open>p \<in> set ps\<close> by (force simp: image_iff)
      ultimately show ?thesis
        using Cons.IH Cons.prems(2) by auto
    qed
  qed simp
  then show ?thesis
    using p(1) d by (simp only: filter_concat map_map comp_def one)
qed

lemma downgrade_image:
  assumes "image_wf img"
  shows "fold apply_record (metadata_version_downgrade_records img target) img
    = img\<lparr>mi_acls := (if target < CIDR_ACL_MIN_LEVEL then
             fold AclIndex_remove_matching (map exact_filter (sort_key (\<lambda>a. (acl_resource_name a, acl_principal a, acl_host a))
               (filter (\<lambda>acl. is_cidr_acl_host (acl_host acl)) (all_acls img)))) (mi_acls img) else mi_acls img),
          mi_scram_credentials := (if target < SCRAM_MIN_LEVEL then [] else mi_scram_credentials img),
          mi_delegation_tokens := (if target < DELEGATION_TOKEN_MIN_LEVEL then [] else mi_delegation_tokens img),
          mi_brokers := map (\<lambda>(n, b). (n, project_broker target b)) (mi_brokers img),
          mi_partitions := (if target < DIRECTORY_ASSIGNMENT_MIN_LEVEL then
             fold dir_step (concat (map migrating_assignments (all_partitions img))) (mi_partitions img) else mi_partitions img)\<rparr>"
proof -
  have w: "level_wf (\<lambda>_. bt_wf) (mi_partitions img)"
    using assms by (auto simp: image_wf_def intro: nested_wf)
  have b: "level_wf (\<lambda>n b. br_node_id b = n) (mi_brokers img)"
    using assms by (simp add: image_wf_def)
  have c: "concat (map migrating_records ps) = map V1PartitionDirAssignment (concat (map migrating_assignments ps))" for ps
    by (induction ps) (simp_all add: migrating_records_eq)
  show ?thesis
    unfolding metadata_version_downgrade_records_def fold_append comp_apply projected_records_def[symmetric] c
    by (simp add: down_acls down_scram down_tokens remove_all_keys down_brokers[of "[]", simplified, OF b] fold_dir_steps w del: map_concat)
qed

lemma downgrade_floor:
  assumes "image_wf img"
  shows "min_required_metadata_version (fold apply_record (metadata_version_downgrade_records img target) img)
    \<le> max METADATA_VERSION_MIN target"
proof -
  let ?img = "fold apply_record (metadata_version_downgrade_records img target) img"
  note eq = downgrade_image[OF assms, of target]
  have "acl_wf (mi_acls img)"
    using assms by (simp add: image_wf_def)
  then have "\<not> is_cidr_acl_host (acl_host a)" if "a \<in> set (all_acls ?img)" "target < CIDR_ACL_MIN_LEVEL" for a
    using that remove_exact by (auto simp: eq all_acls_def)
  then have "32 \<le> target \<or> \<not> list_ex (\<lambda>acl. is_cidr_acl_host (acl_host acl)) (all_acls ?img)"
    by (cases "target < 32") (auto simp: list_ex_iff CIDR_ACL_MIN_LEVEL_def)
  moreover have "11 \<le> target \<or> mi_scram_credentials ?img = []"
    by (simp add: eq SCRAM_MIN_LEVEL_def)
  moreover have "14 \<le> target \<or> mi_delegation_tokens ?img = []"
    by (simp add: eq DELEGATION_TOKEN_MIN_LEVEL_def)
  ultimately show ?thesis
    by (auto simp: min_required_metadata_version_def Let_def METADATA_VERSION_MIN_def CIDR_ACL_MIN_LEVEL_def
        SCRAM_MIN_LEVEL_def DELEGATION_TOKEN_MIN_LEVEL_def max_def)
qed

lemma downgrade_directories:
  assumes "image_wf img" "target < DIRECTORY_ASSIGNMENT_MIN_LEVEL" "image_partition img t i = Some p"
    "distinct (pr_replicas p)" "length (pr_directories p) \<le> length (pr_replicas p)"
  shows "\<exists>q. image_partition (fold apply_record (metadata_version_downgrade_records img target) img) t i = Some q
    \<and> q\<lparr>pr_directories := pr_directories p\<rparr> = p \<and> set (pr_directories q) \<subseteq> {MIGRATING}"
proof -
  have wp: "level_wf (\<lambda>t. inner_ok (partition_ok t)) (mi_partitions img)"
    using assms(1) by (simp add: image_wf_def)
  have "image_partition (fold apply_record (metadata_version_downgrade_records img target) img) t i
      = Some (fold (\<lambda>r. assign_replica (pda_replica r) (pda_directory r)) (migrating_assignments p) p)"
    using assms(2,3) nested_get_dir_steps[OF nested_wf[OF wp]] assignments_of_one[OF wp assms(3)]
    by (simp add: downgrade_image[OF assms(1)] image_partition_def)
  then show ?thesis
    using migrating_assignments_clear[OF assms(4,5)] by simp
qed

section \<open>Refused records\<close>

lemma hm_remove_absent: "map_of m k = None \<Longrightarrow> hm_remove k m = m"
  by (force simp: hm_remove_def AList.delete_eq map_of_eq_None_iff filter_id_conv)

definition epoch_guarded :: "MetadataRecord \<Rightarrow> bool" where
  "epoch_guarded r =
     (case r of V1BrokerRegistrationChange _ \<Rightarrow> True | V1UnregisterBroker _ \<Rightarrow> True
        | V1UnregisterController _ \<Rightarrow> True | _ \<Rightarrow> False)"

lemma refused_is_noop:
  assumes "epoch_guarded r" "validate img r \<noteq> Ok ()"
  shows "apply_record r img = img"
proof (cases r)
  case (V1UnregisterController n)
  then have "map_of (mi_controllers img) n = None"
    using assms(2) by (auto split: if_splits)
  then show ?thesis
    using V1UnregisterController by (simp add: hm_remove_absent)
next
  case (V1BrokerRegistrationChange c)
  then show ?thesis
    using assms(2) by (auto simp: apply_registration_change_def broker_epoch_def split: option.splits if_splits)
next
  case (V1UnregisterBroker u)
  then show ?thesis
    using assms(2) by (auto simp: apply_unregister_broker_def split: if_splits)
qed (use assms(1) in \<open>simp_all add: epoch_guarded_def\<close>)

end
