(* ===== verification/ImageProperties.thy ===== *)
theory ImageProperties
  imports ImageReads
begin

text \<open>
  The properties of the metadata image, with a concrete instance of each: its type invariant, the
  state machine of validated records, snapshots, and what the readers return.
\<close>

section \<open>Sample records\<close>

definition sample_topic :: "bytes \<Rightarrow> uuid128 \<Rightarrow> TopicRecord" where
  "sample_topic name tid = \<lparr>tr_name = name, tr_topic_id = tid, tr_partitions = 0, tr_replication_factor = 2\<rparr>"

definition sample_partition :: "bytes \<Rightarrow> int \<Rightarrow> NodeId list \<Rightarrow> PartitionRecord" where
  "sample_partition topic p replicas =
     \<lparr>pr_topic = topic, pr_partition = p, pr_leader = 1, pr_replicas = replicas, pr_isr = [1], pr_leader_epoch = 0,
      pr_adding_replicas = [], pr_removing_replicas = [], pr_directories = [5], pr_partition_epoch = 0\<rparr>"

definition sample_broker :: BrokerRegistrationRecord where
  "sample_broker =
     \<lparr>br_node_id = 1, br_broker_epoch = 4, br_incarnation_id = 6, br_host = [0x68], br_port = 9092, br_rack = None,
      br_endpoints = [], br_log_dirs = [5], br_fenced = True, br_in_controlled_shutdown = False,
      br_cordoned_log_dirs = None, br_features = []\<rparr>"

definition sample_freeze :: "PatternType \<Rightarrow> bytes \<Rightarrow> TopicFreezeRecord" where
  "sample_freeze pt scope =
     \<lparr>tf_scope = scope, tf_pattern_type = pt, tf_frozen = True, tf_reason = [], tf_set_by = [], tf_set_at_ms = 1,
      tf_proposal_id = 0, tf_key_id = [], tf_signature = []\<rparr>"

definition sample_proposal :: "BreakGlassApproval_rec list \<Rightarrow> BreakGlassProposalRecord" where
  "sample_proposal approvals =
     \<lparr>bp_proposal_id = 3, bp_action = DeleteTopic, bp_target = [0x74], bp_proposer = [0x61], bp_reason = [],
      bp_created_at_ms = 1, bp_expires_at_ms = 9, bp_approvals = approvals, bp_consumed_at_ms = 0, bp_withdrawn = False\<rparr>"

definition sample_approval :: BreakGlassApproval_rec where
  "sample_approval = \<lparr>ba_principal = [0x62], ba_approved_at_ms = 2, ba_key_id = [], ba_signature = []\<rparr>"

definition sample_log :: "MetadataRecord list" where
  "sample_log =
     [V1BrokerRegistration sample_broker, V1Topic (sample_topic [0x74] 7), V1Partition (sample_partition [0x74] 0 [1, 2]),
      V1TopicFreeze (sample_freeze Prefixed [0x74])]"

definition sample_image :: MetadataImage where
  "sample_image = fold apply_record sample_log (MetadataImage_new 9)"

lemmas sample_defs = sample_topic_def sample_partition_def sample_broker_def sample_freeze_def sample_proposal_def
  sample_approval_def

lemmas image_eval = MetadataImage_new_def apply_topic_def apply_partition_def apply_topic_freeze_def hm_insert_def
  hm_remove_def hm_entry_def or_default_def nested_get_def nested_insert_def known_topic_def Let_def I32_MAX_def I16_MAX_def

lemma sample_image_eq:
  "sample_image = (MetadataImage_new 9)
     \<lparr>mi_brokers := [(1, sample_broker)],
      mi_topics := [([0x74], (sample_topic [0x74] 7)\<lparr>tr_partitions := 1\<rparr>)],
      mi_topic_ids := [(7, [0x74])],
      mi_partitions := [([0x74], [(0, sample_partition [0x74] 0 [1, 2])])],
      mi_freezes_prefixed := [([0x74], sample_freeze Prefixed [0x74])]\<rparr>"
  by (simp add: sample_image_def sample_log_def image_eval sample_defs)

lemma sample_log_wf: "list_all mrecord_wf sample_log"
  by (simp add: sample_log_def)

lemma sample_committed: "committed fresh_topic_id 9 sample_image"
proof -
  let ?i1 = "apply_record (V1BrokerRegistration sample_broker) (MetadataImage_new 9)"
  let ?i2 = "apply_record (V1Topic (sample_topic [0x74] 7)) ?i1"
  let ?i3 = "apply_record (V1Partition (sample_partition [0x74] 0 [1, 2])) ?i2"
  have "committed fresh_topic_id 9 ?i1"
    by (rule committed_step[OF committed_new]) (simp_all add: fresh_topic_id_def)
  then have "committed fresh_topic_id 9 ?i2"
    by (rule committed_step) (simp_all add: fresh_topic_id_def image_eval)
  then have "committed fresh_topic_id 9 ?i3"
    by (rule committed_step) (simp_all add: fresh_topic_id_def image_eval sample_defs)
  then have "committed fresh_topic_id 9 (apply_record (V1TopicFreeze (sample_freeze Prefixed [0x74])) ?i3)"
    by (rule committed_step) (simp_all add: fresh_topic_id_def sample_defs)
  then show ?thesis
    by (simp add: sample_image_def sample_log_def)
qed

section \<open>Well-formed images\<close>



section \<open>Snapshots\<close>

lemma apply_cluster_id [simp]: "mi_cluster_id (apply_record r img) = mi_cluster_id img"
  by (cases r) (auto simp: apply_topic_def apply_partition_def apply_partition_update_def apply_producer_ids_def
      apply_registration_change_def apply_unregister_broker_def apply_feature_level_def apply_delete_topic_def
      apply_offset_advance_def apply_topic_freeze_def apply_partition_elr_def apply_partition_recovery_def
      apply_dir_assignment_eq Let_def split: option.split PatternType.split bool.split)

lemma from_records_cluster_id: "mi_cluster_id (from_records cid rs) = cid"
proof -
  have "mi_cluster_id (fold apply_record rs img) = mi_cluster_id img" for img
    by (induction rs arbitrary: img) simp_all
  then show ?thesis
    by (simp add: from_records_def MetadataImage_new_def)
qed

lemma committed_cluster_id: "committed guard cid img \<Longrightarrow> mi_cluster_id img = cid"
  by (induction rule: committed.induct) (simp_all add: MetadataImage_new_def)



text \<open>Every partition of a topic has as many replicas as the topic's replication factor.\<close>

definition uniform_replication :: "MetadataImage \<Rightarrow> bool" where
  "uniform_replication img \<longleftrightarrow>
     (\<forall>(n, t) \<in> set (mi_topics img). \<forall>p \<in> set (partitions_of img n). int (length (pr_replicas p)) = tr_replication_factor t)"

lemma fold_replica_count:
  "\<forall>p \<in> set ps. int (length (pr_replicas p)) = rf \<Longrightarrow> fold replica_count ps rf = rf"
  by (induction ps) (auto simp: replica_count_def)

lemma nested_get_drop_empty: "hm_wf m \<Longrightarrow> nested_get (drop_empty m) k i = nested_get m k i"
proof (induction m)
  case (Cons e m)
  obtain k' inner where e: "e = (k', inner)"
    by (cases e)
  have "map_of m k' = None"
    using Cons.prems by (simp add: e hm_wf_def map_of_eq_None_iff)
  moreover from this have "map_of (drop_empty m) k' = None"
    by (auto simp: drop_empty_def map_of_eq_None_iff)
  ultimately show ?case
    using Cons by (auto simp: e drop_empty_def nested_get_def hm_wf_def split: option.split)
qed (simp add: drop_empty_def)

lemma rebuilt_ids:
  assumes "ids_exact img" "level_wf topic_ok (mi_topics img)"
  shows "map_of (fold (\<lambda>(n, t). hm_insert (tr_topic_id t) n) (mi_topics img) []) i = map_of (mi_topic_ids img) i"
proof -
  have d: "distinct (map fst (mi_topics img))"
    using assms(2) by (simp add: level_wf_def hm_wf_def)
  have "inj_on (\<lambda>e. tr_topic_id (snd e)) (set (mi_topics img))"
  proof (rule inj_onI)
    fix x y assume a: "x \<in> set (mi_topics img)" "y \<in> set (mi_topics img)" "tr_topic_id (snd x) = tr_topic_id (snd y)"
    then have "map_of (mi_topics img) (fst x) = Some (snd x)" "map_of (mi_topics img) (fst y) = Some (snd y)"
      using map_of_is_SomeI[OF d, of "fst x" "snd x"] map_of_is_SomeI[OF d, of "fst y" "snd y"] by simp_all
    then show "x = y"
      using ids_unique[OF assms(1)] a(3) by (metis option.inject prod_eq_iff)
  qed
  then have w: "hm_wf (map (\<lambda>(n, t). (tr_topic_id t, n)) (mi_topics img))"
    using d by (auto simp: hm_wf_def distinct_map case_prod_unfold comp_def)
  have "fold (\<lambda>(n, t). hm_insert (tr_topic_id t) n) (mi_topics img) [] = map (\<lambda>(n, t). (tr_topic_id t, n)) (mi_topics img)"
    using hm.replay[OF w] by (simp add: fold_map comp_def case_prod_unfold)
  moreover have "map_of (map (\<lambda>(n, t). (tr_topic_id t, n)) (mi_topics img)) i = Some m \<longleftrightarrow> map_of (mi_topic_ids img) i = Some m" for m
    using w d ids_exactD[OF assms(1), of i m] by (force simp: hm_wf_def)
  ultimately show ?thesis
    by (metis not_None_eq)
qed

lemma rebuilt_acls:
  assumes "acl_wf idx"
  shows "acl_wf (fold AclIndex_insert (AclIndex_iter idx) AclIndex_default)
    \<and> set (AclIndex_iter (fold AclIndex_insert (AclIndex_iter idx) AclIndex_default)) = set (AclIndex_iter idx)"
proof -
  have "acl_wf (fold AclIndex_insert es s) \<and> set (AclIndex_iter (fold AclIndex_insert es s)) = set es \<union> set (AclIndex_iter s)"
    if "acl_wf s" "\<forall>e \<in> set es. acl_entry_wf e" for es s
    using that by (induction es arbitrary: s) (auto simp: AclIndex_insert_spec)
  then show ?thesis
    using acl_entries_wf[OF assms] acl_wf_default acl.empty_entries by simp
qed

lemma snapshot_topics:
  assumes "image_wf img" "image_consistent img" "uniform_replication img"
  shows "map (\<lambda>(n, t). (n, snapshot_topic img n t)) (mi_topics img) = mi_topics img"
proof (rule map_idI)
  fix e assume e: "e \<in> set (mi_topics img)"
  obtain n t where nt: "e = (n, t)"
    by (cases e)
  have "map_of (mi_topics img) n = Some t"
    using e nt assms(1) by (simp add: image_wf_def level_wf_def hm_wf_def)
  then have "topic_partition_count img n = tr_partitions t"
    using assms(2) by (simp add: image_consistent_def)
  moreover have "fold replica_count (partitions_of img n) (tr_replication_factor t) = tr_replication_factor t"
    using assms(3) e nt by (intro fold_replica_count) (auto simp: uniform_replication_def)
  ultimately show "(case e of (n, t) \<Rightarrow> (n, snapshot_topic img n t)) = e"
    by (simp add: nt snapshot_topic_def)
qed



section \<open>Committed images\<close>

text \<open>
  C6: in every image that validated records reach, partitions, topic configs, eligible-leader sets and
  recovery states exist only for topics and partitions that exist, and the partition count cached in a
  topic is the number of its partitions.
\<close>

theorem committed_image_consistent:
  assumes "committed (\<lambda>_ _. True) cid img"
  shows "(image_partition img n p \<noteq> None \<longrightarrow> image_topic img n \<noteq> None)
    \<and> (topic_config img n \<noteq> None \<longrightarrow> image_topic img n \<noteq> None)
    \<and> (partition_elr img n p \<noteq> ([], []) \<longrightarrow> image_partition img n p \<noteq> None)
    \<and> (leader_recovery_state img n p \<noteq> Recovered \<longrightarrow> image_partition img n p \<noteq> None)
    \<and> (\<forall>t. image_topic img n = Some t \<longrightarrow> tr_partitions t = topic_partition_count img n)"
proof -
  have c: "image_consistent img"
    by (rule committed_consistent[OF assms])
  have tp: "dom (map_of (mi_partitions img)) \<subseteq> dom (map_of (mi_topics img))"
    and tc: "dom (map_of (mi_topic_configs img)) \<subseteq> dom (map_of (mi_topics img))"
    and pe: "nested_dom (mi_partition_elr img) \<subseteq> nested_dom (mi_partitions img)"
    and pr: "nested_dom (mi_partition_recovery img) \<subseteq> nested_dom (mi_partitions img)"
    and ct: "\<forall>n t. map_of (mi_topics img) n = Some t \<longrightarrow> tr_partitions t = topic_partition_count img n"
    using c unfolding image_consistent_def by blast+
  have "image_topic img n \<noteq> None" if "image_partition img n p \<noteq> None"
  proof -
    have "n \<in> dom (map_of (mi_partitions img))"
      using that by (cases "map_of (mi_partitions img) n") (simp_all add: image_partition_def nested_get_def domI)
    then show ?thesis
      using tp by (auto simp: image_topic_def)
  qed
  moreover have "image_topic img n \<noteq> None" if "topic_config img n \<noteq> None"
    using that tc by (auto simp: topic_config_def image_topic_def)
  moreover have "image_partition img n p \<noteq> None" if "partition_elr img n p \<noteq> ([], [])"
  proof -
    have "(n, p) \<in> nested_dom (mi_partition_elr img)"
      using that by (cases "nested_get (mi_partition_elr img) n p") (simp_all add: partition_elr_def or_default_def nested_dom_get)
    then show ?thesis
      using pe nested_dom_get[of n p "mi_partitions img"] by (auto simp: image_partition_def)
  qed
  moreover have "image_partition img n p \<noteq> None" if "leader_recovery_state img n p \<noteq> Recovered"
  proof -
    have "(n, p) \<in> nested_dom (mi_partition_recovery img)"
      using that by (cases "nested_get (mi_partition_recovery img) n p") (simp_all add: leader_recovery_state_def or_default_def nested_dom_get)
    then show ?thesis
      using pr nested_dom_get[of n p "mi_partitions img"] by (auto simp: image_partition_def)
  qed
  ultimately show ?thesis
    using ct by (simp add: image_topic_def)
qed

lemma committed_any: "committed guard cid img \<Longrightarrow> committed (\<lambda>_ _. True) cid img"
  by (induction rule: committed.induct) (auto intro: committed.intros)

theorem committed_image_consistent_witness:
  "image_partition sample_image [0x74] 0 \<noteq> None \<and> image_topic sample_image [0x74] \<noteq> None"
proof -
  have "image_partition sample_image [0x74] 0 \<noteq> None"
    by (simp add: sample_image_eq image_partition_def nested_get_def)
  then show ?thesis
    using committed_image_consistent[OF committed_any[OF sample_committed], of "[0x74]" 0] by simp
qed

text \<open>
  C35: while every new topic gets an id that no other topic has, the id index is exact: looking up an id
  returns a topic if and only if that topic exists and carries the id.
\<close>

theorem topic_id_index_exact:
  assumes "committed fresh_topic_id cid img"
  shows "topic_by_id img i = Some t \<longleftrightarrow> t \<in> set (image_topics img) \<and> tr_topic_id t = i"
proof -
  note e = committed_ids[OF assms]
  have d: "distinct (map fst (mi_topics img))"
    using committed_wf[OF assms] by (simp add: image_wf_def level_wf_def hm_wf_def)
  have "t \<in> set (image_topics img) \<longleftrightarrow> (\<exists>n. map_of (mi_topics img) n = Some t)"
    using d by (force simp: image_topics_def)
  moreover have "topic_by_id img i = Some t \<longleftrightarrow> (\<exists>n. map_of (mi_topic_ids img) i = Some n \<and> map_of (mi_topics img) n = Some t)"
    by (auto simp: topic_by_id_def split: option.split)
  ultimately show ?thesis
    using ids_exactD[OF e, of i] by auto
qed

theorem topic_id_index_exact_witness:
  "topic_by_id sample_image 7 = Some ((sample_topic [0x74] 7)\<lparr>tr_partitions := 1\<rparr>) \<and> topic_by_id sample_image 8 = None"
proof -
  have "topic_by_id sample_image 8 \<noteq> Some t" for t
    using topic_id_index_exact[OF sample_committed, of 8 t] by (auto simp: sample_image_eq image_topics_def sample_topic_def)
  moreover have "topic_by_id sample_image 7 = Some ((sample_topic [0x74] 7)\<lparr>tr_partitions := 1\<rparr>)"
    unfolding topic_id_index_exact[OF sample_committed] by (simp add: sample_image_eq image_topics_def sample_topic_def)
  ultimately show ?thesis
    by (metis not_None_eq)
qed

text \<open>
  Validation does not look at topic ids. Two topics may carry the same id, and deleting one of them then
  hides the other from lookups by id.
\<close>

lemma duplicate_topic_id_hides_topic:
  "\<exists>img. commit_all (MetadataImage_new 9)
      [V1Topic (sample_topic [0x61] 7), V1Topic (sample_topic [0x62] 7), V1DeleteTopic [0x61]] = Ok img
    \<and> image_topic img [0x62] = Some (sample_topic [0x62] 7) \<and> topic_by_id img 7 = None"
  by (simp add: submit_def image_eval apply_delete_topic_def sample_topic_def image_topic_def topic_by_id_def)

text \<open>
  A snapshot restores the replication factor from the partition with the highest index, the image keeps
  the one of the partition applied last.
\<close>

lemma snapshot_changes_replication_factor:
  "\<exists>img. commit_all (MetadataImage_new 9)
      [V1Topic (sample_topic [0x61] 7), V1Partition (sample_partition [0x61] 1 [1, 2, 3]), V1Partition (sample_partition [0x61] 0 [1])] = Ok img
    \<and> map_option tr_replication_factor (image_topic img [0x61]) = Some 1
    \<and> map_option tr_replication_factor (image_topic (snapshot_of img) [0x61]) = Some 3"
  by (simp add: submit_def image_eval sample_defs image_topic_def snapshot_of_def snapshot_topic_def partitions_of_def
      replica_count_def)


definition two_approvals :: "MetadataRecord list" where
  "two_approvals = [V1BreakGlassProposal (sample_proposal [sample_approval]),
     V1BreakGlassProposal (sample_proposal [sample_approval, sample_approval])]"

lemma two_approvals_commit:
  "commit_all (apply_record (V1BreakGlassProposal (sample_proposal [])) (MetadataImage_new 9)) two_approvals
    = Ok ((MetadataImage_new 9)\<lparr>mi_break_glass := [(3, sample_proposal [sample_approval, sample_approval])]\<rparr>)"
  by (simp add: two_approvals_def submit_def image_eval sample_proposal_def extends_def)


text \<open>
  C17: producer-id blocks never overlap. Along any sequence of validated records the first free ids that the
  allocation records carry increase strictly, starting above the image's own, and the image ends with the
  last of them.
\<close>

theorem producer_ids_increase:
  assumes "commit_all img rs = Ok img'"
  shows "sorted_wrt (<) (next_producer_id img # allocated rs)
    \<and> next_producer_id img' = last (next_producer_id img # allocated rs)"
  by (rule allocations_increase[OF assms])

definition two_blocks :: "MetadataRecord list" where
  "two_blocks = [V1ProducerIds \<lparr>pi_broker_id = 1, pi_broker_epoch = 4, pi_next_producer_id = 1000\<rparr>,
     V1ProducerIds \<lparr>pi_broker_id = 1, pi_broker_epoch = 4, pi_next_producer_id = 2000\<rparr>]"

theorem producer_ids_increase_witness:
  "next_producer_id (fold apply_record two_blocks sample_image) = 2000"
proof -
  have c: "commit_all sample_image two_blocks = Ok (fold apply_record two_blocks sample_image)"
    by (simp add: two_blocks_def submit_def sample_image_eq broker_epoch_def next_producer_id_def apply_producer_ids_def
        sample_broker_def MetadataImage_new_def)
  show ?thesis
    using producer_ids_increase[OF c] by (simp add: two_blocks_def)
qed

section \<open>Readers\<close>

text \<open>
  C19: the freeze that covers a topic is its literal entry, and without one the entry of the longest frozen
  prefix of its name; an internal topic, whose name starts with two underscores, is never frozen. The walk
  down the ordered map finds exactly that entry in every image that records can build.
\<close>

theorem topic_freeze_longest_prefix:
  assumes "list_all mrecord_wf rs"
  shows "topic_freeze (from_records cid rs) topic = Some f
    \<longleftrightarrow> \<not> internal_topic topic \<and> covers (from_records cid rs) topic f"
  unfolding from_records_def by (rule topic_freeze_covers[OF image_wf_history[OF image_wf_new assms]])

theorem topic_freeze_longest_prefix_witness:
  "topic_freeze (from_records 9 sample_log) [0x74, 0x31] = Some (sample_freeze Prefixed [0x74])"
proof -
  have "covers (from_records 9 sample_log) [0x74, 0x31] (sample_freeze Prefixed [0x74])"
    unfolding from_records_def sample_image_def[symmetric] sample_image_eq
    by (simp add: covers_def MetadataImage_new_def starts_with_def)
  moreover have "\<not> internal_topic [0x74, 0x31]"
    by (simp add: internal_topic_def starts_with_def ascii_def of_char_def)
  ultimately show ?thesis
    using topic_freeze_longest_prefix[OF sample_log_wf] by simp
qed



text \<open>
  C24: a directory assignment changes one slot. The reporting replica's directory is set, a list that was
  too short is filled up with \<open>MIGRATING\<close>, every other slot, partition and field stays as it was.
\<close>

theorem dir_assignment_one_slot:
  assumes "list_all mrecord_wf rs" and "image_partition (from_records cid rs) (pda_topic r) (pda_partition r) = Some pr"
    and "position (\<lambda>n. n = pda_replica r) (pr_replicas pr) = Some slot"
  shows "\<exists>ds. length ds = max (length (pr_directories pr)) (length (pr_replicas pr))
    \<and> (\<forall>i < length ds. ds ! i = (if i = slot then pda_directory r
          else if i < length (pr_directories pr) then pr_directories pr ! i else MIGRATING))
    \<and> (\<forall>t p. image_partition (apply_record (V1PartitionDirAssignment r) (from_records cid rs)) t p =
          (if t = pda_topic r \<and> p = pda_partition r then Some (pr\<lparr>pr_directories := ds\<rparr>)
           else image_partition (from_records cid rs) t p))
    \<and> (apply_record (V1PartitionDirAssignment r) (from_records cid rs))\<lparr>mi_partitions := mi_partitions (from_records cid rs)\<rparr>
        = from_records cid rs"
proof -
  have wf: "image_wf (from_records cid rs)"
    unfolding from_records_def by (rule image_wf_history[OF image_wf_new assms(1)])
  have slot: "slot < length (pr_replicas pr)"
    using position_Some[OF assms(3)] by simp
  show ?thesis
    by (rule exI[of _ "assigned_dirs pr slot (pda_directory r)"])
      (simp add: length_assigned_dirs nth_assigned_dirs[OF slot] dir_assignment_reads[OF wf assms(2,3)])
qed

theorem dir_assignment_one_slot_witness:
  "\<exists>ds. length ds = 2 \<and> ds ! 1 = 8 \<and> ds ! 0 = 5
    \<and> image_partition (apply_record (V1PartitionDirAssignment
        \<lparr>pda_topic = [0x74], pda_partition = 0, pda_replica = 2, pda_directory = 8\<rparr>) sample_image) [0x74] 0
      = Some ((sample_partition [0x74] 0 [1, 2])\<lparr>pr_directories := ds\<rparr>)"
proof -
  let ?r = "\<lparr>pda_topic = [0x74], pda_partition = 0, pda_replica = 2, pda_directory = 8\<rparr>"
  have s: "from_records 9 sample_log = sample_image"
    by (simp add: from_records_def sample_image_def)
  have p: "image_partition (from_records 9 sample_log) (pda_topic ?r) (pda_partition ?r) = Some (sample_partition [0x74] 0 [1, 2])"
    by (simp add: s sample_image_eq image_partition_def nested_get_def)
  have q: "position (\<lambda>n. n = pda_replica ?r) (pr_replicas (sample_partition [0x74] 0 [1, 2])) = Some 1"
    by (simp add: sample_partition_def)
  show ?thesis
    using dir_assignment_one_slot[OF sample_log_wf p q] unfolding s by (auto simp: sample_partition_def)
qed

text \<open>
  C27: the records of a downgrade bring the image to the target. Applied to an image, they leave no state
  that needs a level above the target (or the lowest supported one), project every broker registration to
  what the target level carries, and below the directory-assignment level leave no directory but
  \<open>MIGRATING\<close> on any partition whose replicas are distinct.
\<close>

theorem downgrade_materialises_target:
  assumes "list_all mrecord_wf rs"
  shows "let img = from_records cid rs;
      img' = fold apply_record (metadata_version_downgrade_records img target) img in
    min_required_metadata_version img' \<le> max METADATA_VERSION_MIN target
    \<and> mi_brokers img' = map (\<lambda>(n, b). (n, project_broker target b)) (mi_brokers img)
    \<and> (target < DIRECTORY_ASSIGNMENT_MIN_LEVEL \<longrightarrow>
        (\<forall>t i p. image_partition img t i = Some p \<longrightarrow> distinct (pr_replicas p)
          \<longrightarrow> length (pr_directories p) \<le> length (pr_replicas p)
          \<longrightarrow> (\<exists>q. image_partition img' t i = Some q \<and> q\<lparr>pr_directories := pr_directories p\<rparr> = p
                \<and> set (pr_directories q) \<subseteq> {MIGRATING})))"
proof -
  have wf: "image_wf (from_records cid rs)"
    unfolding from_records_def by (rule image_wf_history[OF image_wf_new assms])
  have "mi_brokers (fold apply_record (metadata_version_downgrade_records (from_records cid rs) target) (from_records cid rs))
      = map (\<lambda>(n, b). (n, project_broker target b)) (mi_brokers (from_records cid rs))"
    by (simp add: downgrade_image[OF wf])
  then show ?thesis
    unfolding Let_def using downgrade_floor[OF wf, of target] downgrade_directories[OF wf] by blast
qed

theorem downgrade_materialises_target_witness:
  "min_required_metadata_version
    (fold apply_record (metadata_version_downgrade_records (from_records 9 sample_log) 10) (from_records 9 sample_log)) \<le> 10"
  using downgrade_materialises_target[OF sample_log_wf, of 9 10] by (simp add: Let_def METADATA_VERSION_MIN_def)

text \<open>
  A registration change or an unregistration that validation refuses, because the broker is not
  registered at the record's epoch or the controller is not registered, does nothing when it is applied.
\<close>

theorem refused_registration_is_noop:
  assumes "epoch_guarded r" and "validate img r \<noteq> Ok ()"
  shows "apply_record r img = img"
  by (rule refused_is_noop[OF assms])

theorem refused_registration_is_noop_witness:
  "apply_record (V1UnregisterBroker \<lparr>ub_node_id = 1, ub_broker_epoch = 3\<rparr>) sample_image = sample_image"
  by (rule refused_registration_is_noop)
    (simp_all add: epoch_guarded_def broker_epoch_def sample_image_eq sample_broker_def)

end
