(* ===== verification/Features.thy ===== *)
theory Features
  imports ImageReads
begin

text \<open>
  The versioned features of a cluster: the table of \<open>metadata.version\<close> levels
  (\<open>metadata/src/metadata_version.rs\<close>), the feature registry with its bootstrap records and dependency
  check (\<open>feature.rs\<close>), and the constants of \<open>group.version\<close>, \<open>transaction.version\<close> and \<open>krabka.version\<close>
  with the version table of the private controller requests (\<open>krabka_version.rs\<close>). Levels are \<open>i16\<close>
  values, kept as \<open>int\<close>; the one addition that can leave the range is written out.
\<close>

section \<open>Levels of \<open>metadata.version\<close>\<close>

definition METADATA_DOWNGRADE_CAPABILITY_FEATURE :: bytes where
  "METADATA_DOWNGRADE_CAPABILITY_FEATURE = ascii ''krabka.metadata.downgrade''"
definition METADATA_DOWNGRADE_CAPABILITY_LEVEL :: int where "METADATA_DOWNGRADE_CAPABILITY_LEVEL = 1"
definition SHARE_VERSION_FEATURE :: bytes where "SHARE_VERSION_FEATURE = ascii ''share.version''"
definition KRAFT_VERSION_FEATURE :: bytes where "KRAFT_VERSION_FEATURE = ascii ''kraft.version''"
definition SHARE_VERSION_MIN :: int where "SHARE_VERSION_MIN = 0"
definition SHARE_VERSION_MAX :: int where "SHARE_VERSION_MAX = 2"
definition ELR_VERSION_FEATURE :: bytes where "ELR_VERSION_FEATURE = ascii ''eligible.leader.replicas.version''"
definition ELR_VERSION_MIN :: int where "ELR_VERSION_MIN = 0"
definition ELR_VERSION_MAX :: int where "ELR_VERSION_MAX = 1"
definition STREAMS_VERSION_FEATURE :: bytes where "STREAMS_VERSION_FEATURE = ascii ''streams.version''"
definition STREAMS_VERSION_MIN :: int where "STREAMS_VERSION_MIN = 0"
definition STREAMS_VERSION_MAX :: int where "STREAMS_VERSION_MAX = 1"
definition METADATA_VERSION_MAX :: int where "METADATA_VERSION_MAX = 34"
definition ELR_MIN_LEVEL :: int where "ELR_MIN_LEVEL = 23"
definition ELR_DEFAULT_METADATA_LEVEL :: int where "ELR_DEFAULT_METADATA_LEVEL = 26"
definition SHARE_VERSION_DEFAULT_METADATA_LEVEL :: int where "SHARE_VERSION_DEFAULT_METADATA_LEVEL = 28"
definition SHARE_VERSION_2_DEFAULT_METADATA_LEVEL :: int where "SHARE_VERSION_2_DEFAULT_METADATA_LEVEL = 31"
definition STREAMS_VERSION_DEFAULT_METADATA_LEVEL :: int where "STREAMS_VERSION_DEFAULT_METADATA_LEVEL = 29"

record MetadataVersion =
  mv_level :: int
  mv_ivn :: bytes
  mv_short :: bytes
  mv_did_metadata_change :: bool

text \<open>One entry of the source's table, with its strings.\<close>

definition mv_row :: "int \<Rightarrow> string \<Rightarrow> string \<Rightarrow> bool \<Rightarrow> MetadataVersion" where
  "mv_row level ivn short changed =
     \<lparr>mv_level = level, mv_ivn = ascii ivn, mv_short = ascii short, mv_did_metadata_change = changed\<rparr>"

definition TABLE :: "MetadataVersion list" where
  "TABLE =
     [mv_row 7 ''3.3-IV3'' ''3.3'' True,
      mv_row 8 ''3.4-IV0'' ''3.4'' True,
      mv_row 9 ''3.5-IV0'' ''3.5'' False,
      mv_row 10 ''3.5-IV1'' ''3.5'' False,
      mv_row 11 ''3.5-IV2'' ''3.5'' True,
      mv_row 12 ''3.6-IV0'' ''3.6'' False,
      mv_row 13 ''3.6-IV1'' ''3.6'' True,
      mv_row 14 ''3.6-IV2'' ''3.6'' True,
      mv_row 15 ''3.7-IV0'' ''3.7'' True,
      mv_row 16 ''3.7-IV1'' ''3.7'' False,
      mv_row 17 ''3.7-IV2'' ''3.7'' True,
      mv_row 18 ''3.7-IV3'' ''3.7'' False,
      mv_row 19 ''3.7-IV4'' ''3.7'' False,
      mv_row 20 ''3.8-IV0'' ''3.8'' False,
      mv_row 21 ''3.9-IV0'' ''3.9'' False,
      mv_row 22 ''4.0-IV0'' ''4.0'' False,
      mv_row 23 ''4.0-IV1'' ''4.0'' True,
      mv_row 24 ''4.0-IV2'' ''4.0'' False,
      mv_row 25 ''4.0-IV3'' ''4.0'' False,
      mv_row 26 ''4.1-IV0'' ''4.1'' False,
      mv_row 27 ''4.1-IV1'' ''4.1'' False,
      mv_row 28 ''4.2-IV0'' ''4.2'' False,
      mv_row 29 ''4.2-IV1'' ''4.2'' False,
      mv_row 30 ''4.3-IV0'' ''4.3'' True,
      mv_row 31 ''4.4-IV0'' ''4.4'' False,
      mv_row 32 ''4.4-IV1'' ''4.4'' True,
      mv_row 33 ''4.4-IV2'' ''4.4'' True,
      mv_row 34 ''4.5-IV0'' ''4.5'' False]"

definition from_feature_level :: "int \<Rightarrow> MetadataVersion option" where
  "from_feature_level level = find (\<lambda>m. mv_level m = level) TABLE"

text \<open>
  \<open>str::trim\<close> removes the characters with the Unicode property \<open>White_Space\<close> from both ends. A string is
  its UTF-8 bytes, so these characters are byte sequences; no encoding of a character is a suffix of
  another one's, so a suffix of that form is the last character.
\<close>

definition white_space :: "bytes list" where
  "white_space =
     map (\<lambda>b. [b]) [0x09, 0x0A, 0x0B, 0x0C, 0x0D, 0x20]
     @ [[0xC2, 0x85], [0xC2, 0xA0], [0xE1, 0x9A, 0x80]]
     @ map (\<lambda>b. [0xE2, 0x80, b]) [0x80, 0x81, 0x82, 0x83, 0x84, 0x85, 0x86, 0x87, 0x88, 0x89, 0x8A, 0xA8, 0xA9, 0xAF]
     @ [[0xE2, 0x81, 0x9F], [0xE3, 0x80, 0x80]]"

fun trim_with :: "bytes list \<Rightarrow> nat \<Rightarrow> bytes \<Rightarrow> bytes" where
  "trim_with ws 0 s = s"
| "trim_with ws (Suc n) s =
     (case find (starts_with s) ws of None \<Rightarrow> s | Some w \<Rightarrow> trim_with ws n (drop (length w) s))"

definition str_trim :: "bytes \<Rightarrow> bytes" where
  "str_trim s =
     (let front = trim_with white_space (length s) s
      in rev (trim_with (map rev white_space) (length front) (rev front)))"

text \<open>\<open>Iterator::max_by_key\<close> returns the last of several maximal elements.\<close>

definition max_by_key :: "('a \<Rightarrow> int) \<Rightarrow> 'a list \<Rightarrow> 'a option" where
  "max_by_key key xs =
     fold (\<lambda>x best. case best of None \<Rightarrow> Some x | Some b \<Rightarrow> if key b \<le> key x then Some x else Some b) xs None"

definition from_version_string :: "bytes \<Rightarrow> MetadataVersion option" where
  "from_version_string s0 =
     (let s = str_trim s0 in
      if 0x2D \<in> set s then find (\<lambda>m. mv_ivn m = s) TABLE
      else max_by_key mv_level (filter (\<lambda>m. mv_short m = s) TABLE))"

definition metadata_version_is_supported_level :: "int \<Rightarrow> bool" where
  "metadata_version_is_supported_level level \<longleftrightarrow> METADATA_VERSION_MIN \<le> level \<and> level \<le> METADATA_VERSION_MAX"

definition did_metadata_change :: "int \<Rightarrow> bool option" where
  "did_metadata_change level = map_option mv_did_metadata_change (from_feature_level level)"

text \<open>\<open>None\<close> is the overflow of \<open>low + 1\<close> at \<open>i16::MAX\<close>.\<close>

definition metadata_changed_between :: "int \<Rightarrow> int \<Rightarrow> bool option" where
  "metadata_changed_between from to =
     (let (low, high) = (if from \<le> to then (from, to) else (to, from)) in
      if low = I16_MAX then None
      else Some (list_ex (\<lambda>level. or_default True (did_metadata_change level)) [low + 1..high]))"

section \<open>Constants of the other features\<close>

definition GROUP_VERSION_FEATURE :: bytes where "GROUP_VERSION_FEATURE = ascii ''group.version''"
definition GROUP_VERSION_MIN :: int where "GROUP_VERSION_MIN = 0"
definition GROUP_VERSION_MAX :: int where "GROUP_VERSION_MAX = 1"
definition GROUP_VERSION_GA_METADATA_LEVEL :: int where "GROUP_VERSION_GA_METADATA_LEVEL = 22"
definition TRANSACTION_VERSION_FEATURE :: bytes where "TRANSACTION_VERSION_FEATURE = ascii ''transaction.version''"
definition TRANSACTION_VERSION_MIN :: int where "TRANSACTION_VERSION_MIN = 0"
definition TRANSACTION_VERSION_MAX :: int where "TRANSACTION_VERSION_MAX = 2"
definition TV1_METADATA_LEVEL :: int where "TV1_METADATA_LEVEL = 24"
definition TV2_METADATA_LEVEL :: int where "TV2_METADATA_LEVEL = 24"
definition KRABKA_VERSION_FEATURE :: bytes where "KRABKA_VERSION_FEATURE = ascii ''krabka.version''"
definition KRABKA_VERSION_MIN :: int where "KRABKA_VERSION_MIN = 0"
definition KRABKA_VERSION_MAX :: int where "KRABKA_VERSION_MAX = 2"

lemmas feature_names = METADATA_VERSION_FEATURE_def SHARE_VERSION_FEATURE_def KRAFT_VERSION_FEATURE_def
  ELR_VERSION_FEATURE_def STREAMS_VERSION_FEATURE_def GROUP_VERSION_FEATURE_def
  TRANSACTION_VERSION_FEATURE_def KRABKA_VERSION_FEATURE_def METADATA_DOWNGRADE_CAPABILITY_FEATURE_def

lemmas feature_levels = METADATA_VERSION_MIN_def METADATA_VERSION_MAX_def SHARE_VERSION_MIN_def SHARE_VERSION_MAX_def
  ELR_VERSION_MIN_def ELR_VERSION_MAX_def STREAMS_VERSION_MIN_def STREAMS_VERSION_MAX_def
  GROUP_VERSION_MIN_def GROUP_VERSION_MAX_def TRANSACTION_VERSION_MIN_def TRANSACTION_VERSION_MAX_def
  KRABKA_VERSION_MIN_def KRABKA_VERSION_MAX_def ELR_MIN_LEVEL_def ELR_DEFAULT_METADATA_LEVEL_def
  SHARE_VERSION_DEFAULT_METADATA_LEVEL_def SHARE_VERSION_2_DEFAULT_METADATA_LEVEL_def
  STREAMS_VERSION_DEFAULT_METADATA_LEVEL_def GROUP_VERSION_GA_METADATA_LEVEL_def TV1_METADATA_LEVEL_def
  TV2_METADATA_LEVEL_def METADATA_DOWNGRADE_CAPABILITY_LEVEL_def

section \<open>The registry\<close>

text \<open>
  The trait \<open>Feature\<close> as a record of its methods. A feature that inherits a default method starts from
  \<open>plain_feature\<close>, which holds the trait's default bodies.
\<close>

record Feature =
  f_name :: bytes
  f_supported_range :: "int \<times> int"
  f_default_level :: "int \<Rightarrow> int"
  f_min_required_floor :: "MetadataImage \<Rightarrow> int"
  f_dependencies :: "int \<Rightarrow> (bytes \<times> int) list"
  f_level_name :: "int \<Rightarrow> bytes option"

definition plain_feature :: "bytes \<Rightarrow> int \<times> int \<Rightarrow> (int \<Rightarrow> int) \<Rightarrow> Feature" where
  "plain_feature name supported default_of =
     \<lparr>f_name = name, f_supported_range = supported, f_default_level = default_of,
      f_min_required_floor = (\<lambda>_. fst supported), f_dependencies = (\<lambda>_. []), f_level_name = (\<lambda>_. None)\<rparr>"

definition MetadataVersionFeature :: Feature where
  "MetadataVersionFeature =
     (plain_feature METADATA_VERSION_FEATURE (METADATA_VERSION_MIN, METADATA_VERSION_MAX)
        (\<lambda>mv. max METADATA_VERSION_MIN (min METADATA_VERSION_MAX mv)))
     \<lparr>f_min_required_floor := min_required_metadata_version,
      f_level_name := (\<lambda>level. map_option mv_ivn (from_feature_level level))\<rparr>"

definition GroupVersionFeature :: Feature where
  "GroupVersionFeature =
     plain_feature GROUP_VERSION_FEATURE (GROUP_VERSION_MIN, GROUP_VERSION_MAX)
       (\<lambda>mv. if GROUP_VERSION_GA_METADATA_LEVEL \<le> mv then GROUP_VERSION_MAX else GROUP_VERSION_MIN)"

definition TransactionVersionFeature :: Feature where
  "TransactionVersionFeature =
     plain_feature TRANSACTION_VERSION_FEATURE (TRANSACTION_VERSION_MIN, TRANSACTION_VERSION_MAX)
       (\<lambda>mv. if TV2_METADATA_LEVEL \<le> mv then 2 else if TV1_METADATA_LEVEL \<le> mv then 1 else 0)"

definition ShareVersionFeature :: Feature where
  "ShareVersionFeature =
     plain_feature SHARE_VERSION_FEATURE (SHARE_VERSION_MIN, SHARE_VERSION_MAX)
       (\<lambda>mv. if SHARE_VERSION_2_DEFAULT_METADATA_LEVEL \<le> mv then 2
             else if SHARE_VERSION_DEFAULT_METADATA_LEVEL \<le> mv then 1 else SHARE_VERSION_MIN)"

definition StreamsVersionFeature :: Feature where
  "StreamsVersionFeature =
     plain_feature STREAMS_VERSION_FEATURE (STREAMS_VERSION_MIN, STREAMS_VERSION_MAX)
       (\<lambda>mv. if STREAMS_VERSION_DEFAULT_METADATA_LEVEL \<le> mv then STREAMS_VERSION_MAX else STREAMS_VERSION_MIN)"

definition ElrVersionFeature :: Feature where
  "ElrVersionFeature =
     (plain_feature ELR_VERSION_FEATURE (ELR_VERSION_MIN, ELR_VERSION_MAX)
        (\<lambda>mv. if ELR_DEFAULT_METADATA_LEVEL \<le> mv then ELR_VERSION_MAX else ELR_VERSION_MIN))
     \<lparr>f_dependencies := (\<lambda>level. if 1 \<le> level then [(METADATA_VERSION_FEATURE, ELR_MIN_LEVEL)] else [])\<rparr>"

definition KRaftVersionFeature :: Feature where
  "KRaftVersionFeature = plain_feature KRAFT_VERSION_FEATURE (0, 1) (\<lambda>_. 0)"

definition KrabkaVersionFeature :: Feature where
  "KrabkaVersionFeature =
     plain_feature KRABKA_VERSION_FEATURE (KRABKA_VERSION_MIN, KRABKA_VERSION_MAX) (\<lambda>_. KRABKA_VERSION_MIN)"

definition feature_registry :: "Feature list" where
  "feature_registry =
     [MetadataVersionFeature, GroupVersionFeature, TransactionVersionFeature, ShareVersionFeature,
      StreamsVersionFeature, ElrVersionFeature, KRaftVersionFeature, KrabkaVersionFeature]"

definition supported_feature_ranges :: "(bytes, int \<times> int) btree_map" where
  "supported_feature_ranges =
     bt_insert METADATA_DOWNGRADE_CAPABILITY_FEATURE
       (METADATA_DOWNGRADE_CAPABILITY_LEVEL, METADATA_DOWNGRADE_CAPABILITY_LEVEL)
       (fold (\<lambda>f. bt_insert (f_name f) (f_supported_range f)) feature_registry [])"

definition feature :: "bytes \<Rightarrow> Feature option" where
  "feature name = find (\<lambda>f. f_name f = name) feature_registry"

definition resolved_level :: "int \<Rightarrow> (bytes, int) btree_map \<Rightarrow> Feature \<Rightarrow> int" where
  "resolved_level bootstrap_mv overrides f =
     (case map_of overrides (f_name f) of Some level \<Rightarrow> level | None \<Rightarrow> f_default_level f bootstrap_mv)"

definition bootstrap_feature_records_with_overrides :: "int \<Rightarrow> (bytes, int) btree_map \<Rightarrow> MetadataRecord list" where
  "bootstrap_feature_records_with_overrides bootstrap_mv overrides =
     List.map_filter
       (\<lambda>f. let level = resolved_level bootstrap_mv overrides f in
            if 0 < level then Some (V1FeatureLevel \<lparr>fl_name = f_name f, fl_level = level\<rparr>) else None)
       (filter (\<lambda>f. f_name f \<noteq> KRAFT_VERSION_FEATURE) feature_registry)"

definition bootstrap_feature_records :: "int \<Rightarrow> MetadataRecord list" where
  "bootstrap_feature_records bootstrap_mv = bootstrap_feature_records_with_overrides bootstrap_mv []"

text \<open>
  The refusal of the dependency check, with the values its message prints: the feature and its level,
  the dependency and its minimum, and the level the dependency has.
\<close>

datatype UnmetDependency = UnmetDependency bytes int bytes int int

fun check_feature_deps :: "(bytes, int) btree_map \<Rightarrow> bytes \<Rightarrow> int \<Rightarrow> (bytes \<times> int) list \<Rightarrow> (UnmetDependency, unit) result" where
  "check_feature_deps resolved name level [] = Ok ()"
| "check_feature_deps resolved name level ((dep, least) # deps) =
     (let have = or_default 0 (map_of resolved dep) in
      if have < least then Err (UnmetDependency name level dep least have)
      else check_feature_deps resolved name level deps)"

fun check_deps_loop ::
  "(bytes, int) btree_map \<Rightarrow> (bytes \<Rightarrow> int \<Rightarrow> (bytes \<times> int) list) \<Rightarrow> (bytes \<times> int) list \<Rightarrow> (UnmetDependency, unit) result" where
  "check_deps_loop resolved deps_of [] = Ok ()"
| "check_deps_loop resolved deps_of ((name, level) # rest) =
     and_then (check_feature_deps resolved name level (deps_of name level)) (\<lambda>_. check_deps_loop resolved deps_of rest)"

definition check_deps ::
  "(bytes, int) btree_map \<Rightarrow> (bytes \<Rightarrow> int \<Rightarrow> (bytes \<times> int) list) \<Rightarrow> (UnmetDependency, unit) result" where
  "check_deps resolved deps_of = check_deps_loop resolved deps_of resolved"

definition feature_dependencies :: "bytes \<Rightarrow> int \<Rightarrow> (bytes \<times> int) list" where
  "feature_dependencies name level = (case feature name of None \<Rightarrow> [] | Some f \<Rightarrow> f_dependencies f level)"

definition validate_feature_dependencies :: "(bytes, int) btree_map \<Rightarrow> (UnmetDependency, unit) result" where
  "validate_feature_dependencies resolved = check_deps resolved feature_dependencies"

definition is_supported_level :: "bytes \<Rightarrow> int \<Rightarrow> bool" where
  "is_supported_level name level \<longleftrightarrow>
     (case feature name of
        None \<Rightarrow> False
      | Some f \<Rightarrow> fst (f_supported_range f) \<le> level \<and> level \<le> snd (f_supported_range f))"

section \<open>Private controller requests\<close>

datatype PrivateRpc = SubmitChange | MetadataFetch | DelegationTokenMutation

definition PrivateRpc_ALL :: "PrivateRpc list" where
  "PrivateRpc_ALL = [SubmitChange, MetadataFetch, DelegationTokenMutation]"

fun PrivateRpc_api_key :: "PrivateRpc \<Rightarrow> int" where
  "PrivateRpc_api_key SubmitChange = 1003"
| "PrivateRpc_api_key MetadataFetch = 1004"
| "PrivateRpc_api_key DelegationTokenMutation = 1005"

definition PrivateRpc_from_api_key :: "int \<Rightarrow> PrivateRpc option" where
  "PrivateRpc_from_api_key api_key =
     (if api_key = 1003 then Some SubmitChange
      else if api_key = 1004 then Some MetadataFetch
      else if api_key = 1005 then Some DelegationTokenMutation
      else None)"

definition max_request_version :: "PrivateRpc \<Rightarrow> int \<Rightarrow> int option" where
  "max_request_version rpc krabka_version =
     (if krabka_version < KRABKA_VERSION_MIN \<or> KRABKA_VERSION_MAX < krabka_version then None
      else Some (case rpc of SubmitChange \<Rightarrow> 0 | MetadataFetch \<Rightarrow> 0 | DelegationTokenMutation \<Rightarrow> 0))"

definition private_rpc_version :: "int \<Rightarrow> int \<Rightarrow> int option" where
  "private_rpc_version api_key krabka_version =
     (case PrivateRpc_from_api_key api_key of
        Some rpc \<Rightarrow> max_request_version rpc krabka_version
      | None \<Rightarrow> None)"

definition KrabkaVersion_finalized :: "MetadataImage \<Rightarrow> int" where
  "KrabkaVersion_finalized img = or_default KRABKA_VERSION_MIN (finalized_feature img KRABKA_VERSION_FEATURE)"

section \<open>The level table\<close>

lemma TABLE_levels: "map mv_level TABLE = [METADATA_VERSION_MIN..METADATA_VERSION_MAX]"
  by (simp add: TABLE_def mv_row_def METADATA_VERSION_MIN_def METADATA_VERSION_MAX_def upto_rec_numeral)

lemma find_by_key:
  assumes "distinct (map key xs)" "x \<in> set xs"
  shows "find (\<lambda>y. key y = key x) xs = Some x"
  using assms
proof (induction xs)
  case (Cons y xs)
  then show ?case
    by (cases "y = x") (auto simp: rev_image_eqI)
qed simp

lemma from_feature_level_row: "m \<in> set TABLE \<Longrightarrow> from_feature_level (mv_level m) = Some m"
  unfolding from_feature_level_def by (rule find_by_key) (simp_all add: TABLE_levels)

lemma from_feature_level_Some: "from_feature_level l = Some m \<Longrightarrow> m \<in> set TABLE \<and> mv_level m = l"
  unfolding from_feature_level_def by (simp add: find_Some_iff) (metis nth_mem)

lemma from_feature_level_dom: "(\<exists>m. from_feature_level l = Some m) \<longleftrightarrow> metadata_version_is_supported_level l"
proof -
  have "(\<exists>m. from_feature_level l = Some m) \<longleftrightarrow> l \<in> set (map mv_level TABLE)"
    using from_feature_level_row from_feature_level_Some by fastforce
  then show ?thesis
    unfolding TABLE_levels by (simp add: metadata_version_is_supported_level_def)
qed

text \<open>A visible ASCII character is not white space, so a string that starts and ends with one is not trimmed.\<close>

definition visible :: "u8 \<Rightarrow> bool" where
  "visible b \<longleftrightarrow> 0x20 < b \<and> b < 0x80"

lemma trim_with_id:
  assumes "s \<noteq> []" "\<forall>w \<in> set ws. w \<noteq> [] \<and> hd w \<noteq> hd s"
  shows "trim_with ws n s = s"
proof -
  have "\<not> starts_with s w" if "w \<in> set ws" for w
    using assms that by (cases s; cases w) (auto simp: starts_with_def)
  then have "find (starts_with s) ws = None"
    by (simp add: find_None_iff)
  then show ?thesis
    by (cases n) simp_all
qed

lemma white_space_ends: "\<forall>w \<in> set white_space. w \<noteq> [] \<and> \<not> visible (hd w) \<and> \<not> visible (last w)"
  by (simp add: white_space_def visible_def)

lemma str_trim_visible:
  assumes "s \<noteq> []" "visible (hd s)" "visible (last s)"
  shows "str_trim s = s"
proof -
  have front: "trim_with white_space (length s) s = s"
    using assms(1,2) white_space_ends by (intro trim_with_id) auto
  have "trim_with (map rev white_space) (length s) (rev s) = rev s"
    using assms white_space_ends by (intro trim_with_id) (auto simp: hd_rev)
  then show ?thesis
    by (simp add: str_trim_def front)
qed

lemma TABLE_names:
  "m \<in> set TABLE \<Longrightarrow> mv_ivn m \<noteq> [] \<and> visible (hd (mv_ivn m)) \<and> visible (last (mv_ivn m)) \<and> 0x2D \<in> set (mv_ivn m)"
  by (simp only: TABLE_def list.set insert_iff empty_iff)
    (elim disjE; simp add: mv_row_def ascii_def of_char_def visible_def)

lemma TABLE_shorts:
  "m \<in> set TABLE \<Longrightarrow> mv_short m \<noteq> [] \<and> visible (hd (mv_short m)) \<and> visible (last (mv_short m)) \<and> 0x2D \<notin> set (mv_short m)"
  by (simp only: TABLE_def list.set insert_iff empty_iff)
    (elim disjE; simp add: mv_row_def ascii_def of_char_def visible_def)

lemma ivns_distinct: "distinct (map mv_ivn TABLE)"
  by (simp add: TABLE_def mv_row_def ascii_def of_char_def)

lemma ivn_round_trip: "m \<in> set TABLE \<Longrightarrow> from_version_string (mv_ivn m) = Some m"
  using TABLE_names[of m] find_by_key[OF ivns_distinct] by (simp add: from_version_string_def str_trim_visible)

lemma max_by_key_spec:
  assumes "xs \<noteq> []"
  shows "\<exists>b \<in> set xs. max_by_key key xs = Some b \<and> (\<forall>x \<in> set xs. key x \<le> key b)"
proof -
  have "\<exists>b \<in> insert a (set ys). fold (\<lambda>x best. case best of None \<Rightarrow> Some x | Some b \<Rightarrow> if key b \<le> key x then Some x else Some b) ys (Some a) = Some b
      \<and> (\<forall>x \<in> insert a (set ys). key x \<le> key b)" for a ys
  proof (induction ys arbitrary: a)
    case (Cons y ys)
    then show ?case
      using Cons.IH[of y] Cons.IH[of a] by (cases "key a \<le> key y") fastforce+
  qed simp
  then show ?thesis
    using assms by (cases xs) (simp_all add: max_by_key_def)
qed

lemma short_resolves:
  assumes "m \<in> set TABLE"
  shows "\<exists>b \<in> set TABLE. from_version_string (mv_short m) = Some b \<and> mv_short b = mv_short m
    \<and> (\<forall>x \<in> set TABLE. mv_short x = mv_short m \<longrightarrow> mv_level x \<le> mv_level b)"
proof -
  have "filter (\<lambda>x. mv_short x = mv_short m) TABLE \<noteq> []"
    using assms by (auto simp: filter_empty_conv)
  from max_by_key_spec[OF this, of mv_level] show ?thesis
    using TABLE_shorts[OF assms] by (auto simp: from_version_string_def str_trim_visible)
qed

section \<open>Crossing a level that changed the record format\<close>

definition format_change :: "int \<Rightarrow> bool" where
  "format_change level \<longleftrightarrow> or_default True (did_metadata_change level)"

lemma changed_between_eq:
  assumes "min a b < I16_MAX"
  shows "metadata_changed_between a b = Some (\<exists>l. min a b < l \<and> l \<le> max a b \<and> format_change l)"
proof -
  have "list_ex format_change [x + 1..y] \<longleftrightarrow> (\<exists>l. x < l \<and> l \<le> y \<and> format_change l)" for x y
    unfolding list_ex_iff by force
  then show ?thesis
    using assms by (cases "a \<le> b") (simp_all add: metadata_changed_between_def flip: format_change_def)
qed

lemma changed_between_compose:
  assumes "a \<le> b" "b \<le> c" "b < I16_MAX"
  shows "metadata_changed_between a c =
    Some (metadata_changed_between a b = Some True \<or> metadata_changed_between b c = Some True)"
proof -
  have "(\<exists>l. a < l \<and> l \<le> c \<and> format_change l) \<longleftrightarrow>
      (\<exists>l. a < l \<and> l \<le> b \<and> format_change l) \<or> (\<exists>l. b < l \<and> l \<le> c \<and> format_change l)"
    using assms(1,2) by (meson le_less_trans less_le_trans not_le order.trans)
  then show ?thesis
    using assms by (simp add: changed_between_eq min.absorb1 max.absorb2)
qed

section \<open>Dependencies\<close>

lemma check_feature_deps_Err:
  "check_feature_deps m n l ds = Err e \<Longrightarrow>
    \<exists>d k. (d, k) \<in> set ds \<and> or_default 0 (map_of m d) < k \<and> e = UnmetDependency n l d k (or_default 0 (map_of m d))"
  by (induction ds) (force simp: Let_def split: if_splits)+

lemma check_feature_deps_Ok:
  "check_feature_deps m n l ds = Ok () \<longleftrightarrow> (\<forall>(d, k) \<in> set ds. k \<le> or_default 0 (map_of m d))"
  by (induction ds) (auto simp: Let_def split: if_splits)

lemma check_deps_loop_Ok:
  "check_deps_loop m deps_of xs = Ok () \<longleftrightarrow> (\<forall>(n, l) \<in> set xs. \<forall>(d, k) \<in> set (deps_of n l). k \<le> or_default 0 (map_of m d))"
  by (induction xs) (auto simp: and_then_eq_Ok check_feature_deps_Ok)

lemma check_deps_loop_Err:
  "check_deps_loop m deps_of xs = Err e \<Longrightarrow>
    \<exists>n l d k. (n, l) \<in> set xs \<and> (d, k) \<in> set (deps_of n l) \<and> or_default 0 (map_of m d) < k
      \<and> e = UnmetDependency n l d k (or_default 0 (map_of m d))"
proof (induction xs)
  case (Cons x xs)
  obtain n l where x: "x = (n, l)"
    by (cases x)
  show ?case
  proof (cases "check_feature_deps m n l (deps_of n l)")
    case (Inr u)
    then have "check_deps_loop m deps_of xs = Err e"
      using Cons.prems by (simp add: x)
    then show ?thesis
      using Cons.IH by fastforce
  next
    case (Inl e')
    then show ?thesis
      using Cons.prems check_feature_deps_Err[of m n l "deps_of n l" e] by (fastforce simp: x)
  qed
qed simp

section \<open>Bootstrap\<close>

lemma registry_names: "distinct (map f_name feature_registry)"
  by (simp add: feature_registry_def MetadataVersionFeature_def GroupVersionFeature_def TransactionVersionFeature_def
      ShareVersionFeature_def StreamsVersionFeature_def ElrVersionFeature_def KRaftVersionFeature_def
      KrabkaVersionFeature_def plain_feature_def feature_names ascii_def of_char_def)

lemma feature_of_registered: "f \<in> set feature_registry \<Longrightarrow> feature (f_name f) = Some f"
  unfolding feature_def by (rule find_by_key[OF registry_names])

lemma map_of_map_filter_key:
  assumes "distinct (map key fs)"
  shows "map_of (List.map_filter (\<lambda>f. if P f then Some (key f, v f) else None) fs) k =
    (case find (\<lambda>f. key f = k) fs of None \<Rightarrow> None | Some f \<Rightarrow> if P f then Some (v f) else None)"
  using assms
proof (induction fs)
  case (Cons f fs)
  have "find (\<lambda>g. key g = key f) fs = None"
    using Cons.prems by (simp add: find_None_iff) (metis image_eqI)
  then show ?case
    using Cons by (auto simp: map_filter_simps)
qed (simp add: map_filter_simps)

lemma keys_map_filter: "distinct (map key fs) \<Longrightarrow> distinct (map fst (List.map_filter (\<lambda>f. if P f then Some (key f, v f) else None) fs))"
  by (induction fs) (auto simp: map_filter_def)

lemma fold_bt_insert:
  assumes "bt_wf m" "distinct (map fst xs)"
  shows "bt_wf (fold (\<lambda>(k, v). bt_insert k v) xs m)
    \<and> map_of (fold (\<lambda>(k, v). bt_insert k v) xs m) k = (case map_of xs k of Some v \<Rightarrow> Some v | None \<Rightarrow> map_of m k)"
  using assms
proof (induction xs arbitrary: m)
  case (Cons x xs)
  obtain a b where x: "x = (a, b)"
    by (cases x)
  have "map_of xs a = None"
    using Cons.prems(2) by (simp add: x map_of_eq_None_iff)
  then show ?case
    using Cons.IH[of "bt_insert a b m"] Cons.prems by (auto simp: x bt_wf_insert map_of_bt_insert split: option.split)
qed simp

definition bootstrap_levels :: "int \<Rightarrow> (bytes, int) btree_map \<Rightarrow> (bytes \<times> int) list" where
  "bootstrap_levels mv overrides =
     List.map_filter (\<lambda>f. if f_name f \<noteq> KRAFT_VERSION_FEATURE \<and> 0 < resolved_level mv overrides f
       then Some (f_name f, resolved_level mv overrides f) else None) feature_registry"

lemma bootstrap_records_eq:
  "bootstrap_feature_records_with_overrides mv overrides =
    map (\<lambda>(n, l). V1FeatureLevel \<lparr>fl_name = n, fl_level = l\<rparr>) (bootstrap_levels mv overrides)"
proof -
  have "List.map_filter (\<lambda>f. let level = resolved_level mv overrides f in
            if 0 < level then Some (V1FeatureLevel \<lparr>fl_name = f_name f, fl_level = level\<rparr>) else None)
       (filter (\<lambda>f. f_name f \<noteq> KRAFT_VERSION_FEATURE) fs) =
    map (\<lambda>(n, l). V1FeatureLevel \<lparr>fl_name = n, fl_level = l\<rparr>)
      (List.map_filter (\<lambda>f. if f_name f \<noteq> KRAFT_VERSION_FEATURE \<and> 0 < resolved_level mv overrides f
         then Some (f_name f, resolved_level mv overrides f) else None) fs)" for fs
    by (induction fs) (auto simp: map_filter_simps Let_def)
  then show ?thesis
    by (simp add: bootstrap_feature_records_with_overrides_def bootstrap_levels_def)
qed

lemma levels_positive: "(n, l) \<in> set (bootstrap_levels mv overrides) \<Longrightarrow> 0 < l"
  by (auto simp: bootstrap_levels_def map_filter_def split: if_splits)

lemma apply_levels:
  "\<forall>(n, l) \<in> set xs. 0 < l \<Longrightarrow>
    mi_feature_levels (fold apply_record (map (\<lambda>(n, l). V1FeatureLevel \<lparr>fl_name = n, fl_level = l\<rparr>) xs) img)
      = fold (\<lambda>(n, l). bt_insert n l) xs (mi_feature_levels img)"
  by (induction xs arbitrary: img) (auto simp: apply_feature_level_def)

lemma bootstrap_image_levels:
  "mi_feature_levels (from_records cid (bootstrap_feature_records_with_overrides mv overrides))
    = fold (\<lambda>(n, l). bt_insert n l) (bootstrap_levels mv overrides) []"
  unfolding from_records_def bootstrap_records_eq
  using apply_levels[of "bootstrap_levels mv overrides" "MetadataImage_new cid"] levels_positive
  by (force simp: MetadataImage_new_def)

lemma bootstrap_image_wf:
  "bt_wf (mi_feature_levels (from_records cid (bootstrap_feature_records_with_overrides mv overrides)))"
  and bootstrap_image_lookup:
  "map_of (mi_feature_levels (from_records cid (bootstrap_feature_records_with_overrides mv overrides))) name
    = (case feature name of
         None \<Rightarrow> None
       | Some f \<Rightarrow> if name \<noteq> KRAFT_VERSION_FEATURE \<and> 0 < resolved_level mv overrides f
                   then Some (resolved_level mv overrides f) else None)"
proof -
  have d: "distinct (map fst (bootstrap_levels mv overrides))"
    unfolding bootstrap_levels_def by (rule keys_map_filter[OF registry_names])
  have e: "bt_wf ([] :: (bytes, int) btree_map)"
    by (simp add: bt_wf_def)
  have n: "f_name f = name" if "feature name = Some f" for f
    using that unfolding feature_def by (simp add: find_Some_iff) blast
  show "bt_wf (mi_feature_levels (from_records cid (bootstrap_feature_records_with_overrides mv overrides)))"
    unfolding bootstrap_image_levels using fold_bt_insert[OF e d] by blast
  have "map_of (bootstrap_levels mv overrides) name = (case feature name of
         None \<Rightarrow> None
       | Some f \<Rightarrow> if f_name f \<noteq> KRAFT_VERSION_FEATURE \<and> 0 < resolved_level mv overrides f
                   then Some (resolved_level mv overrides f) else None)"
    unfolding bootstrap_levels_def feature_def by (rule map_of_map_filter_key[OF registry_names])
  then show "map_of (mi_feature_levels (from_records cid (bootstrap_feature_records_with_overrides mv overrides))) name
    = (case feature name of
         None \<Rightarrow> None
       | Some f \<Rightarrow> if name \<noteq> KRAFT_VERSION_FEATURE \<and> 0 < resolved_level mv overrides f
                   then Some (resolved_level mv overrides f) else None)"
    unfolding bootstrap_image_levels using fold_bt_insert[OF e d, of name] n by (auto split: option.split)
qed


lemma default_levels:
  assumes "f \<in> set feature_registry"
  shows "fst (f_supported_range f) \<le> f_default_level f mv \<and> f_default_level f mv \<le> snd (f_supported_range f)"
    and "mv \<le> mv' \<Longrightarrow> f_default_level f mv \<le> f_default_level f mv'"
  using assms by (auto simp: feature_registry_def MetadataVersionFeature_def GroupVersionFeature_def TransactionVersionFeature_def
      ShareVersionFeature_def StreamsVersionFeature_def ElrVersionFeature_def KRaftVersionFeature_def
      KrabkaVersionFeature_def plain_feature_def feature_levels)

lemma registry_dependencies:
  "f \<in> set feature_registry \<Longrightarrow> f_dependencies f l =
    (if f_name f = ELR_VERSION_FEATURE \<and> 1 \<le> l then [(METADATA_VERSION_FEATURE, ELR_MIN_LEVEL)] else [])"
  by (auto simp: feature_registry_def MetadataVersionFeature_def GroupVersionFeature_def TransactionVersionFeature_def
      ShareVersionFeature_def StreamsVersionFeature_def ElrVersionFeature_def KRaftVersionFeature_def
      KrabkaVersionFeature_def plain_feature_def feature_names ascii_def of_char_def)

lemma feature_dependencies_eq:
  "feature_dependencies n l = (if n = ELR_VERSION_FEATURE \<and> 1 \<le> l then [(METADATA_VERSION_FEATURE, ELR_MIN_LEVEL)] else [])"
proof (cases "feature n")
  case None
  have "feature ELR_VERSION_FEATURE = Some ElrVersionFeature"
    using feature_of_registered[of ElrVersionFeature] by (simp add: feature_registry_def ElrVersionFeature_def plain_feature_def)
  then show ?thesis
    using None by (auto simp: feature_dependencies_def)
next
  case (Some f)
  then have "f_name f = n" "f \<in> set feature_registry"
    unfolding feature_def by (simp_all add: find_Some_iff) (blast, metis nth_mem)
  then show ?thesis
    using registry_dependencies[of f l] Some by (simp add: feature_dependencies_def)
qed

lemma named_features:
  "feature METADATA_VERSION_FEATURE = Some MetadataVersionFeature"
  "feature ELR_VERSION_FEATURE = Some ElrVersionFeature"
  using feature_of_registered[of MetadataVersionFeature] feature_of_registered[of ElrVersionFeature]
  by (simp_all add: feature_registry_def ElrVersionFeature_def MetadataVersionFeature_def plain_feature_def)

lemma names_differ: "METADATA_VERSION_FEATURE \<noteq> KRAFT_VERSION_FEATURE" "ELR_VERSION_FEATURE \<noteq> KRAFT_VERSION_FEATURE"
  by (simp_all add: feature_names ascii_def of_char_def)

lemma bootstrap_dependencies:
  "validate_feature_dependencies (mi_feature_levels (from_records cid (bootstrap_feature_records_with_overrides mv overrides))) = Ok ()
    \<longleftrightarrow> (1 \<le> resolved_level mv overrides ElrVersionFeature \<longrightarrow> ELR_MIN_LEVEL \<le> resolved_level mv overrides MetadataVersionFeature)"
proof -
  let ?m = "mi_feature_levels (from_records cid (bootstrap_feature_records_with_overrides mv overrides))"
  have elr: "(ELR_VERSION_FEATURE, l) \<in> set ?m \<longleftrightarrow> 1 \<le> l \<and> l = resolved_level mv overrides ElrVersionFeature" for l
    using bootstrap_image_lookup[of cid mv overrides ELR_VERSION_FEATURE] named_features names_differ
      bt.in_set_iff[OF bootstrap_image_wf, of ELR_VERSION_FEATURE l cid mv overrides] by auto
  have mv: "or_default 0 (map_of ?m METADATA_VERSION_FEATURE) = max 0 (resolved_level mv overrides MetadataVersionFeature)"
    using bootstrap_image_lookup[of cid mv overrides METADATA_VERSION_FEATURE] named_features names_differ
    by (simp add: or_default_def)
  have "validate_feature_dependencies ?m = Ok () \<longleftrightarrow>
      (\<forall>l. (ELR_VERSION_FEATURE, l) \<in> set ?m \<longrightarrow> 1 \<le> l \<longrightarrow> ELR_MIN_LEVEL \<le> or_default 0 (map_of ?m METADATA_VERSION_FEATURE))"
    unfolding validate_feature_dependencies_def check_deps_def check_deps_loop_Ok feature_dependencies_eq by auto
  then show ?thesis
    unfolding elr mv by (auto simp: ELR_MIN_LEVEL_def)
qed

section \<open>Properties\<close>

definition feature_default :: "bytes \<Rightarrow> int \<Rightarrow> int option" where
  "feature_default name mv = map_option (\<lambda>f. f_default_level f mv) (feature name)"

text \<open>
  C32: a freshly formatted cluster is valid for every release. Replaying the bootstrap records finalizes the
  release default of each feature, never for \<open>kraft.version\<close> and never at level 0; every finalized level
  is one this build supports, \<open>metadata.version\<close> is the release clamped into the supported range, and the
  finalized levels satisfy the dependency check.
\<close>

theorem release_bootstrap_valid:
  "let img = from_records cid (bootstrap_feature_records mv) in
    (\<forall>name level. finalized_feature img name = Some level \<longrightarrow>
      is_supported_level name level \<and> name \<noteq> KRAFT_VERSION_FEATURE \<and> 0 < level
        \<and> feature_default name mv = Some level)
    \<and> finalized_metadata_version img = Some (max METADATA_VERSION_MIN (min METADATA_VERSION_MAX mv))
    \<and> validate_feature_dependencies (mi_feature_levels img) = Ok ()"
proof -
  let ?img = "from_records cid (bootstrap_feature_records mv)"
  have r: "resolved_level mv [] f = f_default_level f mv" for f
    by (simp add: resolved_level_def)
  have look: "finalized_feature ?img name = (case feature name of None \<Rightarrow> None
      | Some f \<Rightarrow> if name \<noteq> KRAFT_VERSION_FEATURE \<and> 0 < f_default_level f mv then Some (f_default_level f mv) else None)" for name
    using bootstrap_image_lookup[of cid mv "[]" name] unfolding bootstrap_feature_records_def r
    by (simp add: finalized_feature_def)
  have "is_supported_level name level \<and> name \<noteq> KRAFT_VERSION_FEATURE \<and> 0 < level \<and> feature_default name mv = Some level"
    if l: "finalized_feature ?img name = Some level" for name level
  proof (cases "feature name")
    case (Some f)
    then have "f \<in> set feature_registry"
      unfolding feature_def by (simp add: find_Some_iff) (metis nth_mem)
    then show ?thesis
      using l Some default_levels(1)[of f mv]
      by (simp add: look is_supported_level_def feature_default_def split: if_splits)
  qed (use l in \<open>simp add: look\<close>)
  moreover have "finalized_metadata_version ?img = Some (max METADATA_VERSION_MIN (min METADATA_VERSION_MAX mv))"
    using look[of METADATA_VERSION_FEATURE] named_features names_differ
    by (simp add: finalized_metadata_version_def finalized_feature_def MetadataVersionFeature_def plain_feature_def METADATA_VERSION_MIN_def)
  moreover have "validate_feature_dependencies (mi_feature_levels ?img) = Ok ()"
    unfolding bootstrap_feature_records_def bootstrap_dependencies r
    by (auto simp: ElrVersionFeature_def MetadataVersionFeature_def plain_feature_def feature_levels)
  ultimately show ?thesis
    unfolding Let_def by blast
qed

theorem release_bootstrap_valid_witness:
  "is_supported_level GROUP_VERSION_FEATURE 1 \<and> finalized_metadata_version (from_records 9 (bootstrap_feature_records 40)) = Some 34"
proof -
  have f: "feature GROUP_VERSION_FEATURE = Some GroupVersionFeature"
    using feature_of_registered[of GroupVersionFeature] by (simp add: feature_registry_def GroupVersionFeature_def plain_feature_def)
  have "GROUP_VERSION_FEATURE \<noteq> KRAFT_VERSION_FEATURE"
    by (simp add: feature_names ascii_def of_char_def)
  then have "finalized_feature (from_records 9 (bootstrap_feature_records 40)) GROUP_VERSION_FEATURE = Some 1"
    using bootstrap_image_lookup[of 9 40 "[]" GROUP_VERSION_FEATURE] f unfolding bootstrap_feature_records_def
    by (simp add: finalized_feature_def resolved_level_def GroupVersionFeature_def plain_feature_def feature_levels)
  then show ?thesis
    using release_bootstrap_valid[of 9 40] by (simp add: Let_def feature_levels)
qed

text \<open>
  The dependency check is exact. It accepts a set of levels if and only if each dependency of each
  feature is met, and a refusal names a feature at its level whose dependency is below the minimum it
  needs.
\<close>

theorem dependency_check_exact:
  "(validate_feature_dependencies levels = Ok () \<longleftrightarrow>
      (\<forall>(n, l) \<in> set levels. \<forall>(d, k) \<in> set (feature_dependencies n l). k \<le> or_default 0 (map_of levels d)))
   \<and> (\<forall>n l d k h. validate_feature_dependencies levels = Err (UnmetDependency n l d k h) \<longrightarrow>
      (n, l) \<in> set levels \<and> (d, k) \<in> set (feature_dependencies n l) \<and> h = or_default 0 (map_of levels d) \<and> h < k)"
  using check_deps_loop_Err[of levels feature_dependencies levels]
  unfolding validate_feature_dependencies_def check_deps_def check_deps_loop_Ok by fastforce

theorem dependency_check_exact_witness:
  "(METADATA_VERSION_FEATURE, 23) \<in> set (feature_dependencies ELR_VERSION_FEATURE 1)"
proof -
  have "validate_feature_dependencies [(ELR_VERSION_FEATURE, 1)] = Err (UnmetDependency ELR_VERSION_FEATURE 1 METADATA_VERSION_FEATURE 23 0)"
    by (simp add: validate_feature_dependencies_def check_deps_def feature_dependencies_eq ELR_MIN_LEVEL_def or_default_def
        feature_names ascii_def of_char_def)
  then show ?thesis
    using dependency_check_exact[of "[(ELR_VERSION_FEATURE, 1)]"] by blast
qed

text \<open>
  The level table is exact and its names round-trip. A level has an entry if and only if it is in the
  supported range, the full name of an entry resolves to that entry, and the short name resolves to the
  highest level of its minor release.
\<close>

theorem metadata_version_table_exact:
  "((\<exists>m. from_feature_level l = Some m) \<longleftrightarrow> metadata_version_is_supported_level l)
   \<and> (\<forall>m. from_feature_level l = Some m \<longrightarrow> mv_level m = l \<and> from_version_string (mv_ivn m) = Some m
      \<and> (\<exists>b. from_version_string (mv_short m) = Some b \<and> mv_short b = mv_short m
          \<and> (\<forall>x \<in> set TABLE. mv_short x = mv_short m \<longrightarrow> mv_level x \<le> mv_level b)))"
proof (intro conjI allI impI)
  fix m assume "from_feature_level l = Some m"
  then have m: "m \<in> set TABLE" "mv_level m = l"
    using from_feature_level_Some by blast+
  show "mv_level m = l" "from_version_string (mv_ivn m) = Some m"
    using m ivn_round_trip by auto
  show "\<exists>b. from_version_string (mv_short m) = Some b \<and> mv_short b = mv_short m
      \<and> (\<forall>x \<in> set TABLE. mv_short x = mv_short m \<longrightarrow> mv_level x \<le> mv_level b)"
    using short_resolves[OF m(1)] by blast
qed (rule from_feature_level_dom)

theorem metadata_version_table_exact_witness:
  "from_version_string (ascii ''3.7-IV4'') = Some (mv_row 19 ''3.7-IV4'' ''3.7'' False)"
proof -
  have "from_feature_level 19 = Some (mv_row 19 ''3.7-IV4'' ''3.7'' False)"
    by (simp add: from_feature_level_def TABLE_def mv_row_def)
  then show ?thesis
    using metadata_version_table_exact[of 19] by (simp add: mv_row_def)
qed

text \<open>
  Whether a move between two levels crosses a change of the record format does not depend on the
  direction and composes along the way; a move that stays at its level crosses none.
\<close>

theorem metadata_change_composes:
  assumes "a \<le> b" and "b \<le> c" and "b < I16_MAX"
  shows "metadata_changed_between a c =
      Some (metadata_changed_between a b = Some True \<or> metadata_changed_between b c = Some True)
    \<and> metadata_changed_between c a = metadata_changed_between a c
    \<and> metadata_changed_between b b = Some False"
  using changed_between_compose[OF assms] changed_between_eq[of c a] changed_between_eq[of a c] changed_between_eq[of b b] assms
  by (auto simp: min.commute max.commute)

theorem metadata_change_composes_witness: "metadata_changed_between 25 29 = metadata_changed_between 29 25"
  using metadata_change_composes[of 25 27 29] by (simp add: I16_MAX_def)

text \<open>At the top of the \<open>i16\<close> range the same comparison overflows, although equal levels never cross a change.\<close>

lemma changed_between_overflows: "metadata_changed_between I16_MAX I16_MAX = None"
  by (simp add: metadata_changed_between_def)

lemma private_rpc_table:
  "private_rpc_version (PrivateRpc_api_key rpc) v = max_request_version rpc v"
  "rpc \<in> set PrivateRpc_ALL"
  by (cases rpc; simp add: private_rpc_version_def PrivateRpc_from_api_key_def PrivateRpc_ALL_def)+

end
