(* ===== verification/KafkaUuid.thy ===== *)
theory KafkaUuid
  imports MetadataTypes Acl Hlc
begin

text \<open>
  Kafka's 128-bit identifier (\<open>ids/src/kafka_uuid.rs\<close>): its halves and order, the choice of random ids,
  and its text form, which is parsed as the base64 decoder of the Java runtime does. The printer calls
  the third-party \<open>base64\<close> crate, which is a parameter with the encoding of RFC 4648 as its contract;
  the parser is written in the repository and is modelled step by step. The hyphenated form is parsed by
  the third-party \<open>uuid\<close> crate, a parameter as well.
\<close>

section \<open>Identifiers\<close>

definition KafkaUuid_from_bits :: "i64 \<Rightarrow> i64 \<Rightarrow> uuid128" where
  "KafkaUuid_from_bits most least = from_u64_pair most least"

definition KafkaUuid_ZERO :: uuid128 where
  "KafkaUuid_ZERO = KafkaUuid_from_bits 0 0"

definition KafkaUuid_ONE :: uuid128 where
  "KafkaUuid_ONE = KafkaUuid_from_bits 0 1"

definition KafkaUuid_RESERVED :: "uuid128 list" where
  "KafkaUuid_RESERVED = [KafkaUuid_ZERO, KafkaUuid_ONE]"

definition most_significant_bits :: "uuid128 \<Rightarrow> i64" where
  "most_significant_bits u = fst (as_u64_pair u)"

definition least_significant_bits :: "uuid128 \<Rightarrow> i64" where
  "least_significant_bits u = snd (as_u64_pair u)"

text \<open>\<open>Uuid::as_bytes\<close> and \<open>Uuid::from_bytes\<close>: big-endian.\<close>

definition as_bytes :: "uuid128 \<Rightarrow> bytes" where
  "as_bytes u = be_bytes 16 u"

definition from_bytes :: "bytes \<Rightarrow> uuid128" where
  "from_bytes bs = be_word bs"

definition is_reserved :: "uuid128 \<Rightarrow> bool" where
  "is_reserved u \<longleftrightarrow> u \<in> set KafkaUuid_RESERVED"

definition is_reserved_directory_id :: "uuid128 \<Rightarrow> bool" where
  "is_reserved_directory_id u \<longleftrightarrow> most_significant_bits u = 0 \<and> sint (least_significant_bits u) < 100"

definition string_starts_with_dash :: "uuid128 \<Rightarrow> bool" where
  "string_starts_with_dash u \<longleftrightarrow> drop_bit 2 (hd (as_bytes u)) = 62"

definition is_rejected_random :: "uuid128 \<Rightarrow> bool" where
  "is_rejected_random u \<longleftrightarrow> is_reserved u \<or> string_starts_with_dash u"

definition is_rejected_directory_id :: "uuid128 \<Rightarrow> bool" where
  "is_rejected_directory_id u \<longleftrightarrow> is_rejected_random u \<or> is_reserved_directory_id u"

text \<open>
  The loop that draws ids. \<open>draws\<close> are the ids that the generator of the \<open>uuid\<close> crate returns; \<open>None\<close>
  means that none of them is accepted and the loop goes on.
\<close>

fun first_accepted :: "uuid128 list \<Rightarrow> (uuid128 \<Rightarrow> bool) \<Rightarrow> uuid128 option" where
  "first_accepted [] rejected = None"
| "first_accepted (candidate # draws) rejected =
     (if \<not> rejected candidate then Some candidate else first_accepted draws rejected)"

definition KafkaUuid_random :: "uuid128 list \<Rightarrow> uuid128 option" where
  "KafkaUuid_random draws = first_accepted draws is_rejected_random"

definition random_directory_id :: "uuid128 list \<Rightarrow> uuid128 option" where
  "random_directory_id draws = first_accepted draws is_rejected_directory_id"

text \<open>The order compares the halves as signed integers, the most significant first.\<close>

definition KafkaUuid_less_eq :: "uuid128 \<Rightarrow> uuid128 \<Rightarrow> bool" where
  "KafkaUuid_less_eq a b \<longleftrightarrow>
     sint (most_significant_bits a) < sint (most_significant_bits b)
     \<or> sint (most_significant_bits a) = sint (most_significant_bits b)
       \<and> sint (least_significant_bits a) \<le> sint (least_significant_bits b)"

section \<open>Parsing\<close>

definition MAX_ENCODED_LEN :: nat where "MAX_ENCODED_LEN = 24"

datatype KafkaUuidError =
    TooLong bytes
  | WrongLength bytes nat
  | TooShort
  | IllegalCharacter u8
  | WrongEndingUnit
  | LastUnitTooShort
  | IncorrectEndingByte nat
  | Hyphenated bytes

text \<open>\<open>str::chars\<close>: the UTF-8 sequences of a string, and the code point of one.\<close>

function str_chars :: "bytes \<Rightarrow> bytes list" where
  "str_chars bs =
     (if bs = [] then []
      else case utf8_step bs of
             Err e \<Rightarrow> []
           | Ok w \<Rightarrow> take w bs # str_chars (drop w bs))"
  by pat_completeness auto
termination
  by (relation "measure length") (auto dest: utf8_step_pos)

declare str_chars.simps [simp del]

fun code_point :: "bytes \<Rightarrow> nat" where
  "code_point [a] = unat a"
| "code_point [a, b] = (unat a - 0xC0) * 64 + (unat b - 0x80)"
| "code_point [a, b, c] = ((unat a - 0xE0) * 64 + (unat b - 0x80)) * 64 + (unat c - 0x80)"
| "code_point [a, b, c, d] = (((unat a - 0xF0) * 64 + (unat b - 0x80)) * 64 + (unat c - 0x80)) * 64 + (unat d - 0x80)"
| "code_point _ = 0"

definition len_utf16 :: "bytes \<Rightarrow> nat" where
  "len_utf16 c = (if code_point c < 0x10000 then 1 else 2)"

fun java_prefix :: "bytes list \<Rightarrow> nat \<Rightarrow> nat \<Rightarrow> bytes" where
  "java_prefix [] units most = []"
| "java_prefix (c # cs) units most =
     (if most < units + len_utf16 c then (if units < most then [0x3F] else [])
      else c @ java_prefix cs (units + len_utf16 c) most)"

definition latin1_bytes :: "bytes \<Rightarrow> bytes" where
  "latin1_bytes s = map (\<lambda>c. if code_point c < 256 then of_nat (code_point c) else 0x3F) (str_chars s)"

definition url_value :: "u8 \<Rightarrow> u32 option" where
  "url_value b =
     (if 0x41 \<le> b \<and> b \<le> 0x5A then Some (ucast (b - 0x41))
      else if 0x61 \<le> b \<and> b \<le> 0x7A then Some (ucast (b - 0x61 + 26))
      else if 0x30 \<le> b \<and> b \<le> 0x39 then Some (ucast (b - 0x30 + 52))
      else if b = 0x2D then Some 62
      else if b = 0x5F then Some 63
      else None)"

text \<open>
  The decoding loop: the bytes that are left, their position, the bits collected so far, the shift of
  the next character, and the output. It returns the last four values but the input.
\<close>

fun url_loop :: "bytes \<Rightarrow> nat \<Rightarrow> u32 \<Rightarrow> int \<Rightarrow> bytes \<Rightarrow> (KafkaUuidError, nat \<times> u32 \<times> int \<times> bytes) result" where
  "url_loop [] sp bits shift_to dst = Ok (sp, bits, shift_to, dst)"
| "url_loop (byte # src) sp bits shift_to dst =
     (case url_value byte of
        Some value \<Rightarrow>
          let bits' = or bits (push_bit (nat shift_to) value); shift' = shift_to - 6 in
          if shift' < 0 then url_loop src (sp + 1) 0 18 (dst @ tl (be_bytes 4 bits'))
          else url_loop src (sp + 1) bits' shift' dst
      | None \<Rightarrow>
          if byte \<noteq> 0x3D then Err (IllegalCharacter byte)
          else
            let (second_pad_missing, sp') =
                  (if shift_to = 6
                   then (case src of [] \<Rightarrow> (True, sp + 1) | nxt # _ \<Rightarrow> (nxt \<noteq> 0x3D, sp + 2))
                   else (False, sp + 1))
            in if second_pad_missing \<or> shift_to = 18 then Err WrongEndingUnit
               else Ok (sp', bits, shift_to, dst))"

text \<open>The last, incomplete unit.\<close>

definition last_unit :: "u32 \<Rightarrow> int \<Rightarrow> bytes \<Rightarrow> (KafkaUuidError, bytes) result" where
  "last_unit bits shift_to dst =
     (if shift_to = 6 then Ok (dst @ [be_bytes 4 bits ! 1])
      else if shift_to = 0 then Ok (dst @ take 2 (drop 1 (be_bytes 4 bits)))
      else if shift_to = 12 then Err LastUnitTooShort
      else Ok dst)"

definition java_url_decode :: "bytes \<Rightarrow> (KafkaUuidError, bytes) result" where
  "java_url_decode src =
     (if length src = 1 then Err TooShort
      else and_then (url_loop src 0 0 18 []) (\<lambda>(sp, bits, shift_to, dst).
        and_then (last_unit bits shift_to dst) (\<lambda>out.
          if sp < length src then Err (IncorrectEndingByte sp) else Ok out)))"

definition KafkaUuid_from_str :: "bytes \<Rightarrow> (KafkaUuidError, uuid128) result" where
  "KafkaUuid_from_str s =
     (if MAX_ENCODED_LEN < sum_list (map len_utf16 (str_chars s)) then Err (TooLong (java_prefix (str_chars s) 0 MAX_ENCODED_LEN))
      else and_then (java_url_decode (latin1_bytes s)) (\<lambda>decoded.
        if length decoded = 16 then Ok (from_bytes decoded) else Err (WrongLength s (length decoded))))"

definition has_hyphenated_shape :: "bytes \<Rightarrow> bool" where
  "has_hyphenated_shape s \<longleftrightarrow> length s = 36 \<and> list_all (\<lambda>i. s ! i = 0x2D) [8, 13, 18, 23]"

text \<open>\<open>try_parse\<close> stands for \<open>Uuid::try_parse\<close>; the error it returns is not kept.\<close>

definition parse_kafka_or_hyphenated :: "(bytes \<Rightarrow> uuid128 option) \<Rightarrow> bytes \<Rightarrow> (KafkaUuidError, uuid128) result" where
  "parse_kafka_or_hyphenated try_parse s =
     (if has_hyphenated_shape s
      then (case try_parse s of Some u \<Rightarrow> Ok u | None \<Rightarrow> Err (Hyphenated s))
      else KafkaUuid_from_str s)"

text \<open>\<open>encode\<close> stands for the encoder \<open>URL_SAFE_NO_PAD\<close> of the \<open>base64\<close> crate.\<close>

definition KafkaUuid_to_string :: "(bytes \<Rightarrow> bytes) \<Rightarrow> uuid128 \<Rightarrow> bytes" where
  "KafkaUuid_to_string encode u = encode (as_bytes u)"

section \<open>The encoding of RFC 4648\<close>

definition url_char :: "u8 \<Rightarrow> u8" where
  "url_char v =
     (if v < 26 then v + 0x41 else if v < 52 then v - 26 + 0x61 else if v < 62 then v - 52 + 0x30
      else if v = 62 then 0x2D else 0x5F)"

text \<open>The four six-bit values of three bytes; the last unit is filled up with zero bits.\<close>

definition sextet0 :: "u8 \<Rightarrow> u8" where "sextet0 a = drop_bit 2 a"
definition sextet1 :: "u8 \<Rightarrow> u8 \<Rightarrow> u8" where "sextet1 a b = or (push_bit 4 (and a 3)) (drop_bit 4 b)"
definition sextet2 :: "u8 \<Rightarrow> u8 \<Rightarrow> u8" where "sextet2 b c = or (push_bit 2 (and b 15)) (drop_bit 6 c)"
definition sextet3 :: "u8 \<Rightarrow> u8" where "sextet3 c = and c 63"

lemmas sextet_defs = sextet0_def sextet1_def sextet2_def sextet3_def

fun base64url :: "bytes \<Rightarrow> bytes" where
  "base64url [] = []"
| "base64url [a] = [url_char (sextet0 a), url_char (sextet1 a 0)]"
| "base64url [a, b] = [url_char (sextet0 a), url_char (sextet1 a b), url_char (sextet2 b 0)]"
| "base64url (a # b # c # bs) =
     url_char (sextet0 a) # url_char (sextet1 a b) # url_char (sextet2 b c) # url_char (sextet3 c) # base64url bs"

declare url_loop.simps(2) [simp del]

section \<open>Characters and groups\<close>

lemma url_value_char_of_nat: "n < 64 \<Longrightarrow> url_value (url_char (of_nat n)) = Some (of_nat n)"
proof -
  have "list_all (\<lambda>n. url_value (url_char (of_nat n)) = Some (of_nat n)) [0..<64]"
    by code_simp
  then show "n < 64 \<Longrightarrow> url_value (url_char (of_nat n)) = Some (of_nat n)"
    by (simp add: list_all_iff)
qed

lemma url_value_char: "v < 64 \<Longrightarrow> url_value (url_char v) = Some (ucast v)"
  using url_value_char_of_nat[of "unat v"] by (simp add: word_less_nat_alt unsigned_of_nat)

lemma url_char_value_of_nat: "n < 256 \<Longrightarrow> url_value (of_nat n) = Some v \<Longrightarrow> v < 64 \<and> url_char (ucast v) = of_nat n"
proof -
  have "list_all (\<lambda>n. case url_value (of_nat n) of None \<Rightarrow> True | Some v \<Rightarrow> v < 64 \<and> url_char (ucast v) = of_nat n) [0..<256]"
    by code_simp
  then show "n < 256 \<Longrightarrow> url_value (of_nat n) = Some v \<Longrightarrow> v < 64 \<and> url_char (ucast v) = of_nat n"
    by (force simp: list_all_iff)
qed

lemma url_char_value: "url_value b = Some v \<Longrightarrow> v < 64 \<and> url_char (ucast v) = b"
  using url_char_value_of_nat[of "unat b" v] unsigned_less[of b, where ?'a = nat] by simp

lemma byte_eqI:
  fixes x y :: u8
  assumes "bit x 0 = bit y 0" "bit x 1 = bit y 1" "bit x 2 = bit y 2" "bit x 3 = bit y 3"
    "bit x 4 = bit y 4" "bit x 5 = bit y 5" "bit x 6 = bit y 6" "bit x 7 = bit y 7"
  shows "x = y"
proof (rule bit_word_eqI)
  fix n assume "n < LENGTH(8)"
  then have "n = 0 \<or> n = 1 \<or> n = 2 \<or> n = 3 \<or> n = 4 \<or> n = 5 \<or> n = 6 \<or> n = 7"
    by auto
  then show "bit x n = bit y n"
    using assms by auto
qed

definition group_bits :: "u32 \<Rightarrow> u32 \<Rightarrow> u32 \<Rightarrow> u32 \<Rightarrow> u32" where
  "group_bits v0 v1 v2 v3 = or (or (or (push_bit 18 v0) (push_bit 12 v1)) (push_bit 6 v2)) v3"

lemma group_bytes:
  "tl (be_bytes 4 (group_bits (ucast (sextet0 a)) (ucast (sextet1 a b)) (ucast (sextet2 b c)) (ucast (sextet3 c)))) = [a, b, c]"
  by (simp add: be_bytes_numeral group_bits_def sextet_defs)
    (intro conjI byte_eqI; auto simp: bit_simps dest: bit_imp_le_length)

lemma loop_group:
  assumes "url_value c0 = Some v0" "url_value c1 = Some v1" "url_value c2 = Some v2" "url_value c3 = Some v3"
  shows "url_loop (c0 # c1 # c2 # c3 # src) sp 0 18 dst = url_loop src (sp + 4) 0 18 (dst @ tl (be_bytes 4 (group_bits v0 v1 v2 v3)))"
  using assms by (simp add: url_loop.simps Let_def group_bits_def ac_simps eval_nat_numeral)

definition pair_bits :: "u32 \<Rightarrow> u32 \<Rightarrow> u32" where
  "pair_bits v0 v1 = or (push_bit 18 v0) (push_bit 12 v1)"

lemma loop_pair:
  assumes "url_value c0 = Some v0" "url_value c1 = Some v1"
  shows "url_loop (c0 # c1 # src) sp 0 18 dst = url_loop src (sp + 2) (pair_bits v0 v1) 6 dst"
  using assms by (simp add: url_loop.simps Let_def pair_bits_def)

lemma loop_triple:
  assumes "url_value c0 = Some v0" "url_value c1 = Some v1" "url_value c2 = Some v2"
  shows "url_loop (c0 # c1 # c2 # src) sp 0 18 dst = url_loop src (sp + 3) (or (pair_bits v0 v1) (push_bit 6 v2)) 0 dst"
  using assms by (simp add: url_loop.simps Let_def pair_bits_def eval_nat_numeral)

lemma sextets: "sextet0 a < 64" "sextet1 a b < 64" "sextet2 b c < 64" "sextet3 c < 64"
proof -
  have six: "w < 64" if "\<not> bit w 6 \<and> \<not> bit w 7" for w :: u8
  proof -
    have "n < 6" if n: "bit w n" for n
    proof (rule ccontr)
      assume "\<not> n < 6"
      then have "n = 6 \<or> n = 7"
        using bit_imp_le_length[OF n] by auto
      then show False
        using n \<open>\<not> bit w 6 \<and> \<not> bit w 7\<close> by auto
    qed
    then have "take_bit 6 w = w"
      by (intro bit_word_eqI) (auto simp: bit_take_bit_iff)
    then have "unat w = take_bit 6 (unat w)"
      by (metis unsigned_take_bit_eq)
    then show ?thesis
      using take_bit_nat_less_exp[of 6 "unat w"] by (simp add: word_less_nat_alt)
  qed
  show "sextet0 a < 64" "sextet1 a b < 64" "sextet2 b c < 64" "sextet3 c < 64"
    by (rule six, auto simp: sextet_defs bit_simps dest: bit_imp_le_length)+
qed

lemmas sextet_values = sextets[THEN url_value_char]

section \<open>Decoding what was encoded\<close>

lemma pair_byte: "be_bytes 4 (pair_bits (ucast (sextet0 a)) (ucast (sextet1 a 0))) ! 1 = a"
  by (simp add: be_bytes_numeral pair_bits_def sextet_defs)
    (rule byte_eqI; auto simp: bit_simps dest: bit_imp_le_length)

lemma triple_bytes:
  "take 2 (drop 1 (be_bytes 4 (or (pair_bits (ucast (sextet0 a)) (ucast (sextet1 a b))) (push_bit 6 (ucast (sextet2 b 0)))))) = [a, b]"
  by (simp add: be_bytes_numeral pair_bits_def sextet_defs)
    (intro conjI byte_eqI; auto simp: bit_simps dest: bit_imp_le_length)

lemma loop_base64url:
  "\<exists>bits shift_to dst'. url_loop (base64url bs) sp 0 18 dst = Ok (sp + length (base64url bs), bits, shift_to, dst')
    \<and> last_unit bits shift_to dst' = Ok (dst @ bs)"
proof (induction bs arbitrary: sp dst rule: base64url.induct)
  case (4 a b c bs)
  have "sp + length (base64url (a # b # c # bs)) = sp + 4 + length (base64url bs)"
    by simp
  then show ?case
    using "4.IH"[of "sp + 4" "dst @ [a, b, c]"]
    by (simp only: base64url.simps loop_group[OF sextet_values] group_bytes append_assoc append_Cons append_Nil)
next
  case (2 a)
  show ?case
    using pair_byte[of a] by (simp add: loop_pair[OF sextet_values(1,2)] last_unit_def)
next
  case (3 a b)
  show ?case
    using triple_bytes[of a b] by (simp add: loop_triple[OF sextet_values(1,2,3)] last_unit_def eval_nat_numeral)
qed (simp add: last_unit_def)

lemma length_base64url: "length (base64url bs) = (4 * length bs + 2) div 3"
  by (induction bs rule: base64url.induct) simp_all

lemma decode_base64url: "java_url_decode (base64url bs) = Ok bs"
proof -
  have "length (base64url bs) \<noteq> 1"
    unfolding length_base64url by presburger
  then show ?thesis
    using loop_base64url[of bs 0 "[]"] by (auto simp: java_url_decode_def)
qed

lemma base64url_inj: "base64url a = base64url b \<Longrightarrow> a = b"
  by (metis decode_base64url sum.inject(2))

section \<open>ASCII strings\<close>

lemma str_chars_ascii: "\<forall>b \<in> set s. b < 0x80 \<Longrightarrow> str_chars s = map (\<lambda>b. [b]) s"
proof (induction s)
  case (Cons b s)
  then have "utf8_step (b # s) = Ok 1"
    by (simp add: utf8_width_def)
  then show ?case
    using Cons by (subst str_chars.simps) simp
qed (simp add: str_chars.simps)

lemma latin1_ascii: "\<forall>b \<in> set s. b < 0x80 \<Longrightarrow> latin1_bytes s = s"
proof -
  have "map (\<lambda>b. if code_point [b] < 256 then of_nat (code_point [b]) else 0x3F) s = s"
    using unsigned_less[of _ , where ?'a = nat and ?'b = 8] by (intro map_idI) simp
  then show "\<forall>b \<in> set s. b < 0x80 \<Longrightarrow> latin1_bytes s = s"
    by (simp add: latin1_bytes_def str_chars_ascii comp_def del: code_point.simps)
qed

lemma utf16_ascii: "\<forall>b \<in> set s. b < 0x80 \<Longrightarrow> sum_list (map len_utf16 (str_chars s)) = length s"
proof -
  have "len_utf16 [b] = 1" for b
    using unsigned_less[of b, where ?'a = nat] by (simp add: len_utf16_def)
  then show "\<forall>b \<in> set s. b < 0x80 \<Longrightarrow> sum_list (map len_utf16 (str_chars s)) = length s"
    by (simp add: str_chars_ascii comp_def sum_list_triv)
qed

lemma url_value_ascii:
  assumes "url_value b = Some v"
  shows "b < 0x80"
proof -
  have "b \<le> 0x7A"
    using assms by (auto simp: url_value_def split: if_splits elim: order_trans)
  then show ?thesis
    by (rule order.strict_trans1) simp
qed

lemma base64url_ascii: "\<forall>b \<in> set (base64url bs). b < 0x80"
  by (induction bs rule: base64url.induct) (simp_all add: sextet_values[THEN url_value_ascii])

lemma as_bytes_inverse: "from_bytes (as_bytes u) = u"
  by (simp add: as_bytes_def from_bytes_def)

lemma length_as_bytes [simp]: "length (as_bytes u) = 16"
  by (simp add: as_bytes_def)

lemma from_bytes_inverse: "length bs = 16 \<Longrightarrow> as_bytes (from_bytes bs) = bs"
  using be_bytes_be_word[of bs, where ?'a = 128] by (simp add: as_bytes_def from_bytes_def)

section \<open>What the parser accepts\<close>

definition url_valued :: "bytes \<Rightarrow> bool" where
  "url_valued cs \<longleftrightarrow> (\<forall>c \<in> set cs. url_value c \<noteq> None)"

definition val :: "u8 \<Rightarrow> u32" where
  "val c = the (url_value c)"

lemma val_Some: "url_valued (c # cs) \<Longrightarrow> url_value c = Some (val c) \<and> url_valued cs"
  by (auto simp: url_valued_def val_def)

text \<open>The bytes of the complete units of a run of characters, and the characters behind them.\<close>

fun units :: "bytes \<Rightarrow> bytes" where
  "units (a # b # c # d # cs) = tl (be_bytes 4 (group_bits (val a) (val b) (val c) (val d))) @ units cs"
| "units _ = []"

fun partial_unit :: "bytes \<Rightarrow> bytes" where
  "partial_unit (a # b # c # d # cs) = partial_unit cs"
| "partial_unit cs = cs"

lemma loop_units:
  "url_valued cs \<Longrightarrow> url_loop (cs @ tail) sp 0 18 dst
    = url_loop (partial_unit cs @ tail) (sp + (length cs - length (partial_unit cs))) 0 18 (dst @ units cs)"
proof (induction cs arbitrary: sp dst rule: units.induct)
  case (1 a b c d cs)
  then have v: "url_value a = Some (val a)" "url_value b = Some (val b)" "url_value c = Some (val c)" "url_value d = Some (val d)"
    "url_valued cs"
    by (auto simp: url_valued_def val_def)
  have le: "length (partial_unit cs) \<le> length cs"
    by (induction cs rule: units.induct) auto
  have "url_loop ((a # b # c # d # cs) @ tail) sp 0 18 dst
      = url_loop (cs @ tail) (sp + 4) 0 18 (dst @ tl (be_bytes 4 (group_bits (val a) (val b) (val c) (val d))))"
    by (simp only: append_Cons loop_group[OF v(1-4)])
  also have "\<dots> = url_loop (partial_unit cs @ tail) (sp + 4 + (length cs - length (partial_unit cs))) 0 18
      ((dst @ tl (be_bytes 4 (group_bits (val a) (val b) (val c) (val d)))) @ units cs)"
    by (rule "1.IH"[OF v(5)])
  finally have "url_loop ((a # b # c # d # cs) @ tail) sp 0 18 dst
      = url_loop (partial_unit cs @ tail) (sp + 4 + (length cs - length (partial_unit cs))) 0 18
      ((dst @ tl (be_bytes 4 (group_bits (val a) (val b) (val c) (val d)))) @ units cs)" .
  moreover have "sp + 4 + (length cs - length (partial_unit cs)) = sp + (length (a # b # c # d # cs) - length (partial_unit cs))"
    using le by simp
  ultimately show ?case
    by (simp only: units.simps partial_unit.simps append_assoc)
qed simp_all

lemma length_units: "length (units cs) = 3 * (length cs div 4)"
proof (induction cs rule: units.induct)
  case (1 a b c d cs)
  have "length (a # b # c # d # cs) div 4 = 1 + length cs div 4"
    by simp
  then show ?case
    using 1 by simp
qed simp_all

lemma length_partial_unit: "length (partial_unit cs) = length cs mod 4"
  by (induction cs rule: units.induct) simp_all

lemma partial_unit_valued: "url_valued cs \<Longrightarrow> url_valued (partial_unit cs)"
  by (induction cs rule: partial_unit.induct) (auto simp: url_valued_def)

text \<open>What the loop does behind the last unit: nothing follows, or something that is not a character.\<close>

definition not_valued :: "bytes \<Rightarrow> bool" where
  "not_valued tail \<longleftrightarrow> (case tail of [] \<Rightarrow> True | c # _ \<Rightarrow> url_value c = None)"

lemma loop_single:
  "url_value c0 = Some v0 \<Longrightarrow> url_loop (c0 # src) sp 0 18 dst = url_loop src (sp + 1) (push_bit 18 v0) 12 dst"
  by (simp add: url_loop.simps Let_def)

lemma decode_run:
  assumes "url_valued cs" "not_valued tail" "java_url_decode (cs @ tail) = Ok out" "length out = 16"
  shows "length cs = 22 \<and> (tail = [] \<or> tail = [0x3D, 0x3D])
    \<and> out = units cs @ [be_bytes 4 (pair_bits (val (partial_unit cs ! 0)) (val (partial_unit cs ! 1))) ! 1]"
proof -
  let ?k = "length cs - length (partial_unit cs)" and ?p = "partial_unit cs"
  have len: "length cs = ?k + length ?p" "?k = 4 * (length cs div 4)"
    using length_partial_unit[of cs] by (simp_all add: minus_mod_eq_mult_div)
  from assms(3) obtain sp bits shift_to dst where
    loop: "url_loop (?p @ tail) ?k 0 18 (units cs) = Ok (sp, bits, shift_to, dst)"
    and out: "last_unit bits shift_to dst = Ok out" and sp: "\<not> sp < length cs + length tail"
    using loop_units[OF assms(1), of tail 0 "[]"]
    by (auto simp: java_url_decode_def and_then_eq_Ok split: if_splits)
  have lt: "length ?p < 4"
    by (simp add: length_partial_unit)
  have pv: "url_valued ?p"
    by (rule partial_unit_valued[OF assms(1)])
  have stop: "url_loop tail s b t d = Ok (sp, bits, shift_to, dst) \<Longrightarrow> bits = b \<and> shift_to = t \<and> dst = d
      \<and> (tail = [] \<and> sp = s \<or> (\<exists>r. tail = 0x3D # r \<and> t \<noteq> 18 \<and> (if t = 6 then \<exists>q. r = 0x3D # q \<and> sp = s + 2 else sp = s + 1)))"
    for s b t d
    using assms(2) by (cases tail) (auto simp: url_loop.simps not_valued_def split: if_splits list.splits)
  consider "?p = []" | a where "?p = [a]" | a b where "?p = [a, b]" | a b c where "?p = [a, b, c]"
    using lt by (cases ?p rule: partial_unit.cases) auto
  moreover have three: "3 * k \<noteq> (16 :: nat)" "3 * k + 2 \<noteq> (16 :: nat)" for k
    by presburger+
  ultimately show ?thesis
  proof cases
    case 1
    then have "shift_to = 18 \<and> dst = units cs"
      using loop stop by simp
    then have "out = units cs"
      using out by (simp add: last_unit_def)
    then show ?thesis
      using assms(4) length_units[of cs] three(1)[of "length cs div 4"] by simp
  next
    case (2 a)
    then have "shift_to = 12"
      using loop pv stop by (simp add: loop_single[OF conjunct1[OF val_Some]])
    then show ?thesis
      using out by (simp add: last_unit_def)
  next
    case (3 a b)
    then have v: "url_value a = Some (val a)" "url_value b = Some (val b)"
      using pv by (auto simp: url_valued_def val_def)
    have r: "url_loop tail (?k + 2) (pair_bits (val a) (val b)) 6 (units cs) = Ok (sp, bits, shift_to, dst)"
      using loop by (simp add: 3 loop_pair[OF v])
    have o: "out = units cs @ [be_bytes 4 (pair_bits (val a) (val b)) ! 1]"
      using out stop[OF r] by (simp add: last_unit_def)
    then have "length cs div 4 = 5" "length cs mod 4 = 2"
      using assms(4) length_units[of cs] length_partial_unit[of cs] 3 by simp_all
    then have "length cs = 22"
      by presburger
    moreover have "tail = [] \<or> tail = [0x3D, 0x3D]"
      using stop[OF r] sp len 3 by auto
    ultimately show ?thesis
      using o 3 by simp
  next
    case (4 a b c)
    then have v: "url_value a = Some (val a)" "url_value b = Some (val b)" "url_value c = Some (val c)"
      using pv by (auto simp: url_valued_def val_def)
    have "shift_to = 0 \<and> dst = units cs"
      using loop stop by (simp add: 4 loop_triple[OF v])
    then have "length out = 3 * (length cs div 4) + 2"
      using out length_units[of cs] by (auto simp: last_unit_def)
    then show ?thesis
      using assms(4) three(2)[of "length cs div 4"] by simp
  qed
qed

text \<open>The last of 22 characters carries two bits; the parser ignores the other four.\<close>

definition clear_unused :: "bytes \<Rightarrow> bytes" where
  "clear_unused cs = take 21 cs @ [url_char (ucast (and (val (cs ! 21)) 48))]"

lemma six_bit: "(v :: u32) < 64 \<Longrightarrow> 6 \<le> n \<Longrightarrow> \<not> bit v n"
proof
  assume v: "v < 64" and n: "6 \<le> n" and b: "bit v n"
  have "unat v < 2 ^ 6"
    using v by (simp add: word_less_nat_alt)
  then have "take_bit 6 (unat v) = unat v"
    by (simp add: take_bit_nat_eq_self_iff)
  then have "take_bit 6 v = v"
    by (metis unsigned_take_bit_eq unsigned_word_eqI)
  then show False
    using b n by (metis bit_take_bit_iff not_less)
qed

lemma group_sextets:
  assumes "v0 < 64" "v1 < 64" "v2 < 64" "v3 < 64"
  shows "\<exists>x y z. tl (be_bytes 4 (group_bits v0 v1 v2 v3)) = [x, y, z]
    \<and> sextet0 x = ucast v0 \<and> sextet1 x y = ucast v1 \<and> sextet2 y z = ucast v2 \<and> sextet3 z = ucast v3"
  using six_bit[OF assms(1)] six_bit[OF assms(2)] six_bit[OF assms(3)] six_bit[OF assms(4)]
  by (simp add: be_bytes_numeral group_bits_def sextet_defs)
    (intro conjI byte_eqI; auto simp: bit_simps)

lemma pair_sextets:
  assumes "v0 < 64" "v1 < 64" and x: "x = be_bytes 4 (pair_bits v0 v1) ! 1"
  shows "sextet0 x = ucast v0 \<and> sextet1 x 0 = ucast (and v1 48)"
  using six_bit[OF assms(1)] six_bit[OF assms(2)] unfolding x
  by (simp add: be_bytes_numeral pair_bits_def sextet_defs)
    (intro conjI byte_eqI; auto simp: bit_simps)

lemma val_char: "url_valued (c # cs) \<Longrightarrow> val c < 64 \<and> url_char (ucast (val c)) = c"
  using url_char_value[of c "val c"] val_Some[of c cs] by simp

lemma base64url_units:
  "url_valued cs \<Longrightarrow> base64url (units cs @ r) = take (length cs - length (partial_unit cs)) cs @ base64url r"
proof (induction cs rule: units.induct)
  case (1 a b c d cs)
  then have v: "val a < 64 \<and> url_char (ucast (val a)) = a" "val b < 64 \<and> url_char (ucast (val b)) = b"
    "val c < 64 \<and> url_char (ucast (val c)) = c" "val d < 64 \<and> url_char (ucast (val d)) = d" "url_valued cs"
    using val_char by (auto simp: url_valued_def)
  then obtain x y z where g: "tl (be_bytes 4 (group_bits (val a) (val b) (val c) (val d))) = [x, y, z]"
    "sextet0 x = ucast (val a)" "sextet1 x y = ucast (val b)" "sextet2 y z = ucast (val c)" "sextet3 z = ucast (val d)"
    using group_sextets[of "val a" "val b" "val c" "val d"] by auto
  have "base64url (units (a # b # c # d # cs) @ r) = a # b # c # d # base64url (units cs @ r)"
    using v by (simp add: g)
  moreover have "length (partial_unit cs) \<le> length cs"
    by (simp add: length_partial_unit)
  ultimately show ?case
    using "1.IH"[OF v(5)] by (simp add: Suc_diff_le)
qed simp_all

lemma partial_unit_drop: "partial_unit cs = drop (length cs - length (partial_unit cs)) cs"
proof (induction cs rule: units.induct)
  case (1 a b c d cs)
  have "length (partial_unit cs) \<le> length cs"
    by (simp add: length_partial_unit)
  then show ?case
    using 1 by (simp add: Suc_diff_le)
qed simp_all

definition decoded22 :: "bytes \<Rightarrow> bytes" where
  "decoded22 cs = units cs @ [be_bytes 4 (pair_bits (val (cs ! 20)) (val (cs ! 21))) ! 1]"

lemma partial_unit22:
  assumes "length cs = 22"
  shows "partial_unit cs = [cs ! 20, cs ! 21]"
proof -
  have "length (partial_unit cs) = 2"
    using assms by (simp add: length_partial_unit)
  then have "partial_unit cs = drop 20 cs"
    using partial_unit_drop[of cs] assms by simp
  then show ?thesis
    using assms Cons_nth_drop_Suc[of 20 cs] Cons_nth_drop_Suc[of 21 cs] by simp
qed

lemma base64url_decoded22:
  assumes "url_valued cs" "length cs = 22"
  shows "base64url (decoded22 cs) = clear_unused cs" "length (decoded22 cs) = 16"
proof -
  have p: "partial_unit cs = [cs ! 20, cs ! 21]"
    by (rule partial_unit22[OF assms(2)])
  have c: "val (cs ! 20) < 64" "url_char (ucast (val (cs ! 20))) = cs ! 20" "val (cs ! 21) < 64"
    using val_char[of "cs ! 20" cs] val_char[of "cs ! 21" cs] assms by (auto simp: url_valued_def)
  have "take 21 cs = take 20 cs @ [cs ! 20]"
    using take_Suc_conv_app_nth[of 20 cs] assms(2) by simp
  then show "base64url (decoded22 cs) = clear_unused cs"
    using pair_sextets[OF c(1,3) refl] c(2) base64url_units[OF assms(1)] assms(2)
    by (simp add: decoded22_def clear_unused_def p)
  show "length (decoded22 cs) = 16"
    using assms(2) by (simp add: decoded22_def length_units)
qed

lemma decode22:
  assumes "url_valued cs" "length cs = 22" "tail = [] \<or> tail = [0x3D, 0x3D]"
  shows "java_url_decode (cs @ tail) = Ok (decoded22 cs)"
proof -
  have p: "partial_unit cs = [cs ! 20, cs ! 21]"
    by (rule partial_unit22[OF assms(2)])
  have v: "url_value (cs ! 20) = Some (val (cs ! 20))" "url_value (cs ! 21) = Some (val (cs ! 21))"
    using assms(1,2) by (simp_all add: url_valued_def val_def)
  have "url_loop (cs @ tail) 0 0 18 [] = url_loop tail 22 (pair_bits (val (cs ! 20)) (val (cs ! 21))) 6 (units cs)"
    using loop_units[OF assms(1), of tail 0 "[]"] assms(2) by (simp add: p loop_pair[OF v])
  moreover have "url_value 0x3D = None"
    by (simp add: url_value_def)
  ultimately show ?thesis
    using assms(2,3) by (auto simp: java_url_decode_def url_loop.simps last_unit_def decoded22_def)
qed

lemma utf8_step_wide:
  assumes "utf8_step s = Ok w" "w \<noteq> 1"
  shows "128 \<le> code_point (take w s)"
proof -
  obtain b bs where s: "s = b # bs"
    using assms(1) by (cases s) auto
  have w: "w = utf8_width b" "w \<noteq> 0"
    using assms(1) by (auto simp: s Let_def and_then_eq_Ok split: if_splits list.splits)
  then obtain c cs where bs: "bs = c # cs" and ok: "second_ok b c" and tl: "utf8_tail (w - 2) 2 cs = Ok ()"
    using assms by (auto simp: s Let_def and_then_eq_Ok split: if_splits list.splits)
  have n: "utf8_tail k m xs = Ok () \<Longrightarrow> k \<le> length xs" for k m xs
    by (induction k m xs rule: utf8_tail.induct) (auto split: if_splits)
  have c: "0x80 \<le> unat c"
    using ok by (auto simp: second_ok_def continuation_def word_le_nat_alt split: if_splits)
  consider "w = 2" | "w = 3" | "w = 4"
    using w assms(2) by (auto simp: utf8_width_def split: if_splits)
  then show ?thesis
  proof cases
    case 1
    then have "0xC2 \<le> unat b"
      using w by (auto simp: utf8_width_def word_le_nat_alt split: if_splits)
    then have "2 * 64 \<le> (unat b - 0xC0) * 64"
      by simp
    then show ?thesis
      using 1 by (simp add: s bs)
  next
    case 2
    then obtain d ds where d: "cs = d # ds"
      using n[OF tl] by (cases cs) auto
    have b: "0xE0 \<le> unat b"
      using 2 w by (auto simp: utf8_width_def word_le_nat_alt split: if_splits)
    have "2 \<le> (unat b - 0xE0) * 64 + (unat c - 0x80)"
    proof (cases "b = 0xE0")
      case True
      then have "0xA0 \<le> unat c"
        using ok by (auto simp: second_ok_def word_le_nat_alt)
      then show ?thesis
        by simp
    next
      case False
      then have "unat b \<noteq> unat (0xE0 :: u8)"
        using unsigned_word_eqI[where ?'a = nat] by blast
      then show ?thesis
        using b by simp
    qed
    then show ?thesis
      using 2 by (simp add: s bs d)
  next
    case 3
    then obtain d e ds where d: "cs = d # e # ds"
      using n[OF tl] by (cases cs; cases "tl cs") auto
    have b: "0xF0 \<le> unat b"
      using 3 w by (auto simp: utf8_width_def word_le_nat_alt split: if_splits)
    have "1 \<le> (unat b - 0xF0) * 64 + (unat c - 0x80)"
    proof (cases "b = 0xF0")
      case True
      then have "0x90 \<le> unat c"
        using ok by (auto simp: second_ok_def word_le_nat_alt)
      then show ?thesis
        by simp
    next
      case False
      then have "unat b \<noteq> unat (0xF0 :: u8)"
        using unsigned_word_eqI[where ?'a = nat] by blast
      then show ?thesis
        using b by simp
    qed
    then show ?thesis
      using 3 by (simp add: s bs d)
  qed
qed

lemma latin1_visible:
  "utf8 s \<Longrightarrow> \<forall>b \<in> set (latin1_bytes s). b < 0x80 \<and> b \<noteq> 0x3F \<Longrightarrow> \<forall>b \<in> set s. b < 0x80"
proof (induction s rule: str_chars.induct)
  case (1 s)
  show ?case
  proof (cases "s = []")
    case False
    then obtain w where w: "utf8_step s = Ok w" "utf8 (drop w s)"
      using "1.prems"(1) utf8_unfold[of s] by blast
    have chars: "str_chars s = take w s # str_chars (drop w s)"
      using False w(1) by (subst str_chars.simps) simp
    then have l: "latin1_bytes s = (if code_point (take w s) < 256 then of_nat (code_point (take w s)) else 0x3F) # latin1_bytes (drop w s)"
      by (simp add: latin1_bytes_def)
    have c: "code_point (take w s) < 256" "(of_nat (code_point (take w s)) :: u8) < 0x80"
      using "1.prems"(2) by (auto simp: l split: if_splits)
    then have "code_point (take w s) < 128"
      by (simp add: word_less_nat_alt unsigned_of_nat take_bit_nat_eq_self)
    then have "w = 1"
      using utf8_step_wide[OF w(1)] by linarith
    moreover obtain b bs where s: "s = b # bs"
      using False by (cases s) auto
    ultimately have "b < 0x80"
      using c(2) by simp
    moreover have "\<forall>b \<in> set (drop w s). b < 0x80"
      using "1.IH"[OF False w(1) w(2)] "1.prems"(2) by (simp add: l)
    ultimately show ?thesis
      using \<open>w = 1\<close> s by simp
  qed simp
qed

section \<open>Order\<close>

lemma halves_inverse: "KafkaUuid_from_bits (most_significant_bits u) (least_significant_bits u) = u"
  by (simp add: KafkaUuid_from_bits_def most_significant_bits_def least_significant_bits_def from_u64_pair_def as_u64_pair_def)
    (rule bit_word_eqI; auto simp: bit_simps)

lemma KafkaUuid_order:
  "KafkaUuid_less_eq a a"
  "KafkaUuid_less_eq a b \<Longrightarrow> KafkaUuid_less_eq b c \<Longrightarrow> KafkaUuid_less_eq a c"
  "KafkaUuid_less_eq a b \<or> KafkaUuid_less_eq b a"
  by (auto simp: KafkaUuid_less_eq_def)

lemma KafkaUuid_order_antisym:
  assumes "KafkaUuid_less_eq a b" "KafkaUuid_less_eq b a"
  shows "a = b"
proof -
  have "sint (most_significant_bits a) = sint (most_significant_bits b)"
    "sint (least_significant_bits a) = sint (least_significant_bits b)"
    using assms unfolding KafkaUuid_less_eq_def by linarith+
  note halves = this[THEN signed_word_eqI]
  show ?thesis
    using halves_inverse[of a] halves_inverse[of b] halves by metis
qed

section \<open>Random identifiers\<close>

lemma first_accepted_Some: "first_accepted draws rejected = Some u \<Longrightarrow> u \<in> set draws \<and> \<not> rejected u"
  by (induction draws) (auto split: if_splits)

lemma first_accepted_ends: "(\<exists>u. first_accepted draws rejected = Some u) \<longleftrightarrow> (\<exists>u \<in> set draws. \<not> rejected u)"
  by (induction draws) auto

lemma starts_with_dash: "string_starts_with_dash u \<longleftrightarrow> hd (base64url (as_bytes u)) = 0x2D"
proof -
  have "length (as_bytes u) = 16"
    by (simp add: as_bytes_def)
  then obtain a b c bs where e: "as_bytes u = a # b # c # bs"
    by (cases "as_bytes u"; cases "tl (as_bytes u)"; cases "tl (tl (as_bytes u))") auto
  have "url_char (sextet0 a) = 0x2D \<longleftrightarrow> sextet0 a = 62"
  proof
    assume "url_char (sextet0 a) = 0x2D"
    then have "url_value 0x2D = Some (ucast (sextet0 a) :: u32)"
      using sextet_values(1)[of a] by simp
    then have "(ucast (sextet0 a) :: u32) = 62"
      by (simp add: url_value_def)
    then have "unat (ucast (sextet0 a) :: u32) = 62"
      by simp
    then have "unat (sextet0 a) = unat (62 :: u8)"
      using unsigned_less[of "sextet0 a", where ?'a = nat] by (simp add: unsigned_ucast_eq take_bit_nat_eq_self)
    then show "sextet0 a = 62"
      by (rule unsigned_word_eqI)
  qed (simp add: url_char_def)
  then show ?thesis
    by (simp add: string_starts_with_dash_def e sextet0_def)
qed

section \<open>Properties\<close>

lemma parse_accepts:
  assumes "utf8 s" "KafkaUuid_from_str s = Ok u"
  shows "\<exists>cs. length cs = 22 \<and> url_valued cs \<and> (s = cs \<or> s = cs @ [0x3D, 0x3D]) \<and> clear_unused cs = base64url (as_bytes u)"
proof -
  obtain out where out: "java_url_decode (latin1_bytes s) = Ok out" "length out = 16" "u = from_bytes out"
    using assms(2) by (auto simp: KafkaUuid_from_str_def and_then_eq_Ok split: if_splits)
  define cs where "cs = takeWhile (\<lambda>c. url_value c \<noteq> None) (latin1_bytes s)"
  define tail where "tail = dropWhile (\<lambda>c. url_value c \<noteq> None) (latin1_bytes s)"
  have split: "latin1_bytes s = cs @ tail"
    by (simp add: cs_def tail_def)
  have v: "url_valued cs"
    by (auto simp: url_valued_def cs_def dest: set_takeWhileD)
  have "not_valued tail"
    by (auto simp: not_valued_def tail_def dropWhile_eq_Cons_conv split: list.split)
  then have run: "length cs = 22" "tail = [] \<or> tail = [0x3D, 0x3D]"
    using decode_run[OF v] out(1,2) by (auto simp: split)
  have "\<forall>b \<in> set cs. b < 0x80 \<and> b \<noteq> 0x3F"
  proof
    fix b assume "b \<in> set cs"
    then obtain w where "url_value b = Some w"
      using v by (auto simp: url_valued_def)
    moreover have "url_value 0x3F = None"
      by (simp add: url_value_def)
    ultimately show "b < 0x80 \<and> b \<noteq> 0x3F"
      using url_value_ascii by auto
  qed
  then have "\<forall>b \<in> set (latin1_bytes s). b < 0x80 \<and> b \<noteq> 0x3F"
    using run(2) by (auto simp: split)
  then have "s = cs @ tail"
    using latin1_ascii[OF latin1_visible[OF assms(1)]] split by simp
  moreover have "as_bytes u = decoded22 cs"
    using out decode22[OF v run] from_bytes_inverse[of out] by (simp add: split)
  ultimately show ?thesis
    using v run base64url_decoded22(1)[OF v run(1)] by auto
qed

lemma parse_reads:
  assumes "\<exists>cs. length cs = 22 \<and> url_valued cs \<and> (s = cs \<or> s = cs @ [0x3D, 0x3D]) \<and> clear_unused cs = base64url (as_bytes u)"
  shows "KafkaUuid_from_str s = Ok u"
proof -
  obtain cs tail where cs: "length cs = 22" "url_valued cs" "clear_unused cs = base64url (as_bytes u)"
    and s: "s = cs @ tail" "tail = [] \<or> tail = [0x3D, 0x3D]"
    using assms by auto
  have a: "\<forall>b \<in> set s. b < 0x80"
    using cs(2) s by (auto simp: url_valued_def dest: url_value_ascii)
  have "decoded22 cs = as_bytes u"
    using base64url_inj[OF trans[OF base64url_decoded22(1)[OF cs(2,1)] cs(3)]] .
  then have "java_url_decode s = Ok (as_bytes u)"
    using decode22[OF cs(2,1) s(2)] s(1) by simp
  moreover have "length s \<le> MAX_ENCODED_LEN"
    using cs(1) s by (auto simp: MAX_ENCODED_LEN_def)
  ultimately show ?thesis
    by (simp add: KafkaUuid_from_str_def utf16_ascii[OF a] latin1_ascii[OF a] as_bytes_inverse)
qed

text \<open>
  C34: the parser accepts exactly 22 characters of the base64url alphabet, with or without \<open>==\<close> behind them,
  and returns the id whose encoding they are once the four unused bits of the last character are cleared.
  No other text is an id.
\<close>

theorem kafka_uuid_parse_exact:
  assumes "utf8 s"
  shows "KafkaUuid_from_str s = Ok u \<longleftrightarrow>
    (\<exists>cs. length cs = 22 \<and> url_valued cs \<and> (s = cs \<or> s = cs @ [0x3D, 0x3D]) \<and> clear_unused cs = base64url (as_bytes u))"
  by (rule iffI[OF parse_accepts[OF assms] parse_reads])

theorem kafka_uuid_parse_exact_witness: "KafkaUuid_from_str (ascii ''AAAAAAAAAAAAAAAAAAAAAf'') = Ok KafkaUuid_ONE"
proof -
  let ?s = "ascii ''AAAAAAAAAAAAAAAAAAAAAf''"
  have "utf8 ?s"
    by (simp add: utf8_eval ascii_def of_char_def)
  moreover have "url_valued ?s"
    by (simp add: url_valued_def url_value_def ascii_def of_char_def)
  moreover have "clear_unused ?s = base64url (as_bytes KafkaUuid_ONE)"
    by code_simp
  moreover have "length ?s = 22"
    by (simp add: ascii_def)
  ultimately show ?thesis
    using kafka_uuid_parse_exact by blast
qed

text \<open>
  Printing and parsing round-trip for every id, whatever encoder prints it, as long as the encoder
  follows RFC 4648. The parser that also takes the hyphenated form reads the printed id the same way.
\<close>

theorem kafka_uuid_round_trip:
  assumes encode: "\<And>bs. encode bs = base64url bs"
  shows "KafkaUuid_from_str (KafkaUuid_to_string encode u) = Ok u
    \<and> parse_kafka_or_hyphenated try_parse (KafkaUuid_to_string encode u) = Ok u"
proof -
  have l: "length (base64url (as_bytes u)) = 22"
    by (simp add: length_base64url)
  have "KafkaUuid_from_str (KafkaUuid_to_string encode u) = Ok u"
    using l by (simp add: KafkaUuid_to_string_def encode KafkaUuid_from_str_def utf16_ascii[OF base64url_ascii]
        latin1_ascii[OF base64url_ascii] decode_base64url MAX_ENCODED_LEN_def as_bytes_inverse)
  then show ?thesis
    using l by (simp add: parse_kafka_or_hyphenated_def has_hyphenated_shape_def KafkaUuid_to_string_def encode)
qed

theorem kafka_uuid_round_trip_witness:
  "KafkaUuid_from_str (KafkaUuid_to_string base64url 77) = Ok 77"
  using kafka_uuid_round_trip[of base64url 77 "\<lambda>_. None"] by simp

text \<open>
  A random id is never a reserved one and its text never starts with a dash; the loop returns as soon as
  the generator draws such an id.
\<close>

theorem random_id_acceptable:
  assumes encode: "\<And>bs. encode bs = base64url bs"
  shows "(\<forall>u. KafkaUuid_random draws = Some u \<longrightarrow> u \<noteq> KafkaUuid_ZERO \<and> u \<noteq> KafkaUuid_ONE \<and> hd (KafkaUuid_to_string encode u) \<noteq> 0x2D)
    \<and> (\<forall>u. random_directory_id draws = Some u \<longrightarrow> \<not> is_reserved_directory_id u \<and> hd (KafkaUuid_to_string encode u) \<noteq> 0x2D)
    \<and> ((\<exists>u \<in> set draws. \<not> is_rejected_random u) \<longrightarrow> (\<exists>u. KafkaUuid_random draws = Some u))"
  using first_accepted_ends[of draws is_rejected_random]
  by (auto dest!: first_accepted_Some simp: starts_with_dash KafkaUuid_random_def random_directory_id_def is_rejected_random_def is_rejected_directory_id_def
      is_reserved_def KafkaUuid_RESERVED_def KafkaUuid_to_string_def encode)

theorem random_id_acceptable_witness: "KafkaUuid_random [KafkaUuid_ONE, 77] \<noteq> Some KafkaUuid_ONE"
  using random_id_acceptable[of base64url "[KafkaUuid_ONE, 77]"] by auto

text \<open>
  The reserved directory ids are not only the hundred lowest: every id whose high half is zero and whose low
  half has its sign bit set counts as reserved.
\<close>

lemma reserved_directory_ids_signed: "is_reserved_directory_id (KafkaUuid_from_bits 0 (-1))"
  by code_simp

end
