(* ===== verification/KraftRecords.thy ===== *)
theory KraftRecords
  imports MetadataTypes TaggedFields
begin

text \<open>
  The records of Kafka's metadata log as the generated modules declare them
  (\<open>protocol/generated/*Record.owned.rs\<close>), with their default values, and the enum that dispatches over
  them (\<open>protocol/src/records/metadata/record.rs\<close>). Integers are words of their width.
\<close>

section \<open>Record bodies\<close>

record KBrokerEndpoint =
  kbe_name :: bytes
  kbe_host :: bytes
  kbe_port :: u16
  kbe_security_protocol :: i16
  kbe_unknown_tagged_fields :: "UnknownTaggedField list"

definition KBrokerEndpoint_default :: KBrokerEndpoint where
  "KBrokerEndpoint_default =
     \<lparr>kbe_name = [], kbe_host = [], kbe_port = 0, kbe_security_protocol = 0,
      kbe_unknown_tagged_fields = []\<rparr>"

record KBrokerFeature =
  kbf_name :: bytes
  kbf_min_supported_version :: i16
  kbf_max_supported_version :: i16
  kbf_unknown_tagged_fields :: "UnknownTaggedField list"

definition KBrokerFeature_default :: KBrokerFeature where
  "KBrokerFeature_default =
     \<lparr>kbf_name = [], kbf_min_supported_version = 0, kbf_max_supported_version = 0,
      kbf_unknown_tagged_fields = []\<rparr>"

record KRegisterBrokerRecord =
  krb_broker_id :: i32
  krb_is_migrating_zk_broker :: bool
  krb_incarnation_id :: Uuid
  krb_broker_epoch :: i64
  krb_end_points :: "KBrokerEndpoint list"
  krb_features :: "KBrokerFeature list"
  krb_rack :: "bytes option"
  krb_fenced :: bool
  krb_in_controlled_shutdown :: bool
  krb_log_dirs :: "Uuid list"
  krb_cordoned_log_dirs :: "Uuid list option"
  krb_unknown_tagged_fields :: "UnknownTaggedField list"

definition KRegisterBrokerRecord_default :: KRegisterBrokerRecord where
  "KRegisterBrokerRecord_default =
     \<lparr>krb_broker_id = 0, krb_is_migrating_zk_broker = False, krb_incarnation_id = Uuid_ZERO,
      krb_broker_epoch = 0, krb_end_points = [], krb_features = [], krb_rack = Some [], krb_fenced =
      True, krb_in_controlled_shutdown = False, krb_log_dirs = [], krb_cordoned_log_dirs = None,
      krb_unknown_tagged_fields = []\<rparr>"

record KUnregisterBrokerRecord =
  kub_broker_id :: i32
  kub_broker_epoch :: i64
  kub_unknown_tagged_fields :: "UnknownTaggedField list"

definition KUnregisterBrokerRecord_default :: KUnregisterBrokerRecord where
  "KUnregisterBrokerRecord_default =
     \<lparr>kub_broker_id = 0, kub_broker_epoch = 0, kub_unknown_tagged_fields = []\<rparr>"

record KTopicRecord =
  kt_name :: bytes
  kt_topic_id :: Uuid
  kt_unknown_tagged_fields :: "UnknownTaggedField list"

definition KTopicRecord_default :: KTopicRecord where
  "KTopicRecord_default =
     \<lparr>kt_name = [], kt_topic_id = Uuid_ZERO, kt_unknown_tagged_fields = []\<rparr>"

record KPartitionRecord =
  kp_partition_id :: i32
  kp_topic_id :: Uuid
  kp_replicas :: "i32 list"
  kp_isr :: "i32 list"
  kp_removing_replicas :: "i32 list"
  kp_adding_replicas :: "i32 list"
  kp_leader :: i32
  kp_leader_epoch :: i32
  kp_partition_epoch :: i32
  kp_directories :: "Uuid list"
  kp_leader_recovery_state :: i8
  kp_eligible_leader_replicas :: "i32 list option"
  kp_last_known_elr :: "i32 list option"
  kp_unknown_tagged_fields :: "UnknownTaggedField list"

definition KPartitionRecord_default :: KPartitionRecord where
  "KPartitionRecord_default =
     \<lparr>kp_partition_id = - 1, kp_topic_id = Uuid_ZERO, kp_replicas = [], kp_isr = [],
      kp_removing_replicas = [], kp_adding_replicas = [], kp_leader = - 1, kp_leader_epoch = - 1,
      kp_partition_epoch = - 1, kp_directories = [], kp_leader_recovery_state = 0,
      kp_eligible_leader_replicas = None, kp_last_known_elr = None, kp_unknown_tagged_fields =
      []\<rparr>"

record KConfigRecord =
  kc_resource_type :: i8
  kc_resource_name :: bytes
  kc_name :: bytes
  kc_value :: "bytes option"
  kc_unknown_tagged_fields :: "UnknownTaggedField list"

definition KConfigRecord_default :: KConfigRecord where
  "KConfigRecord_default =
     \<lparr>kc_resource_type = 0, kc_resource_name = [], kc_name = [], kc_value = Some [],
      kc_unknown_tagged_fields = []\<rparr>"

record KPartitionChangeRecord =
  kpc_partition_id :: i32
  kpc_topic_id :: Uuid
  kpc_isr :: "i32 list option"
  kpc_leader :: i32
  kpc_replicas :: "i32 list option"
  kpc_removing_replicas :: "i32 list option"
  kpc_adding_replicas :: "i32 list option"
  kpc_leader_recovery_state :: i8
  kpc_directories :: "Uuid list option"
  kpc_eligible_leader_replicas :: "i32 list option"
  kpc_last_known_elr :: "i32 list option"
  kpc_unknown_tagged_fields :: "UnknownTaggedField list"

definition KPartitionChangeRecord_default :: KPartitionChangeRecord where
  "KPartitionChangeRecord_default =
     \<lparr>kpc_partition_id = - 1, kpc_topic_id = Uuid_ZERO, kpc_isr = None, kpc_leader = - 2,
      kpc_replicas = None, kpc_removing_replicas = None, kpc_adding_replicas = None,
      kpc_leader_recovery_state = - 1, kpc_directories = None, kpc_eligible_leader_replicas = None,
      kpc_last_known_elr = None, kpc_unknown_tagged_fields = []\<rparr>"

record KRemoveTopicRecord =
  krt_topic_id :: Uuid
  krt_unknown_tagged_fields :: "UnknownTaggedField list"

definition KRemoveTopicRecord_default :: KRemoveTopicRecord where
  "KRemoveTopicRecord_default =
     \<lparr>krt_topic_id = Uuid_ZERO, krt_unknown_tagged_fields = []\<rparr>"

record KDelegationTokenRecord =
  kdt_owner :: bytes
  kdt_requester :: bytes
  kdt_renewers :: "bytes list"
  kdt_issue_timestamp :: i64
  kdt_max_timestamp :: i64
  kdt_expiration_timestamp :: i64
  kdt_token_id :: bytes
  kdt_unknown_tagged_fields :: "UnknownTaggedField list"

definition KDelegationTokenRecord_default :: KDelegationTokenRecord where
  "KDelegationTokenRecord_default =
     \<lparr>kdt_owner = [], kdt_requester = [], kdt_renewers = [], kdt_issue_timestamp = 0,
      kdt_max_timestamp = 0, kdt_expiration_timestamp = 0, kdt_token_id = [], kdt_unknown_tagged_fields
      = []\<rparr>"

record KUserScramCredentialRecord =
  kus_name :: bytes
  kus_mechanism :: i8
  kus_salt :: bytes
  kus_stored_key :: bytes
  kus_server_key :: bytes
  kus_iterations :: i32
  kus_unknown_tagged_fields :: "UnknownTaggedField list"

definition KUserScramCredentialRecord_default :: KUserScramCredentialRecord where
  "KUserScramCredentialRecord_default =
     \<lparr>kus_name = [], kus_mechanism = 0, kus_salt = [], kus_stored_key = [], kus_server_key = [],
      kus_iterations = 0, kus_unknown_tagged_fields = []\<rparr>"

record KFeatureLevelRecord =
  kfl_name :: bytes
  kfl_feature_level :: i16
  kfl_unknown_tagged_fields :: "UnknownTaggedField list"

definition KFeatureLevelRecord_default :: KFeatureLevelRecord where
  "KFeatureLevelRecord_default =
     \<lparr>kfl_name = [], kfl_feature_level = 0, kfl_unknown_tagged_fields = []\<rparr>"

record KEntityData =
  ked_entity_type :: bytes
  ked_entity_name :: "bytes option"
  ked_unknown_tagged_fields :: "UnknownTaggedField list"

definition KEntityData_default :: KEntityData where
  "KEntityData_default =
     \<lparr>ked_entity_type = [], ked_entity_name = Some [], ked_unknown_tagged_fields = []\<rparr>"

record KClientQuotaRecord =
  kcq_entity :: "KEntityData list"
  kcq_key :: bytes
  kcq_value :: f64_bits
  kcq_remove :: bool
  kcq_unknown_tagged_fields :: "UnknownTaggedField list"

definition KClientQuotaRecord_default :: KClientQuotaRecord where
  "KClientQuotaRecord_default =
     \<lparr>kcq_entity = [], kcq_key = [], kcq_value = 0, kcq_remove = False,
      kcq_unknown_tagged_fields = []\<rparr>"

record KProducerIdsRecord =
  kpi_broker_id :: i32
  kpi_broker_epoch :: i64
  kpi_next_producer_id :: i64
  kpi_unknown_tagged_fields :: "UnknownTaggedField list"

definition KProducerIdsRecord_default :: KProducerIdsRecord where
  "KProducerIdsRecord_default =
     \<lparr>kpi_broker_id = 0, kpi_broker_epoch = - 1, kpi_next_producer_id = 0,
      kpi_unknown_tagged_fields = []\<rparr>"

record KBrokerRegistrationChangeRecord =
  kbc_broker_id :: i32
  kbc_broker_epoch :: i64
  kbc_fenced :: i8
  kbc_in_controlled_shutdown :: i8
  kbc_log_dirs :: "Uuid list"
  kbc_cordoned_log_dirs :: "Uuid list option"
  kbc_unknown_tagged_fields :: "UnknownTaggedField list"

definition KBrokerRegistrationChangeRecord_default :: KBrokerRegistrationChangeRecord where
  "KBrokerRegistrationChangeRecord_default =
     \<lparr>kbc_broker_id = 0, kbc_broker_epoch = 0, kbc_fenced = 0, kbc_in_controlled_shutdown = 0,
      kbc_log_dirs = [], kbc_cordoned_log_dirs = None, kbc_unknown_tagged_fields = []\<rparr>"

record KAccessControlEntryRecord =
  kace_id :: Uuid
  kace_resource_type :: i8
  kace_resource_name :: bytes
  kace_pattern_type :: i8
  kace_principal :: bytes
  kace_host :: bytes
  kace_operation :: i8
  kace_permission_type :: i8
  kace_unknown_tagged_fields :: "UnknownTaggedField list"

definition KAccessControlEntryRecord_default :: KAccessControlEntryRecord where
  "KAccessControlEntryRecord_default =
     \<lparr>kace_id = Uuid_ZERO, kace_resource_type = 0, kace_resource_name = [], kace_pattern_type =
      0, kace_principal = [], kace_host = [], kace_operation = 0, kace_permission_type = 0,
      kace_unknown_tagged_fields = []\<rparr>"

record KRemoveAccessControlEntryRecord =
  krace_id :: Uuid
  krace_unknown_tagged_fields :: "UnknownTaggedField list"

definition KRemoveAccessControlEntryRecord_default :: KRemoveAccessControlEntryRecord where
  "KRemoveAccessControlEntryRecord_default =
     \<lparr>krace_id = Uuid_ZERO, krace_unknown_tagged_fields = []\<rparr>"

record KNoOpRecord =
  kno_unknown_tagged_fields :: "UnknownTaggedField list"

definition KNoOpRecord_default :: KNoOpRecord where
  "KNoOpRecord_default =
     \<lparr>kno_unknown_tagged_fields = []\<rparr>"

record KRemoveUserScramCredentialRecord =
  krus_name :: bytes
  krus_mechanism :: i8
  krus_unknown_tagged_fields :: "UnknownTaggedField list"

definition KRemoveUserScramCredentialRecord_default :: KRemoveUserScramCredentialRecord where
  "KRemoveUserScramCredentialRecord_default =
     \<lparr>krus_name = [], krus_mechanism = 0, krus_unknown_tagged_fields = []\<rparr>"

record KBeginTransactionRecord =
  kbt_name :: "bytes option"
  kbt_unknown_tagged_fields :: "UnknownTaggedField list"

definition KBeginTransactionRecord_default :: KBeginTransactionRecord where
  "KBeginTransactionRecord_default =
     \<lparr>kbt_name = None, kbt_unknown_tagged_fields = []\<rparr>"

record KEndTransactionRecord =
  ket_unknown_tagged_fields :: "UnknownTaggedField list"

definition KEndTransactionRecord_default :: KEndTransactionRecord where
  "KEndTransactionRecord_default =
     \<lparr>ket_unknown_tagged_fields = []\<rparr>"

record KRemoveDelegationTokenRecord =
  krd_token_id :: bytes
  krd_unknown_tagged_fields :: "UnknownTaggedField list"

definition KRemoveDelegationTokenRecord_default :: KRemoveDelegationTokenRecord where
  "KRemoveDelegationTokenRecord_default =
     \<lparr>krd_token_id = [], krd_unknown_tagged_fields = []\<rparr>"

record KControllerEndpoint =
  kce_name :: bytes
  kce_host :: bytes
  kce_port :: u16
  kce_security_protocol :: i16
  kce_unknown_tagged_fields :: "UnknownTaggedField list"

definition KControllerEndpoint_default :: KControllerEndpoint where
  "KControllerEndpoint_default =
     \<lparr>kce_name = [], kce_host = [], kce_port = 0, kce_security_protocol = 0,
      kce_unknown_tagged_fields = []\<rparr>"

record KControllerFeature =
  kcf_name :: bytes
  kcf_min_supported_version :: i16
  kcf_max_supported_version :: i16
  kcf_unknown_tagged_fields :: "UnknownTaggedField list"

definition KControllerFeature_default :: KControllerFeature where
  "KControllerFeature_default =
     \<lparr>kcf_name = [], kcf_min_supported_version = 0, kcf_max_supported_version = 0,
      kcf_unknown_tagged_fields = []\<rparr>"

record KRegisterControllerRecord =
  krc_controller_id :: i32
  krc_incarnation_id :: Uuid
  krc_zk_migration_ready :: bool
  krc_end_points :: "KControllerEndpoint list"
  krc_features :: "KControllerFeature list"
  krc_unknown_tagged_fields :: "UnknownTaggedField list"

definition KRegisterControllerRecord_default :: KRegisterControllerRecord where
  "KRegisterControllerRecord_default =
     \<lparr>krc_controller_id = 0, krc_incarnation_id = Uuid_ZERO, krc_zk_migration_ready = False,
      krc_end_points = [], krc_features = [], krc_unknown_tagged_fields = []\<rparr>"

record KUnregisterControllerRecord =
  kuc_controller_id :: i32
  kuc_unknown_tagged_fields :: "UnknownTaggedField list"

definition KUnregisterControllerRecord_default :: KUnregisterControllerRecord where
  "KUnregisterControllerRecord_default =
     \<lparr>kuc_controller_id = 0, kuc_unknown_tagged_fields = []\<rparr>"



section \<open>The dispatch enum\<close>

datatype KraftMetadataRecord =
    KRegisterBroker KRegisterBrokerRecord
  | KUnregisterBroker KUnregisterBrokerRecord
  | KTopic KTopicRecord
  | KPartition KPartitionRecord
  | KConfig KConfigRecord
  | KPartitionChange KPartitionChangeRecord
  | KRemoveTopic KRemoveTopicRecord
  | KDelegationToken KDelegationTokenRecord
  | KUserScramCredential KUserScramCredentialRecord
  | KFeatureLevel KFeatureLevelRecord
  | KClientQuota KClientQuotaRecord
  | KProducerIds KProducerIdsRecord
  | KBrokerRegistrationChange KBrokerRegistrationChangeRecord
  | KAccessControlEntry KAccessControlEntryRecord
  | KRemoveAccessControlEntry KRemoveAccessControlEntryRecord
  | KNoOp KNoOpRecord
  | KRemoveUserScramCredential KRemoveUserScramCredentialRecord
  | KBeginTransaction KBeginTransactionRecord
  | KEndTransaction KEndTransactionRecord
  | KRemoveDelegationToken KRemoveDelegationTokenRecord
  | KRegisterController KRegisterControllerRecord
  | KUnregisterController KUnregisterControllerRecord
  | KUnknown u32 u32 bytes

fun kraft_api_key :: "KraftMetadataRecord \<Rightarrow> u32" where
  "kraft_api_key (KRegisterBroker _) = 0"
| "kraft_api_key (KUnregisterBroker _) = 1"
| "kraft_api_key (KTopic _) = 2"
| "kraft_api_key (KPartition _) = 3"
| "kraft_api_key (KConfig _) = 4"
| "kraft_api_key (KPartitionChange _) = 5"
| "kraft_api_key (KRemoveTopic _) = 9"
| "kraft_api_key (KDelegationToken _) = 10"
| "kraft_api_key (KUserScramCredential _) = 11"
| "kraft_api_key (KFeatureLevel _) = 12"
| "kraft_api_key (KClientQuota _) = 14"
| "kraft_api_key (KProducerIds _) = 15"
| "kraft_api_key (KBrokerRegistrationChange _) = 17"
| "kraft_api_key (KAccessControlEntry _) = 18"
| "kraft_api_key (KRemoveAccessControlEntry _) = 19"
| "kraft_api_key (KNoOp _) = 20"
| "kraft_api_key (KRemoveUserScramCredential _) = 22"
| "kraft_api_key (KBeginTransaction _) = 23"
| "kraft_api_key (KEndTransaction _) = 24"
| "kraft_api_key (KRemoveDelegationToken _) = 26"
| "kraft_api_key (KRegisterController _) = 27"
| "kraft_api_key (KUnregisterController _) = 29"
| "kraft_api_key (KUnknown api_key _ _) = api_key"

end
