(* ===== verification/KraftTranslate.thy ===== *)
theory KraftTranslate
  imports KraftRecords Features KafkaUuid
begin

text \<open>
  The translation between the records of the image and the records of Kafka's metadata log
  (\<open>metadata/src/kraft_translate.rs\<close>). An integer of a log record is a word of its width; the image
  keeps signed integers as \<open>int\<close>, so \<open>of_int\<close> and \<open>sint\<close> stand where the code copies a field. An error
  keeps its variant and its field name, not its message text. \<open>wincode\<close>, which serialises the records
  that Kafka does not have, is a parameter: \<open>ser\<close> returns the bytes or fails, and \<open>de\<close> reads a record
  from the front of a slice.
\<close>

section \<open>Errors and results\<close>

datatype TranslateError =
    NoCounterpart string
  | UnknownTopicId uuid128
  | UnknownTopicName bytes
  | InvalidReference string
  | InvalidValueOf string
  | EncodeFailed
  | DecodeFailed
  | UnknownAclId uuid128
  | UnknownPrivateTag u32
  | UnknownPrivateRecordVersion u32 i16
  | PrivateTagMismatch u32 "u32 option"
  | TrailingPrivateRecordBytes u32 nat

text \<open>Collecting an iterator of results, and \<open>Option::transpose\<close>: the first error wins.\<close>

fun try_map :: "('a \<Rightarrow> ('e, 'b) result) \<Rightarrow> 'a list \<Rightarrow> ('e, 'b list) result" where
  "try_map f [] = Ok []"
| "try_map f (x # xs) = and_then (f x) (\<lambda>y. and_then (try_map f xs) (\<lambda>ys. Ok (y # ys)))"

definition try_option :: "('a \<Rightarrow> ('e, 'b) result) \<Rightarrow> 'a option \<Rightarrow> ('e, 'b option) result" where
  "try_option f v = (case v of None \<Rightarrow> Ok None | Some x \<Rightarrow> and_then (f x) (\<lambda>y. Ok (Some y)))"

definition ok_or :: "'e \<Rightarrow> 'a option \<Rightarrow> ('e, 'a) result" where
  "ok_or e v = (case v of None \<Rightarrow> Err e | Some x \<Rightarrow> Ok x)"

section \<open>Scalars\<close>

definition to_kuuid :: "uuid128 \<Rightarrow> Uuid" where
  "to_kuuid u = Uuid (as_bytes u)"

fun from_kuuid :: "Uuid \<Rightarrow> uuid128" where
  "from_kuuid (Uuid bs) = from_bytes bs"

definition scram_mechanism_to_wire :: "SaslMechanism \<Rightarrow> (TranslateError, i8) result" where
  "scram_mechanism_to_wire m =
     (case m of
        ScramSha256 \<Rightarrow> Ok 1
      | ScramSha512 \<Rightarrow> Ok 2
      | _ \<Rightarrow> Err (InvalidValueOf ''scram mechanism''))"

definition scram_mechanism_from_wire :: "i8 \<Rightarrow> (TranslateError, SaslMechanism) result" where
  "scram_mechanism_from_wire b =
     (if b = 1 then Ok ScramSha256
      else if b = 2 then Ok ScramSha512
      else Err (InvalidValueOf ''scram mechanism''))"

fun resource_type_to_wire :: "ResourceType \<Rightarrow> i8" where
  "resource_type_to_wire ResTopic = 2"
| "resource_type_to_wire ResGroup = 3"
| "resource_type_to_wire ResCluster = 4"
| "resource_type_to_wire ResTransactionalId = 5"
| "resource_type_to_wire ResDelegationToken = 6"
| "resource_type_to_wire ResUser = 7"

definition resource_type_from_wire :: "i8 \<Rightarrow> (TranslateError, ResourceType) result" where
  "resource_type_from_wire b =
     (if b = 2 then Ok ResTopic
      else if b = 3 then Ok ResGroup
      else if b = 4 then Ok ResCluster
      else if b = 5 then Ok ResTransactionalId
      else if b = 6 then Ok ResDelegationToken
      else if b = 7 then Ok ResUser
      else Err (InvalidValueOf ''acl resource_type''))"

fun pattern_type_to_wire :: "PatternType \<Rightarrow> i8" where
  "pattern_type_to_wire Literal = 3"
| "pattern_type_to_wire Prefixed = 4"

definition pattern_type_from_wire :: "i8 \<Rightarrow> (TranslateError, PatternType) result" where
  "pattern_type_from_wire b =
     (if b = 3 then Ok Literal
      else if b = 4 then Ok Prefixed
      else Err (InvalidValueOf ''acl pattern_type''))"

fun operation_to_wire :: "AclOperation \<Rightarrow> i8" where
  "operation_to_wire OpAll = 2"
| "operation_to_wire OpRead = 3"
| "operation_to_wire OpWrite = 4"
| "operation_to_wire OpCreate = 5"
| "operation_to_wire OpDelete = 6"
| "operation_to_wire OpAlter = 7"
| "operation_to_wire OpDescribe = 8"
| "operation_to_wire OpClusterAction = 9"
| "operation_to_wire OpDescribeConfigs = 10"
| "operation_to_wire OpAlterConfigs = 11"
| "operation_to_wire OpIdempotentWrite = 12"
| "operation_to_wire OpCreateTokens = 13"
| "operation_to_wire OpDescribeTokens = 14"
| "operation_to_wire OpTwoPhaseCommit = 15"

definition operation_from_wire :: "i8 \<Rightarrow> (TranslateError, AclOperation) result" where
  "operation_from_wire b =
     (if b = 2 then Ok OpAll
      else if b = 3 then Ok OpRead
      else if b = 4 then Ok OpWrite
      else if b = 5 then Ok OpCreate
      else if b = 6 then Ok OpDelete
      else if b = 7 then Ok OpAlter
      else if b = 8 then Ok OpDescribe
      else if b = 9 then Ok OpClusterAction
      else if b = 10 then Ok OpDescribeConfigs
      else if b = 11 then Ok OpAlterConfigs
      else if b = 12 then Ok OpIdempotentWrite
      else if b = 13 then Ok OpCreateTokens
      else if b = 14 then Ok OpDescribeTokens
      else if b = 15 then Ok OpTwoPhaseCommit
      else Err (InvalidValueOf ''acl operation''))"

fun permission_to_wire :: "PermissionType \<Rightarrow> i8" where
  "permission_to_wire Deny = 2"
| "permission_to_wire Allow = 3"

definition permission_from_wire :: "i8 \<Rightarrow> (TranslateError, PermissionType) result" where
  "permission_from_wire b =
     (if b = 2 then Ok Deny
      else if b = 3 then Ok Allow
      else Err (InvalidValueOf ''acl permission_type''))"

fun protocol_to_wire :: "ListenerProtocol \<Rightarrow> i16" where
  "protocol_to_wire Plaintext = 0"
| "protocol_to_wire Ssl = 1"
| "protocol_to_wire SaslPlaintext = 2"
| "protocol_to_wire SaslSsl = 3"

definition protocol_from_wire :: "i16 \<Rightarrow> (TranslateError, ListenerProtocol) result" where
  "protocol_from_wire b =
     (if b = 0 then Ok Plaintext
      else if b = 1 then Ok Ssl
      else if b = 2 then Ok SaslPlaintext
      else if b = 3 then Ok SaslSsl
      else Err (InvalidValueOf ''security_protocol''))"

text \<open>\<open>state as i8\<close>, and the match that reads it back.\<close>

fun recovery_to_wire :: "LeaderRecoveryState \<Rightarrow> i8" where
  "recovery_to_wire Recovered = 0"
| "recovery_to_wire Recovering = 1"

definition recovery_from_wire :: "i8 \<Rightarrow> string \<Rightarrow> (TranslateError, LeaderRecoveryState) result" where
  "recovery_from_wire b field =
     (if b = 0 then Ok Recovered else if b = 1 then Ok Recovering else Err (InvalidValueOf field))"

definition node_id_to_wire :: "NodeId \<Rightarrow> string \<Rightarrow> (TranslateError, i32) result" where
  "node_id_to_wire n field = (if uint n \<le> I32_MAX then Ok (ucast n) else Err (InvalidValueOf field))"

definition node_id_from_wire :: "i32 \<Rightarrow> string \<Rightarrow> (TranslateError, NodeId) result" where
  "node_id_from_wire v field = (if 0 \<le> sint v then Ok (ucast v) else Err (InvalidValueOf field))"

definition partition_leader_to_wire :: "NodeId \<Rightarrow> string \<Rightarrow> (TranslateError, i32) result" where
  "partition_leader_to_wire leader field =
     (if leader = 0 then Ok (-1)
      else if uint leader \<le> I32_MAX then Ok (ucast leader)
      else Err (InvalidValueOf field))"

definition partition_leader_from_wire :: "i32 \<Rightarrow> string \<Rightarrow> (TranslateError, NodeId) result" where
  "partition_leader_from_wire v field = (if v = -1 then Ok 0 else node_id_from_wire v field)"

text \<open>The closures \<open>cast\<close> and \<open>nodes\<close>.\<close>

definition nodes_to_wire :: "NodeId list \<Rightarrow> string \<Rightarrow> (TranslateError, i32 list) result" where
  "nodes_to_wire ns field = try_map (\<lambda>n. node_id_to_wire n field) ns"

definition nodes_from_wire :: "i32 list \<Rightarrow> string \<Rightarrow> (TranslateError, NodeId list) result" where
  "nodes_from_wire vs field = try_map (\<lambda>v. node_id_from_wire v field) vs"

section \<open>ACL ids\<close>

definition FNV_PRIME :: u64 where
  "FNV_PRIME = 0x100000001b3"

definition fnv_lane :: "bytes \<Rightarrow> u64 \<Rightarrow> u64" where
  "fnv_lane bs h = fold (\<lambda>b h. xor h (ucast b) * FNV_PRIME) bs h"

definition fnv1a_128 :: "bytes \<Rightarrow> bytes" where
  "fnv1a_128 bs =
     be_bytes 8 (fnv_lane bs 0xcbf29ce484222325) @ be_bytes 8 (fnv_lane bs 0x109956638a1bc7e9)"

definition le_len :: "bytes \<Rightarrow> bytes" where
  "le_len s = rev (be_bytes 8 (of_nat (length s) :: u64))"

definition acl_bytes :: "AclEntry \<Rightarrow> bytes" where
  "acl_bytes e =
     [resource_type_to_wire (acl_resource_type e), pattern_type_to_wire (acl_pattern_type e),
      operation_to_wire (acl_operation e), permission_to_wire (acl_permission_type e)]
     @ concat (map (\<lambda>s. le_len s @ s) [acl_resource_name e, acl_principal e, acl_host e])"

definition acl_id :: "AclEntry \<Rightarrow> Uuid" where
  "acl_id e = Uuid (fnv1a_128 (acl_bytes e))"

section \<open>Strings\<close>

text \<open>\<open>NodeId::to_string\<close> and \<open>str::parse::<u64>()\<close>: decimal, with an optional plus sign when read.\<close>

fun decimal :: "nat \<Rightarrow> bytes" where
  "decimal n = (if n < 10 then [of_nat (48 + n)] else decimal (n div 10) @ [of_nat (48 + n mod 10)])"

declare decimal.simps [simp del]

definition parse_u64 :: "bytes \<Rightarrow> u64 option" where
  "parse_u64 s =
     (let ds = (if s \<noteq> [] \<and> hd s = 0x2B then tl s else s)
      in if ds \<noteq> [] \<and> list_all is_digit ds \<and> digits_value ds < 2 ^ 64 then Some (of_int (digits_value ds))
         else None)"

text \<open>\<open>Display\<close> and \<open>FromStr\<close> of \<open>KafkaPrincipal\<close>; \<open>str::split_once(':')\<close> splits at the first colon.\<close>

definition principal_to_string :: "KafkaPrincipal \<Rightarrow> bytes" where
  "principal_to_string p = kp_principal_type p @ [0x3A] @ kp_name p"

fun split_once :: "u8 \<Rightarrow> bytes \<Rightarrow> (bytes \<times> bytes) option" where
  "split_once c [] = None"
| "split_once c (b # bs) =
     (if b = c then Some ([], bs) else map_option (\<lambda>(l, r). (b # l, r)) (split_once c bs))"

definition principal_from_str :: "bytes \<Rightarrow> KafkaPrincipal option" where
  "principal_from_str s =
     map_option (\<lambda>(pt, n). \<lparr>kp_principal_type = pt, kp_name = n\<rparr>) (split_once 0x3A s)"

section \<open>Records to the log\<close>

definition feature_range_to_kraft :: "bytes \<times> int \<times> int \<Rightarrow> KBrokerFeature" where
  "feature_range_to_kraft f = (case f of (name, lo, hi) \<Rightarrow>
     KBrokerFeature_default\<lparr>kbf_name := name, kbf_min_supported_version := of_int lo,
       kbf_max_supported_version := of_int hi\<rparr>)"

definition register_broker_to_kraft :: "BrokerRegistrationRecord \<Rightarrow> (TranslateError, KRegisterBrokerRecord) result" where
  "register_broker_to_kraft b =
     (let end_points =
            (if br_endpoints b = []
             then [KBrokerEndpoint_default\<lparr>kbe_host := br_host b, kbe_port := br_port b\<rparr>]
             else map (\<lambda>e. KBrokerEndpoint_default\<lparr>kbe_name := be_name e, kbe_host := be_host e,
                             kbe_port := be_port e, kbe_security_protocol := protocol_to_wire (be_protocol e)\<rparr>)
                    (br_endpoints b))
      in and_then (node_id_to_wire (br_node_id b) ''broker_id'') (\<lambda>broker_id.
           Ok (KRegisterBrokerRecord_default\<lparr>krb_broker_id := broker_id, krb_rack := br_rack b,
             krb_end_points := end_points, krb_features := map feature_range_to_kraft (br_features b),
             krb_log_dirs := map to_kuuid (br_log_dirs b),
             krb_cordoned_log_dirs := map_option (map to_kuuid) (br_cordoned_log_dirs b),
             krb_broker_epoch := of_int (br_broker_epoch b), krb_incarnation_id := to_kuuid (br_incarnation_id b),
             krb_fenced := br_fenced b, krb_in_controlled_shutdown := br_in_controlled_shutdown b\<rparr>)))"

definition register_controller_to_kraft ::
    "ControllerRegistrationRecord \<Rightarrow> (TranslateError, KRegisterControllerRecord) result" where
  "register_controller_to_kraft c =
     and_then (node_id_to_wire (cr_node_id c) ''controller_id'') (\<lambda>controller_id.
       Ok (KRegisterControllerRecord_default\<lparr>krc_controller_id := controller_id,
         krc_incarnation_id := to_kuuid (cr_incarnation_id c),
         krc_zk_migration_ready := cr_zk_migration_ready c,
         krc_end_points := map (\<lambda>e. KControllerEndpoint_default\<lparr>kce_name := be_name e, kce_host := be_host e,
             kce_port := be_port e, kce_security_protocol := protocol_to_wire (be_protocol e)\<rparr>) (cr_endpoints c),
         krc_features := map (\<lambda>(name, lo, hi). KControllerFeature_default\<lparr>kcf_name := name,
             kcf_min_supported_version := of_int lo, kcf_max_supported_version := of_int hi\<rparr>) (cr_features c)\<rparr>))"

definition broker_registration_change_to_kraft ::
    "BrokerRegistrationChangeRecord \<Rightarrow> (TranslateError, KBrokerRegistrationChangeRecord) result" where
  "broker_registration_change_to_kraft c =
     and_then (node_id_to_wire (brc_node_id c) ''broker_id'') (\<lambda>broker_id.
       Ok (KBrokerRegistrationChangeRecord_default\<lparr>kbc_broker_id := broker_id,
         kbc_broker_epoch := of_int (brc_broker_epoch c),
         kbc_fenced := of_int (FencingChange_wire_value (brc_fenced c)),
         kbc_in_controlled_shutdown := (if brc_in_controlled_shutdown c then 1 else 0),
         kbc_log_dirs := map to_kuuid (brc_log_dirs c),
         kbc_cordoned_log_dirs := map_option (map to_kuuid) (brc_cordoned_log_dirs c)\<rparr>))"

definition broker_registration_change_version :: "KBrokerRegistrationChangeRecord \<Rightarrow> i16" where
  "broker_registration_change_version c =
     (if kbc_cordoned_log_dirs c \<noteq> None then 3
      else if kbc_log_dirs c \<noteq> [] then 2
      else if kbc_in_controlled_shutdown c \<noteq> 0 then 1 else 0)"

definition partition_to_kraft ::
    "PartitionRecord \<Rightarrow> uuid128 \<Rightarrow> MetadataImage \<Rightarrow> (TranslateError, KPartitionRecord) result" where
  "partition_to_kraft p topic_id img =
     (let (eligible, last_known) = partition_elr img (pr_topic p) (pr_partition p);
          has_elr = (eligible \<noteq> [] \<or> last_known \<noteq> [])
      in and_then (nodes_to_wire (pr_replicas p) ''partition replicas'') (\<lambda>replicas.
         and_then (nodes_to_wire (pr_isr p) ''partition isr'') (\<lambda>isr.
         and_then (nodes_to_wire (pr_removing_replicas p) ''partition removing_replicas'') (\<lambda>removing.
         and_then (nodes_to_wire (pr_adding_replicas p) ''partition adding_replicas'') (\<lambda>adding.
         and_then (partition_leader_to_wire (pr_leader p) ''partition leader'') (\<lambda>leader.
         and_then (try_option (\<lambda>ns. nodes_to_wire ns ''eligible leader replica'')
                     (if has_elr then Some eligible else None)) (\<lambda>eligible_wire.
         and_then (try_option (\<lambda>ns. nodes_to_wire ns ''last known eligible leader replica'')
                     (if has_elr then Some last_known else None)) (\<lambda>last_known_wire.
           Ok (KPartitionRecord_default\<lparr>kp_partition_id := of_int (pr_partition p), kp_topic_id := to_kuuid topic_id,
             kp_replicas := replicas, kp_isr := isr, kp_removing_replicas := removing, kp_adding_replicas := adding,
             kp_leader := leader, kp_leader_epoch := of_int (pr_leader_epoch p),
             kp_partition_epoch := of_int (pr_partition_epoch p),
             kp_directories := map to_kuuid (pr_directories p),
             kp_leader_recovery_state := recovery_to_wire (leader_recovery_state img (pr_topic p) (pr_partition p)),
             kp_eligible_leader_replicas := eligible_wire, kp_last_known_elr := last_known_wire\<rparr>)))))))))"

text \<open>\<open>Vec::resize\<close>.\<close>

definition resize :: "nat \<Rightarrow> 'a \<Rightarrow> 'a list \<Rightarrow> 'a list" where
  "resize n d xs = take n xs @ replicate (n - length xs) d"

definition partition_dir_assignment_to_kraft ::
    "PartitionDirAssignmentRecord \<Rightarrow> MetadataImage \<Rightarrow> (TranslateError, KPartitionChangeRecord) result" where
  "partition_dir_assignment_to_kraft r img =
     and_then (ok_or (UnknownTopicName (pda_topic r)) (image_topic img (pda_topic r))) (\<lambda>topic.
     and_then (ok_or (InvalidReference ''partition directory assignment'')
                 (image_partition img (pda_topic r) (pda_partition r))) (\<lambda>pr.
     and_then (ok_or (InvalidReference ''partition directory assignment'')
                 (position (\<lambda>n. n = pda_replica r) (pr_replicas pr))) (\<lambda>slot.
       let dirs = resize (length (pr_replicas pr)) MIGRATING (pr_directories pr);
           directories = (if slot < length dirs then dirs[slot := pda_directory r] else dirs)
       in Ok (KPartitionChangeRecord_default\<lparr>kpc_partition_id := of_int (pda_partition r),
            kpc_topic_id := to_kuuid (tr_topic_id topic), kpc_directories := Some (map to_kuuid directories)\<rparr>))))"

definition partition_state_to_kraft ::
    "MetadataImage \<Rightarrow> bytes \<Rightarrow> int \<Rightarrow> i8 \<Rightarrow> NodeId list option \<Rightarrow> NodeId list option
      \<Rightarrow> (TranslateError, KPartitionChangeRecord) result" where
  "partition_state_to_kraft img topic idx recovery eligible last_known =
     and_then (ok_or (UnknownTopicName topic) (image_topic img topic)) (\<lambda>t.
     and_then (try_option (\<lambda>ns. nodes_to_wire ns ''eligible leader replica'') eligible) (\<lambda>eligible_wire.
     and_then (try_option (\<lambda>ns. nodes_to_wire ns ''last known eligible leader replica'') last_known) (\<lambda>last_known_wire.
       Ok (KPartitionChangeRecord_default\<lparr>kpc_partition_id := of_int idx,
         kpc_topic_id := to_kuuid (tr_topic_id t), kpc_leader_recovery_state := recovery,
         kpc_eligible_leader_replicas := eligible_wire, kpc_last_known_elr := last_known_wire\<rparr>))))"

text \<open>The \<open>if update != current { change.f = Some(cast(update)?) }\<close> of \<open>partition_update_to_kraft\<close>.\<close>

definition changed_nodes :: "NodeId list \<Rightarrow> NodeId list \<Rightarrow> string \<Rightarrow> (TranslateError, i32 list option) result" where
  "changed_nodes updated current field =
     (if updated \<noteq> current then and_then (nodes_to_wire updated field) (\<lambda>vs. Ok (Some vs)) else Ok None)"

definition partition_update_to_kraft ::
    "PartitionUpdateRecord \<Rightarrow> MetadataImage \<Rightarrow> (TranslateError, KPartitionChangeRecord) result" where
  "partition_update_to_kraft u img =
     (let p = pu_partition u in
      and_then (ok_or (InvalidReference ''partition update'') (image_partition img (pr_topic p) (pr_partition p))) (\<lambda>current.
      and_then (partition_state_to_kraft img (pr_topic p) (pr_partition p)
                  (case pu_recovery_state u of None \<Rightarrow> -1 | Some state \<Rightarrow> recovery_to_wire state)
                  (pu_eligible_leader_replicas u) (pu_last_known_elr u)) (\<lambda>change.
      and_then (changed_nodes (pr_replicas p) (pr_replicas current) ''partition replicas'') (\<lambda>replicas.
      and_then (changed_nodes (pr_isr p) (pr_isr current) ''partition isr'') (\<lambda>isr.
      and_then (changed_nodes (pr_removing_replicas p) (pr_removing_replicas current) ''partition removing replicas'') (\<lambda>removing.
      and_then (changed_nodes (pr_adding_replicas p) (pr_adding_replicas current) ''partition adding replicas'') (\<lambda>adding.
      and_then (if pr_leader p \<noteq> pr_leader current
                then partition_leader_to_wire (pr_leader p) ''partition leader'' else Ok (kpc_leader change)) (\<lambda>leader.
        Ok (change\<lparr>kpc_replicas := replicas, kpc_isr := isr, kpc_removing_replicas := removing,
              kpc_adding_replicas := adding, kpc_leader := leader,
              kpc_directories := (if pr_directories p \<noteq> pr_directories current
                                  then Some (map to_kuuid (pr_directories p)) else kpc_directories change)\<rparr>)))))))))"

definition client_quota_to_kraft :: "ClientQuotaRecord \<Rightarrow> KClientQuotaRecord" where
  "client_quota_to_kraft q =
     (let (v, remove) = (case cq_config_value q of None \<Rightarrow> (0, True) | Some v \<Rightarrow> (v, False))
      in KClientQuotaRecord_default\<lparr>
           kcq_entity := map (\<lambda>e. KEntityData_default\<lparr>ked_entity_type := qe_entity_type e,
             ked_entity_name := qe_entity_name e\<rparr>) (cq_entity q),
           kcq_key := cq_config_key q, kcq_value := v, kcq_remove := remove\<rparr>)"

definition delegation_token_to_kraft :: "DelegationTokenRecord \<Rightarrow> KDelegationTokenRecord" where
  "delegation_token_to_kraft t =
     KDelegationTokenRecord_default\<lparr>kdt_owner := principal_to_string (dtr_owner t),
       kdt_requester := principal_to_string (dtr_requester t),
       kdt_renewers := map principal_to_string (dtr_renewers t),
       kdt_issue_timestamp := of_int (dtr_issue_timestamp_ms t), kdt_max_timestamp := of_int (dtr_max_timestamp_ms t),
       kdt_expiration_timestamp := of_int (dtr_expiry_timestamp_ms t), kdt_token_id := dtr_token_id t\<rparr>"

text \<open>
  The fan-out of a whole configuration: one record for each key that is set, one tombstone for each
  key of the image that is not.
\<close>

definition config_record :: "i8 \<Rightarrow> bytes \<Rightarrow> bytes \<Rightarrow> bytes option \<Rightarrow> KraftMetadataRecord" where
  "config_record resource_type resource_name name v =
     KConfig (KConfigRecord_default\<lparr>kc_resource_type := resource_type, kc_resource_name := resource_name,
       kc_name := name, kc_value := v\<rparr>)"

definition config_fan_out ::
    "i8 \<Rightarrow> bytes \<Rightarrow> (bytes, bytes) btree_map \<Rightarrow> (bytes, bytes) btree_map \<Rightarrow> KraftMetadataRecord list" where
  "config_fan_out resource_type resource_name configs old =
     map (\<lambda>(key, v). config_record resource_type resource_name key (Some v)) configs
     @ map (\<lambda>key. config_record resource_type resource_name key None)
         (filter (\<lambda>key. map_of configs key = None) (map fst old))"

definition topic_config_to_kraft :: "TopicConfigRecord \<Rightarrow> MetadataImage \<Rightarrow> KraftMetadataRecord list" where
  "topic_config_to_kraft c img =
     config_fan_out 2 (tc_topic c) (tc_overrides c) (or_default [] (topic_config img (tc_topic c)))"

definition group_config_to_kraft :: "GroupConfigRecord \<Rightarrow> MetadataImage \<Rightarrow> KraftMetadataRecord list" where
  "group_config_to_kraft c img =
     config_fan_out 32 (gc_group_id c) (gc_configs c) (or_default [] (group_config img (gc_group_id c)))"

definition client_metrics_config_to_kraft :: "ClientMetricsConfigRecord \<Rightarrow> MetadataImage \<Rightarrow> KraftMetadataRecord list" where
  "client_metrics_config_to_kraft c img =
     config_fan_out 16 (cm_name c) (cm_configs c) (or_default [] (client_metrics_config img (cm_name c)))"

definition delete_acl_to_kraft :: "AclEntryFilter \<Rightarrow> MetadataImage \<Rightarrow> KraftMetadataRecord list" where
  "delete_acl_to_kraft f img =
     map (\<lambda>e. KRemoveAccessControlEntry (KRemoveAccessControlEntryRecord_default\<lparr>krace_id := acl_id e\<rparr>))
       (filter (filter_matches f) (all_acls img))"

definition acl_to_kraft :: "AclEntry \<Rightarrow> KraftMetadataRecord" where
  "acl_to_kraft e =
     KAccessControlEntry (KAccessControlEntryRecord_default\<lparr>kace_id := acl_id e,
       kace_resource_type := resource_type_to_wire (acl_resource_type e), kace_resource_name := acl_resource_name e,
       kace_pattern_type := pattern_type_to_wire (acl_pattern_type e), kace_principal := acl_principal e,
       kace_host := acl_host e, kace_operation := operation_to_wire (acl_operation e),
       kace_permission_type := permission_to_wire (acl_permission_type e)\<rparr>)"

text \<open>The two arms of \<open>scram_to_kraft\<close>.\<close>

definition scram_to_kraft :: "ScramCredentialRecord \<Rightarrow> (TranslateError, KraftMetadataRecord list) result" where
  "scram_to_kraft r =
     and_then (if uint (scr_iterations r) \<le> I32_MAX then Ok (scr_iterations r)
               else Err (InvalidValueOf ''scram iterations'')) (\<lambda>iterations.
     and_then (scram_mechanism_to_wire (scr_mechanism r)) (\<lambda>mechanism.
       Ok [KUserScramCredential (KUserScramCredentialRecord_default\<lparr>kus_name := scr_user r,
             kus_mechanism := mechanism, kus_salt := scr_salt r, kus_stored_key := scr_stored_key r,
             kus_server_key := scr_server_key r, kus_iterations := iterations\<rparr>)]))"

definition delete_scram_to_kraft :: "DeleteScramCredentialRecord \<Rightarrow> (TranslateError, KraftMetadataRecord list) result" where
  "delete_scram_to_kraft r =
     and_then (scram_mechanism_to_wire (dsc_mechanism r)) (\<lambda>mechanism.
       Ok [KRemoveUserScramCredential (KRemoveUserScramCredentialRecord_default\<lparr>krus_name := dsc_user r,
             krus_mechanism := mechanism\<rparr>)])"

section \<open>The private carrier\<close>

definition PRIVATE_FEATURES_EPOCH_TAG :: u32 where "PRIVATE_FEATURES_EPOCH_TAG = 1001"
definition PRIVATE_PARTITION_OFFSET_ADVANCE_TAG :: u32 where "PRIVATE_PARTITION_OFFSET_ADVANCE_TAG = 1003"
definition PRIVATE_TOPIC_FREEZE_TAG :: u32 where "PRIVATE_TOPIC_FREEZE_TAG = 1004"
definition PRIVATE_BREAK_GLASS_PROPOSAL_TAG :: u32 where "PRIVATE_BREAK_GLASS_PROPOSAL_TAG = 1005"
definition PRIVATE_DELETE_BREAK_GLASS_PROPOSAL_TAG :: u32 where "PRIVATE_DELETE_BREAK_GLASS_PROPOSAL_TAG = 1006"
definition PRIVATE_TAG_FLOOR :: u32 where "PRIVATE_TAG_FLOOR = 1001"

definition PRIVATE_TAGS :: "u32 list" where
  "PRIVATE_TAGS = [PRIVATE_FEATURES_EPOCH_TAG, PRIVATE_PARTITION_OFFSET_ADVANCE_TAG, PRIVATE_TOPIC_FREEZE_TAG,
     PRIVATE_BREAK_GLASS_PROPOSAL_TAG, PRIVATE_DELETE_BREAK_GLASS_PROPOSAL_TAG]"

definition PRIVATE_RECORD_VERSION :: i16 where "PRIVATE_RECORD_VERSION = 0"

fun private_tag :: "MetadataRecord \<Rightarrow> u32 option" where
  "private_tag (V1FeaturesEpoch _) = Some PRIVATE_FEATURES_EPOCH_TAG"
| "private_tag (V1PartitionOffsetAdvance _) = Some PRIVATE_PARTITION_OFFSET_ADVANCE_TAG"
| "private_tag (V1TopicFreeze _) = Some PRIVATE_TOPIC_FREEZE_TAG"
| "private_tag (V1BreakGlassProposal _) = Some PRIVATE_BREAK_GLASS_PROPOSAL_TAG"
| "private_tag (V1DeleteBreakGlassProposal _) = Some PRIVATE_DELETE_BREAK_GLASS_PROPOSAL_TAG"
| "private_tag _ = None"

type_synonym ser = "MetadataRecord \<Rightarrow> bytes option"
type_synonym de = "bytes \<Rightarrow> (MetadataRecord \<times> bytes) option"

definition private_carrier :: "ser \<Rightarrow> MetadataRecord \<Rightarrow> (TranslateError, KraftMetadataRecord) result" where
  "private_carrier ser rec =
     and_then (ok_or (NoCounterpart ''private carrier'') (private_tag rec)) (\<lambda>tag.
     and_then (ok_or EncodeFailed (ser rec)) (\<lambda>body.
       Ok (KNoOp \<lparr>kno_unknown_tagged_fields =
         [\<lparr>uf_tag = tag, uf_bytes = be_bytes 2 PRIVATE_RECORD_VERSION @ body\<rparr>]\<rparr>)))"

definition from_private_carrier :: "de \<Rightarrow> KNoOpRecord \<Rightarrow> (TranslateError, MetadataRecord) result" where
  "from_private_carrier de no_op =
     (case kno_unknown_tagged_fields no_op of
        [field] \<Rightarrow>
          (let tag = uf_tag field in
           if tag < PRIVATE_TAG_FLOOR then Err (NoCounterpart ''NoOp'')
           else if tag \<notin> set PRIVATE_TAGS then Err (UnknownPrivateTag tag)
           else if length (uf_bytes field) < 2 then Err DecodeFailed
           else let version = be_word (take 2 (uf_bytes field)) in
             if version \<noteq> PRIVATE_RECORD_VERSION then Err (UnknownPrivateRecordVersion tag version)
             else and_then (ok_or DecodeFailed (de (drop 2 (uf_bytes field)))) (\<lambda>(rec, rest).
               if rest \<noteq> [] then Err (TrailingPrivateRecordBytes tag (length rest))
               else if private_tag rec \<noteq> Some tag then Err (PrivateTagMismatch tag (private_tag rec))
               else Ok rec))
      | _ \<Rightarrow> Err (NoCounterpart ''NoOp''))"

section \<open>One record to the log\<close>

definition one :: "(TranslateError, 'a) result \<Rightarrow> ('a \<Rightarrow> KraftMetadataRecord) \<Rightarrow> (TranslateError, KraftMetadataRecord list) result" where
  "one r K = and_then r (\<lambda>x. Ok [K x])"

definition partition_record_to_kraft :: "PartitionRecord \<Rightarrow> MetadataImage \<Rightarrow> (TranslateError, KraftMetadataRecord list) result" where
  "partition_record_to_kraft p img =
     and_then (ok_or (UnknownTopicName (pr_topic p)) (image_topic img (pr_topic p))) (\<lambda>t.
       one (partition_to_kraft p (tr_topic_id t) img) KPartition)"

definition delete_topic_to_kraft :: "bytes \<Rightarrow> MetadataImage \<Rightarrow> (TranslateError, KraftMetadataRecord list) result" where
  "delete_topic_to_kraft name img =
     and_then (ok_or (UnknownTopicName name) (image_topic img name)) (\<lambda>t.
       Ok [KRemoveTopic (KRemoveTopicRecord_default\<lparr>krt_topic_id := to_kuuid (tr_topic_id t)\<rparr>)])"

definition broker_config_name :: "NodeId \<Rightarrow> bytes" where
  "broker_config_name n = (if n = DEFAULT_BROKER_CONFIG_NODE_ID then [] else decimal (unat n))"

fun to_kraft_iter :: "ser \<Rightarrow> MetadataRecord \<Rightarrow> MetadataImage \<Rightarrow> (TranslateError, KraftMetadataRecord list) result" where
  "to_kraft_iter ser (V1FeatureLevel f) img =
     Ok [KFeatureLevel (KFeatureLevelRecord_default\<lparr>kfl_name := fl_name f, kfl_feature_level := of_int (fl_level f)\<rparr>)]"
| "to_kraft_iter ser (V1BrokerRegistration b) img = one (register_broker_to_kraft b) KRegisterBroker"
| "to_kraft_iter ser (V1ControllerRegistration c) img = one (register_controller_to_kraft c) KRegisterController"
| "to_kraft_iter ser (V1UnregisterBroker u) img =
     one (node_id_to_wire (ub_node_id u) ''broker_id'') (\<lambda>broker_id.
       KUnregisterBroker (KUnregisterBrokerRecord_default\<lparr>kub_broker_id := broker_id,
         kub_broker_epoch := of_int (ub_broker_epoch u)\<rparr>))"
| "to_kraft_iter ser (V1BrokerRegistrationChange c) img =
     one (broker_registration_change_to_kraft c) KBrokerRegistrationChange"
| "to_kraft_iter ser (V1UnregisterController n) img =
     one (node_id_to_wire n ''controller_id'') (\<lambda>controller_id.
       KUnregisterController (KUnregisterControllerRecord_default\<lparr>kuc_controller_id := controller_id\<rparr>))"
| "to_kraft_iter ser (V1ScramCredential r) img = scram_to_kraft r"
| "to_kraft_iter ser (V1DeleteScramCredential r) img = delete_scram_to_kraft r"
| "to_kraft_iter ser (V1AccessControlEntry e) img = Ok [acl_to_kraft e]"
| "to_kraft_iter ser (V1ClientQuota q) img = Ok [KClientQuota (client_quota_to_kraft q)]"
| "to_kraft_iter ser (V1DelegationToken t) img = Ok [KDelegationToken (delegation_token_to_kraft t)]"
| "to_kraft_iter ser (V1DeleteDelegationToken i) img =
     Ok [KRemoveDelegationToken (KRemoveDelegationTokenRecord_default\<lparr>krd_token_id := i\<rparr>)]"
| "to_kraft_iter ser (V1BrokerConfig c) img =
     Ok [config_record 4 (broker_config_name (bc_node_id c)) (bc_config_name c) (bc_config_value c)]"
| "to_kraft_iter ser (V1Topic t) img =
     Ok [KTopic (KTopicRecord_default\<lparr>kt_name := tr_name t, kt_topic_id := to_kuuid (tr_topic_id t)\<rparr>)]"
| "to_kraft_iter ser (V1Partition p) img = partition_record_to_kraft p img"
| "to_kraft_iter ser (V1DeleteTopic name) img = delete_topic_to_kraft name img"
| "to_kraft_iter ser (V1TopicConfig c) img = Ok (topic_config_to_kraft c img)"
| "to_kraft_iter ser (V1GroupConfig c) img = Ok (group_config_to_kraft c img)"
| "to_kraft_iter ser (V1ProducerIds r) img =
     one (node_id_to_wire (pi_broker_id r) ''producer IDs broker id'') (\<lambda>broker_id.
       KProducerIds (KProducerIdsRecord_default\<lparr>kpi_broker_id := broker_id,
         kpi_broker_epoch := of_int (pi_broker_epoch r), kpi_next_producer_id := of_int (pi_next_producer_id r)\<rparr>))"
| "to_kraft_iter ser (V1DeleteAccessControlEntry f) img = Ok (delete_acl_to_kraft f img)"
| "to_kraft_iter ser (V1ClientMetricsConfig c) img = Ok (client_metrics_config_to_kraft c img)"
| "to_kraft_iter ser (V1PartitionDirAssignment r) img =
     one (partition_dir_assignment_to_kraft r img) KPartitionChange"
| "to_kraft_iter ser (V1PartitionElr r) img =
     one (partition_state_to_kraft img (elr_topic r) (elr_partition r) (-1)
            (Some (elr_eligible_leader_replicas r)) (Some (elr_last_known_elr r))) KPartitionChange"
| "to_kraft_iter ser (V1PartitionRecovery r) img =
     one (partition_state_to_kraft img (prr_topic r) (prr_partition r) (recovery_to_wire (prr_state r)) None None) KPartitionChange"
| "to_kraft_iter ser (V1PartitionUpdate u) img = one (partition_update_to_kraft u img) KPartitionChange"
| "to_kraft_iter ser (V1FeaturesEpoch e) img = one (private_carrier ser (V1FeaturesEpoch e)) id"
| "to_kraft_iter ser (V1PartitionOffsetAdvance r) img = one (private_carrier ser (V1PartitionOffsetAdvance r)) id"
| "to_kraft_iter ser (V1TopicFreeze r) img = one (private_carrier ser (V1TopicFreeze r)) id"
| "to_kraft_iter ser (V1BreakGlassProposal r) img = one (private_carrier ser (V1BreakGlassProposal r)) id"
| "to_kraft_iter ser (V1DeleteBreakGlassProposal i) img = one (private_carrier ser (V1DeleteBreakGlassProposal i)) id"
| "to_kraft_iter ser (V1Voters _) img = Err (NoCounterpart ''V1Voters'')"
| "to_kraft_iter ser (V1KRaftVersion _) img = Err (NoCounterpart ''V1KRaftVersion'')"

definition to_kraft_records :: "ser \<Rightarrow> MetadataRecord \<Rightarrow> MetadataImage \<Rightarrow> (TranslateError, KraftMetadataRecord list) result" where
  "to_kraft_records ser rec img = to_kraft_iter ser rec img"

definition to_kraft :: "ser \<Rightarrow> MetadataRecord \<Rightarrow> MetadataImage \<Rightarrow> (TranslateError, KraftMetadataRecord) result" where
  "to_kraft ser rec img =
     and_then (to_kraft_iter ser rec img) (\<lambda>ks.
       case ks of [] \<Rightarrow> Err (NoCounterpart ''empty translation'') | k # _ \<Rightarrow> Ok k)"

section \<open>Framing\<close>

text \<open>
  The body of the closure of \<open>to_kraft_values\<close> up to \<open>encode_value\<close>: the record as it is written and the
  version it is written at.
\<close>

definition record_version :: "int \<Rightarrow> KraftMetadataRecord \<Rightarrow> i16" where
  "record_version metadata_version kr =
     (case kr of
        KBrokerRegistrationChange change \<Rightarrow> broker_registration_change_version change
      | KPartition _ \<Rightarrow>
          if ELR_MIN_LEVEL \<le> metadata_version then 2
          else if DIRECTORY_ASSIGNMENT_MIN_LEVEL \<le> metadata_version then 1 else 0
      | KPartitionChange _ \<Rightarrow>
          if ELR_MIN_LEVEL \<le> metadata_version then 2
          else if DIRECTORY_ASSIGNMENT_MIN_LEVEL \<le> metadata_version then 1 else 0
      | KRegisterBroker _ \<Rightarrow>
          if CORDONED_LOG_DIRS_MIN_LEVEL \<le> metadata_version then 4
          else if DIRECTORY_ASSIGNMENT_MIN_LEVEL \<le> metadata_version then 3
          else if 8 \<le> metadata_version then 2 else 1
      | _ \<Rightarrow> 0)"

definition strip_change :: "int \<Rightarrow> KraftMetadataRecord \<Rightarrow> KraftMetadataRecord" where
  "strip_change metadata_version kr =
     (case kr of
        KBrokerRegistrationChange change \<Rightarrow>
          let change1 = (if metadata_version < DIRECTORY_ASSIGNMENT_MIN_LEVEL
                         then change\<lparr>kbc_log_dirs := []\<rparr> else change);
              change2 = (if metadata_version < CORDONED_LOG_DIRS_MIN_LEVEL
                         then change1\<lparr>kbc_cordoned_log_dirs := None\<rparr> else change1)
          in KBrokerRegistrationChange change2
      | _ \<Rightarrow> kr)"

definition strip_register :: "i16 \<Rightarrow> KraftMetadataRecord \<Rightarrow> KraftMetadataRecord" where
  "strip_register version kr =
     (case kr of
        KRegisterBroker register \<Rightarrow>
          let register1 = (if sint version < 3 then register\<lparr>krb_log_dirs := []\<rparr> else register);
              register2 = (if sint version < 4 then register1\<lparr>krb_cordoned_log_dirs := None\<rparr> else register1)
          in KRegisterBroker register2
      | _ \<Rightarrow> kr)"

definition frame :: "int \<Rightarrow> KraftMetadataRecord \<Rightarrow> KraftMetadataRecord \<times> i16" where
  "frame metadata_version kr =
     (let kr1 = strip_change metadata_version kr;
          version = record_version metadata_version kr1
      in (strip_register version kr1, version))"

definition image_metadata_version :: "MetadataImage \<Rightarrow> int" where
  "image_metadata_version img = or_default METADATA_VERSION_MAX (finalized_metadata_version img)"

section \<open>Records from the log\<close>

definition collect_features :: "(bytes \<times> int \<times> int) list \<Rightarrow> (bytes, int \<times> int) btree_map" where
  "collect_features fs = fold (\<lambda>(name, bounds). bt_insert name bounds) fs []"

definition endpoint_from_kraft :: "KBrokerEndpoint \<Rightarrow> (TranslateError, BrokerEndpoint) result" where
  "endpoint_from_kraft e =
     and_then (protocol_from_wire (kbe_security_protocol e)) (\<lambda>protocol.
       Ok \<lparr>be_name = kbe_name e, be_host = kbe_host e, be_port = kbe_port e, be_protocol = protocol\<rparr>)"

definition register_broker_from_kraft :: "KRegisterBrokerRecord \<Rightarrow> (TranslateError, BrokerRegistrationRecord) result" where
  "register_broker_from_kraft b =
     (let (host, port, on_wire) =
            (case krb_end_points b of
               [] \<Rightarrow> ([], 0, [])
             | head # rest \<Rightarrow>
                 if kbe_name head = [] then (kbe_host head, kbe_port head, rest)
                 else (kbe_host head, kbe_port head, krb_end_points b))
      in and_then (try_map endpoint_from_kraft on_wire) (\<lambda>endpoints.
         and_then (node_id_from_wire (krb_broker_id b) ''register broker id'') (\<lambda>node_id.
           Ok \<lparr>br_node_id = node_id, br_broker_epoch = sint (krb_broker_epoch b),
               br_incarnation_id = from_kuuid (krb_incarnation_id b), br_host = host, br_port = port,
               br_rack = krb_rack b, br_endpoints = endpoints, br_log_dirs = map from_kuuid (krb_log_dirs b),
               br_fenced = krb_fenced b, br_in_controlled_shutdown = krb_in_controlled_shutdown b,
               br_cordoned_log_dirs = map_option (map from_kuuid) (krb_cordoned_log_dirs b),
               br_features = collect_features (map (\<lambda>f. (kbf_name f,
                 sint (kbf_min_supported_version f), sint (kbf_max_supported_version f))) (krb_features b))\<rparr>)))"

definition broker_registration_change_from_kraft ::
    "KBrokerRegistrationChangeRecord \<Rightarrow> (TranslateError, BrokerRegistrationChangeRecord) result" where
  "broker_registration_change_from_kraft c =
     and_then (ok_or (InvalidValueOf ''broker registration change fenced'')
                 (FencingChange_from_wire (sint (kbc_fenced c)))) (\<lambda>fenced.
     and_then (if kbc_in_controlled_shutdown c = 0 then Ok False
               else if kbc_in_controlled_shutdown c = 1 then Ok True
               else Err (InvalidValueOf ''broker registration change in_controlled_shutdown'')) (\<lambda>shutdown.
     and_then (node_id_from_wire (kbc_broker_id c) ''broker registration change id'') (\<lambda>node_id.
       Ok \<lparr>brc_node_id = node_id, brc_broker_epoch = sint (kbc_broker_epoch c), brc_fenced = fenced,
           brc_in_controlled_shutdown = shutdown, brc_log_dirs = map from_kuuid (kbc_log_dirs c),
           brc_cordoned_log_dirs = map_option (map from_kuuid) (kbc_cordoned_log_dirs c)\<rparr>)))"

definition controller_endpoint_from_kraft :: "KControllerEndpoint \<Rightarrow> (TranslateError, BrokerEndpoint) result" where
  "controller_endpoint_from_kraft e =
     and_then (protocol_from_wire (kce_security_protocol e)) (\<lambda>protocol.
       Ok \<lparr>be_name = kce_name e, be_host = kce_host e, be_port = kce_port e, be_protocol = protocol\<rparr>)"

definition register_controller_from_kraft ::
    "KRegisterControllerRecord \<Rightarrow> (TranslateError, ControllerRegistrationRecord) result" where
  "register_controller_from_kraft c =
     and_then (try_map controller_endpoint_from_kraft (krc_end_points c)) (\<lambda>endpoints.
     and_then (node_id_from_wire (krc_controller_id c) ''controller id'') (\<lambda>node_id.
       Ok \<lparr>cr_node_id = node_id, cr_incarnation_id = from_kuuid (krc_incarnation_id c),
           cr_zk_migration_ready = krc_zk_migration_ready c, cr_endpoints = endpoints,
           cr_features = collect_features (map (\<lambda>f. (kcf_name f,
             sint (kcf_min_supported_version f), sint (kcf_max_supported_version f))) (krc_features c))\<rparr>))"

definition topic_from_kraft :: "KTopicRecord \<Rightarrow> MetadataImage \<Rightarrow> TopicRecord" where
  "topic_from_kraft t img =
     \<lparr>tr_name = kt_name t, tr_topic_id = from_kuuid (kt_topic_id t),
      tr_partitions = topic_partition_count img (kt_name t),
      tr_replication_factor =
        (case partitions_of img (kt_name t) of
           [] \<Rightarrow> 1
         | p # _ \<Rightarrow> if int (length (pr_replicas p)) \<le> I16_MAX then int (length (pr_replicas p)) else 1)\<rparr>"

definition topic_name_for_id :: "MetadataImage \<Rightarrow> uuid128 \<Rightarrow> bytes option" where
  "topic_name_for_id img i = map_option tr_name (find (\<lambda>t. tr_topic_id t = i) (image_topics img))"

definition partition_from_kraft :: "KPartitionRecord \<Rightarrow> MetadataImage \<Rightarrow> (TranslateError, MetadataRecord) result" where
  "partition_from_kraft p img =
     (let i = from_kuuid (kp_topic_id p) in
      and_then (ok_or (UnknownTopicId i) (topic_name_for_id img i)) (\<lambda>topic.
      and_then (partition_leader_from_wire (kp_leader p) ''partition leader'') (\<lambda>leader.
      and_then (nodes_from_wire (kp_replicas p) ''partition replica'') (\<lambda>replicas.
      and_then (nodes_from_wire (kp_isr p) ''partition ISR member'') (\<lambda>isr.
      and_then (nodes_from_wire (kp_adding_replicas p) ''adding replica'') (\<lambda>adding.
      and_then (nodes_from_wire (kp_removing_replicas p) ''removing replica'') (\<lambda>removing.
        let pr = \<lparr>pr_topic = topic, pr_partition = sint (kp_partition_id p), pr_leader = leader,
                  pr_replicas = replicas, pr_isr = isr, pr_leader_epoch = sint (kp_leader_epoch p),
                  pr_adding_replicas = adding, pr_removing_replicas = removing,
                  pr_directories = map from_kuuid (kp_directories p),
                  pr_partition_epoch = sint (kp_partition_epoch p)\<rparr>
        in and_then (recovery_from_wire (kp_leader_recovery_state p) ''partition leader recovery state'') (\<lambda>state.
           if kp_eligible_leader_replicas p \<noteq> None \<or> kp_last_known_elr p \<noteq> None \<or> state = Recovering
           then and_then (try_option (\<lambda>vs. nodes_from_wire vs ''eligible leader replica'') (kp_eligible_leader_replicas p)) (\<lambda>eligible.
                and_then (try_option (\<lambda>vs. nodes_from_wire vs ''last known eligible leader replica'') (kp_last_known_elr p)) (\<lambda>last_known.
                  Ok (V1PartitionUpdate \<lparr>pu_partition = pr, pu_eligible_leader_replicas = eligible,
                        pu_last_known_elr = last_known, pu_recovery_state = Some state\<rparr>)))
           else Ok (V1Partition pr)))))))))"

text \<open>\<open>if let Some(v) = &change.f { partition.f = nodes(v)? }\<close>.\<close>

definition replaced_nodes :: "i32 list option \<Rightarrow> NodeId list \<Rightarrow> string \<Rightarrow> (TranslateError, NodeId list) result" where
  "replaced_nodes v current field = (case v of None \<Rightarrow> Ok current | Some vs \<Rightarrow> nodes_from_wire vs field)"

definition checked_succ :: "int \<Rightarrow> string \<Rightarrow> (TranslateError, int) result" where
  "checked_succ epoch field = (if epoch < I32_MAX then Ok (epoch + 1) else Err (InvalidReference field))"

definition change_leader :: "KPartitionChangeRecord \<Rightarrow> PartitionRecord \<Rightarrow> (TranslateError, PartitionRecord) result" where
  "change_leader change pr =
     (if kpc_leader change \<noteq> -2 then
        and_then (partition_leader_from_wire (kpc_leader change) ''partition change leader'') (\<lambda>leader.
        and_then (checked_succ (pr_leader_epoch pr) ''partition change leader epoch'') (\<lambda>epoch.
          Ok (pr\<lparr>pr_leader := leader, pr_leader_epoch := epoch\<rparr>)))
      else Ok pr)"

definition change_directories :: "KPartitionChangeRecord \<Rightarrow> PartitionRecord \<Rightarrow> (TranslateError, PartitionRecord) result" where
  "change_directories change pr =
     (case kpc_directories change of
        None \<Rightarrow> Ok pr
      | Some directories \<Rightarrow>
          if length directories \<noteq> length (pr_replicas pr)
          then Err (if kpc_replicas change \<noteq> None then InvalidValueOf ''partition change directories''
                    else InvalidReference ''partition change directories'')
          else Ok (pr\<lparr>pr_directories := map from_kuuid directories\<rparr>))"

definition partition_change_from_kraft ::
    "KPartitionChangeRecord \<Rightarrow> MetadataImage \<Rightarrow> (TranslateError, MetadataRecord) result" where
  "partition_change_from_kraft change img =
     (let topic_id = from_kuuid (kpc_topic_id change) in
      and_then (ok_or (UnknownTopicId topic_id) (topic_name_for_id img topic_id)) (\<lambda>topic.
      let has_recovery = (kpc_leader_recovery_state change \<noteq> -1);
          has_elr = (kpc_eligible_leader_replicas change \<noteq> None \<or> kpc_last_known_elr change \<noteq> None) in
      and_then (try_option (\<lambda>b. recovery_from_wire b ''partition change leader recovery state'')
                  (if has_recovery then Some (kpc_leader_recovery_state change) else None)) (\<lambda>recovery_state.
      and_then (ok_or (InvalidReference ''partition change'')
                  (image_partition img topic (sint (kpc_partition_id change)))) (\<lambda>current.
      and_then (replaced_nodes (kpc_replicas change) (pr_replicas current) ''partition change replica'') (\<lambda>replicas.
      and_then (replaced_nodes (kpc_isr change) (pr_isr current) ''partition change ISR member'') (\<lambda>isr.
      and_then (replaced_nodes (kpc_removing_replicas change) (pr_removing_replicas current)
                  ''partition change removing replica'') (\<lambda>removing.
      and_then (replaced_nodes (kpc_adding_replicas change) (pr_adding_replicas current)
                  ''partition change adding replica'') (\<lambda>adding.
      and_then (change_leader change (current\<lparr>pr_replicas := replicas, pr_isr := isr, pr_removing_replicas := removing,
                  pr_adding_replicas := adding\<rparr>)) (\<lambda>led.
      and_then (change_directories change led) (\<lambda>placed.
      and_then (checked_succ (pr_partition_epoch placed) ''partition change partition epoch'') (\<lambda>epoch.
        let pr = placed\<lparr>pr_partition_epoch := epoch\<rparr> in
        if has_recovery \<or> has_elr
        then and_then (try_option (\<lambda>vs. nodes_from_wire vs ''eligible leader replica'') (kpc_eligible_leader_replicas change)) (\<lambda>eligible.
             and_then (try_option (\<lambda>vs. nodes_from_wire vs ''last known eligible leader replica'') (kpc_last_known_elr change)) (\<lambda>last_known.
               Ok (V1PartitionUpdate \<lparr>pu_partition = pr, pu_eligible_leader_replicas = eligible,
                     pu_last_known_elr = last_known, pu_recovery_state = recovery_state\<rparr>)))
        else Ok (V1Partition pr))))))))))))"

definition client_quota_from_kraft :: "KClientQuotaRecord \<Rightarrow> ClientQuotaRecord" where
  "client_quota_from_kraft q =
     \<lparr>cq_entity = map (\<lambda>e. \<lparr>qe_entity_type = ked_entity_type e, qe_entity_name = ked_entity_name e\<rparr>) (kcq_entity q),
      cq_config_key = kcq_key q, cq_config_value = (if kcq_remove q then None else Some (kcq_value q))\<rparr>"

definition delegation_token_from_kraft :: "KDelegationTokenRecord \<Rightarrow> (TranslateError, DelegationTokenRecord) result" where
  "delegation_token_from_kraft t =
     and_then (ok_or (InvalidValueOf ''delegation token owner'') (principal_from_str (kdt_owner t))) (\<lambda>owner.
     and_then (ok_or (InvalidValueOf ''delegation token requester'') (principal_from_str (kdt_requester t))) (\<lambda>requester.
     and_then (try_map (\<lambda>r. ok_or (InvalidValueOf ''delegation token renewer'') (principal_from_str r)) (kdt_renewers t)) (\<lambda>renewers.
       Ok \<lparr>dtr_token_id = kdt_token_id t, dtr_owner = owner, dtr_requester = requester,
           dtr_issue_timestamp_ms = sint (kdt_issue_timestamp t),
           dtr_expiry_timestamp_ms = sint (kdt_expiration_timestamp t),
           dtr_max_timestamp_ms = sint (kdt_max_timestamp t), dtr_renewers = renewers\<rparr>)))"

text \<open>The change of one key of a stored configuration.\<close>

definition merge_config :: "KConfigRecord \<Rightarrow> (bytes, bytes) btree_map option \<Rightarrow> (bytes, bytes) btree_map" where
  "merge_config c stored =
     (case kc_value c of
        Some v \<Rightarrow> bt_insert (kc_name c) v (or_default [] stored)
      | None \<Rightarrow> bt_remove (kc_name c) (or_default [] stored))"

definition config_from_kraft :: "KConfigRecord \<Rightarrow> MetadataImage \<Rightarrow> (TranslateError, MetadataRecord) result" where
  "config_from_kraft c img =
     (if kc_resource_type c = 4 then
        and_then (if kc_resource_name c = [] then Ok DEFAULT_BROKER_CONFIG_NODE_ID
                  else ok_or (InvalidValueOf ''broker config resource_name'') (parse_u64 (kc_resource_name c))) (\<lambda>node_id.
          Ok (V1BrokerConfig \<lparr>bc_node_id = node_id, bc_config_name = kc_name c, bc_config_value = kc_value c\<rparr>))
      else if kc_resource_type c = 2 then
        Ok (V1TopicConfig \<lparr>tc_topic = kc_resource_name c,
              tc_overrides = merge_config c (topic_config img (kc_resource_name c))\<rparr>)
      else if kc_resource_type c = 16 then
        Ok (V1ClientMetricsConfig \<lparr>cm_name = kc_resource_name c,
              cm_configs = merge_config c (client_metrics_config img (kc_resource_name c))\<rparr>)
      else if kc_resource_type c = 32 then
        Ok (V1GroupConfig \<lparr>gc_group_id = kc_resource_name c,
              gc_configs = merge_config c (group_config img (kc_resource_name c))\<rparr>)
      else Err (InvalidValueOf ''config resource_type''))"

definition remove_topic_from_kraft :: "KRemoveTopicRecord \<Rightarrow> MetadataImage \<Rightarrow> (TranslateError, MetadataRecord) result" where
  "remove_topic_from_kraft t img =
     (let i = from_kuuid (krt_topic_id t)
      in and_then (ok_or (UnknownTopicId i) (topic_name_for_id img i)) (\<lambda>name. Ok (V1DeleteTopic name)))"

definition acl_from_kraft :: "KAccessControlEntryRecord \<Rightarrow> (TranslateError, MetadataRecord) result" where
  "acl_from_kraft e =
     and_then (resource_type_from_wire (kace_resource_type e)) (\<lambda>resource_type.
     and_then (pattern_type_from_wire (kace_pattern_type e)) (\<lambda>pattern_type.
     and_then (operation_from_wire (kace_operation e)) (\<lambda>operation.
     and_then (permission_from_wire (kace_permission_type e)) (\<lambda>permission.
       Ok (V1AccessControlEntry \<lparr>acl_resource_type = resource_type, acl_resource_name = kace_resource_name e,
         acl_pattern_type = pattern_type, acl_principal = kace_principal e, acl_host = kace_host e,
         acl_operation = operation, acl_permission_type = permission\<rparr>)))))"

definition remove_acl_from_kraft :: "KRemoveAccessControlEntryRecord \<Rightarrow> MetadataImage \<Rightarrow> (TranslateError, MetadataRecord) result" where
  "remove_acl_from_kraft r img =
     and_then (ok_or (UnknownAclId (from_kuuid (krace_id r))) (find (\<lambda>e. acl_id e = krace_id r) (all_acls img))) (\<lambda>entry.
       Ok (V1DeleteAccessControlEntry (exact_filter entry)))"

definition scram_from_kraft :: "KUserScramCredentialRecord \<Rightarrow> (TranslateError, MetadataRecord) result" where
  "scram_from_kraft s =
     and_then (scram_mechanism_from_wire (kus_mechanism s)) (\<lambda>mechanism.
     and_then (if 0 \<le> sint (kus_iterations s) then Ok (kus_iterations s)
               else Err (InvalidValueOf ''scram iterations'')) (\<lambda>iterations.
       Ok (V1ScramCredential \<lparr>scr_user = kus_name s, scr_mechanism = mechanism, scr_salt = kus_salt s,
         scr_stored_key = kus_stored_key s, scr_server_key = kus_server_key s, scr_iterations = iterations\<rparr>)))"

text \<open>\<open>kraft_variant_name\<close> of the records that reach the last arm of \<open>from_kraft\<close>.\<close>

fun kraft_variant_name :: "KraftMetadataRecord \<Rightarrow> string" where
  "kraft_variant_name (KBrokerRegistrationChange _) = ''BrokerRegistrationChange''"
| "kraft_variant_name (KPartitionChange _) = ''PartitionChange''"
| "kraft_variant_name (KNoOp _) = ''NoOp''"
| "kraft_variant_name (KBeginTransaction _) = ''BeginTransaction''"
| "kraft_variant_name (KEndTransaction _) = ''EndTransaction''"
| "kraft_variant_name (KRemoveAccessControlEntry _) = ''RemoveAccessControlEntry''"
| "kraft_variant_name (KUnknown _ _ _) = ''Unknown''"
| "kraft_variant_name _ = ''unmodeled''"

fun from_kraft :: "de \<Rightarrow> KraftMetadataRecord \<Rightarrow> MetadataImage \<Rightarrow> (TranslateError, MetadataRecord) result" where
  "from_kraft de (KFeatureLevel f) img =
     Ok (V1FeatureLevel \<lparr>fl_name = kfl_name f, fl_level = sint (kfl_feature_level f)\<rparr>)"
| "from_kraft de (KRegisterBroker b) img =
     and_then (register_broker_from_kraft b) (\<lambda>r. Ok (V1BrokerRegistration r))"
| "from_kraft de (KBrokerRegistrationChange c) img =
     and_then (broker_registration_change_from_kraft c) (\<lambda>r. Ok (V1BrokerRegistrationChange r))"
| "from_kraft de (KRegisterController c) img =
     and_then (register_controller_from_kraft c) (\<lambda>r. Ok (V1ControllerRegistration r))"
| "from_kraft de (KUnregisterController u) img =
     and_then (node_id_from_wire (kuc_controller_id u) ''unregister controller id'') (\<lambda>n. Ok (V1UnregisterController n))"
| "from_kraft de (KUnregisterBroker u) img =
     and_then (node_id_from_wire (kub_broker_id u) ''unregister broker id'') (\<lambda>n.
       Ok (V1UnregisterBroker \<lparr>ub_node_id = n, ub_broker_epoch = sint (kub_broker_epoch u)\<rparr>))"
| "from_kraft de (KUserScramCredential s) img = scram_from_kraft s"
| "from_kraft de (KRemoveUserScramCredential s) img =
     and_then (scram_mechanism_from_wire (krus_mechanism s)) (\<lambda>mechanism.
       Ok (V1DeleteScramCredential \<lparr>dsc_user = krus_name s, dsc_mechanism = mechanism\<rparr>))"
| "from_kraft de (KAccessControlEntry e) img = acl_from_kraft e"
| "from_kraft de (KClientQuota q) img = Ok (V1ClientQuota (client_quota_from_kraft q))"
| "from_kraft de (KProducerIds r) img =
     and_then (node_id_from_wire (kpi_broker_id r) ''producer IDs broker id'') (\<lambda>n.
       Ok (V1ProducerIds \<lparr>pi_broker_id = n, pi_broker_epoch = sint (kpi_broker_epoch r),
         pi_next_producer_id = sint (kpi_next_producer_id r)\<rparr>))"
| "from_kraft de (KDelegationToken t) img =
     and_then (delegation_token_from_kraft t) (\<lambda>r. Ok (V1DelegationToken r))"
| "from_kraft de (KRemoveDelegationToken t) img = Ok (V1DeleteDelegationToken (krd_token_id t))"
| "from_kraft de (KConfig c) img = config_from_kraft c img"
| "from_kraft de (KTopic t) img = Ok (V1Topic (topic_from_kraft t img))"
| "from_kraft de (KPartition p) img = partition_from_kraft p img"
| "from_kraft de (KPartitionChange p) img = partition_change_from_kraft p img"
| "from_kraft de (KRemoveTopic t) img = remove_topic_from_kraft t img"
| "from_kraft de (KRemoveAccessControlEntry r) img = remove_acl_from_kraft r img"
| "from_kraft de (KNoOp no_op) img = from_private_carrier de no_op"
| "from_kraft de other img = Err (NoCounterpart (kraft_variant_name other))"

end
