(* ===== verification/KraftReplay.thy ===== *)
theory KraftReplay
  imports KraftTranslate ImageProperties
begin

text \<open>
  What the translation to Kafka's log keeps: a record that is written and read back, and an image that
  is rebuilt from the written log.
\<close>

section \<open>Scalars\<close>

definition i16_ok :: "int \<Rightarrow> bool" where
  "i16_ok x \<longleftrightarrow> - (2 ^ 15) \<le> x \<and> x \<le> I16_MAX"

definition i32_ok :: "int \<Rightarrow> bool" where
  "i32_ok x \<longleftrightarrow> - (2 ^ 31) \<le> x \<and> x \<le> I32_MAX"

named_theorems kraft_scalars

lemma sint_i16 [kraft_scalars]: "i16_ok x \<Longrightarrow> sint (of_int x :: i16) = x"
  by (simp add: i16_ok_def I16_MAX_def signed_of_int signed_take_bit_int_eq_self)

lemma sint_i32 [kraft_scalars]: "i32_ok x \<Longrightarrow> sint (of_int x :: i32) = x"
  by (simp add: i32_ok_def I32_MAX_def signed_of_int signed_take_bit_int_eq_self)

lemma sint_i64 [kraft_scalars]: "i64_ok x \<Longrightarrow> sint (of_int x :: i64) = x"
  by (simp add: i64_ok_def I64_MAX_def signed_of_int signed_take_bit_int_eq_self)

lemma kuuid_inverse [kraft_scalars, simp]: "from_kuuid (to_kuuid u) = u"
  by (simp add: to_kuuid_def as_bytes_inverse)

lemma kuuids_inverse [kraft_scalars, simp]: "from_kuuid \<circ> to_kuuid = id"
  by (rule ext) simp

lemma node_id_small: "uint (n :: NodeId) \<le> I32_MAX \<Longrightarrow> 0 \<le> sint (ucast n :: i32) \<and> ucast (ucast n :: i32) = n"
proof
  assume n: "uint n \<le> I32_MAX"
  have "(ucast n :: i32) = of_int (uint n)"
    by simp
  moreover have "i32_ok (uint n)"
    using n by (simp add: i32_ok_def order_trans[of _ 0])
  ultimately have "sint (ucast n :: i32) = uint n"
    using sint_i32 by metis
  then show "0 \<le> sint (ucast n :: i32)"
    by simp
  show "ucast (ucast n :: i32) = n"
  proof (rule word_uint_eqI)
    have "take_bit 32 (uint n) = uint n"
      using n by (simp add: I32_MAX_def take_bit_int_eq_self)
    then show "uint (ucast (ucast n :: i32) :: NodeId) = uint n"
      by (simp add: unsigned_ucast_eq unsigned_take_bit_eq)
  qed
qed

lemma node_id_round_trip [kraft_scalars]:
  "node_id_to_wire n f = Ok v \<Longrightarrow> node_id_from_wire v g = Ok n"
  by (auto simp: node_id_to_wire_def node_id_from_wire_def node_id_small split: if_splits)

lemma leader_round_trip [kraft_scalars]:
  "partition_leader_to_wire n f = Ok v \<Longrightarrow> partition_leader_from_wire v g = Ok n \<and> v \<noteq> -2"
proof (cases "n = 0")
  case False
  assume "partition_leader_to_wire n f = Ok v"
  then have v: "v = ucast n" "uint n \<le> I32_MAX"
    using False by (auto simp: partition_leader_to_wire_def split: if_splits)
  have s: "0 \<le> sint v" "ucast v = n"
    using node_id_small[OF v(2)] by (simp_all add: v(1))
  have "v \<noteq> -1" "v \<noteq> -2"
    using s(1) by auto
  then show ?thesis
    using s by (simp add: partition_leader_from_wire_def node_id_from_wire_def)
qed (auto simp: partition_leader_to_wire_def partition_leader_from_wire_def)

lemma try_map_Ok: "try_map f xs = Ok ys \<longleftrightarrow> list_all2 (\<lambda>x y. f x = Ok y) xs ys"
  by (induction xs arbitrary: ys) (auto simp: and_then_eq_Ok list_all2_Cons1)

lemma try_map_inverse:
  assumes "try_map f xs = Ok ys" and "\<And>x y. f x = Ok y \<Longrightarrow> g y = Ok x"
  shows "try_map g ys = Ok xs"
  using assms(1) unfolding try_map_Ok
  by (metis (mono_tags, lifting) assms(2) list_all2_conv_all_nth)

lemma try_map_map:
  assumes "\<And>x. x \<in> set xs \<Longrightarrow> g (f x) = Ok x"
  shows "try_map g (map f xs) = Ok xs"
  using assms by (simp add: try_map_Ok list_all2_conv_all_nth)

lemma try_option_inverse:
  assumes "try_option f v = Ok w" and "\<And>x y. f x = Ok y \<Longrightarrow> g y = Ok x"
  shows "try_option g w = Ok v"
  using assms by (auto simp: try_option_def and_then_eq_Ok split: option.splits)

lemma nodes_round_trip [kraft_scalars]: "nodes_to_wire ns f = Ok vs \<Longrightarrow> nodes_from_wire vs g = Ok ns"
  unfolding nodes_to_wire_def nodes_from_wire_def by (erule try_map_inverse) (rule node_id_round_trip)

lemma optional_nodes_round_trip [kraft_scalars]:
  "try_option (\<lambda>ns. nodes_to_wire ns f) v = Ok w \<Longrightarrow> try_option (\<lambda>vs. nodes_from_wire vs g) w = Ok v"
  by (erule try_option_inverse) (rule nodes_round_trip)

lemma scram_round_trip [kraft_scalars]:
  "scram_mechanism_to_wire m = Ok b \<Longrightarrow> scram_mechanism_from_wire b = Ok m"
  by (cases m) (auto simp: scram_mechanism_to_wire_def scram_mechanism_from_wire_def)

lemma resource_type_round_trip [kraft_scalars]: "resource_type_from_wire (resource_type_to_wire rt) = Ok rt"
  by (cases rt) (simp_all add: resource_type_from_wire_def)

lemma pattern_type_round_trip [kraft_scalars]: "pattern_type_from_wire (pattern_type_to_wire pt) = Ok pt"
  by (cases pt) (simp_all add: pattern_type_from_wire_def)

lemma operation_round_trip [kraft_scalars]: "operation_from_wire (operation_to_wire op) = Ok op"
  by (cases op) (simp_all add: operation_from_wire_def)

lemma permission_round_trip [kraft_scalars]: "permission_from_wire (permission_to_wire perm) = Ok perm"
  by (cases perm) (simp_all add: permission_from_wire_def)

lemma protocol_round_trip [kraft_scalars]: "protocol_from_wire (protocol_to_wire p) = Ok p"
  by (cases p) (simp_all add: protocol_from_wire_def)

lemma recovery_round_trip [kraft_scalars]: "recovery_from_wire (recovery_to_wire s) field = Ok s" "recovery_to_wire s \<noteq> -1"
  by (cases s; simp add: recovery_from_wire_def)+

lemma fencing_round_trip [kraft_scalars]: "FencingChange_from_wire (sint (of_int (FencingChange_wire_value c) :: i8)) = Some c"
  by (cases c) (simp_all add: FencingChange_wire_value_def FencingChange_from_wire_def)

lemma optional_kuuids [simp]: "map_option (map from_kuuid) (map_option (map to_kuuid) v) = v"
  by (cases v) simp_all

section \<open>Strings\<close>

lemma digits_value_snoc: "digits_value (ds @ [d]) = digits_value ds * 10 + (uint d - 48)"
  by (simp add: digits_value_def)

lemma digit_byte: "k < 10 \<Longrightarrow> uint (of_nat (48 + k) :: u8) = int (48 + k)"
  by (simp add: unsigned_of_nat uint_nat take_bit_nat_eq_self del: of_nat_add)

lemma decimal_value: "digits_value (decimal n) = int n \<and> list_all is_digit (decimal n) \<and> decimal n \<noteq> []"
proof (induction n rule: decimal.induct)
  case (1 n)
  show ?case
  proof (cases "n < 10")
    case True
    then show ?thesis
      using digit_byte[of n] by (simp add: decimal.simps[of n] digits_value_def is_digit_def word_le_def)
  next
    case False
    then show ?thesis
      using 1 digit_byte[of "n mod 10"] by (simp add: decimal.simps[of n] digits_value_snoc is_digit_def word_le_def zmod_int zdiv_int)
  qed
qed

lemma parse_decimal: "parse_u64 (decimal (unat n)) = Some n"
proof -
  note d = decimal_value[of "unat n"]
  have "hd (decimal (unat n)) \<noteq> 0x2B"
    using d by (cases "decimal (unat n)") (auto simp: is_digit_def)
  moreover have "int (unat n) < 2 ^ 64"
    using unsigned_less[of n, where ?'a = int] by simp
  ultimately show ?thesis
    using d by (simp add: parse_u64_def Let_def)
qed

lemma split_once_append: "c \<notin> set l \<Longrightarrow> split_once c (l @ c # r) = Some (l, r)"
  by (induction l) auto

lemma principal_round_trip:
  "0x3A \<notin> set (kp_principal_type p) \<Longrightarrow> principal_from_str (principal_to_string p) = Some p"
  by (simp add: principal_from_str_def principal_to_string_def split_once_append)

section \<open>Topic ids\<close>

lemma topic_id_resolves:
  assumes "image_wf img" "ids_exact img" "image_topic img n = Some t"
  shows "topic_name_for_id img (tr_topic_id t) = Some n"
proof -
  have w: "level_wf topic_ok (mi_topics img)" and d: "distinct (map fst (mi_topics img))"
    using assms(1) by (simp_all add: image_wf_def level_wf_def hm_wf_def)
  have "t \<in> set (image_topics img)"
    using assms(3) by (force simp: image_topics_def image_topic_def dest: map_of_SomeD)
  then obtain u where u: "find (\<lambda>u. tr_topic_id u = tr_topic_id t) (image_topics img) = Some u"
    using find_None_iff[of "\<lambda>u. tr_topic_id u = tr_topic_id t" "image_topics img"] by (metis not_Some_eq)
  then have "u \<in> set (image_topics img)" and id: "tr_topic_id u = tr_topic_id t"
    by (auto simp: find_Some_iff)
  then obtain m where m: "map_of (mi_topics img) m = Some u"
    using d by (auto simp: image_topics_def)
  have "m = n"
    using ids_unique[OF assms(2) m] assms(3) id by (simp add: image_topic_def)
  then show ?thesis
    using u level_wf_get[OF w m] by (simp add: topic_name_for_id_def topic_ok_def)
qed

section \<open>Records that come back unchanged\<close>

definition features_ok :: "(bytes, int \<times> int) btree_map \<Rightarrow> bool" where
  "features_ok fs \<longleftrightarrow> bt_wf fs \<and> list_all (\<lambda>(_, lo, hi). i16_ok lo \<and> i16_ok hi) fs"

definition partition_typed :: "PartitionRecord \<Rightarrow> bool" where
  "partition_typed p \<longleftrightarrow> i32_ok (pr_partition p) \<and> i32_ok (pr_leader_epoch p) \<and> i32_ok (pr_partition_epoch p)"

text \<open>What the Rust types of a record guarantee: integers in range and ordered maps.\<close>

fun record_typed :: "MetadataRecord \<Rightarrow> bool" where
  "record_typed (V1FeatureLevel f) = i16_ok (fl_level f)"
| "record_typed (V1BrokerRegistration b) = (i64_ok (br_broker_epoch b) \<and> features_ok (br_features b))"
| "record_typed (V1ControllerRegistration c) = features_ok (cr_features c)"
| "record_typed (V1UnregisterBroker u) = i64_ok (ub_broker_epoch u)"
| "record_typed (V1BrokerRegistrationChange c) = i64_ok (brc_broker_epoch c)"
| "record_typed (V1DelegationToken t) =
     (i64_ok (dtr_issue_timestamp_ms t) \<and> i64_ok (dtr_expiry_timestamp_ms t) \<and> i64_ok (dtr_max_timestamp_ms t))"
| "record_typed (V1ProducerIds r) = (i64_ok (pi_broker_epoch r) \<and> i64_ok (pi_next_producer_id r))"
| "record_typed (V1Partition p) = partition_typed p"
| "record_typed (V1PartitionUpdate u) = partition_typed (pu_partition u)"
| "record_typed (V1PartitionDirAssignment r) = i32_ok (pda_partition r)"
| "record_typed (V1PartitionElr r) = i32_ok (elr_partition r)"
| "record_typed (V1PartitionRecovery r) = i32_ok (prr_partition r)"
| "record_typed (V1TopicConfig c) = bt_wf (tc_overrides c)"
| "record_typed (V1ClientMetricsConfig c) = bt_wf (cm_configs c)"
| "record_typed (V1GroupConfig c) = bt_wf (gc_configs c)"
| "record_typed _ = True"

text \<open>
  What a Kafka record has room for: the host and port of a registration are those of its first
  listener, which has a name, and the type of a principal has no colon.
\<close>

fun expressible :: "MetadataRecord \<Rightarrow> bool" where
  "expressible (V1BrokerRegistration b) =
     (case br_endpoints b of
        [] \<Rightarrow> True
      | e # _ \<Rightarrow> be_name e \<noteq> [] \<and> br_host b = be_host e \<and> br_port b = be_port e)"
| "expressible (V1DelegationToken t) =
     list_all (\<lambda>p. 0x3A \<notin> set (kp_principal_type p)) (dtr_owner t # dtr_requester t # dtr_renewers t)"
| "expressible _ = True"

text \<open>The records that are one record of the log and carry all their state in it.\<close>

fun one_to_one :: "MetadataRecord \<Rightarrow> bool" where
  "one_to_one (V1Topic _) = False"
| "one_to_one (V1Partition _) = False"
| "one_to_one (V1PartitionUpdate _) = False"
| "one_to_one (V1PartitionDirAssignment _) = False"
| "one_to_one (V1PartitionElr _) = False"
| "one_to_one (V1PartitionRecovery _) = False"
| "one_to_one (V1TopicConfig _) = False"
| "one_to_one (V1ClientMetricsConfig _) = False"
| "one_to_one (V1GroupConfig _) = False"
| "one_to_one (V1DeleteAccessControlEntry _) = False"
| "one_to_one _ = True"

text \<open>\<open>wincode\<close> reads back what it wrote.\<close>

definition wincode_law :: "ser \<Rightarrow> de \<Rightarrow> bool" where
  "wincode_law ser de \<longleftrightarrow> (\<forall>rec body. ser rec = Some body \<longrightarrow> de body = Some (rec, []))"

lemma collect_features_id: "bt_wf fs \<Longrightarrow> collect_features fs = fs"
  unfolding collect_features_def by (rule bt.replay)

lemma collect_features_wire:
  assumes "features_ok fs"
  shows "collect_features (map (\<lambda>(n, lo, hi). (n, sint (of_int lo :: i16), sint (of_int hi :: i16))) fs) = fs"
proof -
  have "map (\<lambda>(n, lo, hi). (n, sint (of_int lo :: i16), sint (of_int hi :: i16))) fs = fs"
    using assms by (intro map_idI) (auto simp: features_ok_def list_all_iff sint_i16)
  then show ?thesis
    using assms by (simp add: collect_features_id features_ok_def)
qed

lemma one_Ok: "one r K = Ok ks \<longleftrightarrow> (\<exists>x. r = Ok x \<and> ks = [K x])"
  by (cases r) (auto simp: one_def)

lemma ok_or_Ok: "ok_or e v = Ok x \<longleftrightarrow> v = Some x"
  by (simp add: ok_or_def split: option.split)

lemma ok_or_Some [simp]: "ok_or e (Some x) = Ok x"
  by (simp add: ok_or_def)

lemmas kraft_defaults = KRegisterBrokerRecord_default_def KBrokerEndpoint_default_def KBrokerFeature_default_def
  KRegisterControllerRecord_default_def KControllerEndpoint_default_def KControllerFeature_default_def
  KUnregisterBrokerRecord_default_def KUnregisterControllerRecord_default_def KBrokerRegistrationChangeRecord_default_def
  KTopicRecord_default_def KPartitionRecord_default_def KPartitionChangeRecord_default_def KRemoveTopicRecord_default_def
  KConfigRecord_default_def KDelegationTokenRecord_default_def KRemoveDelegationTokenRecord_default_def
  KUserScramCredentialRecord_default_def KRemoveUserScramCredentialRecord_default_def KFeatureLevelRecord_default_def
  KEntityData_default_def KClientQuotaRecord_default_def KProducerIdsRecord_default_def
  KAccessControlEntryRecord_default_def KRemoveAccessControlEntryRecord_default_def

lemma endpoints_round_trip:
  "try_map endpoint_from_kraft (map (\<lambda>e. KBrokerEndpoint_default\<lparr>kbe_name := be_name e, kbe_host := be_host e,
     kbe_port := be_port e, kbe_security_protocol := protocol_to_wire (be_protocol e)\<rparr>) es) = Ok es"
  "try_map controller_endpoint_from_kraft (map (\<lambda>e. KControllerEndpoint_default\<lparr>kce_name := be_name e, kce_host := be_host e,
     kce_port := be_port e, kce_security_protocol := protocol_to_wire (be_protocol e)\<rparr>) es) = Ok es"
  by (rule try_map_map; simp add: endpoint_from_kraft_def controller_endpoint_from_kraft_def kraft_defaults kraft_scalars)+

lemma broker_round_trip:
  assumes "register_broker_to_kraft b = Ok k" "record_typed (V1BrokerRegistration b)" "expressible (V1BrokerRegistration b)"
  shows "register_broker_from_kraft k = Ok b"
  using assms collect_features_wire[of "br_features b"] endpoints_round_trip(1)[of "br_endpoints b"]
  by (cases "br_endpoints b")
    (auto simp: register_broker_to_kraft_def register_broker_from_kraft_def and_then_eq_Ok Let_def kraft_scalars
      kraft_defaults feature_range_to_kraft_def comp_def case_prod_unfold intro!: BrokerRegistrationRecord.equality)

lemma controller_round_trip:
  assumes "register_controller_to_kraft c = Ok k" "record_typed (V1ControllerRegistration c)"
  shows "register_controller_from_kraft k = Ok c"
  using assms collect_features_wire[of "cr_features c"] endpoints_round_trip(2)[of "cr_endpoints c"]
  by (auto simp: register_controller_to_kraft_def register_controller_from_kraft_def and_then_eq_Ok kraft_scalars
      kraft_defaults comp_def case_prod_unfold intro!: ControllerRegistrationRecord.equality)

lemma change_round_trip:
  "broker_registration_change_to_kraft c = Ok k \<Longrightarrow> i64_ok (brc_broker_epoch c)
    \<Longrightarrow> broker_registration_change_from_kraft k = Ok c"
  by (cases "brc_in_controlled_shutdown c")
    (auto simp: broker_registration_change_to_kraft_def broker_registration_change_from_kraft_def and_then_eq_Ok
      kraft_scalars kraft_defaults intro!: exI[of _ "brc_in_controlled_shutdown c"] BrokerRegistrationChangeRecord.equality)

lemma quota_round_trip: "client_quota_from_kraft (client_quota_to_kraft q) = q"
proof -
  have "map (\<lambda>e. \<lparr>qe_entity_type = ked_entity_type e, qe_entity_name = ked_entity_name e\<rparr>)
    (map (\<lambda>e. KEntityData_default\<lparr>ked_entity_type := qe_entity_type e, ked_entity_name := qe_entity_name e\<rparr>) es) = es" for es
    by (simp add: comp_def) (rule map_idI, simp)
  then show ?thesis
    by (auto simp: client_quota_from_kraft_def client_quota_to_kraft_def kraft_defaults Let_def split: option.split prod.split
        intro!: ClientQuotaRecord.equality)
qed

lemma token_round_trip:
  assumes "record_typed (V1DelegationToken t)" "expressible (V1DelegationToken t)"
  shows "delegation_token_from_kraft (delegation_token_to_kraft t) = Ok t"
proof -
  have "try_map (\<lambda>r. ok_or e (principal_from_str r)) (map principal_to_string (dtr_renewers t)) = Ok (dtr_renewers t)" for e :: TranslateError
    using assms(2) by (intro try_map_map) (simp add: principal_round_trip list_all_iff)
  then show ?thesis
    using assms by (auto simp: delegation_token_from_kraft_def delegation_token_to_kraft_def kraft_defaults kraft_scalars
        principal_round_trip intro!: DelegationTokenRecord.equality)
qed

lemma sint_small: "uint (w :: u32) \<le> I32_MAX \<Longrightarrow> sint (w :: i32) = uint w"
  using sint_i32[of "uint w"] by (simp add: i32_ok_def order_trans[of _ 0])

lemma scram_record_round_trip: "scram_to_kraft r = Ok ks \<Longrightarrow> \<exists>s. ks = [KUserScramCredential s] \<and> scram_from_kraft s = Ok (V1ScramCredential r)"
  by (auto simp: scram_to_kraft_def scram_from_kraft_def and_then_eq_Ok kraft_scalars kraft_defaults sint_small split: if_splits intro!: ScramCredentialRecord.equality)

lemma acl_round_trip: "\<exists>k. acl_to_kraft e = KAccessControlEntry k \<and> acl_from_kraft k = Ok (V1AccessControlEntry e)"
  by (simp add: acl_to_kraft_def acl_from_kraft_def kraft_defaults kraft_scalars)

lemma private_tag_listed: "private_tag rec = Some tag \<Longrightarrow> tag \<in> set PRIVATE_TAGS \<and> \<not> tag < PRIVATE_TAG_FLOOR"
  by (cases rec) (auto simp: PRIVATE_TAGS_def PRIVATE_TAG_FLOOR_def PRIVATE_FEATURES_EPOCH_TAG_def
      PRIVATE_PARTITION_OFFSET_ADVANCE_TAG_def PRIVATE_TOPIC_FREEZE_TAG_def PRIVATE_BREAK_GLASS_PROPOSAL_TAG_def
      PRIVATE_DELETE_BREAK_GLASS_PROPOSAL_TAG_def)

lemma private_round_trip:
  assumes "wincode_law ser de" "private_carrier ser rec = Ok k"
  shows "\<exists>n. k = KNoOp n \<and> from_private_carrier de n = Ok rec"
proof -
  obtain tag body where t: "private_tag rec = Some tag" "ser rec = Some body"
    and k: "k = KNoOp \<lparr>kno_unknown_tagged_fields = [\<lparr>uf_tag = tag, uf_bytes = be_bytes 2 PRIVATE_RECORD_VERSION @ body\<rparr>]\<rparr>"
    using assms(2) by (auto simp: private_carrier_def and_then_eq_Ok ok_or_Ok)
  have "tag \<in> set PRIVATE_TAGS" "\<not> tag < PRIVATE_TAG_FLOOR"
    using private_tag_listed[OF t(1)] by simp_all
  moreover have "be_word (be_bytes 2 PRIVATE_RECORD_VERSION) = PRIVATE_RECORD_VERSION"
    by (rule be_word_inverse) simp
  moreover have "de body = Some (rec, [])"
    using assms(1) t(2) by (simp add: wincode_law_def)
  ultimately show ?thesis
    using t(1) by (simp add: k from_private_carrier_def Let_def)
qed

lemma exact_round_trip:
  assumes "one_to_one rec" "record_typed rec" "expressible rec" "wincode_law ser de" "image_wf img" "ids_exact img"
    and "to_kraft_iter ser rec img = Ok ks"
  shows "\<exists>k. ks = [k] \<and> from_kraft de k img = Ok rec"
proof (cases rec)
  case (V1DeleteTopic n)
  then show ?thesis
    using assms topic_id_resolves[of img n]
    by (auto simp: delete_topic_to_kraft_def remove_topic_from_kraft_def and_then_eq_Ok ok_or_Ok kraft_defaults Let_def)
next
  case (V1ScramCredential r)
  then show ?thesis
    using assms scram_record_round_trip by fastforce
next
  case (V1AccessControlEntry e)
  then show ?thesis
    using assms acl_round_trip[of e] by auto
next
  case (V1BrokerConfig c)
  then show ?thesis
    using assms decimal_value[of "unat (bc_node_id c)"]
    by (auto simp: config_record_def config_from_kraft_def broker_config_name_def parse_decimal kraft_defaults
        split: if_splits intro!: BrokerConfigRecord.equality)
qed (use assms in \<open>auto simp: one_Ok kraft_defaults kraft_scalars broker_round_trip controller_round_trip
    change_round_trip quota_round_trip token_round_trip delete_scram_to_kraft_def and_then_eq_Ok
    dest!: private_round_trip[OF assms(4)]\<close>)+

section \<open>Replaying a log\<close>

text \<open>
  How a reader of the log builds its image: each record is translated against the image so far and
  applied to it.
\<close>

fun replay :: "de \<Rightarrow> KraftMetadataRecord list \<Rightarrow> MetadataImage \<Rightarrow> (TranslateError, MetadataImage) result" where
  "replay de [] img = Ok img"
| "replay de (k # ks) img = and_then (from_kraft de k img) (\<lambda>rec. replay de ks (apply_record rec img))"

lemma replay_log_append: "replay de (ks @ ks') img = and_then (replay de ks img) (replay de ks')"
proof (induction ks arbitrary: img)
  case (Cons k ks)
  then show ?case
    by (cases "from_kraft de k img") simp_all
qed simp

section \<open>Whole configurations\<close>

lemma bt_ext:
  assumes "bt_wf a" "bt_wf b" "map_of a = map_of b"
  shows "a = b"
proof -
  have "fst ` set a = fst ` set b"
    using assms(3) by (metis dom_map_of_conv_image_fst)
  then have keys: "map fst a = map fst b"
    using assms(1,2) by (intro strict_sorted_equal) (simp_all add: bt_wf_def)
  have "m = map (\<lambda>k. (k, the (map_of m k))) (map fst m)" if "bt_wf m" for m :: "('a \<times> 'b) list"
    using bt_wf_distinct[OF that] by (simp add: comp_def) (rule map_idI[symmetric], force)
  then show ?thesis
    using assms keys by metis
qed

lemma hm_insert_twice [simp]: "hm_insert k v (hm_insert k w m) = hm_insert k v m"
  by (induction m) (auto simp: hm_insert_def)

lemma hm_remove_insert [simp]: "hm_remove k (hm_insert k v m) = hm_remove k m"
  by (induction m) (auto simp: hm_insert_def hm_remove_def)

text \<open>One change of one key, on a configuration and on the store of configurations.\<close>

definition set_key :: "bytes \<times> bytes option \<Rightarrow> (bytes, bytes) btree_map \<Rightarrow> (bytes, bytes) btree_map" where
  "set_key c m = (case snd c of Some v \<Rightarrow> bt_insert (fst c) v m | None \<Rightarrow> bt_remove (fst c) m)"

definition store_key ::
    "bytes \<Rightarrow> bytes \<times> bytes option \<Rightarrow> (bytes, (bytes, bytes) btree_map) hash_map \<Rightarrow> (bytes, (bytes, bytes) btree_map) hash_map" where
  "store_key name c m = replace_configs name (set_key c (or_default [] (map_of m name))) m"

lemma merge_config_key: "merge_config c stored = set_key (kc_name c, kc_value c) (or_default [] stored)"
  by (cases "kc_value c") (simp_all add: merge_config_def set_key_def)

lemma set_key_wf: "bt_wf m \<Longrightarrow> bt_wf (set_key c m)"
  by (simp add: set_key_def bt_wf_insert bt_wf_remove split: option.split)

lemma set_keys_wf: "bt_wf m \<Longrightarrow> bt_wf (fold set_key cs m)"
  by (induction cs arbitrary: m) (simp_all add: set_key_wf)

lemma set_key_get: "bt_wf m \<Longrightarrow> map_of (set_key c m) = (map_of m)(fst c := snd c)"
  by (simp add: set_key_def map_of_bt_insert bt.get_del split: option.split)

lemma store_key_stored: "store_key name c (hm_insert name m' m) = replace_configs name (set_key c m') m"
  by (simp add: store_key_def replace_configs_def or_default_def)

lemma set_keys_get:
  "distinct (map fst cs) \<Longrightarrow> bt_wf m \<Longrightarrow>
   map_of (fold set_key cs m) k = (case map_of cs k of Some v \<Rightarrow> v | None \<Rightarrow> map_of m k)"
proof (induction cs arbitrary: m)
  case (Cons c cs)
  have "map_of cs (fst c) = None"
    using Cons.prems(1) by (simp add: map_of_eq_None_iff)
  then show ?case
    using Cons.IH[of "set_key c m"] Cons.prems
    by (auto simp: set_key_wf set_key_get split: option.split)
qed simp

lemma store_keys:
  assumes "\<And>ys z zs. cs = ys @ z # zs \<Longrightarrow> ys \<noteq> [] \<Longrightarrow> fold set_key ys (or_default [] (map_of m name)) \<noteq> []" "cs \<noteq> []"
  shows "fold (store_key name) cs m = replace_configs name (fold set_key cs (or_default [] (map_of m name))) m"
  using assms
proof (induction cs rule: rev_induct)
  case (snoc c cs)
  show ?case
  proof (cases "cs = []")
    case False
    have "fold set_key cs (or_default [] (map_of m name)) \<noteq> []"
      using snoc.prems(1)[of cs c "[]"] False by simp
    moreover have "fold (store_key name) cs m = replace_configs name (fold set_key cs (or_default [] (map_of m name))) m"
      using snoc.IH snoc.prems(1) False by fastforce
    ultimately show ?thesis
      by (simp add: store_key_stored replace_configs_def[of _ "fold set_key cs _"])
  qed (simp add: store_key_def)
qed simp

text \<open>The changes that \<open>config_fan_out\<close> writes.\<close>

definition fan_out :: "(bytes, bytes) btree_map \<Rightarrow> (bytes, bytes) btree_map \<Rightarrow> (bytes \<times> bytes option) list" where
  "fan_out configs old =
     map (\<lambda>(k, v). (k, Some v)) configs @ map (\<lambda>k. (k, None)) (filter (\<lambda>k. map_of configs k = None) (map fst old))"

lemma config_fan_out_eq:
  "config_fan_out rt name configs old = map (\<lambda>c. config_record rt name (fst c) (snd c)) (fan_out configs old)"
  by (simp add: config_fan_out_def fan_out_def case_prod_unfold)

lemma fan_out_distinct: "bt_wf configs \<Longrightarrow> bt_wf old \<Longrightarrow> distinct (map fst (fan_out configs old))"
  by (auto simp: fan_out_def comp_def case_prod_unfold bt_wf_distinct distinct_filter map_of_eq_None_iff)

lemma fan_out_get:
  assumes "bt_wf configs" "bt_wf old"
  shows "map_of (fan_out configs old) k =
    (case map_of configs k of Some v \<Rightarrow> Some (Some v) | None \<Rightarrow> if k \<in> fst ` set old then Some None else None)"
proof -
  have "map_of (map (\<lambda>(k, v). (k, Some v)) configs) k = map_option Some (map_of configs k)"
    by (induction configs) auto
  moreover have "map_of (map (\<lambda>k. (k, None :: bytes option)) ks) k = (if k \<in> set ks then Some None else None)" for ks :: "bytes list"
    by (induction ks) auto
  ultimately show ?thesis
    by (auto simp: fan_out_def map_add_def split: option.split)
qed

lemma fan_out_result:
  assumes "bt_wf configs" "bt_wf old"
  shows "fold set_key (fan_out configs old) old = configs"
proof (rule bt_ext)
  show "map_of (fold set_key (fan_out configs old) old) = map_of configs"
  proof
    fix k
    show "map_of (fold set_key (fan_out configs old) old) k = map_of configs k"
      using assms map_of_eq_None_iff[of old k]
      by (cases "map_of configs k") (auto simp: set_keys_get fan_out_distinct fan_out_get simp del: map_of_eq_None_iff)
  qed
qed (simp_all add: assms set_keys_wf)

lemma fan_out_nonempty:
  assumes wf: "bt_wf configs" "bt_wf old" and split: "fan_out configs old = ys @ z # zs" and "ys \<noteq> []"
  shows "fold set_key ys old \<noteq> []"
proof -
  have d: "distinct (map fst ys)" "fst z \<notin> fst ` set ys"
    using fan_out_distinct[OF wf] by (auto simp: split)
  note get = set_keys_get[OF d(1) wf(2)]
  have "\<exists>k v. map_of (fold set_key ys old) k = Some v"
  proof (cases configs)
    case Nil
    have "z \<in> set (fan_out configs old)"
      by (simp add: split)
    then have "fst z \<in> fst ` set old"
      by (force simp: Nil fan_out_def)
    then have "map_of old (fst z) \<noteq> None"
      by (simp add: map_of_eq_None_iff)
    moreover have "map_of ys (fst z) = None"
      using d(2) by (simp add: map_of_eq_None_iff)
    ultimately have "map_of (fold set_key ys old) (fst z) \<noteq> None"
      using get[of "fst z"] by simp
    then show ?thesis
      by (metis not_None_eq)
  next
    case (Cons c cs)
    then have "map_of ys (fst c) = Some (Some (snd c))"
      using split assms(4) by (cases ys; cases c) (auto simp: fan_out_def)
    then have "map_of (fold set_key ys old) (fst c) = Some (snd c)"
      using get[of "fst c"] by simp
    then show ?thesis
      by blast
  qed
  then show ?thesis
    by auto
qed

lemma fan_out_stored:
  assumes "level_wf (\<lambda>_. inner_ok config_ok) m" "bt_wf configs"
  shows "fold (store_key name) (fan_out configs (or_default [] (map_of m name))) m = replace_configs name configs m"
proof -
  let ?old = "or_default [] (map_of m name)"
  have old: "bt_wf ?old"
    using level_wf_get[OF assms(1)] by (auto simp: or_default_def inner_ok_def bt.wf_empty split: option.split)
  show ?thesis
  proof (cases "fan_out configs ?old = []")
    case True
    then have "configs = []" "?old = []"
      by (auto simp: fan_out_def)
    moreover have "map_of m name = None"
      using \<open>?old = []\<close> level_wf_get[OF assms(1)] by (auto simp: or_default_def inner_ok_def split: option.splits)
    ultimately have "replace_configs name configs m = m"
      by (simp add: replace_configs_def hm_remove_absent)
    then show ?thesis
      by (simp only: True fold_simps)
  next
    case False
    have "fold set_key ys ?old \<noteq> []" if "fan_out configs ?old = ys @ z # zs" "ys \<noteq> []" for ys z zs
      using fan_out_nonempty[OF assms(2) old that] .
    then show ?thesis
      using store_keys[of "fan_out configs ?old" m name] False fan_out_result[OF assms(2) old] by simp
  qed
qed

text \<open>
  A kind of configuration: its resource type, and the field of the image that stores it.
\<close>

locale config_kind =
  fixes rt :: i8
    and field :: "MetadataImage \<Rightarrow> (bytes, (bytes, bytes) btree_map) hash_map"
    and with_field :: "(bytes, (bytes, bytes) btree_map) hash_map \<Rightarrow> MetadataImage \<Rightarrow> MetadataImage"
  assumes field_with: "field (with_field m img) = m"
    and with_with: "with_field m (with_field m' img) = with_field m img"
    and with_same: "with_field (field img) img = img"
    and decoded: "replay de [config_record rt name (fst c) (snd c)] img = Ok (with_field (store_key name c (field img)) img)"
begin

lemma replay_changes:
  "replay de (map (\<lambda>c. config_record rt name (fst c) (snd c)) cs) img = Ok (with_field (fold (store_key name) cs (field img)) img)"
proof (induction cs arbitrary: img)
  case (Cons c cs)
  have "replay de (map (\<lambda>c. config_record rt name (fst c) (snd c)) (c # cs)) img
      = and_then (replay de [config_record rt name (fst c) (snd c)] img) (replay de (map (\<lambda>c. config_record rt name (fst c) (snd c)) cs))"
    using replay_log_append[of de "[config_record rt name (fst c) (snd c)]"] by simp
  also have "\<dots> = Ok (with_field (fold (store_key name) (c # cs) (field img)) img)"
    unfolding decoded by (simp add: Cons.IH field_with with_with)
  finally show ?case .
qed (simp add: with_same)

lemma replay_fan_out:
  "level_wf (\<lambda>_. inner_ok config_ok) (field img) \<Longrightarrow> bt_wf configs \<Longrightarrow>
   replay de (config_fan_out rt name configs (or_default [] (map_of (field img) name))) img
     = Ok (with_field (replace_configs name configs (field img)) img)"
  by (simp add: config_fan_out_eq replay_changes fan_out_stored)

end

interpretation topic_configs: config_kind 2 mi_topic_configs "\<lambda>m. mi_topic_configs_update (\<lambda>_. m)"
  by unfold_locales (simp_all add: config_record_def config_from_kraft_def kraft_defaults merge_config_key topic_config_def
      store_key_def)

interpretation metrics_configs: config_kind 16 mi_client_metrics_configs "\<lambda>m. mi_client_metrics_configs_update (\<lambda>_. m)"
  by unfold_locales (simp_all add: config_record_def config_from_kraft_def kraft_defaults merge_config_key client_metrics_config_def
      store_key_def)

interpretation group_configs: config_kind 32 mi_group_configs "\<lambda>m. mi_group_configs_update (\<lambda>_. m)"
  by unfold_locales (simp_all add: config_record_def config_from_kraft_def kraft_defaults merge_config_key group_config_def
      store_key_def)

section \<open>Deleting ACLs\<close>

text \<open>No two entries of the image have the same id.\<close>

definition acl_ids_distinct :: "MetadataImage \<Rightarrow> bool" where
  "acl_ids_distinct img \<longleftrightarrow> distinct (map acl_id (all_acls img))"

lemma replay_acl_removals:
  assumes "acl_wf (mi_acls img)" "inj_on acl_id (set (all_acls img))" "distinct es" "set es \<subseteq> set (all_acls img)"
  shows "replay de (map (\<lambda>e. KRemoveAccessControlEntry (KRemoveAccessControlEntryRecord_default\<lparr>krace_id := acl_id e\<rparr>)) es) img
    = Ok (img\<lparr>mi_acls := fold AclIndex_remove_matching (map exact_filter es) (mi_acls img)\<rparr>)"
  using assms
proof (induction es arbitrary: img)
  case (Cons e es)
  have e: "e \<in> set (all_acls img)"
    using Cons.prems(4) by simp
  have "find (\<lambda>a. acl_id a = acl_id e) (all_acls img) = Some e"
  proof -
    obtain a where a: "find (\<lambda>a. acl_id a = acl_id e) (all_acls img) = Some a"
      using e find_None_iff[of "\<lambda>a. acl_id a = acl_id e" "all_acls img"] by (metis not_Some_eq)
    then have "a \<in> set (all_acls img)" "acl_id a = acl_id e"
      by (auto simp: find_Some_iff)
    then show ?thesis
      using a Cons.prems(2) e by (simp add: inj_on_eq_iff)
  qed
  then have step: "from_kraft de (KRemoveAccessControlEntry (KRemoveAccessControlEntryRecord_default\<lparr>krace_id := acl_id e\<rparr>)) img
      = Ok (V1DeleteAccessControlEntry (exact_filter e))"
    by (simp add: remove_acl_from_kraft_def kraft_defaults)
  let ?img = "img\<lparr>mi_acls := AclIndex_remove_matching (exact_filter e) (mi_acls img)\<rparr>"
  have s: "set (all_acls ?img) = set (all_acls img) - {e}" "acl_wf (mi_acls ?img)"
    using AclIndex_remove_spec[OF Cons.prems(1), of "exact_filter e"] by (auto simp: all_acls_def)
  have "inj_on acl_id (set (all_acls ?img))" "distinct es" "set es \<subseteq> set (all_acls ?img)"
    using Cons.prems s by (auto intro: inj_on_subset)
  then show ?case
    using Cons.IH[OF s(2)] step by simp
qed simp

lemma replay_delete_acl:
  assumes "image_wf img" "acl_ids_distinct img"
  shows "\<exists>idx. replay de (delete_acl_to_kraft f img) img = Ok (img\<lparr>mi_acls := idx\<rparr>) \<and> acl_wf idx
    \<and> set (AclIndex_iter idx) = set (AclIndex_iter (AclIndex_remove_matching f (mi_acls img)))"
proof -
  let ?es = "filter (filter_matches f) (all_acls img)"
  have w: "acl_wf (mi_acls img)"
    using assms(1) by (simp add: image_wf_def)
  have "inj_on acl_id (set (all_acls img))" "distinct ?es"
    using assms(2) by (simp_all add: acl_ids_distinct_def distinct_map)
  then have "replay de (delete_acl_to_kraft f img) img
      = Ok (img\<lparr>mi_acls := fold AclIndex_remove_matching (map exact_filter ?es) (mi_acls img)\<rparr>)"
    unfolding delete_acl_to_kraft_def by (intro replay_acl_removals w) simp_all
  then show ?thesis
    using remove_exact[OF w, of ?es] AclIndex_remove_spec(2)[OF w, of f] by (auto simp: all_acls_def)
qed

section \<open>Partitions\<close>

lemma nested_remove_absent:
  assumes "level_wf (\<lambda>k. inner_ok (P k)) m" "nested_get m t p = None"
  shows "nested_remove t p m = m"
proof (cases "map_of m t")
  case (Some parts)
  have "bt_remove p parts = parts" "parts \<noteq> []"
    using assms Some level_wf_get[OF assms(1) Some] hm_remove_absent[of parts p]
    by (simp_all add: nested_get_def bt_remove_def hm_remove_def inner_ok_def)
  then show ?thesis
    using Some assms(1) by (simp add: nested_remove_def hm_insert_same level_wf_def)
qed (simp add: nested_remove_def)

text \<open>Writing the state that a partition already has changes nothing.\<close>

lemma elr_same:
  assumes "image_wf img" "partition_elr img t p = (el, lk)" "el \<noteq> [] \<or> lk \<noteq> []"
  shows "apply_partition_elr \<lparr>elr_topic = t, elr_partition = p, elr_eligible_leader_replicas = el, elr_last_known_elr = lk\<rparr> img = img"
proof -
  have w: "level_wf (\<lambda>_. bt_wf) (mi_partition_elr img)"
    using assms(1) by (auto simp: image_wf_def intro: nested_wf)
  have "nested_get (mi_partition_elr img) t p = Some (el, lk)"
    using assms(2,3) by (auto simp: partition_elr_def or_default_def split: option.splits)
  then show ?thesis
    using assms(3) nested_insert_same[OF w] by (auto simp: apply_partition_elr_def)
qed

lemma recovery_same:
  assumes "image_wf img" "leader_recovery_state img t p = s"
  shows "apply_partition_recovery t p s img = img"
proof (cases "nested_get (mi_partition_recovery img) t p")
  case None
  then show ?thesis
    using assms nested_remove_absent[of _ "mi_partition_recovery img" t p]
    by (auto simp: apply_partition_recovery_def leader_recovery_state_def or_default_def image_wf_def)
next
  case (Some st)
  have w: "level_wf (\<lambda>_. bt_wf) (mi_partition_recovery img)"
    using assms(1) by (auto simp: image_wf_def intro: nested_wf)
  have "st \<noteq> Recovered"
    using assms(1) Some nested_get_ok[of "\<lambda>_ _ v. v \<noteq> Recovered" "mi_partition_recovery img" t p st] by (simp add: image_wf_def)
  then show ?thesis
    using assms(2) Some nested_insert_same[OF w Some]
    by (simp add: apply_partition_recovery_def leader_recovery_state_def or_default_def)
qed

lemma partition_reads [simp]:
  "partition_elr (apply_partition p img) = partition_elr img"
  "leader_recovery_state (apply_partition p img) = leader_recovery_state img"
  by (auto simp: partition_elr_def leader_recovery_state_def apply_partition_def Let_def fun_eq_iff split: option.split)

text \<open>A partition is written with the eligible leaders and the recovery state it already has.\<close>

lemma update_same_state:
  assumes "image_wf img" "partition_elr img (pr_topic p) (pr_partition p) = (el, lk)"
    and "leader_recovery_state img (pr_topic p) (pr_partition p) = s"
    and "eo = (if el \<noteq> [] \<or> lk \<noteq> [] then Some el else None)" "lo = (if el \<noteq> [] \<or> lk \<noteq> [] then Some lk else None)"
  shows "apply_partition_update \<lparr>pu_partition = p, pu_eligible_leader_replicas = eo, pu_last_known_elr = lo,
           pu_recovery_state = Some s\<rparr> img = apply_partition p img"
proof -
  note w = image_wf_partition[OF assms(1), of p]
  show ?thesis
    using elr_same[OF w, of "pr_topic p" "pr_partition p" el lk] recovery_same[OF w, of "pr_topic p" "pr_partition p" s] assms(2-5)
    by (auto simp: apply_partition_update_def Let_def split: option.split)
qed

lemma replay_partition:
  assumes "image_wf img" "ids_exact img" "partition_typed p" "partition_record_to_kraft p img = Ok ks"
  shows "replay de ks img = Ok (apply_partition p img)"
proof -
  obtain el lk where e: "partition_elr img (pr_topic p) (pr_partition p) = (el, lk)"
    by fastforce
  obtain t k where t: "image_topic img (pr_topic p) = Some t" and k: "partition_to_kraft p (tr_topic_id t) img = Ok k" and ks: "ks = [KPartition k]"
    using assms(4) by (auto simp: partition_record_to_kraft_def and_then_eq_Ok ok_or_Ok one_Ok)
  let ?s = "leader_recovery_state img (pr_topic p) (pr_partition p)"
  let ?eo = "if el \<noteq> [] \<or> lk \<noteq> [] then Some el else None" and ?lo = "if el \<noteq> [] \<or> lk \<noteq> [] then Some lk else None"
  let ?u = "\<lparr>pu_partition = p, pu_eligible_leader_replicas = ?eo, pu_last_known_elr = ?lo, pu_recovery_state = Some ?s\<rparr>"
  obtain rs isr rm ad ld eo lo
    where wire: "nodes_to_wire (pr_replicas p) ''partition replicas'' = Ok rs" "nodes_to_wire (pr_isr p) ''partition isr'' = Ok isr"
      "nodes_to_wire (pr_removing_replicas p) ''partition removing_replicas'' = Ok rm"
      "nodes_to_wire (pr_adding_replicas p) ''partition adding_replicas'' = Ok ad"
      "partition_leader_to_wire (pr_leader p) ''partition leader'' = Ok ld"
      "try_option (\<lambda>ns. nodes_to_wire ns ''eligible leader replica'') ?eo = Ok eo"
      "try_option (\<lambda>ns. nodes_to_wire ns ''last known eligible leader replica'') ?lo = Ok lo"
      and k: "k = KPartitionRecord_default\<lparr>kp_partition_id := of_int (pr_partition p), kp_topic_id := to_kuuid (tr_topic_id t),
             kp_replicas := rs, kp_isr := isr, kp_removing_replicas := rm, kp_adding_replicas := ad,
             kp_leader := ld, kp_leader_epoch := of_int (pr_leader_epoch p),
             kp_partition_epoch := of_int (pr_partition_epoch p), kp_directories := map to_kuuid (pr_directories p),
             kp_leader_recovery_state := recovery_to_wire ?s, kp_eligible_leader_replicas := eo, kp_last_known_elr := lo\<rparr>"
    using k by (auto simp: partition_to_kraft_def e and_then_eq_Ok Let_def)
  note read = wire(1-4)[THEN nodes_round_trip] wire(5)[THEN leader_round_trip, THEN conjunct1]
    wire(6-7)[THEN optional_nodes_round_trip]
  have "eo = None \<longleftrightarrow> ?eo = None" "lo = None \<longleftrightarrow> ?eo = None"
    using wire(6,7) by (auto simp: try_option_def and_then_eq_Ok split: if_splits)
  then have "from_kraft de (KPartition k) img = Ok (if ?eo \<noteq> None \<or> ?s = Recovering then V1PartitionUpdate ?u else V1Partition p)"
    using topic_id_resolves[OF assms(1,2) t] assms(3) read
    by (simp add: k partition_from_kraft_def Let_def kraft_scalars kraft_defaults partition_typed_def)
  then show ?thesis
    using update_same_state[OF assms(1) e refl refl refl] by (auto simp: ks)
qed

section \<open>Images that agree\<close>

text \<open>
  The log carries neither the replication factor of a topic nor, for a change of a partition, the
  partition epoch: a reader derives both. Removed ACLs leave the same entries, in an index that may
  be laid out differently. Two images agree when nothing else differs.
\<close>

definition map_vals :: "('v \<Rightarrow> 'w) \<Rightarrow> ('k \<times> 'v) list \<Rightarrow> ('k \<times> 'w) list" where
  "map_vals f m = map (\<lambda>(k, v). (k, f v)) m"

definition no_rf :: "TopicRecord \<Rightarrow> TopicRecord" where
  "no_rf t = t\<lparr>tr_replication_factor := 0\<rparr>"

definition no_epoch :: "PartitionRecord \<Rightarrow> PartitionRecord" where
  "no_epoch p = p\<lparr>pr_partition_epoch := 0\<rparr>"

definition observed :: "MetadataImage \<Rightarrow> MetadataImage" where
  "observed img = img\<lparr>mi_topics := map_vals no_rf (mi_topics img),
     mi_partitions := map_vals (map_vals no_epoch) (mi_partitions img), mi_acls := AclIndex_default\<rparr>"

definition agree :: "MetadataImage \<Rightarrow> MetadataImage \<Rightarrow> bool" where
  "agree a b \<longleftrightarrow> observed a = observed b \<and> acl_wf (mi_acls a) \<and> acl_wf (mi_acls b) \<and> set (all_acls a) = set (all_acls b)"

lemma map_vals_get [simp]: "map_of (map_vals f m) k = map_option f (map_of m k)"
  by (induction m) (auto simp: map_vals_def)

lemma map_vals_insert [simp]: "map_vals f (hm_insert k v m) = hm_insert k (f v) (map_vals f m)"
  by (induction m) (auto simp: map_vals_def hm_insert_def)

lemma map_vals_remove [simp]: "map_vals f (hm_remove k m) = hm_remove k (map_vals f m)"
  by (induction m) (auto simp: map_vals_def hm_remove_def)

lemma map_vals_bt_insert [simp]: "map_vals f (bt_insert k v m) = bt_insert k (f v) (map_vals f m)"
  by (induction k v m rule: bt_insert.induct) (auto simp: map_vals_def)

lemma map_vals_Nil [simp]: "map_vals f [] = []"
  by (simp add: map_vals_def)

lemma map_vals_or_default [simp]: "map_vals f (or_default [] v) = or_default [] (map_option (map_vals f) v)"
  by (simp add: or_default_def split: option.split)

lemma map_vals_twice: "(\<And>v. f (f v) = f v) \<Longrightarrow> map_vals f (map_vals f m) = map_vals f m"
  by (simp add: map_vals_def case_prod_unfold)

lemma erased_twice [simp]: "no_rf (no_rf t) = no_rf t" "no_epoch (no_epoch p) = no_epoch p"
  by (simp_all add: no_rf_def no_epoch_def)

lemma map_vals_erased [simp]:
  "map_vals no_rf (map_vals no_rf ts) = map_vals no_rf ts"
  "map_vals no_epoch (map_vals no_epoch ps) = map_vals no_epoch ps"
  "map_vals (map_vals no_epoch) (map_vals (map_vals no_epoch) pps) = map_vals (map_vals no_epoch) pps"
  "map_option (map_vals no_epoch) (map_option (map_vals no_epoch) v) = map_option (map_vals no_epoch) v"
  by (simp_all add: map_vals_twice option.map_comp comp_def)

lemma nested_get_erased [simp]:
  "nested_get (map_vals (map_vals f) m) k i = map_option f (nested_get m k i)"
  by (simp add: nested_get_def split: option.split)

lemma erased_fields [simp]:
  "tr_name (no_rf t) = tr_name t" "tr_topic_id (no_rf t) = tr_topic_id t" "tr_partitions (no_rf t) = tr_partitions t"
  "pr_topic (no_epoch p) = pr_topic p" "pr_partition (no_epoch p) = pr_partition p" "pr_replicas (no_epoch p) = pr_replicas p"
  "pr_directories (no_epoch p) = pr_directories p" "no_rf (t\<lparr>tr_replication_factor := r\<rparr>) = no_rf t"
  "no_rf (no_rf t\<lparr>tr_partitions := c\<rparr>) = no_rf (t\<lparr>tr_partitions := c\<rparr>)"
  "no_rf (no_rf t\<lparr>tr_partitions := c, tr_replication_factor := r\<rparr>) = no_rf (t\<lparr>tr_partitions := c\<rparr>)"
  "no_rf (t\<lparr>tr_partitions := c, tr_replication_factor := r\<rparr>) = no_rf (t\<lparr>tr_partitions := c\<rparr>)"
  "no_epoch (p\<lparr>pr_partition_epoch := e\<rparr>) = no_epoch p"
  "no_epoch (no_epoch p\<lparr>pr_directories := d\<rparr>) = no_epoch (p\<lparr>pr_directories := d\<rparr>)"
  by (simp_all add: no_rf_def no_epoch_def)

lemma observed_twice [simp]: "observed (observed img) = observed img"
  by (simp add: observed_def)

lemma observed_partition: "observed (apply_partition p a) = observed (apply_partition (no_epoch p) (observed a))"
  by (auto simp: apply_partition_def observed_def Let_def hm_entry_def split: option.split)

lemma observed_elr: "observed (apply_partition_elr r a) = apply_partition_elr r (observed a)"
  by (simp add: observed_def apply_partition_elr_def)

lemma observed_recovery: "observed (apply_partition_recovery topic i s a) = apply_partition_recovery topic i s (observed a)"
  by (simp add: observed_def apply_partition_recovery_def)

lemma observed_update:
  "observed (apply_partition_update u a) = observed (apply_partition_update (u\<lparr>pu_partition := no_epoch (pu_partition u)\<rparr>) (observed a))"
  by (simp add: apply_partition_update_def Let_def observed_elr observed_recovery observed_partition[of "pu_partition u" a]
      split: option.split)

lemma observed_apply: "observed (apply_record r a) = observed (apply_record r (observed a))"
proof (cases r)
  case (V1Partition p)
  then show ?thesis
    using observed_partition[of p a] observed_partition[of p "observed a"] by simp
next
  case (V1PartitionUpdate u)
  then show ?thesis
    using observed_update[of u a] observed_update[of u "observed a"] by simp
qed (auto simp: observed_def apply_topic_def apply_delete_topic_def apply_dir_assignment_def nested_insert_def hm_entry_def
    apply_registration_change_def apply_unregister_broker_def broker_epoch_def apply_producer_ids_def next_producer_id_def
    apply_feature_level_def apply_offset_advance_def apply_topic_freeze_def apply_partition_elr_def apply_partition_recovery_def
    Let_def split: option.split PatternType.split bool.split)

lemma agree_refl: "image_wf img \<Longrightarrow> agree img img"
  by (simp add: agree_def image_wf_def)

lemma agree_trans: "agree a b \<Longrightarrow> agree b c \<Longrightarrow> agree a c"
  by (simp add: agree_def)

lemma acls_other:
  "(\<And>e. r \<noteq> V1AccessControlEntry e) \<Longrightarrow> (\<And>f. r \<noteq> V1DeleteAccessControlEntry f) \<Longrightarrow> mi_acls (apply_record r a) = mi_acls a"
  by (cases r) (auto simp: apply_topic_def apply_partition_def apply_partition_update_def apply_registration_change_def
      apply_unregister_broker_def apply_feature_level_def apply_delete_topic_def apply_producer_ids_def
      apply_offset_advance_def apply_topic_freeze_def apply_partition_elr_def apply_partition_recovery_def
      apply_dir_assignment_eq Let_def split: option.split PatternType.split bool.split)

lemma agree_apply:
  assumes "agree a b" "mrecord_wf r"
  shows "agree (apply_record r a) (apply_record r b)"
proof -
  have o: "observed (apply_record r a) = observed (apply_record r b)"
    using assms(1) observed_apply[of r a] observed_apply[of r b] by (simp add: agree_def)
  have w: "acl_wf (mi_acls a)" "acl_wf (mi_acls b)" and s: "set (AclIndex_iter (mi_acls a)) = set (AclIndex_iter (mi_acls b))"
    using assms(1) by (simp_all add: agree_def all_acls_def)
  show ?thesis
  proof (cases "(\<exists>e. r = V1AccessControlEntry e) \<or> (\<exists>f. r = V1DeleteAccessControlEntry f)")
    case True
    then show ?thesis
      using o assms(2) AclIndex_insert_spec[OF w(1)] AclIndex_insert_spec[OF w(2)] AclIndex_remove_spec[OF w(1)]
        AclIndex_remove_spec[OF w(2)] s by (auto simp: agree_def all_acls_def)
  next
    case False
    then show ?thesis
      using o w s acls_other[of r a] acls_other[of r b] by (auto simp: agree_def all_acls_def)
  qed
qed

lemma agree_observed: "image_wf a \<Longrightarrow> observed a = observed b \<Longrightarrow> mi_acls a = mi_acls b \<Longrightarrow> agree a b"
  by (simp add: agree_def image_wf_def all_acls_def)

section \<open>Changes of a partition\<close>

text \<open>The partition that a \<open>PartitionChangeRecord\<close> makes of the current one.\<close>

definition bumped :: "PartitionRecord \<Rightarrow> PartitionRecord" where
  "bumped p = p\<lparr>pr_partition_epoch := pr_partition_epoch p + 1\<rparr>"

lemma change_decodes:
  assumes "topic_name_for_id img (from_kuuid (kpc_topic_id k)) = Some topic"
    "image_partition img topic (sint (kpc_partition_id k)) = Some cur"
    "kpc_leader_recovery_state k = (case rs of None \<Rightarrow> -1 | Some s \<Rightarrow> recovery_to_wire s)"
    "replaced_nodes (kpc_replicas k) (pr_replicas cur) ''partition change replica'' = Ok replicas"
    "replaced_nodes (kpc_isr k) (pr_isr cur) ''partition change ISR member'' = Ok isr"
    "replaced_nodes (kpc_removing_replicas k) (pr_removing_replicas cur) ''partition change removing replica'' = Ok removing"
    "replaced_nodes (kpc_adding_replicas k) (pr_adding_replicas cur) ''partition change adding replica'' = Ok adding"
    "change_leader k (cur\<lparr>pr_replicas := replicas, pr_isr := isr, pr_removing_replicas := removing,
       pr_adding_replicas := adding\<rparr>) = Ok led"
    "change_directories k led = Ok placed" "pr_partition_epoch placed < I32_MAX"
    "try_option (\<lambda>vs. nodes_from_wire vs ''eligible leader replica'') (kpc_eligible_leader_replicas k) = Ok eo"
    "try_option (\<lambda>vs. nodes_from_wire vs ''last known eligible leader replica'') (kpc_last_known_elr k) = Ok lo"
  shows "replay de [KPartitionChange k] img = Ok (apply_partition_update
    \<lparr>pu_partition = bumped placed, pu_eligible_leader_replicas = eo, pu_last_known_elr = lo, pu_recovery_state = rs\<rparr> img)"
proof -
  have "kpc_leader_recovery_state k = -1 \<longleftrightarrow> rs = None"
    using assms(3) recovery_round_trip(2) by (auto split: option.splits)
  moreover have "try_option (\<lambda>b. recovery_from_wire b ''partition change leader recovery state'')
      (if kpc_leader_recovery_state k \<noteq> -1 then Some (kpc_leader_recovery_state k) else None) = Ok rs"
    using assms(3) recovery_round_trip by (auto simp: try_option_def split: option.splits)
  moreover have "kpc_eligible_leader_replicas k = None \<longleftrightarrow> eo = None" "kpc_last_known_elr k = None \<longleftrightarrow> lo = None"
    using assms(11,12) by (auto simp: try_option_def and_then_eq_Ok split: option.splits)
  ultimately show ?thesis
    using assms by (auto simp: partition_change_from_kraft_def checked_succ_def bumped_def Let_def
        apply_partition_update_def split: option.splits)
qed

lemma map_vals_keys [simp]: "fst ` set (map_vals f m) = fst ` set m" "map fst (map_vals f m) = map fst m"
  by (force simp: map_vals_def image_iff, simp add: map_vals_def case_prod_unfold)

lemma map_vals_wf [simp]:
  "hm_wf (map_vals f m) = hm_wf m" "bt_wf (map_vals g m') = bt_wf m'"
  "level_wf P (map_vals h n) = level_wf (\<lambda>k v. P k (h v)) n"
  by (simp_all add: hm_wf_def bt_wf_def level_wf_def) (auto simp: map_vals_def)

lemma observed_reinsert:
  assumes "image_wf img" "image_partition img (pr_topic p) (pr_partition p) = Some cur"
  shows "observed (apply_partition p img)
    = observed (img\<lparr>mi_partitions := nested_insert (pr_topic p) (pr_partition p) p (mi_partitions img)\<rparr>)"
proof (cases "map_of (mi_topics img) (pr_topic p)")
  case (Some t)
  have "hm_insert (pr_topic p) (no_rf t) (map_vals no_rf (mi_topics img)) = map_vals no_rf (mi_topics img)"
    using assms(1) Some by (intro hm_insert_same) (simp_all add: image_wf_def level_wf_def)
  then show ?thesis
    using assms(2) Some by (simp add: apply_partition_def observed_def nested_insert_def image_partition_def)
qed (use assms in \<open>simp add: apply_partition_def observed_def nested_insert_def image_partition_def\<close>)

lemma observed_same_partition:
  assumes "image_wf img" "image_partition img (pr_topic p) (pr_partition p) = Some cur" "no_epoch p = no_epoch cur"
  shows "observed (apply_partition p img) = observed img"
proof -
  let ?m = "map_vals (map_vals no_epoch) (mi_partitions img)"
  have "level_wf (\<lambda>_. bt_wf) (mi_partitions img)"
    using assms(1) by (auto simp: image_wf_def intro: nested_wf)
  then have "nested_insert (pr_topic p) (pr_partition p) (no_epoch cur) ?m = ?m"
    using assms(2) by (intro nested_insert_same) (simp_all add: image_partition_def)
  then show ?thesis
    by (simp add: observed_reinsert[OF assms(1,2)]) (simp add: observed_def nested_insert_def hm_entry_def assms(3))
qed

lemma stored_partition: "image_wf img \<Longrightarrow> image_partition img t i = Some cur \<Longrightarrow> pr_topic cur = t \<and> pr_partition cur = i"
  using nested_get_ok[of partition_ok "mi_partitions img" t i cur] by (simp add: image_wf_def image_partition_def partition_ok_def)

lemma partition_acls [simp]: "mi_acls (apply_partition p img) = mi_acls img"
  by (simp add: apply_partition_def Let_def split: option.split)

text \<open>The records of the log that a change of one field leaves out are not changed.\<close>

lemma change_defaults:
  "replaced_nodes None ns f = Ok ns" "try_option g None = Ok None"
  by (simp_all add: replaced_nodes_def try_option_def)

lemma dir_assignment_kraft:
  assumes k: "partition_dir_assignment_to_kraft r img = Ok k"
    and cur: "image_partition img (pda_topic r) (pda_partition r) = Some cur"
  shows "\<exists>t slot. image_topic img (pda_topic r) = Some t \<and> position (\<lambda>n. n = pda_replica r) (pr_replicas cur) = Some slot
    \<and> k = KPartitionChangeRecord_default\<lparr>kpc_partition_id := of_int (pda_partition r), kpc_topic_id := to_kuuid (tr_topic_id t),
      kpc_directories := Some (map to_kuuid ((resize (length (pr_replicas cur)) MIGRATING (pr_directories cur))[slot := pda_directory r]))\<rparr>"
proof -
  obtain t slot where "image_topic img (pda_topic r) = Some t" "position (\<lambda>n. n = pda_replica r) (pr_replicas cur) = Some slot"
    using k cur by (fastforce simp: partition_dir_assignment_to_kraft_def and_then_eq_Ok ok_or_Ok)
  then show ?thesis
    using k cur by (simp add: partition_dir_assignment_to_kraft_def and_then_eq_Ok ok_or_Ok Let_def list_update_beyond split: if_splits)
qed
lemma replay_dir_assignment:
  assumes wf: "image_wf img" "ids_exact img" and typed: "i32_ok (pda_partition r)"
    and k: "partition_dir_assignment_to_kraft r img = Ok k"
    and cur: "image_partition img (pda_topic r) (pda_partition r) = Some cur"
    and room: "pr_partition_epoch cur < I32_MAX" "length (pr_directories cur) \<le> length (pr_replicas cur)"
  shows "\<exists>img'. replay de [KPartitionChange k] img = Ok img' \<and> agree (apply_dir_assignment r img) img'"
proof -
  let ?n = "length (pr_replicas cur)"
  obtain t slot where t: "image_topic img (pda_topic r) = Some t" and slot: "position (\<lambda>n. n = pda_replica r) (pr_replicas cur) = Some slot"
    and k: "k = KPartitionChangeRecord_default\<lparr>kpc_partition_id := of_int (pda_partition r), kpc_topic_id := to_kuuid (tr_topic_id t),
      kpc_directories := Some (map to_kuuid ((resize ?n MIGRATING (pr_directories cur))[slot := pda_directory r]))\<rparr>"
    using dir_assignment_kraft[OF k cur] by blast
  let ?p = "cur\<lparr>pr_directories := (resize ?n MIGRATING (pr_directories cur))[slot := pda_directory r]\<rparr>"
  have dirs: "assigned_dirs cur slot (pda_directory r) = (resize ?n MIGRATING (pr_directories cur))[slot := pda_directory r]"
    using room(2) position_Some[OF slot] by (auto simp: assigned_dirs_def resize_def Let_def)
  have "replay de [KPartitionChange k] img = Ok (apply_partition_update
      \<lparr>pu_partition = bumped ?p, pu_eligible_leader_replicas = None, pu_last_known_elr = None, pu_recovery_state = None\<rparr> img)"
    using topic_id_resolves[OF wf t] cur room typed
    by (intro change_decodes[where cur = cur and topic = "pda_topic r" and led = cur and replicas = "pr_replicas cur" and isr = "pr_isr cur"
          and removing = "pr_removing_replicas cur" and adding = "pr_adding_replicas cur"])
      (simp_all add: k kraft_defaults kraft_scalars change_defaults change_leader_def change_directories_def resize_def)
  moreover have "observed (apply_dir_assignment r img) = observed (apply_partition (bumped ?p) img)"
    using observed_reinsert[OF wf(1), of "bumped ?p" cur] cur slot stored_partition[OF wf(1) cur]
    by (simp add: apply_dir_assignment_eq image_partition_def dirs bumped_def) (simp add: observed_def nested_insert_def hm_entry_def)
  ultimately show ?thesis
    using agree_observed[OF image_wf_dir[OF wf(1)], of r] cur slot
    by (auto simp: apply_partition_update_def apply_dir_assignment_eq image_partition_def Let_def)
qed

lemma state_change:
  assumes wf: "image_wf img" "ids_exact img" and typed: "i32_ok i"
    and k: "partition_state_to_kraft img topic i (case rs of None \<Rightarrow> -1 | Some s \<Rightarrow> recovery_to_wire s) eo lo = Ok k"
    and cur: "image_partition img topic i = Some cur" and room: "pr_partition_epoch cur < I32_MAX"
  shows "replay de [KPartitionChange k] img = Ok (apply_partition_update
      \<lparr>pu_partition = bumped cur, pu_eligible_leader_replicas = eo, pu_last_known_elr = lo, pu_recovery_state = rs\<rparr> img)"
proof -
  obtain t ew lw where t: "image_topic img topic = Some t"
    and w: "try_option (\<lambda>ns. nodes_to_wire ns ''eligible leader replica'') eo = Ok ew"
      "try_option (\<lambda>ns. nodes_to_wire ns ''last known eligible leader replica'') lo = Ok lw"
    and k: "k = KPartitionChangeRecord_default\<lparr>kpc_partition_id := of_int i, kpc_topic_id := to_kuuid (tr_topic_id t),
      kpc_leader_recovery_state := (case rs of None \<Rightarrow> -1 | Some s \<Rightarrow> recovery_to_wire s),
      kpc_eligible_leader_replicas := ew, kpc_last_known_elr := lw\<rparr>"
    using k by (auto simp: partition_state_to_kraft_def and_then_eq_Ok ok_or_Ok)
  show ?thesis
    using topic_id_resolves[OF wf t] cur room typed w[THEN optional_nodes_round_trip]
    by (intro change_decodes[where cur = cur and topic = topic and led = cur and replicas = "pr_replicas cur" and isr = "pr_isr cur"
          and removing = "pr_removing_replicas cur" and adding = "pr_adding_replicas cur"])
      (simp_all add: k kraft_defaults kraft_scalars change_defaults change_leader_def change_directories_def)
qed

lemma observed_bumped:
  assumes "image_wf img" "image_partition img topic i = Some cur"
  shows "observed (apply_partition (bumped cur) img) = observed img"
  using observed_same_partition[OF assms(1), of "bumped cur" cur] stored_partition[OF assms] assms(2) by (simp add: bumped_def)

lemma replay_elr:
  assumes "image_wf img" "ids_exact img" "i32_ok (elr_partition r)"
    "partition_state_to_kraft img (elr_topic r) (elr_partition r) (-1) (Some (elr_eligible_leader_replicas r)) (Some (elr_last_known_elr r)) = Ok k"
    "image_partition img (elr_topic r) (elr_partition r) = Some cur" "pr_partition_epoch cur < I32_MAX"
  shows "\<exists>img'. replay de [KPartitionChange k] img = Ok img' \<and> agree (apply_partition_elr r img) img'"
proof -
  have "observed (apply_partition_elr r img) = observed (apply_partition_elr r (apply_partition (bumped cur) img))"
    by (simp add: observed_elr observed_bumped[OF assms(1,5)])
  then have "agree (apply_partition_elr r img) (apply_partition_elr r (apply_partition (bumped cur) img))"
    by (rule agree_observed[OF image_wf_elr[OF assms(1)]]) (simp add: apply_partition_elr_def)
  moreover have r: "\<lparr>elr_topic = elr_topic r, elr_partition = elr_partition r,
      elr_eligible_leader_replicas = elr_eligible_leader_replicas r, elr_last_known_elr = elr_last_known_elr r\<rparr> = r"
    by simp
  ultimately show ?thesis
    using state_change[OF assms(1-3), where rs = None] assms(4-6) stored_partition[OF assms(1,5)]
    by (auto simp: apply_partition_update_def bumped_def r)
qed

lemma replay_recovery:
  assumes "image_wf img" "ids_exact img" "i32_ok (prr_partition r)"
    "partition_state_to_kraft img (prr_topic r) (prr_partition r) (recovery_to_wire (prr_state r)) None None = Ok k"
    "image_partition img (prr_topic r) (prr_partition r) = Some cur" "pr_partition_epoch cur < I32_MAX"
  shows "\<exists>img'. replay de [KPartitionChange k] img = Ok img'
    \<and> agree (apply_partition_recovery (prr_topic r) (prr_partition r) (prr_state r) img) img'"
proof -
  let ?f = "apply_partition_recovery (prr_topic r) (prr_partition r) (prr_state r)"
  have "observed (?f img) = observed (?f (apply_partition (bumped cur) img))"
    by (simp add: observed_recovery observed_bumped[OF assms(1,5)])
  then have "agree (?f img) (?f (apply_partition (bumped cur) img))"
    by (rule agree_observed[OF image_wf_recovery[OF assms(1)]]) (simp add: apply_partition_recovery_def)
  then show ?thesis
    using state_change[OF assms(1-3), where rs = "Some (prr_state r)"] assms(4-6) stored_partition[OF assms(1,5)]
    by (auto simp: apply_partition_update_def bumped_def)
qed

lemma changed_nodes_round_trip: "changed_nodes ns cur f = Ok w \<Longrightarrow> replaced_nodes w cur g = Ok ns"
  by (auto simp: changed_nodes_def replaced_nodes_def and_then_eq_Ok nodes_round_trip split: if_splits)

text \<open>
  What a reader derives for a partition update: the leader epoch grows by one exactly when the update
  names another leader, and new directories are one for each replica.
\<close>

definition update_derivable :: "PartitionRecord \<Rightarrow> PartitionRecord \<Rightarrow> bool" where
  "update_derivable p cur \<longleftrightarrow>
     pr_partition_epoch cur < I32_MAX
     \<and> pr_leader_epoch p = pr_leader_epoch cur + (if pr_leader p \<noteq> pr_leader cur then 1 else 0)
     \<and> (pr_directories p \<noteq> pr_directories cur \<longrightarrow> length (pr_directories p) = length (pr_replicas p))"

lemma update_change:
  assumes wf: "image_wf img" "ids_exact img" and typed: "partition_typed p" and p: "p = pu_partition u"
    and k: "partition_update_to_kraft u img = Ok k"
    and cur: "image_partition img (pr_topic p) (pr_partition p) = Some cur" and d: "update_derivable p cur"
  shows "replay de [KPartitionChange k] img
    = Ok (apply_partition_update (u\<lparr>pu_partition := p\<lparr>pr_partition_epoch := pr_partition_epoch cur + 1\<rparr>\<rparr>) img)"
proof -
  let ?rs = "pu_recovery_state u"
  obtain t ew lw rs isr rm ad ld where t: "image_topic img (pr_topic p) = Some t"
    and w: "try_option (\<lambda>ns. nodes_to_wire ns ''eligible leader replica'') (pu_eligible_leader_replicas u) = Ok ew"
      "try_option (\<lambda>ns. nodes_to_wire ns ''last known eligible leader replica'') (pu_last_known_elr u) = Ok lw"
    and ns: "changed_nodes (pr_replicas p) (pr_replicas cur) ''partition replicas'' = Ok rs"
      "changed_nodes (pr_isr p) (pr_isr cur) ''partition isr'' = Ok isr"
      "changed_nodes (pr_removing_replicas p) (pr_removing_replicas cur) ''partition removing replicas'' = Ok rm"
      "changed_nodes (pr_adding_replicas p) (pr_adding_replicas cur) ''partition adding replicas'' = Ok ad"
    and ld: "(if pr_leader p \<noteq> pr_leader cur then partition_leader_to_wire (pr_leader p) ''partition leader'' else Ok (-2)) = Ok ld"
    and k: "k = KPartitionChangeRecord_default\<lparr>kpc_partition_id := of_int (pr_partition p), kpc_topic_id := to_kuuid (tr_topic_id t),
      kpc_leader_recovery_state := (case ?rs of None \<Rightarrow> -1 | Some s \<Rightarrow> recovery_to_wire s),
      kpc_eligible_leader_replicas := ew, kpc_last_known_elr := lw, kpc_replicas := rs, kpc_isr := isr, kpc_removing_replicas := rm,
      kpc_adding_replicas := ad, kpc_leader := ld,
      kpc_directories := (if pr_directories p \<noteq> pr_directories cur then Some (map to_kuuid (pr_directories p)) else None)\<rparr>"
    using k cur by (auto simp: partition_update_to_kraft_def partition_state_to_kraft_def and_then_eq_Ok ok_or_Ok Let_def
        kraft_defaults p[symmetric] cong: if_cong)
  let ?led = "cur\<lparr>pr_replicas := pr_replicas p, pr_isr := pr_isr p, pr_removing_replicas := pr_removing_replicas p,
      pr_adding_replicas := pr_adding_replicas p, pr_leader := pr_leader p, pr_leader_epoch := pr_leader_epoch p\<rparr>"
  have leader: "change_leader k (cur\<lparr>pr_replicas := pr_replicas p, pr_isr := pr_isr p, pr_removing_replicas := pr_removing_replicas p,
      pr_adding_replicas := pr_adding_replicas p\<rparr>) = Ok ?led"
  proof (cases "pr_leader p = pr_leader cur")
    case True
    then show ?thesis
      using ld d by (auto simp: change_leader_def k update_derivable_def intro!: PartitionRecord.equality)
  next
    case False
    have l: "partition_leader_from_wire ld ''partition change leader'' = Ok (pr_leader p)" "ld \<noteq> -2"
      using leader_round_trip ld False by (auto split: if_splits)
    have "pr_leader_epoch cur < I32_MAX" "pr_leader_epoch p = pr_leader_epoch cur + 1"
      using d typed False by (auto simp: update_derivable_def partition_typed_def i32_ok_def)
    then show ?thesis
      using l by (simp add: change_leader_def checked_succ_def k)
  qed
  have dirs: "change_directories k ?led = Ok (?led\<lparr>pr_directories := pr_directories p\<rparr>)"
    using d by (auto simp: change_directories_def k update_derivable_def)
  have "bumped (?led\<lparr>pr_directories := pr_directories p\<rparr>) = p\<lparr>pr_partition_epoch := pr_partition_epoch cur + 1\<rparr>"
    using stored_partition[OF wf(1) cur] by (auto simp: bumped_def intro!: PartitionRecord.equality)
  moreover have "replay de [KPartitionChange k] img = Ok (apply_partition_update
      \<lparr>pu_partition = bumped (?led\<lparr>pr_directories := pr_directories p\<rparr>), pu_eligible_leader_replicas = pu_eligible_leader_replicas u,
       pu_last_known_elr = pu_last_known_elr u, pu_recovery_state = ?rs\<rparr> img)"
    by (rule change_decodes[where topic = "pr_topic p", OF _ _ _ _ _ _ _ leader dirs])
      (use topic_id_resolves[OF wf t] cur d typed w[THEN optional_nodes_round_trip] ns[THEN changed_nodes_round_trip] in
        \<open>simp_all add: k kraft_defaults kraft_scalars update_derivable_def partition_typed_def\<close>)
  moreover have "u\<lparr>pu_partition := q\<rparr> = \<lparr>pu_partition = q, pu_eligible_leader_replicas = pu_eligible_leader_replicas u,
      pu_last_known_elr = pu_last_known_elr u, pu_recovery_state = ?rs\<rparr>" for q
    by simp
  ultimately show ?thesis
    by (simp only:)
qed

lemma replay_update:
  assumes "image_wf img" "ids_exact img" "partition_typed (pu_partition u)" "partition_update_to_kraft u img = Ok k"
    "image_partition img (pr_topic (pu_partition u)) (pr_partition (pu_partition u)) = Some cur" "update_derivable (pu_partition u) cur"
  shows "\<exists>img'. replay de [KPartitionChange k] img = Ok img' \<and> agree (apply_partition_update u img) img'"
proof -
  let ?u = "u\<lparr>pu_partition := pu_partition u\<lparr>pr_partition_epoch := pr_partition_epoch cur + 1\<rparr>\<rparr>"
  have "observed (apply_partition_update u img) = observed (apply_partition_update ?u img)"
    using observed_update[of u img] observed_update[of ?u img] by simp
  then have "agree (apply_partition_update u img) (apply_partition_update ?u img)"
    by (rule agree_observed[OF image_wf_update[OF assms(1)]])
      (simp add: apply_partition_update_def apply_partition_elr_def apply_partition_recovery_def Let_def split: option.split)
  then show ?thesis
    using update_change[OF assms(1-3) refl assms(4-6)] by blast
qed

end
