(* ===== verification/KraftLog.thy ===== *)
theory KraftLog
  imports KraftReplay
begin

text \<open>
  The metadata log as a whole: every record that a controller writes, translated against its live
  image, is read back to an image that agrees with the one the records themselves build.
\<close>

section \<open>Agreement and the invariants\<close>

lemma observed_fields:
  assumes "observed a = observed b"
  shows "map_vals no_rf (mi_topics a) = map_vals no_rf (mi_topics b)" "mi_topic_ids a = mi_topic_ids b"
    "map_vals (map_vals no_epoch) (mi_partitions a) = map_vals (map_vals no_epoch) (mi_partitions b)"
  using arg_cong[OF assms, of mi_topics] arg_cong[OF assms, of mi_topic_ids] arg_cong[OF assms, of mi_partitions]
  by (simp_all add: observed_def)

lemma observed_ids: "observed a = observed b \<Longrightarrow> ids_exact a = ids_exact b"
proof -
  assume "observed a = observed b"
  note f = observed_fields[OF this]
  have "map_option tr_topic_id (map_of (mi_topics a) n) = map_option tr_topic_id (map_of (mi_topics b) n)" for n
    using arg_cong[OF f(1), of "\<lambda>m. map_option tr_topic_id (map_of m n)"] by (simp add: option.map_comp comp_def)
  then show ?thesis
    using f(2) by (intro ids_exact_cong) simp_all
qed

lemma wf_observed: "acl_wf (mi_acls img) \<Longrightarrow> image_wf (observed img) = image_wf img"
proof -
  assume "acl_wf (mi_acls img)"
  have "inner_ok (partition_ok t) (map_vals no_epoch ps) = inner_ok (partition_ok t) ps" for t ps
    by (auto simp: inner_ok_def partition_ok_def) (auto simp: map_vals_def)
  moreover have "topic_ok n (no_rf t) = topic_ok n t" for n t
    by (simp add: topic_ok_def)
  ultimately show ?thesis
    using \<open>acl_wf (mi_acls img)\<close> by (simp add: image_wf_def observed_def acl_wf_default)
qed

lemma agree_wf: "agree a b \<Longrightarrow> image_wf a = image_wf b"
  using wf_observed[of a] wf_observed[of b] by (simp add: agree_def)

section \<open>One record\<close>

text \<open>What a reader can derive of a record from the image it is written against.\<close>

fun derivable :: "MetadataImage \<Rightarrow> MetadataRecord \<Rightarrow> bool" where
  "derivable img (V1PartitionUpdate u) =
     (case image_partition img (pr_topic (pu_partition u)) (pr_partition (pu_partition u)) of
        None \<Rightarrow> False
      | Some cur \<Rightarrow> update_derivable (pu_partition u) cur)"
| "derivable img (V1PartitionDirAssignment r) =
     (case image_partition img (pda_topic r) (pda_partition r) of
        None \<Rightarrow> False
      | Some cur \<Rightarrow> pr_partition_epoch cur < I32_MAX \<and> length (pr_directories cur) \<le> length (pr_replicas cur))"
| "derivable img (V1PartitionElr r) =
     (case image_partition img (elr_topic r) (elr_partition r) of None \<Rightarrow> False | Some cur \<Rightarrow> pr_partition_epoch cur < I32_MAX)"
| "derivable img (V1PartitionRecovery r) =
     (case image_partition img (prr_topic r) (prr_partition r) of None \<Rightarrow> False | Some cur \<Rightarrow> pr_partition_epoch cur < I32_MAX)"
| "derivable img (V1DeleteAccessControlEntry _) = acl_ids_distinct img"
| "derivable img _ = True"

definition loggable :: "MetadataImage \<Rightarrow> MetadataRecord \<Rightarrow> bool" where
  "loggable img rec \<longleftrightarrow> mrecord_wf rec \<and> record_typed rec \<and> expressible rec \<and> derivable img rec"

lemma replay_topic:
  assumes "image_wf img"
  shows "\<exists>img'. replay de [KTopic (KTopicRecord_default\<lparr>kt_name := tr_name t, kt_topic_id := to_kuuid (tr_topic_id t)\<rparr>)] img = Ok img'
    \<and> agree (apply_topic t img) img'"
proof -
  let ?t = "topic_from_kraft (KTopicRecord_default\<lparr>kt_name := tr_name t, kt_topic_id := to_kuuid (tr_topic_id t)\<rparr>) img"
  have t: "tr_name ?t = tr_name t" "tr_topic_id ?t = tr_topic_id t"
    by (simp_all add: topic_from_kraft_def kraft_defaults)
  have "no_rf (?t\<lparr>tr_partitions := c\<rparr>) = no_rf (t\<lparr>tr_partitions := c\<rparr>)" for c
    using t by (auto simp: no_rf_def intro!: TopicRecord.equality)
  then have "observed (apply_topic t img) = observed (apply_topic ?t img)"
    by (simp add: apply_topic_def observed_def Let_def t cong: option.case_cong)
  then have "agree (apply_topic t img) (apply_topic ?t img)"
    by (rule agree_observed[OF image_wf_topic[OF assms]]) (simp add: apply_topic_def Let_def)
  then show ?thesis
    by auto
qed

lemma replay_record:
  assumes "image_wf img" "ids_exact img" "loggable img rec" "wincode_law ser de" "to_kraft_records ser rec img = Ok ks"
  shows "\<exists>img'. replay de ks img = Ok img' \<and> agree (apply_record rec img) img'"
proof -
  have wf: "mrecord_wf rec" "record_typed rec" "expressible rec" "derivable img rec" and ks: "to_kraft_iter ser rec img = Ok ks"
    using assms(3,5) by (simp_all add: loggable_def to_kraft_records_def)
  have same: "agree (apply_record rec img) (apply_record rec img)"
    by (rule agree_refl[OF image_wf_apply[OF assms(1) wf(1)]])
  note same_configs = same topic_configs.replay_fan_out metrics_configs.replay_fan_out group_configs.replay_fan_out
  show ?thesis
  proof (cases "one_to_one rec")
    case True
    then show ?thesis
      using exact_round_trip[OF True wf(2,3) assms(4,1,2) ks] same by auto
  next
    case False
    then show ?thesis
    proof (cases rec)
      case (V1Topic t)
      then show ?thesis
        using replay_topic[OF assms(1)] ks by auto
    next
      case (V1Partition p)
      then show ?thesis
        using replay_partition[OF assms(1,2)] ks wf(2) same by auto
    next
      case (V1PartitionUpdate u)
      then show ?thesis
        using replay_update[OF assms(1,2)] ks wf(2,4) by (auto simp: one_Ok split: option.splits)
    next
      case (V1PartitionDirAssignment r)
      then show ?thesis
        using replay_dir_assignment[OF assms(1,2)] ks wf(2,4) by (auto simp: one_Ok split: option.splits)
    next
      case (V1PartitionElr r)
      then show ?thesis
        using replay_elr[OF assms(1,2)] ks wf(2,4) by (auto simp: one_Ok split: option.splits)
    next
      case (V1PartitionRecovery r)
      then show ?thesis
        using replay_recovery[OF assms(1,2)] ks wf(2,4) by (auto simp: one_Ok split: option.splits)
    next
      case (V1DeleteAccessControlEntry f)
      then show ?thesis
        using replay_delete_acl[OF assms(1), of de f] ks wf(4) AclIndex_remove_spec(1)[of "mi_acls img" f] assms(1)
        by (auto simp: agree_def observed_def all_acls_def image_wf_def)
    next
      case (V1TopicConfig c)
      then show ?thesis
        using same_configs ks wf(1) assms(1) by (auto simp: topic_config_to_kraft_def topic_config_def image_wf_def)
    next
      case (V1ClientMetricsConfig c)
      then show ?thesis
        using same_configs ks wf(1) assms(1)
        by (auto simp: client_metrics_config_to_kraft_def client_metrics_config_def image_wf_def)
    next
      case (V1GroupConfig c)
      then show ?thesis
        using same_configs ks wf(1) assms(1) by (auto simp: group_config_to_kraft_def group_config_def image_wf_def)
    qed simp_all
  qed
qed

section \<open>A whole log\<close>

text \<open>
  A controller: each record is translated against its image, the log grows by the translation, and
  the image by what is read back from it.
\<close>

fun write_log :: "ser \<Rightarrow> de \<Rightarrow> MetadataRecord list \<Rightarrow> MetadataImage \<Rightarrow> (TranslateError, KraftMetadataRecord list) result" where
  "write_log ser de [] img = Ok []"
| "write_log ser de (r # rs) img =
     and_then (to_kraft_records ser r img) (\<lambda>ks.
     and_then (replay de ks img) (\<lambda>img'.
     and_then (write_log ser de rs img') (\<lambda>log. Ok (ks @ log))))"

text \<open>Each record can be written against the image at that point, and its topic id is new.\<close>

fun writable :: "ser \<Rightarrow> de \<Rightarrow> MetadataRecord list \<Rightarrow> MetadataImage \<Rightarrow> bool" where
  "writable ser de [] img = True"
| "writable ser de (r # rs) img =
     (loggable img r \<and> fresh_topic_id img r \<and>
      (case to_kraft_records ser r img of
         Err e \<Rightarrow> False
       | Ok ks \<Rightarrow> (case replay de ks img of Err e \<Rightarrow> True | Ok img' \<Rightarrow> writable ser de rs img')))"

lemma agree_fold: "agree a b \<Longrightarrow> list_all mrecord_wf rs \<Longrightarrow> agree (fold apply_record rs a) (fold apply_record rs b)"
  by (induction rs arbitrary: a b) (simp_all add: agree_apply)

lemma write_log_replays:
  assumes "wincode_law ser de" "image_wf img" "ids_exact img" "writable ser de rs img"
  shows "\<exists>log img'. write_log ser de rs img = Ok log \<and> replay de log img = Ok img'
    \<and> list_all mrecord_wf rs \<and> agree (fold apply_record rs img) img'"
  using assms(2-4)
proof (induction rs arbitrary: img)
  case (Cons r rs)
  obtain ks where ks: "to_kraft_records ser r img = Ok ks" and l: "loggable img r" "fresh_topic_id img r"
    using Cons.prems(3) by (auto split: sum.splits)
  obtain img' where r: "replay de ks img = Ok img'" and a: "agree (apply_record r img) img'"
    using replay_record[OF Cons.prems(1,2) l(1) assms(1) ks] by blast
  have m: "mrecord_wf r"
    using l(1) by (simp add: loggable_def)
  have w: "image_wf img'"
    using agree_wf[OF a] image_wf_apply[OF Cons.prems(1) m] by simp
  have i: "ids_exact img'"
    using a ids_exact_apply[OF Cons.prems(2) l(2)] observed_ids[of "apply_record r img" img'] by (simp add: agree_def)
  have "writable ser de rs img'"
    using Cons.prems(3) ks r by simp
  then obtain log img'' where "write_log ser de rs img' = Ok log" "replay de log img' = Ok img''" "list_all mrecord_wf rs"
      "agree (fold apply_record rs img') img''"
    using Cons.IH[OF w i] by blast
  then show ?case
    using ks r m agree_trans[OF agree_fold[OF a]] by (simp add: replay_log_append)
qed (simp add: agree_refl)

section \<open>Samples\<close>

text \<open>A serialiser of one of the records that Kafka does not have, and its reader.\<close>

definition epoch_ser :: ser where
  "epoch_ser rec = (case rec of
     V1FeaturesEpoch e \<Rightarrow> if i64_ok e then Some (be_bytes 8 (of_int e :: i64)) else None
   | _ \<Rightarrow> None)"

definition epoch_de :: de where
  "epoch_de bs = (if length bs < 8 then None else Some (V1FeaturesEpoch (sint (be_word (take 8 bs) :: i64)), drop 8 bs))"

lemma epoch_wincode: "wincode_law epoch_ser epoch_de"
  by (auto simp: wincode_law_def epoch_ser_def epoch_de_def sint_i64 split: MetadataRecord.splits if_splits)

definition sample_update :: PartitionUpdateRecord where
  "sample_update = \<lparr>pu_partition = (sample_partition [0x61] 0 [1, 2])\<lparr>pr_leader := 2, pr_leader_epoch := 1, pr_directories := [5, 6]\<rparr>,
     pu_eligible_leader_replicas = Some [1], pu_last_known_elr = Some [], pu_recovery_state = Some Recovering\<rparr>"

definition sample_changes :: "MetadataRecord list" where
  "sample_changes =
    [V1Topic (sample_topic [0x61] 7), V1Partition (sample_partition [0x61] 0 [1, 2]),
     V1TopicConfig \<lparr>tc_topic = [0x61], tc_overrides = [([0x6B], [0x31]), ([0x6C], [0x32])]\<rparr>,
     V1TopicConfig \<lparr>tc_topic = [0x61], tc_overrides = [([0x6C], [0x33])]\<rparr>,
     V1PartitionUpdate sample_update, V1FeaturesEpoch 4]"

lemma new_ids: "ids_exact (MetadataImage_new cid)"
  by (simp add: ids_exact_def MetadataImage_new_def)

lemma sample_writable: "writable epoch_ser epoch_de sample_changes (MetadataImage_new 9)"
  by code_simp

definition sample_live :: MetadataImage where
  "sample_live = fold apply_record [V1Topic (sample_topic [0x61] 7), V1Partition (sample_partition [0x61] 0 [1, 2])] (MetadataImage_new 9)"

lemma sample_live_wf: "image_wf sample_live"
  unfolding sample_live_def by (rule image_wf_history) (simp_all add: image_wf_new)

definition sample_change :: KPartitionChangeRecord where
  "sample_change = KPartitionChangeRecord_default\<lparr>kpc_partition_id := 0, kpc_topic_id := to_kuuid 7, kpc_leader := 2\<rparr>"

section \<open>What a change record does\<close>

lemma leader_changed:
  assumes "change_leader k pr = Ok led"
  shows "pr_topic led = pr_topic pr" "pr_partition led = pr_partition pr" "pr_replicas led = pr_replicas pr"
    "pr_isr led = pr_isr pr" "pr_directories led = pr_directories pr" "pr_partition_epoch led = pr_partition_epoch pr"
    "pr_leader_epoch led = pr_leader_epoch pr + (if kpc_leader k = -2 then 0 else 1)"
    "kpc_leader k = -2 \<longrightarrow> pr_leader led = pr_leader pr"
  using assms by (auto simp: change_leader_def and_then_eq_Ok checked_succ_def split: if_splits)

lemma directories_changed:
  assumes "change_directories k led = Ok placed"
  shows "\<exists>ds. placed = led\<lparr>pr_directories := ds\<rparr> \<and> (kpc_directories k = None \<longrightarrow> ds = pr_directories led)
    \<and> (kpc_directories k \<noteq> None \<longrightarrow> length ds = length (pr_replicas led))"
proof (cases "kpc_directories k")
  case None
  then show ?thesis
    using assms by (intro exI[of _ "pr_directories led"]) (simp add: change_directories_def)
next
  case (Some directories)
  then show ?thesis
    using assms by (intro exI[of _ "map from_kuuid directories"]) (auto simp: change_directories_def split: if_splits)
qed

lemma partition_after:
  assumes "image_wf img" "pr_topic p = topic" "pr_partition p = i"
  shows "image_partition (apply_partition p img) topic i = Some p"
    and "pu_partition u = p \<Longrightarrow> image_partition (apply_partition_update u img) topic i = Some p"
proof -
  have "level_wf (\<lambda>_. bt_wf) (mi_partitions img)"
    using assms(1) by (auto simp: image_wf_def intro: nested_wf)
  then show p: "image_partition (apply_partition p img) topic i = Some p"
    using assms(2,3)
    by (simp add: image_partition_def apply_partition_def Let_def nested_get_insert[unfolded nested_insert_def] split: option.split)
  have "mi_partitions (apply_partition_update u img) = mi_partitions (apply_partition (pu_partition u) img)" for u
    by (simp add: apply_partition_update_def Let_def apply_partition_elr_def apply_partition_recovery_def split: option.split)
  then show "pu_partition u = p \<Longrightarrow> image_partition (apply_partition_update u img) topic i = Some p"
    using p by (simp add: image_partition_def)
qed

section \<open>Framing\<close>

lemma register_broker_fields:
  assumes "register_broker_from_kraft k = Ok b"
  shows "register_broker_from_kraft (k\<lparr>krb_log_dirs := ds\<rparr>) = Ok (b\<lparr>br_log_dirs := map from_kuuid ds\<rparr>)"
    "register_broker_from_kraft (k\<lparr>krb_cordoned_log_dirs := cs\<rparr>) = Ok (b\<lparr>br_cordoned_log_dirs := map_option (map from_kuuid) cs\<rparr>)"
  using assms
  by (auto simp: register_broker_from_kraft_def and_then_eq_Ok Let_def split: prod.splits cong: list.case_cong if_cong)

lemma registration_change_fields:
  assumes "broker_registration_change_from_kraft k = Ok c"
  shows "broker_registration_change_from_kraft (k\<lparr>kbc_log_dirs := ds\<rparr>) = Ok (c\<lparr>brc_log_dirs := map from_kuuid ds\<rparr>)"
    "broker_registration_change_from_kraft (k\<lparr>kbc_cordoned_log_dirs := cs\<rparr>) = Ok (c\<lparr>brc_cordoned_log_dirs := map_option (map from_kuuid) cs\<rparr>)"
  using assms by (auto simp: broker_registration_change_from_kraft_def and_then_eq_Ok ok_or_Ok split: if_splits)

text \<open>The fields that a version keeps.\<close>

definition project_change :: "int \<Rightarrow> BrokerRegistrationChangeRecord \<Rightarrow> BrokerRegistrationChangeRecord" where
  "project_change mv c =
     (let c1 = (if mv < DIRECTORY_ASSIGNMENT_MIN_LEVEL then c\<lparr>brc_log_dirs := []\<rparr> else c)
      in if mv < CORDONED_LOG_DIRS_MIN_LEVEL then c1\<lparr>brc_cordoned_log_dirs := None\<rparr> else c1)"

lemma frame_register:
  "register_broker_from_kraft k = Ok b \<Longrightarrow> from_kraft de (fst (frame mv (KRegisterBroker k))) img = Ok (V1BrokerRegistration (project_broker mv b))"
  using register_broker_fields[of k b] register_broker_fields(2)[of "k\<lparr>krb_log_dirs := []\<rparr>" "b\<lparr>br_log_dirs := []\<rparr>"]
  by (simp add: frame_def strip_change_def record_version_def strip_register_def project_broker_def Let_def
      DIRECTORY_ASSIGNMENT_MIN_LEVEL_def CORDONED_LOG_DIRS_MIN_LEVEL_def)

lemma change_version:
  "broker_registration_change_from_kraft k = Ok c \<Longrightarrow> broker_registration_change_version k =
     (if brc_cordoned_log_dirs c \<noteq> None then 3 else if brc_log_dirs c \<noteq> [] then 2 else if brc_in_controlled_shutdown c then 1 else 0)"
  by (auto simp: broker_registration_change_from_kraft_def broker_registration_change_version_def and_then_eq_Ok split: if_splits)

lemma frame_change:
  assumes "broker_registration_change_from_kraft k = Ok c"
  shows "\<exists>k'. frame mv (KBrokerRegistrationChange k) = (KBrokerRegistrationChange k', broker_registration_change_version k')
    \<and> broker_registration_change_from_kraft k' = Ok (project_change mv c)"
  using registration_change_fields[OF assms] registration_change_fields(2)[of "k\<lparr>kbc_log_dirs := []\<rparr>" "c\<lparr>brc_log_dirs := []\<rparr>"] assms
  by (simp add: frame_def strip_change_def record_version_def strip_register_def project_change_def Let_def)

section \<open>The bytes of an ACL id\<close>

lemma le_len_inj:
  assumes "le_len s = le_len s'" "length s < 2 ^ 64" "length s' < 2 ^ 64"
  shows "length s = length s'"
proof -
  have "be_bytes 8 (of_nat (length s) :: u64) = be_bytes 8 (of_nat (length s') :: u64)"
    using assms(1) by (simp add: le_len_def)
  then have "be_word (be_bytes 8 (of_nat (length s) :: u64)) = (be_word (be_bytes 8 (of_nat (length s') :: u64)) :: u64)"
    by simp
  then have "(of_nat (length s) :: u64) = of_nat (length s')"
    by simp
  then have "unat (of_nat (length s) :: u64) = unat (of_nat (length s') :: u64)"
    by simp
  then show ?thesis
    using assms(2,3) by (simp add: unsigned_of_nat take_bit_nat_eq_self)
qed

lemma framed_inj:
  assumes "le_len s @ s @ r = le_len s' @ s' @ r'" "length s < 2 ^ 64" "length s' < 2 ^ 64"
  shows "s = s' \<and> r = r'"
proof -
  have "le_len s = le_len s'" "s @ r = s' @ r'"
    using assms(1) append_eq_append_conv[of "le_len s" "le_len s'" "s @ r" "s' @ r'"] by (simp_all add: le_len_def)
  then show ?thesis
    using le_len_inj[OF _ assms(2,3)] by simp
qed

lemma wire_inj:
  "resource_type_to_wire a = resource_type_to_wire b \<longleftrightarrow> a = b" "pattern_type_to_wire c = pattern_type_to_wire d \<longleftrightarrow> c = d"
  "operation_to_wire e = operation_to_wire f \<longleftrightarrow> e = f" "permission_to_wire g = permission_to_wire h \<longleftrightarrow> g = h"
  using resource_type_round_trip pattern_type_round_trip operation_round_trip permission_round_trip by (metis Inr_inject)+

section \<open>Properties\<close>

text \<open>
  C2: Every log can be replayed. A controller translates each record against its image and appends the
  translation; whoever starts from the same image and translates the log back, record by record, gets
  through the whole log without an error, and its image agrees with the image that the records
  themselves build: everything but replication factors, partition epochs and the layout of the ACL
  index is the same. This holds for records with integers in range that Kafka's records have room
  for, that can be derived from the image they are written against, and that bring new topic ids, when
  \<open>wincode\<close> reads back what it wrote.
\<close>

theorem metadata_log_replays:
  assumes "wincode_law ser de" "image_wf img" "ids_exact img" "writable ser de rs img"
  shows "\<exists>log img'. write_log ser de rs img = Ok log \<and> replay de log img = Ok img' \<and> agree (fold apply_record rs img) img'"
  using write_log_replays[OF assms] by blast

theorem metadata_log_replays_witness:
  "\<exists>log img'. write_log epoch_ser epoch_de sample_changes (MetadataImage_new 9) = Ok log
     \<and> replay epoch_de log (MetadataImage_new 9) = Ok img'
     \<and> agree (fold apply_record sample_changes (MetadataImage_new 9)) img'"
  by (rule metadata_log_replays[OF epoch_wincode image_wf_new new_ids sample_writable])







text \<open>
  C28: The private carrier is closed. A \<open>NoOp\<close> record reads as a record of the image exactly when it has one
  tagged field, whose tag is the one that the table assigns to the record it carries and whose body is
  the record version followed by that record and nothing else. So the burned tag 1002, a tag below the
  range, a second field, another version, trailing bytes and a record under another record's tag are all
  refused.
\<close>

theorem private_carrier_exact:
  "from_private_carrier de no_op = Ok rec \<longleftrightarrow>
     (\<exists>tag body. kno_unknown_tagged_fields no_op = [\<lparr>uf_tag = tag, uf_bytes = be_bytes 2 PRIVATE_RECORD_VERSION @ body\<rparr>]
        \<and> private_tag rec = Some tag \<and> de body = Some (rec, []))"
  (is "?l \<longleftrightarrow> ?r")
proof
  assume ?l
  then obtain field where f: "kno_unknown_tagged_fields no_op = [field]" and long: "\<not> length (uf_bytes field) < 2"
    and version: "be_word (take 2 (uf_bytes field)) = PRIVATE_RECORD_VERSION"
    and de: "de (drop 2 (uf_bytes field)) = Some (rec, [])" and tag: "private_tag rec = Some (uf_tag field)"
    by (auto simp: from_private_carrier_def Let_def and_then_eq_Ok ok_or_Ok split: list.splits if_splits)
  have "take 2 (uf_bytes field) = be_bytes 2 PRIVATE_RECORD_VERSION"
    using be_bytes_be_word[of "take 2 (uf_bytes field)", where ?'a = 16] version long by simp
  then have "uf_bytes field = be_bytes 2 PRIVATE_RECORD_VERSION @ drop 2 (uf_bytes field)"
    by (metis append_take_drop_id)
  then have "field = \<lparr>uf_tag = uf_tag field, uf_bytes = be_bytes 2 PRIVATE_RECORD_VERSION @ drop 2 (uf_bytes field)\<rparr>"
    by simp
  then show ?r
    using f de tag by metis
next
  assume ?r
  then obtain tag body where f: "kno_unknown_tagged_fields no_op = [\<lparr>uf_tag = tag, uf_bytes = be_bytes 2 PRIVATE_RECORD_VERSION @ body\<rparr>]"
    and tag: "private_tag rec = Some tag" and de: "de body = Some (rec, [])"
    by blast
  have "be_word (be_bytes 2 PRIVATE_RECORD_VERSION) = PRIVATE_RECORD_VERSION"
    by (rule be_word_inverse) simp
  then show ?l
    using f tag de private_tag_listed[OF tag] by (simp add: from_private_carrier_def Let_def)
qed



text \<open>
  The bytes that an ACL id hashes are canonical: two entries have the same bytes only if they are the
  same entry, whatever their names contain, so ids can only coincide where the hash itself collides.
\<close>

theorem acl_bytes_canonical:
  assumes "\<forall>s \<in> {acl_resource_name a, acl_principal a, acl_host a, acl_resource_name b, acl_principal b, acl_host b}. length s < 2 ^ 64"
  shows "acl_bytes a = acl_bytes b \<longleftrightarrow> a = b"
proof
  assume e: "acl_bytes a = acl_bytes b"
  then have "le_len (acl_resource_name a) @ acl_resource_name a @ le_len (acl_principal a) @ acl_principal a @ le_len (acl_host a) @ acl_host a @ []
      = le_len (acl_resource_name b) @ acl_resource_name b @ le_len (acl_principal b) @ acl_principal b @ le_len (acl_host b) @ acl_host b @ []"
    by (simp add: acl_bytes_def)
  then have "acl_resource_name a = acl_resource_name b \<and> acl_principal a = acl_principal b \<and> acl_host a = acl_host b"
    using assms framed_inj[of "acl_host a" "[]" "acl_host b" "[]"] by (auto dest!: framed_inj)
  then show "a = b"
    using e by (auto simp: acl_bytes_def wire_inj intro!: AclEntry.equality)
qed simp

theorem acl_bytes_canonical_witness:
  "acl_bytes (sample_acl Literal [0x61]) \<noteq> acl_bytes (sample_acl Literal [0x62])"
  using acl_bytes_canonical[of "sample_acl Literal [0x61]" "sample_acl Literal [0x62]"] by (simp add: sample_acl_def)

section \<open>Where the records differ\<close>

text \<open>
  The new eligible leaders of a partition are read back as an update of the partition, with the next
  partition epoch.
\<close>

lemma elr_reads_back_as_update:
  "case to_kraft epoch_ser (V1PartitionElr \<lparr>elr_topic = [0x61], elr_partition = 0, elr_eligible_leader_replicas = [2],
      elr_last_known_elr = []\<rparr>) sample_live of
     Inl _ \<Rightarrow> False
   | Inr k \<Rightarrow> from_kraft epoch_de k sample_live = Ok (V1PartitionUpdate
       \<lparr>pu_partition = sample_partition [0x61] 0 [1, 2]\<lparr>pr_partition_epoch := 1\<rparr>, pu_eligible_leader_replicas = Some [2],
        pu_last_known_elr = Some [], pu_recovery_state = None\<rparr>)"
  by code_simp

text \<open>An update that keeps the leader and raises its epoch is read back with the old epoch.\<close>

lemma same_leader_epoch_lost:
  "case to_kraft epoch_ser (V1PartitionUpdate \<lparr>pu_partition = sample_partition [0x61] 0 [1, 2]\<lparr>pr_leader_epoch := 5\<rparr>,
      pu_eligible_leader_replicas = None, pu_last_known_elr = None, pu_recovery_state = None\<rparr>) sample_live of
     Inl _ \<Rightarrow> False
   | Inr k \<Rightarrow> from_kraft epoch_de k sample_live = Ok (V1Partition
       (sample_partition [0x61] 0 [1, 2]\<lparr>pr_partition_epoch := 1\<rparr>))"
  by code_simp

text \<open>\<open>to_kraft\<close> of an ACL filter that matches something is the removal of its first match.\<close>

lemma delete_filter_translates:
  "filter (filter_matches f) (all_acls img) = e # es \<Longrightarrow>
   to_kraft ser (V1DeleteAccessControlEntry f) img
     = Ok (KRemoveAccessControlEntry (KRemoveAccessControlEntryRecord_default\<lparr>krace_id := acl_id e\<rparr>))"
  by (simp add: to_kraft_def delete_acl_to_kraft_def)

text \<open>One topic-config record is read back as the whole configuration of the topic.\<close>

lemma topic_config_decodes_whole:
  "topic_config img name = Some configs \<Longrightarrow>
   from_kraft de (config_record 2 name key (Some v)) img = Ok (V1TopicConfig \<lparr>tc_topic = name, tc_overrides = bt_insert key v configs\<rparr>)"
  by (simp add: config_record_def config_from_kraft_def merge_config_def kraft_defaults or_default_def)

end
