(* ===== verification/GeneratedCodec.thy ===== *)
theory GeneratedCodec
  imports KrabkaCommon
begin

text \<open>
  The shapes of code that \<open>krabka-protocol-codegen\<close> emits for every message of
  \<open>crates/protocol/generated\<close>: a field under a version guard, a string in its fixed-width or compact
  form, an array loop, the tagged fields of a message and the closure that reads them. A message
  module is written with these shapes, field by field, and satisfies the contract \<open>message_codec\<close> by
  the rules of this theory.
\<close>

section \<open>Shapes\<close>

text \<open>\<open>if version >= k { put(..) }\<close>, and its reader \<open>if version >= k { out.f = get(..)? }\<close>, which leaves the
  default in place.\<close>

definition put_when :: "bool \<Rightarrow> 'e writer \<Rightarrow> 'e writer" where
  "put_when c w buf = (if c then w buf else Ok buf)"

definition get_into :: "bool \<Rightarrow> ('e, 'a) reader \<Rightarrow> ('a \<Rightarrow> 's \<Rightarrow> 's) \<Rightarrow> 's \<Rightarrow> ('e, 's) reader" where
  "get_into c get upd out = (if c then read_then get (\<lambda>v. read_ok (upd v out)) else read_ok out)"

definition len_when :: "bool \<Rightarrow> nat \<Rightarrow> nat" where
  "len_when c n = (if c then n else 0)"

text \<open>\<open>if !(MIN_VERSION..=MAX_VERSION).contains(&version) { return Err(SchemaMismatch(..)) }\<close>.\<close>

definition version_in :: "i16 \<Rightarrow> i16 \<Rightarrow> i16 \<Rightarrow> bool" where
  "version_in lo hi version \<longleftrightarrow> lo \<le>s version \<and> version \<le>s hi"

definition contains_version :: "i16 \<Rightarrow> i16 \<Rightarrow> string \<Rightarrow> i16 \<Rightarrow> unit wire_result" where
  "contains_version lo hi what version = (if version_in lo hi version then Ok () else Err (SchemaMismatch what))"

text \<open>Strings and byte strings, \<open>if flex { put_compact_string(..) } else { put_string(..) }\<close>.\<close>

definition put_str :: "bool \<Rightarrow> bytes \<Rightarrow> encoder" where
  "put_str flex = (if flex then put_compact_string else put_string)"

definition get_str :: "bool \<Rightarrow> bytes decoder" where
  "get_str flex = (if flex then get_compact_string_owned else get_string_owned)"

definition str_len :: "bool \<Rightarrow> bytes \<Rightarrow> nat" where
  "str_len flex = (if flex then compact_string_len else string_len)"

definition put_nullable_str :: "bool \<Rightarrow> bytes option \<Rightarrow> encoder" where
  "put_nullable_str flex = (if flex then put_compact_nullable_string else put_nullable_string)"

definition get_nullable_str :: "bool \<Rightarrow> bytes option decoder" where
  "get_nullable_str flex = (if flex then get_compact_nullable_string_owned else get_nullable_string_owned)"

definition nullable_str_len :: "bool \<Rightarrow> bytes option \<Rightarrow> nat" where
  "nullable_str_len flex = (if flex then compact_nullable_string_len else nullable_string_len)"

definition put_blob :: "bool \<Rightarrow> bytes \<Rightarrow> encoder" where
  "put_blob flex = (if flex then put_compact_bytes else put_bytes)"

definition get_blob :: "bool \<Rightarrow> bytes decoder" where
  "get_blob flex = (if flex then get_compact_bytes_owned else get_bytes_owned)"

definition blob_len :: "bool \<Rightarrow> bytes \<Rightarrow> nat" where
  "blob_len flex = (if flex then compact_bytes_len else bytes_len)"

text \<open>\<open>put_array_len(..)?; for it in &self.f { put(it) }\<close>, and the nullable form.\<close>

definition put_array :: "bool \<Rightarrow> ('a \<Rightarrow> encoder) \<Rightarrow> 'a list \<Rightarrow> encoder" where
  "put_array flex put xs = write_all (put_array_len (length xs) flex # map put xs)"

definition get_array :: "bool \<Rightarrow> 'a decoder \<Rightarrow> 'a list decoder" where
  "get_array flex get = read_then (get_array_len flex) (\<lambda>n. read_times n get)"

definition array_size :: "bool \<Rightarrow> ('a \<Rightarrow> nat) \<Rightarrow> 'a list \<Rightarrow> nat" where
  "array_size flex len xs = array_len_prefix_len (length xs) flex + (\<Sum>x \<leftarrow> xs. len x)"

definition put_nullable_array :: "bool \<Rightarrow> ('a \<Rightarrow> encoder) \<Rightarrow> 'a list option \<Rightarrow> encoder" where
  "put_nullable_array flex put opt =
     write_all (put_nullable_array_len (map_option length opt) flex
       # (case opt of None \<Rightarrow> [] | Some v \<Rightarrow> map put v))"

definition get_nullable_array :: "bool \<Rightarrow> 'a decoder \<Rightarrow> 'a list option decoder" where
  "get_nullable_array flex get =
     read_then (get_nullable_array_len flex) (\<lambda>opt.
       case opt of None \<Rightarrow> read_ok None | Some n \<Rightarrow> read_then (read_times n get) (\<lambda>v. read_ok (Some v)))"

definition nullable_array_size :: "bool \<Rightarrow> ('a \<Rightarrow> nat) \<Rightarrow> 'a list option \<Rightarrow> nat" where
  "nullable_array_size flex len opt =
     nullable_array_len_prefix_len (map_option length opt) flex
     + (case opt of None \<Rightarrow> 0 | Some v \<Rightarrow> \<Sum>x \<leftarrow> v. len x)"

text \<open>
  The tagged fields of a message: for each known tag its condition, the predicted size of its payload
  and what its closure writes. The payload of \<open>encode_to_bytes\<close> is what the closure writes into an
  empty buffer; the size is only compared, and only in a build with debug assertions.
\<close>

type_synonym tagged_field = "u32 \<times> bool \<times> nat \<times> encoder"

definition encode_payload :: "nat \<Rightarrow> encoder \<Rightarrow> bytes wire_result" where
  "encode_payload predicted_len w = w []"

fun add_known :: "tagged_field list \<Rightarrow> WriteTaggedFields \<Rightarrow> WriteTaggedFields wire_result" where
  "add_known [] tagged = Ok tagged"
| "add_known ((tag, present, n, w) # ks) tagged =
     (if present
      then and_then (encode_payload n w) (\<lambda>payload. add_known ks (add_tagged tag payload tagged))
      else add_known ks tagged)"

definition put_tagged :: "tagged_field list \<Rightarrow> UnknownTaggedFields \<Rightarrow> encoder" where
  "put_tagged known unknown buf =
     and_then (add_known known WriteTaggedFields_new) (\<lambda>tagged. write_tagged tagged unknown buf)"

definition known_pairs :: "(u32 \<times> bool \<times> nat) list \<Rightarrow> (u32 \<times> nat) list" where
  "known_pairs ks = [(tag, n). (tag, present, n) \<leftarrow> ks, present]"

definition tagged_size :: "(u32 \<times> bool \<times> nat) list \<Rightarrow> UnknownTaggedFields \<Rightarrow> nat" where
  "tagged_size ks unknown = tagged_fields_len (known_pairs ks) unknown"

text \<open>
  The closure of \<open>read_tagged_fields\<close>, one arm per known tag; the state is the message under
  construction. The source collects each value in a local variable and assigns it to the message when
  the whole trailer is read; a tag occurs at most once, so the message is the same.
\<close>

type_synonym 's tag_arms = "(u32 \<times> ('s \<Rightarrow> 's decoder)) list"

definition tag_into :: "'a decoder \<Rightarrow> ('a \<Rightarrow> 's \<Rightarrow> 's) \<Rightarrow> 's \<Rightarrow> 's decoder" where
  "tag_into get upd s = read_then get (\<lambda>v. read_ok (upd v s))"

text \<open>\<open>t if version >= k => .., t => Err(TagNotValidForVersion { tag: t, version })\<close>.\<close>

definition tag_from :: "u32 \<Rightarrow> bool \<Rightarrow> i16 \<Rightarrow> ('s \<Rightarrow> 's decoder) \<Rightarrow> 's \<Rightarrow> 's decoder" where
  "tag_from tag c version arm s = (if c then arm s else read_err (TagNotValidForVersion tag version))"

definition match_tag :: "'s tag_arms \<Rightarrow> 's known_fields" where
  "match_tag arms s tag =
     (case map_of arms tag of
        None \<Rightarrow> read_ok (False, s)
      | Some arm \<Rightarrow> read_then (arm s) (\<lambda>s'. read_ok (True, s')))"

definition get_tagged :: "'s tag_arms \<Rightarrow> 's \<Rightarrow> (UnknownTaggedFields \<times> 's) decoder" where
  "get_tagged arms out = read_tagged_fields (match_tag arms) out"

section \<open>Guarded fields\<close>

text \<open>A field that a version does not have keeps its default.\<close>

definition field_ok :: "bool \<Rightarrow> 'a \<Rightarrow> ('a \<Rightarrow> bool) \<Rightarrow> 'a \<Rightarrow> bool" where
  "field_ok c d P x \<longleftrightarrow> (if c then P x else x = d)"

lemma carries_into [carries_rules]:
  assumes "c \<Longrightarrow> carries w get n v" and "\<not> c \<Longrightarrow> upd v out = out"
  shows "carries (put_when c w) (get_into c get upd out) (len_when c n) (upd v out)"
proof (cases c)
  case True
  then obtain bs where "produces w bs" "reads get bs v" "length bs = n"
    using assms(1) by (auto elim: carriesE)
  then show ?thesis
    using True by (intro carriesI[of _ bs]) (simp_all add: put_when_def[abs_def] get_into_def len_when_def produces_def
        reads_def read_then_def read_ok_def)
next
  case False
  then show ?thesis
    using assms(2) by (intro carriesI[of _ "[]"]) (simp_all add: put_when_def[abs_def] get_into_def len_when_def produces_def
        reads_def read_ok_def)
qed

lemma yields_into:
  assumes "P out" and "c \<Longrightarrow> yields n get V" and "\<And>v. c \<Longrightarrow> V v \<Longrightarrow> P (upd v out)"
  shows "yields 0 (get_into c get upd out) P"
  unfolding get_into_def
proof (rule yields_if)
  assume c
  then show "yields 0 (read_then get (\<lambda>v. read_ok (upd v out))) P"
    using assms by (intro yields_weaken[OF yields_then_0[of n get V] zero_le]) (simp_all add: yields_ok)
qed (simp add: yields_ok assms(1))

text \<open>\<open>keeps P r\<close>: the step \<open>r\<close> of a decoder takes a message that satisfies \<open>P\<close> to one that does.\<close>

definition keeps :: "('s \<Rightarrow> bool) \<Rightarrow> ('s \<Rightarrow> ('e, 's) reader) \<Rightarrow> bool" where
  "keeps P r \<longleftrightarrow> (\<forall>s. P s \<longrightarrow> yields 0 (r s) P)"

lemma keeps_into:
  "(c \<Longrightarrow> yields n get V) \<Longrightarrow> (\<And>v s. P s \<Longrightarrow> c \<Longrightarrow> V v \<Longrightarrow> P (upd v s)) \<Longrightarrow> keeps P (get_into c get upd)"
  unfolding keeps_def by (blast intro: yields_into)

lemma yields_step:
  "keeps P r \<Longrightarrow> P s \<Longrightarrow> (\<And>x. P x \<Longrightarrow> yields n (f x) Q) \<Longrightarrow> yields n (read_then (r s) f) Q"
  using yields_then[of 0 "r s" P n f Q] by (simp add: keeps_def)

lemma extends_into [extends_rules]: "extends_input get \<Longrightarrow> extends_input (get_into c get upd out)"
  unfolding get_into_def by (intro extends_rules)

lemma contains_version_Ok [simp]:
  "contains_version lo hi what version = Ok () \<longleftrightarrow> version_in lo hi version"
  by (simp add: contains_version_def)

lemma yields_refused: "\<not> version_in lo hi version \<Longrightarrow> yields n (checked (contains_version lo hi what version) r) P"
  by (simp add: yields_def checked_def contains_version_def)

lemma check_version_in: "check_version key version lo hi = Ok () \<longleftrightarrow> version_in lo hi version"
  by (simp add: check_version_def version_in_def)

lemma yields_unsupported: "\<not> version_in lo hi version \<Longrightarrow> yields n (checked (check_version key version lo hi) r) P"
  by (auto simp: yields_def checked_def check_version_def version_in_def)

lemma version_not_negative: "version_in lo hi version \<Longrightarrow> 0 \<le>s lo \<Longrightarrow> 0 \<le>s version"
  unfolding version_in_def word_sle_eq by (elim conjE) (rule order_trans)

section \<open>Strings\<close>

definition str_wf :: "bool \<Rightarrow> bytes \<Rightarrow> bool" where
  "str_wf flex = (if flex then compact_string_wf else string_wf)"

definition nullable_str_wf :: "bool \<Rightarrow> bytes option \<Rightarrow> bool" where
  "nullable_str_wf flex = (if flex then pred_option compact_string_wf else pred_option string_wf)"

definition blob_wf :: "bool \<Rightarrow> bytes \<Rightarrow> bool" where
  "blob_wf flex = (if flex then compact_bytes_wf else bytes_wf)"

lemma flex_codec:
  "wire_codec e d l P \<Longrightarrow> wire_codec e' d' l' P'
    \<Longrightarrow> wire_codec (if flex then e else e') (if flex then d else d') (if flex then l else l') (if flex then P else P')"
  by simp

interpretation str: protocol_codec "put_str flex" "get_str flex" "str_len flex" "str_wf flex" for flex
  unfolding protocol_codec_def put_str_def get_str_def str_len_def str_wf_def
  by (rule flex_codec[OF compact_string.wire_codec_axioms string.wire_codec_axioms])

interpretation nullable_str: wire_codec "put_nullable_str flex" "get_nullable_str flex" "nullable_str_len flex" "nullable_str_wf flex"
  for flex
  unfolding put_nullable_str_def get_nullable_str_def nullable_str_len_def nullable_str_wf_def
  by (rule flex_codec[OF compact_nullable_string.wire_codec_axioms nullable_string.wire_codec_axioms])

interpretation blob: wire_codec "put_blob flex" "get_blob flex" "blob_len flex" "blob_wf flex" for flex
  unfolding put_blob_def get_blob_def blob_len_def blob_wf_def
  by (rule flex_codec[OF compact_bytes.wire_codec_axioms byte_string.wire_codec_axioms])

section \<open>Arrays\<close>

definition array_ok :: "bool \<Rightarrow> ('a \<Rightarrow> bool) \<Rightarrow> 'a list \<Rightarrow> bool" where
  "array_ok flex P xs \<longleftrightarrow> array_len_wf flex (length xs) \<and> list_all P xs"

lemma nullable_len_of_array_len:
  "get_array_len flex buf = Ok (n, rest) \<Longrightarrow> get_nullable_array_len flex buf = Ok (Some n, rest)"
  by (auto simp: get_array_len_def get_nullable_array_len_def read_then_def and_then_def within_remaining_def
      read_err_def split: if_splits option.splits sum.splits prod.splits)

lemma nullable_prefix_Some [simp]: "nullable_array_len_prefix_len (Some n) flex = array_len_prefix_len n flex"
  by (simp add: nullable_array_len_prefix_len_def array_len_prefix_len_def)

lemma put_nullable_len_Some: "put_nullable_array_len (Some n) flex = put_array_len n flex"
  by (auto simp: put_nullable_array_len_def put_array_len_def)

lemma null_array: "carries (put_nullable_array_len None flex) (get_nullable_array_len flex) (nullable_array_len_prefix_len None flex) None"
proof (cases flex)
  case True
  then show ?thesis
    using uvarint.codec_carries[of 0]
    by (auto simp: put_nullable_array_len_def[abs_def] get_nullable_array_len_def nullable_array_len_prefix_len_def
        carries_def produces_def reads_def read_then_def read_ok_def)
next
  case False
  then show ?thesis
    using i32.codec_carries[of "- 1"]
    by (auto simp: put_nullable_array_len_def[abs_def] get_nullable_array_len_def nullable_array_len_prefix_len_def
        carries_def produces_def reads_def read_then_def read_ok_def)
qed

lemma extends_get_nullable_array_len [extends_rules]: "extends_input (get_nullable_array_len flex)"
  unfolding get_nullable_array_len_def
  by (intro extends_rules uvarint.codec_extends i32.codec_extends)

lemma yields_get_nullable_array_len:
  "yields 1 (get_nullable_array_len flex) (pred_option (array_len_wf flex))"
proof (cases flex)
  case True
  have "yields 0 (if raw = 0 then read_ok None else within_remaining (unat (raw - 1)) (Some (unat (raw - 1))))
    (pred_option (array_len_wf flex))" for raw :: u32
    using compact_prefix_bound[of raw] True
    by (auto intro: yields_ok yields_mono[OF yields_within_remaining] simp: array_len_wf_def)
  with True show ?thesis
    unfolding get_nullable_array_len_def by (simp only: if_True) (rule yields_then_0[OF uvarint.codec_yields])
next
  case False
  have "yields 0 (case usize_try_from l of None \<Rightarrow> read_ok None | Some n \<Rightarrow> within_remaining n (Some n))
    (pred_option (array_len_wf flex))" for l :: i32
    using usize_try_from_Some(1)[of l] False
    by (auto intro: yields_ok yields_mono[OF yields_within_remaining] simp: array_len_wf_def split: option.splits)
  with False show ?thesis
    unfolding get_nullable_array_len_def by (simp only: if_False) (rule yields_then_0[OF i32.codec_yields])
qed

lemma extends_times [extends_rules]: "extends_input get \<Longrightarrow> extends_input (read_times n get)"
  by (induction n) (auto intro: extends_rules)

lemma extends_get_array [extends_rules]: "extends_input get \<Longrightarrow> extends_input (get_array flex get)"
  unfolding get_array_def by (intro extends_rules)

lemma extends_get_nullable_array [extends_rules]: "extends_input get \<Longrightarrow> extends_input (get_nullable_array flex get)"
  unfolding get_nullable_array_def by (intro extends_rules)

context protocol_codec
begin

lemma prefixed_items:
  assumes "array_ok flex wf xs"
  obtains p bs where "produces (put_array_len (length xs) flex) p" "length p = array_len_prefix_len (length xs) flex"
    "produces (write_all (map enc xs)) bs" "reads (read_times (length xs) dec) bs xs" "length bs = (\<Sum>x \<leftarrow> xs. len x)"
    "\<forall>rest. get_array_len flex (p @ bs @ rest) = Ok (length xs, bs @ rest)"
proof -
  obtain bs where bs: "produces (write_all (map enc xs)) bs"
    "reads (read_times (length xs) dec) bs xs" "length bs = (\<Sum>x \<leftarrow> xs. len x)" "length xs \<le> length bs"
    using items_carry assms unfolding array_ok_def by metis
  obtain p where "produces (put_array_len (length xs) flex) p" "length p = array_len_prefix_len (length xs) flex"
    "\<forall>rest. length xs \<le> length rest \<longrightarrow> get_array_len flex (p @ rest) = Ok (length xs, rest)"
    using assms unfolding array_ok_def by (auto elim: array_len_round_trip)
  then show thesis
    using bs by (intro that) auto
qed

lemma put_array_carries:
  assumes "array_ok flex wf xs"
  shows "carries (put_array flex enc xs) (get_array flex dec) (array_size flex len xs) xs"
proof -
  obtain p bs where *: "produces (put_array_len (length xs) flex) p" "length p = array_len_prefix_len (length xs) flex"
    "produces (write_all (map enc xs)) bs" "reads (read_times (length xs) dec) bs xs" "length bs = (\<Sum>x \<leftarrow> xs. len x)"
    "\<forall>rest. get_array_len flex (p @ bs @ rest) = Ok (length xs, bs @ rest)"
    using assms by (rule prefixed_items)
  show ?thesis
    unfolding put_array_def get_array_def array_size_def
  proof (rule carriesI[of _ "p @ bs"])
    show "reads (read_then (get_array_len flex) (\<lambda>n. read_times n dec)) (p @ bs) xs"
      using *(4,6) by (simp add: reads_def read_then_def)
  qed (use * in \<open>simp_all add: produces_Cons\<close>)
qed

lemma get_array_yields: "yields 1 (get_array flex dec) (array_ok flex wf)"
  unfolding get_array_def
  by (rule yields_then_0[OF yields_get_array_len], rule yields_mono[OF items_yield]) (simp add: array_ok_def)

lemma put_nullable_array_carries:
  assumes "pred_option (array_ok flex wf) opt"
  shows "carries (put_nullable_array flex enc opt) (get_nullable_array flex dec) (nullable_array_size flex len opt) opt"
proof (cases opt)
  case None
  obtain p where "produces (put_nullable_array_len None flex) p" "reads (get_nullable_array_len flex) p None"
      "length p = nullable_array_len_prefix_len None flex"
    using null_array by (rule carriesE)
  then show ?thesis
    by (intro carriesI[of _ p])
      (simp_all add: None put_nullable_array_def[abs_def] get_nullable_array_def nullable_array_size_def produces_def reads_def
        read_then_def read_ok_def)
next
  case (Some xs)
  then have "array_ok flex wf xs"
    using assms by simp
  then obtain p bs where *: "produces (put_array_len (length xs) flex) p" "length p = array_len_prefix_len (length xs) flex"
    "produces (write_all (map enc xs)) bs" "reads (read_times (length xs) dec) bs xs" "length bs = (\<Sum>x \<leftarrow> xs. len x)"
    "\<forall>rest. get_array_len flex (p @ bs @ rest) = Ok (length xs, bs @ rest)"
    by (rule prefixed_items)
  show ?thesis
    unfolding Some put_nullable_array_def get_nullable_array_def nullable_array_size_def
  proof (intro carriesI[of _ "p @ bs"], goal_cases)
    case 2
    then show ?case
      using *(4) nullable_len_of_array_len[OF *(6)[rule_format]] by (simp add: reads_def read_then_def read_ok_def)
  qed (use * in \<open>simp_all add: produces_Cons put_nullable_len_Some\<close>)
qed

lemma get_nullable_array_yields: "yields 1 (get_nullable_array flex dec) (pred_option (array_ok flex wf))"
  unfolding get_nullable_array_def
  by (rule yields_then_0[OF yields_get_nullable_array_len])
    (auto split: option.split intro!: yields_ok yields_then_0[OF items_yield] simp: array_ok_def)

end

section \<open>How much a reader consumes\<close>

text \<open>
  A reader that consumes at least the bytes that its result is written in. It holds for the length
  prefixes, which may be padded but not shortened, and with it the size of an array that is read from
  a payload is bounded by the payload.
\<close>

definition consumes :: "('e, 'a) reader \<Rightarrow> ('a \<Rightarrow> nat) \<Rightarrow> bool" where
  "consumes r len \<longleftrightarrow> (\<forall>buf x rest. r buf = Ok (x, rest) \<longrightarrow> length rest + len x \<le> length buf)"

lemma consumesD: "consumes r len \<Longrightarrow> r buf = Ok (x, rest) \<Longrightarrow> length rest + len x \<le> length buf"
  by (simp add: consumes_def)

lemma consumes_yields: "yields n r P \<Longrightarrow> consumes r (\<lambda>_. n)"
  by (fastforce simp: yields_def consumes_def)

lemma unat_bits_less:
  assumes "\<forall>i. bit v i \<longrightarrow> i < m"
  shows "unat (v :: 'a::len word) < 2 ^ m"
proof -
  have "take_bit m v = v"
    using assms by (auto simp: bit_eq_iff bit_simps)
  then have "unat v = take_bit m (unat v)"
    by (metis unsigned_take_bit_eq)
  then show ?thesis
    by (metis take_bit_nat_less_exp)
qed

lemma uv_loop_bits:
  "get_uv_loop k mx acc s buf = Ok (v, rest) \<Longrightarrow> \<forall>i. bit acc i \<longrightarrow> i < s
    \<Longrightarrow> length rest < length buf \<and> (\<forall>i. bit v i \<longrightarrow> i < s + 7 * (length buf - length rest))"
proof (induction k mx acc s buf rule: get_uv_loop.induct)
  case (3 k mx acc s b buf)
  let ?acc = "acc OR push_bit s (ucast (b AND 0x7F))"
  have acc: "\<forall>i. bit ?acc i \<longrightarrow> i < s + 7"
    using "3.prems"(2) unfolding mask_7 by (fastforce simp: bit_simps)
  show ?case
  proof (cases "b AND 0x80 = 0")
    case True
    then show ?thesis
      using "3.prems"(1) acc by (auto simp: Let_def)
  next
    case False
    then have "get_uv_loop k mx ?acc (s + 7) buf = Ok (v, rest)"
      using "3.prems"(1) by (simp add: Let_def)
    then have l: "length rest < length buf" and b: "\<forall>i. bit v i \<longrightarrow> i < s + 7 + 7 * (length buf - length rest)"
      using "3.IH"[OF refl False _ acc] by blast+
    have "s + 7 + 7 * (length buf - length rest) = s + 7 * (length (b # buf) - length rest)"
      using l by (simp add: Suc_diff_le)
    then show ?thesis
      using l b by (simp only: list.size) fastforce
  qed
qed simp_all

lemma consumes_uvarint: "consumes get_uvarint uvarint_len"
  unfolding consumes_def
proof (intro allI impI)
  fix buf v rest
  assume "get_uvarint buf = Ok (v, rest)"
  then have l: "length rest < length buf" and "\<forall>i. bit v i \<longrightarrow> i < 7 * (length buf - length rest)"
    using uv_loop_bits[of _ _ "0 :: u32" 0 buf v rest] by (auto simp: get_uvarint_def)
  then have "bit_width (unat v) \<le> 7 * (length buf - length rest)"
    by (simp add: bit_width_le_iff unat_bits_less)
  then have "uvarint_len v \<le> length buf - length rest"
    using l unfolding uvarint_len_eq length_uv_bytes div_ceil_def by (auto simp: less_eq_div_iff_mult_less_eq)
  then show "length rest + uvarint_len v \<le> length buf"
    using l by simp
qed

lemma consumes_array_len: "consumes (get_array_len flex) (\<lambda>n. array_len_prefix_len n flex)"
  unfolding consumes_def
proof (intro allI impI)
  fix buf n rest
  assume *: "get_array_len flex buf = Ok (n, rest)"
  show "length rest + array_len_prefix_len n flex \<le> length buf"
  proof (cases flex)
    case True
    then obtain raw where raw: "get_uvarint buf = Ok (raw, rest)" "raw \<noteq> 0" "n = unat (raw - 1)"
      using * by (auto simp: get_array_len_def read_then_def and_then_eq_Ok read_err_def within_remaining_Ok split: if_splits)
    have "n + 1 < 2 ^ 32" "of_nat (n + 1) = raw"
      using compact_prefix_bound[OF raw(2)] by (simp_all add: raw(3))
    then have "array_len_prefix_len n flex = uvarint_len raw"
      using True by (simp add: array_len_prefix_len_def usize_uvarint_len_eq usize_saturating_add_def usize_max_def)
    then show ?thesis
      using consumesD[OF consumes_uvarint raw(1)] by simp
  next
    case False
    then obtain l where "get_i32 buf = Ok (l, rest)"
      using * by (auto simp: get_array_len_def read_then_def and_then_eq_Ok read_err_def within_remaining_Ok
          split: if_splits option.splits)
    then show ?thesis
      using False by (simp add: get_i32_def fixed_get_Ok array_len_prefix_len_def)
  qed
qed

lemma i32_consumed: "get_i32 buf = Ok (l, rest) \<Longrightarrow> length rest + 4 = length buf"
  by (auto simp: get_i32_def fixed_get_Ok)

lemma consumes_nullable_array_len:
  "consumes (get_nullable_array_len flex) (\<lambda>opt. nullable_array_len_prefix_len opt flex)"
  unfolding consumes_def
proof (intro allI impI)
  fix buf opt rest
  assume *: "get_nullable_array_len flex buf = Ok (opt, rest)"
  show "length rest + nullable_array_len_prefix_len opt flex \<le> length buf"
  proof (cases opt)
    case None
    then show ?thesis
      using * by (auto simp: get_nullable_array_len_def nullable_array_len_prefix_len_def read_then_def and_then_eq_Ok
          within_remaining_Ok read_ok_def
          dest!: consumesD[OF consumes_uvarint] i32_consumed split: if_splits option.splits)
  next
    case (Some n)
    then have "get_array_len flex buf = Ok (n, rest)"
      using * by (auto simp: get_array_len_def get_nullable_array_len_def read_then_def and_then_def within_remaining_def
          read_ok_def read_err_def split: if_splits option.splits sum.splits prod.splits)
    then show ?thesis
      using consumesD[OF consumes_array_len] Some by simp
  qed
qed

lemma consumes_times: "consumes get len \<Longrightarrow> consumes (read_times n get) (\<lambda>xs. \<Sum>x \<leftarrow> xs. len x)"
proof (induction n)
  case (Suc n)
  then show ?case
    unfolding consumes_def by (fastforce simp: read_then_def and_then_eq_Ok read_ok_def)
qed (simp add: consumes_def read_ok_def)

lemma times_length: "read_times n get buf = Ok (xs, rest) \<Longrightarrow> length xs = n"
  by (induction n arbitrary: buf xs) (auto simp: read_then_def and_then_eq_Ok read_ok_def)

lemma consumes_array:
  assumes "consumes get len"
  shows "consumes (get_array flex get) (array_size flex len)"
  unfolding consumes_def
proof (intro allI impI)
  fix buf xs rest
  assume "get_array flex get buf = Ok (xs, rest)"
  then obtain n mid where *: "get_array_len flex buf = Ok (n, mid)" "read_times n get mid = Ok (xs, rest)"
    by (auto simp: get_array_def read_then_def and_then_eq_Ok)
  show "length rest + array_size flex len xs \<le> length buf"
    using consumesD[OF consumes_array_len *(1)] consumesD[OF consumes_times[OF assms] *(2)] times_length[OF *(2)]
    by (simp add: array_size_def)
qed

lemma consumes_nullable_array:
  assumes "consumes get len"
  shows "consumes (get_nullable_array flex get) (nullable_array_size flex len)"
  unfolding consumes_def
proof (intro allI impI)
  fix buf opt rest
  assume "get_nullable_array flex get buf = Ok (opt, rest)"
  then obtain n mid where *: "get_nullable_array_len flex buf = Ok (n, mid)"
      "case n of None \<Rightarrow> opt = None \<and> rest = mid | Some k \<Rightarrow> \<exists>xs. opt = Some xs \<and> read_times k get mid = Ok (xs, rest)"
    by (auto simp: get_nullable_array_def read_then_def and_then_eq_Ok read_ok_def split: option.splits)
  show "length rest + nullable_array_size flex len opt \<le> length buf"
  proof (cases n)
    case None
    then show ?thesis
      using consumesD[OF consumes_nullable_array_len *(1)] *(2) by (simp add: nullable_array_size_def)
  next
    case (Some k)
    then obtain xs where "opt = Some xs" "read_times k get mid = Ok (xs, rest)"
      using *(2) by auto
    then show ?thesis
      using consumesD[OF consumes_nullable_array_len *(1)] consumesD[OF consumes_times[OF assms]] times_length Some
      by (fastforce simp: nullable_array_size_def)
  qed
qed

section \<open>Tagged fields\<close>

text \<open>
  One known field after the other: \<open>tags_carry ks arms s s'\<close> when reading the fields of \<open>ks\<close> that are
  present, with the arms of the same tags, takes the message \<open>s\<close> to \<open>s'\<close>.
\<close>

inductive tags_carry :: "tagged_field list \<Rightarrow> 's tag_arms \<Rightarrow> 's \<Rightarrow> 's \<Rightarrow> bool" where
  tags_Nil: "tags_carry [] [] s s"
| tags_present: "present \<Longrightarrow> carries w (arm s) n s' \<Longrightarrow> n < 2 ^ 32 \<Longrightarrow> tags_carry ks arms s' s''
    \<Longrightarrow> tags_carry ((tag, present, n, w) # ks) ((tag, arm) # arms) s s''"
| tags_absent: "\<not> present \<Longrightarrow> tags_carry ks arms s s' \<Longrightarrow> tags_carry ((tag, present, n, w) # ks) ((tag, arm) # arms) s s'"

lemma tags_step [carries_rules]:
  assumes "present \<Longrightarrow> carries w get n v" and "present \<Longrightarrow> n < 2 ^ 32" and "\<not> present \<Longrightarrow> v = d"
    and "upd d s = s" and "tags_carry ks arms (upd v s) s''"
  shows "tags_carry ((tag, present, n, w) # ks) ((tag, tag_into get upd) # arms) s s''"
proof (cases present)
  case True
  then obtain bs where "produces w bs" "reads get bs v" "length bs = n"
    using assms(1) by (auto elim: carriesE)
  then have "carries w (tag_into get upd s) n (upd v s)"
    by (intro carriesI[of _ bs]) (simp_all add: tag_into_def reads_def read_then_def read_ok_def)
  then show ?thesis
    using True assms by (intro tags_present) simp_all
qed (use assms in \<open>simp add: tags_absent\<close>)

text \<open>A tagged field that is not written has its default value.\<close>

lemma absent_guarded: "\<not> (c \<and> x \<noteq> d) \<Longrightarrow> field_ok c d P x \<Longrightarrow> x = d"
  by (auto simp: field_ok_def split: if_splits)

lemma absent_plain: "\<not> x \<noteq> d \<Longrightarrow> x = d"
  by simp

lemma tags_step_from [carries_rules]:
  assumes "present \<Longrightarrow> c"
    and "tags_carry ((tag, present, n, w) # ks) ((tag, arm) # arms) s s''"
  shows "tags_carry ((tag, present, n, w) # ks) ((tag, tag_from tag c version arm) # arms) s s''"
  using assms(2,1) by (cases rule: tags_carry.cases) (auto intro: tags_present tags_absent simp: tag_from_def)

text \<open>The entries that the known fields add to the trailer.\<close>

definition known_entries :: "tagged_field list \<Rightarrow> (u32 \<times> bytes) list" where
  "known_entries ks = [(t, emitted w). (t, present, n, w) \<leftarrow> ks, present]"

definition writes_all :: "tagged_field list \<Rightarrow> bool" where
  "writes_all ks \<longleftrightarrow> (\<forall>(t, present, n, w) \<in> set ks. present \<longrightarrow> (\<exists>bs. produces w bs \<and> length bs = n \<and> n < 2 ^ 32))"

lemma known_entries_Cons [simp]:
  "known_entries ((t, present, n, w) # ks) = (if present then (t, emitted w) # known_entries ks else known_entries ks)"
  "known_entries [] = []"
  by (simp_all add: known_entries_def)

lemma writes_all_Cons:
  "writes_all ((t, present, n, w) # ks) \<longleftrightarrow> (present \<longrightarrow> (\<exists>bs. produces w bs \<and> length bs = n \<and> n < 2 ^ 32)) \<and> writes_all ks"
  by (auto simp: writes_all_def)

lemma add_known_entries: "writes_all ks \<Longrightarrow> add_known ks tagged = Ok (tagged\<lparr>entries := entries tagged @ known_entries ks\<rparr>)"
  by (induction ks tagged rule: add_known.induct)
    (auto simp: writes_all_Cons encode_payload_def producesD produces_emitted add_tagged_def)

lemma known_entries_sizes: "writes_all ks \<Longrightarrow> payload_sizes (known_entries ks) = known_pairs (map (\<lambda>(t, c, n, w). (t, c, n)) ks)"
proof (induction ks)
  case (Cons k ks)
  then show ?case
    by (cases k) (auto simp: writes_all_Cons payload_sizes_def known_pairs_def dest: produces_emitted)
qed (simp add: payload_sizes_def known_pairs_def)

lemma known_entries_tags: "set (map fst (known_entries ks)) \<subseteq> set (map fst ks)"
  by (force simp: known_entries_def)

lemma known_entries_distinct: "distinct (map fst ks) \<Longrightarrow> distinct (map fst (known_entries ks))"
proof (induction ks)
  case (Cons k ks)
  then show ?case
    using known_entries_tags[of ks] by (cases k) auto
qed simp

lemma known_entries_short: "writes_all ks \<Longrightarrow> \<forall>e \<in> set (known_entries ks). length (snd e) < 2 ^ 32"
proof (induction ks)
  case (Cons k ks)
  then show ?case
    by (cases k) (auto simp: writes_all_Cons dest: produces_emitted)
qed simp

lemma known_entries_image: "mset (known_entries ks) = image_mset (\<lambda>(t, present, n, w). (t, emitted w)) (filter_mset (\<lambda>(t, present, n, w). present) (mset ks))"
  by (induction ks) auto

lemma known_entries_mset: "mset ks = mset ks' \<Longrightarrow> mset (known_entries ks) = mset (known_entries ks')"
  by (simp add: known_entries_image)

lemma known_entries_ascending: "sorted_wrt (<) (map fst ks) \<Longrightarrow> sorted_wrt (<) (map fst (known_entries ks))"
proof (induction ks)
  case (Cons k ks)
  then show ?case
    using known_entries_tags[of ks] by (cases k) (force simp: subset_iff image_iff)
qed simp

text \<open>Reading the entries of the present fields in ascending order.\<close>

lemma tags_entries:
  assumes "tags_carry ks arms s s'" "sorted_wrt (<) (map fst ks)"
    and "\<forall>k \<in> set ks. map_of all (fst k) = map_of arms (fst k)"
  shows "writes_all ks \<and> (\<forall>u. dispatch (match_tag all) u s (known_entries ks) = Ok (u, s'))"
  using assms
proof (induction rule: tags_carry.induct)
  case (tags_present present w arm s n s' ks arms s'' tag)
  obtain p where p: "produces w p" "reads (arm s) p s'" "length p = n"
    using tags_present.hyps(2) by (rule carriesE)
  have "\<forall>k \<in> set ks. map_of all (fst k) = map_of arms (fst k)"
    using tags_present.prems by auto
  moreover have "match_tag all s tag p = Ok ((True, s'), [])"
    using tags_present.prems(2) p(2) readsD[of "arm s" p s' "[]"]
    by (simp add: match_tag_def read_then_def read_ok_def)
  ultimately show ?case
    using tags_present p(1,3) by (auto simp: writes_all_Cons produces_emitted)
next
  case (tags_absent present ks arms s s' tag n w arm)
  have "\<forall>k \<in> set ks. map_of all (fst k) = map_of arms (fst k)"
    using tags_absent.prems by auto
  then show ?case
    using tags_absent by (auto simp: writes_all_Cons)
qed (simp add: writes_all_def)

lemma tags_arms: "tags_carry ks arms s s' \<Longrightarrow> map fst arms = map fst ks"
  by (induction rule: tags_carry.induct) simp_all

text \<open>Unknown entries between the known ones do not touch the message.\<close>

lemma dispatch_arms:
  "dispatch (match_tag arms) u s es =
     and_then (dispatch (match_tag arms) [] s (filter (\<lambda>e. fst e \<in> fst ` set arms) es))
       (\<lambda>(_, s'). Ok (u @ map (\<lambda>e. \<lparr>uf_tag = fst e, uf_bytes = snd e\<rparr>) (filter (\<lambda>e. fst e \<notin> fst ` set arms) es), s'))"
proof (induction es arbitrary: u s)
  case (Cons e es)
  obtain t p where e: "e = (t, p)"
    by (cases e)
  show ?case
  proof (cases "map_of arms t")
    case None
    then have "t \<notin> fst ` set arms"
      by (simp add: map_of_eq_None_iff)
    then show ?thesis
      using None Cons.IH[of "u @ [\<lparr>uf_tag = t, uf_bytes = p\<rparr>]" s] by (simp add: e match_tag_def read_ok_def)
  next
    case (Some arm)
    then have "t \<in> fst ` set arms"
      by (metis map_of_eq_None_iff option.distinct(1))
    then show ?thesis
      using Some Cons.IH[of u] by (cases "arm s p") (auto simp: e match_tag_def read_ok_def read_then_def)
  qed
qed simp

text \<open>
  What a trailer may carry besides the known tags: unknown fields with other tags, as many as the
  count can express next to the known fields that are present.
\<close>

definition present_count :: "bool list \<Rightarrow> nat" where
  "present_count present = (\<Sum>c \<leftarrow> present. of_bool c)"

definition trailer_ok :: "u32 list \<Rightarrow> bool list \<Rightarrow> UnknownTaggedFields \<Rightarrow> bool" where
  "trailer_ok tags present u \<longleftrightarrow>
     unknown_wf u \<and> (\<forall>x \<in> set u. uf_tag x \<notin> set tags) \<and> present_count present + length u < 2 ^ 32"

lemma present_count_simps [simp]:
  "present_count [] = 0" "present_count (c # cs) = of_bool c + present_count cs"
  by (simp_all add: present_count_def)

lemma no_known_ok [simp]: "trailer_ok [] [] u \<longleftrightarrow> unknown_wf u"
  by (auto simp: trailer_ok_def unknown_wf_def)

lemma known_pairs_length:
  "length (known_pairs (map (\<lambda>(t, c, n, w). (t, c, n)) ks)) = present_count (map (\<lambda>(t, c, n, w). c) ks)"
  by (induction ks) (auto simp: known_pairs_def)

text \<open>
  The fields may be added in any order, the arms listed in any order: the writer sorts the entries, and
  \<open>tags_carry\<close> runs over the sorted lists.
\<close>

lemma sorted_by_tag:
  assumes "mset xs = mset ys" and "distinct (map fst xs)"
  shows "sort_key fst xs = sort_key fst ys"
  using assms by (intro sort_key_inj_key_eq) (simp_all add: distinct_map)

lemma same_map_of:
  assumes "mset xs = mset ys" "distinct (map fst xs)"
  shows "map_of xs = map_of ys"
proof -
  have "distinct (map fst ys)"
    using assms by (metis mset_map mset_eq_imp_distinct_iff)
  then show ?thesis
    using assms map_of_inject_set mset_eq_setD by blast
qed

lemma merged_dispatch:
  assumes "\<forall>u. dispatch (match_tag arms) u s es = Ok (u, s')" "sorted (map fst es)" "fst ` set es \<subseteq> fst ` set arms"
    and "unknown_wf u" "\<forall>x \<in> set u. uf_tag x \<notin> fst ` set arms"
  shows "dispatch (match_tag arms) [] s (sort_key fst (es @ map (\<lambda>x. (uf_tag x, uf_bytes x)) u)) = Ok (u, s')"
proof -
  let ?us = "map (\<lambda>x. (uf_tag x, uf_bytes x)) u"
  have "filter (\<lambda>e. fst e \<in> fst ` set arms) ?us = []" "filter (\<lambda>e. fst e \<notin> fst ` set arms) ?us = ?us"
    using assms(5) by (auto simp: filter_empty_conv intro!: filter_True)
  moreover have "filter (\<lambda>e. fst e \<in> fst ` set arms) es = es" "filter (\<lambda>e. fst e \<notin> fst ` set arms) es = []"
    using assms(3) by (auto simp: filter_empty_conv intro!: filter_True)
  moreover have "sorted (map fst ?us)"
    using assms(4) by (auto simp: unknown_wf_def comp_def intro: strict_sorted_imp_sorted)
  moreover have "map (\<lambda>e. \<lparr>uf_tag = fst e, uf_bytes = snd e\<rparr>) ?us = u"
    by (induction u) simp_all
  ultimately show ?thesis
    using assms(1,2) by (subst dispatch_arms) (simp add: filter_sort sort_key_id_if_sorted)
qed

lemma merged_ascending:
  assumes "distinct (map fst es)" "unknown_wf u" "\<forall>x \<in> set u. uf_tag x \<notin> fst ` set es"
  shows "sorted_wrt (<) (map fst (sort_key fst (es @ map (\<lambda>x. (uf_tag x, uf_bytes x)) u)))"
proof -
  let ?us = "map (\<lambda>x. (uf_tag x, uf_bytes x)) u"
  have "set (map fst es) \<inter> set (map fst ?us) = {}"
    using assms(3) by (auto simp del: set_map simp: comp_def) force
  moreover have "distinct (map fst ?us)"
    using assms(2) by (simp add: unknown_wf_def strict_sorted_iff comp_def)
  ultimately have "distinct (map fst (es @ ?us))"
    using assms(1) by (simp only: map_append distinct_append simp_thms)
  then show ?thesis
    by (simp only: strict_sorted_iff distinct_map distinct_sort set_sort sorted_sort_key simp_thms)
qed

lemma sorted_arms:
  assumes ks: "sort_key fst ks = ks'" and arms: "sort_key fst arms = arms'" and c: "tags_carry ks' arms' s s'"
    and k: "sorted_wrt (<) (map fst ks')"
  shows "distinct (map fst ks)" and "fst ` set arms = fst ` set ks" and "map_of arms = map_of arms'"
proof -
  have m: "mset ks' = mset ks" "mset arms' = mset arms"
    using ks arms by (metis mset_sort)+
  have m': "mset (map fst ks') = mset (map fst ks)" "mset (map fst arms') = mset (map fst arms)"
    by (simp_all only: mset_map m)
  then have "mset (map fst arms) = mset (map fst ks)"
    using tags_arms[OF c] by simp
  with m'(1) have "set (map fst arms) = set (map fst ks)" and dk: "distinct (map fst ks)" "distinct (map fst arms)"
    using k by (auto dest: mset_eq_imp_distinct_iff mset_eq_setD simp only: strict_sorted_iff)
  then show "fst ` set arms = fst ` set ks" "distinct (map fst ks)"
    by simp_all
  show "map_of arms = map_of arms'"
    using same_map_of[of arms arms'] m(2) dk(2) by simp
qed

lemma carries_tagged:
  assumes ks: "sort_key fst ks = ks'" and arms: "sort_key fst arms = arms'" and c: "tags_carry ks' arms' s s'"
    and k: "sorted_wrt (<) (map fst ks')" and u: "trailer_ok (map fst arms) (map (\<lambda>(t, c, n, w). c) ks) u"
  shows "carries (put_tagged ks u) (get_tagged arms s) (tagged_size (map (\<lambda>(t, c, n, w). (t, c, n)) ks) u) (u, s')"
proof -
  let ?es = "known_entries ks" and ?us = "map (\<lambda>x. (uf_tag x, uf_bytes x)) u"
  let ?all = "sort_key fst (?es @ ?us)"
  have m: "mset ks' = mset ks"
    using ks by (metis mset_sort)
  note dk = sorted_arms(1)[OF assms(1-4)] and tags = sorted_arms(2)[OF assms(1-4)]
  have w': "writes_all ks'" and d: "\<forall>u. dispatch (match_tag arms) u s (known_entries ks') = Ok (u, s')"
    using tags_entries[OF c k, of arms] sorted_arms(3)[OF assms(1-4)] by simp_all
  have w: "writes_all ks"
    using w' by (simp only: writes_all_def mset_eq_setD[OF m])
  have u': "unknown_wf u" "\<forall>x \<in> set u. uf_tag x \<notin> fst ` set arms"
    using u by (simp_all add: trailer_ok_def)
  have "\<forall>x \<in> set u. uf_tag x \<notin> fst ` set ?es"
    using u'(2) known_entries_tags[of ks] unfolding tags set_map by blast
  then have asc: "sorted_wrt (<) (map fst ?all)"
    using merged_ascending[OF known_entries_distinct[OF dk] u'(1)] by blast
  then have "distinct (map fst (?es @ ?us))"
    by (simp only: strict_sorted_iff distinct_map distinct_sort set_sort simp_thms)
  then have es: "?all = sort_key fst (known_entries ks' @ ?us)"
    by (rule sorted_by_tag[rotated]) (simp only: mset_append known_entries_mset[OF m])
  have "length ?es = present_count (map (\<lambda>(t, c, n, w). c) ks)"
    using arg_cong[OF known_entries_sizes[OF w], of length] unfolding known_pairs_length by (simp add: payload_sizes_def)
  then have t: "trailer_wf ?all"
    using u known_entries_short[OF w] by (auto simp: trailer_ok_def trailer_wf_def unknown_wf_def)
  have "dispatch (match_tag arms) [] s ?all = Ok (u, s')"
    unfolding es
  proof (rule merged_dispatch[OF d _ _ u'])
    show "fst ` set (known_entries ks') \<subseteq> fst ` set arms"
      using known_entries_tags[of ks'] tags mset_eq_setD[OF m] by auto
    show "sorted (map fst (known_entries ks'))"
      using known_entries_ascending[OF k] by (rule strict_sorted_imp_sorted)
  qed
  then have "reads (get_tagged arms s) (trailer_bytes ?all) (u, s')"
    by (simp add: reads_def get_tagged_def read_trailer[OF asc t])
  moreover have "produces (put_tagged ks u) (trailer_bytes ?all)"
    using producesD[OF write_tagged_produces[OF refl, of "\<lparr>entries = ?es\<rparr>" u]] t add_known_entries[OF w]
    by (simp add: produces_def put_tagged_def WriteTaggedFields_new_def)
  moreover have "length (trailer_bytes ?all) = tagged_size (map (\<lambda>(t, c, n, w). (t, c, n)) ks) u"
    using tagged_fields_len_exact[OF refl, of "\<lparr>entries = ?es\<rparr>" u] t known_entries_sizes[OF w] by (simp add: tagged_size_def)
  ultimately show ?thesis
    by (intro carriesI)
qed

text \<open>
  What the trailer leaves in the message. A payload has less than \<open>2 ^ 32\<close> bytes; \<open>accepts\<close> is what a
  reader of a payload guarantees. The number \<open>m\<close> of fields that differ from their defaults grows by at
  most one per known entry, so that they can be written again.
\<close>

definition accepts :: "'a decoder \<Rightarrow> ('a \<Rightarrow> bool) \<Rightarrow> bool" where
  "accepts r P \<longleftrightarrow> (\<forall>buf x rest. length buf < 2 ^ 32 \<longrightarrow> r buf = Ok (x, rest) \<longrightarrow> P x)"

definition arms_keep :: "('s \<Rightarrow> bool) \<Rightarrow> ('s \<Rightarrow> nat) \<Rightarrow> 's tag_arms \<Rightarrow> bool" where
  "arms_keep P m arms \<longleftrightarrow> (\<forall>arm \<in> snd ` set arms. \<forall>s. P s \<longrightarrow> accepts (arm s) (\<lambda>s'. P s' \<and> m s' \<le> Suc (m s)))"

lemma accepts_yields: "yields n r P \<Longrightarrow> accepts r P"
  by (fastforce simp: accepts_def yields_def)

lemma accepts_array:
  "yields n (get_array flex get) P \<Longrightarrow> consumes get len
    \<Longrightarrow> accepts (get_array flex get) (\<lambda>xs. P xs \<and> array_size flex len xs < 2 ^ 32)"
  unfolding accepts_def by (fastforce dest: consumesD[OF consumes_array] yieldsD(1))

lemma accepts_nullable_array:
  "yields n (get_nullable_array flex get) P \<Longrightarrow> consumes get len
    \<Longrightarrow> accepts (get_nullable_array flex get) (\<lambda>xs. P xs \<and> nullable_array_size flex len xs < 2 ^ 32)"
  unfolding accepts_def by (fastforce dest: consumesD[OF consumes_nullable_array] yieldsD(1))

lemma accepts_into: "accepts get V \<Longrightarrow> (\<And>v. V v \<Longrightarrow> Q (upd v s)) \<Longrightarrow> accepts (tag_into get upd s) Q"
  unfolding accepts_def tag_into_def by (fastforce simp: read_then_def and_then_eq_Ok read_ok_def)

lemma accepts_from: "(c \<Longrightarrow> accepts (arm s) Q) \<Longrightarrow> accepts (tag_from tag c version arm s) Q"
  by (simp add: accepts_def tag_from_def read_err_def)

lemma arms_keep_Nil: "arms_keep P m []"
  by (simp add: arms_keep_def)

lemma arms_keep_Cons:
  "(\<And>s. P s \<Longrightarrow> accepts (arm s) (\<lambda>s'. P s' \<and> m s' \<le> Suc (m s))) \<Longrightarrow> arms_keep P m arms \<Longrightarrow> arms_keep P m ((t, arm) # arms)"
  by (simp add: arms_keep_def)

lemma yields_tagged_loop:
  assumes "arms_keep P m arms" and "P s" and "m s + length unknown \<le> b"
    and "read_tagged_loop (match_tag arms) n last_tag unknown s buf = Ok ((u, s'), rest)"
    and "\<forall>x \<in> set unknown. uf_tag x \<notin> fst ` set arms"
  shows "P s' \<and> m s' + length u \<le> b + n \<and> (\<forall>x \<in> set u. uf_tag x \<notin> fst ` set arms)"
  using assms(2-)
proof (induction n arbitrary: last_tag unknown s buf b)
  case 0
  then show ?case
    by (simp add: read_ok_def)
next
  case (Suc n)
  then obtain t size mid1 mid2 payload mid where *: "get_uvarint mid1 = Ok (size, mid2)"
      "take_bytes (unat size) mid2 = Ok (payload, mid)"
      "(case match_tag arms s t payload of Err e \<Rightarrow> read_err e | Ok ((recognised, s'), left) \<Rightarrow>
          if \<not> recognised then read_tagged_loop (match_tag arms) n (Some t) (unknown @ [\<lparr>uf_tag = t, uf_bytes = payload\<rparr>]) s'
          else if left \<noteq> [] then read_err (InvalidValue ''tagged field decoder did not consume all bytes'')
          else read_tagged_loop (match_tag arms) n (Some t) unknown s') mid = Ok ((u, s'), rest)"
    by (auto simp: read_then_def and_then_eq_Ok read_err_def split: if_splits)
  have len: "length payload < 2 ^ 32"
    using *(2) unat_word_less[of size] by (auto simp: take_bytes_def split: if_splits)
  show ?case
  proof (cases "map_of arms t")
    case None
    then have "match_tag arms s t payload = Ok ((False, s), payload)"
      by (simp add: match_tag_def read_ok_def)
    moreover have "t \<notin> fst ` set arms"
      using None by (simp add: map_of_eq_None_iff)
    ultimately show ?thesis
      using Suc.IH[of s "unknown @ [\<lparr>uf_tag = t, uf_bytes = payload\<rparr>]" "Suc b" "Some t" mid] Suc.prems *(3) by auto
  next
    case (Some arm)
    then obtain s1 where s1: "arm s payload = Ok (s1, [])"
        "read_tagged_loop (match_tag arms) n (Some t) unknown s1 mid = Ok ((u, s'), rest)"
      using *(3) by (auto simp: match_tag_def read_then_def read_ok_def and_then_def read_err_def
          split: sum.splits prod.splits if_splits)
    have "arm \<in> snd ` set arms"
      using map_of_SomeD[OF Some] by force
    then have "P s1" "m s1 \<le> Suc (m s)"
      using assms(1) Suc.prems(1) s1(1) len by (auto simp: arms_keep_def accepts_def)
    then show ?thesis
      using Suc.IH[of s1 unknown "Suc b" "Some t" mid] s1(2) Suc.prems by auto
  qed
qed

lemma yields_tagged:
  assumes "arms_keep P m arms" and "P s" and "m s = 0"
  shows "yields 1 (get_tagged arms s) (\<lambda>(u, s'). P s' \<and> unknown_wf u \<and> (\<forall>x \<in> set u. uf_tag x \<notin> fst ` set arms)
    \<and> m s' + length u < 2 ^ 32)"
  unfolding yields_def
proof (intro allI impI)
  fix buf r rest
  assume *: "get_tagged arms s buf = Ok (r, rest)"
  obtain u s' where r: "r = (u, s')"
    by (cases r)
  obtain n mid where n: "get_uvarint buf = Ok (n, mid)"
      "read_tagged_loop (match_tag arms) (unat n) None [] s mid = Ok ((u, s'), rest)"
    using * by (auto simp: r get_tagged_def read_tagged_fields_def read_then_def and_then_eq_Ok)
  have "P s' \<and> m s' + length u \<le> unat n \<and> (\<forall>x \<in> set u. uf_tag x \<notin> fst ` set arms)"
    using yields_tagged_loop[OF assms(1,2) _ n(2), of 0] assms(3) by simp
  moreover have "unat n < 2 ^ 32"
    using unat_word_less[of n] by simp
  moreover have "unknown_wf u" "\<exists>used. buf = used @ rest \<and> 1 \<le> length used"
    using yieldsD[OF yields_read_tagged_fields *[unfolded get_tagged_def r]] by auto
  ultimately show "(case r of (u, s') \<Rightarrow> P s' \<and> unknown_wf u \<and> (\<forall>x \<in> set u. uf_tag x \<notin> fst ` set arms)
      \<and> m s' + length u < 2 ^ 32) \<and> (\<exists>used. buf = used @ rest \<and> 1 \<le> length used)"
    by (auto simp: r)
qed

lemma extends_get_tagged [extends_rules]: "extends_input (get_tagged arms s)"
  unfolding get_tagged_def by (rule extends_read_tagged_fields)

text \<open>The end of a message: \<open>if flex { out.unknown_tagged_fields = read_tagged_fields(..)?; .. }\<close>.\<close>

definition get_trailer :: "bool \<Rightarrow> 's tag_arms \<Rightarrow> (UnknownTaggedFields \<Rightarrow> 's \<Rightarrow> 's) \<Rightarrow> 's \<Rightarrow> 's decoder" where
  "get_trailer flex arms set_unknown out =
     (if flex then read_then (get_tagged arms out) (\<lambda>(unknown, out'). read_ok (set_unknown unknown out')) else read_ok out)"

lemma carries_trailer_sort:
  assumes "sort_key fst ks = ks'" and "sort_key fst arms = arms'" and flex and c: "tags_carry ks' arms' s s'"
    and "sorted_wrt (<) (map fst ks')" and "trailer_ok (map fst arms) (map (\<lambda>(t, c, n, w). c) ks) u" and "set_unknown u s' = x"
  shows "carries (write_all [put_when flex (put_tagged ks u)]) (get_trailer flex arms set_unknown s)
    (len_when flex (tagged_size (map (\<lambda>(t, c, n, w). (t, c, n)) ks) u)) x"
proof -
  obtain bs where "produces (put_tagged ks u) bs" "reads (get_tagged arms s) bs (u, s')"
      "length bs = tagged_size (map (\<lambda>(t, c, n, w). (t, c, n)) ks) u"
    using carries_tagged[OF assms(1,2,4-6)] by (rule carriesE)
  then show ?thesis
    using assms(3,7) by (intro carriesI[of _ bs])
      (simp_all add: put_when_def[abs_def] produces_def len_when_def get_trailer_def reads_def read_then_def read_ok_def)
qed

lemma carries_trailer [carries_rules]:
  assumes flex and "tags_carry ks arms s s'" and "sorted_wrt (<) (map fst ks)"
    and "trailer_ok (map fst arms) (map (\<lambda>(t, c, n, w). c) ks) u" and "set_unknown u s' = x"
  shows "carries (write_all [put_when flex (put_tagged ks u)]) (get_trailer flex arms set_unknown s)
    (len_when flex (tagged_size (map (\<lambda>(t, c, n, w). (t, c, n)) ks) u)) x"
proof -
  have "sort_key fst ks = ks" "sort_key fst arms = arms"
    using assms(3) tags_arms[OF assms(2)] by (simp_all add: sort_key_id_if_sorted strict_sorted_imp_sorted)
  then show ?thesis
    using assms by (rule carries_trailer_sort)
qed

lemma yields_trailer:
  assumes flex "arms_keep P m arms" "P s" "m s = 0"
    and "\<And>u s'. P s' \<Longrightarrow> unknown_wf u \<Longrightarrow> \<forall>x \<in> set u. uf_tag x \<notin> fst ` set arms \<Longrightarrow> m s' + length u < 2 ^ 32
      \<Longrightarrow> Q (set_unknown u s')"
  shows "yields 1 (get_trailer flex arms set_unknown s) Q"
proof -
  have "yields 1 (read_then (get_tagged arms s) (\<lambda>(unknown, out'). read_ok (set_unknown unknown out'))) Q"
    using assms(5) by (intro yields_then_0[OF yields_tagged[OF assms(2-4)]]) (auto intro: yields_ok)
  then show ?thesis
    using assms(1) by (simp add: get_trailer_def)
qed

lemma extends_trailer [extends_rules]: "extends_input (get_trailer flex arms set_unknown s)"
  unfolding get_trailer_def
  by (intro extends_rules) (auto intro: extends_ok)

section \<open>Elements of arrays\<close>

interpretation i8_item: protocol_codec put_i8 get_i8 "\<lambda>_. 1" "\<lambda>_. True"
  by unfold_locales

interpretation i16_item: protocol_codec put_i16 get_i16 "\<lambda>_. 2" "\<lambda>_. True"
  by unfold_locales

interpretation i64_item: protocol_codec put_i64 get_i64 "\<lambda>_. 8" "\<lambda>_. True"
  by unfold_locales

interpretation i32_item: protocol_codec put_i32 get_i32 "\<lambda>_. 4" "\<lambda>_. True"
  by unfold_locales

interpretation uuid_item: protocol_codec put_uuid get_uuid "\<lambda>_. 16" uuid_wf
  by unfold_locales

context message_codec
begin

lemma message_protocol: "protocol_codec (\<lambda>x. encode x version) (decode version) (\<lambda>x. encoded_len x version) wf"
  by unfold_locales

end

lemma consumes_i32: "consumes get_i32 (\<lambda>_. 4)"
  by (simp add: consumes_def i32_consumed)

lemma consumes_uuid: "consumes get_uuid (\<lambda>_. 16)"
  by (auto simp: consumes_def get_uuid_Ok)

lemma get_i16_Ok: "get_i16 buf = Ok (x, rest) \<longleftrightarrow> 2 \<le> length buf \<and> x = be_word (take 2 buf) \<and> rest = drop 2 buf"
  by (simp add: get_i16_def fixed_get_Ok)

lemma string_from_Ok: "string_from v buf = Ok (s, rest) \<Longrightarrow> s = v \<and> rest = buf"
  by (cases "from_utf8 0 v") (auto simp: string_from_def read_err_def read_ok_def)

lemma consumes_nullable_str: "consumes (get_nullable_str flex) (nullable_str_len flex)"
  unfolding consumes_def
proof (intro allI impI)
  fix buf opt rest
  assume *: "get_nullable_str flex buf = Ok (opt, rest)"
  show "length rest + nullable_str_len flex opt \<le> length buf"
  proof (cases flex)
    case True
    then obtain raw mid where raw: "get_uvarint buf = Ok (raw, mid)"
        "if raw = 0 then opt = None \<and> rest = mid
         else \<exists>v. take_bytes (unat (raw - 1)) mid = Ok (v, rest) \<and> opt = Some v"
      using * by (auto simp: get_nullable_str_def get_compact_nullable_string_owned_def read_then_def and_then_eq_Ok read_ok_def
          dest!: string_from_Ok split: if_splits)
    have c: "length mid + uvarint_len raw \<le> length buf"
      using consumesD[OF consumes_uvarint raw(1)] .
    show ?thesis
    proof (cases "raw = 0")
      case True
      then show ?thesis
        using c raw(2) \<open>flex\<close> by (simp add: nullable_str_len_def compact_nullable_string_len_def)
    next
      case False
      then obtain v where v: "take_bytes (unat (raw - 1)) mid = Ok (v, rest)" "opt = Some v"
        using raw(2) by auto
      have l: "length v = unat (raw - 1)" "length rest + length v = length mid"
        using v(1) by (auto simp: take_bytes_def split: if_splits)
      have "compact_string_len v = uvarint_len raw + length v"
        using saturating_compact_len[of "length v"] compact_prefix_bound[OF False]
        by (simp add: compact_string_len_def l(1))
      then show ?thesis
        using c l(2) v(2) \<open>flex\<close> by (simp add: nullable_str_len_def compact_nullable_string_len_def)
    qed
  next
    case False
    then show ?thesis
      using * by (auto simp: get_nullable_str_def nullable_str_len_def get_nullable_string_owned_def nullable_string_len_def
          read_then_def and_then_eq_Ok read_ok_def get_i16_Ok take_bytes_def
          dest!: string_from_Ok split: if_splits option.splits)
  qed
qed

lemma accepts_nullable_str:
  "accepts (get_nullable_str flex) (\<lambda>v. nullable_str_wf flex v \<and> nullable_str_len flex v < 2 ^ 32)"
  unfolding accepts_def using consumesD[OF consumes_nullable_str] yieldsD(1)[OF nullable_str.codec_yields] by fastforce

lemmas [carries_rules] =
  tags_Nil u16.codec_carries f64.codec_carries str.codec_carries nullable_str.codec_carries blob.codec_carries
  str.put_array_carries i32_item.put_array_carries uuid_item.put_array_carries
  i8_item.put_array_carries i16_item.put_array_carries i64_item.put_array_carries
  str.put_nullable_array_carries i32_item.put_nullable_array_carries uuid_item.put_nullable_array_carries

lemmas [yields_rules] =
  u16.codec_yields f64.codec_yields str.codec_yields nullable_str.codec_yields blob.codec_yields
  str.get_array_yields i32_item.get_array_yields uuid_item.get_array_yields
  i8_item.get_array_yields i16_item.get_array_yields i64_item.get_array_yields
  str.get_nullable_array_yields i32_item.get_nullable_array_yields uuid_item.get_nullable_array_yields

lemmas [extends_rules] =
  u16.codec_extends f64.codec_extends str.codec_extends nullable_str.codec_extends blob.codec_extends

named_theorems accepts_rules

lemmas [accepts_rules] =
  accepts_yields[OF i8.codec_yields] accepts_yields[OF i32.codec_yields] accepts_nullable_str accepts_yields[OF bool.codec_yields]
  accepts_yields[OF i16.codec_yields] accepts_yields[OF i64.codec_yields] accepts_yields[OF uuid.codec_yields]
  accepts_array[OF i32_item.get_array_yields consumes_i32] accepts_array[OF uuid_item.get_array_yields consumes_uuid]
  accepts_nullable_array[OF i32_item.get_nullable_array_yields consumes_i32]
  accepts_nullable_array[OF uuid_item.get_nullable_array_yields consumes_uuid]

text \<open>The default values are well formed.\<close>

lemma default_ok [simp]:
  "str_wf flex []" "nullable_str_wf flex None" "nullable_str_wf flex (Some [])" "blob_wf flex []" "uuid_wf Uuid_ZERO"
  "unknown_wf []" "array_ok flex P []" "array_size flex len [] < 4294967296" "nullable_array_size flex len None < 4294967296"
  "nullable_str_len flex None < 4294967296"
  by (cases flex; simp add: str_wf_def nullable_str_wf_def blob_wf_def compact_string_wf_def string_wf_def compact_bytes_wf_def
      bytes_wf_def uuid_wf_def Uuid_ZERO_def unknown_wf_def array_ok_def array_len_wf_def array_size_def nullable_array_size_def
      array_len_prefix_len_def nullable_array_len_prefix_len_def nullable_str_len_def nullable_string_len_def
      compact_nullable_string_len_def usize_uvarint_len_def uvarint_len_def usize_saturating_add_def usize_max_def
      utf8_def from_utf8.simps)+

end
