(* ===== verification/KraftTopicCodecs.thy ===== *)
theory KraftTopicCodecs
  imports GeneratedCodec KraftRecords
begin

text \<open>
  The generated encoders and decoders of the metadata records about topics: \<open>TopicRecord\<close>, \<open>PartitionRecord\<close>,
  \<open>PartitionChangeRecord\<close>, \<open>RemoveTopicRecord\<close>, \<open>ConfigRecord\<close>
  (\<open>crates/protocol/generated/*.owned.rs\<close>; the structures are in \<open>KraftRecords\<close>). For a record \<open>R\<close> there are
  its \<open>MIN_VERSION\<close>, \<open>MAX_VERSION\<close> and \<open>is_flexible\<close>, the methods \<open>encode\<close>, \<open>encoded_len\<close> and \<open>decode\<close> (with
  one definition per helper where the generator splits them into \<open>encode_field_n\<close>, \<open>decode_field_n\<close> and the two
  tagged-field parts), and \<open>R_wf\<close>: what the fields must satisfy for the record to be written at a version. A
  field the version does not carry has to hold its default, the lengths have to fit their prefixes, and the
  unknown tagged fields have to avoid the known tags.

  The interpretation of \<open>message_codec\<close> after each record discharges the contract for the three methods:
  the encoder writes exactly \<open>encoded_len\<close> bytes, the decoder reads them back to the same record whatever
  follows, decoding a prefix does not depend on what follows, and whatever the decoder accepts is again a
  record of \<open>R_wf\<close>.
\<close>

section \<open>TopicRecord\<close>

definition KTopicRecord_MIN_VERSION :: i16 where
  "KTopicRecord_MIN_VERSION = 0"

definition KTopicRecord_MAX_VERSION :: i16 where
  "KTopicRecord_MAX_VERSION = 0"

definition KTopicRecord_FLEXIBLE_MIN :: i16 where
  "KTopicRecord_FLEXIBLE_MIN = 0"

definition KTopicRecord_is_flexible :: "i16 \<Rightarrow> bool" where
  "KTopicRecord_is_flexible version \<longleftrightarrow> KTopicRecord_FLEXIBLE_MIN \<le>s version"

definition KTopicRecord_encode :: "KTopicRecord \<Rightarrow> i16 \<Rightarrow> encoder" where
  "KTopicRecord_encode x version =
     (let flex = KTopicRecord_is_flexible version in
      write_all
        [write_check (contains_version KTopicRecord_MIN_VERSION KTopicRecord_MAX_VERSION ''TopicRecord version out of range'' version),
         put_when (0 \<le>s version) (put_str flex (kt_name x)),
         put_when (0 \<le>s version) (put_uuid (kt_topic_id x)),
         put_when flex (put_tagged [] (kt_unknown_tagged_fields x))])"

definition KTopicRecord_encoded_len :: "KTopicRecord \<Rightarrow> i16 \<Rightarrow> nat" where
  "KTopicRecord_encoded_len x version =
     (let flex = KTopicRecord_is_flexible version in
      len_when (0 \<le>s version) (str_len flex (kt_name x))
      + len_when (0 \<le>s version) 16
      + len_when flex (tagged_size [] (kt_unknown_tagged_fields x)))"

definition KTopicRecord_decode :: "i16 \<Rightarrow> KTopicRecord decoder" where
  "KTopicRecord_decode version =
     (let flex = KTopicRecord_is_flexible version in
      checked (contains_version KTopicRecord_MIN_VERSION KTopicRecord_MAX_VERSION ''TopicRecord version out of range'' version) (
        read_then (get_into (0 \<le>s version) (get_str flex) (\<lambda>v out. out\<lparr>kt_name := v\<rparr>) KTopicRecord_default) (\<lambda>out.
        read_then (get_into (0 \<le>s version) get_uuid (\<lambda>v out. out\<lparr>kt_topic_id := v\<rparr>) out) (\<lambda>out.
        get_trailer flex [] (\<lambda>u out. out\<lparr>kt_unknown_tagged_fields := u\<rparr>) out))))"

definition KTopicRecord_fields_wf :: "i16 \<Rightarrow> KTopicRecord \<Rightarrow> bool" where
  "KTopicRecord_fields_wf version x \<longleftrightarrow>
     (let flex = KTopicRecord_is_flexible version in
      str_wf flex (kt_name x)
      \<and> uuid_wf (kt_topic_id x))"

definition KTopicRecord_wf :: "i16 \<Rightarrow> KTopicRecord \<Rightarrow> bool" where
  "KTopicRecord_wf version x \<longleftrightarrow>
     version_in KTopicRecord_MIN_VERSION KTopicRecord_MAX_VERSION version \<and> KTopicRecord_fields_wf version x \<and> trailer_ok [] [] (kt_unknown_tagged_fields x)"

lemmas topic_record_versions =
    KTopicRecord_is_flexible_def KTopicRecord_FLEXIBLE_MIN_def KTopicRecord_MIN_VERSION_def
    KTopicRecord_MAX_VERSION_def version_in_def

lemmas topic_record_fields =
    Let_def field_ok_def KTopicRecord_fields_wf_def KTopicRecord_is_flexible_def KTopicRecord_FLEXIBLE_MIN_def

lemma topic_record_steps:
  assumes v: "0 \<le>s version" and flex: "flex = (KTopicRecord_is_flexible version)"
  shows "keeps (KTopicRecord_fields_wf version) (get_into (0 \<le>s version) (get_str flex) (\<lambda>v out. out\<lparr>kt_name := v\<rparr>))"
    and "keeps (KTopicRecord_fields_wf version) (get_into (0 \<le>s version) get_uuid (\<lambda>v out. out\<lparr>kt_topic_id := v\<rparr>))"
  unfolding flex 
  by (rule keeps_into; (rule yields_rules)?; simp add: v topic_record_fields)+

lemma topic_record_unknown:
  "KTopicRecord_fields_wf version (s\<lparr>kt_unknown_tagged_fields := u\<rparr>) = KTopicRecord_fields_wf version s"
  by (simp_all add: KTopicRecord_fields_wf_def)

lemma topic_record_yields:
  assumes r: "version_in KTopicRecord_MIN_VERSION KTopicRecord_MAX_VERSION version"
  shows "yields 1 (KTopicRecord_decode version) (KTopicRecord_wf version)"
proof -
  have v: "0 \<le>s version"
    using r by (simp add: topic_record_versions)
  have d: "KTopicRecord_fields_wf version KTopicRecord_default"
    by (simp add: KTopicRecord_default_def v topic_record_fields)
  show ?thesis
    unfolding KTopicRecord_decode_def Let_def
    by (rule yields_checked, (rule topic_record_steps[OF v refl, THEN yields_step], (rule d | assumption))+, rule yields_trailer[OF _ arms_keep_Nil[of "KTopicRecord_fields_wf version" "\<lambda>_. 0"]])
      (simp_all add: v d topic_record_unknown KTopicRecord_wf_def trailer_ok_def r KTopicRecord_is_flexible_def KTopicRecord_FLEXIBLE_MIN_def)
qed

interpretation topic_record: message_codec
  KTopicRecord_encode KTopicRecord_decode KTopicRecord_encoded_len "KTopicRecord_wf version" version
  for version
proof
  fix x
  assume w: "KTopicRecord_wf version x"
  then have v: "0 \<le>s version"
    by (simp add: KTopicRecord_wf_def topic_record_versions)
  show "carries (KTopicRecord_encode x version) (KTopicRecord_decode version) (KTopicRecord_encoded_len x version) x"
    unfolding KTopicRecord_encode_def KTopicRecord_encoded_len_def KTopicRecord_decode_def Let_def
    by (use w[unfolded KTopicRecord_wf_def KTopicRecord_fields_wf_def Let_def] in \<open>elim conjE\<close>, rule carries_cong_len)
      ((rule carries_rules | (erule absent_guarded, assumption) | erule absent_plain
        | simp add: v field_ok_def KTopicRecord_default_def topic_record_versions)+)
next
  show "yields 1 (KTopicRecord_decode version) (KTopicRecord_wf version)"
    by (rule case_split[OF topic_record_yields]) (auto simp: KTopicRecord_decode_def Let_def yields_refused)
  show "extends_input (KTopicRecord_decode version)"
    unfolding KTopicRecord_decode_def Let_def by (intro extends_rules)
qed

section \<open>PartitionRecord\<close>

definition KPartitionRecord_MIN_VERSION :: i16 where
  "KPartitionRecord_MIN_VERSION = 0"

definition KPartitionRecord_MAX_VERSION :: i16 where
  "KPartitionRecord_MAX_VERSION = 2"

definition KPartitionRecord_FLEXIBLE_MIN :: i16 where
  "KPartitionRecord_FLEXIBLE_MIN = 0"

definition KPartitionRecord_is_flexible :: "i16 \<Rightarrow> bool" where
  "KPartitionRecord_is_flexible version \<longleftrightarrow> KPartitionRecord_FLEXIBLE_MIN \<le>s version"

definition KPartitionRecord_encode_field_0 :: "KPartitionRecord \<Rightarrow> i16 \<Rightarrow> bool \<Rightarrow> encoder" where
  "KPartitionRecord_encode_field_0 x version flex = put_when (0 \<le>s version) (put_i32 (kp_partition_id x))"

definition KPartitionRecord_encode_field_1 :: "KPartitionRecord \<Rightarrow> i16 \<Rightarrow> bool \<Rightarrow> encoder" where
  "KPartitionRecord_encode_field_1 x version flex = put_when (0 \<le>s version) (put_uuid (kp_topic_id x))"

definition KPartitionRecord_encode_field_2 :: "KPartitionRecord \<Rightarrow> i16 \<Rightarrow> bool \<Rightarrow> encoder" where
  "KPartitionRecord_encode_field_2 x version flex = put_when (0 \<le>s version) (put_array flex put_i32 (kp_replicas x))"

definition KPartitionRecord_encode_field_3 :: "KPartitionRecord \<Rightarrow> i16 \<Rightarrow> bool \<Rightarrow> encoder" where
  "KPartitionRecord_encode_field_3 x version flex = put_when (0 \<le>s version) (put_array flex put_i32 (kp_isr x))"

definition KPartitionRecord_encode_field_4 :: "KPartitionRecord \<Rightarrow> i16 \<Rightarrow> bool \<Rightarrow> encoder" where
  "KPartitionRecord_encode_field_4 x version flex = put_when (0 \<le>s version) (put_array flex put_i32 (kp_removing_replicas x))"

definition KPartitionRecord_encode_field_5 :: "KPartitionRecord \<Rightarrow> i16 \<Rightarrow> bool \<Rightarrow> encoder" where
  "KPartitionRecord_encode_field_5 x version flex = put_when (0 \<le>s version) (put_array flex put_i32 (kp_adding_replicas x))"

definition KPartitionRecord_encode_field_6 :: "KPartitionRecord \<Rightarrow> i16 \<Rightarrow> bool \<Rightarrow> encoder" where
  "KPartitionRecord_encode_field_6 x version flex = put_when (0 \<le>s version) (put_i32 (kp_leader x))"

definition KPartitionRecord_encode_field_7 :: "KPartitionRecord \<Rightarrow> i16 \<Rightarrow> bool \<Rightarrow> encoder" where
  "KPartitionRecord_encode_field_7 x version flex = put_when (0 \<le>s version) (put_i32 (kp_leader_epoch x))"

definition KPartitionRecord_encode_field_8 :: "KPartitionRecord \<Rightarrow> i16 \<Rightarrow> bool \<Rightarrow> encoder" where
  "KPartitionRecord_encode_field_8 x version flex = put_when (0 \<le>s version) (put_i32 (kp_partition_epoch x))"

definition KPartitionRecord_encode_field_9 :: "KPartitionRecord \<Rightarrow> i16 \<Rightarrow> bool \<Rightarrow> encoder" where
  "KPartitionRecord_encode_field_9 x version flex = put_when (1 \<le>s version) (put_array flex put_uuid (kp_directories x))"

definition KPartitionRecord_encode_tagged_fields :: "KPartitionRecord \<Rightarrow> i16 \<Rightarrow> bool \<Rightarrow> encoder" where
  "KPartitionRecord_encode_tagged_fields x version flex =
     put_when flex (put_tagged
       [(0, kp_leader_recovery_state x \<noteq> 0, 1, put_i8 (kp_leader_recovery_state x)),
        (1, 2 \<le>s version \<and> kp_eligible_leader_replicas x \<noteq> None, (nullable_array_size flex (\<lambda>_. 4) (kp_eligible_leader_replicas x)), put_nullable_array flex put_i32 (kp_eligible_leader_replicas x)),
        (2, 2 \<le>s version \<and> kp_last_known_elr x \<noteq> None, (nullable_array_size flex (\<lambda>_. 4) (kp_last_known_elr x)), put_nullable_array flex put_i32 (kp_last_known_elr x))]
       (kp_unknown_tagged_fields x))"

definition KPartitionRecord_encode :: "KPartitionRecord \<Rightarrow> i16 \<Rightarrow> encoder" where
  "KPartitionRecord_encode x version =
     (let flex = KPartitionRecord_is_flexible version in
      write_all
        [write_check (contains_version KPartitionRecord_MIN_VERSION KPartitionRecord_MAX_VERSION ''PartitionRecord version out of range'' version),
         KPartitionRecord_encode_field_0 x version flex,
         KPartitionRecord_encode_field_1 x version flex,
         KPartitionRecord_encode_field_2 x version flex,
         KPartitionRecord_encode_field_3 x version flex,
         KPartitionRecord_encode_field_4 x version flex,
         KPartitionRecord_encode_field_5 x version flex,
         KPartitionRecord_encode_field_6 x version flex,
         KPartitionRecord_encode_field_7 x version flex,
         KPartitionRecord_encode_field_8 x version flex,
         KPartitionRecord_encode_field_9 x version flex,
         KPartitionRecord_encode_tagged_fields x version flex])"

definition KPartitionRecord_encoded_len :: "KPartitionRecord \<Rightarrow> i16 \<Rightarrow> nat" where
  "KPartitionRecord_encoded_len x version =
     (let flex = KPartitionRecord_is_flexible version in
      len_when (0 \<le>s version) 4
      + len_when (0 \<le>s version) 16
      + len_when (0 \<le>s version) (array_size flex (\<lambda>_. 4) (kp_replicas x))
      + len_when (0 \<le>s version) (array_size flex (\<lambda>_. 4) (kp_isr x))
      + len_when (0 \<le>s version) (array_size flex (\<lambda>_. 4) (kp_removing_replicas x))
      + len_when (0 \<le>s version) (array_size flex (\<lambda>_. 4) (kp_adding_replicas x))
      + len_when (0 \<le>s version) 4
      + len_when (0 \<le>s version) 4
      + len_when (0 \<le>s version) 4
      + len_when (1 \<le>s version) (array_size flex (\<lambda>_. 16) (kp_directories x))
      + len_when flex (tagged_size [(0, kp_leader_recovery_state x \<noteq> 0, 1),
                               (1, 2 \<le>s version \<and> kp_eligible_leader_replicas x \<noteq> None, (nullable_array_size flex (\<lambda>_. 4) (kp_eligible_leader_replicas x))),
                               (2, 2 \<le>s version \<and> kp_last_known_elr x \<noteq> None, (nullable_array_size flex (\<lambda>_. 4) (kp_last_known_elr x)))] (kp_unknown_tagged_fields x)))"

definition KPartitionRecord_decode_field_0 :: "KPartitionRecord \<Rightarrow> i16 \<Rightarrow> bool \<Rightarrow> KPartitionRecord decoder" where
  "KPartitionRecord_decode_field_0 out version flex = get_into (0 \<le>s version) get_i32 (\<lambda>v out. out\<lparr>kp_partition_id := v\<rparr>) out"

definition KPartitionRecord_decode_field_1 :: "KPartitionRecord \<Rightarrow> i16 \<Rightarrow> bool \<Rightarrow> KPartitionRecord decoder" where
  "KPartitionRecord_decode_field_1 out version flex = get_into (0 \<le>s version) get_uuid (\<lambda>v out. out\<lparr>kp_topic_id := v\<rparr>) out"

definition KPartitionRecord_decode_field_2 :: "KPartitionRecord \<Rightarrow> i16 \<Rightarrow> bool \<Rightarrow> KPartitionRecord decoder" where
  "KPartitionRecord_decode_field_2 out version flex = get_into (0 \<le>s version) (get_array flex get_i32) (\<lambda>v out. out\<lparr>kp_replicas := v\<rparr>) out"

definition KPartitionRecord_decode_field_3 :: "KPartitionRecord \<Rightarrow> i16 \<Rightarrow> bool \<Rightarrow> KPartitionRecord decoder" where
  "KPartitionRecord_decode_field_3 out version flex = get_into (0 \<le>s version) (get_array flex get_i32) (\<lambda>v out. out\<lparr>kp_isr := v\<rparr>) out"

definition KPartitionRecord_decode_field_4 :: "KPartitionRecord \<Rightarrow> i16 \<Rightarrow> bool \<Rightarrow> KPartitionRecord decoder" where
  "KPartitionRecord_decode_field_4 out version flex = get_into (0 \<le>s version) (get_array flex get_i32) (\<lambda>v out. out\<lparr>kp_removing_replicas := v\<rparr>) out"

definition KPartitionRecord_decode_field_5 :: "KPartitionRecord \<Rightarrow> i16 \<Rightarrow> bool \<Rightarrow> KPartitionRecord decoder" where
  "KPartitionRecord_decode_field_5 out version flex = get_into (0 \<le>s version) (get_array flex get_i32) (\<lambda>v out. out\<lparr>kp_adding_replicas := v\<rparr>) out"

definition KPartitionRecord_decode_field_6 :: "KPartitionRecord \<Rightarrow> i16 \<Rightarrow> bool \<Rightarrow> KPartitionRecord decoder" where
  "KPartitionRecord_decode_field_6 out version flex = get_into (0 \<le>s version) get_i32 (\<lambda>v out. out\<lparr>kp_leader := v\<rparr>) out"

definition KPartitionRecord_decode_field_7 :: "KPartitionRecord \<Rightarrow> i16 \<Rightarrow> bool \<Rightarrow> KPartitionRecord decoder" where
  "KPartitionRecord_decode_field_7 out version flex = get_into (0 \<le>s version) get_i32 (\<lambda>v out. out\<lparr>kp_leader_epoch := v\<rparr>) out"

definition KPartitionRecord_decode_field_8 :: "KPartitionRecord \<Rightarrow> i16 \<Rightarrow> bool \<Rightarrow> KPartitionRecord decoder" where
  "KPartitionRecord_decode_field_8 out version flex = get_into (0 \<le>s version) get_i32 (\<lambda>v out. out\<lparr>kp_partition_epoch := v\<rparr>) out"

definition KPartitionRecord_decode_field_9 :: "KPartitionRecord \<Rightarrow> i16 \<Rightarrow> bool \<Rightarrow> KPartitionRecord decoder" where
  "KPartitionRecord_decode_field_9 out version flex = get_into (1 \<le>s version) (get_array flex get_uuid) (\<lambda>v out. out\<lparr>kp_directories := v\<rparr>) out"

definition KPartitionRecord_decode_tagged_fields :: "KPartitionRecord \<Rightarrow> i16 \<Rightarrow> bool \<Rightarrow> KPartitionRecord decoder" where
  "KPartitionRecord_decode_tagged_fields out version flex =
     get_trailer flex
       [(0, tag_into get_i8 (\<lambda>v out. out\<lparr>kp_leader_recovery_state := v\<rparr>)),
        (1, tag_from 1 (2 \<le>s version) version (tag_into (get_nullable_array flex get_i32) (\<lambda>v out. out\<lparr>kp_eligible_leader_replicas := v\<rparr>))),
        (2, tag_from 2 (2 \<le>s version) version (tag_into (get_nullable_array flex get_i32) (\<lambda>v out. out\<lparr>kp_last_known_elr := v\<rparr>)))]
       (\<lambda>u out. out\<lparr>kp_unknown_tagged_fields := u\<rparr>) out"

definition KPartitionRecord_decode :: "i16 \<Rightarrow> KPartitionRecord decoder" where
  "KPartitionRecord_decode version =
     (let flex = KPartitionRecord_is_flexible version in
      checked (contains_version KPartitionRecord_MIN_VERSION KPartitionRecord_MAX_VERSION ''PartitionRecord version out of range'' version) (
        read_then (KPartitionRecord_decode_field_0 KPartitionRecord_default version flex) (\<lambda>out.
        read_then (KPartitionRecord_decode_field_1 out version flex) (\<lambda>out.
        read_then (KPartitionRecord_decode_field_2 out version flex) (\<lambda>out.
        read_then (KPartitionRecord_decode_field_3 out version flex) (\<lambda>out.
        read_then (KPartitionRecord_decode_field_4 out version flex) (\<lambda>out.
        read_then (KPartitionRecord_decode_field_5 out version flex) (\<lambda>out.
        read_then (KPartitionRecord_decode_field_6 out version flex) (\<lambda>out.
        read_then (KPartitionRecord_decode_field_7 out version flex) (\<lambda>out.
        read_then (KPartitionRecord_decode_field_8 out version flex) (\<lambda>out.
        read_then (KPartitionRecord_decode_field_9 out version flex) (\<lambda>out.
        KPartitionRecord_decode_tagged_fields out version flex))))))))))))"

definition KPartitionRecord_fields_wf :: "i16 \<Rightarrow> KPartitionRecord \<Rightarrow> bool" where
  "KPartitionRecord_fields_wf version x \<longleftrightarrow>
     (let flex = KPartitionRecord_is_flexible version in
      uuid_wf (kp_topic_id x)
      \<and> array_ok flex (\<lambda>_. True) (kp_replicas x)
      \<and> array_ok flex (\<lambda>_. True) (kp_isr x)
      \<and> array_ok flex (\<lambda>_. True) (kp_removing_replicas x)
      \<and> array_ok flex (\<lambda>_. True) (kp_adding_replicas x)
      \<and> field_ok (1 \<le>s version) [] (array_ok flex uuid_wf) (kp_directories x)
      \<and> field_ok (2 \<le>s version) None (\<lambda>v. pred_option (array_ok flex (\<lambda>_. True)) v \<and> nullable_array_size flex (\<lambda>_. 4) v < 2 ^ 32) (kp_eligible_leader_replicas x)
      \<and> field_ok (2 \<le>s version) None (\<lambda>v. pred_option (array_ok flex (\<lambda>_. True)) v \<and> nullable_array_size flex (\<lambda>_. 4) v < 2 ^ 32) (kp_last_known_elr x))"

definition KPartitionRecord_present :: "i16 \<Rightarrow> KPartitionRecord \<Rightarrow> bool list" where
  "KPartitionRecord_present version x =
     [kp_leader_recovery_state x \<noteq> 0,
      2 \<le>s version \<and> kp_eligible_leader_replicas x \<noteq> None,
      2 \<le>s version \<and> kp_last_known_elr x \<noteq> None]"

definition KPartitionRecord_wf :: "i16 \<Rightarrow> KPartitionRecord \<Rightarrow> bool" where
  "KPartitionRecord_wf version x \<longleftrightarrow>
     version_in KPartitionRecord_MIN_VERSION KPartitionRecord_MAX_VERSION version \<and> KPartitionRecord_fields_wf version x \<and> trailer_ok [0, 1, 2] (KPartitionRecord_present version x) (kp_unknown_tagged_fields x)"

abbreviation KPartitionRecord_read :: "i16 \<Rightarrow> KPartitionRecord \<Rightarrow> bool" where
  "KPartitionRecord_read version s \<equiv> KPartitionRecord_fields_wf version s \<and> present_count (KPartitionRecord_present version s) = 0"

lemmas partition_record_versions =
    KPartitionRecord_is_flexible_def KPartitionRecord_FLEXIBLE_MIN_def KPartitionRecord_MIN_VERSION_def
    KPartitionRecord_MAX_VERSION_def version_in_def

lemmas partition_record_fields =
    Let_def field_ok_def KPartitionRecord_fields_wf_def KPartitionRecord_present_def
    KPartitionRecord_is_flexible_def KPartitionRecord_FLEXIBLE_MIN_def

lemmas partition_record_writers =
    KPartitionRecord_encode_field_0_def KPartitionRecord_encode_field_1_def KPartitionRecord_encode_field_2_def
    KPartitionRecord_encode_field_3_def KPartitionRecord_encode_field_4_def KPartitionRecord_encode_field_5_def
    KPartitionRecord_encode_field_6_def KPartitionRecord_encode_field_7_def KPartitionRecord_encode_field_8_def
    KPartitionRecord_encode_field_9_def KPartitionRecord_encode_tagged_fields_def

lemmas partition_record_readers =
    KPartitionRecord_decode_field_0_def KPartitionRecord_decode_field_1_def KPartitionRecord_decode_field_2_def
    KPartitionRecord_decode_field_3_def KPartitionRecord_decode_field_4_def KPartitionRecord_decode_field_5_def
    KPartitionRecord_decode_field_6_def KPartitionRecord_decode_field_7_def KPartitionRecord_decode_field_8_def
    KPartitionRecord_decode_field_9_def KPartitionRecord_decode_tagged_fields_def

lemma partition_record_steps:
  assumes v: "0 \<le>s version" and flex: "flex = (KPartitionRecord_is_flexible version)"
  shows "keeps (KPartitionRecord_read version) (\<lambda>out. KPartitionRecord_decode_field_0 out version flex)"
    and "keeps (KPartitionRecord_read version) (\<lambda>out. KPartitionRecord_decode_field_1 out version flex)"
    and "keeps (KPartitionRecord_read version) (\<lambda>out. KPartitionRecord_decode_field_2 out version flex)"
    and "keeps (KPartitionRecord_read version) (\<lambda>out. KPartitionRecord_decode_field_3 out version flex)"
    and "keeps (KPartitionRecord_read version) (\<lambda>out. KPartitionRecord_decode_field_4 out version flex)"
    and "keeps (KPartitionRecord_read version) (\<lambda>out. KPartitionRecord_decode_field_5 out version flex)"
    and "keeps (KPartitionRecord_read version) (\<lambda>out. KPartitionRecord_decode_field_6 out version flex)"
    and "keeps (KPartitionRecord_read version) (\<lambda>out. KPartitionRecord_decode_field_7 out version flex)"
    and "keeps (KPartitionRecord_read version) (\<lambda>out. KPartitionRecord_decode_field_8 out version flex)"
    and "keeps (KPartitionRecord_read version) (\<lambda>out. KPartitionRecord_decode_field_9 out version flex)"
  unfolding flex partition_record_readers
  by (rule keeps_into; (rule yields_rules)?; simp add: v partition_record_fields)+

lemma partition_record_arms:
  assumes v: "0 \<le>s version" and flex: "flex = (KPartitionRecord_is_flexible version)"
  shows "arms_keep (KPartitionRecord_fields_wf version) (\<lambda>s. present_count (KPartitionRecord_present version s))
    [(0, tag_into get_i8 (\<lambda>v out. out\<lparr>kp_leader_recovery_state := v\<rparr>)),
     (1, tag_from 1 (2 \<le>s version) version (tag_into (get_nullable_array flex get_i32) (\<lambda>v out. out\<lparr>kp_eligible_leader_replicas := v\<rparr>))),
     (2, tag_from 2 (2 \<le>s version) version (tag_into (get_nullable_array flex get_i32) (\<lambda>v out. out\<lparr>kp_last_known_elr := v\<rparr>)))]"
  unfolding flex
  by ((rule arms_keep_Nil arms_keep_Cons accepts_from accepts_into accepts_rules)
    | simp add: v partition_record_fields)+

lemma partition_record_unknown:
  "KPartitionRecord_fields_wf version (s\<lparr>kp_unknown_tagged_fields := u\<rparr>) = KPartitionRecord_fields_wf version s"
  "KPartitionRecord_present version (s\<lparr>kp_unknown_tagged_fields := u\<rparr>) = KPartitionRecord_present version s"
  by (simp_all add: KPartitionRecord_fields_wf_def KPartitionRecord_present_def)

lemma partition_record_yields:
  assumes r: "version_in KPartitionRecord_MIN_VERSION KPartitionRecord_MAX_VERSION version"
  shows "yields 1 (KPartitionRecord_decode version) (KPartitionRecord_wf version)"
proof -
  have v: "0 \<le>s version"
    using r by (simp add: partition_record_versions)
  have d: "KPartitionRecord_fields_wf version KPartitionRecord_default \<and> present_count (KPartitionRecord_present version KPartitionRecord_default) = 0"
    by (simp add: KPartitionRecord_default_def v partition_record_fields)
  show ?thesis
    unfolding KPartitionRecord_decode_def Let_def KPartitionRecord_decode_tagged_fields_def
    by (rule yields_checked, (rule partition_record_steps[OF v refl, THEN yields_step], (rule d | assumption))+, rule yields_trailer[OF _ partition_record_arms[OF v refl]])
      (simp_all add: v d partition_record_unknown KPartitionRecord_wf_def trailer_ok_def r KPartitionRecord_is_flexible_def KPartitionRecord_FLEXIBLE_MIN_def)
qed

interpretation partition_record: message_codec
  KPartitionRecord_encode KPartitionRecord_decode KPartitionRecord_encoded_len "KPartitionRecord_wf version" version
  for version
proof
  fix x
  assume w: "KPartitionRecord_wf version x"
  then have v: "0 \<le>s version"
    by (simp add: KPartitionRecord_wf_def partition_record_versions)
  show "carries (KPartitionRecord_encode x version) (KPartitionRecord_decode version) (KPartitionRecord_encoded_len x version) x"
    unfolding KPartitionRecord_encode_def partition_record_writers KPartitionRecord_encoded_len_def KPartitionRecord_decode_def partition_record_readers Let_def
    by (use w[unfolded KPartitionRecord_wf_def KPartitionRecord_fields_wf_def KPartitionRecord_present_def Let_def] in \<open>elim conjE\<close>, rule carries_cong_len)
      ((rule carries_rules | (erule absent_guarded, assumption) | erule absent_plain
        | simp add: v field_ok_def KPartitionRecord_default_def partition_record_versions)+)
next
  show "yields 1 (KPartitionRecord_decode version) (KPartitionRecord_wf version)"
    by (rule case_split[OF partition_record_yields]) (auto simp: KPartitionRecord_decode_def Let_def yields_refused)
  show "extends_input (KPartitionRecord_decode version)"
    unfolding KPartitionRecord_decode_def Let_def partition_record_readers by (intro extends_rules)
qed

section \<open>PartitionChangeRecord\<close>

definition KPartitionChangeRecord_MIN_VERSION :: i16 where
  "KPartitionChangeRecord_MIN_VERSION = 0"

definition KPartitionChangeRecord_MAX_VERSION :: i16 where
  "KPartitionChangeRecord_MAX_VERSION = 2"

definition KPartitionChangeRecord_FLEXIBLE_MIN :: i16 where
  "KPartitionChangeRecord_FLEXIBLE_MIN = 0"

definition KPartitionChangeRecord_is_flexible :: "i16 \<Rightarrow> bool" where
  "KPartitionChangeRecord_is_flexible version \<longleftrightarrow> KPartitionChangeRecord_FLEXIBLE_MIN \<le>s version"

definition KPartitionChangeRecord_encode_field_0 :: "KPartitionChangeRecord \<Rightarrow> i16 \<Rightarrow> bool \<Rightarrow> encoder" where
  "KPartitionChangeRecord_encode_field_0 x version flex = put_when (0 \<le>s version) (put_i32 (kpc_partition_id x))"

definition KPartitionChangeRecord_encode_field_1 :: "KPartitionChangeRecord \<Rightarrow> i16 \<Rightarrow> bool \<Rightarrow> encoder" where
  "KPartitionChangeRecord_encode_field_1 x version flex = put_when (0 \<le>s version) (put_uuid (kpc_topic_id x))"

definition KPartitionChangeRecord_encode_tagged_fields :: "KPartitionChangeRecord \<Rightarrow> i16 \<Rightarrow> bool \<Rightarrow> encoder" where
  "KPartitionChangeRecord_encode_tagged_fields x version flex =
     put_when flex (put_tagged
       [(0, kpc_isr x \<noteq> None, (nullable_array_size flex (\<lambda>_. 4) (kpc_isr x)), put_nullable_array flex put_i32 (kpc_isr x)),
        (1, kpc_leader x \<noteq> - 2, 4, put_i32 (kpc_leader x)),
        (2, kpc_replicas x \<noteq> None, (nullable_array_size flex (\<lambda>_. 4) (kpc_replicas x)), put_nullable_array flex put_i32 (kpc_replicas x)),
        (3, kpc_removing_replicas x \<noteq> None, (nullable_array_size flex (\<lambda>_. 4) (kpc_removing_replicas x)), put_nullable_array flex put_i32 (kpc_removing_replicas x)),
        (4, kpc_adding_replicas x \<noteq> None, (nullable_array_size flex (\<lambda>_. 4) (kpc_adding_replicas x)), put_nullable_array flex put_i32 (kpc_adding_replicas x)),
        (5, kpc_leader_recovery_state x \<noteq> - 1, 1, put_i8 (kpc_leader_recovery_state x)),
        (8, 1 \<le>s version \<and> kpc_directories x \<noteq> None, (nullable_array_size flex (\<lambda>_. 16) (kpc_directories x)), put_nullable_array flex put_uuid (kpc_directories x)),
        (6, 2 \<le>s version \<and> kpc_eligible_leader_replicas x \<noteq> None, (nullable_array_size flex (\<lambda>_. 4) (kpc_eligible_leader_replicas x)), put_nullable_array flex put_i32 (kpc_eligible_leader_replicas x)),
        (7, 2 \<le>s version \<and> kpc_last_known_elr x \<noteq> None, (nullable_array_size flex (\<lambda>_. 4) (kpc_last_known_elr x)), put_nullable_array flex put_i32 (kpc_last_known_elr x))]
       (kpc_unknown_tagged_fields x))"

definition KPartitionChangeRecord_encode :: "KPartitionChangeRecord \<Rightarrow> i16 \<Rightarrow> encoder" where
  "KPartitionChangeRecord_encode x version =
     (let flex = KPartitionChangeRecord_is_flexible version in
      write_all
        [write_check (contains_version KPartitionChangeRecord_MIN_VERSION KPartitionChangeRecord_MAX_VERSION ''PartitionChangeRecord version out of range'' version),
         KPartitionChangeRecord_encode_field_0 x version flex,
         KPartitionChangeRecord_encode_field_1 x version flex,
         KPartitionChangeRecord_encode_tagged_fields x version flex])"

definition KPartitionChangeRecord_encoded_len :: "KPartitionChangeRecord \<Rightarrow> i16 \<Rightarrow> nat" where
  "KPartitionChangeRecord_encoded_len x version =
     (let flex = KPartitionChangeRecord_is_flexible version in
      len_when (0 \<le>s version) 4
      + len_when (0 \<le>s version) 16
      + len_when flex (tagged_size [(0, kpc_isr x \<noteq> None, (nullable_array_size flex (\<lambda>_. 4) (kpc_isr x))),
                               (1, kpc_leader x \<noteq> - 2, 4),
                               (2, kpc_replicas x \<noteq> None, (nullable_array_size flex (\<lambda>_. 4) (kpc_replicas x))),
                               (3, kpc_removing_replicas x \<noteq> None, (nullable_array_size flex (\<lambda>_. 4) (kpc_removing_replicas x))),
                               (4, kpc_adding_replicas x \<noteq> None, (nullable_array_size flex (\<lambda>_. 4) (kpc_adding_replicas x))),
                               (5, kpc_leader_recovery_state x \<noteq> - 1, 1),
                               (8, 1 \<le>s version \<and> kpc_directories x \<noteq> None, (nullable_array_size flex (\<lambda>_. 16) (kpc_directories x))),
                               (6, 2 \<le>s version \<and> kpc_eligible_leader_replicas x \<noteq> None, (nullable_array_size flex (\<lambda>_. 4) (kpc_eligible_leader_replicas x))),
                               (7, 2 \<le>s version \<and> kpc_last_known_elr x \<noteq> None, (nullable_array_size flex (\<lambda>_. 4) (kpc_last_known_elr x)))] (kpc_unknown_tagged_fields x)))"

definition KPartitionChangeRecord_decode_field_0 :: "KPartitionChangeRecord \<Rightarrow> i16 \<Rightarrow> bool \<Rightarrow> KPartitionChangeRecord decoder" where
  "KPartitionChangeRecord_decode_field_0 out version flex = get_into (0 \<le>s version) get_i32 (\<lambda>v out. out\<lparr>kpc_partition_id := v\<rparr>) out"

definition KPartitionChangeRecord_decode_field_1 :: "KPartitionChangeRecord \<Rightarrow> i16 \<Rightarrow> bool \<Rightarrow> KPartitionChangeRecord decoder" where
  "KPartitionChangeRecord_decode_field_1 out version flex = get_into (0 \<le>s version) get_uuid (\<lambda>v out. out\<lparr>kpc_topic_id := v\<rparr>) out"

definition KPartitionChangeRecord_decode_tagged_fields :: "KPartitionChangeRecord \<Rightarrow> i16 \<Rightarrow> bool \<Rightarrow> KPartitionChangeRecord decoder" where
  "KPartitionChangeRecord_decode_tagged_fields out version flex =
     get_trailer flex
       [(0, tag_into (get_nullable_array flex get_i32) (\<lambda>v out. out\<lparr>kpc_isr := v\<rparr>)),
        (1, tag_into get_i32 (\<lambda>v out. out\<lparr>kpc_leader := v\<rparr>)),
        (2, tag_into (get_nullable_array flex get_i32) (\<lambda>v out. out\<lparr>kpc_replicas := v\<rparr>)),
        (3, tag_into (get_nullable_array flex get_i32) (\<lambda>v out. out\<lparr>kpc_removing_replicas := v\<rparr>)),
        (4, tag_into (get_nullable_array flex get_i32) (\<lambda>v out. out\<lparr>kpc_adding_replicas := v\<rparr>)),
        (5, tag_into get_i8 (\<lambda>v out. out\<lparr>kpc_leader_recovery_state := v\<rparr>)),
        (8, tag_from 8 (1 \<le>s version) version (tag_into (get_nullable_array flex get_uuid) (\<lambda>v out. out\<lparr>kpc_directories := v\<rparr>))),
        (6, tag_from 6 (2 \<le>s version) version (tag_into (get_nullable_array flex get_i32) (\<lambda>v out. out\<lparr>kpc_eligible_leader_replicas := v\<rparr>))),
        (7, tag_from 7 (2 \<le>s version) version (tag_into (get_nullable_array flex get_i32) (\<lambda>v out. out\<lparr>kpc_last_known_elr := v\<rparr>)))]
       (\<lambda>u out. out\<lparr>kpc_unknown_tagged_fields := u\<rparr>) out"

definition KPartitionChangeRecord_decode :: "i16 \<Rightarrow> KPartitionChangeRecord decoder" where
  "KPartitionChangeRecord_decode version =
     (let flex = KPartitionChangeRecord_is_flexible version in
      checked (contains_version KPartitionChangeRecord_MIN_VERSION KPartitionChangeRecord_MAX_VERSION ''PartitionChangeRecord version out of range'' version) (
        read_then (KPartitionChangeRecord_decode_field_0 KPartitionChangeRecord_default version flex) (\<lambda>out.
        read_then (KPartitionChangeRecord_decode_field_1 out version flex) (\<lambda>out.
        KPartitionChangeRecord_decode_tagged_fields out version flex))))"

definition KPartitionChangeRecord_fields_wf :: "i16 \<Rightarrow> KPartitionChangeRecord \<Rightarrow> bool" where
  "KPartitionChangeRecord_fields_wf version x \<longleftrightarrow>
     (let flex = KPartitionChangeRecord_is_flexible version in
      uuid_wf (kpc_topic_id x)
      \<and> pred_option (array_ok flex (\<lambda>_. True)) (kpc_isr x)
      \<and> nullable_array_size flex (\<lambda>_. 4) (kpc_isr x) < 2 ^ 32
      \<and> pred_option (array_ok flex (\<lambda>_. True)) (kpc_replicas x)
      \<and> nullable_array_size flex (\<lambda>_. 4) (kpc_replicas x) < 2 ^ 32
      \<and> pred_option (array_ok flex (\<lambda>_. True)) (kpc_removing_replicas x)
      \<and> nullable_array_size flex (\<lambda>_. 4) (kpc_removing_replicas x) < 2 ^ 32
      \<and> pred_option (array_ok flex (\<lambda>_. True)) (kpc_adding_replicas x)
      \<and> nullable_array_size flex (\<lambda>_. 4) (kpc_adding_replicas x) < 2 ^ 32
      \<and> field_ok (1 \<le>s version) None (\<lambda>v. pred_option (array_ok flex uuid_wf) v \<and> nullable_array_size flex (\<lambda>_. 16) v < 2 ^ 32) (kpc_directories x)
      \<and> field_ok (2 \<le>s version) None (\<lambda>v. pred_option (array_ok flex (\<lambda>_. True)) v \<and> nullable_array_size flex (\<lambda>_. 4) v < 2 ^ 32) (kpc_eligible_leader_replicas x)
      \<and> field_ok (2 \<le>s version) None (\<lambda>v. pred_option (array_ok flex (\<lambda>_. True)) v \<and> nullable_array_size flex (\<lambda>_. 4) v < 2 ^ 32) (kpc_last_known_elr x))"

definition KPartitionChangeRecord_present :: "i16 \<Rightarrow> KPartitionChangeRecord \<Rightarrow> bool list" where
  "KPartitionChangeRecord_present version x =
     [kpc_isr x \<noteq> None,
      kpc_leader x \<noteq> - 2,
      kpc_replicas x \<noteq> None,
      kpc_removing_replicas x \<noteq> None,
      kpc_adding_replicas x \<noteq> None,
      kpc_leader_recovery_state x \<noteq> - 1,
      1 \<le>s version \<and> kpc_directories x \<noteq> None,
      2 \<le>s version \<and> kpc_eligible_leader_replicas x \<noteq> None,
      2 \<le>s version \<and> kpc_last_known_elr x \<noteq> None]"

definition KPartitionChangeRecord_wf :: "i16 \<Rightarrow> KPartitionChangeRecord \<Rightarrow> bool" where
  "KPartitionChangeRecord_wf version x \<longleftrightarrow>
     version_in KPartitionChangeRecord_MIN_VERSION KPartitionChangeRecord_MAX_VERSION version \<and> KPartitionChangeRecord_fields_wf version x \<and> trailer_ok [0, 1, 2, 3, 4, 5, 8, 6, 7] (KPartitionChangeRecord_present version x) (kpc_unknown_tagged_fields x)"

abbreviation KPartitionChangeRecord_read :: "i16 \<Rightarrow> KPartitionChangeRecord \<Rightarrow> bool" where
  "KPartitionChangeRecord_read version s \<equiv> KPartitionChangeRecord_fields_wf version s \<and> present_count (KPartitionChangeRecord_present version s) = 0"

lemmas partition_change_record_versions =
    KPartitionChangeRecord_is_flexible_def KPartitionChangeRecord_FLEXIBLE_MIN_def
    KPartitionChangeRecord_MIN_VERSION_def KPartitionChangeRecord_MAX_VERSION_def version_in_def

lemmas partition_change_record_fields =
    Let_def field_ok_def KPartitionChangeRecord_fields_wf_def KPartitionChangeRecord_present_def
    KPartitionChangeRecord_is_flexible_def KPartitionChangeRecord_FLEXIBLE_MIN_def

lemmas partition_change_record_writers =
    KPartitionChangeRecord_encode_field_0_def KPartitionChangeRecord_encode_field_1_def
    KPartitionChangeRecord_encode_tagged_fields_def

lemmas partition_change_record_readers =
    KPartitionChangeRecord_decode_field_0_def KPartitionChangeRecord_decode_field_1_def
    KPartitionChangeRecord_decode_tagged_fields_def

lemma partition_change_record_steps:
  assumes v: "0 \<le>s version" and flex: "flex = (KPartitionChangeRecord_is_flexible version)"
  shows "keeps (KPartitionChangeRecord_read version) (\<lambda>out. KPartitionChangeRecord_decode_field_0 out version flex)"
    and "keeps (KPartitionChangeRecord_read version) (\<lambda>out. KPartitionChangeRecord_decode_field_1 out version flex)"
  unfolding flex partition_change_record_readers
  by (rule keeps_into; (rule yields_rules)?; simp add: v partition_change_record_fields)+

lemma partition_change_record_arms:
  assumes v: "0 \<le>s version" and flex: "flex = (KPartitionChangeRecord_is_flexible version)"
  shows "arms_keep (KPartitionChangeRecord_fields_wf version) (\<lambda>s. present_count (KPartitionChangeRecord_present version s))
    [(0, tag_into (get_nullable_array flex get_i32) (\<lambda>v out. out\<lparr>kpc_isr := v\<rparr>)),
     (1, tag_into get_i32 (\<lambda>v out. out\<lparr>kpc_leader := v\<rparr>)),
     (2, tag_into (get_nullable_array flex get_i32) (\<lambda>v out. out\<lparr>kpc_replicas := v\<rparr>)),
     (3, tag_into (get_nullable_array flex get_i32) (\<lambda>v out. out\<lparr>kpc_removing_replicas := v\<rparr>)),
     (4, tag_into (get_nullable_array flex get_i32) (\<lambda>v out. out\<lparr>kpc_adding_replicas := v\<rparr>)),
     (5, tag_into get_i8 (\<lambda>v out. out\<lparr>kpc_leader_recovery_state := v\<rparr>)),
     (8, tag_from 8 (1 \<le>s version) version (tag_into (get_nullable_array flex get_uuid) (\<lambda>v out. out\<lparr>kpc_directories := v\<rparr>))),
     (6, tag_from 6 (2 \<le>s version) version (tag_into (get_nullable_array flex get_i32) (\<lambda>v out. out\<lparr>kpc_eligible_leader_replicas := v\<rparr>))),
     (7, tag_from 7 (2 \<le>s version) version (tag_into (get_nullable_array flex get_i32) (\<lambda>v out. out\<lparr>kpc_last_known_elr := v\<rparr>)))]"
  unfolding flex
  by ((rule arms_keep_Nil arms_keep_Cons accepts_from accepts_into accepts_rules)
    | simp add: v partition_change_record_fields)+

lemma partition_change_record_unknown:
  "KPartitionChangeRecord_fields_wf version (s\<lparr>kpc_unknown_tagged_fields := u\<rparr>) = KPartitionChangeRecord_fields_wf version s"
  "KPartitionChangeRecord_present version (s\<lparr>kpc_unknown_tagged_fields := u\<rparr>) = KPartitionChangeRecord_present version s"
  by (simp_all add: KPartitionChangeRecord_fields_wf_def KPartitionChangeRecord_present_def)

lemma partition_change_record_yields:
  assumes r: "version_in KPartitionChangeRecord_MIN_VERSION KPartitionChangeRecord_MAX_VERSION version"
  shows "yields 1 (KPartitionChangeRecord_decode version) (KPartitionChangeRecord_wf version)"
proof -
  have v: "0 \<le>s version"
    using r by (simp add: partition_change_record_versions)
  have d: "KPartitionChangeRecord_fields_wf version KPartitionChangeRecord_default \<and> present_count (KPartitionChangeRecord_present version KPartitionChangeRecord_default) = 0"
    by (simp add: KPartitionChangeRecord_default_def v partition_change_record_fields)
  show ?thesis
    unfolding KPartitionChangeRecord_decode_def Let_def KPartitionChangeRecord_decode_tagged_fields_def
    by (rule yields_checked, (rule partition_change_record_steps[OF v refl, THEN yields_step], (rule d | assumption))+, rule yields_trailer[OF _ partition_change_record_arms[OF v refl]])
      (simp_all add: v d partition_change_record_unknown KPartitionChangeRecord_wf_def trailer_ok_def r KPartitionChangeRecord_is_flexible_def KPartitionChangeRecord_FLEXIBLE_MIN_def)
qed

lemma partition_change_record_sorted:
  "sort_key fst [(0, c0, n0, w0), (1, c1, n1, w1), (2, c2, n2, w2), (3, c3, n3, w3), (4, c4, n4, w4), (5, c5, n5, w5), (8, c8, n8, w8), (6, c6, n6, w6), (7, c7, n7, w7)]
   = ([(0, c0, n0, w0), (1, c1, n1, w1), (2, c2, n2, w2), (3, c3, n3, w3), (4, c4, n4, w4), (5, c5, n5, w5), (6, c6, n6, w6), (7, c7, n7, w7), (8, c8, n8, w8)] :: tagged_field list)"
  "sort_key fst [(0, a0), (1, a1), (2, a2), (3, a3), (4, a4), (5, a5), (8, a8), (6, a6), (7, a7)]
   = ([(0, a0), (1, a1), (2, a2), (3, a3), (4, a4), (5, a5), (6, a6), (7, a7), (8, a8)] :: KPartitionChangeRecord tag_arms)"
  by simp_all

interpretation partition_change_record: message_codec
  KPartitionChangeRecord_encode KPartitionChangeRecord_decode KPartitionChangeRecord_encoded_len "KPartitionChangeRecord_wf version" version
  for version
proof
  fix x
  assume w: "KPartitionChangeRecord_wf version x"
  then have v: "0 \<le>s version"
    by (simp add: KPartitionChangeRecord_wf_def partition_change_record_versions)
  show "carries (KPartitionChangeRecord_encode x version) (KPartitionChangeRecord_decode version) (KPartitionChangeRecord_encoded_len x version) x"
    unfolding KPartitionChangeRecord_encode_def partition_change_record_writers KPartitionChangeRecord_encoded_len_def KPartitionChangeRecord_decode_def partition_change_record_readers Let_def
    by (use w[unfolded KPartitionChangeRecord_wf_def KPartitionChangeRecord_fields_wf_def KPartitionChangeRecord_present_def Let_def] in \<open>elim conjE\<close>, rule carries_cong_len)
      ((rule carries_trailer_sort[OF partition_change_record_sorted] carries_rules | (erule absent_guarded, assumption) | erule absent_plain
        | simp add: v field_ok_def KPartitionChangeRecord_default_def partition_change_record_versions)+)
next
  show "yields 1 (KPartitionChangeRecord_decode version) (KPartitionChangeRecord_wf version)"
    by (rule case_split[OF partition_change_record_yields]) (auto simp: KPartitionChangeRecord_decode_def Let_def yields_refused)
  show "extends_input (KPartitionChangeRecord_decode version)"
    unfolding KPartitionChangeRecord_decode_def Let_def partition_change_record_readers by (intro extends_rules)
qed

section \<open>RemoveTopicRecord\<close>

definition KRemoveTopicRecord_MIN_VERSION :: i16 where
  "KRemoveTopicRecord_MIN_VERSION = 0"

definition KRemoveTopicRecord_MAX_VERSION :: i16 where
  "KRemoveTopicRecord_MAX_VERSION = 0"

definition KRemoveTopicRecord_FLEXIBLE_MIN :: i16 where
  "KRemoveTopicRecord_FLEXIBLE_MIN = 0"

definition KRemoveTopicRecord_is_flexible :: "i16 \<Rightarrow> bool" where
  "KRemoveTopicRecord_is_flexible version \<longleftrightarrow> KRemoveTopicRecord_FLEXIBLE_MIN \<le>s version"

definition KRemoveTopicRecord_encode :: "KRemoveTopicRecord \<Rightarrow> i16 \<Rightarrow> encoder" where
  "KRemoveTopicRecord_encode x version =
     (let flex = KRemoveTopicRecord_is_flexible version in
      write_all
        [write_check (contains_version KRemoveTopicRecord_MIN_VERSION KRemoveTopicRecord_MAX_VERSION ''RemoveTopicRecord version out of range'' version),
         put_when (0 \<le>s version) (put_uuid (krt_topic_id x)),
         put_when flex (put_tagged [] (krt_unknown_tagged_fields x))])"

definition KRemoveTopicRecord_encoded_len :: "KRemoveTopicRecord \<Rightarrow> i16 \<Rightarrow> nat" where
  "KRemoveTopicRecord_encoded_len x version =
     (let flex = KRemoveTopicRecord_is_flexible version in
      len_when (0 \<le>s version) 16
      + len_when flex (tagged_size [] (krt_unknown_tagged_fields x)))"

definition KRemoveTopicRecord_decode :: "i16 \<Rightarrow> KRemoveTopicRecord decoder" where
  "KRemoveTopicRecord_decode version =
     (let flex = KRemoveTopicRecord_is_flexible version in
      checked (contains_version KRemoveTopicRecord_MIN_VERSION KRemoveTopicRecord_MAX_VERSION ''RemoveTopicRecord version out of range'' version) (
        read_then (get_into (0 \<le>s version) get_uuid (\<lambda>v out. out\<lparr>krt_topic_id := v\<rparr>) KRemoveTopicRecord_default) (\<lambda>out.
        get_trailer flex [] (\<lambda>u out. out\<lparr>krt_unknown_tagged_fields := u\<rparr>) out)))"

definition KRemoveTopicRecord_fields_wf :: "i16 \<Rightarrow> KRemoveTopicRecord \<Rightarrow> bool" where
  "KRemoveTopicRecord_fields_wf version x \<longleftrightarrow>
     uuid_wf (krt_topic_id x)"

definition KRemoveTopicRecord_wf :: "i16 \<Rightarrow> KRemoveTopicRecord \<Rightarrow> bool" where
  "KRemoveTopicRecord_wf version x \<longleftrightarrow>
     version_in KRemoveTopicRecord_MIN_VERSION KRemoveTopicRecord_MAX_VERSION version \<and> KRemoveTopicRecord_fields_wf version x \<and> trailer_ok [] [] (krt_unknown_tagged_fields x)"

lemmas remove_topic_record_versions =
    KRemoveTopicRecord_is_flexible_def KRemoveTopicRecord_FLEXIBLE_MIN_def KRemoveTopicRecord_MIN_VERSION_def
    KRemoveTopicRecord_MAX_VERSION_def version_in_def

lemmas remove_topic_record_fields =
    Let_def field_ok_def KRemoveTopicRecord_fields_wf_def KRemoveTopicRecord_is_flexible_def
    KRemoveTopicRecord_FLEXIBLE_MIN_def

lemma remove_topic_record_steps:
  assumes v: "0 \<le>s version" and flex: "flex = (KRemoveTopicRecord_is_flexible version)"
  shows "keeps (KRemoveTopicRecord_fields_wf version) (get_into (0 \<le>s version) get_uuid (\<lambda>v out. out\<lparr>krt_topic_id := v\<rparr>))"
  unfolding flex 
  by (rule keeps_into; (rule yields_rules)?; simp add: v remove_topic_record_fields)+

lemma remove_topic_record_unknown:
  "KRemoveTopicRecord_fields_wf version (s\<lparr>krt_unknown_tagged_fields := u\<rparr>) = KRemoveTopicRecord_fields_wf version s"
  by (simp_all add: KRemoveTopicRecord_fields_wf_def)

lemma remove_topic_record_yields:
  assumes r: "version_in KRemoveTopicRecord_MIN_VERSION KRemoveTopicRecord_MAX_VERSION version"
  shows "yields 1 (KRemoveTopicRecord_decode version) (KRemoveTopicRecord_wf version)"
proof -
  have v: "0 \<le>s version"
    using r by (simp add: remove_topic_record_versions)
  have d: "KRemoveTopicRecord_fields_wf version KRemoveTopicRecord_default"
    by (simp add: KRemoveTopicRecord_default_def v remove_topic_record_fields)
  show ?thesis
    unfolding KRemoveTopicRecord_decode_def Let_def
    by (rule yields_checked, (rule remove_topic_record_steps[OF v refl, THEN yields_step], (rule d | assumption))+, rule yields_trailer[OF _ arms_keep_Nil[of "KRemoveTopicRecord_fields_wf version" "\<lambda>_. 0"]])
      (simp_all add: v d remove_topic_record_unknown KRemoveTopicRecord_wf_def trailer_ok_def r KRemoveTopicRecord_is_flexible_def KRemoveTopicRecord_FLEXIBLE_MIN_def)
qed

interpretation remove_topic_record: message_codec
  KRemoveTopicRecord_encode KRemoveTopicRecord_decode KRemoveTopicRecord_encoded_len "KRemoveTopicRecord_wf version" version
  for version
proof
  fix x
  assume w: "KRemoveTopicRecord_wf version x"
  then have v: "0 \<le>s version"
    by (simp add: KRemoveTopicRecord_wf_def remove_topic_record_versions)
  show "carries (KRemoveTopicRecord_encode x version) (KRemoveTopicRecord_decode version) (KRemoveTopicRecord_encoded_len x version) x"
    unfolding KRemoveTopicRecord_encode_def KRemoveTopicRecord_encoded_len_def KRemoveTopicRecord_decode_def Let_def
    by (use w[unfolded KRemoveTopicRecord_wf_def KRemoveTopicRecord_fields_wf_def Let_def] in \<open>elim conjE\<close>, rule carries_cong_len)
      ((rule carries_rules | (erule absent_guarded, assumption) | erule absent_plain
        | simp add: v field_ok_def KRemoveTopicRecord_default_def remove_topic_record_versions)+)
next
  show "yields 1 (KRemoveTopicRecord_decode version) (KRemoveTopicRecord_wf version)"
    by (rule case_split[OF remove_topic_record_yields]) (auto simp: KRemoveTopicRecord_decode_def Let_def yields_refused)
  show "extends_input (KRemoveTopicRecord_decode version)"
    unfolding KRemoveTopicRecord_decode_def Let_def by (intro extends_rules)
qed

section \<open>ConfigRecord\<close>

definition KConfigRecord_MIN_VERSION :: i16 where
  "KConfigRecord_MIN_VERSION = 0"

definition KConfigRecord_MAX_VERSION :: i16 where
  "KConfigRecord_MAX_VERSION = 0"

definition KConfigRecord_FLEXIBLE_MIN :: i16 where
  "KConfigRecord_FLEXIBLE_MIN = 0"

definition KConfigRecord_is_flexible :: "i16 \<Rightarrow> bool" where
  "KConfigRecord_is_flexible version \<longleftrightarrow> KConfigRecord_FLEXIBLE_MIN \<le>s version"

definition KConfigRecord_encode :: "KConfigRecord \<Rightarrow> i16 \<Rightarrow> encoder" where
  "KConfigRecord_encode x version =
     (let flex = KConfigRecord_is_flexible version in
      write_all
        [write_check (contains_version KConfigRecord_MIN_VERSION KConfigRecord_MAX_VERSION ''ConfigRecord version out of range'' version),
         put_when (0 \<le>s version) (put_i8 (kc_resource_type x)),
         put_when (0 \<le>s version) (put_str flex (kc_resource_name x)),
         put_when (0 \<le>s version) (put_str flex (kc_name x)),
         put_when (0 \<le>s version) (put_nullable_str flex (kc_value x)),
         put_when flex (put_tagged [] (kc_unknown_tagged_fields x))])"

definition KConfigRecord_encoded_len :: "KConfigRecord \<Rightarrow> i16 \<Rightarrow> nat" where
  "KConfigRecord_encoded_len x version =
     (let flex = KConfigRecord_is_flexible version in
      len_when (0 \<le>s version) 1
      + len_when (0 \<le>s version) (str_len flex (kc_resource_name x))
      + len_when (0 \<le>s version) (str_len flex (kc_name x))
      + len_when (0 \<le>s version) (nullable_str_len flex (kc_value x))
      + len_when flex (tagged_size [] (kc_unknown_tagged_fields x)))"

definition KConfigRecord_decode :: "i16 \<Rightarrow> KConfigRecord decoder" where
  "KConfigRecord_decode version =
     (let flex = KConfigRecord_is_flexible version in
      checked (contains_version KConfigRecord_MIN_VERSION KConfigRecord_MAX_VERSION ''ConfigRecord version out of range'' version) (
        read_then (get_into (0 \<le>s version) get_i8 (\<lambda>v out. out\<lparr>kc_resource_type := v\<rparr>) KConfigRecord_default) (\<lambda>out.
        read_then (get_into (0 \<le>s version) (get_str flex) (\<lambda>v out. out\<lparr>kc_resource_name := v\<rparr>) out) (\<lambda>out.
        read_then (get_into (0 \<le>s version) (get_str flex) (\<lambda>v out. out\<lparr>kc_name := v\<rparr>) out) (\<lambda>out.
        read_then (get_into (0 \<le>s version) (get_nullable_str flex) (\<lambda>v out. out\<lparr>kc_value := v\<rparr>) out) (\<lambda>out.
        get_trailer flex [] (\<lambda>u out. out\<lparr>kc_unknown_tagged_fields := u\<rparr>) out))))))"

definition KConfigRecord_fields_wf :: "i16 \<Rightarrow> KConfigRecord \<Rightarrow> bool" where
  "KConfigRecord_fields_wf version x \<longleftrightarrow>
     (let flex = KConfigRecord_is_flexible version in
      str_wf flex (kc_resource_name x)
      \<and> str_wf flex (kc_name x)
      \<and> nullable_str_wf flex (kc_value x))"

definition KConfigRecord_wf :: "i16 \<Rightarrow> KConfigRecord \<Rightarrow> bool" where
  "KConfigRecord_wf version x \<longleftrightarrow>
     version_in KConfigRecord_MIN_VERSION KConfigRecord_MAX_VERSION version \<and> KConfigRecord_fields_wf version x \<and> trailer_ok [] [] (kc_unknown_tagged_fields x)"

lemmas config_record_versions =
    KConfigRecord_is_flexible_def KConfigRecord_FLEXIBLE_MIN_def KConfigRecord_MIN_VERSION_def
    KConfigRecord_MAX_VERSION_def version_in_def

lemmas config_record_fields =
    Let_def field_ok_def KConfigRecord_fields_wf_def KConfigRecord_is_flexible_def KConfigRecord_FLEXIBLE_MIN_def

lemma config_record_steps:
  assumes v: "0 \<le>s version" and flex: "flex = (KConfigRecord_is_flexible version)"
  shows "keeps (KConfigRecord_fields_wf version) (get_into (0 \<le>s version) get_i8 (\<lambda>v out. out\<lparr>kc_resource_type := v\<rparr>))"
    and "keeps (KConfigRecord_fields_wf version) (get_into (0 \<le>s version) (get_str flex) (\<lambda>v out. out\<lparr>kc_resource_name := v\<rparr>))"
    and "keeps (KConfigRecord_fields_wf version) (get_into (0 \<le>s version) (get_str flex) (\<lambda>v out. out\<lparr>kc_name := v\<rparr>))"
    and "keeps (KConfigRecord_fields_wf version) (get_into (0 \<le>s version) (get_nullable_str flex) (\<lambda>v out. out\<lparr>kc_value := v\<rparr>))"
  unfolding flex 
  by (rule keeps_into; (rule yields_rules)?; simp add: v config_record_fields)+

lemma config_record_unknown:
  "KConfigRecord_fields_wf version (s\<lparr>kc_unknown_tagged_fields := u\<rparr>) = KConfigRecord_fields_wf version s"
  by (simp_all add: KConfigRecord_fields_wf_def)

lemma config_record_yields:
  assumes r: "version_in KConfigRecord_MIN_VERSION KConfigRecord_MAX_VERSION version"
  shows "yields 1 (KConfigRecord_decode version) (KConfigRecord_wf version)"
proof -
  have v: "0 \<le>s version"
    using r by (simp add: config_record_versions)
  have d: "KConfigRecord_fields_wf version KConfigRecord_default"
    by (simp add: KConfigRecord_default_def v config_record_fields)
  show ?thesis
    unfolding KConfigRecord_decode_def Let_def
    by (rule yields_checked, (rule config_record_steps[OF v refl, THEN yields_step], (rule d | assumption))+, rule yields_trailer[OF _ arms_keep_Nil[of "KConfigRecord_fields_wf version" "\<lambda>_. 0"]])
      (simp_all add: v d config_record_unknown KConfigRecord_wf_def trailer_ok_def r KConfigRecord_is_flexible_def KConfigRecord_FLEXIBLE_MIN_def)
qed

interpretation config_record: message_codec
  KConfigRecord_encode KConfigRecord_decode KConfigRecord_encoded_len "KConfigRecord_wf version" version
  for version
proof
  fix x
  assume w: "KConfigRecord_wf version x"
  then have v: "0 \<le>s version"
    by (simp add: KConfigRecord_wf_def config_record_versions)
  show "carries (KConfigRecord_encode x version) (KConfigRecord_decode version) (KConfigRecord_encoded_len x version) x"
    unfolding KConfigRecord_encode_def KConfigRecord_encoded_len_def KConfigRecord_decode_def Let_def
    by (use w[unfolded KConfigRecord_wf_def KConfigRecord_fields_wf_def Let_def] in \<open>elim conjE\<close>, rule carries_cong_len)
      ((rule carries_rules | (erule absent_guarded, assumption) | erule absent_plain
        | simp add: v field_ok_def KConfigRecord_default_def config_record_versions)+)
next
  show "yields 1 (KConfigRecord_decode version) (KConfigRecord_wf version)"
    by (rule case_split[OF config_record_yields]) (auto simp: KConfigRecord_decode_def Let_def yields_refused)
  show "extends_input (KConfigRecord_decode version)"
    unfolding KConfigRecord_decode_def Let_def by (intro extends_rules)
qed

end
