(* ===== verification/KraftBrokerCodecs.thy ===== *)
theory KraftBrokerCodecs
  imports GeneratedCodec KraftRecords
begin

text \<open>
  The generated encoders and decoders of the metadata records about the cluster's nodes and its own bookkeeping:
  \<open>RegisterBrokerRecord\<close>, \<open>UnregisterBrokerRecord\<close>, \<open>BrokerRegistrationChangeRecord\<close>,
  \<open>RegisterControllerRecord\<close>, \<open>UnregisterControllerRecord\<close>, \<open>FeatureLevelRecord\<close>, \<open>ProducerIdsRecord\<close>,
  \<open>NoOpRecord\<close>, \<open>BeginTransactionRecord\<close>, \<open>EndTransactionRecord\<close>
  (\<open>crates/protocol/generated/*.owned.rs\<close>; the structures are in \<open>KraftRecords\<close>). For a record \<open>R\<close> there are
  its \<open>MIN_VERSION\<close>, \<open>MAX_VERSION\<close> and \<open>is_flexible\<close>, the methods \<open>encode\<close>, \<open>encoded_len\<close> and \<open>decode\<close> (with
  one definition per helper where the generator splits them into \<open>encode_field_n\<close>, \<open>decode_field_n\<close> and the two
  tagged-field parts), and \<open>R_wf\<close>: what the fields must satisfy for the record to be written at a version. A
  field the version does not carry has to hold its default, the lengths have to fit their prefixes, and the
  unknown tagged fields have to avoid the known tags.

  The interpretation of \<open>message_codec\<close> after each record discharges the contract for the three methods:
  the encoder writes exactly \<open>encoded_len\<close> bytes, the decoder reads them back to the same record whatever
  follows, decoding a prefix does not depend on what follows, and whatever the decoder accepts is again a
  record of \<open>R_wf\<close>.
\<close>

section \<open>RegisterBrokerRecord\<close>

definition KBrokerEndpoint_encode :: "KBrokerEndpoint \<Rightarrow> i16 \<Rightarrow> encoder" where
  "KBrokerEndpoint_encode x version =
     (let flex = 0 \<le>s version in
      write_all
        [put_when (0 \<le>s version) (put_str flex (kbe_name x)),
         put_when (0 \<le>s version) (put_str flex (kbe_host x)),
         put_when (0 \<le>s version) (put_u16 (kbe_port x)),
         put_when (0 \<le>s version) (put_i16 (kbe_security_protocol x)),
         put_when flex (put_tagged [] (kbe_unknown_tagged_fields x))])"

definition KBrokerEndpoint_encoded_len :: "KBrokerEndpoint \<Rightarrow> i16 \<Rightarrow> nat" where
  "KBrokerEndpoint_encoded_len x version =
     (let flex = 0 \<le>s version in
      len_when (0 \<le>s version) (str_len flex (kbe_name x))
      + len_when (0 \<le>s version) (str_len flex (kbe_host x))
      + len_when (0 \<le>s version) 2
      + len_when (0 \<le>s version) 2
      + len_when flex (tagged_size [] (kbe_unknown_tagged_fields x)))"

definition KBrokerEndpoint_decode :: "i16 \<Rightarrow> KBrokerEndpoint decoder" where
  "KBrokerEndpoint_decode version =
     (let flex = 0 \<le>s version in
      read_then (get_into (0 \<le>s version) (get_str flex) (\<lambda>v out. out\<lparr>kbe_name := v\<rparr>) KBrokerEndpoint_default) (\<lambda>out.
        read_then (get_into (0 \<le>s version) (get_str flex) (\<lambda>v out. out\<lparr>kbe_host := v\<rparr>) out) (\<lambda>out.
        read_then (get_into (0 \<le>s version) get_u16 (\<lambda>v out. out\<lparr>kbe_port := v\<rparr>) out) (\<lambda>out.
        read_then (get_into (0 \<le>s version) get_i16 (\<lambda>v out. out\<lparr>kbe_security_protocol := v\<rparr>) out) (\<lambda>out.
        get_trailer flex [] (\<lambda>u out. out\<lparr>kbe_unknown_tagged_fields := u\<rparr>) out)))))"

definition KBrokerEndpoint_fields_wf :: "i16 \<Rightarrow> KBrokerEndpoint \<Rightarrow> bool" where
  "KBrokerEndpoint_fields_wf version x \<longleftrightarrow>
     (let flex = 0 \<le>s version in
      str_wf flex (kbe_name x)
      \<and> str_wf flex (kbe_host x))"

definition KBrokerEndpoint_wf :: "i16 \<Rightarrow> KBrokerEndpoint \<Rightarrow> bool" where
  "KBrokerEndpoint_wf version x \<longleftrightarrow>
     KBrokerEndpoint_fields_wf version x \<and> trailer_ok [] [] (kbe_unknown_tagged_fields x)"

lemmas broker_endpoint_fields =
    Let_def field_ok_def KBrokerEndpoint_fields_wf_def

lemma broker_endpoint_steps:
  assumes v: "0 \<le>s version" and flex: "flex = (0 \<le>s version)"
  shows "keeps (KBrokerEndpoint_fields_wf version) (get_into (0 \<le>s version) (get_str flex) (\<lambda>v out. out\<lparr>kbe_name := v\<rparr>))"
    and "keeps (KBrokerEndpoint_fields_wf version) (get_into (0 \<le>s version) (get_str flex) (\<lambda>v out. out\<lparr>kbe_host := v\<rparr>))"
    and "keeps (KBrokerEndpoint_fields_wf version) (get_into (0 \<le>s version) get_u16 (\<lambda>v out. out\<lparr>kbe_port := v\<rparr>))"
    and "keeps (KBrokerEndpoint_fields_wf version) (get_into (0 \<le>s version) get_i16 (\<lambda>v out. out\<lparr>kbe_security_protocol := v\<rparr>))"
  unfolding flex 
  by (rule keeps_into; (rule yields_rules)?; simp add: v broker_endpoint_fields)+

lemma broker_endpoint_unknown:
  "KBrokerEndpoint_fields_wf version (s\<lparr>kbe_unknown_tagged_fields := u\<rparr>) = KBrokerEndpoint_fields_wf version s"
  by (simp_all add: KBrokerEndpoint_fields_wf_def)

lemma broker_endpoint_yields:
  assumes v: "0 \<le>s version"
  shows "yields 1 (KBrokerEndpoint_decode version) (KBrokerEndpoint_wf version)"
proof -
  have d: "KBrokerEndpoint_fields_wf version KBrokerEndpoint_default"
    by (simp add: KBrokerEndpoint_default_def v broker_endpoint_fields)
  show ?thesis
    unfolding KBrokerEndpoint_decode_def Let_def
    by ((rule broker_endpoint_steps[OF v refl, THEN yields_step], (rule d | assumption))+, rule yields_trailer[OF _ arms_keep_Nil[of "KBrokerEndpoint_fields_wf version" "\<lambda>_. 0"]])
      (simp_all add: v d broker_endpoint_unknown KBrokerEndpoint_wf_def trailer_ok_def )
qed

lemma broker_endpoint_extends [extends_rules]: "extends_input (KBrokerEndpoint_decode version)"
  unfolding KBrokerEndpoint_decode_def Let_def by (intro extends_rules)

lemma broker_endpoint_codec:
  assumes v: "0 \<le>s version"
  shows "message_codec KBrokerEndpoint_encode KBrokerEndpoint_decode KBrokerEndpoint_encoded_len (KBrokerEndpoint_wf version) version"
proof
  fix x
  assume w: "KBrokerEndpoint_wf version x"
  show "carries (KBrokerEndpoint_encode x version) (KBrokerEndpoint_decode version) (KBrokerEndpoint_encoded_len x version) x"
    unfolding KBrokerEndpoint_encode_def KBrokerEndpoint_encoded_len_def KBrokerEndpoint_decode_def Let_def
    by (use w[unfolded KBrokerEndpoint_wf_def KBrokerEndpoint_fields_wf_def Let_def] in \<open>elim conjE\<close>, rule carries_cong_len)
      ((rule carries_rules | (erule absent_guarded, assumption) | erule absent_plain
        | simp add: v field_ok_def KBrokerEndpoint_default_def )+)
next
  show "yields 1 (KBrokerEndpoint_decode version) (KBrokerEndpoint_wf version)"
    by (rule broker_endpoint_yields[OF v])
qed (rule broker_endpoint_extends)

lemmas [carries_rules] = protocol_codec.put_array_carries[OF message_codec.message_protocol[OF broker_endpoint_codec]]
lemmas [yields_rules] = protocol_codec.get_array_yields[OF message_codec.message_protocol[OF broker_endpoint_codec]]

definition KBrokerFeature_encode :: "KBrokerFeature \<Rightarrow> i16 \<Rightarrow> encoder" where
  "KBrokerFeature_encode x version =
     (let flex = 0 \<le>s version in
      write_all
        [put_when (0 \<le>s version) (put_str flex (kbf_name x)),
         put_when (0 \<le>s version) (put_i16 (kbf_min_supported_version x)),
         put_when (0 \<le>s version) (put_i16 (kbf_max_supported_version x)),
         put_when flex (put_tagged [] (kbf_unknown_tagged_fields x))])"

definition KBrokerFeature_encoded_len :: "KBrokerFeature \<Rightarrow> i16 \<Rightarrow> nat" where
  "KBrokerFeature_encoded_len x version =
     (let flex = 0 \<le>s version in
      len_when (0 \<le>s version) (str_len flex (kbf_name x))
      + len_when (0 \<le>s version) 2
      + len_when (0 \<le>s version) 2
      + len_when flex (tagged_size [] (kbf_unknown_tagged_fields x)))"

definition KBrokerFeature_decode :: "i16 \<Rightarrow> KBrokerFeature decoder" where
  "KBrokerFeature_decode version =
     (let flex = 0 \<le>s version in
      read_then (get_into (0 \<le>s version) (get_str flex) (\<lambda>v out. out\<lparr>kbf_name := v\<rparr>) KBrokerFeature_default) (\<lambda>out.
        read_then (get_into (0 \<le>s version) get_i16 (\<lambda>v out. out\<lparr>kbf_min_supported_version := v\<rparr>) out) (\<lambda>out.
        read_then (get_into (0 \<le>s version) get_i16 (\<lambda>v out. out\<lparr>kbf_max_supported_version := v\<rparr>) out) (\<lambda>out.
        get_trailer flex [] (\<lambda>u out. out\<lparr>kbf_unknown_tagged_fields := u\<rparr>) out))))"

definition KBrokerFeature_fields_wf :: "i16 \<Rightarrow> KBrokerFeature \<Rightarrow> bool" where
  "KBrokerFeature_fields_wf version x \<longleftrightarrow>
     (let flex = 0 \<le>s version in
      str_wf flex (kbf_name x))"

definition KBrokerFeature_wf :: "i16 \<Rightarrow> KBrokerFeature \<Rightarrow> bool" where
  "KBrokerFeature_wf version x \<longleftrightarrow>
     KBrokerFeature_fields_wf version x \<and> trailer_ok [] [] (kbf_unknown_tagged_fields x)"

lemmas broker_feature_fields =
    Let_def field_ok_def KBrokerFeature_fields_wf_def

lemma broker_feature_steps:
  assumes v: "0 \<le>s version" and flex: "flex = (0 \<le>s version)"
  shows "keeps (KBrokerFeature_fields_wf version) (get_into (0 \<le>s version) (get_str flex) (\<lambda>v out. out\<lparr>kbf_name := v\<rparr>))"
    and "keeps (KBrokerFeature_fields_wf version) (get_into (0 \<le>s version) get_i16 (\<lambda>v out. out\<lparr>kbf_min_supported_version := v\<rparr>))"
    and "keeps (KBrokerFeature_fields_wf version) (get_into (0 \<le>s version) get_i16 (\<lambda>v out. out\<lparr>kbf_max_supported_version := v\<rparr>))"
  unfolding flex 
  by (rule keeps_into; (rule yields_rules)?; simp add: v broker_feature_fields)+

lemma broker_feature_unknown:
  "KBrokerFeature_fields_wf version (s\<lparr>kbf_unknown_tagged_fields := u\<rparr>) = KBrokerFeature_fields_wf version s"
  by (simp_all add: KBrokerFeature_fields_wf_def)

lemma broker_feature_yields:
  assumes v: "0 \<le>s version"
  shows "yields 1 (KBrokerFeature_decode version) (KBrokerFeature_wf version)"
proof -
  have d: "KBrokerFeature_fields_wf version KBrokerFeature_default"
    by (simp add: KBrokerFeature_default_def v broker_feature_fields)
  show ?thesis
    unfolding KBrokerFeature_decode_def Let_def
    by ((rule broker_feature_steps[OF v refl, THEN yields_step], (rule d | assumption))+, rule yields_trailer[OF _ arms_keep_Nil[of "KBrokerFeature_fields_wf version" "\<lambda>_. 0"]])
      (simp_all add: v d broker_feature_unknown KBrokerFeature_wf_def trailer_ok_def )
qed

lemma broker_feature_extends [extends_rules]: "extends_input (KBrokerFeature_decode version)"
  unfolding KBrokerFeature_decode_def Let_def by (intro extends_rules)

lemma broker_feature_codec:
  assumes v: "0 \<le>s version"
  shows "message_codec KBrokerFeature_encode KBrokerFeature_decode KBrokerFeature_encoded_len (KBrokerFeature_wf version) version"
proof
  fix x
  assume w: "KBrokerFeature_wf version x"
  show "carries (KBrokerFeature_encode x version) (KBrokerFeature_decode version) (KBrokerFeature_encoded_len x version) x"
    unfolding KBrokerFeature_encode_def KBrokerFeature_encoded_len_def KBrokerFeature_decode_def Let_def
    by (use w[unfolded KBrokerFeature_wf_def KBrokerFeature_fields_wf_def Let_def] in \<open>elim conjE\<close>, rule carries_cong_len)
      ((rule carries_rules | (erule absent_guarded, assumption) | erule absent_plain
        | simp add: v field_ok_def KBrokerFeature_default_def )+)
next
  show "yields 1 (KBrokerFeature_decode version) (KBrokerFeature_wf version)"
    by (rule broker_feature_yields[OF v])
qed (rule broker_feature_extends)

lemmas [carries_rules] = protocol_codec.put_array_carries[OF message_codec.message_protocol[OF broker_feature_codec]]
lemmas [yields_rules] = protocol_codec.get_array_yields[OF message_codec.message_protocol[OF broker_feature_codec]]

definition KRegisterBrokerRecord_MIN_VERSION :: i16 where
  "KRegisterBrokerRecord_MIN_VERSION = 0"

definition KRegisterBrokerRecord_MAX_VERSION :: i16 where
  "KRegisterBrokerRecord_MAX_VERSION = 4"

definition KRegisterBrokerRecord_FLEXIBLE_MIN :: i16 where
  "KRegisterBrokerRecord_FLEXIBLE_MIN = 0"

definition KRegisterBrokerRecord_is_flexible :: "i16 \<Rightarrow> bool" where
  "KRegisterBrokerRecord_is_flexible version \<longleftrightarrow> KRegisterBrokerRecord_FLEXIBLE_MIN \<le>s version"

definition KRegisterBrokerRecord_encode_field_0 :: "KRegisterBrokerRecord \<Rightarrow> i16 \<Rightarrow> bool \<Rightarrow> encoder" where
  "KRegisterBrokerRecord_encode_field_0 x version flex = put_when (0 \<le>s version) (put_i32 (krb_broker_id x))"

definition KRegisterBrokerRecord_encode_field_1 :: "KRegisterBrokerRecord \<Rightarrow> i16 \<Rightarrow> bool \<Rightarrow> encoder" where
  "KRegisterBrokerRecord_encode_field_1 x version flex = put_when (2 \<le>s version) (put_bool (krb_is_migrating_zk_broker x))"

definition KRegisterBrokerRecord_encode_field_2 :: "KRegisterBrokerRecord \<Rightarrow> i16 \<Rightarrow> bool \<Rightarrow> encoder" where
  "KRegisterBrokerRecord_encode_field_2 x version flex = put_when (0 \<le>s version) (put_uuid (krb_incarnation_id x))"

definition KRegisterBrokerRecord_encode_field_3 :: "KRegisterBrokerRecord \<Rightarrow> i16 \<Rightarrow> bool \<Rightarrow> encoder" where
  "KRegisterBrokerRecord_encode_field_3 x version flex = put_when (0 \<le>s version) (put_i64 (krb_broker_epoch x))"

definition KRegisterBrokerRecord_encode_field_4 :: "KRegisterBrokerRecord \<Rightarrow> i16 \<Rightarrow> bool \<Rightarrow> encoder" where
  "KRegisterBrokerRecord_encode_field_4 x version flex = put_when (0 \<le>s version) (put_array flex (\<lambda>it. KBrokerEndpoint_encode it version) (krb_end_points x))"

definition KRegisterBrokerRecord_encode_field_5 :: "KRegisterBrokerRecord \<Rightarrow> i16 \<Rightarrow> bool \<Rightarrow> encoder" where
  "KRegisterBrokerRecord_encode_field_5 x version flex = put_when (0 \<le>s version) (put_array flex (\<lambda>it. KBrokerFeature_encode it version) (krb_features x))"

definition KRegisterBrokerRecord_encode_field_6 :: "KRegisterBrokerRecord \<Rightarrow> i16 \<Rightarrow> bool \<Rightarrow> encoder" where
  "KRegisterBrokerRecord_encode_field_6 x version flex = put_when (0 \<le>s version) (put_nullable_str flex (krb_rack x))"

definition KRegisterBrokerRecord_encode_field_7 :: "KRegisterBrokerRecord \<Rightarrow> i16 \<Rightarrow> bool \<Rightarrow> encoder" where
  "KRegisterBrokerRecord_encode_field_7 x version flex = put_when (0 \<le>s version) (put_bool (krb_fenced x))"

definition KRegisterBrokerRecord_encode_field_8 :: "KRegisterBrokerRecord \<Rightarrow> i16 \<Rightarrow> bool \<Rightarrow> encoder" where
  "KRegisterBrokerRecord_encode_field_8 x version flex = put_when (1 \<le>s version) (put_bool (krb_in_controlled_shutdown x))"

definition KRegisterBrokerRecord_encode_tagged_fields :: "KRegisterBrokerRecord \<Rightarrow> i16 \<Rightarrow> bool \<Rightarrow> encoder" where
  "KRegisterBrokerRecord_encode_tagged_fields x version flex =
     put_when flex (put_tagged
       [(0, 3 \<le>s version \<and> krb_log_dirs x \<noteq> [], (array_size flex (\<lambda>_. 16) (krb_log_dirs x)), put_array flex put_uuid (krb_log_dirs x)),
        (1, 4 \<le>s version \<and> krb_cordoned_log_dirs x \<noteq> None, (nullable_array_size flex (\<lambda>_. 16) (krb_cordoned_log_dirs x)), put_nullable_array flex put_uuid (krb_cordoned_log_dirs x))]
       (krb_unknown_tagged_fields x))"

definition KRegisterBrokerRecord_encode :: "KRegisterBrokerRecord \<Rightarrow> i16 \<Rightarrow> encoder" where
  "KRegisterBrokerRecord_encode x version =
     (let flex = KRegisterBrokerRecord_is_flexible version in
      write_all
        [write_check (contains_version KRegisterBrokerRecord_MIN_VERSION KRegisterBrokerRecord_MAX_VERSION ''RegisterBrokerRecord version out of range'' version),
         KRegisterBrokerRecord_encode_field_0 x version flex,
         KRegisterBrokerRecord_encode_field_1 x version flex,
         KRegisterBrokerRecord_encode_field_2 x version flex,
         KRegisterBrokerRecord_encode_field_3 x version flex,
         KRegisterBrokerRecord_encode_field_4 x version flex,
         KRegisterBrokerRecord_encode_field_5 x version flex,
         KRegisterBrokerRecord_encode_field_6 x version flex,
         KRegisterBrokerRecord_encode_field_7 x version flex,
         KRegisterBrokerRecord_encode_field_8 x version flex,
         KRegisterBrokerRecord_encode_tagged_fields x version flex])"

definition KRegisterBrokerRecord_encoded_len :: "KRegisterBrokerRecord \<Rightarrow> i16 \<Rightarrow> nat" where
  "KRegisterBrokerRecord_encoded_len x version =
     (let flex = KRegisterBrokerRecord_is_flexible version in
      len_when (0 \<le>s version) 4
      + len_when (2 \<le>s version) 1
      + len_when (0 \<le>s version) 16
      + len_when (0 \<le>s version) 8
      + len_when (0 \<le>s version) (array_size flex (\<lambda>it. KBrokerEndpoint_encoded_len it version) (krb_end_points x))
      + len_when (0 \<le>s version) (array_size flex (\<lambda>it. KBrokerFeature_encoded_len it version) (krb_features x))
      + len_when (0 \<le>s version) (nullable_str_len flex (krb_rack x))
      + len_when (0 \<le>s version) 1
      + len_when (1 \<le>s version) 1
      + len_when flex (tagged_size [(0, 3 \<le>s version \<and> krb_log_dirs x \<noteq> [], (array_size flex (\<lambda>_. 16) (krb_log_dirs x))),
                               (1, 4 \<le>s version \<and> krb_cordoned_log_dirs x \<noteq> None, (nullable_array_size flex (\<lambda>_. 16) (krb_cordoned_log_dirs x)))] (krb_unknown_tagged_fields x)))"

definition KRegisterBrokerRecord_decode_field_0 :: "KRegisterBrokerRecord \<Rightarrow> i16 \<Rightarrow> bool \<Rightarrow> KRegisterBrokerRecord decoder" where
  "KRegisterBrokerRecord_decode_field_0 out version flex = get_into (0 \<le>s version) get_i32 (\<lambda>v out. out\<lparr>krb_broker_id := v\<rparr>) out"

definition KRegisterBrokerRecord_decode_field_1 :: "KRegisterBrokerRecord \<Rightarrow> i16 \<Rightarrow> bool \<Rightarrow> KRegisterBrokerRecord decoder" where
  "KRegisterBrokerRecord_decode_field_1 out version flex = get_into (2 \<le>s version) get_bool (\<lambda>v out. out\<lparr>krb_is_migrating_zk_broker := v\<rparr>) out"

definition KRegisterBrokerRecord_decode_field_2 :: "KRegisterBrokerRecord \<Rightarrow> i16 \<Rightarrow> bool \<Rightarrow> KRegisterBrokerRecord decoder" where
  "KRegisterBrokerRecord_decode_field_2 out version flex = get_into (0 \<le>s version) get_uuid (\<lambda>v out. out\<lparr>krb_incarnation_id := v\<rparr>) out"

definition KRegisterBrokerRecord_decode_field_3 :: "KRegisterBrokerRecord \<Rightarrow> i16 \<Rightarrow> bool \<Rightarrow> KRegisterBrokerRecord decoder" where
  "KRegisterBrokerRecord_decode_field_3 out version flex = get_into (0 \<le>s version) get_i64 (\<lambda>v out. out\<lparr>krb_broker_epoch := v\<rparr>) out"

definition KRegisterBrokerRecord_decode_field_4 :: "KRegisterBrokerRecord \<Rightarrow> i16 \<Rightarrow> bool \<Rightarrow> KRegisterBrokerRecord decoder" where
  "KRegisterBrokerRecord_decode_field_4 out version flex = get_into (0 \<le>s version) (get_array flex (KBrokerEndpoint_decode version)) (\<lambda>v out. out\<lparr>krb_end_points := v\<rparr>) out"

definition KRegisterBrokerRecord_decode_field_5 :: "KRegisterBrokerRecord \<Rightarrow> i16 \<Rightarrow> bool \<Rightarrow> KRegisterBrokerRecord decoder" where
  "KRegisterBrokerRecord_decode_field_5 out version flex = get_into (0 \<le>s version) (get_array flex (KBrokerFeature_decode version)) (\<lambda>v out. out\<lparr>krb_features := v\<rparr>) out"

definition KRegisterBrokerRecord_decode_field_6 :: "KRegisterBrokerRecord \<Rightarrow> i16 \<Rightarrow> bool \<Rightarrow> KRegisterBrokerRecord decoder" where
  "KRegisterBrokerRecord_decode_field_6 out version flex = get_into (0 \<le>s version) (get_nullable_str flex) (\<lambda>v out. out\<lparr>krb_rack := v\<rparr>) out"

definition KRegisterBrokerRecord_decode_field_7 :: "KRegisterBrokerRecord \<Rightarrow> i16 \<Rightarrow> bool \<Rightarrow> KRegisterBrokerRecord decoder" where
  "KRegisterBrokerRecord_decode_field_7 out version flex = get_into (0 \<le>s version) get_bool (\<lambda>v out. out\<lparr>krb_fenced := v\<rparr>) out"

definition KRegisterBrokerRecord_decode_field_8 :: "KRegisterBrokerRecord \<Rightarrow> i16 \<Rightarrow> bool \<Rightarrow> KRegisterBrokerRecord decoder" where
  "KRegisterBrokerRecord_decode_field_8 out version flex = get_into (1 \<le>s version) get_bool (\<lambda>v out. out\<lparr>krb_in_controlled_shutdown := v\<rparr>) out"

definition KRegisterBrokerRecord_decode_tagged_fields :: "KRegisterBrokerRecord \<Rightarrow> i16 \<Rightarrow> bool \<Rightarrow> KRegisterBrokerRecord decoder" where
  "KRegisterBrokerRecord_decode_tagged_fields out version flex =
     get_trailer flex
       [(0, tag_from 0 (3 \<le>s version) version (tag_into (get_array flex get_uuid) (\<lambda>v out. out\<lparr>krb_log_dirs := v\<rparr>))),
        (1, tag_from 1 (4 \<le>s version) version (tag_into (get_nullable_array flex get_uuid) (\<lambda>v out. out\<lparr>krb_cordoned_log_dirs := v\<rparr>)))]
       (\<lambda>u out. out\<lparr>krb_unknown_tagged_fields := u\<rparr>) out"

definition KRegisterBrokerRecord_decode :: "i16 \<Rightarrow> KRegisterBrokerRecord decoder" where
  "KRegisterBrokerRecord_decode version =
     (let flex = KRegisterBrokerRecord_is_flexible version in
      checked (contains_version KRegisterBrokerRecord_MIN_VERSION KRegisterBrokerRecord_MAX_VERSION ''RegisterBrokerRecord version out of range'' version) (
        read_then (KRegisterBrokerRecord_decode_field_0 KRegisterBrokerRecord_default version flex) (\<lambda>out.
        read_then (KRegisterBrokerRecord_decode_field_1 out version flex) (\<lambda>out.
        read_then (KRegisterBrokerRecord_decode_field_2 out version flex) (\<lambda>out.
        read_then (KRegisterBrokerRecord_decode_field_3 out version flex) (\<lambda>out.
        read_then (KRegisterBrokerRecord_decode_field_4 out version flex) (\<lambda>out.
        read_then (KRegisterBrokerRecord_decode_field_5 out version flex) (\<lambda>out.
        read_then (KRegisterBrokerRecord_decode_field_6 out version flex) (\<lambda>out.
        read_then (KRegisterBrokerRecord_decode_field_7 out version flex) (\<lambda>out.
        read_then (KRegisterBrokerRecord_decode_field_8 out version flex) (\<lambda>out.
        KRegisterBrokerRecord_decode_tagged_fields out version flex)))))))))))"

definition KRegisterBrokerRecord_fields_wf :: "i16 \<Rightarrow> KRegisterBrokerRecord \<Rightarrow> bool" where
  "KRegisterBrokerRecord_fields_wf version x \<longleftrightarrow>
     (let flex = KRegisterBrokerRecord_is_flexible version in
      field_ok (2 \<le>s version) False (\<lambda>_. True) (krb_is_migrating_zk_broker x)
      \<and> uuid_wf (krb_incarnation_id x)
      \<and> array_ok flex (KBrokerEndpoint_wf version) (krb_end_points x)
      \<and> array_ok flex (KBrokerFeature_wf version) (krb_features x)
      \<and> nullable_str_wf flex (krb_rack x)
      \<and> field_ok (1 \<le>s version) False (\<lambda>_. True) (krb_in_controlled_shutdown x)
      \<and> field_ok (3 \<le>s version) [] (\<lambda>v. array_ok flex uuid_wf v \<and> array_size flex (\<lambda>_. 16) v < 2 ^ 32) (krb_log_dirs x)
      \<and> field_ok (4 \<le>s version) None (\<lambda>v. pred_option (array_ok flex uuid_wf) v \<and> nullable_array_size flex (\<lambda>_. 16) v < 2 ^ 32) (krb_cordoned_log_dirs x))"

definition KRegisterBrokerRecord_present :: "i16 \<Rightarrow> KRegisterBrokerRecord \<Rightarrow> bool list" where
  "KRegisterBrokerRecord_present version x =
     [3 \<le>s version \<and> krb_log_dirs x \<noteq> [],
      4 \<le>s version \<and> krb_cordoned_log_dirs x \<noteq> None]"

definition KRegisterBrokerRecord_wf :: "i16 \<Rightarrow> KRegisterBrokerRecord \<Rightarrow> bool" where
  "KRegisterBrokerRecord_wf version x \<longleftrightarrow>
     version_in KRegisterBrokerRecord_MIN_VERSION KRegisterBrokerRecord_MAX_VERSION version \<and> KRegisterBrokerRecord_fields_wf version x \<and> trailer_ok [0, 1] (KRegisterBrokerRecord_present version x) (krb_unknown_tagged_fields x)"

abbreviation KRegisterBrokerRecord_read :: "i16 \<Rightarrow> KRegisterBrokerRecord \<Rightarrow> bool" where
  "KRegisterBrokerRecord_read version s \<equiv> KRegisterBrokerRecord_fields_wf version s \<and> present_count (KRegisterBrokerRecord_present version s) = 0"

lemmas register_broker_record_versions =
    KRegisterBrokerRecord_is_flexible_def KRegisterBrokerRecord_FLEXIBLE_MIN_def
    KRegisterBrokerRecord_MIN_VERSION_def KRegisterBrokerRecord_MAX_VERSION_def version_in_def

lemmas register_broker_record_fields =
    Let_def field_ok_def KRegisterBrokerRecord_fields_wf_def KRegisterBrokerRecord_present_def
    KRegisterBrokerRecord_is_flexible_def KRegisterBrokerRecord_FLEXIBLE_MIN_def

lemmas register_broker_record_writers =
    KRegisterBrokerRecord_encode_field_0_def KRegisterBrokerRecord_encode_field_1_def
    KRegisterBrokerRecord_encode_field_2_def KRegisterBrokerRecord_encode_field_3_def
    KRegisterBrokerRecord_encode_field_4_def KRegisterBrokerRecord_encode_field_5_def
    KRegisterBrokerRecord_encode_field_6_def KRegisterBrokerRecord_encode_field_7_def
    KRegisterBrokerRecord_encode_field_8_def KRegisterBrokerRecord_encode_tagged_fields_def

lemmas register_broker_record_readers =
    KRegisterBrokerRecord_decode_field_0_def KRegisterBrokerRecord_decode_field_1_def
    KRegisterBrokerRecord_decode_field_2_def KRegisterBrokerRecord_decode_field_3_def
    KRegisterBrokerRecord_decode_field_4_def KRegisterBrokerRecord_decode_field_5_def
    KRegisterBrokerRecord_decode_field_6_def KRegisterBrokerRecord_decode_field_7_def
    KRegisterBrokerRecord_decode_field_8_def KRegisterBrokerRecord_decode_tagged_fields_def

lemma register_broker_record_steps:
  assumes v: "0 \<le>s version" and flex: "flex = (KRegisterBrokerRecord_is_flexible version)"
  shows "keeps (KRegisterBrokerRecord_read version) (\<lambda>out. KRegisterBrokerRecord_decode_field_0 out version flex)"
    and "keeps (KRegisterBrokerRecord_read version) (\<lambda>out. KRegisterBrokerRecord_decode_field_1 out version flex)"
    and "keeps (KRegisterBrokerRecord_read version) (\<lambda>out. KRegisterBrokerRecord_decode_field_2 out version flex)"
    and "keeps (KRegisterBrokerRecord_read version) (\<lambda>out. KRegisterBrokerRecord_decode_field_3 out version flex)"
    and "keeps (KRegisterBrokerRecord_read version) (\<lambda>out. KRegisterBrokerRecord_decode_field_4 out version flex)"
    and "keeps (KRegisterBrokerRecord_read version) (\<lambda>out. KRegisterBrokerRecord_decode_field_5 out version flex)"
    and "keeps (KRegisterBrokerRecord_read version) (\<lambda>out. KRegisterBrokerRecord_decode_field_6 out version flex)"
    and "keeps (KRegisterBrokerRecord_read version) (\<lambda>out. KRegisterBrokerRecord_decode_field_7 out version flex)"
    and "keeps (KRegisterBrokerRecord_read version) (\<lambda>out. KRegisterBrokerRecord_decode_field_8 out version flex)"
  unfolding flex register_broker_record_readers
  by (rule keeps_into; (rule yields_rules)?; simp add: v register_broker_record_fields)+

lemma register_broker_record_arms:
  assumes v: "0 \<le>s version" and flex: "flex = (KRegisterBrokerRecord_is_flexible version)"
  shows "arms_keep (KRegisterBrokerRecord_fields_wf version) (\<lambda>s. present_count (KRegisterBrokerRecord_present version s))
    [(0, tag_from 0 (3 \<le>s version) version (tag_into (get_array flex get_uuid) (\<lambda>v out. out\<lparr>krb_log_dirs := v\<rparr>))),
     (1, tag_from 1 (4 \<le>s version) version (tag_into (get_nullable_array flex get_uuid) (\<lambda>v out. out\<lparr>krb_cordoned_log_dirs := v\<rparr>)))]"
  unfolding flex
  by ((rule arms_keep_Nil arms_keep_Cons accepts_from accepts_into accepts_rules)
    | simp add: v register_broker_record_fields)+

lemma register_broker_record_unknown:
  "KRegisterBrokerRecord_fields_wf version (s\<lparr>krb_unknown_tagged_fields := u\<rparr>) = KRegisterBrokerRecord_fields_wf version s"
  "KRegisterBrokerRecord_present version (s\<lparr>krb_unknown_tagged_fields := u\<rparr>) = KRegisterBrokerRecord_present version s"
  by (simp_all add: KRegisterBrokerRecord_fields_wf_def KRegisterBrokerRecord_present_def)

lemma register_broker_record_yields:
  assumes r: "version_in KRegisterBrokerRecord_MIN_VERSION KRegisterBrokerRecord_MAX_VERSION version"
  shows "yields 1 (KRegisterBrokerRecord_decode version) (KRegisterBrokerRecord_wf version)"
proof -
  have v: "0 \<le>s version"
    using r by (simp add: register_broker_record_versions)
  have d: "KRegisterBrokerRecord_fields_wf version KRegisterBrokerRecord_default \<and> present_count (KRegisterBrokerRecord_present version KRegisterBrokerRecord_default) = 0"
    by (simp add: KRegisterBrokerRecord_default_def v register_broker_record_fields)
  show ?thesis
    unfolding KRegisterBrokerRecord_decode_def Let_def KRegisterBrokerRecord_decode_tagged_fields_def
    by (rule yields_checked, (rule register_broker_record_steps[OF v refl, THEN yields_step], (rule d | assumption))+, rule yields_trailer[OF _ register_broker_record_arms[OF v refl]])
      (simp_all add: v d register_broker_record_unknown KRegisterBrokerRecord_wf_def trailer_ok_def r KRegisterBrokerRecord_is_flexible_def KRegisterBrokerRecord_FLEXIBLE_MIN_def)
qed

interpretation register_broker_record: message_codec
  KRegisterBrokerRecord_encode KRegisterBrokerRecord_decode KRegisterBrokerRecord_encoded_len "KRegisterBrokerRecord_wf version" version
  for version
proof
  fix x
  assume w: "KRegisterBrokerRecord_wf version x"
  then have v: "0 \<le>s version"
    by (simp add: KRegisterBrokerRecord_wf_def register_broker_record_versions)
  show "carries (KRegisterBrokerRecord_encode x version) (KRegisterBrokerRecord_decode version) (KRegisterBrokerRecord_encoded_len x version) x"
    unfolding KRegisterBrokerRecord_encode_def register_broker_record_writers KRegisterBrokerRecord_encoded_len_def KRegisterBrokerRecord_decode_def register_broker_record_readers Let_def
    by (use w[unfolded KRegisterBrokerRecord_wf_def KRegisterBrokerRecord_fields_wf_def KRegisterBrokerRecord_present_def Let_def] in \<open>elim conjE\<close>, rule carries_cong_len)
      ((rule carries_rules | (erule absent_guarded, assumption) | erule absent_plain
        | simp add: v field_ok_def KRegisterBrokerRecord_default_def register_broker_record_versions)+)
next
  show "yields 1 (KRegisterBrokerRecord_decode version) (KRegisterBrokerRecord_wf version)"
    by (rule case_split[OF register_broker_record_yields]) (auto simp: KRegisterBrokerRecord_decode_def Let_def yields_refused)
  show "extends_input (KRegisterBrokerRecord_decode version)"
    unfolding KRegisterBrokerRecord_decode_def Let_def register_broker_record_readers by (intro extends_rules)
qed

section \<open>UnregisterBrokerRecord\<close>

definition KUnregisterBrokerRecord_MIN_VERSION :: i16 where
  "KUnregisterBrokerRecord_MIN_VERSION = 0"

definition KUnregisterBrokerRecord_MAX_VERSION :: i16 where
  "KUnregisterBrokerRecord_MAX_VERSION = 0"

definition KUnregisterBrokerRecord_FLEXIBLE_MIN :: i16 where
  "KUnregisterBrokerRecord_FLEXIBLE_MIN = 0"

definition KUnregisterBrokerRecord_is_flexible :: "i16 \<Rightarrow> bool" where
  "KUnregisterBrokerRecord_is_flexible version \<longleftrightarrow> KUnregisterBrokerRecord_FLEXIBLE_MIN \<le>s version"

definition KUnregisterBrokerRecord_encode :: "KUnregisterBrokerRecord \<Rightarrow> i16 \<Rightarrow> encoder" where
  "KUnregisterBrokerRecord_encode x version =
     (let flex = KUnregisterBrokerRecord_is_flexible version in
      write_all
        [write_check (contains_version KUnregisterBrokerRecord_MIN_VERSION KUnregisterBrokerRecord_MAX_VERSION ''UnregisterBrokerRecord version out of range'' version),
         put_when (0 \<le>s version) (put_i32 (kub_broker_id x)),
         put_when (0 \<le>s version) (put_i64 (kub_broker_epoch x)),
         put_when flex (put_tagged [] (kub_unknown_tagged_fields x))])"

definition KUnregisterBrokerRecord_encoded_len :: "KUnregisterBrokerRecord \<Rightarrow> i16 \<Rightarrow> nat" where
  "KUnregisterBrokerRecord_encoded_len x version =
     (let flex = KUnregisterBrokerRecord_is_flexible version in
      len_when (0 \<le>s version) 4
      + len_when (0 \<le>s version) 8
      + len_when flex (tagged_size [] (kub_unknown_tagged_fields x)))"

definition KUnregisterBrokerRecord_decode :: "i16 \<Rightarrow> KUnregisterBrokerRecord decoder" where
  "KUnregisterBrokerRecord_decode version =
     (let flex = KUnregisterBrokerRecord_is_flexible version in
      checked (contains_version KUnregisterBrokerRecord_MIN_VERSION KUnregisterBrokerRecord_MAX_VERSION ''UnregisterBrokerRecord version out of range'' version) (
        read_then (get_into (0 \<le>s version) get_i32 (\<lambda>v out. out\<lparr>kub_broker_id := v\<rparr>) KUnregisterBrokerRecord_default) (\<lambda>out.
        read_then (get_into (0 \<le>s version) get_i64 (\<lambda>v out. out\<lparr>kub_broker_epoch := v\<rparr>) out) (\<lambda>out.
        get_trailer flex [] (\<lambda>u out. out\<lparr>kub_unknown_tagged_fields := u\<rparr>) out))))"

definition KUnregisterBrokerRecord_fields_wf :: "i16 \<Rightarrow> KUnregisterBrokerRecord \<Rightarrow> bool" where
  "KUnregisterBrokerRecord_fields_wf version x \<longleftrightarrow>
     True"

definition KUnregisterBrokerRecord_wf :: "i16 \<Rightarrow> KUnregisterBrokerRecord \<Rightarrow> bool" where
  "KUnregisterBrokerRecord_wf version x \<longleftrightarrow>
     version_in KUnregisterBrokerRecord_MIN_VERSION KUnregisterBrokerRecord_MAX_VERSION version \<and> KUnregisterBrokerRecord_fields_wf version x \<and> trailer_ok [] [] (kub_unknown_tagged_fields x)"

lemmas unregister_broker_record_versions =
    KUnregisterBrokerRecord_is_flexible_def KUnregisterBrokerRecord_FLEXIBLE_MIN_def
    KUnregisterBrokerRecord_MIN_VERSION_def KUnregisterBrokerRecord_MAX_VERSION_def version_in_def

lemmas unregister_broker_record_fields =
    Let_def field_ok_def KUnregisterBrokerRecord_fields_wf_def KUnregisterBrokerRecord_is_flexible_def
    KUnregisterBrokerRecord_FLEXIBLE_MIN_def

lemma unregister_broker_record_steps:
  assumes v: "0 \<le>s version" and flex: "flex = (KUnregisterBrokerRecord_is_flexible version)"
  shows "keeps (KUnregisterBrokerRecord_fields_wf version) (get_into (0 \<le>s version) get_i32 (\<lambda>v out. out\<lparr>kub_broker_id := v\<rparr>))"
    and "keeps (KUnregisterBrokerRecord_fields_wf version) (get_into (0 \<le>s version) get_i64 (\<lambda>v out. out\<lparr>kub_broker_epoch := v\<rparr>))"
  unfolding flex 
  by (rule keeps_into; (rule yields_rules)?; simp add: v unregister_broker_record_fields)+

lemma unregister_broker_record_unknown:
  "KUnregisterBrokerRecord_fields_wf version (s\<lparr>kub_unknown_tagged_fields := u\<rparr>) = KUnregisterBrokerRecord_fields_wf version s"
  by (simp_all add: KUnregisterBrokerRecord_fields_wf_def)

lemma unregister_broker_record_yields:
  assumes r: "version_in KUnregisterBrokerRecord_MIN_VERSION KUnregisterBrokerRecord_MAX_VERSION version"
  shows "yields 1 (KUnregisterBrokerRecord_decode version) (KUnregisterBrokerRecord_wf version)"
proof -
  have v: "0 \<le>s version"
    using r by (simp add: unregister_broker_record_versions)
  have d: "KUnregisterBrokerRecord_fields_wf version KUnregisterBrokerRecord_default"
    by (simp add: KUnregisterBrokerRecord_default_def v unregister_broker_record_fields)
  show ?thesis
    unfolding KUnregisterBrokerRecord_decode_def Let_def
    by (rule yields_checked, (rule unregister_broker_record_steps[OF v refl, THEN yields_step], (rule d | assumption))+, rule yields_trailer[OF _ arms_keep_Nil[of "KUnregisterBrokerRecord_fields_wf version" "\<lambda>_. 0"]])
      (simp_all add: v d unregister_broker_record_unknown KUnregisterBrokerRecord_wf_def trailer_ok_def r KUnregisterBrokerRecord_is_flexible_def KUnregisterBrokerRecord_FLEXIBLE_MIN_def)
qed

interpretation unregister_broker_record: message_codec
  KUnregisterBrokerRecord_encode KUnregisterBrokerRecord_decode KUnregisterBrokerRecord_encoded_len "KUnregisterBrokerRecord_wf version" version
  for version
proof
  fix x
  assume w: "KUnregisterBrokerRecord_wf version x"
  then have v: "0 \<le>s version"
    by (simp add: KUnregisterBrokerRecord_wf_def unregister_broker_record_versions)
  show "carries (KUnregisterBrokerRecord_encode x version) (KUnregisterBrokerRecord_decode version) (KUnregisterBrokerRecord_encoded_len x version) x"
    unfolding KUnregisterBrokerRecord_encode_def KUnregisterBrokerRecord_encoded_len_def KUnregisterBrokerRecord_decode_def Let_def
    by (use w[unfolded KUnregisterBrokerRecord_wf_def KUnregisterBrokerRecord_fields_wf_def Let_def] in \<open>elim conjE\<close>, rule carries_cong_len)
      ((rule carries_rules | (erule absent_guarded, assumption) | erule absent_plain
        | simp add: v field_ok_def KUnregisterBrokerRecord_default_def unregister_broker_record_versions)+)
next
  show "yields 1 (KUnregisterBrokerRecord_decode version) (KUnregisterBrokerRecord_wf version)"
    by (rule case_split[OF unregister_broker_record_yields]) (auto simp: KUnregisterBrokerRecord_decode_def Let_def yields_refused)
  show "extends_input (KUnregisterBrokerRecord_decode version)"
    unfolding KUnregisterBrokerRecord_decode_def Let_def by (intro extends_rules)
qed

section \<open>BrokerRegistrationChangeRecord\<close>

definition KBrokerRegistrationChangeRecord_MIN_VERSION :: i16 where
  "KBrokerRegistrationChangeRecord_MIN_VERSION = 0"

definition KBrokerRegistrationChangeRecord_MAX_VERSION :: i16 where
  "KBrokerRegistrationChangeRecord_MAX_VERSION = 3"

definition KBrokerRegistrationChangeRecord_FLEXIBLE_MIN :: i16 where
  "KBrokerRegistrationChangeRecord_FLEXIBLE_MIN = 0"

definition KBrokerRegistrationChangeRecord_is_flexible :: "i16 \<Rightarrow> bool" where
  "KBrokerRegistrationChangeRecord_is_flexible version \<longleftrightarrow> KBrokerRegistrationChangeRecord_FLEXIBLE_MIN \<le>s version"

definition KBrokerRegistrationChangeRecord_encode :: "KBrokerRegistrationChangeRecord \<Rightarrow> i16 \<Rightarrow> encoder" where
  "KBrokerRegistrationChangeRecord_encode x version =
     (let flex = KBrokerRegistrationChangeRecord_is_flexible version in
      write_all
        [write_check (contains_version KBrokerRegistrationChangeRecord_MIN_VERSION KBrokerRegistrationChangeRecord_MAX_VERSION ''BrokerRegistrationChangeRecord version out of range'' version),
         put_when (0 \<le>s version) (put_i32 (kbc_broker_id x)),
         put_when (0 \<le>s version) (put_i64 (kbc_broker_epoch x)),
         put_when flex (put_tagged [(0, kbc_fenced x \<noteq> 0, 1, put_i8 (kbc_fenced x)),
             (1, 1 \<le>s version \<and> kbc_in_controlled_shutdown x \<noteq> 0, 1, put_i8 (kbc_in_controlled_shutdown x)),
             (2, 2 \<le>s version \<and> kbc_log_dirs x \<noteq> [], (array_size flex (\<lambda>_. 16) (kbc_log_dirs x)), put_array flex put_uuid (kbc_log_dirs x)),
             (3, 3 \<le>s version \<and> kbc_cordoned_log_dirs x \<noteq> None, (nullable_array_size flex (\<lambda>_. 16) (kbc_cordoned_log_dirs x)), put_nullable_array flex put_uuid (kbc_cordoned_log_dirs x))] (kbc_unknown_tagged_fields x))])"

definition KBrokerRegistrationChangeRecord_encoded_len :: "KBrokerRegistrationChangeRecord \<Rightarrow> i16 \<Rightarrow> nat" where
  "KBrokerRegistrationChangeRecord_encoded_len x version =
     (let flex = KBrokerRegistrationChangeRecord_is_flexible version in
      len_when (0 \<le>s version) 4
      + len_when (0 \<le>s version) 8
      + len_when flex (tagged_size [(0, kbc_fenced x \<noteq> 0, 1),
                               (1, 1 \<le>s version \<and> kbc_in_controlled_shutdown x \<noteq> 0, 1),
                               (2, 2 \<le>s version \<and> kbc_log_dirs x \<noteq> [], (array_size flex (\<lambda>_. 16) (kbc_log_dirs x))),
                               (3, 3 \<le>s version \<and> kbc_cordoned_log_dirs x \<noteq> None, (nullable_array_size flex (\<lambda>_. 16) (kbc_cordoned_log_dirs x)))] (kbc_unknown_tagged_fields x)))"

definition KBrokerRegistrationChangeRecord_decode :: "i16 \<Rightarrow> KBrokerRegistrationChangeRecord decoder" where
  "KBrokerRegistrationChangeRecord_decode version =
     (let flex = KBrokerRegistrationChangeRecord_is_flexible version in
      checked (contains_version KBrokerRegistrationChangeRecord_MIN_VERSION KBrokerRegistrationChangeRecord_MAX_VERSION ''BrokerRegistrationChangeRecord version out of range'' version) (
        read_then (get_into (0 \<le>s version) get_i32 (\<lambda>v out. out\<lparr>kbc_broker_id := v\<rparr>) KBrokerRegistrationChangeRecord_default) (\<lambda>out.
        read_then (get_into (0 \<le>s version) get_i64 (\<lambda>v out. out\<lparr>kbc_broker_epoch := v\<rparr>) out) (\<lambda>out.
        get_trailer flex [(0, tag_into get_i8 (\<lambda>v out. out\<lparr>kbc_fenced := v\<rparr>)),
                     (1, tag_from 1 (1 \<le>s version) version (tag_into get_i8 (\<lambda>v out. out\<lparr>kbc_in_controlled_shutdown := v\<rparr>))),
                     (2, tag_from 2 (2 \<le>s version) version (tag_into (get_array flex get_uuid) (\<lambda>v out. out\<lparr>kbc_log_dirs := v\<rparr>))),
                     (3, tag_from 3 (3 \<le>s version) version (tag_into (get_nullable_array flex get_uuid) (\<lambda>v out. out\<lparr>kbc_cordoned_log_dirs := v\<rparr>)))] (\<lambda>u out. out\<lparr>kbc_unknown_tagged_fields := u\<rparr>) out))))"

definition KBrokerRegistrationChangeRecord_fields_wf :: "i16 \<Rightarrow> KBrokerRegistrationChangeRecord \<Rightarrow> bool" where
  "KBrokerRegistrationChangeRecord_fields_wf version x \<longleftrightarrow>
     (let flex = KBrokerRegistrationChangeRecord_is_flexible version in
      field_ok (1 \<le>s version) 0 (\<lambda>_. True) (kbc_in_controlled_shutdown x)
      \<and> field_ok (2 \<le>s version) [] (\<lambda>v. array_ok flex uuid_wf v \<and> array_size flex (\<lambda>_. 16) v < 2 ^ 32) (kbc_log_dirs x)
      \<and> field_ok (3 \<le>s version) None (\<lambda>v. pred_option (array_ok flex uuid_wf) v \<and> nullable_array_size flex (\<lambda>_. 16) v < 2 ^ 32) (kbc_cordoned_log_dirs x))"

definition KBrokerRegistrationChangeRecord_present :: "i16 \<Rightarrow> KBrokerRegistrationChangeRecord \<Rightarrow> bool list" where
  "KBrokerRegistrationChangeRecord_present version x =
     [kbc_fenced x \<noteq> 0,
      1 \<le>s version \<and> kbc_in_controlled_shutdown x \<noteq> 0,
      2 \<le>s version \<and> kbc_log_dirs x \<noteq> [],
      3 \<le>s version \<and> kbc_cordoned_log_dirs x \<noteq> None]"

definition KBrokerRegistrationChangeRecord_wf :: "i16 \<Rightarrow> KBrokerRegistrationChangeRecord \<Rightarrow> bool" where
  "KBrokerRegistrationChangeRecord_wf version x \<longleftrightarrow>
     version_in KBrokerRegistrationChangeRecord_MIN_VERSION KBrokerRegistrationChangeRecord_MAX_VERSION version \<and> KBrokerRegistrationChangeRecord_fields_wf version x \<and> trailer_ok [0, 1, 2, 3] (KBrokerRegistrationChangeRecord_present version x) (kbc_unknown_tagged_fields x)"

abbreviation KBrokerRegistrationChangeRecord_read :: "i16 \<Rightarrow> KBrokerRegistrationChangeRecord \<Rightarrow> bool" where
  "KBrokerRegistrationChangeRecord_read version s \<equiv> KBrokerRegistrationChangeRecord_fields_wf version s \<and> present_count (KBrokerRegistrationChangeRecord_present version s) = 0"

lemmas broker_registration_change_record_versions =
    KBrokerRegistrationChangeRecord_is_flexible_def KBrokerRegistrationChangeRecord_FLEXIBLE_MIN_def
    KBrokerRegistrationChangeRecord_MIN_VERSION_def KBrokerRegistrationChangeRecord_MAX_VERSION_def version_in_def

lemmas broker_registration_change_record_fields =
    Let_def field_ok_def KBrokerRegistrationChangeRecord_fields_wf_def KBrokerRegistrationChangeRecord_present_def
    KBrokerRegistrationChangeRecord_is_flexible_def KBrokerRegistrationChangeRecord_FLEXIBLE_MIN_def

lemma broker_registration_change_record_steps:
  assumes v: "0 \<le>s version" and flex: "flex = (KBrokerRegistrationChangeRecord_is_flexible version)"
  shows "keeps (KBrokerRegistrationChangeRecord_read version) (get_into (0 \<le>s version) get_i32 (\<lambda>v out. out\<lparr>kbc_broker_id := v\<rparr>))"
    and "keeps (KBrokerRegistrationChangeRecord_read version) (get_into (0 \<le>s version) get_i64 (\<lambda>v out. out\<lparr>kbc_broker_epoch := v\<rparr>))"
  unfolding flex 
  by (rule keeps_into; (rule yields_rules)?; simp add: v broker_registration_change_record_fields)+

lemma broker_registration_change_record_arms:
  assumes v: "0 \<le>s version" and flex: "flex = (KBrokerRegistrationChangeRecord_is_flexible version)"
  shows "arms_keep (KBrokerRegistrationChangeRecord_fields_wf version) (\<lambda>s. present_count (KBrokerRegistrationChangeRecord_present version s))
    [(0, tag_into get_i8 (\<lambda>v out. out\<lparr>kbc_fenced := v\<rparr>)),
     (1, tag_from 1 (1 \<le>s version) version (tag_into get_i8 (\<lambda>v out. out\<lparr>kbc_in_controlled_shutdown := v\<rparr>))),
     (2, tag_from 2 (2 \<le>s version) version (tag_into (get_array flex get_uuid) (\<lambda>v out. out\<lparr>kbc_log_dirs := v\<rparr>))),
     (3, tag_from 3 (3 \<le>s version) version (tag_into (get_nullable_array flex get_uuid) (\<lambda>v out. out\<lparr>kbc_cordoned_log_dirs := v\<rparr>)))]"
  unfolding flex
  by ((rule arms_keep_Nil arms_keep_Cons accepts_from accepts_into accepts_rules)
    | simp add: v broker_registration_change_record_fields)+

lemma broker_registration_change_record_unknown:
  "KBrokerRegistrationChangeRecord_fields_wf version (s\<lparr>kbc_unknown_tagged_fields := u\<rparr>) = KBrokerRegistrationChangeRecord_fields_wf version s"
  "KBrokerRegistrationChangeRecord_present version (s\<lparr>kbc_unknown_tagged_fields := u\<rparr>) = KBrokerRegistrationChangeRecord_present version s"
  by (simp_all add: KBrokerRegistrationChangeRecord_fields_wf_def KBrokerRegistrationChangeRecord_present_def)

lemma broker_registration_change_record_yields:
  assumes r: "version_in KBrokerRegistrationChangeRecord_MIN_VERSION KBrokerRegistrationChangeRecord_MAX_VERSION version"
  shows "yields 1 (KBrokerRegistrationChangeRecord_decode version) (KBrokerRegistrationChangeRecord_wf version)"
proof -
  have v: "0 \<le>s version"
    using r by (simp add: broker_registration_change_record_versions)
  have d: "KBrokerRegistrationChangeRecord_fields_wf version KBrokerRegistrationChangeRecord_default \<and> present_count (KBrokerRegistrationChangeRecord_present version KBrokerRegistrationChangeRecord_default) = 0"
    by (simp add: KBrokerRegistrationChangeRecord_default_def v broker_registration_change_record_fields)
  show ?thesis
    unfolding KBrokerRegistrationChangeRecord_decode_def Let_def
    by (rule yields_checked, (rule broker_registration_change_record_steps[OF v refl, THEN yields_step], (rule d | assumption))+, rule yields_trailer[OF _ broker_registration_change_record_arms[OF v refl]])
      (simp_all add: v d broker_registration_change_record_unknown KBrokerRegistrationChangeRecord_wf_def trailer_ok_def r KBrokerRegistrationChangeRecord_is_flexible_def KBrokerRegistrationChangeRecord_FLEXIBLE_MIN_def)
qed

interpretation broker_registration_change_record: message_codec
  KBrokerRegistrationChangeRecord_encode KBrokerRegistrationChangeRecord_decode KBrokerRegistrationChangeRecord_encoded_len "KBrokerRegistrationChangeRecord_wf version" version
  for version
proof
  fix x
  assume w: "KBrokerRegistrationChangeRecord_wf version x"
  then have v: "0 \<le>s version"
    by (simp add: KBrokerRegistrationChangeRecord_wf_def broker_registration_change_record_versions)
  show "carries (KBrokerRegistrationChangeRecord_encode x version) (KBrokerRegistrationChangeRecord_decode version) (KBrokerRegistrationChangeRecord_encoded_len x version) x"
    unfolding KBrokerRegistrationChangeRecord_encode_def KBrokerRegistrationChangeRecord_encoded_len_def KBrokerRegistrationChangeRecord_decode_def Let_def
    by (use w[unfolded KBrokerRegistrationChangeRecord_wf_def KBrokerRegistrationChangeRecord_fields_wf_def KBrokerRegistrationChangeRecord_present_def Let_def] in \<open>elim conjE\<close>, rule carries_cong_len)
      ((rule carries_rules | (erule absent_guarded, assumption) | erule absent_plain
        | simp add: v field_ok_def KBrokerRegistrationChangeRecord_default_def broker_registration_change_record_versions)+)
next
  show "yields 1 (KBrokerRegistrationChangeRecord_decode version) (KBrokerRegistrationChangeRecord_wf version)"
    by (rule case_split[OF broker_registration_change_record_yields]) (auto simp: KBrokerRegistrationChangeRecord_decode_def Let_def yields_refused)
  show "extends_input (KBrokerRegistrationChangeRecord_decode version)"
    unfolding KBrokerRegistrationChangeRecord_decode_def Let_def by (intro extends_rules)
qed

section \<open>RegisterControllerRecord\<close>

definition KControllerEndpoint_encode :: "KControllerEndpoint \<Rightarrow> i16 \<Rightarrow> encoder" where
  "KControllerEndpoint_encode x version =
     (let flex = 0 \<le>s version in
      write_all
        [put_when (0 \<le>s version) (put_str flex (kce_name x)),
         put_when (0 \<le>s version) (put_str flex (kce_host x)),
         put_when (0 \<le>s version) (put_u16 (kce_port x)),
         put_when (0 \<le>s version) (put_i16 (kce_security_protocol x)),
         put_when flex (put_tagged [] (kce_unknown_tagged_fields x))])"

definition KControllerEndpoint_encoded_len :: "KControllerEndpoint \<Rightarrow> i16 \<Rightarrow> nat" where
  "KControllerEndpoint_encoded_len x version =
     (let flex = 0 \<le>s version in
      len_when (0 \<le>s version) (str_len flex (kce_name x))
      + len_when (0 \<le>s version) (str_len flex (kce_host x))
      + len_when (0 \<le>s version) 2
      + len_when (0 \<le>s version) 2
      + len_when flex (tagged_size [] (kce_unknown_tagged_fields x)))"

definition KControllerEndpoint_decode :: "i16 \<Rightarrow> KControllerEndpoint decoder" where
  "KControllerEndpoint_decode version =
     (let flex = 0 \<le>s version in
      read_then (get_into (0 \<le>s version) (get_str flex) (\<lambda>v out. out\<lparr>kce_name := v\<rparr>) KControllerEndpoint_default) (\<lambda>out.
        read_then (get_into (0 \<le>s version) (get_str flex) (\<lambda>v out. out\<lparr>kce_host := v\<rparr>) out) (\<lambda>out.
        read_then (get_into (0 \<le>s version) get_u16 (\<lambda>v out. out\<lparr>kce_port := v\<rparr>) out) (\<lambda>out.
        read_then (get_into (0 \<le>s version) get_i16 (\<lambda>v out. out\<lparr>kce_security_protocol := v\<rparr>) out) (\<lambda>out.
        get_trailer flex [] (\<lambda>u out. out\<lparr>kce_unknown_tagged_fields := u\<rparr>) out)))))"

definition KControllerEndpoint_fields_wf :: "i16 \<Rightarrow> KControllerEndpoint \<Rightarrow> bool" where
  "KControllerEndpoint_fields_wf version x \<longleftrightarrow>
     (let flex = 0 \<le>s version in
      str_wf flex (kce_name x)
      \<and> str_wf flex (kce_host x))"

definition KControllerEndpoint_wf :: "i16 \<Rightarrow> KControllerEndpoint \<Rightarrow> bool" where
  "KControllerEndpoint_wf version x \<longleftrightarrow>
     KControllerEndpoint_fields_wf version x \<and> trailer_ok [] [] (kce_unknown_tagged_fields x)"

lemmas controller_endpoint_fields =
    Let_def field_ok_def KControllerEndpoint_fields_wf_def

lemma controller_endpoint_steps:
  assumes v: "0 \<le>s version" and flex: "flex = (0 \<le>s version)"
  shows "keeps (KControllerEndpoint_fields_wf version) (get_into (0 \<le>s version) (get_str flex) (\<lambda>v out. out\<lparr>kce_name := v\<rparr>))"
    and "keeps (KControllerEndpoint_fields_wf version) (get_into (0 \<le>s version) (get_str flex) (\<lambda>v out. out\<lparr>kce_host := v\<rparr>))"
    and "keeps (KControllerEndpoint_fields_wf version) (get_into (0 \<le>s version) get_u16 (\<lambda>v out. out\<lparr>kce_port := v\<rparr>))"
    and "keeps (KControllerEndpoint_fields_wf version) (get_into (0 \<le>s version) get_i16 (\<lambda>v out. out\<lparr>kce_security_protocol := v\<rparr>))"
  unfolding flex 
  by (rule keeps_into; (rule yields_rules)?; simp add: v controller_endpoint_fields)+

lemma controller_endpoint_unknown:
  "KControllerEndpoint_fields_wf version (s\<lparr>kce_unknown_tagged_fields := u\<rparr>) = KControllerEndpoint_fields_wf version s"
  by (simp_all add: KControllerEndpoint_fields_wf_def)

lemma controller_endpoint_yields:
  assumes v: "0 \<le>s version"
  shows "yields 1 (KControllerEndpoint_decode version) (KControllerEndpoint_wf version)"
proof -
  have d: "KControllerEndpoint_fields_wf version KControllerEndpoint_default"
    by (simp add: KControllerEndpoint_default_def v controller_endpoint_fields)
  show ?thesis
    unfolding KControllerEndpoint_decode_def Let_def
    by ((rule controller_endpoint_steps[OF v refl, THEN yields_step], (rule d | assumption))+, rule yields_trailer[OF _ arms_keep_Nil[of "KControllerEndpoint_fields_wf version" "\<lambda>_. 0"]])
      (simp_all add: v d controller_endpoint_unknown KControllerEndpoint_wf_def trailer_ok_def )
qed

lemma controller_endpoint_extends [extends_rules]: "extends_input (KControllerEndpoint_decode version)"
  unfolding KControllerEndpoint_decode_def Let_def by (intro extends_rules)

lemma controller_endpoint_codec:
  assumes v: "0 \<le>s version"
  shows "message_codec KControllerEndpoint_encode KControllerEndpoint_decode KControllerEndpoint_encoded_len (KControllerEndpoint_wf version) version"
proof
  fix x
  assume w: "KControllerEndpoint_wf version x"
  show "carries (KControllerEndpoint_encode x version) (KControllerEndpoint_decode version) (KControllerEndpoint_encoded_len x version) x"
    unfolding KControllerEndpoint_encode_def KControllerEndpoint_encoded_len_def KControllerEndpoint_decode_def Let_def
    by (use w[unfolded KControllerEndpoint_wf_def KControllerEndpoint_fields_wf_def Let_def] in \<open>elim conjE\<close>, rule carries_cong_len)
      ((rule carries_rules | (erule absent_guarded, assumption) | erule absent_plain
        | simp add: v field_ok_def KControllerEndpoint_default_def )+)
next
  show "yields 1 (KControllerEndpoint_decode version) (KControllerEndpoint_wf version)"
    by (rule controller_endpoint_yields[OF v])
qed (rule controller_endpoint_extends)

lemmas [carries_rules] = protocol_codec.put_array_carries[OF message_codec.message_protocol[OF controller_endpoint_codec]]
lemmas [yields_rules] = protocol_codec.get_array_yields[OF message_codec.message_protocol[OF controller_endpoint_codec]]

definition KControllerFeature_encode :: "KControllerFeature \<Rightarrow> i16 \<Rightarrow> encoder" where
  "KControllerFeature_encode x version =
     (let flex = 0 \<le>s version in
      write_all
        [put_when (0 \<le>s version) (put_str flex (kcf_name x)),
         put_when (0 \<le>s version) (put_i16 (kcf_min_supported_version x)),
         put_when (0 \<le>s version) (put_i16 (kcf_max_supported_version x)),
         put_when flex (put_tagged [] (kcf_unknown_tagged_fields x))])"

definition KControllerFeature_encoded_len :: "KControllerFeature \<Rightarrow> i16 \<Rightarrow> nat" where
  "KControllerFeature_encoded_len x version =
     (let flex = 0 \<le>s version in
      len_when (0 \<le>s version) (str_len flex (kcf_name x))
      + len_when (0 \<le>s version) 2
      + len_when (0 \<le>s version) 2
      + len_when flex (tagged_size [] (kcf_unknown_tagged_fields x)))"

definition KControllerFeature_decode :: "i16 \<Rightarrow> KControllerFeature decoder" where
  "KControllerFeature_decode version =
     (let flex = 0 \<le>s version in
      read_then (get_into (0 \<le>s version) (get_str flex) (\<lambda>v out. out\<lparr>kcf_name := v\<rparr>) KControllerFeature_default) (\<lambda>out.
        read_then (get_into (0 \<le>s version) get_i16 (\<lambda>v out. out\<lparr>kcf_min_supported_version := v\<rparr>) out) (\<lambda>out.
        read_then (get_into (0 \<le>s version) get_i16 (\<lambda>v out. out\<lparr>kcf_max_supported_version := v\<rparr>) out) (\<lambda>out.
        get_trailer flex [] (\<lambda>u out. out\<lparr>kcf_unknown_tagged_fields := u\<rparr>) out))))"

definition KControllerFeature_fields_wf :: "i16 \<Rightarrow> KControllerFeature \<Rightarrow> bool" where
  "KControllerFeature_fields_wf version x \<longleftrightarrow>
     (let flex = 0 \<le>s version in
      str_wf flex (kcf_name x))"

definition KControllerFeature_wf :: "i16 \<Rightarrow> KControllerFeature \<Rightarrow> bool" where
  "KControllerFeature_wf version x \<longleftrightarrow>
     KControllerFeature_fields_wf version x \<and> trailer_ok [] [] (kcf_unknown_tagged_fields x)"

lemmas controller_feature_fields =
    Let_def field_ok_def KControllerFeature_fields_wf_def

lemma controller_feature_steps:
  assumes v: "0 \<le>s version" and flex: "flex = (0 \<le>s version)"
  shows "keeps (KControllerFeature_fields_wf version) (get_into (0 \<le>s version) (get_str flex) (\<lambda>v out. out\<lparr>kcf_name := v\<rparr>))"
    and "keeps (KControllerFeature_fields_wf version) (get_into (0 \<le>s version) get_i16 (\<lambda>v out. out\<lparr>kcf_min_supported_version := v\<rparr>))"
    and "keeps (KControllerFeature_fields_wf version) (get_into (0 \<le>s version) get_i16 (\<lambda>v out. out\<lparr>kcf_max_supported_version := v\<rparr>))"
  unfolding flex 
  by (rule keeps_into; (rule yields_rules)?; simp add: v controller_feature_fields)+

lemma controller_feature_unknown:
  "KControllerFeature_fields_wf version (s\<lparr>kcf_unknown_tagged_fields := u\<rparr>) = KControllerFeature_fields_wf version s"
  by (simp_all add: KControllerFeature_fields_wf_def)

lemma controller_feature_yields:
  assumes v: "0 \<le>s version"
  shows "yields 1 (KControllerFeature_decode version) (KControllerFeature_wf version)"
proof -
  have d: "KControllerFeature_fields_wf version KControllerFeature_default"
    by (simp add: KControllerFeature_default_def v controller_feature_fields)
  show ?thesis
    unfolding KControllerFeature_decode_def Let_def
    by ((rule controller_feature_steps[OF v refl, THEN yields_step], (rule d | assumption))+, rule yields_trailer[OF _ arms_keep_Nil[of "KControllerFeature_fields_wf version" "\<lambda>_. 0"]])
      (simp_all add: v d controller_feature_unknown KControllerFeature_wf_def trailer_ok_def )
qed

lemma controller_feature_extends [extends_rules]: "extends_input (KControllerFeature_decode version)"
  unfolding KControllerFeature_decode_def Let_def by (intro extends_rules)

lemma controller_feature_codec:
  assumes v: "0 \<le>s version"
  shows "message_codec KControllerFeature_encode KControllerFeature_decode KControllerFeature_encoded_len (KControllerFeature_wf version) version"
proof
  fix x
  assume w: "KControllerFeature_wf version x"
  show "carries (KControllerFeature_encode x version) (KControllerFeature_decode version) (KControllerFeature_encoded_len x version) x"
    unfolding KControllerFeature_encode_def KControllerFeature_encoded_len_def KControllerFeature_decode_def Let_def
    by (use w[unfolded KControllerFeature_wf_def KControllerFeature_fields_wf_def Let_def] in \<open>elim conjE\<close>, rule carries_cong_len)
      ((rule carries_rules | (erule absent_guarded, assumption) | erule absent_plain
        | simp add: v field_ok_def KControllerFeature_default_def )+)
next
  show "yields 1 (KControllerFeature_decode version) (KControllerFeature_wf version)"
    by (rule controller_feature_yields[OF v])
qed (rule controller_feature_extends)

lemmas [carries_rules] = protocol_codec.put_array_carries[OF message_codec.message_protocol[OF controller_feature_codec]]
lemmas [yields_rules] = protocol_codec.get_array_yields[OF message_codec.message_protocol[OF controller_feature_codec]]

definition KRegisterControllerRecord_MIN_VERSION :: i16 where
  "KRegisterControllerRecord_MIN_VERSION = 0"

definition KRegisterControllerRecord_MAX_VERSION :: i16 where
  "KRegisterControllerRecord_MAX_VERSION = 0"

definition KRegisterControllerRecord_FLEXIBLE_MIN :: i16 where
  "KRegisterControllerRecord_FLEXIBLE_MIN = 0"

definition KRegisterControllerRecord_is_flexible :: "i16 \<Rightarrow> bool" where
  "KRegisterControllerRecord_is_flexible version \<longleftrightarrow> KRegisterControllerRecord_FLEXIBLE_MIN \<le>s version"

definition KRegisterControllerRecord_encode :: "KRegisterControllerRecord \<Rightarrow> i16 \<Rightarrow> encoder" where
  "KRegisterControllerRecord_encode x version =
     (let flex = KRegisterControllerRecord_is_flexible version in
      write_all
        [write_check (contains_version KRegisterControllerRecord_MIN_VERSION KRegisterControllerRecord_MAX_VERSION ''RegisterControllerRecord version out of range'' version),
         put_when (0 \<le>s version) (put_i32 (krc_controller_id x)),
         put_when (0 \<le>s version) (put_uuid (krc_incarnation_id x)),
         put_when (0 \<le>s version) (put_bool (krc_zk_migration_ready x)),
         put_when (0 \<le>s version) (put_array flex (\<lambda>it. KControllerEndpoint_encode it version) (krc_end_points x)),
         put_when (0 \<le>s version) (put_array flex (\<lambda>it. KControllerFeature_encode it version) (krc_features x)),
         put_when flex (put_tagged [] (krc_unknown_tagged_fields x))])"

definition KRegisterControllerRecord_encoded_len :: "KRegisterControllerRecord \<Rightarrow> i16 \<Rightarrow> nat" where
  "KRegisterControllerRecord_encoded_len x version =
     (let flex = KRegisterControllerRecord_is_flexible version in
      len_when (0 \<le>s version) 4
      + len_when (0 \<le>s version) 16
      + len_when (0 \<le>s version) 1
      + len_when (0 \<le>s version) (array_size flex (\<lambda>it. KControllerEndpoint_encoded_len it version) (krc_end_points x))
      + len_when (0 \<le>s version) (array_size flex (\<lambda>it. KControllerFeature_encoded_len it version) (krc_features x))
      + len_when flex (tagged_size [] (krc_unknown_tagged_fields x)))"

definition KRegisterControllerRecord_decode :: "i16 \<Rightarrow> KRegisterControllerRecord decoder" where
  "KRegisterControllerRecord_decode version =
     (let flex = KRegisterControllerRecord_is_flexible version in
      checked (contains_version KRegisterControllerRecord_MIN_VERSION KRegisterControllerRecord_MAX_VERSION ''RegisterControllerRecord version out of range'' version) (
        read_then (get_into (0 \<le>s version) get_i32 (\<lambda>v out. out\<lparr>krc_controller_id := v\<rparr>) KRegisterControllerRecord_default) (\<lambda>out.
        read_then (get_into (0 \<le>s version) get_uuid (\<lambda>v out. out\<lparr>krc_incarnation_id := v\<rparr>) out) (\<lambda>out.
        read_then (get_into (0 \<le>s version) get_bool (\<lambda>v out. out\<lparr>krc_zk_migration_ready := v\<rparr>) out) (\<lambda>out.
        read_then (get_into (0 \<le>s version) (get_array flex (KControllerEndpoint_decode version)) (\<lambda>v out. out\<lparr>krc_end_points := v\<rparr>) out) (\<lambda>out.
        read_then (get_into (0 \<le>s version) (get_array flex (KControllerFeature_decode version)) (\<lambda>v out. out\<lparr>krc_features := v\<rparr>) out) (\<lambda>out.
        get_trailer flex [] (\<lambda>u out. out\<lparr>krc_unknown_tagged_fields := u\<rparr>) out)))))))"

definition KRegisterControllerRecord_fields_wf :: "i16 \<Rightarrow> KRegisterControllerRecord \<Rightarrow> bool" where
  "KRegisterControllerRecord_fields_wf version x \<longleftrightarrow>
     (let flex = KRegisterControllerRecord_is_flexible version in
      uuid_wf (krc_incarnation_id x)
      \<and> array_ok flex (KControllerEndpoint_wf version) (krc_end_points x)
      \<and> array_ok flex (KControllerFeature_wf version) (krc_features x))"

definition KRegisterControllerRecord_wf :: "i16 \<Rightarrow> KRegisterControllerRecord \<Rightarrow> bool" where
  "KRegisterControllerRecord_wf version x \<longleftrightarrow>
     version_in KRegisterControllerRecord_MIN_VERSION KRegisterControllerRecord_MAX_VERSION version \<and> KRegisterControllerRecord_fields_wf version x \<and> trailer_ok [] [] (krc_unknown_tagged_fields x)"

lemmas register_controller_record_versions =
    KRegisterControllerRecord_is_flexible_def KRegisterControllerRecord_FLEXIBLE_MIN_def
    KRegisterControllerRecord_MIN_VERSION_def KRegisterControllerRecord_MAX_VERSION_def version_in_def

lemmas register_controller_record_fields =
    Let_def field_ok_def KRegisterControllerRecord_fields_wf_def KRegisterControllerRecord_is_flexible_def
    KRegisterControllerRecord_FLEXIBLE_MIN_def

lemma register_controller_record_steps:
  assumes v: "0 \<le>s version" and flex: "flex = (KRegisterControllerRecord_is_flexible version)"
  shows "keeps (KRegisterControllerRecord_fields_wf version) (get_into (0 \<le>s version) get_i32 (\<lambda>v out. out\<lparr>krc_controller_id := v\<rparr>))"
    and "keeps (KRegisterControllerRecord_fields_wf version) (get_into (0 \<le>s version) get_uuid (\<lambda>v out. out\<lparr>krc_incarnation_id := v\<rparr>))"
    and "keeps (KRegisterControllerRecord_fields_wf version) (get_into (0 \<le>s version) get_bool (\<lambda>v out. out\<lparr>krc_zk_migration_ready := v\<rparr>))"
    and "keeps (KRegisterControllerRecord_fields_wf version) (get_into (0 \<le>s version) (get_array flex (KControllerEndpoint_decode version)) (\<lambda>v out. out\<lparr>krc_end_points := v\<rparr>))"
    and "keeps (KRegisterControllerRecord_fields_wf version) (get_into (0 \<le>s version) (get_array flex (KControllerFeature_decode version)) (\<lambda>v out. out\<lparr>krc_features := v\<rparr>))"
  unfolding flex 
  by (rule keeps_into; (rule yields_rules)?; simp add: v register_controller_record_fields)+

lemma register_controller_record_unknown:
  "KRegisterControllerRecord_fields_wf version (s\<lparr>krc_unknown_tagged_fields := u\<rparr>) = KRegisterControllerRecord_fields_wf version s"
  by (simp_all add: KRegisterControllerRecord_fields_wf_def)

lemma register_controller_record_yields:
  assumes r: "version_in KRegisterControllerRecord_MIN_VERSION KRegisterControllerRecord_MAX_VERSION version"
  shows "yields 1 (KRegisterControllerRecord_decode version) (KRegisterControllerRecord_wf version)"
proof -
  have v: "0 \<le>s version"
    using r by (simp add: register_controller_record_versions)
  have d: "KRegisterControllerRecord_fields_wf version KRegisterControllerRecord_default"
    by (simp add: KRegisterControllerRecord_default_def v register_controller_record_fields)
  show ?thesis
    unfolding KRegisterControllerRecord_decode_def Let_def
    by (rule yields_checked, (rule register_controller_record_steps[OF v refl, THEN yields_step], (rule d | assumption))+, rule yields_trailer[OF _ arms_keep_Nil[of "KRegisterControllerRecord_fields_wf version" "\<lambda>_. 0"]])
      (simp_all add: v d register_controller_record_unknown KRegisterControllerRecord_wf_def trailer_ok_def r KRegisterControllerRecord_is_flexible_def KRegisterControllerRecord_FLEXIBLE_MIN_def)
qed

interpretation register_controller_record: message_codec
  KRegisterControllerRecord_encode KRegisterControllerRecord_decode KRegisterControllerRecord_encoded_len "KRegisterControllerRecord_wf version" version
  for version
proof
  fix x
  assume w: "KRegisterControllerRecord_wf version x"
  then have v: "0 \<le>s version"
    by (simp add: KRegisterControllerRecord_wf_def register_controller_record_versions)
  show "carries (KRegisterControllerRecord_encode x version) (KRegisterControllerRecord_decode version) (KRegisterControllerRecord_encoded_len x version) x"
    unfolding KRegisterControllerRecord_encode_def KRegisterControllerRecord_encoded_len_def KRegisterControllerRecord_decode_def Let_def
    by (use w[unfolded KRegisterControllerRecord_wf_def KRegisterControllerRecord_fields_wf_def Let_def] in \<open>elim conjE\<close>, rule carries_cong_len)
      ((rule carries_rules | (erule absent_guarded, assumption) | erule absent_plain
        | simp add: v field_ok_def KRegisterControllerRecord_default_def register_controller_record_versions)+)
next
  show "yields 1 (KRegisterControllerRecord_decode version) (KRegisterControllerRecord_wf version)"
    by (rule case_split[OF register_controller_record_yields]) (auto simp: KRegisterControllerRecord_decode_def Let_def yields_refused)
  show "extends_input (KRegisterControllerRecord_decode version)"
    unfolding KRegisterControllerRecord_decode_def Let_def by (intro extends_rules)
qed

section \<open>UnregisterControllerRecord\<close>

definition KUnregisterControllerRecord_MIN_VERSION :: i16 where
  "KUnregisterControllerRecord_MIN_VERSION = 0"

definition KUnregisterControllerRecord_MAX_VERSION :: i16 where
  "KUnregisterControllerRecord_MAX_VERSION = 0"

definition KUnregisterControllerRecord_FLEXIBLE_MIN :: i16 where
  "KUnregisterControllerRecord_FLEXIBLE_MIN = 0"

definition KUnregisterControllerRecord_is_flexible :: "i16 \<Rightarrow> bool" where
  "KUnregisterControllerRecord_is_flexible version \<longleftrightarrow> KUnregisterControllerRecord_FLEXIBLE_MIN \<le>s version"

definition KUnregisterControllerRecord_encode :: "KUnregisterControllerRecord \<Rightarrow> i16 \<Rightarrow> encoder" where
  "KUnregisterControllerRecord_encode x version =
     (let flex = KUnregisterControllerRecord_is_flexible version in
      write_all
        [write_check (contains_version KUnregisterControllerRecord_MIN_VERSION KUnregisterControllerRecord_MAX_VERSION ''UnregisterControllerRecord version out of range'' version),
         put_when (0 \<le>s version) (put_i32 (kuc_controller_id x)),
         put_when flex (put_tagged [] (kuc_unknown_tagged_fields x))])"

definition KUnregisterControllerRecord_encoded_len :: "KUnregisterControllerRecord \<Rightarrow> i16 \<Rightarrow> nat" where
  "KUnregisterControllerRecord_encoded_len x version =
     (let flex = KUnregisterControllerRecord_is_flexible version in
      len_when (0 \<le>s version) 4
      + len_when flex (tagged_size [] (kuc_unknown_tagged_fields x)))"

definition KUnregisterControllerRecord_decode :: "i16 \<Rightarrow> KUnregisterControllerRecord decoder" where
  "KUnregisterControllerRecord_decode version =
     (let flex = KUnregisterControllerRecord_is_flexible version in
      checked (contains_version KUnregisterControllerRecord_MIN_VERSION KUnregisterControllerRecord_MAX_VERSION ''UnregisterControllerRecord version out of range'' version) (
        read_then (get_into (0 \<le>s version) get_i32 (\<lambda>v out. out\<lparr>kuc_controller_id := v\<rparr>) KUnregisterControllerRecord_default) (\<lambda>out.
        get_trailer flex [] (\<lambda>u out. out\<lparr>kuc_unknown_tagged_fields := u\<rparr>) out)))"

definition KUnregisterControllerRecord_fields_wf :: "i16 \<Rightarrow> KUnregisterControllerRecord \<Rightarrow> bool" where
  "KUnregisterControllerRecord_fields_wf version x \<longleftrightarrow>
     True"

definition KUnregisterControllerRecord_wf :: "i16 \<Rightarrow> KUnregisterControllerRecord \<Rightarrow> bool" where
  "KUnregisterControllerRecord_wf version x \<longleftrightarrow>
     version_in KUnregisterControllerRecord_MIN_VERSION KUnregisterControllerRecord_MAX_VERSION version \<and> KUnregisterControllerRecord_fields_wf version x \<and> trailer_ok [] [] (kuc_unknown_tagged_fields x)"

lemmas unregister_controller_record_versions =
    KUnregisterControllerRecord_is_flexible_def KUnregisterControllerRecord_FLEXIBLE_MIN_def
    KUnregisterControllerRecord_MIN_VERSION_def KUnregisterControllerRecord_MAX_VERSION_def version_in_def

lemmas unregister_controller_record_fields =
    Let_def field_ok_def KUnregisterControllerRecord_fields_wf_def KUnregisterControllerRecord_is_flexible_def
    KUnregisterControllerRecord_FLEXIBLE_MIN_def

lemma unregister_controller_record_steps:
  assumes v: "0 \<le>s version" and flex: "flex = (KUnregisterControllerRecord_is_flexible version)"
  shows "keeps (KUnregisterControllerRecord_fields_wf version) (get_into (0 \<le>s version) get_i32 (\<lambda>v out. out\<lparr>kuc_controller_id := v\<rparr>))"
  unfolding flex 
  by (rule keeps_into; (rule yields_rules)?; simp add: v unregister_controller_record_fields)+

lemma unregister_controller_record_unknown:
  "KUnregisterControllerRecord_fields_wf version (s\<lparr>kuc_unknown_tagged_fields := u\<rparr>) = KUnregisterControllerRecord_fields_wf version s"
  by (simp_all add: KUnregisterControllerRecord_fields_wf_def)

lemma unregister_controller_record_yields:
  assumes r: "version_in KUnregisterControllerRecord_MIN_VERSION KUnregisterControllerRecord_MAX_VERSION version"
  shows "yields 1 (KUnregisterControllerRecord_decode version) (KUnregisterControllerRecord_wf version)"
proof -
  have v: "0 \<le>s version"
    using r by (simp add: unregister_controller_record_versions)
  have d: "KUnregisterControllerRecord_fields_wf version KUnregisterControllerRecord_default"
    by (simp add: KUnregisterControllerRecord_default_def v unregister_controller_record_fields)
  show ?thesis
    unfolding KUnregisterControllerRecord_decode_def Let_def
    by (rule yields_checked, (rule unregister_controller_record_steps[OF v refl, THEN yields_step], (rule d | assumption))+, rule yields_trailer[OF _ arms_keep_Nil[of "KUnregisterControllerRecord_fields_wf version" "\<lambda>_. 0"]])
      (simp_all add: v d unregister_controller_record_unknown KUnregisterControllerRecord_wf_def trailer_ok_def r KUnregisterControllerRecord_is_flexible_def KUnregisterControllerRecord_FLEXIBLE_MIN_def)
qed

interpretation unregister_controller_record: message_codec
  KUnregisterControllerRecord_encode KUnregisterControllerRecord_decode KUnregisterControllerRecord_encoded_len "KUnregisterControllerRecord_wf version" version
  for version
proof
  fix x
  assume w: "KUnregisterControllerRecord_wf version x"
  then have v: "0 \<le>s version"
    by (simp add: KUnregisterControllerRecord_wf_def unregister_controller_record_versions)
  show "carries (KUnregisterControllerRecord_encode x version) (KUnregisterControllerRecord_decode version) (KUnregisterControllerRecord_encoded_len x version) x"
    unfolding KUnregisterControllerRecord_encode_def KUnregisterControllerRecord_encoded_len_def KUnregisterControllerRecord_decode_def Let_def
    by (use w[unfolded KUnregisterControllerRecord_wf_def KUnregisterControllerRecord_fields_wf_def Let_def] in \<open>elim conjE\<close>, rule carries_cong_len)
      ((rule carries_rules | (erule absent_guarded, assumption) | erule absent_plain
        | simp add: v field_ok_def KUnregisterControllerRecord_default_def unregister_controller_record_versions)+)
next
  show "yields 1 (KUnregisterControllerRecord_decode version) (KUnregisterControllerRecord_wf version)"
    by (rule case_split[OF unregister_controller_record_yields]) (auto simp: KUnregisterControllerRecord_decode_def Let_def yields_refused)
  show "extends_input (KUnregisterControllerRecord_decode version)"
    unfolding KUnregisterControllerRecord_decode_def Let_def by (intro extends_rules)
qed

section \<open>FeatureLevelRecord\<close>

definition KFeatureLevelRecord_MIN_VERSION :: i16 where
  "KFeatureLevelRecord_MIN_VERSION = 0"

definition KFeatureLevelRecord_MAX_VERSION :: i16 where
  "KFeatureLevelRecord_MAX_VERSION = 0"

definition KFeatureLevelRecord_FLEXIBLE_MIN :: i16 where
  "KFeatureLevelRecord_FLEXIBLE_MIN = 0"

definition KFeatureLevelRecord_is_flexible :: "i16 \<Rightarrow> bool" where
  "KFeatureLevelRecord_is_flexible version \<longleftrightarrow> KFeatureLevelRecord_FLEXIBLE_MIN \<le>s version"

definition KFeatureLevelRecord_encode :: "KFeatureLevelRecord \<Rightarrow> i16 \<Rightarrow> encoder" where
  "KFeatureLevelRecord_encode x version =
     (let flex = KFeatureLevelRecord_is_flexible version in
      write_all
        [write_check (contains_version KFeatureLevelRecord_MIN_VERSION KFeatureLevelRecord_MAX_VERSION ''FeatureLevelRecord version out of range'' version),
         put_when (0 \<le>s version) (put_str flex (kfl_name x)),
         put_when (0 \<le>s version) (put_i16 (kfl_feature_level x)),
         put_when flex (put_tagged [] (kfl_unknown_tagged_fields x))])"

definition KFeatureLevelRecord_encoded_len :: "KFeatureLevelRecord \<Rightarrow> i16 \<Rightarrow> nat" where
  "KFeatureLevelRecord_encoded_len x version =
     (let flex = KFeatureLevelRecord_is_flexible version in
      len_when (0 \<le>s version) (str_len flex (kfl_name x))
      + len_when (0 \<le>s version) 2
      + len_when flex (tagged_size [] (kfl_unknown_tagged_fields x)))"

definition KFeatureLevelRecord_decode :: "i16 \<Rightarrow> KFeatureLevelRecord decoder" where
  "KFeatureLevelRecord_decode version =
     (let flex = KFeatureLevelRecord_is_flexible version in
      checked (contains_version KFeatureLevelRecord_MIN_VERSION KFeatureLevelRecord_MAX_VERSION ''FeatureLevelRecord version out of range'' version) (
        read_then (get_into (0 \<le>s version) (get_str flex) (\<lambda>v out. out\<lparr>kfl_name := v\<rparr>) KFeatureLevelRecord_default) (\<lambda>out.
        read_then (get_into (0 \<le>s version) get_i16 (\<lambda>v out. out\<lparr>kfl_feature_level := v\<rparr>) out) (\<lambda>out.
        get_trailer flex [] (\<lambda>u out. out\<lparr>kfl_unknown_tagged_fields := u\<rparr>) out))))"

definition KFeatureLevelRecord_fields_wf :: "i16 \<Rightarrow> KFeatureLevelRecord \<Rightarrow> bool" where
  "KFeatureLevelRecord_fields_wf version x \<longleftrightarrow>
     (let flex = KFeatureLevelRecord_is_flexible version in
      str_wf flex (kfl_name x))"

definition KFeatureLevelRecord_wf :: "i16 \<Rightarrow> KFeatureLevelRecord \<Rightarrow> bool" where
  "KFeatureLevelRecord_wf version x \<longleftrightarrow>
     version_in KFeatureLevelRecord_MIN_VERSION KFeatureLevelRecord_MAX_VERSION version \<and> KFeatureLevelRecord_fields_wf version x \<and> trailer_ok [] [] (kfl_unknown_tagged_fields x)"

lemmas feature_level_record_versions =
    KFeatureLevelRecord_is_flexible_def KFeatureLevelRecord_FLEXIBLE_MIN_def KFeatureLevelRecord_MIN_VERSION_def
    KFeatureLevelRecord_MAX_VERSION_def version_in_def

lemmas feature_level_record_fields =
    Let_def field_ok_def KFeatureLevelRecord_fields_wf_def KFeatureLevelRecord_is_flexible_def
    KFeatureLevelRecord_FLEXIBLE_MIN_def

lemma feature_level_record_steps:
  assumes v: "0 \<le>s version" and flex: "flex = (KFeatureLevelRecord_is_flexible version)"
  shows "keeps (KFeatureLevelRecord_fields_wf version) (get_into (0 \<le>s version) (get_str flex) (\<lambda>v out. out\<lparr>kfl_name := v\<rparr>))"
    and "keeps (KFeatureLevelRecord_fields_wf version) (get_into (0 \<le>s version) get_i16 (\<lambda>v out. out\<lparr>kfl_feature_level := v\<rparr>))"
  unfolding flex 
  by (rule keeps_into; (rule yields_rules)?; simp add: v feature_level_record_fields)+

lemma feature_level_record_unknown:
  "KFeatureLevelRecord_fields_wf version (s\<lparr>kfl_unknown_tagged_fields := u\<rparr>) = KFeatureLevelRecord_fields_wf version s"
  by (simp_all add: KFeatureLevelRecord_fields_wf_def)

lemma feature_level_record_yields:
  assumes r: "version_in KFeatureLevelRecord_MIN_VERSION KFeatureLevelRecord_MAX_VERSION version"
  shows "yields 1 (KFeatureLevelRecord_decode version) (KFeatureLevelRecord_wf version)"
proof -
  have v: "0 \<le>s version"
    using r by (simp add: feature_level_record_versions)
  have d: "KFeatureLevelRecord_fields_wf version KFeatureLevelRecord_default"
    by (simp add: KFeatureLevelRecord_default_def v feature_level_record_fields)
  show ?thesis
    unfolding KFeatureLevelRecord_decode_def Let_def
    by (rule yields_checked, (rule feature_level_record_steps[OF v refl, THEN yields_step], (rule d | assumption))+, rule yields_trailer[OF _ arms_keep_Nil[of "KFeatureLevelRecord_fields_wf version" "\<lambda>_. 0"]])
      (simp_all add: v d feature_level_record_unknown KFeatureLevelRecord_wf_def trailer_ok_def r KFeatureLevelRecord_is_flexible_def KFeatureLevelRecord_FLEXIBLE_MIN_def)
qed

interpretation feature_level_record: message_codec
  KFeatureLevelRecord_encode KFeatureLevelRecord_decode KFeatureLevelRecord_encoded_len "KFeatureLevelRecord_wf version" version
  for version
proof
  fix x
  assume w: "KFeatureLevelRecord_wf version x"
  then have v: "0 \<le>s version"
    by (simp add: KFeatureLevelRecord_wf_def feature_level_record_versions)
  show "carries (KFeatureLevelRecord_encode x version) (KFeatureLevelRecord_decode version) (KFeatureLevelRecord_encoded_len x version) x"
    unfolding KFeatureLevelRecord_encode_def KFeatureLevelRecord_encoded_len_def KFeatureLevelRecord_decode_def Let_def
    by (use w[unfolded KFeatureLevelRecord_wf_def KFeatureLevelRecord_fields_wf_def Let_def] in \<open>elim conjE\<close>, rule carries_cong_len)
      ((rule carries_rules | (erule absent_guarded, assumption) | erule absent_plain
        | simp add: v field_ok_def KFeatureLevelRecord_default_def feature_level_record_versions)+)
next
  show "yields 1 (KFeatureLevelRecord_decode version) (KFeatureLevelRecord_wf version)"
    by (rule case_split[OF feature_level_record_yields]) (auto simp: KFeatureLevelRecord_decode_def Let_def yields_refused)
  show "extends_input (KFeatureLevelRecord_decode version)"
    unfolding KFeatureLevelRecord_decode_def Let_def by (intro extends_rules)
qed

section \<open>ProducerIdsRecord\<close>

definition KProducerIdsRecord_MIN_VERSION :: i16 where
  "KProducerIdsRecord_MIN_VERSION = 0"

definition KProducerIdsRecord_MAX_VERSION :: i16 where
  "KProducerIdsRecord_MAX_VERSION = 0"

definition KProducerIdsRecord_FLEXIBLE_MIN :: i16 where
  "KProducerIdsRecord_FLEXIBLE_MIN = 0"

definition KProducerIdsRecord_is_flexible :: "i16 \<Rightarrow> bool" where
  "KProducerIdsRecord_is_flexible version \<longleftrightarrow> KProducerIdsRecord_FLEXIBLE_MIN \<le>s version"

definition KProducerIdsRecord_encode :: "KProducerIdsRecord \<Rightarrow> i16 \<Rightarrow> encoder" where
  "KProducerIdsRecord_encode x version =
     (let flex = KProducerIdsRecord_is_flexible version in
      write_all
        [write_check (contains_version KProducerIdsRecord_MIN_VERSION KProducerIdsRecord_MAX_VERSION ''ProducerIdsRecord version out of range'' version),
         put_when (0 \<le>s version) (put_i32 (kpi_broker_id x)),
         put_when (0 \<le>s version) (put_i64 (kpi_broker_epoch x)),
         put_when (0 \<le>s version) (put_i64 (kpi_next_producer_id x)),
         put_when flex (put_tagged [] (kpi_unknown_tagged_fields x))])"

definition KProducerIdsRecord_encoded_len :: "KProducerIdsRecord \<Rightarrow> i16 \<Rightarrow> nat" where
  "KProducerIdsRecord_encoded_len x version =
     (let flex = KProducerIdsRecord_is_flexible version in
      len_when (0 \<le>s version) 4
      + len_when (0 \<le>s version) 8
      + len_when (0 \<le>s version) 8
      + len_when flex (tagged_size [] (kpi_unknown_tagged_fields x)))"

definition KProducerIdsRecord_decode :: "i16 \<Rightarrow> KProducerIdsRecord decoder" where
  "KProducerIdsRecord_decode version =
     (let flex = KProducerIdsRecord_is_flexible version in
      checked (contains_version KProducerIdsRecord_MIN_VERSION KProducerIdsRecord_MAX_VERSION ''ProducerIdsRecord version out of range'' version) (
        read_then (get_into (0 \<le>s version) get_i32 (\<lambda>v out. out\<lparr>kpi_broker_id := v\<rparr>) KProducerIdsRecord_default) (\<lambda>out.
        read_then (get_into (0 \<le>s version) get_i64 (\<lambda>v out. out\<lparr>kpi_broker_epoch := v\<rparr>) out) (\<lambda>out.
        read_then (get_into (0 \<le>s version) get_i64 (\<lambda>v out. out\<lparr>kpi_next_producer_id := v\<rparr>) out) (\<lambda>out.
        get_trailer flex [] (\<lambda>u out. out\<lparr>kpi_unknown_tagged_fields := u\<rparr>) out)))))"

definition KProducerIdsRecord_fields_wf :: "i16 \<Rightarrow> KProducerIdsRecord \<Rightarrow> bool" where
  "KProducerIdsRecord_fields_wf version x \<longleftrightarrow>
     True"

definition KProducerIdsRecord_wf :: "i16 \<Rightarrow> KProducerIdsRecord \<Rightarrow> bool" where
  "KProducerIdsRecord_wf version x \<longleftrightarrow>
     version_in KProducerIdsRecord_MIN_VERSION KProducerIdsRecord_MAX_VERSION version \<and> KProducerIdsRecord_fields_wf version x \<and> trailer_ok [] [] (kpi_unknown_tagged_fields x)"

lemmas producer_ids_record_versions =
    KProducerIdsRecord_is_flexible_def KProducerIdsRecord_FLEXIBLE_MIN_def KProducerIdsRecord_MIN_VERSION_def
    KProducerIdsRecord_MAX_VERSION_def version_in_def

lemmas producer_ids_record_fields =
    Let_def field_ok_def KProducerIdsRecord_fields_wf_def KProducerIdsRecord_is_flexible_def
    KProducerIdsRecord_FLEXIBLE_MIN_def

lemma producer_ids_record_steps:
  assumes v: "0 \<le>s version" and flex: "flex = (KProducerIdsRecord_is_flexible version)"
  shows "keeps (KProducerIdsRecord_fields_wf version) (get_into (0 \<le>s version) get_i32 (\<lambda>v out. out\<lparr>kpi_broker_id := v\<rparr>))"
    and "keeps (KProducerIdsRecord_fields_wf version) (get_into (0 \<le>s version) get_i64 (\<lambda>v out. out\<lparr>kpi_broker_epoch := v\<rparr>))"
    and "keeps (KProducerIdsRecord_fields_wf version) (get_into (0 \<le>s version) get_i64 (\<lambda>v out. out\<lparr>kpi_next_producer_id := v\<rparr>))"
  unfolding flex 
  by (rule keeps_into; (rule yields_rules)?; simp add: v producer_ids_record_fields)+

lemma producer_ids_record_unknown:
  "KProducerIdsRecord_fields_wf version (s\<lparr>kpi_unknown_tagged_fields := u\<rparr>) = KProducerIdsRecord_fields_wf version s"
  by (simp_all add: KProducerIdsRecord_fields_wf_def)

lemma producer_ids_record_yields:
  assumes r: "version_in KProducerIdsRecord_MIN_VERSION KProducerIdsRecord_MAX_VERSION version"
  shows "yields 1 (KProducerIdsRecord_decode version) (KProducerIdsRecord_wf version)"
proof -
  have v: "0 \<le>s version"
    using r by (simp add: producer_ids_record_versions)
  have d: "KProducerIdsRecord_fields_wf version KProducerIdsRecord_default"
    by (simp add: KProducerIdsRecord_default_def v producer_ids_record_fields)
  show ?thesis
    unfolding KProducerIdsRecord_decode_def Let_def
    by (rule yields_checked, (rule producer_ids_record_steps[OF v refl, THEN yields_step], (rule d | assumption))+, rule yields_trailer[OF _ arms_keep_Nil[of "KProducerIdsRecord_fields_wf version" "\<lambda>_. 0"]])
      (simp_all add: v d producer_ids_record_unknown KProducerIdsRecord_wf_def trailer_ok_def r KProducerIdsRecord_is_flexible_def KProducerIdsRecord_FLEXIBLE_MIN_def)
qed

interpretation producer_ids_record: message_codec
  KProducerIdsRecord_encode KProducerIdsRecord_decode KProducerIdsRecord_encoded_len "KProducerIdsRecord_wf version" version
  for version
proof
  fix x
  assume w: "KProducerIdsRecord_wf version x"
  then have v: "0 \<le>s version"
    by (simp add: KProducerIdsRecord_wf_def producer_ids_record_versions)
  show "carries (KProducerIdsRecord_encode x version) (KProducerIdsRecord_decode version) (KProducerIdsRecord_encoded_len x version) x"
    unfolding KProducerIdsRecord_encode_def KProducerIdsRecord_encoded_len_def KProducerIdsRecord_decode_def Let_def
    by (use w[unfolded KProducerIdsRecord_wf_def KProducerIdsRecord_fields_wf_def Let_def] in \<open>elim conjE\<close>, rule carries_cong_len)
      ((rule carries_rules | (erule absent_guarded, assumption) | erule absent_plain
        | simp add: v field_ok_def KProducerIdsRecord_default_def producer_ids_record_versions)+)
next
  show "yields 1 (KProducerIdsRecord_decode version) (KProducerIdsRecord_wf version)"
    by (rule case_split[OF producer_ids_record_yields]) (auto simp: KProducerIdsRecord_decode_def Let_def yields_refused)
  show "extends_input (KProducerIdsRecord_decode version)"
    unfolding KProducerIdsRecord_decode_def Let_def by (intro extends_rules)
qed

section \<open>NoOpRecord\<close>

definition KNoOpRecord_MIN_VERSION :: i16 where
  "KNoOpRecord_MIN_VERSION = 0"

definition KNoOpRecord_MAX_VERSION :: i16 where
  "KNoOpRecord_MAX_VERSION = 0"

definition KNoOpRecord_FLEXIBLE_MIN :: i16 where
  "KNoOpRecord_FLEXIBLE_MIN = 0"

definition KNoOpRecord_is_flexible :: "i16 \<Rightarrow> bool" where
  "KNoOpRecord_is_flexible version \<longleftrightarrow> KNoOpRecord_FLEXIBLE_MIN \<le>s version"

definition KNoOpRecord_encode :: "KNoOpRecord \<Rightarrow> i16 \<Rightarrow> encoder" where
  "KNoOpRecord_encode x version =
     (let flex = KNoOpRecord_is_flexible version in
      write_all
        [write_check (contains_version KNoOpRecord_MIN_VERSION KNoOpRecord_MAX_VERSION ''NoOpRecord version out of range'' version),
         put_when flex (put_tagged [] (kno_unknown_tagged_fields x))])"

definition KNoOpRecord_encoded_len :: "KNoOpRecord \<Rightarrow> i16 \<Rightarrow> nat" where
  "KNoOpRecord_encoded_len x version =
     (let flex = KNoOpRecord_is_flexible version in
      len_when flex (tagged_size [] (kno_unknown_tagged_fields x)))"

definition KNoOpRecord_decode :: "i16 \<Rightarrow> KNoOpRecord decoder" where
  "KNoOpRecord_decode version =
     (let flex = KNoOpRecord_is_flexible version in
      checked (contains_version KNoOpRecord_MIN_VERSION KNoOpRecord_MAX_VERSION ''NoOpRecord version out of range'' version) (
        get_trailer flex [] (\<lambda>u out. out\<lparr>kno_unknown_tagged_fields := u\<rparr>) KNoOpRecord_default))"

definition KNoOpRecord_fields_wf :: "i16 \<Rightarrow> KNoOpRecord \<Rightarrow> bool" where
  "KNoOpRecord_fields_wf version x \<longleftrightarrow>
     True"

definition KNoOpRecord_wf :: "i16 \<Rightarrow> KNoOpRecord \<Rightarrow> bool" where
  "KNoOpRecord_wf version x \<longleftrightarrow>
     version_in KNoOpRecord_MIN_VERSION KNoOpRecord_MAX_VERSION version \<and> KNoOpRecord_fields_wf version x \<and> trailer_ok [] [] (kno_unknown_tagged_fields x)"

lemmas no_op_record_versions =
    KNoOpRecord_is_flexible_def KNoOpRecord_FLEXIBLE_MIN_def KNoOpRecord_MIN_VERSION_def
    KNoOpRecord_MAX_VERSION_def version_in_def

lemmas no_op_record_fields =
    Let_def field_ok_def KNoOpRecord_fields_wf_def KNoOpRecord_is_flexible_def KNoOpRecord_FLEXIBLE_MIN_def

lemma no_op_record_unknown:
  "KNoOpRecord_fields_wf version (s\<lparr>kno_unknown_tagged_fields := u\<rparr>) = KNoOpRecord_fields_wf version s"
  by (simp_all add: KNoOpRecord_fields_wf_def)

lemma no_op_record_yields:
  assumes r: "version_in KNoOpRecord_MIN_VERSION KNoOpRecord_MAX_VERSION version"
  shows "yields 1 (KNoOpRecord_decode version) (KNoOpRecord_wf version)"
proof -
  have v: "0 \<le>s version"
    using r by (simp add: no_op_record_versions)
  have d: "KNoOpRecord_fields_wf version KNoOpRecord_default"
    by (simp add: KNoOpRecord_default_def v no_op_record_fields)
  show ?thesis
    unfolding KNoOpRecord_decode_def Let_def
    by (rule yields_checked, rule yields_trailer[OF _ arms_keep_Nil[of "KNoOpRecord_fields_wf version" "\<lambda>_. 0"]])
      (simp_all add: v d no_op_record_unknown KNoOpRecord_wf_def trailer_ok_def r KNoOpRecord_is_flexible_def KNoOpRecord_FLEXIBLE_MIN_def)
qed

interpretation no_op_record: message_codec
  KNoOpRecord_encode KNoOpRecord_decode KNoOpRecord_encoded_len "KNoOpRecord_wf version" version
  for version
proof
  fix x
  assume w: "KNoOpRecord_wf version x"
  then have v: "0 \<le>s version"
    by (simp add: KNoOpRecord_wf_def no_op_record_versions)
  show "carries (KNoOpRecord_encode x version) (KNoOpRecord_decode version) (KNoOpRecord_encoded_len x version) x"
    unfolding KNoOpRecord_encode_def KNoOpRecord_encoded_len_def KNoOpRecord_decode_def Let_def
    by (use w[unfolded KNoOpRecord_wf_def KNoOpRecord_fields_wf_def Let_def] in \<open>elim conjE\<close>, rule carries_cong_len)
      ((rule carries_rules | (erule absent_guarded, assumption) | erule absent_plain
        | simp add: v field_ok_def KNoOpRecord_default_def no_op_record_versions)+)
next
  show "yields 1 (KNoOpRecord_decode version) (KNoOpRecord_wf version)"
    by (rule case_split[OF no_op_record_yields]) (auto simp: KNoOpRecord_decode_def Let_def yields_refused)
  show "extends_input (KNoOpRecord_decode version)"
    unfolding KNoOpRecord_decode_def Let_def by (intro extends_rules)
qed

section \<open>BeginTransactionRecord\<close>

definition KBeginTransactionRecord_MIN_VERSION :: i16 where
  "KBeginTransactionRecord_MIN_VERSION = 0"

definition KBeginTransactionRecord_MAX_VERSION :: i16 where
  "KBeginTransactionRecord_MAX_VERSION = 0"

definition KBeginTransactionRecord_FLEXIBLE_MIN :: i16 where
  "KBeginTransactionRecord_FLEXIBLE_MIN = 0"

definition KBeginTransactionRecord_is_flexible :: "i16 \<Rightarrow> bool" where
  "KBeginTransactionRecord_is_flexible version \<longleftrightarrow> KBeginTransactionRecord_FLEXIBLE_MIN \<le>s version"

definition KBeginTransactionRecord_encode :: "KBeginTransactionRecord \<Rightarrow> i16 \<Rightarrow> encoder" where
  "KBeginTransactionRecord_encode x version =
     (let flex = KBeginTransactionRecord_is_flexible version in
      write_all
        [write_check (contains_version KBeginTransactionRecord_MIN_VERSION KBeginTransactionRecord_MAX_VERSION ''BeginTransactionRecord version out of range'' version),
         put_when flex (put_tagged [(0, kbt_name x \<noteq> None, (nullable_str_len flex (kbt_name x)), put_nullable_str flex (kbt_name x))] (kbt_unknown_tagged_fields x))])"

definition KBeginTransactionRecord_encoded_len :: "KBeginTransactionRecord \<Rightarrow> i16 \<Rightarrow> nat" where
  "KBeginTransactionRecord_encoded_len x version =
     (let flex = KBeginTransactionRecord_is_flexible version in
      len_when flex (tagged_size [(0, kbt_name x \<noteq> None, (nullable_str_len flex (kbt_name x)))] (kbt_unknown_tagged_fields x)))"

definition KBeginTransactionRecord_decode :: "i16 \<Rightarrow> KBeginTransactionRecord decoder" where
  "KBeginTransactionRecord_decode version =
     (let flex = KBeginTransactionRecord_is_flexible version in
      checked (contains_version KBeginTransactionRecord_MIN_VERSION KBeginTransactionRecord_MAX_VERSION ''BeginTransactionRecord version out of range'' version) (
        get_trailer flex [(0, tag_into (get_nullable_str flex) (\<lambda>v out. out\<lparr>kbt_name := v\<rparr>))] (\<lambda>u out. out\<lparr>kbt_unknown_tagged_fields := u\<rparr>) KBeginTransactionRecord_default))"

definition KBeginTransactionRecord_fields_wf :: "i16 \<Rightarrow> KBeginTransactionRecord \<Rightarrow> bool" where
  "KBeginTransactionRecord_fields_wf version x \<longleftrightarrow>
     (let flex = KBeginTransactionRecord_is_flexible version in
      nullable_str_wf flex (kbt_name x)
      \<and> nullable_str_len flex (kbt_name x) < 2 ^ 32)"

definition KBeginTransactionRecord_present :: "i16 \<Rightarrow> KBeginTransactionRecord \<Rightarrow> bool list" where
  "KBeginTransactionRecord_present version x =
     [kbt_name x \<noteq> None]"

definition KBeginTransactionRecord_wf :: "i16 \<Rightarrow> KBeginTransactionRecord \<Rightarrow> bool" where
  "KBeginTransactionRecord_wf version x \<longleftrightarrow>
     version_in KBeginTransactionRecord_MIN_VERSION KBeginTransactionRecord_MAX_VERSION version \<and> KBeginTransactionRecord_fields_wf version x \<and> trailer_ok [0] (KBeginTransactionRecord_present version x) (kbt_unknown_tagged_fields x)"

abbreviation KBeginTransactionRecord_read :: "i16 \<Rightarrow> KBeginTransactionRecord \<Rightarrow> bool" where
  "KBeginTransactionRecord_read version s \<equiv> KBeginTransactionRecord_fields_wf version s \<and> present_count (KBeginTransactionRecord_present version s) = 0"

lemmas begin_transaction_record_versions =
    KBeginTransactionRecord_is_flexible_def KBeginTransactionRecord_FLEXIBLE_MIN_def
    KBeginTransactionRecord_MIN_VERSION_def KBeginTransactionRecord_MAX_VERSION_def version_in_def

lemmas begin_transaction_record_fields =
    Let_def field_ok_def KBeginTransactionRecord_fields_wf_def KBeginTransactionRecord_present_def
    KBeginTransactionRecord_is_flexible_def KBeginTransactionRecord_FLEXIBLE_MIN_def

lemma begin_transaction_record_arms:
  assumes v: "0 \<le>s version" and flex: "flex = (KBeginTransactionRecord_is_flexible version)"
  shows "arms_keep (KBeginTransactionRecord_fields_wf version) (\<lambda>s. present_count (KBeginTransactionRecord_present version s))
    [(0, tag_into (get_nullable_str flex) (\<lambda>v out. out\<lparr>kbt_name := v\<rparr>))]"
  unfolding flex
  by ((rule arms_keep_Nil arms_keep_Cons accepts_from accepts_into accepts_rules)
    | simp add: v begin_transaction_record_fields)+

lemma begin_transaction_record_unknown:
  "KBeginTransactionRecord_fields_wf version (s\<lparr>kbt_unknown_tagged_fields := u\<rparr>) = KBeginTransactionRecord_fields_wf version s"
  "KBeginTransactionRecord_present version (s\<lparr>kbt_unknown_tagged_fields := u\<rparr>) = KBeginTransactionRecord_present version s"
  by (simp_all add: KBeginTransactionRecord_fields_wf_def KBeginTransactionRecord_present_def)

lemma begin_transaction_record_yields:
  assumes r: "version_in KBeginTransactionRecord_MIN_VERSION KBeginTransactionRecord_MAX_VERSION version"
  shows "yields 1 (KBeginTransactionRecord_decode version) (KBeginTransactionRecord_wf version)"
proof -
  have v: "0 \<le>s version"
    using r by (simp add: begin_transaction_record_versions)
  have d: "KBeginTransactionRecord_fields_wf version KBeginTransactionRecord_default \<and> present_count (KBeginTransactionRecord_present version KBeginTransactionRecord_default) = 0"
    by (simp add: KBeginTransactionRecord_default_def v begin_transaction_record_fields)
  show ?thesis
    unfolding KBeginTransactionRecord_decode_def Let_def
    by (rule yields_checked, rule yields_trailer[OF _ begin_transaction_record_arms[OF v refl]])
      (simp_all add: v d begin_transaction_record_unknown KBeginTransactionRecord_wf_def trailer_ok_def r KBeginTransactionRecord_is_flexible_def KBeginTransactionRecord_FLEXIBLE_MIN_def)
qed

interpretation begin_transaction_record: message_codec
  KBeginTransactionRecord_encode KBeginTransactionRecord_decode KBeginTransactionRecord_encoded_len "KBeginTransactionRecord_wf version" version
  for version
proof
  fix x
  assume w: "KBeginTransactionRecord_wf version x"
  then have v: "0 \<le>s version"
    by (simp add: KBeginTransactionRecord_wf_def begin_transaction_record_versions)
  show "carries (KBeginTransactionRecord_encode x version) (KBeginTransactionRecord_decode version) (KBeginTransactionRecord_encoded_len x version) x"
    unfolding KBeginTransactionRecord_encode_def KBeginTransactionRecord_encoded_len_def KBeginTransactionRecord_decode_def Let_def
    by (use w[unfolded KBeginTransactionRecord_wf_def KBeginTransactionRecord_fields_wf_def KBeginTransactionRecord_present_def Let_def] in \<open>elim conjE\<close>, rule carries_cong_len)
      ((rule carries_rules | (erule absent_guarded, assumption) | erule absent_plain
        | simp add: v field_ok_def KBeginTransactionRecord_default_def begin_transaction_record_versions)+)
next
  show "yields 1 (KBeginTransactionRecord_decode version) (KBeginTransactionRecord_wf version)"
    by (rule case_split[OF begin_transaction_record_yields]) (auto simp: KBeginTransactionRecord_decode_def Let_def yields_refused)
  show "extends_input (KBeginTransactionRecord_decode version)"
    unfolding KBeginTransactionRecord_decode_def Let_def by (intro extends_rules)
qed

section \<open>EndTransactionRecord\<close>

definition KEndTransactionRecord_MIN_VERSION :: i16 where
  "KEndTransactionRecord_MIN_VERSION = 0"

definition KEndTransactionRecord_MAX_VERSION :: i16 where
  "KEndTransactionRecord_MAX_VERSION = 0"

definition KEndTransactionRecord_FLEXIBLE_MIN :: i16 where
  "KEndTransactionRecord_FLEXIBLE_MIN = 0"

definition KEndTransactionRecord_is_flexible :: "i16 \<Rightarrow> bool" where
  "KEndTransactionRecord_is_flexible version \<longleftrightarrow> KEndTransactionRecord_FLEXIBLE_MIN \<le>s version"

definition KEndTransactionRecord_encode :: "KEndTransactionRecord \<Rightarrow> i16 \<Rightarrow> encoder" where
  "KEndTransactionRecord_encode x version =
     (let flex = KEndTransactionRecord_is_flexible version in
      write_all
        [write_check (contains_version KEndTransactionRecord_MIN_VERSION KEndTransactionRecord_MAX_VERSION ''EndTransactionRecord version out of range'' version),
         put_when flex (put_tagged [] (ket_unknown_tagged_fields x))])"

definition KEndTransactionRecord_encoded_len :: "KEndTransactionRecord \<Rightarrow> i16 \<Rightarrow> nat" where
  "KEndTransactionRecord_encoded_len x version =
     (let flex = KEndTransactionRecord_is_flexible version in
      len_when flex (tagged_size [] (ket_unknown_tagged_fields x)))"

definition KEndTransactionRecord_decode :: "i16 \<Rightarrow> KEndTransactionRecord decoder" where
  "KEndTransactionRecord_decode version =
     (let flex = KEndTransactionRecord_is_flexible version in
      checked (contains_version KEndTransactionRecord_MIN_VERSION KEndTransactionRecord_MAX_VERSION ''EndTransactionRecord version out of range'' version) (
        get_trailer flex [] (\<lambda>u out. out\<lparr>ket_unknown_tagged_fields := u\<rparr>) KEndTransactionRecord_default))"

definition KEndTransactionRecord_fields_wf :: "i16 \<Rightarrow> KEndTransactionRecord \<Rightarrow> bool" where
  "KEndTransactionRecord_fields_wf version x \<longleftrightarrow>
     True"

definition KEndTransactionRecord_wf :: "i16 \<Rightarrow> KEndTransactionRecord \<Rightarrow> bool" where
  "KEndTransactionRecord_wf version x \<longleftrightarrow>
     version_in KEndTransactionRecord_MIN_VERSION KEndTransactionRecord_MAX_VERSION version \<and> KEndTransactionRecord_fields_wf version x \<and> trailer_ok [] [] (ket_unknown_tagged_fields x)"

lemmas end_transaction_record_versions =
    KEndTransactionRecord_is_flexible_def KEndTransactionRecord_FLEXIBLE_MIN_def
    KEndTransactionRecord_MIN_VERSION_def KEndTransactionRecord_MAX_VERSION_def version_in_def

lemmas end_transaction_record_fields =
    Let_def field_ok_def KEndTransactionRecord_fields_wf_def KEndTransactionRecord_is_flexible_def
    KEndTransactionRecord_FLEXIBLE_MIN_def

lemma end_transaction_record_unknown:
  "KEndTransactionRecord_fields_wf version (s\<lparr>ket_unknown_tagged_fields := u\<rparr>) = KEndTransactionRecord_fields_wf version s"
  by (simp_all add: KEndTransactionRecord_fields_wf_def)

lemma end_transaction_record_yields:
  assumes r: "version_in KEndTransactionRecord_MIN_VERSION KEndTransactionRecord_MAX_VERSION version"
  shows "yields 1 (KEndTransactionRecord_decode version) (KEndTransactionRecord_wf version)"
proof -
  have v: "0 \<le>s version"
    using r by (simp add: end_transaction_record_versions)
  have d: "KEndTransactionRecord_fields_wf version KEndTransactionRecord_default"
    by (simp add: KEndTransactionRecord_default_def v end_transaction_record_fields)
  show ?thesis
    unfolding KEndTransactionRecord_decode_def Let_def
    by (rule yields_checked, rule yields_trailer[OF _ arms_keep_Nil[of "KEndTransactionRecord_fields_wf version" "\<lambda>_. 0"]])
      (simp_all add: v d end_transaction_record_unknown KEndTransactionRecord_wf_def trailer_ok_def r KEndTransactionRecord_is_flexible_def KEndTransactionRecord_FLEXIBLE_MIN_def)
qed

interpretation end_transaction_record: message_codec
  KEndTransactionRecord_encode KEndTransactionRecord_decode KEndTransactionRecord_encoded_len "KEndTransactionRecord_wf version" version
  for version
proof
  fix x
  assume w: "KEndTransactionRecord_wf version x"
  then have v: "0 \<le>s version"
    by (simp add: KEndTransactionRecord_wf_def end_transaction_record_versions)
  show "carries (KEndTransactionRecord_encode x version) (KEndTransactionRecord_decode version) (KEndTransactionRecord_encoded_len x version) x"
    unfolding KEndTransactionRecord_encode_def KEndTransactionRecord_encoded_len_def KEndTransactionRecord_decode_def Let_def
    by (use w[unfolded KEndTransactionRecord_wf_def KEndTransactionRecord_fields_wf_def Let_def] in \<open>elim conjE\<close>, rule carries_cong_len)
      ((rule carries_rules | (erule absent_guarded, assumption) | erule absent_plain
        | simp add: v field_ok_def KEndTransactionRecord_default_def end_transaction_record_versions)+)
next
  show "yields 1 (KEndTransactionRecord_decode version) (KEndTransactionRecord_wf version)"
    by (rule case_split[OF end_transaction_record_yields]) (auto simp: KEndTransactionRecord_decode_def Let_def yields_refused)
  show "extends_input (KEndTransactionRecord_decode version)"
    unfolding KEndTransactionRecord_decode_def Let_def by (intro extends_rules)
qed

end
