(* ===== verification/KraftAccessCodecs.thy ===== *)
theory KraftAccessCodecs
  imports GeneratedCodec KraftRecords
begin

text \<open>
  The generated encoders and decoders of the metadata records about principals: \<open>ClientQuotaRecord\<close>,
  \<open>AccessControlEntryRecord\<close>, \<open>RemoveAccessControlEntryRecord\<close>, \<open>UserScramCredentialRecord\<close>,
  \<open>RemoveUserScramCredentialRecord\<close>, \<open>DelegationTokenRecord\<close>, \<open>RemoveDelegationTokenRecord\<close>
  (\<open>crates/protocol/generated/*.owned.rs\<close>; the structures are in \<open>KraftRecords\<close>). For a record \<open>R\<close> there are
  its \<open>MIN_VERSION\<close>, \<open>MAX_VERSION\<close> and \<open>is_flexible\<close>, the methods \<open>encode\<close>, \<open>encoded_len\<close> and \<open>decode\<close> (with
  one definition per helper where the generator splits them into \<open>encode_field_n\<close>, \<open>decode_field_n\<close> and the two
  tagged-field parts), and \<open>R_wf\<close>: what the fields must satisfy for the record to be written at a version. A
  field the version does not carry has to hold its default, the lengths have to fit their prefixes, and the
  unknown tagged fields have to avoid the known tags.

  The interpretation of \<open>message_codec\<close> after each record discharges the contract for the three methods:
  the encoder writes exactly \<open>encoded_len\<close> bytes, the decoder reads them back to the same record whatever
  follows, decoding a prefix does not depend on what follows, and whatever the decoder accepts is again a
  record of \<open>R_wf\<close>.
\<close>

section \<open>ClientQuotaRecord\<close>

definition KEntityData_encode :: "KEntityData \<Rightarrow> i16 \<Rightarrow> encoder" where
  "KEntityData_encode x version =
     (let flex = 0 \<le>s version in
      write_all
        [put_when (0 \<le>s version) (put_str flex (ked_entity_type x)),
         put_when (0 \<le>s version) (put_nullable_str flex (ked_entity_name x)),
         put_when flex (put_tagged [] (ked_unknown_tagged_fields x))])"

definition KEntityData_encoded_len :: "KEntityData \<Rightarrow> i16 \<Rightarrow> nat" where
  "KEntityData_encoded_len x version =
     (let flex = 0 \<le>s version in
      len_when (0 \<le>s version) (str_len flex (ked_entity_type x))
      + len_when (0 \<le>s version) (nullable_str_len flex (ked_entity_name x))
      + len_when flex (tagged_size [] (ked_unknown_tagged_fields x)))"

definition KEntityData_decode :: "i16 \<Rightarrow> KEntityData decoder" where
  "KEntityData_decode version =
     (let flex = 0 \<le>s version in
      read_then (get_into (0 \<le>s version) (get_str flex) (\<lambda>v out. out\<lparr>ked_entity_type := v\<rparr>) KEntityData_default) (\<lambda>out.
        read_then (get_into (0 \<le>s version) (get_nullable_str flex) (\<lambda>v out. out\<lparr>ked_entity_name := v\<rparr>) out) (\<lambda>out.
        get_trailer flex [] (\<lambda>u out. out\<lparr>ked_unknown_tagged_fields := u\<rparr>) out)))"

definition KEntityData_fields_wf :: "i16 \<Rightarrow> KEntityData \<Rightarrow> bool" where
  "KEntityData_fields_wf version x \<longleftrightarrow>
     (let flex = 0 \<le>s version in
      str_wf flex (ked_entity_type x)
      \<and> nullable_str_wf flex (ked_entity_name x))"

definition KEntityData_wf :: "i16 \<Rightarrow> KEntityData \<Rightarrow> bool" where
  "KEntityData_wf version x \<longleftrightarrow>
     KEntityData_fields_wf version x \<and> trailer_ok [] [] (ked_unknown_tagged_fields x)"

lemmas entity_data_fields =
    Let_def field_ok_def KEntityData_fields_wf_def

lemma entity_data_steps:
  assumes v: "0 \<le>s version" and flex: "flex = (0 \<le>s version)"
  shows "keeps (KEntityData_fields_wf version) (get_into (0 \<le>s version) (get_str flex) (\<lambda>v out. out\<lparr>ked_entity_type := v\<rparr>))"
    and "keeps (KEntityData_fields_wf version) (get_into (0 \<le>s version) (get_nullable_str flex) (\<lambda>v out. out\<lparr>ked_entity_name := v\<rparr>))"
  unfolding flex 
  by (rule keeps_into; (rule yields_rules)?; simp add: v entity_data_fields)+

lemma entity_data_unknown:
  "KEntityData_fields_wf version (s\<lparr>ked_unknown_tagged_fields := u\<rparr>) = KEntityData_fields_wf version s"
  by (simp_all add: KEntityData_fields_wf_def)

lemma entity_data_yields:
  assumes v: "0 \<le>s version"
  shows "yields 1 (KEntityData_decode version) (KEntityData_wf version)"
proof -
  have d: "KEntityData_fields_wf version KEntityData_default"
    by (simp add: KEntityData_default_def v entity_data_fields)
  show ?thesis
    unfolding KEntityData_decode_def Let_def
    by ((rule entity_data_steps[OF v refl, THEN yields_step], (rule d | assumption))+, rule yields_trailer[OF _ arms_keep_Nil[of "KEntityData_fields_wf version" "\<lambda>_. 0"]])
      (simp_all add: v d entity_data_unknown KEntityData_wf_def trailer_ok_def )
qed

lemma entity_data_extends [extends_rules]: "extends_input (KEntityData_decode version)"
  unfolding KEntityData_decode_def Let_def by (intro extends_rules)

lemma entity_data_codec:
  assumes v: "0 \<le>s version"
  shows "message_codec KEntityData_encode KEntityData_decode KEntityData_encoded_len (KEntityData_wf version) version"
proof
  fix x
  assume w: "KEntityData_wf version x"
  show "carries (KEntityData_encode x version) (KEntityData_decode version) (KEntityData_encoded_len x version) x"
    unfolding KEntityData_encode_def KEntityData_encoded_len_def KEntityData_decode_def Let_def
    by (use w[unfolded KEntityData_wf_def KEntityData_fields_wf_def Let_def] in \<open>elim conjE\<close>, rule carries_cong_len)
      ((rule carries_rules | (erule absent_guarded, assumption) | erule absent_plain
        | simp add: v field_ok_def KEntityData_default_def )+)
next
  show "yields 1 (KEntityData_decode version) (KEntityData_wf version)"
    by (rule entity_data_yields[OF v])
qed (rule entity_data_extends)

lemmas [carries_rules] = protocol_codec.put_array_carries[OF message_codec.message_protocol[OF entity_data_codec]]
lemmas [yields_rules] = protocol_codec.get_array_yields[OF message_codec.message_protocol[OF entity_data_codec]]

definition KClientQuotaRecord_MIN_VERSION :: i16 where
  "KClientQuotaRecord_MIN_VERSION = 0"

definition KClientQuotaRecord_MAX_VERSION :: i16 where
  "KClientQuotaRecord_MAX_VERSION = 0"

definition KClientQuotaRecord_FLEXIBLE_MIN :: i16 where
  "KClientQuotaRecord_FLEXIBLE_MIN = 0"

definition KClientQuotaRecord_is_flexible :: "i16 \<Rightarrow> bool" where
  "KClientQuotaRecord_is_flexible version \<longleftrightarrow> KClientQuotaRecord_FLEXIBLE_MIN \<le>s version"

definition KClientQuotaRecord_encode :: "KClientQuotaRecord \<Rightarrow> i16 \<Rightarrow> encoder" where
  "KClientQuotaRecord_encode x version =
     (let flex = KClientQuotaRecord_is_flexible version in
      write_all
        [write_check (contains_version KClientQuotaRecord_MIN_VERSION KClientQuotaRecord_MAX_VERSION ''ClientQuotaRecord version out of range'' version),
         put_when (0 \<le>s version) (put_array flex (\<lambda>it. KEntityData_encode it version) (kcq_entity x)),
         put_when (0 \<le>s version) (put_str flex (kcq_key x)),
         put_when (0 \<le>s version) (put_f64 (kcq_value x)),
         put_when (0 \<le>s version) (put_bool (kcq_remove x)),
         put_when flex (put_tagged [] (kcq_unknown_tagged_fields x))])"

definition KClientQuotaRecord_encoded_len :: "KClientQuotaRecord \<Rightarrow> i16 \<Rightarrow> nat" where
  "KClientQuotaRecord_encoded_len x version =
     (let flex = KClientQuotaRecord_is_flexible version in
      len_when (0 \<le>s version) (array_size flex (\<lambda>it. KEntityData_encoded_len it version) (kcq_entity x))
      + len_when (0 \<le>s version) (str_len flex (kcq_key x))
      + len_when (0 \<le>s version) 8
      + len_when (0 \<le>s version) 1
      + len_when flex (tagged_size [] (kcq_unknown_tagged_fields x)))"

definition KClientQuotaRecord_decode :: "i16 \<Rightarrow> KClientQuotaRecord decoder" where
  "KClientQuotaRecord_decode version =
     (let flex = KClientQuotaRecord_is_flexible version in
      checked (contains_version KClientQuotaRecord_MIN_VERSION KClientQuotaRecord_MAX_VERSION ''ClientQuotaRecord version out of range'' version) (
        read_then (get_into (0 \<le>s version) (get_array flex (KEntityData_decode version)) (\<lambda>v out. out\<lparr>kcq_entity := v\<rparr>) KClientQuotaRecord_default) (\<lambda>out.
        read_then (get_into (0 \<le>s version) (get_str flex) (\<lambda>v out. out\<lparr>kcq_key := v\<rparr>) out) (\<lambda>out.
        read_then (get_into (0 \<le>s version) get_f64 (\<lambda>v out. out\<lparr>kcq_value := v\<rparr>) out) (\<lambda>out.
        read_then (get_into (0 \<le>s version) get_bool (\<lambda>v out. out\<lparr>kcq_remove := v\<rparr>) out) (\<lambda>out.
        get_trailer flex [] (\<lambda>u out. out\<lparr>kcq_unknown_tagged_fields := u\<rparr>) out))))))"

definition KClientQuotaRecord_fields_wf :: "i16 \<Rightarrow> KClientQuotaRecord \<Rightarrow> bool" where
  "KClientQuotaRecord_fields_wf version x \<longleftrightarrow>
     (let flex = KClientQuotaRecord_is_flexible version in
      array_ok flex (KEntityData_wf version) (kcq_entity x)
      \<and> str_wf flex (kcq_key x))"

definition KClientQuotaRecord_wf :: "i16 \<Rightarrow> KClientQuotaRecord \<Rightarrow> bool" where
  "KClientQuotaRecord_wf version x \<longleftrightarrow>
     version_in KClientQuotaRecord_MIN_VERSION KClientQuotaRecord_MAX_VERSION version \<and> KClientQuotaRecord_fields_wf version x \<and> trailer_ok [] [] (kcq_unknown_tagged_fields x)"

lemmas client_quota_record_versions =
    KClientQuotaRecord_is_flexible_def KClientQuotaRecord_FLEXIBLE_MIN_def KClientQuotaRecord_MIN_VERSION_def
    KClientQuotaRecord_MAX_VERSION_def version_in_def

lemmas client_quota_record_fields =
    Let_def field_ok_def KClientQuotaRecord_fields_wf_def KClientQuotaRecord_is_flexible_def
    KClientQuotaRecord_FLEXIBLE_MIN_def

lemma client_quota_record_steps:
  assumes v: "0 \<le>s version" and flex: "flex = (KClientQuotaRecord_is_flexible version)"
  shows "keeps (KClientQuotaRecord_fields_wf version) (get_into (0 \<le>s version) (get_array flex (KEntityData_decode version)) (\<lambda>v out. out\<lparr>kcq_entity := v\<rparr>))"
    and "keeps (KClientQuotaRecord_fields_wf version) (get_into (0 \<le>s version) (get_str flex) (\<lambda>v out. out\<lparr>kcq_key := v\<rparr>))"
    and "keeps (KClientQuotaRecord_fields_wf version) (get_into (0 \<le>s version) get_f64 (\<lambda>v out. out\<lparr>kcq_value := v\<rparr>))"
    and "keeps (KClientQuotaRecord_fields_wf version) (get_into (0 \<le>s version) get_bool (\<lambda>v out. out\<lparr>kcq_remove := v\<rparr>))"
  unfolding flex 
  by (rule keeps_into; (rule yields_rules)?; simp add: v client_quota_record_fields)+

lemma client_quota_record_unknown:
  "KClientQuotaRecord_fields_wf version (s\<lparr>kcq_unknown_tagged_fields := u\<rparr>) = KClientQuotaRecord_fields_wf version s"
  by (simp_all add: KClientQuotaRecord_fields_wf_def)

lemma client_quota_record_yields:
  assumes r: "version_in KClientQuotaRecord_MIN_VERSION KClientQuotaRecord_MAX_VERSION version"
  shows "yields 1 (KClientQuotaRecord_decode version) (KClientQuotaRecord_wf version)"
proof -
  have v: "0 \<le>s version"
    using r by (simp add: client_quota_record_versions)
  have d: "KClientQuotaRecord_fields_wf version KClientQuotaRecord_default"
    by (simp add: KClientQuotaRecord_default_def v client_quota_record_fields)
  show ?thesis
    unfolding KClientQuotaRecord_decode_def Let_def
    by (rule yields_checked, (rule client_quota_record_steps[OF v refl, THEN yields_step], (rule d | assumption))+, rule yields_trailer[OF _ arms_keep_Nil[of "KClientQuotaRecord_fields_wf version" "\<lambda>_. 0"]])
      (simp_all add: v d client_quota_record_unknown KClientQuotaRecord_wf_def trailer_ok_def r KClientQuotaRecord_is_flexible_def KClientQuotaRecord_FLEXIBLE_MIN_def)
qed

interpretation client_quota_record: message_codec
  KClientQuotaRecord_encode KClientQuotaRecord_decode KClientQuotaRecord_encoded_len "KClientQuotaRecord_wf version" version
  for version
proof
  fix x
  assume w: "KClientQuotaRecord_wf version x"
  then have v: "0 \<le>s version"
    by (simp add: KClientQuotaRecord_wf_def client_quota_record_versions)
  show "carries (KClientQuotaRecord_encode x version) (KClientQuotaRecord_decode version) (KClientQuotaRecord_encoded_len x version) x"
    unfolding KClientQuotaRecord_encode_def KClientQuotaRecord_encoded_len_def KClientQuotaRecord_decode_def Let_def
    by (use w[unfolded KClientQuotaRecord_wf_def KClientQuotaRecord_fields_wf_def Let_def] in \<open>elim conjE\<close>, rule carries_cong_len)
      ((rule carries_rules | (erule absent_guarded, assumption) | erule absent_plain
        | simp add: v field_ok_def KClientQuotaRecord_default_def client_quota_record_versions)+)
next
  show "yields 1 (KClientQuotaRecord_decode version) (KClientQuotaRecord_wf version)"
    by (rule case_split[OF client_quota_record_yields]) (auto simp: KClientQuotaRecord_decode_def Let_def yields_refused)
  show "extends_input (KClientQuotaRecord_decode version)"
    unfolding KClientQuotaRecord_decode_def Let_def by (intro extends_rules)
qed

section \<open>AccessControlEntryRecord\<close>

definition KAccessControlEntryRecord_MIN_VERSION :: i16 where
  "KAccessControlEntryRecord_MIN_VERSION = 0"

definition KAccessControlEntryRecord_MAX_VERSION :: i16 where
  "KAccessControlEntryRecord_MAX_VERSION = 0"

definition KAccessControlEntryRecord_FLEXIBLE_MIN :: i16 where
  "KAccessControlEntryRecord_FLEXIBLE_MIN = 0"

definition KAccessControlEntryRecord_is_flexible :: "i16 \<Rightarrow> bool" where
  "KAccessControlEntryRecord_is_flexible version \<longleftrightarrow> KAccessControlEntryRecord_FLEXIBLE_MIN \<le>s version"

definition KAccessControlEntryRecord_encode_field_0 :: "KAccessControlEntryRecord \<Rightarrow> i16 \<Rightarrow> bool \<Rightarrow> encoder" where
  "KAccessControlEntryRecord_encode_field_0 x version flex = put_when (0 \<le>s version) (put_uuid (kace_id x))"

definition KAccessControlEntryRecord_encode_field_1 :: "KAccessControlEntryRecord \<Rightarrow> i16 \<Rightarrow> bool \<Rightarrow> encoder" where
  "KAccessControlEntryRecord_encode_field_1 x version flex = put_when (0 \<le>s version) (put_i8 (kace_resource_type x))"

definition KAccessControlEntryRecord_encode_field_2 :: "KAccessControlEntryRecord \<Rightarrow> i16 \<Rightarrow> bool \<Rightarrow> encoder" where
  "KAccessControlEntryRecord_encode_field_2 x version flex = put_when (0 \<le>s version) (put_str flex (kace_resource_name x))"

definition KAccessControlEntryRecord_encode_field_3 :: "KAccessControlEntryRecord \<Rightarrow> i16 \<Rightarrow> bool \<Rightarrow> encoder" where
  "KAccessControlEntryRecord_encode_field_3 x version flex = put_when (0 \<le>s version) (put_i8 (kace_pattern_type x))"

definition KAccessControlEntryRecord_encode_field_4 :: "KAccessControlEntryRecord \<Rightarrow> i16 \<Rightarrow> bool \<Rightarrow> encoder" where
  "KAccessControlEntryRecord_encode_field_4 x version flex = put_when (0 \<le>s version) (put_str flex (kace_principal x))"

definition KAccessControlEntryRecord_encode_field_5 :: "KAccessControlEntryRecord \<Rightarrow> i16 \<Rightarrow> bool \<Rightarrow> encoder" where
  "KAccessControlEntryRecord_encode_field_5 x version flex = put_when (0 \<le>s version) (put_str flex (kace_host x))"

definition KAccessControlEntryRecord_encode_field_6 :: "KAccessControlEntryRecord \<Rightarrow> i16 \<Rightarrow> bool \<Rightarrow> encoder" where
  "KAccessControlEntryRecord_encode_field_6 x version flex = put_when (0 \<le>s version) (put_i8 (kace_operation x))"

definition KAccessControlEntryRecord_encode_field_7 :: "KAccessControlEntryRecord \<Rightarrow> i16 \<Rightarrow> bool \<Rightarrow> encoder" where
  "KAccessControlEntryRecord_encode_field_7 x version flex = put_when (0 \<le>s version) (put_i8 (kace_permission_type x))"

definition KAccessControlEntryRecord_encode_tagged_fields :: "KAccessControlEntryRecord \<Rightarrow> i16 \<Rightarrow> bool \<Rightarrow> encoder" where
  "KAccessControlEntryRecord_encode_tagged_fields x version flex =
     put_when flex (put_tagged
       []
       (kace_unknown_tagged_fields x))"

definition KAccessControlEntryRecord_encode :: "KAccessControlEntryRecord \<Rightarrow> i16 \<Rightarrow> encoder" where
  "KAccessControlEntryRecord_encode x version =
     (let flex = KAccessControlEntryRecord_is_flexible version in
      write_all
        [write_check (contains_version KAccessControlEntryRecord_MIN_VERSION KAccessControlEntryRecord_MAX_VERSION ''AccessControlEntryRecord version out of range'' version),
         KAccessControlEntryRecord_encode_field_0 x version flex,
         KAccessControlEntryRecord_encode_field_1 x version flex,
         KAccessControlEntryRecord_encode_field_2 x version flex,
         KAccessControlEntryRecord_encode_field_3 x version flex,
         KAccessControlEntryRecord_encode_field_4 x version flex,
         KAccessControlEntryRecord_encode_field_5 x version flex,
         KAccessControlEntryRecord_encode_field_6 x version flex,
         KAccessControlEntryRecord_encode_field_7 x version flex,
         KAccessControlEntryRecord_encode_tagged_fields x version flex])"

definition KAccessControlEntryRecord_encoded_len :: "KAccessControlEntryRecord \<Rightarrow> i16 \<Rightarrow> nat" where
  "KAccessControlEntryRecord_encoded_len x version =
     (let flex = KAccessControlEntryRecord_is_flexible version in
      len_when (0 \<le>s version) 16
      + len_when (0 \<le>s version) 1
      + len_when (0 \<le>s version) (str_len flex (kace_resource_name x))
      + len_when (0 \<le>s version) 1
      + len_when (0 \<le>s version) (str_len flex (kace_principal x))
      + len_when (0 \<le>s version) (str_len flex (kace_host x))
      + len_when (0 \<le>s version) 1
      + len_when (0 \<le>s version) 1
      + len_when flex (tagged_size [] (kace_unknown_tagged_fields x)))"

definition KAccessControlEntryRecord_decode_field_0 :: "KAccessControlEntryRecord \<Rightarrow> i16 \<Rightarrow> bool \<Rightarrow> KAccessControlEntryRecord decoder" where
  "KAccessControlEntryRecord_decode_field_0 out version flex = get_into (0 \<le>s version) get_uuid (\<lambda>v out. out\<lparr>kace_id := v\<rparr>) out"

definition KAccessControlEntryRecord_decode_field_1 :: "KAccessControlEntryRecord \<Rightarrow> i16 \<Rightarrow> bool \<Rightarrow> KAccessControlEntryRecord decoder" where
  "KAccessControlEntryRecord_decode_field_1 out version flex = get_into (0 \<le>s version) get_i8 (\<lambda>v out. out\<lparr>kace_resource_type := v\<rparr>) out"

definition KAccessControlEntryRecord_decode_field_2 :: "KAccessControlEntryRecord \<Rightarrow> i16 \<Rightarrow> bool \<Rightarrow> KAccessControlEntryRecord decoder" where
  "KAccessControlEntryRecord_decode_field_2 out version flex = get_into (0 \<le>s version) (get_str flex) (\<lambda>v out. out\<lparr>kace_resource_name := v\<rparr>) out"

definition KAccessControlEntryRecord_decode_field_3 :: "KAccessControlEntryRecord \<Rightarrow> i16 \<Rightarrow> bool \<Rightarrow> KAccessControlEntryRecord decoder" where
  "KAccessControlEntryRecord_decode_field_3 out version flex = get_into (0 \<le>s version) get_i8 (\<lambda>v out. out\<lparr>kace_pattern_type := v\<rparr>) out"

definition KAccessControlEntryRecord_decode_field_4 :: "KAccessControlEntryRecord \<Rightarrow> i16 \<Rightarrow> bool \<Rightarrow> KAccessControlEntryRecord decoder" where
  "KAccessControlEntryRecord_decode_field_4 out version flex = get_into (0 \<le>s version) (get_str flex) (\<lambda>v out. out\<lparr>kace_principal := v\<rparr>) out"

definition KAccessControlEntryRecord_decode_field_5 :: "KAccessControlEntryRecord \<Rightarrow> i16 \<Rightarrow> bool \<Rightarrow> KAccessControlEntryRecord decoder" where
  "KAccessControlEntryRecord_decode_field_5 out version flex = get_into (0 \<le>s version) (get_str flex) (\<lambda>v out. out\<lparr>kace_host := v\<rparr>) out"

definition KAccessControlEntryRecord_decode_field_6 :: "KAccessControlEntryRecord \<Rightarrow> i16 \<Rightarrow> bool \<Rightarrow> KAccessControlEntryRecord decoder" where
  "KAccessControlEntryRecord_decode_field_6 out version flex = get_into (0 \<le>s version) get_i8 (\<lambda>v out. out\<lparr>kace_operation := v\<rparr>) out"

definition KAccessControlEntryRecord_decode_field_7 :: "KAccessControlEntryRecord \<Rightarrow> i16 \<Rightarrow> bool \<Rightarrow> KAccessControlEntryRecord decoder" where
  "KAccessControlEntryRecord_decode_field_7 out version flex = get_into (0 \<le>s version) get_i8 (\<lambda>v out. out\<lparr>kace_permission_type := v\<rparr>) out"

definition KAccessControlEntryRecord_decode_tagged_fields :: "KAccessControlEntryRecord \<Rightarrow> i16 \<Rightarrow> bool \<Rightarrow> KAccessControlEntryRecord decoder" where
  "KAccessControlEntryRecord_decode_tagged_fields out version flex =
     get_trailer flex
       []
       (\<lambda>u out. out\<lparr>kace_unknown_tagged_fields := u\<rparr>) out"

definition KAccessControlEntryRecord_decode :: "i16 \<Rightarrow> KAccessControlEntryRecord decoder" where
  "KAccessControlEntryRecord_decode version =
     (let flex = KAccessControlEntryRecord_is_flexible version in
      checked (contains_version KAccessControlEntryRecord_MIN_VERSION KAccessControlEntryRecord_MAX_VERSION ''AccessControlEntryRecord version out of range'' version) (
        read_then (KAccessControlEntryRecord_decode_field_0 KAccessControlEntryRecord_default version flex) (\<lambda>out.
        read_then (KAccessControlEntryRecord_decode_field_1 out version flex) (\<lambda>out.
        read_then (KAccessControlEntryRecord_decode_field_2 out version flex) (\<lambda>out.
        read_then (KAccessControlEntryRecord_decode_field_3 out version flex) (\<lambda>out.
        read_then (KAccessControlEntryRecord_decode_field_4 out version flex) (\<lambda>out.
        read_then (KAccessControlEntryRecord_decode_field_5 out version flex) (\<lambda>out.
        read_then (KAccessControlEntryRecord_decode_field_6 out version flex) (\<lambda>out.
        read_then (KAccessControlEntryRecord_decode_field_7 out version flex) (\<lambda>out.
        KAccessControlEntryRecord_decode_tagged_fields out version flex))))))))))"

definition KAccessControlEntryRecord_fields_wf :: "i16 \<Rightarrow> KAccessControlEntryRecord \<Rightarrow> bool" where
  "KAccessControlEntryRecord_fields_wf version x \<longleftrightarrow>
     (let flex = KAccessControlEntryRecord_is_flexible version in
      uuid_wf (kace_id x)
      \<and> str_wf flex (kace_resource_name x)
      \<and> str_wf flex (kace_principal x)
      \<and> str_wf flex (kace_host x))"

definition KAccessControlEntryRecord_wf :: "i16 \<Rightarrow> KAccessControlEntryRecord \<Rightarrow> bool" where
  "KAccessControlEntryRecord_wf version x \<longleftrightarrow>
     version_in KAccessControlEntryRecord_MIN_VERSION KAccessControlEntryRecord_MAX_VERSION version \<and> KAccessControlEntryRecord_fields_wf version x \<and> trailer_ok [] [] (kace_unknown_tagged_fields x)"

lemmas access_control_entry_record_versions =
    KAccessControlEntryRecord_is_flexible_def KAccessControlEntryRecord_FLEXIBLE_MIN_def
    KAccessControlEntryRecord_MIN_VERSION_def KAccessControlEntryRecord_MAX_VERSION_def version_in_def

lemmas access_control_entry_record_fields =
    Let_def field_ok_def KAccessControlEntryRecord_fields_wf_def KAccessControlEntryRecord_is_flexible_def
    KAccessControlEntryRecord_FLEXIBLE_MIN_def

lemmas access_control_entry_record_writers =
    KAccessControlEntryRecord_encode_field_0_def KAccessControlEntryRecord_encode_field_1_def
    KAccessControlEntryRecord_encode_field_2_def KAccessControlEntryRecord_encode_field_3_def
    KAccessControlEntryRecord_encode_field_4_def KAccessControlEntryRecord_encode_field_5_def
    KAccessControlEntryRecord_encode_field_6_def KAccessControlEntryRecord_encode_field_7_def
    KAccessControlEntryRecord_encode_tagged_fields_def

lemmas access_control_entry_record_readers =
    KAccessControlEntryRecord_decode_field_0_def KAccessControlEntryRecord_decode_field_1_def
    KAccessControlEntryRecord_decode_field_2_def KAccessControlEntryRecord_decode_field_3_def
    KAccessControlEntryRecord_decode_field_4_def KAccessControlEntryRecord_decode_field_5_def
    KAccessControlEntryRecord_decode_field_6_def KAccessControlEntryRecord_decode_field_7_def
    KAccessControlEntryRecord_decode_tagged_fields_def

lemma access_control_entry_record_steps:
  assumes v: "0 \<le>s version" and flex: "flex = (KAccessControlEntryRecord_is_flexible version)"
  shows "keeps (KAccessControlEntryRecord_fields_wf version) (\<lambda>out. KAccessControlEntryRecord_decode_field_0 out version flex)"
    and "keeps (KAccessControlEntryRecord_fields_wf version) (\<lambda>out. KAccessControlEntryRecord_decode_field_1 out version flex)"
    and "keeps (KAccessControlEntryRecord_fields_wf version) (\<lambda>out. KAccessControlEntryRecord_decode_field_2 out version flex)"
    and "keeps (KAccessControlEntryRecord_fields_wf version) (\<lambda>out. KAccessControlEntryRecord_decode_field_3 out version flex)"
    and "keeps (KAccessControlEntryRecord_fields_wf version) (\<lambda>out. KAccessControlEntryRecord_decode_field_4 out version flex)"
    and "keeps (KAccessControlEntryRecord_fields_wf version) (\<lambda>out. KAccessControlEntryRecord_decode_field_5 out version flex)"
    and "keeps (KAccessControlEntryRecord_fields_wf version) (\<lambda>out. KAccessControlEntryRecord_decode_field_6 out version flex)"
    and "keeps (KAccessControlEntryRecord_fields_wf version) (\<lambda>out. KAccessControlEntryRecord_decode_field_7 out version flex)"
  unfolding flex access_control_entry_record_readers
  by (rule keeps_into; (rule yields_rules)?; simp add: v access_control_entry_record_fields)+

lemma access_control_entry_record_unknown:
  "KAccessControlEntryRecord_fields_wf version (s\<lparr>kace_unknown_tagged_fields := u\<rparr>) = KAccessControlEntryRecord_fields_wf version s"
  by (simp_all add: KAccessControlEntryRecord_fields_wf_def)

lemma access_control_entry_record_yields:
  assumes r: "version_in KAccessControlEntryRecord_MIN_VERSION KAccessControlEntryRecord_MAX_VERSION version"
  shows "yields 1 (KAccessControlEntryRecord_decode version) (KAccessControlEntryRecord_wf version)"
proof -
  have v: "0 \<le>s version"
    using r by (simp add: access_control_entry_record_versions)
  have d: "KAccessControlEntryRecord_fields_wf version KAccessControlEntryRecord_default"
    by (simp add: KAccessControlEntryRecord_default_def v access_control_entry_record_fields)
  show ?thesis
    unfolding KAccessControlEntryRecord_decode_def Let_def KAccessControlEntryRecord_decode_tagged_fields_def
    by (rule yields_checked, (rule access_control_entry_record_steps[OF v refl, THEN yields_step], (rule d | assumption))+, rule yields_trailer[OF _ arms_keep_Nil[of "KAccessControlEntryRecord_fields_wf version" "\<lambda>_. 0"]])
      (simp_all add: v d access_control_entry_record_unknown KAccessControlEntryRecord_wf_def trailer_ok_def r KAccessControlEntryRecord_is_flexible_def KAccessControlEntryRecord_FLEXIBLE_MIN_def)
qed

interpretation access_control_entry_record: message_codec
  KAccessControlEntryRecord_encode KAccessControlEntryRecord_decode KAccessControlEntryRecord_encoded_len "KAccessControlEntryRecord_wf version" version
  for version
proof
  fix x
  assume w: "KAccessControlEntryRecord_wf version x"
  then have v: "0 \<le>s version"
    by (simp add: KAccessControlEntryRecord_wf_def access_control_entry_record_versions)
  show "carries (KAccessControlEntryRecord_encode x version) (KAccessControlEntryRecord_decode version) (KAccessControlEntryRecord_encoded_len x version) x"
    unfolding KAccessControlEntryRecord_encode_def access_control_entry_record_writers KAccessControlEntryRecord_encoded_len_def KAccessControlEntryRecord_decode_def access_control_entry_record_readers Let_def
    by (use w[unfolded KAccessControlEntryRecord_wf_def KAccessControlEntryRecord_fields_wf_def Let_def] in \<open>elim conjE\<close>, rule carries_cong_len)
      ((rule carries_rules | (erule absent_guarded, assumption) | erule absent_plain
        | simp add: v field_ok_def KAccessControlEntryRecord_default_def access_control_entry_record_versions)+)
next
  show "yields 1 (KAccessControlEntryRecord_decode version) (KAccessControlEntryRecord_wf version)"
    by (rule case_split[OF access_control_entry_record_yields]) (auto simp: KAccessControlEntryRecord_decode_def Let_def yields_refused)
  show "extends_input (KAccessControlEntryRecord_decode version)"
    unfolding KAccessControlEntryRecord_decode_def Let_def access_control_entry_record_readers by (intro extends_rules)
qed

section \<open>RemoveAccessControlEntryRecord\<close>

definition KRemoveAccessControlEntryRecord_MIN_VERSION :: i16 where
  "KRemoveAccessControlEntryRecord_MIN_VERSION = 0"

definition KRemoveAccessControlEntryRecord_MAX_VERSION :: i16 where
  "KRemoveAccessControlEntryRecord_MAX_VERSION = 0"

definition KRemoveAccessControlEntryRecord_FLEXIBLE_MIN :: i16 where
  "KRemoveAccessControlEntryRecord_FLEXIBLE_MIN = 0"

definition KRemoveAccessControlEntryRecord_is_flexible :: "i16 \<Rightarrow> bool" where
  "KRemoveAccessControlEntryRecord_is_flexible version \<longleftrightarrow> KRemoveAccessControlEntryRecord_FLEXIBLE_MIN \<le>s version"

definition KRemoveAccessControlEntryRecord_encode :: "KRemoveAccessControlEntryRecord \<Rightarrow> i16 \<Rightarrow> encoder" where
  "KRemoveAccessControlEntryRecord_encode x version =
     (let flex = KRemoveAccessControlEntryRecord_is_flexible version in
      write_all
        [write_check (contains_version KRemoveAccessControlEntryRecord_MIN_VERSION KRemoveAccessControlEntryRecord_MAX_VERSION ''RemoveAccessControlEntryRecord version out of range'' version),
         put_when (0 \<le>s version) (put_uuid (krace_id x)),
         put_when flex (put_tagged [] (krace_unknown_tagged_fields x))])"

definition KRemoveAccessControlEntryRecord_encoded_len :: "KRemoveAccessControlEntryRecord \<Rightarrow> i16 \<Rightarrow> nat" where
  "KRemoveAccessControlEntryRecord_encoded_len x version =
     (let flex = KRemoveAccessControlEntryRecord_is_flexible version in
      len_when (0 \<le>s version) 16
      + len_when flex (tagged_size [] (krace_unknown_tagged_fields x)))"

definition KRemoveAccessControlEntryRecord_decode :: "i16 \<Rightarrow> KRemoveAccessControlEntryRecord decoder" where
  "KRemoveAccessControlEntryRecord_decode version =
     (let flex = KRemoveAccessControlEntryRecord_is_flexible version in
      checked (contains_version KRemoveAccessControlEntryRecord_MIN_VERSION KRemoveAccessControlEntryRecord_MAX_VERSION ''RemoveAccessControlEntryRecord version out of range'' version) (
        read_then (get_into (0 \<le>s version) get_uuid (\<lambda>v out. out\<lparr>krace_id := v\<rparr>) KRemoveAccessControlEntryRecord_default) (\<lambda>out.
        get_trailer flex [] (\<lambda>u out. out\<lparr>krace_unknown_tagged_fields := u\<rparr>) out)))"

definition KRemoveAccessControlEntryRecord_fields_wf :: "i16 \<Rightarrow> KRemoveAccessControlEntryRecord \<Rightarrow> bool" where
  "KRemoveAccessControlEntryRecord_fields_wf version x \<longleftrightarrow>
     uuid_wf (krace_id x)"

definition KRemoveAccessControlEntryRecord_wf :: "i16 \<Rightarrow> KRemoveAccessControlEntryRecord \<Rightarrow> bool" where
  "KRemoveAccessControlEntryRecord_wf version x \<longleftrightarrow>
     version_in KRemoveAccessControlEntryRecord_MIN_VERSION KRemoveAccessControlEntryRecord_MAX_VERSION version \<and> KRemoveAccessControlEntryRecord_fields_wf version x \<and> trailer_ok [] [] (krace_unknown_tagged_fields x)"

lemmas remove_access_control_entry_record_versions =
    KRemoveAccessControlEntryRecord_is_flexible_def KRemoveAccessControlEntryRecord_FLEXIBLE_MIN_def
    KRemoveAccessControlEntryRecord_MIN_VERSION_def KRemoveAccessControlEntryRecord_MAX_VERSION_def version_in_def

lemmas remove_access_control_entry_record_fields =
    Let_def field_ok_def KRemoveAccessControlEntryRecord_fields_wf_def
    KRemoveAccessControlEntryRecord_is_flexible_def KRemoveAccessControlEntryRecord_FLEXIBLE_MIN_def

lemma remove_access_control_entry_record_steps:
  assumes v: "0 \<le>s version" and flex: "flex = (KRemoveAccessControlEntryRecord_is_flexible version)"
  shows "keeps (KRemoveAccessControlEntryRecord_fields_wf version) (get_into (0 \<le>s version) get_uuid (\<lambda>v out. out\<lparr>krace_id := v\<rparr>))"
  unfolding flex 
  by (rule keeps_into; (rule yields_rules)?; simp add: v remove_access_control_entry_record_fields)+

lemma remove_access_control_entry_record_unknown:
  "KRemoveAccessControlEntryRecord_fields_wf version (s\<lparr>krace_unknown_tagged_fields := u\<rparr>) = KRemoveAccessControlEntryRecord_fields_wf version s"
  by (simp_all add: KRemoveAccessControlEntryRecord_fields_wf_def)

lemma remove_access_control_entry_record_yields:
  assumes r: "version_in KRemoveAccessControlEntryRecord_MIN_VERSION KRemoveAccessControlEntryRecord_MAX_VERSION version"
  shows "yields 1 (KRemoveAccessControlEntryRecord_decode version) (KRemoveAccessControlEntryRecord_wf version)"
proof -
  have v: "0 \<le>s version"
    using r by (simp add: remove_access_control_entry_record_versions)
  have d: "KRemoveAccessControlEntryRecord_fields_wf version KRemoveAccessControlEntryRecord_default"
    by (simp add: KRemoveAccessControlEntryRecord_default_def v remove_access_control_entry_record_fields)
  show ?thesis
    unfolding KRemoveAccessControlEntryRecord_decode_def Let_def
    by (rule yields_checked, (rule remove_access_control_entry_record_steps[OF v refl, THEN yields_step], (rule d | assumption))+, rule yields_trailer[OF _ arms_keep_Nil[of "KRemoveAccessControlEntryRecord_fields_wf version" "\<lambda>_. 0"]])
      (simp_all add: v d remove_access_control_entry_record_unknown KRemoveAccessControlEntryRecord_wf_def trailer_ok_def r KRemoveAccessControlEntryRecord_is_flexible_def KRemoveAccessControlEntryRecord_FLEXIBLE_MIN_def)
qed

interpretation remove_access_control_entry_record: message_codec
  KRemoveAccessControlEntryRecord_encode KRemoveAccessControlEntryRecord_decode KRemoveAccessControlEntryRecord_encoded_len "KRemoveAccessControlEntryRecord_wf version" version
  for version
proof
  fix x
  assume w: "KRemoveAccessControlEntryRecord_wf version x"
  then have v: "0 \<le>s version"
    by (simp add: KRemoveAccessControlEntryRecord_wf_def remove_access_control_entry_record_versions)
  show "carries (KRemoveAccessControlEntryRecord_encode x version) (KRemoveAccessControlEntryRecord_decode version) (KRemoveAccessControlEntryRecord_encoded_len x version) x"
    unfolding KRemoveAccessControlEntryRecord_encode_def KRemoveAccessControlEntryRecord_encoded_len_def KRemoveAccessControlEntryRecord_decode_def Let_def
    by (use w[unfolded KRemoveAccessControlEntryRecord_wf_def KRemoveAccessControlEntryRecord_fields_wf_def Let_def] in \<open>elim conjE\<close>, rule carries_cong_len)
      ((rule carries_rules | (erule absent_guarded, assumption) | erule absent_plain
        | simp add: v field_ok_def KRemoveAccessControlEntryRecord_default_def remove_access_control_entry_record_versions)+)
next
  show "yields 1 (KRemoveAccessControlEntryRecord_decode version) (KRemoveAccessControlEntryRecord_wf version)"
    by (rule case_split[OF remove_access_control_entry_record_yields]) (auto simp: KRemoveAccessControlEntryRecord_decode_def Let_def yields_refused)
  show "extends_input (KRemoveAccessControlEntryRecord_decode version)"
    unfolding KRemoveAccessControlEntryRecord_decode_def Let_def by (intro extends_rules)
qed

section \<open>UserScramCredentialRecord\<close>

definition KUserScramCredentialRecord_MIN_VERSION :: i16 where
  "KUserScramCredentialRecord_MIN_VERSION = 0"

definition KUserScramCredentialRecord_MAX_VERSION :: i16 where
  "KUserScramCredentialRecord_MAX_VERSION = 0"

definition KUserScramCredentialRecord_FLEXIBLE_MIN :: i16 where
  "KUserScramCredentialRecord_FLEXIBLE_MIN = 0"

definition KUserScramCredentialRecord_is_flexible :: "i16 \<Rightarrow> bool" where
  "KUserScramCredentialRecord_is_flexible version \<longleftrightarrow> KUserScramCredentialRecord_FLEXIBLE_MIN \<le>s version"

definition KUserScramCredentialRecord_encode :: "KUserScramCredentialRecord \<Rightarrow> i16 \<Rightarrow> encoder" where
  "KUserScramCredentialRecord_encode x version =
     (let flex = KUserScramCredentialRecord_is_flexible version in
      write_all
        [write_check (contains_version KUserScramCredentialRecord_MIN_VERSION KUserScramCredentialRecord_MAX_VERSION ''UserScramCredentialRecord version out of range'' version),
         put_when (0 \<le>s version) (put_str flex (kus_name x)),
         put_when (0 \<le>s version) (put_i8 (kus_mechanism x)),
         put_when (0 \<le>s version) (put_blob flex (kus_salt x)),
         put_when (0 \<le>s version) (put_blob flex (kus_stored_key x)),
         put_when (0 \<le>s version) (put_blob flex (kus_server_key x)),
         put_when (0 \<le>s version) (put_i32 (kus_iterations x)),
         put_when flex (put_tagged [] (kus_unknown_tagged_fields x))])"

definition KUserScramCredentialRecord_encoded_len :: "KUserScramCredentialRecord \<Rightarrow> i16 \<Rightarrow> nat" where
  "KUserScramCredentialRecord_encoded_len x version =
     (let flex = KUserScramCredentialRecord_is_flexible version in
      len_when (0 \<le>s version) (str_len flex (kus_name x))
      + len_when (0 \<le>s version) 1
      + len_when (0 \<le>s version) (blob_len flex (kus_salt x))
      + len_when (0 \<le>s version) (blob_len flex (kus_stored_key x))
      + len_when (0 \<le>s version) (blob_len flex (kus_server_key x))
      + len_when (0 \<le>s version) 4
      + len_when flex (tagged_size [] (kus_unknown_tagged_fields x)))"

definition KUserScramCredentialRecord_decode :: "i16 \<Rightarrow> KUserScramCredentialRecord decoder" where
  "KUserScramCredentialRecord_decode version =
     (let flex = KUserScramCredentialRecord_is_flexible version in
      checked (contains_version KUserScramCredentialRecord_MIN_VERSION KUserScramCredentialRecord_MAX_VERSION ''UserScramCredentialRecord version out of range'' version) (
        read_then (get_into (0 \<le>s version) (get_str flex) (\<lambda>v out. out\<lparr>kus_name := v\<rparr>) KUserScramCredentialRecord_default) (\<lambda>out.
        read_then (get_into (0 \<le>s version) get_i8 (\<lambda>v out. out\<lparr>kus_mechanism := v\<rparr>) out) (\<lambda>out.
        read_then (get_into (0 \<le>s version) (get_blob flex) (\<lambda>v out. out\<lparr>kus_salt := v\<rparr>) out) (\<lambda>out.
        read_then (get_into (0 \<le>s version) (get_blob flex) (\<lambda>v out. out\<lparr>kus_stored_key := v\<rparr>) out) (\<lambda>out.
        read_then (get_into (0 \<le>s version) (get_blob flex) (\<lambda>v out. out\<lparr>kus_server_key := v\<rparr>) out) (\<lambda>out.
        read_then (get_into (0 \<le>s version) get_i32 (\<lambda>v out. out\<lparr>kus_iterations := v\<rparr>) out) (\<lambda>out.
        get_trailer flex [] (\<lambda>u out. out\<lparr>kus_unknown_tagged_fields := u\<rparr>) out))))))))"

definition KUserScramCredentialRecord_fields_wf :: "i16 \<Rightarrow> KUserScramCredentialRecord \<Rightarrow> bool" where
  "KUserScramCredentialRecord_fields_wf version x \<longleftrightarrow>
     (let flex = KUserScramCredentialRecord_is_flexible version in
      str_wf flex (kus_name x)
      \<and> blob_wf flex (kus_salt x)
      \<and> blob_wf flex (kus_stored_key x)
      \<and> blob_wf flex (kus_server_key x))"

definition KUserScramCredentialRecord_wf :: "i16 \<Rightarrow> KUserScramCredentialRecord \<Rightarrow> bool" where
  "KUserScramCredentialRecord_wf version x \<longleftrightarrow>
     version_in KUserScramCredentialRecord_MIN_VERSION KUserScramCredentialRecord_MAX_VERSION version \<and> KUserScramCredentialRecord_fields_wf version x \<and> trailer_ok [] [] (kus_unknown_tagged_fields x)"

lemmas user_scram_credential_record_versions =
    KUserScramCredentialRecord_is_flexible_def KUserScramCredentialRecord_FLEXIBLE_MIN_def
    KUserScramCredentialRecord_MIN_VERSION_def KUserScramCredentialRecord_MAX_VERSION_def version_in_def

lemmas user_scram_credential_record_fields =
    Let_def field_ok_def KUserScramCredentialRecord_fields_wf_def KUserScramCredentialRecord_is_flexible_def
    KUserScramCredentialRecord_FLEXIBLE_MIN_def

lemma user_scram_credential_record_steps:
  assumes v: "0 \<le>s version" and flex: "flex = (KUserScramCredentialRecord_is_flexible version)"
  shows "keeps (KUserScramCredentialRecord_fields_wf version) (get_into (0 \<le>s version) (get_str flex) (\<lambda>v out. out\<lparr>kus_name := v\<rparr>))"
    and "keeps (KUserScramCredentialRecord_fields_wf version) (get_into (0 \<le>s version) get_i8 (\<lambda>v out. out\<lparr>kus_mechanism := v\<rparr>))"
    and "keeps (KUserScramCredentialRecord_fields_wf version) (get_into (0 \<le>s version) (get_blob flex) (\<lambda>v out. out\<lparr>kus_salt := v\<rparr>))"
    and "keeps (KUserScramCredentialRecord_fields_wf version) (get_into (0 \<le>s version) (get_blob flex) (\<lambda>v out. out\<lparr>kus_stored_key := v\<rparr>))"
    and "keeps (KUserScramCredentialRecord_fields_wf version) (get_into (0 \<le>s version) (get_blob flex) (\<lambda>v out. out\<lparr>kus_server_key := v\<rparr>))"
    and "keeps (KUserScramCredentialRecord_fields_wf version) (get_into (0 \<le>s version) get_i32 (\<lambda>v out. out\<lparr>kus_iterations := v\<rparr>))"
  unfolding flex 
  by (rule keeps_into; (rule yields_rules)?; simp add: v user_scram_credential_record_fields)+

lemma user_scram_credential_record_unknown:
  "KUserScramCredentialRecord_fields_wf version (s\<lparr>kus_unknown_tagged_fields := u\<rparr>) = KUserScramCredentialRecord_fields_wf version s"
  by (simp_all add: KUserScramCredentialRecord_fields_wf_def)

lemma user_scram_credential_record_yields:
  assumes r: "version_in KUserScramCredentialRecord_MIN_VERSION KUserScramCredentialRecord_MAX_VERSION version"
  shows "yields 1 (KUserScramCredentialRecord_decode version) (KUserScramCredentialRecord_wf version)"
proof -
  have v: "0 \<le>s version"
    using r by (simp add: user_scram_credential_record_versions)
  have d: "KUserScramCredentialRecord_fields_wf version KUserScramCredentialRecord_default"
    by (simp add: KUserScramCredentialRecord_default_def v user_scram_credential_record_fields)
  show ?thesis
    unfolding KUserScramCredentialRecord_decode_def Let_def
    by (rule yields_checked, (rule user_scram_credential_record_steps[OF v refl, THEN yields_step], (rule d | assumption))+, rule yields_trailer[OF _ arms_keep_Nil[of "KUserScramCredentialRecord_fields_wf version" "\<lambda>_. 0"]])
      (simp_all add: v d user_scram_credential_record_unknown KUserScramCredentialRecord_wf_def trailer_ok_def r KUserScramCredentialRecord_is_flexible_def KUserScramCredentialRecord_FLEXIBLE_MIN_def)
qed

interpretation user_scram_credential_record: message_codec
  KUserScramCredentialRecord_encode KUserScramCredentialRecord_decode KUserScramCredentialRecord_encoded_len "KUserScramCredentialRecord_wf version" version
  for version
proof
  fix x
  assume w: "KUserScramCredentialRecord_wf version x"
  then have v: "0 \<le>s version"
    by (simp add: KUserScramCredentialRecord_wf_def user_scram_credential_record_versions)
  show "carries (KUserScramCredentialRecord_encode x version) (KUserScramCredentialRecord_decode version) (KUserScramCredentialRecord_encoded_len x version) x"
    unfolding KUserScramCredentialRecord_encode_def KUserScramCredentialRecord_encoded_len_def KUserScramCredentialRecord_decode_def Let_def
    by (use w[unfolded KUserScramCredentialRecord_wf_def KUserScramCredentialRecord_fields_wf_def Let_def] in \<open>elim conjE\<close>, rule carries_cong_len)
      ((rule carries_rules | (erule absent_guarded, assumption) | erule absent_plain
        | simp add: v field_ok_def KUserScramCredentialRecord_default_def user_scram_credential_record_versions)+)
next
  show "yields 1 (KUserScramCredentialRecord_decode version) (KUserScramCredentialRecord_wf version)"
    by (rule case_split[OF user_scram_credential_record_yields]) (auto simp: KUserScramCredentialRecord_decode_def Let_def yields_refused)
  show "extends_input (KUserScramCredentialRecord_decode version)"
    unfolding KUserScramCredentialRecord_decode_def Let_def by (intro extends_rules)
qed

section \<open>RemoveUserScramCredentialRecord\<close>

definition KRemoveUserScramCredentialRecord_MIN_VERSION :: i16 where
  "KRemoveUserScramCredentialRecord_MIN_VERSION = 0"

definition KRemoveUserScramCredentialRecord_MAX_VERSION :: i16 where
  "KRemoveUserScramCredentialRecord_MAX_VERSION = 0"

definition KRemoveUserScramCredentialRecord_FLEXIBLE_MIN :: i16 where
  "KRemoveUserScramCredentialRecord_FLEXIBLE_MIN = 0"

definition KRemoveUserScramCredentialRecord_is_flexible :: "i16 \<Rightarrow> bool" where
  "KRemoveUserScramCredentialRecord_is_flexible version \<longleftrightarrow> KRemoveUserScramCredentialRecord_FLEXIBLE_MIN \<le>s version"

definition KRemoveUserScramCredentialRecord_encode :: "KRemoveUserScramCredentialRecord \<Rightarrow> i16 \<Rightarrow> encoder" where
  "KRemoveUserScramCredentialRecord_encode x version =
     (let flex = KRemoveUserScramCredentialRecord_is_flexible version in
      write_all
        [write_check (contains_version KRemoveUserScramCredentialRecord_MIN_VERSION KRemoveUserScramCredentialRecord_MAX_VERSION ''RemoveUserScramCredentialRecord version out of range'' version),
         put_when (0 \<le>s version) (put_str flex (krus_name x)),
         put_when (0 \<le>s version) (put_i8 (krus_mechanism x)),
         put_when flex (put_tagged [] (krus_unknown_tagged_fields x))])"

definition KRemoveUserScramCredentialRecord_encoded_len :: "KRemoveUserScramCredentialRecord \<Rightarrow> i16 \<Rightarrow> nat" where
  "KRemoveUserScramCredentialRecord_encoded_len x version =
     (let flex = KRemoveUserScramCredentialRecord_is_flexible version in
      len_when (0 \<le>s version) (str_len flex (krus_name x))
      + len_when (0 \<le>s version) 1
      + len_when flex (tagged_size [] (krus_unknown_tagged_fields x)))"

definition KRemoveUserScramCredentialRecord_decode :: "i16 \<Rightarrow> KRemoveUserScramCredentialRecord decoder" where
  "KRemoveUserScramCredentialRecord_decode version =
     (let flex = KRemoveUserScramCredentialRecord_is_flexible version in
      checked (contains_version KRemoveUserScramCredentialRecord_MIN_VERSION KRemoveUserScramCredentialRecord_MAX_VERSION ''RemoveUserScramCredentialRecord version out of range'' version) (
        read_then (get_into (0 \<le>s version) (get_str flex) (\<lambda>v out. out\<lparr>krus_name := v\<rparr>) KRemoveUserScramCredentialRecord_default) (\<lambda>out.
        read_then (get_into (0 \<le>s version) get_i8 (\<lambda>v out. out\<lparr>krus_mechanism := v\<rparr>) out) (\<lambda>out.
        get_trailer flex [] (\<lambda>u out. out\<lparr>krus_unknown_tagged_fields := u\<rparr>) out))))"

definition KRemoveUserScramCredentialRecord_fields_wf :: "i16 \<Rightarrow> KRemoveUserScramCredentialRecord \<Rightarrow> bool" where
  "KRemoveUserScramCredentialRecord_fields_wf version x \<longleftrightarrow>
     (let flex = KRemoveUserScramCredentialRecord_is_flexible version in
      str_wf flex (krus_name x))"

definition KRemoveUserScramCredentialRecord_wf :: "i16 \<Rightarrow> KRemoveUserScramCredentialRecord \<Rightarrow> bool" where
  "KRemoveUserScramCredentialRecord_wf version x \<longleftrightarrow>
     version_in KRemoveUserScramCredentialRecord_MIN_VERSION KRemoveUserScramCredentialRecord_MAX_VERSION version \<and> KRemoveUserScramCredentialRecord_fields_wf version x \<and> trailer_ok [] [] (krus_unknown_tagged_fields x)"

lemmas remove_user_scram_credential_record_versions =
    KRemoveUserScramCredentialRecord_is_flexible_def KRemoveUserScramCredentialRecord_FLEXIBLE_MIN_def
    KRemoveUserScramCredentialRecord_MIN_VERSION_def KRemoveUserScramCredentialRecord_MAX_VERSION_def
    version_in_def

lemmas remove_user_scram_credential_record_fields =
    Let_def field_ok_def KRemoveUserScramCredentialRecord_fields_wf_def
    KRemoveUserScramCredentialRecord_is_flexible_def KRemoveUserScramCredentialRecord_FLEXIBLE_MIN_def

lemma remove_user_scram_credential_record_steps:
  assumes v: "0 \<le>s version" and flex: "flex = (KRemoveUserScramCredentialRecord_is_flexible version)"
  shows "keeps (KRemoveUserScramCredentialRecord_fields_wf version) (get_into (0 \<le>s version) (get_str flex) (\<lambda>v out. out\<lparr>krus_name := v\<rparr>))"
    and "keeps (KRemoveUserScramCredentialRecord_fields_wf version) (get_into (0 \<le>s version) get_i8 (\<lambda>v out. out\<lparr>krus_mechanism := v\<rparr>))"
  unfolding flex 
  by (rule keeps_into; (rule yields_rules)?; simp add: v remove_user_scram_credential_record_fields)+

lemma remove_user_scram_credential_record_unknown:
  "KRemoveUserScramCredentialRecord_fields_wf version (s\<lparr>krus_unknown_tagged_fields := u\<rparr>) = KRemoveUserScramCredentialRecord_fields_wf version s"
  by (simp_all add: KRemoveUserScramCredentialRecord_fields_wf_def)

lemma remove_user_scram_credential_record_yields:
  assumes r: "version_in KRemoveUserScramCredentialRecord_MIN_VERSION KRemoveUserScramCredentialRecord_MAX_VERSION version"
  shows "yields 1 (KRemoveUserScramCredentialRecord_decode version) (KRemoveUserScramCredentialRecord_wf version)"
proof -
  have v: "0 \<le>s version"
    using r by (simp add: remove_user_scram_credential_record_versions)
  have d: "KRemoveUserScramCredentialRecord_fields_wf version KRemoveUserScramCredentialRecord_default"
    by (simp add: KRemoveUserScramCredentialRecord_default_def v remove_user_scram_credential_record_fields)
  show ?thesis
    unfolding KRemoveUserScramCredentialRecord_decode_def Let_def
    by (rule yields_checked, (rule remove_user_scram_credential_record_steps[OF v refl, THEN yields_step], (rule d | assumption))+, rule yields_trailer[OF _ arms_keep_Nil[of "KRemoveUserScramCredentialRecord_fields_wf version" "\<lambda>_. 0"]])
      (simp_all add: v d remove_user_scram_credential_record_unknown KRemoveUserScramCredentialRecord_wf_def trailer_ok_def r KRemoveUserScramCredentialRecord_is_flexible_def KRemoveUserScramCredentialRecord_FLEXIBLE_MIN_def)
qed

interpretation remove_user_scram_credential_record: message_codec
  KRemoveUserScramCredentialRecord_encode KRemoveUserScramCredentialRecord_decode KRemoveUserScramCredentialRecord_encoded_len "KRemoveUserScramCredentialRecord_wf version" version
  for version
proof
  fix x
  assume w: "KRemoveUserScramCredentialRecord_wf version x"
  then have v: "0 \<le>s version"
    by (simp add: KRemoveUserScramCredentialRecord_wf_def remove_user_scram_credential_record_versions)
  show "carries (KRemoveUserScramCredentialRecord_encode x version) (KRemoveUserScramCredentialRecord_decode version) (KRemoveUserScramCredentialRecord_encoded_len x version) x"
    unfolding KRemoveUserScramCredentialRecord_encode_def KRemoveUserScramCredentialRecord_encoded_len_def KRemoveUserScramCredentialRecord_decode_def Let_def
    by (use w[unfolded KRemoveUserScramCredentialRecord_wf_def KRemoveUserScramCredentialRecord_fields_wf_def Let_def] in \<open>elim conjE\<close>, rule carries_cong_len)
      ((rule carries_rules | (erule absent_guarded, assumption) | erule absent_plain
        | simp add: v field_ok_def KRemoveUserScramCredentialRecord_default_def remove_user_scram_credential_record_versions)+)
next
  show "yields 1 (KRemoveUserScramCredentialRecord_decode version) (KRemoveUserScramCredentialRecord_wf version)"
    by (rule case_split[OF remove_user_scram_credential_record_yields]) (auto simp: KRemoveUserScramCredentialRecord_decode_def Let_def yields_refused)
  show "extends_input (KRemoveUserScramCredentialRecord_decode version)"
    unfolding KRemoveUserScramCredentialRecord_decode_def Let_def by (intro extends_rules)
qed

section \<open>DelegationTokenRecord\<close>

definition KDelegationTokenRecord_MIN_VERSION :: i16 where
  "KDelegationTokenRecord_MIN_VERSION = 0"

definition KDelegationTokenRecord_MAX_VERSION :: i16 where
  "KDelegationTokenRecord_MAX_VERSION = 0"

definition KDelegationTokenRecord_FLEXIBLE_MIN :: i16 where
  "KDelegationTokenRecord_FLEXIBLE_MIN = 0"

definition KDelegationTokenRecord_is_flexible :: "i16 \<Rightarrow> bool" where
  "KDelegationTokenRecord_is_flexible version \<longleftrightarrow> KDelegationTokenRecord_FLEXIBLE_MIN \<le>s version"

definition KDelegationTokenRecord_encode :: "KDelegationTokenRecord \<Rightarrow> i16 \<Rightarrow> encoder" where
  "KDelegationTokenRecord_encode x version =
     (let flex = KDelegationTokenRecord_is_flexible version in
      write_all
        [write_check (contains_version KDelegationTokenRecord_MIN_VERSION KDelegationTokenRecord_MAX_VERSION ''DelegationTokenRecord version out of range'' version),
         put_when (0 \<le>s version) (put_str flex (kdt_owner x)),
         put_when (0 \<le>s version) (put_str flex (kdt_requester x)),
         put_when (0 \<le>s version) (put_array flex (put_str flex) (kdt_renewers x)),
         put_when (0 \<le>s version) (put_i64 (kdt_issue_timestamp x)),
         put_when (0 \<le>s version) (put_i64 (kdt_max_timestamp x)),
         put_when (0 \<le>s version) (put_i64 (kdt_expiration_timestamp x)),
         put_when (0 \<le>s version) (put_str flex (kdt_token_id x)),
         put_when flex (put_tagged [] (kdt_unknown_tagged_fields x))])"

definition KDelegationTokenRecord_encoded_len :: "KDelegationTokenRecord \<Rightarrow> i16 \<Rightarrow> nat" where
  "KDelegationTokenRecord_encoded_len x version =
     (let flex = KDelegationTokenRecord_is_flexible version in
      len_when (0 \<le>s version) (str_len flex (kdt_owner x))
      + len_when (0 \<le>s version) (str_len flex (kdt_requester x))
      + len_when (0 \<le>s version) (array_size flex (str_len flex) (kdt_renewers x))
      + len_when (0 \<le>s version) 8
      + len_when (0 \<le>s version) 8
      + len_when (0 \<le>s version) 8
      + len_when (0 \<le>s version) (str_len flex (kdt_token_id x))
      + len_when flex (tagged_size [] (kdt_unknown_tagged_fields x)))"

definition KDelegationTokenRecord_decode :: "i16 \<Rightarrow> KDelegationTokenRecord decoder" where
  "KDelegationTokenRecord_decode version =
     (let flex = KDelegationTokenRecord_is_flexible version in
      checked (contains_version KDelegationTokenRecord_MIN_VERSION KDelegationTokenRecord_MAX_VERSION ''DelegationTokenRecord version out of range'' version) (
        read_then (get_into (0 \<le>s version) (get_str flex) (\<lambda>v out. out\<lparr>kdt_owner := v\<rparr>) KDelegationTokenRecord_default) (\<lambda>out.
        read_then (get_into (0 \<le>s version) (get_str flex) (\<lambda>v out. out\<lparr>kdt_requester := v\<rparr>) out) (\<lambda>out.
        read_then (get_into (0 \<le>s version) (get_array flex (get_str flex)) (\<lambda>v out. out\<lparr>kdt_renewers := v\<rparr>) out) (\<lambda>out.
        read_then (get_into (0 \<le>s version) get_i64 (\<lambda>v out. out\<lparr>kdt_issue_timestamp := v\<rparr>) out) (\<lambda>out.
        read_then (get_into (0 \<le>s version) get_i64 (\<lambda>v out. out\<lparr>kdt_max_timestamp := v\<rparr>) out) (\<lambda>out.
        read_then (get_into (0 \<le>s version) get_i64 (\<lambda>v out. out\<lparr>kdt_expiration_timestamp := v\<rparr>) out) (\<lambda>out.
        read_then (get_into (0 \<le>s version) (get_str flex) (\<lambda>v out. out\<lparr>kdt_token_id := v\<rparr>) out) (\<lambda>out.
        get_trailer flex [] (\<lambda>u out. out\<lparr>kdt_unknown_tagged_fields := u\<rparr>) out)))))))))"

definition KDelegationTokenRecord_fields_wf :: "i16 \<Rightarrow> KDelegationTokenRecord \<Rightarrow> bool" where
  "KDelegationTokenRecord_fields_wf version x \<longleftrightarrow>
     (let flex = KDelegationTokenRecord_is_flexible version in
      str_wf flex (kdt_owner x)
      \<and> str_wf flex (kdt_requester x)
      \<and> array_ok flex (str_wf flex) (kdt_renewers x)
      \<and> str_wf flex (kdt_token_id x))"

definition KDelegationTokenRecord_wf :: "i16 \<Rightarrow> KDelegationTokenRecord \<Rightarrow> bool" where
  "KDelegationTokenRecord_wf version x \<longleftrightarrow>
     version_in KDelegationTokenRecord_MIN_VERSION KDelegationTokenRecord_MAX_VERSION version \<and> KDelegationTokenRecord_fields_wf version x \<and> trailer_ok [] [] (kdt_unknown_tagged_fields x)"

lemmas delegation_token_record_versions =
    KDelegationTokenRecord_is_flexible_def KDelegationTokenRecord_FLEXIBLE_MIN_def
    KDelegationTokenRecord_MIN_VERSION_def KDelegationTokenRecord_MAX_VERSION_def version_in_def

lemmas delegation_token_record_fields =
    Let_def field_ok_def KDelegationTokenRecord_fields_wf_def KDelegationTokenRecord_is_flexible_def
    KDelegationTokenRecord_FLEXIBLE_MIN_def

lemma delegation_token_record_steps:
  assumes v: "0 \<le>s version" and flex: "flex = (KDelegationTokenRecord_is_flexible version)"
  shows "keeps (KDelegationTokenRecord_fields_wf version) (get_into (0 \<le>s version) (get_str flex) (\<lambda>v out. out\<lparr>kdt_owner := v\<rparr>))"
    and "keeps (KDelegationTokenRecord_fields_wf version) (get_into (0 \<le>s version) (get_str flex) (\<lambda>v out. out\<lparr>kdt_requester := v\<rparr>))"
    and "keeps (KDelegationTokenRecord_fields_wf version) (get_into (0 \<le>s version) (get_array flex (get_str flex)) (\<lambda>v out. out\<lparr>kdt_renewers := v\<rparr>))"
    and "keeps (KDelegationTokenRecord_fields_wf version) (get_into (0 \<le>s version) get_i64 (\<lambda>v out. out\<lparr>kdt_issue_timestamp := v\<rparr>))"
    and "keeps (KDelegationTokenRecord_fields_wf version) (get_into (0 \<le>s version) get_i64 (\<lambda>v out. out\<lparr>kdt_max_timestamp := v\<rparr>))"
    and "keeps (KDelegationTokenRecord_fields_wf version) (get_into (0 \<le>s version) get_i64 (\<lambda>v out. out\<lparr>kdt_expiration_timestamp := v\<rparr>))"
    and "keeps (KDelegationTokenRecord_fields_wf version) (get_into (0 \<le>s version) (get_str flex) (\<lambda>v out. out\<lparr>kdt_token_id := v\<rparr>))"
  unfolding flex 
  by (rule keeps_into; (rule yields_rules)?; simp add: v delegation_token_record_fields)+

lemma delegation_token_record_unknown:
  "KDelegationTokenRecord_fields_wf version (s\<lparr>kdt_unknown_tagged_fields := u\<rparr>) = KDelegationTokenRecord_fields_wf version s"
  by (simp_all add: KDelegationTokenRecord_fields_wf_def)

lemma delegation_token_record_yields:
  assumes r: "version_in KDelegationTokenRecord_MIN_VERSION KDelegationTokenRecord_MAX_VERSION version"
  shows "yields 1 (KDelegationTokenRecord_decode version) (KDelegationTokenRecord_wf version)"
proof -
  have v: "0 \<le>s version"
    using r by (simp add: delegation_token_record_versions)
  have d: "KDelegationTokenRecord_fields_wf version KDelegationTokenRecord_default"
    by (simp add: KDelegationTokenRecord_default_def v delegation_token_record_fields)
  show ?thesis
    unfolding KDelegationTokenRecord_decode_def Let_def
    by (rule yields_checked, (rule delegation_token_record_steps[OF v refl, THEN yields_step], (rule d | assumption))+, rule yields_trailer[OF _ arms_keep_Nil[of "KDelegationTokenRecord_fields_wf version" "\<lambda>_. 0"]])
      (simp_all add: v d delegation_token_record_unknown KDelegationTokenRecord_wf_def trailer_ok_def r KDelegationTokenRecord_is_flexible_def KDelegationTokenRecord_FLEXIBLE_MIN_def)
qed

interpretation delegation_token_record: message_codec
  KDelegationTokenRecord_encode KDelegationTokenRecord_decode KDelegationTokenRecord_encoded_len "KDelegationTokenRecord_wf version" version
  for version
proof
  fix x
  assume w: "KDelegationTokenRecord_wf version x"
  then have v: "0 \<le>s version"
    by (simp add: KDelegationTokenRecord_wf_def delegation_token_record_versions)
  show "carries (KDelegationTokenRecord_encode x version) (KDelegationTokenRecord_decode version) (KDelegationTokenRecord_encoded_len x version) x"
    unfolding KDelegationTokenRecord_encode_def KDelegationTokenRecord_encoded_len_def KDelegationTokenRecord_decode_def Let_def
    by (use w[unfolded KDelegationTokenRecord_wf_def KDelegationTokenRecord_fields_wf_def Let_def] in \<open>elim conjE\<close>, rule carries_cong_len)
      ((rule carries_rules | (erule absent_guarded, assumption) | erule absent_plain
        | simp add: v field_ok_def KDelegationTokenRecord_default_def delegation_token_record_versions)+)
next
  show "yields 1 (KDelegationTokenRecord_decode version) (KDelegationTokenRecord_wf version)"
    by (rule case_split[OF delegation_token_record_yields]) (auto simp: KDelegationTokenRecord_decode_def Let_def yields_refused)
  show "extends_input (KDelegationTokenRecord_decode version)"
    unfolding KDelegationTokenRecord_decode_def Let_def by (intro extends_rules)
qed

section \<open>RemoveDelegationTokenRecord\<close>

definition KRemoveDelegationTokenRecord_MIN_VERSION :: i16 where
  "KRemoveDelegationTokenRecord_MIN_VERSION = 0"

definition KRemoveDelegationTokenRecord_MAX_VERSION :: i16 where
  "KRemoveDelegationTokenRecord_MAX_VERSION = 0"

definition KRemoveDelegationTokenRecord_FLEXIBLE_MIN :: i16 where
  "KRemoveDelegationTokenRecord_FLEXIBLE_MIN = 0"

definition KRemoveDelegationTokenRecord_is_flexible :: "i16 \<Rightarrow> bool" where
  "KRemoveDelegationTokenRecord_is_flexible version \<longleftrightarrow> KRemoveDelegationTokenRecord_FLEXIBLE_MIN \<le>s version"

definition KRemoveDelegationTokenRecord_encode :: "KRemoveDelegationTokenRecord \<Rightarrow> i16 \<Rightarrow> encoder" where
  "KRemoveDelegationTokenRecord_encode x version =
     (let flex = KRemoveDelegationTokenRecord_is_flexible version in
      write_all
        [write_check (contains_version KRemoveDelegationTokenRecord_MIN_VERSION KRemoveDelegationTokenRecord_MAX_VERSION ''RemoveDelegationTokenRecord version out of range'' version),
         put_when (0 \<le>s version) (put_str flex (krd_token_id x)),
         put_when flex (put_tagged [] (krd_unknown_tagged_fields x))])"

definition KRemoveDelegationTokenRecord_encoded_len :: "KRemoveDelegationTokenRecord \<Rightarrow> i16 \<Rightarrow> nat" where
  "KRemoveDelegationTokenRecord_encoded_len x version =
     (let flex = KRemoveDelegationTokenRecord_is_flexible version in
      len_when (0 \<le>s version) (str_len flex (krd_token_id x))
      + len_when flex (tagged_size [] (krd_unknown_tagged_fields x)))"

definition KRemoveDelegationTokenRecord_decode :: "i16 \<Rightarrow> KRemoveDelegationTokenRecord decoder" where
  "KRemoveDelegationTokenRecord_decode version =
     (let flex = KRemoveDelegationTokenRecord_is_flexible version in
      checked (contains_version KRemoveDelegationTokenRecord_MIN_VERSION KRemoveDelegationTokenRecord_MAX_VERSION ''RemoveDelegationTokenRecord version out of range'' version) (
        read_then (get_into (0 \<le>s version) (get_str flex) (\<lambda>v out. out\<lparr>krd_token_id := v\<rparr>) KRemoveDelegationTokenRecord_default) (\<lambda>out.
        get_trailer flex [] (\<lambda>u out. out\<lparr>krd_unknown_tagged_fields := u\<rparr>) out)))"

definition KRemoveDelegationTokenRecord_fields_wf :: "i16 \<Rightarrow> KRemoveDelegationTokenRecord \<Rightarrow> bool" where
  "KRemoveDelegationTokenRecord_fields_wf version x \<longleftrightarrow>
     (let flex = KRemoveDelegationTokenRecord_is_flexible version in
      str_wf flex (krd_token_id x))"

definition KRemoveDelegationTokenRecord_wf :: "i16 \<Rightarrow> KRemoveDelegationTokenRecord \<Rightarrow> bool" where
  "KRemoveDelegationTokenRecord_wf version x \<longleftrightarrow>
     version_in KRemoveDelegationTokenRecord_MIN_VERSION KRemoveDelegationTokenRecord_MAX_VERSION version \<and> KRemoveDelegationTokenRecord_fields_wf version x \<and> trailer_ok [] [] (krd_unknown_tagged_fields x)"

lemmas remove_delegation_token_record_versions =
    KRemoveDelegationTokenRecord_is_flexible_def KRemoveDelegationTokenRecord_FLEXIBLE_MIN_def
    KRemoveDelegationTokenRecord_MIN_VERSION_def KRemoveDelegationTokenRecord_MAX_VERSION_def version_in_def

lemmas remove_delegation_token_record_fields =
    Let_def field_ok_def KRemoveDelegationTokenRecord_fields_wf_def KRemoveDelegationTokenRecord_is_flexible_def
    KRemoveDelegationTokenRecord_FLEXIBLE_MIN_def

lemma remove_delegation_token_record_steps:
  assumes v: "0 \<le>s version" and flex: "flex = (KRemoveDelegationTokenRecord_is_flexible version)"
  shows "keeps (KRemoveDelegationTokenRecord_fields_wf version) (get_into (0 \<le>s version) (get_str flex) (\<lambda>v out. out\<lparr>krd_token_id := v\<rparr>))"
  unfolding flex 
  by (rule keeps_into; (rule yields_rules)?; simp add: v remove_delegation_token_record_fields)+

lemma remove_delegation_token_record_unknown:
  "KRemoveDelegationTokenRecord_fields_wf version (s\<lparr>krd_unknown_tagged_fields := u\<rparr>) = KRemoveDelegationTokenRecord_fields_wf version s"
  by (simp_all add: KRemoveDelegationTokenRecord_fields_wf_def)

lemma remove_delegation_token_record_yields:
  assumes r: "version_in KRemoveDelegationTokenRecord_MIN_VERSION KRemoveDelegationTokenRecord_MAX_VERSION version"
  shows "yields 1 (KRemoveDelegationTokenRecord_decode version) (KRemoveDelegationTokenRecord_wf version)"
proof -
  have v: "0 \<le>s version"
    using r by (simp add: remove_delegation_token_record_versions)
  have d: "KRemoveDelegationTokenRecord_fields_wf version KRemoveDelegationTokenRecord_default"
    by (simp add: KRemoveDelegationTokenRecord_default_def v remove_delegation_token_record_fields)
  show ?thesis
    unfolding KRemoveDelegationTokenRecord_decode_def Let_def
    by (rule yields_checked, (rule remove_delegation_token_record_steps[OF v refl, THEN yields_step], (rule d | assumption))+, rule yields_trailer[OF _ arms_keep_Nil[of "KRemoveDelegationTokenRecord_fields_wf version" "\<lambda>_. 0"]])
      (simp_all add: v d remove_delegation_token_record_unknown KRemoveDelegationTokenRecord_wf_def trailer_ok_def r KRemoveDelegationTokenRecord_is_flexible_def KRemoveDelegationTokenRecord_FLEXIBLE_MIN_def)
qed

interpretation remove_delegation_token_record: message_codec
  KRemoveDelegationTokenRecord_encode KRemoveDelegationTokenRecord_decode KRemoveDelegationTokenRecord_encoded_len "KRemoveDelegationTokenRecord_wf version" version
  for version
proof
  fix x
  assume w: "KRemoveDelegationTokenRecord_wf version x"
  then have v: "0 \<le>s version"
    by (simp add: KRemoveDelegationTokenRecord_wf_def remove_delegation_token_record_versions)
  show "carries (KRemoveDelegationTokenRecord_encode x version) (KRemoveDelegationTokenRecord_decode version) (KRemoveDelegationTokenRecord_encoded_len x version) x"
    unfolding KRemoveDelegationTokenRecord_encode_def KRemoveDelegationTokenRecord_encoded_len_def KRemoveDelegationTokenRecord_decode_def Let_def
    by (use w[unfolded KRemoveDelegationTokenRecord_wf_def KRemoveDelegationTokenRecord_fields_wf_def Let_def] in \<open>elim conjE\<close>, rule carries_cong_len)
      ((rule carries_rules | (erule absent_guarded, assumption) | erule absent_plain
        | simp add: v field_ok_def KRemoveDelegationTokenRecord_default_def remove_delegation_token_record_versions)+)
next
  show "yields 1 (KRemoveDelegationTokenRecord_decode version) (KRemoveDelegationTokenRecord_wf version)"
    by (rule case_split[OF remove_delegation_token_record_yields]) (auto simp: KRemoveDelegationTokenRecord_decode_def Let_def yields_refused)
  show "extends_input (KRemoveDelegationTokenRecord_decode version)"
    unfolding KRemoveDelegationTokenRecord_decode_def Let_def by (intro extends_rules)
qed

end
