(* ===== verification/KraftEnvelope.thy ===== *)
theory KraftEnvelope
  imports KraftTopicCodecs KraftBrokerCodecs KraftAccessCodecs
begin

unbundle bit_operations_syntax

text \<open>
  Record values: the bytes of one record of Kafka's metadata log. \<open>records/metadata/envelope.rs\<close> is the
  header in front of a record's body, \<open>records/metadata/record.rs\<close> the dispatch from the header's key to
  the generated codecs. A value that is written is read back, a value that is read is of a record that can
  be written again, and a value of a modelled record can be neither cut short nor extended.
\<close>

section \<open>The envelope\<close>

definition FRAME_VERSION :: u32 where
  "FRAME_VERSION = 1"

record ValueHeader =
  vh_api_key :: u32
  vh_api_version :: u32

datatype EnvelopeError = Truncated | UnknownFrameVersion u32

definition encode_value :: "u32 \<Rightarrow> u32 \<Rightarrow> bytes \<Rightarrow> ('e, bytes) result" where
  "encode_value key api_vsn body =
     write_all [put_uvarint FRAME_VERSION, put_uvarint key, put_uvarint api_vsn, put_slice body] []"

definition envelope_uvarint :: "(EnvelopeError, u32) reader" where
  "envelope_uvarint buf = map_err (\<lambda>_. Truncated) (get_uvarint buf)"

definition decode_value_header :: "(EnvelopeError, ValueHeader) reader" where
  "decode_value_header =
     read_then envelope_uvarint (\<lambda>frame_version.
     if frame_version \<noteq> FRAME_VERSION then read_err (UnknownFrameVersion frame_version)
     else read_then envelope_uvarint (\<lambda>key.
          read_then envelope_uvarint (\<lambda>api_vsn.
          read_ok \<lparr>vh_api_key = key, vh_api_version = api_vsn\<rparr>)))"

section \<open>Dispatch by key\<close>

definition UNKNOWN_FRAME_VERSION :: string where
  "UNKNOWN_FRAME_VERSION = ''unknown metadata record frame version''"

definition api_version_to_u32 :: "i16 \<Rightarrow> u32" where
  "api_version_to_u32 version = (if 0 \<le>s version then ucast version else 0)"

definition api_version_to_i16 :: "u32 \<Rightarrow> i16 wire_result" where
  "api_version_to_i16 version =
     (if version \<le> 0x7FFF then Ok (ucast version) else Err (SchemaMismatch ''metadata record apiVersion''))"

text \<open>What \<open>encode_value\<close> puts behind the header: the body of a modelled record, or the kept bytes.\<close>

fun kraft_encode_body :: "KraftMetadataRecord \<Rightarrow> i16 \<Rightarrow> encoder" where
  "kraft_encode_body (KRegisterBroker r) v = KRegisterBrokerRecord_encode r v"
| "kraft_encode_body (KTopic r) v = KTopicRecord_encode r v"
| "kraft_encode_body (KPartition r) v = KPartitionRecord_encode r v"
| "kraft_encode_body (KPartitionChange r) v = KPartitionChangeRecord_encode r v"
| "kraft_encode_body (KRemoveTopic r) v = KRemoveTopicRecord_encode r v"
| "kraft_encode_body (KBeginTransaction r) v = KBeginTransactionRecord_encode r v"
| "kraft_encode_body (KEndTransaction r) v = KEndTransactionRecord_encode r v"
| "kraft_encode_body (KNoOp r) v = KNoOpRecord_encode r v"
| "kraft_encode_body (KRegisterController r) v = KRegisterControllerRecord_encode r v"
| "kraft_encode_body (KUnregisterController r) v = KUnregisterControllerRecord_encode r v"
| "kraft_encode_body (KBrokerRegistrationChange r) v = KBrokerRegistrationChangeRecord_encode r v"
| "kraft_encode_body (KFeatureLevel r) v = KFeatureLevelRecord_encode r v"
| "kraft_encode_body (KUnregisterBroker r) v = KUnregisterBrokerRecord_encode r v"
| "kraft_encode_body (KConfig r) v = KConfigRecord_encode r v"
| "kraft_encode_body (KDelegationToken r) v = KDelegationTokenRecord_encode r v"
| "kraft_encode_body (KUserScramCredential r) v = KUserScramCredentialRecord_encode r v"
| "kraft_encode_body (KClientQuota r) v = KClientQuotaRecord_encode r v"
| "kraft_encode_body (KProducerIds r) v = KProducerIdsRecord_encode r v"
| "kraft_encode_body (KAccessControlEntry r) v = KAccessControlEntryRecord_encode r v"
| "kraft_encode_body (KRemoveAccessControlEntry r) v = KRemoveAccessControlEntryRecord_encode r v"
| "kraft_encode_body (KRemoveUserScramCredential r) v = KRemoveUserScramCredentialRecord_encode r v"
| "kraft_encode_body (KRemoveDelegationToken r) v = KRemoveDelegationTokenRecord_encode r v"
| "kraft_encode_body (KUnknown key api_vsn raw) v = put_slice raw"

definition kraft_encode_value :: "KraftMetadataRecord \<Rightarrow> i16 \<Rightarrow> bytes wire_result" where
  "kraft_encode_value rec api_vsn =
     and_then (kraft_encode_body rec api_vsn []) (\<lambda>body.
     encode_value (kraft_api_key rec) (api_version_to_u32 api_vsn) body)"

definition into_variant :: "('a \<Rightarrow> KraftMetadataRecord) \<Rightarrow> 'a decoder \<Rightarrow> KraftMetadataRecord decoder" where
  "into_variant variant decode = read_then decode (\<lambda>r. read_ok (variant r))"

definition decode_arms :: "i16 \<Rightarrow> (u32 \<times> KraftMetadataRecord decoder) list" where
  "decode_arms v =
     [(0, into_variant KRegisterBroker (KRegisterBrokerRecord_decode v)),
      (2, into_variant KTopic (KTopicRecord_decode v)),
      (3, into_variant KPartition (KPartitionRecord_decode v)),
      (5, into_variant KPartitionChange (KPartitionChangeRecord_decode v)),
      (9, into_variant KRemoveTopic (KRemoveTopicRecord_decode v)),
      (12, into_variant KFeatureLevel (KFeatureLevelRecord_decode v)),
      (17, into_variant KBrokerRegistrationChange (KBrokerRegistrationChangeRecord_decode v)),
      (20, into_variant KNoOp (KNoOpRecord_decode v)),
      (23, into_variant KBeginTransaction (KBeginTransactionRecord_decode v)),
      (24, into_variant KEndTransaction (KEndTransactionRecord_decode v)),
      (27, into_variant KRegisterController (KRegisterControllerRecord_decode v)),
      (29, into_variant KUnregisterController (KUnregisterControllerRecord_decode v)),
      (1, into_variant KUnregisterBroker (KUnregisterBrokerRecord_decode v)),
      (4, into_variant KConfig (KConfigRecord_decode v)),
      (10, into_variant KDelegationToken (KDelegationTokenRecord_decode v)),
      (11, into_variant KUserScramCredential (KUserScramCredentialRecord_decode v)),
      (14, into_variant KClientQuota (KClientQuotaRecord_decode v)),
      (15, into_variant KProducerIds (KProducerIdsRecord_decode v)),
      (18, into_variant KAccessControlEntry (KAccessControlEntryRecord_decode v)),
      (19, into_variant KRemoveAccessControlEntry (KRemoveAccessControlEntryRecord_decode v)),
      (22, into_variant KRemoveUserScramCredential (KRemoveUserScramCredentialRecord_decode v)),
      (26, into_variant KRemoveDelegationToken (KRemoveDelegationTokenRecord_decode v))]"

fun envelope_mismatch :: "EnvelopeError \<Rightarrow> ProtocolError" where
  "envelope_mismatch Truncated = SchemaMismatch ''metadata record envelope''"
| "envelope_mismatch (UnknownFrameVersion _) = SchemaMismatch UNKNOWN_FRAME_VERSION"

text \<open>The match on the key, and the check that a modelled body fills the value.\<close>

definition kraft_decode_body :: "i16 \<Rightarrow> ValueHeader \<Rightarrow> bytes \<Rightarrow> (KraftMetadataRecord \<times> i16) wire_result" where
  "kraft_decode_body v hdr cur =
     (case map_of (decode_arms v) (vh_api_key hdr) of
        None \<Rightarrow> Ok (KUnknown (vh_api_key hdr) (vh_api_version hdr) cur, v)
      | Some decode \<Rightarrow>
          and_then (decode cur) (\<lambda>(rec, cur).
          if cur \<noteq> [] then Err (SchemaMismatch ''trailing bytes after metadata record body'') else Ok (rec, v)))"

definition kraft_decode_value :: "bytes \<Rightarrow> (KraftMetadataRecord \<times> i16) wire_result" where
  "kraft_decode_value blob =
     and_then (map_err envelope_mismatch (decode_value_header blob)) (\<lambda>(hdr, cur).
     and_then (api_version_to_i16 (vh_api_version hdr)) (\<lambda>v. kraft_decode_body v hdr cur))"

section \<open>The envelope's bytes\<close>

definition envelope_bytes :: "u32 \<Rightarrow> u32 \<Rightarrow> bytes" where
  "envelope_bytes key api_vsn = uv_bytes FRAME_VERSION @ uv_bytes key @ uv_bytes api_vsn"

lemma encode_value_bytes: "encode_value k v body = Ok (envelope_bytes k v @ body)"
  by (simp add: encode_value_def envelope_bytes_def put_uvarint_eq put_slice_def)

lemma reads_header: "decode_value_header (envelope_bytes k v @ rest) = Ok (\<lparr>vh_api_key = k, vh_api_version = v\<rparr>, rest)"
  by (simp add: decode_value_header_def envelope_bytes_def envelope_uvarint_def read_then_def read_ok_def)

lemma sign_i16: "0 \<le>s (v :: i16) \<longleftrightarrow> uint v < 2 ^ 15"
proof -
  have b: "0 \<le> uint v" "uint v < 65536"
    using uint_bounded[of v] by simp_all
  have s: "sint v = (uint v + 32768) mod 65536 - 32768"
    by (simp add: sint_uint signed_take_bit_eq_take_bit_shift take_bit_eq_mod)
  show ?thesis
  proof (cases "uint v < 32768")
    case True
    then show ?thesis
      using b s by (simp add: word_sle_eq)
  next
    case False
    then have "(uint v + 32768) mod 65536 = uint v - 32768"
      using b minus_mod_self2[of "uint v + 32768" 65536] by simp
    then show ?thesis
      using False b s by (simp add: word_sle_eq)
  qed
qed

lemma narrow_version: "uint (w :: u32) < 2 ^ 15 \<Longrightarrow> uint (ucast w :: i16) = uint w"
  by (simp add: unsigned_ucast_eq take_bit_int_eq_self)

lemma widen_version: "uint (ucast (v :: i16) :: u32) = uint v"
  by (simp add: uint_up_ucast is_up)

lemma version_casts:
  "0 \<le>s v \<Longrightarrow> ucast (ucast v :: u32) = (v :: i16)"
  "uint w < 2 ^ 15 \<Longrightarrow> ucast (ucast w :: i16) = (w :: u32)"
  by (simp_all add: word_uint_eq_iff sign_i16 narrow_version widen_version)

lemma version_round_trip: "0 \<le>s v \<Longrightarrow> api_version_to_i16 (api_version_to_u32 v) = Ok v"
  by (simp add: api_version_to_i16_def api_version_to_u32_def version_casts)
    (simp add: sign_i16 word_le_def widen_version)

lemma version_fits: "api_version_to_i16 w = Ok v \<Longrightarrow> 0 \<le>s v \<and> api_version_to_u32 v = w"
  by (auto simp: api_version_to_i16_def api_version_to_u32_def sign_i16 word_le_def narrow_version version_casts split: if_splits)

section \<open>Which records can be written\<close>

definition modelled_keys :: "u32 set" where
  "modelled_keys = fst ` set (decode_arms 0)"

fun kraft_record_wf :: "i16 \<Rightarrow> KraftMetadataRecord \<Rightarrow> bool" where
  "kraft_record_wf v (KRegisterBroker r) = KRegisterBrokerRecord_wf v r"
| "kraft_record_wf v (KTopic r) = KTopicRecord_wf v r"
| "kraft_record_wf v (KPartition r) = KPartitionRecord_wf v r"
| "kraft_record_wf v (KPartitionChange r) = KPartitionChangeRecord_wf v r"
| "kraft_record_wf v (KRemoveTopic r) = KRemoveTopicRecord_wf v r"
| "kraft_record_wf v (KFeatureLevel r) = KFeatureLevelRecord_wf v r"
| "kraft_record_wf v (KBrokerRegistrationChange r) = KBrokerRegistrationChangeRecord_wf v r"
| "kraft_record_wf v (KNoOp r) = KNoOpRecord_wf v r"
| "kraft_record_wf v (KBeginTransaction r) = KBeginTransactionRecord_wf v r"
| "kraft_record_wf v (KEndTransaction r) = KEndTransactionRecord_wf v r"
| "kraft_record_wf v (KRegisterController r) = KRegisterControllerRecord_wf v r"
| "kraft_record_wf v (KUnregisterController r) = KUnregisterControllerRecord_wf v r"
| "kraft_record_wf v (KUnregisterBroker r) = KUnregisterBrokerRecord_wf v r"
| "kraft_record_wf v (KConfig r) = KConfigRecord_wf v r"
| "kraft_record_wf v (KDelegationToken r) = KDelegationTokenRecord_wf v r"
| "kraft_record_wf v (KUserScramCredential r) = KUserScramCredentialRecord_wf v r"
| "kraft_record_wf v (KClientQuota r) = KClientQuotaRecord_wf v r"
| "kraft_record_wf v (KProducerIds r) = KProducerIdsRecord_wf v r"
| "kraft_record_wf v (KAccessControlEntry r) = KAccessControlEntryRecord_wf v r"
| "kraft_record_wf v (KRemoveAccessControlEntry r) = KRemoveAccessControlEntryRecord_wf v r"
| "kraft_record_wf v (KRemoveUserScramCredential r) = KRemoveUserScramCredentialRecord_wf v r"
| "kraft_record_wf v (KRemoveDelegationToken r) = KRemoveDelegationTokenRecord_wf v r"
| "kraft_record_wf v (KUnknown key api_vsn raw) = (key \<notin> modelled_keys \<and> 0 \<le>s v \<and> api_vsn = api_version_to_u32 v)"

fun kraft_body_len :: "KraftMetadataRecord \<Rightarrow> i16 \<Rightarrow> nat" where
  "kraft_body_len (KRegisterBroker r) v = KRegisterBrokerRecord_encoded_len r v"
| "kraft_body_len (KTopic r) v = KTopicRecord_encoded_len r v"
| "kraft_body_len (KPartition r) v = KPartitionRecord_encoded_len r v"
| "kraft_body_len (KPartitionChange r) v = KPartitionChangeRecord_encoded_len r v"
| "kraft_body_len (KRemoveTopic r) v = KRemoveTopicRecord_encoded_len r v"
| "kraft_body_len (KFeatureLevel r) v = KFeatureLevelRecord_encoded_len r v"
| "kraft_body_len (KBrokerRegistrationChange r) v = KBrokerRegistrationChangeRecord_encoded_len r v"
| "kraft_body_len (KNoOp r) v = KNoOpRecord_encoded_len r v"
| "kraft_body_len (KBeginTransaction r) v = KBeginTransactionRecord_encoded_len r v"
| "kraft_body_len (KEndTransaction r) v = KEndTransactionRecord_encoded_len r v"
| "kraft_body_len (KRegisterController r) v = KRegisterControllerRecord_encoded_len r v"
| "kraft_body_len (KUnregisterController r) v = KUnregisterControllerRecord_encoded_len r v"
| "kraft_body_len (KUnregisterBroker r) v = KUnregisterBrokerRecord_encoded_len r v"
| "kraft_body_len (KConfig r) v = KConfigRecord_encoded_len r v"
| "kraft_body_len (KDelegationToken r) v = KDelegationTokenRecord_encoded_len r v"
| "kraft_body_len (KUserScramCredential r) v = KUserScramCredentialRecord_encoded_len r v"
| "kraft_body_len (KClientQuota r) v = KClientQuotaRecord_encoded_len r v"
| "kraft_body_len (KProducerIds r) v = KProducerIdsRecord_encoded_len r v"
| "kraft_body_len (KAccessControlEntry r) v = KAccessControlEntryRecord_encoded_len r v"
| "kraft_body_len (KRemoveAccessControlEntry r) v = KRemoveAccessControlEntryRecord_encoded_len r v"
| "kraft_body_len (KRemoveUserScramCredential r) v = KRemoveUserScramCredentialRecord_encoded_len r v"
| "kraft_body_len (KRemoveDelegationToken r) v = KRemoveDelegationTokenRecord_encoded_len r v"
| "kraft_body_len (KUnknown key api_vsn raw) v = length raw"

lemmas record_carries =
    register_broker_record.message_carries
    topic_record.message_carries
    partition_record.message_carries
    partition_change_record.message_carries
    remove_topic_record.message_carries
    feature_level_record.message_carries
    broker_registration_change_record.message_carries
    no_op_record.message_carries
    begin_transaction_record.message_carries
    end_transaction_record.message_carries
    register_controller_record.message_carries
    unregister_controller_record.message_carries
    unregister_broker_record.message_carries
    config_record.message_carries
    delegation_token_record.message_carries
    user_scram_credential_record.message_carries
    client_quota_record.message_carries
    producer_ids_record.message_carries
    access_control_entry_record.message_carries
    remove_access_control_entry_record.message_carries
    remove_user_scram_credential_record.message_carries
    remove_delegation_token_record.message_carries

lemmas record_yields =
    register_broker_record.message_yields
    topic_record.message_yields
    partition_record.message_yields
    partition_change_record.message_yields
    remove_topic_record.message_yields
    feature_level_record.message_yields
    broker_registration_change_record.message_yields
    no_op_record.message_yields
    begin_transaction_record.message_yields
    end_transaction_record.message_yields
    register_controller_record.message_yields
    unregister_controller_record.message_yields
    unregister_broker_record.message_yields
    config_record.message_yields
    delegation_token_record.message_yields
    user_scram_credential_record.message_yields
    client_quota_record.message_yields
    producer_ids_record.message_yields
    access_control_entry_record.message_yields
    remove_access_control_entry_record.message_yields
    remove_user_scram_credential_record.message_yields
    remove_delegation_token_record.message_yields

lemmas record_extends =
    register_broker_record.message_extends
    topic_record.message_extends
    partition_record.message_extends
    partition_change_record.message_extends
    remove_topic_record.message_extends
    feature_level_record.message_extends
    broker_registration_change_record.message_extends
    no_op_record.message_extends
    begin_transaction_record.message_extends
    end_transaction_record.message_extends
    register_controller_record.message_extends
    unregister_controller_record.message_extends
    unregister_broker_record.message_extends
    config_record.message_extends
    delegation_token_record.message_extends
    user_scram_credential_record.message_extends
    client_quota_record.message_extends
    producer_ids_record.message_extends
    access_control_entry_record.message_extends
    remove_access_control_entry_record.message_extends
    remove_user_scram_credential_record.message_extends
    remove_delegation_token_record.message_extends

lemmas record_wf_defs =
    KRegisterBrokerRecord_wf_def KRegisterBrokerRecord_MIN_VERSION_def KRegisterBrokerRecord_MAX_VERSION_def
    KTopicRecord_wf_def KTopicRecord_MIN_VERSION_def KTopicRecord_MAX_VERSION_def KPartitionRecord_wf_def
    KPartitionRecord_MIN_VERSION_def KPartitionRecord_MAX_VERSION_def KPartitionChangeRecord_wf_def
    KPartitionChangeRecord_MIN_VERSION_def KPartitionChangeRecord_MAX_VERSION_def KRemoveTopicRecord_wf_def
    KRemoveTopicRecord_MIN_VERSION_def KRemoveTopicRecord_MAX_VERSION_def KFeatureLevelRecord_wf_def
    KFeatureLevelRecord_MIN_VERSION_def KFeatureLevelRecord_MAX_VERSION_def KBrokerRegistrationChangeRecord_wf_def
    KBrokerRegistrationChangeRecord_MIN_VERSION_def KBrokerRegistrationChangeRecord_MAX_VERSION_def KNoOpRecord_wf_def
    KNoOpRecord_MIN_VERSION_def KNoOpRecord_MAX_VERSION_def KBeginTransactionRecord_wf_def
    KBeginTransactionRecord_MIN_VERSION_def KBeginTransactionRecord_MAX_VERSION_def KEndTransactionRecord_wf_def
    KEndTransactionRecord_MIN_VERSION_def KEndTransactionRecord_MAX_VERSION_def KRegisterControllerRecord_wf_def
    KRegisterControllerRecord_MIN_VERSION_def KRegisterControllerRecord_MAX_VERSION_def
    KUnregisterControllerRecord_wf_def KUnregisterControllerRecord_MIN_VERSION_def
    KUnregisterControllerRecord_MAX_VERSION_def KUnregisterBrokerRecord_wf_def KUnregisterBrokerRecord_MIN_VERSION_def
    KUnregisterBrokerRecord_MAX_VERSION_def KConfigRecord_wf_def KConfigRecord_MIN_VERSION_def
    KConfigRecord_MAX_VERSION_def KDelegationTokenRecord_wf_def KDelegationTokenRecord_MIN_VERSION_def
    KDelegationTokenRecord_MAX_VERSION_def KUserScramCredentialRecord_wf_def
    KUserScramCredentialRecord_MIN_VERSION_def KUserScramCredentialRecord_MAX_VERSION_def KClientQuotaRecord_wf_def
    KClientQuotaRecord_MIN_VERSION_def KClientQuotaRecord_MAX_VERSION_def KProducerIdsRecord_wf_def
    KProducerIdsRecord_MIN_VERSION_def KProducerIdsRecord_MAX_VERSION_def KAccessControlEntryRecord_wf_def
    KAccessControlEntryRecord_MIN_VERSION_def KAccessControlEntryRecord_MAX_VERSION_def
    KRemoveAccessControlEntryRecord_wf_def KRemoveAccessControlEntryRecord_MIN_VERSION_def
    KRemoveAccessControlEntryRecord_MAX_VERSION_def KRemoveUserScramCredentialRecord_wf_def
    KRemoveUserScramCredentialRecord_MIN_VERSION_def KRemoveUserScramCredentialRecord_MAX_VERSION_def
    KRemoveDelegationTokenRecord_wf_def KRemoveDelegationTokenRecord_MIN_VERSION_def
    KRemoveDelegationTokenRecord_MAX_VERSION_def

lemma kraft_record_version: "kraft_record_wf v rec \<Longrightarrow> 0 \<le>s v"
  by (cases rec) (simp_all add: record_wf_defs version_in_def)

lemma into_variant_carries: "carries w r n x \<Longrightarrow> carries w (into_variant variant r) n (variant x)"
  unfolding carries_def into_variant_def reads_def read_then_def read_ok_def by auto

lemma into_variant_yields: "yields n r P \<Longrightarrow> (\<And>x. P x \<Longrightarrow> Q (variant x)) \<Longrightarrow> yields n (into_variant variant r) Q"
  unfolding yields_def into_variant_def by (auto simp: read_then_def read_ok_def and_then_eq_Ok)

lemma modelled_keys_arms: "map_of (decode_arms v) key = None \<longleftrightarrow> key \<notin> modelled_keys"
  by (simp add: map_of_eq_None_iff modelled_keys_def decode_arms_def)

lemma body_written:
  assumes "kraft_record_wf v rec" "kraft_api_key rec \<in> modelled_keys"
  shows "\<exists>decode. map_of (decode_arms v) (kraft_api_key rec) = Some decode
    \<and> carries (kraft_encode_body rec v) decode (kraft_body_len rec v) rec"
  using assms by (cases rec) (simp_all add: decode_arms_def into_variant_carries record_carries)

lemma arms_read: "list_all (\<lambda>(key, decode). yields 1 decode (\<lambda>rec. kraft_record_wf v rec \<and> kraft_api_key rec = key)) (decode_arms v)"
  unfolding decode_arms_def list.pred_inject(2) prod.case
  by (intro conjI list.pred_inject(1); rule into_variant_yields; (rule record_yields)?; simp)

lemma body_read: "map_of (decode_arms v) key = Some decode
    \<Longrightarrow> yields 1 decode (\<lambda>rec. kraft_record_wf v rec \<and> kraft_api_key rec = key)"
  using arms_read[of v] by (auto simp: list_all_iff dest: map_of_SomeD)

section \<open>Values and records\<close>

lemma value_header: "0 \<le>s v \<Longrightarrow> kraft_decode_value (envelope_bytes key (api_version_to_u32 v) @ body)
    = kraft_decode_body v \<lparr>vh_api_key = key, vh_api_version = api_version_to_u32 v\<rparr> body"
  by (simp add: kraft_decode_value_def reads_header version_round_trip)

lemma value_written:
  assumes "kraft_record_wf v rec"
  obtains body where "kraft_encode_value rec v = Ok (envelope_bytes (kraft_api_key rec) (api_version_to_u32 v) @ body)"
    "length body = kraft_body_len rec v"
    "kraft_api_key rec \<in> modelled_keys \<Longrightarrow> \<exists>decode. map_of (decode_arms v) (kraft_api_key rec) = Some decode \<and> reads decode body rec"
    "kraft_api_key rec \<notin> modelled_keys \<Longrightarrow> rec = KUnknown (kraft_api_key rec) (api_version_to_u32 v) body"
proof (cases "kraft_api_key rec \<in> modelled_keys")
  case True
  then obtain decode body where "map_of (decode_arms v) (kraft_api_key rec) = Some decode"
      "produces (kraft_encode_body rec v) body" "reads decode body rec" "length body = kraft_body_len rec v"
    using body_written[OF assms] by (auto simp: carries_def)
  then show ?thesis
    using True by (intro that[of body]) (simp_all add: kraft_encode_value_def producesD encode_value_bytes)
next
  case False
  then obtain key raw where "rec = KUnknown key (api_version_to_u32 v) raw"
    using assms by (cases rec) (simp_all add: modelled_keys_def decode_arms_def)
  then show ?thesis
    using False by (intro that[of raw]) (simp_all add: kraft_encode_value_def put_slice_def encode_value_bytes)
qed

lemma value_read:
  assumes "kraft_decode_value blob = Ok (rec, v)"
  shows "kraft_record_wf v rec"
proof -
  obtain hdr cur v' where h: "api_version_to_i16 (vh_api_version hdr) = Ok v'" and c: "kraft_decode_body v' hdr cur = Ok (rec, v)"
    using assms by (auto simp: kraft_decode_value_def and_then_eq_Ok)
  show ?thesis
  proof (cases "map_of (decode_arms v') (vh_api_key hdr)")
    case None
    then show ?thesis
      using c version_fits[OF h] modelled_keys_arms[of v' "vh_api_key hdr"] by (auto simp: kraft_decode_body_def)
  next
    case (Some decode)
    then show ?thesis
      using c yieldsD(1)[OF body_read[OF Some]] by (auto simp: kraft_decode_body_def and_then_eq_Ok split: if_splits)
  qed
qed

lemma value_reads_back:
  assumes "kraft_record_wf v rec"
  shows "\<exists>blob. kraft_encode_value rec v = Ok blob \<and> kraft_decode_value blob = Ok (rec, v)
    \<and> length blob = uvarint_len FRAME_VERSION + uvarint_len (kraft_api_key rec) + uvarint_len (api_version_to_u32 v) + kraft_body_len rec v"
proof -
  let ?key = "kraft_api_key rec" and ?version = "api_version_to_u32 v"
  obtain body where b: "kraft_encode_value rec v = Ok (envelope_bytes ?key ?version @ body)" "length body = kraft_body_len rec v"
      "?key \<in> modelled_keys \<Longrightarrow> \<exists>decode. map_of (decode_arms v) ?key = Some decode \<and> reads decode body rec"
      "?key \<notin> modelled_keys \<Longrightarrow> rec = KUnknown ?key ?version body"
    using assms by (rule value_written) blast
  have "kraft_decode_body v \<lparr>vh_api_key = ?key, vh_api_version = ?version\<rparr> body = Ok (rec, v)"
  proof (cases "?key \<in> modelled_keys")
    case True
    then show ?thesis
      using b(3) readsD[of _ body rec "[]"] by (fastforce simp: kraft_decode_body_def)
  next
    case False
    then show ?thesis
      using b(4) modelled_keys_arms[of v ?key] by (simp add: kraft_decode_body_def)
  qed
  then show ?thesis
    using b(1,2) by (simp add: envelope_bytes_def uvarint_len_eq value_header[OF kraft_record_version[OF assms], unfolded envelope_bytes_def, simplified])
qed

section \<open>Cut and extended values\<close>

lemma header_extends: "extends_input decode_value_header"
proof -
  have "extends_input envelope_uvarint"
    unfolding extends_input_def envelope_uvarint_def using extends_inputD[OF uvarint.codec_extends] by auto
  then show ?thesis
    unfolding decode_value_header_def by (intro extends_rules)
qed

lemma into_variant_extends: "extends_input r \<Longrightarrow> extends_input (into_variant variant r)"
  unfolding into_variant_def by (intro extends_rules)

lemma body_extends: "map_of (decode_arms v) key = Some decode \<Longrightarrow> extends_input decode"
  by (auto simp: decode_arms_def intro!: into_variant_extends record_extends split: if_splits)

text \<open>More bytes behind a value: refused after a modelled body, kept behind an unknown one.\<close>

lemma value_extended:
  assumes "kraft_decode_value blob = Ok (rec, v)" "extra \<noteq> []"
  shows "kraft_api_key rec \<in> modelled_keys
      \<Longrightarrow> kraft_decode_value (blob @ extra) = Err (SchemaMismatch ''trailing bytes after metadata record body'')"
    and "kraft_api_key rec \<notin> modelled_keys \<Longrightarrow> \<exists>rec'. kraft_decode_value (blob @ extra) = Ok (rec', v) \<and> kraft_api_key rec' = kraft_api_key rec"
proof -
  obtain hdr cur v' where h: "decode_value_header blob = Ok (hdr, cur)" "api_version_to_i16 (vh_api_version hdr) = Ok v'"
    and c: "kraft_decode_body v' hdr cur = Ok (rec, v)"
    using assms(1) by (auto simp: kraft_decode_value_def and_then_eq_Ok)
  have e: "kraft_decode_value (blob @ extra) = kraft_decode_body v' hdr (cur @ extra)"
    using extends_inputD[OF header_extends h(1)] h(2) by (simp add: kraft_decode_value_def)
  show "kraft_decode_value (blob @ extra) = Err (SchemaMismatch ''trailing bytes after metadata record body'')"
    if "kraft_api_key rec \<in> modelled_keys"
  proof (cases "map_of (decode_arms v') (vh_api_key hdr)")
    case None
    then show ?thesis
      using c that modelled_keys_arms[of v' "vh_api_key hdr"] by (auto simp: kraft_decode_body_def)
  next
    case (Some decode)
    then show ?thesis
      using c assms(2) extends_inputD[OF body_extends[OF Some]] unfolding e
      by (fastforce simp: kraft_decode_body_def and_then_eq_Ok split: if_splits)
  qed
  show "\<exists>rec'. kraft_decode_value (blob @ extra) = Ok (rec', v) \<and> kraft_api_key rec' = kraft_api_key rec"
    if "kraft_api_key rec \<notin> modelled_keys"
  proof (cases "map_of (decode_arms v') (vh_api_key hdr)")
    case None
    then show ?thesis
      using c unfolding e by (auto simp: kraft_decode_body_def)
  next
    case (Some decode)
    then have "vh_api_key hdr \<in> modelled_keys"
      using modelled_keys_arms[of v' "vh_api_key hdr"] by auto
    then show ?thesis
      using c that yieldsD(1)[OF body_read[OF Some]] Some by (auto simp: kraft_decode_body_def and_then_eq_Ok split: if_splits)
  qed
qed

section \<open>Properties\<close>

text \<open>The record of the source's byte-exact test.\<close>

definition sample_departure :: KraftMetadataRecord where
  "sample_departure = KUnregisterController (KUnregisterControllerRecord_default\<lparr>kuc_controller_id := 3000\<rparr>)"

lemma sample_departure_wf: "kraft_record_wf 0 sample_departure"
  by (simp add: sample_departure_def KUnregisterControllerRecord_wf_def unregister_controller_record_versions
    unregister_controller_record_fields KUnregisterControllerRecord_default_def unknown_wf_def)

lemma put_uvarint_small: "v AND NOT 0x7F = 0 \<Longrightarrow> put_uvarint v buf = Ok (buf @ [ucast v])"
  unfolding put_uvarint_def by (subst put_uv_loop.simps) simp

lemma sample_departure_bytes: "kraft_encode_value sample_departure 0 = Ok [0x01, 0x1d, 0x00, 0x00, 0x00, 0x0b, 0xb8, 0x00]"
  by (simp add: sample_departure_def kraft_encode_value_def KUnregisterControllerRecord_encode_def unregister_controller_record_versions
      write_check_def contains_version_def KUnregisterControllerRecord_default_def put_when_def put_tagged_def encode_value_def put_slice_def
      put_i32_def WriteTaggedFields_new_def write_tagged_def varint_length_def api_version_to_u32_def FRAME_VERSION_def put_uvarint_small
      be_bytes_numeral)
text \<open>
  C4: A record and its bytes determine each other. A record that fits its version is written as a value of
  exactly the header's and the body's lengths, which is read back to the same record and version; and the
  records that some value is read to are exactly those that fit their version, the unknown ones included.
  So whatever a reader accepts it can write again, at the version the envelope declared.
\<close>

theorem value_round_trip:
  "(kraft_record_wf v rec \<longleftrightarrow> (\<exists>blob. kraft_decode_value blob = Ok (rec, v)))
   \<and> (kraft_record_wf v rec \<longrightarrow> (\<exists>blob. kraft_encode_value rec v = Ok blob \<and> kraft_decode_value blob = Ok (rec, v)
        \<and> length blob = uvarint_len FRAME_VERSION + uvarint_len (kraft_api_key rec) + uvarint_len (api_version_to_u32 v) + kraft_body_len rec v))"
  using value_read value_reads_back by blast

theorem value_round_trip_witness:
  "kraft_decode_value [0x01, 0x1d, 0x00, 0x00, 0x00, 0x0b, 0xb8, 0x00] = Ok (sample_departure, 0)
   \<and> kraft_record_wf 0 sample_departure"
  using value_round_trip[of 0 sample_departure] sample_departure_wf sample_departure_bytes by simp



text \<open>An over-long varint in the envelope is accepted, so that such a value is not written back byte for byte.\<close>

lemma overlong_value:
  "kraft_decode_value [0x81, 0x00, 0x1d, 0x00, 0x00, 0x00, 0x0b, 0xb8, 0x00] = Ok (sample_departure, 0)
   \<and> kraft_encode_value sample_departure 0 = Ok [0x01, 0x1d, 0x00, 0x00, 0x00, 0x0b, 0xb8, 0x00]"
proof -
  have step: "get_uv_loop (Suc k) mx acc shift (b # buf) = (if b AND 0x80 = 0 then Ok (acc OR push_bit shift (ucast (b AND 0x7F)), buf)
      else get_uv_loop k mx (acc OR push_bit shift (ucast (b AND 0x7F))) (shift + 7) buf)" for k mx acc shift b buf
    by (simp add: Let_def)
  have "get_uvarint (0x81 # 0x00 # rest) = Ok (1, rest)" "get_uvarint (0x01 # rest) = Ok (1, rest)" for rest
    unfolding get_uvarint_def MAX_VARINT_BYTES_def
    using step[of 4 5 "0 :: u32" 0 "0x81" "0x00 # rest"] step[of 3 5 "1 :: u32" 7 "0x00" rest] step[of 4 5 "0 :: u32" 0 "0x01" rest] by simp_all
  then have "decode_value_header [0x81, 0x00, 0x1d, 0x00, 0x00, 0x00, 0x0b, 0xb8, 0x00]
      = decode_value_header [0x01, 0x1d, 0x00, 0x00, 0x00, 0x0b, 0xb8, 0x00]"
    by (simp add: decode_value_header_def envelope_uvarint_def read_then_def)
  then have "kraft_decode_value [0x81, 0x00, 0x1d, 0x00, 0x00, 0x00, 0x0b, 0xb8, 0x00]
      = kraft_decode_value [0x01, 0x1d, 0x00, 0x00, 0x00, 0x0b, 0xb8, 0x00]"
    by (simp only: kraft_decode_value_def)
  then show ?thesis
    using value_reads_back[OF sample_departure_wf] sample_departure_bytes by simp
qed

end
