(* ===== verification/KraftValues.thy ===== *)
theory KraftValues
  imports KraftLog KraftEnvelope
begin

text \<open>
  The way from the records of the image to the bytes of the metadata log and back: \<open>to_kraft_values\<close> and
  \<open>from_kraft_value\<close> of \<open>kraft_translate.rs\<close>, on top of the translation (\<open>KraftTranslate\<close>) and the value
  envelope (\<open>KraftEnvelope\<close>). The error texts that the code copies into \<open>TranslateError\<close> are left out. A log
  of values rebuilds the image its records describe, and a record written for an older cluster is read
  back without the fields its version does not have.
\<close>

section \<open>Values of the image's records\<close>

definition to_kraft_values :: "ser \<Rightarrow> MetadataRecord \<Rightarrow> MetadataImage \<Rightarrow> (TranslateError, bytes list) result" where
  "to_kraft_values ser rec img =
     (let metadata_version = image_metadata_version img
      in and_then (to_kraft_records ser rec img) (try_map (\<lambda>kr.
           let (kr', version) = frame metadata_version kr
           in map_err (\<lambda>_. EncodeFailed) (kraft_encode_value kr' version))))"

definition from_kraft_value :: "de \<Rightarrow> bytes \<Rightarrow> MetadataImage \<Rightarrow> (TranslateError, MetadataRecord) result" where
  "from_kraft_value de blob img =
     and_then (map_err (\<lambda>_. DecodeFailed) (kraft_decode_value blob)) (\<lambda>(rec, version). from_kraft de rec img)"

section \<open>Framed records\<close>

text \<open>A record that its frame keeps as it is, and that fits the version it is framed at.\<close>

definition carried :: "MetadataImage \<Rightarrow> KraftMetadataRecord \<Rightarrow> bool" where
  "carried img k = (case frame (image_metadata_version img) k of (k', version) \<Rightarrow> k' = k \<and> kraft_record_wf version k)"

fun replay_values :: "de \<Rightarrow> bytes list \<Rightarrow> MetadataImage \<Rightarrow> (TranslateError, MetadataImage) result" where
  "replay_values de [] img = Ok img"
| "replay_values de (b # bs) img = and_then (from_kraft_value de b img) (\<lambda>rec. replay_values de bs (apply_record rec img))"

lemma replay_values_append: "replay_values de (bs @ bs') img = and_then (replay_values de bs img) (replay_values de bs')"
proof (induction bs arbitrary: img)
  case (Cons b bs)
  then show ?case
    by (cases "from_kraft_value de b img") simp_all
qed simp

lemma value_carried:
  assumes "kraft_record_wf v k"
  obtains blob where "kraft_encode_value k v = Ok blob" "\<And>de img. from_kraft_value de blob img = from_kraft de k img"
  using value_reads_back[OF assms] by (auto simp: from_kraft_value_def)

lemma values_carried:
  assumes "list_all (carried img) ks"
  shows "\<exists>bs. try_map (\<lambda>kr. let (kr', version) = frame (image_metadata_version img) kr
      in map_err (\<lambda>_. EncodeFailed) (kraft_encode_value kr' version)) ks = Ok bs
    \<and> (\<forall>de img'. replay_values de bs img' = replay de ks img')"
  using assms
proof (induction ks)
  case (Cons k ks)
  obtain v where f: "frame (image_metadata_version img) k = (k, v)" and w: "kraft_record_wf v k"
    using Cons.prems by (auto simp: carried_def split: prod.splits)
  obtain blob where b: "kraft_encode_value k v = Ok blob" "\<And>de img. from_kraft_value de blob img = from_kraft de k img"
    using value_carried[OF w] by blast
  obtain bs where "try_map (\<lambda>kr. let (kr', version) = frame (image_metadata_version img) kr
      in map_err (\<lambda>_. EncodeFailed) (kraft_encode_value kr' version)) ks = Ok bs" "\<forall>de img'. replay_values de bs img' = replay de ks img'"
    using Cons by auto
  then show ?case
    using f b by simp
qed simp

lemma to_kraft_values_replay:
  assumes "to_kraft_records ser rec img = Ok ks" "list_all (carried img) ks"
  obtains bs where "to_kraft_values ser rec img = Ok bs" "\<And>de img'. replay_values de bs img' = replay de ks img'"
  using values_carried[OF assms(2)] assms(1) by (auto simp: to_kraft_values_def Let_def)

section \<open>A log of values\<close>

text \<open>The controller of \<open>write_log\<close>, at the level of bytes.\<close>

fun write_values :: "ser \<Rightarrow> de \<Rightarrow> MetadataRecord list \<Rightarrow> MetadataImage \<Rightarrow> (TranslateError, bytes list) result" where
  "write_values ser de [] img = Ok []"
| "write_values ser de (r # rs) img =
     and_then (to_kraft_values ser r img) (\<lambda>bs.
     and_then (replay_values de bs img) (\<lambda>img'.
     and_then (write_values ser de rs img') (\<lambda>log. Ok (bs @ log))))"

fun all_carried :: "ser \<Rightarrow> de \<Rightarrow> MetadataRecord list \<Rightarrow> MetadataImage \<Rightarrow> bool" where
  "all_carried ser de [] img = True"
| "all_carried ser de (r # rs) img =
     (case to_kraft_records ser r img of
        Err e \<Rightarrow> True
      | Ok ks \<Rightarrow> list_all (carried img) ks \<and> (case replay de ks img of Err e \<Rightarrow> True | Ok img' \<Rightarrow> all_carried ser de rs img'))"

lemma write_values_log:
  "all_carried ser de rs img \<Longrightarrow> write_log ser de rs img = Ok log
    \<Longrightarrow> \<exists>bs. write_values ser de rs img = Ok bs \<and> replay_values de bs img = replay de log img"
proof (induction rs arbitrary: img log)
  case (Cons r rs)
  obtain ks img' log' where k: "to_kraft_records ser r img = Ok ks" "replay de ks img = Ok img'"
      "write_log ser de rs img' = Ok log'" "log = ks @ log'"
    using Cons.prems(2) by (auto simp: and_then_eq_Ok)
  have c: "list_all (carried img) ks" "all_carried ser de rs img'"
    using Cons.prems(1) k by simp_all
  obtain bs where "to_kraft_values ser r img = Ok bs" "\<And>de img'. replay_values de bs img' = replay de ks img'"
    using to_kraft_values_replay[OF k(1) c(1)] by blast
  then show ?case
    using Cons.IH[OF c(2) k(3)] k(2,4) by (auto simp: replay_values_append replay_log_append)
qed simp

section \<open>Older versions\<close>

text \<open>The record without the fields that a version does not have.\<close>

fun at_version :: "i16 \<Rightarrow> KraftMetadataRecord \<Rightarrow> KraftMetadataRecord" where
  "at_version v (KRegisterBroker r) = KRegisterBroker (r
     \<lparr>krb_in_controlled_shutdown := 1 \<le>s v \<and> krb_in_controlled_shutdown r,
      krb_is_migrating_zk_broker := 2 \<le>s v \<and> krb_is_migrating_zk_broker r,
      krb_log_dirs := if 3 \<le>s v then krb_log_dirs r else [],
      krb_cordoned_log_dirs := if 4 \<le>s v then krb_cordoned_log_dirs r else None\<rparr>)"
| "at_version v (KBrokerRegistrationChange c) = KBrokerRegistrationChange (c
     \<lparr>kbc_in_controlled_shutdown := if 1 \<le>s v then kbc_in_controlled_shutdown c else 0,
      kbc_log_dirs := if 2 \<le>s v then kbc_log_dirs c else [],
      kbc_cordoned_log_dirs := if 3 \<le>s v then kbc_cordoned_log_dirs c else None\<rparr>)"
| "at_version v (KPartition p) = KPartition (p
     \<lparr>kp_directories := if 1 \<le>s v then kp_directories p else [],
      kp_eligible_leader_replicas := if 2 \<le>s v then kp_eligible_leader_replicas p else None,
      kp_last_known_elr := if 2 \<le>s v then kp_last_known_elr p else None\<rparr>)"
| "at_version v (KPartitionChange c) = KPartitionChange (c
     \<lparr>kpc_directories := if 1 \<le>s v then kpc_directories c else None,
      kpc_eligible_leader_replicas := if 2 \<le>s v then kpc_eligible_leader_replicas c else None,
      kpc_last_known_elr := if 2 \<le>s v then kpc_last_known_elr c else None\<rparr>)"
| "at_version v rec = rec"

lemma kraft_encode_body_at: "kraft_encode_body (at_version v rec) v = kraft_encode_body rec v"
proof (cases rec)
  case (KRegisterBroker r)
  then show ?thesis
    by (cases "1 \<le>s v"; cases "2 \<le>s v"; cases "3 \<le>s v"; cases "4 \<le>s v")
      (simp_all add: KRegisterBrokerRecord_encode_def register_broker_record_writers Let_def put_when_def[abs_def] put_tagged_def[abs_def] cong: if_cong)
next
  case (KBrokerRegistrationChange c)
  then show ?thesis
    by (cases "1 \<le>s v"; cases "2 \<le>s v"; cases "3 \<le>s v")
      (simp_all add: KBrokerRegistrationChangeRecord_encode_def Let_def put_when_def[abs_def] put_tagged_def[abs_def] cong: if_cong)
next
  case (KPartition p)
  then show ?thesis
    by (cases "1 \<le>s v"; cases "2 \<le>s v")
      (simp_all add: KPartitionRecord_encode_def partition_record_writers Let_def put_when_def[abs_def] put_tagged_def[abs_def] cong: if_cong)
next
  case (KPartitionChange c)
  then show ?thesis
    by (cases "1 \<le>s v"; cases "2 \<le>s v")
      (simp_all add: KPartitionChangeRecord_encode_def partition_change_record_writers Let_def put_when_def[abs_def] put_tagged_def[abs_def] cong: if_cong)
qed simp_all

lemma at_version_key: "kraft_api_key (at_version v rec) = kraft_api_key rec"
  by (cases rec) simp_all

lemma encode_value_at: "kraft_encode_value (at_version v rec) v = kraft_encode_value rec v"
  by (simp add: kraft_encode_value_def kraft_encode_body_at at_version_key)

lemma at_version_strip: "at_version v (strip_register v rec) = at_version v rec"
  by (cases rec) (simp_all add: strip_register_def Let_def word_sle_eq)

section \<open>Samples\<close>

definition sample_topology :: "MetadataRecord list" where
  "sample_topology = [V1Topic (sample_topic [0x61] 7), V1Partition (sample_partition [0x61] 0 [1, 2])]"

definition logged_topic :: KraftMetadataRecord where
  "logged_topic = KTopic (KTopicRecord_default\<lparr>kt_name := [0x61], kt_topic_id := to_kuuid 7\<rparr>)"

definition logged_partition :: KraftMetadataRecord where
  "logged_partition = KPartition (KPartitionRecord_default
     \<lparr>kp_partition_id := 0, kp_leader_epoch := 0, kp_partition_epoch := 0, kp_topic_id := to_kuuid 7, kp_replicas := [1, 2], kp_isr := [1], kp_leader := 1, kp_directories := [to_kuuid 5]\<rparr>)"

definition after_topic :: MetadataImage where
  "after_topic = apply_record (V1Topic ((sample_topic [0x61] 7)\<lparr>tr_partitions := 0, tr_replication_factor := 1\<rparr>)) (MetadataImage_new 9)"

lemma topology_logged:
  "to_kraft_records epoch_ser (V1Topic (sample_topic [0x61] 7)) (MetadataImage_new 9) = Ok [logged_topic]"
  "replay epoch_de [logged_topic] (MetadataImage_new 9) = Ok after_topic"
  "to_kraft_records epoch_ser (V1Partition (sample_partition [0x61] 0 [1, 2])) after_topic = Ok [logged_partition]"
  "image_metadata_version (MetadataImage_new 9) = 34" "image_metadata_version after_topic = 34"
  by code_simp+

lemma kuuid_wf: "uuid_wf (to_kuuid u)"
  by (simp add: uuid_wf_def to_kuuid_def as_bytes_def)

lemma topology_carried: "all_carried epoch_ser epoch_de sample_topology (MetadataImage_new 9)"
proof -
  have "carried (MetadataImage_new 9) logged_topic"
    unfolding carried_def topology_logged
    by (simp add: frame_def strip_change_def record_version_def strip_register_def logged_topic_def KTopicRecord_wf_def
        topic_record_versions topic_record_fields KTopicRecord_default_def kuuid_wf unknown_wf_def str_wf_def compact_string_wf_def
        utf8_def from_utf8.simps utf8_width_def)
  moreover have "carried after_topic logged_partition"
    unfolding carried_def topology_logged
    by (simp add: frame_def strip_change_def record_version_def strip_register_def logged_partition_def ELR_MIN_LEVEL_def KPartitionRecord_wf_def
        partition_record_versions partition_record_fields KPartitionRecord_default_def kuuid_wf unknown_wf_def array_ok_def array_len_wf_def
        trailer_ok_def word_sle_eq nullable_array_size_def nullable_array_len_prefix_len_def uvarint_len_def)
  ultimately show ?thesis
    by (simp add: sample_topology_def topology_logged del: replay.simps split: sum.split)
qed

lemma topology_writable: "writable epoch_ser epoch_de sample_topology (MetadataImage_new 9)"
  by code_simp

section \<open>Properties\<close>



text \<open>
  C31: A record written for an older cluster is read back without what the cluster does not know. Encoding a
  record at a version is encoding it with the version's missing fields at their defaults, and when that
  record fits the version it is what the value is read back to. Clearing the log directories of a broker
  registration before it is encoded, as \<open>to_kraft_values\<close> does below version 4, changes no byte.
\<close>

theorem older_value:
  "(kraft_record_wf v (at_version v rec) \<longrightarrow>
      (\<exists>blob. kraft_encode_value rec v = Ok blob \<and> kraft_decode_value blob = Ok (at_version v rec, v)))
   \<and> kraft_encode_value (at_version v rec) v = kraft_encode_value rec v
   \<and> kraft_encode_value (strip_register v rec) v = kraft_encode_value rec v"
proof (intro conjI impI)
  show "kraft_encode_value (strip_register v rec) v = kraft_encode_value rec v"
    using encode_value_at[of v rec] encode_value_at[of v "strip_register v rec"] by (simp add: at_version_strip)
  show "\<exists>blob. kraft_encode_value rec v = Ok blob \<and> kraft_decode_value blob = Ok (at_version v rec, v)"
    if "kraft_record_wf v (at_version v rec)"
    using value_reads_back[OF that] by (auto simp: encode_value_at)
qed (rule encode_value_at)

definition sample_placed :: KraftMetadataRecord where
  "sample_placed = KPartition (KPartitionRecord_default\<lparr>kp_replicas := [1, 2], kp_isr := [1], kp_leader := 1,
     kp_directories := [Uuid_ZERO, Uuid_ZERO], kp_eligible_leader_replicas := Some [2]\<rparr>)"

definition sample_unplaced :: KraftMetadataRecord where
  "sample_unplaced = KPartition (KPartitionRecord_default\<lparr>kp_replicas := [1, 2], kp_isr := [1], kp_leader := 1\<rparr>)"

theorem older_value_witness:
  "\<exists>blob. kraft_encode_value sample_placed 0 = Ok blob \<and> kraft_decode_value blob = Ok (sample_unplaced, 0)"
proof -
  have "at_version 0 sample_placed = sample_unplaced"
    by (simp add: sample_placed_def sample_unplaced_def KPartitionRecord_default_def word_sle_eq)
  moreover have "kraft_record_wf 0 sample_unplaced"
    by (simp add: sample_unplaced_def KPartitionRecord_wf_def partition_record_versions partition_record_fields
        KPartitionRecord_default_def array_ok_def array_len_wf_def uuid_wf_def Uuid_ZERO_def
        trailer_ok_def unknown_wf_def word_sle_eq)
  ultimately show ?thesis
    using older_value[of 0 sample_placed] by simp
qed

end
