(* ===== verification/QuorumMessages.thy ===== *)
theory QuorumMessages
  imports GeneratedCodec
begin

text \<open>
  The generated codecs of the messages about the quorum: its votes, snapshots and voter changes, and the
  control records that the log itself carries
  (\<open>crates/protocol/generated/*.owned.rs\<close>): the structs with their defaults, and \<open>encode\<close>, \<open>encoded_len\<close> and
  \<open>decode\<close> put together from the shapes of \<open>GeneratedCodec\<close>. A nested struct \<open>S\<close> of a message \<open>M\<close> is \<open>M_S\<close>.
  \<open>M_wf\<close> says which messages can be written at a version: a field that the version does not carry holds its
  default, and lengths fit their prefixes. The interpretation of \<open>message_codec\<close> after each message
  discharges the contract of a versioned message for its three methods.
\<close>

section \<open>AddRaftVoterRequest\<close>

record AddRaftVoterRequest_Listener =
  arv_req_l_name :: bytes
  arv_req_l_host :: bytes
  arv_req_l_port :: u16
  arv_req_l_unknown_tagged_fields :: "UnknownTaggedField list"

definition AddRaftVoterRequest_Listener_default :: AddRaftVoterRequest_Listener where
  "AddRaftVoterRequest_Listener_default =
     \<lparr>arv_req_l_name = [], arv_req_l_host = [], arv_req_l_port = 0, arv_req_l_unknown_tagged_fields = []\<rparr>"

definition AddRaftVoterRequest_Listener_encode :: "AddRaftVoterRequest_Listener \<Rightarrow> i16 \<Rightarrow> encoder" where
  "AddRaftVoterRequest_Listener_encode x version =
     (let flex = 0 \<le>s version in
      write_all
        [put_when (0 \<le>s version) (put_str flex (arv_req_l_name x)),
         put_when (0 \<le>s version) (put_str flex (arv_req_l_host x)),
         put_when (0 \<le>s version) (put_u16 (arv_req_l_port x)),
         put_when flex (put_tagged [] (arv_req_l_unknown_tagged_fields x))])"

definition AddRaftVoterRequest_Listener_encoded_len :: "AddRaftVoterRequest_Listener \<Rightarrow> i16 \<Rightarrow> nat" where
  "AddRaftVoterRequest_Listener_encoded_len x version =
     (let flex = 0 \<le>s version in
      len_when (0 \<le>s version) (str_len flex (arv_req_l_name x))
      + len_when (0 \<le>s version) (str_len flex (arv_req_l_host x))
      + len_when (0 \<le>s version) 2
      + len_when flex (tagged_size [] (arv_req_l_unknown_tagged_fields x)))"

definition AddRaftVoterRequest_Listener_decode :: "i16 \<Rightarrow> AddRaftVoterRequest_Listener decoder" where
  "AddRaftVoterRequest_Listener_decode version =
     (let flex = 0 \<le>s version in
      read_then (get_into (0 \<le>s version) (get_str flex) (\<lambda>v out. out\<lparr>arv_req_l_name := v\<rparr>) AddRaftVoterRequest_Listener_default) (\<lambda>out.
        read_then (get_into (0 \<le>s version) (get_str flex) (\<lambda>v out. out\<lparr>arv_req_l_host := v\<rparr>) out) (\<lambda>out.
        read_then (get_into (0 \<le>s version) get_u16 (\<lambda>v out. out\<lparr>arv_req_l_port := v\<rparr>) out) (\<lambda>out.
        get_trailer flex [] (\<lambda>u out. out\<lparr>arv_req_l_unknown_tagged_fields := u\<rparr>) out))))"

definition AddRaftVoterRequest_Listener_fields_wf :: "i16 \<Rightarrow> AddRaftVoterRequest_Listener \<Rightarrow> bool" where
  "AddRaftVoterRequest_Listener_fields_wf version x \<longleftrightarrow>
     (let flex = 0 \<le>s version in
      str_wf flex (arv_req_l_name x)
      \<and> str_wf flex (arv_req_l_host x))"

definition AddRaftVoterRequest_Listener_wf :: "i16 \<Rightarrow> AddRaftVoterRequest_Listener \<Rightarrow> bool" where
  "AddRaftVoterRequest_Listener_wf version x \<longleftrightarrow>
     AddRaftVoterRequest_Listener_fields_wf version x \<and> trailer_ok [] [] (arv_req_l_unknown_tagged_fields x)"

lemmas add_raft_voter_request_listener_fields =
    Let_def field_ok_def AddRaftVoterRequest_Listener_fields_wf_def

lemma add_raft_voter_request_listener_steps:
  assumes v: "0 \<le>s version" and flex: "flex = (0 \<le>s version)"
  shows "keeps (AddRaftVoterRequest_Listener_fields_wf version) (get_into (0 \<le>s version) (get_str flex) (\<lambda>v out. out\<lparr>arv_req_l_name := v\<rparr>))"
    and "keeps (AddRaftVoterRequest_Listener_fields_wf version) (get_into (0 \<le>s version) (get_str flex) (\<lambda>v out. out\<lparr>arv_req_l_host := v\<rparr>))"
    and "keeps (AddRaftVoterRequest_Listener_fields_wf version) (get_into (0 \<le>s version) get_u16 (\<lambda>v out. out\<lparr>arv_req_l_port := v\<rparr>))"
  unfolding flex 
  by (rule keeps_into; (rule yields_rules)?; simp add: v add_raft_voter_request_listener_fields)+

lemma add_raft_voter_request_listener_unknown:
  "AddRaftVoterRequest_Listener_fields_wf version (s\<lparr>arv_req_l_unknown_tagged_fields := u\<rparr>) = AddRaftVoterRequest_Listener_fields_wf version s"
  by (simp_all add: AddRaftVoterRequest_Listener_fields_wf_def)

lemma add_raft_voter_request_listener_yields:
  assumes v: "0 \<le>s version"
  shows "yields 1 (AddRaftVoterRequest_Listener_decode version) (AddRaftVoterRequest_Listener_wf version)"
proof -
  have d: "AddRaftVoterRequest_Listener_fields_wf version AddRaftVoterRequest_Listener_default"
    by (simp add: AddRaftVoterRequest_Listener_default_def v add_raft_voter_request_listener_fields)
  show ?thesis
    unfolding AddRaftVoterRequest_Listener_decode_def Let_def
    by ((rule add_raft_voter_request_listener_steps[OF v refl, THEN yields_step], (rule d | assumption))+, rule yields_trailer[OF _ arms_keep_Nil[of "AddRaftVoterRequest_Listener_fields_wf version" "\<lambda>_. 0"]])
      (simp_all add: v d add_raft_voter_request_listener_unknown AddRaftVoterRequest_Listener_wf_def trailer_ok_def )
qed

lemma add_raft_voter_request_listener_extends [extends_rules]: "extends_input (AddRaftVoterRequest_Listener_decode version)"
  unfolding AddRaftVoterRequest_Listener_decode_def Let_def by (intro extends_rules)

lemma add_raft_voter_request_listener_codec:
  assumes v: "0 \<le>s version"
  shows "message_codec AddRaftVoterRequest_Listener_encode AddRaftVoterRequest_Listener_decode AddRaftVoterRequest_Listener_encoded_len (AddRaftVoterRequest_Listener_wf version) version"
proof
  fix x
  assume w: "AddRaftVoterRequest_Listener_wf version x"
  show "carries (AddRaftVoterRequest_Listener_encode x version) (AddRaftVoterRequest_Listener_decode version) (AddRaftVoterRequest_Listener_encoded_len x version) x"
    unfolding AddRaftVoterRequest_Listener_encode_def AddRaftVoterRequest_Listener_encoded_len_def AddRaftVoterRequest_Listener_decode_def Let_def
    by (use w[unfolded AddRaftVoterRequest_Listener_wf_def AddRaftVoterRequest_Listener_fields_wf_def Let_def] in \<open>elim conjE\<close>, rule carries_cong_len)
      ((rule carries_rules | (erule absent_guarded, assumption) | erule absent_plain
        | simp add: v field_ok_def AddRaftVoterRequest_Listener_default_def )+)
next
  show "yields 1 (AddRaftVoterRequest_Listener_decode version) (AddRaftVoterRequest_Listener_wf version)"
    by (rule add_raft_voter_request_listener_yields[OF v])
qed (rule add_raft_voter_request_listener_extends)

lemma add_raft_voter_request_listener_default_wf [simp]: "0 \<le>s version \<Longrightarrow> AddRaftVoterRequest_Listener_wf version AddRaftVoterRequest_Listener_default"
  by (simp add: AddRaftVoterRequest_Listener_wf_def AddRaftVoterRequest_Listener_default_def trailer_ok_def add_raft_voter_request_listener_fields)

lemmas [carries_rules] = message_codec.message_carries[OF add_raft_voter_request_listener_codec]
lemmas [yields_rules] = message_codec.message_yields[OF add_raft_voter_request_listener_codec]

lemmas [carries_rules] = protocol_codec.put_array_carries[OF message_codec.message_protocol[OF add_raft_voter_request_listener_codec]]
lemmas [yields_rules] = protocol_codec.get_array_yields[OF message_codec.message_protocol[OF add_raft_voter_request_listener_codec]]
lemmas [carries_rules] = protocol_codec.put_nullable_array_carries[OF message_codec.message_protocol[OF add_raft_voter_request_listener_codec]]
lemmas [yields_rules] = protocol_codec.get_nullable_array_yields[OF message_codec.message_protocol[OF add_raft_voter_request_listener_codec]]

record AddRaftVoterRequest =
  arv_req_cluster_id :: "bytes option"
  arv_req_timeout_ms :: i32
  arv_req_voter_id :: i32
  arv_req_voter_directory_id :: Uuid
  arv_req_listeners :: "AddRaftVoterRequest_Listener list"
  arv_req_ack_when_committed :: bool
  arv_req_unknown_tagged_fields :: "UnknownTaggedField list"

definition AddRaftVoterRequest_default :: AddRaftVoterRequest where
  "AddRaftVoterRequest_default =
     \<lparr>arv_req_cluster_id = Some [], arv_req_timeout_ms = 0, arv_req_voter_id = 0, arv_req_voter_directory_id = Uuid_ZERO, arv_req_listeners = [], arv_req_ack_when_committed = True, arv_req_unknown_tagged_fields = []\<rparr>"

definition AddRaftVoterRequest_MIN_VERSION :: i16 where
  "AddRaftVoterRequest_MIN_VERSION = 0"

definition AddRaftVoterRequest_MAX_VERSION :: i16 where
  "AddRaftVoterRequest_MAX_VERSION = 1"

definition AddRaftVoterRequest_FLEXIBLE_MIN :: i16 where
  "AddRaftVoterRequest_FLEXIBLE_MIN = 0"

definition AddRaftVoterRequest_API_KEY :: i16 where
  "AddRaftVoterRequest_API_KEY = 80"

definition AddRaftVoterRequest_is_flexible :: "i16 \<Rightarrow> bool" where
  "AddRaftVoterRequest_is_flexible version \<longleftrightarrow> AddRaftVoterRequest_FLEXIBLE_MIN \<le>s version"

definition AddRaftVoterRequest_encode :: "AddRaftVoterRequest \<Rightarrow> i16 \<Rightarrow> encoder" where
  "AddRaftVoterRequest_encode x version =
     (let flex = AddRaftVoterRequest_is_flexible version in
      write_all
        [write_check (check_version AddRaftVoterRequest_API_KEY version AddRaftVoterRequest_MIN_VERSION AddRaftVoterRequest_MAX_VERSION),
         put_when (0 \<le>s version) (put_nullable_str flex (arv_req_cluster_id x)),
         put_when (0 \<le>s version) (put_i32 (arv_req_timeout_ms x)),
         put_when (0 \<le>s version) (put_i32 (arv_req_voter_id x)),
         put_when (0 \<le>s version) (put_uuid (arv_req_voter_directory_id x)),
         put_when (0 \<le>s version) (put_array flex (\<lambda>it. AddRaftVoterRequest_Listener_encode it version) (arv_req_listeners x)),
         put_when (1 \<le>s version) (put_bool (arv_req_ack_when_committed x)),
         put_when flex (put_tagged [] (arv_req_unknown_tagged_fields x))])"

definition AddRaftVoterRequest_encoded_len :: "AddRaftVoterRequest \<Rightarrow> i16 \<Rightarrow> nat" where
  "AddRaftVoterRequest_encoded_len x version =
     (let flex = AddRaftVoterRequest_is_flexible version in
      len_when (0 \<le>s version) (nullable_str_len flex (arv_req_cluster_id x))
      + len_when (0 \<le>s version) 4
      + len_when (0 \<le>s version) 4
      + len_when (0 \<le>s version) 16
      + len_when (0 \<le>s version) (array_size flex (\<lambda>it. AddRaftVoterRequest_Listener_encoded_len it version) (arv_req_listeners x))
      + len_when (1 \<le>s version) 1
      + len_when flex (tagged_size [] (arv_req_unknown_tagged_fields x)))"

definition AddRaftVoterRequest_decode :: "i16 \<Rightarrow> AddRaftVoterRequest decoder" where
  "AddRaftVoterRequest_decode version =
     (let flex = AddRaftVoterRequest_is_flexible version in
      checked (check_version AddRaftVoterRequest_API_KEY version AddRaftVoterRequest_MIN_VERSION AddRaftVoterRequest_MAX_VERSION) (
        read_then (get_into (0 \<le>s version) (get_nullable_str flex) (\<lambda>v out. out\<lparr>arv_req_cluster_id := v\<rparr>) AddRaftVoterRequest_default) (\<lambda>out.
        read_then (get_into (0 \<le>s version) get_i32 (\<lambda>v out. out\<lparr>arv_req_timeout_ms := v\<rparr>) out) (\<lambda>out.
        read_then (get_into (0 \<le>s version) get_i32 (\<lambda>v out. out\<lparr>arv_req_voter_id := v\<rparr>) out) (\<lambda>out.
        read_then (get_into (0 \<le>s version) get_uuid (\<lambda>v out. out\<lparr>arv_req_voter_directory_id := v\<rparr>) out) (\<lambda>out.
        read_then (get_into (0 \<le>s version) (get_array flex (AddRaftVoterRequest_Listener_decode version)) (\<lambda>v out. out\<lparr>arv_req_listeners := v\<rparr>) out) (\<lambda>out.
        read_then (get_into (1 \<le>s version) get_bool (\<lambda>v out. out\<lparr>arv_req_ack_when_committed := v\<rparr>) out) (\<lambda>out.
        get_trailer flex [] (\<lambda>u out. out\<lparr>arv_req_unknown_tagged_fields := u\<rparr>) out))))))))"

definition AddRaftVoterRequest_fields_wf :: "i16 \<Rightarrow> AddRaftVoterRequest \<Rightarrow> bool" where
  "AddRaftVoterRequest_fields_wf version x \<longleftrightarrow>
     (let flex = AddRaftVoterRequest_is_flexible version in
      nullable_str_wf flex (arv_req_cluster_id x)
      \<and> uuid_wf (arv_req_voter_directory_id x)
      \<and> array_ok flex (AddRaftVoterRequest_Listener_wf version) (arv_req_listeners x)
      \<and> field_ok (1 \<le>s version) True (\<lambda>_. True) (arv_req_ack_when_committed x))"

definition AddRaftVoterRequest_wf :: "i16 \<Rightarrow> AddRaftVoterRequest \<Rightarrow> bool" where
  "AddRaftVoterRequest_wf version x \<longleftrightarrow>
     version_in AddRaftVoterRequest_MIN_VERSION AddRaftVoterRequest_MAX_VERSION version \<and> AddRaftVoterRequest_fields_wf version x \<and> trailer_ok [] [] (arv_req_unknown_tagged_fields x)"

lemmas add_raft_voter_request_versions =
    AddRaftVoterRequest_is_flexible_def AddRaftVoterRequest_FLEXIBLE_MIN_def AddRaftVoterRequest_MIN_VERSION_def
    AddRaftVoterRequest_MAX_VERSION_def version_in_def

lemmas add_raft_voter_request_fields =
    Let_def field_ok_def AddRaftVoterRequest_fields_wf_def AddRaftVoterRequest_is_flexible_def
    AddRaftVoterRequest_FLEXIBLE_MIN_def

lemma add_raft_voter_request_steps:
  assumes v: "0 \<le>s version" and flex: "flex = (AddRaftVoterRequest_is_flexible version)"
  shows "keeps (AddRaftVoterRequest_fields_wf version) (get_into (0 \<le>s version) (get_nullable_str flex) (\<lambda>v out. out\<lparr>arv_req_cluster_id := v\<rparr>))"
    and "keeps (AddRaftVoterRequest_fields_wf version) (get_into (0 \<le>s version) get_i32 (\<lambda>v out. out\<lparr>arv_req_timeout_ms := v\<rparr>))"
    and "keeps (AddRaftVoterRequest_fields_wf version) (get_into (0 \<le>s version) get_i32 (\<lambda>v out. out\<lparr>arv_req_voter_id := v\<rparr>))"
    and "keeps (AddRaftVoterRequest_fields_wf version) (get_into (0 \<le>s version) get_uuid (\<lambda>v out. out\<lparr>arv_req_voter_directory_id := v\<rparr>))"
    and "keeps (AddRaftVoterRequest_fields_wf version) (get_into (0 \<le>s version) (get_array flex (AddRaftVoterRequest_Listener_decode version)) (\<lambda>v out. out\<lparr>arv_req_listeners := v\<rparr>))"
    and "keeps (AddRaftVoterRequest_fields_wf version) (get_into (1 \<le>s version) get_bool (\<lambda>v out. out\<lparr>arv_req_ack_when_committed := v\<rparr>))"
  unfolding flex 
  by (rule keeps_into; (rule yields_rules)?; simp add: v add_raft_voter_request_fields)+

lemma add_raft_voter_request_unknown:
  "AddRaftVoterRequest_fields_wf version (s\<lparr>arv_req_unknown_tagged_fields := u\<rparr>) = AddRaftVoterRequest_fields_wf version s"
  by (simp_all add: AddRaftVoterRequest_fields_wf_def)

lemma add_raft_voter_request_yields:
  assumes r: "version_in AddRaftVoterRequest_MIN_VERSION AddRaftVoterRequest_MAX_VERSION version"
  shows "yields 1 (AddRaftVoterRequest_decode version) (AddRaftVoterRequest_wf version)"
proof -
  have v: "0 \<le>s version"
    using r by (simp add: add_raft_voter_request_versions)
  have d: "AddRaftVoterRequest_fields_wf version AddRaftVoterRequest_default"
    by (simp add: AddRaftVoterRequest_default_def v add_raft_voter_request_fields)
  show ?thesis
    unfolding AddRaftVoterRequest_decode_def Let_def
    by (rule yields_checked, (rule add_raft_voter_request_steps[OF v refl, THEN yields_step], (rule d | assumption))+, rule yields_trailer[OF _ arms_keep_Nil[of "AddRaftVoterRequest_fields_wf version" "\<lambda>_. 0"]])
      (simp_all add: v d add_raft_voter_request_unknown AddRaftVoterRequest_wf_def trailer_ok_def r AddRaftVoterRequest_is_flexible_def AddRaftVoterRequest_FLEXIBLE_MIN_def)
qed

interpretation add_raft_voter_request: message_codec
  AddRaftVoterRequest_encode AddRaftVoterRequest_decode AddRaftVoterRequest_encoded_len "AddRaftVoterRequest_wf version" version
  for version
proof
  fix x
  assume w: "AddRaftVoterRequest_wf version x"
  then have v: "0 \<le>s version"
    by (simp add: AddRaftVoterRequest_wf_def add_raft_voter_request_versions)
  show "carries (AddRaftVoterRequest_encode x version) (AddRaftVoterRequest_decode version) (AddRaftVoterRequest_encoded_len x version) x"
    unfolding AddRaftVoterRequest_encode_def AddRaftVoterRequest_encoded_len_def AddRaftVoterRequest_decode_def Let_def
    by (use w[unfolded AddRaftVoterRequest_wf_def AddRaftVoterRequest_fields_wf_def Let_def] in \<open>elim conjE\<close>, rule carries_cong_len)
      ((rule carries_rules check_version_in[THEN iffD2] | (erule absent_guarded, assumption) | erule absent_plain
        | simp add: v field_ok_def AddRaftVoterRequest_default_def add_raft_voter_request_versions)+)
next
  show "yields 1 (AddRaftVoterRequest_decode version) (AddRaftVoterRequest_wf version)"
    by (rule case_split[OF add_raft_voter_request_yields]) (auto simp: AddRaftVoterRequest_decode_def Let_def yields_refused yields_unsupported)
  show "extends_input (AddRaftVoterRequest_decode version)"
    unfolding AddRaftVoterRequest_decode_def Let_def by (intro extends_rules)
qed

section \<open>AddRaftVoterResponse\<close>

record AddRaftVoterResponse =
  arv_resp_throttle_time_ms :: i32
  arv_resp_error_code :: i16
  arv_resp_error_message :: "bytes option"
  arv_resp_unknown_tagged_fields :: "UnknownTaggedField list"

definition AddRaftVoterResponse_default :: AddRaftVoterResponse where
  "AddRaftVoterResponse_default =
     \<lparr>arv_resp_throttle_time_ms = 0, arv_resp_error_code = 0, arv_resp_error_message = Some [], arv_resp_unknown_tagged_fields = []\<rparr>"

definition AddRaftVoterResponse_MIN_VERSION :: i16 where
  "AddRaftVoterResponse_MIN_VERSION = 0"

definition AddRaftVoterResponse_MAX_VERSION :: i16 where
  "AddRaftVoterResponse_MAX_VERSION = 1"

definition AddRaftVoterResponse_FLEXIBLE_MIN :: i16 where
  "AddRaftVoterResponse_FLEXIBLE_MIN = 0"

definition AddRaftVoterResponse_API_KEY :: i16 where
  "AddRaftVoterResponse_API_KEY = 80"

definition AddRaftVoterResponse_is_flexible :: "i16 \<Rightarrow> bool" where
  "AddRaftVoterResponse_is_flexible version \<longleftrightarrow> AddRaftVoterResponse_FLEXIBLE_MIN \<le>s version"

definition AddRaftVoterResponse_encode :: "AddRaftVoterResponse \<Rightarrow> i16 \<Rightarrow> encoder" where
  "AddRaftVoterResponse_encode x version =
     (let flex = AddRaftVoterResponse_is_flexible version in
      write_all
        [write_check (check_version AddRaftVoterResponse_API_KEY version AddRaftVoterResponse_MIN_VERSION AddRaftVoterResponse_MAX_VERSION),
         put_when (0 \<le>s version) (put_i32 (arv_resp_throttle_time_ms x)),
         put_when (0 \<le>s version) (put_i16 (arv_resp_error_code x)),
         put_when (0 \<le>s version) (put_nullable_str flex (arv_resp_error_message x)),
         put_when flex (put_tagged [] (arv_resp_unknown_tagged_fields x))])"

definition AddRaftVoterResponse_encoded_len :: "AddRaftVoterResponse \<Rightarrow> i16 \<Rightarrow> nat" where
  "AddRaftVoterResponse_encoded_len x version =
     (let flex = AddRaftVoterResponse_is_flexible version in
      len_when (0 \<le>s version) 4
      + len_when (0 \<le>s version) 2
      + len_when (0 \<le>s version) (nullable_str_len flex (arv_resp_error_message x))
      + len_when flex (tagged_size [] (arv_resp_unknown_tagged_fields x)))"

definition AddRaftVoterResponse_decode :: "i16 \<Rightarrow> AddRaftVoterResponse decoder" where
  "AddRaftVoterResponse_decode version =
     (let flex = AddRaftVoterResponse_is_flexible version in
      checked (check_version AddRaftVoterResponse_API_KEY version AddRaftVoterResponse_MIN_VERSION AddRaftVoterResponse_MAX_VERSION) (
        read_then (get_into (0 \<le>s version) get_i32 (\<lambda>v out. out\<lparr>arv_resp_throttle_time_ms := v\<rparr>) AddRaftVoterResponse_default) (\<lambda>out.
        read_then (get_into (0 \<le>s version) get_i16 (\<lambda>v out. out\<lparr>arv_resp_error_code := v\<rparr>) out) (\<lambda>out.
        read_then (get_into (0 \<le>s version) (get_nullable_str flex) (\<lambda>v out. out\<lparr>arv_resp_error_message := v\<rparr>) out) (\<lambda>out.
        get_trailer flex [] (\<lambda>u out. out\<lparr>arv_resp_unknown_tagged_fields := u\<rparr>) out)))))"

definition AddRaftVoterResponse_fields_wf :: "i16 \<Rightarrow> AddRaftVoterResponse \<Rightarrow> bool" where
  "AddRaftVoterResponse_fields_wf version x \<longleftrightarrow>
     (let flex = AddRaftVoterResponse_is_flexible version in
      nullable_str_wf flex (arv_resp_error_message x))"

definition AddRaftVoterResponse_wf :: "i16 \<Rightarrow> AddRaftVoterResponse \<Rightarrow> bool" where
  "AddRaftVoterResponse_wf version x \<longleftrightarrow>
     version_in AddRaftVoterResponse_MIN_VERSION AddRaftVoterResponse_MAX_VERSION version \<and> AddRaftVoterResponse_fields_wf version x \<and> trailer_ok [] [] (arv_resp_unknown_tagged_fields x)"

lemmas add_raft_voter_response_versions =
    AddRaftVoterResponse_is_flexible_def AddRaftVoterResponse_FLEXIBLE_MIN_def
    AddRaftVoterResponse_MIN_VERSION_def AddRaftVoterResponse_MAX_VERSION_def version_in_def

lemmas add_raft_voter_response_fields =
    Let_def field_ok_def AddRaftVoterResponse_fields_wf_def AddRaftVoterResponse_is_flexible_def
    AddRaftVoterResponse_FLEXIBLE_MIN_def

lemma add_raft_voter_response_steps:
  assumes v: "0 \<le>s version" and flex: "flex = (AddRaftVoterResponse_is_flexible version)"
  shows "keeps (AddRaftVoterResponse_fields_wf version) (get_into (0 \<le>s version) get_i32 (\<lambda>v out. out\<lparr>arv_resp_throttle_time_ms := v\<rparr>))"
    and "keeps (AddRaftVoterResponse_fields_wf version) (get_into (0 \<le>s version) get_i16 (\<lambda>v out. out\<lparr>arv_resp_error_code := v\<rparr>))"
    and "keeps (AddRaftVoterResponse_fields_wf version) (get_into (0 \<le>s version) (get_nullable_str flex) (\<lambda>v out. out\<lparr>arv_resp_error_message := v\<rparr>))"
  unfolding flex 
  by (rule keeps_into; (rule yields_rules)?; simp add: v add_raft_voter_response_fields)+

lemma add_raft_voter_response_unknown:
  "AddRaftVoterResponse_fields_wf version (s\<lparr>arv_resp_unknown_tagged_fields := u\<rparr>) = AddRaftVoterResponse_fields_wf version s"
  by (simp_all add: AddRaftVoterResponse_fields_wf_def)

lemma add_raft_voter_response_yields:
  assumes r: "version_in AddRaftVoterResponse_MIN_VERSION AddRaftVoterResponse_MAX_VERSION version"
  shows "yields 1 (AddRaftVoterResponse_decode version) (AddRaftVoterResponse_wf version)"
proof -
  have v: "0 \<le>s version"
    using r by (simp add: add_raft_voter_response_versions)
  have d: "AddRaftVoterResponse_fields_wf version AddRaftVoterResponse_default"
    by (simp add: AddRaftVoterResponse_default_def v add_raft_voter_response_fields)
  show ?thesis
    unfolding AddRaftVoterResponse_decode_def Let_def
    by (rule yields_checked, (rule add_raft_voter_response_steps[OF v refl, THEN yields_step], (rule d | assumption))+, rule yields_trailer[OF _ arms_keep_Nil[of "AddRaftVoterResponse_fields_wf version" "\<lambda>_. 0"]])
      (simp_all add: v d add_raft_voter_response_unknown AddRaftVoterResponse_wf_def trailer_ok_def r AddRaftVoterResponse_is_flexible_def AddRaftVoterResponse_FLEXIBLE_MIN_def)
qed

interpretation add_raft_voter_response: message_codec
  AddRaftVoterResponse_encode AddRaftVoterResponse_decode AddRaftVoterResponse_encoded_len "AddRaftVoterResponse_wf version" version
  for version
proof
  fix x
  assume w: "AddRaftVoterResponse_wf version x"
  then have v: "0 \<le>s version"
    by (simp add: AddRaftVoterResponse_wf_def add_raft_voter_response_versions)
  show "carries (AddRaftVoterResponse_encode x version) (AddRaftVoterResponse_decode version) (AddRaftVoterResponse_encoded_len x version) x"
    unfolding AddRaftVoterResponse_encode_def AddRaftVoterResponse_encoded_len_def AddRaftVoterResponse_decode_def Let_def
    by (use w[unfolded AddRaftVoterResponse_wf_def AddRaftVoterResponse_fields_wf_def Let_def] in \<open>elim conjE\<close>, rule carries_cong_len)
      ((rule carries_rules check_version_in[THEN iffD2] | (erule absent_guarded, assumption) | erule absent_plain
        | simp add: v field_ok_def AddRaftVoterResponse_default_def add_raft_voter_response_versions)+)
next
  show "yields 1 (AddRaftVoterResponse_decode version) (AddRaftVoterResponse_wf version)"
    by (rule case_split[OF add_raft_voter_response_yields]) (auto simp: AddRaftVoterResponse_decode_def Let_def yields_refused yields_unsupported)
  show "extends_input (AddRaftVoterResponse_decode version)"
    unfolding AddRaftVoterResponse_decode_def Let_def by (intro extends_rules)
qed

section \<open>RemoveRaftVoterRequest\<close>

record RemoveRaftVoterRequest =
  rrv_req_cluster_id :: "bytes option"
  rrv_req_voter_id :: i32
  rrv_req_voter_directory_id :: Uuid
  rrv_req_unknown_tagged_fields :: "UnknownTaggedField list"

definition RemoveRaftVoterRequest_default :: RemoveRaftVoterRequest where
  "RemoveRaftVoterRequest_default =
     \<lparr>rrv_req_cluster_id = Some [], rrv_req_voter_id = 0, rrv_req_voter_directory_id = Uuid_ZERO, rrv_req_unknown_tagged_fields = []\<rparr>"

definition RemoveRaftVoterRequest_MIN_VERSION :: i16 where
  "RemoveRaftVoterRequest_MIN_VERSION = 0"

definition RemoveRaftVoterRequest_MAX_VERSION :: i16 where
  "RemoveRaftVoterRequest_MAX_VERSION = 0"

definition RemoveRaftVoterRequest_FLEXIBLE_MIN :: i16 where
  "RemoveRaftVoterRequest_FLEXIBLE_MIN = 0"

definition RemoveRaftVoterRequest_API_KEY :: i16 where
  "RemoveRaftVoterRequest_API_KEY = 81"

definition RemoveRaftVoterRequest_is_flexible :: "i16 \<Rightarrow> bool" where
  "RemoveRaftVoterRequest_is_flexible version \<longleftrightarrow> RemoveRaftVoterRequest_FLEXIBLE_MIN \<le>s version"

definition RemoveRaftVoterRequest_encode :: "RemoveRaftVoterRequest \<Rightarrow> i16 \<Rightarrow> encoder" where
  "RemoveRaftVoterRequest_encode x version =
     (let flex = RemoveRaftVoterRequest_is_flexible version in
      write_all
        [write_check (check_version RemoveRaftVoterRequest_API_KEY version RemoveRaftVoterRequest_MIN_VERSION RemoveRaftVoterRequest_MAX_VERSION),
         put_when (0 \<le>s version) (put_nullable_str flex (rrv_req_cluster_id x)),
         put_when (0 \<le>s version) (put_i32 (rrv_req_voter_id x)),
         put_when (0 \<le>s version) (put_uuid (rrv_req_voter_directory_id x)),
         put_when flex (put_tagged [] (rrv_req_unknown_tagged_fields x))])"

definition RemoveRaftVoterRequest_encoded_len :: "RemoveRaftVoterRequest \<Rightarrow> i16 \<Rightarrow> nat" where
  "RemoveRaftVoterRequest_encoded_len x version =
     (let flex = RemoveRaftVoterRequest_is_flexible version in
      len_when (0 \<le>s version) (nullable_str_len flex (rrv_req_cluster_id x))
      + len_when (0 \<le>s version) 4
      + len_when (0 \<le>s version) 16
      + len_when flex (tagged_size [] (rrv_req_unknown_tagged_fields x)))"

definition RemoveRaftVoterRequest_decode :: "i16 \<Rightarrow> RemoveRaftVoterRequest decoder" where
  "RemoveRaftVoterRequest_decode version =
     (let flex = RemoveRaftVoterRequest_is_flexible version in
      checked (check_version RemoveRaftVoterRequest_API_KEY version RemoveRaftVoterRequest_MIN_VERSION RemoveRaftVoterRequest_MAX_VERSION) (
        read_then (get_into (0 \<le>s version) (get_nullable_str flex) (\<lambda>v out. out\<lparr>rrv_req_cluster_id := v\<rparr>) RemoveRaftVoterRequest_default) (\<lambda>out.
        read_then (get_into (0 \<le>s version) get_i32 (\<lambda>v out. out\<lparr>rrv_req_voter_id := v\<rparr>) out) (\<lambda>out.
        read_then (get_into (0 \<le>s version) get_uuid (\<lambda>v out. out\<lparr>rrv_req_voter_directory_id := v\<rparr>) out) (\<lambda>out.
        get_trailer flex [] (\<lambda>u out. out\<lparr>rrv_req_unknown_tagged_fields := u\<rparr>) out)))))"

definition RemoveRaftVoterRequest_fields_wf :: "i16 \<Rightarrow> RemoveRaftVoterRequest \<Rightarrow> bool" where
  "RemoveRaftVoterRequest_fields_wf version x \<longleftrightarrow>
     (let flex = RemoveRaftVoterRequest_is_flexible version in
      nullable_str_wf flex (rrv_req_cluster_id x)
      \<and> uuid_wf (rrv_req_voter_directory_id x))"

definition RemoveRaftVoterRequest_wf :: "i16 \<Rightarrow> RemoveRaftVoterRequest \<Rightarrow> bool" where
  "RemoveRaftVoterRequest_wf version x \<longleftrightarrow>
     version_in RemoveRaftVoterRequest_MIN_VERSION RemoveRaftVoterRequest_MAX_VERSION version \<and> RemoveRaftVoterRequest_fields_wf version x \<and> trailer_ok [] [] (rrv_req_unknown_tagged_fields x)"

lemmas remove_raft_voter_request_versions =
    RemoveRaftVoterRequest_is_flexible_def RemoveRaftVoterRequest_FLEXIBLE_MIN_def
    RemoveRaftVoterRequest_MIN_VERSION_def RemoveRaftVoterRequest_MAX_VERSION_def version_in_def

lemmas remove_raft_voter_request_fields =
    Let_def field_ok_def RemoveRaftVoterRequest_fields_wf_def RemoveRaftVoterRequest_is_flexible_def
    RemoveRaftVoterRequest_FLEXIBLE_MIN_def

lemma remove_raft_voter_request_steps:
  assumes v: "0 \<le>s version" and flex: "flex = (RemoveRaftVoterRequest_is_flexible version)"
  shows "keeps (RemoveRaftVoterRequest_fields_wf version) (get_into (0 \<le>s version) (get_nullable_str flex) (\<lambda>v out. out\<lparr>rrv_req_cluster_id := v\<rparr>))"
    and "keeps (RemoveRaftVoterRequest_fields_wf version) (get_into (0 \<le>s version) get_i32 (\<lambda>v out. out\<lparr>rrv_req_voter_id := v\<rparr>))"
    and "keeps (RemoveRaftVoterRequest_fields_wf version) (get_into (0 \<le>s version) get_uuid (\<lambda>v out. out\<lparr>rrv_req_voter_directory_id := v\<rparr>))"
  unfolding flex 
  by (rule keeps_into; (rule yields_rules)?; simp add: v remove_raft_voter_request_fields)+

lemma remove_raft_voter_request_unknown:
  "RemoveRaftVoterRequest_fields_wf version (s\<lparr>rrv_req_unknown_tagged_fields := u\<rparr>) = RemoveRaftVoterRequest_fields_wf version s"
  by (simp_all add: RemoveRaftVoterRequest_fields_wf_def)

lemma remove_raft_voter_request_yields:
  assumes r: "version_in RemoveRaftVoterRequest_MIN_VERSION RemoveRaftVoterRequest_MAX_VERSION version"
  shows "yields 1 (RemoveRaftVoterRequest_decode version) (RemoveRaftVoterRequest_wf version)"
proof -
  have v: "0 \<le>s version"
    using r by (simp add: remove_raft_voter_request_versions)
  have d: "RemoveRaftVoterRequest_fields_wf version RemoveRaftVoterRequest_default"
    by (simp add: RemoveRaftVoterRequest_default_def v remove_raft_voter_request_fields)
  show ?thesis
    unfolding RemoveRaftVoterRequest_decode_def Let_def
    by (rule yields_checked, (rule remove_raft_voter_request_steps[OF v refl, THEN yields_step], (rule d | assumption))+, rule yields_trailer[OF _ arms_keep_Nil[of "RemoveRaftVoterRequest_fields_wf version" "\<lambda>_. 0"]])
      (simp_all add: v d remove_raft_voter_request_unknown RemoveRaftVoterRequest_wf_def trailer_ok_def r RemoveRaftVoterRequest_is_flexible_def RemoveRaftVoterRequest_FLEXIBLE_MIN_def)
qed

interpretation remove_raft_voter_request: message_codec
  RemoveRaftVoterRequest_encode RemoveRaftVoterRequest_decode RemoveRaftVoterRequest_encoded_len "RemoveRaftVoterRequest_wf version" version
  for version
proof
  fix x
  assume w: "RemoveRaftVoterRequest_wf version x"
  then have v: "0 \<le>s version"
    by (simp add: RemoveRaftVoterRequest_wf_def remove_raft_voter_request_versions)
  show "carries (RemoveRaftVoterRequest_encode x version) (RemoveRaftVoterRequest_decode version) (RemoveRaftVoterRequest_encoded_len x version) x"
    unfolding RemoveRaftVoterRequest_encode_def RemoveRaftVoterRequest_encoded_len_def RemoveRaftVoterRequest_decode_def Let_def
    by (use w[unfolded RemoveRaftVoterRequest_wf_def RemoveRaftVoterRequest_fields_wf_def Let_def] in \<open>elim conjE\<close>, rule carries_cong_len)
      ((rule carries_rules check_version_in[THEN iffD2] | (erule absent_guarded, assumption) | erule absent_plain
        | simp add: v field_ok_def RemoveRaftVoterRequest_default_def remove_raft_voter_request_versions)+)
next
  show "yields 1 (RemoveRaftVoterRequest_decode version) (RemoveRaftVoterRequest_wf version)"
    by (rule case_split[OF remove_raft_voter_request_yields]) (auto simp: RemoveRaftVoterRequest_decode_def Let_def yields_refused yields_unsupported)
  show "extends_input (RemoveRaftVoterRequest_decode version)"
    unfolding RemoveRaftVoterRequest_decode_def Let_def by (intro extends_rules)
qed

section \<open>RemoveRaftVoterResponse\<close>

record RemoveRaftVoterResponse =
  rrv_resp_throttle_time_ms :: i32
  rrv_resp_error_code :: i16
  rrv_resp_error_message :: "bytes option"
  rrv_resp_unknown_tagged_fields :: "UnknownTaggedField list"

definition RemoveRaftVoterResponse_default :: RemoveRaftVoterResponse where
  "RemoveRaftVoterResponse_default =
     \<lparr>rrv_resp_throttle_time_ms = 0, rrv_resp_error_code = 0, rrv_resp_error_message = Some [], rrv_resp_unknown_tagged_fields = []\<rparr>"

definition RemoveRaftVoterResponse_MIN_VERSION :: i16 where
  "RemoveRaftVoterResponse_MIN_VERSION = 0"

definition RemoveRaftVoterResponse_MAX_VERSION :: i16 where
  "RemoveRaftVoterResponse_MAX_VERSION = 0"

definition RemoveRaftVoterResponse_FLEXIBLE_MIN :: i16 where
  "RemoveRaftVoterResponse_FLEXIBLE_MIN = 0"

definition RemoveRaftVoterResponse_API_KEY :: i16 where
  "RemoveRaftVoterResponse_API_KEY = 81"

definition RemoveRaftVoterResponse_is_flexible :: "i16 \<Rightarrow> bool" where
  "RemoveRaftVoterResponse_is_flexible version \<longleftrightarrow> RemoveRaftVoterResponse_FLEXIBLE_MIN \<le>s version"

definition RemoveRaftVoterResponse_encode :: "RemoveRaftVoterResponse \<Rightarrow> i16 \<Rightarrow> encoder" where
  "RemoveRaftVoterResponse_encode x version =
     (let flex = RemoveRaftVoterResponse_is_flexible version in
      write_all
        [write_check (check_version RemoveRaftVoterResponse_API_KEY version RemoveRaftVoterResponse_MIN_VERSION RemoveRaftVoterResponse_MAX_VERSION),
         put_when (0 \<le>s version) (put_i32 (rrv_resp_throttle_time_ms x)),
         put_when (0 \<le>s version) (put_i16 (rrv_resp_error_code x)),
         put_when (0 \<le>s version) (put_nullable_str flex (rrv_resp_error_message x)),
         put_when flex (put_tagged [] (rrv_resp_unknown_tagged_fields x))])"

definition RemoveRaftVoterResponse_encoded_len :: "RemoveRaftVoterResponse \<Rightarrow> i16 \<Rightarrow> nat" where
  "RemoveRaftVoterResponse_encoded_len x version =
     (let flex = RemoveRaftVoterResponse_is_flexible version in
      len_when (0 \<le>s version) 4
      + len_when (0 \<le>s version) 2
      + len_when (0 \<le>s version) (nullable_str_len flex (rrv_resp_error_message x))
      + len_when flex (tagged_size [] (rrv_resp_unknown_tagged_fields x)))"

definition RemoveRaftVoterResponse_decode :: "i16 \<Rightarrow> RemoveRaftVoterResponse decoder" where
  "RemoveRaftVoterResponse_decode version =
     (let flex = RemoveRaftVoterResponse_is_flexible version in
      checked (check_version RemoveRaftVoterResponse_API_KEY version RemoveRaftVoterResponse_MIN_VERSION RemoveRaftVoterResponse_MAX_VERSION) (
        read_then (get_into (0 \<le>s version) get_i32 (\<lambda>v out. out\<lparr>rrv_resp_throttle_time_ms := v\<rparr>) RemoveRaftVoterResponse_default) (\<lambda>out.
        read_then (get_into (0 \<le>s version) get_i16 (\<lambda>v out. out\<lparr>rrv_resp_error_code := v\<rparr>) out) (\<lambda>out.
        read_then (get_into (0 \<le>s version) (get_nullable_str flex) (\<lambda>v out. out\<lparr>rrv_resp_error_message := v\<rparr>) out) (\<lambda>out.
        get_trailer flex [] (\<lambda>u out. out\<lparr>rrv_resp_unknown_tagged_fields := u\<rparr>) out)))))"

definition RemoveRaftVoterResponse_fields_wf :: "i16 \<Rightarrow> RemoveRaftVoterResponse \<Rightarrow> bool" where
  "RemoveRaftVoterResponse_fields_wf version x \<longleftrightarrow>
     (let flex = RemoveRaftVoterResponse_is_flexible version in
      nullable_str_wf flex (rrv_resp_error_message x))"

definition RemoveRaftVoterResponse_wf :: "i16 \<Rightarrow> RemoveRaftVoterResponse \<Rightarrow> bool" where
  "RemoveRaftVoterResponse_wf version x \<longleftrightarrow>
     version_in RemoveRaftVoterResponse_MIN_VERSION RemoveRaftVoterResponse_MAX_VERSION version \<and> RemoveRaftVoterResponse_fields_wf version x \<and> trailer_ok [] [] (rrv_resp_unknown_tagged_fields x)"

lemmas remove_raft_voter_response_versions =
    RemoveRaftVoterResponse_is_flexible_def RemoveRaftVoterResponse_FLEXIBLE_MIN_def
    RemoveRaftVoterResponse_MIN_VERSION_def RemoveRaftVoterResponse_MAX_VERSION_def version_in_def

lemmas remove_raft_voter_response_fields =
    Let_def field_ok_def RemoveRaftVoterResponse_fields_wf_def RemoveRaftVoterResponse_is_flexible_def
    RemoveRaftVoterResponse_FLEXIBLE_MIN_def

lemma remove_raft_voter_response_steps:
  assumes v: "0 \<le>s version" and flex: "flex = (RemoveRaftVoterResponse_is_flexible version)"
  shows "keeps (RemoveRaftVoterResponse_fields_wf version) (get_into (0 \<le>s version) get_i32 (\<lambda>v out. out\<lparr>rrv_resp_throttle_time_ms := v\<rparr>))"
    and "keeps (RemoveRaftVoterResponse_fields_wf version) (get_into (0 \<le>s version) get_i16 (\<lambda>v out. out\<lparr>rrv_resp_error_code := v\<rparr>))"
    and "keeps (RemoveRaftVoterResponse_fields_wf version) (get_into (0 \<le>s version) (get_nullable_str flex) (\<lambda>v out. out\<lparr>rrv_resp_error_message := v\<rparr>))"
  unfolding flex 
  by (rule keeps_into; (rule yields_rules)?; simp add: v remove_raft_voter_response_fields)+

lemma remove_raft_voter_response_unknown:
  "RemoveRaftVoterResponse_fields_wf version (s\<lparr>rrv_resp_unknown_tagged_fields := u\<rparr>) = RemoveRaftVoterResponse_fields_wf version s"
  by (simp_all add: RemoveRaftVoterResponse_fields_wf_def)

lemma remove_raft_voter_response_yields:
  assumes r: "version_in RemoveRaftVoterResponse_MIN_VERSION RemoveRaftVoterResponse_MAX_VERSION version"
  shows "yields 1 (RemoveRaftVoterResponse_decode version) (RemoveRaftVoterResponse_wf version)"
proof -
  have v: "0 \<le>s version"
    using r by (simp add: remove_raft_voter_response_versions)
  have d: "RemoveRaftVoterResponse_fields_wf version RemoveRaftVoterResponse_default"
    by (simp add: RemoveRaftVoterResponse_default_def v remove_raft_voter_response_fields)
  show ?thesis
    unfolding RemoveRaftVoterResponse_decode_def Let_def
    by (rule yields_checked, (rule remove_raft_voter_response_steps[OF v refl, THEN yields_step], (rule d | assumption))+, rule yields_trailer[OF _ arms_keep_Nil[of "RemoveRaftVoterResponse_fields_wf version" "\<lambda>_. 0"]])
      (simp_all add: v d remove_raft_voter_response_unknown RemoveRaftVoterResponse_wf_def trailer_ok_def r RemoveRaftVoterResponse_is_flexible_def RemoveRaftVoterResponse_FLEXIBLE_MIN_def)
qed

interpretation remove_raft_voter_response: message_codec
  RemoveRaftVoterResponse_encode RemoveRaftVoterResponse_decode RemoveRaftVoterResponse_encoded_len "RemoveRaftVoterResponse_wf version" version
  for version
proof
  fix x
  assume w: "RemoveRaftVoterResponse_wf version x"
  then have v: "0 \<le>s version"
    by (simp add: RemoveRaftVoterResponse_wf_def remove_raft_voter_response_versions)
  show "carries (RemoveRaftVoterResponse_encode x version) (RemoveRaftVoterResponse_decode version) (RemoveRaftVoterResponse_encoded_len x version) x"
    unfolding RemoveRaftVoterResponse_encode_def RemoveRaftVoterResponse_encoded_len_def RemoveRaftVoterResponse_decode_def Let_def
    by (use w[unfolded RemoveRaftVoterResponse_wf_def RemoveRaftVoterResponse_fields_wf_def Let_def] in \<open>elim conjE\<close>, rule carries_cong_len)
      ((rule carries_rules check_version_in[THEN iffD2] | (erule absent_guarded, assumption) | erule absent_plain
        | simp add: v field_ok_def RemoveRaftVoterResponse_default_def remove_raft_voter_response_versions)+)
next
  show "yields 1 (RemoveRaftVoterResponse_decode version) (RemoveRaftVoterResponse_wf version)"
    by (rule case_split[OF remove_raft_voter_response_yields]) (auto simp: RemoveRaftVoterResponse_decode_def Let_def yields_refused yields_unsupported)
  show "extends_input (RemoveRaftVoterResponse_decode version)"
    unfolding RemoveRaftVoterResponse_decode_def Let_def by (intro extends_rules)
qed

section \<open>UpdateRaftVoterRequest\<close>

record UpdateRaftVoterRequest_Listener =
  urv_req_l_name :: bytes
  urv_req_l_host :: bytes
  urv_req_l_port :: u16
  urv_req_l_unknown_tagged_fields :: "UnknownTaggedField list"

definition UpdateRaftVoterRequest_Listener_default :: UpdateRaftVoterRequest_Listener where
  "UpdateRaftVoterRequest_Listener_default =
     \<lparr>urv_req_l_name = [], urv_req_l_host = [], urv_req_l_port = 0, urv_req_l_unknown_tagged_fields = []\<rparr>"

definition UpdateRaftVoterRequest_Listener_encode :: "UpdateRaftVoterRequest_Listener \<Rightarrow> i16 \<Rightarrow> encoder" where
  "UpdateRaftVoterRequest_Listener_encode x version =
     (let flex = 0 \<le>s version in
      write_all
        [put_when (0 \<le>s version) (put_str flex (urv_req_l_name x)),
         put_when (0 \<le>s version) (put_str flex (urv_req_l_host x)),
         put_when (0 \<le>s version) (put_u16 (urv_req_l_port x)),
         put_when flex (put_tagged [] (urv_req_l_unknown_tagged_fields x))])"

definition UpdateRaftVoterRequest_Listener_encoded_len :: "UpdateRaftVoterRequest_Listener \<Rightarrow> i16 \<Rightarrow> nat" where
  "UpdateRaftVoterRequest_Listener_encoded_len x version =
     (let flex = 0 \<le>s version in
      len_when (0 \<le>s version) (str_len flex (urv_req_l_name x))
      + len_when (0 \<le>s version) (str_len flex (urv_req_l_host x))
      + len_when (0 \<le>s version) 2
      + len_when flex (tagged_size [] (urv_req_l_unknown_tagged_fields x)))"

definition UpdateRaftVoterRequest_Listener_decode :: "i16 \<Rightarrow> UpdateRaftVoterRequest_Listener decoder" where
  "UpdateRaftVoterRequest_Listener_decode version =
     (let flex = 0 \<le>s version in
      read_then (get_into (0 \<le>s version) (get_str flex) (\<lambda>v out. out\<lparr>urv_req_l_name := v\<rparr>) UpdateRaftVoterRequest_Listener_default) (\<lambda>out.
        read_then (get_into (0 \<le>s version) (get_str flex) (\<lambda>v out. out\<lparr>urv_req_l_host := v\<rparr>) out) (\<lambda>out.
        read_then (get_into (0 \<le>s version) get_u16 (\<lambda>v out. out\<lparr>urv_req_l_port := v\<rparr>) out) (\<lambda>out.
        get_trailer flex [] (\<lambda>u out. out\<lparr>urv_req_l_unknown_tagged_fields := u\<rparr>) out))))"

definition UpdateRaftVoterRequest_Listener_fields_wf :: "i16 \<Rightarrow> UpdateRaftVoterRequest_Listener \<Rightarrow> bool" where
  "UpdateRaftVoterRequest_Listener_fields_wf version x \<longleftrightarrow>
     (let flex = 0 \<le>s version in
      str_wf flex (urv_req_l_name x)
      \<and> str_wf flex (urv_req_l_host x))"

definition UpdateRaftVoterRequest_Listener_wf :: "i16 \<Rightarrow> UpdateRaftVoterRequest_Listener \<Rightarrow> bool" where
  "UpdateRaftVoterRequest_Listener_wf version x \<longleftrightarrow>
     UpdateRaftVoterRequest_Listener_fields_wf version x \<and> trailer_ok [] [] (urv_req_l_unknown_tagged_fields x)"

lemmas update_raft_voter_request_listener_fields =
    Let_def field_ok_def UpdateRaftVoterRequest_Listener_fields_wf_def

lemma update_raft_voter_request_listener_steps:
  assumes v: "0 \<le>s version" and flex: "flex = (0 \<le>s version)"
  shows "keeps (UpdateRaftVoterRequest_Listener_fields_wf version) (get_into (0 \<le>s version) (get_str flex) (\<lambda>v out. out\<lparr>urv_req_l_name := v\<rparr>))"
    and "keeps (UpdateRaftVoterRequest_Listener_fields_wf version) (get_into (0 \<le>s version) (get_str flex) (\<lambda>v out. out\<lparr>urv_req_l_host := v\<rparr>))"
    and "keeps (UpdateRaftVoterRequest_Listener_fields_wf version) (get_into (0 \<le>s version) get_u16 (\<lambda>v out. out\<lparr>urv_req_l_port := v\<rparr>))"
  unfolding flex 
  by (rule keeps_into; (rule yields_rules)?; simp add: v update_raft_voter_request_listener_fields)+

lemma update_raft_voter_request_listener_unknown:
  "UpdateRaftVoterRequest_Listener_fields_wf version (s\<lparr>urv_req_l_unknown_tagged_fields := u\<rparr>) = UpdateRaftVoterRequest_Listener_fields_wf version s"
  by (simp_all add: UpdateRaftVoterRequest_Listener_fields_wf_def)

lemma update_raft_voter_request_listener_yields:
  assumes v: "0 \<le>s version"
  shows "yields 1 (UpdateRaftVoterRequest_Listener_decode version) (UpdateRaftVoterRequest_Listener_wf version)"
proof -
  have d: "UpdateRaftVoterRequest_Listener_fields_wf version UpdateRaftVoterRequest_Listener_default"
    by (simp add: UpdateRaftVoterRequest_Listener_default_def v update_raft_voter_request_listener_fields)
  show ?thesis
    unfolding UpdateRaftVoterRequest_Listener_decode_def Let_def
    by ((rule update_raft_voter_request_listener_steps[OF v refl, THEN yields_step], (rule d | assumption))+, rule yields_trailer[OF _ arms_keep_Nil[of "UpdateRaftVoterRequest_Listener_fields_wf version" "\<lambda>_. 0"]])
      (simp_all add: v d update_raft_voter_request_listener_unknown UpdateRaftVoterRequest_Listener_wf_def trailer_ok_def )
qed

lemma update_raft_voter_request_listener_extends [extends_rules]: "extends_input (UpdateRaftVoterRequest_Listener_decode version)"
  unfolding UpdateRaftVoterRequest_Listener_decode_def Let_def by (intro extends_rules)

lemma update_raft_voter_request_listener_codec:
  assumes v: "0 \<le>s version"
  shows "message_codec UpdateRaftVoterRequest_Listener_encode UpdateRaftVoterRequest_Listener_decode UpdateRaftVoterRequest_Listener_encoded_len (UpdateRaftVoterRequest_Listener_wf version) version"
proof
  fix x
  assume w: "UpdateRaftVoterRequest_Listener_wf version x"
  show "carries (UpdateRaftVoterRequest_Listener_encode x version) (UpdateRaftVoterRequest_Listener_decode version) (UpdateRaftVoterRequest_Listener_encoded_len x version) x"
    unfolding UpdateRaftVoterRequest_Listener_encode_def UpdateRaftVoterRequest_Listener_encoded_len_def UpdateRaftVoterRequest_Listener_decode_def Let_def
    by (use w[unfolded UpdateRaftVoterRequest_Listener_wf_def UpdateRaftVoterRequest_Listener_fields_wf_def Let_def] in \<open>elim conjE\<close>, rule carries_cong_len)
      ((rule carries_rules | (erule absent_guarded, assumption) | erule absent_plain
        | simp add: v field_ok_def UpdateRaftVoterRequest_Listener_default_def )+)
next
  show "yields 1 (UpdateRaftVoterRequest_Listener_decode version) (UpdateRaftVoterRequest_Listener_wf version)"
    by (rule update_raft_voter_request_listener_yields[OF v])
qed (rule update_raft_voter_request_listener_extends)

lemma update_raft_voter_request_listener_default_wf [simp]: "0 \<le>s version \<Longrightarrow> UpdateRaftVoterRequest_Listener_wf version UpdateRaftVoterRequest_Listener_default"
  by (simp add: UpdateRaftVoterRequest_Listener_wf_def UpdateRaftVoterRequest_Listener_default_def trailer_ok_def update_raft_voter_request_listener_fields)

lemmas [carries_rules] = message_codec.message_carries[OF update_raft_voter_request_listener_codec]
lemmas [yields_rules] = message_codec.message_yields[OF update_raft_voter_request_listener_codec]

lemmas [carries_rules] = protocol_codec.put_array_carries[OF message_codec.message_protocol[OF update_raft_voter_request_listener_codec]]
lemmas [yields_rules] = protocol_codec.get_array_yields[OF message_codec.message_protocol[OF update_raft_voter_request_listener_codec]]
lemmas [carries_rules] = protocol_codec.put_nullable_array_carries[OF message_codec.message_protocol[OF update_raft_voter_request_listener_codec]]
lemmas [yields_rules] = protocol_codec.get_nullable_array_yields[OF message_codec.message_protocol[OF update_raft_voter_request_listener_codec]]

record UpdateRaftVoterRequest_KRaftVersionFeature =
  urv_req_krvf_min_supported_version :: i16
  urv_req_krvf_max_supported_version :: i16
  urv_req_krvf_unknown_tagged_fields :: "UnknownTaggedField list"

definition UpdateRaftVoterRequest_KRaftVersionFeature_default :: UpdateRaftVoterRequest_KRaftVersionFeature where
  "UpdateRaftVoterRequest_KRaftVersionFeature_default =
     \<lparr>urv_req_krvf_min_supported_version = 0, urv_req_krvf_max_supported_version = 0, urv_req_krvf_unknown_tagged_fields = []\<rparr>"

definition UpdateRaftVoterRequest_KRaftVersionFeature_encode :: "UpdateRaftVoterRequest_KRaftVersionFeature \<Rightarrow> i16 \<Rightarrow> encoder" where
  "UpdateRaftVoterRequest_KRaftVersionFeature_encode x version =
     (let flex = 0 \<le>s version in
      write_all
        [put_when (0 \<le>s version) (put_i16 (urv_req_krvf_min_supported_version x)),
         put_when (0 \<le>s version) (put_i16 (urv_req_krvf_max_supported_version x)),
         put_when flex (put_tagged [] (urv_req_krvf_unknown_tagged_fields x))])"

definition UpdateRaftVoterRequest_KRaftVersionFeature_encoded_len :: "UpdateRaftVoterRequest_KRaftVersionFeature \<Rightarrow> i16 \<Rightarrow> nat" where
  "UpdateRaftVoterRequest_KRaftVersionFeature_encoded_len x version =
     (let flex = 0 \<le>s version in
      len_when (0 \<le>s version) 2
      + len_when (0 \<le>s version) 2
      + len_when flex (tagged_size [] (urv_req_krvf_unknown_tagged_fields x)))"

definition UpdateRaftVoterRequest_KRaftVersionFeature_decode :: "i16 \<Rightarrow> UpdateRaftVoterRequest_KRaftVersionFeature decoder" where
  "UpdateRaftVoterRequest_KRaftVersionFeature_decode version =
     (let flex = 0 \<le>s version in
      read_then (get_into (0 \<le>s version) get_i16 (\<lambda>v out. out\<lparr>urv_req_krvf_min_supported_version := v\<rparr>) UpdateRaftVoterRequest_KRaftVersionFeature_default) (\<lambda>out.
        read_then (get_into (0 \<le>s version) get_i16 (\<lambda>v out. out\<lparr>urv_req_krvf_max_supported_version := v\<rparr>) out) (\<lambda>out.
        get_trailer flex [] (\<lambda>u out. out\<lparr>urv_req_krvf_unknown_tagged_fields := u\<rparr>) out)))"

definition UpdateRaftVoterRequest_KRaftVersionFeature_fields_wf :: "i16 \<Rightarrow> UpdateRaftVoterRequest_KRaftVersionFeature \<Rightarrow> bool" where
  "UpdateRaftVoterRequest_KRaftVersionFeature_fields_wf version x \<longleftrightarrow>
     True"

definition UpdateRaftVoterRequest_KRaftVersionFeature_wf :: "i16 \<Rightarrow> UpdateRaftVoterRequest_KRaftVersionFeature \<Rightarrow> bool" where
  "UpdateRaftVoterRequest_KRaftVersionFeature_wf version x \<longleftrightarrow>
     UpdateRaftVoterRequest_KRaftVersionFeature_fields_wf version x \<and> trailer_ok [] [] (urv_req_krvf_unknown_tagged_fields x)"

lemmas update_raft_voter_request_k_raft_version_feature_fields =
    Let_def field_ok_def UpdateRaftVoterRequest_KRaftVersionFeature_fields_wf_def

lemma update_raft_voter_request_k_raft_version_feature_steps:
  assumes v: "0 \<le>s version" and flex: "flex = (0 \<le>s version)"
  shows "keeps (UpdateRaftVoterRequest_KRaftVersionFeature_fields_wf version) (get_into (0 \<le>s version) get_i16 (\<lambda>v out. out\<lparr>urv_req_krvf_min_supported_version := v\<rparr>))"
    and "keeps (UpdateRaftVoterRequest_KRaftVersionFeature_fields_wf version) (get_into (0 \<le>s version) get_i16 (\<lambda>v out. out\<lparr>urv_req_krvf_max_supported_version := v\<rparr>))"
  unfolding flex 
  by (rule keeps_into; (rule yields_rules)?; simp add: v update_raft_voter_request_k_raft_version_feature_fields)+

lemma update_raft_voter_request_k_raft_version_feature_unknown:
  "UpdateRaftVoterRequest_KRaftVersionFeature_fields_wf version (s\<lparr>urv_req_krvf_unknown_tagged_fields := u\<rparr>) = UpdateRaftVoterRequest_KRaftVersionFeature_fields_wf version s"
  by (simp_all add: UpdateRaftVoterRequest_KRaftVersionFeature_fields_wf_def)

lemma update_raft_voter_request_k_raft_version_feature_yields:
  assumes v: "0 \<le>s version"
  shows "yields 1 (UpdateRaftVoterRequest_KRaftVersionFeature_decode version) (UpdateRaftVoterRequest_KRaftVersionFeature_wf version)"
proof -
  have d: "UpdateRaftVoterRequest_KRaftVersionFeature_fields_wf version UpdateRaftVoterRequest_KRaftVersionFeature_default"
    by (simp add: UpdateRaftVoterRequest_KRaftVersionFeature_default_def v update_raft_voter_request_k_raft_version_feature_fields)
  show ?thesis
    unfolding UpdateRaftVoterRequest_KRaftVersionFeature_decode_def Let_def
    by ((rule update_raft_voter_request_k_raft_version_feature_steps[OF v refl, THEN yields_step], (rule d | assumption))+, rule yields_trailer[OF _ arms_keep_Nil[of "UpdateRaftVoterRequest_KRaftVersionFeature_fields_wf version" "\<lambda>_. 0"]])
      (simp_all add: v d update_raft_voter_request_k_raft_version_feature_unknown UpdateRaftVoterRequest_KRaftVersionFeature_wf_def trailer_ok_def )
qed

lemma update_raft_voter_request_k_raft_version_feature_extends [extends_rules]: "extends_input (UpdateRaftVoterRequest_KRaftVersionFeature_decode version)"
  unfolding UpdateRaftVoterRequest_KRaftVersionFeature_decode_def Let_def by (intro extends_rules)

lemma update_raft_voter_request_k_raft_version_feature_codec:
  assumes v: "0 \<le>s version"
  shows "message_codec UpdateRaftVoterRequest_KRaftVersionFeature_encode UpdateRaftVoterRequest_KRaftVersionFeature_decode UpdateRaftVoterRequest_KRaftVersionFeature_encoded_len (UpdateRaftVoterRequest_KRaftVersionFeature_wf version) version"
proof
  fix x
  assume w: "UpdateRaftVoterRequest_KRaftVersionFeature_wf version x"
  show "carries (UpdateRaftVoterRequest_KRaftVersionFeature_encode x version) (UpdateRaftVoterRequest_KRaftVersionFeature_decode version) (UpdateRaftVoterRequest_KRaftVersionFeature_encoded_len x version) x"
    unfolding UpdateRaftVoterRequest_KRaftVersionFeature_encode_def UpdateRaftVoterRequest_KRaftVersionFeature_encoded_len_def UpdateRaftVoterRequest_KRaftVersionFeature_decode_def Let_def
    by (use w[unfolded UpdateRaftVoterRequest_KRaftVersionFeature_wf_def UpdateRaftVoterRequest_KRaftVersionFeature_fields_wf_def Let_def] in \<open>elim conjE\<close>, rule carries_cong_len)
      ((rule carries_rules | (erule absent_guarded, assumption) | erule absent_plain
        | simp add: v field_ok_def UpdateRaftVoterRequest_KRaftVersionFeature_default_def )+)
next
  show "yields 1 (UpdateRaftVoterRequest_KRaftVersionFeature_decode version) (UpdateRaftVoterRequest_KRaftVersionFeature_wf version)"
    by (rule update_raft_voter_request_k_raft_version_feature_yields[OF v])
qed (rule update_raft_voter_request_k_raft_version_feature_extends)

lemma update_raft_voter_request_k_raft_version_feature_default_wf [simp]: "0 \<le>s version \<Longrightarrow> UpdateRaftVoterRequest_KRaftVersionFeature_wf version UpdateRaftVoterRequest_KRaftVersionFeature_default"
  by (simp add: UpdateRaftVoterRequest_KRaftVersionFeature_wf_def UpdateRaftVoterRequest_KRaftVersionFeature_default_def trailer_ok_def update_raft_voter_request_k_raft_version_feature_fields)

lemmas [carries_rules] = message_codec.message_carries[OF update_raft_voter_request_k_raft_version_feature_codec]
lemmas [yields_rules] = message_codec.message_yields[OF update_raft_voter_request_k_raft_version_feature_codec]

lemmas [carries_rules] = protocol_codec.put_array_carries[OF message_codec.message_protocol[OF update_raft_voter_request_k_raft_version_feature_codec]]
lemmas [yields_rules] = protocol_codec.get_array_yields[OF message_codec.message_protocol[OF update_raft_voter_request_k_raft_version_feature_codec]]
lemmas [carries_rules] = protocol_codec.put_nullable_array_carries[OF message_codec.message_protocol[OF update_raft_voter_request_k_raft_version_feature_codec]]
lemmas [yields_rules] = protocol_codec.get_nullable_array_yields[OF message_codec.message_protocol[OF update_raft_voter_request_k_raft_version_feature_codec]]

record UpdateRaftVoterRequest =
  urv_req_cluster_id :: "bytes option"
  urv_req_current_leader_epoch :: i32
  urv_req_voter_id :: i32
  urv_req_voter_directory_id :: Uuid
  urv_req_listeners :: "UpdateRaftVoterRequest_Listener list"
  urv_req_k_raft_version_feature :: UpdateRaftVoterRequest_KRaftVersionFeature
  urv_req_unknown_tagged_fields :: "UnknownTaggedField list"

definition UpdateRaftVoterRequest_default :: UpdateRaftVoterRequest where
  "UpdateRaftVoterRequest_default =
     \<lparr>urv_req_cluster_id = Some [], urv_req_current_leader_epoch = 0, urv_req_voter_id = 0, urv_req_voter_directory_id = Uuid_ZERO, urv_req_listeners = [], urv_req_k_raft_version_feature = UpdateRaftVoterRequest_KRaftVersionFeature_default, urv_req_unknown_tagged_fields = []\<rparr>"

definition UpdateRaftVoterRequest_MIN_VERSION :: i16 where
  "UpdateRaftVoterRequest_MIN_VERSION = 0"

definition UpdateRaftVoterRequest_MAX_VERSION :: i16 where
  "UpdateRaftVoterRequest_MAX_VERSION = 0"

definition UpdateRaftVoterRequest_FLEXIBLE_MIN :: i16 where
  "UpdateRaftVoterRequest_FLEXIBLE_MIN = 0"

definition UpdateRaftVoterRequest_API_KEY :: i16 where
  "UpdateRaftVoterRequest_API_KEY = 82"

definition UpdateRaftVoterRequest_is_flexible :: "i16 \<Rightarrow> bool" where
  "UpdateRaftVoterRequest_is_flexible version \<longleftrightarrow> UpdateRaftVoterRequest_FLEXIBLE_MIN \<le>s version"

definition UpdateRaftVoterRequest_encode :: "UpdateRaftVoterRequest \<Rightarrow> i16 \<Rightarrow> encoder" where
  "UpdateRaftVoterRequest_encode x version =
     (let flex = UpdateRaftVoterRequest_is_flexible version in
      write_all
        [write_check (check_version UpdateRaftVoterRequest_API_KEY version UpdateRaftVoterRequest_MIN_VERSION UpdateRaftVoterRequest_MAX_VERSION),
         put_when (0 \<le>s version) (put_nullable_str flex (urv_req_cluster_id x)),
         put_when (0 \<le>s version) (put_i32 (urv_req_current_leader_epoch x)),
         put_when (0 \<le>s version) (put_i32 (urv_req_voter_id x)),
         put_when (0 \<le>s version) (put_uuid (urv_req_voter_directory_id x)),
         put_when (0 \<le>s version) (put_array flex (\<lambda>it. UpdateRaftVoterRequest_Listener_encode it version) (urv_req_listeners x)),
         put_when (0 \<le>s version) ((\<lambda>it. UpdateRaftVoterRequest_KRaftVersionFeature_encode it version) (urv_req_k_raft_version_feature x)),
         put_when flex (put_tagged [] (urv_req_unknown_tagged_fields x))])"

definition UpdateRaftVoterRequest_encoded_len :: "UpdateRaftVoterRequest \<Rightarrow> i16 \<Rightarrow> nat" where
  "UpdateRaftVoterRequest_encoded_len x version =
     (let flex = UpdateRaftVoterRequest_is_flexible version in
      len_when (0 \<le>s version) (nullable_str_len flex (urv_req_cluster_id x))
      + len_when (0 \<le>s version) 4
      + len_when (0 \<le>s version) 4
      + len_when (0 \<le>s version) 16
      + len_when (0 \<le>s version) (array_size flex (\<lambda>it. UpdateRaftVoterRequest_Listener_encoded_len it version) (urv_req_listeners x))
      + len_when (0 \<le>s version) (UpdateRaftVoterRequest_KRaftVersionFeature_encoded_len (urv_req_k_raft_version_feature x) version)
      + len_when flex (tagged_size [] (urv_req_unknown_tagged_fields x)))"

definition UpdateRaftVoterRequest_decode :: "i16 \<Rightarrow> UpdateRaftVoterRequest decoder" where
  "UpdateRaftVoterRequest_decode version =
     (let flex = UpdateRaftVoterRequest_is_flexible version in
      checked (check_version UpdateRaftVoterRequest_API_KEY version UpdateRaftVoterRequest_MIN_VERSION UpdateRaftVoterRequest_MAX_VERSION) (
        read_then (get_into (0 \<le>s version) (get_nullable_str flex) (\<lambda>v out. out\<lparr>urv_req_cluster_id := v\<rparr>) UpdateRaftVoterRequest_default) (\<lambda>out.
        read_then (get_into (0 \<le>s version) get_i32 (\<lambda>v out. out\<lparr>urv_req_current_leader_epoch := v\<rparr>) out) (\<lambda>out.
        read_then (get_into (0 \<le>s version) get_i32 (\<lambda>v out. out\<lparr>urv_req_voter_id := v\<rparr>) out) (\<lambda>out.
        read_then (get_into (0 \<le>s version) get_uuid (\<lambda>v out. out\<lparr>urv_req_voter_directory_id := v\<rparr>) out) (\<lambda>out.
        read_then (get_into (0 \<le>s version) (get_array flex (UpdateRaftVoterRequest_Listener_decode version)) (\<lambda>v out. out\<lparr>urv_req_listeners := v\<rparr>) out) (\<lambda>out.
        read_then (get_into (0 \<le>s version) (UpdateRaftVoterRequest_KRaftVersionFeature_decode version) (\<lambda>v out. out\<lparr>urv_req_k_raft_version_feature := v\<rparr>) out) (\<lambda>out.
        get_trailer flex [] (\<lambda>u out. out\<lparr>urv_req_unknown_tagged_fields := u\<rparr>) out))))))))"

definition UpdateRaftVoterRequest_fields_wf :: "i16 \<Rightarrow> UpdateRaftVoterRequest \<Rightarrow> bool" where
  "UpdateRaftVoterRequest_fields_wf version x \<longleftrightarrow>
     (let flex = UpdateRaftVoterRequest_is_flexible version in
      nullable_str_wf flex (urv_req_cluster_id x)
      \<and> uuid_wf (urv_req_voter_directory_id x)
      \<and> array_ok flex (UpdateRaftVoterRequest_Listener_wf version) (urv_req_listeners x)
      \<and> UpdateRaftVoterRequest_KRaftVersionFeature_wf version (urv_req_k_raft_version_feature x))"

definition UpdateRaftVoterRequest_wf :: "i16 \<Rightarrow> UpdateRaftVoterRequest \<Rightarrow> bool" where
  "UpdateRaftVoterRequest_wf version x \<longleftrightarrow>
     version_in UpdateRaftVoterRequest_MIN_VERSION UpdateRaftVoterRequest_MAX_VERSION version \<and> UpdateRaftVoterRequest_fields_wf version x \<and> trailer_ok [] [] (urv_req_unknown_tagged_fields x)"

lemmas update_raft_voter_request_versions =
    UpdateRaftVoterRequest_is_flexible_def UpdateRaftVoterRequest_FLEXIBLE_MIN_def
    UpdateRaftVoterRequest_MIN_VERSION_def UpdateRaftVoterRequest_MAX_VERSION_def version_in_def

lemmas update_raft_voter_request_fields =
    Let_def field_ok_def UpdateRaftVoterRequest_fields_wf_def UpdateRaftVoterRequest_is_flexible_def
    UpdateRaftVoterRequest_FLEXIBLE_MIN_def

lemma update_raft_voter_request_steps:
  assumes v: "0 \<le>s version" and flex: "flex = (UpdateRaftVoterRequest_is_flexible version)"
  shows "keeps (UpdateRaftVoterRequest_fields_wf version) (get_into (0 \<le>s version) (get_nullable_str flex) (\<lambda>v out. out\<lparr>urv_req_cluster_id := v\<rparr>))"
    and "keeps (UpdateRaftVoterRequest_fields_wf version) (get_into (0 \<le>s version) get_i32 (\<lambda>v out. out\<lparr>urv_req_current_leader_epoch := v\<rparr>))"
    and "keeps (UpdateRaftVoterRequest_fields_wf version) (get_into (0 \<le>s version) get_i32 (\<lambda>v out. out\<lparr>urv_req_voter_id := v\<rparr>))"
    and "keeps (UpdateRaftVoterRequest_fields_wf version) (get_into (0 \<le>s version) get_uuid (\<lambda>v out. out\<lparr>urv_req_voter_directory_id := v\<rparr>))"
    and "keeps (UpdateRaftVoterRequest_fields_wf version) (get_into (0 \<le>s version) (get_array flex (UpdateRaftVoterRequest_Listener_decode version)) (\<lambda>v out. out\<lparr>urv_req_listeners := v\<rparr>))"
    and "keeps (UpdateRaftVoterRequest_fields_wf version) (get_into (0 \<le>s version) (UpdateRaftVoterRequest_KRaftVersionFeature_decode version) (\<lambda>v out. out\<lparr>urv_req_k_raft_version_feature := v\<rparr>))"
  unfolding flex 
  by (rule keeps_into; (rule yields_rules)?; simp add: v update_raft_voter_request_fields)+

lemma update_raft_voter_request_unknown:
  "UpdateRaftVoterRequest_fields_wf version (s\<lparr>urv_req_unknown_tagged_fields := u\<rparr>) = UpdateRaftVoterRequest_fields_wf version s"
  by (simp_all add: UpdateRaftVoterRequest_fields_wf_def)

lemma update_raft_voter_request_yields:
  assumes r: "version_in UpdateRaftVoterRequest_MIN_VERSION UpdateRaftVoterRequest_MAX_VERSION version"
  shows "yields 1 (UpdateRaftVoterRequest_decode version) (UpdateRaftVoterRequest_wf version)"
proof -
  have v: "0 \<le>s version"
    using r by (simp add: update_raft_voter_request_versions)
  have d: "UpdateRaftVoterRequest_fields_wf version UpdateRaftVoterRequest_default"
    by (simp add: UpdateRaftVoterRequest_default_def v update_raft_voter_request_fields)
  show ?thesis
    unfolding UpdateRaftVoterRequest_decode_def Let_def
    by (rule yields_checked, (rule update_raft_voter_request_steps[OF v refl, THEN yields_step], (rule d | assumption))+, rule yields_trailer[OF _ arms_keep_Nil[of "UpdateRaftVoterRequest_fields_wf version" "\<lambda>_. 0"]])
      (simp_all add: v d update_raft_voter_request_unknown UpdateRaftVoterRequest_wf_def trailer_ok_def r UpdateRaftVoterRequest_is_flexible_def UpdateRaftVoterRequest_FLEXIBLE_MIN_def)
qed

interpretation update_raft_voter_request: message_codec
  UpdateRaftVoterRequest_encode UpdateRaftVoterRequest_decode UpdateRaftVoterRequest_encoded_len "UpdateRaftVoterRequest_wf version" version
  for version
proof
  fix x
  assume w: "UpdateRaftVoterRequest_wf version x"
  then have v: "0 \<le>s version"
    by (simp add: UpdateRaftVoterRequest_wf_def update_raft_voter_request_versions)
  show "carries (UpdateRaftVoterRequest_encode x version) (UpdateRaftVoterRequest_decode version) (UpdateRaftVoterRequest_encoded_len x version) x"
    unfolding UpdateRaftVoterRequest_encode_def UpdateRaftVoterRequest_encoded_len_def UpdateRaftVoterRequest_decode_def Let_def
    by (use w[unfolded UpdateRaftVoterRequest_wf_def UpdateRaftVoterRequest_fields_wf_def Let_def] in \<open>elim conjE\<close>, rule carries_cong_len)
      ((rule carries_rules check_version_in[THEN iffD2] | (erule absent_guarded, assumption) | erule absent_plain
        | simp add: v field_ok_def UpdateRaftVoterRequest_default_def update_raft_voter_request_versions)+)
next
  show "yields 1 (UpdateRaftVoterRequest_decode version) (UpdateRaftVoterRequest_wf version)"
    by (rule case_split[OF update_raft_voter_request_yields]) (auto simp: UpdateRaftVoterRequest_decode_def Let_def yields_refused yields_unsupported)
  show "extends_input (UpdateRaftVoterRequest_decode version)"
    unfolding UpdateRaftVoterRequest_decode_def Let_def by (intro extends_rules)
qed

section \<open>VoteRequest\<close>

record VoteRequest_PartitionData =
  v_req_pd_partition_index :: i32
  v_req_pd_replica_epoch :: i32
  v_req_pd_replica_id :: i32
  v_req_pd_replica_directory_id :: Uuid
  v_req_pd_voter_directory_id :: Uuid
  v_req_pd_last_offset_epoch :: i32
  v_req_pd_last_offset :: i64
  v_req_pd_pre_vote :: bool
  v_req_pd_unknown_tagged_fields :: "UnknownTaggedField list"

definition VoteRequest_PartitionData_default :: VoteRequest_PartitionData where
  "VoteRequest_PartitionData_default =
     \<lparr>v_req_pd_partition_index = 0, v_req_pd_replica_epoch = 0, v_req_pd_replica_id = 0, v_req_pd_replica_directory_id = Uuid_ZERO, v_req_pd_voter_directory_id = Uuid_ZERO, v_req_pd_last_offset_epoch = 0, v_req_pd_last_offset = 0, v_req_pd_pre_vote = False, v_req_pd_unknown_tagged_fields = []\<rparr>"

definition VoteRequest_PartitionData_encode_field_0 :: "VoteRequest_PartitionData \<Rightarrow> i16 \<Rightarrow> bool \<Rightarrow> encoder" where
  "VoteRequest_PartitionData_encode_field_0 x version flex = put_when (0 \<le>s version) (put_i32 (v_req_pd_partition_index x))"

definition VoteRequest_PartitionData_encode_field_1 :: "VoteRequest_PartitionData \<Rightarrow> i16 \<Rightarrow> bool \<Rightarrow> encoder" where
  "VoteRequest_PartitionData_encode_field_1 x version flex = put_when (0 \<le>s version) (put_i32 (v_req_pd_replica_epoch x))"

definition VoteRequest_PartitionData_encode_field_2 :: "VoteRequest_PartitionData \<Rightarrow> i16 \<Rightarrow> bool \<Rightarrow> encoder" where
  "VoteRequest_PartitionData_encode_field_2 x version flex = put_when (0 \<le>s version) (put_i32 (v_req_pd_replica_id x))"

definition VoteRequest_PartitionData_encode_field_3 :: "VoteRequest_PartitionData \<Rightarrow> i16 \<Rightarrow> bool \<Rightarrow> encoder" where
  "VoteRequest_PartitionData_encode_field_3 x version flex = put_when (1 \<le>s version) (put_uuid (v_req_pd_replica_directory_id x))"

definition VoteRequest_PartitionData_encode_field_4 :: "VoteRequest_PartitionData \<Rightarrow> i16 \<Rightarrow> bool \<Rightarrow> encoder" where
  "VoteRequest_PartitionData_encode_field_4 x version flex = put_when (1 \<le>s version) (put_uuid (v_req_pd_voter_directory_id x))"

definition VoteRequest_PartitionData_encode_field_5 :: "VoteRequest_PartitionData \<Rightarrow> i16 \<Rightarrow> bool \<Rightarrow> encoder" where
  "VoteRequest_PartitionData_encode_field_5 x version flex = put_when (0 \<le>s version) (put_i32 (v_req_pd_last_offset_epoch x))"

definition VoteRequest_PartitionData_encode_field_6 :: "VoteRequest_PartitionData \<Rightarrow> i16 \<Rightarrow> bool \<Rightarrow> encoder" where
  "VoteRequest_PartitionData_encode_field_6 x version flex = put_when (0 \<le>s version) (put_i64 (v_req_pd_last_offset x))"

definition VoteRequest_PartitionData_encode_field_7 :: "VoteRequest_PartitionData \<Rightarrow> i16 \<Rightarrow> bool \<Rightarrow> encoder" where
  "VoteRequest_PartitionData_encode_field_7 x version flex = put_when (2 \<le>s version) (put_bool (v_req_pd_pre_vote x))"

definition VoteRequest_PartitionData_encode_tagged_fields :: "VoteRequest_PartitionData \<Rightarrow> i16 \<Rightarrow> bool \<Rightarrow> encoder" where
  "VoteRequest_PartitionData_encode_tagged_fields x version flex =
     put_when flex (put_tagged
       []
       (v_req_pd_unknown_tagged_fields x))"

definition VoteRequest_PartitionData_encode :: "VoteRequest_PartitionData \<Rightarrow> i16 \<Rightarrow> encoder" where
  "VoteRequest_PartitionData_encode x version =
     (let flex = 0 \<le>s version in
      write_all
        [VoteRequest_PartitionData_encode_field_0 x version flex,
         VoteRequest_PartitionData_encode_field_1 x version flex,
         VoteRequest_PartitionData_encode_field_2 x version flex,
         VoteRequest_PartitionData_encode_field_3 x version flex,
         VoteRequest_PartitionData_encode_field_4 x version flex,
         VoteRequest_PartitionData_encode_field_5 x version flex,
         VoteRequest_PartitionData_encode_field_6 x version flex,
         VoteRequest_PartitionData_encode_field_7 x version flex,
         VoteRequest_PartitionData_encode_tagged_fields x version flex])"

definition VoteRequest_PartitionData_encoded_len :: "VoteRequest_PartitionData \<Rightarrow> i16 \<Rightarrow> nat" where
  "VoteRequest_PartitionData_encoded_len x version =
     (let flex = 0 \<le>s version in
      len_when (0 \<le>s version) 4
      + len_when (0 \<le>s version) 4
      + len_when (0 \<le>s version) 4
      + len_when (1 \<le>s version) 16
      + len_when (1 \<le>s version) 16
      + len_when (0 \<le>s version) 4
      + len_when (0 \<le>s version) 8
      + len_when (2 \<le>s version) 1
      + len_when flex (tagged_size [] (v_req_pd_unknown_tagged_fields x)))"

definition VoteRequest_PartitionData_decode_field_0 :: "VoteRequest_PartitionData \<Rightarrow> i16 \<Rightarrow> bool \<Rightarrow> VoteRequest_PartitionData decoder" where
  "VoteRequest_PartitionData_decode_field_0 out version flex = get_into (0 \<le>s version) get_i32 (\<lambda>v out. out\<lparr>v_req_pd_partition_index := v\<rparr>) out"

definition VoteRequest_PartitionData_decode_field_1 :: "VoteRequest_PartitionData \<Rightarrow> i16 \<Rightarrow> bool \<Rightarrow> VoteRequest_PartitionData decoder" where
  "VoteRequest_PartitionData_decode_field_1 out version flex = get_into (0 \<le>s version) get_i32 (\<lambda>v out. out\<lparr>v_req_pd_replica_epoch := v\<rparr>) out"

definition VoteRequest_PartitionData_decode_field_2 :: "VoteRequest_PartitionData \<Rightarrow> i16 \<Rightarrow> bool \<Rightarrow> VoteRequest_PartitionData decoder" where
  "VoteRequest_PartitionData_decode_field_2 out version flex = get_into (0 \<le>s version) get_i32 (\<lambda>v out. out\<lparr>v_req_pd_replica_id := v\<rparr>) out"

definition VoteRequest_PartitionData_decode_field_3 :: "VoteRequest_PartitionData \<Rightarrow> i16 \<Rightarrow> bool \<Rightarrow> VoteRequest_PartitionData decoder" where
  "VoteRequest_PartitionData_decode_field_3 out version flex = get_into (1 \<le>s version) get_uuid (\<lambda>v out. out\<lparr>v_req_pd_replica_directory_id := v\<rparr>) out"

definition VoteRequest_PartitionData_decode_field_4 :: "VoteRequest_PartitionData \<Rightarrow> i16 \<Rightarrow> bool \<Rightarrow> VoteRequest_PartitionData decoder" where
  "VoteRequest_PartitionData_decode_field_4 out version flex = get_into (1 \<le>s version) get_uuid (\<lambda>v out. out\<lparr>v_req_pd_voter_directory_id := v\<rparr>) out"

definition VoteRequest_PartitionData_decode_field_5 :: "VoteRequest_PartitionData \<Rightarrow> i16 \<Rightarrow> bool \<Rightarrow> VoteRequest_PartitionData decoder" where
  "VoteRequest_PartitionData_decode_field_5 out version flex = get_into (0 \<le>s version) get_i32 (\<lambda>v out. out\<lparr>v_req_pd_last_offset_epoch := v\<rparr>) out"

definition VoteRequest_PartitionData_decode_field_6 :: "VoteRequest_PartitionData \<Rightarrow> i16 \<Rightarrow> bool \<Rightarrow> VoteRequest_PartitionData decoder" where
  "VoteRequest_PartitionData_decode_field_6 out version flex = get_into (0 \<le>s version) get_i64 (\<lambda>v out. out\<lparr>v_req_pd_last_offset := v\<rparr>) out"

definition VoteRequest_PartitionData_decode_field_7 :: "VoteRequest_PartitionData \<Rightarrow> i16 \<Rightarrow> bool \<Rightarrow> VoteRequest_PartitionData decoder" where
  "VoteRequest_PartitionData_decode_field_7 out version flex = get_into (2 \<le>s version) get_bool (\<lambda>v out. out\<lparr>v_req_pd_pre_vote := v\<rparr>) out"

definition VoteRequest_PartitionData_decode_tagged_fields :: "VoteRequest_PartitionData \<Rightarrow> i16 \<Rightarrow> bool \<Rightarrow> VoteRequest_PartitionData decoder" where
  "VoteRequest_PartitionData_decode_tagged_fields out version flex =
     get_trailer flex
       []
       (\<lambda>u out. out\<lparr>v_req_pd_unknown_tagged_fields := u\<rparr>) out"

definition VoteRequest_PartitionData_decode :: "i16 \<Rightarrow> VoteRequest_PartitionData decoder" where
  "VoteRequest_PartitionData_decode version =
     (let flex = 0 \<le>s version in
      read_then (VoteRequest_PartitionData_decode_field_0 VoteRequest_PartitionData_default version flex) (\<lambda>out.
        read_then (VoteRequest_PartitionData_decode_field_1 out version flex) (\<lambda>out.
        read_then (VoteRequest_PartitionData_decode_field_2 out version flex) (\<lambda>out.
        read_then (VoteRequest_PartitionData_decode_field_3 out version flex) (\<lambda>out.
        read_then (VoteRequest_PartitionData_decode_field_4 out version flex) (\<lambda>out.
        read_then (VoteRequest_PartitionData_decode_field_5 out version flex) (\<lambda>out.
        read_then (VoteRequest_PartitionData_decode_field_6 out version flex) (\<lambda>out.
        read_then (VoteRequest_PartitionData_decode_field_7 out version flex) (\<lambda>out.
        VoteRequest_PartitionData_decode_tagged_fields out version flex)))))))))"

definition VoteRequest_PartitionData_fields_wf :: "i16 \<Rightarrow> VoteRequest_PartitionData \<Rightarrow> bool" where
  "VoteRequest_PartitionData_fields_wf version x \<longleftrightarrow>
     field_ok (1 \<le>s version) Uuid_ZERO uuid_wf (v_req_pd_replica_directory_id x)
      \<and> field_ok (1 \<le>s version) Uuid_ZERO uuid_wf (v_req_pd_voter_directory_id x)
      \<and> field_ok (2 \<le>s version) False (\<lambda>_. True) (v_req_pd_pre_vote x)"

definition VoteRequest_PartitionData_wf :: "i16 \<Rightarrow> VoteRequest_PartitionData \<Rightarrow> bool" where
  "VoteRequest_PartitionData_wf version x \<longleftrightarrow>
     VoteRequest_PartitionData_fields_wf version x \<and> trailer_ok [] [] (v_req_pd_unknown_tagged_fields x)"

lemmas vote_request_partition_data_fields =
    Let_def field_ok_def VoteRequest_PartitionData_fields_wf_def

lemmas vote_request_partition_data_writers =
    VoteRequest_PartitionData_encode_field_0_def VoteRequest_PartitionData_encode_field_1_def
    VoteRequest_PartitionData_encode_field_2_def VoteRequest_PartitionData_encode_field_3_def
    VoteRequest_PartitionData_encode_field_4_def VoteRequest_PartitionData_encode_field_5_def
    VoteRequest_PartitionData_encode_field_6_def VoteRequest_PartitionData_encode_field_7_def
    VoteRequest_PartitionData_encode_tagged_fields_def

lemmas vote_request_partition_data_readers =
    VoteRequest_PartitionData_decode_field_0_def VoteRequest_PartitionData_decode_field_1_def
    VoteRequest_PartitionData_decode_field_2_def VoteRequest_PartitionData_decode_field_3_def
    VoteRequest_PartitionData_decode_field_4_def VoteRequest_PartitionData_decode_field_5_def
    VoteRequest_PartitionData_decode_field_6_def VoteRequest_PartitionData_decode_field_7_def
    VoteRequest_PartitionData_decode_tagged_fields_def

lemma vote_request_partition_data_steps:
  assumes v: "0 \<le>s version" and flex: "flex = (0 \<le>s version)"
  shows "keeps (VoteRequest_PartitionData_fields_wf version) (\<lambda>out. VoteRequest_PartitionData_decode_field_0 out version flex)"
    and "keeps (VoteRequest_PartitionData_fields_wf version) (\<lambda>out. VoteRequest_PartitionData_decode_field_1 out version flex)"
    and "keeps (VoteRequest_PartitionData_fields_wf version) (\<lambda>out. VoteRequest_PartitionData_decode_field_2 out version flex)"
    and "keeps (VoteRequest_PartitionData_fields_wf version) (\<lambda>out. VoteRequest_PartitionData_decode_field_3 out version flex)"
    and "keeps (VoteRequest_PartitionData_fields_wf version) (\<lambda>out. VoteRequest_PartitionData_decode_field_4 out version flex)"
    and "keeps (VoteRequest_PartitionData_fields_wf version) (\<lambda>out. VoteRequest_PartitionData_decode_field_5 out version flex)"
    and "keeps (VoteRequest_PartitionData_fields_wf version) (\<lambda>out. VoteRequest_PartitionData_decode_field_6 out version flex)"
    and "keeps (VoteRequest_PartitionData_fields_wf version) (\<lambda>out. VoteRequest_PartitionData_decode_field_7 out version flex)"
  unfolding flex vote_request_partition_data_readers
  by (rule keeps_into; (rule yields_rules)?; simp add: v vote_request_partition_data_fields)+

lemma vote_request_partition_data_unknown:
  "VoteRequest_PartitionData_fields_wf version (s\<lparr>v_req_pd_unknown_tagged_fields := u\<rparr>) = VoteRequest_PartitionData_fields_wf version s"
  by (simp_all add: VoteRequest_PartitionData_fields_wf_def)

lemma vote_request_partition_data_yields:
  assumes v: "0 \<le>s version"
  shows "yields 1 (VoteRequest_PartitionData_decode version) (VoteRequest_PartitionData_wf version)"
proof -
  have d: "VoteRequest_PartitionData_fields_wf version VoteRequest_PartitionData_default"
    by (simp add: VoteRequest_PartitionData_default_def v vote_request_partition_data_fields)
  show ?thesis
    unfolding VoteRequest_PartitionData_decode_def Let_def VoteRequest_PartitionData_decode_tagged_fields_def
    by ((rule vote_request_partition_data_steps[OF v refl, THEN yields_step], (rule d | assumption))+, rule yields_trailer[OF _ arms_keep_Nil[of "VoteRequest_PartitionData_fields_wf version" "\<lambda>_. 0"]])
      (simp_all add: v d vote_request_partition_data_unknown VoteRequest_PartitionData_wf_def trailer_ok_def )
qed

lemma vote_request_partition_data_extends [extends_rules]: "extends_input (VoteRequest_PartitionData_decode version)"
  unfolding VoteRequest_PartitionData_decode_def Let_def vote_request_partition_data_readers by (intro extends_rules)

lemma vote_request_partition_data_codec:
  assumes v: "0 \<le>s version"
  shows "message_codec VoteRequest_PartitionData_encode VoteRequest_PartitionData_decode VoteRequest_PartitionData_encoded_len (VoteRequest_PartitionData_wf version) version"
proof
  fix x
  assume w: "VoteRequest_PartitionData_wf version x"
  show "carries (VoteRequest_PartitionData_encode x version) (VoteRequest_PartitionData_decode version) (VoteRequest_PartitionData_encoded_len x version) x"
    unfolding VoteRequest_PartitionData_encode_def vote_request_partition_data_writers VoteRequest_PartitionData_encoded_len_def VoteRequest_PartitionData_decode_def vote_request_partition_data_readers Let_def
    by (use w[unfolded VoteRequest_PartitionData_wf_def VoteRequest_PartitionData_fields_wf_def Let_def] in \<open>elim conjE\<close>, rule carries_cong_len)
      ((rule carries_rules | (erule absent_guarded, assumption) | erule absent_plain
        | simp add: v field_ok_def VoteRequest_PartitionData_default_def )+)
next
  show "yields 1 (VoteRequest_PartitionData_decode version) (VoteRequest_PartitionData_wf version)"
    by (rule vote_request_partition_data_yields[OF v])
qed (rule vote_request_partition_data_extends)

lemma vote_request_partition_data_default_wf [simp]: "0 \<le>s version \<Longrightarrow> VoteRequest_PartitionData_wf version VoteRequest_PartitionData_default"
  by (simp add: VoteRequest_PartitionData_wf_def VoteRequest_PartitionData_default_def trailer_ok_def vote_request_partition_data_fields)

lemmas [carries_rules] = message_codec.message_carries[OF vote_request_partition_data_codec]
lemmas [yields_rules] = message_codec.message_yields[OF vote_request_partition_data_codec]

lemmas [carries_rules] = protocol_codec.put_array_carries[OF message_codec.message_protocol[OF vote_request_partition_data_codec]]
lemmas [yields_rules] = protocol_codec.get_array_yields[OF message_codec.message_protocol[OF vote_request_partition_data_codec]]
lemmas [carries_rules] = protocol_codec.put_nullable_array_carries[OF message_codec.message_protocol[OF vote_request_partition_data_codec]]
lemmas [yields_rules] = protocol_codec.get_nullable_array_yields[OF message_codec.message_protocol[OF vote_request_partition_data_codec]]

record VoteRequest_TopicData =
  v_req_td_topic_name :: bytes
  v_req_td_partitions :: "VoteRequest_PartitionData list"
  v_req_td_unknown_tagged_fields :: "UnknownTaggedField list"

definition VoteRequest_TopicData_default :: VoteRequest_TopicData where
  "VoteRequest_TopicData_default =
     \<lparr>v_req_td_topic_name = [], v_req_td_partitions = [], v_req_td_unknown_tagged_fields = []\<rparr>"

definition VoteRequest_TopicData_encode :: "VoteRequest_TopicData \<Rightarrow> i16 \<Rightarrow> encoder" where
  "VoteRequest_TopicData_encode x version =
     (let flex = 0 \<le>s version in
      write_all
        [put_when (0 \<le>s version) (put_str flex (v_req_td_topic_name x)),
         put_when (0 \<le>s version) (put_array flex (\<lambda>it. VoteRequest_PartitionData_encode it version) (v_req_td_partitions x)),
         put_when flex (put_tagged [] (v_req_td_unknown_tagged_fields x))])"

definition VoteRequest_TopicData_encoded_len :: "VoteRequest_TopicData \<Rightarrow> i16 \<Rightarrow> nat" where
  "VoteRequest_TopicData_encoded_len x version =
     (let flex = 0 \<le>s version in
      len_when (0 \<le>s version) (str_len flex (v_req_td_topic_name x))
      + len_when (0 \<le>s version) (array_size flex (\<lambda>it. VoteRequest_PartitionData_encoded_len it version) (v_req_td_partitions x))
      + len_when flex (tagged_size [] (v_req_td_unknown_tagged_fields x)))"

definition VoteRequest_TopicData_decode :: "i16 \<Rightarrow> VoteRequest_TopicData decoder" where
  "VoteRequest_TopicData_decode version =
     (let flex = 0 \<le>s version in
      read_then (get_into (0 \<le>s version) (get_str flex) (\<lambda>v out. out\<lparr>v_req_td_topic_name := v\<rparr>) VoteRequest_TopicData_default) (\<lambda>out.
        read_then (get_into (0 \<le>s version) (get_array flex (VoteRequest_PartitionData_decode version)) (\<lambda>v out. out\<lparr>v_req_td_partitions := v\<rparr>) out) (\<lambda>out.
        get_trailer flex [] (\<lambda>u out. out\<lparr>v_req_td_unknown_tagged_fields := u\<rparr>) out)))"

definition VoteRequest_TopicData_fields_wf :: "i16 \<Rightarrow> VoteRequest_TopicData \<Rightarrow> bool" where
  "VoteRequest_TopicData_fields_wf version x \<longleftrightarrow>
     (let flex = 0 \<le>s version in
      str_wf flex (v_req_td_topic_name x)
      \<and> array_ok flex (VoteRequest_PartitionData_wf version) (v_req_td_partitions x))"

definition VoteRequest_TopicData_wf :: "i16 \<Rightarrow> VoteRequest_TopicData \<Rightarrow> bool" where
  "VoteRequest_TopicData_wf version x \<longleftrightarrow>
     VoteRequest_TopicData_fields_wf version x \<and> trailer_ok [] [] (v_req_td_unknown_tagged_fields x)"

lemmas vote_request_topic_data_fields =
    Let_def field_ok_def VoteRequest_TopicData_fields_wf_def

lemma vote_request_topic_data_steps:
  assumes v: "0 \<le>s version" and flex: "flex = (0 \<le>s version)"
  shows "keeps (VoteRequest_TopicData_fields_wf version) (get_into (0 \<le>s version) (get_str flex) (\<lambda>v out. out\<lparr>v_req_td_topic_name := v\<rparr>))"
    and "keeps (VoteRequest_TopicData_fields_wf version) (get_into (0 \<le>s version) (get_array flex (VoteRequest_PartitionData_decode version)) (\<lambda>v out. out\<lparr>v_req_td_partitions := v\<rparr>))"
  unfolding flex 
  by (rule keeps_into; (rule yields_rules)?; simp add: v vote_request_topic_data_fields)+

lemma vote_request_topic_data_unknown:
  "VoteRequest_TopicData_fields_wf version (s\<lparr>v_req_td_unknown_tagged_fields := u\<rparr>) = VoteRequest_TopicData_fields_wf version s"
  by (simp_all add: VoteRequest_TopicData_fields_wf_def)

lemma vote_request_topic_data_yields:
  assumes v: "0 \<le>s version"
  shows "yields 1 (VoteRequest_TopicData_decode version) (VoteRequest_TopicData_wf version)"
proof -
  have d: "VoteRequest_TopicData_fields_wf version VoteRequest_TopicData_default"
    by (simp add: VoteRequest_TopicData_default_def v vote_request_topic_data_fields)
  show ?thesis
    unfolding VoteRequest_TopicData_decode_def Let_def
    by ((rule vote_request_topic_data_steps[OF v refl, THEN yields_step], (rule d | assumption))+, rule yields_trailer[OF _ arms_keep_Nil[of "VoteRequest_TopicData_fields_wf version" "\<lambda>_. 0"]])
      (simp_all add: v d vote_request_topic_data_unknown VoteRequest_TopicData_wf_def trailer_ok_def )
qed

lemma vote_request_topic_data_extends [extends_rules]: "extends_input (VoteRequest_TopicData_decode version)"
  unfolding VoteRequest_TopicData_decode_def Let_def by (intro extends_rules)

lemma vote_request_topic_data_codec:
  assumes v: "0 \<le>s version"
  shows "message_codec VoteRequest_TopicData_encode VoteRequest_TopicData_decode VoteRequest_TopicData_encoded_len (VoteRequest_TopicData_wf version) version"
proof
  fix x
  assume w: "VoteRequest_TopicData_wf version x"
  show "carries (VoteRequest_TopicData_encode x version) (VoteRequest_TopicData_decode version) (VoteRequest_TopicData_encoded_len x version) x"
    unfolding VoteRequest_TopicData_encode_def VoteRequest_TopicData_encoded_len_def VoteRequest_TopicData_decode_def Let_def
    by (use w[unfolded VoteRequest_TopicData_wf_def VoteRequest_TopicData_fields_wf_def Let_def] in \<open>elim conjE\<close>, rule carries_cong_len)
      ((rule carries_rules | (erule absent_guarded, assumption) | erule absent_plain
        | simp add: v field_ok_def VoteRequest_TopicData_default_def )+)
next
  show "yields 1 (VoteRequest_TopicData_decode version) (VoteRequest_TopicData_wf version)"
    by (rule vote_request_topic_data_yields[OF v])
qed (rule vote_request_topic_data_extends)

lemma vote_request_topic_data_default_wf [simp]: "0 \<le>s version \<Longrightarrow> VoteRequest_TopicData_wf version VoteRequest_TopicData_default"
  by (simp add: VoteRequest_TopicData_wf_def VoteRequest_TopicData_default_def trailer_ok_def vote_request_topic_data_fields)

lemmas [carries_rules] = message_codec.message_carries[OF vote_request_topic_data_codec]
lemmas [yields_rules] = message_codec.message_yields[OF vote_request_topic_data_codec]

lemmas [carries_rules] = protocol_codec.put_array_carries[OF message_codec.message_protocol[OF vote_request_topic_data_codec]]
lemmas [yields_rules] = protocol_codec.get_array_yields[OF message_codec.message_protocol[OF vote_request_topic_data_codec]]
lemmas [carries_rules] = protocol_codec.put_nullable_array_carries[OF message_codec.message_protocol[OF vote_request_topic_data_codec]]
lemmas [yields_rules] = protocol_codec.get_nullable_array_yields[OF message_codec.message_protocol[OF vote_request_topic_data_codec]]

record VoteRequest =
  v_req_cluster_id :: "bytes option"
  v_req_voter_id :: i32
  v_req_topics :: "VoteRequest_TopicData list"
  v_req_unknown_tagged_fields :: "UnknownTaggedField list"

definition VoteRequest_default :: VoteRequest where
  "VoteRequest_default =
     \<lparr>v_req_cluster_id = None, v_req_voter_id = - 1, v_req_topics = [], v_req_unknown_tagged_fields = []\<rparr>"

definition VoteRequest_MIN_VERSION :: i16 where
  "VoteRequest_MIN_VERSION = 0"

definition VoteRequest_MAX_VERSION :: i16 where
  "VoteRequest_MAX_VERSION = 2"

definition VoteRequest_FLEXIBLE_MIN :: i16 where
  "VoteRequest_FLEXIBLE_MIN = 0"

definition VoteRequest_API_KEY :: i16 where
  "VoteRequest_API_KEY = 52"

definition VoteRequest_is_flexible :: "i16 \<Rightarrow> bool" where
  "VoteRequest_is_flexible version \<longleftrightarrow> VoteRequest_FLEXIBLE_MIN \<le>s version"

definition VoteRequest_encode :: "VoteRequest \<Rightarrow> i16 \<Rightarrow> encoder" where
  "VoteRequest_encode x version =
     (let flex = VoteRequest_is_flexible version in
      write_all
        [write_check (check_version VoteRequest_API_KEY version VoteRequest_MIN_VERSION VoteRequest_MAX_VERSION),
         put_when (0 \<le>s version) (put_nullable_str flex (v_req_cluster_id x)),
         put_when (1 \<le>s version) (put_i32 (v_req_voter_id x)),
         put_when (0 \<le>s version) (put_array flex (\<lambda>it. VoteRequest_TopicData_encode it version) (v_req_topics x)),
         put_when flex (put_tagged [] (v_req_unknown_tagged_fields x))])"

definition VoteRequest_encoded_len :: "VoteRequest \<Rightarrow> i16 \<Rightarrow> nat" where
  "VoteRequest_encoded_len x version =
     (let flex = VoteRequest_is_flexible version in
      len_when (0 \<le>s version) (nullable_str_len flex (v_req_cluster_id x))
      + len_when (1 \<le>s version) 4
      + len_when (0 \<le>s version) (array_size flex (\<lambda>it. VoteRequest_TopicData_encoded_len it version) (v_req_topics x))
      + len_when flex (tagged_size [] (v_req_unknown_tagged_fields x)))"

definition VoteRequest_decode :: "i16 \<Rightarrow> VoteRequest decoder" where
  "VoteRequest_decode version =
     (let flex = VoteRequest_is_flexible version in
      checked (check_version VoteRequest_API_KEY version VoteRequest_MIN_VERSION VoteRequest_MAX_VERSION) (
        read_then (get_into (0 \<le>s version) (get_nullable_str flex) (\<lambda>v out. out\<lparr>v_req_cluster_id := v\<rparr>) VoteRequest_default) (\<lambda>out.
        read_then (get_into (1 \<le>s version) get_i32 (\<lambda>v out. out\<lparr>v_req_voter_id := v\<rparr>) out) (\<lambda>out.
        read_then (get_into (0 \<le>s version) (get_array flex (VoteRequest_TopicData_decode version)) (\<lambda>v out. out\<lparr>v_req_topics := v\<rparr>) out) (\<lambda>out.
        get_trailer flex [] (\<lambda>u out. out\<lparr>v_req_unknown_tagged_fields := u\<rparr>) out)))))"

definition VoteRequest_fields_wf :: "i16 \<Rightarrow> VoteRequest \<Rightarrow> bool" where
  "VoteRequest_fields_wf version x \<longleftrightarrow>
     (let flex = VoteRequest_is_flexible version in
      nullable_str_wf flex (v_req_cluster_id x)
      \<and> field_ok (1 \<le>s version) (- 1) (\<lambda>_. True) (v_req_voter_id x)
      \<and> array_ok flex (VoteRequest_TopicData_wf version) (v_req_topics x))"

definition VoteRequest_wf :: "i16 \<Rightarrow> VoteRequest \<Rightarrow> bool" where
  "VoteRequest_wf version x \<longleftrightarrow>
     version_in VoteRequest_MIN_VERSION VoteRequest_MAX_VERSION version \<and> VoteRequest_fields_wf version x \<and> trailer_ok [] [] (v_req_unknown_tagged_fields x)"

lemmas vote_request_versions =
    VoteRequest_is_flexible_def VoteRequest_FLEXIBLE_MIN_def VoteRequest_MIN_VERSION_def
    VoteRequest_MAX_VERSION_def version_in_def

lemmas vote_request_fields =
    Let_def field_ok_def VoteRequest_fields_wf_def VoteRequest_is_flexible_def VoteRequest_FLEXIBLE_MIN_def

lemma vote_request_steps:
  assumes v: "0 \<le>s version" and flex: "flex = (VoteRequest_is_flexible version)"
  shows "keeps (VoteRequest_fields_wf version) (get_into (0 \<le>s version) (get_nullable_str flex) (\<lambda>v out. out\<lparr>v_req_cluster_id := v\<rparr>))"
    and "keeps (VoteRequest_fields_wf version) (get_into (1 \<le>s version) get_i32 (\<lambda>v out. out\<lparr>v_req_voter_id := v\<rparr>))"
    and "keeps (VoteRequest_fields_wf version) (get_into (0 \<le>s version) (get_array flex (VoteRequest_TopicData_decode version)) (\<lambda>v out. out\<lparr>v_req_topics := v\<rparr>))"
  unfolding flex 
  by (rule keeps_into; (rule yields_rules)?; simp add: v vote_request_fields)+

lemma vote_request_unknown:
  "VoteRequest_fields_wf version (s\<lparr>v_req_unknown_tagged_fields := u\<rparr>) = VoteRequest_fields_wf version s"
  by (simp_all add: VoteRequest_fields_wf_def)

lemma vote_request_yields:
  assumes r: "version_in VoteRequest_MIN_VERSION VoteRequest_MAX_VERSION version"
  shows "yields 1 (VoteRequest_decode version) (VoteRequest_wf version)"
proof -
  have v: "0 \<le>s version"
    using r by (simp add: vote_request_versions)
  have d: "VoteRequest_fields_wf version VoteRequest_default"
    by (simp add: VoteRequest_default_def v vote_request_fields)
  show ?thesis
    unfolding VoteRequest_decode_def Let_def
    by (rule yields_checked, (rule vote_request_steps[OF v refl, THEN yields_step], (rule d | assumption))+, rule yields_trailer[OF _ arms_keep_Nil[of "VoteRequest_fields_wf version" "\<lambda>_. 0"]])
      (simp_all add: v d vote_request_unknown VoteRequest_wf_def trailer_ok_def r VoteRequest_is_flexible_def VoteRequest_FLEXIBLE_MIN_def)
qed

interpretation vote_request: message_codec
  VoteRequest_encode VoteRequest_decode VoteRequest_encoded_len "VoteRequest_wf version" version
  for version
proof
  fix x
  assume w: "VoteRequest_wf version x"
  then have v: "0 \<le>s version"
    by (simp add: VoteRequest_wf_def vote_request_versions)
  show "carries (VoteRequest_encode x version) (VoteRequest_decode version) (VoteRequest_encoded_len x version) x"
    unfolding VoteRequest_encode_def VoteRequest_encoded_len_def VoteRequest_decode_def Let_def
    by (use w[unfolded VoteRequest_wf_def VoteRequest_fields_wf_def Let_def] in \<open>elim conjE\<close>, rule carries_cong_len)
      ((rule carries_rules check_version_in[THEN iffD2] | (erule absent_guarded, assumption) | erule absent_plain
        | simp add: v field_ok_def VoteRequest_default_def vote_request_versions)+)
next
  show "yields 1 (VoteRequest_decode version) (VoteRequest_wf version)"
    by (rule case_split[OF vote_request_yields]) (auto simp: VoteRequest_decode_def Let_def yields_refused yields_unsupported)
  show "extends_input (VoteRequest_decode version)"
    unfolding VoteRequest_decode_def Let_def by (intro extends_rules)
qed

section \<open>FetchSnapshotRequest\<close>

record FetchSnapshotRequest_SnapshotId =
  fs_req_si_end_offset :: i64
  fs_req_si_epoch :: i32
  fs_req_si_unknown_tagged_fields :: "UnknownTaggedField list"

definition FetchSnapshotRequest_SnapshotId_default :: FetchSnapshotRequest_SnapshotId where
  "FetchSnapshotRequest_SnapshotId_default =
     \<lparr>fs_req_si_end_offset = 0, fs_req_si_epoch = 0, fs_req_si_unknown_tagged_fields = []\<rparr>"

definition FetchSnapshotRequest_SnapshotId_encode :: "FetchSnapshotRequest_SnapshotId \<Rightarrow> i16 \<Rightarrow> encoder" where
  "FetchSnapshotRequest_SnapshotId_encode x version =
     (let flex = 0 \<le>s version in
      write_all
        [put_when (0 \<le>s version) (put_i64 (fs_req_si_end_offset x)),
         put_when (0 \<le>s version) (put_i32 (fs_req_si_epoch x)),
         put_when flex (put_tagged [] (fs_req_si_unknown_tagged_fields x))])"

definition FetchSnapshotRequest_SnapshotId_encoded_len :: "FetchSnapshotRequest_SnapshotId \<Rightarrow> i16 \<Rightarrow> nat" where
  "FetchSnapshotRequest_SnapshotId_encoded_len x version =
     (let flex = 0 \<le>s version in
      len_when (0 \<le>s version) 8
      + len_when (0 \<le>s version) 4
      + len_when flex (tagged_size [] (fs_req_si_unknown_tagged_fields x)))"

definition FetchSnapshotRequest_SnapshotId_decode :: "i16 \<Rightarrow> FetchSnapshotRequest_SnapshotId decoder" where
  "FetchSnapshotRequest_SnapshotId_decode version =
     (let flex = 0 \<le>s version in
      read_then (get_into (0 \<le>s version) get_i64 (\<lambda>v out. out\<lparr>fs_req_si_end_offset := v\<rparr>) FetchSnapshotRequest_SnapshotId_default) (\<lambda>out.
        read_then (get_into (0 \<le>s version) get_i32 (\<lambda>v out. out\<lparr>fs_req_si_epoch := v\<rparr>) out) (\<lambda>out.
        get_trailer flex [] (\<lambda>u out. out\<lparr>fs_req_si_unknown_tagged_fields := u\<rparr>) out)))"

definition FetchSnapshotRequest_SnapshotId_fields_wf :: "i16 \<Rightarrow> FetchSnapshotRequest_SnapshotId \<Rightarrow> bool" where
  "FetchSnapshotRequest_SnapshotId_fields_wf version x \<longleftrightarrow>
     True"

definition FetchSnapshotRequest_SnapshotId_wf :: "i16 \<Rightarrow> FetchSnapshotRequest_SnapshotId \<Rightarrow> bool" where
  "FetchSnapshotRequest_SnapshotId_wf version x \<longleftrightarrow>
     FetchSnapshotRequest_SnapshotId_fields_wf version x \<and> trailer_ok [] [] (fs_req_si_unknown_tagged_fields x)"

lemmas fetch_snapshot_request_snapshot_id_fields =
    Let_def field_ok_def FetchSnapshotRequest_SnapshotId_fields_wf_def

lemma fetch_snapshot_request_snapshot_id_steps:
  assumes v: "0 \<le>s version" and flex: "flex = (0 \<le>s version)"
  shows "keeps (FetchSnapshotRequest_SnapshotId_fields_wf version) (get_into (0 \<le>s version) get_i64 (\<lambda>v out. out\<lparr>fs_req_si_end_offset := v\<rparr>))"
    and "keeps (FetchSnapshotRequest_SnapshotId_fields_wf version) (get_into (0 \<le>s version) get_i32 (\<lambda>v out. out\<lparr>fs_req_si_epoch := v\<rparr>))"
  unfolding flex 
  by (rule keeps_into; (rule yields_rules)?; simp add: v fetch_snapshot_request_snapshot_id_fields)+

lemma fetch_snapshot_request_snapshot_id_unknown:
  "FetchSnapshotRequest_SnapshotId_fields_wf version (s\<lparr>fs_req_si_unknown_tagged_fields := u\<rparr>) = FetchSnapshotRequest_SnapshotId_fields_wf version s"
  by (simp_all add: FetchSnapshotRequest_SnapshotId_fields_wf_def)

lemma fetch_snapshot_request_snapshot_id_yields:
  assumes v: "0 \<le>s version"
  shows "yields 1 (FetchSnapshotRequest_SnapshotId_decode version) (FetchSnapshotRequest_SnapshotId_wf version)"
proof -
  have d: "FetchSnapshotRequest_SnapshotId_fields_wf version FetchSnapshotRequest_SnapshotId_default"
    by (simp add: FetchSnapshotRequest_SnapshotId_default_def v fetch_snapshot_request_snapshot_id_fields)
  show ?thesis
    unfolding FetchSnapshotRequest_SnapshotId_decode_def Let_def
    by ((rule fetch_snapshot_request_snapshot_id_steps[OF v refl, THEN yields_step], (rule d | assumption))+, rule yields_trailer[OF _ arms_keep_Nil[of "FetchSnapshotRequest_SnapshotId_fields_wf version" "\<lambda>_. 0"]])
      (simp_all add: v d fetch_snapshot_request_snapshot_id_unknown FetchSnapshotRequest_SnapshotId_wf_def trailer_ok_def )
qed

lemma fetch_snapshot_request_snapshot_id_extends [extends_rules]: "extends_input (FetchSnapshotRequest_SnapshotId_decode version)"
  unfolding FetchSnapshotRequest_SnapshotId_decode_def Let_def by (intro extends_rules)

lemma fetch_snapshot_request_snapshot_id_codec:
  assumes v: "0 \<le>s version"
  shows "message_codec FetchSnapshotRequest_SnapshotId_encode FetchSnapshotRequest_SnapshotId_decode FetchSnapshotRequest_SnapshotId_encoded_len (FetchSnapshotRequest_SnapshotId_wf version) version"
proof
  fix x
  assume w: "FetchSnapshotRequest_SnapshotId_wf version x"
  show "carries (FetchSnapshotRequest_SnapshotId_encode x version) (FetchSnapshotRequest_SnapshotId_decode version) (FetchSnapshotRequest_SnapshotId_encoded_len x version) x"
    unfolding FetchSnapshotRequest_SnapshotId_encode_def FetchSnapshotRequest_SnapshotId_encoded_len_def FetchSnapshotRequest_SnapshotId_decode_def Let_def
    by (use w[unfolded FetchSnapshotRequest_SnapshotId_wf_def FetchSnapshotRequest_SnapshotId_fields_wf_def Let_def] in \<open>elim conjE\<close>, rule carries_cong_len)
      ((rule carries_rules | (erule absent_guarded, assumption) | erule absent_plain
        | simp add: v field_ok_def FetchSnapshotRequest_SnapshotId_default_def )+)
next
  show "yields 1 (FetchSnapshotRequest_SnapshotId_decode version) (FetchSnapshotRequest_SnapshotId_wf version)"
    by (rule fetch_snapshot_request_snapshot_id_yields[OF v])
qed (rule fetch_snapshot_request_snapshot_id_extends)

lemma fetch_snapshot_request_snapshot_id_default_wf [simp]: "0 \<le>s version \<Longrightarrow> FetchSnapshotRequest_SnapshotId_wf version FetchSnapshotRequest_SnapshotId_default"
  by (simp add: FetchSnapshotRequest_SnapshotId_wf_def FetchSnapshotRequest_SnapshotId_default_def trailer_ok_def fetch_snapshot_request_snapshot_id_fields)

lemmas [carries_rules] = message_codec.message_carries[OF fetch_snapshot_request_snapshot_id_codec]
lemmas [yields_rules] = message_codec.message_yields[OF fetch_snapshot_request_snapshot_id_codec]

lemmas [carries_rules] = protocol_codec.put_array_carries[OF message_codec.message_protocol[OF fetch_snapshot_request_snapshot_id_codec]]
lemmas [yields_rules] = protocol_codec.get_array_yields[OF message_codec.message_protocol[OF fetch_snapshot_request_snapshot_id_codec]]
lemmas [carries_rules] = protocol_codec.put_nullable_array_carries[OF message_codec.message_protocol[OF fetch_snapshot_request_snapshot_id_codec]]
lemmas [yields_rules] = protocol_codec.get_nullable_array_yields[OF message_codec.message_protocol[OF fetch_snapshot_request_snapshot_id_codec]]

record FetchSnapshotRequest_PartitionSnapshot =
  fs_req_ps_partition :: i32
  fs_req_ps_current_leader_epoch :: i32
  fs_req_ps_snapshot_id :: FetchSnapshotRequest_SnapshotId
  fs_req_ps_position :: i64
  fs_req_ps_replica_directory_id :: Uuid
  fs_req_ps_unknown_tagged_fields :: "UnknownTaggedField list"

definition FetchSnapshotRequest_PartitionSnapshot_default :: FetchSnapshotRequest_PartitionSnapshot where
  "FetchSnapshotRequest_PartitionSnapshot_default =
     \<lparr>fs_req_ps_partition = 0, fs_req_ps_current_leader_epoch = 0, fs_req_ps_snapshot_id = FetchSnapshotRequest_SnapshotId_default, fs_req_ps_position = 0, fs_req_ps_replica_directory_id = Uuid_ZERO, fs_req_ps_unknown_tagged_fields = []\<rparr>"

definition FetchSnapshotRequest_PartitionSnapshot_encode :: "FetchSnapshotRequest_PartitionSnapshot \<Rightarrow> i16 \<Rightarrow> encoder" where
  "FetchSnapshotRequest_PartitionSnapshot_encode x version =
     (let flex = 0 \<le>s version in
      write_all
        [put_when (0 \<le>s version) (put_i32 (fs_req_ps_partition x)),
         put_when (0 \<le>s version) (put_i32 (fs_req_ps_current_leader_epoch x)),
         put_when (0 \<le>s version) ((\<lambda>it. FetchSnapshotRequest_SnapshotId_encode it version) (fs_req_ps_snapshot_id x)),
         put_when (0 \<le>s version) (put_i64 (fs_req_ps_position x)),
         put_when flex (put_tagged [(0, 1 \<le>s version \<and> fs_req_ps_replica_directory_id x \<noteq> Uuid_ZERO, 16, put_uuid (fs_req_ps_replica_directory_id x))] (fs_req_ps_unknown_tagged_fields x))])"

definition FetchSnapshotRequest_PartitionSnapshot_encoded_len :: "FetchSnapshotRequest_PartitionSnapshot \<Rightarrow> i16 \<Rightarrow> nat" where
  "FetchSnapshotRequest_PartitionSnapshot_encoded_len x version =
     (let flex = 0 \<le>s version in
      len_when (0 \<le>s version) 4
      + len_when (0 \<le>s version) 4
      + len_when (0 \<le>s version) (FetchSnapshotRequest_SnapshotId_encoded_len (fs_req_ps_snapshot_id x) version)
      + len_when (0 \<le>s version) 8
      + len_when flex (tagged_size [(0, 1 \<le>s version \<and> fs_req_ps_replica_directory_id x \<noteq> Uuid_ZERO, 16)] (fs_req_ps_unknown_tagged_fields x)))"

definition FetchSnapshotRequest_PartitionSnapshot_decode :: "i16 \<Rightarrow> FetchSnapshotRequest_PartitionSnapshot decoder" where
  "FetchSnapshotRequest_PartitionSnapshot_decode version =
     (let flex = 0 \<le>s version in
      read_then (get_into (0 \<le>s version) get_i32 (\<lambda>v out. out\<lparr>fs_req_ps_partition := v\<rparr>) FetchSnapshotRequest_PartitionSnapshot_default) (\<lambda>out.
        read_then (get_into (0 \<le>s version) get_i32 (\<lambda>v out. out\<lparr>fs_req_ps_current_leader_epoch := v\<rparr>) out) (\<lambda>out.
        read_then (get_into (0 \<le>s version) (FetchSnapshotRequest_SnapshotId_decode version) (\<lambda>v out. out\<lparr>fs_req_ps_snapshot_id := v\<rparr>) out) (\<lambda>out.
        read_then (get_into (0 \<le>s version) get_i64 (\<lambda>v out. out\<lparr>fs_req_ps_position := v\<rparr>) out) (\<lambda>out.
        get_trailer flex [(0, tag_from 0 (1 \<le>s version) version (tag_into get_uuid (\<lambda>v out. out\<lparr>fs_req_ps_replica_directory_id := v\<rparr>)))] (\<lambda>u out. out\<lparr>fs_req_ps_unknown_tagged_fields := u\<rparr>) out)))))"

definition FetchSnapshotRequest_PartitionSnapshot_fields_wf :: "i16 \<Rightarrow> FetchSnapshotRequest_PartitionSnapshot \<Rightarrow> bool" where
  "FetchSnapshotRequest_PartitionSnapshot_fields_wf version x \<longleftrightarrow>
     FetchSnapshotRequest_SnapshotId_wf version (fs_req_ps_snapshot_id x)
      \<and> field_ok (1 \<le>s version) Uuid_ZERO uuid_wf (fs_req_ps_replica_directory_id x)"

definition FetchSnapshotRequest_PartitionSnapshot_present :: "i16 \<Rightarrow> FetchSnapshotRequest_PartitionSnapshot \<Rightarrow> bool list" where
  "FetchSnapshotRequest_PartitionSnapshot_present version x =
     [1 \<le>s version \<and> fs_req_ps_replica_directory_id x \<noteq> Uuid_ZERO]"

definition FetchSnapshotRequest_PartitionSnapshot_wf :: "i16 \<Rightarrow> FetchSnapshotRequest_PartitionSnapshot \<Rightarrow> bool" where
  "FetchSnapshotRequest_PartitionSnapshot_wf version x \<longleftrightarrow>
     FetchSnapshotRequest_PartitionSnapshot_fields_wf version x \<and> trailer_ok [0] (FetchSnapshotRequest_PartitionSnapshot_present version x) (fs_req_ps_unknown_tagged_fields x)"

abbreviation FetchSnapshotRequest_PartitionSnapshot_read :: "i16 \<Rightarrow> FetchSnapshotRequest_PartitionSnapshot \<Rightarrow> bool" where
  "FetchSnapshotRequest_PartitionSnapshot_read version s \<equiv> FetchSnapshotRequest_PartitionSnapshot_fields_wf version s \<and> present_count (FetchSnapshotRequest_PartitionSnapshot_present version s) = 0"

lemmas fetch_snapshot_request_partition_snapshot_fields =
    Let_def field_ok_def FetchSnapshotRequest_PartitionSnapshot_fields_wf_def
    FetchSnapshotRequest_PartitionSnapshot_present_def

lemma fetch_snapshot_request_partition_snapshot_steps:
  assumes v: "0 \<le>s version" and flex: "flex = (0 \<le>s version)"
  shows "keeps (FetchSnapshotRequest_PartitionSnapshot_read version) (get_into (0 \<le>s version) get_i32 (\<lambda>v out. out\<lparr>fs_req_ps_partition := v\<rparr>))"
    and "keeps (FetchSnapshotRequest_PartitionSnapshot_read version) (get_into (0 \<le>s version) get_i32 (\<lambda>v out. out\<lparr>fs_req_ps_current_leader_epoch := v\<rparr>))"
    and "keeps (FetchSnapshotRequest_PartitionSnapshot_read version) (get_into (0 \<le>s version) (FetchSnapshotRequest_SnapshotId_decode version) (\<lambda>v out. out\<lparr>fs_req_ps_snapshot_id := v\<rparr>))"
    and "keeps (FetchSnapshotRequest_PartitionSnapshot_read version) (get_into (0 \<le>s version) get_i64 (\<lambda>v out. out\<lparr>fs_req_ps_position := v\<rparr>))"
  unfolding flex 
  by (rule keeps_into; (rule yields_rules)?; simp add: v fetch_snapshot_request_partition_snapshot_fields)+

lemma fetch_snapshot_request_partition_snapshot_arms:
  assumes v: "0 \<le>s version" and flex: "flex = (0 \<le>s version)"
  shows "arms_keep (FetchSnapshotRequest_PartitionSnapshot_fields_wf version) (\<lambda>s. present_count (FetchSnapshotRequest_PartitionSnapshot_present version s))
    [(0, tag_from 0 (1 \<le>s version) version (tag_into get_uuid (\<lambda>v out. out\<lparr>fs_req_ps_replica_directory_id := v\<rparr>)))]"
  unfolding flex
  by ((rule arms_keep_Nil arms_keep_Cons accepts_from accepts_into accepts_rules)
    | simp add: v fetch_snapshot_request_partition_snapshot_fields)+

lemma fetch_snapshot_request_partition_snapshot_unknown:
  "FetchSnapshotRequest_PartitionSnapshot_fields_wf version (s\<lparr>fs_req_ps_unknown_tagged_fields := u\<rparr>) = FetchSnapshotRequest_PartitionSnapshot_fields_wf version s"
  "FetchSnapshotRequest_PartitionSnapshot_present version (s\<lparr>fs_req_ps_unknown_tagged_fields := u\<rparr>) = FetchSnapshotRequest_PartitionSnapshot_present version s"
  by (simp_all add: FetchSnapshotRequest_PartitionSnapshot_fields_wf_def FetchSnapshotRequest_PartitionSnapshot_present_def)

lemma fetch_snapshot_request_partition_snapshot_yields:
  assumes v: "0 \<le>s version"
  shows "yields 1 (FetchSnapshotRequest_PartitionSnapshot_decode version) (FetchSnapshotRequest_PartitionSnapshot_wf version)"
proof -
  have d: "FetchSnapshotRequest_PartitionSnapshot_fields_wf version FetchSnapshotRequest_PartitionSnapshot_default \<and> present_count (FetchSnapshotRequest_PartitionSnapshot_present version FetchSnapshotRequest_PartitionSnapshot_default) = 0"
    by (simp add: FetchSnapshotRequest_PartitionSnapshot_default_def v fetch_snapshot_request_partition_snapshot_fields)
  show ?thesis
    unfolding FetchSnapshotRequest_PartitionSnapshot_decode_def Let_def
    by ((rule fetch_snapshot_request_partition_snapshot_steps[OF v refl, THEN yields_step], (rule d | assumption))+, rule yields_trailer[OF _ fetch_snapshot_request_partition_snapshot_arms[OF v refl]])
      (simp_all add: v d fetch_snapshot_request_partition_snapshot_unknown FetchSnapshotRequest_PartitionSnapshot_wf_def trailer_ok_def )
qed

lemma fetch_snapshot_request_partition_snapshot_extends [extends_rules]: "extends_input (FetchSnapshotRequest_PartitionSnapshot_decode version)"
  unfolding FetchSnapshotRequest_PartitionSnapshot_decode_def Let_def by (intro extends_rules)

lemma fetch_snapshot_request_partition_snapshot_codec:
  assumes v: "0 \<le>s version"
  shows "message_codec FetchSnapshotRequest_PartitionSnapshot_encode FetchSnapshotRequest_PartitionSnapshot_decode FetchSnapshotRequest_PartitionSnapshot_encoded_len (FetchSnapshotRequest_PartitionSnapshot_wf version) version"
proof
  fix x
  assume w: "FetchSnapshotRequest_PartitionSnapshot_wf version x"
  show "carries (FetchSnapshotRequest_PartitionSnapshot_encode x version) (FetchSnapshotRequest_PartitionSnapshot_decode version) (FetchSnapshotRequest_PartitionSnapshot_encoded_len x version) x"
    unfolding FetchSnapshotRequest_PartitionSnapshot_encode_def FetchSnapshotRequest_PartitionSnapshot_encoded_len_def FetchSnapshotRequest_PartitionSnapshot_decode_def Let_def
    by (use w[unfolded FetchSnapshotRequest_PartitionSnapshot_wf_def FetchSnapshotRequest_PartitionSnapshot_fields_wf_def FetchSnapshotRequest_PartitionSnapshot_present_def Let_def] in \<open>elim conjE\<close>, rule carries_cong_len)
      ((rule carries_rules | (erule absent_guarded, assumption) | erule absent_plain
        | simp add: v field_ok_def FetchSnapshotRequest_PartitionSnapshot_default_def )+)
next
  show "yields 1 (FetchSnapshotRequest_PartitionSnapshot_decode version) (FetchSnapshotRequest_PartitionSnapshot_wf version)"
    by (rule fetch_snapshot_request_partition_snapshot_yields[OF v])
qed (rule fetch_snapshot_request_partition_snapshot_extends)

lemma fetch_snapshot_request_partition_snapshot_default_wf [simp]: "0 \<le>s version \<Longrightarrow> FetchSnapshotRequest_PartitionSnapshot_wf version FetchSnapshotRequest_PartitionSnapshot_default"
  by (simp add: FetchSnapshotRequest_PartitionSnapshot_wf_def FetchSnapshotRequest_PartitionSnapshot_default_def trailer_ok_def fetch_snapshot_request_partition_snapshot_fields)

lemmas [carries_rules] = message_codec.message_carries[OF fetch_snapshot_request_partition_snapshot_codec]
lemmas [yields_rules] = message_codec.message_yields[OF fetch_snapshot_request_partition_snapshot_codec]

lemmas [carries_rules] = protocol_codec.put_array_carries[OF message_codec.message_protocol[OF fetch_snapshot_request_partition_snapshot_codec]]
lemmas [yields_rules] = protocol_codec.get_array_yields[OF message_codec.message_protocol[OF fetch_snapshot_request_partition_snapshot_codec]]
lemmas [carries_rules] = protocol_codec.put_nullable_array_carries[OF message_codec.message_protocol[OF fetch_snapshot_request_partition_snapshot_codec]]
lemmas [yields_rules] = protocol_codec.get_nullable_array_yields[OF message_codec.message_protocol[OF fetch_snapshot_request_partition_snapshot_codec]]

record FetchSnapshotRequest_TopicSnapshot =
  fs_req_ts_name :: bytes
  fs_req_ts_partitions :: "FetchSnapshotRequest_PartitionSnapshot list"
  fs_req_ts_unknown_tagged_fields :: "UnknownTaggedField list"

definition FetchSnapshotRequest_TopicSnapshot_default :: FetchSnapshotRequest_TopicSnapshot where
  "FetchSnapshotRequest_TopicSnapshot_default =
     \<lparr>fs_req_ts_name = [], fs_req_ts_partitions = [], fs_req_ts_unknown_tagged_fields = []\<rparr>"

definition FetchSnapshotRequest_TopicSnapshot_encode :: "FetchSnapshotRequest_TopicSnapshot \<Rightarrow> i16 \<Rightarrow> encoder" where
  "FetchSnapshotRequest_TopicSnapshot_encode x version =
     (let flex = 0 \<le>s version in
      write_all
        [put_when (0 \<le>s version) (put_str flex (fs_req_ts_name x)),
         put_when (0 \<le>s version) (put_array flex (\<lambda>it. FetchSnapshotRequest_PartitionSnapshot_encode it version) (fs_req_ts_partitions x)),
         put_when flex (put_tagged [] (fs_req_ts_unknown_tagged_fields x))])"

definition FetchSnapshotRequest_TopicSnapshot_encoded_len :: "FetchSnapshotRequest_TopicSnapshot \<Rightarrow> i16 \<Rightarrow> nat" where
  "FetchSnapshotRequest_TopicSnapshot_encoded_len x version =
     (let flex = 0 \<le>s version in
      len_when (0 \<le>s version) (str_len flex (fs_req_ts_name x))
      + len_when (0 \<le>s version) (array_size flex (\<lambda>it. FetchSnapshotRequest_PartitionSnapshot_encoded_len it version) (fs_req_ts_partitions x))
      + len_when flex (tagged_size [] (fs_req_ts_unknown_tagged_fields x)))"

definition FetchSnapshotRequest_TopicSnapshot_decode :: "i16 \<Rightarrow> FetchSnapshotRequest_TopicSnapshot decoder" where
  "FetchSnapshotRequest_TopicSnapshot_decode version =
     (let flex = 0 \<le>s version in
      read_then (get_into (0 \<le>s version) (get_str flex) (\<lambda>v out. out\<lparr>fs_req_ts_name := v\<rparr>) FetchSnapshotRequest_TopicSnapshot_default) (\<lambda>out.
        read_then (get_into (0 \<le>s version) (get_array flex (FetchSnapshotRequest_PartitionSnapshot_decode version)) (\<lambda>v out. out\<lparr>fs_req_ts_partitions := v\<rparr>) out) (\<lambda>out.
        get_trailer flex [] (\<lambda>u out. out\<lparr>fs_req_ts_unknown_tagged_fields := u\<rparr>) out)))"

definition FetchSnapshotRequest_TopicSnapshot_fields_wf :: "i16 \<Rightarrow> FetchSnapshotRequest_TopicSnapshot \<Rightarrow> bool" where
  "FetchSnapshotRequest_TopicSnapshot_fields_wf version x \<longleftrightarrow>
     (let flex = 0 \<le>s version in
      str_wf flex (fs_req_ts_name x)
      \<and> array_ok flex (FetchSnapshotRequest_PartitionSnapshot_wf version) (fs_req_ts_partitions x))"

definition FetchSnapshotRequest_TopicSnapshot_wf :: "i16 \<Rightarrow> FetchSnapshotRequest_TopicSnapshot \<Rightarrow> bool" where
  "FetchSnapshotRequest_TopicSnapshot_wf version x \<longleftrightarrow>
     FetchSnapshotRequest_TopicSnapshot_fields_wf version x \<and> trailer_ok [] [] (fs_req_ts_unknown_tagged_fields x)"

lemmas fetch_snapshot_request_topic_snapshot_fields =
    Let_def field_ok_def FetchSnapshotRequest_TopicSnapshot_fields_wf_def

lemma fetch_snapshot_request_topic_snapshot_steps:
  assumes v: "0 \<le>s version" and flex: "flex = (0 \<le>s version)"
  shows "keeps (FetchSnapshotRequest_TopicSnapshot_fields_wf version) (get_into (0 \<le>s version) (get_str flex) (\<lambda>v out. out\<lparr>fs_req_ts_name := v\<rparr>))"
    and "keeps (FetchSnapshotRequest_TopicSnapshot_fields_wf version) (get_into (0 \<le>s version) (get_array flex (FetchSnapshotRequest_PartitionSnapshot_decode version)) (\<lambda>v out. out\<lparr>fs_req_ts_partitions := v\<rparr>))"
  unfolding flex 
  by (rule keeps_into; (rule yields_rules)?; simp add: v fetch_snapshot_request_topic_snapshot_fields)+

lemma fetch_snapshot_request_topic_snapshot_unknown:
  "FetchSnapshotRequest_TopicSnapshot_fields_wf version (s\<lparr>fs_req_ts_unknown_tagged_fields := u\<rparr>) = FetchSnapshotRequest_TopicSnapshot_fields_wf version s"
  by (simp_all add: FetchSnapshotRequest_TopicSnapshot_fields_wf_def)

lemma fetch_snapshot_request_topic_snapshot_yields:
  assumes v: "0 \<le>s version"
  shows "yields 1 (FetchSnapshotRequest_TopicSnapshot_decode version) (FetchSnapshotRequest_TopicSnapshot_wf version)"
proof -
  have d: "FetchSnapshotRequest_TopicSnapshot_fields_wf version FetchSnapshotRequest_TopicSnapshot_default"
    by (simp add: FetchSnapshotRequest_TopicSnapshot_default_def v fetch_snapshot_request_topic_snapshot_fields)
  show ?thesis
    unfolding FetchSnapshotRequest_TopicSnapshot_decode_def Let_def
    by ((rule fetch_snapshot_request_topic_snapshot_steps[OF v refl, THEN yields_step], (rule d | assumption))+, rule yields_trailer[OF _ arms_keep_Nil[of "FetchSnapshotRequest_TopicSnapshot_fields_wf version" "\<lambda>_. 0"]])
      (simp_all add: v d fetch_snapshot_request_topic_snapshot_unknown FetchSnapshotRequest_TopicSnapshot_wf_def trailer_ok_def )
qed

lemma fetch_snapshot_request_topic_snapshot_extends [extends_rules]: "extends_input (FetchSnapshotRequest_TopicSnapshot_decode version)"
  unfolding FetchSnapshotRequest_TopicSnapshot_decode_def Let_def by (intro extends_rules)

lemma fetch_snapshot_request_topic_snapshot_codec:
  assumes v: "0 \<le>s version"
  shows "message_codec FetchSnapshotRequest_TopicSnapshot_encode FetchSnapshotRequest_TopicSnapshot_decode FetchSnapshotRequest_TopicSnapshot_encoded_len (FetchSnapshotRequest_TopicSnapshot_wf version) version"
proof
  fix x
  assume w: "FetchSnapshotRequest_TopicSnapshot_wf version x"
  show "carries (FetchSnapshotRequest_TopicSnapshot_encode x version) (FetchSnapshotRequest_TopicSnapshot_decode version) (FetchSnapshotRequest_TopicSnapshot_encoded_len x version) x"
    unfolding FetchSnapshotRequest_TopicSnapshot_encode_def FetchSnapshotRequest_TopicSnapshot_encoded_len_def FetchSnapshotRequest_TopicSnapshot_decode_def Let_def
    by (use w[unfolded FetchSnapshotRequest_TopicSnapshot_wf_def FetchSnapshotRequest_TopicSnapshot_fields_wf_def Let_def] in \<open>elim conjE\<close>, rule carries_cong_len)
      ((rule carries_rules | (erule absent_guarded, assumption) | erule absent_plain
        | simp add: v field_ok_def FetchSnapshotRequest_TopicSnapshot_default_def )+)
next
  show "yields 1 (FetchSnapshotRequest_TopicSnapshot_decode version) (FetchSnapshotRequest_TopicSnapshot_wf version)"
    by (rule fetch_snapshot_request_topic_snapshot_yields[OF v])
qed (rule fetch_snapshot_request_topic_snapshot_extends)

lemma fetch_snapshot_request_topic_snapshot_default_wf [simp]: "0 \<le>s version \<Longrightarrow> FetchSnapshotRequest_TopicSnapshot_wf version FetchSnapshotRequest_TopicSnapshot_default"
  by (simp add: FetchSnapshotRequest_TopicSnapshot_wf_def FetchSnapshotRequest_TopicSnapshot_default_def trailer_ok_def fetch_snapshot_request_topic_snapshot_fields)

lemmas [carries_rules] = message_codec.message_carries[OF fetch_snapshot_request_topic_snapshot_codec]
lemmas [yields_rules] = message_codec.message_yields[OF fetch_snapshot_request_topic_snapshot_codec]

lemmas [carries_rules] = protocol_codec.put_array_carries[OF message_codec.message_protocol[OF fetch_snapshot_request_topic_snapshot_codec]]
lemmas [yields_rules] = protocol_codec.get_array_yields[OF message_codec.message_protocol[OF fetch_snapshot_request_topic_snapshot_codec]]
lemmas [carries_rules] = protocol_codec.put_nullable_array_carries[OF message_codec.message_protocol[OF fetch_snapshot_request_topic_snapshot_codec]]
lemmas [yields_rules] = protocol_codec.get_nullable_array_yields[OF message_codec.message_protocol[OF fetch_snapshot_request_topic_snapshot_codec]]

record FetchSnapshotRequest =
  fs_req_replica_id :: i32
  fs_req_max_bytes :: i32
  fs_req_topics :: "FetchSnapshotRequest_TopicSnapshot list"
  fs_req_cluster_id :: "bytes option"
  fs_req_unknown_tagged_fields :: "UnknownTaggedField list"

definition FetchSnapshotRequest_default :: FetchSnapshotRequest where
  "FetchSnapshotRequest_default =
     \<lparr>fs_req_replica_id = - 1, fs_req_max_bytes = 2147483647, fs_req_topics = [], fs_req_cluster_id = None, fs_req_unknown_tagged_fields = []\<rparr>"

definition FetchSnapshotRequest_MIN_VERSION :: i16 where
  "FetchSnapshotRequest_MIN_VERSION = 0"

definition FetchSnapshotRequest_MAX_VERSION :: i16 where
  "FetchSnapshotRequest_MAX_VERSION = 1"

definition FetchSnapshotRequest_FLEXIBLE_MIN :: i16 where
  "FetchSnapshotRequest_FLEXIBLE_MIN = 0"

definition FetchSnapshotRequest_API_KEY :: i16 where
  "FetchSnapshotRequest_API_KEY = 59"

definition FetchSnapshotRequest_is_flexible :: "i16 \<Rightarrow> bool" where
  "FetchSnapshotRequest_is_flexible version \<longleftrightarrow> FetchSnapshotRequest_FLEXIBLE_MIN \<le>s version"

definition FetchSnapshotRequest_encode :: "FetchSnapshotRequest \<Rightarrow> i16 \<Rightarrow> encoder" where
  "FetchSnapshotRequest_encode x version =
     (let flex = FetchSnapshotRequest_is_flexible version in
      write_all
        [write_check (check_version FetchSnapshotRequest_API_KEY version FetchSnapshotRequest_MIN_VERSION FetchSnapshotRequest_MAX_VERSION),
         put_when (0 \<le>s version) (put_i32 (fs_req_replica_id x)),
         put_when (0 \<le>s version) (put_i32 (fs_req_max_bytes x)),
         put_when (0 \<le>s version) (put_array flex (\<lambda>it. FetchSnapshotRequest_TopicSnapshot_encode it version) (fs_req_topics x)),
         put_when flex (put_tagged [(0, fs_req_cluster_id x \<noteq> None, (nullable_str_len flex (fs_req_cluster_id x)), put_nullable_str flex (fs_req_cluster_id x))] (fs_req_unknown_tagged_fields x))])"

definition FetchSnapshotRequest_encoded_len :: "FetchSnapshotRequest \<Rightarrow> i16 \<Rightarrow> nat" where
  "FetchSnapshotRequest_encoded_len x version =
     (let flex = FetchSnapshotRequest_is_flexible version in
      len_when (0 \<le>s version) 4
      + len_when (0 \<le>s version) 4
      + len_when (0 \<le>s version) (array_size flex (\<lambda>it. FetchSnapshotRequest_TopicSnapshot_encoded_len it version) (fs_req_topics x))
      + len_when flex (tagged_size [(0, fs_req_cluster_id x \<noteq> None, (nullable_str_len flex (fs_req_cluster_id x)))] (fs_req_unknown_tagged_fields x)))"

definition FetchSnapshotRequest_decode :: "i16 \<Rightarrow> FetchSnapshotRequest decoder" where
  "FetchSnapshotRequest_decode version =
     (let flex = FetchSnapshotRequest_is_flexible version in
      checked (check_version FetchSnapshotRequest_API_KEY version FetchSnapshotRequest_MIN_VERSION FetchSnapshotRequest_MAX_VERSION) (
        read_then (get_into (0 \<le>s version) get_i32 (\<lambda>v out. out\<lparr>fs_req_replica_id := v\<rparr>) FetchSnapshotRequest_default) (\<lambda>out.
        read_then (get_into (0 \<le>s version) get_i32 (\<lambda>v out. out\<lparr>fs_req_max_bytes := v\<rparr>) out) (\<lambda>out.
        read_then (get_into (0 \<le>s version) (get_array flex (FetchSnapshotRequest_TopicSnapshot_decode version)) (\<lambda>v out. out\<lparr>fs_req_topics := v\<rparr>) out) (\<lambda>out.
        get_trailer flex [(0, tag_into (get_nullable_str flex) (\<lambda>v out. out\<lparr>fs_req_cluster_id := v\<rparr>))] (\<lambda>u out. out\<lparr>fs_req_unknown_tagged_fields := u\<rparr>) out)))))"

definition FetchSnapshotRequest_fields_wf :: "i16 \<Rightarrow> FetchSnapshotRequest \<Rightarrow> bool" where
  "FetchSnapshotRequest_fields_wf version x \<longleftrightarrow>
     (let flex = FetchSnapshotRequest_is_flexible version in
      array_ok flex (FetchSnapshotRequest_TopicSnapshot_wf version) (fs_req_topics x)
      \<and> nullable_str_wf flex (fs_req_cluster_id x)
      \<and> nullable_str_len flex (fs_req_cluster_id x) < 2 ^ 32)"

definition FetchSnapshotRequest_present :: "i16 \<Rightarrow> FetchSnapshotRequest \<Rightarrow> bool list" where
  "FetchSnapshotRequest_present version x =
     [fs_req_cluster_id x \<noteq> None]"

definition FetchSnapshotRequest_wf :: "i16 \<Rightarrow> FetchSnapshotRequest \<Rightarrow> bool" where
  "FetchSnapshotRequest_wf version x \<longleftrightarrow>
     version_in FetchSnapshotRequest_MIN_VERSION FetchSnapshotRequest_MAX_VERSION version \<and> FetchSnapshotRequest_fields_wf version x \<and> trailer_ok [0] (FetchSnapshotRequest_present version x) (fs_req_unknown_tagged_fields x)"

abbreviation FetchSnapshotRequest_read :: "i16 \<Rightarrow> FetchSnapshotRequest \<Rightarrow> bool" where
  "FetchSnapshotRequest_read version s \<equiv> FetchSnapshotRequest_fields_wf version s \<and> present_count (FetchSnapshotRequest_present version s) = 0"

lemmas fetch_snapshot_request_versions =
    FetchSnapshotRequest_is_flexible_def FetchSnapshotRequest_FLEXIBLE_MIN_def
    FetchSnapshotRequest_MIN_VERSION_def FetchSnapshotRequest_MAX_VERSION_def version_in_def

lemmas fetch_snapshot_request_fields =
    Let_def field_ok_def FetchSnapshotRequest_fields_wf_def FetchSnapshotRequest_present_def
    FetchSnapshotRequest_is_flexible_def FetchSnapshotRequest_FLEXIBLE_MIN_def

lemma fetch_snapshot_request_steps:
  assumes v: "0 \<le>s version" and flex: "flex = (FetchSnapshotRequest_is_flexible version)"
  shows "keeps (FetchSnapshotRequest_read version) (get_into (0 \<le>s version) get_i32 (\<lambda>v out. out\<lparr>fs_req_replica_id := v\<rparr>))"
    and "keeps (FetchSnapshotRequest_read version) (get_into (0 \<le>s version) get_i32 (\<lambda>v out. out\<lparr>fs_req_max_bytes := v\<rparr>))"
    and "keeps (FetchSnapshotRequest_read version) (get_into (0 \<le>s version) (get_array flex (FetchSnapshotRequest_TopicSnapshot_decode version)) (\<lambda>v out. out\<lparr>fs_req_topics := v\<rparr>))"
  unfolding flex 
  by (rule keeps_into; (rule yields_rules)?; simp add: v fetch_snapshot_request_fields)+

lemma fetch_snapshot_request_arms:
  assumes v: "0 \<le>s version" and flex: "flex = (FetchSnapshotRequest_is_flexible version)"
  shows "arms_keep (FetchSnapshotRequest_fields_wf version) (\<lambda>s. present_count (FetchSnapshotRequest_present version s))
    [(0, tag_into (get_nullable_str flex) (\<lambda>v out. out\<lparr>fs_req_cluster_id := v\<rparr>))]"
  unfolding flex
  by ((rule arms_keep_Nil arms_keep_Cons accepts_from accepts_into accepts_rules)
    | simp add: v fetch_snapshot_request_fields)+

lemma fetch_snapshot_request_unknown:
  "FetchSnapshotRequest_fields_wf version (s\<lparr>fs_req_unknown_tagged_fields := u\<rparr>) = FetchSnapshotRequest_fields_wf version s"
  "FetchSnapshotRequest_present version (s\<lparr>fs_req_unknown_tagged_fields := u\<rparr>) = FetchSnapshotRequest_present version s"
  by (simp_all add: FetchSnapshotRequest_fields_wf_def FetchSnapshotRequest_present_def)

lemma fetch_snapshot_request_yields:
  assumes r: "version_in FetchSnapshotRequest_MIN_VERSION FetchSnapshotRequest_MAX_VERSION version"
  shows "yields 1 (FetchSnapshotRequest_decode version) (FetchSnapshotRequest_wf version)"
proof -
  have v: "0 \<le>s version"
    using r by (simp add: fetch_snapshot_request_versions)
  have d: "FetchSnapshotRequest_fields_wf version FetchSnapshotRequest_default \<and> present_count (FetchSnapshotRequest_present version FetchSnapshotRequest_default) = 0"
    by (simp add: FetchSnapshotRequest_default_def v fetch_snapshot_request_fields)
  show ?thesis
    unfolding FetchSnapshotRequest_decode_def Let_def
    by (rule yields_checked, (rule fetch_snapshot_request_steps[OF v refl, THEN yields_step], (rule d | assumption))+, rule yields_trailer[OF _ fetch_snapshot_request_arms[OF v refl]])
      (simp_all add: v d fetch_snapshot_request_unknown FetchSnapshotRequest_wf_def trailer_ok_def r FetchSnapshotRequest_is_flexible_def FetchSnapshotRequest_FLEXIBLE_MIN_def)
qed

interpretation fetch_snapshot_request: message_codec
  FetchSnapshotRequest_encode FetchSnapshotRequest_decode FetchSnapshotRequest_encoded_len "FetchSnapshotRequest_wf version" version
  for version
proof
  fix x
  assume w: "FetchSnapshotRequest_wf version x"
  then have v: "0 \<le>s version"
    by (simp add: FetchSnapshotRequest_wf_def fetch_snapshot_request_versions)
  show "carries (FetchSnapshotRequest_encode x version) (FetchSnapshotRequest_decode version) (FetchSnapshotRequest_encoded_len x version) x"
    unfolding FetchSnapshotRequest_encode_def FetchSnapshotRequest_encoded_len_def FetchSnapshotRequest_decode_def Let_def
    by (use w[unfolded FetchSnapshotRequest_wf_def FetchSnapshotRequest_fields_wf_def FetchSnapshotRequest_present_def Let_def] in \<open>elim conjE\<close>, rule carries_cong_len)
      ((rule carries_rules check_version_in[THEN iffD2] | (erule absent_guarded, assumption) | erule absent_plain
        | simp add: v field_ok_def FetchSnapshotRequest_default_def fetch_snapshot_request_versions)+)
next
  show "yields 1 (FetchSnapshotRequest_decode version) (FetchSnapshotRequest_wf version)"
    by (rule case_split[OF fetch_snapshot_request_yields]) (auto simp: FetchSnapshotRequest_decode_def Let_def yields_refused yields_unsupported)
  show "extends_input (FetchSnapshotRequest_decode version)"
    unfolding FetchSnapshotRequest_decode_def Let_def by (intro extends_rules)
qed

section \<open>DescribeQuorumRequest\<close>

record DescribeQuorumRequest_PartitionData =
  dq_req_pd_partition_index :: i32
  dq_req_pd_unknown_tagged_fields :: "UnknownTaggedField list"

definition DescribeQuorumRequest_PartitionData_default :: DescribeQuorumRequest_PartitionData where
  "DescribeQuorumRequest_PartitionData_default =
     \<lparr>dq_req_pd_partition_index = 0, dq_req_pd_unknown_tagged_fields = []\<rparr>"

definition DescribeQuorumRequest_PartitionData_encode :: "DescribeQuorumRequest_PartitionData \<Rightarrow> i16 \<Rightarrow> encoder" where
  "DescribeQuorumRequest_PartitionData_encode x version =
     (let flex = 0 \<le>s version in
      write_all
        [put_when (0 \<le>s version) (put_i32 (dq_req_pd_partition_index x)),
         put_when flex (put_tagged [] (dq_req_pd_unknown_tagged_fields x))])"

definition DescribeQuorumRequest_PartitionData_encoded_len :: "DescribeQuorumRequest_PartitionData \<Rightarrow> i16 \<Rightarrow> nat" where
  "DescribeQuorumRequest_PartitionData_encoded_len x version =
     (let flex = 0 \<le>s version in
      len_when (0 \<le>s version) 4
      + len_when flex (tagged_size [] (dq_req_pd_unknown_tagged_fields x)))"

definition DescribeQuorumRequest_PartitionData_decode :: "i16 \<Rightarrow> DescribeQuorumRequest_PartitionData decoder" where
  "DescribeQuorumRequest_PartitionData_decode version =
     (let flex = 0 \<le>s version in
      read_then (get_into (0 \<le>s version) get_i32 (\<lambda>v out. out\<lparr>dq_req_pd_partition_index := v\<rparr>) DescribeQuorumRequest_PartitionData_default) (\<lambda>out.
        get_trailer flex [] (\<lambda>u out. out\<lparr>dq_req_pd_unknown_tagged_fields := u\<rparr>) out))"

definition DescribeQuorumRequest_PartitionData_fields_wf :: "i16 \<Rightarrow> DescribeQuorumRequest_PartitionData \<Rightarrow> bool" where
  "DescribeQuorumRequest_PartitionData_fields_wf version x \<longleftrightarrow>
     True"

definition DescribeQuorumRequest_PartitionData_wf :: "i16 \<Rightarrow> DescribeQuorumRequest_PartitionData \<Rightarrow> bool" where
  "DescribeQuorumRequest_PartitionData_wf version x \<longleftrightarrow>
     DescribeQuorumRequest_PartitionData_fields_wf version x \<and> trailer_ok [] [] (dq_req_pd_unknown_tagged_fields x)"

lemmas describe_quorum_request_partition_data_fields =
    Let_def field_ok_def DescribeQuorumRequest_PartitionData_fields_wf_def

lemma describe_quorum_request_partition_data_steps:
  assumes v: "0 \<le>s version" and flex: "flex = (0 \<le>s version)"
  shows "keeps (DescribeQuorumRequest_PartitionData_fields_wf version) (get_into (0 \<le>s version) get_i32 (\<lambda>v out. out\<lparr>dq_req_pd_partition_index := v\<rparr>))"
  unfolding flex 
  by (rule keeps_into; (rule yields_rules)?; simp add: v describe_quorum_request_partition_data_fields)+

lemma describe_quorum_request_partition_data_unknown:
  "DescribeQuorumRequest_PartitionData_fields_wf version (s\<lparr>dq_req_pd_unknown_tagged_fields := u\<rparr>) = DescribeQuorumRequest_PartitionData_fields_wf version s"
  by (simp_all add: DescribeQuorumRequest_PartitionData_fields_wf_def)

lemma describe_quorum_request_partition_data_yields:
  assumes v: "0 \<le>s version"
  shows "yields 1 (DescribeQuorumRequest_PartitionData_decode version) (DescribeQuorumRequest_PartitionData_wf version)"
proof -
  have d: "DescribeQuorumRequest_PartitionData_fields_wf version DescribeQuorumRequest_PartitionData_default"
    by (simp add: DescribeQuorumRequest_PartitionData_default_def v describe_quorum_request_partition_data_fields)
  show ?thesis
    unfolding DescribeQuorumRequest_PartitionData_decode_def Let_def
    by ((rule describe_quorum_request_partition_data_steps[OF v refl, THEN yields_step], (rule d | assumption))+, rule yields_trailer[OF _ arms_keep_Nil[of "DescribeQuorumRequest_PartitionData_fields_wf version" "\<lambda>_. 0"]])
      (simp_all add: v d describe_quorum_request_partition_data_unknown DescribeQuorumRequest_PartitionData_wf_def trailer_ok_def )
qed

lemma describe_quorum_request_partition_data_extends [extends_rules]: "extends_input (DescribeQuorumRequest_PartitionData_decode version)"
  unfolding DescribeQuorumRequest_PartitionData_decode_def Let_def by (intro extends_rules)

lemma describe_quorum_request_partition_data_codec:
  assumes v: "0 \<le>s version"
  shows "message_codec DescribeQuorumRequest_PartitionData_encode DescribeQuorumRequest_PartitionData_decode DescribeQuorumRequest_PartitionData_encoded_len (DescribeQuorumRequest_PartitionData_wf version) version"
proof
  fix x
  assume w: "DescribeQuorumRequest_PartitionData_wf version x"
  show "carries (DescribeQuorumRequest_PartitionData_encode x version) (DescribeQuorumRequest_PartitionData_decode version) (DescribeQuorumRequest_PartitionData_encoded_len x version) x"
    unfolding DescribeQuorumRequest_PartitionData_encode_def DescribeQuorumRequest_PartitionData_encoded_len_def DescribeQuorumRequest_PartitionData_decode_def Let_def
    by (use w[unfolded DescribeQuorumRequest_PartitionData_wf_def DescribeQuorumRequest_PartitionData_fields_wf_def Let_def] in \<open>elim conjE\<close>, rule carries_cong_len)
      ((rule carries_rules | (erule absent_guarded, assumption) | erule absent_plain
        | simp add: v field_ok_def DescribeQuorumRequest_PartitionData_default_def )+)
next
  show "yields 1 (DescribeQuorumRequest_PartitionData_decode version) (DescribeQuorumRequest_PartitionData_wf version)"
    by (rule describe_quorum_request_partition_data_yields[OF v])
qed (rule describe_quorum_request_partition_data_extends)

lemma describe_quorum_request_partition_data_default_wf [simp]: "0 \<le>s version \<Longrightarrow> DescribeQuorumRequest_PartitionData_wf version DescribeQuorumRequest_PartitionData_default"
  by (simp add: DescribeQuorumRequest_PartitionData_wf_def DescribeQuorumRequest_PartitionData_default_def trailer_ok_def describe_quorum_request_partition_data_fields)

lemmas [carries_rules] = message_codec.message_carries[OF describe_quorum_request_partition_data_codec]
lemmas [yields_rules] = message_codec.message_yields[OF describe_quorum_request_partition_data_codec]

lemmas [carries_rules] = protocol_codec.put_array_carries[OF message_codec.message_protocol[OF describe_quorum_request_partition_data_codec]]
lemmas [yields_rules] = protocol_codec.get_array_yields[OF message_codec.message_protocol[OF describe_quorum_request_partition_data_codec]]
lemmas [carries_rules] = protocol_codec.put_nullable_array_carries[OF message_codec.message_protocol[OF describe_quorum_request_partition_data_codec]]
lemmas [yields_rules] = protocol_codec.get_nullable_array_yields[OF message_codec.message_protocol[OF describe_quorum_request_partition_data_codec]]

record DescribeQuorumRequest_TopicData =
  dq_req_td_topic_name :: bytes
  dq_req_td_partitions :: "DescribeQuorumRequest_PartitionData list"
  dq_req_td_unknown_tagged_fields :: "UnknownTaggedField list"

definition DescribeQuorumRequest_TopicData_default :: DescribeQuorumRequest_TopicData where
  "DescribeQuorumRequest_TopicData_default =
     \<lparr>dq_req_td_topic_name = [], dq_req_td_partitions = [], dq_req_td_unknown_tagged_fields = []\<rparr>"

definition DescribeQuorumRequest_TopicData_encode :: "DescribeQuorumRequest_TopicData \<Rightarrow> i16 \<Rightarrow> encoder" where
  "DescribeQuorumRequest_TopicData_encode x version =
     (let flex = 0 \<le>s version in
      write_all
        [put_when (0 \<le>s version) (put_str flex (dq_req_td_topic_name x)),
         put_when (0 \<le>s version) (put_array flex (\<lambda>it. DescribeQuorumRequest_PartitionData_encode it version) (dq_req_td_partitions x)),
         put_when flex (put_tagged [] (dq_req_td_unknown_tagged_fields x))])"

definition DescribeQuorumRequest_TopicData_encoded_len :: "DescribeQuorumRequest_TopicData \<Rightarrow> i16 \<Rightarrow> nat" where
  "DescribeQuorumRequest_TopicData_encoded_len x version =
     (let flex = 0 \<le>s version in
      len_when (0 \<le>s version) (str_len flex (dq_req_td_topic_name x))
      + len_when (0 \<le>s version) (array_size flex (\<lambda>it. DescribeQuorumRequest_PartitionData_encoded_len it version) (dq_req_td_partitions x))
      + len_when flex (tagged_size [] (dq_req_td_unknown_tagged_fields x)))"

definition DescribeQuorumRequest_TopicData_decode :: "i16 \<Rightarrow> DescribeQuorumRequest_TopicData decoder" where
  "DescribeQuorumRequest_TopicData_decode version =
     (let flex = 0 \<le>s version in
      read_then (get_into (0 \<le>s version) (get_str flex) (\<lambda>v out. out\<lparr>dq_req_td_topic_name := v\<rparr>) DescribeQuorumRequest_TopicData_default) (\<lambda>out.
        read_then (get_into (0 \<le>s version) (get_array flex (DescribeQuorumRequest_PartitionData_decode version)) (\<lambda>v out. out\<lparr>dq_req_td_partitions := v\<rparr>) out) (\<lambda>out.
        get_trailer flex [] (\<lambda>u out. out\<lparr>dq_req_td_unknown_tagged_fields := u\<rparr>) out)))"

definition DescribeQuorumRequest_TopicData_fields_wf :: "i16 \<Rightarrow> DescribeQuorumRequest_TopicData \<Rightarrow> bool" where
  "DescribeQuorumRequest_TopicData_fields_wf version x \<longleftrightarrow>
     (let flex = 0 \<le>s version in
      str_wf flex (dq_req_td_topic_name x)
      \<and> array_ok flex (DescribeQuorumRequest_PartitionData_wf version) (dq_req_td_partitions x))"

definition DescribeQuorumRequest_TopicData_wf :: "i16 \<Rightarrow> DescribeQuorumRequest_TopicData \<Rightarrow> bool" where
  "DescribeQuorumRequest_TopicData_wf version x \<longleftrightarrow>
     DescribeQuorumRequest_TopicData_fields_wf version x \<and> trailer_ok [] [] (dq_req_td_unknown_tagged_fields x)"

lemmas describe_quorum_request_topic_data_fields =
    Let_def field_ok_def DescribeQuorumRequest_TopicData_fields_wf_def

lemma describe_quorum_request_topic_data_steps:
  assumes v: "0 \<le>s version" and flex: "flex = (0 \<le>s version)"
  shows "keeps (DescribeQuorumRequest_TopicData_fields_wf version) (get_into (0 \<le>s version) (get_str flex) (\<lambda>v out. out\<lparr>dq_req_td_topic_name := v\<rparr>))"
    and "keeps (DescribeQuorumRequest_TopicData_fields_wf version) (get_into (0 \<le>s version) (get_array flex (DescribeQuorumRequest_PartitionData_decode version)) (\<lambda>v out. out\<lparr>dq_req_td_partitions := v\<rparr>))"
  unfolding flex 
  by (rule keeps_into; (rule yields_rules)?; simp add: v describe_quorum_request_topic_data_fields)+

lemma describe_quorum_request_topic_data_unknown:
  "DescribeQuorumRequest_TopicData_fields_wf version (s\<lparr>dq_req_td_unknown_tagged_fields := u\<rparr>) = DescribeQuorumRequest_TopicData_fields_wf version s"
  by (simp_all add: DescribeQuorumRequest_TopicData_fields_wf_def)

lemma describe_quorum_request_topic_data_yields:
  assumes v: "0 \<le>s version"
  shows "yields 1 (DescribeQuorumRequest_TopicData_decode version) (DescribeQuorumRequest_TopicData_wf version)"
proof -
  have d: "DescribeQuorumRequest_TopicData_fields_wf version DescribeQuorumRequest_TopicData_default"
    by (simp add: DescribeQuorumRequest_TopicData_default_def v describe_quorum_request_topic_data_fields)
  show ?thesis
    unfolding DescribeQuorumRequest_TopicData_decode_def Let_def
    by ((rule describe_quorum_request_topic_data_steps[OF v refl, THEN yields_step], (rule d | assumption))+, rule yields_trailer[OF _ arms_keep_Nil[of "DescribeQuorumRequest_TopicData_fields_wf version" "\<lambda>_. 0"]])
      (simp_all add: v d describe_quorum_request_topic_data_unknown DescribeQuorumRequest_TopicData_wf_def trailer_ok_def )
qed

lemma describe_quorum_request_topic_data_extends [extends_rules]: "extends_input (DescribeQuorumRequest_TopicData_decode version)"
  unfolding DescribeQuorumRequest_TopicData_decode_def Let_def by (intro extends_rules)

lemma describe_quorum_request_topic_data_codec:
  assumes v: "0 \<le>s version"
  shows "message_codec DescribeQuorumRequest_TopicData_encode DescribeQuorumRequest_TopicData_decode DescribeQuorumRequest_TopicData_encoded_len (DescribeQuorumRequest_TopicData_wf version) version"
proof
  fix x
  assume w: "DescribeQuorumRequest_TopicData_wf version x"
  show "carries (DescribeQuorumRequest_TopicData_encode x version) (DescribeQuorumRequest_TopicData_decode version) (DescribeQuorumRequest_TopicData_encoded_len x version) x"
    unfolding DescribeQuorumRequest_TopicData_encode_def DescribeQuorumRequest_TopicData_encoded_len_def DescribeQuorumRequest_TopicData_decode_def Let_def
    by (use w[unfolded DescribeQuorumRequest_TopicData_wf_def DescribeQuorumRequest_TopicData_fields_wf_def Let_def] in \<open>elim conjE\<close>, rule carries_cong_len)
      ((rule carries_rules | (erule absent_guarded, assumption) | erule absent_plain
        | simp add: v field_ok_def DescribeQuorumRequest_TopicData_default_def )+)
next
  show "yields 1 (DescribeQuorumRequest_TopicData_decode version) (DescribeQuorumRequest_TopicData_wf version)"
    by (rule describe_quorum_request_topic_data_yields[OF v])
qed (rule describe_quorum_request_topic_data_extends)

lemma describe_quorum_request_topic_data_default_wf [simp]: "0 \<le>s version \<Longrightarrow> DescribeQuorumRequest_TopicData_wf version DescribeQuorumRequest_TopicData_default"
  by (simp add: DescribeQuorumRequest_TopicData_wf_def DescribeQuorumRequest_TopicData_default_def trailer_ok_def describe_quorum_request_topic_data_fields)

lemmas [carries_rules] = message_codec.message_carries[OF describe_quorum_request_topic_data_codec]
lemmas [yields_rules] = message_codec.message_yields[OF describe_quorum_request_topic_data_codec]

lemmas [carries_rules] = protocol_codec.put_array_carries[OF message_codec.message_protocol[OF describe_quorum_request_topic_data_codec]]
lemmas [yields_rules] = protocol_codec.get_array_yields[OF message_codec.message_protocol[OF describe_quorum_request_topic_data_codec]]
lemmas [carries_rules] = protocol_codec.put_nullable_array_carries[OF message_codec.message_protocol[OF describe_quorum_request_topic_data_codec]]
lemmas [yields_rules] = protocol_codec.get_nullable_array_yields[OF message_codec.message_protocol[OF describe_quorum_request_topic_data_codec]]

record DescribeQuorumRequest =
  dq_req_topics :: "DescribeQuorumRequest_TopicData list"
  dq_req_unknown_tagged_fields :: "UnknownTaggedField list"

definition DescribeQuorumRequest_default :: DescribeQuorumRequest where
  "DescribeQuorumRequest_default =
     \<lparr>dq_req_topics = [], dq_req_unknown_tagged_fields = []\<rparr>"

definition DescribeQuorumRequest_MIN_VERSION :: i16 where
  "DescribeQuorumRequest_MIN_VERSION = 0"

definition DescribeQuorumRequest_MAX_VERSION :: i16 where
  "DescribeQuorumRequest_MAX_VERSION = 2"

definition DescribeQuorumRequest_FLEXIBLE_MIN :: i16 where
  "DescribeQuorumRequest_FLEXIBLE_MIN = 0"

definition DescribeQuorumRequest_API_KEY :: i16 where
  "DescribeQuorumRequest_API_KEY = 55"

definition DescribeQuorumRequest_is_flexible :: "i16 \<Rightarrow> bool" where
  "DescribeQuorumRequest_is_flexible version \<longleftrightarrow> DescribeQuorumRequest_FLEXIBLE_MIN \<le>s version"

definition DescribeQuorumRequest_encode :: "DescribeQuorumRequest \<Rightarrow> i16 \<Rightarrow> encoder" where
  "DescribeQuorumRequest_encode x version =
     (let flex = DescribeQuorumRequest_is_flexible version in
      write_all
        [write_check (check_version DescribeQuorumRequest_API_KEY version DescribeQuorumRequest_MIN_VERSION DescribeQuorumRequest_MAX_VERSION),
         put_when (0 \<le>s version) (put_array flex (\<lambda>it. DescribeQuorumRequest_TopicData_encode it version) (dq_req_topics x)),
         put_when flex (put_tagged [] (dq_req_unknown_tagged_fields x))])"

definition DescribeQuorumRequest_encoded_len :: "DescribeQuorumRequest \<Rightarrow> i16 \<Rightarrow> nat" where
  "DescribeQuorumRequest_encoded_len x version =
     (let flex = DescribeQuorumRequest_is_flexible version in
      len_when (0 \<le>s version) (array_size flex (\<lambda>it. DescribeQuorumRequest_TopicData_encoded_len it version) (dq_req_topics x))
      + len_when flex (tagged_size [] (dq_req_unknown_tagged_fields x)))"

definition DescribeQuorumRequest_decode :: "i16 \<Rightarrow> DescribeQuorumRequest decoder" where
  "DescribeQuorumRequest_decode version =
     (let flex = DescribeQuorumRequest_is_flexible version in
      checked (check_version DescribeQuorumRequest_API_KEY version DescribeQuorumRequest_MIN_VERSION DescribeQuorumRequest_MAX_VERSION) (
        read_then (get_into (0 \<le>s version) (get_array flex (DescribeQuorumRequest_TopicData_decode version)) (\<lambda>v out. out\<lparr>dq_req_topics := v\<rparr>) DescribeQuorumRequest_default) (\<lambda>out.
        get_trailer flex [] (\<lambda>u out. out\<lparr>dq_req_unknown_tagged_fields := u\<rparr>) out)))"

definition DescribeQuorumRequest_fields_wf :: "i16 \<Rightarrow> DescribeQuorumRequest \<Rightarrow> bool" where
  "DescribeQuorumRequest_fields_wf version x \<longleftrightarrow>
     (let flex = DescribeQuorumRequest_is_flexible version in
      array_ok flex (DescribeQuorumRequest_TopicData_wf version) (dq_req_topics x))"

definition DescribeQuorumRequest_wf :: "i16 \<Rightarrow> DescribeQuorumRequest \<Rightarrow> bool" where
  "DescribeQuorumRequest_wf version x \<longleftrightarrow>
     version_in DescribeQuorumRequest_MIN_VERSION DescribeQuorumRequest_MAX_VERSION version \<and> DescribeQuorumRequest_fields_wf version x \<and> trailer_ok [] [] (dq_req_unknown_tagged_fields x)"

lemmas describe_quorum_request_versions =
    DescribeQuorumRequest_is_flexible_def DescribeQuorumRequest_FLEXIBLE_MIN_def
    DescribeQuorumRequest_MIN_VERSION_def DescribeQuorumRequest_MAX_VERSION_def version_in_def

lemmas describe_quorum_request_fields =
    Let_def field_ok_def DescribeQuorumRequest_fields_wf_def DescribeQuorumRequest_is_flexible_def
    DescribeQuorumRequest_FLEXIBLE_MIN_def

lemma describe_quorum_request_steps:
  assumes v: "0 \<le>s version" and flex: "flex = (DescribeQuorumRequest_is_flexible version)"
  shows "keeps (DescribeQuorumRequest_fields_wf version) (get_into (0 \<le>s version) (get_array flex (DescribeQuorumRequest_TopicData_decode version)) (\<lambda>v out. out\<lparr>dq_req_topics := v\<rparr>))"
  unfolding flex 
  by (rule keeps_into; (rule yields_rules)?; simp add: v describe_quorum_request_fields)+

lemma describe_quorum_request_unknown:
  "DescribeQuorumRequest_fields_wf version (s\<lparr>dq_req_unknown_tagged_fields := u\<rparr>) = DescribeQuorumRequest_fields_wf version s"
  by (simp_all add: DescribeQuorumRequest_fields_wf_def)

lemma describe_quorum_request_yields:
  assumes r: "version_in DescribeQuorumRequest_MIN_VERSION DescribeQuorumRequest_MAX_VERSION version"
  shows "yields 1 (DescribeQuorumRequest_decode version) (DescribeQuorumRequest_wf version)"
proof -
  have v: "0 \<le>s version"
    using r by (simp add: describe_quorum_request_versions)
  have d: "DescribeQuorumRequest_fields_wf version DescribeQuorumRequest_default"
    by (simp add: DescribeQuorumRequest_default_def v describe_quorum_request_fields)
  show ?thesis
    unfolding DescribeQuorumRequest_decode_def Let_def
    by (rule yields_checked, (rule describe_quorum_request_steps[OF v refl, THEN yields_step], (rule d | assumption))+, rule yields_trailer[OF _ arms_keep_Nil[of "DescribeQuorumRequest_fields_wf version" "\<lambda>_. 0"]])
      (simp_all add: v d describe_quorum_request_unknown DescribeQuorumRequest_wf_def trailer_ok_def r DescribeQuorumRequest_is_flexible_def DescribeQuorumRequest_FLEXIBLE_MIN_def)
qed

interpretation describe_quorum_request: message_codec
  DescribeQuorumRequest_encode DescribeQuorumRequest_decode DescribeQuorumRequest_encoded_len "DescribeQuorumRequest_wf version" version
  for version
proof
  fix x
  assume w: "DescribeQuorumRequest_wf version x"
  then have v: "0 \<le>s version"
    by (simp add: DescribeQuorumRequest_wf_def describe_quorum_request_versions)
  show "carries (DescribeQuorumRequest_encode x version) (DescribeQuorumRequest_decode version) (DescribeQuorumRequest_encoded_len x version) x"
    unfolding DescribeQuorumRequest_encode_def DescribeQuorumRequest_encoded_len_def DescribeQuorumRequest_decode_def Let_def
    by (use w[unfolded DescribeQuorumRequest_wf_def DescribeQuorumRequest_fields_wf_def Let_def] in \<open>elim conjE\<close>, rule carries_cong_len)
      ((rule carries_rules check_version_in[THEN iffD2] | (erule absent_guarded, assumption) | erule absent_plain
        | simp add: v field_ok_def DescribeQuorumRequest_default_def describe_quorum_request_versions)+)
next
  show "yields 1 (DescribeQuorumRequest_decode version) (DescribeQuorumRequest_wf version)"
    by (rule case_split[OF describe_quorum_request_yields]) (auto simp: DescribeQuorumRequest_decode_def Let_def yields_refused yields_unsupported)
  show "extends_input (DescribeQuorumRequest_decode version)"
    unfolding DescribeQuorumRequest_decode_def Let_def by (intro extends_rules)
qed

section \<open>KRaftVersionRecord\<close>

record KRaftVersionRecord =
  krvr_version :: i16
  krvr_k_raft_version :: i16
  krvr_unknown_tagged_fields :: "UnknownTaggedField list"

definition KRaftVersionRecord_default :: KRaftVersionRecord where
  "KRaftVersionRecord_default =
     \<lparr>krvr_version = 0, krvr_k_raft_version = 0, krvr_unknown_tagged_fields = []\<rparr>"

definition KRaftVersionRecord_MIN_VERSION :: i16 where
  "KRaftVersionRecord_MIN_VERSION = 0"

definition KRaftVersionRecord_MAX_VERSION :: i16 where
  "KRaftVersionRecord_MAX_VERSION = 0"

definition KRaftVersionRecord_FLEXIBLE_MIN :: i16 where
  "KRaftVersionRecord_FLEXIBLE_MIN = 0"

definition KRaftVersionRecord_is_flexible :: "i16 \<Rightarrow> bool" where
  "KRaftVersionRecord_is_flexible version \<longleftrightarrow> KRaftVersionRecord_FLEXIBLE_MIN \<le>s version"

definition KRaftVersionRecord_encode :: "KRaftVersionRecord \<Rightarrow> i16 \<Rightarrow> encoder" where
  "KRaftVersionRecord_encode x version =
     (let flex = KRaftVersionRecord_is_flexible version in
      write_all
        [write_check (contains_version KRaftVersionRecord_MIN_VERSION KRaftVersionRecord_MAX_VERSION ''KRaftVersionRecord version out of range'' version),
         put_when (0 \<le>s version) (put_i16 (krvr_version x)),
         put_when (0 \<le>s version) (put_i16 (krvr_k_raft_version x)),
         put_when flex (put_tagged [] (krvr_unknown_tagged_fields x))])"

definition KRaftVersionRecord_encoded_len :: "KRaftVersionRecord \<Rightarrow> i16 \<Rightarrow> nat" where
  "KRaftVersionRecord_encoded_len x version =
     (let flex = KRaftVersionRecord_is_flexible version in
      len_when (0 \<le>s version) 2
      + len_when (0 \<le>s version) 2
      + len_when flex (tagged_size [] (krvr_unknown_tagged_fields x)))"

definition KRaftVersionRecord_decode :: "i16 \<Rightarrow> KRaftVersionRecord decoder" where
  "KRaftVersionRecord_decode version =
     (let flex = KRaftVersionRecord_is_flexible version in
      checked (contains_version KRaftVersionRecord_MIN_VERSION KRaftVersionRecord_MAX_VERSION ''KRaftVersionRecord version out of range'' version) (
        read_then (get_into (0 \<le>s version) get_i16 (\<lambda>v out. out\<lparr>krvr_version := v\<rparr>) KRaftVersionRecord_default) (\<lambda>out.
        read_then (get_into (0 \<le>s version) get_i16 (\<lambda>v out. out\<lparr>krvr_k_raft_version := v\<rparr>) out) (\<lambda>out.
        get_trailer flex [] (\<lambda>u out. out\<lparr>krvr_unknown_tagged_fields := u\<rparr>) out))))"

definition KRaftVersionRecord_fields_wf :: "i16 \<Rightarrow> KRaftVersionRecord \<Rightarrow> bool" where
  "KRaftVersionRecord_fields_wf version x \<longleftrightarrow>
     True"

definition KRaftVersionRecord_wf :: "i16 \<Rightarrow> KRaftVersionRecord \<Rightarrow> bool" where
  "KRaftVersionRecord_wf version x \<longleftrightarrow>
     version_in KRaftVersionRecord_MIN_VERSION KRaftVersionRecord_MAX_VERSION version \<and> KRaftVersionRecord_fields_wf version x \<and> trailer_ok [] [] (krvr_unknown_tagged_fields x)"

lemmas k_raft_version_record_versions =
    KRaftVersionRecord_is_flexible_def KRaftVersionRecord_FLEXIBLE_MIN_def KRaftVersionRecord_MIN_VERSION_def
    KRaftVersionRecord_MAX_VERSION_def version_in_def

lemmas k_raft_version_record_fields =
    Let_def field_ok_def KRaftVersionRecord_fields_wf_def KRaftVersionRecord_is_flexible_def
    KRaftVersionRecord_FLEXIBLE_MIN_def

lemma k_raft_version_record_steps:
  assumes v: "0 \<le>s version" and flex: "flex = (KRaftVersionRecord_is_flexible version)"
  shows "keeps (KRaftVersionRecord_fields_wf version) (get_into (0 \<le>s version) get_i16 (\<lambda>v out. out\<lparr>krvr_version := v\<rparr>))"
    and "keeps (KRaftVersionRecord_fields_wf version) (get_into (0 \<le>s version) get_i16 (\<lambda>v out. out\<lparr>krvr_k_raft_version := v\<rparr>))"
  unfolding flex 
  by (rule keeps_into; (rule yields_rules)?; simp add: v k_raft_version_record_fields)+

lemma k_raft_version_record_unknown:
  "KRaftVersionRecord_fields_wf version (s\<lparr>krvr_unknown_tagged_fields := u\<rparr>) = KRaftVersionRecord_fields_wf version s"
  by (simp_all add: KRaftVersionRecord_fields_wf_def)

lemma k_raft_version_record_yields:
  assumes r: "version_in KRaftVersionRecord_MIN_VERSION KRaftVersionRecord_MAX_VERSION version"
  shows "yields 1 (KRaftVersionRecord_decode version) (KRaftVersionRecord_wf version)"
proof -
  have v: "0 \<le>s version"
    using r by (simp add: k_raft_version_record_versions)
  have d: "KRaftVersionRecord_fields_wf version KRaftVersionRecord_default"
    by (simp add: KRaftVersionRecord_default_def v k_raft_version_record_fields)
  show ?thesis
    unfolding KRaftVersionRecord_decode_def Let_def
    by (rule yields_checked, (rule k_raft_version_record_steps[OF v refl, THEN yields_step], (rule d | assumption))+, rule yields_trailer[OF _ arms_keep_Nil[of "KRaftVersionRecord_fields_wf version" "\<lambda>_. 0"]])
      (simp_all add: v d k_raft_version_record_unknown KRaftVersionRecord_wf_def trailer_ok_def r KRaftVersionRecord_is_flexible_def KRaftVersionRecord_FLEXIBLE_MIN_def)
qed

interpretation k_raft_version_record: message_codec
  KRaftVersionRecord_encode KRaftVersionRecord_decode KRaftVersionRecord_encoded_len "KRaftVersionRecord_wf version" version
  for version
proof
  fix x
  assume w: "KRaftVersionRecord_wf version x"
  then have v: "0 \<le>s version"
    by (simp add: KRaftVersionRecord_wf_def k_raft_version_record_versions)
  show "carries (KRaftVersionRecord_encode x version) (KRaftVersionRecord_decode version) (KRaftVersionRecord_encoded_len x version) x"
    unfolding KRaftVersionRecord_encode_def KRaftVersionRecord_encoded_len_def KRaftVersionRecord_decode_def Let_def
    by (use w[unfolded KRaftVersionRecord_wf_def KRaftVersionRecord_fields_wf_def Let_def] in \<open>elim conjE\<close>, rule carries_cong_len)
      ((rule carries_rules | (erule absent_guarded, assumption) | erule absent_plain
        | simp add: v field_ok_def KRaftVersionRecord_default_def k_raft_version_record_versions)+)
next
  show "yields 1 (KRaftVersionRecord_decode version) (KRaftVersionRecord_wf version)"
    by (rule case_split[OF k_raft_version_record_yields]) (auto simp: KRaftVersionRecord_decode_def Let_def yields_refused yields_unsupported)
  show "extends_input (KRaftVersionRecord_decode version)"
    unfolding KRaftVersionRecord_decode_def Let_def by (intro extends_rules)
qed

section \<open>SnapshotHeaderRecord\<close>

record SnapshotHeaderRecord =
  shr_version :: i16
  shr_last_contained_log_timestamp :: i64
  shr_unknown_tagged_fields :: "UnknownTaggedField list"

definition SnapshotHeaderRecord_default :: SnapshotHeaderRecord where
  "SnapshotHeaderRecord_default =
     \<lparr>shr_version = 0, shr_last_contained_log_timestamp = 0, shr_unknown_tagged_fields = []\<rparr>"

definition SnapshotHeaderRecord_MIN_VERSION :: i16 where
  "SnapshotHeaderRecord_MIN_VERSION = 0"

definition SnapshotHeaderRecord_MAX_VERSION :: i16 where
  "SnapshotHeaderRecord_MAX_VERSION = 0"

definition SnapshotHeaderRecord_FLEXIBLE_MIN :: i16 where
  "SnapshotHeaderRecord_FLEXIBLE_MIN = 0"

definition SnapshotHeaderRecord_is_flexible :: "i16 \<Rightarrow> bool" where
  "SnapshotHeaderRecord_is_flexible version \<longleftrightarrow> SnapshotHeaderRecord_FLEXIBLE_MIN \<le>s version"

definition SnapshotHeaderRecord_encode :: "SnapshotHeaderRecord \<Rightarrow> i16 \<Rightarrow> encoder" where
  "SnapshotHeaderRecord_encode x version =
     (let flex = SnapshotHeaderRecord_is_flexible version in
      write_all
        [write_check (contains_version SnapshotHeaderRecord_MIN_VERSION SnapshotHeaderRecord_MAX_VERSION ''SnapshotHeaderRecord version out of range'' version),
         put_when (0 \<le>s version) (put_i16 (shr_version x)),
         put_when (0 \<le>s version) (put_i64 (shr_last_contained_log_timestamp x)),
         put_when flex (put_tagged [] (shr_unknown_tagged_fields x))])"

definition SnapshotHeaderRecord_encoded_len :: "SnapshotHeaderRecord \<Rightarrow> i16 \<Rightarrow> nat" where
  "SnapshotHeaderRecord_encoded_len x version =
     (let flex = SnapshotHeaderRecord_is_flexible version in
      len_when (0 \<le>s version) 2
      + len_when (0 \<le>s version) 8
      + len_when flex (tagged_size [] (shr_unknown_tagged_fields x)))"

definition SnapshotHeaderRecord_decode :: "i16 \<Rightarrow> SnapshotHeaderRecord decoder" where
  "SnapshotHeaderRecord_decode version =
     (let flex = SnapshotHeaderRecord_is_flexible version in
      checked (contains_version SnapshotHeaderRecord_MIN_VERSION SnapshotHeaderRecord_MAX_VERSION ''SnapshotHeaderRecord version out of range'' version) (
        read_then (get_into (0 \<le>s version) get_i16 (\<lambda>v out. out\<lparr>shr_version := v\<rparr>) SnapshotHeaderRecord_default) (\<lambda>out.
        read_then (get_into (0 \<le>s version) get_i64 (\<lambda>v out. out\<lparr>shr_last_contained_log_timestamp := v\<rparr>) out) (\<lambda>out.
        get_trailer flex [] (\<lambda>u out. out\<lparr>shr_unknown_tagged_fields := u\<rparr>) out))))"

definition SnapshotHeaderRecord_fields_wf :: "i16 \<Rightarrow> SnapshotHeaderRecord \<Rightarrow> bool" where
  "SnapshotHeaderRecord_fields_wf version x \<longleftrightarrow>
     True"

definition SnapshotHeaderRecord_wf :: "i16 \<Rightarrow> SnapshotHeaderRecord \<Rightarrow> bool" where
  "SnapshotHeaderRecord_wf version x \<longleftrightarrow>
     version_in SnapshotHeaderRecord_MIN_VERSION SnapshotHeaderRecord_MAX_VERSION version \<and> SnapshotHeaderRecord_fields_wf version x \<and> trailer_ok [] [] (shr_unknown_tagged_fields x)"

lemmas snapshot_header_record_versions =
    SnapshotHeaderRecord_is_flexible_def SnapshotHeaderRecord_FLEXIBLE_MIN_def
    SnapshotHeaderRecord_MIN_VERSION_def SnapshotHeaderRecord_MAX_VERSION_def version_in_def

lemmas snapshot_header_record_fields =
    Let_def field_ok_def SnapshotHeaderRecord_fields_wf_def SnapshotHeaderRecord_is_flexible_def
    SnapshotHeaderRecord_FLEXIBLE_MIN_def

lemma snapshot_header_record_steps:
  assumes v: "0 \<le>s version" and flex: "flex = (SnapshotHeaderRecord_is_flexible version)"
  shows "keeps (SnapshotHeaderRecord_fields_wf version) (get_into (0 \<le>s version) get_i16 (\<lambda>v out. out\<lparr>shr_version := v\<rparr>))"
    and "keeps (SnapshotHeaderRecord_fields_wf version) (get_into (0 \<le>s version) get_i64 (\<lambda>v out. out\<lparr>shr_last_contained_log_timestamp := v\<rparr>))"
  unfolding flex 
  by (rule keeps_into; (rule yields_rules)?; simp add: v snapshot_header_record_fields)+

lemma snapshot_header_record_unknown:
  "SnapshotHeaderRecord_fields_wf version (s\<lparr>shr_unknown_tagged_fields := u\<rparr>) = SnapshotHeaderRecord_fields_wf version s"
  by (simp_all add: SnapshotHeaderRecord_fields_wf_def)

lemma snapshot_header_record_yields:
  assumes r: "version_in SnapshotHeaderRecord_MIN_VERSION SnapshotHeaderRecord_MAX_VERSION version"
  shows "yields 1 (SnapshotHeaderRecord_decode version) (SnapshotHeaderRecord_wf version)"
proof -
  have v: "0 \<le>s version"
    using r by (simp add: snapshot_header_record_versions)
  have d: "SnapshotHeaderRecord_fields_wf version SnapshotHeaderRecord_default"
    by (simp add: SnapshotHeaderRecord_default_def v snapshot_header_record_fields)
  show ?thesis
    unfolding SnapshotHeaderRecord_decode_def Let_def
    by (rule yields_checked, (rule snapshot_header_record_steps[OF v refl, THEN yields_step], (rule d | assumption))+, rule yields_trailer[OF _ arms_keep_Nil[of "SnapshotHeaderRecord_fields_wf version" "\<lambda>_. 0"]])
      (simp_all add: v d snapshot_header_record_unknown SnapshotHeaderRecord_wf_def trailer_ok_def r SnapshotHeaderRecord_is_flexible_def SnapshotHeaderRecord_FLEXIBLE_MIN_def)
qed

interpretation snapshot_header_record: message_codec
  SnapshotHeaderRecord_encode SnapshotHeaderRecord_decode SnapshotHeaderRecord_encoded_len "SnapshotHeaderRecord_wf version" version
  for version
proof
  fix x
  assume w: "SnapshotHeaderRecord_wf version x"
  then have v: "0 \<le>s version"
    by (simp add: SnapshotHeaderRecord_wf_def snapshot_header_record_versions)
  show "carries (SnapshotHeaderRecord_encode x version) (SnapshotHeaderRecord_decode version) (SnapshotHeaderRecord_encoded_len x version) x"
    unfolding SnapshotHeaderRecord_encode_def SnapshotHeaderRecord_encoded_len_def SnapshotHeaderRecord_decode_def Let_def
    by (use w[unfolded SnapshotHeaderRecord_wf_def SnapshotHeaderRecord_fields_wf_def Let_def] in \<open>elim conjE\<close>, rule carries_cong_len)
      ((rule carries_rules | (erule absent_guarded, assumption) | erule absent_plain
        | simp add: v field_ok_def SnapshotHeaderRecord_default_def snapshot_header_record_versions)+)
next
  show "yields 1 (SnapshotHeaderRecord_decode version) (SnapshotHeaderRecord_wf version)"
    by (rule case_split[OF snapshot_header_record_yields]) (auto simp: SnapshotHeaderRecord_decode_def Let_def yields_refused yields_unsupported)
  show "extends_input (SnapshotHeaderRecord_decode version)"
    unfolding SnapshotHeaderRecord_decode_def Let_def by (intro extends_rules)
qed

section \<open>SnapshotFooterRecord\<close>

record SnapshotFooterRecord =
  sfr_version :: i16
  sfr_unknown_tagged_fields :: "UnknownTaggedField list"

definition SnapshotFooterRecord_default :: SnapshotFooterRecord where
  "SnapshotFooterRecord_default =
     \<lparr>sfr_version = 0, sfr_unknown_tagged_fields = []\<rparr>"

definition SnapshotFooterRecord_MIN_VERSION :: i16 where
  "SnapshotFooterRecord_MIN_VERSION = 0"

definition SnapshotFooterRecord_MAX_VERSION :: i16 where
  "SnapshotFooterRecord_MAX_VERSION = 0"

definition SnapshotFooterRecord_FLEXIBLE_MIN :: i16 where
  "SnapshotFooterRecord_FLEXIBLE_MIN = 0"

definition SnapshotFooterRecord_is_flexible :: "i16 \<Rightarrow> bool" where
  "SnapshotFooterRecord_is_flexible version \<longleftrightarrow> SnapshotFooterRecord_FLEXIBLE_MIN \<le>s version"

definition SnapshotFooterRecord_encode :: "SnapshotFooterRecord \<Rightarrow> i16 \<Rightarrow> encoder" where
  "SnapshotFooterRecord_encode x version =
     (let flex = SnapshotFooterRecord_is_flexible version in
      write_all
        [write_check (contains_version SnapshotFooterRecord_MIN_VERSION SnapshotFooterRecord_MAX_VERSION ''SnapshotFooterRecord version out of range'' version),
         put_when (0 \<le>s version) (put_i16 (sfr_version x)),
         put_when flex (put_tagged [] (sfr_unknown_tagged_fields x))])"

definition SnapshotFooterRecord_encoded_len :: "SnapshotFooterRecord \<Rightarrow> i16 \<Rightarrow> nat" where
  "SnapshotFooterRecord_encoded_len x version =
     (let flex = SnapshotFooterRecord_is_flexible version in
      len_when (0 \<le>s version) 2
      + len_when flex (tagged_size [] (sfr_unknown_tagged_fields x)))"

definition SnapshotFooterRecord_decode :: "i16 \<Rightarrow> SnapshotFooterRecord decoder" where
  "SnapshotFooterRecord_decode version =
     (let flex = SnapshotFooterRecord_is_flexible version in
      checked (contains_version SnapshotFooterRecord_MIN_VERSION SnapshotFooterRecord_MAX_VERSION ''SnapshotFooterRecord version out of range'' version) (
        read_then (get_into (0 \<le>s version) get_i16 (\<lambda>v out. out\<lparr>sfr_version := v\<rparr>) SnapshotFooterRecord_default) (\<lambda>out.
        get_trailer flex [] (\<lambda>u out. out\<lparr>sfr_unknown_tagged_fields := u\<rparr>) out)))"

definition SnapshotFooterRecord_fields_wf :: "i16 \<Rightarrow> SnapshotFooterRecord \<Rightarrow> bool" where
  "SnapshotFooterRecord_fields_wf version x \<longleftrightarrow>
     True"

definition SnapshotFooterRecord_wf :: "i16 \<Rightarrow> SnapshotFooterRecord \<Rightarrow> bool" where
  "SnapshotFooterRecord_wf version x \<longleftrightarrow>
     version_in SnapshotFooterRecord_MIN_VERSION SnapshotFooterRecord_MAX_VERSION version \<and> SnapshotFooterRecord_fields_wf version x \<and> trailer_ok [] [] (sfr_unknown_tagged_fields x)"

lemmas snapshot_footer_record_versions =
    SnapshotFooterRecord_is_flexible_def SnapshotFooterRecord_FLEXIBLE_MIN_def
    SnapshotFooterRecord_MIN_VERSION_def SnapshotFooterRecord_MAX_VERSION_def version_in_def

lemmas snapshot_footer_record_fields =
    Let_def field_ok_def SnapshotFooterRecord_fields_wf_def SnapshotFooterRecord_is_flexible_def
    SnapshotFooterRecord_FLEXIBLE_MIN_def

lemma snapshot_footer_record_steps:
  assumes v: "0 \<le>s version" and flex: "flex = (SnapshotFooterRecord_is_flexible version)"
  shows "keeps (SnapshotFooterRecord_fields_wf version) (get_into (0 \<le>s version) get_i16 (\<lambda>v out. out\<lparr>sfr_version := v\<rparr>))"
  unfolding flex 
  by (rule keeps_into; (rule yields_rules)?; simp add: v snapshot_footer_record_fields)+

lemma snapshot_footer_record_unknown:
  "SnapshotFooterRecord_fields_wf version (s\<lparr>sfr_unknown_tagged_fields := u\<rparr>) = SnapshotFooterRecord_fields_wf version s"
  by (simp_all add: SnapshotFooterRecord_fields_wf_def)

lemma snapshot_footer_record_yields:
  assumes r: "version_in SnapshotFooterRecord_MIN_VERSION SnapshotFooterRecord_MAX_VERSION version"
  shows "yields 1 (SnapshotFooterRecord_decode version) (SnapshotFooterRecord_wf version)"
proof -
  have v: "0 \<le>s version"
    using r by (simp add: snapshot_footer_record_versions)
  have d: "SnapshotFooterRecord_fields_wf version SnapshotFooterRecord_default"
    by (simp add: SnapshotFooterRecord_default_def v snapshot_footer_record_fields)
  show ?thesis
    unfolding SnapshotFooterRecord_decode_def Let_def
    by (rule yields_checked, (rule snapshot_footer_record_steps[OF v refl, THEN yields_step], (rule d | assumption))+, rule yields_trailer[OF _ arms_keep_Nil[of "SnapshotFooterRecord_fields_wf version" "\<lambda>_. 0"]])
      (simp_all add: v d snapshot_footer_record_unknown SnapshotFooterRecord_wf_def trailer_ok_def r SnapshotFooterRecord_is_flexible_def SnapshotFooterRecord_FLEXIBLE_MIN_def)
qed

interpretation snapshot_footer_record: message_codec
  SnapshotFooterRecord_encode SnapshotFooterRecord_decode SnapshotFooterRecord_encoded_len "SnapshotFooterRecord_wf version" version
  for version
proof
  fix x
  assume w: "SnapshotFooterRecord_wf version x"
  then have v: "0 \<le>s version"
    by (simp add: SnapshotFooterRecord_wf_def snapshot_footer_record_versions)
  show "carries (SnapshotFooterRecord_encode x version) (SnapshotFooterRecord_decode version) (SnapshotFooterRecord_encoded_len x version) x"
    unfolding SnapshotFooterRecord_encode_def SnapshotFooterRecord_encoded_len_def SnapshotFooterRecord_decode_def Let_def
    by (use w[unfolded SnapshotFooterRecord_wf_def SnapshotFooterRecord_fields_wf_def Let_def] in \<open>elim conjE\<close>, rule carries_cong_len)
      ((rule carries_rules | (erule absent_guarded, assumption) | erule absent_plain
        | simp add: v field_ok_def SnapshotFooterRecord_default_def snapshot_footer_record_versions)+)
next
  show "yields 1 (SnapshotFooterRecord_decode version) (SnapshotFooterRecord_wf version)"
    by (rule case_split[OF snapshot_footer_record_yields]) (auto simp: SnapshotFooterRecord_decode_def Let_def yields_refused yields_unsupported)
  show "extends_input (SnapshotFooterRecord_decode version)"
    unfolding SnapshotFooterRecord_decode_def Let_def by (intro extends_rules)
qed

section \<open>VotersRecord\<close>

record VotersRecord_Endpoint =
  vr_e_name :: bytes
  vr_e_host :: bytes
  vr_e_port :: u16
  vr_e_unknown_tagged_fields :: "UnknownTaggedField list"

definition VotersRecord_Endpoint_default :: VotersRecord_Endpoint where
  "VotersRecord_Endpoint_default =
     \<lparr>vr_e_name = [], vr_e_host = [], vr_e_port = 0, vr_e_unknown_tagged_fields = []\<rparr>"

definition VotersRecord_Endpoint_encode :: "VotersRecord_Endpoint \<Rightarrow> i16 \<Rightarrow> encoder" where
  "VotersRecord_Endpoint_encode x version =
     (let flex = 0 \<le>s version in
      write_all
        [put_when (0 \<le>s version) (put_str flex (vr_e_name x)),
         put_when (0 \<le>s version) (put_str flex (vr_e_host x)),
         put_when (0 \<le>s version) (put_u16 (vr_e_port x)),
         put_when flex (put_tagged [] (vr_e_unknown_tagged_fields x))])"

definition VotersRecord_Endpoint_encoded_len :: "VotersRecord_Endpoint \<Rightarrow> i16 \<Rightarrow> nat" where
  "VotersRecord_Endpoint_encoded_len x version =
     (let flex = 0 \<le>s version in
      len_when (0 \<le>s version) (str_len flex (vr_e_name x))
      + len_when (0 \<le>s version) (str_len flex (vr_e_host x))
      + len_when (0 \<le>s version) 2
      + len_when flex (tagged_size [] (vr_e_unknown_tagged_fields x)))"

definition VotersRecord_Endpoint_decode :: "i16 \<Rightarrow> VotersRecord_Endpoint decoder" where
  "VotersRecord_Endpoint_decode version =
     (let flex = 0 \<le>s version in
      read_then (get_into (0 \<le>s version) (get_str flex) (\<lambda>v out. out\<lparr>vr_e_name := v\<rparr>) VotersRecord_Endpoint_default) (\<lambda>out.
        read_then (get_into (0 \<le>s version) (get_str flex) (\<lambda>v out. out\<lparr>vr_e_host := v\<rparr>) out) (\<lambda>out.
        read_then (get_into (0 \<le>s version) get_u16 (\<lambda>v out. out\<lparr>vr_e_port := v\<rparr>) out) (\<lambda>out.
        get_trailer flex [] (\<lambda>u out. out\<lparr>vr_e_unknown_tagged_fields := u\<rparr>) out))))"

definition VotersRecord_Endpoint_fields_wf :: "i16 \<Rightarrow> VotersRecord_Endpoint \<Rightarrow> bool" where
  "VotersRecord_Endpoint_fields_wf version x \<longleftrightarrow>
     (let flex = 0 \<le>s version in
      str_wf flex (vr_e_name x)
      \<and> str_wf flex (vr_e_host x))"

definition VotersRecord_Endpoint_wf :: "i16 \<Rightarrow> VotersRecord_Endpoint \<Rightarrow> bool" where
  "VotersRecord_Endpoint_wf version x \<longleftrightarrow>
     VotersRecord_Endpoint_fields_wf version x \<and> trailer_ok [] [] (vr_e_unknown_tagged_fields x)"

lemmas voters_record_endpoint_fields =
    Let_def field_ok_def VotersRecord_Endpoint_fields_wf_def

lemma voters_record_endpoint_steps:
  assumes v: "0 \<le>s version" and flex: "flex = (0 \<le>s version)"
  shows "keeps (VotersRecord_Endpoint_fields_wf version) (get_into (0 \<le>s version) (get_str flex) (\<lambda>v out. out\<lparr>vr_e_name := v\<rparr>))"
    and "keeps (VotersRecord_Endpoint_fields_wf version) (get_into (0 \<le>s version) (get_str flex) (\<lambda>v out. out\<lparr>vr_e_host := v\<rparr>))"
    and "keeps (VotersRecord_Endpoint_fields_wf version) (get_into (0 \<le>s version) get_u16 (\<lambda>v out. out\<lparr>vr_e_port := v\<rparr>))"
  unfolding flex 
  by (rule keeps_into; (rule yields_rules)?; simp add: v voters_record_endpoint_fields)+

lemma voters_record_endpoint_unknown:
  "VotersRecord_Endpoint_fields_wf version (s\<lparr>vr_e_unknown_tagged_fields := u\<rparr>) = VotersRecord_Endpoint_fields_wf version s"
  by (simp_all add: VotersRecord_Endpoint_fields_wf_def)

lemma voters_record_endpoint_yields:
  assumes v: "0 \<le>s version"
  shows "yields 1 (VotersRecord_Endpoint_decode version) (VotersRecord_Endpoint_wf version)"
proof -
  have d: "VotersRecord_Endpoint_fields_wf version VotersRecord_Endpoint_default"
    by (simp add: VotersRecord_Endpoint_default_def v voters_record_endpoint_fields)
  show ?thesis
    unfolding VotersRecord_Endpoint_decode_def Let_def
    by ((rule voters_record_endpoint_steps[OF v refl, THEN yields_step], (rule d | assumption))+, rule yields_trailer[OF _ arms_keep_Nil[of "VotersRecord_Endpoint_fields_wf version" "\<lambda>_. 0"]])
      (simp_all add: v d voters_record_endpoint_unknown VotersRecord_Endpoint_wf_def trailer_ok_def )
qed

lemma voters_record_endpoint_extends [extends_rules]: "extends_input (VotersRecord_Endpoint_decode version)"
  unfolding VotersRecord_Endpoint_decode_def Let_def by (intro extends_rules)

lemma voters_record_endpoint_codec:
  assumes v: "0 \<le>s version"
  shows "message_codec VotersRecord_Endpoint_encode VotersRecord_Endpoint_decode VotersRecord_Endpoint_encoded_len (VotersRecord_Endpoint_wf version) version"
proof
  fix x
  assume w: "VotersRecord_Endpoint_wf version x"
  show "carries (VotersRecord_Endpoint_encode x version) (VotersRecord_Endpoint_decode version) (VotersRecord_Endpoint_encoded_len x version) x"
    unfolding VotersRecord_Endpoint_encode_def VotersRecord_Endpoint_encoded_len_def VotersRecord_Endpoint_decode_def Let_def
    by (use w[unfolded VotersRecord_Endpoint_wf_def VotersRecord_Endpoint_fields_wf_def Let_def] in \<open>elim conjE\<close>, rule carries_cong_len)
      ((rule carries_rules | (erule absent_guarded, assumption) | erule absent_plain
        | simp add: v field_ok_def VotersRecord_Endpoint_default_def )+)
next
  show "yields 1 (VotersRecord_Endpoint_decode version) (VotersRecord_Endpoint_wf version)"
    by (rule voters_record_endpoint_yields[OF v])
qed (rule voters_record_endpoint_extends)

lemma voters_record_endpoint_default_wf [simp]: "0 \<le>s version \<Longrightarrow> VotersRecord_Endpoint_wf version VotersRecord_Endpoint_default"
  by (simp add: VotersRecord_Endpoint_wf_def VotersRecord_Endpoint_default_def trailer_ok_def voters_record_endpoint_fields)

lemmas [carries_rules] = message_codec.message_carries[OF voters_record_endpoint_codec]
lemmas [yields_rules] = message_codec.message_yields[OF voters_record_endpoint_codec]

lemmas [carries_rules] = protocol_codec.put_array_carries[OF message_codec.message_protocol[OF voters_record_endpoint_codec]]
lemmas [yields_rules] = protocol_codec.get_array_yields[OF message_codec.message_protocol[OF voters_record_endpoint_codec]]
lemmas [carries_rules] = protocol_codec.put_nullable_array_carries[OF message_codec.message_protocol[OF voters_record_endpoint_codec]]
lemmas [yields_rules] = protocol_codec.get_nullable_array_yields[OF message_codec.message_protocol[OF voters_record_endpoint_codec]]

record VotersRecord_KRaftVersionFeature =
  vr_krvf_min_supported_version :: i16
  vr_krvf_max_supported_version :: i16
  vr_krvf_unknown_tagged_fields :: "UnknownTaggedField list"

definition VotersRecord_KRaftVersionFeature_default :: VotersRecord_KRaftVersionFeature where
  "VotersRecord_KRaftVersionFeature_default =
     \<lparr>vr_krvf_min_supported_version = 0, vr_krvf_max_supported_version = 0, vr_krvf_unknown_tagged_fields = []\<rparr>"

definition VotersRecord_KRaftVersionFeature_encode :: "VotersRecord_KRaftVersionFeature \<Rightarrow> i16 \<Rightarrow> encoder" where
  "VotersRecord_KRaftVersionFeature_encode x version =
     (let flex = 0 \<le>s version in
      write_all
        [put_when (0 \<le>s version) (put_i16 (vr_krvf_min_supported_version x)),
         put_when (0 \<le>s version) (put_i16 (vr_krvf_max_supported_version x)),
         put_when flex (put_tagged [] (vr_krvf_unknown_tagged_fields x))])"

definition VotersRecord_KRaftVersionFeature_encoded_len :: "VotersRecord_KRaftVersionFeature \<Rightarrow> i16 \<Rightarrow> nat" where
  "VotersRecord_KRaftVersionFeature_encoded_len x version =
     (let flex = 0 \<le>s version in
      len_when (0 \<le>s version) 2
      + len_when (0 \<le>s version) 2
      + len_when flex (tagged_size [] (vr_krvf_unknown_tagged_fields x)))"

definition VotersRecord_KRaftVersionFeature_decode :: "i16 \<Rightarrow> VotersRecord_KRaftVersionFeature decoder" where
  "VotersRecord_KRaftVersionFeature_decode version =
     (let flex = 0 \<le>s version in
      read_then (get_into (0 \<le>s version) get_i16 (\<lambda>v out. out\<lparr>vr_krvf_min_supported_version := v\<rparr>) VotersRecord_KRaftVersionFeature_default) (\<lambda>out.
        read_then (get_into (0 \<le>s version) get_i16 (\<lambda>v out. out\<lparr>vr_krvf_max_supported_version := v\<rparr>) out) (\<lambda>out.
        get_trailer flex [] (\<lambda>u out. out\<lparr>vr_krvf_unknown_tagged_fields := u\<rparr>) out)))"

definition VotersRecord_KRaftVersionFeature_fields_wf :: "i16 \<Rightarrow> VotersRecord_KRaftVersionFeature \<Rightarrow> bool" where
  "VotersRecord_KRaftVersionFeature_fields_wf version x \<longleftrightarrow>
     True"

definition VotersRecord_KRaftVersionFeature_wf :: "i16 \<Rightarrow> VotersRecord_KRaftVersionFeature \<Rightarrow> bool" where
  "VotersRecord_KRaftVersionFeature_wf version x \<longleftrightarrow>
     VotersRecord_KRaftVersionFeature_fields_wf version x \<and> trailer_ok [] [] (vr_krvf_unknown_tagged_fields x)"

lemmas voters_record_k_raft_version_feature_fields =
    Let_def field_ok_def VotersRecord_KRaftVersionFeature_fields_wf_def

lemma voters_record_k_raft_version_feature_steps:
  assumes v: "0 \<le>s version" and flex: "flex = (0 \<le>s version)"
  shows "keeps (VotersRecord_KRaftVersionFeature_fields_wf version) (get_into (0 \<le>s version) get_i16 (\<lambda>v out. out\<lparr>vr_krvf_min_supported_version := v\<rparr>))"
    and "keeps (VotersRecord_KRaftVersionFeature_fields_wf version) (get_into (0 \<le>s version) get_i16 (\<lambda>v out. out\<lparr>vr_krvf_max_supported_version := v\<rparr>))"
  unfolding flex 
  by (rule keeps_into; (rule yields_rules)?; simp add: v voters_record_k_raft_version_feature_fields)+

lemma voters_record_k_raft_version_feature_unknown:
  "VotersRecord_KRaftVersionFeature_fields_wf version (s\<lparr>vr_krvf_unknown_tagged_fields := u\<rparr>) = VotersRecord_KRaftVersionFeature_fields_wf version s"
  by (simp_all add: VotersRecord_KRaftVersionFeature_fields_wf_def)

lemma voters_record_k_raft_version_feature_yields:
  assumes v: "0 \<le>s version"
  shows "yields 1 (VotersRecord_KRaftVersionFeature_decode version) (VotersRecord_KRaftVersionFeature_wf version)"
proof -
  have d: "VotersRecord_KRaftVersionFeature_fields_wf version VotersRecord_KRaftVersionFeature_default"
    by (simp add: VotersRecord_KRaftVersionFeature_default_def v voters_record_k_raft_version_feature_fields)
  show ?thesis
    unfolding VotersRecord_KRaftVersionFeature_decode_def Let_def
    by ((rule voters_record_k_raft_version_feature_steps[OF v refl, THEN yields_step], (rule d | assumption))+, rule yields_trailer[OF _ arms_keep_Nil[of "VotersRecord_KRaftVersionFeature_fields_wf version" "\<lambda>_. 0"]])
      (simp_all add: v d voters_record_k_raft_version_feature_unknown VotersRecord_KRaftVersionFeature_wf_def trailer_ok_def )
qed

lemma voters_record_k_raft_version_feature_extends [extends_rules]: "extends_input (VotersRecord_KRaftVersionFeature_decode version)"
  unfolding VotersRecord_KRaftVersionFeature_decode_def Let_def by (intro extends_rules)

lemma voters_record_k_raft_version_feature_codec:
  assumes v: "0 \<le>s version"
  shows "message_codec VotersRecord_KRaftVersionFeature_encode VotersRecord_KRaftVersionFeature_decode VotersRecord_KRaftVersionFeature_encoded_len (VotersRecord_KRaftVersionFeature_wf version) version"
proof
  fix x
  assume w: "VotersRecord_KRaftVersionFeature_wf version x"
  show "carries (VotersRecord_KRaftVersionFeature_encode x version) (VotersRecord_KRaftVersionFeature_decode version) (VotersRecord_KRaftVersionFeature_encoded_len x version) x"
    unfolding VotersRecord_KRaftVersionFeature_encode_def VotersRecord_KRaftVersionFeature_encoded_len_def VotersRecord_KRaftVersionFeature_decode_def Let_def
    by (use w[unfolded VotersRecord_KRaftVersionFeature_wf_def VotersRecord_KRaftVersionFeature_fields_wf_def Let_def] in \<open>elim conjE\<close>, rule carries_cong_len)
      ((rule carries_rules | (erule absent_guarded, assumption) | erule absent_plain
        | simp add: v field_ok_def VotersRecord_KRaftVersionFeature_default_def )+)
next
  show "yields 1 (VotersRecord_KRaftVersionFeature_decode version) (VotersRecord_KRaftVersionFeature_wf version)"
    by (rule voters_record_k_raft_version_feature_yields[OF v])
qed (rule voters_record_k_raft_version_feature_extends)

lemma voters_record_k_raft_version_feature_default_wf [simp]: "0 \<le>s version \<Longrightarrow> VotersRecord_KRaftVersionFeature_wf version VotersRecord_KRaftVersionFeature_default"
  by (simp add: VotersRecord_KRaftVersionFeature_wf_def VotersRecord_KRaftVersionFeature_default_def trailer_ok_def voters_record_k_raft_version_feature_fields)

lemmas [carries_rules] = message_codec.message_carries[OF voters_record_k_raft_version_feature_codec]
lemmas [yields_rules] = message_codec.message_yields[OF voters_record_k_raft_version_feature_codec]

lemmas [carries_rules] = protocol_codec.put_array_carries[OF message_codec.message_protocol[OF voters_record_k_raft_version_feature_codec]]
lemmas [yields_rules] = protocol_codec.get_array_yields[OF message_codec.message_protocol[OF voters_record_k_raft_version_feature_codec]]
lemmas [carries_rules] = protocol_codec.put_nullable_array_carries[OF message_codec.message_protocol[OF voters_record_k_raft_version_feature_codec]]
lemmas [yields_rules] = protocol_codec.get_nullable_array_yields[OF message_codec.message_protocol[OF voters_record_k_raft_version_feature_codec]]

record VotersRecord_Voter =
  vr_v_voter_id :: i32
  vr_v_voter_directory_id :: Uuid
  vr_v_endpoints :: "VotersRecord_Endpoint list"
  vr_v_k_raft_version_feature :: VotersRecord_KRaftVersionFeature
  vr_v_unknown_tagged_fields :: "UnknownTaggedField list"

definition VotersRecord_Voter_default :: VotersRecord_Voter where
  "VotersRecord_Voter_default =
     \<lparr>vr_v_voter_id = 0, vr_v_voter_directory_id = Uuid_ZERO, vr_v_endpoints = [], vr_v_k_raft_version_feature = VotersRecord_KRaftVersionFeature_default, vr_v_unknown_tagged_fields = []\<rparr>"

definition VotersRecord_Voter_encode :: "VotersRecord_Voter \<Rightarrow> i16 \<Rightarrow> encoder" where
  "VotersRecord_Voter_encode x version =
     (let flex = 0 \<le>s version in
      write_all
        [put_when (0 \<le>s version) (put_i32 (vr_v_voter_id x)),
         put_when (0 \<le>s version) (put_uuid (vr_v_voter_directory_id x)),
         put_when (0 \<le>s version) (put_array flex (\<lambda>it. VotersRecord_Endpoint_encode it version) (vr_v_endpoints x)),
         put_when (0 \<le>s version) ((\<lambda>it. VotersRecord_KRaftVersionFeature_encode it version) (vr_v_k_raft_version_feature x)),
         put_when flex (put_tagged [] (vr_v_unknown_tagged_fields x))])"

definition VotersRecord_Voter_encoded_len :: "VotersRecord_Voter \<Rightarrow> i16 \<Rightarrow> nat" where
  "VotersRecord_Voter_encoded_len x version =
     (let flex = 0 \<le>s version in
      len_when (0 \<le>s version) 4
      + len_when (0 \<le>s version) 16
      + len_when (0 \<le>s version) (array_size flex (\<lambda>it. VotersRecord_Endpoint_encoded_len it version) (vr_v_endpoints x))
      + len_when (0 \<le>s version) (VotersRecord_KRaftVersionFeature_encoded_len (vr_v_k_raft_version_feature x) version)
      + len_when flex (tagged_size [] (vr_v_unknown_tagged_fields x)))"

definition VotersRecord_Voter_decode :: "i16 \<Rightarrow> VotersRecord_Voter decoder" where
  "VotersRecord_Voter_decode version =
     (let flex = 0 \<le>s version in
      read_then (get_into (0 \<le>s version) get_i32 (\<lambda>v out. out\<lparr>vr_v_voter_id := v\<rparr>) VotersRecord_Voter_default) (\<lambda>out.
        read_then (get_into (0 \<le>s version) get_uuid (\<lambda>v out. out\<lparr>vr_v_voter_directory_id := v\<rparr>) out) (\<lambda>out.
        read_then (get_into (0 \<le>s version) (get_array flex (VotersRecord_Endpoint_decode version)) (\<lambda>v out. out\<lparr>vr_v_endpoints := v\<rparr>) out) (\<lambda>out.
        read_then (get_into (0 \<le>s version) (VotersRecord_KRaftVersionFeature_decode version) (\<lambda>v out. out\<lparr>vr_v_k_raft_version_feature := v\<rparr>) out) (\<lambda>out.
        get_trailer flex [] (\<lambda>u out. out\<lparr>vr_v_unknown_tagged_fields := u\<rparr>) out)))))"

definition VotersRecord_Voter_fields_wf :: "i16 \<Rightarrow> VotersRecord_Voter \<Rightarrow> bool" where
  "VotersRecord_Voter_fields_wf version x \<longleftrightarrow>
     (let flex = 0 \<le>s version in
      uuid_wf (vr_v_voter_directory_id x)
      \<and> array_ok flex (VotersRecord_Endpoint_wf version) (vr_v_endpoints x)
      \<and> VotersRecord_KRaftVersionFeature_wf version (vr_v_k_raft_version_feature x))"

definition VotersRecord_Voter_wf :: "i16 \<Rightarrow> VotersRecord_Voter \<Rightarrow> bool" where
  "VotersRecord_Voter_wf version x \<longleftrightarrow>
     VotersRecord_Voter_fields_wf version x \<and> trailer_ok [] [] (vr_v_unknown_tagged_fields x)"

lemmas voters_record_voter_fields =
    Let_def field_ok_def VotersRecord_Voter_fields_wf_def

lemma voters_record_voter_steps:
  assumes v: "0 \<le>s version" and flex: "flex = (0 \<le>s version)"
  shows "keeps (VotersRecord_Voter_fields_wf version) (get_into (0 \<le>s version) get_i32 (\<lambda>v out. out\<lparr>vr_v_voter_id := v\<rparr>))"
    and "keeps (VotersRecord_Voter_fields_wf version) (get_into (0 \<le>s version) get_uuid (\<lambda>v out. out\<lparr>vr_v_voter_directory_id := v\<rparr>))"
    and "keeps (VotersRecord_Voter_fields_wf version) (get_into (0 \<le>s version) (get_array flex (VotersRecord_Endpoint_decode version)) (\<lambda>v out. out\<lparr>vr_v_endpoints := v\<rparr>))"
    and "keeps (VotersRecord_Voter_fields_wf version) (get_into (0 \<le>s version) (VotersRecord_KRaftVersionFeature_decode version) (\<lambda>v out. out\<lparr>vr_v_k_raft_version_feature := v\<rparr>))"
  unfolding flex 
  by (rule keeps_into; (rule yields_rules)?; simp add: v voters_record_voter_fields)+

lemma voters_record_voter_unknown:
  "VotersRecord_Voter_fields_wf version (s\<lparr>vr_v_unknown_tagged_fields := u\<rparr>) = VotersRecord_Voter_fields_wf version s"
  by (simp_all add: VotersRecord_Voter_fields_wf_def)

lemma voters_record_voter_yields:
  assumes v: "0 \<le>s version"
  shows "yields 1 (VotersRecord_Voter_decode version) (VotersRecord_Voter_wf version)"
proof -
  have d: "VotersRecord_Voter_fields_wf version VotersRecord_Voter_default"
    by (simp add: VotersRecord_Voter_default_def v voters_record_voter_fields)
  show ?thesis
    unfolding VotersRecord_Voter_decode_def Let_def
    by ((rule voters_record_voter_steps[OF v refl, THEN yields_step], (rule d | assumption))+, rule yields_trailer[OF _ arms_keep_Nil[of "VotersRecord_Voter_fields_wf version" "\<lambda>_. 0"]])
      (simp_all add: v d voters_record_voter_unknown VotersRecord_Voter_wf_def trailer_ok_def )
qed

lemma voters_record_voter_extends [extends_rules]: "extends_input (VotersRecord_Voter_decode version)"
  unfolding VotersRecord_Voter_decode_def Let_def by (intro extends_rules)

lemma voters_record_voter_codec:
  assumes v: "0 \<le>s version"
  shows "message_codec VotersRecord_Voter_encode VotersRecord_Voter_decode VotersRecord_Voter_encoded_len (VotersRecord_Voter_wf version) version"
proof
  fix x
  assume w: "VotersRecord_Voter_wf version x"
  show "carries (VotersRecord_Voter_encode x version) (VotersRecord_Voter_decode version) (VotersRecord_Voter_encoded_len x version) x"
    unfolding VotersRecord_Voter_encode_def VotersRecord_Voter_encoded_len_def VotersRecord_Voter_decode_def Let_def
    by (use w[unfolded VotersRecord_Voter_wf_def VotersRecord_Voter_fields_wf_def Let_def] in \<open>elim conjE\<close>, rule carries_cong_len)
      ((rule carries_rules | (erule absent_guarded, assumption) | erule absent_plain
        | simp add: v field_ok_def VotersRecord_Voter_default_def )+)
next
  show "yields 1 (VotersRecord_Voter_decode version) (VotersRecord_Voter_wf version)"
    by (rule voters_record_voter_yields[OF v])
qed (rule voters_record_voter_extends)

lemma voters_record_voter_default_wf [simp]: "0 \<le>s version \<Longrightarrow> VotersRecord_Voter_wf version VotersRecord_Voter_default"
  by (simp add: VotersRecord_Voter_wf_def VotersRecord_Voter_default_def trailer_ok_def voters_record_voter_fields)

lemmas [carries_rules] = message_codec.message_carries[OF voters_record_voter_codec]
lemmas [yields_rules] = message_codec.message_yields[OF voters_record_voter_codec]

lemmas [carries_rules] = protocol_codec.put_array_carries[OF message_codec.message_protocol[OF voters_record_voter_codec]]
lemmas [yields_rules] = protocol_codec.get_array_yields[OF message_codec.message_protocol[OF voters_record_voter_codec]]
lemmas [carries_rules] = protocol_codec.put_nullable_array_carries[OF message_codec.message_protocol[OF voters_record_voter_codec]]
lemmas [yields_rules] = protocol_codec.get_nullable_array_yields[OF message_codec.message_protocol[OF voters_record_voter_codec]]

record VotersRecord =
  vr_version :: i16
  vr_voters :: "VotersRecord_Voter list"
  vr_unknown_tagged_fields :: "UnknownTaggedField list"

definition VotersRecord_default :: VotersRecord where
  "VotersRecord_default =
     \<lparr>vr_version = 0, vr_voters = [], vr_unknown_tagged_fields = []\<rparr>"

definition VotersRecord_MIN_VERSION :: i16 where
  "VotersRecord_MIN_VERSION = 0"

definition VotersRecord_MAX_VERSION :: i16 where
  "VotersRecord_MAX_VERSION = 0"

definition VotersRecord_FLEXIBLE_MIN :: i16 where
  "VotersRecord_FLEXIBLE_MIN = 0"

definition VotersRecord_is_flexible :: "i16 \<Rightarrow> bool" where
  "VotersRecord_is_flexible version \<longleftrightarrow> VotersRecord_FLEXIBLE_MIN \<le>s version"

definition VotersRecord_encode :: "VotersRecord \<Rightarrow> i16 \<Rightarrow> encoder" where
  "VotersRecord_encode x version =
     (let flex = VotersRecord_is_flexible version in
      write_all
        [write_check (contains_version VotersRecord_MIN_VERSION VotersRecord_MAX_VERSION ''VotersRecord version out of range'' version),
         put_when (0 \<le>s version) (put_i16 (vr_version x)),
         put_when (0 \<le>s version) (put_array flex (\<lambda>it. VotersRecord_Voter_encode it version) (vr_voters x)),
         put_when flex (put_tagged [] (vr_unknown_tagged_fields x))])"

definition VotersRecord_encoded_len :: "VotersRecord \<Rightarrow> i16 \<Rightarrow> nat" where
  "VotersRecord_encoded_len x version =
     (let flex = VotersRecord_is_flexible version in
      len_when (0 \<le>s version) 2
      + len_when (0 \<le>s version) (array_size flex (\<lambda>it. VotersRecord_Voter_encoded_len it version) (vr_voters x))
      + len_when flex (tagged_size [] (vr_unknown_tagged_fields x)))"

definition VotersRecord_decode :: "i16 \<Rightarrow> VotersRecord decoder" where
  "VotersRecord_decode version =
     (let flex = VotersRecord_is_flexible version in
      checked (contains_version VotersRecord_MIN_VERSION VotersRecord_MAX_VERSION ''VotersRecord version out of range'' version) (
        read_then (get_into (0 \<le>s version) get_i16 (\<lambda>v out. out\<lparr>vr_version := v\<rparr>) VotersRecord_default) (\<lambda>out.
        read_then (get_into (0 \<le>s version) (get_array flex (VotersRecord_Voter_decode version)) (\<lambda>v out. out\<lparr>vr_voters := v\<rparr>) out) (\<lambda>out.
        get_trailer flex [] (\<lambda>u out. out\<lparr>vr_unknown_tagged_fields := u\<rparr>) out))))"

definition VotersRecord_fields_wf :: "i16 \<Rightarrow> VotersRecord \<Rightarrow> bool" where
  "VotersRecord_fields_wf version x \<longleftrightarrow>
     (let flex = VotersRecord_is_flexible version in
      array_ok flex (VotersRecord_Voter_wf version) (vr_voters x))"

definition VotersRecord_wf :: "i16 \<Rightarrow> VotersRecord \<Rightarrow> bool" where
  "VotersRecord_wf version x \<longleftrightarrow>
     version_in VotersRecord_MIN_VERSION VotersRecord_MAX_VERSION version \<and> VotersRecord_fields_wf version x \<and> trailer_ok [] [] (vr_unknown_tagged_fields x)"

lemmas voters_record_versions =
    VotersRecord_is_flexible_def VotersRecord_FLEXIBLE_MIN_def VotersRecord_MIN_VERSION_def
    VotersRecord_MAX_VERSION_def version_in_def

lemmas voters_record_fields =
    Let_def field_ok_def VotersRecord_fields_wf_def VotersRecord_is_flexible_def VotersRecord_FLEXIBLE_MIN_def

lemma voters_record_steps:
  assumes v: "0 \<le>s version" and flex: "flex = (VotersRecord_is_flexible version)"
  shows "keeps (VotersRecord_fields_wf version) (get_into (0 \<le>s version) get_i16 (\<lambda>v out. out\<lparr>vr_version := v\<rparr>))"
    and "keeps (VotersRecord_fields_wf version) (get_into (0 \<le>s version) (get_array flex (VotersRecord_Voter_decode version)) (\<lambda>v out. out\<lparr>vr_voters := v\<rparr>))"
  unfolding flex 
  by (rule keeps_into; (rule yields_rules)?; simp add: v voters_record_fields)+

lemma voters_record_unknown:
  "VotersRecord_fields_wf version (s\<lparr>vr_unknown_tagged_fields := u\<rparr>) = VotersRecord_fields_wf version s"
  by (simp_all add: VotersRecord_fields_wf_def)

lemma voters_record_yields:
  assumes r: "version_in VotersRecord_MIN_VERSION VotersRecord_MAX_VERSION version"
  shows "yields 1 (VotersRecord_decode version) (VotersRecord_wf version)"
proof -
  have v: "0 \<le>s version"
    using r by (simp add: voters_record_versions)
  have d: "VotersRecord_fields_wf version VotersRecord_default"
    by (simp add: VotersRecord_default_def v voters_record_fields)
  show ?thesis
    unfolding VotersRecord_decode_def Let_def
    by (rule yields_checked, (rule voters_record_steps[OF v refl, THEN yields_step], (rule d | assumption))+, rule yields_trailer[OF _ arms_keep_Nil[of "VotersRecord_fields_wf version" "\<lambda>_. 0"]])
      (simp_all add: v d voters_record_unknown VotersRecord_wf_def trailer_ok_def r VotersRecord_is_flexible_def VotersRecord_FLEXIBLE_MIN_def)
qed

interpretation voters_record: message_codec
  VotersRecord_encode VotersRecord_decode VotersRecord_encoded_len "VotersRecord_wf version" version
  for version
proof
  fix x
  assume w: "VotersRecord_wf version x"
  then have v: "0 \<le>s version"
    by (simp add: VotersRecord_wf_def voters_record_versions)
  show "carries (VotersRecord_encode x version) (VotersRecord_decode version) (VotersRecord_encoded_len x version) x"
    unfolding VotersRecord_encode_def VotersRecord_encoded_len_def VotersRecord_decode_def Let_def
    by (use w[unfolded VotersRecord_wf_def VotersRecord_fields_wf_def Let_def] in \<open>elim conjE\<close>, rule carries_cong_len)
      ((rule carries_rules | (erule absent_guarded, assumption) | erule absent_plain
        | simp add: v field_ok_def VotersRecord_default_def voters_record_versions)+)
next
  show "yields 1 (VotersRecord_decode version) (VotersRecord_wf version)"
    by (rule case_split[OF voters_record_yields]) (auto simp: VotersRecord_decode_def Let_def yields_refused yields_unsupported)
  show "extends_input (VotersRecord_decode version)"
    unfolding VotersRecord_decode_def Let_def by (intro extends_rules)
qed

end
