(* ===== verification/ControllerMessages.thy ===== *)
theory ControllerMessages
  imports GeneratedCodec
begin

text \<open>
  The generated codecs of the messages about brokers and controllers: registration, heartbeats, producer ids,
  directory assignments, reassignments
  (\<open>crates/protocol/generated/*.owned.rs\<close>): the structs with their defaults, and \<open>encode\<close>, \<open>encoded_len\<close> and
  \<open>decode\<close> put together from the shapes of \<open>GeneratedCodec\<close>. A nested struct \<open>S\<close> of a message \<open>M\<close> is \<open>M_S\<close>.
  \<open>M_wf\<close> says which messages can be written at a version: a field that the version does not carry holds its
  default, and lengths fit their prefixes. The interpretation of \<open>message_codec\<close> after each message
  discharges the contract of a versioned message for its three methods.
\<close>

section \<open>BrokerRegistrationRequest\<close>

record BrokerRegistrationRequest_Listener =
  br_req_l_name :: bytes
  br_req_l_host :: bytes
  br_req_l_port :: u16
  br_req_l_security_protocol :: i16
  br_req_l_unknown_tagged_fields :: "UnknownTaggedField list"

definition BrokerRegistrationRequest_Listener_default :: BrokerRegistrationRequest_Listener where
  "BrokerRegistrationRequest_Listener_default =
     \<lparr>br_req_l_name = [], br_req_l_host = [], br_req_l_port = 0, br_req_l_security_protocol = 0, br_req_l_unknown_tagged_fields = []\<rparr>"

definition BrokerRegistrationRequest_Listener_encode :: "BrokerRegistrationRequest_Listener \<Rightarrow> i16 \<Rightarrow> encoder" where
  "BrokerRegistrationRequest_Listener_encode x version =
     (let flex = 0 \<le>s version in
      write_all
        [put_when (0 \<le>s version) (put_str flex (br_req_l_name x)),
         put_when (0 \<le>s version) (put_str flex (br_req_l_host x)),
         put_when (0 \<le>s version) (put_u16 (br_req_l_port x)),
         put_when (0 \<le>s version) (put_i16 (br_req_l_security_protocol x)),
         put_when flex (put_tagged [] (br_req_l_unknown_tagged_fields x))])"

definition BrokerRegistrationRequest_Listener_encoded_len :: "BrokerRegistrationRequest_Listener \<Rightarrow> i16 \<Rightarrow> nat" where
  "BrokerRegistrationRequest_Listener_encoded_len x version =
     (let flex = 0 \<le>s version in
      len_when (0 \<le>s version) (str_len flex (br_req_l_name x))
      + len_when (0 \<le>s version) (str_len flex (br_req_l_host x))
      + len_when (0 \<le>s version) 2
      + len_when (0 \<le>s version) 2
      + len_when flex (tagged_size [] (br_req_l_unknown_tagged_fields x)))"

definition BrokerRegistrationRequest_Listener_decode :: "i16 \<Rightarrow> BrokerRegistrationRequest_Listener decoder" where
  "BrokerRegistrationRequest_Listener_decode version =
     (let flex = 0 \<le>s version in
      read_then (get_into (0 \<le>s version) (get_str flex) (\<lambda>v out. out\<lparr>br_req_l_name := v\<rparr>) BrokerRegistrationRequest_Listener_default) (\<lambda>out.
        read_then (get_into (0 \<le>s version) (get_str flex) (\<lambda>v out. out\<lparr>br_req_l_host := v\<rparr>) out) (\<lambda>out.
        read_then (get_into (0 \<le>s version) get_u16 (\<lambda>v out. out\<lparr>br_req_l_port := v\<rparr>) out) (\<lambda>out.
        read_then (get_into (0 \<le>s version) get_i16 (\<lambda>v out. out\<lparr>br_req_l_security_protocol := v\<rparr>) out) (\<lambda>out.
        get_trailer flex [] (\<lambda>u out. out\<lparr>br_req_l_unknown_tagged_fields := u\<rparr>) out)))))"

definition BrokerRegistrationRequest_Listener_fields_wf :: "i16 \<Rightarrow> BrokerRegistrationRequest_Listener \<Rightarrow> bool" where
  "BrokerRegistrationRequest_Listener_fields_wf version x \<longleftrightarrow>
     (let flex = 0 \<le>s version in
      str_wf flex (br_req_l_name x)
      \<and> str_wf flex (br_req_l_host x))"

definition BrokerRegistrationRequest_Listener_wf :: "i16 \<Rightarrow> BrokerRegistrationRequest_Listener \<Rightarrow> bool" where
  "BrokerRegistrationRequest_Listener_wf version x \<longleftrightarrow>
     BrokerRegistrationRequest_Listener_fields_wf version x \<and> trailer_ok [] [] (br_req_l_unknown_tagged_fields x)"

lemmas broker_registration_request_listener_fields =
    Let_def field_ok_def BrokerRegistrationRequest_Listener_fields_wf_def

lemma broker_registration_request_listener_steps:
  assumes v: "0 \<le>s version" and flex: "flex = (0 \<le>s version)"
  shows "keeps (BrokerRegistrationRequest_Listener_fields_wf version) (get_into (0 \<le>s version) (get_str flex) (\<lambda>v out. out\<lparr>br_req_l_name := v\<rparr>))"
    and "keeps (BrokerRegistrationRequest_Listener_fields_wf version) (get_into (0 \<le>s version) (get_str flex) (\<lambda>v out. out\<lparr>br_req_l_host := v\<rparr>))"
    and "keeps (BrokerRegistrationRequest_Listener_fields_wf version) (get_into (0 \<le>s version) get_u16 (\<lambda>v out. out\<lparr>br_req_l_port := v\<rparr>))"
    and "keeps (BrokerRegistrationRequest_Listener_fields_wf version) (get_into (0 \<le>s version) get_i16 (\<lambda>v out. out\<lparr>br_req_l_security_protocol := v\<rparr>))"
  unfolding flex 
  by (rule keeps_into; (rule yields_rules)?; simp add: v broker_registration_request_listener_fields)+

lemma broker_registration_request_listener_unknown:
  "BrokerRegistrationRequest_Listener_fields_wf version (s\<lparr>br_req_l_unknown_tagged_fields := u\<rparr>) = BrokerRegistrationRequest_Listener_fields_wf version s"
  by (simp_all add: BrokerRegistrationRequest_Listener_fields_wf_def)

lemma broker_registration_request_listener_yields:
  assumes v: "0 \<le>s version"
  shows "yields 1 (BrokerRegistrationRequest_Listener_decode version) (BrokerRegistrationRequest_Listener_wf version)"
proof -
  have d: "BrokerRegistrationRequest_Listener_fields_wf version BrokerRegistrationRequest_Listener_default"
    by (simp add: BrokerRegistrationRequest_Listener_default_def v broker_registration_request_listener_fields)
  show ?thesis
    unfolding BrokerRegistrationRequest_Listener_decode_def Let_def
    by ((rule broker_registration_request_listener_steps[OF v refl, THEN yields_step], (rule d | assumption))+, rule yields_trailer[OF _ arms_keep_Nil[of "BrokerRegistrationRequest_Listener_fields_wf version" "\<lambda>_. 0"]])
      (simp_all add: v d broker_registration_request_listener_unknown BrokerRegistrationRequest_Listener_wf_def trailer_ok_def )
qed

lemma broker_registration_request_listener_extends [extends_rules]: "extends_input (BrokerRegistrationRequest_Listener_decode version)"
  unfolding BrokerRegistrationRequest_Listener_decode_def Let_def by (intro extends_rules)

lemma broker_registration_request_listener_codec:
  assumes v: "0 \<le>s version"
  shows "message_codec BrokerRegistrationRequest_Listener_encode BrokerRegistrationRequest_Listener_decode BrokerRegistrationRequest_Listener_encoded_len (BrokerRegistrationRequest_Listener_wf version) version"
proof
  fix x
  assume w: "BrokerRegistrationRequest_Listener_wf version x"
  show "carries (BrokerRegistrationRequest_Listener_encode x version) (BrokerRegistrationRequest_Listener_decode version) (BrokerRegistrationRequest_Listener_encoded_len x version) x"
    unfolding BrokerRegistrationRequest_Listener_encode_def BrokerRegistrationRequest_Listener_encoded_len_def BrokerRegistrationRequest_Listener_decode_def Let_def
    by (use w[unfolded BrokerRegistrationRequest_Listener_wf_def BrokerRegistrationRequest_Listener_fields_wf_def Let_def] in \<open>elim conjE\<close>, rule carries_cong_len)
      ((rule carries_rules | (erule absent_guarded, assumption) | erule absent_plain
        | simp add: v field_ok_def BrokerRegistrationRequest_Listener_default_def )+)
next
  show "yields 1 (BrokerRegistrationRequest_Listener_decode version) (BrokerRegistrationRequest_Listener_wf version)"
    by (rule broker_registration_request_listener_yields[OF v])
qed (rule broker_registration_request_listener_extends)

lemma broker_registration_request_listener_default_wf [simp]: "0 \<le>s version \<Longrightarrow> BrokerRegistrationRequest_Listener_wf version BrokerRegistrationRequest_Listener_default"
  by (simp add: BrokerRegistrationRequest_Listener_wf_def BrokerRegistrationRequest_Listener_default_def trailer_ok_def broker_registration_request_listener_fields)

lemmas [carries_rules] = message_codec.message_carries[OF broker_registration_request_listener_codec]
lemmas [yields_rules] = message_codec.message_yields[OF broker_registration_request_listener_codec]

lemmas [carries_rules] = protocol_codec.put_array_carries[OF message_codec.message_protocol[OF broker_registration_request_listener_codec]]
lemmas [yields_rules] = protocol_codec.get_array_yields[OF message_codec.message_protocol[OF broker_registration_request_listener_codec]]
lemmas [carries_rules] = protocol_codec.put_nullable_array_carries[OF message_codec.message_protocol[OF broker_registration_request_listener_codec]]
lemmas [yields_rules] = protocol_codec.get_nullable_array_yields[OF message_codec.message_protocol[OF broker_registration_request_listener_codec]]

record BrokerRegistrationRequest_Feature =
  br_req_f_name :: bytes
  br_req_f_min_supported_version :: i16
  br_req_f_max_supported_version :: i16
  br_req_f_unknown_tagged_fields :: "UnknownTaggedField list"

definition BrokerRegistrationRequest_Feature_default :: BrokerRegistrationRequest_Feature where
  "BrokerRegistrationRequest_Feature_default =
     \<lparr>br_req_f_name = [], br_req_f_min_supported_version = 0, br_req_f_max_supported_version = 0, br_req_f_unknown_tagged_fields = []\<rparr>"

definition BrokerRegistrationRequest_Feature_encode :: "BrokerRegistrationRequest_Feature \<Rightarrow> i16 \<Rightarrow> encoder" where
  "BrokerRegistrationRequest_Feature_encode x version =
     (let flex = 0 \<le>s version in
      write_all
        [put_when (0 \<le>s version) (put_str flex (br_req_f_name x)),
         put_when (0 \<le>s version) (put_i16 (br_req_f_min_supported_version x)),
         put_when (0 \<le>s version) (put_i16 (br_req_f_max_supported_version x)),
         put_when flex (put_tagged [] (br_req_f_unknown_tagged_fields x))])"

definition BrokerRegistrationRequest_Feature_encoded_len :: "BrokerRegistrationRequest_Feature \<Rightarrow> i16 \<Rightarrow> nat" where
  "BrokerRegistrationRequest_Feature_encoded_len x version =
     (let flex = 0 \<le>s version in
      len_when (0 \<le>s version) (str_len flex (br_req_f_name x))
      + len_when (0 \<le>s version) 2
      + len_when (0 \<le>s version) 2
      + len_when flex (tagged_size [] (br_req_f_unknown_tagged_fields x)))"

definition BrokerRegistrationRequest_Feature_decode :: "i16 \<Rightarrow> BrokerRegistrationRequest_Feature decoder" where
  "BrokerRegistrationRequest_Feature_decode version =
     (let flex = 0 \<le>s version in
      read_then (get_into (0 \<le>s version) (get_str flex) (\<lambda>v out. out\<lparr>br_req_f_name := v\<rparr>) BrokerRegistrationRequest_Feature_default) (\<lambda>out.
        read_then (get_into (0 \<le>s version) get_i16 (\<lambda>v out. out\<lparr>br_req_f_min_supported_version := v\<rparr>) out) (\<lambda>out.
        read_then (get_into (0 \<le>s version) get_i16 (\<lambda>v out. out\<lparr>br_req_f_max_supported_version := v\<rparr>) out) (\<lambda>out.
        get_trailer flex [] (\<lambda>u out. out\<lparr>br_req_f_unknown_tagged_fields := u\<rparr>) out))))"

definition BrokerRegistrationRequest_Feature_fields_wf :: "i16 \<Rightarrow> BrokerRegistrationRequest_Feature \<Rightarrow> bool" where
  "BrokerRegistrationRequest_Feature_fields_wf version x \<longleftrightarrow>
     (let flex = 0 \<le>s version in
      str_wf flex (br_req_f_name x))"

definition BrokerRegistrationRequest_Feature_wf :: "i16 \<Rightarrow> BrokerRegistrationRequest_Feature \<Rightarrow> bool" where
  "BrokerRegistrationRequest_Feature_wf version x \<longleftrightarrow>
     BrokerRegistrationRequest_Feature_fields_wf version x \<and> trailer_ok [] [] (br_req_f_unknown_tagged_fields x)"

lemmas broker_registration_request_feature_fields =
    Let_def field_ok_def BrokerRegistrationRequest_Feature_fields_wf_def

lemma broker_registration_request_feature_steps:
  assumes v: "0 \<le>s version" and flex: "flex = (0 \<le>s version)"
  shows "keeps (BrokerRegistrationRequest_Feature_fields_wf version) (get_into (0 \<le>s version) (get_str flex) (\<lambda>v out. out\<lparr>br_req_f_name := v\<rparr>))"
    and "keeps (BrokerRegistrationRequest_Feature_fields_wf version) (get_into (0 \<le>s version) get_i16 (\<lambda>v out. out\<lparr>br_req_f_min_supported_version := v\<rparr>))"
    and "keeps (BrokerRegistrationRequest_Feature_fields_wf version) (get_into (0 \<le>s version) get_i16 (\<lambda>v out. out\<lparr>br_req_f_max_supported_version := v\<rparr>))"
  unfolding flex 
  by (rule keeps_into; (rule yields_rules)?; simp add: v broker_registration_request_feature_fields)+

lemma broker_registration_request_feature_unknown:
  "BrokerRegistrationRequest_Feature_fields_wf version (s\<lparr>br_req_f_unknown_tagged_fields := u\<rparr>) = BrokerRegistrationRequest_Feature_fields_wf version s"
  by (simp_all add: BrokerRegistrationRequest_Feature_fields_wf_def)

lemma broker_registration_request_feature_yields:
  assumes v: "0 \<le>s version"
  shows "yields 1 (BrokerRegistrationRequest_Feature_decode version) (BrokerRegistrationRequest_Feature_wf version)"
proof -
  have d: "BrokerRegistrationRequest_Feature_fields_wf version BrokerRegistrationRequest_Feature_default"
    by (simp add: BrokerRegistrationRequest_Feature_default_def v broker_registration_request_feature_fields)
  show ?thesis
    unfolding BrokerRegistrationRequest_Feature_decode_def Let_def
    by ((rule broker_registration_request_feature_steps[OF v refl, THEN yields_step], (rule d | assumption))+, rule yields_trailer[OF _ arms_keep_Nil[of "BrokerRegistrationRequest_Feature_fields_wf version" "\<lambda>_. 0"]])
      (simp_all add: v d broker_registration_request_feature_unknown BrokerRegistrationRequest_Feature_wf_def trailer_ok_def )
qed

lemma broker_registration_request_feature_extends [extends_rules]: "extends_input (BrokerRegistrationRequest_Feature_decode version)"
  unfolding BrokerRegistrationRequest_Feature_decode_def Let_def by (intro extends_rules)

lemma broker_registration_request_feature_codec:
  assumes v: "0 \<le>s version"
  shows "message_codec BrokerRegistrationRequest_Feature_encode BrokerRegistrationRequest_Feature_decode BrokerRegistrationRequest_Feature_encoded_len (BrokerRegistrationRequest_Feature_wf version) version"
proof
  fix x
  assume w: "BrokerRegistrationRequest_Feature_wf version x"
  show "carries (BrokerRegistrationRequest_Feature_encode x version) (BrokerRegistrationRequest_Feature_decode version) (BrokerRegistrationRequest_Feature_encoded_len x version) x"
    unfolding BrokerRegistrationRequest_Feature_encode_def BrokerRegistrationRequest_Feature_encoded_len_def BrokerRegistrationRequest_Feature_decode_def Let_def
    by (use w[unfolded BrokerRegistrationRequest_Feature_wf_def BrokerRegistrationRequest_Feature_fields_wf_def Let_def] in \<open>elim conjE\<close>, rule carries_cong_len)
      ((rule carries_rules | (erule absent_guarded, assumption) | erule absent_plain
        | simp add: v field_ok_def BrokerRegistrationRequest_Feature_default_def )+)
next
  show "yields 1 (BrokerRegistrationRequest_Feature_decode version) (BrokerRegistrationRequest_Feature_wf version)"
    by (rule broker_registration_request_feature_yields[OF v])
qed (rule broker_registration_request_feature_extends)

lemma broker_registration_request_feature_default_wf [simp]: "0 \<le>s version \<Longrightarrow> BrokerRegistrationRequest_Feature_wf version BrokerRegistrationRequest_Feature_default"
  by (simp add: BrokerRegistrationRequest_Feature_wf_def BrokerRegistrationRequest_Feature_default_def trailer_ok_def broker_registration_request_feature_fields)

lemmas [carries_rules] = message_codec.message_carries[OF broker_registration_request_feature_codec]
lemmas [yields_rules] = message_codec.message_yields[OF broker_registration_request_feature_codec]

lemmas [carries_rules] = protocol_codec.put_array_carries[OF message_codec.message_protocol[OF broker_registration_request_feature_codec]]
lemmas [yields_rules] = protocol_codec.get_array_yields[OF message_codec.message_protocol[OF broker_registration_request_feature_codec]]
lemmas [carries_rules] = protocol_codec.put_nullable_array_carries[OF message_codec.message_protocol[OF broker_registration_request_feature_codec]]
lemmas [yields_rules] = protocol_codec.get_nullable_array_yields[OF message_codec.message_protocol[OF broker_registration_request_feature_codec]]

record BrokerRegistrationRequest =
  br_req_broker_id :: i32
  br_req_cluster_id :: bytes
  br_req_incarnation_id :: Uuid
  br_req_listeners :: "BrokerRegistrationRequest_Listener list"
  br_req_features :: "BrokerRegistrationRequest_Feature list"
  br_req_rack :: "bytes option"
  br_req_is_migrating_zk_broker :: bool
  br_req_log_dirs :: "Uuid list"
  br_req_previous_broker_epoch :: i64
  br_req_unknown_tagged_fields :: "UnknownTaggedField list"

definition BrokerRegistrationRequest_default :: BrokerRegistrationRequest where
  "BrokerRegistrationRequest_default =
     \<lparr>br_req_broker_id = 0, br_req_cluster_id = [], br_req_incarnation_id = Uuid_ZERO, br_req_listeners = [], br_req_features = [], br_req_rack = Some [], br_req_is_migrating_zk_broker = False, br_req_log_dirs = [], br_req_previous_broker_epoch = - 1, br_req_unknown_tagged_fields = []\<rparr>"

definition BrokerRegistrationRequest_MIN_VERSION :: i16 where
  "BrokerRegistrationRequest_MIN_VERSION = 0"

definition BrokerRegistrationRequest_MAX_VERSION :: i16 where
  "BrokerRegistrationRequest_MAX_VERSION = 4"

definition BrokerRegistrationRequest_FLEXIBLE_MIN :: i16 where
  "BrokerRegistrationRequest_FLEXIBLE_MIN = 0"

definition BrokerRegistrationRequest_API_KEY :: i16 where
  "BrokerRegistrationRequest_API_KEY = 62"

definition BrokerRegistrationRequest_is_flexible :: "i16 \<Rightarrow> bool" where
  "BrokerRegistrationRequest_is_flexible version \<longleftrightarrow> BrokerRegistrationRequest_FLEXIBLE_MIN \<le>s version"

definition BrokerRegistrationRequest_encode_field_0 :: "BrokerRegistrationRequest \<Rightarrow> i16 \<Rightarrow> bool \<Rightarrow> encoder" where
  "BrokerRegistrationRequest_encode_field_0 x version flex = put_when (0 \<le>s version) (put_i32 (br_req_broker_id x))"

definition BrokerRegistrationRequest_encode_field_1 :: "BrokerRegistrationRequest \<Rightarrow> i16 \<Rightarrow> bool \<Rightarrow> encoder" where
  "BrokerRegistrationRequest_encode_field_1 x version flex = put_when (0 \<le>s version) (put_str flex (br_req_cluster_id x))"

definition BrokerRegistrationRequest_encode_field_2 :: "BrokerRegistrationRequest \<Rightarrow> i16 \<Rightarrow> bool \<Rightarrow> encoder" where
  "BrokerRegistrationRequest_encode_field_2 x version flex = put_when (0 \<le>s version) (put_uuid (br_req_incarnation_id x))"

definition BrokerRegistrationRequest_encode_field_3 :: "BrokerRegistrationRequest \<Rightarrow> i16 \<Rightarrow> bool \<Rightarrow> encoder" where
  "BrokerRegistrationRequest_encode_field_3 x version flex = put_when (0 \<le>s version) (put_array flex (\<lambda>it. BrokerRegistrationRequest_Listener_encode it version) (br_req_listeners x))"

definition BrokerRegistrationRequest_encode_field_4 :: "BrokerRegistrationRequest \<Rightarrow> i16 \<Rightarrow> bool \<Rightarrow> encoder" where
  "BrokerRegistrationRequest_encode_field_4 x version flex = put_when (0 \<le>s version) (put_array flex (\<lambda>it. BrokerRegistrationRequest_Feature_encode it version) (br_req_features x))"

definition BrokerRegistrationRequest_encode_field_5 :: "BrokerRegistrationRequest \<Rightarrow> i16 \<Rightarrow> bool \<Rightarrow> encoder" where
  "BrokerRegistrationRequest_encode_field_5 x version flex = put_when (0 \<le>s version) (put_nullable_str flex (br_req_rack x))"

definition BrokerRegistrationRequest_encode_field_6 :: "BrokerRegistrationRequest \<Rightarrow> i16 \<Rightarrow> bool \<Rightarrow> encoder" where
  "BrokerRegistrationRequest_encode_field_6 x version flex = put_when (1 \<le>s version) (put_bool (br_req_is_migrating_zk_broker x))"

definition BrokerRegistrationRequest_encode_field_7 :: "BrokerRegistrationRequest \<Rightarrow> i16 \<Rightarrow> bool \<Rightarrow> encoder" where
  "BrokerRegistrationRequest_encode_field_7 x version flex = put_when (2 \<le>s version) (put_array flex put_uuid (br_req_log_dirs x))"

definition BrokerRegistrationRequest_encode_field_8 :: "BrokerRegistrationRequest \<Rightarrow> i16 \<Rightarrow> bool \<Rightarrow> encoder" where
  "BrokerRegistrationRequest_encode_field_8 x version flex = put_when (3 \<le>s version) (put_i64 (br_req_previous_broker_epoch x))"

definition BrokerRegistrationRequest_encode_tagged_fields :: "BrokerRegistrationRequest \<Rightarrow> i16 \<Rightarrow> bool \<Rightarrow> encoder" where
  "BrokerRegistrationRequest_encode_tagged_fields x version flex =
     put_when flex (put_tagged
       []
       (br_req_unknown_tagged_fields x))"

definition BrokerRegistrationRequest_encode :: "BrokerRegistrationRequest \<Rightarrow> i16 \<Rightarrow> encoder" where
  "BrokerRegistrationRequest_encode x version =
     (let flex = BrokerRegistrationRequest_is_flexible version in
      write_all
        [write_check (check_version BrokerRegistrationRequest_API_KEY version BrokerRegistrationRequest_MIN_VERSION BrokerRegistrationRequest_MAX_VERSION),
         BrokerRegistrationRequest_encode_field_0 x version flex,
         BrokerRegistrationRequest_encode_field_1 x version flex,
         BrokerRegistrationRequest_encode_field_2 x version flex,
         BrokerRegistrationRequest_encode_field_3 x version flex,
         BrokerRegistrationRequest_encode_field_4 x version flex,
         BrokerRegistrationRequest_encode_field_5 x version flex,
         BrokerRegistrationRequest_encode_field_6 x version flex,
         BrokerRegistrationRequest_encode_field_7 x version flex,
         BrokerRegistrationRequest_encode_field_8 x version flex,
         BrokerRegistrationRequest_encode_tagged_fields x version flex])"

definition BrokerRegistrationRequest_encoded_len :: "BrokerRegistrationRequest \<Rightarrow> i16 \<Rightarrow> nat" where
  "BrokerRegistrationRequest_encoded_len x version =
     (let flex = BrokerRegistrationRequest_is_flexible version in
      len_when (0 \<le>s version) 4
      + len_when (0 \<le>s version) (str_len flex (br_req_cluster_id x))
      + len_when (0 \<le>s version) 16
      + len_when (0 \<le>s version) (array_size flex (\<lambda>it. BrokerRegistrationRequest_Listener_encoded_len it version) (br_req_listeners x))
      + len_when (0 \<le>s version) (array_size flex (\<lambda>it. BrokerRegistrationRequest_Feature_encoded_len it version) (br_req_features x))
      + len_when (0 \<le>s version) (nullable_str_len flex (br_req_rack x))
      + len_when (1 \<le>s version) 1
      + len_when (2 \<le>s version) (array_size flex (\<lambda>_. 16) (br_req_log_dirs x))
      + len_when (3 \<le>s version) 8
      + len_when flex (tagged_size [] (br_req_unknown_tagged_fields x)))"

definition BrokerRegistrationRequest_decode_field_0 :: "BrokerRegistrationRequest \<Rightarrow> i16 \<Rightarrow> bool \<Rightarrow> BrokerRegistrationRequest decoder" where
  "BrokerRegistrationRequest_decode_field_0 out version flex = get_into (0 \<le>s version) get_i32 (\<lambda>v out. out\<lparr>br_req_broker_id := v\<rparr>) out"

definition BrokerRegistrationRequest_decode_field_1 :: "BrokerRegistrationRequest \<Rightarrow> i16 \<Rightarrow> bool \<Rightarrow> BrokerRegistrationRequest decoder" where
  "BrokerRegistrationRequest_decode_field_1 out version flex = get_into (0 \<le>s version) (get_str flex) (\<lambda>v out. out\<lparr>br_req_cluster_id := v\<rparr>) out"

definition BrokerRegistrationRequest_decode_field_2 :: "BrokerRegistrationRequest \<Rightarrow> i16 \<Rightarrow> bool \<Rightarrow> BrokerRegistrationRequest decoder" where
  "BrokerRegistrationRequest_decode_field_2 out version flex = get_into (0 \<le>s version) get_uuid (\<lambda>v out. out\<lparr>br_req_incarnation_id := v\<rparr>) out"

definition BrokerRegistrationRequest_decode_field_3 :: "BrokerRegistrationRequest \<Rightarrow> i16 \<Rightarrow> bool \<Rightarrow> BrokerRegistrationRequest decoder" where
  "BrokerRegistrationRequest_decode_field_3 out version flex = get_into (0 \<le>s version) (get_array flex (BrokerRegistrationRequest_Listener_decode version)) (\<lambda>v out. out\<lparr>br_req_listeners := v\<rparr>) out"

definition BrokerRegistrationRequest_decode_field_4 :: "BrokerRegistrationRequest \<Rightarrow> i16 \<Rightarrow> bool \<Rightarrow> BrokerRegistrationRequest decoder" where
  "BrokerRegistrationRequest_decode_field_4 out version flex = get_into (0 \<le>s version) (get_array flex (BrokerRegistrationRequest_Feature_decode version)) (\<lambda>v out. out\<lparr>br_req_features := v\<rparr>) out"

definition BrokerRegistrationRequest_decode_field_5 :: "BrokerRegistrationRequest \<Rightarrow> i16 \<Rightarrow> bool \<Rightarrow> BrokerRegistrationRequest decoder" where
  "BrokerRegistrationRequest_decode_field_5 out version flex = get_into (0 \<le>s version) (get_nullable_str flex) (\<lambda>v out. out\<lparr>br_req_rack := v\<rparr>) out"

definition BrokerRegistrationRequest_decode_field_6 :: "BrokerRegistrationRequest \<Rightarrow> i16 \<Rightarrow> bool \<Rightarrow> BrokerRegistrationRequest decoder" where
  "BrokerRegistrationRequest_decode_field_6 out version flex = get_into (1 \<le>s version) get_bool (\<lambda>v out. out\<lparr>br_req_is_migrating_zk_broker := v\<rparr>) out"

definition BrokerRegistrationRequest_decode_field_7 :: "BrokerRegistrationRequest \<Rightarrow> i16 \<Rightarrow> bool \<Rightarrow> BrokerRegistrationRequest decoder" where
  "BrokerRegistrationRequest_decode_field_7 out version flex = get_into (2 \<le>s version) (get_array flex get_uuid) (\<lambda>v out. out\<lparr>br_req_log_dirs := v\<rparr>) out"

definition BrokerRegistrationRequest_decode_field_8 :: "BrokerRegistrationRequest \<Rightarrow> i16 \<Rightarrow> bool \<Rightarrow> BrokerRegistrationRequest decoder" where
  "BrokerRegistrationRequest_decode_field_8 out version flex = get_into (3 \<le>s version) get_i64 (\<lambda>v out. out\<lparr>br_req_previous_broker_epoch := v\<rparr>) out"

definition BrokerRegistrationRequest_decode_tagged_fields :: "BrokerRegistrationRequest \<Rightarrow> i16 \<Rightarrow> bool \<Rightarrow> BrokerRegistrationRequest decoder" where
  "BrokerRegistrationRequest_decode_tagged_fields out version flex =
     get_trailer flex
       []
       (\<lambda>u out. out\<lparr>br_req_unknown_tagged_fields := u\<rparr>) out"

definition BrokerRegistrationRequest_decode :: "i16 \<Rightarrow> BrokerRegistrationRequest decoder" where
  "BrokerRegistrationRequest_decode version =
     (let flex = BrokerRegistrationRequest_is_flexible version in
      checked (check_version BrokerRegistrationRequest_API_KEY version BrokerRegistrationRequest_MIN_VERSION BrokerRegistrationRequest_MAX_VERSION) (
        read_then (BrokerRegistrationRequest_decode_field_0 BrokerRegistrationRequest_default version flex) (\<lambda>out.
        read_then (BrokerRegistrationRequest_decode_field_1 out version flex) (\<lambda>out.
        read_then (BrokerRegistrationRequest_decode_field_2 out version flex) (\<lambda>out.
        read_then (BrokerRegistrationRequest_decode_field_3 out version flex) (\<lambda>out.
        read_then (BrokerRegistrationRequest_decode_field_4 out version flex) (\<lambda>out.
        read_then (BrokerRegistrationRequest_decode_field_5 out version flex) (\<lambda>out.
        read_then (BrokerRegistrationRequest_decode_field_6 out version flex) (\<lambda>out.
        read_then (BrokerRegistrationRequest_decode_field_7 out version flex) (\<lambda>out.
        read_then (BrokerRegistrationRequest_decode_field_8 out version flex) (\<lambda>out.
        BrokerRegistrationRequest_decode_tagged_fields out version flex)))))))))))"

definition BrokerRegistrationRequest_fields_wf :: "i16 \<Rightarrow> BrokerRegistrationRequest \<Rightarrow> bool" where
  "BrokerRegistrationRequest_fields_wf version x \<longleftrightarrow>
     (let flex = BrokerRegistrationRequest_is_flexible version in
      str_wf flex (br_req_cluster_id x)
      \<and> uuid_wf (br_req_incarnation_id x)
      \<and> array_ok flex (BrokerRegistrationRequest_Listener_wf version) (br_req_listeners x)
      \<and> array_ok flex (BrokerRegistrationRequest_Feature_wf version) (br_req_features x)
      \<and> nullable_str_wf flex (br_req_rack x)
      \<and> field_ok (1 \<le>s version) False (\<lambda>_. True) (br_req_is_migrating_zk_broker x)
      \<and> field_ok (2 \<le>s version) [] (array_ok flex uuid_wf) (br_req_log_dirs x)
      \<and> field_ok (3 \<le>s version) (- 1) (\<lambda>_. True) (br_req_previous_broker_epoch x))"

definition BrokerRegistrationRequest_wf :: "i16 \<Rightarrow> BrokerRegistrationRequest \<Rightarrow> bool" where
  "BrokerRegistrationRequest_wf version x \<longleftrightarrow>
     version_in BrokerRegistrationRequest_MIN_VERSION BrokerRegistrationRequest_MAX_VERSION version \<and> BrokerRegistrationRequest_fields_wf version x \<and> trailer_ok [] [] (br_req_unknown_tagged_fields x)"

lemmas broker_registration_request_versions =
    BrokerRegistrationRequest_is_flexible_def BrokerRegistrationRequest_FLEXIBLE_MIN_def
    BrokerRegistrationRequest_MIN_VERSION_def BrokerRegistrationRequest_MAX_VERSION_def version_in_def

lemmas broker_registration_request_fields =
    Let_def field_ok_def BrokerRegistrationRequest_fields_wf_def BrokerRegistrationRequest_is_flexible_def
    BrokerRegistrationRequest_FLEXIBLE_MIN_def

lemmas broker_registration_request_writers =
    BrokerRegistrationRequest_encode_field_0_def BrokerRegistrationRequest_encode_field_1_def
    BrokerRegistrationRequest_encode_field_2_def BrokerRegistrationRequest_encode_field_3_def
    BrokerRegistrationRequest_encode_field_4_def BrokerRegistrationRequest_encode_field_5_def
    BrokerRegistrationRequest_encode_field_6_def BrokerRegistrationRequest_encode_field_7_def
    BrokerRegistrationRequest_encode_field_8_def BrokerRegistrationRequest_encode_tagged_fields_def

lemmas broker_registration_request_readers =
    BrokerRegistrationRequest_decode_field_0_def BrokerRegistrationRequest_decode_field_1_def
    BrokerRegistrationRequest_decode_field_2_def BrokerRegistrationRequest_decode_field_3_def
    BrokerRegistrationRequest_decode_field_4_def BrokerRegistrationRequest_decode_field_5_def
    BrokerRegistrationRequest_decode_field_6_def BrokerRegistrationRequest_decode_field_7_def
    BrokerRegistrationRequest_decode_field_8_def BrokerRegistrationRequest_decode_tagged_fields_def

lemma broker_registration_request_steps:
  assumes v: "0 \<le>s version" and flex: "flex = (BrokerRegistrationRequest_is_flexible version)"
  shows "keeps (BrokerRegistrationRequest_fields_wf version) (\<lambda>out. BrokerRegistrationRequest_decode_field_0 out version flex)"
    and "keeps (BrokerRegistrationRequest_fields_wf version) (\<lambda>out. BrokerRegistrationRequest_decode_field_1 out version flex)"
    and "keeps (BrokerRegistrationRequest_fields_wf version) (\<lambda>out. BrokerRegistrationRequest_decode_field_2 out version flex)"
    and "keeps (BrokerRegistrationRequest_fields_wf version) (\<lambda>out. BrokerRegistrationRequest_decode_field_3 out version flex)"
    and "keeps (BrokerRegistrationRequest_fields_wf version) (\<lambda>out. BrokerRegistrationRequest_decode_field_4 out version flex)"
    and "keeps (BrokerRegistrationRequest_fields_wf version) (\<lambda>out. BrokerRegistrationRequest_decode_field_5 out version flex)"
    and "keeps (BrokerRegistrationRequest_fields_wf version) (\<lambda>out. BrokerRegistrationRequest_decode_field_6 out version flex)"
    and "keeps (BrokerRegistrationRequest_fields_wf version) (\<lambda>out. BrokerRegistrationRequest_decode_field_7 out version flex)"
    and "keeps (BrokerRegistrationRequest_fields_wf version) (\<lambda>out. BrokerRegistrationRequest_decode_field_8 out version flex)"
  unfolding flex broker_registration_request_readers
  by (rule keeps_into; (rule yields_rules)?; simp add: v broker_registration_request_fields)+

lemma broker_registration_request_unknown:
  "BrokerRegistrationRequest_fields_wf version (s\<lparr>br_req_unknown_tagged_fields := u\<rparr>) = BrokerRegistrationRequest_fields_wf version s"
  by (simp_all add: BrokerRegistrationRequest_fields_wf_def)

lemma broker_registration_request_yields:
  assumes r: "version_in BrokerRegistrationRequest_MIN_VERSION BrokerRegistrationRequest_MAX_VERSION version"
  shows "yields 1 (BrokerRegistrationRequest_decode version) (BrokerRegistrationRequest_wf version)"
proof -
  have v: "0 \<le>s version"
    using r by (simp add: broker_registration_request_versions)
  have d: "BrokerRegistrationRequest_fields_wf version BrokerRegistrationRequest_default"
    by (simp add: BrokerRegistrationRequest_default_def v broker_registration_request_fields)
  show ?thesis
    unfolding BrokerRegistrationRequest_decode_def Let_def BrokerRegistrationRequest_decode_tagged_fields_def
    by (rule yields_checked, (rule broker_registration_request_steps[OF v refl, THEN yields_step], (rule d | assumption))+, rule yields_trailer[OF _ arms_keep_Nil[of "BrokerRegistrationRequest_fields_wf version" "\<lambda>_. 0"]])
      (simp_all add: v d broker_registration_request_unknown BrokerRegistrationRequest_wf_def trailer_ok_def r BrokerRegistrationRequest_is_flexible_def BrokerRegistrationRequest_FLEXIBLE_MIN_def)
qed

interpretation broker_registration_request: message_codec
  BrokerRegistrationRequest_encode BrokerRegistrationRequest_decode BrokerRegistrationRequest_encoded_len "BrokerRegistrationRequest_wf version" version
  for version
proof
  fix x
  assume w: "BrokerRegistrationRequest_wf version x"
  then have v: "0 \<le>s version"
    by (simp add: BrokerRegistrationRequest_wf_def broker_registration_request_versions)
  show "carries (BrokerRegistrationRequest_encode x version) (BrokerRegistrationRequest_decode version) (BrokerRegistrationRequest_encoded_len x version) x"
    unfolding BrokerRegistrationRequest_encode_def broker_registration_request_writers BrokerRegistrationRequest_encoded_len_def BrokerRegistrationRequest_decode_def broker_registration_request_readers Let_def
    by (use w[unfolded BrokerRegistrationRequest_wf_def BrokerRegistrationRequest_fields_wf_def Let_def] in \<open>elim conjE\<close>, rule carries_cong_len)
      ((rule carries_rules check_version_in[THEN iffD2] | (erule absent_guarded, assumption) | erule absent_plain
        | simp add: v field_ok_def BrokerRegistrationRequest_default_def broker_registration_request_versions)+)
next
  show "yields 1 (BrokerRegistrationRequest_decode version) (BrokerRegistrationRequest_wf version)"
    by (rule case_split[OF broker_registration_request_yields]) (auto simp: BrokerRegistrationRequest_decode_def Let_def yields_refused yields_unsupported)
  show "extends_input (BrokerRegistrationRequest_decode version)"
    unfolding BrokerRegistrationRequest_decode_def Let_def broker_registration_request_readers by (intro extends_rules)
qed

section \<open>BrokerRegistrationResponse\<close>

record BrokerRegistrationResponse =
  br_resp_throttle_time_ms :: i32
  br_resp_error_code :: i16
  br_resp_broker_epoch :: i64
  br_resp_unknown_tagged_fields :: "UnknownTaggedField list"

definition BrokerRegistrationResponse_default :: BrokerRegistrationResponse where
  "BrokerRegistrationResponse_default =
     \<lparr>br_resp_throttle_time_ms = 0, br_resp_error_code = 0, br_resp_broker_epoch = - 1, br_resp_unknown_tagged_fields = []\<rparr>"

definition BrokerRegistrationResponse_MIN_VERSION :: i16 where
  "BrokerRegistrationResponse_MIN_VERSION = 0"

definition BrokerRegistrationResponse_MAX_VERSION :: i16 where
  "BrokerRegistrationResponse_MAX_VERSION = 4"

definition BrokerRegistrationResponse_FLEXIBLE_MIN :: i16 where
  "BrokerRegistrationResponse_FLEXIBLE_MIN = 0"

definition BrokerRegistrationResponse_API_KEY :: i16 where
  "BrokerRegistrationResponse_API_KEY = 62"

definition BrokerRegistrationResponse_is_flexible :: "i16 \<Rightarrow> bool" where
  "BrokerRegistrationResponse_is_flexible version \<longleftrightarrow> BrokerRegistrationResponse_FLEXIBLE_MIN \<le>s version"

definition BrokerRegistrationResponse_encode :: "BrokerRegistrationResponse \<Rightarrow> i16 \<Rightarrow> encoder" where
  "BrokerRegistrationResponse_encode x version =
     (let flex = BrokerRegistrationResponse_is_flexible version in
      write_all
        [write_check (check_version BrokerRegistrationResponse_API_KEY version BrokerRegistrationResponse_MIN_VERSION BrokerRegistrationResponse_MAX_VERSION),
         put_when (0 \<le>s version) (put_i32 (br_resp_throttle_time_ms x)),
         put_when (0 \<le>s version) (put_i16 (br_resp_error_code x)),
         put_when (0 \<le>s version) (put_i64 (br_resp_broker_epoch x)),
         put_when flex (put_tagged [] (br_resp_unknown_tagged_fields x))])"

definition BrokerRegistrationResponse_encoded_len :: "BrokerRegistrationResponse \<Rightarrow> i16 \<Rightarrow> nat" where
  "BrokerRegistrationResponse_encoded_len x version =
     (let flex = BrokerRegistrationResponse_is_flexible version in
      len_when (0 \<le>s version) 4
      + len_when (0 \<le>s version) 2
      + len_when (0 \<le>s version) 8
      + len_when flex (tagged_size [] (br_resp_unknown_tagged_fields x)))"

definition BrokerRegistrationResponse_decode :: "i16 \<Rightarrow> BrokerRegistrationResponse decoder" where
  "BrokerRegistrationResponse_decode version =
     (let flex = BrokerRegistrationResponse_is_flexible version in
      checked (check_version BrokerRegistrationResponse_API_KEY version BrokerRegistrationResponse_MIN_VERSION BrokerRegistrationResponse_MAX_VERSION) (
        read_then (get_into (0 \<le>s version) get_i32 (\<lambda>v out. out\<lparr>br_resp_throttle_time_ms := v\<rparr>) BrokerRegistrationResponse_default) (\<lambda>out.
        read_then (get_into (0 \<le>s version) get_i16 (\<lambda>v out. out\<lparr>br_resp_error_code := v\<rparr>) out) (\<lambda>out.
        read_then (get_into (0 \<le>s version) get_i64 (\<lambda>v out. out\<lparr>br_resp_broker_epoch := v\<rparr>) out) (\<lambda>out.
        get_trailer flex [] (\<lambda>u out. out\<lparr>br_resp_unknown_tagged_fields := u\<rparr>) out)))))"

definition BrokerRegistrationResponse_fields_wf :: "i16 \<Rightarrow> BrokerRegistrationResponse \<Rightarrow> bool" where
  "BrokerRegistrationResponse_fields_wf version x \<longleftrightarrow>
     True"

definition BrokerRegistrationResponse_wf :: "i16 \<Rightarrow> BrokerRegistrationResponse \<Rightarrow> bool" where
  "BrokerRegistrationResponse_wf version x \<longleftrightarrow>
     version_in BrokerRegistrationResponse_MIN_VERSION BrokerRegistrationResponse_MAX_VERSION version \<and> BrokerRegistrationResponse_fields_wf version x \<and> trailer_ok [] [] (br_resp_unknown_tagged_fields x)"

lemmas broker_registration_response_versions =
    BrokerRegistrationResponse_is_flexible_def BrokerRegistrationResponse_FLEXIBLE_MIN_def
    BrokerRegistrationResponse_MIN_VERSION_def BrokerRegistrationResponse_MAX_VERSION_def version_in_def

lemmas broker_registration_response_fields =
    Let_def field_ok_def BrokerRegistrationResponse_fields_wf_def BrokerRegistrationResponse_is_flexible_def
    BrokerRegistrationResponse_FLEXIBLE_MIN_def

lemma broker_registration_response_steps:
  assumes v: "0 \<le>s version" and flex: "flex = (BrokerRegistrationResponse_is_flexible version)"
  shows "keeps (BrokerRegistrationResponse_fields_wf version) (get_into (0 \<le>s version) get_i32 (\<lambda>v out. out\<lparr>br_resp_throttle_time_ms := v\<rparr>))"
    and "keeps (BrokerRegistrationResponse_fields_wf version) (get_into (0 \<le>s version) get_i16 (\<lambda>v out. out\<lparr>br_resp_error_code := v\<rparr>))"
    and "keeps (BrokerRegistrationResponse_fields_wf version) (get_into (0 \<le>s version) get_i64 (\<lambda>v out. out\<lparr>br_resp_broker_epoch := v\<rparr>))"
  unfolding flex 
  by (rule keeps_into; (rule yields_rules)?; simp add: v broker_registration_response_fields)+

lemma broker_registration_response_unknown:
  "BrokerRegistrationResponse_fields_wf version (s\<lparr>br_resp_unknown_tagged_fields := u\<rparr>) = BrokerRegistrationResponse_fields_wf version s"
  by (simp_all add: BrokerRegistrationResponse_fields_wf_def)

lemma broker_registration_response_yields:
  assumes r: "version_in BrokerRegistrationResponse_MIN_VERSION BrokerRegistrationResponse_MAX_VERSION version"
  shows "yields 1 (BrokerRegistrationResponse_decode version) (BrokerRegistrationResponse_wf version)"
proof -
  have v: "0 \<le>s version"
    using r by (simp add: broker_registration_response_versions)
  have d: "BrokerRegistrationResponse_fields_wf version BrokerRegistrationResponse_default"
    by (simp add: BrokerRegistrationResponse_default_def v broker_registration_response_fields)
  show ?thesis
    unfolding BrokerRegistrationResponse_decode_def Let_def
    by (rule yields_checked, (rule broker_registration_response_steps[OF v refl, THEN yields_step], (rule d | assumption))+, rule yields_trailer[OF _ arms_keep_Nil[of "BrokerRegistrationResponse_fields_wf version" "\<lambda>_. 0"]])
      (simp_all add: v d broker_registration_response_unknown BrokerRegistrationResponse_wf_def trailer_ok_def r BrokerRegistrationResponse_is_flexible_def BrokerRegistrationResponse_FLEXIBLE_MIN_def)
qed

interpretation broker_registration_response: message_codec
  BrokerRegistrationResponse_encode BrokerRegistrationResponse_decode BrokerRegistrationResponse_encoded_len "BrokerRegistrationResponse_wf version" version
  for version
proof
  fix x
  assume w: "BrokerRegistrationResponse_wf version x"
  then have v: "0 \<le>s version"
    by (simp add: BrokerRegistrationResponse_wf_def broker_registration_response_versions)
  show "carries (BrokerRegistrationResponse_encode x version) (BrokerRegistrationResponse_decode version) (BrokerRegistrationResponse_encoded_len x version) x"
    unfolding BrokerRegistrationResponse_encode_def BrokerRegistrationResponse_encoded_len_def BrokerRegistrationResponse_decode_def Let_def
    by (use w[unfolded BrokerRegistrationResponse_wf_def BrokerRegistrationResponse_fields_wf_def Let_def] in \<open>elim conjE\<close>, rule carries_cong_len)
      ((rule carries_rules check_version_in[THEN iffD2] | (erule absent_guarded, assumption) | erule absent_plain
        | simp add: v field_ok_def BrokerRegistrationResponse_default_def broker_registration_response_versions)+)
next
  show "yields 1 (BrokerRegistrationResponse_decode version) (BrokerRegistrationResponse_wf version)"
    by (rule case_split[OF broker_registration_response_yields]) (auto simp: BrokerRegistrationResponse_decode_def Let_def yields_refused yields_unsupported)
  show "extends_input (BrokerRegistrationResponse_decode version)"
    unfolding BrokerRegistrationResponse_decode_def Let_def by (intro extends_rules)
qed

section \<open>BrokerHeartbeatRequest\<close>

record BrokerHeartbeatRequest =
  bh_req_broker_id :: i32
  bh_req_broker_epoch :: i64
  bh_req_current_metadata_offset :: i64
  bh_req_want_fence :: bool
  bh_req_want_shut_down :: bool
  bh_req_offline_log_dirs :: "Uuid list"
  bh_req_cordoned_log_dirs :: "Uuid list option"
  bh_req_unknown_tagged_fields :: "UnknownTaggedField list"

definition BrokerHeartbeatRequest_default :: BrokerHeartbeatRequest where
  "BrokerHeartbeatRequest_default =
     \<lparr>bh_req_broker_id = 0, bh_req_broker_epoch = - 1, bh_req_current_metadata_offset = 0, bh_req_want_fence = False, bh_req_want_shut_down = False, bh_req_offline_log_dirs = [], bh_req_cordoned_log_dirs = None, bh_req_unknown_tagged_fields = []\<rparr>"

definition BrokerHeartbeatRequest_MIN_VERSION :: i16 where
  "BrokerHeartbeatRequest_MIN_VERSION = 0"

definition BrokerHeartbeatRequest_MAX_VERSION :: i16 where
  "BrokerHeartbeatRequest_MAX_VERSION = 2"

definition BrokerHeartbeatRequest_FLEXIBLE_MIN :: i16 where
  "BrokerHeartbeatRequest_FLEXIBLE_MIN = 0"

definition BrokerHeartbeatRequest_API_KEY :: i16 where
  "BrokerHeartbeatRequest_API_KEY = 63"

definition BrokerHeartbeatRequest_is_flexible :: "i16 \<Rightarrow> bool" where
  "BrokerHeartbeatRequest_is_flexible version \<longleftrightarrow> BrokerHeartbeatRequest_FLEXIBLE_MIN \<le>s version"

definition BrokerHeartbeatRequest_encode :: "BrokerHeartbeatRequest \<Rightarrow> i16 \<Rightarrow> encoder" where
  "BrokerHeartbeatRequest_encode x version =
     (let flex = BrokerHeartbeatRequest_is_flexible version in
      write_all
        [write_check (check_version BrokerHeartbeatRequest_API_KEY version BrokerHeartbeatRequest_MIN_VERSION BrokerHeartbeatRequest_MAX_VERSION),
         put_when (0 \<le>s version) (put_i32 (bh_req_broker_id x)),
         put_when (0 \<le>s version) (put_i64 (bh_req_broker_epoch x)),
         put_when (0 \<le>s version) (put_i64 (bh_req_current_metadata_offset x)),
         put_when (0 \<le>s version) (put_bool (bh_req_want_fence x)),
         put_when (0 \<le>s version) (put_bool (bh_req_want_shut_down x)),
         put_when flex (put_tagged [(0, 1 \<le>s version \<and> bh_req_offline_log_dirs x \<noteq> [], (array_size flex (\<lambda>_. 16) (bh_req_offline_log_dirs x)), put_array flex put_uuid (bh_req_offline_log_dirs x)),
             (1, 2 \<le>s version \<and> bh_req_cordoned_log_dirs x \<noteq> None, (nullable_array_size flex (\<lambda>_. 16) (bh_req_cordoned_log_dirs x)), put_nullable_array flex put_uuid (bh_req_cordoned_log_dirs x))] (bh_req_unknown_tagged_fields x))])"

definition BrokerHeartbeatRequest_encoded_len :: "BrokerHeartbeatRequest \<Rightarrow> i16 \<Rightarrow> nat" where
  "BrokerHeartbeatRequest_encoded_len x version =
     (let flex = BrokerHeartbeatRequest_is_flexible version in
      len_when (0 \<le>s version) 4
      + len_when (0 \<le>s version) 8
      + len_when (0 \<le>s version) 8
      + len_when (0 \<le>s version) 1
      + len_when (0 \<le>s version) 1
      + len_when flex (tagged_size [(0, 1 \<le>s version \<and> bh_req_offline_log_dirs x \<noteq> [], (array_size flex (\<lambda>_. 16) (bh_req_offline_log_dirs x))),
                               (1, 2 \<le>s version \<and> bh_req_cordoned_log_dirs x \<noteq> None, (nullable_array_size flex (\<lambda>_. 16) (bh_req_cordoned_log_dirs x)))] (bh_req_unknown_tagged_fields x)))"

definition BrokerHeartbeatRequest_decode :: "i16 \<Rightarrow> BrokerHeartbeatRequest decoder" where
  "BrokerHeartbeatRequest_decode version =
     (let flex = BrokerHeartbeatRequest_is_flexible version in
      checked (check_version BrokerHeartbeatRequest_API_KEY version BrokerHeartbeatRequest_MIN_VERSION BrokerHeartbeatRequest_MAX_VERSION) (
        read_then (get_into (0 \<le>s version) get_i32 (\<lambda>v out. out\<lparr>bh_req_broker_id := v\<rparr>) BrokerHeartbeatRequest_default) (\<lambda>out.
        read_then (get_into (0 \<le>s version) get_i64 (\<lambda>v out. out\<lparr>bh_req_broker_epoch := v\<rparr>) out) (\<lambda>out.
        read_then (get_into (0 \<le>s version) get_i64 (\<lambda>v out. out\<lparr>bh_req_current_metadata_offset := v\<rparr>) out) (\<lambda>out.
        read_then (get_into (0 \<le>s version) get_bool (\<lambda>v out. out\<lparr>bh_req_want_fence := v\<rparr>) out) (\<lambda>out.
        read_then (get_into (0 \<le>s version) get_bool (\<lambda>v out. out\<lparr>bh_req_want_shut_down := v\<rparr>) out) (\<lambda>out.
        get_trailer flex [(0, tag_from 0 (1 \<le>s version) version (tag_into (get_array flex get_uuid) (\<lambda>v out. out\<lparr>bh_req_offline_log_dirs := v\<rparr>))),
                     (1, tag_from 1 (2 \<le>s version) version (tag_into (get_nullable_array flex get_uuid) (\<lambda>v out. out\<lparr>bh_req_cordoned_log_dirs := v\<rparr>)))] (\<lambda>u out. out\<lparr>bh_req_unknown_tagged_fields := u\<rparr>) out)))))))"

definition BrokerHeartbeatRequest_fields_wf :: "i16 \<Rightarrow> BrokerHeartbeatRequest \<Rightarrow> bool" where
  "BrokerHeartbeatRequest_fields_wf version x \<longleftrightarrow>
     (let flex = BrokerHeartbeatRequest_is_flexible version in
      field_ok (1 \<le>s version) [] (\<lambda>v. array_ok flex uuid_wf v \<and> array_size flex (\<lambda>_. 16) v < 2 ^ 32) (bh_req_offline_log_dirs x)
      \<and> field_ok (2 \<le>s version) None (\<lambda>v. pred_option (array_ok flex uuid_wf) v \<and> nullable_array_size flex (\<lambda>_. 16) v < 2 ^ 32) (bh_req_cordoned_log_dirs x))"

definition BrokerHeartbeatRequest_present :: "i16 \<Rightarrow> BrokerHeartbeatRequest \<Rightarrow> bool list" where
  "BrokerHeartbeatRequest_present version x =
     [1 \<le>s version \<and> bh_req_offline_log_dirs x \<noteq> [],
      2 \<le>s version \<and> bh_req_cordoned_log_dirs x \<noteq> None]"

definition BrokerHeartbeatRequest_wf :: "i16 \<Rightarrow> BrokerHeartbeatRequest \<Rightarrow> bool" where
  "BrokerHeartbeatRequest_wf version x \<longleftrightarrow>
     version_in BrokerHeartbeatRequest_MIN_VERSION BrokerHeartbeatRequest_MAX_VERSION version \<and> BrokerHeartbeatRequest_fields_wf version x \<and> trailer_ok [0, 1] (BrokerHeartbeatRequest_present version x) (bh_req_unknown_tagged_fields x)"

abbreviation BrokerHeartbeatRequest_read :: "i16 \<Rightarrow> BrokerHeartbeatRequest \<Rightarrow> bool" where
  "BrokerHeartbeatRequest_read version s \<equiv> BrokerHeartbeatRequest_fields_wf version s \<and> present_count (BrokerHeartbeatRequest_present version s) = 0"

lemmas broker_heartbeat_request_versions =
    BrokerHeartbeatRequest_is_flexible_def BrokerHeartbeatRequest_FLEXIBLE_MIN_def
    BrokerHeartbeatRequest_MIN_VERSION_def BrokerHeartbeatRequest_MAX_VERSION_def version_in_def

lemmas broker_heartbeat_request_fields =
    Let_def field_ok_def BrokerHeartbeatRequest_fields_wf_def BrokerHeartbeatRequest_present_def
    BrokerHeartbeatRequest_is_flexible_def BrokerHeartbeatRequest_FLEXIBLE_MIN_def

lemma broker_heartbeat_request_steps:
  assumes v: "0 \<le>s version" and flex: "flex = (BrokerHeartbeatRequest_is_flexible version)"
  shows "keeps (BrokerHeartbeatRequest_read version) (get_into (0 \<le>s version) get_i32 (\<lambda>v out. out\<lparr>bh_req_broker_id := v\<rparr>))"
    and "keeps (BrokerHeartbeatRequest_read version) (get_into (0 \<le>s version) get_i64 (\<lambda>v out. out\<lparr>bh_req_broker_epoch := v\<rparr>))"
    and "keeps (BrokerHeartbeatRequest_read version) (get_into (0 \<le>s version) get_i64 (\<lambda>v out. out\<lparr>bh_req_current_metadata_offset := v\<rparr>))"
    and "keeps (BrokerHeartbeatRequest_read version) (get_into (0 \<le>s version) get_bool (\<lambda>v out. out\<lparr>bh_req_want_fence := v\<rparr>))"
    and "keeps (BrokerHeartbeatRequest_read version) (get_into (0 \<le>s version) get_bool (\<lambda>v out. out\<lparr>bh_req_want_shut_down := v\<rparr>))"
  unfolding flex 
  by (rule keeps_into; (rule yields_rules)?; simp add: v broker_heartbeat_request_fields)+

lemma broker_heartbeat_request_arms:
  assumes v: "0 \<le>s version" and flex: "flex = (BrokerHeartbeatRequest_is_flexible version)"
  shows "arms_keep (BrokerHeartbeatRequest_fields_wf version) (\<lambda>s. present_count (BrokerHeartbeatRequest_present version s))
    [(0, tag_from 0 (1 \<le>s version) version (tag_into (get_array flex get_uuid) (\<lambda>v out. out\<lparr>bh_req_offline_log_dirs := v\<rparr>))),
     (1, tag_from 1 (2 \<le>s version) version (tag_into (get_nullable_array flex get_uuid) (\<lambda>v out. out\<lparr>bh_req_cordoned_log_dirs := v\<rparr>)))]"
  unfolding flex
  by ((rule arms_keep_Nil arms_keep_Cons accepts_from accepts_into accepts_rules)
    | simp add: v broker_heartbeat_request_fields)+

lemma broker_heartbeat_request_unknown:
  "BrokerHeartbeatRequest_fields_wf version (s\<lparr>bh_req_unknown_tagged_fields := u\<rparr>) = BrokerHeartbeatRequest_fields_wf version s"
  "BrokerHeartbeatRequest_present version (s\<lparr>bh_req_unknown_tagged_fields := u\<rparr>) = BrokerHeartbeatRequest_present version s"
  by (simp_all add: BrokerHeartbeatRequest_fields_wf_def BrokerHeartbeatRequest_present_def)

lemma broker_heartbeat_request_yields:
  assumes r: "version_in BrokerHeartbeatRequest_MIN_VERSION BrokerHeartbeatRequest_MAX_VERSION version"
  shows "yields 1 (BrokerHeartbeatRequest_decode version) (BrokerHeartbeatRequest_wf version)"
proof -
  have v: "0 \<le>s version"
    using r by (simp add: broker_heartbeat_request_versions)
  have d: "BrokerHeartbeatRequest_fields_wf version BrokerHeartbeatRequest_default \<and> present_count (BrokerHeartbeatRequest_present version BrokerHeartbeatRequest_default) = 0"
    by (simp add: BrokerHeartbeatRequest_default_def v broker_heartbeat_request_fields)
  show ?thesis
    unfolding BrokerHeartbeatRequest_decode_def Let_def
    by (rule yields_checked, (rule broker_heartbeat_request_steps[OF v refl, THEN yields_step], (rule d | assumption))+, rule yields_trailer[OF _ broker_heartbeat_request_arms[OF v refl]])
      (simp_all add: v d broker_heartbeat_request_unknown BrokerHeartbeatRequest_wf_def trailer_ok_def r BrokerHeartbeatRequest_is_flexible_def BrokerHeartbeatRequest_FLEXIBLE_MIN_def)
qed

interpretation broker_heartbeat_request: message_codec
  BrokerHeartbeatRequest_encode BrokerHeartbeatRequest_decode BrokerHeartbeatRequest_encoded_len "BrokerHeartbeatRequest_wf version" version
  for version
proof
  fix x
  assume w: "BrokerHeartbeatRequest_wf version x"
  then have v: "0 \<le>s version"
    by (simp add: BrokerHeartbeatRequest_wf_def broker_heartbeat_request_versions)
  show "carries (BrokerHeartbeatRequest_encode x version) (BrokerHeartbeatRequest_decode version) (BrokerHeartbeatRequest_encoded_len x version) x"
    unfolding BrokerHeartbeatRequest_encode_def BrokerHeartbeatRequest_encoded_len_def BrokerHeartbeatRequest_decode_def Let_def
    by (use w[unfolded BrokerHeartbeatRequest_wf_def BrokerHeartbeatRequest_fields_wf_def BrokerHeartbeatRequest_present_def Let_def] in \<open>elim conjE\<close>, rule carries_cong_len)
      ((rule carries_rules check_version_in[THEN iffD2] | (erule absent_guarded, assumption) | erule absent_plain
        | simp add: v field_ok_def BrokerHeartbeatRequest_default_def broker_heartbeat_request_versions)+)
next
  show "yields 1 (BrokerHeartbeatRequest_decode version) (BrokerHeartbeatRequest_wf version)"
    by (rule case_split[OF broker_heartbeat_request_yields]) (auto simp: BrokerHeartbeatRequest_decode_def Let_def yields_refused yields_unsupported)
  show "extends_input (BrokerHeartbeatRequest_decode version)"
    unfolding BrokerHeartbeatRequest_decode_def Let_def by (intro extends_rules)
qed

section \<open>BrokerHeartbeatResponse\<close>

record BrokerHeartbeatResponse =
  bh_resp_throttle_time_ms :: i32
  bh_resp_error_code :: i16
  bh_resp_is_caught_up :: bool
  bh_resp_is_fenced :: bool
  bh_resp_should_shut_down :: bool
  bh_resp_unknown_tagged_fields :: "UnknownTaggedField list"

definition BrokerHeartbeatResponse_default :: BrokerHeartbeatResponse where
  "BrokerHeartbeatResponse_default =
     \<lparr>bh_resp_throttle_time_ms = 0, bh_resp_error_code = 0, bh_resp_is_caught_up = False, bh_resp_is_fenced = True, bh_resp_should_shut_down = False, bh_resp_unknown_tagged_fields = []\<rparr>"

definition BrokerHeartbeatResponse_MIN_VERSION :: i16 where
  "BrokerHeartbeatResponse_MIN_VERSION = 0"

definition BrokerHeartbeatResponse_MAX_VERSION :: i16 where
  "BrokerHeartbeatResponse_MAX_VERSION = 2"

definition BrokerHeartbeatResponse_FLEXIBLE_MIN :: i16 where
  "BrokerHeartbeatResponse_FLEXIBLE_MIN = 0"

definition BrokerHeartbeatResponse_API_KEY :: i16 where
  "BrokerHeartbeatResponse_API_KEY = 63"

definition BrokerHeartbeatResponse_is_flexible :: "i16 \<Rightarrow> bool" where
  "BrokerHeartbeatResponse_is_flexible version \<longleftrightarrow> BrokerHeartbeatResponse_FLEXIBLE_MIN \<le>s version"

definition BrokerHeartbeatResponse_encode :: "BrokerHeartbeatResponse \<Rightarrow> i16 \<Rightarrow> encoder" where
  "BrokerHeartbeatResponse_encode x version =
     (let flex = BrokerHeartbeatResponse_is_flexible version in
      write_all
        [write_check (check_version BrokerHeartbeatResponse_API_KEY version BrokerHeartbeatResponse_MIN_VERSION BrokerHeartbeatResponse_MAX_VERSION),
         put_when (0 \<le>s version) (put_i32 (bh_resp_throttle_time_ms x)),
         put_when (0 \<le>s version) (put_i16 (bh_resp_error_code x)),
         put_when (0 \<le>s version) (put_bool (bh_resp_is_caught_up x)),
         put_when (0 \<le>s version) (put_bool (bh_resp_is_fenced x)),
         put_when (0 \<le>s version) (put_bool (bh_resp_should_shut_down x)),
         put_when flex (put_tagged [] (bh_resp_unknown_tagged_fields x))])"

definition BrokerHeartbeatResponse_encoded_len :: "BrokerHeartbeatResponse \<Rightarrow> i16 \<Rightarrow> nat" where
  "BrokerHeartbeatResponse_encoded_len x version =
     (let flex = BrokerHeartbeatResponse_is_flexible version in
      len_when (0 \<le>s version) 4
      + len_when (0 \<le>s version) 2
      + len_when (0 \<le>s version) 1
      + len_when (0 \<le>s version) 1
      + len_when (0 \<le>s version) 1
      + len_when flex (tagged_size [] (bh_resp_unknown_tagged_fields x)))"

definition BrokerHeartbeatResponse_decode :: "i16 \<Rightarrow> BrokerHeartbeatResponse decoder" where
  "BrokerHeartbeatResponse_decode version =
     (let flex = BrokerHeartbeatResponse_is_flexible version in
      checked (check_version BrokerHeartbeatResponse_API_KEY version BrokerHeartbeatResponse_MIN_VERSION BrokerHeartbeatResponse_MAX_VERSION) (
        read_then (get_into (0 \<le>s version) get_i32 (\<lambda>v out. out\<lparr>bh_resp_throttle_time_ms := v\<rparr>) BrokerHeartbeatResponse_default) (\<lambda>out.
        read_then (get_into (0 \<le>s version) get_i16 (\<lambda>v out. out\<lparr>bh_resp_error_code := v\<rparr>) out) (\<lambda>out.
        read_then (get_into (0 \<le>s version) get_bool (\<lambda>v out. out\<lparr>bh_resp_is_caught_up := v\<rparr>) out) (\<lambda>out.
        read_then (get_into (0 \<le>s version) get_bool (\<lambda>v out. out\<lparr>bh_resp_is_fenced := v\<rparr>) out) (\<lambda>out.
        read_then (get_into (0 \<le>s version) get_bool (\<lambda>v out. out\<lparr>bh_resp_should_shut_down := v\<rparr>) out) (\<lambda>out.
        get_trailer flex [] (\<lambda>u out. out\<lparr>bh_resp_unknown_tagged_fields := u\<rparr>) out)))))))"

definition BrokerHeartbeatResponse_fields_wf :: "i16 \<Rightarrow> BrokerHeartbeatResponse \<Rightarrow> bool" where
  "BrokerHeartbeatResponse_fields_wf version x \<longleftrightarrow>
     True"

definition BrokerHeartbeatResponse_wf :: "i16 \<Rightarrow> BrokerHeartbeatResponse \<Rightarrow> bool" where
  "BrokerHeartbeatResponse_wf version x \<longleftrightarrow>
     version_in BrokerHeartbeatResponse_MIN_VERSION BrokerHeartbeatResponse_MAX_VERSION version \<and> BrokerHeartbeatResponse_fields_wf version x \<and> trailer_ok [] [] (bh_resp_unknown_tagged_fields x)"

lemmas broker_heartbeat_response_versions =
    BrokerHeartbeatResponse_is_flexible_def BrokerHeartbeatResponse_FLEXIBLE_MIN_def
    BrokerHeartbeatResponse_MIN_VERSION_def BrokerHeartbeatResponse_MAX_VERSION_def version_in_def

lemmas broker_heartbeat_response_fields =
    Let_def field_ok_def BrokerHeartbeatResponse_fields_wf_def BrokerHeartbeatResponse_is_flexible_def
    BrokerHeartbeatResponse_FLEXIBLE_MIN_def

lemma broker_heartbeat_response_steps:
  assumes v: "0 \<le>s version" and flex: "flex = (BrokerHeartbeatResponse_is_flexible version)"
  shows "keeps (BrokerHeartbeatResponse_fields_wf version) (get_into (0 \<le>s version) get_i32 (\<lambda>v out. out\<lparr>bh_resp_throttle_time_ms := v\<rparr>))"
    and "keeps (BrokerHeartbeatResponse_fields_wf version) (get_into (0 \<le>s version) get_i16 (\<lambda>v out. out\<lparr>bh_resp_error_code := v\<rparr>))"
    and "keeps (BrokerHeartbeatResponse_fields_wf version) (get_into (0 \<le>s version) get_bool (\<lambda>v out. out\<lparr>bh_resp_is_caught_up := v\<rparr>))"
    and "keeps (BrokerHeartbeatResponse_fields_wf version) (get_into (0 \<le>s version) get_bool (\<lambda>v out. out\<lparr>bh_resp_is_fenced := v\<rparr>))"
    and "keeps (BrokerHeartbeatResponse_fields_wf version) (get_into (0 \<le>s version) get_bool (\<lambda>v out. out\<lparr>bh_resp_should_shut_down := v\<rparr>))"
  unfolding flex 
  by (rule keeps_into; (rule yields_rules)?; simp add: v broker_heartbeat_response_fields)+

lemma broker_heartbeat_response_unknown:
  "BrokerHeartbeatResponse_fields_wf version (s\<lparr>bh_resp_unknown_tagged_fields := u\<rparr>) = BrokerHeartbeatResponse_fields_wf version s"
  by (simp_all add: BrokerHeartbeatResponse_fields_wf_def)

lemma broker_heartbeat_response_yields:
  assumes r: "version_in BrokerHeartbeatResponse_MIN_VERSION BrokerHeartbeatResponse_MAX_VERSION version"
  shows "yields 1 (BrokerHeartbeatResponse_decode version) (BrokerHeartbeatResponse_wf version)"
proof -
  have v: "0 \<le>s version"
    using r by (simp add: broker_heartbeat_response_versions)
  have d: "BrokerHeartbeatResponse_fields_wf version BrokerHeartbeatResponse_default"
    by (simp add: BrokerHeartbeatResponse_default_def v broker_heartbeat_response_fields)
  show ?thesis
    unfolding BrokerHeartbeatResponse_decode_def Let_def
    by (rule yields_checked, (rule broker_heartbeat_response_steps[OF v refl, THEN yields_step], (rule d | assumption))+, rule yields_trailer[OF _ arms_keep_Nil[of "BrokerHeartbeatResponse_fields_wf version" "\<lambda>_. 0"]])
      (simp_all add: v d broker_heartbeat_response_unknown BrokerHeartbeatResponse_wf_def trailer_ok_def r BrokerHeartbeatResponse_is_flexible_def BrokerHeartbeatResponse_FLEXIBLE_MIN_def)
qed

interpretation broker_heartbeat_response: message_codec
  BrokerHeartbeatResponse_encode BrokerHeartbeatResponse_decode BrokerHeartbeatResponse_encoded_len "BrokerHeartbeatResponse_wf version" version
  for version
proof
  fix x
  assume w: "BrokerHeartbeatResponse_wf version x"
  then have v: "0 \<le>s version"
    by (simp add: BrokerHeartbeatResponse_wf_def broker_heartbeat_response_versions)
  show "carries (BrokerHeartbeatResponse_encode x version) (BrokerHeartbeatResponse_decode version) (BrokerHeartbeatResponse_encoded_len x version) x"
    unfolding BrokerHeartbeatResponse_encode_def BrokerHeartbeatResponse_encoded_len_def BrokerHeartbeatResponse_decode_def Let_def
    by (use w[unfolded BrokerHeartbeatResponse_wf_def BrokerHeartbeatResponse_fields_wf_def Let_def] in \<open>elim conjE\<close>, rule carries_cong_len)
      ((rule carries_rules check_version_in[THEN iffD2] | (erule absent_guarded, assumption) | erule absent_plain
        | simp add: v field_ok_def BrokerHeartbeatResponse_default_def broker_heartbeat_response_versions)+)
next
  show "yields 1 (BrokerHeartbeatResponse_decode version) (BrokerHeartbeatResponse_wf version)"
    by (rule case_split[OF broker_heartbeat_response_yields]) (auto simp: BrokerHeartbeatResponse_decode_def Let_def yields_refused yields_unsupported)
  show "extends_input (BrokerHeartbeatResponse_decode version)"
    unfolding BrokerHeartbeatResponse_decode_def Let_def by (intro extends_rules)
qed

section \<open>ControllerRegistrationRequest\<close>

record ControllerRegistrationRequest_Listener =
  cr_req_l_name :: bytes
  cr_req_l_host :: bytes
  cr_req_l_port :: u16
  cr_req_l_security_protocol :: i16
  cr_req_l_unknown_tagged_fields :: "UnknownTaggedField list"

definition ControllerRegistrationRequest_Listener_default :: ControllerRegistrationRequest_Listener where
  "ControllerRegistrationRequest_Listener_default =
     \<lparr>cr_req_l_name = [], cr_req_l_host = [], cr_req_l_port = 0, cr_req_l_security_protocol = 0, cr_req_l_unknown_tagged_fields = []\<rparr>"

definition ControllerRegistrationRequest_Listener_encode :: "ControllerRegistrationRequest_Listener \<Rightarrow> i16 \<Rightarrow> encoder" where
  "ControllerRegistrationRequest_Listener_encode x version =
     (let flex = 0 \<le>s version in
      write_all
        [put_when (0 \<le>s version) (put_str flex (cr_req_l_name x)),
         put_when (0 \<le>s version) (put_str flex (cr_req_l_host x)),
         put_when (0 \<le>s version) (put_u16 (cr_req_l_port x)),
         put_when (0 \<le>s version) (put_i16 (cr_req_l_security_protocol x)),
         put_when flex (put_tagged [] (cr_req_l_unknown_tagged_fields x))])"

definition ControllerRegistrationRequest_Listener_encoded_len :: "ControllerRegistrationRequest_Listener \<Rightarrow> i16 \<Rightarrow> nat" where
  "ControllerRegistrationRequest_Listener_encoded_len x version =
     (let flex = 0 \<le>s version in
      len_when (0 \<le>s version) (str_len flex (cr_req_l_name x))
      + len_when (0 \<le>s version) (str_len flex (cr_req_l_host x))
      + len_when (0 \<le>s version) 2
      + len_when (0 \<le>s version) 2
      + len_when flex (tagged_size [] (cr_req_l_unknown_tagged_fields x)))"

definition ControllerRegistrationRequest_Listener_decode :: "i16 \<Rightarrow> ControllerRegistrationRequest_Listener decoder" where
  "ControllerRegistrationRequest_Listener_decode version =
     (let flex = 0 \<le>s version in
      read_then (get_into (0 \<le>s version) (get_str flex) (\<lambda>v out. out\<lparr>cr_req_l_name := v\<rparr>) ControllerRegistrationRequest_Listener_default) (\<lambda>out.
        read_then (get_into (0 \<le>s version) (get_str flex) (\<lambda>v out. out\<lparr>cr_req_l_host := v\<rparr>) out) (\<lambda>out.
        read_then (get_into (0 \<le>s version) get_u16 (\<lambda>v out. out\<lparr>cr_req_l_port := v\<rparr>) out) (\<lambda>out.
        read_then (get_into (0 \<le>s version) get_i16 (\<lambda>v out. out\<lparr>cr_req_l_security_protocol := v\<rparr>) out) (\<lambda>out.
        get_trailer flex [] (\<lambda>u out. out\<lparr>cr_req_l_unknown_tagged_fields := u\<rparr>) out)))))"

definition ControllerRegistrationRequest_Listener_fields_wf :: "i16 \<Rightarrow> ControllerRegistrationRequest_Listener \<Rightarrow> bool" where
  "ControllerRegistrationRequest_Listener_fields_wf version x \<longleftrightarrow>
     (let flex = 0 \<le>s version in
      str_wf flex (cr_req_l_name x)
      \<and> str_wf flex (cr_req_l_host x))"

definition ControllerRegistrationRequest_Listener_wf :: "i16 \<Rightarrow> ControllerRegistrationRequest_Listener \<Rightarrow> bool" where
  "ControllerRegistrationRequest_Listener_wf version x \<longleftrightarrow>
     ControllerRegistrationRequest_Listener_fields_wf version x \<and> trailer_ok [] [] (cr_req_l_unknown_tagged_fields x)"

lemmas controller_registration_request_listener_fields =
    Let_def field_ok_def ControllerRegistrationRequest_Listener_fields_wf_def

lemma controller_registration_request_listener_steps:
  assumes v: "0 \<le>s version" and flex: "flex = (0 \<le>s version)"
  shows "keeps (ControllerRegistrationRequest_Listener_fields_wf version) (get_into (0 \<le>s version) (get_str flex) (\<lambda>v out. out\<lparr>cr_req_l_name := v\<rparr>))"
    and "keeps (ControllerRegistrationRequest_Listener_fields_wf version) (get_into (0 \<le>s version) (get_str flex) (\<lambda>v out. out\<lparr>cr_req_l_host := v\<rparr>))"
    and "keeps (ControllerRegistrationRequest_Listener_fields_wf version) (get_into (0 \<le>s version) get_u16 (\<lambda>v out. out\<lparr>cr_req_l_port := v\<rparr>))"
    and "keeps (ControllerRegistrationRequest_Listener_fields_wf version) (get_into (0 \<le>s version) get_i16 (\<lambda>v out. out\<lparr>cr_req_l_security_protocol := v\<rparr>))"
  unfolding flex 
  by (rule keeps_into; (rule yields_rules)?; simp add: v controller_registration_request_listener_fields)+

lemma controller_registration_request_listener_unknown:
  "ControllerRegistrationRequest_Listener_fields_wf version (s\<lparr>cr_req_l_unknown_tagged_fields := u\<rparr>) = ControllerRegistrationRequest_Listener_fields_wf version s"
  by (simp_all add: ControllerRegistrationRequest_Listener_fields_wf_def)

lemma controller_registration_request_listener_yields:
  assumes v: "0 \<le>s version"
  shows "yields 1 (ControllerRegistrationRequest_Listener_decode version) (ControllerRegistrationRequest_Listener_wf version)"
proof -
  have d: "ControllerRegistrationRequest_Listener_fields_wf version ControllerRegistrationRequest_Listener_default"
    by (simp add: ControllerRegistrationRequest_Listener_default_def v controller_registration_request_listener_fields)
  show ?thesis
    unfolding ControllerRegistrationRequest_Listener_decode_def Let_def
    by ((rule controller_registration_request_listener_steps[OF v refl, THEN yields_step], (rule d | assumption))+, rule yields_trailer[OF _ arms_keep_Nil[of "ControllerRegistrationRequest_Listener_fields_wf version" "\<lambda>_. 0"]])
      (simp_all add: v d controller_registration_request_listener_unknown ControllerRegistrationRequest_Listener_wf_def trailer_ok_def )
qed

lemma controller_registration_request_listener_extends [extends_rules]: "extends_input (ControllerRegistrationRequest_Listener_decode version)"
  unfolding ControllerRegistrationRequest_Listener_decode_def Let_def by (intro extends_rules)

lemma controller_registration_request_listener_codec:
  assumes v: "0 \<le>s version"
  shows "message_codec ControllerRegistrationRequest_Listener_encode ControllerRegistrationRequest_Listener_decode ControllerRegistrationRequest_Listener_encoded_len (ControllerRegistrationRequest_Listener_wf version) version"
proof
  fix x
  assume w: "ControllerRegistrationRequest_Listener_wf version x"
  show "carries (ControllerRegistrationRequest_Listener_encode x version) (ControllerRegistrationRequest_Listener_decode version) (ControllerRegistrationRequest_Listener_encoded_len x version) x"
    unfolding ControllerRegistrationRequest_Listener_encode_def ControllerRegistrationRequest_Listener_encoded_len_def ControllerRegistrationRequest_Listener_decode_def Let_def
    by (use w[unfolded ControllerRegistrationRequest_Listener_wf_def ControllerRegistrationRequest_Listener_fields_wf_def Let_def] in \<open>elim conjE\<close>, rule carries_cong_len)
      ((rule carries_rules | (erule absent_guarded, assumption) | erule absent_plain
        | simp add: v field_ok_def ControllerRegistrationRequest_Listener_default_def )+)
next
  show "yields 1 (ControllerRegistrationRequest_Listener_decode version) (ControllerRegistrationRequest_Listener_wf version)"
    by (rule controller_registration_request_listener_yields[OF v])
qed (rule controller_registration_request_listener_extends)

lemma controller_registration_request_listener_default_wf [simp]: "0 \<le>s version \<Longrightarrow> ControllerRegistrationRequest_Listener_wf version ControllerRegistrationRequest_Listener_default"
  by (simp add: ControllerRegistrationRequest_Listener_wf_def ControllerRegistrationRequest_Listener_default_def trailer_ok_def controller_registration_request_listener_fields)

lemmas [carries_rules] = message_codec.message_carries[OF controller_registration_request_listener_codec]
lemmas [yields_rules] = message_codec.message_yields[OF controller_registration_request_listener_codec]

lemmas [carries_rules] = protocol_codec.put_array_carries[OF message_codec.message_protocol[OF controller_registration_request_listener_codec]]
lemmas [yields_rules] = protocol_codec.get_array_yields[OF message_codec.message_protocol[OF controller_registration_request_listener_codec]]
lemmas [carries_rules] = protocol_codec.put_nullable_array_carries[OF message_codec.message_protocol[OF controller_registration_request_listener_codec]]
lemmas [yields_rules] = protocol_codec.get_nullable_array_yields[OF message_codec.message_protocol[OF controller_registration_request_listener_codec]]

record ControllerRegistrationRequest_Feature =
  cr_req_f_name :: bytes
  cr_req_f_min_supported_version :: i16
  cr_req_f_max_supported_version :: i16
  cr_req_f_unknown_tagged_fields :: "UnknownTaggedField list"

definition ControllerRegistrationRequest_Feature_default :: ControllerRegistrationRequest_Feature where
  "ControllerRegistrationRequest_Feature_default =
     \<lparr>cr_req_f_name = [], cr_req_f_min_supported_version = 0, cr_req_f_max_supported_version = 0, cr_req_f_unknown_tagged_fields = []\<rparr>"

definition ControllerRegistrationRequest_Feature_encode :: "ControllerRegistrationRequest_Feature \<Rightarrow> i16 \<Rightarrow> encoder" where
  "ControllerRegistrationRequest_Feature_encode x version =
     (let flex = 0 \<le>s version in
      write_all
        [put_when (0 \<le>s version) (put_str flex (cr_req_f_name x)),
         put_when (0 \<le>s version) (put_i16 (cr_req_f_min_supported_version x)),
         put_when (0 \<le>s version) (put_i16 (cr_req_f_max_supported_version x)),
         put_when flex (put_tagged [] (cr_req_f_unknown_tagged_fields x))])"

definition ControllerRegistrationRequest_Feature_encoded_len :: "ControllerRegistrationRequest_Feature \<Rightarrow> i16 \<Rightarrow> nat" where
  "ControllerRegistrationRequest_Feature_encoded_len x version =
     (let flex = 0 \<le>s version in
      len_when (0 \<le>s version) (str_len flex (cr_req_f_name x))
      + len_when (0 \<le>s version) 2
      + len_when (0 \<le>s version) 2
      + len_when flex (tagged_size [] (cr_req_f_unknown_tagged_fields x)))"

definition ControllerRegistrationRequest_Feature_decode :: "i16 \<Rightarrow> ControllerRegistrationRequest_Feature decoder" where
  "ControllerRegistrationRequest_Feature_decode version =
     (let flex = 0 \<le>s version in
      read_then (get_into (0 \<le>s version) (get_str flex) (\<lambda>v out. out\<lparr>cr_req_f_name := v\<rparr>) ControllerRegistrationRequest_Feature_default) (\<lambda>out.
        read_then (get_into (0 \<le>s version) get_i16 (\<lambda>v out. out\<lparr>cr_req_f_min_supported_version := v\<rparr>) out) (\<lambda>out.
        read_then (get_into (0 \<le>s version) get_i16 (\<lambda>v out. out\<lparr>cr_req_f_max_supported_version := v\<rparr>) out) (\<lambda>out.
        get_trailer flex [] (\<lambda>u out. out\<lparr>cr_req_f_unknown_tagged_fields := u\<rparr>) out))))"

definition ControllerRegistrationRequest_Feature_fields_wf :: "i16 \<Rightarrow> ControllerRegistrationRequest_Feature \<Rightarrow> bool" where
  "ControllerRegistrationRequest_Feature_fields_wf version x \<longleftrightarrow>
     (let flex = 0 \<le>s version in
      str_wf flex (cr_req_f_name x))"

definition ControllerRegistrationRequest_Feature_wf :: "i16 \<Rightarrow> ControllerRegistrationRequest_Feature \<Rightarrow> bool" where
  "ControllerRegistrationRequest_Feature_wf version x \<longleftrightarrow>
     ControllerRegistrationRequest_Feature_fields_wf version x \<and> trailer_ok [] [] (cr_req_f_unknown_tagged_fields x)"

lemmas controller_registration_request_feature_fields =
    Let_def field_ok_def ControllerRegistrationRequest_Feature_fields_wf_def

lemma controller_registration_request_feature_steps:
  assumes v: "0 \<le>s version" and flex: "flex = (0 \<le>s version)"
  shows "keeps (ControllerRegistrationRequest_Feature_fields_wf version) (get_into (0 \<le>s version) (get_str flex) (\<lambda>v out. out\<lparr>cr_req_f_name := v\<rparr>))"
    and "keeps (ControllerRegistrationRequest_Feature_fields_wf version) (get_into (0 \<le>s version) get_i16 (\<lambda>v out. out\<lparr>cr_req_f_min_supported_version := v\<rparr>))"
    and "keeps (ControllerRegistrationRequest_Feature_fields_wf version) (get_into (0 \<le>s version) get_i16 (\<lambda>v out. out\<lparr>cr_req_f_max_supported_version := v\<rparr>))"
  unfolding flex 
  by (rule keeps_into; (rule yields_rules)?; simp add: v controller_registration_request_feature_fields)+

lemma controller_registration_request_feature_unknown:
  "ControllerRegistrationRequest_Feature_fields_wf version (s\<lparr>cr_req_f_unknown_tagged_fields := u\<rparr>) = ControllerRegistrationRequest_Feature_fields_wf version s"
  by (simp_all add: ControllerRegistrationRequest_Feature_fields_wf_def)

lemma controller_registration_request_feature_yields:
  assumes v: "0 \<le>s version"
  shows "yields 1 (ControllerRegistrationRequest_Feature_decode version) (ControllerRegistrationRequest_Feature_wf version)"
proof -
  have d: "ControllerRegistrationRequest_Feature_fields_wf version ControllerRegistrationRequest_Feature_default"
    by (simp add: ControllerRegistrationRequest_Feature_default_def v controller_registration_request_feature_fields)
  show ?thesis
    unfolding ControllerRegistrationRequest_Feature_decode_def Let_def
    by ((rule controller_registration_request_feature_steps[OF v refl, THEN yields_step], (rule d | assumption))+, rule yields_trailer[OF _ arms_keep_Nil[of "ControllerRegistrationRequest_Feature_fields_wf version" "\<lambda>_. 0"]])
      (simp_all add: v d controller_registration_request_feature_unknown ControllerRegistrationRequest_Feature_wf_def trailer_ok_def )
qed

lemma controller_registration_request_feature_extends [extends_rules]: "extends_input (ControllerRegistrationRequest_Feature_decode version)"
  unfolding ControllerRegistrationRequest_Feature_decode_def Let_def by (intro extends_rules)

lemma controller_registration_request_feature_codec:
  assumes v: "0 \<le>s version"
  shows "message_codec ControllerRegistrationRequest_Feature_encode ControllerRegistrationRequest_Feature_decode ControllerRegistrationRequest_Feature_encoded_len (ControllerRegistrationRequest_Feature_wf version) version"
proof
  fix x
  assume w: "ControllerRegistrationRequest_Feature_wf version x"
  show "carries (ControllerRegistrationRequest_Feature_encode x version) (ControllerRegistrationRequest_Feature_decode version) (ControllerRegistrationRequest_Feature_encoded_len x version) x"
    unfolding ControllerRegistrationRequest_Feature_encode_def ControllerRegistrationRequest_Feature_encoded_len_def ControllerRegistrationRequest_Feature_decode_def Let_def
    by (use w[unfolded ControllerRegistrationRequest_Feature_wf_def ControllerRegistrationRequest_Feature_fields_wf_def Let_def] in \<open>elim conjE\<close>, rule carries_cong_len)
      ((rule carries_rules | (erule absent_guarded, assumption) | erule absent_plain
        | simp add: v field_ok_def ControllerRegistrationRequest_Feature_default_def )+)
next
  show "yields 1 (ControllerRegistrationRequest_Feature_decode version) (ControllerRegistrationRequest_Feature_wf version)"
    by (rule controller_registration_request_feature_yields[OF v])
qed (rule controller_registration_request_feature_extends)

lemma controller_registration_request_feature_default_wf [simp]: "0 \<le>s version \<Longrightarrow> ControllerRegistrationRequest_Feature_wf version ControllerRegistrationRequest_Feature_default"
  by (simp add: ControllerRegistrationRequest_Feature_wf_def ControllerRegistrationRequest_Feature_default_def trailer_ok_def controller_registration_request_feature_fields)

lemmas [carries_rules] = message_codec.message_carries[OF controller_registration_request_feature_codec]
lemmas [yields_rules] = message_codec.message_yields[OF controller_registration_request_feature_codec]

lemmas [carries_rules] = protocol_codec.put_array_carries[OF message_codec.message_protocol[OF controller_registration_request_feature_codec]]
lemmas [yields_rules] = protocol_codec.get_array_yields[OF message_codec.message_protocol[OF controller_registration_request_feature_codec]]
lemmas [carries_rules] = protocol_codec.put_nullable_array_carries[OF message_codec.message_protocol[OF controller_registration_request_feature_codec]]
lemmas [yields_rules] = protocol_codec.get_nullable_array_yields[OF message_codec.message_protocol[OF controller_registration_request_feature_codec]]

record ControllerRegistrationRequest =
  cr_req_controller_id :: i32
  cr_req_incarnation_id :: Uuid
  cr_req_zk_migration_ready :: bool
  cr_req_listeners :: "ControllerRegistrationRequest_Listener list"
  cr_req_features :: "ControllerRegistrationRequest_Feature list"
  cr_req_unknown_tagged_fields :: "UnknownTaggedField list"

definition ControllerRegistrationRequest_default :: ControllerRegistrationRequest where
  "ControllerRegistrationRequest_default =
     \<lparr>cr_req_controller_id = 0, cr_req_incarnation_id = Uuid_ZERO, cr_req_zk_migration_ready = False, cr_req_listeners = [], cr_req_features = [], cr_req_unknown_tagged_fields = []\<rparr>"

definition ControllerRegistrationRequest_MIN_VERSION :: i16 where
  "ControllerRegistrationRequest_MIN_VERSION = 0"

definition ControllerRegistrationRequest_MAX_VERSION :: i16 where
  "ControllerRegistrationRequest_MAX_VERSION = 0"

definition ControllerRegistrationRequest_FLEXIBLE_MIN :: i16 where
  "ControllerRegistrationRequest_FLEXIBLE_MIN = 0"

definition ControllerRegistrationRequest_API_KEY :: i16 where
  "ControllerRegistrationRequest_API_KEY = 70"

definition ControllerRegistrationRequest_is_flexible :: "i16 \<Rightarrow> bool" where
  "ControllerRegistrationRequest_is_flexible version \<longleftrightarrow> ControllerRegistrationRequest_FLEXIBLE_MIN \<le>s version"

definition ControllerRegistrationRequest_encode :: "ControllerRegistrationRequest \<Rightarrow> i16 \<Rightarrow> encoder" where
  "ControllerRegistrationRequest_encode x version =
     (let flex = ControllerRegistrationRequest_is_flexible version in
      write_all
        [write_check (check_version ControllerRegistrationRequest_API_KEY version ControllerRegistrationRequest_MIN_VERSION ControllerRegistrationRequest_MAX_VERSION),
         put_when (0 \<le>s version) (put_i32 (cr_req_controller_id x)),
         put_when (0 \<le>s version) (put_uuid (cr_req_incarnation_id x)),
         put_when (0 \<le>s version) (put_bool (cr_req_zk_migration_ready x)),
         put_when (0 \<le>s version) (put_array flex (\<lambda>it. ControllerRegistrationRequest_Listener_encode it version) (cr_req_listeners x)),
         put_when (0 \<le>s version) (put_array flex (\<lambda>it. ControllerRegistrationRequest_Feature_encode it version) (cr_req_features x)),
         put_when flex (put_tagged [] (cr_req_unknown_tagged_fields x))])"

definition ControllerRegistrationRequest_encoded_len :: "ControllerRegistrationRequest \<Rightarrow> i16 \<Rightarrow> nat" where
  "ControllerRegistrationRequest_encoded_len x version =
     (let flex = ControllerRegistrationRequest_is_flexible version in
      len_when (0 \<le>s version) 4
      + len_when (0 \<le>s version) 16
      + len_when (0 \<le>s version) 1
      + len_when (0 \<le>s version) (array_size flex (\<lambda>it. ControllerRegistrationRequest_Listener_encoded_len it version) (cr_req_listeners x))
      + len_when (0 \<le>s version) (array_size flex (\<lambda>it. ControllerRegistrationRequest_Feature_encoded_len it version) (cr_req_features x))
      + len_when flex (tagged_size [] (cr_req_unknown_tagged_fields x)))"

definition ControllerRegistrationRequest_decode :: "i16 \<Rightarrow> ControllerRegistrationRequest decoder" where
  "ControllerRegistrationRequest_decode version =
     (let flex = ControllerRegistrationRequest_is_flexible version in
      checked (check_version ControllerRegistrationRequest_API_KEY version ControllerRegistrationRequest_MIN_VERSION ControllerRegistrationRequest_MAX_VERSION) (
        read_then (get_into (0 \<le>s version) get_i32 (\<lambda>v out. out\<lparr>cr_req_controller_id := v\<rparr>) ControllerRegistrationRequest_default) (\<lambda>out.
        read_then (get_into (0 \<le>s version) get_uuid (\<lambda>v out. out\<lparr>cr_req_incarnation_id := v\<rparr>) out) (\<lambda>out.
        read_then (get_into (0 \<le>s version) get_bool (\<lambda>v out. out\<lparr>cr_req_zk_migration_ready := v\<rparr>) out) (\<lambda>out.
        read_then (get_into (0 \<le>s version) (get_array flex (ControllerRegistrationRequest_Listener_decode version)) (\<lambda>v out. out\<lparr>cr_req_listeners := v\<rparr>) out) (\<lambda>out.
        read_then (get_into (0 \<le>s version) (get_array flex (ControllerRegistrationRequest_Feature_decode version)) (\<lambda>v out. out\<lparr>cr_req_features := v\<rparr>) out) (\<lambda>out.
        get_trailer flex [] (\<lambda>u out. out\<lparr>cr_req_unknown_tagged_fields := u\<rparr>) out)))))))"

definition ControllerRegistrationRequest_fields_wf :: "i16 \<Rightarrow> ControllerRegistrationRequest \<Rightarrow> bool" where
  "ControllerRegistrationRequest_fields_wf version x \<longleftrightarrow>
     (let flex = ControllerRegistrationRequest_is_flexible version in
      uuid_wf (cr_req_incarnation_id x)
      \<and> array_ok flex (ControllerRegistrationRequest_Listener_wf version) (cr_req_listeners x)
      \<and> array_ok flex (ControllerRegistrationRequest_Feature_wf version) (cr_req_features x))"

definition ControllerRegistrationRequest_wf :: "i16 \<Rightarrow> ControllerRegistrationRequest \<Rightarrow> bool" where
  "ControllerRegistrationRequest_wf version x \<longleftrightarrow>
     version_in ControllerRegistrationRequest_MIN_VERSION ControllerRegistrationRequest_MAX_VERSION version \<and> ControllerRegistrationRequest_fields_wf version x \<and> trailer_ok [] [] (cr_req_unknown_tagged_fields x)"

lemmas controller_registration_request_versions =
    ControllerRegistrationRequest_is_flexible_def ControllerRegistrationRequest_FLEXIBLE_MIN_def
    ControllerRegistrationRequest_MIN_VERSION_def ControllerRegistrationRequest_MAX_VERSION_def version_in_def

lemmas controller_registration_request_fields =
    Let_def field_ok_def ControllerRegistrationRequest_fields_wf_def ControllerRegistrationRequest_is_flexible_def
    ControllerRegistrationRequest_FLEXIBLE_MIN_def

lemma controller_registration_request_steps:
  assumes v: "0 \<le>s version" and flex: "flex = (ControllerRegistrationRequest_is_flexible version)"
  shows "keeps (ControllerRegistrationRequest_fields_wf version) (get_into (0 \<le>s version) get_i32 (\<lambda>v out. out\<lparr>cr_req_controller_id := v\<rparr>))"
    and "keeps (ControllerRegistrationRequest_fields_wf version) (get_into (0 \<le>s version) get_uuid (\<lambda>v out. out\<lparr>cr_req_incarnation_id := v\<rparr>))"
    and "keeps (ControllerRegistrationRequest_fields_wf version) (get_into (0 \<le>s version) get_bool (\<lambda>v out. out\<lparr>cr_req_zk_migration_ready := v\<rparr>))"
    and "keeps (ControllerRegistrationRequest_fields_wf version) (get_into (0 \<le>s version) (get_array flex (ControllerRegistrationRequest_Listener_decode version)) (\<lambda>v out. out\<lparr>cr_req_listeners := v\<rparr>))"
    and "keeps (ControllerRegistrationRequest_fields_wf version) (get_into (0 \<le>s version) (get_array flex (ControllerRegistrationRequest_Feature_decode version)) (\<lambda>v out. out\<lparr>cr_req_features := v\<rparr>))"
  unfolding flex 
  by (rule keeps_into; (rule yields_rules)?; simp add: v controller_registration_request_fields)+

lemma controller_registration_request_unknown:
  "ControllerRegistrationRequest_fields_wf version (s\<lparr>cr_req_unknown_tagged_fields := u\<rparr>) = ControllerRegistrationRequest_fields_wf version s"
  by (simp_all add: ControllerRegistrationRequest_fields_wf_def)

lemma controller_registration_request_yields:
  assumes r: "version_in ControllerRegistrationRequest_MIN_VERSION ControllerRegistrationRequest_MAX_VERSION version"
  shows "yields 1 (ControllerRegistrationRequest_decode version) (ControllerRegistrationRequest_wf version)"
proof -
  have v: "0 \<le>s version"
    using r by (simp add: controller_registration_request_versions)
  have d: "ControllerRegistrationRequest_fields_wf version ControllerRegistrationRequest_default"
    by (simp add: ControllerRegistrationRequest_default_def v controller_registration_request_fields)
  show ?thesis
    unfolding ControllerRegistrationRequest_decode_def Let_def
    by (rule yields_checked, (rule controller_registration_request_steps[OF v refl, THEN yields_step], (rule d | assumption))+, rule yields_trailer[OF _ arms_keep_Nil[of "ControllerRegistrationRequest_fields_wf version" "\<lambda>_. 0"]])
      (simp_all add: v d controller_registration_request_unknown ControllerRegistrationRequest_wf_def trailer_ok_def r ControllerRegistrationRequest_is_flexible_def ControllerRegistrationRequest_FLEXIBLE_MIN_def)
qed

interpretation controller_registration_request: message_codec
  ControllerRegistrationRequest_encode ControllerRegistrationRequest_decode ControllerRegistrationRequest_encoded_len "ControllerRegistrationRequest_wf version" version
  for version
proof
  fix x
  assume w: "ControllerRegistrationRequest_wf version x"
  then have v: "0 \<le>s version"
    by (simp add: ControllerRegistrationRequest_wf_def controller_registration_request_versions)
  show "carries (ControllerRegistrationRequest_encode x version) (ControllerRegistrationRequest_decode version) (ControllerRegistrationRequest_encoded_len x version) x"
    unfolding ControllerRegistrationRequest_encode_def ControllerRegistrationRequest_encoded_len_def ControllerRegistrationRequest_decode_def Let_def
    by (use w[unfolded ControllerRegistrationRequest_wf_def ControllerRegistrationRequest_fields_wf_def Let_def] in \<open>elim conjE\<close>, rule carries_cong_len)
      ((rule carries_rules check_version_in[THEN iffD2] | (erule absent_guarded, assumption) | erule absent_plain
        | simp add: v field_ok_def ControllerRegistrationRequest_default_def controller_registration_request_versions)+)
next
  show "yields 1 (ControllerRegistrationRequest_decode version) (ControllerRegistrationRequest_wf version)"
    by (rule case_split[OF controller_registration_request_yields]) (auto simp: ControllerRegistrationRequest_decode_def Let_def yields_refused yields_unsupported)
  show "extends_input (ControllerRegistrationRequest_decode version)"
    unfolding ControllerRegistrationRequest_decode_def Let_def by (intro extends_rules)
qed

section \<open>ControllerRegistrationResponse\<close>

record ControllerRegistrationResponse =
  cr_resp_throttle_time_ms :: i32
  cr_resp_error_code :: i16
  cr_resp_error_message :: "bytes option"
  cr_resp_unknown_tagged_fields :: "UnknownTaggedField list"

definition ControllerRegistrationResponse_default :: ControllerRegistrationResponse where
  "ControllerRegistrationResponse_default =
     \<lparr>cr_resp_throttle_time_ms = 0, cr_resp_error_code = 0, cr_resp_error_message = Some [], cr_resp_unknown_tagged_fields = []\<rparr>"

definition ControllerRegistrationResponse_MIN_VERSION :: i16 where
  "ControllerRegistrationResponse_MIN_VERSION = 0"

definition ControllerRegistrationResponse_MAX_VERSION :: i16 where
  "ControllerRegistrationResponse_MAX_VERSION = 0"

definition ControllerRegistrationResponse_FLEXIBLE_MIN :: i16 where
  "ControllerRegistrationResponse_FLEXIBLE_MIN = 0"

definition ControllerRegistrationResponse_API_KEY :: i16 where
  "ControllerRegistrationResponse_API_KEY = 70"

definition ControllerRegistrationResponse_is_flexible :: "i16 \<Rightarrow> bool" where
  "ControllerRegistrationResponse_is_flexible version \<longleftrightarrow> ControllerRegistrationResponse_FLEXIBLE_MIN \<le>s version"

definition ControllerRegistrationResponse_encode :: "ControllerRegistrationResponse \<Rightarrow> i16 \<Rightarrow> encoder" where
  "ControllerRegistrationResponse_encode x version =
     (let flex = ControllerRegistrationResponse_is_flexible version in
      write_all
        [write_check (check_version ControllerRegistrationResponse_API_KEY version ControllerRegistrationResponse_MIN_VERSION ControllerRegistrationResponse_MAX_VERSION),
         put_when (0 \<le>s version) (put_i32 (cr_resp_throttle_time_ms x)),
         put_when (0 \<le>s version) (put_i16 (cr_resp_error_code x)),
         put_when (0 \<le>s version) (put_nullable_str flex (cr_resp_error_message x)),
         put_when flex (put_tagged [] (cr_resp_unknown_tagged_fields x))])"

definition ControllerRegistrationResponse_encoded_len :: "ControllerRegistrationResponse \<Rightarrow> i16 \<Rightarrow> nat" where
  "ControllerRegistrationResponse_encoded_len x version =
     (let flex = ControllerRegistrationResponse_is_flexible version in
      len_when (0 \<le>s version) 4
      + len_when (0 \<le>s version) 2
      + len_when (0 \<le>s version) (nullable_str_len flex (cr_resp_error_message x))
      + len_when flex (tagged_size [] (cr_resp_unknown_tagged_fields x)))"

definition ControllerRegistrationResponse_decode :: "i16 \<Rightarrow> ControllerRegistrationResponse decoder" where
  "ControllerRegistrationResponse_decode version =
     (let flex = ControllerRegistrationResponse_is_flexible version in
      checked (check_version ControllerRegistrationResponse_API_KEY version ControllerRegistrationResponse_MIN_VERSION ControllerRegistrationResponse_MAX_VERSION) (
        read_then (get_into (0 \<le>s version) get_i32 (\<lambda>v out. out\<lparr>cr_resp_throttle_time_ms := v\<rparr>) ControllerRegistrationResponse_default) (\<lambda>out.
        read_then (get_into (0 \<le>s version) get_i16 (\<lambda>v out. out\<lparr>cr_resp_error_code := v\<rparr>) out) (\<lambda>out.
        read_then (get_into (0 \<le>s version) (get_nullable_str flex) (\<lambda>v out. out\<lparr>cr_resp_error_message := v\<rparr>) out) (\<lambda>out.
        get_trailer flex [] (\<lambda>u out. out\<lparr>cr_resp_unknown_tagged_fields := u\<rparr>) out)))))"

definition ControllerRegistrationResponse_fields_wf :: "i16 \<Rightarrow> ControllerRegistrationResponse \<Rightarrow> bool" where
  "ControllerRegistrationResponse_fields_wf version x \<longleftrightarrow>
     (let flex = ControllerRegistrationResponse_is_flexible version in
      nullable_str_wf flex (cr_resp_error_message x))"

definition ControllerRegistrationResponse_wf :: "i16 \<Rightarrow> ControllerRegistrationResponse \<Rightarrow> bool" where
  "ControllerRegistrationResponse_wf version x \<longleftrightarrow>
     version_in ControllerRegistrationResponse_MIN_VERSION ControllerRegistrationResponse_MAX_VERSION version \<and> ControllerRegistrationResponse_fields_wf version x \<and> trailer_ok [] [] (cr_resp_unknown_tagged_fields x)"

lemmas controller_registration_response_versions =
    ControllerRegistrationResponse_is_flexible_def ControllerRegistrationResponse_FLEXIBLE_MIN_def
    ControllerRegistrationResponse_MIN_VERSION_def ControllerRegistrationResponse_MAX_VERSION_def version_in_def

lemmas controller_registration_response_fields =
    Let_def field_ok_def ControllerRegistrationResponse_fields_wf_def
    ControllerRegistrationResponse_is_flexible_def ControllerRegistrationResponse_FLEXIBLE_MIN_def

lemma controller_registration_response_steps:
  assumes v: "0 \<le>s version" and flex: "flex = (ControllerRegistrationResponse_is_flexible version)"
  shows "keeps (ControllerRegistrationResponse_fields_wf version) (get_into (0 \<le>s version) get_i32 (\<lambda>v out. out\<lparr>cr_resp_throttle_time_ms := v\<rparr>))"
    and "keeps (ControllerRegistrationResponse_fields_wf version) (get_into (0 \<le>s version) get_i16 (\<lambda>v out. out\<lparr>cr_resp_error_code := v\<rparr>))"
    and "keeps (ControllerRegistrationResponse_fields_wf version) (get_into (0 \<le>s version) (get_nullable_str flex) (\<lambda>v out. out\<lparr>cr_resp_error_message := v\<rparr>))"
  unfolding flex 
  by (rule keeps_into; (rule yields_rules)?; simp add: v controller_registration_response_fields)+

lemma controller_registration_response_unknown:
  "ControllerRegistrationResponse_fields_wf version (s\<lparr>cr_resp_unknown_tagged_fields := u\<rparr>) = ControllerRegistrationResponse_fields_wf version s"
  by (simp_all add: ControllerRegistrationResponse_fields_wf_def)

lemma controller_registration_response_yields:
  assumes r: "version_in ControllerRegistrationResponse_MIN_VERSION ControllerRegistrationResponse_MAX_VERSION version"
  shows "yields 1 (ControllerRegistrationResponse_decode version) (ControllerRegistrationResponse_wf version)"
proof -
  have v: "0 \<le>s version"
    using r by (simp add: controller_registration_response_versions)
  have d: "ControllerRegistrationResponse_fields_wf version ControllerRegistrationResponse_default"
    by (simp add: ControllerRegistrationResponse_default_def v controller_registration_response_fields)
  show ?thesis
    unfolding ControllerRegistrationResponse_decode_def Let_def
    by (rule yields_checked, (rule controller_registration_response_steps[OF v refl, THEN yields_step], (rule d | assumption))+, rule yields_trailer[OF _ arms_keep_Nil[of "ControllerRegistrationResponse_fields_wf version" "\<lambda>_. 0"]])
      (simp_all add: v d controller_registration_response_unknown ControllerRegistrationResponse_wf_def trailer_ok_def r ControllerRegistrationResponse_is_flexible_def ControllerRegistrationResponse_FLEXIBLE_MIN_def)
qed

interpretation controller_registration_response: message_codec
  ControllerRegistrationResponse_encode ControllerRegistrationResponse_decode ControllerRegistrationResponse_encoded_len "ControllerRegistrationResponse_wf version" version
  for version
proof
  fix x
  assume w: "ControllerRegistrationResponse_wf version x"
  then have v: "0 \<le>s version"
    by (simp add: ControllerRegistrationResponse_wf_def controller_registration_response_versions)
  show "carries (ControllerRegistrationResponse_encode x version) (ControllerRegistrationResponse_decode version) (ControllerRegistrationResponse_encoded_len x version) x"
    unfolding ControllerRegistrationResponse_encode_def ControllerRegistrationResponse_encoded_len_def ControllerRegistrationResponse_decode_def Let_def
    by (use w[unfolded ControllerRegistrationResponse_wf_def ControllerRegistrationResponse_fields_wf_def Let_def] in \<open>elim conjE\<close>, rule carries_cong_len)
      ((rule carries_rules check_version_in[THEN iffD2] | (erule absent_guarded, assumption) | erule absent_plain
        | simp add: v field_ok_def ControllerRegistrationResponse_default_def controller_registration_response_versions)+)
next
  show "yields 1 (ControllerRegistrationResponse_decode version) (ControllerRegistrationResponse_wf version)"
    by (rule case_split[OF controller_registration_response_yields]) (auto simp: ControllerRegistrationResponse_decode_def Let_def yields_refused yields_unsupported)
  show "extends_input (ControllerRegistrationResponse_decode version)"
    unfolding ControllerRegistrationResponse_decode_def Let_def by (intro extends_rules)
qed

section \<open>UnregisterBrokerRequest\<close>

record UnregisterBrokerRequest =
  ub_req_broker_id :: i32
  ub_req_unknown_tagged_fields :: "UnknownTaggedField list"

definition UnregisterBrokerRequest_default :: UnregisterBrokerRequest where
  "UnregisterBrokerRequest_default =
     \<lparr>ub_req_broker_id = 0, ub_req_unknown_tagged_fields = []\<rparr>"

definition UnregisterBrokerRequest_MIN_VERSION :: i16 where
  "UnregisterBrokerRequest_MIN_VERSION = 0"

definition UnregisterBrokerRequest_MAX_VERSION :: i16 where
  "UnregisterBrokerRequest_MAX_VERSION = 0"

definition UnregisterBrokerRequest_FLEXIBLE_MIN :: i16 where
  "UnregisterBrokerRequest_FLEXIBLE_MIN = 0"

definition UnregisterBrokerRequest_API_KEY :: i16 where
  "UnregisterBrokerRequest_API_KEY = 64"

definition UnregisterBrokerRequest_is_flexible :: "i16 \<Rightarrow> bool" where
  "UnregisterBrokerRequest_is_flexible version \<longleftrightarrow> UnregisterBrokerRequest_FLEXIBLE_MIN \<le>s version"

definition UnregisterBrokerRequest_encode :: "UnregisterBrokerRequest \<Rightarrow> i16 \<Rightarrow> encoder" where
  "UnregisterBrokerRequest_encode x version =
     (let flex = UnregisterBrokerRequest_is_flexible version in
      write_all
        [write_check (check_version UnregisterBrokerRequest_API_KEY version UnregisterBrokerRequest_MIN_VERSION UnregisterBrokerRequest_MAX_VERSION),
         put_when (0 \<le>s version) (put_i32 (ub_req_broker_id x)),
         put_when flex (put_tagged [] (ub_req_unknown_tagged_fields x))])"

definition UnregisterBrokerRequest_encoded_len :: "UnregisterBrokerRequest \<Rightarrow> i16 \<Rightarrow> nat" where
  "UnregisterBrokerRequest_encoded_len x version =
     (let flex = UnregisterBrokerRequest_is_flexible version in
      len_when (0 \<le>s version) 4
      + len_when flex (tagged_size [] (ub_req_unknown_tagged_fields x)))"

definition UnregisterBrokerRequest_decode :: "i16 \<Rightarrow> UnregisterBrokerRequest decoder" where
  "UnregisterBrokerRequest_decode version =
     (let flex = UnregisterBrokerRequest_is_flexible version in
      checked (check_version UnregisterBrokerRequest_API_KEY version UnregisterBrokerRequest_MIN_VERSION UnregisterBrokerRequest_MAX_VERSION) (
        read_then (get_into (0 \<le>s version) get_i32 (\<lambda>v out. out\<lparr>ub_req_broker_id := v\<rparr>) UnregisterBrokerRequest_default) (\<lambda>out.
        get_trailer flex [] (\<lambda>u out. out\<lparr>ub_req_unknown_tagged_fields := u\<rparr>) out)))"

definition UnregisterBrokerRequest_fields_wf :: "i16 \<Rightarrow> UnregisterBrokerRequest \<Rightarrow> bool" where
  "UnregisterBrokerRequest_fields_wf version x \<longleftrightarrow>
     True"

definition UnregisterBrokerRequest_wf :: "i16 \<Rightarrow> UnregisterBrokerRequest \<Rightarrow> bool" where
  "UnregisterBrokerRequest_wf version x \<longleftrightarrow>
     version_in UnregisterBrokerRequest_MIN_VERSION UnregisterBrokerRequest_MAX_VERSION version \<and> UnregisterBrokerRequest_fields_wf version x \<and> trailer_ok [] [] (ub_req_unknown_tagged_fields x)"

lemmas unregister_broker_request_versions =
    UnregisterBrokerRequest_is_flexible_def UnregisterBrokerRequest_FLEXIBLE_MIN_def
    UnregisterBrokerRequest_MIN_VERSION_def UnregisterBrokerRequest_MAX_VERSION_def version_in_def

lemmas unregister_broker_request_fields =
    Let_def field_ok_def UnregisterBrokerRequest_fields_wf_def UnregisterBrokerRequest_is_flexible_def
    UnregisterBrokerRequest_FLEXIBLE_MIN_def

lemma unregister_broker_request_steps:
  assumes v: "0 \<le>s version" and flex: "flex = (UnregisterBrokerRequest_is_flexible version)"
  shows "keeps (UnregisterBrokerRequest_fields_wf version) (get_into (0 \<le>s version) get_i32 (\<lambda>v out. out\<lparr>ub_req_broker_id := v\<rparr>))"
  unfolding flex 
  by (rule keeps_into; (rule yields_rules)?; simp add: v unregister_broker_request_fields)+

lemma unregister_broker_request_unknown:
  "UnregisterBrokerRequest_fields_wf version (s\<lparr>ub_req_unknown_tagged_fields := u\<rparr>) = UnregisterBrokerRequest_fields_wf version s"
  by (simp_all add: UnregisterBrokerRequest_fields_wf_def)

lemma unregister_broker_request_yields:
  assumes r: "version_in UnregisterBrokerRequest_MIN_VERSION UnregisterBrokerRequest_MAX_VERSION version"
  shows "yields 1 (UnregisterBrokerRequest_decode version) (UnregisterBrokerRequest_wf version)"
proof -
  have v: "0 \<le>s version"
    using r by (simp add: unregister_broker_request_versions)
  have d: "UnregisterBrokerRequest_fields_wf version UnregisterBrokerRequest_default"
    by (simp add: UnregisterBrokerRequest_default_def v unregister_broker_request_fields)
  show ?thesis
    unfolding UnregisterBrokerRequest_decode_def Let_def
    by (rule yields_checked, (rule unregister_broker_request_steps[OF v refl, THEN yields_step], (rule d | assumption))+, rule yields_trailer[OF _ arms_keep_Nil[of "UnregisterBrokerRequest_fields_wf version" "\<lambda>_. 0"]])
      (simp_all add: v d unregister_broker_request_unknown UnregisterBrokerRequest_wf_def trailer_ok_def r UnregisterBrokerRequest_is_flexible_def UnregisterBrokerRequest_FLEXIBLE_MIN_def)
qed

interpretation unregister_broker_request: message_codec
  UnregisterBrokerRequest_encode UnregisterBrokerRequest_decode UnregisterBrokerRequest_encoded_len "UnregisterBrokerRequest_wf version" version
  for version
proof
  fix x
  assume w: "UnregisterBrokerRequest_wf version x"
  then have v: "0 \<le>s version"
    by (simp add: UnregisterBrokerRequest_wf_def unregister_broker_request_versions)
  show "carries (UnregisterBrokerRequest_encode x version) (UnregisterBrokerRequest_decode version) (UnregisterBrokerRequest_encoded_len x version) x"
    unfolding UnregisterBrokerRequest_encode_def UnregisterBrokerRequest_encoded_len_def UnregisterBrokerRequest_decode_def Let_def
    by (use w[unfolded UnregisterBrokerRequest_wf_def UnregisterBrokerRequest_fields_wf_def Let_def] in \<open>elim conjE\<close>, rule carries_cong_len)
      ((rule carries_rules check_version_in[THEN iffD2] | (erule absent_guarded, assumption) | erule absent_plain
        | simp add: v field_ok_def UnregisterBrokerRequest_default_def unregister_broker_request_versions)+)
next
  show "yields 1 (UnregisterBrokerRequest_decode version) (UnregisterBrokerRequest_wf version)"
    by (rule case_split[OF unregister_broker_request_yields]) (auto simp: UnregisterBrokerRequest_decode_def Let_def yields_refused yields_unsupported)
  show "extends_input (UnregisterBrokerRequest_decode version)"
    unfolding UnregisterBrokerRequest_decode_def Let_def by (intro extends_rules)
qed

section \<open>UnregisterBrokerResponse\<close>

record UnregisterBrokerResponse =
  ub_resp_throttle_time_ms :: i32
  ub_resp_error_code :: i16
  ub_resp_error_message :: "bytes option"
  ub_resp_unknown_tagged_fields :: "UnknownTaggedField list"

definition UnregisterBrokerResponse_default :: UnregisterBrokerResponse where
  "UnregisterBrokerResponse_default =
     \<lparr>ub_resp_throttle_time_ms = 0, ub_resp_error_code = 0, ub_resp_error_message = Some [], ub_resp_unknown_tagged_fields = []\<rparr>"

definition UnregisterBrokerResponse_MIN_VERSION :: i16 where
  "UnregisterBrokerResponse_MIN_VERSION = 0"

definition UnregisterBrokerResponse_MAX_VERSION :: i16 where
  "UnregisterBrokerResponse_MAX_VERSION = 0"

definition UnregisterBrokerResponse_FLEXIBLE_MIN :: i16 where
  "UnregisterBrokerResponse_FLEXIBLE_MIN = 0"

definition UnregisterBrokerResponse_API_KEY :: i16 where
  "UnregisterBrokerResponse_API_KEY = 64"

definition UnregisterBrokerResponse_is_flexible :: "i16 \<Rightarrow> bool" where
  "UnregisterBrokerResponse_is_flexible version \<longleftrightarrow> UnregisterBrokerResponse_FLEXIBLE_MIN \<le>s version"

definition UnregisterBrokerResponse_encode :: "UnregisterBrokerResponse \<Rightarrow> i16 \<Rightarrow> encoder" where
  "UnregisterBrokerResponse_encode x version =
     (let flex = UnregisterBrokerResponse_is_flexible version in
      write_all
        [write_check (check_version UnregisterBrokerResponse_API_KEY version UnregisterBrokerResponse_MIN_VERSION UnregisterBrokerResponse_MAX_VERSION),
         put_when (0 \<le>s version) (put_i32 (ub_resp_throttle_time_ms x)),
         put_when (0 \<le>s version) (put_i16 (ub_resp_error_code x)),
         put_when (0 \<le>s version) (put_nullable_str flex (ub_resp_error_message x)),
         put_when flex (put_tagged [] (ub_resp_unknown_tagged_fields x))])"

definition UnregisterBrokerResponse_encoded_len :: "UnregisterBrokerResponse \<Rightarrow> i16 \<Rightarrow> nat" where
  "UnregisterBrokerResponse_encoded_len x version =
     (let flex = UnregisterBrokerResponse_is_flexible version in
      len_when (0 \<le>s version) 4
      + len_when (0 \<le>s version) 2
      + len_when (0 \<le>s version) (nullable_str_len flex (ub_resp_error_message x))
      + len_when flex (tagged_size [] (ub_resp_unknown_tagged_fields x)))"

definition UnregisterBrokerResponse_decode :: "i16 \<Rightarrow> UnregisterBrokerResponse decoder" where
  "UnregisterBrokerResponse_decode version =
     (let flex = UnregisterBrokerResponse_is_flexible version in
      checked (check_version UnregisterBrokerResponse_API_KEY version UnregisterBrokerResponse_MIN_VERSION UnregisterBrokerResponse_MAX_VERSION) (
        read_then (get_into (0 \<le>s version) get_i32 (\<lambda>v out. out\<lparr>ub_resp_throttle_time_ms := v\<rparr>) UnregisterBrokerResponse_default) (\<lambda>out.
        read_then (get_into (0 \<le>s version) get_i16 (\<lambda>v out. out\<lparr>ub_resp_error_code := v\<rparr>) out) (\<lambda>out.
        read_then (get_into (0 \<le>s version) (get_nullable_str flex) (\<lambda>v out. out\<lparr>ub_resp_error_message := v\<rparr>) out) (\<lambda>out.
        get_trailer flex [] (\<lambda>u out. out\<lparr>ub_resp_unknown_tagged_fields := u\<rparr>) out)))))"

definition UnregisterBrokerResponse_fields_wf :: "i16 \<Rightarrow> UnregisterBrokerResponse \<Rightarrow> bool" where
  "UnregisterBrokerResponse_fields_wf version x \<longleftrightarrow>
     (let flex = UnregisterBrokerResponse_is_flexible version in
      nullable_str_wf flex (ub_resp_error_message x))"

definition UnregisterBrokerResponse_wf :: "i16 \<Rightarrow> UnregisterBrokerResponse \<Rightarrow> bool" where
  "UnregisterBrokerResponse_wf version x \<longleftrightarrow>
     version_in UnregisterBrokerResponse_MIN_VERSION UnregisterBrokerResponse_MAX_VERSION version \<and> UnregisterBrokerResponse_fields_wf version x \<and> trailer_ok [] [] (ub_resp_unknown_tagged_fields x)"

lemmas unregister_broker_response_versions =
    UnregisterBrokerResponse_is_flexible_def UnregisterBrokerResponse_FLEXIBLE_MIN_def
    UnregisterBrokerResponse_MIN_VERSION_def UnregisterBrokerResponse_MAX_VERSION_def version_in_def

lemmas unregister_broker_response_fields =
    Let_def field_ok_def UnregisterBrokerResponse_fields_wf_def UnregisterBrokerResponse_is_flexible_def
    UnregisterBrokerResponse_FLEXIBLE_MIN_def

lemma unregister_broker_response_steps:
  assumes v: "0 \<le>s version" and flex: "flex = (UnregisterBrokerResponse_is_flexible version)"
  shows "keeps (UnregisterBrokerResponse_fields_wf version) (get_into (0 \<le>s version) get_i32 (\<lambda>v out. out\<lparr>ub_resp_throttle_time_ms := v\<rparr>))"
    and "keeps (UnregisterBrokerResponse_fields_wf version) (get_into (0 \<le>s version) get_i16 (\<lambda>v out. out\<lparr>ub_resp_error_code := v\<rparr>))"
    and "keeps (UnregisterBrokerResponse_fields_wf version) (get_into (0 \<le>s version) (get_nullable_str flex) (\<lambda>v out. out\<lparr>ub_resp_error_message := v\<rparr>))"
  unfolding flex 
  by (rule keeps_into; (rule yields_rules)?; simp add: v unregister_broker_response_fields)+

lemma unregister_broker_response_unknown:
  "UnregisterBrokerResponse_fields_wf version (s\<lparr>ub_resp_unknown_tagged_fields := u\<rparr>) = UnregisterBrokerResponse_fields_wf version s"
  by (simp_all add: UnregisterBrokerResponse_fields_wf_def)

lemma unregister_broker_response_yields:
  assumes r: "version_in UnregisterBrokerResponse_MIN_VERSION UnregisterBrokerResponse_MAX_VERSION version"
  shows "yields 1 (UnregisterBrokerResponse_decode version) (UnregisterBrokerResponse_wf version)"
proof -
  have v: "0 \<le>s version"
    using r by (simp add: unregister_broker_response_versions)
  have d: "UnregisterBrokerResponse_fields_wf version UnregisterBrokerResponse_default"
    by (simp add: UnregisterBrokerResponse_default_def v unregister_broker_response_fields)
  show ?thesis
    unfolding UnregisterBrokerResponse_decode_def Let_def
    by (rule yields_checked, (rule unregister_broker_response_steps[OF v refl, THEN yields_step], (rule d | assumption))+, rule yields_trailer[OF _ arms_keep_Nil[of "UnregisterBrokerResponse_fields_wf version" "\<lambda>_. 0"]])
      (simp_all add: v d unregister_broker_response_unknown UnregisterBrokerResponse_wf_def trailer_ok_def r UnregisterBrokerResponse_is_flexible_def UnregisterBrokerResponse_FLEXIBLE_MIN_def)
qed

interpretation unregister_broker_response: message_codec
  UnregisterBrokerResponse_encode UnregisterBrokerResponse_decode UnregisterBrokerResponse_encoded_len "UnregisterBrokerResponse_wf version" version
  for version
proof
  fix x
  assume w: "UnregisterBrokerResponse_wf version x"
  then have v: "0 \<le>s version"
    by (simp add: UnregisterBrokerResponse_wf_def unregister_broker_response_versions)
  show "carries (UnregisterBrokerResponse_encode x version) (UnregisterBrokerResponse_decode version) (UnregisterBrokerResponse_encoded_len x version) x"
    unfolding UnregisterBrokerResponse_encode_def UnregisterBrokerResponse_encoded_len_def UnregisterBrokerResponse_decode_def Let_def
    by (use w[unfolded UnregisterBrokerResponse_wf_def UnregisterBrokerResponse_fields_wf_def Let_def] in \<open>elim conjE\<close>, rule carries_cong_len)
      ((rule carries_rules check_version_in[THEN iffD2] | (erule absent_guarded, assumption) | erule absent_plain
        | simp add: v field_ok_def UnregisterBrokerResponse_default_def unregister_broker_response_versions)+)
next
  show "yields 1 (UnregisterBrokerResponse_decode version) (UnregisterBrokerResponse_wf version)"
    by (rule case_split[OF unregister_broker_response_yields]) (auto simp: UnregisterBrokerResponse_decode_def Let_def yields_refused yields_unsupported)
  show "extends_input (UnregisterBrokerResponse_decode version)"
    unfolding UnregisterBrokerResponse_decode_def Let_def by (intro extends_rules)
qed

section \<open>UnregisterControllerRequest\<close>

record UnregisterControllerRequest =
  uc_req_controller_id :: i32
  uc_req_unknown_tagged_fields :: "UnknownTaggedField list"

definition UnregisterControllerRequest_default :: UnregisterControllerRequest where
  "UnregisterControllerRequest_default =
     \<lparr>uc_req_controller_id = 0, uc_req_unknown_tagged_fields = []\<rparr>"

definition UnregisterControllerRequest_MIN_VERSION :: i16 where
  "UnregisterControllerRequest_MIN_VERSION = 0"

definition UnregisterControllerRequest_MAX_VERSION :: i16 where
  "UnregisterControllerRequest_MAX_VERSION = 0"

definition UnregisterControllerRequest_FLEXIBLE_MIN :: i16 where
  "UnregisterControllerRequest_FLEXIBLE_MIN = 0"

definition UnregisterControllerRequest_API_KEY :: i16 where
  "UnregisterControllerRequest_API_KEY = 94"

definition UnregisterControllerRequest_is_flexible :: "i16 \<Rightarrow> bool" where
  "UnregisterControllerRequest_is_flexible version \<longleftrightarrow> UnregisterControllerRequest_FLEXIBLE_MIN \<le>s version"

definition UnregisterControllerRequest_encode :: "UnregisterControllerRequest \<Rightarrow> i16 \<Rightarrow> encoder" where
  "UnregisterControllerRequest_encode x version =
     (let flex = UnregisterControllerRequest_is_flexible version in
      write_all
        [write_check (check_version UnregisterControllerRequest_API_KEY version UnregisterControllerRequest_MIN_VERSION UnregisterControllerRequest_MAX_VERSION),
         put_when (0 \<le>s version) (put_i32 (uc_req_controller_id x)),
         put_when flex (put_tagged [] (uc_req_unknown_tagged_fields x))])"

definition UnregisterControllerRequest_encoded_len :: "UnregisterControllerRequest \<Rightarrow> i16 \<Rightarrow> nat" where
  "UnregisterControllerRequest_encoded_len x version =
     (let flex = UnregisterControllerRequest_is_flexible version in
      len_when (0 \<le>s version) 4
      + len_when flex (tagged_size [] (uc_req_unknown_tagged_fields x)))"

definition UnregisterControllerRequest_decode :: "i16 \<Rightarrow> UnregisterControllerRequest decoder" where
  "UnregisterControllerRequest_decode version =
     (let flex = UnregisterControllerRequest_is_flexible version in
      checked (check_version UnregisterControllerRequest_API_KEY version UnregisterControllerRequest_MIN_VERSION UnregisterControllerRequest_MAX_VERSION) (
        read_then (get_into (0 \<le>s version) get_i32 (\<lambda>v out. out\<lparr>uc_req_controller_id := v\<rparr>) UnregisterControllerRequest_default) (\<lambda>out.
        get_trailer flex [] (\<lambda>u out. out\<lparr>uc_req_unknown_tagged_fields := u\<rparr>) out)))"

definition UnregisterControllerRequest_fields_wf :: "i16 \<Rightarrow> UnregisterControllerRequest \<Rightarrow> bool" where
  "UnregisterControllerRequest_fields_wf version x \<longleftrightarrow>
     True"

definition UnregisterControllerRequest_wf :: "i16 \<Rightarrow> UnregisterControllerRequest \<Rightarrow> bool" where
  "UnregisterControllerRequest_wf version x \<longleftrightarrow>
     version_in UnregisterControllerRequest_MIN_VERSION UnregisterControllerRequest_MAX_VERSION version \<and> UnregisterControllerRequest_fields_wf version x \<and> trailer_ok [] [] (uc_req_unknown_tagged_fields x)"

lemmas unregister_controller_request_versions =
    UnregisterControllerRequest_is_flexible_def UnregisterControllerRequest_FLEXIBLE_MIN_def
    UnregisterControllerRequest_MIN_VERSION_def UnregisterControllerRequest_MAX_VERSION_def version_in_def

lemmas unregister_controller_request_fields =
    Let_def field_ok_def UnregisterControllerRequest_fields_wf_def UnregisterControllerRequest_is_flexible_def
    UnregisterControllerRequest_FLEXIBLE_MIN_def

lemma unregister_controller_request_steps:
  assumes v: "0 \<le>s version" and flex: "flex = (UnregisterControllerRequest_is_flexible version)"
  shows "keeps (UnregisterControllerRequest_fields_wf version) (get_into (0 \<le>s version) get_i32 (\<lambda>v out. out\<lparr>uc_req_controller_id := v\<rparr>))"
  unfolding flex 
  by (rule keeps_into; (rule yields_rules)?; simp add: v unregister_controller_request_fields)+

lemma unregister_controller_request_unknown:
  "UnregisterControllerRequest_fields_wf version (s\<lparr>uc_req_unknown_tagged_fields := u\<rparr>) = UnregisterControllerRequest_fields_wf version s"
  by (simp_all add: UnregisterControllerRequest_fields_wf_def)

lemma unregister_controller_request_yields:
  assumes r: "version_in UnregisterControllerRequest_MIN_VERSION UnregisterControllerRequest_MAX_VERSION version"
  shows "yields 1 (UnregisterControllerRequest_decode version) (UnregisterControllerRequest_wf version)"
proof -
  have v: "0 \<le>s version"
    using r by (simp add: unregister_controller_request_versions)
  have d: "UnregisterControllerRequest_fields_wf version UnregisterControllerRequest_default"
    by (simp add: UnregisterControllerRequest_default_def v unregister_controller_request_fields)
  show ?thesis
    unfolding UnregisterControllerRequest_decode_def Let_def
    by (rule yields_checked, (rule unregister_controller_request_steps[OF v refl, THEN yields_step], (rule d | assumption))+, rule yields_trailer[OF _ arms_keep_Nil[of "UnregisterControllerRequest_fields_wf version" "\<lambda>_. 0"]])
      (simp_all add: v d unregister_controller_request_unknown UnregisterControllerRequest_wf_def trailer_ok_def r UnregisterControllerRequest_is_flexible_def UnregisterControllerRequest_FLEXIBLE_MIN_def)
qed

interpretation unregister_controller_request: message_codec
  UnregisterControllerRequest_encode UnregisterControllerRequest_decode UnregisterControllerRequest_encoded_len "UnregisterControllerRequest_wf version" version
  for version
proof
  fix x
  assume w: "UnregisterControllerRequest_wf version x"
  then have v: "0 \<le>s version"
    by (simp add: UnregisterControllerRequest_wf_def unregister_controller_request_versions)
  show "carries (UnregisterControllerRequest_encode x version) (UnregisterControllerRequest_decode version) (UnregisterControllerRequest_encoded_len x version) x"
    unfolding UnregisterControllerRequest_encode_def UnregisterControllerRequest_encoded_len_def UnregisterControllerRequest_decode_def Let_def
    by (use w[unfolded UnregisterControllerRequest_wf_def UnregisterControllerRequest_fields_wf_def Let_def] in \<open>elim conjE\<close>, rule carries_cong_len)
      ((rule carries_rules check_version_in[THEN iffD2] | (erule absent_guarded, assumption) | erule absent_plain
        | simp add: v field_ok_def UnregisterControllerRequest_default_def unregister_controller_request_versions)+)
next
  show "yields 1 (UnregisterControllerRequest_decode version) (UnregisterControllerRequest_wf version)"
    by (rule case_split[OF unregister_controller_request_yields]) (auto simp: UnregisterControllerRequest_decode_def Let_def yields_refused yields_unsupported)
  show "extends_input (UnregisterControllerRequest_decode version)"
    unfolding UnregisterControllerRequest_decode_def Let_def by (intro extends_rules)
qed

section \<open>UnregisterControllerResponse\<close>

record UnregisterControllerResponse =
  uc_resp_throttle_time_ms :: i32
  uc_resp_error_code :: i16
  uc_resp_error_message :: "bytes option"
  uc_resp_unknown_tagged_fields :: "UnknownTaggedField list"

definition UnregisterControllerResponse_default :: UnregisterControllerResponse where
  "UnregisterControllerResponse_default =
     \<lparr>uc_resp_throttle_time_ms = 0, uc_resp_error_code = 0, uc_resp_error_message = Some [], uc_resp_unknown_tagged_fields = []\<rparr>"

definition UnregisterControllerResponse_MIN_VERSION :: i16 where
  "UnregisterControllerResponse_MIN_VERSION = 0"

definition UnregisterControllerResponse_MAX_VERSION :: i16 where
  "UnregisterControllerResponse_MAX_VERSION = 0"

definition UnregisterControllerResponse_FLEXIBLE_MIN :: i16 where
  "UnregisterControllerResponse_FLEXIBLE_MIN = 0"

definition UnregisterControllerResponse_API_KEY :: i16 where
  "UnregisterControllerResponse_API_KEY = 94"

definition UnregisterControllerResponse_is_flexible :: "i16 \<Rightarrow> bool" where
  "UnregisterControllerResponse_is_flexible version \<longleftrightarrow> UnregisterControllerResponse_FLEXIBLE_MIN \<le>s version"

definition UnregisterControllerResponse_encode :: "UnregisterControllerResponse \<Rightarrow> i16 \<Rightarrow> encoder" where
  "UnregisterControllerResponse_encode x version =
     (let flex = UnregisterControllerResponse_is_flexible version in
      write_all
        [write_check (check_version UnregisterControllerResponse_API_KEY version UnregisterControllerResponse_MIN_VERSION UnregisterControllerResponse_MAX_VERSION),
         put_when (0 \<le>s version) (put_i32 (uc_resp_throttle_time_ms x)),
         put_when (0 \<le>s version) (put_i16 (uc_resp_error_code x)),
         put_when (0 \<le>s version) (put_nullable_str flex (uc_resp_error_message x)),
         put_when flex (put_tagged [] (uc_resp_unknown_tagged_fields x))])"

definition UnregisterControllerResponse_encoded_len :: "UnregisterControllerResponse \<Rightarrow> i16 \<Rightarrow> nat" where
  "UnregisterControllerResponse_encoded_len x version =
     (let flex = UnregisterControllerResponse_is_flexible version in
      len_when (0 \<le>s version) 4
      + len_when (0 \<le>s version) 2
      + len_when (0 \<le>s version) (nullable_str_len flex (uc_resp_error_message x))
      + len_when flex (tagged_size [] (uc_resp_unknown_tagged_fields x)))"

definition UnregisterControllerResponse_decode :: "i16 \<Rightarrow> UnregisterControllerResponse decoder" where
  "UnregisterControllerResponse_decode version =
     (let flex = UnregisterControllerResponse_is_flexible version in
      checked (check_version UnregisterControllerResponse_API_KEY version UnregisterControllerResponse_MIN_VERSION UnregisterControllerResponse_MAX_VERSION) (
        read_then (get_into (0 \<le>s version) get_i32 (\<lambda>v out. out\<lparr>uc_resp_throttle_time_ms := v\<rparr>) UnregisterControllerResponse_default) (\<lambda>out.
        read_then (get_into (0 \<le>s version) get_i16 (\<lambda>v out. out\<lparr>uc_resp_error_code := v\<rparr>) out) (\<lambda>out.
        read_then (get_into (0 \<le>s version) (get_nullable_str flex) (\<lambda>v out. out\<lparr>uc_resp_error_message := v\<rparr>) out) (\<lambda>out.
        get_trailer flex [] (\<lambda>u out. out\<lparr>uc_resp_unknown_tagged_fields := u\<rparr>) out)))))"

definition UnregisterControllerResponse_fields_wf :: "i16 \<Rightarrow> UnregisterControllerResponse \<Rightarrow> bool" where
  "UnregisterControllerResponse_fields_wf version x \<longleftrightarrow>
     (let flex = UnregisterControllerResponse_is_flexible version in
      nullable_str_wf flex (uc_resp_error_message x))"

definition UnregisterControllerResponse_wf :: "i16 \<Rightarrow> UnregisterControllerResponse \<Rightarrow> bool" where
  "UnregisterControllerResponse_wf version x \<longleftrightarrow>
     version_in UnregisterControllerResponse_MIN_VERSION UnregisterControllerResponse_MAX_VERSION version \<and> UnregisterControllerResponse_fields_wf version x \<and> trailer_ok [] [] (uc_resp_unknown_tagged_fields x)"

lemmas unregister_controller_response_versions =
    UnregisterControllerResponse_is_flexible_def UnregisterControllerResponse_FLEXIBLE_MIN_def
    UnregisterControllerResponse_MIN_VERSION_def UnregisterControllerResponse_MAX_VERSION_def version_in_def

lemmas unregister_controller_response_fields =
    Let_def field_ok_def UnregisterControllerResponse_fields_wf_def UnregisterControllerResponse_is_flexible_def
    UnregisterControllerResponse_FLEXIBLE_MIN_def

lemma unregister_controller_response_steps:
  assumes v: "0 \<le>s version" and flex: "flex = (UnregisterControllerResponse_is_flexible version)"
  shows "keeps (UnregisterControllerResponse_fields_wf version) (get_into (0 \<le>s version) get_i32 (\<lambda>v out. out\<lparr>uc_resp_throttle_time_ms := v\<rparr>))"
    and "keeps (UnregisterControllerResponse_fields_wf version) (get_into (0 \<le>s version) get_i16 (\<lambda>v out. out\<lparr>uc_resp_error_code := v\<rparr>))"
    and "keeps (UnregisterControllerResponse_fields_wf version) (get_into (0 \<le>s version) (get_nullable_str flex) (\<lambda>v out. out\<lparr>uc_resp_error_message := v\<rparr>))"
  unfolding flex 
  by (rule keeps_into; (rule yields_rules)?; simp add: v unregister_controller_response_fields)+

lemma unregister_controller_response_unknown:
  "UnregisterControllerResponse_fields_wf version (s\<lparr>uc_resp_unknown_tagged_fields := u\<rparr>) = UnregisterControllerResponse_fields_wf version s"
  by (simp_all add: UnregisterControllerResponse_fields_wf_def)

lemma unregister_controller_response_yields:
  assumes r: "version_in UnregisterControllerResponse_MIN_VERSION UnregisterControllerResponse_MAX_VERSION version"
  shows "yields 1 (UnregisterControllerResponse_decode version) (UnregisterControllerResponse_wf version)"
proof -
  have v: "0 \<le>s version"
    using r by (simp add: unregister_controller_response_versions)
  have d: "UnregisterControllerResponse_fields_wf version UnregisterControllerResponse_default"
    by (simp add: UnregisterControllerResponse_default_def v unregister_controller_response_fields)
  show ?thesis
    unfolding UnregisterControllerResponse_decode_def Let_def
    by (rule yields_checked, (rule unregister_controller_response_steps[OF v refl, THEN yields_step], (rule d | assumption))+, rule yields_trailer[OF _ arms_keep_Nil[of "UnregisterControllerResponse_fields_wf version" "\<lambda>_. 0"]])
      (simp_all add: v d unregister_controller_response_unknown UnregisterControllerResponse_wf_def trailer_ok_def r UnregisterControllerResponse_is_flexible_def UnregisterControllerResponse_FLEXIBLE_MIN_def)
qed

interpretation unregister_controller_response: message_codec
  UnregisterControllerResponse_encode UnregisterControllerResponse_decode UnregisterControllerResponse_encoded_len "UnregisterControllerResponse_wf version" version
  for version
proof
  fix x
  assume w: "UnregisterControllerResponse_wf version x"
  then have v: "0 \<le>s version"
    by (simp add: UnregisterControllerResponse_wf_def unregister_controller_response_versions)
  show "carries (UnregisterControllerResponse_encode x version) (UnregisterControllerResponse_decode version) (UnregisterControllerResponse_encoded_len x version) x"
    unfolding UnregisterControllerResponse_encode_def UnregisterControllerResponse_encoded_len_def UnregisterControllerResponse_decode_def Let_def
    by (use w[unfolded UnregisterControllerResponse_wf_def UnregisterControllerResponse_fields_wf_def Let_def] in \<open>elim conjE\<close>, rule carries_cong_len)
      ((rule carries_rules check_version_in[THEN iffD2] | (erule absent_guarded, assumption) | erule absent_plain
        | simp add: v field_ok_def UnregisterControllerResponse_default_def unregister_controller_response_versions)+)
next
  show "yields 1 (UnregisterControllerResponse_decode version) (UnregisterControllerResponse_wf version)"
    by (rule case_split[OF unregister_controller_response_yields]) (auto simp: UnregisterControllerResponse_decode_def Let_def yields_refused yields_unsupported)
  show "extends_input (UnregisterControllerResponse_decode version)"
    unfolding UnregisterControllerResponse_decode_def Let_def by (intro extends_rules)
qed

section \<open>AllocateProducerIdsRequest\<close>

record AllocateProducerIdsRequest =
  api_req_broker_id :: i32
  api_req_broker_epoch :: i64
  api_req_unknown_tagged_fields :: "UnknownTaggedField list"

definition AllocateProducerIdsRequest_default :: AllocateProducerIdsRequest where
  "AllocateProducerIdsRequest_default =
     \<lparr>api_req_broker_id = 0, api_req_broker_epoch = - 1, api_req_unknown_tagged_fields = []\<rparr>"

definition AllocateProducerIdsRequest_MIN_VERSION :: i16 where
  "AllocateProducerIdsRequest_MIN_VERSION = 0"

definition AllocateProducerIdsRequest_MAX_VERSION :: i16 where
  "AllocateProducerIdsRequest_MAX_VERSION = 0"

definition AllocateProducerIdsRequest_FLEXIBLE_MIN :: i16 where
  "AllocateProducerIdsRequest_FLEXIBLE_MIN = 0"

definition AllocateProducerIdsRequest_API_KEY :: i16 where
  "AllocateProducerIdsRequest_API_KEY = 67"

definition AllocateProducerIdsRequest_is_flexible :: "i16 \<Rightarrow> bool" where
  "AllocateProducerIdsRequest_is_flexible version \<longleftrightarrow> AllocateProducerIdsRequest_FLEXIBLE_MIN \<le>s version"

definition AllocateProducerIdsRequest_encode :: "AllocateProducerIdsRequest \<Rightarrow> i16 \<Rightarrow> encoder" where
  "AllocateProducerIdsRequest_encode x version =
     (let flex = AllocateProducerIdsRequest_is_flexible version in
      write_all
        [write_check (check_version AllocateProducerIdsRequest_API_KEY version AllocateProducerIdsRequest_MIN_VERSION AllocateProducerIdsRequest_MAX_VERSION),
         put_when (0 \<le>s version) (put_i32 (api_req_broker_id x)),
         put_when (0 \<le>s version) (put_i64 (api_req_broker_epoch x)),
         put_when flex (put_tagged [] (api_req_unknown_tagged_fields x))])"

definition AllocateProducerIdsRequest_encoded_len :: "AllocateProducerIdsRequest \<Rightarrow> i16 \<Rightarrow> nat" where
  "AllocateProducerIdsRequest_encoded_len x version =
     (let flex = AllocateProducerIdsRequest_is_flexible version in
      len_when (0 \<le>s version) 4
      + len_when (0 \<le>s version) 8
      + len_when flex (tagged_size [] (api_req_unknown_tagged_fields x)))"

definition AllocateProducerIdsRequest_decode :: "i16 \<Rightarrow> AllocateProducerIdsRequest decoder" where
  "AllocateProducerIdsRequest_decode version =
     (let flex = AllocateProducerIdsRequest_is_flexible version in
      checked (check_version AllocateProducerIdsRequest_API_KEY version AllocateProducerIdsRequest_MIN_VERSION AllocateProducerIdsRequest_MAX_VERSION) (
        read_then (get_into (0 \<le>s version) get_i32 (\<lambda>v out. out\<lparr>api_req_broker_id := v\<rparr>) AllocateProducerIdsRequest_default) (\<lambda>out.
        read_then (get_into (0 \<le>s version) get_i64 (\<lambda>v out. out\<lparr>api_req_broker_epoch := v\<rparr>) out) (\<lambda>out.
        get_trailer flex [] (\<lambda>u out. out\<lparr>api_req_unknown_tagged_fields := u\<rparr>) out))))"

definition AllocateProducerIdsRequest_fields_wf :: "i16 \<Rightarrow> AllocateProducerIdsRequest \<Rightarrow> bool" where
  "AllocateProducerIdsRequest_fields_wf version x \<longleftrightarrow>
     True"

definition AllocateProducerIdsRequest_wf :: "i16 \<Rightarrow> AllocateProducerIdsRequest \<Rightarrow> bool" where
  "AllocateProducerIdsRequest_wf version x \<longleftrightarrow>
     version_in AllocateProducerIdsRequest_MIN_VERSION AllocateProducerIdsRequest_MAX_VERSION version \<and> AllocateProducerIdsRequest_fields_wf version x \<and> trailer_ok [] [] (api_req_unknown_tagged_fields x)"

lemmas allocate_producer_ids_request_versions =
    AllocateProducerIdsRequest_is_flexible_def AllocateProducerIdsRequest_FLEXIBLE_MIN_def
    AllocateProducerIdsRequest_MIN_VERSION_def AllocateProducerIdsRequest_MAX_VERSION_def version_in_def

lemmas allocate_producer_ids_request_fields =
    Let_def field_ok_def AllocateProducerIdsRequest_fields_wf_def AllocateProducerIdsRequest_is_flexible_def
    AllocateProducerIdsRequest_FLEXIBLE_MIN_def

lemma allocate_producer_ids_request_steps:
  assumes v: "0 \<le>s version" and flex: "flex = (AllocateProducerIdsRequest_is_flexible version)"
  shows "keeps (AllocateProducerIdsRequest_fields_wf version) (get_into (0 \<le>s version) get_i32 (\<lambda>v out. out\<lparr>api_req_broker_id := v\<rparr>))"
    and "keeps (AllocateProducerIdsRequest_fields_wf version) (get_into (0 \<le>s version) get_i64 (\<lambda>v out. out\<lparr>api_req_broker_epoch := v\<rparr>))"
  unfolding flex 
  by (rule keeps_into; (rule yields_rules)?; simp add: v allocate_producer_ids_request_fields)+

lemma allocate_producer_ids_request_unknown:
  "AllocateProducerIdsRequest_fields_wf version (s\<lparr>api_req_unknown_tagged_fields := u\<rparr>) = AllocateProducerIdsRequest_fields_wf version s"
  by (simp_all add: AllocateProducerIdsRequest_fields_wf_def)

lemma allocate_producer_ids_request_yields:
  assumes r: "version_in AllocateProducerIdsRequest_MIN_VERSION AllocateProducerIdsRequest_MAX_VERSION version"
  shows "yields 1 (AllocateProducerIdsRequest_decode version) (AllocateProducerIdsRequest_wf version)"
proof -
  have v: "0 \<le>s version"
    using r by (simp add: allocate_producer_ids_request_versions)
  have d: "AllocateProducerIdsRequest_fields_wf version AllocateProducerIdsRequest_default"
    by (simp add: AllocateProducerIdsRequest_default_def v allocate_producer_ids_request_fields)
  show ?thesis
    unfolding AllocateProducerIdsRequest_decode_def Let_def
    by (rule yields_checked, (rule allocate_producer_ids_request_steps[OF v refl, THEN yields_step], (rule d | assumption))+, rule yields_trailer[OF _ arms_keep_Nil[of "AllocateProducerIdsRequest_fields_wf version" "\<lambda>_. 0"]])
      (simp_all add: v d allocate_producer_ids_request_unknown AllocateProducerIdsRequest_wf_def trailer_ok_def r AllocateProducerIdsRequest_is_flexible_def AllocateProducerIdsRequest_FLEXIBLE_MIN_def)
qed

interpretation allocate_producer_ids_request: message_codec
  AllocateProducerIdsRequest_encode AllocateProducerIdsRequest_decode AllocateProducerIdsRequest_encoded_len "AllocateProducerIdsRequest_wf version" version
  for version
proof
  fix x
  assume w: "AllocateProducerIdsRequest_wf version x"
  then have v: "0 \<le>s version"
    by (simp add: AllocateProducerIdsRequest_wf_def allocate_producer_ids_request_versions)
  show "carries (AllocateProducerIdsRequest_encode x version) (AllocateProducerIdsRequest_decode version) (AllocateProducerIdsRequest_encoded_len x version) x"
    unfolding AllocateProducerIdsRequest_encode_def AllocateProducerIdsRequest_encoded_len_def AllocateProducerIdsRequest_decode_def Let_def
    by (use w[unfolded AllocateProducerIdsRequest_wf_def AllocateProducerIdsRequest_fields_wf_def Let_def] in \<open>elim conjE\<close>, rule carries_cong_len)
      ((rule carries_rules check_version_in[THEN iffD2] | (erule absent_guarded, assumption) | erule absent_plain
        | simp add: v field_ok_def AllocateProducerIdsRequest_default_def allocate_producer_ids_request_versions)+)
next
  show "yields 1 (AllocateProducerIdsRequest_decode version) (AllocateProducerIdsRequest_wf version)"
    by (rule case_split[OF allocate_producer_ids_request_yields]) (auto simp: AllocateProducerIdsRequest_decode_def Let_def yields_refused yields_unsupported)
  show "extends_input (AllocateProducerIdsRequest_decode version)"
    unfolding AllocateProducerIdsRequest_decode_def Let_def by (intro extends_rules)
qed

section \<open>AllocateProducerIdsResponse\<close>

record AllocateProducerIdsResponse =
  api_resp_throttle_time_ms :: i32
  api_resp_error_code :: i16
  api_resp_producer_id_start :: i64
  api_resp_producer_id_len :: i32
  api_resp_unknown_tagged_fields :: "UnknownTaggedField list"

definition AllocateProducerIdsResponse_default :: AllocateProducerIdsResponse where
  "AllocateProducerIdsResponse_default =
     \<lparr>api_resp_throttle_time_ms = 0, api_resp_error_code = 0, api_resp_producer_id_start = 0, api_resp_producer_id_len = 0, api_resp_unknown_tagged_fields = []\<rparr>"

definition AllocateProducerIdsResponse_MIN_VERSION :: i16 where
  "AllocateProducerIdsResponse_MIN_VERSION = 0"

definition AllocateProducerIdsResponse_MAX_VERSION :: i16 where
  "AllocateProducerIdsResponse_MAX_VERSION = 0"

definition AllocateProducerIdsResponse_FLEXIBLE_MIN :: i16 where
  "AllocateProducerIdsResponse_FLEXIBLE_MIN = 0"

definition AllocateProducerIdsResponse_API_KEY :: i16 where
  "AllocateProducerIdsResponse_API_KEY = 67"

definition AllocateProducerIdsResponse_is_flexible :: "i16 \<Rightarrow> bool" where
  "AllocateProducerIdsResponse_is_flexible version \<longleftrightarrow> AllocateProducerIdsResponse_FLEXIBLE_MIN \<le>s version"

definition AllocateProducerIdsResponse_encode :: "AllocateProducerIdsResponse \<Rightarrow> i16 \<Rightarrow> encoder" where
  "AllocateProducerIdsResponse_encode x version =
     (let flex = AllocateProducerIdsResponse_is_flexible version in
      write_all
        [write_check (check_version AllocateProducerIdsResponse_API_KEY version AllocateProducerIdsResponse_MIN_VERSION AllocateProducerIdsResponse_MAX_VERSION),
         put_when (0 \<le>s version) (put_i32 (api_resp_throttle_time_ms x)),
         put_when (0 \<le>s version) (put_i16 (api_resp_error_code x)),
         put_when (0 \<le>s version) (put_i64 (api_resp_producer_id_start x)),
         put_when (0 \<le>s version) (put_i32 (api_resp_producer_id_len x)),
         put_when flex (put_tagged [] (api_resp_unknown_tagged_fields x))])"

definition AllocateProducerIdsResponse_encoded_len :: "AllocateProducerIdsResponse \<Rightarrow> i16 \<Rightarrow> nat" where
  "AllocateProducerIdsResponse_encoded_len x version =
     (let flex = AllocateProducerIdsResponse_is_flexible version in
      len_when (0 \<le>s version) 4
      + len_when (0 \<le>s version) 2
      + len_when (0 \<le>s version) 8
      + len_when (0 \<le>s version) 4
      + len_when flex (tagged_size [] (api_resp_unknown_tagged_fields x)))"

definition AllocateProducerIdsResponse_decode :: "i16 \<Rightarrow> AllocateProducerIdsResponse decoder" where
  "AllocateProducerIdsResponse_decode version =
     (let flex = AllocateProducerIdsResponse_is_flexible version in
      checked (check_version AllocateProducerIdsResponse_API_KEY version AllocateProducerIdsResponse_MIN_VERSION AllocateProducerIdsResponse_MAX_VERSION) (
        read_then (get_into (0 \<le>s version) get_i32 (\<lambda>v out. out\<lparr>api_resp_throttle_time_ms := v\<rparr>) AllocateProducerIdsResponse_default) (\<lambda>out.
        read_then (get_into (0 \<le>s version) get_i16 (\<lambda>v out. out\<lparr>api_resp_error_code := v\<rparr>) out) (\<lambda>out.
        read_then (get_into (0 \<le>s version) get_i64 (\<lambda>v out. out\<lparr>api_resp_producer_id_start := v\<rparr>) out) (\<lambda>out.
        read_then (get_into (0 \<le>s version) get_i32 (\<lambda>v out. out\<lparr>api_resp_producer_id_len := v\<rparr>) out) (\<lambda>out.
        get_trailer flex [] (\<lambda>u out. out\<lparr>api_resp_unknown_tagged_fields := u\<rparr>) out))))))"

definition AllocateProducerIdsResponse_fields_wf :: "i16 \<Rightarrow> AllocateProducerIdsResponse \<Rightarrow> bool" where
  "AllocateProducerIdsResponse_fields_wf version x \<longleftrightarrow>
     True"

definition AllocateProducerIdsResponse_wf :: "i16 \<Rightarrow> AllocateProducerIdsResponse \<Rightarrow> bool" where
  "AllocateProducerIdsResponse_wf version x \<longleftrightarrow>
     version_in AllocateProducerIdsResponse_MIN_VERSION AllocateProducerIdsResponse_MAX_VERSION version \<and> AllocateProducerIdsResponse_fields_wf version x \<and> trailer_ok [] [] (api_resp_unknown_tagged_fields x)"

lemmas allocate_producer_ids_response_versions =
    AllocateProducerIdsResponse_is_flexible_def AllocateProducerIdsResponse_FLEXIBLE_MIN_def
    AllocateProducerIdsResponse_MIN_VERSION_def AllocateProducerIdsResponse_MAX_VERSION_def version_in_def

lemmas allocate_producer_ids_response_fields =
    Let_def field_ok_def AllocateProducerIdsResponse_fields_wf_def AllocateProducerIdsResponse_is_flexible_def
    AllocateProducerIdsResponse_FLEXIBLE_MIN_def

lemma allocate_producer_ids_response_steps:
  assumes v: "0 \<le>s version" and flex: "flex = (AllocateProducerIdsResponse_is_flexible version)"
  shows "keeps (AllocateProducerIdsResponse_fields_wf version) (get_into (0 \<le>s version) get_i32 (\<lambda>v out. out\<lparr>api_resp_throttle_time_ms := v\<rparr>))"
    and "keeps (AllocateProducerIdsResponse_fields_wf version) (get_into (0 \<le>s version) get_i16 (\<lambda>v out. out\<lparr>api_resp_error_code := v\<rparr>))"
    and "keeps (AllocateProducerIdsResponse_fields_wf version) (get_into (0 \<le>s version) get_i64 (\<lambda>v out. out\<lparr>api_resp_producer_id_start := v\<rparr>))"
    and "keeps (AllocateProducerIdsResponse_fields_wf version) (get_into (0 \<le>s version) get_i32 (\<lambda>v out. out\<lparr>api_resp_producer_id_len := v\<rparr>))"
  unfolding flex 
  by (rule keeps_into; (rule yields_rules)?; simp add: v allocate_producer_ids_response_fields)+

lemma allocate_producer_ids_response_unknown:
  "AllocateProducerIdsResponse_fields_wf version (s\<lparr>api_resp_unknown_tagged_fields := u\<rparr>) = AllocateProducerIdsResponse_fields_wf version s"
  by (simp_all add: AllocateProducerIdsResponse_fields_wf_def)

lemma allocate_producer_ids_response_yields:
  assumes r: "version_in AllocateProducerIdsResponse_MIN_VERSION AllocateProducerIdsResponse_MAX_VERSION version"
  shows "yields 1 (AllocateProducerIdsResponse_decode version) (AllocateProducerIdsResponse_wf version)"
proof -
  have v: "0 \<le>s version"
    using r by (simp add: allocate_producer_ids_response_versions)
  have d: "AllocateProducerIdsResponse_fields_wf version AllocateProducerIdsResponse_default"
    by (simp add: AllocateProducerIdsResponse_default_def v allocate_producer_ids_response_fields)
  show ?thesis
    unfolding AllocateProducerIdsResponse_decode_def Let_def
    by (rule yields_checked, (rule allocate_producer_ids_response_steps[OF v refl, THEN yields_step], (rule d | assumption))+, rule yields_trailer[OF _ arms_keep_Nil[of "AllocateProducerIdsResponse_fields_wf version" "\<lambda>_. 0"]])
      (simp_all add: v d allocate_producer_ids_response_unknown AllocateProducerIdsResponse_wf_def trailer_ok_def r AllocateProducerIdsResponse_is_flexible_def AllocateProducerIdsResponse_FLEXIBLE_MIN_def)
qed

interpretation allocate_producer_ids_response: message_codec
  AllocateProducerIdsResponse_encode AllocateProducerIdsResponse_decode AllocateProducerIdsResponse_encoded_len "AllocateProducerIdsResponse_wf version" version
  for version
proof
  fix x
  assume w: "AllocateProducerIdsResponse_wf version x"
  then have v: "0 \<le>s version"
    by (simp add: AllocateProducerIdsResponse_wf_def allocate_producer_ids_response_versions)
  show "carries (AllocateProducerIdsResponse_encode x version) (AllocateProducerIdsResponse_decode version) (AllocateProducerIdsResponse_encoded_len x version) x"
    unfolding AllocateProducerIdsResponse_encode_def AllocateProducerIdsResponse_encoded_len_def AllocateProducerIdsResponse_decode_def Let_def
    by (use w[unfolded AllocateProducerIdsResponse_wf_def AllocateProducerIdsResponse_fields_wf_def Let_def] in \<open>elim conjE\<close>, rule carries_cong_len)
      ((rule carries_rules check_version_in[THEN iffD2] | (erule absent_guarded, assumption) | erule absent_plain
        | simp add: v field_ok_def AllocateProducerIdsResponse_default_def allocate_producer_ids_response_versions)+)
next
  show "yields 1 (AllocateProducerIdsResponse_decode version) (AllocateProducerIdsResponse_wf version)"
    by (rule case_split[OF allocate_producer_ids_response_yields]) (auto simp: AllocateProducerIdsResponse_decode_def Let_def yields_refused yields_unsupported)
  show "extends_input (AllocateProducerIdsResponse_decode version)"
    unfolding AllocateProducerIdsResponse_decode_def Let_def by (intro extends_rules)
qed

section \<open>AssignReplicasToDirsRequest\<close>

record AssignReplicasToDirsRequest_PartitionData =
  artd_req_pd_partition_index :: i32
  artd_req_pd_unknown_tagged_fields :: "UnknownTaggedField list"

definition AssignReplicasToDirsRequest_PartitionData_default :: AssignReplicasToDirsRequest_PartitionData where
  "AssignReplicasToDirsRequest_PartitionData_default =
     \<lparr>artd_req_pd_partition_index = 0, artd_req_pd_unknown_tagged_fields = []\<rparr>"

definition AssignReplicasToDirsRequest_PartitionData_encode :: "AssignReplicasToDirsRequest_PartitionData \<Rightarrow> i16 \<Rightarrow> encoder" where
  "AssignReplicasToDirsRequest_PartitionData_encode x version =
     (let flex = 0 \<le>s version in
      write_all
        [put_when (0 \<le>s version) (put_i32 (artd_req_pd_partition_index x)),
         put_when flex (put_tagged [] (artd_req_pd_unknown_tagged_fields x))])"

definition AssignReplicasToDirsRequest_PartitionData_encoded_len :: "AssignReplicasToDirsRequest_PartitionData \<Rightarrow> i16 \<Rightarrow> nat" where
  "AssignReplicasToDirsRequest_PartitionData_encoded_len x version =
     (let flex = 0 \<le>s version in
      len_when (0 \<le>s version) 4
      + len_when flex (tagged_size [] (artd_req_pd_unknown_tagged_fields x)))"

definition AssignReplicasToDirsRequest_PartitionData_decode :: "i16 \<Rightarrow> AssignReplicasToDirsRequest_PartitionData decoder" where
  "AssignReplicasToDirsRequest_PartitionData_decode version =
     (let flex = 0 \<le>s version in
      read_then (get_into (0 \<le>s version) get_i32 (\<lambda>v out. out\<lparr>artd_req_pd_partition_index := v\<rparr>) AssignReplicasToDirsRequest_PartitionData_default) (\<lambda>out.
        get_trailer flex [] (\<lambda>u out. out\<lparr>artd_req_pd_unknown_tagged_fields := u\<rparr>) out))"

definition AssignReplicasToDirsRequest_PartitionData_fields_wf :: "i16 \<Rightarrow> AssignReplicasToDirsRequest_PartitionData \<Rightarrow> bool" where
  "AssignReplicasToDirsRequest_PartitionData_fields_wf version x \<longleftrightarrow>
     True"

definition AssignReplicasToDirsRequest_PartitionData_wf :: "i16 \<Rightarrow> AssignReplicasToDirsRequest_PartitionData \<Rightarrow> bool" where
  "AssignReplicasToDirsRequest_PartitionData_wf version x \<longleftrightarrow>
     AssignReplicasToDirsRequest_PartitionData_fields_wf version x \<and> trailer_ok [] [] (artd_req_pd_unknown_tagged_fields x)"

lemmas assign_replicas_to_dirs_request_partition_data_fields =
    Let_def field_ok_def AssignReplicasToDirsRequest_PartitionData_fields_wf_def

lemma assign_replicas_to_dirs_request_partition_data_steps:
  assumes v: "0 \<le>s version" and flex: "flex = (0 \<le>s version)"
  shows "keeps (AssignReplicasToDirsRequest_PartitionData_fields_wf version) (get_into (0 \<le>s version) get_i32 (\<lambda>v out. out\<lparr>artd_req_pd_partition_index := v\<rparr>))"
  unfolding flex 
  by (rule keeps_into; (rule yields_rules)?; simp add: v assign_replicas_to_dirs_request_partition_data_fields)+

lemma assign_replicas_to_dirs_request_partition_data_unknown:
  "AssignReplicasToDirsRequest_PartitionData_fields_wf version (s\<lparr>artd_req_pd_unknown_tagged_fields := u\<rparr>) = AssignReplicasToDirsRequest_PartitionData_fields_wf version s"
  by (simp_all add: AssignReplicasToDirsRequest_PartitionData_fields_wf_def)

lemma assign_replicas_to_dirs_request_partition_data_yields:
  assumes v: "0 \<le>s version"
  shows "yields 1 (AssignReplicasToDirsRequest_PartitionData_decode version) (AssignReplicasToDirsRequest_PartitionData_wf version)"
proof -
  have d: "AssignReplicasToDirsRequest_PartitionData_fields_wf version AssignReplicasToDirsRequest_PartitionData_default"
    by (simp add: AssignReplicasToDirsRequest_PartitionData_default_def v assign_replicas_to_dirs_request_partition_data_fields)
  show ?thesis
    unfolding AssignReplicasToDirsRequest_PartitionData_decode_def Let_def
    by ((rule assign_replicas_to_dirs_request_partition_data_steps[OF v refl, THEN yields_step], (rule d | assumption))+, rule yields_trailer[OF _ arms_keep_Nil[of "AssignReplicasToDirsRequest_PartitionData_fields_wf version" "\<lambda>_. 0"]])
      (simp_all add: v d assign_replicas_to_dirs_request_partition_data_unknown AssignReplicasToDirsRequest_PartitionData_wf_def trailer_ok_def )
qed

lemma assign_replicas_to_dirs_request_partition_data_extends [extends_rules]: "extends_input (AssignReplicasToDirsRequest_PartitionData_decode version)"
  unfolding AssignReplicasToDirsRequest_PartitionData_decode_def Let_def by (intro extends_rules)

lemma assign_replicas_to_dirs_request_partition_data_codec:
  assumes v: "0 \<le>s version"
  shows "message_codec AssignReplicasToDirsRequest_PartitionData_encode AssignReplicasToDirsRequest_PartitionData_decode AssignReplicasToDirsRequest_PartitionData_encoded_len (AssignReplicasToDirsRequest_PartitionData_wf version) version"
proof
  fix x
  assume w: "AssignReplicasToDirsRequest_PartitionData_wf version x"
  show "carries (AssignReplicasToDirsRequest_PartitionData_encode x version) (AssignReplicasToDirsRequest_PartitionData_decode version) (AssignReplicasToDirsRequest_PartitionData_encoded_len x version) x"
    unfolding AssignReplicasToDirsRequest_PartitionData_encode_def AssignReplicasToDirsRequest_PartitionData_encoded_len_def AssignReplicasToDirsRequest_PartitionData_decode_def Let_def
    by (use w[unfolded AssignReplicasToDirsRequest_PartitionData_wf_def AssignReplicasToDirsRequest_PartitionData_fields_wf_def Let_def] in \<open>elim conjE\<close>, rule carries_cong_len)
      ((rule carries_rules | (erule absent_guarded, assumption) | erule absent_plain
        | simp add: v field_ok_def AssignReplicasToDirsRequest_PartitionData_default_def )+)
next
  show "yields 1 (AssignReplicasToDirsRequest_PartitionData_decode version) (AssignReplicasToDirsRequest_PartitionData_wf version)"
    by (rule assign_replicas_to_dirs_request_partition_data_yields[OF v])
qed (rule assign_replicas_to_dirs_request_partition_data_extends)

lemma assign_replicas_to_dirs_request_partition_data_default_wf [simp]: "0 \<le>s version \<Longrightarrow> AssignReplicasToDirsRequest_PartitionData_wf version AssignReplicasToDirsRequest_PartitionData_default"
  by (simp add: AssignReplicasToDirsRequest_PartitionData_wf_def AssignReplicasToDirsRequest_PartitionData_default_def trailer_ok_def assign_replicas_to_dirs_request_partition_data_fields)

lemmas [carries_rules] = message_codec.message_carries[OF assign_replicas_to_dirs_request_partition_data_codec]
lemmas [yields_rules] = message_codec.message_yields[OF assign_replicas_to_dirs_request_partition_data_codec]

lemmas [carries_rules] = protocol_codec.put_array_carries[OF message_codec.message_protocol[OF assign_replicas_to_dirs_request_partition_data_codec]]
lemmas [yields_rules] = protocol_codec.get_array_yields[OF message_codec.message_protocol[OF assign_replicas_to_dirs_request_partition_data_codec]]
lemmas [carries_rules] = protocol_codec.put_nullable_array_carries[OF message_codec.message_protocol[OF assign_replicas_to_dirs_request_partition_data_codec]]
lemmas [yields_rules] = protocol_codec.get_nullable_array_yields[OF message_codec.message_protocol[OF assign_replicas_to_dirs_request_partition_data_codec]]

record AssignReplicasToDirsRequest_TopicData =
  artd_req_td_topic_id :: Uuid
  artd_req_td_partitions :: "AssignReplicasToDirsRequest_PartitionData list"
  artd_req_td_unknown_tagged_fields :: "UnknownTaggedField list"

definition AssignReplicasToDirsRequest_TopicData_default :: AssignReplicasToDirsRequest_TopicData where
  "AssignReplicasToDirsRequest_TopicData_default =
     \<lparr>artd_req_td_topic_id = Uuid_ZERO, artd_req_td_partitions = [], artd_req_td_unknown_tagged_fields = []\<rparr>"

definition AssignReplicasToDirsRequest_TopicData_encode :: "AssignReplicasToDirsRequest_TopicData \<Rightarrow> i16 \<Rightarrow> encoder" where
  "AssignReplicasToDirsRequest_TopicData_encode x version =
     (let flex = 0 \<le>s version in
      write_all
        [put_when (0 \<le>s version) (put_uuid (artd_req_td_topic_id x)),
         put_when (0 \<le>s version) (put_array flex (\<lambda>it. AssignReplicasToDirsRequest_PartitionData_encode it version) (artd_req_td_partitions x)),
         put_when flex (put_tagged [] (artd_req_td_unknown_tagged_fields x))])"

definition AssignReplicasToDirsRequest_TopicData_encoded_len :: "AssignReplicasToDirsRequest_TopicData \<Rightarrow> i16 \<Rightarrow> nat" where
  "AssignReplicasToDirsRequest_TopicData_encoded_len x version =
     (let flex = 0 \<le>s version in
      len_when (0 \<le>s version) 16
      + len_when (0 \<le>s version) (array_size flex (\<lambda>it. AssignReplicasToDirsRequest_PartitionData_encoded_len it version) (artd_req_td_partitions x))
      + len_when flex (tagged_size [] (artd_req_td_unknown_tagged_fields x)))"

definition AssignReplicasToDirsRequest_TopicData_decode :: "i16 \<Rightarrow> AssignReplicasToDirsRequest_TopicData decoder" where
  "AssignReplicasToDirsRequest_TopicData_decode version =
     (let flex = 0 \<le>s version in
      read_then (get_into (0 \<le>s version) get_uuid (\<lambda>v out. out\<lparr>artd_req_td_topic_id := v\<rparr>) AssignReplicasToDirsRequest_TopicData_default) (\<lambda>out.
        read_then (get_into (0 \<le>s version) (get_array flex (AssignReplicasToDirsRequest_PartitionData_decode version)) (\<lambda>v out. out\<lparr>artd_req_td_partitions := v\<rparr>) out) (\<lambda>out.
        get_trailer flex [] (\<lambda>u out. out\<lparr>artd_req_td_unknown_tagged_fields := u\<rparr>) out)))"

definition AssignReplicasToDirsRequest_TopicData_fields_wf :: "i16 \<Rightarrow> AssignReplicasToDirsRequest_TopicData \<Rightarrow> bool" where
  "AssignReplicasToDirsRequest_TopicData_fields_wf version x \<longleftrightarrow>
     (let flex = 0 \<le>s version in
      uuid_wf (artd_req_td_topic_id x)
      \<and> array_ok flex (AssignReplicasToDirsRequest_PartitionData_wf version) (artd_req_td_partitions x))"

definition AssignReplicasToDirsRequest_TopicData_wf :: "i16 \<Rightarrow> AssignReplicasToDirsRequest_TopicData \<Rightarrow> bool" where
  "AssignReplicasToDirsRequest_TopicData_wf version x \<longleftrightarrow>
     AssignReplicasToDirsRequest_TopicData_fields_wf version x \<and> trailer_ok [] [] (artd_req_td_unknown_tagged_fields x)"

lemmas assign_replicas_to_dirs_request_topic_data_fields =
    Let_def field_ok_def AssignReplicasToDirsRequest_TopicData_fields_wf_def

lemma assign_replicas_to_dirs_request_topic_data_steps:
  assumes v: "0 \<le>s version" and flex: "flex = (0 \<le>s version)"
  shows "keeps (AssignReplicasToDirsRequest_TopicData_fields_wf version) (get_into (0 \<le>s version) get_uuid (\<lambda>v out. out\<lparr>artd_req_td_topic_id := v\<rparr>))"
    and "keeps (AssignReplicasToDirsRequest_TopicData_fields_wf version) (get_into (0 \<le>s version) (get_array flex (AssignReplicasToDirsRequest_PartitionData_decode version)) (\<lambda>v out. out\<lparr>artd_req_td_partitions := v\<rparr>))"
  unfolding flex 
  by (rule keeps_into; (rule yields_rules)?; simp add: v assign_replicas_to_dirs_request_topic_data_fields)+

lemma assign_replicas_to_dirs_request_topic_data_unknown:
  "AssignReplicasToDirsRequest_TopicData_fields_wf version (s\<lparr>artd_req_td_unknown_tagged_fields := u\<rparr>) = AssignReplicasToDirsRequest_TopicData_fields_wf version s"
  by (simp_all add: AssignReplicasToDirsRequest_TopicData_fields_wf_def)

lemma assign_replicas_to_dirs_request_topic_data_yields:
  assumes v: "0 \<le>s version"
  shows "yields 1 (AssignReplicasToDirsRequest_TopicData_decode version) (AssignReplicasToDirsRequest_TopicData_wf version)"
proof -
  have d: "AssignReplicasToDirsRequest_TopicData_fields_wf version AssignReplicasToDirsRequest_TopicData_default"
    by (simp add: AssignReplicasToDirsRequest_TopicData_default_def v assign_replicas_to_dirs_request_topic_data_fields)
  show ?thesis
    unfolding AssignReplicasToDirsRequest_TopicData_decode_def Let_def
    by ((rule assign_replicas_to_dirs_request_topic_data_steps[OF v refl, THEN yields_step], (rule d | assumption))+, rule yields_trailer[OF _ arms_keep_Nil[of "AssignReplicasToDirsRequest_TopicData_fields_wf version" "\<lambda>_. 0"]])
      (simp_all add: v d assign_replicas_to_dirs_request_topic_data_unknown AssignReplicasToDirsRequest_TopicData_wf_def trailer_ok_def )
qed

lemma assign_replicas_to_dirs_request_topic_data_extends [extends_rules]: "extends_input (AssignReplicasToDirsRequest_TopicData_decode version)"
  unfolding AssignReplicasToDirsRequest_TopicData_decode_def Let_def by (intro extends_rules)

lemma assign_replicas_to_dirs_request_topic_data_codec:
  assumes v: "0 \<le>s version"
  shows "message_codec AssignReplicasToDirsRequest_TopicData_encode AssignReplicasToDirsRequest_TopicData_decode AssignReplicasToDirsRequest_TopicData_encoded_len (AssignReplicasToDirsRequest_TopicData_wf version) version"
proof
  fix x
  assume w: "AssignReplicasToDirsRequest_TopicData_wf version x"
  show "carries (AssignReplicasToDirsRequest_TopicData_encode x version) (AssignReplicasToDirsRequest_TopicData_decode version) (AssignReplicasToDirsRequest_TopicData_encoded_len x version) x"
    unfolding AssignReplicasToDirsRequest_TopicData_encode_def AssignReplicasToDirsRequest_TopicData_encoded_len_def AssignReplicasToDirsRequest_TopicData_decode_def Let_def
    by (use w[unfolded AssignReplicasToDirsRequest_TopicData_wf_def AssignReplicasToDirsRequest_TopicData_fields_wf_def Let_def] in \<open>elim conjE\<close>, rule carries_cong_len)
      ((rule carries_rules | (erule absent_guarded, assumption) | erule absent_plain
        | simp add: v field_ok_def AssignReplicasToDirsRequest_TopicData_default_def )+)
next
  show "yields 1 (AssignReplicasToDirsRequest_TopicData_decode version) (AssignReplicasToDirsRequest_TopicData_wf version)"
    by (rule assign_replicas_to_dirs_request_topic_data_yields[OF v])
qed (rule assign_replicas_to_dirs_request_topic_data_extends)

lemma assign_replicas_to_dirs_request_topic_data_default_wf [simp]: "0 \<le>s version \<Longrightarrow> AssignReplicasToDirsRequest_TopicData_wf version AssignReplicasToDirsRequest_TopicData_default"
  by (simp add: AssignReplicasToDirsRequest_TopicData_wf_def AssignReplicasToDirsRequest_TopicData_default_def trailer_ok_def assign_replicas_to_dirs_request_topic_data_fields)

lemmas [carries_rules] = message_codec.message_carries[OF assign_replicas_to_dirs_request_topic_data_codec]
lemmas [yields_rules] = message_codec.message_yields[OF assign_replicas_to_dirs_request_topic_data_codec]

lemmas [carries_rules] = protocol_codec.put_array_carries[OF message_codec.message_protocol[OF assign_replicas_to_dirs_request_topic_data_codec]]
lemmas [yields_rules] = protocol_codec.get_array_yields[OF message_codec.message_protocol[OF assign_replicas_to_dirs_request_topic_data_codec]]
lemmas [carries_rules] = protocol_codec.put_nullable_array_carries[OF message_codec.message_protocol[OF assign_replicas_to_dirs_request_topic_data_codec]]
lemmas [yields_rules] = protocol_codec.get_nullable_array_yields[OF message_codec.message_protocol[OF assign_replicas_to_dirs_request_topic_data_codec]]

record AssignReplicasToDirsRequest_DirectoryData =
  artd_req_dd_id :: Uuid
  artd_req_dd_topics :: "AssignReplicasToDirsRequest_TopicData list"
  artd_req_dd_unknown_tagged_fields :: "UnknownTaggedField list"

definition AssignReplicasToDirsRequest_DirectoryData_default :: AssignReplicasToDirsRequest_DirectoryData where
  "AssignReplicasToDirsRequest_DirectoryData_default =
     \<lparr>artd_req_dd_id = Uuid_ZERO, artd_req_dd_topics = [], artd_req_dd_unknown_tagged_fields = []\<rparr>"

definition AssignReplicasToDirsRequest_DirectoryData_encode :: "AssignReplicasToDirsRequest_DirectoryData \<Rightarrow> i16 \<Rightarrow> encoder" where
  "AssignReplicasToDirsRequest_DirectoryData_encode x version =
     (let flex = 0 \<le>s version in
      write_all
        [put_when (0 \<le>s version) (put_uuid (artd_req_dd_id x)),
         put_when (0 \<le>s version) (put_array flex (\<lambda>it. AssignReplicasToDirsRequest_TopicData_encode it version) (artd_req_dd_topics x)),
         put_when flex (put_tagged [] (artd_req_dd_unknown_tagged_fields x))])"

definition AssignReplicasToDirsRequest_DirectoryData_encoded_len :: "AssignReplicasToDirsRequest_DirectoryData \<Rightarrow> i16 \<Rightarrow> nat" where
  "AssignReplicasToDirsRequest_DirectoryData_encoded_len x version =
     (let flex = 0 \<le>s version in
      len_when (0 \<le>s version) 16
      + len_when (0 \<le>s version) (array_size flex (\<lambda>it. AssignReplicasToDirsRequest_TopicData_encoded_len it version) (artd_req_dd_topics x))
      + len_when flex (tagged_size [] (artd_req_dd_unknown_tagged_fields x)))"

definition AssignReplicasToDirsRequest_DirectoryData_decode :: "i16 \<Rightarrow> AssignReplicasToDirsRequest_DirectoryData decoder" where
  "AssignReplicasToDirsRequest_DirectoryData_decode version =
     (let flex = 0 \<le>s version in
      read_then (get_into (0 \<le>s version) get_uuid (\<lambda>v out. out\<lparr>artd_req_dd_id := v\<rparr>) AssignReplicasToDirsRequest_DirectoryData_default) (\<lambda>out.
        read_then (get_into (0 \<le>s version) (get_array flex (AssignReplicasToDirsRequest_TopicData_decode version)) (\<lambda>v out. out\<lparr>artd_req_dd_topics := v\<rparr>) out) (\<lambda>out.
        get_trailer flex [] (\<lambda>u out. out\<lparr>artd_req_dd_unknown_tagged_fields := u\<rparr>) out)))"

definition AssignReplicasToDirsRequest_DirectoryData_fields_wf :: "i16 \<Rightarrow> AssignReplicasToDirsRequest_DirectoryData \<Rightarrow> bool" where
  "AssignReplicasToDirsRequest_DirectoryData_fields_wf version x \<longleftrightarrow>
     (let flex = 0 \<le>s version in
      uuid_wf (artd_req_dd_id x)
      \<and> array_ok flex (AssignReplicasToDirsRequest_TopicData_wf version) (artd_req_dd_topics x))"

definition AssignReplicasToDirsRequest_DirectoryData_wf :: "i16 \<Rightarrow> AssignReplicasToDirsRequest_DirectoryData \<Rightarrow> bool" where
  "AssignReplicasToDirsRequest_DirectoryData_wf version x \<longleftrightarrow>
     AssignReplicasToDirsRequest_DirectoryData_fields_wf version x \<and> trailer_ok [] [] (artd_req_dd_unknown_tagged_fields x)"

lemmas assign_replicas_to_dirs_request_directory_data_fields =
    Let_def field_ok_def AssignReplicasToDirsRequest_DirectoryData_fields_wf_def

lemma assign_replicas_to_dirs_request_directory_data_steps:
  assumes v: "0 \<le>s version" and flex: "flex = (0 \<le>s version)"
  shows "keeps (AssignReplicasToDirsRequest_DirectoryData_fields_wf version) (get_into (0 \<le>s version) get_uuid (\<lambda>v out. out\<lparr>artd_req_dd_id := v\<rparr>))"
    and "keeps (AssignReplicasToDirsRequest_DirectoryData_fields_wf version) (get_into (0 \<le>s version) (get_array flex (AssignReplicasToDirsRequest_TopicData_decode version)) (\<lambda>v out. out\<lparr>artd_req_dd_topics := v\<rparr>))"
  unfolding flex 
  by (rule keeps_into; (rule yields_rules)?; simp add: v assign_replicas_to_dirs_request_directory_data_fields)+

lemma assign_replicas_to_dirs_request_directory_data_unknown:
  "AssignReplicasToDirsRequest_DirectoryData_fields_wf version (s\<lparr>artd_req_dd_unknown_tagged_fields := u\<rparr>) = AssignReplicasToDirsRequest_DirectoryData_fields_wf version s"
  by (simp_all add: AssignReplicasToDirsRequest_DirectoryData_fields_wf_def)

lemma assign_replicas_to_dirs_request_directory_data_yields:
  assumes v: "0 \<le>s version"
  shows "yields 1 (AssignReplicasToDirsRequest_DirectoryData_decode version) (AssignReplicasToDirsRequest_DirectoryData_wf version)"
proof -
  have d: "AssignReplicasToDirsRequest_DirectoryData_fields_wf version AssignReplicasToDirsRequest_DirectoryData_default"
    by (simp add: AssignReplicasToDirsRequest_DirectoryData_default_def v assign_replicas_to_dirs_request_directory_data_fields)
  show ?thesis
    unfolding AssignReplicasToDirsRequest_DirectoryData_decode_def Let_def
    by ((rule assign_replicas_to_dirs_request_directory_data_steps[OF v refl, THEN yields_step], (rule d | assumption))+, rule yields_trailer[OF _ arms_keep_Nil[of "AssignReplicasToDirsRequest_DirectoryData_fields_wf version" "\<lambda>_. 0"]])
      (simp_all add: v d assign_replicas_to_dirs_request_directory_data_unknown AssignReplicasToDirsRequest_DirectoryData_wf_def trailer_ok_def )
qed

lemma assign_replicas_to_dirs_request_directory_data_extends [extends_rules]: "extends_input (AssignReplicasToDirsRequest_DirectoryData_decode version)"
  unfolding AssignReplicasToDirsRequest_DirectoryData_decode_def Let_def by (intro extends_rules)

lemma assign_replicas_to_dirs_request_directory_data_codec:
  assumes v: "0 \<le>s version"
  shows "message_codec AssignReplicasToDirsRequest_DirectoryData_encode AssignReplicasToDirsRequest_DirectoryData_decode AssignReplicasToDirsRequest_DirectoryData_encoded_len (AssignReplicasToDirsRequest_DirectoryData_wf version) version"
proof
  fix x
  assume w: "AssignReplicasToDirsRequest_DirectoryData_wf version x"
  show "carries (AssignReplicasToDirsRequest_DirectoryData_encode x version) (AssignReplicasToDirsRequest_DirectoryData_decode version) (AssignReplicasToDirsRequest_DirectoryData_encoded_len x version) x"
    unfolding AssignReplicasToDirsRequest_DirectoryData_encode_def AssignReplicasToDirsRequest_DirectoryData_encoded_len_def AssignReplicasToDirsRequest_DirectoryData_decode_def Let_def
    by (use w[unfolded AssignReplicasToDirsRequest_DirectoryData_wf_def AssignReplicasToDirsRequest_DirectoryData_fields_wf_def Let_def] in \<open>elim conjE\<close>, rule carries_cong_len)
      ((rule carries_rules | (erule absent_guarded, assumption) | erule absent_plain
        | simp add: v field_ok_def AssignReplicasToDirsRequest_DirectoryData_default_def )+)
next
  show "yields 1 (AssignReplicasToDirsRequest_DirectoryData_decode version) (AssignReplicasToDirsRequest_DirectoryData_wf version)"
    by (rule assign_replicas_to_dirs_request_directory_data_yields[OF v])
qed (rule assign_replicas_to_dirs_request_directory_data_extends)

lemma assign_replicas_to_dirs_request_directory_data_default_wf [simp]: "0 \<le>s version \<Longrightarrow> AssignReplicasToDirsRequest_DirectoryData_wf version AssignReplicasToDirsRequest_DirectoryData_default"
  by (simp add: AssignReplicasToDirsRequest_DirectoryData_wf_def AssignReplicasToDirsRequest_DirectoryData_default_def trailer_ok_def assign_replicas_to_dirs_request_directory_data_fields)

lemmas [carries_rules] = message_codec.message_carries[OF assign_replicas_to_dirs_request_directory_data_codec]
lemmas [yields_rules] = message_codec.message_yields[OF assign_replicas_to_dirs_request_directory_data_codec]

lemmas [carries_rules] = protocol_codec.put_array_carries[OF message_codec.message_protocol[OF assign_replicas_to_dirs_request_directory_data_codec]]
lemmas [yields_rules] = protocol_codec.get_array_yields[OF message_codec.message_protocol[OF assign_replicas_to_dirs_request_directory_data_codec]]
lemmas [carries_rules] = protocol_codec.put_nullable_array_carries[OF message_codec.message_protocol[OF assign_replicas_to_dirs_request_directory_data_codec]]
lemmas [yields_rules] = protocol_codec.get_nullable_array_yields[OF message_codec.message_protocol[OF assign_replicas_to_dirs_request_directory_data_codec]]

record AssignReplicasToDirsRequest =
  artd_req_broker_id :: i32
  artd_req_broker_epoch :: i64
  artd_req_directories :: "AssignReplicasToDirsRequest_DirectoryData list"
  artd_req_unknown_tagged_fields :: "UnknownTaggedField list"

definition AssignReplicasToDirsRequest_default :: AssignReplicasToDirsRequest where
  "AssignReplicasToDirsRequest_default =
     \<lparr>artd_req_broker_id = 0, artd_req_broker_epoch = - 1, artd_req_directories = [], artd_req_unknown_tagged_fields = []\<rparr>"

definition AssignReplicasToDirsRequest_MIN_VERSION :: i16 where
  "AssignReplicasToDirsRequest_MIN_VERSION = 0"

definition AssignReplicasToDirsRequest_MAX_VERSION :: i16 where
  "AssignReplicasToDirsRequest_MAX_VERSION = 0"

definition AssignReplicasToDirsRequest_FLEXIBLE_MIN :: i16 where
  "AssignReplicasToDirsRequest_FLEXIBLE_MIN = 0"

definition AssignReplicasToDirsRequest_API_KEY :: i16 where
  "AssignReplicasToDirsRequest_API_KEY = 73"

definition AssignReplicasToDirsRequest_is_flexible :: "i16 \<Rightarrow> bool" where
  "AssignReplicasToDirsRequest_is_flexible version \<longleftrightarrow> AssignReplicasToDirsRequest_FLEXIBLE_MIN \<le>s version"

definition AssignReplicasToDirsRequest_encode :: "AssignReplicasToDirsRequest \<Rightarrow> i16 \<Rightarrow> encoder" where
  "AssignReplicasToDirsRequest_encode x version =
     (let flex = AssignReplicasToDirsRequest_is_flexible version in
      write_all
        [write_check (check_version AssignReplicasToDirsRequest_API_KEY version AssignReplicasToDirsRequest_MIN_VERSION AssignReplicasToDirsRequest_MAX_VERSION),
         put_when (0 \<le>s version) (put_i32 (artd_req_broker_id x)),
         put_when (0 \<le>s version) (put_i64 (artd_req_broker_epoch x)),
         put_when (0 \<le>s version) (put_array flex (\<lambda>it. AssignReplicasToDirsRequest_DirectoryData_encode it version) (artd_req_directories x)),
         put_when flex (put_tagged [] (artd_req_unknown_tagged_fields x))])"

definition AssignReplicasToDirsRequest_encoded_len :: "AssignReplicasToDirsRequest \<Rightarrow> i16 \<Rightarrow> nat" where
  "AssignReplicasToDirsRequest_encoded_len x version =
     (let flex = AssignReplicasToDirsRequest_is_flexible version in
      len_when (0 \<le>s version) 4
      + len_when (0 \<le>s version) 8
      + len_when (0 \<le>s version) (array_size flex (\<lambda>it. AssignReplicasToDirsRequest_DirectoryData_encoded_len it version) (artd_req_directories x))
      + len_when flex (tagged_size [] (artd_req_unknown_tagged_fields x)))"

definition AssignReplicasToDirsRequest_decode :: "i16 \<Rightarrow> AssignReplicasToDirsRequest decoder" where
  "AssignReplicasToDirsRequest_decode version =
     (let flex = AssignReplicasToDirsRequest_is_flexible version in
      checked (check_version AssignReplicasToDirsRequest_API_KEY version AssignReplicasToDirsRequest_MIN_VERSION AssignReplicasToDirsRequest_MAX_VERSION) (
        read_then (get_into (0 \<le>s version) get_i32 (\<lambda>v out. out\<lparr>artd_req_broker_id := v\<rparr>) AssignReplicasToDirsRequest_default) (\<lambda>out.
        read_then (get_into (0 \<le>s version) get_i64 (\<lambda>v out. out\<lparr>artd_req_broker_epoch := v\<rparr>) out) (\<lambda>out.
        read_then (get_into (0 \<le>s version) (get_array flex (AssignReplicasToDirsRequest_DirectoryData_decode version)) (\<lambda>v out. out\<lparr>artd_req_directories := v\<rparr>) out) (\<lambda>out.
        get_trailer flex [] (\<lambda>u out. out\<lparr>artd_req_unknown_tagged_fields := u\<rparr>) out)))))"

definition AssignReplicasToDirsRequest_fields_wf :: "i16 \<Rightarrow> AssignReplicasToDirsRequest \<Rightarrow> bool" where
  "AssignReplicasToDirsRequest_fields_wf version x \<longleftrightarrow>
     (let flex = AssignReplicasToDirsRequest_is_flexible version in
      array_ok flex (AssignReplicasToDirsRequest_DirectoryData_wf version) (artd_req_directories x))"

definition AssignReplicasToDirsRequest_wf :: "i16 \<Rightarrow> AssignReplicasToDirsRequest \<Rightarrow> bool" where
  "AssignReplicasToDirsRequest_wf version x \<longleftrightarrow>
     version_in AssignReplicasToDirsRequest_MIN_VERSION AssignReplicasToDirsRequest_MAX_VERSION version \<and> AssignReplicasToDirsRequest_fields_wf version x \<and> trailer_ok [] [] (artd_req_unknown_tagged_fields x)"

lemmas assign_replicas_to_dirs_request_versions =
    AssignReplicasToDirsRequest_is_flexible_def AssignReplicasToDirsRequest_FLEXIBLE_MIN_def
    AssignReplicasToDirsRequest_MIN_VERSION_def AssignReplicasToDirsRequest_MAX_VERSION_def version_in_def

lemmas assign_replicas_to_dirs_request_fields =
    Let_def field_ok_def AssignReplicasToDirsRequest_fields_wf_def AssignReplicasToDirsRequest_is_flexible_def
    AssignReplicasToDirsRequest_FLEXIBLE_MIN_def

lemma assign_replicas_to_dirs_request_steps:
  assumes v: "0 \<le>s version" and flex: "flex = (AssignReplicasToDirsRequest_is_flexible version)"
  shows "keeps (AssignReplicasToDirsRequest_fields_wf version) (get_into (0 \<le>s version) get_i32 (\<lambda>v out. out\<lparr>artd_req_broker_id := v\<rparr>))"
    and "keeps (AssignReplicasToDirsRequest_fields_wf version) (get_into (0 \<le>s version) get_i64 (\<lambda>v out. out\<lparr>artd_req_broker_epoch := v\<rparr>))"
    and "keeps (AssignReplicasToDirsRequest_fields_wf version) (get_into (0 \<le>s version) (get_array flex (AssignReplicasToDirsRequest_DirectoryData_decode version)) (\<lambda>v out. out\<lparr>artd_req_directories := v\<rparr>))"
  unfolding flex 
  by (rule keeps_into; (rule yields_rules)?; simp add: v assign_replicas_to_dirs_request_fields)+

lemma assign_replicas_to_dirs_request_unknown:
  "AssignReplicasToDirsRequest_fields_wf version (s\<lparr>artd_req_unknown_tagged_fields := u\<rparr>) = AssignReplicasToDirsRequest_fields_wf version s"
  by (simp_all add: AssignReplicasToDirsRequest_fields_wf_def)

lemma assign_replicas_to_dirs_request_yields:
  assumes r: "version_in AssignReplicasToDirsRequest_MIN_VERSION AssignReplicasToDirsRequest_MAX_VERSION version"
  shows "yields 1 (AssignReplicasToDirsRequest_decode version) (AssignReplicasToDirsRequest_wf version)"
proof -
  have v: "0 \<le>s version"
    using r by (simp add: assign_replicas_to_dirs_request_versions)
  have d: "AssignReplicasToDirsRequest_fields_wf version AssignReplicasToDirsRequest_default"
    by (simp add: AssignReplicasToDirsRequest_default_def v assign_replicas_to_dirs_request_fields)
  show ?thesis
    unfolding AssignReplicasToDirsRequest_decode_def Let_def
    by (rule yields_checked, (rule assign_replicas_to_dirs_request_steps[OF v refl, THEN yields_step], (rule d | assumption))+, rule yields_trailer[OF _ arms_keep_Nil[of "AssignReplicasToDirsRequest_fields_wf version" "\<lambda>_. 0"]])
      (simp_all add: v d assign_replicas_to_dirs_request_unknown AssignReplicasToDirsRequest_wf_def trailer_ok_def r AssignReplicasToDirsRequest_is_flexible_def AssignReplicasToDirsRequest_FLEXIBLE_MIN_def)
qed

interpretation assign_replicas_to_dirs_request: message_codec
  AssignReplicasToDirsRequest_encode AssignReplicasToDirsRequest_decode AssignReplicasToDirsRequest_encoded_len "AssignReplicasToDirsRequest_wf version" version
  for version
proof
  fix x
  assume w: "AssignReplicasToDirsRequest_wf version x"
  then have v: "0 \<le>s version"
    by (simp add: AssignReplicasToDirsRequest_wf_def assign_replicas_to_dirs_request_versions)
  show "carries (AssignReplicasToDirsRequest_encode x version) (AssignReplicasToDirsRequest_decode version) (AssignReplicasToDirsRequest_encoded_len x version) x"
    unfolding AssignReplicasToDirsRequest_encode_def AssignReplicasToDirsRequest_encoded_len_def AssignReplicasToDirsRequest_decode_def Let_def
    by (use w[unfolded AssignReplicasToDirsRequest_wf_def AssignReplicasToDirsRequest_fields_wf_def Let_def] in \<open>elim conjE\<close>, rule carries_cong_len)
      ((rule carries_rules check_version_in[THEN iffD2] | (erule absent_guarded, assumption) | erule absent_plain
        | simp add: v field_ok_def AssignReplicasToDirsRequest_default_def assign_replicas_to_dirs_request_versions)+)
next
  show "yields 1 (AssignReplicasToDirsRequest_decode version) (AssignReplicasToDirsRequest_wf version)"
    by (rule case_split[OF assign_replicas_to_dirs_request_yields]) (auto simp: AssignReplicasToDirsRequest_decode_def Let_def yields_refused yields_unsupported)
  show "extends_input (AssignReplicasToDirsRequest_decode version)"
    unfolding AssignReplicasToDirsRequest_decode_def Let_def by (intro extends_rules)
qed

section \<open>AssignReplicasToDirsResponse\<close>

record AssignReplicasToDirsResponse_PartitionData =
  artd_resp_pd_partition_index :: i32
  artd_resp_pd_error_code :: i16
  artd_resp_pd_unknown_tagged_fields :: "UnknownTaggedField list"

definition AssignReplicasToDirsResponse_PartitionData_default :: AssignReplicasToDirsResponse_PartitionData where
  "AssignReplicasToDirsResponse_PartitionData_default =
     \<lparr>artd_resp_pd_partition_index = 0, artd_resp_pd_error_code = 0, artd_resp_pd_unknown_tagged_fields = []\<rparr>"

definition AssignReplicasToDirsResponse_PartitionData_encode :: "AssignReplicasToDirsResponse_PartitionData \<Rightarrow> i16 \<Rightarrow> encoder" where
  "AssignReplicasToDirsResponse_PartitionData_encode x version =
     (let flex = 0 \<le>s version in
      write_all
        [put_when (0 \<le>s version) (put_i32 (artd_resp_pd_partition_index x)),
         put_when (0 \<le>s version) (put_i16 (artd_resp_pd_error_code x)),
         put_when flex (put_tagged [] (artd_resp_pd_unknown_tagged_fields x))])"

definition AssignReplicasToDirsResponse_PartitionData_encoded_len :: "AssignReplicasToDirsResponse_PartitionData \<Rightarrow> i16 \<Rightarrow> nat" where
  "AssignReplicasToDirsResponse_PartitionData_encoded_len x version =
     (let flex = 0 \<le>s version in
      len_when (0 \<le>s version) 4
      + len_when (0 \<le>s version) 2
      + len_when flex (tagged_size [] (artd_resp_pd_unknown_tagged_fields x)))"

definition AssignReplicasToDirsResponse_PartitionData_decode :: "i16 \<Rightarrow> AssignReplicasToDirsResponse_PartitionData decoder" where
  "AssignReplicasToDirsResponse_PartitionData_decode version =
     (let flex = 0 \<le>s version in
      read_then (get_into (0 \<le>s version) get_i32 (\<lambda>v out. out\<lparr>artd_resp_pd_partition_index := v\<rparr>) AssignReplicasToDirsResponse_PartitionData_default) (\<lambda>out.
        read_then (get_into (0 \<le>s version) get_i16 (\<lambda>v out. out\<lparr>artd_resp_pd_error_code := v\<rparr>) out) (\<lambda>out.
        get_trailer flex [] (\<lambda>u out. out\<lparr>artd_resp_pd_unknown_tagged_fields := u\<rparr>) out)))"

definition AssignReplicasToDirsResponse_PartitionData_fields_wf :: "i16 \<Rightarrow> AssignReplicasToDirsResponse_PartitionData \<Rightarrow> bool" where
  "AssignReplicasToDirsResponse_PartitionData_fields_wf version x \<longleftrightarrow>
     True"

definition AssignReplicasToDirsResponse_PartitionData_wf :: "i16 \<Rightarrow> AssignReplicasToDirsResponse_PartitionData \<Rightarrow> bool" where
  "AssignReplicasToDirsResponse_PartitionData_wf version x \<longleftrightarrow>
     AssignReplicasToDirsResponse_PartitionData_fields_wf version x \<and> trailer_ok [] [] (artd_resp_pd_unknown_tagged_fields x)"

lemmas assign_replicas_to_dirs_response_partition_data_fields =
    Let_def field_ok_def AssignReplicasToDirsResponse_PartitionData_fields_wf_def

lemma assign_replicas_to_dirs_response_partition_data_steps:
  assumes v: "0 \<le>s version" and flex: "flex = (0 \<le>s version)"
  shows "keeps (AssignReplicasToDirsResponse_PartitionData_fields_wf version) (get_into (0 \<le>s version) get_i32 (\<lambda>v out. out\<lparr>artd_resp_pd_partition_index := v\<rparr>))"
    and "keeps (AssignReplicasToDirsResponse_PartitionData_fields_wf version) (get_into (0 \<le>s version) get_i16 (\<lambda>v out. out\<lparr>artd_resp_pd_error_code := v\<rparr>))"
  unfolding flex 
  by (rule keeps_into; (rule yields_rules)?; simp add: v assign_replicas_to_dirs_response_partition_data_fields)+

lemma assign_replicas_to_dirs_response_partition_data_unknown:
  "AssignReplicasToDirsResponse_PartitionData_fields_wf version (s\<lparr>artd_resp_pd_unknown_tagged_fields := u\<rparr>) = AssignReplicasToDirsResponse_PartitionData_fields_wf version s"
  by (simp_all add: AssignReplicasToDirsResponse_PartitionData_fields_wf_def)

lemma assign_replicas_to_dirs_response_partition_data_yields:
  assumes v: "0 \<le>s version"
  shows "yields 1 (AssignReplicasToDirsResponse_PartitionData_decode version) (AssignReplicasToDirsResponse_PartitionData_wf version)"
proof -
  have d: "AssignReplicasToDirsResponse_PartitionData_fields_wf version AssignReplicasToDirsResponse_PartitionData_default"
    by (simp add: AssignReplicasToDirsResponse_PartitionData_default_def v assign_replicas_to_dirs_response_partition_data_fields)
  show ?thesis
    unfolding AssignReplicasToDirsResponse_PartitionData_decode_def Let_def
    by ((rule assign_replicas_to_dirs_response_partition_data_steps[OF v refl, THEN yields_step], (rule d | assumption))+, rule yields_trailer[OF _ arms_keep_Nil[of "AssignReplicasToDirsResponse_PartitionData_fields_wf version" "\<lambda>_. 0"]])
      (simp_all add: v d assign_replicas_to_dirs_response_partition_data_unknown AssignReplicasToDirsResponse_PartitionData_wf_def trailer_ok_def )
qed

lemma assign_replicas_to_dirs_response_partition_data_extends [extends_rules]: "extends_input (AssignReplicasToDirsResponse_PartitionData_decode version)"
  unfolding AssignReplicasToDirsResponse_PartitionData_decode_def Let_def by (intro extends_rules)

lemma assign_replicas_to_dirs_response_partition_data_codec:
  assumes v: "0 \<le>s version"
  shows "message_codec AssignReplicasToDirsResponse_PartitionData_encode AssignReplicasToDirsResponse_PartitionData_decode AssignReplicasToDirsResponse_PartitionData_encoded_len (AssignReplicasToDirsResponse_PartitionData_wf version) version"
proof
  fix x
  assume w: "AssignReplicasToDirsResponse_PartitionData_wf version x"
  show "carries (AssignReplicasToDirsResponse_PartitionData_encode x version) (AssignReplicasToDirsResponse_PartitionData_decode version) (AssignReplicasToDirsResponse_PartitionData_encoded_len x version) x"
    unfolding AssignReplicasToDirsResponse_PartitionData_encode_def AssignReplicasToDirsResponse_PartitionData_encoded_len_def AssignReplicasToDirsResponse_PartitionData_decode_def Let_def
    by (use w[unfolded AssignReplicasToDirsResponse_PartitionData_wf_def AssignReplicasToDirsResponse_PartitionData_fields_wf_def Let_def] in \<open>elim conjE\<close>, rule carries_cong_len)
      ((rule carries_rules | (erule absent_guarded, assumption) | erule absent_plain
        | simp add: v field_ok_def AssignReplicasToDirsResponse_PartitionData_default_def )+)
next
  show "yields 1 (AssignReplicasToDirsResponse_PartitionData_decode version) (AssignReplicasToDirsResponse_PartitionData_wf version)"
    by (rule assign_replicas_to_dirs_response_partition_data_yields[OF v])
qed (rule assign_replicas_to_dirs_response_partition_data_extends)

lemma assign_replicas_to_dirs_response_partition_data_default_wf [simp]: "0 \<le>s version \<Longrightarrow> AssignReplicasToDirsResponse_PartitionData_wf version AssignReplicasToDirsResponse_PartitionData_default"
  by (simp add: AssignReplicasToDirsResponse_PartitionData_wf_def AssignReplicasToDirsResponse_PartitionData_default_def trailer_ok_def assign_replicas_to_dirs_response_partition_data_fields)

lemmas [carries_rules] = message_codec.message_carries[OF assign_replicas_to_dirs_response_partition_data_codec]
lemmas [yields_rules] = message_codec.message_yields[OF assign_replicas_to_dirs_response_partition_data_codec]

lemmas [carries_rules] = protocol_codec.put_array_carries[OF message_codec.message_protocol[OF assign_replicas_to_dirs_response_partition_data_codec]]
lemmas [yields_rules] = protocol_codec.get_array_yields[OF message_codec.message_protocol[OF assign_replicas_to_dirs_response_partition_data_codec]]
lemmas [carries_rules] = protocol_codec.put_nullable_array_carries[OF message_codec.message_protocol[OF assign_replicas_to_dirs_response_partition_data_codec]]
lemmas [yields_rules] = protocol_codec.get_nullable_array_yields[OF message_codec.message_protocol[OF assign_replicas_to_dirs_response_partition_data_codec]]

record AssignReplicasToDirsResponse_TopicData =
  artd_resp_td_topic_id :: Uuid
  artd_resp_td_partitions :: "AssignReplicasToDirsResponse_PartitionData list"
  artd_resp_td_unknown_tagged_fields :: "UnknownTaggedField list"

definition AssignReplicasToDirsResponse_TopicData_default :: AssignReplicasToDirsResponse_TopicData where
  "AssignReplicasToDirsResponse_TopicData_default =
     \<lparr>artd_resp_td_topic_id = Uuid_ZERO, artd_resp_td_partitions = [], artd_resp_td_unknown_tagged_fields = []\<rparr>"

definition AssignReplicasToDirsResponse_TopicData_encode :: "AssignReplicasToDirsResponse_TopicData \<Rightarrow> i16 \<Rightarrow> encoder" where
  "AssignReplicasToDirsResponse_TopicData_encode x version =
     (let flex = 0 \<le>s version in
      write_all
        [put_when (0 \<le>s version) (put_uuid (artd_resp_td_topic_id x)),
         put_when (0 \<le>s version) (put_array flex (\<lambda>it. AssignReplicasToDirsResponse_PartitionData_encode it version) (artd_resp_td_partitions x)),
         put_when flex (put_tagged [] (artd_resp_td_unknown_tagged_fields x))])"

definition AssignReplicasToDirsResponse_TopicData_encoded_len :: "AssignReplicasToDirsResponse_TopicData \<Rightarrow> i16 \<Rightarrow> nat" where
  "AssignReplicasToDirsResponse_TopicData_encoded_len x version =
     (let flex = 0 \<le>s version in
      len_when (0 \<le>s version) 16
      + len_when (0 \<le>s version) (array_size flex (\<lambda>it. AssignReplicasToDirsResponse_PartitionData_encoded_len it version) (artd_resp_td_partitions x))
      + len_when flex (tagged_size [] (artd_resp_td_unknown_tagged_fields x)))"

definition AssignReplicasToDirsResponse_TopicData_decode :: "i16 \<Rightarrow> AssignReplicasToDirsResponse_TopicData decoder" where
  "AssignReplicasToDirsResponse_TopicData_decode version =
     (let flex = 0 \<le>s version in
      read_then (get_into (0 \<le>s version) get_uuid (\<lambda>v out. out\<lparr>artd_resp_td_topic_id := v\<rparr>) AssignReplicasToDirsResponse_TopicData_default) (\<lambda>out.
        read_then (get_into (0 \<le>s version) (get_array flex (AssignReplicasToDirsResponse_PartitionData_decode version)) (\<lambda>v out. out\<lparr>artd_resp_td_partitions := v\<rparr>) out) (\<lambda>out.
        get_trailer flex [] (\<lambda>u out. out\<lparr>artd_resp_td_unknown_tagged_fields := u\<rparr>) out)))"

definition AssignReplicasToDirsResponse_TopicData_fields_wf :: "i16 \<Rightarrow> AssignReplicasToDirsResponse_TopicData \<Rightarrow> bool" where
  "AssignReplicasToDirsResponse_TopicData_fields_wf version x \<longleftrightarrow>
     (let flex = 0 \<le>s version in
      uuid_wf (artd_resp_td_topic_id x)
      \<and> array_ok flex (AssignReplicasToDirsResponse_PartitionData_wf version) (artd_resp_td_partitions x))"

definition AssignReplicasToDirsResponse_TopicData_wf :: "i16 \<Rightarrow> AssignReplicasToDirsResponse_TopicData \<Rightarrow> bool" where
  "AssignReplicasToDirsResponse_TopicData_wf version x \<longleftrightarrow>
     AssignReplicasToDirsResponse_TopicData_fields_wf version x \<and> trailer_ok [] [] (artd_resp_td_unknown_tagged_fields x)"

lemmas assign_replicas_to_dirs_response_topic_data_fields =
    Let_def field_ok_def AssignReplicasToDirsResponse_TopicData_fields_wf_def

lemma assign_replicas_to_dirs_response_topic_data_steps:
  assumes v: "0 \<le>s version" and flex: "flex = (0 \<le>s version)"
  shows "keeps (AssignReplicasToDirsResponse_TopicData_fields_wf version) (get_into (0 \<le>s version) get_uuid (\<lambda>v out. out\<lparr>artd_resp_td_topic_id := v\<rparr>))"
    and "keeps (AssignReplicasToDirsResponse_TopicData_fields_wf version) (get_into (0 \<le>s version) (get_array flex (AssignReplicasToDirsResponse_PartitionData_decode version)) (\<lambda>v out. out\<lparr>artd_resp_td_partitions := v\<rparr>))"
  unfolding flex 
  by (rule keeps_into; (rule yields_rules)?; simp add: v assign_replicas_to_dirs_response_topic_data_fields)+

lemma assign_replicas_to_dirs_response_topic_data_unknown:
  "AssignReplicasToDirsResponse_TopicData_fields_wf version (s\<lparr>artd_resp_td_unknown_tagged_fields := u\<rparr>) = AssignReplicasToDirsResponse_TopicData_fields_wf version s"
  by (simp_all add: AssignReplicasToDirsResponse_TopicData_fields_wf_def)

lemma assign_replicas_to_dirs_response_topic_data_yields:
  assumes v: "0 \<le>s version"
  shows "yields 1 (AssignReplicasToDirsResponse_TopicData_decode version) (AssignReplicasToDirsResponse_TopicData_wf version)"
proof -
  have d: "AssignReplicasToDirsResponse_TopicData_fields_wf version AssignReplicasToDirsResponse_TopicData_default"
    by (simp add: AssignReplicasToDirsResponse_TopicData_default_def v assign_replicas_to_dirs_response_topic_data_fields)
  show ?thesis
    unfolding AssignReplicasToDirsResponse_TopicData_decode_def Let_def
    by ((rule assign_replicas_to_dirs_response_topic_data_steps[OF v refl, THEN yields_step], (rule d | assumption))+, rule yields_trailer[OF _ arms_keep_Nil[of "AssignReplicasToDirsResponse_TopicData_fields_wf version" "\<lambda>_. 0"]])
      (simp_all add: v d assign_replicas_to_dirs_response_topic_data_unknown AssignReplicasToDirsResponse_TopicData_wf_def trailer_ok_def )
qed

lemma assign_replicas_to_dirs_response_topic_data_extends [extends_rules]: "extends_input (AssignReplicasToDirsResponse_TopicData_decode version)"
  unfolding AssignReplicasToDirsResponse_TopicData_decode_def Let_def by (intro extends_rules)

lemma assign_replicas_to_dirs_response_topic_data_codec:
  assumes v: "0 \<le>s version"
  shows "message_codec AssignReplicasToDirsResponse_TopicData_encode AssignReplicasToDirsResponse_TopicData_decode AssignReplicasToDirsResponse_TopicData_encoded_len (AssignReplicasToDirsResponse_TopicData_wf version) version"
proof
  fix x
  assume w: "AssignReplicasToDirsResponse_TopicData_wf version x"
  show "carries (AssignReplicasToDirsResponse_TopicData_encode x version) (AssignReplicasToDirsResponse_TopicData_decode version) (AssignReplicasToDirsResponse_TopicData_encoded_len x version) x"
    unfolding AssignReplicasToDirsResponse_TopicData_encode_def AssignReplicasToDirsResponse_TopicData_encoded_len_def AssignReplicasToDirsResponse_TopicData_decode_def Let_def
    by (use w[unfolded AssignReplicasToDirsResponse_TopicData_wf_def AssignReplicasToDirsResponse_TopicData_fields_wf_def Let_def] in \<open>elim conjE\<close>, rule carries_cong_len)
      ((rule carries_rules | (erule absent_guarded, assumption) | erule absent_plain
        | simp add: v field_ok_def AssignReplicasToDirsResponse_TopicData_default_def )+)
next
  show "yields 1 (AssignReplicasToDirsResponse_TopicData_decode version) (AssignReplicasToDirsResponse_TopicData_wf version)"
    by (rule assign_replicas_to_dirs_response_topic_data_yields[OF v])
qed (rule assign_replicas_to_dirs_response_topic_data_extends)

lemma assign_replicas_to_dirs_response_topic_data_default_wf [simp]: "0 \<le>s version \<Longrightarrow> AssignReplicasToDirsResponse_TopicData_wf version AssignReplicasToDirsResponse_TopicData_default"
  by (simp add: AssignReplicasToDirsResponse_TopicData_wf_def AssignReplicasToDirsResponse_TopicData_default_def trailer_ok_def assign_replicas_to_dirs_response_topic_data_fields)

lemmas [carries_rules] = message_codec.message_carries[OF assign_replicas_to_dirs_response_topic_data_codec]
lemmas [yields_rules] = message_codec.message_yields[OF assign_replicas_to_dirs_response_topic_data_codec]

lemmas [carries_rules] = protocol_codec.put_array_carries[OF message_codec.message_protocol[OF assign_replicas_to_dirs_response_topic_data_codec]]
lemmas [yields_rules] = protocol_codec.get_array_yields[OF message_codec.message_protocol[OF assign_replicas_to_dirs_response_topic_data_codec]]
lemmas [carries_rules] = protocol_codec.put_nullable_array_carries[OF message_codec.message_protocol[OF assign_replicas_to_dirs_response_topic_data_codec]]
lemmas [yields_rules] = protocol_codec.get_nullable_array_yields[OF message_codec.message_protocol[OF assign_replicas_to_dirs_response_topic_data_codec]]

record AssignReplicasToDirsResponse_DirectoryData =
  artd_resp_dd_id :: Uuid
  artd_resp_dd_topics :: "AssignReplicasToDirsResponse_TopicData list"
  artd_resp_dd_unknown_tagged_fields :: "UnknownTaggedField list"

definition AssignReplicasToDirsResponse_DirectoryData_default :: AssignReplicasToDirsResponse_DirectoryData where
  "AssignReplicasToDirsResponse_DirectoryData_default =
     \<lparr>artd_resp_dd_id = Uuid_ZERO, artd_resp_dd_topics = [], artd_resp_dd_unknown_tagged_fields = []\<rparr>"

definition AssignReplicasToDirsResponse_DirectoryData_encode :: "AssignReplicasToDirsResponse_DirectoryData \<Rightarrow> i16 \<Rightarrow> encoder" where
  "AssignReplicasToDirsResponse_DirectoryData_encode x version =
     (let flex = 0 \<le>s version in
      write_all
        [put_when (0 \<le>s version) (put_uuid (artd_resp_dd_id x)),
         put_when (0 \<le>s version) (put_array flex (\<lambda>it. AssignReplicasToDirsResponse_TopicData_encode it version) (artd_resp_dd_topics x)),
         put_when flex (put_tagged [] (artd_resp_dd_unknown_tagged_fields x))])"

definition AssignReplicasToDirsResponse_DirectoryData_encoded_len :: "AssignReplicasToDirsResponse_DirectoryData \<Rightarrow> i16 \<Rightarrow> nat" where
  "AssignReplicasToDirsResponse_DirectoryData_encoded_len x version =
     (let flex = 0 \<le>s version in
      len_when (0 \<le>s version) 16
      + len_when (0 \<le>s version) (array_size flex (\<lambda>it. AssignReplicasToDirsResponse_TopicData_encoded_len it version) (artd_resp_dd_topics x))
      + len_when flex (tagged_size [] (artd_resp_dd_unknown_tagged_fields x)))"

definition AssignReplicasToDirsResponse_DirectoryData_decode :: "i16 \<Rightarrow> AssignReplicasToDirsResponse_DirectoryData decoder" where
  "AssignReplicasToDirsResponse_DirectoryData_decode version =
     (let flex = 0 \<le>s version in
      read_then (get_into (0 \<le>s version) get_uuid (\<lambda>v out. out\<lparr>artd_resp_dd_id := v\<rparr>) AssignReplicasToDirsResponse_DirectoryData_default) (\<lambda>out.
        read_then (get_into (0 \<le>s version) (get_array flex (AssignReplicasToDirsResponse_TopicData_decode version)) (\<lambda>v out. out\<lparr>artd_resp_dd_topics := v\<rparr>) out) (\<lambda>out.
        get_trailer flex [] (\<lambda>u out. out\<lparr>artd_resp_dd_unknown_tagged_fields := u\<rparr>) out)))"

definition AssignReplicasToDirsResponse_DirectoryData_fields_wf :: "i16 \<Rightarrow> AssignReplicasToDirsResponse_DirectoryData \<Rightarrow> bool" where
  "AssignReplicasToDirsResponse_DirectoryData_fields_wf version x \<longleftrightarrow>
     (let flex = 0 \<le>s version in
      uuid_wf (artd_resp_dd_id x)
      \<and> array_ok flex (AssignReplicasToDirsResponse_TopicData_wf version) (artd_resp_dd_topics x))"

definition AssignReplicasToDirsResponse_DirectoryData_wf :: "i16 \<Rightarrow> AssignReplicasToDirsResponse_DirectoryData \<Rightarrow> bool" where
  "AssignReplicasToDirsResponse_DirectoryData_wf version x \<longleftrightarrow>
     AssignReplicasToDirsResponse_DirectoryData_fields_wf version x \<and> trailer_ok [] [] (artd_resp_dd_unknown_tagged_fields x)"

lemmas assign_replicas_to_dirs_response_directory_data_fields =
    Let_def field_ok_def AssignReplicasToDirsResponse_DirectoryData_fields_wf_def

lemma assign_replicas_to_dirs_response_directory_data_steps:
  assumes v: "0 \<le>s version" and flex: "flex = (0 \<le>s version)"
  shows "keeps (AssignReplicasToDirsResponse_DirectoryData_fields_wf version) (get_into (0 \<le>s version) get_uuid (\<lambda>v out. out\<lparr>artd_resp_dd_id := v\<rparr>))"
    and "keeps (AssignReplicasToDirsResponse_DirectoryData_fields_wf version) (get_into (0 \<le>s version) (get_array flex (AssignReplicasToDirsResponse_TopicData_decode version)) (\<lambda>v out. out\<lparr>artd_resp_dd_topics := v\<rparr>))"
  unfolding flex 
  by (rule keeps_into; (rule yields_rules)?; simp add: v assign_replicas_to_dirs_response_directory_data_fields)+

lemma assign_replicas_to_dirs_response_directory_data_unknown:
  "AssignReplicasToDirsResponse_DirectoryData_fields_wf version (s\<lparr>artd_resp_dd_unknown_tagged_fields := u\<rparr>) = AssignReplicasToDirsResponse_DirectoryData_fields_wf version s"
  by (simp_all add: AssignReplicasToDirsResponse_DirectoryData_fields_wf_def)

lemma assign_replicas_to_dirs_response_directory_data_yields:
  assumes v: "0 \<le>s version"
  shows "yields 1 (AssignReplicasToDirsResponse_DirectoryData_decode version) (AssignReplicasToDirsResponse_DirectoryData_wf version)"
proof -
  have d: "AssignReplicasToDirsResponse_DirectoryData_fields_wf version AssignReplicasToDirsResponse_DirectoryData_default"
    by (simp add: AssignReplicasToDirsResponse_DirectoryData_default_def v assign_replicas_to_dirs_response_directory_data_fields)
  show ?thesis
    unfolding AssignReplicasToDirsResponse_DirectoryData_decode_def Let_def
    by ((rule assign_replicas_to_dirs_response_directory_data_steps[OF v refl, THEN yields_step], (rule d | assumption))+, rule yields_trailer[OF _ arms_keep_Nil[of "AssignReplicasToDirsResponse_DirectoryData_fields_wf version" "\<lambda>_. 0"]])
      (simp_all add: v d assign_replicas_to_dirs_response_directory_data_unknown AssignReplicasToDirsResponse_DirectoryData_wf_def trailer_ok_def )
qed

lemma assign_replicas_to_dirs_response_directory_data_extends [extends_rules]: "extends_input (AssignReplicasToDirsResponse_DirectoryData_decode version)"
  unfolding AssignReplicasToDirsResponse_DirectoryData_decode_def Let_def by (intro extends_rules)

lemma assign_replicas_to_dirs_response_directory_data_codec:
  assumes v: "0 \<le>s version"
  shows "message_codec AssignReplicasToDirsResponse_DirectoryData_encode AssignReplicasToDirsResponse_DirectoryData_decode AssignReplicasToDirsResponse_DirectoryData_encoded_len (AssignReplicasToDirsResponse_DirectoryData_wf version) version"
proof
  fix x
  assume w: "AssignReplicasToDirsResponse_DirectoryData_wf version x"
  show "carries (AssignReplicasToDirsResponse_DirectoryData_encode x version) (AssignReplicasToDirsResponse_DirectoryData_decode version) (AssignReplicasToDirsResponse_DirectoryData_encoded_len x version) x"
    unfolding AssignReplicasToDirsResponse_DirectoryData_encode_def AssignReplicasToDirsResponse_DirectoryData_encoded_len_def AssignReplicasToDirsResponse_DirectoryData_decode_def Let_def
    by (use w[unfolded AssignReplicasToDirsResponse_DirectoryData_wf_def AssignReplicasToDirsResponse_DirectoryData_fields_wf_def Let_def] in \<open>elim conjE\<close>, rule carries_cong_len)
      ((rule carries_rules | (erule absent_guarded, assumption) | erule absent_plain
        | simp add: v field_ok_def AssignReplicasToDirsResponse_DirectoryData_default_def )+)
next
  show "yields 1 (AssignReplicasToDirsResponse_DirectoryData_decode version) (AssignReplicasToDirsResponse_DirectoryData_wf version)"
    by (rule assign_replicas_to_dirs_response_directory_data_yields[OF v])
qed (rule assign_replicas_to_dirs_response_directory_data_extends)

lemma assign_replicas_to_dirs_response_directory_data_default_wf [simp]: "0 \<le>s version \<Longrightarrow> AssignReplicasToDirsResponse_DirectoryData_wf version AssignReplicasToDirsResponse_DirectoryData_default"
  by (simp add: AssignReplicasToDirsResponse_DirectoryData_wf_def AssignReplicasToDirsResponse_DirectoryData_default_def trailer_ok_def assign_replicas_to_dirs_response_directory_data_fields)

lemmas [carries_rules] = message_codec.message_carries[OF assign_replicas_to_dirs_response_directory_data_codec]
lemmas [yields_rules] = message_codec.message_yields[OF assign_replicas_to_dirs_response_directory_data_codec]

lemmas [carries_rules] = protocol_codec.put_array_carries[OF message_codec.message_protocol[OF assign_replicas_to_dirs_response_directory_data_codec]]
lemmas [yields_rules] = protocol_codec.get_array_yields[OF message_codec.message_protocol[OF assign_replicas_to_dirs_response_directory_data_codec]]
lemmas [carries_rules] = protocol_codec.put_nullable_array_carries[OF message_codec.message_protocol[OF assign_replicas_to_dirs_response_directory_data_codec]]
lemmas [yields_rules] = protocol_codec.get_nullable_array_yields[OF message_codec.message_protocol[OF assign_replicas_to_dirs_response_directory_data_codec]]

record AssignReplicasToDirsResponse =
  artd_resp_throttle_time_ms :: i32
  artd_resp_error_code :: i16
  artd_resp_directories :: "AssignReplicasToDirsResponse_DirectoryData list"
  artd_resp_unknown_tagged_fields :: "UnknownTaggedField list"

definition AssignReplicasToDirsResponse_default :: AssignReplicasToDirsResponse where
  "AssignReplicasToDirsResponse_default =
     \<lparr>artd_resp_throttle_time_ms = 0, artd_resp_error_code = 0, artd_resp_directories = [], artd_resp_unknown_tagged_fields = []\<rparr>"

definition AssignReplicasToDirsResponse_MIN_VERSION :: i16 where
  "AssignReplicasToDirsResponse_MIN_VERSION = 0"

definition AssignReplicasToDirsResponse_MAX_VERSION :: i16 where
  "AssignReplicasToDirsResponse_MAX_VERSION = 0"

definition AssignReplicasToDirsResponse_FLEXIBLE_MIN :: i16 where
  "AssignReplicasToDirsResponse_FLEXIBLE_MIN = 0"

definition AssignReplicasToDirsResponse_API_KEY :: i16 where
  "AssignReplicasToDirsResponse_API_KEY = 73"

definition AssignReplicasToDirsResponse_is_flexible :: "i16 \<Rightarrow> bool" where
  "AssignReplicasToDirsResponse_is_flexible version \<longleftrightarrow> AssignReplicasToDirsResponse_FLEXIBLE_MIN \<le>s version"

definition AssignReplicasToDirsResponse_encode :: "AssignReplicasToDirsResponse \<Rightarrow> i16 \<Rightarrow> encoder" where
  "AssignReplicasToDirsResponse_encode x version =
     (let flex = AssignReplicasToDirsResponse_is_flexible version in
      write_all
        [write_check (check_version AssignReplicasToDirsResponse_API_KEY version AssignReplicasToDirsResponse_MIN_VERSION AssignReplicasToDirsResponse_MAX_VERSION),
         put_when (0 \<le>s version) (put_i32 (artd_resp_throttle_time_ms x)),
         put_when (0 \<le>s version) (put_i16 (artd_resp_error_code x)),
         put_when (0 \<le>s version) (put_array flex (\<lambda>it. AssignReplicasToDirsResponse_DirectoryData_encode it version) (artd_resp_directories x)),
         put_when flex (put_tagged [] (artd_resp_unknown_tagged_fields x))])"

definition AssignReplicasToDirsResponse_encoded_len :: "AssignReplicasToDirsResponse \<Rightarrow> i16 \<Rightarrow> nat" where
  "AssignReplicasToDirsResponse_encoded_len x version =
     (let flex = AssignReplicasToDirsResponse_is_flexible version in
      len_when (0 \<le>s version) 4
      + len_when (0 \<le>s version) 2
      + len_when (0 \<le>s version) (array_size flex (\<lambda>it. AssignReplicasToDirsResponse_DirectoryData_encoded_len it version) (artd_resp_directories x))
      + len_when flex (tagged_size [] (artd_resp_unknown_tagged_fields x)))"

definition AssignReplicasToDirsResponse_decode :: "i16 \<Rightarrow> AssignReplicasToDirsResponse decoder" where
  "AssignReplicasToDirsResponse_decode version =
     (let flex = AssignReplicasToDirsResponse_is_flexible version in
      checked (check_version AssignReplicasToDirsResponse_API_KEY version AssignReplicasToDirsResponse_MIN_VERSION AssignReplicasToDirsResponse_MAX_VERSION) (
        read_then (get_into (0 \<le>s version) get_i32 (\<lambda>v out. out\<lparr>artd_resp_throttle_time_ms := v\<rparr>) AssignReplicasToDirsResponse_default) (\<lambda>out.
        read_then (get_into (0 \<le>s version) get_i16 (\<lambda>v out. out\<lparr>artd_resp_error_code := v\<rparr>) out) (\<lambda>out.
        read_then (get_into (0 \<le>s version) (get_array flex (AssignReplicasToDirsResponse_DirectoryData_decode version)) (\<lambda>v out. out\<lparr>artd_resp_directories := v\<rparr>) out) (\<lambda>out.
        get_trailer flex [] (\<lambda>u out. out\<lparr>artd_resp_unknown_tagged_fields := u\<rparr>) out)))))"

definition AssignReplicasToDirsResponse_fields_wf :: "i16 \<Rightarrow> AssignReplicasToDirsResponse \<Rightarrow> bool" where
  "AssignReplicasToDirsResponse_fields_wf version x \<longleftrightarrow>
     (let flex = AssignReplicasToDirsResponse_is_flexible version in
      array_ok flex (AssignReplicasToDirsResponse_DirectoryData_wf version) (artd_resp_directories x))"

definition AssignReplicasToDirsResponse_wf :: "i16 \<Rightarrow> AssignReplicasToDirsResponse \<Rightarrow> bool" where
  "AssignReplicasToDirsResponse_wf version x \<longleftrightarrow>
     version_in AssignReplicasToDirsResponse_MIN_VERSION AssignReplicasToDirsResponse_MAX_VERSION version \<and> AssignReplicasToDirsResponse_fields_wf version x \<and> trailer_ok [] [] (artd_resp_unknown_tagged_fields x)"

lemmas assign_replicas_to_dirs_response_versions =
    AssignReplicasToDirsResponse_is_flexible_def AssignReplicasToDirsResponse_FLEXIBLE_MIN_def
    AssignReplicasToDirsResponse_MIN_VERSION_def AssignReplicasToDirsResponse_MAX_VERSION_def version_in_def

lemmas assign_replicas_to_dirs_response_fields =
    Let_def field_ok_def AssignReplicasToDirsResponse_fields_wf_def AssignReplicasToDirsResponse_is_flexible_def
    AssignReplicasToDirsResponse_FLEXIBLE_MIN_def

lemma assign_replicas_to_dirs_response_steps:
  assumes v: "0 \<le>s version" and flex: "flex = (AssignReplicasToDirsResponse_is_flexible version)"
  shows "keeps (AssignReplicasToDirsResponse_fields_wf version) (get_into (0 \<le>s version) get_i32 (\<lambda>v out. out\<lparr>artd_resp_throttle_time_ms := v\<rparr>))"
    and "keeps (AssignReplicasToDirsResponse_fields_wf version) (get_into (0 \<le>s version) get_i16 (\<lambda>v out. out\<lparr>artd_resp_error_code := v\<rparr>))"
    and "keeps (AssignReplicasToDirsResponse_fields_wf version) (get_into (0 \<le>s version) (get_array flex (AssignReplicasToDirsResponse_DirectoryData_decode version)) (\<lambda>v out. out\<lparr>artd_resp_directories := v\<rparr>))"
  unfolding flex 
  by (rule keeps_into; (rule yields_rules)?; simp add: v assign_replicas_to_dirs_response_fields)+

lemma assign_replicas_to_dirs_response_unknown:
  "AssignReplicasToDirsResponse_fields_wf version (s\<lparr>artd_resp_unknown_tagged_fields := u\<rparr>) = AssignReplicasToDirsResponse_fields_wf version s"
  by (simp_all add: AssignReplicasToDirsResponse_fields_wf_def)

lemma assign_replicas_to_dirs_response_yields:
  assumes r: "version_in AssignReplicasToDirsResponse_MIN_VERSION AssignReplicasToDirsResponse_MAX_VERSION version"
  shows "yields 1 (AssignReplicasToDirsResponse_decode version) (AssignReplicasToDirsResponse_wf version)"
proof -
  have v: "0 \<le>s version"
    using r by (simp add: assign_replicas_to_dirs_response_versions)
  have d: "AssignReplicasToDirsResponse_fields_wf version AssignReplicasToDirsResponse_default"
    by (simp add: AssignReplicasToDirsResponse_default_def v assign_replicas_to_dirs_response_fields)
  show ?thesis
    unfolding AssignReplicasToDirsResponse_decode_def Let_def
    by (rule yields_checked, (rule assign_replicas_to_dirs_response_steps[OF v refl, THEN yields_step], (rule d | assumption))+, rule yields_trailer[OF _ arms_keep_Nil[of "AssignReplicasToDirsResponse_fields_wf version" "\<lambda>_. 0"]])
      (simp_all add: v d assign_replicas_to_dirs_response_unknown AssignReplicasToDirsResponse_wf_def trailer_ok_def r AssignReplicasToDirsResponse_is_flexible_def AssignReplicasToDirsResponse_FLEXIBLE_MIN_def)
qed

interpretation assign_replicas_to_dirs_response: message_codec
  AssignReplicasToDirsResponse_encode AssignReplicasToDirsResponse_decode AssignReplicasToDirsResponse_encoded_len "AssignReplicasToDirsResponse_wf version" version
  for version
proof
  fix x
  assume w: "AssignReplicasToDirsResponse_wf version x"
  then have v: "0 \<le>s version"
    by (simp add: AssignReplicasToDirsResponse_wf_def assign_replicas_to_dirs_response_versions)
  show "carries (AssignReplicasToDirsResponse_encode x version) (AssignReplicasToDirsResponse_decode version) (AssignReplicasToDirsResponse_encoded_len x version) x"
    unfolding AssignReplicasToDirsResponse_encode_def AssignReplicasToDirsResponse_encoded_len_def AssignReplicasToDirsResponse_decode_def Let_def
    by (use w[unfolded AssignReplicasToDirsResponse_wf_def AssignReplicasToDirsResponse_fields_wf_def Let_def] in \<open>elim conjE\<close>, rule carries_cong_len)
      ((rule carries_rules check_version_in[THEN iffD2] | (erule absent_guarded, assumption) | erule absent_plain
        | simp add: v field_ok_def AssignReplicasToDirsResponse_default_def assign_replicas_to_dirs_response_versions)+)
next
  show "yields 1 (AssignReplicasToDirsResponse_decode version) (AssignReplicasToDirsResponse_wf version)"
    by (rule case_split[OF assign_replicas_to_dirs_response_yields]) (auto simp: AssignReplicasToDirsResponse_decode_def Let_def yields_refused yields_unsupported)
  show "extends_input (AssignReplicasToDirsResponse_decode version)"
    unfolding AssignReplicasToDirsResponse_decode_def Let_def by (intro extends_rules)
qed

section \<open>AlterPartitionResponse\<close>

record AlterPartitionResponse_PartitionData =
  ap_resp_pd_partition_index :: i32
  ap_resp_pd_error_code :: i16
  ap_resp_pd_leader_id :: i32
  ap_resp_pd_leader_epoch :: i32
  ap_resp_pd_isr :: "i32 list"
  ap_resp_pd_leader_recovery_state :: i8
  ap_resp_pd_partition_epoch :: i32
  ap_resp_pd_unknown_tagged_fields :: "UnknownTaggedField list"

definition AlterPartitionResponse_PartitionData_default :: AlterPartitionResponse_PartitionData where
  "AlterPartitionResponse_PartitionData_default =
     \<lparr>ap_resp_pd_partition_index = 0, ap_resp_pd_error_code = 0, ap_resp_pd_leader_id = 0, ap_resp_pd_leader_epoch = 0, ap_resp_pd_isr = [], ap_resp_pd_leader_recovery_state = 0, ap_resp_pd_partition_epoch = 0, ap_resp_pd_unknown_tagged_fields = []\<rparr>"

definition AlterPartitionResponse_PartitionData_encode :: "AlterPartitionResponse_PartitionData \<Rightarrow> i16 \<Rightarrow> encoder" where
  "AlterPartitionResponse_PartitionData_encode x version =
     (let flex = 0 \<le>s version in
      write_all
        [put_when (0 \<le>s version) (put_i32 (ap_resp_pd_partition_index x)),
         put_when (0 \<le>s version) (put_i16 (ap_resp_pd_error_code x)),
         put_when (0 \<le>s version) (put_i32 (ap_resp_pd_leader_id x)),
         put_when (0 \<le>s version) (put_i32 (ap_resp_pd_leader_epoch x)),
         put_when (0 \<le>s version) (put_array flex put_i32 (ap_resp_pd_isr x)),
         put_when (1 \<le>s version) (put_i8 (ap_resp_pd_leader_recovery_state x)),
         put_when (0 \<le>s version) (put_i32 (ap_resp_pd_partition_epoch x)),
         put_when flex (put_tagged [] (ap_resp_pd_unknown_tagged_fields x))])"

definition AlterPartitionResponse_PartitionData_encoded_len :: "AlterPartitionResponse_PartitionData \<Rightarrow> i16 \<Rightarrow> nat" where
  "AlterPartitionResponse_PartitionData_encoded_len x version =
     (let flex = 0 \<le>s version in
      len_when (0 \<le>s version) 4
      + len_when (0 \<le>s version) 2
      + len_when (0 \<le>s version) 4
      + len_when (0 \<le>s version) 4
      + len_when (0 \<le>s version) (array_size flex (\<lambda>_. 4) (ap_resp_pd_isr x))
      + len_when (1 \<le>s version) 1
      + len_when (0 \<le>s version) 4
      + len_when flex (tagged_size [] (ap_resp_pd_unknown_tagged_fields x)))"

definition AlterPartitionResponse_PartitionData_decode :: "i16 \<Rightarrow> AlterPartitionResponse_PartitionData decoder" where
  "AlterPartitionResponse_PartitionData_decode version =
     (let flex = 0 \<le>s version in
      read_then (get_into (0 \<le>s version) get_i32 (\<lambda>v out. out\<lparr>ap_resp_pd_partition_index := v\<rparr>) AlterPartitionResponse_PartitionData_default) (\<lambda>out.
        read_then (get_into (0 \<le>s version) get_i16 (\<lambda>v out. out\<lparr>ap_resp_pd_error_code := v\<rparr>) out) (\<lambda>out.
        read_then (get_into (0 \<le>s version) get_i32 (\<lambda>v out. out\<lparr>ap_resp_pd_leader_id := v\<rparr>) out) (\<lambda>out.
        read_then (get_into (0 \<le>s version) get_i32 (\<lambda>v out. out\<lparr>ap_resp_pd_leader_epoch := v\<rparr>) out) (\<lambda>out.
        read_then (get_into (0 \<le>s version) (get_array flex get_i32) (\<lambda>v out. out\<lparr>ap_resp_pd_isr := v\<rparr>) out) (\<lambda>out.
        read_then (get_into (1 \<le>s version) get_i8 (\<lambda>v out. out\<lparr>ap_resp_pd_leader_recovery_state := v\<rparr>) out) (\<lambda>out.
        read_then (get_into (0 \<le>s version) get_i32 (\<lambda>v out. out\<lparr>ap_resp_pd_partition_epoch := v\<rparr>) out) (\<lambda>out.
        get_trailer flex [] (\<lambda>u out. out\<lparr>ap_resp_pd_unknown_tagged_fields := u\<rparr>) out))))))))"

definition AlterPartitionResponse_PartitionData_fields_wf :: "i16 \<Rightarrow> AlterPartitionResponse_PartitionData \<Rightarrow> bool" where
  "AlterPartitionResponse_PartitionData_fields_wf version x \<longleftrightarrow>
     (let flex = 0 \<le>s version in
      array_ok flex (\<lambda>_. True) (ap_resp_pd_isr x)
      \<and> field_ok (1 \<le>s version) 0 (\<lambda>_. True) (ap_resp_pd_leader_recovery_state x))"

definition AlterPartitionResponse_PartitionData_wf :: "i16 \<Rightarrow> AlterPartitionResponse_PartitionData \<Rightarrow> bool" where
  "AlterPartitionResponse_PartitionData_wf version x \<longleftrightarrow>
     AlterPartitionResponse_PartitionData_fields_wf version x \<and> trailer_ok [] [] (ap_resp_pd_unknown_tagged_fields x)"

lemmas alter_partition_response_partition_data_fields =
    Let_def field_ok_def AlterPartitionResponse_PartitionData_fields_wf_def

lemma alter_partition_response_partition_data_steps:
  assumes v: "0 \<le>s version" and flex: "flex = (0 \<le>s version)"
  shows "keeps (AlterPartitionResponse_PartitionData_fields_wf version) (get_into (0 \<le>s version) get_i32 (\<lambda>v out. out\<lparr>ap_resp_pd_partition_index := v\<rparr>))"
    and "keeps (AlterPartitionResponse_PartitionData_fields_wf version) (get_into (0 \<le>s version) get_i16 (\<lambda>v out. out\<lparr>ap_resp_pd_error_code := v\<rparr>))"
    and "keeps (AlterPartitionResponse_PartitionData_fields_wf version) (get_into (0 \<le>s version) get_i32 (\<lambda>v out. out\<lparr>ap_resp_pd_leader_id := v\<rparr>))"
    and "keeps (AlterPartitionResponse_PartitionData_fields_wf version) (get_into (0 \<le>s version) get_i32 (\<lambda>v out. out\<lparr>ap_resp_pd_leader_epoch := v\<rparr>))"
    and "keeps (AlterPartitionResponse_PartitionData_fields_wf version) (get_into (0 \<le>s version) (get_array flex get_i32) (\<lambda>v out. out\<lparr>ap_resp_pd_isr := v\<rparr>))"
    and "keeps (AlterPartitionResponse_PartitionData_fields_wf version) (get_into (1 \<le>s version) get_i8 (\<lambda>v out. out\<lparr>ap_resp_pd_leader_recovery_state := v\<rparr>))"
    and "keeps (AlterPartitionResponse_PartitionData_fields_wf version) (get_into (0 \<le>s version) get_i32 (\<lambda>v out. out\<lparr>ap_resp_pd_partition_epoch := v\<rparr>))"
  unfolding flex 
  by (rule keeps_into; (rule yields_rules)?; simp add: v alter_partition_response_partition_data_fields)+

lemma alter_partition_response_partition_data_unknown:
  "AlterPartitionResponse_PartitionData_fields_wf version (s\<lparr>ap_resp_pd_unknown_tagged_fields := u\<rparr>) = AlterPartitionResponse_PartitionData_fields_wf version s"
  by (simp_all add: AlterPartitionResponse_PartitionData_fields_wf_def)

lemma alter_partition_response_partition_data_yields:
  assumes v: "0 \<le>s version"
  shows "yields 1 (AlterPartitionResponse_PartitionData_decode version) (AlterPartitionResponse_PartitionData_wf version)"
proof -
  have d: "AlterPartitionResponse_PartitionData_fields_wf version AlterPartitionResponse_PartitionData_default"
    by (simp add: AlterPartitionResponse_PartitionData_default_def v alter_partition_response_partition_data_fields)
  show ?thesis
    unfolding AlterPartitionResponse_PartitionData_decode_def Let_def
    by ((rule alter_partition_response_partition_data_steps[OF v refl, THEN yields_step], (rule d | assumption))+, rule yields_trailer[OF _ arms_keep_Nil[of "AlterPartitionResponse_PartitionData_fields_wf version" "\<lambda>_. 0"]])
      (simp_all add: v d alter_partition_response_partition_data_unknown AlterPartitionResponse_PartitionData_wf_def trailer_ok_def )
qed

lemma alter_partition_response_partition_data_extends [extends_rules]: "extends_input (AlterPartitionResponse_PartitionData_decode version)"
  unfolding AlterPartitionResponse_PartitionData_decode_def Let_def by (intro extends_rules)

lemma alter_partition_response_partition_data_codec:
  assumes v: "0 \<le>s version"
  shows "message_codec AlterPartitionResponse_PartitionData_encode AlterPartitionResponse_PartitionData_decode AlterPartitionResponse_PartitionData_encoded_len (AlterPartitionResponse_PartitionData_wf version) version"
proof
  fix x
  assume w: "AlterPartitionResponse_PartitionData_wf version x"
  show "carries (AlterPartitionResponse_PartitionData_encode x version) (AlterPartitionResponse_PartitionData_decode version) (AlterPartitionResponse_PartitionData_encoded_len x version) x"
    unfolding AlterPartitionResponse_PartitionData_encode_def AlterPartitionResponse_PartitionData_encoded_len_def AlterPartitionResponse_PartitionData_decode_def Let_def
    by (use w[unfolded AlterPartitionResponse_PartitionData_wf_def AlterPartitionResponse_PartitionData_fields_wf_def Let_def] in \<open>elim conjE\<close>, rule carries_cong_len)
      ((rule carries_rules | (erule absent_guarded, assumption) | erule absent_plain
        | simp add: v field_ok_def AlterPartitionResponse_PartitionData_default_def )+)
next
  show "yields 1 (AlterPartitionResponse_PartitionData_decode version) (AlterPartitionResponse_PartitionData_wf version)"
    by (rule alter_partition_response_partition_data_yields[OF v])
qed (rule alter_partition_response_partition_data_extends)

lemma alter_partition_response_partition_data_default_wf [simp]: "0 \<le>s version \<Longrightarrow> AlterPartitionResponse_PartitionData_wf version AlterPartitionResponse_PartitionData_default"
  by (simp add: AlterPartitionResponse_PartitionData_wf_def AlterPartitionResponse_PartitionData_default_def trailer_ok_def alter_partition_response_partition_data_fields)

lemmas [carries_rules] = message_codec.message_carries[OF alter_partition_response_partition_data_codec]
lemmas [yields_rules] = message_codec.message_yields[OF alter_partition_response_partition_data_codec]

lemmas [carries_rules] = protocol_codec.put_array_carries[OF message_codec.message_protocol[OF alter_partition_response_partition_data_codec]]
lemmas [yields_rules] = protocol_codec.get_array_yields[OF message_codec.message_protocol[OF alter_partition_response_partition_data_codec]]
lemmas [carries_rules] = protocol_codec.put_nullable_array_carries[OF message_codec.message_protocol[OF alter_partition_response_partition_data_codec]]
lemmas [yields_rules] = protocol_codec.get_nullable_array_yields[OF message_codec.message_protocol[OF alter_partition_response_partition_data_codec]]

record AlterPartitionResponse_TopicData =
  ap_resp_td_topic_id :: Uuid
  ap_resp_td_partitions :: "AlterPartitionResponse_PartitionData list"
  ap_resp_td_unknown_tagged_fields :: "UnknownTaggedField list"

definition AlterPartitionResponse_TopicData_default :: AlterPartitionResponse_TopicData where
  "AlterPartitionResponse_TopicData_default =
     \<lparr>ap_resp_td_topic_id = Uuid_ZERO, ap_resp_td_partitions = [], ap_resp_td_unknown_tagged_fields = []\<rparr>"

definition AlterPartitionResponse_TopicData_encode :: "AlterPartitionResponse_TopicData \<Rightarrow> i16 \<Rightarrow> encoder" where
  "AlterPartitionResponse_TopicData_encode x version =
     (let flex = 0 \<le>s version in
      write_all
        [put_when (2 \<le>s version) (put_uuid (ap_resp_td_topic_id x)),
         put_when (0 \<le>s version) (put_array flex (\<lambda>it. AlterPartitionResponse_PartitionData_encode it version) (ap_resp_td_partitions x)),
         put_when flex (put_tagged [] (ap_resp_td_unknown_tagged_fields x))])"

definition AlterPartitionResponse_TopicData_encoded_len :: "AlterPartitionResponse_TopicData \<Rightarrow> i16 \<Rightarrow> nat" where
  "AlterPartitionResponse_TopicData_encoded_len x version =
     (let flex = 0 \<le>s version in
      len_when (2 \<le>s version) 16
      + len_when (0 \<le>s version) (array_size flex (\<lambda>it. AlterPartitionResponse_PartitionData_encoded_len it version) (ap_resp_td_partitions x))
      + len_when flex (tagged_size [] (ap_resp_td_unknown_tagged_fields x)))"

definition AlterPartitionResponse_TopicData_decode :: "i16 \<Rightarrow> AlterPartitionResponse_TopicData decoder" where
  "AlterPartitionResponse_TopicData_decode version =
     (let flex = 0 \<le>s version in
      read_then (get_into (2 \<le>s version) get_uuid (\<lambda>v out. out\<lparr>ap_resp_td_topic_id := v\<rparr>) AlterPartitionResponse_TopicData_default) (\<lambda>out.
        read_then (get_into (0 \<le>s version) (get_array flex (AlterPartitionResponse_PartitionData_decode version)) (\<lambda>v out. out\<lparr>ap_resp_td_partitions := v\<rparr>) out) (\<lambda>out.
        get_trailer flex [] (\<lambda>u out. out\<lparr>ap_resp_td_unknown_tagged_fields := u\<rparr>) out)))"

definition AlterPartitionResponse_TopicData_fields_wf :: "i16 \<Rightarrow> AlterPartitionResponse_TopicData \<Rightarrow> bool" where
  "AlterPartitionResponse_TopicData_fields_wf version x \<longleftrightarrow>
     (let flex = 0 \<le>s version in
      field_ok (2 \<le>s version) Uuid_ZERO uuid_wf (ap_resp_td_topic_id x)
      \<and> array_ok flex (AlterPartitionResponse_PartitionData_wf version) (ap_resp_td_partitions x))"

definition AlterPartitionResponse_TopicData_wf :: "i16 \<Rightarrow> AlterPartitionResponse_TopicData \<Rightarrow> bool" where
  "AlterPartitionResponse_TopicData_wf version x \<longleftrightarrow>
     AlterPartitionResponse_TopicData_fields_wf version x \<and> trailer_ok [] [] (ap_resp_td_unknown_tagged_fields x)"

lemmas alter_partition_response_topic_data_fields =
    Let_def field_ok_def AlterPartitionResponse_TopicData_fields_wf_def

lemma alter_partition_response_topic_data_steps:
  assumes v: "0 \<le>s version" and flex: "flex = (0 \<le>s version)"
  shows "keeps (AlterPartitionResponse_TopicData_fields_wf version) (get_into (2 \<le>s version) get_uuid (\<lambda>v out. out\<lparr>ap_resp_td_topic_id := v\<rparr>))"
    and "keeps (AlterPartitionResponse_TopicData_fields_wf version) (get_into (0 \<le>s version) (get_array flex (AlterPartitionResponse_PartitionData_decode version)) (\<lambda>v out. out\<lparr>ap_resp_td_partitions := v\<rparr>))"
  unfolding flex 
  by (rule keeps_into; (rule yields_rules)?; simp add: v alter_partition_response_topic_data_fields)+

lemma alter_partition_response_topic_data_unknown:
  "AlterPartitionResponse_TopicData_fields_wf version (s\<lparr>ap_resp_td_unknown_tagged_fields := u\<rparr>) = AlterPartitionResponse_TopicData_fields_wf version s"
  by (simp_all add: AlterPartitionResponse_TopicData_fields_wf_def)

lemma alter_partition_response_topic_data_yields:
  assumes v: "0 \<le>s version"
  shows "yields 1 (AlterPartitionResponse_TopicData_decode version) (AlterPartitionResponse_TopicData_wf version)"
proof -
  have d: "AlterPartitionResponse_TopicData_fields_wf version AlterPartitionResponse_TopicData_default"
    by (simp add: AlterPartitionResponse_TopicData_default_def v alter_partition_response_topic_data_fields)
  show ?thesis
    unfolding AlterPartitionResponse_TopicData_decode_def Let_def
    by ((rule alter_partition_response_topic_data_steps[OF v refl, THEN yields_step], (rule d | assumption))+, rule yields_trailer[OF _ arms_keep_Nil[of "AlterPartitionResponse_TopicData_fields_wf version" "\<lambda>_. 0"]])
      (simp_all add: v d alter_partition_response_topic_data_unknown AlterPartitionResponse_TopicData_wf_def trailer_ok_def )
qed

lemma alter_partition_response_topic_data_extends [extends_rules]: "extends_input (AlterPartitionResponse_TopicData_decode version)"
  unfolding AlterPartitionResponse_TopicData_decode_def Let_def by (intro extends_rules)

lemma alter_partition_response_topic_data_codec:
  assumes v: "0 \<le>s version"
  shows "message_codec AlterPartitionResponse_TopicData_encode AlterPartitionResponse_TopicData_decode AlterPartitionResponse_TopicData_encoded_len (AlterPartitionResponse_TopicData_wf version) version"
proof
  fix x
  assume w: "AlterPartitionResponse_TopicData_wf version x"
  show "carries (AlterPartitionResponse_TopicData_encode x version) (AlterPartitionResponse_TopicData_decode version) (AlterPartitionResponse_TopicData_encoded_len x version) x"
    unfolding AlterPartitionResponse_TopicData_encode_def AlterPartitionResponse_TopicData_encoded_len_def AlterPartitionResponse_TopicData_decode_def Let_def
    by (use w[unfolded AlterPartitionResponse_TopicData_wf_def AlterPartitionResponse_TopicData_fields_wf_def Let_def] in \<open>elim conjE\<close>, rule carries_cong_len)
      ((rule carries_rules | (erule absent_guarded, assumption) | erule absent_plain
        | simp add: v field_ok_def AlterPartitionResponse_TopicData_default_def )+)
next
  show "yields 1 (AlterPartitionResponse_TopicData_decode version) (AlterPartitionResponse_TopicData_wf version)"
    by (rule alter_partition_response_topic_data_yields[OF v])
qed (rule alter_partition_response_topic_data_extends)

lemma alter_partition_response_topic_data_default_wf [simp]: "0 \<le>s version \<Longrightarrow> AlterPartitionResponse_TopicData_wf version AlterPartitionResponse_TopicData_default"
  by (simp add: AlterPartitionResponse_TopicData_wf_def AlterPartitionResponse_TopicData_default_def trailer_ok_def alter_partition_response_topic_data_fields)

lemmas [carries_rules] = message_codec.message_carries[OF alter_partition_response_topic_data_codec]
lemmas [yields_rules] = message_codec.message_yields[OF alter_partition_response_topic_data_codec]

lemmas [carries_rules] = protocol_codec.put_array_carries[OF message_codec.message_protocol[OF alter_partition_response_topic_data_codec]]
lemmas [yields_rules] = protocol_codec.get_array_yields[OF message_codec.message_protocol[OF alter_partition_response_topic_data_codec]]
lemmas [carries_rules] = protocol_codec.put_nullable_array_carries[OF message_codec.message_protocol[OF alter_partition_response_topic_data_codec]]
lemmas [yields_rules] = protocol_codec.get_nullable_array_yields[OF message_codec.message_protocol[OF alter_partition_response_topic_data_codec]]

record AlterPartitionResponse =
  ap_resp_throttle_time_ms :: i32
  ap_resp_error_code :: i16
  ap_resp_topics :: "AlterPartitionResponse_TopicData list"
  ap_resp_unknown_tagged_fields :: "UnknownTaggedField list"

definition AlterPartitionResponse_default :: AlterPartitionResponse where
  "AlterPartitionResponse_default =
     \<lparr>ap_resp_throttle_time_ms = 0, ap_resp_error_code = 0, ap_resp_topics = [], ap_resp_unknown_tagged_fields = []\<rparr>"

definition AlterPartitionResponse_MIN_VERSION :: i16 where
  "AlterPartitionResponse_MIN_VERSION = 2"

definition AlterPartitionResponse_MAX_VERSION :: i16 where
  "AlterPartitionResponse_MAX_VERSION = 3"

definition AlterPartitionResponse_FLEXIBLE_MIN :: i16 where
  "AlterPartitionResponse_FLEXIBLE_MIN = 0"

definition AlterPartitionResponse_API_KEY :: i16 where
  "AlterPartitionResponse_API_KEY = 56"

definition AlterPartitionResponse_is_flexible :: "i16 \<Rightarrow> bool" where
  "AlterPartitionResponse_is_flexible version \<longleftrightarrow> AlterPartitionResponse_FLEXIBLE_MIN \<le>s version"

definition AlterPartitionResponse_encode :: "AlterPartitionResponse \<Rightarrow> i16 \<Rightarrow> encoder" where
  "AlterPartitionResponse_encode x version =
     (let flex = AlterPartitionResponse_is_flexible version in
      write_all
        [write_check (check_version AlterPartitionResponse_API_KEY version AlterPartitionResponse_MIN_VERSION AlterPartitionResponse_MAX_VERSION),
         put_when (0 \<le>s version) (put_i32 (ap_resp_throttle_time_ms x)),
         put_when (0 \<le>s version) (put_i16 (ap_resp_error_code x)),
         put_when (0 \<le>s version) (put_array flex (\<lambda>it. AlterPartitionResponse_TopicData_encode it version) (ap_resp_topics x)),
         put_when flex (put_tagged [] (ap_resp_unknown_tagged_fields x))])"

definition AlterPartitionResponse_encoded_len :: "AlterPartitionResponse \<Rightarrow> i16 \<Rightarrow> nat" where
  "AlterPartitionResponse_encoded_len x version =
     (let flex = AlterPartitionResponse_is_flexible version in
      len_when (0 \<le>s version) 4
      + len_when (0 \<le>s version) 2
      + len_when (0 \<le>s version) (array_size flex (\<lambda>it. AlterPartitionResponse_TopicData_encoded_len it version) (ap_resp_topics x))
      + len_when flex (tagged_size [] (ap_resp_unknown_tagged_fields x)))"

definition AlterPartitionResponse_decode :: "i16 \<Rightarrow> AlterPartitionResponse decoder" where
  "AlterPartitionResponse_decode version =
     (let flex = AlterPartitionResponse_is_flexible version in
      checked (check_version AlterPartitionResponse_API_KEY version AlterPartitionResponse_MIN_VERSION AlterPartitionResponse_MAX_VERSION) (
        read_then (get_into (0 \<le>s version) get_i32 (\<lambda>v out. out\<lparr>ap_resp_throttle_time_ms := v\<rparr>) AlterPartitionResponse_default) (\<lambda>out.
        read_then (get_into (0 \<le>s version) get_i16 (\<lambda>v out. out\<lparr>ap_resp_error_code := v\<rparr>) out) (\<lambda>out.
        read_then (get_into (0 \<le>s version) (get_array flex (AlterPartitionResponse_TopicData_decode version)) (\<lambda>v out. out\<lparr>ap_resp_topics := v\<rparr>) out) (\<lambda>out.
        get_trailer flex [] (\<lambda>u out. out\<lparr>ap_resp_unknown_tagged_fields := u\<rparr>) out)))))"

definition AlterPartitionResponse_fields_wf :: "i16 \<Rightarrow> AlterPartitionResponse \<Rightarrow> bool" where
  "AlterPartitionResponse_fields_wf version x \<longleftrightarrow>
     (let flex = AlterPartitionResponse_is_flexible version in
      array_ok flex (AlterPartitionResponse_TopicData_wf version) (ap_resp_topics x))"

definition AlterPartitionResponse_wf :: "i16 \<Rightarrow> AlterPartitionResponse \<Rightarrow> bool" where
  "AlterPartitionResponse_wf version x \<longleftrightarrow>
     version_in AlterPartitionResponse_MIN_VERSION AlterPartitionResponse_MAX_VERSION version \<and> AlterPartitionResponse_fields_wf version x \<and> trailer_ok [] [] (ap_resp_unknown_tagged_fields x)"

lemmas alter_partition_response_versions =
    AlterPartitionResponse_is_flexible_def AlterPartitionResponse_FLEXIBLE_MIN_def
    AlterPartitionResponse_MIN_VERSION_def AlterPartitionResponse_MAX_VERSION_def version_in_def

lemmas alter_partition_response_fields =
    Let_def field_ok_def AlterPartitionResponse_fields_wf_def AlterPartitionResponse_is_flexible_def
    AlterPartitionResponse_FLEXIBLE_MIN_def

lemma alter_partition_response_steps:
  assumes v: "0 \<le>s version" and flex: "flex = (AlterPartitionResponse_is_flexible version)"
  shows "keeps (AlterPartitionResponse_fields_wf version) (get_into (0 \<le>s version) get_i32 (\<lambda>v out. out\<lparr>ap_resp_throttle_time_ms := v\<rparr>))"
    and "keeps (AlterPartitionResponse_fields_wf version) (get_into (0 \<le>s version) get_i16 (\<lambda>v out. out\<lparr>ap_resp_error_code := v\<rparr>))"
    and "keeps (AlterPartitionResponse_fields_wf version) (get_into (0 \<le>s version) (get_array flex (AlterPartitionResponse_TopicData_decode version)) (\<lambda>v out. out\<lparr>ap_resp_topics := v\<rparr>))"
  unfolding flex 
  by (rule keeps_into; (rule yields_rules)?; simp add: v alter_partition_response_fields)+

lemma alter_partition_response_unknown:
  "AlterPartitionResponse_fields_wf version (s\<lparr>ap_resp_unknown_tagged_fields := u\<rparr>) = AlterPartitionResponse_fields_wf version s"
  by (simp_all add: AlterPartitionResponse_fields_wf_def)

lemma alter_partition_response_yields:
  assumes r: "version_in AlterPartitionResponse_MIN_VERSION AlterPartitionResponse_MAX_VERSION version"
  shows "yields 1 (AlterPartitionResponse_decode version) (AlterPartitionResponse_wf version)"
proof -
  have v: "0 \<le>s version"
    using r by (rule version_not_negative) (simp add: AlterPartitionResponse_MIN_VERSION_def word_sle_eq)
  have d: "AlterPartitionResponse_fields_wf version AlterPartitionResponse_default"
    by (simp add: AlterPartitionResponse_default_def v alter_partition_response_fields)
  show ?thesis
    unfolding AlterPartitionResponse_decode_def Let_def
    by (rule yields_checked, (rule alter_partition_response_steps[OF v refl, THEN yields_step], (rule d | assumption))+, rule yields_trailer[OF _ arms_keep_Nil[of "AlterPartitionResponse_fields_wf version" "\<lambda>_. 0"]])
      (simp_all add: v d alter_partition_response_unknown AlterPartitionResponse_wf_def trailer_ok_def r AlterPartitionResponse_is_flexible_def AlterPartitionResponse_FLEXIBLE_MIN_def)
qed

interpretation alter_partition_response: message_codec
  AlterPartitionResponse_encode AlterPartitionResponse_decode AlterPartitionResponse_encoded_len "AlterPartitionResponse_wf version" version
  for version
proof
  fix x
  assume w: "AlterPartitionResponse_wf version x"
  then have "version_in AlterPartitionResponse_MIN_VERSION AlterPartitionResponse_MAX_VERSION version"
    by (simp add: AlterPartitionResponse_wf_def)
  then have v: "0 \<le>s version"
    by (rule version_not_negative) (simp add: AlterPartitionResponse_MIN_VERSION_def word_sle_eq)
  show "carries (AlterPartitionResponse_encode x version) (AlterPartitionResponse_decode version) (AlterPartitionResponse_encoded_len x version) x"
    unfolding AlterPartitionResponse_encode_def AlterPartitionResponse_encoded_len_def AlterPartitionResponse_decode_def Let_def
    by (use w[unfolded AlterPartitionResponse_wf_def AlterPartitionResponse_fields_wf_def Let_def] in \<open>elim conjE\<close>, rule carries_cong_len)
      ((rule carries_rules check_version_in[THEN iffD2] | (erule absent_guarded, assumption) | erule absent_plain
        | simp add: v field_ok_def AlterPartitionResponse_default_def alter_partition_response_versions)+)
next
  show "yields 1 (AlterPartitionResponse_decode version) (AlterPartitionResponse_wf version)"
    by (rule case_split[OF alter_partition_response_yields]) (auto simp: AlterPartitionResponse_decode_def Let_def yields_refused yields_unsupported)
  show "extends_input (AlterPartitionResponse_decode version)"
    unfolding AlterPartitionResponse_decode_def Let_def by (intro extends_rules)
qed

section \<open>AlterPartitionReassignmentsRequest\<close>

record AlterPartitionReassignmentsRequest_ReassignablePartition =
  apr_req_rp_partition_index :: i32
  apr_req_rp_replicas :: "i32 list option"
  apr_req_rp_unknown_tagged_fields :: "UnknownTaggedField list"

definition AlterPartitionReassignmentsRequest_ReassignablePartition_default :: AlterPartitionReassignmentsRequest_ReassignablePartition where
  "AlterPartitionReassignmentsRequest_ReassignablePartition_default =
     \<lparr>apr_req_rp_partition_index = 0, apr_req_rp_replicas = None, apr_req_rp_unknown_tagged_fields = []\<rparr>"

definition AlterPartitionReassignmentsRequest_ReassignablePartition_encode :: "AlterPartitionReassignmentsRequest_ReassignablePartition \<Rightarrow> i16 \<Rightarrow> encoder" where
  "AlterPartitionReassignmentsRequest_ReassignablePartition_encode x version =
     (let flex = 0 \<le>s version in
      write_all
        [put_when (0 \<le>s version) (put_i32 (apr_req_rp_partition_index x)),
         put_when (0 \<le>s version) (put_nullable_array flex put_i32 (apr_req_rp_replicas x)),
         put_when flex (put_tagged [] (apr_req_rp_unknown_tagged_fields x))])"

definition AlterPartitionReassignmentsRequest_ReassignablePartition_encoded_len :: "AlterPartitionReassignmentsRequest_ReassignablePartition \<Rightarrow> i16 \<Rightarrow> nat" where
  "AlterPartitionReassignmentsRequest_ReassignablePartition_encoded_len x version =
     (let flex = 0 \<le>s version in
      len_when (0 \<le>s version) 4
      + len_when (0 \<le>s version) (nullable_array_size flex (\<lambda>_. 4) (apr_req_rp_replicas x))
      + len_when flex (tagged_size [] (apr_req_rp_unknown_tagged_fields x)))"

definition AlterPartitionReassignmentsRequest_ReassignablePartition_decode :: "i16 \<Rightarrow> AlterPartitionReassignmentsRequest_ReassignablePartition decoder" where
  "AlterPartitionReassignmentsRequest_ReassignablePartition_decode version =
     (let flex = 0 \<le>s version in
      read_then (get_into (0 \<le>s version) get_i32 (\<lambda>v out. out\<lparr>apr_req_rp_partition_index := v\<rparr>) AlterPartitionReassignmentsRequest_ReassignablePartition_default) (\<lambda>out.
        read_then (get_into (0 \<le>s version) (get_nullable_array flex get_i32) (\<lambda>v out. out\<lparr>apr_req_rp_replicas := v\<rparr>) out) (\<lambda>out.
        get_trailer flex [] (\<lambda>u out. out\<lparr>apr_req_rp_unknown_tagged_fields := u\<rparr>) out)))"

definition AlterPartitionReassignmentsRequest_ReassignablePartition_fields_wf :: "i16 \<Rightarrow> AlterPartitionReassignmentsRequest_ReassignablePartition \<Rightarrow> bool" where
  "AlterPartitionReassignmentsRequest_ReassignablePartition_fields_wf version x \<longleftrightarrow>
     (let flex = 0 \<le>s version in
      pred_option (array_ok flex (\<lambda>_. True)) (apr_req_rp_replicas x))"

definition AlterPartitionReassignmentsRequest_ReassignablePartition_wf :: "i16 \<Rightarrow> AlterPartitionReassignmentsRequest_ReassignablePartition \<Rightarrow> bool" where
  "AlterPartitionReassignmentsRequest_ReassignablePartition_wf version x \<longleftrightarrow>
     AlterPartitionReassignmentsRequest_ReassignablePartition_fields_wf version x \<and> trailer_ok [] [] (apr_req_rp_unknown_tagged_fields x)"

lemmas alter_partition_reassignments_request_reassignable_partition_fields =
    Let_def field_ok_def AlterPartitionReassignmentsRequest_ReassignablePartition_fields_wf_def

lemma alter_partition_reassignments_request_reassignable_partition_steps:
  assumes v: "0 \<le>s version" and flex: "flex = (0 \<le>s version)"
  shows "keeps (AlterPartitionReassignmentsRequest_ReassignablePartition_fields_wf version) (get_into (0 \<le>s version) get_i32 (\<lambda>v out. out\<lparr>apr_req_rp_partition_index := v\<rparr>))"
    and "keeps (AlterPartitionReassignmentsRequest_ReassignablePartition_fields_wf version) (get_into (0 \<le>s version) (get_nullable_array flex get_i32) (\<lambda>v out. out\<lparr>apr_req_rp_replicas := v\<rparr>))"
  unfolding flex 
  by (rule keeps_into; (rule yields_rules)?; simp add: v alter_partition_reassignments_request_reassignable_partition_fields)+

lemma alter_partition_reassignments_request_reassignable_partition_unknown:
  "AlterPartitionReassignmentsRequest_ReassignablePartition_fields_wf version (s\<lparr>apr_req_rp_unknown_tagged_fields := u\<rparr>) = AlterPartitionReassignmentsRequest_ReassignablePartition_fields_wf version s"
  by (simp_all add: AlterPartitionReassignmentsRequest_ReassignablePartition_fields_wf_def)

lemma alter_partition_reassignments_request_reassignable_partition_yields:
  assumes v: "0 \<le>s version"
  shows "yields 1 (AlterPartitionReassignmentsRequest_ReassignablePartition_decode version) (AlterPartitionReassignmentsRequest_ReassignablePartition_wf version)"
proof -
  have d: "AlterPartitionReassignmentsRequest_ReassignablePartition_fields_wf version AlterPartitionReassignmentsRequest_ReassignablePartition_default"
    by (simp add: AlterPartitionReassignmentsRequest_ReassignablePartition_default_def v alter_partition_reassignments_request_reassignable_partition_fields)
  show ?thesis
    unfolding AlterPartitionReassignmentsRequest_ReassignablePartition_decode_def Let_def
    by ((rule alter_partition_reassignments_request_reassignable_partition_steps[OF v refl, THEN yields_step], (rule d | assumption))+, rule yields_trailer[OF _ arms_keep_Nil[of "AlterPartitionReassignmentsRequest_ReassignablePartition_fields_wf version" "\<lambda>_. 0"]])
      (simp_all add: v d alter_partition_reassignments_request_reassignable_partition_unknown AlterPartitionReassignmentsRequest_ReassignablePartition_wf_def trailer_ok_def )
qed

lemma alter_partition_reassignments_request_reassignable_partition_extends [extends_rules]: "extends_input (AlterPartitionReassignmentsRequest_ReassignablePartition_decode version)"
  unfolding AlterPartitionReassignmentsRequest_ReassignablePartition_decode_def Let_def by (intro extends_rules)

lemma alter_partition_reassignments_request_reassignable_partition_codec:
  assumes v: "0 \<le>s version"
  shows "message_codec AlterPartitionReassignmentsRequest_ReassignablePartition_encode AlterPartitionReassignmentsRequest_ReassignablePartition_decode AlterPartitionReassignmentsRequest_ReassignablePartition_encoded_len (AlterPartitionReassignmentsRequest_ReassignablePartition_wf version) version"
proof
  fix x
  assume w: "AlterPartitionReassignmentsRequest_ReassignablePartition_wf version x"
  show "carries (AlterPartitionReassignmentsRequest_ReassignablePartition_encode x version) (AlterPartitionReassignmentsRequest_ReassignablePartition_decode version) (AlterPartitionReassignmentsRequest_ReassignablePartition_encoded_len x version) x"
    unfolding AlterPartitionReassignmentsRequest_ReassignablePartition_encode_def AlterPartitionReassignmentsRequest_ReassignablePartition_encoded_len_def AlterPartitionReassignmentsRequest_ReassignablePartition_decode_def Let_def
    by (use w[unfolded AlterPartitionReassignmentsRequest_ReassignablePartition_wf_def AlterPartitionReassignmentsRequest_ReassignablePartition_fields_wf_def Let_def] in \<open>elim conjE\<close>, rule carries_cong_len)
      ((rule carries_rules | (erule absent_guarded, assumption) | erule absent_plain
        | simp add: v field_ok_def AlterPartitionReassignmentsRequest_ReassignablePartition_default_def )+)
next
  show "yields 1 (AlterPartitionReassignmentsRequest_ReassignablePartition_decode version) (AlterPartitionReassignmentsRequest_ReassignablePartition_wf version)"
    by (rule alter_partition_reassignments_request_reassignable_partition_yields[OF v])
qed (rule alter_partition_reassignments_request_reassignable_partition_extends)

lemma alter_partition_reassignments_request_reassignable_partition_default_wf [simp]: "0 \<le>s version \<Longrightarrow> AlterPartitionReassignmentsRequest_ReassignablePartition_wf version AlterPartitionReassignmentsRequest_ReassignablePartition_default"
  by (simp add: AlterPartitionReassignmentsRequest_ReassignablePartition_wf_def AlterPartitionReassignmentsRequest_ReassignablePartition_default_def trailer_ok_def alter_partition_reassignments_request_reassignable_partition_fields)

lemmas [carries_rules] = message_codec.message_carries[OF alter_partition_reassignments_request_reassignable_partition_codec]
lemmas [yields_rules] = message_codec.message_yields[OF alter_partition_reassignments_request_reassignable_partition_codec]

lemmas [carries_rules] = protocol_codec.put_array_carries[OF message_codec.message_protocol[OF alter_partition_reassignments_request_reassignable_partition_codec]]
lemmas [yields_rules] = protocol_codec.get_array_yields[OF message_codec.message_protocol[OF alter_partition_reassignments_request_reassignable_partition_codec]]
lemmas [carries_rules] = protocol_codec.put_nullable_array_carries[OF message_codec.message_protocol[OF alter_partition_reassignments_request_reassignable_partition_codec]]
lemmas [yields_rules] = protocol_codec.get_nullable_array_yields[OF message_codec.message_protocol[OF alter_partition_reassignments_request_reassignable_partition_codec]]

record AlterPartitionReassignmentsRequest_ReassignableTopic =
  apr_req_rt_name :: bytes
  apr_req_rt_partitions :: "AlterPartitionReassignmentsRequest_ReassignablePartition list"
  apr_req_rt_unknown_tagged_fields :: "UnknownTaggedField list"

definition AlterPartitionReassignmentsRequest_ReassignableTopic_default :: AlterPartitionReassignmentsRequest_ReassignableTopic where
  "AlterPartitionReassignmentsRequest_ReassignableTopic_default =
     \<lparr>apr_req_rt_name = [], apr_req_rt_partitions = [], apr_req_rt_unknown_tagged_fields = []\<rparr>"

definition AlterPartitionReassignmentsRequest_ReassignableTopic_encode :: "AlterPartitionReassignmentsRequest_ReassignableTopic \<Rightarrow> i16 \<Rightarrow> encoder" where
  "AlterPartitionReassignmentsRequest_ReassignableTopic_encode x version =
     (let flex = 0 \<le>s version in
      write_all
        [put_when (0 \<le>s version) (put_str flex (apr_req_rt_name x)),
         put_when (0 \<le>s version) (put_array flex (\<lambda>it. AlterPartitionReassignmentsRequest_ReassignablePartition_encode it version) (apr_req_rt_partitions x)),
         put_when flex (put_tagged [] (apr_req_rt_unknown_tagged_fields x))])"

definition AlterPartitionReassignmentsRequest_ReassignableTopic_encoded_len :: "AlterPartitionReassignmentsRequest_ReassignableTopic \<Rightarrow> i16 \<Rightarrow> nat" where
  "AlterPartitionReassignmentsRequest_ReassignableTopic_encoded_len x version =
     (let flex = 0 \<le>s version in
      len_when (0 \<le>s version) (str_len flex (apr_req_rt_name x))
      + len_when (0 \<le>s version) (array_size flex (\<lambda>it. AlterPartitionReassignmentsRequest_ReassignablePartition_encoded_len it version) (apr_req_rt_partitions x))
      + len_when flex (tagged_size [] (apr_req_rt_unknown_tagged_fields x)))"

definition AlterPartitionReassignmentsRequest_ReassignableTopic_decode :: "i16 \<Rightarrow> AlterPartitionReassignmentsRequest_ReassignableTopic decoder" where
  "AlterPartitionReassignmentsRequest_ReassignableTopic_decode version =
     (let flex = 0 \<le>s version in
      read_then (get_into (0 \<le>s version) (get_str flex) (\<lambda>v out. out\<lparr>apr_req_rt_name := v\<rparr>) AlterPartitionReassignmentsRequest_ReassignableTopic_default) (\<lambda>out.
        read_then (get_into (0 \<le>s version) (get_array flex (AlterPartitionReassignmentsRequest_ReassignablePartition_decode version)) (\<lambda>v out. out\<lparr>apr_req_rt_partitions := v\<rparr>) out) (\<lambda>out.
        get_trailer flex [] (\<lambda>u out. out\<lparr>apr_req_rt_unknown_tagged_fields := u\<rparr>) out)))"

definition AlterPartitionReassignmentsRequest_ReassignableTopic_fields_wf :: "i16 \<Rightarrow> AlterPartitionReassignmentsRequest_ReassignableTopic \<Rightarrow> bool" where
  "AlterPartitionReassignmentsRequest_ReassignableTopic_fields_wf version x \<longleftrightarrow>
     (let flex = 0 \<le>s version in
      str_wf flex (apr_req_rt_name x)
      \<and> array_ok flex (AlterPartitionReassignmentsRequest_ReassignablePartition_wf version) (apr_req_rt_partitions x))"

definition AlterPartitionReassignmentsRequest_ReassignableTopic_wf :: "i16 \<Rightarrow> AlterPartitionReassignmentsRequest_ReassignableTopic \<Rightarrow> bool" where
  "AlterPartitionReassignmentsRequest_ReassignableTopic_wf version x \<longleftrightarrow>
     AlterPartitionReassignmentsRequest_ReassignableTopic_fields_wf version x \<and> trailer_ok [] [] (apr_req_rt_unknown_tagged_fields x)"

lemmas alter_partition_reassignments_request_reassignable_topic_fields =
    Let_def field_ok_def AlterPartitionReassignmentsRequest_ReassignableTopic_fields_wf_def

lemma alter_partition_reassignments_request_reassignable_topic_steps:
  assumes v: "0 \<le>s version" and flex: "flex = (0 \<le>s version)"
  shows "keeps (AlterPartitionReassignmentsRequest_ReassignableTopic_fields_wf version) (get_into (0 \<le>s version) (get_str flex) (\<lambda>v out. out\<lparr>apr_req_rt_name := v\<rparr>))"
    and "keeps (AlterPartitionReassignmentsRequest_ReassignableTopic_fields_wf version) (get_into (0 \<le>s version) (get_array flex (AlterPartitionReassignmentsRequest_ReassignablePartition_decode version)) (\<lambda>v out. out\<lparr>apr_req_rt_partitions := v\<rparr>))"
  unfolding flex 
  by (rule keeps_into; (rule yields_rules)?; simp add: v alter_partition_reassignments_request_reassignable_topic_fields)+

lemma alter_partition_reassignments_request_reassignable_topic_unknown:
  "AlterPartitionReassignmentsRequest_ReassignableTopic_fields_wf version (s\<lparr>apr_req_rt_unknown_tagged_fields := u\<rparr>) = AlterPartitionReassignmentsRequest_ReassignableTopic_fields_wf version s"
  by (simp_all add: AlterPartitionReassignmentsRequest_ReassignableTopic_fields_wf_def)

lemma alter_partition_reassignments_request_reassignable_topic_yields:
  assumes v: "0 \<le>s version"
  shows "yields 1 (AlterPartitionReassignmentsRequest_ReassignableTopic_decode version) (AlterPartitionReassignmentsRequest_ReassignableTopic_wf version)"
proof -
  have d: "AlterPartitionReassignmentsRequest_ReassignableTopic_fields_wf version AlterPartitionReassignmentsRequest_ReassignableTopic_default"
    by (simp add: AlterPartitionReassignmentsRequest_ReassignableTopic_default_def v alter_partition_reassignments_request_reassignable_topic_fields)
  show ?thesis
    unfolding AlterPartitionReassignmentsRequest_ReassignableTopic_decode_def Let_def
    by ((rule alter_partition_reassignments_request_reassignable_topic_steps[OF v refl, THEN yields_step], (rule d | assumption))+, rule yields_trailer[OF _ arms_keep_Nil[of "AlterPartitionReassignmentsRequest_ReassignableTopic_fields_wf version" "\<lambda>_. 0"]])
      (simp_all add: v d alter_partition_reassignments_request_reassignable_topic_unknown AlterPartitionReassignmentsRequest_ReassignableTopic_wf_def trailer_ok_def )
qed

lemma alter_partition_reassignments_request_reassignable_topic_extends [extends_rules]: "extends_input (AlterPartitionReassignmentsRequest_ReassignableTopic_decode version)"
  unfolding AlterPartitionReassignmentsRequest_ReassignableTopic_decode_def Let_def by (intro extends_rules)

lemma alter_partition_reassignments_request_reassignable_topic_codec:
  assumes v: "0 \<le>s version"
  shows "message_codec AlterPartitionReassignmentsRequest_ReassignableTopic_encode AlterPartitionReassignmentsRequest_ReassignableTopic_decode AlterPartitionReassignmentsRequest_ReassignableTopic_encoded_len (AlterPartitionReassignmentsRequest_ReassignableTopic_wf version) version"
proof
  fix x
  assume w: "AlterPartitionReassignmentsRequest_ReassignableTopic_wf version x"
  show "carries (AlterPartitionReassignmentsRequest_ReassignableTopic_encode x version) (AlterPartitionReassignmentsRequest_ReassignableTopic_decode version) (AlterPartitionReassignmentsRequest_ReassignableTopic_encoded_len x version) x"
    unfolding AlterPartitionReassignmentsRequest_ReassignableTopic_encode_def AlterPartitionReassignmentsRequest_ReassignableTopic_encoded_len_def AlterPartitionReassignmentsRequest_ReassignableTopic_decode_def Let_def
    by (use w[unfolded AlterPartitionReassignmentsRequest_ReassignableTopic_wf_def AlterPartitionReassignmentsRequest_ReassignableTopic_fields_wf_def Let_def] in \<open>elim conjE\<close>, rule carries_cong_len)
      ((rule carries_rules | (erule absent_guarded, assumption) | erule absent_plain
        | simp add: v field_ok_def AlterPartitionReassignmentsRequest_ReassignableTopic_default_def )+)
next
  show "yields 1 (AlterPartitionReassignmentsRequest_ReassignableTopic_decode version) (AlterPartitionReassignmentsRequest_ReassignableTopic_wf version)"
    by (rule alter_partition_reassignments_request_reassignable_topic_yields[OF v])
qed (rule alter_partition_reassignments_request_reassignable_topic_extends)

lemma alter_partition_reassignments_request_reassignable_topic_default_wf [simp]: "0 \<le>s version \<Longrightarrow> AlterPartitionReassignmentsRequest_ReassignableTopic_wf version AlterPartitionReassignmentsRequest_ReassignableTopic_default"
  by (simp add: AlterPartitionReassignmentsRequest_ReassignableTopic_wf_def AlterPartitionReassignmentsRequest_ReassignableTopic_default_def trailer_ok_def alter_partition_reassignments_request_reassignable_topic_fields)

lemmas [carries_rules] = message_codec.message_carries[OF alter_partition_reassignments_request_reassignable_topic_codec]
lemmas [yields_rules] = message_codec.message_yields[OF alter_partition_reassignments_request_reassignable_topic_codec]

lemmas [carries_rules] = protocol_codec.put_array_carries[OF message_codec.message_protocol[OF alter_partition_reassignments_request_reassignable_topic_codec]]
lemmas [yields_rules] = protocol_codec.get_array_yields[OF message_codec.message_protocol[OF alter_partition_reassignments_request_reassignable_topic_codec]]
lemmas [carries_rules] = protocol_codec.put_nullable_array_carries[OF message_codec.message_protocol[OF alter_partition_reassignments_request_reassignable_topic_codec]]
lemmas [yields_rules] = protocol_codec.get_nullable_array_yields[OF message_codec.message_protocol[OF alter_partition_reassignments_request_reassignable_topic_codec]]

record AlterPartitionReassignmentsRequest =
  apr_req_timeout_ms :: i32
  apr_req_allow_replication_factor_change :: bool
  apr_req_topics :: "AlterPartitionReassignmentsRequest_ReassignableTopic list"
  apr_req_unknown_tagged_fields :: "UnknownTaggedField list"

definition AlterPartitionReassignmentsRequest_default :: AlterPartitionReassignmentsRequest where
  "AlterPartitionReassignmentsRequest_default =
     \<lparr>apr_req_timeout_ms = 60000, apr_req_allow_replication_factor_change = True, apr_req_topics = [], apr_req_unknown_tagged_fields = []\<rparr>"

definition AlterPartitionReassignmentsRequest_MIN_VERSION :: i16 where
  "AlterPartitionReassignmentsRequest_MIN_VERSION = 0"

definition AlterPartitionReassignmentsRequest_MAX_VERSION :: i16 where
  "AlterPartitionReassignmentsRequest_MAX_VERSION = 1"

definition AlterPartitionReassignmentsRequest_FLEXIBLE_MIN :: i16 where
  "AlterPartitionReassignmentsRequest_FLEXIBLE_MIN = 0"

definition AlterPartitionReassignmentsRequest_API_KEY :: i16 where
  "AlterPartitionReassignmentsRequest_API_KEY = 45"

definition AlterPartitionReassignmentsRequest_is_flexible :: "i16 \<Rightarrow> bool" where
  "AlterPartitionReassignmentsRequest_is_flexible version \<longleftrightarrow> AlterPartitionReassignmentsRequest_FLEXIBLE_MIN \<le>s version"

definition AlterPartitionReassignmentsRequest_encode :: "AlterPartitionReassignmentsRequest \<Rightarrow> i16 \<Rightarrow> encoder" where
  "AlterPartitionReassignmentsRequest_encode x version =
     (let flex = AlterPartitionReassignmentsRequest_is_flexible version in
      write_all
        [write_check (check_version AlterPartitionReassignmentsRequest_API_KEY version AlterPartitionReassignmentsRequest_MIN_VERSION AlterPartitionReassignmentsRequest_MAX_VERSION),
         put_when (0 \<le>s version) (put_i32 (apr_req_timeout_ms x)),
         put_when (1 \<le>s version) (put_bool (apr_req_allow_replication_factor_change x)),
         put_when (0 \<le>s version) (put_array flex (\<lambda>it. AlterPartitionReassignmentsRequest_ReassignableTopic_encode it version) (apr_req_topics x)),
         put_when flex (put_tagged [] (apr_req_unknown_tagged_fields x))])"

definition AlterPartitionReassignmentsRequest_encoded_len :: "AlterPartitionReassignmentsRequest \<Rightarrow> i16 \<Rightarrow> nat" where
  "AlterPartitionReassignmentsRequest_encoded_len x version =
     (let flex = AlterPartitionReassignmentsRequest_is_flexible version in
      len_when (0 \<le>s version) 4
      + len_when (1 \<le>s version) 1
      + len_when (0 \<le>s version) (array_size flex (\<lambda>it. AlterPartitionReassignmentsRequest_ReassignableTopic_encoded_len it version) (apr_req_topics x))
      + len_when flex (tagged_size [] (apr_req_unknown_tagged_fields x)))"

definition AlterPartitionReassignmentsRequest_decode :: "i16 \<Rightarrow> AlterPartitionReassignmentsRequest decoder" where
  "AlterPartitionReassignmentsRequest_decode version =
     (let flex = AlterPartitionReassignmentsRequest_is_flexible version in
      checked (check_version AlterPartitionReassignmentsRequest_API_KEY version AlterPartitionReassignmentsRequest_MIN_VERSION AlterPartitionReassignmentsRequest_MAX_VERSION) (
        read_then (get_into (0 \<le>s version) get_i32 (\<lambda>v out. out\<lparr>apr_req_timeout_ms := v\<rparr>) AlterPartitionReassignmentsRequest_default) (\<lambda>out.
        read_then (get_into (1 \<le>s version) get_bool (\<lambda>v out. out\<lparr>apr_req_allow_replication_factor_change := v\<rparr>) out) (\<lambda>out.
        read_then (get_into (0 \<le>s version) (get_array flex (AlterPartitionReassignmentsRequest_ReassignableTopic_decode version)) (\<lambda>v out. out\<lparr>apr_req_topics := v\<rparr>) out) (\<lambda>out.
        get_trailer flex [] (\<lambda>u out. out\<lparr>apr_req_unknown_tagged_fields := u\<rparr>) out)))))"

definition AlterPartitionReassignmentsRequest_fields_wf :: "i16 \<Rightarrow> AlterPartitionReassignmentsRequest \<Rightarrow> bool" where
  "AlterPartitionReassignmentsRequest_fields_wf version x \<longleftrightarrow>
     (let flex = AlterPartitionReassignmentsRequest_is_flexible version in
      field_ok (1 \<le>s version) True (\<lambda>_. True) (apr_req_allow_replication_factor_change x)
      \<and> array_ok flex (AlterPartitionReassignmentsRequest_ReassignableTopic_wf version) (apr_req_topics x))"

definition AlterPartitionReassignmentsRequest_wf :: "i16 \<Rightarrow> AlterPartitionReassignmentsRequest \<Rightarrow> bool" where
  "AlterPartitionReassignmentsRequest_wf version x \<longleftrightarrow>
     version_in AlterPartitionReassignmentsRequest_MIN_VERSION AlterPartitionReassignmentsRequest_MAX_VERSION version \<and> AlterPartitionReassignmentsRequest_fields_wf version x \<and> trailer_ok [] [] (apr_req_unknown_tagged_fields x)"

lemmas alter_partition_reassignments_request_versions =
    AlterPartitionReassignmentsRequest_is_flexible_def AlterPartitionReassignmentsRequest_FLEXIBLE_MIN_def
    AlterPartitionReassignmentsRequest_MIN_VERSION_def AlterPartitionReassignmentsRequest_MAX_VERSION_def
    version_in_def

lemmas alter_partition_reassignments_request_fields =
    Let_def field_ok_def AlterPartitionReassignmentsRequest_fields_wf_def
    AlterPartitionReassignmentsRequest_is_flexible_def AlterPartitionReassignmentsRequest_FLEXIBLE_MIN_def

lemma alter_partition_reassignments_request_steps:
  assumes v: "0 \<le>s version" and flex: "flex = (AlterPartitionReassignmentsRequest_is_flexible version)"
  shows "keeps (AlterPartitionReassignmentsRequest_fields_wf version) (get_into (0 \<le>s version) get_i32 (\<lambda>v out. out\<lparr>apr_req_timeout_ms := v\<rparr>))"
    and "keeps (AlterPartitionReassignmentsRequest_fields_wf version) (get_into (1 \<le>s version) get_bool (\<lambda>v out. out\<lparr>apr_req_allow_replication_factor_change := v\<rparr>))"
    and "keeps (AlterPartitionReassignmentsRequest_fields_wf version) (get_into (0 \<le>s version) (get_array flex (AlterPartitionReassignmentsRequest_ReassignableTopic_decode version)) (\<lambda>v out. out\<lparr>apr_req_topics := v\<rparr>))"
  unfolding flex 
  by (rule keeps_into; (rule yields_rules)?; simp add: v alter_partition_reassignments_request_fields)+

lemma alter_partition_reassignments_request_unknown:
  "AlterPartitionReassignmentsRequest_fields_wf version (s\<lparr>apr_req_unknown_tagged_fields := u\<rparr>) = AlterPartitionReassignmentsRequest_fields_wf version s"
  by (simp_all add: AlterPartitionReassignmentsRequest_fields_wf_def)

lemma alter_partition_reassignments_request_yields:
  assumes r: "version_in AlterPartitionReassignmentsRequest_MIN_VERSION AlterPartitionReassignmentsRequest_MAX_VERSION version"
  shows "yields 1 (AlterPartitionReassignmentsRequest_decode version) (AlterPartitionReassignmentsRequest_wf version)"
proof -
  have v: "0 \<le>s version"
    using r by (simp add: alter_partition_reassignments_request_versions)
  have d: "AlterPartitionReassignmentsRequest_fields_wf version AlterPartitionReassignmentsRequest_default"
    by (simp add: AlterPartitionReassignmentsRequest_default_def v alter_partition_reassignments_request_fields)
  show ?thesis
    unfolding AlterPartitionReassignmentsRequest_decode_def Let_def
    by (rule yields_checked, (rule alter_partition_reassignments_request_steps[OF v refl, THEN yields_step], (rule d | assumption))+, rule yields_trailer[OF _ arms_keep_Nil[of "AlterPartitionReassignmentsRequest_fields_wf version" "\<lambda>_. 0"]])
      (simp_all add: v d alter_partition_reassignments_request_unknown AlterPartitionReassignmentsRequest_wf_def trailer_ok_def r AlterPartitionReassignmentsRequest_is_flexible_def AlterPartitionReassignmentsRequest_FLEXIBLE_MIN_def)
qed

interpretation alter_partition_reassignments_request: message_codec
  AlterPartitionReassignmentsRequest_encode AlterPartitionReassignmentsRequest_decode AlterPartitionReassignmentsRequest_encoded_len "AlterPartitionReassignmentsRequest_wf version" version
  for version
proof
  fix x
  assume w: "AlterPartitionReassignmentsRequest_wf version x"
  then have v: "0 \<le>s version"
    by (simp add: AlterPartitionReassignmentsRequest_wf_def alter_partition_reassignments_request_versions)
  show "carries (AlterPartitionReassignmentsRequest_encode x version) (AlterPartitionReassignmentsRequest_decode version) (AlterPartitionReassignmentsRequest_encoded_len x version) x"
    unfolding AlterPartitionReassignmentsRequest_encode_def AlterPartitionReassignmentsRequest_encoded_len_def AlterPartitionReassignmentsRequest_decode_def Let_def
    by (use w[unfolded AlterPartitionReassignmentsRequest_wf_def AlterPartitionReassignmentsRequest_fields_wf_def Let_def] in \<open>elim conjE\<close>, rule carries_cong_len)
      ((rule carries_rules check_version_in[THEN iffD2] | (erule absent_guarded, assumption) | erule absent_plain
        | simp add: v field_ok_def AlterPartitionReassignmentsRequest_default_def alter_partition_reassignments_request_versions)+)
next
  show "yields 1 (AlterPartitionReassignmentsRequest_decode version) (AlterPartitionReassignmentsRequest_wf version)"
    by (rule case_split[OF alter_partition_reassignments_request_yields]) (auto simp: AlterPartitionReassignmentsRequest_decode_def Let_def yields_refused yields_unsupported)
  show "extends_input (AlterPartitionReassignmentsRequest_decode version)"
    unfolding AlterPartitionReassignmentsRequest_decode_def Let_def by (intro extends_rules)
qed

section \<open>AlterPartitionReassignmentsResponse\<close>

record AlterPartitionReassignmentsResponse_ReassignablePartitionResponse =
  apr_resp_rpr_partition_index :: i32
  apr_resp_rpr_error_code :: i16
  apr_resp_rpr_error_message :: "bytes option"
  apr_resp_rpr_unknown_tagged_fields :: "UnknownTaggedField list"

definition AlterPartitionReassignmentsResponse_ReassignablePartitionResponse_default :: AlterPartitionReassignmentsResponse_ReassignablePartitionResponse where
  "AlterPartitionReassignmentsResponse_ReassignablePartitionResponse_default =
     \<lparr>apr_resp_rpr_partition_index = 0, apr_resp_rpr_error_code = 0, apr_resp_rpr_error_message = Some [], apr_resp_rpr_unknown_tagged_fields = []\<rparr>"

definition AlterPartitionReassignmentsResponse_ReassignablePartitionResponse_encode :: "AlterPartitionReassignmentsResponse_ReassignablePartitionResponse \<Rightarrow> i16 \<Rightarrow> encoder" where
  "AlterPartitionReassignmentsResponse_ReassignablePartitionResponse_encode x version =
     (let flex = 0 \<le>s version in
      write_all
        [put_when (0 \<le>s version) (put_i32 (apr_resp_rpr_partition_index x)),
         put_when (0 \<le>s version) (put_i16 (apr_resp_rpr_error_code x)),
         put_when (0 \<le>s version) (put_nullable_str flex (apr_resp_rpr_error_message x)),
         put_when flex (put_tagged [] (apr_resp_rpr_unknown_tagged_fields x))])"

definition AlterPartitionReassignmentsResponse_ReassignablePartitionResponse_encoded_len :: "AlterPartitionReassignmentsResponse_ReassignablePartitionResponse \<Rightarrow> i16 \<Rightarrow> nat" where
  "AlterPartitionReassignmentsResponse_ReassignablePartitionResponse_encoded_len x version =
     (let flex = 0 \<le>s version in
      len_when (0 \<le>s version) 4
      + len_when (0 \<le>s version) 2
      + len_when (0 \<le>s version) (nullable_str_len flex (apr_resp_rpr_error_message x))
      + len_when flex (tagged_size [] (apr_resp_rpr_unknown_tagged_fields x)))"

definition AlterPartitionReassignmentsResponse_ReassignablePartitionResponse_decode :: "i16 \<Rightarrow> AlterPartitionReassignmentsResponse_ReassignablePartitionResponse decoder" where
  "AlterPartitionReassignmentsResponse_ReassignablePartitionResponse_decode version =
     (let flex = 0 \<le>s version in
      read_then (get_into (0 \<le>s version) get_i32 (\<lambda>v out. out\<lparr>apr_resp_rpr_partition_index := v\<rparr>) AlterPartitionReassignmentsResponse_ReassignablePartitionResponse_default) (\<lambda>out.
        read_then (get_into (0 \<le>s version) get_i16 (\<lambda>v out. out\<lparr>apr_resp_rpr_error_code := v\<rparr>) out) (\<lambda>out.
        read_then (get_into (0 \<le>s version) (get_nullable_str flex) (\<lambda>v out. out\<lparr>apr_resp_rpr_error_message := v\<rparr>) out) (\<lambda>out.
        get_trailer flex [] (\<lambda>u out. out\<lparr>apr_resp_rpr_unknown_tagged_fields := u\<rparr>) out))))"

definition AlterPartitionReassignmentsResponse_ReassignablePartitionResponse_fields_wf :: "i16 \<Rightarrow> AlterPartitionReassignmentsResponse_ReassignablePartitionResponse \<Rightarrow> bool" where
  "AlterPartitionReassignmentsResponse_ReassignablePartitionResponse_fields_wf version x \<longleftrightarrow>
     (let flex = 0 \<le>s version in
      nullable_str_wf flex (apr_resp_rpr_error_message x))"

definition AlterPartitionReassignmentsResponse_ReassignablePartitionResponse_wf :: "i16 \<Rightarrow> AlterPartitionReassignmentsResponse_ReassignablePartitionResponse \<Rightarrow> bool" where
  "AlterPartitionReassignmentsResponse_ReassignablePartitionResponse_wf version x \<longleftrightarrow>
     AlterPartitionReassignmentsResponse_ReassignablePartitionResponse_fields_wf version x \<and> trailer_ok [] [] (apr_resp_rpr_unknown_tagged_fields x)"

lemmas alter_partition_reassignments_response_reassignable_partition_response_fields =
    Let_def field_ok_def AlterPartitionReassignmentsResponse_ReassignablePartitionResponse_fields_wf_def

lemma alter_partition_reassignments_response_reassignable_partition_response_steps:
  assumes v: "0 \<le>s version" and flex: "flex = (0 \<le>s version)"
  shows "keeps (AlterPartitionReassignmentsResponse_ReassignablePartitionResponse_fields_wf version) (get_into (0 \<le>s version) get_i32 (\<lambda>v out. out\<lparr>apr_resp_rpr_partition_index := v\<rparr>))"
    and "keeps (AlterPartitionReassignmentsResponse_ReassignablePartitionResponse_fields_wf version) (get_into (0 \<le>s version) get_i16 (\<lambda>v out. out\<lparr>apr_resp_rpr_error_code := v\<rparr>))"
    and "keeps (AlterPartitionReassignmentsResponse_ReassignablePartitionResponse_fields_wf version) (get_into (0 \<le>s version) (get_nullable_str flex) (\<lambda>v out. out\<lparr>apr_resp_rpr_error_message := v\<rparr>))"
  unfolding flex 
  by (rule keeps_into; (rule yields_rules)?; simp add: v alter_partition_reassignments_response_reassignable_partition_response_fields)+

lemma alter_partition_reassignments_response_reassignable_partition_response_unknown:
  "AlterPartitionReassignmentsResponse_ReassignablePartitionResponse_fields_wf version (s\<lparr>apr_resp_rpr_unknown_tagged_fields := u\<rparr>) = AlterPartitionReassignmentsResponse_ReassignablePartitionResponse_fields_wf version s"
  by (simp_all add: AlterPartitionReassignmentsResponse_ReassignablePartitionResponse_fields_wf_def)

lemma alter_partition_reassignments_response_reassignable_partition_response_yields:
  assumes v: "0 \<le>s version"
  shows "yields 1 (AlterPartitionReassignmentsResponse_ReassignablePartitionResponse_decode version) (AlterPartitionReassignmentsResponse_ReassignablePartitionResponse_wf version)"
proof -
  have d: "AlterPartitionReassignmentsResponse_ReassignablePartitionResponse_fields_wf version AlterPartitionReassignmentsResponse_ReassignablePartitionResponse_default"
    by (simp add: AlterPartitionReassignmentsResponse_ReassignablePartitionResponse_default_def v alter_partition_reassignments_response_reassignable_partition_response_fields)
  show ?thesis
    unfolding AlterPartitionReassignmentsResponse_ReassignablePartitionResponse_decode_def Let_def
    by ((rule alter_partition_reassignments_response_reassignable_partition_response_steps[OF v refl, THEN yields_step], (rule d | assumption))+, rule yields_trailer[OF _ arms_keep_Nil[of "AlterPartitionReassignmentsResponse_ReassignablePartitionResponse_fields_wf version" "\<lambda>_. 0"]])
      (simp_all add: v d alter_partition_reassignments_response_reassignable_partition_response_unknown AlterPartitionReassignmentsResponse_ReassignablePartitionResponse_wf_def trailer_ok_def )
qed

lemma alter_partition_reassignments_response_reassignable_partition_response_extends [extends_rules]: "extends_input (AlterPartitionReassignmentsResponse_ReassignablePartitionResponse_decode version)"
  unfolding AlterPartitionReassignmentsResponse_ReassignablePartitionResponse_decode_def Let_def by (intro extends_rules)

lemma alter_partition_reassignments_response_reassignable_partition_response_codec:
  assumes v: "0 \<le>s version"
  shows "message_codec AlterPartitionReassignmentsResponse_ReassignablePartitionResponse_encode AlterPartitionReassignmentsResponse_ReassignablePartitionResponse_decode AlterPartitionReassignmentsResponse_ReassignablePartitionResponse_encoded_len (AlterPartitionReassignmentsResponse_ReassignablePartitionResponse_wf version) version"
proof
  fix x
  assume w: "AlterPartitionReassignmentsResponse_ReassignablePartitionResponse_wf version x"
  show "carries (AlterPartitionReassignmentsResponse_ReassignablePartitionResponse_encode x version) (AlterPartitionReassignmentsResponse_ReassignablePartitionResponse_decode version) (AlterPartitionReassignmentsResponse_ReassignablePartitionResponse_encoded_len x version) x"
    unfolding AlterPartitionReassignmentsResponse_ReassignablePartitionResponse_encode_def AlterPartitionReassignmentsResponse_ReassignablePartitionResponse_encoded_len_def AlterPartitionReassignmentsResponse_ReassignablePartitionResponse_decode_def Let_def
    by (use w[unfolded AlterPartitionReassignmentsResponse_ReassignablePartitionResponse_wf_def AlterPartitionReassignmentsResponse_ReassignablePartitionResponse_fields_wf_def Let_def] in \<open>elim conjE\<close>, rule carries_cong_len)
      ((rule carries_rules | (erule absent_guarded, assumption) | erule absent_plain
        | simp add: v field_ok_def AlterPartitionReassignmentsResponse_ReassignablePartitionResponse_default_def )+)
next
  show "yields 1 (AlterPartitionReassignmentsResponse_ReassignablePartitionResponse_decode version) (AlterPartitionReassignmentsResponse_ReassignablePartitionResponse_wf version)"
    by (rule alter_partition_reassignments_response_reassignable_partition_response_yields[OF v])
qed (rule alter_partition_reassignments_response_reassignable_partition_response_extends)

lemma alter_partition_reassignments_response_reassignable_partition_response_default_wf [simp]: "0 \<le>s version \<Longrightarrow> AlterPartitionReassignmentsResponse_ReassignablePartitionResponse_wf version AlterPartitionReassignmentsResponse_ReassignablePartitionResponse_default"
  by (simp add: AlterPartitionReassignmentsResponse_ReassignablePartitionResponse_wf_def AlterPartitionReassignmentsResponse_ReassignablePartitionResponse_default_def trailer_ok_def alter_partition_reassignments_response_reassignable_partition_response_fields)

lemmas [carries_rules] = message_codec.message_carries[OF alter_partition_reassignments_response_reassignable_partition_response_codec]
lemmas [yields_rules] = message_codec.message_yields[OF alter_partition_reassignments_response_reassignable_partition_response_codec]

lemmas [carries_rules] = protocol_codec.put_array_carries[OF message_codec.message_protocol[OF alter_partition_reassignments_response_reassignable_partition_response_codec]]
lemmas [yields_rules] = protocol_codec.get_array_yields[OF message_codec.message_protocol[OF alter_partition_reassignments_response_reassignable_partition_response_codec]]
lemmas [carries_rules] = protocol_codec.put_nullable_array_carries[OF message_codec.message_protocol[OF alter_partition_reassignments_response_reassignable_partition_response_codec]]
lemmas [yields_rules] = protocol_codec.get_nullable_array_yields[OF message_codec.message_protocol[OF alter_partition_reassignments_response_reassignable_partition_response_codec]]

record AlterPartitionReassignmentsResponse_ReassignableTopicResponse =
  apr_resp_rtr_name :: bytes
  apr_resp_rtr_partitions :: "AlterPartitionReassignmentsResponse_ReassignablePartitionResponse list"
  apr_resp_rtr_unknown_tagged_fields :: "UnknownTaggedField list"

definition AlterPartitionReassignmentsResponse_ReassignableTopicResponse_default :: AlterPartitionReassignmentsResponse_ReassignableTopicResponse where
  "AlterPartitionReassignmentsResponse_ReassignableTopicResponse_default =
     \<lparr>apr_resp_rtr_name = [], apr_resp_rtr_partitions = [], apr_resp_rtr_unknown_tagged_fields = []\<rparr>"

definition AlterPartitionReassignmentsResponse_ReassignableTopicResponse_encode :: "AlterPartitionReassignmentsResponse_ReassignableTopicResponse \<Rightarrow> i16 \<Rightarrow> encoder" where
  "AlterPartitionReassignmentsResponse_ReassignableTopicResponse_encode x version =
     (let flex = 0 \<le>s version in
      write_all
        [put_when (0 \<le>s version) (put_str flex (apr_resp_rtr_name x)),
         put_when (0 \<le>s version) (put_array flex (\<lambda>it. AlterPartitionReassignmentsResponse_ReassignablePartitionResponse_encode it version) (apr_resp_rtr_partitions x)),
         put_when flex (put_tagged [] (apr_resp_rtr_unknown_tagged_fields x))])"

definition AlterPartitionReassignmentsResponse_ReassignableTopicResponse_encoded_len :: "AlterPartitionReassignmentsResponse_ReassignableTopicResponse \<Rightarrow> i16 \<Rightarrow> nat" where
  "AlterPartitionReassignmentsResponse_ReassignableTopicResponse_encoded_len x version =
     (let flex = 0 \<le>s version in
      len_when (0 \<le>s version) (str_len flex (apr_resp_rtr_name x))
      + len_when (0 \<le>s version) (array_size flex (\<lambda>it. AlterPartitionReassignmentsResponse_ReassignablePartitionResponse_encoded_len it version) (apr_resp_rtr_partitions x))
      + len_when flex (tagged_size [] (apr_resp_rtr_unknown_tagged_fields x)))"

definition AlterPartitionReassignmentsResponse_ReassignableTopicResponse_decode :: "i16 \<Rightarrow> AlterPartitionReassignmentsResponse_ReassignableTopicResponse decoder" where
  "AlterPartitionReassignmentsResponse_ReassignableTopicResponse_decode version =
     (let flex = 0 \<le>s version in
      read_then (get_into (0 \<le>s version) (get_str flex) (\<lambda>v out. out\<lparr>apr_resp_rtr_name := v\<rparr>) AlterPartitionReassignmentsResponse_ReassignableTopicResponse_default) (\<lambda>out.
        read_then (get_into (0 \<le>s version) (get_array flex (AlterPartitionReassignmentsResponse_ReassignablePartitionResponse_decode version)) (\<lambda>v out. out\<lparr>apr_resp_rtr_partitions := v\<rparr>) out) (\<lambda>out.
        get_trailer flex [] (\<lambda>u out. out\<lparr>apr_resp_rtr_unknown_tagged_fields := u\<rparr>) out)))"

definition AlterPartitionReassignmentsResponse_ReassignableTopicResponse_fields_wf :: "i16 \<Rightarrow> AlterPartitionReassignmentsResponse_ReassignableTopicResponse \<Rightarrow> bool" where
  "AlterPartitionReassignmentsResponse_ReassignableTopicResponse_fields_wf version x \<longleftrightarrow>
     (let flex = 0 \<le>s version in
      str_wf flex (apr_resp_rtr_name x)
      \<and> array_ok flex (AlterPartitionReassignmentsResponse_ReassignablePartitionResponse_wf version) (apr_resp_rtr_partitions x))"

definition AlterPartitionReassignmentsResponse_ReassignableTopicResponse_wf :: "i16 \<Rightarrow> AlterPartitionReassignmentsResponse_ReassignableTopicResponse \<Rightarrow> bool" where
  "AlterPartitionReassignmentsResponse_ReassignableTopicResponse_wf version x \<longleftrightarrow>
     AlterPartitionReassignmentsResponse_ReassignableTopicResponse_fields_wf version x \<and> trailer_ok [] [] (apr_resp_rtr_unknown_tagged_fields x)"

lemmas alter_partition_reassignments_response_reassignable_topic_response_fields =
    Let_def field_ok_def AlterPartitionReassignmentsResponse_ReassignableTopicResponse_fields_wf_def

lemma alter_partition_reassignments_response_reassignable_topic_response_steps:
  assumes v: "0 \<le>s version" and flex: "flex = (0 \<le>s version)"
  shows "keeps (AlterPartitionReassignmentsResponse_ReassignableTopicResponse_fields_wf version) (get_into (0 \<le>s version) (get_str flex) (\<lambda>v out. out\<lparr>apr_resp_rtr_name := v\<rparr>))"
    and "keeps (AlterPartitionReassignmentsResponse_ReassignableTopicResponse_fields_wf version) (get_into (0 \<le>s version) (get_array flex (AlterPartitionReassignmentsResponse_ReassignablePartitionResponse_decode version)) (\<lambda>v out. out\<lparr>apr_resp_rtr_partitions := v\<rparr>))"
  unfolding flex 
  by (rule keeps_into; (rule yields_rules)?; simp add: v alter_partition_reassignments_response_reassignable_topic_response_fields)+

lemma alter_partition_reassignments_response_reassignable_topic_response_unknown:
  "AlterPartitionReassignmentsResponse_ReassignableTopicResponse_fields_wf version (s\<lparr>apr_resp_rtr_unknown_tagged_fields := u\<rparr>) = AlterPartitionReassignmentsResponse_ReassignableTopicResponse_fields_wf version s"
  by (simp_all add: AlterPartitionReassignmentsResponse_ReassignableTopicResponse_fields_wf_def)

lemma alter_partition_reassignments_response_reassignable_topic_response_yields:
  assumes v: "0 \<le>s version"
  shows "yields 1 (AlterPartitionReassignmentsResponse_ReassignableTopicResponse_decode version) (AlterPartitionReassignmentsResponse_ReassignableTopicResponse_wf version)"
proof -
  have d: "AlterPartitionReassignmentsResponse_ReassignableTopicResponse_fields_wf version AlterPartitionReassignmentsResponse_ReassignableTopicResponse_default"
    by (simp add: AlterPartitionReassignmentsResponse_ReassignableTopicResponse_default_def v alter_partition_reassignments_response_reassignable_topic_response_fields)
  show ?thesis
    unfolding AlterPartitionReassignmentsResponse_ReassignableTopicResponse_decode_def Let_def
    by ((rule alter_partition_reassignments_response_reassignable_topic_response_steps[OF v refl, THEN yields_step], (rule d | assumption))+, rule yields_trailer[OF _ arms_keep_Nil[of "AlterPartitionReassignmentsResponse_ReassignableTopicResponse_fields_wf version" "\<lambda>_. 0"]])
      (simp_all add: v d alter_partition_reassignments_response_reassignable_topic_response_unknown AlterPartitionReassignmentsResponse_ReassignableTopicResponse_wf_def trailer_ok_def )
qed

lemma alter_partition_reassignments_response_reassignable_topic_response_extends [extends_rules]: "extends_input (AlterPartitionReassignmentsResponse_ReassignableTopicResponse_decode version)"
  unfolding AlterPartitionReassignmentsResponse_ReassignableTopicResponse_decode_def Let_def by (intro extends_rules)

lemma alter_partition_reassignments_response_reassignable_topic_response_codec:
  assumes v: "0 \<le>s version"
  shows "message_codec AlterPartitionReassignmentsResponse_ReassignableTopicResponse_encode AlterPartitionReassignmentsResponse_ReassignableTopicResponse_decode AlterPartitionReassignmentsResponse_ReassignableTopicResponse_encoded_len (AlterPartitionReassignmentsResponse_ReassignableTopicResponse_wf version) version"
proof
  fix x
  assume w: "AlterPartitionReassignmentsResponse_ReassignableTopicResponse_wf version x"
  show "carries (AlterPartitionReassignmentsResponse_ReassignableTopicResponse_encode x version) (AlterPartitionReassignmentsResponse_ReassignableTopicResponse_decode version) (AlterPartitionReassignmentsResponse_ReassignableTopicResponse_encoded_len x version) x"
    unfolding AlterPartitionReassignmentsResponse_ReassignableTopicResponse_encode_def AlterPartitionReassignmentsResponse_ReassignableTopicResponse_encoded_len_def AlterPartitionReassignmentsResponse_ReassignableTopicResponse_decode_def Let_def
    by (use w[unfolded AlterPartitionReassignmentsResponse_ReassignableTopicResponse_wf_def AlterPartitionReassignmentsResponse_ReassignableTopicResponse_fields_wf_def Let_def] in \<open>elim conjE\<close>, rule carries_cong_len)
      ((rule carries_rules | (erule absent_guarded, assumption) | erule absent_plain
        | simp add: v field_ok_def AlterPartitionReassignmentsResponse_ReassignableTopicResponse_default_def )+)
next
  show "yields 1 (AlterPartitionReassignmentsResponse_ReassignableTopicResponse_decode version) (AlterPartitionReassignmentsResponse_ReassignableTopicResponse_wf version)"
    by (rule alter_partition_reassignments_response_reassignable_topic_response_yields[OF v])
qed (rule alter_partition_reassignments_response_reassignable_topic_response_extends)

lemma alter_partition_reassignments_response_reassignable_topic_response_default_wf [simp]: "0 \<le>s version \<Longrightarrow> AlterPartitionReassignmentsResponse_ReassignableTopicResponse_wf version AlterPartitionReassignmentsResponse_ReassignableTopicResponse_default"
  by (simp add: AlterPartitionReassignmentsResponse_ReassignableTopicResponse_wf_def AlterPartitionReassignmentsResponse_ReassignableTopicResponse_default_def trailer_ok_def alter_partition_reassignments_response_reassignable_topic_response_fields)

lemmas [carries_rules] = message_codec.message_carries[OF alter_partition_reassignments_response_reassignable_topic_response_codec]
lemmas [yields_rules] = message_codec.message_yields[OF alter_partition_reassignments_response_reassignable_topic_response_codec]

lemmas [carries_rules] = protocol_codec.put_array_carries[OF message_codec.message_protocol[OF alter_partition_reassignments_response_reassignable_topic_response_codec]]
lemmas [yields_rules] = protocol_codec.get_array_yields[OF message_codec.message_protocol[OF alter_partition_reassignments_response_reassignable_topic_response_codec]]
lemmas [carries_rules] = protocol_codec.put_nullable_array_carries[OF message_codec.message_protocol[OF alter_partition_reassignments_response_reassignable_topic_response_codec]]
lemmas [yields_rules] = protocol_codec.get_nullable_array_yields[OF message_codec.message_protocol[OF alter_partition_reassignments_response_reassignable_topic_response_codec]]

record AlterPartitionReassignmentsResponse =
  apr_resp_throttle_time_ms :: i32
  apr_resp_allow_replication_factor_change :: bool
  apr_resp_error_code :: i16
  apr_resp_error_message :: "bytes option"
  apr_resp_responses :: "AlterPartitionReassignmentsResponse_ReassignableTopicResponse list"
  apr_resp_unknown_tagged_fields :: "UnknownTaggedField list"

definition AlterPartitionReassignmentsResponse_default :: AlterPartitionReassignmentsResponse where
  "AlterPartitionReassignmentsResponse_default =
     \<lparr>apr_resp_throttle_time_ms = 0, apr_resp_allow_replication_factor_change = True, apr_resp_error_code = 0, apr_resp_error_message = Some [], apr_resp_responses = [], apr_resp_unknown_tagged_fields = []\<rparr>"

definition AlterPartitionReassignmentsResponse_MIN_VERSION :: i16 where
  "AlterPartitionReassignmentsResponse_MIN_VERSION = 0"

definition AlterPartitionReassignmentsResponse_MAX_VERSION :: i16 where
  "AlterPartitionReassignmentsResponse_MAX_VERSION = 1"

definition AlterPartitionReassignmentsResponse_FLEXIBLE_MIN :: i16 where
  "AlterPartitionReassignmentsResponse_FLEXIBLE_MIN = 0"

definition AlterPartitionReassignmentsResponse_API_KEY :: i16 where
  "AlterPartitionReassignmentsResponse_API_KEY = 45"

definition AlterPartitionReassignmentsResponse_is_flexible :: "i16 \<Rightarrow> bool" where
  "AlterPartitionReassignmentsResponse_is_flexible version \<longleftrightarrow> AlterPartitionReassignmentsResponse_FLEXIBLE_MIN \<le>s version"

definition AlterPartitionReassignmentsResponse_encode :: "AlterPartitionReassignmentsResponse \<Rightarrow> i16 \<Rightarrow> encoder" where
  "AlterPartitionReassignmentsResponse_encode x version =
     (let flex = AlterPartitionReassignmentsResponse_is_flexible version in
      write_all
        [write_check (check_version AlterPartitionReassignmentsResponse_API_KEY version AlterPartitionReassignmentsResponse_MIN_VERSION AlterPartitionReassignmentsResponse_MAX_VERSION),
         put_when (0 \<le>s version) (put_i32 (apr_resp_throttle_time_ms x)),
         put_when (1 \<le>s version) (put_bool (apr_resp_allow_replication_factor_change x)),
         put_when (0 \<le>s version) (put_i16 (apr_resp_error_code x)),
         put_when (0 \<le>s version) (put_nullable_str flex (apr_resp_error_message x)),
         put_when (0 \<le>s version) (put_array flex (\<lambda>it. AlterPartitionReassignmentsResponse_ReassignableTopicResponse_encode it version) (apr_resp_responses x)),
         put_when flex (put_tagged [] (apr_resp_unknown_tagged_fields x))])"

definition AlterPartitionReassignmentsResponse_encoded_len :: "AlterPartitionReassignmentsResponse \<Rightarrow> i16 \<Rightarrow> nat" where
  "AlterPartitionReassignmentsResponse_encoded_len x version =
     (let flex = AlterPartitionReassignmentsResponse_is_flexible version in
      len_when (0 \<le>s version) 4
      + len_when (1 \<le>s version) 1
      + len_when (0 \<le>s version) 2
      + len_when (0 \<le>s version) (nullable_str_len flex (apr_resp_error_message x))
      + len_when (0 \<le>s version) (array_size flex (\<lambda>it. AlterPartitionReassignmentsResponse_ReassignableTopicResponse_encoded_len it version) (apr_resp_responses x))
      + len_when flex (tagged_size [] (apr_resp_unknown_tagged_fields x)))"

definition AlterPartitionReassignmentsResponse_decode :: "i16 \<Rightarrow> AlterPartitionReassignmentsResponse decoder" where
  "AlterPartitionReassignmentsResponse_decode version =
     (let flex = AlterPartitionReassignmentsResponse_is_flexible version in
      checked (check_version AlterPartitionReassignmentsResponse_API_KEY version AlterPartitionReassignmentsResponse_MIN_VERSION AlterPartitionReassignmentsResponse_MAX_VERSION) (
        read_then (get_into (0 \<le>s version) get_i32 (\<lambda>v out. out\<lparr>apr_resp_throttle_time_ms := v\<rparr>) AlterPartitionReassignmentsResponse_default) (\<lambda>out.
        read_then (get_into (1 \<le>s version) get_bool (\<lambda>v out. out\<lparr>apr_resp_allow_replication_factor_change := v\<rparr>) out) (\<lambda>out.
        read_then (get_into (0 \<le>s version) get_i16 (\<lambda>v out. out\<lparr>apr_resp_error_code := v\<rparr>) out) (\<lambda>out.
        read_then (get_into (0 \<le>s version) (get_nullable_str flex) (\<lambda>v out. out\<lparr>apr_resp_error_message := v\<rparr>) out) (\<lambda>out.
        read_then (get_into (0 \<le>s version) (get_array flex (AlterPartitionReassignmentsResponse_ReassignableTopicResponse_decode version)) (\<lambda>v out. out\<lparr>apr_resp_responses := v\<rparr>) out) (\<lambda>out.
        get_trailer flex [] (\<lambda>u out. out\<lparr>apr_resp_unknown_tagged_fields := u\<rparr>) out)))))))"

definition AlterPartitionReassignmentsResponse_fields_wf :: "i16 \<Rightarrow> AlterPartitionReassignmentsResponse \<Rightarrow> bool" where
  "AlterPartitionReassignmentsResponse_fields_wf version x \<longleftrightarrow>
     (let flex = AlterPartitionReassignmentsResponse_is_flexible version in
      field_ok (1 \<le>s version) True (\<lambda>_. True) (apr_resp_allow_replication_factor_change x)
      \<and> nullable_str_wf flex (apr_resp_error_message x)
      \<and> array_ok flex (AlterPartitionReassignmentsResponse_ReassignableTopicResponse_wf version) (apr_resp_responses x))"

definition AlterPartitionReassignmentsResponse_wf :: "i16 \<Rightarrow> AlterPartitionReassignmentsResponse \<Rightarrow> bool" where
  "AlterPartitionReassignmentsResponse_wf version x \<longleftrightarrow>
     version_in AlterPartitionReassignmentsResponse_MIN_VERSION AlterPartitionReassignmentsResponse_MAX_VERSION version \<and> AlterPartitionReassignmentsResponse_fields_wf version x \<and> trailer_ok [] [] (apr_resp_unknown_tagged_fields x)"

lemmas alter_partition_reassignments_response_versions =
    AlterPartitionReassignmentsResponse_is_flexible_def AlterPartitionReassignmentsResponse_FLEXIBLE_MIN_def
    AlterPartitionReassignmentsResponse_MIN_VERSION_def AlterPartitionReassignmentsResponse_MAX_VERSION_def
    version_in_def

lemmas alter_partition_reassignments_response_fields =
    Let_def field_ok_def AlterPartitionReassignmentsResponse_fields_wf_def
    AlterPartitionReassignmentsResponse_is_flexible_def AlterPartitionReassignmentsResponse_FLEXIBLE_MIN_def

lemma alter_partition_reassignments_response_steps:
  assumes v: "0 \<le>s version" and flex: "flex = (AlterPartitionReassignmentsResponse_is_flexible version)"
  shows "keeps (AlterPartitionReassignmentsResponse_fields_wf version) (get_into (0 \<le>s version) get_i32 (\<lambda>v out. out\<lparr>apr_resp_throttle_time_ms := v\<rparr>))"
    and "keeps (AlterPartitionReassignmentsResponse_fields_wf version) (get_into (1 \<le>s version) get_bool (\<lambda>v out. out\<lparr>apr_resp_allow_replication_factor_change := v\<rparr>))"
    and "keeps (AlterPartitionReassignmentsResponse_fields_wf version) (get_into (0 \<le>s version) get_i16 (\<lambda>v out. out\<lparr>apr_resp_error_code := v\<rparr>))"
    and "keeps (AlterPartitionReassignmentsResponse_fields_wf version) (get_into (0 \<le>s version) (get_nullable_str flex) (\<lambda>v out. out\<lparr>apr_resp_error_message := v\<rparr>))"
    and "keeps (AlterPartitionReassignmentsResponse_fields_wf version) (get_into (0 \<le>s version) (get_array flex (AlterPartitionReassignmentsResponse_ReassignableTopicResponse_decode version)) (\<lambda>v out. out\<lparr>apr_resp_responses := v\<rparr>))"
  unfolding flex 
  by (rule keeps_into; (rule yields_rules)?; simp add: v alter_partition_reassignments_response_fields)+

lemma alter_partition_reassignments_response_unknown:
  "AlterPartitionReassignmentsResponse_fields_wf version (s\<lparr>apr_resp_unknown_tagged_fields := u\<rparr>) = AlterPartitionReassignmentsResponse_fields_wf version s"
  by (simp_all add: AlterPartitionReassignmentsResponse_fields_wf_def)

lemma alter_partition_reassignments_response_yields:
  assumes r: "version_in AlterPartitionReassignmentsResponse_MIN_VERSION AlterPartitionReassignmentsResponse_MAX_VERSION version"
  shows "yields 1 (AlterPartitionReassignmentsResponse_decode version) (AlterPartitionReassignmentsResponse_wf version)"
proof -
  have v: "0 \<le>s version"
    using r by (simp add: alter_partition_reassignments_response_versions)
  have d: "AlterPartitionReassignmentsResponse_fields_wf version AlterPartitionReassignmentsResponse_default"
    by (simp add: AlterPartitionReassignmentsResponse_default_def v alter_partition_reassignments_response_fields)
  show ?thesis
    unfolding AlterPartitionReassignmentsResponse_decode_def Let_def
    by (rule yields_checked, (rule alter_partition_reassignments_response_steps[OF v refl, THEN yields_step], (rule d | assumption))+, rule yields_trailer[OF _ arms_keep_Nil[of "AlterPartitionReassignmentsResponse_fields_wf version" "\<lambda>_. 0"]])
      (simp_all add: v d alter_partition_reassignments_response_unknown AlterPartitionReassignmentsResponse_wf_def trailer_ok_def r AlterPartitionReassignmentsResponse_is_flexible_def AlterPartitionReassignmentsResponse_FLEXIBLE_MIN_def)
qed

interpretation alter_partition_reassignments_response: message_codec
  AlterPartitionReassignmentsResponse_encode AlterPartitionReassignmentsResponse_decode AlterPartitionReassignmentsResponse_encoded_len "AlterPartitionReassignmentsResponse_wf version" version
  for version
proof
  fix x
  assume w: "AlterPartitionReassignmentsResponse_wf version x"
  then have v: "0 \<le>s version"
    by (simp add: AlterPartitionReassignmentsResponse_wf_def alter_partition_reassignments_response_versions)
  show "carries (AlterPartitionReassignmentsResponse_encode x version) (AlterPartitionReassignmentsResponse_decode version) (AlterPartitionReassignmentsResponse_encoded_len x version) x"
    unfolding AlterPartitionReassignmentsResponse_encode_def AlterPartitionReassignmentsResponse_encoded_len_def AlterPartitionReassignmentsResponse_decode_def Let_def
    by (use w[unfolded AlterPartitionReassignmentsResponse_wf_def AlterPartitionReassignmentsResponse_fields_wf_def Let_def] in \<open>elim conjE\<close>, rule carries_cong_len)
      ((rule carries_rules check_version_in[THEN iffD2] | (erule absent_guarded, assumption) | erule absent_plain
        | simp add: v field_ok_def AlterPartitionReassignmentsResponse_default_def alter_partition_reassignments_response_versions)+)
next
  show "yields 1 (AlterPartitionReassignmentsResponse_decode version) (AlterPartitionReassignmentsResponse_wf version)"
    by (rule case_split[OF alter_partition_reassignments_response_yields]) (auto simp: AlterPartitionReassignmentsResponse_decode_def Let_def yields_refused yields_unsupported)
  show "extends_input (AlterPartitionReassignmentsResponse_decode version)"
    unfolding AlterPartitionReassignmentsResponse_decode_def Let_def by (intro extends_rules)
qed

section \<open>ListPartitionReassignmentsRequest\<close>

record ListPartitionReassignmentsRequest_ListPartitionReassignmentsTopics =
  lpr_req_lprt_name :: bytes
  lpr_req_lprt_partition_indexes :: "i32 list"
  lpr_req_lprt_unknown_tagged_fields :: "UnknownTaggedField list"

definition ListPartitionReassignmentsRequest_ListPartitionReassignmentsTopics_default :: ListPartitionReassignmentsRequest_ListPartitionReassignmentsTopics where
  "ListPartitionReassignmentsRequest_ListPartitionReassignmentsTopics_default =
     \<lparr>lpr_req_lprt_name = [], lpr_req_lprt_partition_indexes = [], lpr_req_lprt_unknown_tagged_fields = []\<rparr>"

definition ListPartitionReassignmentsRequest_ListPartitionReassignmentsTopics_encode :: "ListPartitionReassignmentsRequest_ListPartitionReassignmentsTopics \<Rightarrow> i16 \<Rightarrow> encoder" where
  "ListPartitionReassignmentsRequest_ListPartitionReassignmentsTopics_encode x version =
     (let flex = 0 \<le>s version in
      write_all
        [put_when (0 \<le>s version) (put_str flex (lpr_req_lprt_name x)),
         put_when (0 \<le>s version) (put_array flex put_i32 (lpr_req_lprt_partition_indexes x)),
         put_when flex (put_tagged [] (lpr_req_lprt_unknown_tagged_fields x))])"

definition ListPartitionReassignmentsRequest_ListPartitionReassignmentsTopics_encoded_len :: "ListPartitionReassignmentsRequest_ListPartitionReassignmentsTopics \<Rightarrow> i16 \<Rightarrow> nat" where
  "ListPartitionReassignmentsRequest_ListPartitionReassignmentsTopics_encoded_len x version =
     (let flex = 0 \<le>s version in
      len_when (0 \<le>s version) (str_len flex (lpr_req_lprt_name x))
      + len_when (0 \<le>s version) (array_size flex (\<lambda>_. 4) (lpr_req_lprt_partition_indexes x))
      + len_when flex (tagged_size [] (lpr_req_lprt_unknown_tagged_fields x)))"

definition ListPartitionReassignmentsRequest_ListPartitionReassignmentsTopics_decode :: "i16 \<Rightarrow> ListPartitionReassignmentsRequest_ListPartitionReassignmentsTopics decoder" where
  "ListPartitionReassignmentsRequest_ListPartitionReassignmentsTopics_decode version =
     (let flex = 0 \<le>s version in
      read_then (get_into (0 \<le>s version) (get_str flex) (\<lambda>v out. out\<lparr>lpr_req_lprt_name := v\<rparr>) ListPartitionReassignmentsRequest_ListPartitionReassignmentsTopics_default) (\<lambda>out.
        read_then (get_into (0 \<le>s version) (get_array flex get_i32) (\<lambda>v out. out\<lparr>lpr_req_lprt_partition_indexes := v\<rparr>) out) (\<lambda>out.
        get_trailer flex [] (\<lambda>u out. out\<lparr>lpr_req_lprt_unknown_tagged_fields := u\<rparr>) out)))"

definition ListPartitionReassignmentsRequest_ListPartitionReassignmentsTopics_fields_wf :: "i16 \<Rightarrow> ListPartitionReassignmentsRequest_ListPartitionReassignmentsTopics \<Rightarrow> bool" where
  "ListPartitionReassignmentsRequest_ListPartitionReassignmentsTopics_fields_wf version x \<longleftrightarrow>
     (let flex = 0 \<le>s version in
      str_wf flex (lpr_req_lprt_name x)
      \<and> array_ok flex (\<lambda>_. True) (lpr_req_lprt_partition_indexes x))"

definition ListPartitionReassignmentsRequest_ListPartitionReassignmentsTopics_wf :: "i16 \<Rightarrow> ListPartitionReassignmentsRequest_ListPartitionReassignmentsTopics \<Rightarrow> bool" where
  "ListPartitionReassignmentsRequest_ListPartitionReassignmentsTopics_wf version x \<longleftrightarrow>
     ListPartitionReassignmentsRequest_ListPartitionReassignmentsTopics_fields_wf version x \<and> trailer_ok [] [] (lpr_req_lprt_unknown_tagged_fields x)"

lemmas list_partition_reassignments_request_list_partition_reassignments_topics_fields =
    Let_def field_ok_def ListPartitionReassignmentsRequest_ListPartitionReassignmentsTopics_fields_wf_def

lemma list_partition_reassignments_request_list_partition_reassignments_topics_steps:
  assumes v: "0 \<le>s version" and flex: "flex = (0 \<le>s version)"
  shows "keeps (ListPartitionReassignmentsRequest_ListPartitionReassignmentsTopics_fields_wf version) (get_into (0 \<le>s version) (get_str flex) (\<lambda>v out. out\<lparr>lpr_req_lprt_name := v\<rparr>))"
    and "keeps (ListPartitionReassignmentsRequest_ListPartitionReassignmentsTopics_fields_wf version) (get_into (0 \<le>s version) (get_array flex get_i32) (\<lambda>v out. out\<lparr>lpr_req_lprt_partition_indexes := v\<rparr>))"
  unfolding flex 
  by (rule keeps_into; (rule yields_rules)?; simp add: v list_partition_reassignments_request_list_partition_reassignments_topics_fields)+

lemma list_partition_reassignments_request_list_partition_reassignments_topics_unknown:
  "ListPartitionReassignmentsRequest_ListPartitionReassignmentsTopics_fields_wf version (s\<lparr>lpr_req_lprt_unknown_tagged_fields := u\<rparr>) = ListPartitionReassignmentsRequest_ListPartitionReassignmentsTopics_fields_wf version s"
  by (simp_all add: ListPartitionReassignmentsRequest_ListPartitionReassignmentsTopics_fields_wf_def)

lemma list_partition_reassignments_request_list_partition_reassignments_topics_yields:
  assumes v: "0 \<le>s version"
  shows "yields 1 (ListPartitionReassignmentsRequest_ListPartitionReassignmentsTopics_decode version) (ListPartitionReassignmentsRequest_ListPartitionReassignmentsTopics_wf version)"
proof -
  have d: "ListPartitionReassignmentsRequest_ListPartitionReassignmentsTopics_fields_wf version ListPartitionReassignmentsRequest_ListPartitionReassignmentsTopics_default"
    by (simp add: ListPartitionReassignmentsRequest_ListPartitionReassignmentsTopics_default_def v list_partition_reassignments_request_list_partition_reassignments_topics_fields)
  show ?thesis
    unfolding ListPartitionReassignmentsRequest_ListPartitionReassignmentsTopics_decode_def Let_def
    by ((rule list_partition_reassignments_request_list_partition_reassignments_topics_steps[OF v refl, THEN yields_step], (rule d | assumption))+, rule yields_trailer[OF _ arms_keep_Nil[of "ListPartitionReassignmentsRequest_ListPartitionReassignmentsTopics_fields_wf version" "\<lambda>_. 0"]])
      (simp_all add: v d list_partition_reassignments_request_list_partition_reassignments_topics_unknown ListPartitionReassignmentsRequest_ListPartitionReassignmentsTopics_wf_def trailer_ok_def )
qed

lemma list_partition_reassignments_request_list_partition_reassignments_topics_extends [extends_rules]: "extends_input (ListPartitionReassignmentsRequest_ListPartitionReassignmentsTopics_decode version)"
  unfolding ListPartitionReassignmentsRequest_ListPartitionReassignmentsTopics_decode_def Let_def by (intro extends_rules)

lemma list_partition_reassignments_request_list_partition_reassignments_topics_codec:
  assumes v: "0 \<le>s version"
  shows "message_codec ListPartitionReassignmentsRequest_ListPartitionReassignmentsTopics_encode ListPartitionReassignmentsRequest_ListPartitionReassignmentsTopics_decode ListPartitionReassignmentsRequest_ListPartitionReassignmentsTopics_encoded_len (ListPartitionReassignmentsRequest_ListPartitionReassignmentsTopics_wf version) version"
proof
  fix x
  assume w: "ListPartitionReassignmentsRequest_ListPartitionReassignmentsTopics_wf version x"
  show "carries (ListPartitionReassignmentsRequest_ListPartitionReassignmentsTopics_encode x version) (ListPartitionReassignmentsRequest_ListPartitionReassignmentsTopics_decode version) (ListPartitionReassignmentsRequest_ListPartitionReassignmentsTopics_encoded_len x version) x"
    unfolding ListPartitionReassignmentsRequest_ListPartitionReassignmentsTopics_encode_def ListPartitionReassignmentsRequest_ListPartitionReassignmentsTopics_encoded_len_def ListPartitionReassignmentsRequest_ListPartitionReassignmentsTopics_decode_def Let_def
    by (use w[unfolded ListPartitionReassignmentsRequest_ListPartitionReassignmentsTopics_wf_def ListPartitionReassignmentsRequest_ListPartitionReassignmentsTopics_fields_wf_def Let_def] in \<open>elim conjE\<close>, rule carries_cong_len)
      ((rule carries_rules | (erule absent_guarded, assumption) | erule absent_plain
        | simp add: v field_ok_def ListPartitionReassignmentsRequest_ListPartitionReassignmentsTopics_default_def )+)
next
  show "yields 1 (ListPartitionReassignmentsRequest_ListPartitionReassignmentsTopics_decode version) (ListPartitionReassignmentsRequest_ListPartitionReassignmentsTopics_wf version)"
    by (rule list_partition_reassignments_request_list_partition_reassignments_topics_yields[OF v])
qed (rule list_partition_reassignments_request_list_partition_reassignments_topics_extends)

lemma list_partition_reassignments_request_list_partition_reassignments_topics_default_wf [simp]: "0 \<le>s version \<Longrightarrow> ListPartitionReassignmentsRequest_ListPartitionReassignmentsTopics_wf version ListPartitionReassignmentsRequest_ListPartitionReassignmentsTopics_default"
  by (simp add: ListPartitionReassignmentsRequest_ListPartitionReassignmentsTopics_wf_def ListPartitionReassignmentsRequest_ListPartitionReassignmentsTopics_default_def trailer_ok_def list_partition_reassignments_request_list_partition_reassignments_topics_fields)

lemmas [carries_rules] = message_codec.message_carries[OF list_partition_reassignments_request_list_partition_reassignments_topics_codec]
lemmas [yields_rules] = message_codec.message_yields[OF list_partition_reassignments_request_list_partition_reassignments_topics_codec]

lemmas [carries_rules] = protocol_codec.put_array_carries[OF message_codec.message_protocol[OF list_partition_reassignments_request_list_partition_reassignments_topics_codec]]
lemmas [yields_rules] = protocol_codec.get_array_yields[OF message_codec.message_protocol[OF list_partition_reassignments_request_list_partition_reassignments_topics_codec]]
lemmas [carries_rules] = protocol_codec.put_nullable_array_carries[OF message_codec.message_protocol[OF list_partition_reassignments_request_list_partition_reassignments_topics_codec]]
lemmas [yields_rules] = protocol_codec.get_nullable_array_yields[OF message_codec.message_protocol[OF list_partition_reassignments_request_list_partition_reassignments_topics_codec]]

record ListPartitionReassignmentsRequest =
  lpr_req_timeout_ms :: i32
  lpr_req_topics :: "ListPartitionReassignmentsRequest_ListPartitionReassignmentsTopics list option"
  lpr_req_unknown_tagged_fields :: "UnknownTaggedField list"

definition ListPartitionReassignmentsRequest_default :: ListPartitionReassignmentsRequest where
  "ListPartitionReassignmentsRequest_default =
     \<lparr>lpr_req_timeout_ms = 60000, lpr_req_topics = None, lpr_req_unknown_tagged_fields = []\<rparr>"

definition ListPartitionReassignmentsRequest_MIN_VERSION :: i16 where
  "ListPartitionReassignmentsRequest_MIN_VERSION = 0"

definition ListPartitionReassignmentsRequest_MAX_VERSION :: i16 where
  "ListPartitionReassignmentsRequest_MAX_VERSION = 0"

definition ListPartitionReassignmentsRequest_FLEXIBLE_MIN :: i16 where
  "ListPartitionReassignmentsRequest_FLEXIBLE_MIN = 0"

definition ListPartitionReassignmentsRequest_API_KEY :: i16 where
  "ListPartitionReassignmentsRequest_API_KEY = 46"

definition ListPartitionReassignmentsRequest_is_flexible :: "i16 \<Rightarrow> bool" where
  "ListPartitionReassignmentsRequest_is_flexible version \<longleftrightarrow> ListPartitionReassignmentsRequest_FLEXIBLE_MIN \<le>s version"

definition ListPartitionReassignmentsRequest_encode :: "ListPartitionReassignmentsRequest \<Rightarrow> i16 \<Rightarrow> encoder" where
  "ListPartitionReassignmentsRequest_encode x version =
     (let flex = ListPartitionReassignmentsRequest_is_flexible version in
      write_all
        [write_check (check_version ListPartitionReassignmentsRequest_API_KEY version ListPartitionReassignmentsRequest_MIN_VERSION ListPartitionReassignmentsRequest_MAX_VERSION),
         put_when (0 \<le>s version) (put_i32 (lpr_req_timeout_ms x)),
         put_when (0 \<le>s version) (put_nullable_array flex (\<lambda>it. ListPartitionReassignmentsRequest_ListPartitionReassignmentsTopics_encode it version) (lpr_req_topics x)),
         put_when flex (put_tagged [] (lpr_req_unknown_tagged_fields x))])"

definition ListPartitionReassignmentsRequest_encoded_len :: "ListPartitionReassignmentsRequest \<Rightarrow> i16 \<Rightarrow> nat" where
  "ListPartitionReassignmentsRequest_encoded_len x version =
     (let flex = ListPartitionReassignmentsRequest_is_flexible version in
      len_when (0 \<le>s version) 4
      + len_when (0 \<le>s version) (nullable_array_size flex (\<lambda>it. ListPartitionReassignmentsRequest_ListPartitionReassignmentsTopics_encoded_len it version) (lpr_req_topics x))
      + len_when flex (tagged_size [] (lpr_req_unknown_tagged_fields x)))"

definition ListPartitionReassignmentsRequest_decode :: "i16 \<Rightarrow> ListPartitionReassignmentsRequest decoder" where
  "ListPartitionReassignmentsRequest_decode version =
     (let flex = ListPartitionReassignmentsRequest_is_flexible version in
      checked (check_version ListPartitionReassignmentsRequest_API_KEY version ListPartitionReassignmentsRequest_MIN_VERSION ListPartitionReassignmentsRequest_MAX_VERSION) (
        read_then (get_into (0 \<le>s version) get_i32 (\<lambda>v out. out\<lparr>lpr_req_timeout_ms := v\<rparr>) ListPartitionReassignmentsRequest_default) (\<lambda>out.
        read_then (get_into (0 \<le>s version) (get_nullable_array flex (ListPartitionReassignmentsRequest_ListPartitionReassignmentsTopics_decode version)) (\<lambda>v out. out\<lparr>lpr_req_topics := v\<rparr>) out) (\<lambda>out.
        get_trailer flex [] (\<lambda>u out. out\<lparr>lpr_req_unknown_tagged_fields := u\<rparr>) out))))"

definition ListPartitionReassignmentsRequest_fields_wf :: "i16 \<Rightarrow> ListPartitionReassignmentsRequest \<Rightarrow> bool" where
  "ListPartitionReassignmentsRequest_fields_wf version x \<longleftrightarrow>
     (let flex = ListPartitionReassignmentsRequest_is_flexible version in
      pred_option (array_ok flex (ListPartitionReassignmentsRequest_ListPartitionReassignmentsTopics_wf version)) (lpr_req_topics x))"

definition ListPartitionReassignmentsRequest_wf :: "i16 \<Rightarrow> ListPartitionReassignmentsRequest \<Rightarrow> bool" where
  "ListPartitionReassignmentsRequest_wf version x \<longleftrightarrow>
     version_in ListPartitionReassignmentsRequest_MIN_VERSION ListPartitionReassignmentsRequest_MAX_VERSION version \<and> ListPartitionReassignmentsRequest_fields_wf version x \<and> trailer_ok [] [] (lpr_req_unknown_tagged_fields x)"

lemmas list_partition_reassignments_request_versions =
    ListPartitionReassignmentsRequest_is_flexible_def ListPartitionReassignmentsRequest_FLEXIBLE_MIN_def
    ListPartitionReassignmentsRequest_MIN_VERSION_def ListPartitionReassignmentsRequest_MAX_VERSION_def
    version_in_def

lemmas list_partition_reassignments_request_fields =
    Let_def field_ok_def ListPartitionReassignmentsRequest_fields_wf_def
    ListPartitionReassignmentsRequest_is_flexible_def ListPartitionReassignmentsRequest_FLEXIBLE_MIN_def

lemma list_partition_reassignments_request_steps:
  assumes v: "0 \<le>s version" and flex: "flex = (ListPartitionReassignmentsRequest_is_flexible version)"
  shows "keeps (ListPartitionReassignmentsRequest_fields_wf version) (get_into (0 \<le>s version) get_i32 (\<lambda>v out. out\<lparr>lpr_req_timeout_ms := v\<rparr>))"
    and "keeps (ListPartitionReassignmentsRequest_fields_wf version) (get_into (0 \<le>s version) (get_nullable_array flex (ListPartitionReassignmentsRequest_ListPartitionReassignmentsTopics_decode version)) (\<lambda>v out. out\<lparr>lpr_req_topics := v\<rparr>))"
  unfolding flex 
  by (rule keeps_into; (rule yields_rules)?; simp add: v list_partition_reassignments_request_fields)+

lemma list_partition_reassignments_request_unknown:
  "ListPartitionReassignmentsRequest_fields_wf version (s\<lparr>lpr_req_unknown_tagged_fields := u\<rparr>) = ListPartitionReassignmentsRequest_fields_wf version s"
  by (simp_all add: ListPartitionReassignmentsRequest_fields_wf_def)

lemma list_partition_reassignments_request_yields:
  assumes r: "version_in ListPartitionReassignmentsRequest_MIN_VERSION ListPartitionReassignmentsRequest_MAX_VERSION version"
  shows "yields 1 (ListPartitionReassignmentsRequest_decode version) (ListPartitionReassignmentsRequest_wf version)"
proof -
  have v: "0 \<le>s version"
    using r by (simp add: list_partition_reassignments_request_versions)
  have d: "ListPartitionReassignmentsRequest_fields_wf version ListPartitionReassignmentsRequest_default"
    by (simp add: ListPartitionReassignmentsRequest_default_def v list_partition_reassignments_request_fields)
  show ?thesis
    unfolding ListPartitionReassignmentsRequest_decode_def Let_def
    by (rule yields_checked, (rule list_partition_reassignments_request_steps[OF v refl, THEN yields_step], (rule d | assumption))+, rule yields_trailer[OF _ arms_keep_Nil[of "ListPartitionReassignmentsRequest_fields_wf version" "\<lambda>_. 0"]])
      (simp_all add: v d list_partition_reassignments_request_unknown ListPartitionReassignmentsRequest_wf_def trailer_ok_def r ListPartitionReassignmentsRequest_is_flexible_def ListPartitionReassignmentsRequest_FLEXIBLE_MIN_def)
qed

interpretation list_partition_reassignments_request: message_codec
  ListPartitionReassignmentsRequest_encode ListPartitionReassignmentsRequest_decode ListPartitionReassignmentsRequest_encoded_len "ListPartitionReassignmentsRequest_wf version" version
  for version
proof
  fix x
  assume w: "ListPartitionReassignmentsRequest_wf version x"
  then have v: "0 \<le>s version"
    by (simp add: ListPartitionReassignmentsRequest_wf_def list_partition_reassignments_request_versions)
  show "carries (ListPartitionReassignmentsRequest_encode x version) (ListPartitionReassignmentsRequest_decode version) (ListPartitionReassignmentsRequest_encoded_len x version) x"
    unfolding ListPartitionReassignmentsRequest_encode_def ListPartitionReassignmentsRequest_encoded_len_def ListPartitionReassignmentsRequest_decode_def Let_def
    by (use w[unfolded ListPartitionReassignmentsRequest_wf_def ListPartitionReassignmentsRequest_fields_wf_def Let_def] in \<open>elim conjE\<close>, rule carries_cong_len)
      ((rule carries_rules check_version_in[THEN iffD2] | (erule absent_guarded, assumption) | erule absent_plain
        | simp add: v field_ok_def ListPartitionReassignmentsRequest_default_def list_partition_reassignments_request_versions)+)
next
  show "yields 1 (ListPartitionReassignmentsRequest_decode version) (ListPartitionReassignmentsRequest_wf version)"
    by (rule case_split[OF list_partition_reassignments_request_yields]) (auto simp: ListPartitionReassignmentsRequest_decode_def Let_def yields_refused yields_unsupported)
  show "extends_input (ListPartitionReassignmentsRequest_decode version)"
    unfolding ListPartitionReassignmentsRequest_decode_def Let_def by (intro extends_rules)
qed

section \<open>ListPartitionReassignmentsResponse\<close>

record ListPartitionReassignmentsResponse_OngoingPartitionReassignment =
  lpr_resp_opr_partition_index :: i32
  lpr_resp_opr_replicas :: "i32 list"
  lpr_resp_opr_adding_replicas :: "i32 list"
  lpr_resp_opr_removing_replicas :: "i32 list"
  lpr_resp_opr_unknown_tagged_fields :: "UnknownTaggedField list"

definition ListPartitionReassignmentsResponse_OngoingPartitionReassignment_default :: ListPartitionReassignmentsResponse_OngoingPartitionReassignment where
  "ListPartitionReassignmentsResponse_OngoingPartitionReassignment_default =
     \<lparr>lpr_resp_opr_partition_index = 0, lpr_resp_opr_replicas = [], lpr_resp_opr_adding_replicas = [], lpr_resp_opr_removing_replicas = [], lpr_resp_opr_unknown_tagged_fields = []\<rparr>"

definition ListPartitionReassignmentsResponse_OngoingPartitionReassignment_encode :: "ListPartitionReassignmentsResponse_OngoingPartitionReassignment \<Rightarrow> i16 \<Rightarrow> encoder" where
  "ListPartitionReassignmentsResponse_OngoingPartitionReassignment_encode x version =
     (let flex = 0 \<le>s version in
      write_all
        [put_when (0 \<le>s version) (put_i32 (lpr_resp_opr_partition_index x)),
         put_when (0 \<le>s version) (put_array flex put_i32 (lpr_resp_opr_replicas x)),
         put_when (0 \<le>s version) (put_array flex put_i32 (lpr_resp_opr_adding_replicas x)),
         put_when (0 \<le>s version) (put_array flex put_i32 (lpr_resp_opr_removing_replicas x)),
         put_when flex (put_tagged [] (lpr_resp_opr_unknown_tagged_fields x))])"

definition ListPartitionReassignmentsResponse_OngoingPartitionReassignment_encoded_len :: "ListPartitionReassignmentsResponse_OngoingPartitionReassignment \<Rightarrow> i16 \<Rightarrow> nat" where
  "ListPartitionReassignmentsResponse_OngoingPartitionReassignment_encoded_len x version =
     (let flex = 0 \<le>s version in
      len_when (0 \<le>s version) 4
      + len_when (0 \<le>s version) (array_size flex (\<lambda>_. 4) (lpr_resp_opr_replicas x))
      + len_when (0 \<le>s version) (array_size flex (\<lambda>_. 4) (lpr_resp_opr_adding_replicas x))
      + len_when (0 \<le>s version) (array_size flex (\<lambda>_. 4) (lpr_resp_opr_removing_replicas x))
      + len_when flex (tagged_size [] (lpr_resp_opr_unknown_tagged_fields x)))"

definition ListPartitionReassignmentsResponse_OngoingPartitionReassignment_decode :: "i16 \<Rightarrow> ListPartitionReassignmentsResponse_OngoingPartitionReassignment decoder" where
  "ListPartitionReassignmentsResponse_OngoingPartitionReassignment_decode version =
     (let flex = 0 \<le>s version in
      read_then (get_into (0 \<le>s version) get_i32 (\<lambda>v out. out\<lparr>lpr_resp_opr_partition_index := v\<rparr>) ListPartitionReassignmentsResponse_OngoingPartitionReassignment_default) (\<lambda>out.
        read_then (get_into (0 \<le>s version) (get_array flex get_i32) (\<lambda>v out. out\<lparr>lpr_resp_opr_replicas := v\<rparr>) out) (\<lambda>out.
        read_then (get_into (0 \<le>s version) (get_array flex get_i32) (\<lambda>v out. out\<lparr>lpr_resp_opr_adding_replicas := v\<rparr>) out) (\<lambda>out.
        read_then (get_into (0 \<le>s version) (get_array flex get_i32) (\<lambda>v out. out\<lparr>lpr_resp_opr_removing_replicas := v\<rparr>) out) (\<lambda>out.
        get_trailer flex [] (\<lambda>u out. out\<lparr>lpr_resp_opr_unknown_tagged_fields := u\<rparr>) out)))))"

definition ListPartitionReassignmentsResponse_OngoingPartitionReassignment_fields_wf :: "i16 \<Rightarrow> ListPartitionReassignmentsResponse_OngoingPartitionReassignment \<Rightarrow> bool" where
  "ListPartitionReassignmentsResponse_OngoingPartitionReassignment_fields_wf version x \<longleftrightarrow>
     (let flex = 0 \<le>s version in
      array_ok flex (\<lambda>_. True) (lpr_resp_opr_replicas x)
      \<and> array_ok flex (\<lambda>_. True) (lpr_resp_opr_adding_replicas x)
      \<and> array_ok flex (\<lambda>_. True) (lpr_resp_opr_removing_replicas x))"

definition ListPartitionReassignmentsResponse_OngoingPartitionReassignment_wf :: "i16 \<Rightarrow> ListPartitionReassignmentsResponse_OngoingPartitionReassignment \<Rightarrow> bool" where
  "ListPartitionReassignmentsResponse_OngoingPartitionReassignment_wf version x \<longleftrightarrow>
     ListPartitionReassignmentsResponse_OngoingPartitionReassignment_fields_wf version x \<and> trailer_ok [] [] (lpr_resp_opr_unknown_tagged_fields x)"

lemmas list_partition_reassignments_response_ongoing_partition_reassignment_fields =
    Let_def field_ok_def ListPartitionReassignmentsResponse_OngoingPartitionReassignment_fields_wf_def

lemma list_partition_reassignments_response_ongoing_partition_reassignment_steps:
  assumes v: "0 \<le>s version" and flex: "flex = (0 \<le>s version)"
  shows "keeps (ListPartitionReassignmentsResponse_OngoingPartitionReassignment_fields_wf version) (get_into (0 \<le>s version) get_i32 (\<lambda>v out. out\<lparr>lpr_resp_opr_partition_index := v\<rparr>))"
    and "keeps (ListPartitionReassignmentsResponse_OngoingPartitionReassignment_fields_wf version) (get_into (0 \<le>s version) (get_array flex get_i32) (\<lambda>v out. out\<lparr>lpr_resp_opr_replicas := v\<rparr>))"
    and "keeps (ListPartitionReassignmentsResponse_OngoingPartitionReassignment_fields_wf version) (get_into (0 \<le>s version) (get_array flex get_i32) (\<lambda>v out. out\<lparr>lpr_resp_opr_adding_replicas := v\<rparr>))"
    and "keeps (ListPartitionReassignmentsResponse_OngoingPartitionReassignment_fields_wf version) (get_into (0 \<le>s version) (get_array flex get_i32) (\<lambda>v out. out\<lparr>lpr_resp_opr_removing_replicas := v\<rparr>))"
  unfolding flex 
  by (rule keeps_into; (rule yields_rules)?; simp add: v list_partition_reassignments_response_ongoing_partition_reassignment_fields)+

lemma list_partition_reassignments_response_ongoing_partition_reassignment_unknown:
  "ListPartitionReassignmentsResponse_OngoingPartitionReassignment_fields_wf version (s\<lparr>lpr_resp_opr_unknown_tagged_fields := u\<rparr>) = ListPartitionReassignmentsResponse_OngoingPartitionReassignment_fields_wf version s"
  by (simp_all add: ListPartitionReassignmentsResponse_OngoingPartitionReassignment_fields_wf_def)

lemma list_partition_reassignments_response_ongoing_partition_reassignment_yields:
  assumes v: "0 \<le>s version"
  shows "yields 1 (ListPartitionReassignmentsResponse_OngoingPartitionReassignment_decode version) (ListPartitionReassignmentsResponse_OngoingPartitionReassignment_wf version)"
proof -
  have d: "ListPartitionReassignmentsResponse_OngoingPartitionReassignment_fields_wf version ListPartitionReassignmentsResponse_OngoingPartitionReassignment_default"
    by (simp add: ListPartitionReassignmentsResponse_OngoingPartitionReassignment_default_def v list_partition_reassignments_response_ongoing_partition_reassignment_fields)
  show ?thesis
    unfolding ListPartitionReassignmentsResponse_OngoingPartitionReassignment_decode_def Let_def
    by ((rule list_partition_reassignments_response_ongoing_partition_reassignment_steps[OF v refl, THEN yields_step], (rule d | assumption))+, rule yields_trailer[OF _ arms_keep_Nil[of "ListPartitionReassignmentsResponse_OngoingPartitionReassignment_fields_wf version" "\<lambda>_. 0"]])
      (simp_all add: v d list_partition_reassignments_response_ongoing_partition_reassignment_unknown ListPartitionReassignmentsResponse_OngoingPartitionReassignment_wf_def trailer_ok_def )
qed

lemma list_partition_reassignments_response_ongoing_partition_reassignment_extends [extends_rules]: "extends_input (ListPartitionReassignmentsResponse_OngoingPartitionReassignment_decode version)"
  unfolding ListPartitionReassignmentsResponse_OngoingPartitionReassignment_decode_def Let_def by (intro extends_rules)

lemma list_partition_reassignments_response_ongoing_partition_reassignment_codec:
  assumes v: "0 \<le>s version"
  shows "message_codec ListPartitionReassignmentsResponse_OngoingPartitionReassignment_encode ListPartitionReassignmentsResponse_OngoingPartitionReassignment_decode ListPartitionReassignmentsResponse_OngoingPartitionReassignment_encoded_len (ListPartitionReassignmentsResponse_OngoingPartitionReassignment_wf version) version"
proof
  fix x
  assume w: "ListPartitionReassignmentsResponse_OngoingPartitionReassignment_wf version x"
  show "carries (ListPartitionReassignmentsResponse_OngoingPartitionReassignment_encode x version) (ListPartitionReassignmentsResponse_OngoingPartitionReassignment_decode version) (ListPartitionReassignmentsResponse_OngoingPartitionReassignment_encoded_len x version) x"
    unfolding ListPartitionReassignmentsResponse_OngoingPartitionReassignment_encode_def ListPartitionReassignmentsResponse_OngoingPartitionReassignment_encoded_len_def ListPartitionReassignmentsResponse_OngoingPartitionReassignment_decode_def Let_def
    by (use w[unfolded ListPartitionReassignmentsResponse_OngoingPartitionReassignment_wf_def ListPartitionReassignmentsResponse_OngoingPartitionReassignment_fields_wf_def Let_def] in \<open>elim conjE\<close>, rule carries_cong_len)
      ((rule carries_rules | (erule absent_guarded, assumption) | erule absent_plain
        | simp add: v field_ok_def ListPartitionReassignmentsResponse_OngoingPartitionReassignment_default_def )+)
next
  show "yields 1 (ListPartitionReassignmentsResponse_OngoingPartitionReassignment_decode version) (ListPartitionReassignmentsResponse_OngoingPartitionReassignment_wf version)"
    by (rule list_partition_reassignments_response_ongoing_partition_reassignment_yields[OF v])
qed (rule list_partition_reassignments_response_ongoing_partition_reassignment_extends)

lemma list_partition_reassignments_response_ongoing_partition_reassignment_default_wf [simp]: "0 \<le>s version \<Longrightarrow> ListPartitionReassignmentsResponse_OngoingPartitionReassignment_wf version ListPartitionReassignmentsResponse_OngoingPartitionReassignment_default"
  by (simp add: ListPartitionReassignmentsResponse_OngoingPartitionReassignment_wf_def ListPartitionReassignmentsResponse_OngoingPartitionReassignment_default_def trailer_ok_def list_partition_reassignments_response_ongoing_partition_reassignment_fields)

lemmas [carries_rules] = message_codec.message_carries[OF list_partition_reassignments_response_ongoing_partition_reassignment_codec]
lemmas [yields_rules] = message_codec.message_yields[OF list_partition_reassignments_response_ongoing_partition_reassignment_codec]

lemmas [carries_rules] = protocol_codec.put_array_carries[OF message_codec.message_protocol[OF list_partition_reassignments_response_ongoing_partition_reassignment_codec]]
lemmas [yields_rules] = protocol_codec.get_array_yields[OF message_codec.message_protocol[OF list_partition_reassignments_response_ongoing_partition_reassignment_codec]]
lemmas [carries_rules] = protocol_codec.put_nullable_array_carries[OF message_codec.message_protocol[OF list_partition_reassignments_response_ongoing_partition_reassignment_codec]]
lemmas [yields_rules] = protocol_codec.get_nullable_array_yields[OF message_codec.message_protocol[OF list_partition_reassignments_response_ongoing_partition_reassignment_codec]]

record ListPartitionReassignmentsResponse_OngoingTopicReassignment =
  lpr_resp_otr_name :: bytes
  lpr_resp_otr_partitions :: "ListPartitionReassignmentsResponse_OngoingPartitionReassignment list"
  lpr_resp_otr_unknown_tagged_fields :: "UnknownTaggedField list"

definition ListPartitionReassignmentsResponse_OngoingTopicReassignment_default :: ListPartitionReassignmentsResponse_OngoingTopicReassignment where
  "ListPartitionReassignmentsResponse_OngoingTopicReassignment_default =
     \<lparr>lpr_resp_otr_name = [], lpr_resp_otr_partitions = [], lpr_resp_otr_unknown_tagged_fields = []\<rparr>"

definition ListPartitionReassignmentsResponse_OngoingTopicReassignment_encode :: "ListPartitionReassignmentsResponse_OngoingTopicReassignment \<Rightarrow> i16 \<Rightarrow> encoder" where
  "ListPartitionReassignmentsResponse_OngoingTopicReassignment_encode x version =
     (let flex = 0 \<le>s version in
      write_all
        [put_when (0 \<le>s version) (put_str flex (lpr_resp_otr_name x)),
         put_when (0 \<le>s version) (put_array flex (\<lambda>it. ListPartitionReassignmentsResponse_OngoingPartitionReassignment_encode it version) (lpr_resp_otr_partitions x)),
         put_when flex (put_tagged [] (lpr_resp_otr_unknown_tagged_fields x))])"

definition ListPartitionReassignmentsResponse_OngoingTopicReassignment_encoded_len :: "ListPartitionReassignmentsResponse_OngoingTopicReassignment \<Rightarrow> i16 \<Rightarrow> nat" where
  "ListPartitionReassignmentsResponse_OngoingTopicReassignment_encoded_len x version =
     (let flex = 0 \<le>s version in
      len_when (0 \<le>s version) (str_len flex (lpr_resp_otr_name x))
      + len_when (0 \<le>s version) (array_size flex (\<lambda>it. ListPartitionReassignmentsResponse_OngoingPartitionReassignment_encoded_len it version) (lpr_resp_otr_partitions x))
      + len_when flex (tagged_size [] (lpr_resp_otr_unknown_tagged_fields x)))"

definition ListPartitionReassignmentsResponse_OngoingTopicReassignment_decode :: "i16 \<Rightarrow> ListPartitionReassignmentsResponse_OngoingTopicReassignment decoder" where
  "ListPartitionReassignmentsResponse_OngoingTopicReassignment_decode version =
     (let flex = 0 \<le>s version in
      read_then (get_into (0 \<le>s version) (get_str flex) (\<lambda>v out. out\<lparr>lpr_resp_otr_name := v\<rparr>) ListPartitionReassignmentsResponse_OngoingTopicReassignment_default) (\<lambda>out.
        read_then (get_into (0 \<le>s version) (get_array flex (ListPartitionReassignmentsResponse_OngoingPartitionReassignment_decode version)) (\<lambda>v out. out\<lparr>lpr_resp_otr_partitions := v\<rparr>) out) (\<lambda>out.
        get_trailer flex [] (\<lambda>u out. out\<lparr>lpr_resp_otr_unknown_tagged_fields := u\<rparr>) out)))"

definition ListPartitionReassignmentsResponse_OngoingTopicReassignment_fields_wf :: "i16 \<Rightarrow> ListPartitionReassignmentsResponse_OngoingTopicReassignment \<Rightarrow> bool" where
  "ListPartitionReassignmentsResponse_OngoingTopicReassignment_fields_wf version x \<longleftrightarrow>
     (let flex = 0 \<le>s version in
      str_wf flex (lpr_resp_otr_name x)
      \<and> array_ok flex (ListPartitionReassignmentsResponse_OngoingPartitionReassignment_wf version) (lpr_resp_otr_partitions x))"

definition ListPartitionReassignmentsResponse_OngoingTopicReassignment_wf :: "i16 \<Rightarrow> ListPartitionReassignmentsResponse_OngoingTopicReassignment \<Rightarrow> bool" where
  "ListPartitionReassignmentsResponse_OngoingTopicReassignment_wf version x \<longleftrightarrow>
     ListPartitionReassignmentsResponse_OngoingTopicReassignment_fields_wf version x \<and> trailer_ok [] [] (lpr_resp_otr_unknown_tagged_fields x)"

lemmas list_partition_reassignments_response_ongoing_topic_reassignment_fields =
    Let_def field_ok_def ListPartitionReassignmentsResponse_OngoingTopicReassignment_fields_wf_def

lemma list_partition_reassignments_response_ongoing_topic_reassignment_steps:
  assumes v: "0 \<le>s version" and flex: "flex = (0 \<le>s version)"
  shows "keeps (ListPartitionReassignmentsResponse_OngoingTopicReassignment_fields_wf version) (get_into (0 \<le>s version) (get_str flex) (\<lambda>v out. out\<lparr>lpr_resp_otr_name := v\<rparr>))"
    and "keeps (ListPartitionReassignmentsResponse_OngoingTopicReassignment_fields_wf version) (get_into (0 \<le>s version) (get_array flex (ListPartitionReassignmentsResponse_OngoingPartitionReassignment_decode version)) (\<lambda>v out. out\<lparr>lpr_resp_otr_partitions := v\<rparr>))"
  unfolding flex 
  by (rule keeps_into; (rule yields_rules)?; simp add: v list_partition_reassignments_response_ongoing_topic_reassignment_fields)+

lemma list_partition_reassignments_response_ongoing_topic_reassignment_unknown:
  "ListPartitionReassignmentsResponse_OngoingTopicReassignment_fields_wf version (s\<lparr>lpr_resp_otr_unknown_tagged_fields := u\<rparr>) = ListPartitionReassignmentsResponse_OngoingTopicReassignment_fields_wf version s"
  by (simp_all add: ListPartitionReassignmentsResponse_OngoingTopicReassignment_fields_wf_def)

lemma list_partition_reassignments_response_ongoing_topic_reassignment_yields:
  assumes v: "0 \<le>s version"
  shows "yields 1 (ListPartitionReassignmentsResponse_OngoingTopicReassignment_decode version) (ListPartitionReassignmentsResponse_OngoingTopicReassignment_wf version)"
proof -
  have d: "ListPartitionReassignmentsResponse_OngoingTopicReassignment_fields_wf version ListPartitionReassignmentsResponse_OngoingTopicReassignment_default"
    by (simp add: ListPartitionReassignmentsResponse_OngoingTopicReassignment_default_def v list_partition_reassignments_response_ongoing_topic_reassignment_fields)
  show ?thesis
    unfolding ListPartitionReassignmentsResponse_OngoingTopicReassignment_decode_def Let_def
    by ((rule list_partition_reassignments_response_ongoing_topic_reassignment_steps[OF v refl, THEN yields_step], (rule d | assumption))+, rule yields_trailer[OF _ arms_keep_Nil[of "ListPartitionReassignmentsResponse_OngoingTopicReassignment_fields_wf version" "\<lambda>_. 0"]])
      (simp_all add: v d list_partition_reassignments_response_ongoing_topic_reassignment_unknown ListPartitionReassignmentsResponse_OngoingTopicReassignment_wf_def trailer_ok_def )
qed

lemma list_partition_reassignments_response_ongoing_topic_reassignment_extends [extends_rules]: "extends_input (ListPartitionReassignmentsResponse_OngoingTopicReassignment_decode version)"
  unfolding ListPartitionReassignmentsResponse_OngoingTopicReassignment_decode_def Let_def by (intro extends_rules)

lemma list_partition_reassignments_response_ongoing_topic_reassignment_codec:
  assumes v: "0 \<le>s version"
  shows "message_codec ListPartitionReassignmentsResponse_OngoingTopicReassignment_encode ListPartitionReassignmentsResponse_OngoingTopicReassignment_decode ListPartitionReassignmentsResponse_OngoingTopicReassignment_encoded_len (ListPartitionReassignmentsResponse_OngoingTopicReassignment_wf version) version"
proof
  fix x
  assume w: "ListPartitionReassignmentsResponse_OngoingTopicReassignment_wf version x"
  show "carries (ListPartitionReassignmentsResponse_OngoingTopicReassignment_encode x version) (ListPartitionReassignmentsResponse_OngoingTopicReassignment_decode version) (ListPartitionReassignmentsResponse_OngoingTopicReassignment_encoded_len x version) x"
    unfolding ListPartitionReassignmentsResponse_OngoingTopicReassignment_encode_def ListPartitionReassignmentsResponse_OngoingTopicReassignment_encoded_len_def ListPartitionReassignmentsResponse_OngoingTopicReassignment_decode_def Let_def
    by (use w[unfolded ListPartitionReassignmentsResponse_OngoingTopicReassignment_wf_def ListPartitionReassignmentsResponse_OngoingTopicReassignment_fields_wf_def Let_def] in \<open>elim conjE\<close>, rule carries_cong_len)
      ((rule carries_rules | (erule absent_guarded, assumption) | erule absent_plain
        | simp add: v field_ok_def ListPartitionReassignmentsResponse_OngoingTopicReassignment_default_def )+)
next
  show "yields 1 (ListPartitionReassignmentsResponse_OngoingTopicReassignment_decode version) (ListPartitionReassignmentsResponse_OngoingTopicReassignment_wf version)"
    by (rule list_partition_reassignments_response_ongoing_topic_reassignment_yields[OF v])
qed (rule list_partition_reassignments_response_ongoing_topic_reassignment_extends)

lemma list_partition_reassignments_response_ongoing_topic_reassignment_default_wf [simp]: "0 \<le>s version \<Longrightarrow> ListPartitionReassignmentsResponse_OngoingTopicReassignment_wf version ListPartitionReassignmentsResponse_OngoingTopicReassignment_default"
  by (simp add: ListPartitionReassignmentsResponse_OngoingTopicReassignment_wf_def ListPartitionReassignmentsResponse_OngoingTopicReassignment_default_def trailer_ok_def list_partition_reassignments_response_ongoing_topic_reassignment_fields)

lemmas [carries_rules] = message_codec.message_carries[OF list_partition_reassignments_response_ongoing_topic_reassignment_codec]
lemmas [yields_rules] = message_codec.message_yields[OF list_partition_reassignments_response_ongoing_topic_reassignment_codec]

lemmas [carries_rules] = protocol_codec.put_array_carries[OF message_codec.message_protocol[OF list_partition_reassignments_response_ongoing_topic_reassignment_codec]]
lemmas [yields_rules] = protocol_codec.get_array_yields[OF message_codec.message_protocol[OF list_partition_reassignments_response_ongoing_topic_reassignment_codec]]
lemmas [carries_rules] = protocol_codec.put_nullable_array_carries[OF message_codec.message_protocol[OF list_partition_reassignments_response_ongoing_topic_reassignment_codec]]
lemmas [yields_rules] = protocol_codec.get_nullable_array_yields[OF message_codec.message_protocol[OF list_partition_reassignments_response_ongoing_topic_reassignment_codec]]

record ListPartitionReassignmentsResponse =
  lpr_resp_throttle_time_ms :: i32
  lpr_resp_error_code :: i16
  lpr_resp_error_message :: "bytes option"
  lpr_resp_topics :: "ListPartitionReassignmentsResponse_OngoingTopicReassignment list"
  lpr_resp_unknown_tagged_fields :: "UnknownTaggedField list"

definition ListPartitionReassignmentsResponse_default :: ListPartitionReassignmentsResponse where
  "ListPartitionReassignmentsResponse_default =
     \<lparr>lpr_resp_throttle_time_ms = 0, lpr_resp_error_code = 0, lpr_resp_error_message = Some [], lpr_resp_topics = [], lpr_resp_unknown_tagged_fields = []\<rparr>"

definition ListPartitionReassignmentsResponse_MIN_VERSION :: i16 where
  "ListPartitionReassignmentsResponse_MIN_VERSION = 0"

definition ListPartitionReassignmentsResponse_MAX_VERSION :: i16 where
  "ListPartitionReassignmentsResponse_MAX_VERSION = 0"

definition ListPartitionReassignmentsResponse_FLEXIBLE_MIN :: i16 where
  "ListPartitionReassignmentsResponse_FLEXIBLE_MIN = 0"

definition ListPartitionReassignmentsResponse_API_KEY :: i16 where
  "ListPartitionReassignmentsResponse_API_KEY = 46"

definition ListPartitionReassignmentsResponse_is_flexible :: "i16 \<Rightarrow> bool" where
  "ListPartitionReassignmentsResponse_is_flexible version \<longleftrightarrow> ListPartitionReassignmentsResponse_FLEXIBLE_MIN \<le>s version"

definition ListPartitionReassignmentsResponse_encode :: "ListPartitionReassignmentsResponse \<Rightarrow> i16 \<Rightarrow> encoder" where
  "ListPartitionReassignmentsResponse_encode x version =
     (let flex = ListPartitionReassignmentsResponse_is_flexible version in
      write_all
        [write_check (check_version ListPartitionReassignmentsResponse_API_KEY version ListPartitionReassignmentsResponse_MIN_VERSION ListPartitionReassignmentsResponse_MAX_VERSION),
         put_when (0 \<le>s version) (put_i32 (lpr_resp_throttle_time_ms x)),
         put_when (0 \<le>s version) (put_i16 (lpr_resp_error_code x)),
         put_when (0 \<le>s version) (put_nullable_str flex (lpr_resp_error_message x)),
         put_when (0 \<le>s version) (put_array flex (\<lambda>it. ListPartitionReassignmentsResponse_OngoingTopicReassignment_encode it version) (lpr_resp_topics x)),
         put_when flex (put_tagged [] (lpr_resp_unknown_tagged_fields x))])"

definition ListPartitionReassignmentsResponse_encoded_len :: "ListPartitionReassignmentsResponse \<Rightarrow> i16 \<Rightarrow> nat" where
  "ListPartitionReassignmentsResponse_encoded_len x version =
     (let flex = ListPartitionReassignmentsResponse_is_flexible version in
      len_when (0 \<le>s version) 4
      + len_when (0 \<le>s version) 2
      + len_when (0 \<le>s version) (nullable_str_len flex (lpr_resp_error_message x))
      + len_when (0 \<le>s version) (array_size flex (\<lambda>it. ListPartitionReassignmentsResponse_OngoingTopicReassignment_encoded_len it version) (lpr_resp_topics x))
      + len_when flex (tagged_size [] (lpr_resp_unknown_tagged_fields x)))"

definition ListPartitionReassignmentsResponse_decode :: "i16 \<Rightarrow> ListPartitionReassignmentsResponse decoder" where
  "ListPartitionReassignmentsResponse_decode version =
     (let flex = ListPartitionReassignmentsResponse_is_flexible version in
      checked (check_version ListPartitionReassignmentsResponse_API_KEY version ListPartitionReassignmentsResponse_MIN_VERSION ListPartitionReassignmentsResponse_MAX_VERSION) (
        read_then (get_into (0 \<le>s version) get_i32 (\<lambda>v out. out\<lparr>lpr_resp_throttle_time_ms := v\<rparr>) ListPartitionReassignmentsResponse_default) (\<lambda>out.
        read_then (get_into (0 \<le>s version) get_i16 (\<lambda>v out. out\<lparr>lpr_resp_error_code := v\<rparr>) out) (\<lambda>out.
        read_then (get_into (0 \<le>s version) (get_nullable_str flex) (\<lambda>v out. out\<lparr>lpr_resp_error_message := v\<rparr>) out) (\<lambda>out.
        read_then (get_into (0 \<le>s version) (get_array flex (ListPartitionReassignmentsResponse_OngoingTopicReassignment_decode version)) (\<lambda>v out. out\<lparr>lpr_resp_topics := v\<rparr>) out) (\<lambda>out.
        get_trailer flex [] (\<lambda>u out. out\<lparr>lpr_resp_unknown_tagged_fields := u\<rparr>) out))))))"

definition ListPartitionReassignmentsResponse_fields_wf :: "i16 \<Rightarrow> ListPartitionReassignmentsResponse \<Rightarrow> bool" where
  "ListPartitionReassignmentsResponse_fields_wf version x \<longleftrightarrow>
     (let flex = ListPartitionReassignmentsResponse_is_flexible version in
      nullable_str_wf flex (lpr_resp_error_message x)
      \<and> array_ok flex (ListPartitionReassignmentsResponse_OngoingTopicReassignment_wf version) (lpr_resp_topics x))"

definition ListPartitionReassignmentsResponse_wf :: "i16 \<Rightarrow> ListPartitionReassignmentsResponse \<Rightarrow> bool" where
  "ListPartitionReassignmentsResponse_wf version x \<longleftrightarrow>
     version_in ListPartitionReassignmentsResponse_MIN_VERSION ListPartitionReassignmentsResponse_MAX_VERSION version \<and> ListPartitionReassignmentsResponse_fields_wf version x \<and> trailer_ok [] [] (lpr_resp_unknown_tagged_fields x)"

lemmas list_partition_reassignments_response_versions =
    ListPartitionReassignmentsResponse_is_flexible_def ListPartitionReassignmentsResponse_FLEXIBLE_MIN_def
    ListPartitionReassignmentsResponse_MIN_VERSION_def ListPartitionReassignmentsResponse_MAX_VERSION_def
    version_in_def

lemmas list_partition_reassignments_response_fields =
    Let_def field_ok_def ListPartitionReassignmentsResponse_fields_wf_def
    ListPartitionReassignmentsResponse_is_flexible_def ListPartitionReassignmentsResponse_FLEXIBLE_MIN_def

lemma list_partition_reassignments_response_steps:
  assumes v: "0 \<le>s version" and flex: "flex = (ListPartitionReassignmentsResponse_is_flexible version)"
  shows "keeps (ListPartitionReassignmentsResponse_fields_wf version) (get_into (0 \<le>s version) get_i32 (\<lambda>v out. out\<lparr>lpr_resp_throttle_time_ms := v\<rparr>))"
    and "keeps (ListPartitionReassignmentsResponse_fields_wf version) (get_into (0 \<le>s version) get_i16 (\<lambda>v out. out\<lparr>lpr_resp_error_code := v\<rparr>))"
    and "keeps (ListPartitionReassignmentsResponse_fields_wf version) (get_into (0 \<le>s version) (get_nullable_str flex) (\<lambda>v out. out\<lparr>lpr_resp_error_message := v\<rparr>))"
    and "keeps (ListPartitionReassignmentsResponse_fields_wf version) (get_into (0 \<le>s version) (get_array flex (ListPartitionReassignmentsResponse_OngoingTopicReassignment_decode version)) (\<lambda>v out. out\<lparr>lpr_resp_topics := v\<rparr>))"
  unfolding flex 
  by (rule keeps_into; (rule yields_rules)?; simp add: v list_partition_reassignments_response_fields)+

lemma list_partition_reassignments_response_unknown:
  "ListPartitionReassignmentsResponse_fields_wf version (s\<lparr>lpr_resp_unknown_tagged_fields := u\<rparr>) = ListPartitionReassignmentsResponse_fields_wf version s"
  by (simp_all add: ListPartitionReassignmentsResponse_fields_wf_def)

lemma list_partition_reassignments_response_yields:
  assumes r: "version_in ListPartitionReassignmentsResponse_MIN_VERSION ListPartitionReassignmentsResponse_MAX_VERSION version"
  shows "yields 1 (ListPartitionReassignmentsResponse_decode version) (ListPartitionReassignmentsResponse_wf version)"
proof -
  have v: "0 \<le>s version"
    using r by (simp add: list_partition_reassignments_response_versions)
  have d: "ListPartitionReassignmentsResponse_fields_wf version ListPartitionReassignmentsResponse_default"
    by (simp add: ListPartitionReassignmentsResponse_default_def v list_partition_reassignments_response_fields)
  show ?thesis
    unfolding ListPartitionReassignmentsResponse_decode_def Let_def
    by (rule yields_checked, (rule list_partition_reassignments_response_steps[OF v refl, THEN yields_step], (rule d | assumption))+, rule yields_trailer[OF _ arms_keep_Nil[of "ListPartitionReassignmentsResponse_fields_wf version" "\<lambda>_. 0"]])
      (simp_all add: v d list_partition_reassignments_response_unknown ListPartitionReassignmentsResponse_wf_def trailer_ok_def r ListPartitionReassignmentsResponse_is_flexible_def ListPartitionReassignmentsResponse_FLEXIBLE_MIN_def)
qed

interpretation list_partition_reassignments_response: message_codec
  ListPartitionReassignmentsResponse_encode ListPartitionReassignmentsResponse_decode ListPartitionReassignmentsResponse_encoded_len "ListPartitionReassignmentsResponse_wf version" version
  for version
proof
  fix x
  assume w: "ListPartitionReassignmentsResponse_wf version x"
  then have v: "0 \<le>s version"
    by (simp add: ListPartitionReassignmentsResponse_wf_def list_partition_reassignments_response_versions)
  show "carries (ListPartitionReassignmentsResponse_encode x version) (ListPartitionReassignmentsResponse_decode version) (ListPartitionReassignmentsResponse_encoded_len x version) x"
    unfolding ListPartitionReassignmentsResponse_encode_def ListPartitionReassignmentsResponse_encoded_len_def ListPartitionReassignmentsResponse_decode_def Let_def
    by (use w[unfolded ListPartitionReassignmentsResponse_wf_def ListPartitionReassignmentsResponse_fields_wf_def Let_def] in \<open>elim conjE\<close>, rule carries_cong_len)
      ((rule carries_rules check_version_in[THEN iffD2] | (erule absent_guarded, assumption) | erule absent_plain
        | simp add: v field_ok_def ListPartitionReassignmentsResponse_default_def list_partition_reassignments_response_versions)+)
next
  show "yields 1 (ListPartitionReassignmentsResponse_decode version) (ListPartitionReassignmentsResponse_wf version)"
    by (rule case_split[OF list_partition_reassignments_response_yields]) (auto simp: ListPartitionReassignmentsResponse_decode_def Let_def yields_refused yields_unsupported)
  show "extends_input (ListPartitionReassignmentsResponse_decode version)"
    unfolding ListPartitionReassignmentsResponse_decode_def Let_def by (intro extends_rules)
qed

section \<open>GetReplicaLogInfoRequest\<close>

record GetReplicaLogInfoRequest_TopicPartitions =
  grli_req_tp_topic_id :: Uuid
  grli_req_tp_partitions :: "i32 list"
  grli_req_tp_unknown_tagged_fields :: "UnknownTaggedField list"

definition GetReplicaLogInfoRequest_TopicPartitions_default :: GetReplicaLogInfoRequest_TopicPartitions where
  "GetReplicaLogInfoRequest_TopicPartitions_default =
     \<lparr>grli_req_tp_topic_id = Uuid_ZERO, grli_req_tp_partitions = [], grli_req_tp_unknown_tagged_fields = []\<rparr>"

definition GetReplicaLogInfoRequest_TopicPartitions_encode :: "GetReplicaLogInfoRequest_TopicPartitions \<Rightarrow> i16 \<Rightarrow> encoder" where
  "GetReplicaLogInfoRequest_TopicPartitions_encode x version =
     (let flex = 0 \<le>s version in
      write_all
        [put_when (0 \<le>s version) (put_uuid (grli_req_tp_topic_id x)),
         put_when (0 \<le>s version) (put_array flex put_i32 (grli_req_tp_partitions x)),
         put_when flex (put_tagged [] (grli_req_tp_unknown_tagged_fields x))])"

definition GetReplicaLogInfoRequest_TopicPartitions_encoded_len :: "GetReplicaLogInfoRequest_TopicPartitions \<Rightarrow> i16 \<Rightarrow> nat" where
  "GetReplicaLogInfoRequest_TopicPartitions_encoded_len x version =
     (let flex = 0 \<le>s version in
      len_when (0 \<le>s version) 16
      + len_when (0 \<le>s version) (array_size flex (\<lambda>_. 4) (grli_req_tp_partitions x))
      + len_when flex (tagged_size [] (grli_req_tp_unknown_tagged_fields x)))"

definition GetReplicaLogInfoRequest_TopicPartitions_decode :: "i16 \<Rightarrow> GetReplicaLogInfoRequest_TopicPartitions decoder" where
  "GetReplicaLogInfoRequest_TopicPartitions_decode version =
     (let flex = 0 \<le>s version in
      read_then (get_into (0 \<le>s version) get_uuid (\<lambda>v out. out\<lparr>grli_req_tp_topic_id := v\<rparr>) GetReplicaLogInfoRequest_TopicPartitions_default) (\<lambda>out.
        read_then (get_into (0 \<le>s version) (get_array flex get_i32) (\<lambda>v out. out\<lparr>grli_req_tp_partitions := v\<rparr>) out) (\<lambda>out.
        get_trailer flex [] (\<lambda>u out. out\<lparr>grli_req_tp_unknown_tagged_fields := u\<rparr>) out)))"

definition GetReplicaLogInfoRequest_TopicPartitions_fields_wf :: "i16 \<Rightarrow> GetReplicaLogInfoRequest_TopicPartitions \<Rightarrow> bool" where
  "GetReplicaLogInfoRequest_TopicPartitions_fields_wf version x \<longleftrightarrow>
     (let flex = 0 \<le>s version in
      uuid_wf (grli_req_tp_topic_id x)
      \<and> array_ok flex (\<lambda>_. True) (grli_req_tp_partitions x))"

definition GetReplicaLogInfoRequest_TopicPartitions_wf :: "i16 \<Rightarrow> GetReplicaLogInfoRequest_TopicPartitions \<Rightarrow> bool" where
  "GetReplicaLogInfoRequest_TopicPartitions_wf version x \<longleftrightarrow>
     GetReplicaLogInfoRequest_TopicPartitions_fields_wf version x \<and> trailer_ok [] [] (grli_req_tp_unknown_tagged_fields x)"

lemmas get_replica_log_info_request_topic_partitions_fields =
    Let_def field_ok_def GetReplicaLogInfoRequest_TopicPartitions_fields_wf_def

lemma get_replica_log_info_request_topic_partitions_steps:
  assumes v: "0 \<le>s version" and flex: "flex = (0 \<le>s version)"
  shows "keeps (GetReplicaLogInfoRequest_TopicPartitions_fields_wf version) (get_into (0 \<le>s version) get_uuid (\<lambda>v out. out\<lparr>grli_req_tp_topic_id := v\<rparr>))"
    and "keeps (GetReplicaLogInfoRequest_TopicPartitions_fields_wf version) (get_into (0 \<le>s version) (get_array flex get_i32) (\<lambda>v out. out\<lparr>grli_req_tp_partitions := v\<rparr>))"
  unfolding flex 
  by (rule keeps_into; (rule yields_rules)?; simp add: v get_replica_log_info_request_topic_partitions_fields)+

lemma get_replica_log_info_request_topic_partitions_unknown:
  "GetReplicaLogInfoRequest_TopicPartitions_fields_wf version (s\<lparr>grli_req_tp_unknown_tagged_fields := u\<rparr>) = GetReplicaLogInfoRequest_TopicPartitions_fields_wf version s"
  by (simp_all add: GetReplicaLogInfoRequest_TopicPartitions_fields_wf_def)

lemma get_replica_log_info_request_topic_partitions_yields:
  assumes v: "0 \<le>s version"
  shows "yields 1 (GetReplicaLogInfoRequest_TopicPartitions_decode version) (GetReplicaLogInfoRequest_TopicPartitions_wf version)"
proof -
  have d: "GetReplicaLogInfoRequest_TopicPartitions_fields_wf version GetReplicaLogInfoRequest_TopicPartitions_default"
    by (simp add: GetReplicaLogInfoRequest_TopicPartitions_default_def v get_replica_log_info_request_topic_partitions_fields)
  show ?thesis
    unfolding GetReplicaLogInfoRequest_TopicPartitions_decode_def Let_def
    by ((rule get_replica_log_info_request_topic_partitions_steps[OF v refl, THEN yields_step], (rule d | assumption))+, rule yields_trailer[OF _ arms_keep_Nil[of "GetReplicaLogInfoRequest_TopicPartitions_fields_wf version" "\<lambda>_. 0"]])
      (simp_all add: v d get_replica_log_info_request_topic_partitions_unknown GetReplicaLogInfoRequest_TopicPartitions_wf_def trailer_ok_def )
qed

lemma get_replica_log_info_request_topic_partitions_extends [extends_rules]: "extends_input (GetReplicaLogInfoRequest_TopicPartitions_decode version)"
  unfolding GetReplicaLogInfoRequest_TopicPartitions_decode_def Let_def by (intro extends_rules)

lemma get_replica_log_info_request_topic_partitions_codec:
  assumes v: "0 \<le>s version"
  shows "message_codec GetReplicaLogInfoRequest_TopicPartitions_encode GetReplicaLogInfoRequest_TopicPartitions_decode GetReplicaLogInfoRequest_TopicPartitions_encoded_len (GetReplicaLogInfoRequest_TopicPartitions_wf version) version"
proof
  fix x
  assume w: "GetReplicaLogInfoRequest_TopicPartitions_wf version x"
  show "carries (GetReplicaLogInfoRequest_TopicPartitions_encode x version) (GetReplicaLogInfoRequest_TopicPartitions_decode version) (GetReplicaLogInfoRequest_TopicPartitions_encoded_len x version) x"
    unfolding GetReplicaLogInfoRequest_TopicPartitions_encode_def GetReplicaLogInfoRequest_TopicPartitions_encoded_len_def GetReplicaLogInfoRequest_TopicPartitions_decode_def Let_def
    by (use w[unfolded GetReplicaLogInfoRequest_TopicPartitions_wf_def GetReplicaLogInfoRequest_TopicPartitions_fields_wf_def Let_def] in \<open>elim conjE\<close>, rule carries_cong_len)
      ((rule carries_rules | (erule absent_guarded, assumption) | erule absent_plain
        | simp add: v field_ok_def GetReplicaLogInfoRequest_TopicPartitions_default_def )+)
next
  show "yields 1 (GetReplicaLogInfoRequest_TopicPartitions_decode version) (GetReplicaLogInfoRequest_TopicPartitions_wf version)"
    by (rule get_replica_log_info_request_topic_partitions_yields[OF v])
qed (rule get_replica_log_info_request_topic_partitions_extends)

lemma get_replica_log_info_request_topic_partitions_default_wf [simp]: "0 \<le>s version \<Longrightarrow> GetReplicaLogInfoRequest_TopicPartitions_wf version GetReplicaLogInfoRequest_TopicPartitions_default"
  by (simp add: GetReplicaLogInfoRequest_TopicPartitions_wf_def GetReplicaLogInfoRequest_TopicPartitions_default_def trailer_ok_def get_replica_log_info_request_topic_partitions_fields)

lemmas [carries_rules] = message_codec.message_carries[OF get_replica_log_info_request_topic_partitions_codec]
lemmas [yields_rules] = message_codec.message_yields[OF get_replica_log_info_request_topic_partitions_codec]

lemmas [carries_rules] = protocol_codec.put_array_carries[OF message_codec.message_protocol[OF get_replica_log_info_request_topic_partitions_codec]]
lemmas [yields_rules] = protocol_codec.get_array_yields[OF message_codec.message_protocol[OF get_replica_log_info_request_topic_partitions_codec]]
lemmas [carries_rules] = protocol_codec.put_nullable_array_carries[OF message_codec.message_protocol[OF get_replica_log_info_request_topic_partitions_codec]]
lemmas [yields_rules] = protocol_codec.get_nullable_array_yields[OF message_codec.message_protocol[OF get_replica_log_info_request_topic_partitions_codec]]

record GetReplicaLogInfoRequest =
  grli_req_broker_id :: i32
  grli_req_topic_partitions :: "GetReplicaLogInfoRequest_TopicPartitions list"
  grli_req_unknown_tagged_fields :: "UnknownTaggedField list"

definition GetReplicaLogInfoRequest_default :: GetReplicaLogInfoRequest where
  "GetReplicaLogInfoRequest_default =
     \<lparr>grli_req_broker_id = 0, grli_req_topic_partitions = [], grli_req_unknown_tagged_fields = []\<rparr>"

definition GetReplicaLogInfoRequest_MIN_VERSION :: i16 where
  "GetReplicaLogInfoRequest_MIN_VERSION = 0"

definition GetReplicaLogInfoRequest_MAX_VERSION :: i16 where
  "GetReplicaLogInfoRequest_MAX_VERSION = 0"

definition GetReplicaLogInfoRequest_FLEXIBLE_MIN :: i16 where
  "GetReplicaLogInfoRequest_FLEXIBLE_MIN = 0"

definition GetReplicaLogInfoRequest_API_KEY :: i16 where
  "GetReplicaLogInfoRequest_API_KEY = 1020"

definition GetReplicaLogInfoRequest_is_flexible :: "i16 \<Rightarrow> bool" where
  "GetReplicaLogInfoRequest_is_flexible version \<longleftrightarrow> GetReplicaLogInfoRequest_FLEXIBLE_MIN \<le>s version"

definition GetReplicaLogInfoRequest_encode :: "GetReplicaLogInfoRequest \<Rightarrow> i16 \<Rightarrow> encoder" where
  "GetReplicaLogInfoRequest_encode x version =
     (let flex = GetReplicaLogInfoRequest_is_flexible version in
      write_all
        [write_check (check_version GetReplicaLogInfoRequest_API_KEY version GetReplicaLogInfoRequest_MIN_VERSION GetReplicaLogInfoRequest_MAX_VERSION),
         put_when (0 \<le>s version) (put_i32 (grli_req_broker_id x)),
         put_when (0 \<le>s version) (put_array flex (\<lambda>it. GetReplicaLogInfoRequest_TopicPartitions_encode it version) (grli_req_topic_partitions x)),
         put_when flex (put_tagged [] (grli_req_unknown_tagged_fields x))])"

definition GetReplicaLogInfoRequest_encoded_len :: "GetReplicaLogInfoRequest \<Rightarrow> i16 \<Rightarrow> nat" where
  "GetReplicaLogInfoRequest_encoded_len x version =
     (let flex = GetReplicaLogInfoRequest_is_flexible version in
      len_when (0 \<le>s version) 4
      + len_when (0 \<le>s version) (array_size flex (\<lambda>it. GetReplicaLogInfoRequest_TopicPartitions_encoded_len it version) (grli_req_topic_partitions x))
      + len_when flex (tagged_size [] (grli_req_unknown_tagged_fields x)))"

definition GetReplicaLogInfoRequest_decode :: "i16 \<Rightarrow> GetReplicaLogInfoRequest decoder" where
  "GetReplicaLogInfoRequest_decode version =
     (let flex = GetReplicaLogInfoRequest_is_flexible version in
      checked (check_version GetReplicaLogInfoRequest_API_KEY version GetReplicaLogInfoRequest_MIN_VERSION GetReplicaLogInfoRequest_MAX_VERSION) (
        read_then (get_into (0 \<le>s version) get_i32 (\<lambda>v out. out\<lparr>grli_req_broker_id := v\<rparr>) GetReplicaLogInfoRequest_default) (\<lambda>out.
        read_then (get_into (0 \<le>s version) (get_array flex (GetReplicaLogInfoRequest_TopicPartitions_decode version)) (\<lambda>v out. out\<lparr>grli_req_topic_partitions := v\<rparr>) out) (\<lambda>out.
        get_trailer flex [] (\<lambda>u out. out\<lparr>grli_req_unknown_tagged_fields := u\<rparr>) out))))"

definition GetReplicaLogInfoRequest_fields_wf :: "i16 \<Rightarrow> GetReplicaLogInfoRequest \<Rightarrow> bool" where
  "GetReplicaLogInfoRequest_fields_wf version x \<longleftrightarrow>
     (let flex = GetReplicaLogInfoRequest_is_flexible version in
      array_ok flex (GetReplicaLogInfoRequest_TopicPartitions_wf version) (grli_req_topic_partitions x))"

definition GetReplicaLogInfoRequest_wf :: "i16 \<Rightarrow> GetReplicaLogInfoRequest \<Rightarrow> bool" where
  "GetReplicaLogInfoRequest_wf version x \<longleftrightarrow>
     version_in GetReplicaLogInfoRequest_MIN_VERSION GetReplicaLogInfoRequest_MAX_VERSION version \<and> GetReplicaLogInfoRequest_fields_wf version x \<and> trailer_ok [] [] (grli_req_unknown_tagged_fields x)"

lemmas get_replica_log_info_request_versions =
    GetReplicaLogInfoRequest_is_flexible_def GetReplicaLogInfoRequest_FLEXIBLE_MIN_def
    GetReplicaLogInfoRequest_MIN_VERSION_def GetReplicaLogInfoRequest_MAX_VERSION_def version_in_def

lemmas get_replica_log_info_request_fields =
    Let_def field_ok_def GetReplicaLogInfoRequest_fields_wf_def GetReplicaLogInfoRequest_is_flexible_def
    GetReplicaLogInfoRequest_FLEXIBLE_MIN_def

lemma get_replica_log_info_request_steps:
  assumes v: "0 \<le>s version" and flex: "flex = (GetReplicaLogInfoRequest_is_flexible version)"
  shows "keeps (GetReplicaLogInfoRequest_fields_wf version) (get_into (0 \<le>s version) get_i32 (\<lambda>v out. out\<lparr>grli_req_broker_id := v\<rparr>))"
    and "keeps (GetReplicaLogInfoRequest_fields_wf version) (get_into (0 \<le>s version) (get_array flex (GetReplicaLogInfoRequest_TopicPartitions_decode version)) (\<lambda>v out. out\<lparr>grli_req_topic_partitions := v\<rparr>))"
  unfolding flex 
  by (rule keeps_into; (rule yields_rules)?; simp add: v get_replica_log_info_request_fields)+

lemma get_replica_log_info_request_unknown:
  "GetReplicaLogInfoRequest_fields_wf version (s\<lparr>grli_req_unknown_tagged_fields := u\<rparr>) = GetReplicaLogInfoRequest_fields_wf version s"
  by (simp_all add: GetReplicaLogInfoRequest_fields_wf_def)

lemma get_replica_log_info_request_yields:
  assumes r: "version_in GetReplicaLogInfoRequest_MIN_VERSION GetReplicaLogInfoRequest_MAX_VERSION version"
  shows "yields 1 (GetReplicaLogInfoRequest_decode version) (GetReplicaLogInfoRequest_wf version)"
proof -
  have v: "0 \<le>s version"
    using r by (simp add: get_replica_log_info_request_versions)
  have d: "GetReplicaLogInfoRequest_fields_wf version GetReplicaLogInfoRequest_default"
    by (simp add: GetReplicaLogInfoRequest_default_def v get_replica_log_info_request_fields)
  show ?thesis
    unfolding GetReplicaLogInfoRequest_decode_def Let_def
    by (rule yields_checked, (rule get_replica_log_info_request_steps[OF v refl, THEN yields_step], (rule d | assumption))+, rule yields_trailer[OF _ arms_keep_Nil[of "GetReplicaLogInfoRequest_fields_wf version" "\<lambda>_. 0"]])
      (simp_all add: v d get_replica_log_info_request_unknown GetReplicaLogInfoRequest_wf_def trailer_ok_def r GetReplicaLogInfoRequest_is_flexible_def GetReplicaLogInfoRequest_FLEXIBLE_MIN_def)
qed

interpretation get_replica_log_info_request: message_codec
  GetReplicaLogInfoRequest_encode GetReplicaLogInfoRequest_decode GetReplicaLogInfoRequest_encoded_len "GetReplicaLogInfoRequest_wf version" version
  for version
proof
  fix x
  assume w: "GetReplicaLogInfoRequest_wf version x"
  then have v: "0 \<le>s version"
    by (simp add: GetReplicaLogInfoRequest_wf_def get_replica_log_info_request_versions)
  show "carries (GetReplicaLogInfoRequest_encode x version) (GetReplicaLogInfoRequest_decode version) (GetReplicaLogInfoRequest_encoded_len x version) x"
    unfolding GetReplicaLogInfoRequest_encode_def GetReplicaLogInfoRequest_encoded_len_def GetReplicaLogInfoRequest_decode_def Let_def
    by (use w[unfolded GetReplicaLogInfoRequest_wf_def GetReplicaLogInfoRequest_fields_wf_def Let_def] in \<open>elim conjE\<close>, rule carries_cong_len)
      ((rule carries_rules check_version_in[THEN iffD2] | (erule absent_guarded, assumption) | erule absent_plain
        | simp add: v field_ok_def GetReplicaLogInfoRequest_default_def get_replica_log_info_request_versions)+)
next
  show "yields 1 (GetReplicaLogInfoRequest_decode version) (GetReplicaLogInfoRequest_wf version)"
    by (rule case_split[OF get_replica_log_info_request_yields]) (auto simp: GetReplicaLogInfoRequest_decode_def Let_def yields_refused yields_unsupported)
  show "extends_input (GetReplicaLogInfoRequest_decode version)"
    unfolding GetReplicaLogInfoRequest_decode_def Let_def by (intro extends_rules)
qed

section \<open>GetReplicaLogInfoResponse\<close>

record GetReplicaLogInfoResponse_PartitionLogInfo =
  grli_resp_pli_partition :: i32
  grli_resp_pli_last_written_leader_epoch :: i32
  grli_resp_pli_current_leader_epoch :: i32
  grli_resp_pli_log_end_offset :: i64
  grli_resp_pli_error_code :: i16
  grli_resp_pli_error_message :: "bytes option"
  grli_resp_pli_unknown_tagged_fields :: "UnknownTaggedField list"

definition GetReplicaLogInfoResponse_PartitionLogInfo_default :: GetReplicaLogInfoResponse_PartitionLogInfo where
  "GetReplicaLogInfoResponse_PartitionLogInfo_default =
     \<lparr>grli_resp_pli_partition = 0, grli_resp_pli_last_written_leader_epoch = 0, grli_resp_pli_current_leader_epoch = 0, grli_resp_pli_log_end_offset = 0, grli_resp_pli_error_code = 0, grli_resp_pli_error_message = None, grli_resp_pli_unknown_tagged_fields = []\<rparr>"

definition GetReplicaLogInfoResponse_PartitionLogInfo_encode :: "GetReplicaLogInfoResponse_PartitionLogInfo \<Rightarrow> i16 \<Rightarrow> encoder" where
  "GetReplicaLogInfoResponse_PartitionLogInfo_encode x version =
     (let flex = 0 \<le>s version in
      write_all
        [put_when (0 \<le>s version) (put_i32 (grli_resp_pli_partition x)),
         put_when (0 \<le>s version) (put_i32 (grli_resp_pli_last_written_leader_epoch x)),
         put_when (0 \<le>s version) (put_i32 (grli_resp_pli_current_leader_epoch x)),
         put_when (0 \<le>s version) (put_i64 (grli_resp_pli_log_end_offset x)),
         put_when (0 \<le>s version) (put_i16 (grli_resp_pli_error_code x)),
         put_when (0 \<le>s version) (put_nullable_str flex (grli_resp_pli_error_message x)),
         put_when flex (put_tagged [] (grli_resp_pli_unknown_tagged_fields x))])"

definition GetReplicaLogInfoResponse_PartitionLogInfo_encoded_len :: "GetReplicaLogInfoResponse_PartitionLogInfo \<Rightarrow> i16 \<Rightarrow> nat" where
  "GetReplicaLogInfoResponse_PartitionLogInfo_encoded_len x version =
     (let flex = 0 \<le>s version in
      len_when (0 \<le>s version) 4
      + len_when (0 \<le>s version) 4
      + len_when (0 \<le>s version) 4
      + len_when (0 \<le>s version) 8
      + len_when (0 \<le>s version) 2
      + len_when (0 \<le>s version) (nullable_str_len flex (grli_resp_pli_error_message x))
      + len_when flex (tagged_size [] (grli_resp_pli_unknown_tagged_fields x)))"

definition GetReplicaLogInfoResponse_PartitionLogInfo_decode :: "i16 \<Rightarrow> GetReplicaLogInfoResponse_PartitionLogInfo decoder" where
  "GetReplicaLogInfoResponse_PartitionLogInfo_decode version =
     (let flex = 0 \<le>s version in
      read_then (get_into (0 \<le>s version) get_i32 (\<lambda>v out. out\<lparr>grli_resp_pli_partition := v\<rparr>) GetReplicaLogInfoResponse_PartitionLogInfo_default) (\<lambda>out.
        read_then (get_into (0 \<le>s version) get_i32 (\<lambda>v out. out\<lparr>grli_resp_pli_last_written_leader_epoch := v\<rparr>) out) (\<lambda>out.
        read_then (get_into (0 \<le>s version) get_i32 (\<lambda>v out. out\<lparr>grli_resp_pli_current_leader_epoch := v\<rparr>) out) (\<lambda>out.
        read_then (get_into (0 \<le>s version) get_i64 (\<lambda>v out. out\<lparr>grli_resp_pli_log_end_offset := v\<rparr>) out) (\<lambda>out.
        read_then (get_into (0 \<le>s version) get_i16 (\<lambda>v out. out\<lparr>grli_resp_pli_error_code := v\<rparr>) out) (\<lambda>out.
        read_then (get_into (0 \<le>s version) (get_nullable_str flex) (\<lambda>v out. out\<lparr>grli_resp_pli_error_message := v\<rparr>) out) (\<lambda>out.
        get_trailer flex [] (\<lambda>u out. out\<lparr>grli_resp_pli_unknown_tagged_fields := u\<rparr>) out)))))))"

definition GetReplicaLogInfoResponse_PartitionLogInfo_fields_wf :: "i16 \<Rightarrow> GetReplicaLogInfoResponse_PartitionLogInfo \<Rightarrow> bool" where
  "GetReplicaLogInfoResponse_PartitionLogInfo_fields_wf version x \<longleftrightarrow>
     (let flex = 0 \<le>s version in
      nullable_str_wf flex (grli_resp_pli_error_message x))"

definition GetReplicaLogInfoResponse_PartitionLogInfo_wf :: "i16 \<Rightarrow> GetReplicaLogInfoResponse_PartitionLogInfo \<Rightarrow> bool" where
  "GetReplicaLogInfoResponse_PartitionLogInfo_wf version x \<longleftrightarrow>
     GetReplicaLogInfoResponse_PartitionLogInfo_fields_wf version x \<and> trailer_ok [] [] (grli_resp_pli_unknown_tagged_fields x)"

lemmas get_replica_log_info_response_partition_log_info_fields =
    Let_def field_ok_def GetReplicaLogInfoResponse_PartitionLogInfo_fields_wf_def

lemma get_replica_log_info_response_partition_log_info_steps:
  assumes v: "0 \<le>s version" and flex: "flex = (0 \<le>s version)"
  shows "keeps (GetReplicaLogInfoResponse_PartitionLogInfo_fields_wf version) (get_into (0 \<le>s version) get_i32 (\<lambda>v out. out\<lparr>grli_resp_pli_partition := v\<rparr>))"
    and "keeps (GetReplicaLogInfoResponse_PartitionLogInfo_fields_wf version) (get_into (0 \<le>s version) get_i32 (\<lambda>v out. out\<lparr>grli_resp_pli_last_written_leader_epoch := v\<rparr>))"
    and "keeps (GetReplicaLogInfoResponse_PartitionLogInfo_fields_wf version) (get_into (0 \<le>s version) get_i32 (\<lambda>v out. out\<lparr>grli_resp_pli_current_leader_epoch := v\<rparr>))"
    and "keeps (GetReplicaLogInfoResponse_PartitionLogInfo_fields_wf version) (get_into (0 \<le>s version) get_i64 (\<lambda>v out. out\<lparr>grli_resp_pli_log_end_offset := v\<rparr>))"
    and "keeps (GetReplicaLogInfoResponse_PartitionLogInfo_fields_wf version) (get_into (0 \<le>s version) get_i16 (\<lambda>v out. out\<lparr>grli_resp_pli_error_code := v\<rparr>))"
    and "keeps (GetReplicaLogInfoResponse_PartitionLogInfo_fields_wf version) (get_into (0 \<le>s version) (get_nullable_str flex) (\<lambda>v out. out\<lparr>grli_resp_pli_error_message := v\<rparr>))"
  unfolding flex 
  by (rule keeps_into; (rule yields_rules)?; simp add: v get_replica_log_info_response_partition_log_info_fields)+

lemma get_replica_log_info_response_partition_log_info_unknown:
  "GetReplicaLogInfoResponse_PartitionLogInfo_fields_wf version (s\<lparr>grli_resp_pli_unknown_tagged_fields := u\<rparr>) = GetReplicaLogInfoResponse_PartitionLogInfo_fields_wf version s"
  by (simp_all add: GetReplicaLogInfoResponse_PartitionLogInfo_fields_wf_def)

lemma get_replica_log_info_response_partition_log_info_yields:
  assumes v: "0 \<le>s version"
  shows "yields 1 (GetReplicaLogInfoResponse_PartitionLogInfo_decode version) (GetReplicaLogInfoResponse_PartitionLogInfo_wf version)"
proof -
  have d: "GetReplicaLogInfoResponse_PartitionLogInfo_fields_wf version GetReplicaLogInfoResponse_PartitionLogInfo_default"
    by (simp add: GetReplicaLogInfoResponse_PartitionLogInfo_default_def v get_replica_log_info_response_partition_log_info_fields)
  show ?thesis
    unfolding GetReplicaLogInfoResponse_PartitionLogInfo_decode_def Let_def
    by ((rule get_replica_log_info_response_partition_log_info_steps[OF v refl, THEN yields_step], (rule d | assumption))+, rule yields_trailer[OF _ arms_keep_Nil[of "GetReplicaLogInfoResponse_PartitionLogInfo_fields_wf version" "\<lambda>_. 0"]])
      (simp_all add: v d get_replica_log_info_response_partition_log_info_unknown GetReplicaLogInfoResponse_PartitionLogInfo_wf_def trailer_ok_def )
qed

lemma get_replica_log_info_response_partition_log_info_extends [extends_rules]: "extends_input (GetReplicaLogInfoResponse_PartitionLogInfo_decode version)"
  unfolding GetReplicaLogInfoResponse_PartitionLogInfo_decode_def Let_def by (intro extends_rules)

lemma get_replica_log_info_response_partition_log_info_codec:
  assumes v: "0 \<le>s version"
  shows "message_codec GetReplicaLogInfoResponse_PartitionLogInfo_encode GetReplicaLogInfoResponse_PartitionLogInfo_decode GetReplicaLogInfoResponse_PartitionLogInfo_encoded_len (GetReplicaLogInfoResponse_PartitionLogInfo_wf version) version"
proof
  fix x
  assume w: "GetReplicaLogInfoResponse_PartitionLogInfo_wf version x"
  show "carries (GetReplicaLogInfoResponse_PartitionLogInfo_encode x version) (GetReplicaLogInfoResponse_PartitionLogInfo_decode version) (GetReplicaLogInfoResponse_PartitionLogInfo_encoded_len x version) x"
    unfolding GetReplicaLogInfoResponse_PartitionLogInfo_encode_def GetReplicaLogInfoResponse_PartitionLogInfo_encoded_len_def GetReplicaLogInfoResponse_PartitionLogInfo_decode_def Let_def
    by (use w[unfolded GetReplicaLogInfoResponse_PartitionLogInfo_wf_def GetReplicaLogInfoResponse_PartitionLogInfo_fields_wf_def Let_def] in \<open>elim conjE\<close>, rule carries_cong_len)
      ((rule carries_rules | (erule absent_guarded, assumption) | erule absent_plain
        | simp add: v field_ok_def GetReplicaLogInfoResponse_PartitionLogInfo_default_def )+)
next
  show "yields 1 (GetReplicaLogInfoResponse_PartitionLogInfo_decode version) (GetReplicaLogInfoResponse_PartitionLogInfo_wf version)"
    by (rule get_replica_log_info_response_partition_log_info_yields[OF v])
qed (rule get_replica_log_info_response_partition_log_info_extends)

lemma get_replica_log_info_response_partition_log_info_default_wf [simp]: "0 \<le>s version \<Longrightarrow> GetReplicaLogInfoResponse_PartitionLogInfo_wf version GetReplicaLogInfoResponse_PartitionLogInfo_default"
  by (simp add: GetReplicaLogInfoResponse_PartitionLogInfo_wf_def GetReplicaLogInfoResponse_PartitionLogInfo_default_def trailer_ok_def get_replica_log_info_response_partition_log_info_fields)

lemmas [carries_rules] = message_codec.message_carries[OF get_replica_log_info_response_partition_log_info_codec]
lemmas [yields_rules] = message_codec.message_yields[OF get_replica_log_info_response_partition_log_info_codec]

lemmas [carries_rules] = protocol_codec.put_array_carries[OF message_codec.message_protocol[OF get_replica_log_info_response_partition_log_info_codec]]
lemmas [yields_rules] = protocol_codec.get_array_yields[OF message_codec.message_protocol[OF get_replica_log_info_response_partition_log_info_codec]]
lemmas [carries_rules] = protocol_codec.put_nullable_array_carries[OF message_codec.message_protocol[OF get_replica_log_info_response_partition_log_info_codec]]
lemmas [yields_rules] = protocol_codec.get_nullable_array_yields[OF message_codec.message_protocol[OF get_replica_log_info_response_partition_log_info_codec]]

record GetReplicaLogInfoResponse_TopicPartitionLogInfo =
  grli_resp_tpli_topic_id :: Uuid
  grli_resp_tpli_partition_log_info :: "GetReplicaLogInfoResponse_PartitionLogInfo list"
  grli_resp_tpli_unknown_tagged_fields :: "UnknownTaggedField list"

definition GetReplicaLogInfoResponse_TopicPartitionLogInfo_default :: GetReplicaLogInfoResponse_TopicPartitionLogInfo where
  "GetReplicaLogInfoResponse_TopicPartitionLogInfo_default =
     \<lparr>grli_resp_tpli_topic_id = Uuid_ZERO, grli_resp_tpli_partition_log_info = [], grli_resp_tpli_unknown_tagged_fields = []\<rparr>"

definition GetReplicaLogInfoResponse_TopicPartitionLogInfo_encode :: "GetReplicaLogInfoResponse_TopicPartitionLogInfo \<Rightarrow> i16 \<Rightarrow> encoder" where
  "GetReplicaLogInfoResponse_TopicPartitionLogInfo_encode x version =
     (let flex = 0 \<le>s version in
      write_all
        [put_when (0 \<le>s version) (put_uuid (grli_resp_tpli_topic_id x)),
         put_when (0 \<le>s version) (put_array flex (\<lambda>it. GetReplicaLogInfoResponse_PartitionLogInfo_encode it version) (grli_resp_tpli_partition_log_info x)),
         put_when flex (put_tagged [] (grli_resp_tpli_unknown_tagged_fields x))])"

definition GetReplicaLogInfoResponse_TopicPartitionLogInfo_encoded_len :: "GetReplicaLogInfoResponse_TopicPartitionLogInfo \<Rightarrow> i16 \<Rightarrow> nat" where
  "GetReplicaLogInfoResponse_TopicPartitionLogInfo_encoded_len x version =
     (let flex = 0 \<le>s version in
      len_when (0 \<le>s version) 16
      + len_when (0 \<le>s version) (array_size flex (\<lambda>it. GetReplicaLogInfoResponse_PartitionLogInfo_encoded_len it version) (grli_resp_tpli_partition_log_info x))
      + len_when flex (tagged_size [] (grli_resp_tpli_unknown_tagged_fields x)))"

definition GetReplicaLogInfoResponse_TopicPartitionLogInfo_decode :: "i16 \<Rightarrow> GetReplicaLogInfoResponse_TopicPartitionLogInfo decoder" where
  "GetReplicaLogInfoResponse_TopicPartitionLogInfo_decode version =
     (let flex = 0 \<le>s version in
      read_then (get_into (0 \<le>s version) get_uuid (\<lambda>v out. out\<lparr>grli_resp_tpli_topic_id := v\<rparr>) GetReplicaLogInfoResponse_TopicPartitionLogInfo_default) (\<lambda>out.
        read_then (get_into (0 \<le>s version) (get_array flex (GetReplicaLogInfoResponse_PartitionLogInfo_decode version)) (\<lambda>v out. out\<lparr>grli_resp_tpli_partition_log_info := v\<rparr>) out) (\<lambda>out.
        get_trailer flex [] (\<lambda>u out. out\<lparr>grli_resp_tpli_unknown_tagged_fields := u\<rparr>) out)))"

definition GetReplicaLogInfoResponse_TopicPartitionLogInfo_fields_wf :: "i16 \<Rightarrow> GetReplicaLogInfoResponse_TopicPartitionLogInfo \<Rightarrow> bool" where
  "GetReplicaLogInfoResponse_TopicPartitionLogInfo_fields_wf version x \<longleftrightarrow>
     (let flex = 0 \<le>s version in
      uuid_wf (grli_resp_tpli_topic_id x)
      \<and> array_ok flex (GetReplicaLogInfoResponse_PartitionLogInfo_wf version) (grli_resp_tpli_partition_log_info x))"

definition GetReplicaLogInfoResponse_TopicPartitionLogInfo_wf :: "i16 \<Rightarrow> GetReplicaLogInfoResponse_TopicPartitionLogInfo \<Rightarrow> bool" where
  "GetReplicaLogInfoResponse_TopicPartitionLogInfo_wf version x \<longleftrightarrow>
     GetReplicaLogInfoResponse_TopicPartitionLogInfo_fields_wf version x \<and> trailer_ok [] [] (grli_resp_tpli_unknown_tagged_fields x)"

lemmas get_replica_log_info_response_topic_partition_log_info_fields =
    Let_def field_ok_def GetReplicaLogInfoResponse_TopicPartitionLogInfo_fields_wf_def

lemma get_replica_log_info_response_topic_partition_log_info_steps:
  assumes v: "0 \<le>s version" and flex: "flex = (0 \<le>s version)"
  shows "keeps (GetReplicaLogInfoResponse_TopicPartitionLogInfo_fields_wf version) (get_into (0 \<le>s version) get_uuid (\<lambda>v out. out\<lparr>grli_resp_tpli_topic_id := v\<rparr>))"
    and "keeps (GetReplicaLogInfoResponse_TopicPartitionLogInfo_fields_wf version) (get_into (0 \<le>s version) (get_array flex (GetReplicaLogInfoResponse_PartitionLogInfo_decode version)) (\<lambda>v out. out\<lparr>grli_resp_tpli_partition_log_info := v\<rparr>))"
  unfolding flex 
  by (rule keeps_into; (rule yields_rules)?; simp add: v get_replica_log_info_response_topic_partition_log_info_fields)+

lemma get_replica_log_info_response_topic_partition_log_info_unknown:
  "GetReplicaLogInfoResponse_TopicPartitionLogInfo_fields_wf version (s\<lparr>grli_resp_tpli_unknown_tagged_fields := u\<rparr>) = GetReplicaLogInfoResponse_TopicPartitionLogInfo_fields_wf version s"
  by (simp_all add: GetReplicaLogInfoResponse_TopicPartitionLogInfo_fields_wf_def)

lemma get_replica_log_info_response_topic_partition_log_info_yields:
  assumes v: "0 \<le>s version"
  shows "yields 1 (GetReplicaLogInfoResponse_TopicPartitionLogInfo_decode version) (GetReplicaLogInfoResponse_TopicPartitionLogInfo_wf version)"
proof -
  have d: "GetReplicaLogInfoResponse_TopicPartitionLogInfo_fields_wf version GetReplicaLogInfoResponse_TopicPartitionLogInfo_default"
    by (simp add: GetReplicaLogInfoResponse_TopicPartitionLogInfo_default_def v get_replica_log_info_response_topic_partition_log_info_fields)
  show ?thesis
    unfolding GetReplicaLogInfoResponse_TopicPartitionLogInfo_decode_def Let_def
    by ((rule get_replica_log_info_response_topic_partition_log_info_steps[OF v refl, THEN yields_step], (rule d | assumption))+, rule yields_trailer[OF _ arms_keep_Nil[of "GetReplicaLogInfoResponse_TopicPartitionLogInfo_fields_wf version" "\<lambda>_. 0"]])
      (simp_all add: v d get_replica_log_info_response_topic_partition_log_info_unknown GetReplicaLogInfoResponse_TopicPartitionLogInfo_wf_def trailer_ok_def )
qed

lemma get_replica_log_info_response_topic_partition_log_info_extends [extends_rules]: "extends_input (GetReplicaLogInfoResponse_TopicPartitionLogInfo_decode version)"
  unfolding GetReplicaLogInfoResponse_TopicPartitionLogInfo_decode_def Let_def by (intro extends_rules)

lemma get_replica_log_info_response_topic_partition_log_info_codec:
  assumes v: "0 \<le>s version"
  shows "message_codec GetReplicaLogInfoResponse_TopicPartitionLogInfo_encode GetReplicaLogInfoResponse_TopicPartitionLogInfo_decode GetReplicaLogInfoResponse_TopicPartitionLogInfo_encoded_len (GetReplicaLogInfoResponse_TopicPartitionLogInfo_wf version) version"
proof
  fix x
  assume w: "GetReplicaLogInfoResponse_TopicPartitionLogInfo_wf version x"
  show "carries (GetReplicaLogInfoResponse_TopicPartitionLogInfo_encode x version) (GetReplicaLogInfoResponse_TopicPartitionLogInfo_decode version) (GetReplicaLogInfoResponse_TopicPartitionLogInfo_encoded_len x version) x"
    unfolding GetReplicaLogInfoResponse_TopicPartitionLogInfo_encode_def GetReplicaLogInfoResponse_TopicPartitionLogInfo_encoded_len_def GetReplicaLogInfoResponse_TopicPartitionLogInfo_decode_def Let_def
    by (use w[unfolded GetReplicaLogInfoResponse_TopicPartitionLogInfo_wf_def GetReplicaLogInfoResponse_TopicPartitionLogInfo_fields_wf_def Let_def] in \<open>elim conjE\<close>, rule carries_cong_len)
      ((rule carries_rules | (erule absent_guarded, assumption) | erule absent_plain
        | simp add: v field_ok_def GetReplicaLogInfoResponse_TopicPartitionLogInfo_default_def )+)
next
  show "yields 1 (GetReplicaLogInfoResponse_TopicPartitionLogInfo_decode version) (GetReplicaLogInfoResponse_TopicPartitionLogInfo_wf version)"
    by (rule get_replica_log_info_response_topic_partition_log_info_yields[OF v])
qed (rule get_replica_log_info_response_topic_partition_log_info_extends)

lemma get_replica_log_info_response_topic_partition_log_info_default_wf [simp]: "0 \<le>s version \<Longrightarrow> GetReplicaLogInfoResponse_TopicPartitionLogInfo_wf version GetReplicaLogInfoResponse_TopicPartitionLogInfo_default"
  by (simp add: GetReplicaLogInfoResponse_TopicPartitionLogInfo_wf_def GetReplicaLogInfoResponse_TopicPartitionLogInfo_default_def trailer_ok_def get_replica_log_info_response_topic_partition_log_info_fields)

lemmas [carries_rules] = message_codec.message_carries[OF get_replica_log_info_response_topic_partition_log_info_codec]
lemmas [yields_rules] = message_codec.message_yields[OF get_replica_log_info_response_topic_partition_log_info_codec]

lemmas [carries_rules] = protocol_codec.put_array_carries[OF message_codec.message_protocol[OF get_replica_log_info_response_topic_partition_log_info_codec]]
lemmas [yields_rules] = protocol_codec.get_array_yields[OF message_codec.message_protocol[OF get_replica_log_info_response_topic_partition_log_info_codec]]
lemmas [carries_rules] = protocol_codec.put_nullable_array_carries[OF message_codec.message_protocol[OF get_replica_log_info_response_topic_partition_log_info_codec]]
lemmas [yields_rules] = protocol_codec.get_nullable_array_yields[OF message_codec.message_protocol[OF get_replica_log_info_response_topic_partition_log_info_codec]]

record GetReplicaLogInfoResponse =
  grli_resp_broker_epoch :: i64
  grli_resp_topic_partition_log_info_list :: "GetReplicaLogInfoResponse_TopicPartitionLogInfo list"
  grli_resp_unknown_tagged_fields :: "UnknownTaggedField list"

definition GetReplicaLogInfoResponse_default :: GetReplicaLogInfoResponse where
  "GetReplicaLogInfoResponse_default =
     \<lparr>grli_resp_broker_epoch = 0, grli_resp_topic_partition_log_info_list = [], grli_resp_unknown_tagged_fields = []\<rparr>"

definition GetReplicaLogInfoResponse_MIN_VERSION :: i16 where
  "GetReplicaLogInfoResponse_MIN_VERSION = 0"

definition GetReplicaLogInfoResponse_MAX_VERSION :: i16 where
  "GetReplicaLogInfoResponse_MAX_VERSION = 0"

definition GetReplicaLogInfoResponse_FLEXIBLE_MIN :: i16 where
  "GetReplicaLogInfoResponse_FLEXIBLE_MIN = 0"

definition GetReplicaLogInfoResponse_API_KEY :: i16 where
  "GetReplicaLogInfoResponse_API_KEY = 1020"

definition GetReplicaLogInfoResponse_is_flexible :: "i16 \<Rightarrow> bool" where
  "GetReplicaLogInfoResponse_is_flexible version \<longleftrightarrow> GetReplicaLogInfoResponse_FLEXIBLE_MIN \<le>s version"

definition GetReplicaLogInfoResponse_encode :: "GetReplicaLogInfoResponse \<Rightarrow> i16 \<Rightarrow> encoder" where
  "GetReplicaLogInfoResponse_encode x version =
     (let flex = GetReplicaLogInfoResponse_is_flexible version in
      write_all
        [write_check (check_version GetReplicaLogInfoResponse_API_KEY version GetReplicaLogInfoResponse_MIN_VERSION GetReplicaLogInfoResponse_MAX_VERSION),
         put_when (0 \<le>s version) (put_i64 (grli_resp_broker_epoch x)),
         put_when (0 \<le>s version) (put_array flex (\<lambda>it. GetReplicaLogInfoResponse_TopicPartitionLogInfo_encode it version) (grli_resp_topic_partition_log_info_list x)),
         put_when flex (put_tagged [] (grli_resp_unknown_tagged_fields x))])"

definition GetReplicaLogInfoResponse_encoded_len :: "GetReplicaLogInfoResponse \<Rightarrow> i16 \<Rightarrow> nat" where
  "GetReplicaLogInfoResponse_encoded_len x version =
     (let flex = GetReplicaLogInfoResponse_is_flexible version in
      len_when (0 \<le>s version) 8
      + len_when (0 \<le>s version) (array_size flex (\<lambda>it. GetReplicaLogInfoResponse_TopicPartitionLogInfo_encoded_len it version) (grli_resp_topic_partition_log_info_list x))
      + len_when flex (tagged_size [] (grli_resp_unknown_tagged_fields x)))"

definition GetReplicaLogInfoResponse_decode :: "i16 \<Rightarrow> GetReplicaLogInfoResponse decoder" where
  "GetReplicaLogInfoResponse_decode version =
     (let flex = GetReplicaLogInfoResponse_is_flexible version in
      checked (check_version GetReplicaLogInfoResponse_API_KEY version GetReplicaLogInfoResponse_MIN_VERSION GetReplicaLogInfoResponse_MAX_VERSION) (
        read_then (get_into (0 \<le>s version) get_i64 (\<lambda>v out. out\<lparr>grli_resp_broker_epoch := v\<rparr>) GetReplicaLogInfoResponse_default) (\<lambda>out.
        read_then (get_into (0 \<le>s version) (get_array flex (GetReplicaLogInfoResponse_TopicPartitionLogInfo_decode version)) (\<lambda>v out. out\<lparr>grli_resp_topic_partition_log_info_list := v\<rparr>) out) (\<lambda>out.
        get_trailer flex [] (\<lambda>u out. out\<lparr>grli_resp_unknown_tagged_fields := u\<rparr>) out))))"

definition GetReplicaLogInfoResponse_fields_wf :: "i16 \<Rightarrow> GetReplicaLogInfoResponse \<Rightarrow> bool" where
  "GetReplicaLogInfoResponse_fields_wf version x \<longleftrightarrow>
     (let flex = GetReplicaLogInfoResponse_is_flexible version in
      array_ok flex (GetReplicaLogInfoResponse_TopicPartitionLogInfo_wf version) (grli_resp_topic_partition_log_info_list x))"

definition GetReplicaLogInfoResponse_wf :: "i16 \<Rightarrow> GetReplicaLogInfoResponse \<Rightarrow> bool" where
  "GetReplicaLogInfoResponse_wf version x \<longleftrightarrow>
     version_in GetReplicaLogInfoResponse_MIN_VERSION GetReplicaLogInfoResponse_MAX_VERSION version \<and> GetReplicaLogInfoResponse_fields_wf version x \<and> trailer_ok [] [] (grli_resp_unknown_tagged_fields x)"

lemmas get_replica_log_info_response_versions =
    GetReplicaLogInfoResponse_is_flexible_def GetReplicaLogInfoResponse_FLEXIBLE_MIN_def
    GetReplicaLogInfoResponse_MIN_VERSION_def GetReplicaLogInfoResponse_MAX_VERSION_def version_in_def

lemmas get_replica_log_info_response_fields =
    Let_def field_ok_def GetReplicaLogInfoResponse_fields_wf_def GetReplicaLogInfoResponse_is_flexible_def
    GetReplicaLogInfoResponse_FLEXIBLE_MIN_def

lemma get_replica_log_info_response_steps:
  assumes v: "0 \<le>s version" and flex: "flex = (GetReplicaLogInfoResponse_is_flexible version)"
  shows "keeps (GetReplicaLogInfoResponse_fields_wf version) (get_into (0 \<le>s version) get_i64 (\<lambda>v out. out\<lparr>grli_resp_broker_epoch := v\<rparr>))"
    and "keeps (GetReplicaLogInfoResponse_fields_wf version) (get_into (0 \<le>s version) (get_array flex (GetReplicaLogInfoResponse_TopicPartitionLogInfo_decode version)) (\<lambda>v out. out\<lparr>grli_resp_topic_partition_log_info_list := v\<rparr>))"
  unfolding flex 
  by (rule keeps_into; (rule yields_rules)?; simp add: v get_replica_log_info_response_fields)+

lemma get_replica_log_info_response_unknown:
  "GetReplicaLogInfoResponse_fields_wf version (s\<lparr>grli_resp_unknown_tagged_fields := u\<rparr>) = GetReplicaLogInfoResponse_fields_wf version s"
  by (simp_all add: GetReplicaLogInfoResponse_fields_wf_def)

lemma get_replica_log_info_response_yields:
  assumes r: "version_in GetReplicaLogInfoResponse_MIN_VERSION GetReplicaLogInfoResponse_MAX_VERSION version"
  shows "yields 1 (GetReplicaLogInfoResponse_decode version) (GetReplicaLogInfoResponse_wf version)"
proof -
  have v: "0 \<le>s version"
    using r by (simp add: get_replica_log_info_response_versions)
  have d: "GetReplicaLogInfoResponse_fields_wf version GetReplicaLogInfoResponse_default"
    by (simp add: GetReplicaLogInfoResponse_default_def v get_replica_log_info_response_fields)
  show ?thesis
    unfolding GetReplicaLogInfoResponse_decode_def Let_def
    by (rule yields_checked, (rule get_replica_log_info_response_steps[OF v refl, THEN yields_step], (rule d | assumption))+, rule yields_trailer[OF _ arms_keep_Nil[of "GetReplicaLogInfoResponse_fields_wf version" "\<lambda>_. 0"]])
      (simp_all add: v d get_replica_log_info_response_unknown GetReplicaLogInfoResponse_wf_def trailer_ok_def r GetReplicaLogInfoResponse_is_flexible_def GetReplicaLogInfoResponse_FLEXIBLE_MIN_def)
qed

interpretation get_replica_log_info_response: message_codec
  GetReplicaLogInfoResponse_encode GetReplicaLogInfoResponse_decode GetReplicaLogInfoResponse_encoded_len "GetReplicaLogInfoResponse_wf version" version
  for version
proof
  fix x
  assume w: "GetReplicaLogInfoResponse_wf version x"
  then have v: "0 \<le>s version"
    by (simp add: GetReplicaLogInfoResponse_wf_def get_replica_log_info_response_versions)
  show "carries (GetReplicaLogInfoResponse_encode x version) (GetReplicaLogInfoResponse_decode version) (GetReplicaLogInfoResponse_encoded_len x version) x"
    unfolding GetReplicaLogInfoResponse_encode_def GetReplicaLogInfoResponse_encoded_len_def GetReplicaLogInfoResponse_decode_def Let_def
    by (use w[unfolded GetReplicaLogInfoResponse_wf_def GetReplicaLogInfoResponse_fields_wf_def Let_def] in \<open>elim conjE\<close>, rule carries_cong_len)
      ((rule carries_rules check_version_in[THEN iffD2] | (erule absent_guarded, assumption) | erule absent_plain
        | simp add: v field_ok_def GetReplicaLogInfoResponse_default_def get_replica_log_info_response_versions)+)
next
  show "yields 1 (GetReplicaLogInfoResponse_decode version) (GetReplicaLogInfoResponse_wf version)"
    by (rule case_split[OF get_replica_log_info_response_yields]) (auto simp: GetReplicaLogInfoResponse_decode_def Let_def yields_refused yields_unsupported)
  show "extends_input (GetReplicaLogInfoResponse_decode version)"
    unfolding GetReplicaLogInfoResponse_decode_def Let_def by (intro extends_rules)
qed

section \<open>DescribeClusterRequest\<close>

record DescribeClusterRequest =
  dc_req_include_cluster_authorized_operations :: bool
  dc_req_endpoint_type :: i8
  dc_req_include_fenced_brokers :: bool
  dc_req_unknown_tagged_fields :: "UnknownTaggedField list"

definition DescribeClusterRequest_default :: DescribeClusterRequest where
  "DescribeClusterRequest_default =
     \<lparr>dc_req_include_cluster_authorized_operations = False, dc_req_endpoint_type = 1, dc_req_include_fenced_brokers = False, dc_req_unknown_tagged_fields = []\<rparr>"

definition DescribeClusterRequest_MIN_VERSION :: i16 where
  "DescribeClusterRequest_MIN_VERSION = 0"

definition DescribeClusterRequest_MAX_VERSION :: i16 where
  "DescribeClusterRequest_MAX_VERSION = 2"

definition DescribeClusterRequest_FLEXIBLE_MIN :: i16 where
  "DescribeClusterRequest_FLEXIBLE_MIN = 0"

definition DescribeClusterRequest_API_KEY :: i16 where
  "DescribeClusterRequest_API_KEY = 60"

definition DescribeClusterRequest_is_flexible :: "i16 \<Rightarrow> bool" where
  "DescribeClusterRequest_is_flexible version \<longleftrightarrow> DescribeClusterRequest_FLEXIBLE_MIN \<le>s version"

definition DescribeClusterRequest_encode :: "DescribeClusterRequest \<Rightarrow> i16 \<Rightarrow> encoder" where
  "DescribeClusterRequest_encode x version =
     (let flex = DescribeClusterRequest_is_flexible version in
      write_all
        [write_check (check_version DescribeClusterRequest_API_KEY version DescribeClusterRequest_MIN_VERSION DescribeClusterRequest_MAX_VERSION),
         put_when (0 \<le>s version) (put_bool (dc_req_include_cluster_authorized_operations x)),
         put_when (1 \<le>s version) (put_i8 (dc_req_endpoint_type x)),
         put_when (2 \<le>s version) (put_bool (dc_req_include_fenced_brokers x)),
         put_when flex (put_tagged [] (dc_req_unknown_tagged_fields x))])"

definition DescribeClusterRequest_encoded_len :: "DescribeClusterRequest \<Rightarrow> i16 \<Rightarrow> nat" where
  "DescribeClusterRequest_encoded_len x version =
     (let flex = DescribeClusterRequest_is_flexible version in
      len_when (0 \<le>s version) 1
      + len_when (1 \<le>s version) 1
      + len_when (2 \<le>s version) 1
      + len_when flex (tagged_size [] (dc_req_unknown_tagged_fields x)))"

definition DescribeClusterRequest_decode :: "i16 \<Rightarrow> DescribeClusterRequest decoder" where
  "DescribeClusterRequest_decode version =
     (let flex = DescribeClusterRequest_is_flexible version in
      checked (check_version DescribeClusterRequest_API_KEY version DescribeClusterRequest_MIN_VERSION DescribeClusterRequest_MAX_VERSION) (
        read_then (get_into (0 \<le>s version) get_bool (\<lambda>v out. out\<lparr>dc_req_include_cluster_authorized_operations := v\<rparr>) DescribeClusterRequest_default) (\<lambda>out.
        read_then (get_into (1 \<le>s version) get_i8 (\<lambda>v out. out\<lparr>dc_req_endpoint_type := v\<rparr>) out) (\<lambda>out.
        read_then (get_into (2 \<le>s version) get_bool (\<lambda>v out. out\<lparr>dc_req_include_fenced_brokers := v\<rparr>) out) (\<lambda>out.
        get_trailer flex [] (\<lambda>u out. out\<lparr>dc_req_unknown_tagged_fields := u\<rparr>) out)))))"

definition DescribeClusterRequest_fields_wf :: "i16 \<Rightarrow> DescribeClusterRequest \<Rightarrow> bool" where
  "DescribeClusterRequest_fields_wf version x \<longleftrightarrow>
     field_ok (1 \<le>s version) 1 (\<lambda>_. True) (dc_req_endpoint_type x)
      \<and> field_ok (2 \<le>s version) False (\<lambda>_. True) (dc_req_include_fenced_brokers x)"

definition DescribeClusterRequest_wf :: "i16 \<Rightarrow> DescribeClusterRequest \<Rightarrow> bool" where
  "DescribeClusterRequest_wf version x \<longleftrightarrow>
     version_in DescribeClusterRequest_MIN_VERSION DescribeClusterRequest_MAX_VERSION version \<and> DescribeClusterRequest_fields_wf version x \<and> trailer_ok [] [] (dc_req_unknown_tagged_fields x)"

lemmas describe_cluster_request_versions =
    DescribeClusterRequest_is_flexible_def DescribeClusterRequest_FLEXIBLE_MIN_def
    DescribeClusterRequest_MIN_VERSION_def DescribeClusterRequest_MAX_VERSION_def version_in_def

lemmas describe_cluster_request_fields =
    Let_def field_ok_def DescribeClusterRequest_fields_wf_def DescribeClusterRequest_is_flexible_def
    DescribeClusterRequest_FLEXIBLE_MIN_def

lemma describe_cluster_request_steps:
  assumes v: "0 \<le>s version" and flex: "flex = (DescribeClusterRequest_is_flexible version)"
  shows "keeps (DescribeClusterRequest_fields_wf version) (get_into (0 \<le>s version) get_bool (\<lambda>v out. out\<lparr>dc_req_include_cluster_authorized_operations := v\<rparr>))"
    and "keeps (DescribeClusterRequest_fields_wf version) (get_into (1 \<le>s version) get_i8 (\<lambda>v out. out\<lparr>dc_req_endpoint_type := v\<rparr>))"
    and "keeps (DescribeClusterRequest_fields_wf version) (get_into (2 \<le>s version) get_bool (\<lambda>v out. out\<lparr>dc_req_include_fenced_brokers := v\<rparr>))"
  unfolding flex 
  by (rule keeps_into; (rule yields_rules)?; simp add: v describe_cluster_request_fields)+

lemma describe_cluster_request_unknown:
  "DescribeClusterRequest_fields_wf version (s\<lparr>dc_req_unknown_tagged_fields := u\<rparr>) = DescribeClusterRequest_fields_wf version s"
  by (simp_all add: DescribeClusterRequest_fields_wf_def)

lemma describe_cluster_request_yields:
  assumes r: "version_in DescribeClusterRequest_MIN_VERSION DescribeClusterRequest_MAX_VERSION version"
  shows "yields 1 (DescribeClusterRequest_decode version) (DescribeClusterRequest_wf version)"
proof -
  have v: "0 \<le>s version"
    using r by (simp add: describe_cluster_request_versions)
  have d: "DescribeClusterRequest_fields_wf version DescribeClusterRequest_default"
    by (simp add: DescribeClusterRequest_default_def v describe_cluster_request_fields)
  show ?thesis
    unfolding DescribeClusterRequest_decode_def Let_def
    by (rule yields_checked, (rule describe_cluster_request_steps[OF v refl, THEN yields_step], (rule d | assumption))+, rule yields_trailer[OF _ arms_keep_Nil[of "DescribeClusterRequest_fields_wf version" "\<lambda>_. 0"]])
      (simp_all add: v d describe_cluster_request_unknown DescribeClusterRequest_wf_def trailer_ok_def r DescribeClusterRequest_is_flexible_def DescribeClusterRequest_FLEXIBLE_MIN_def)
qed

interpretation describe_cluster_request: message_codec
  DescribeClusterRequest_encode DescribeClusterRequest_decode DescribeClusterRequest_encoded_len "DescribeClusterRequest_wf version" version
  for version
proof
  fix x
  assume w: "DescribeClusterRequest_wf version x"
  then have v: "0 \<le>s version"
    by (simp add: DescribeClusterRequest_wf_def describe_cluster_request_versions)
  show "carries (DescribeClusterRequest_encode x version) (DescribeClusterRequest_decode version) (DescribeClusterRequest_encoded_len x version) x"
    unfolding DescribeClusterRequest_encode_def DescribeClusterRequest_encoded_len_def DescribeClusterRequest_decode_def Let_def
    by (use w[unfolded DescribeClusterRequest_wf_def DescribeClusterRequest_fields_wf_def Let_def] in \<open>elim conjE\<close>, rule carries_cong_len)
      ((rule carries_rules check_version_in[THEN iffD2] | (erule absent_guarded, assumption) | erule absent_plain
        | simp add: v field_ok_def DescribeClusterRequest_default_def describe_cluster_request_versions)+)
next
  show "yields 1 (DescribeClusterRequest_decode version) (DescribeClusterRequest_wf version)"
    by (rule case_split[OF describe_cluster_request_yields]) (auto simp: DescribeClusterRequest_decode_def Let_def yields_refused yields_unsupported)
  show "extends_input (DescribeClusterRequest_decode version)"
    unfolding DescribeClusterRequest_decode_def Let_def by (intro extends_rules)
qed

section \<open>DescribeClusterResponse\<close>

record DescribeClusterResponse_DescribeClusterBroker =
  dc_resp_dcb_broker_id :: i32
  dc_resp_dcb_host :: bytes
  dc_resp_dcb_port :: i32
  dc_resp_dcb_rack :: "bytes option"
  dc_resp_dcb_is_fenced :: bool
  dc_resp_dcb_unknown_tagged_fields :: "UnknownTaggedField list"

definition DescribeClusterResponse_DescribeClusterBroker_default :: DescribeClusterResponse_DescribeClusterBroker where
  "DescribeClusterResponse_DescribeClusterBroker_default =
     \<lparr>dc_resp_dcb_broker_id = 0, dc_resp_dcb_host = [], dc_resp_dcb_port = 0, dc_resp_dcb_rack = None, dc_resp_dcb_is_fenced = False, dc_resp_dcb_unknown_tagged_fields = []\<rparr>"

definition DescribeClusterResponse_DescribeClusterBroker_encode :: "DescribeClusterResponse_DescribeClusterBroker \<Rightarrow> i16 \<Rightarrow> encoder" where
  "DescribeClusterResponse_DescribeClusterBroker_encode x version =
     (let flex = 0 \<le>s version in
      write_all
        [put_when (0 \<le>s version) (put_i32 (dc_resp_dcb_broker_id x)),
         put_when (0 \<le>s version) (put_str flex (dc_resp_dcb_host x)),
         put_when (0 \<le>s version) (put_i32 (dc_resp_dcb_port x)),
         put_when (0 \<le>s version) (put_nullable_str flex (dc_resp_dcb_rack x)),
         put_when (2 \<le>s version) (put_bool (dc_resp_dcb_is_fenced x)),
         put_when flex (put_tagged [] (dc_resp_dcb_unknown_tagged_fields x))])"

definition DescribeClusterResponse_DescribeClusterBroker_encoded_len :: "DescribeClusterResponse_DescribeClusterBroker \<Rightarrow> i16 \<Rightarrow> nat" where
  "DescribeClusterResponse_DescribeClusterBroker_encoded_len x version =
     (let flex = 0 \<le>s version in
      len_when (0 \<le>s version) 4
      + len_when (0 \<le>s version) (str_len flex (dc_resp_dcb_host x))
      + len_when (0 \<le>s version) 4
      + len_when (0 \<le>s version) (nullable_str_len flex (dc_resp_dcb_rack x))
      + len_when (2 \<le>s version) 1
      + len_when flex (tagged_size [] (dc_resp_dcb_unknown_tagged_fields x)))"

definition DescribeClusterResponse_DescribeClusterBroker_decode :: "i16 \<Rightarrow> DescribeClusterResponse_DescribeClusterBroker decoder" where
  "DescribeClusterResponse_DescribeClusterBroker_decode version =
     (let flex = 0 \<le>s version in
      read_then (get_into (0 \<le>s version) get_i32 (\<lambda>v out. out\<lparr>dc_resp_dcb_broker_id := v\<rparr>) DescribeClusterResponse_DescribeClusterBroker_default) (\<lambda>out.
        read_then (get_into (0 \<le>s version) (get_str flex) (\<lambda>v out. out\<lparr>dc_resp_dcb_host := v\<rparr>) out) (\<lambda>out.
        read_then (get_into (0 \<le>s version) get_i32 (\<lambda>v out. out\<lparr>dc_resp_dcb_port := v\<rparr>) out) (\<lambda>out.
        read_then (get_into (0 \<le>s version) (get_nullable_str flex) (\<lambda>v out. out\<lparr>dc_resp_dcb_rack := v\<rparr>) out) (\<lambda>out.
        read_then (get_into (2 \<le>s version) get_bool (\<lambda>v out. out\<lparr>dc_resp_dcb_is_fenced := v\<rparr>) out) (\<lambda>out.
        get_trailer flex [] (\<lambda>u out. out\<lparr>dc_resp_dcb_unknown_tagged_fields := u\<rparr>) out))))))"

definition DescribeClusterResponse_DescribeClusterBroker_fields_wf :: "i16 \<Rightarrow> DescribeClusterResponse_DescribeClusterBroker \<Rightarrow> bool" where
  "DescribeClusterResponse_DescribeClusterBroker_fields_wf version x \<longleftrightarrow>
     (let flex = 0 \<le>s version in
      str_wf flex (dc_resp_dcb_host x)
      \<and> nullable_str_wf flex (dc_resp_dcb_rack x)
      \<and> field_ok (2 \<le>s version) False (\<lambda>_. True) (dc_resp_dcb_is_fenced x))"

definition DescribeClusterResponse_DescribeClusterBroker_wf :: "i16 \<Rightarrow> DescribeClusterResponse_DescribeClusterBroker \<Rightarrow> bool" where
  "DescribeClusterResponse_DescribeClusterBroker_wf version x \<longleftrightarrow>
     DescribeClusterResponse_DescribeClusterBroker_fields_wf version x \<and> trailer_ok [] [] (dc_resp_dcb_unknown_tagged_fields x)"

lemmas describe_cluster_response_describe_cluster_broker_fields =
    Let_def field_ok_def DescribeClusterResponse_DescribeClusterBroker_fields_wf_def

lemma describe_cluster_response_describe_cluster_broker_steps:
  assumes v: "0 \<le>s version" and flex: "flex = (0 \<le>s version)"
  shows "keeps (DescribeClusterResponse_DescribeClusterBroker_fields_wf version) (get_into (0 \<le>s version) get_i32 (\<lambda>v out. out\<lparr>dc_resp_dcb_broker_id := v\<rparr>))"
    and "keeps (DescribeClusterResponse_DescribeClusterBroker_fields_wf version) (get_into (0 \<le>s version) (get_str flex) (\<lambda>v out. out\<lparr>dc_resp_dcb_host := v\<rparr>))"
    and "keeps (DescribeClusterResponse_DescribeClusterBroker_fields_wf version) (get_into (0 \<le>s version) get_i32 (\<lambda>v out. out\<lparr>dc_resp_dcb_port := v\<rparr>))"
    and "keeps (DescribeClusterResponse_DescribeClusterBroker_fields_wf version) (get_into (0 \<le>s version) (get_nullable_str flex) (\<lambda>v out. out\<lparr>dc_resp_dcb_rack := v\<rparr>))"
    and "keeps (DescribeClusterResponse_DescribeClusterBroker_fields_wf version) (get_into (2 \<le>s version) get_bool (\<lambda>v out. out\<lparr>dc_resp_dcb_is_fenced := v\<rparr>))"
  unfolding flex 
  by (rule keeps_into; (rule yields_rules)?; simp add: v describe_cluster_response_describe_cluster_broker_fields)+

lemma describe_cluster_response_describe_cluster_broker_unknown:
  "DescribeClusterResponse_DescribeClusterBroker_fields_wf version (s\<lparr>dc_resp_dcb_unknown_tagged_fields := u\<rparr>) = DescribeClusterResponse_DescribeClusterBroker_fields_wf version s"
  by (simp_all add: DescribeClusterResponse_DescribeClusterBroker_fields_wf_def)

lemma describe_cluster_response_describe_cluster_broker_yields:
  assumes v: "0 \<le>s version"
  shows "yields 1 (DescribeClusterResponse_DescribeClusterBroker_decode version) (DescribeClusterResponse_DescribeClusterBroker_wf version)"
proof -
  have d: "DescribeClusterResponse_DescribeClusterBroker_fields_wf version DescribeClusterResponse_DescribeClusterBroker_default"
    by (simp add: DescribeClusterResponse_DescribeClusterBroker_default_def v describe_cluster_response_describe_cluster_broker_fields)
  show ?thesis
    unfolding DescribeClusterResponse_DescribeClusterBroker_decode_def Let_def
    by ((rule describe_cluster_response_describe_cluster_broker_steps[OF v refl, THEN yields_step], (rule d | assumption))+, rule yields_trailer[OF _ arms_keep_Nil[of "DescribeClusterResponse_DescribeClusterBroker_fields_wf version" "\<lambda>_. 0"]])
      (simp_all add: v d describe_cluster_response_describe_cluster_broker_unknown DescribeClusterResponse_DescribeClusterBroker_wf_def trailer_ok_def )
qed

lemma describe_cluster_response_describe_cluster_broker_extends [extends_rules]: "extends_input (DescribeClusterResponse_DescribeClusterBroker_decode version)"
  unfolding DescribeClusterResponse_DescribeClusterBroker_decode_def Let_def by (intro extends_rules)

lemma describe_cluster_response_describe_cluster_broker_codec:
  assumes v: "0 \<le>s version"
  shows "message_codec DescribeClusterResponse_DescribeClusterBroker_encode DescribeClusterResponse_DescribeClusterBroker_decode DescribeClusterResponse_DescribeClusterBroker_encoded_len (DescribeClusterResponse_DescribeClusterBroker_wf version) version"
proof
  fix x
  assume w: "DescribeClusterResponse_DescribeClusterBroker_wf version x"
  show "carries (DescribeClusterResponse_DescribeClusterBroker_encode x version) (DescribeClusterResponse_DescribeClusterBroker_decode version) (DescribeClusterResponse_DescribeClusterBroker_encoded_len x version) x"
    unfolding DescribeClusterResponse_DescribeClusterBroker_encode_def DescribeClusterResponse_DescribeClusterBroker_encoded_len_def DescribeClusterResponse_DescribeClusterBroker_decode_def Let_def
    by (use w[unfolded DescribeClusterResponse_DescribeClusterBroker_wf_def DescribeClusterResponse_DescribeClusterBroker_fields_wf_def Let_def] in \<open>elim conjE\<close>, rule carries_cong_len)
      ((rule carries_rules | (erule absent_guarded, assumption) | erule absent_plain
        | simp add: v field_ok_def DescribeClusterResponse_DescribeClusterBroker_default_def )+)
next
  show "yields 1 (DescribeClusterResponse_DescribeClusterBroker_decode version) (DescribeClusterResponse_DescribeClusterBroker_wf version)"
    by (rule describe_cluster_response_describe_cluster_broker_yields[OF v])
qed (rule describe_cluster_response_describe_cluster_broker_extends)

lemma describe_cluster_response_describe_cluster_broker_default_wf [simp]: "0 \<le>s version \<Longrightarrow> DescribeClusterResponse_DescribeClusterBroker_wf version DescribeClusterResponse_DescribeClusterBroker_default"
  by (simp add: DescribeClusterResponse_DescribeClusterBroker_wf_def DescribeClusterResponse_DescribeClusterBroker_default_def trailer_ok_def describe_cluster_response_describe_cluster_broker_fields)

lemmas [carries_rules] = message_codec.message_carries[OF describe_cluster_response_describe_cluster_broker_codec]
lemmas [yields_rules] = message_codec.message_yields[OF describe_cluster_response_describe_cluster_broker_codec]

lemmas [carries_rules] = protocol_codec.put_array_carries[OF message_codec.message_protocol[OF describe_cluster_response_describe_cluster_broker_codec]]
lemmas [yields_rules] = protocol_codec.get_array_yields[OF message_codec.message_protocol[OF describe_cluster_response_describe_cluster_broker_codec]]
lemmas [carries_rules] = protocol_codec.put_nullable_array_carries[OF message_codec.message_protocol[OF describe_cluster_response_describe_cluster_broker_codec]]
lemmas [yields_rules] = protocol_codec.get_nullable_array_yields[OF message_codec.message_protocol[OF describe_cluster_response_describe_cluster_broker_codec]]

record DescribeClusterResponse =
  dc_resp_throttle_time_ms :: i32
  dc_resp_error_code :: i16
  dc_resp_error_message :: "bytes option"
  dc_resp_endpoint_type :: i8
  dc_resp_cluster_id :: bytes
  dc_resp_controller_id :: i32
  dc_resp_brokers :: "DescribeClusterResponse_DescribeClusterBroker list"
  dc_resp_cluster_authorized_operations :: i32
  dc_resp_unknown_tagged_fields :: "UnknownTaggedField list"

definition DescribeClusterResponse_default :: DescribeClusterResponse where
  "DescribeClusterResponse_default =
     \<lparr>dc_resp_throttle_time_ms = 0, dc_resp_error_code = 0, dc_resp_error_message = None, dc_resp_endpoint_type = 1, dc_resp_cluster_id = [], dc_resp_controller_id = - 1, dc_resp_brokers = [], dc_resp_cluster_authorized_operations = - 2147483648, dc_resp_unknown_tagged_fields = []\<rparr>"

definition DescribeClusterResponse_MIN_VERSION :: i16 where
  "DescribeClusterResponse_MIN_VERSION = 0"

definition DescribeClusterResponse_MAX_VERSION :: i16 where
  "DescribeClusterResponse_MAX_VERSION = 2"

definition DescribeClusterResponse_FLEXIBLE_MIN :: i16 where
  "DescribeClusterResponse_FLEXIBLE_MIN = 0"

definition DescribeClusterResponse_API_KEY :: i16 where
  "DescribeClusterResponse_API_KEY = 60"

definition DescribeClusterResponse_is_flexible :: "i16 \<Rightarrow> bool" where
  "DescribeClusterResponse_is_flexible version \<longleftrightarrow> DescribeClusterResponse_FLEXIBLE_MIN \<le>s version"

definition DescribeClusterResponse_encode_field_0 :: "DescribeClusterResponse \<Rightarrow> i16 \<Rightarrow> bool \<Rightarrow> encoder" where
  "DescribeClusterResponse_encode_field_0 x version flex = put_when (0 \<le>s version) (put_i32 (dc_resp_throttle_time_ms x))"

definition DescribeClusterResponse_encode_field_1 :: "DescribeClusterResponse \<Rightarrow> i16 \<Rightarrow> bool \<Rightarrow> encoder" where
  "DescribeClusterResponse_encode_field_1 x version flex = put_when (0 \<le>s version) (put_i16 (dc_resp_error_code x))"

definition DescribeClusterResponse_encode_field_2 :: "DescribeClusterResponse \<Rightarrow> i16 \<Rightarrow> bool \<Rightarrow> encoder" where
  "DescribeClusterResponse_encode_field_2 x version flex = put_when (0 \<le>s version) (put_nullable_str flex (dc_resp_error_message x))"

definition DescribeClusterResponse_encode_field_3 :: "DescribeClusterResponse \<Rightarrow> i16 \<Rightarrow> bool \<Rightarrow> encoder" where
  "DescribeClusterResponse_encode_field_3 x version flex = put_when (1 \<le>s version) (put_i8 (dc_resp_endpoint_type x))"

definition DescribeClusterResponse_encode_field_4 :: "DescribeClusterResponse \<Rightarrow> i16 \<Rightarrow> bool \<Rightarrow> encoder" where
  "DescribeClusterResponse_encode_field_4 x version flex = put_when (0 \<le>s version) (put_str flex (dc_resp_cluster_id x))"

definition DescribeClusterResponse_encode_field_5 :: "DescribeClusterResponse \<Rightarrow> i16 \<Rightarrow> bool \<Rightarrow> encoder" where
  "DescribeClusterResponse_encode_field_5 x version flex = put_when (0 \<le>s version) (put_i32 (dc_resp_controller_id x))"

definition DescribeClusterResponse_encode_field_6 :: "DescribeClusterResponse \<Rightarrow> i16 \<Rightarrow> bool \<Rightarrow> encoder" where
  "DescribeClusterResponse_encode_field_6 x version flex = put_when (0 \<le>s version) (put_array flex (\<lambda>it. DescribeClusterResponse_DescribeClusterBroker_encode it version) (dc_resp_brokers x))"

definition DescribeClusterResponse_encode_field_7 :: "DescribeClusterResponse \<Rightarrow> i16 \<Rightarrow> bool \<Rightarrow> encoder" where
  "DescribeClusterResponse_encode_field_7 x version flex = put_when (0 \<le>s version) (put_i32 (dc_resp_cluster_authorized_operations x))"

definition DescribeClusterResponse_encode_tagged_fields :: "DescribeClusterResponse \<Rightarrow> i16 \<Rightarrow> bool \<Rightarrow> encoder" where
  "DescribeClusterResponse_encode_tagged_fields x version flex =
     put_when flex (put_tagged
       []
       (dc_resp_unknown_tagged_fields x))"

definition DescribeClusterResponse_encode :: "DescribeClusterResponse \<Rightarrow> i16 \<Rightarrow> encoder" where
  "DescribeClusterResponse_encode x version =
     (let flex = DescribeClusterResponse_is_flexible version in
      write_all
        [write_check (check_version DescribeClusterResponse_API_KEY version DescribeClusterResponse_MIN_VERSION DescribeClusterResponse_MAX_VERSION),
         DescribeClusterResponse_encode_field_0 x version flex,
         DescribeClusterResponse_encode_field_1 x version flex,
         DescribeClusterResponse_encode_field_2 x version flex,
         DescribeClusterResponse_encode_field_3 x version flex,
         DescribeClusterResponse_encode_field_4 x version flex,
         DescribeClusterResponse_encode_field_5 x version flex,
         DescribeClusterResponse_encode_field_6 x version flex,
         DescribeClusterResponse_encode_field_7 x version flex,
         DescribeClusterResponse_encode_tagged_fields x version flex])"

definition DescribeClusterResponse_encoded_len :: "DescribeClusterResponse \<Rightarrow> i16 \<Rightarrow> nat" where
  "DescribeClusterResponse_encoded_len x version =
     (let flex = DescribeClusterResponse_is_flexible version in
      len_when (0 \<le>s version) 4
      + len_when (0 \<le>s version) 2
      + len_when (0 \<le>s version) (nullable_str_len flex (dc_resp_error_message x))
      + len_when (1 \<le>s version) 1
      + len_when (0 \<le>s version) (str_len flex (dc_resp_cluster_id x))
      + len_when (0 \<le>s version) 4
      + len_when (0 \<le>s version) (array_size flex (\<lambda>it. DescribeClusterResponse_DescribeClusterBroker_encoded_len it version) (dc_resp_brokers x))
      + len_when (0 \<le>s version) 4
      + len_when flex (tagged_size [] (dc_resp_unknown_tagged_fields x)))"

definition DescribeClusterResponse_decode_field_0 :: "DescribeClusterResponse \<Rightarrow> i16 \<Rightarrow> bool \<Rightarrow> DescribeClusterResponse decoder" where
  "DescribeClusterResponse_decode_field_0 out version flex = get_into (0 \<le>s version) get_i32 (\<lambda>v out. out\<lparr>dc_resp_throttle_time_ms := v\<rparr>) out"

definition DescribeClusterResponse_decode_field_1 :: "DescribeClusterResponse \<Rightarrow> i16 \<Rightarrow> bool \<Rightarrow> DescribeClusterResponse decoder" where
  "DescribeClusterResponse_decode_field_1 out version flex = get_into (0 \<le>s version) get_i16 (\<lambda>v out. out\<lparr>dc_resp_error_code := v\<rparr>) out"

definition DescribeClusterResponse_decode_field_2 :: "DescribeClusterResponse \<Rightarrow> i16 \<Rightarrow> bool \<Rightarrow> DescribeClusterResponse decoder" where
  "DescribeClusterResponse_decode_field_2 out version flex = get_into (0 \<le>s version) (get_nullable_str flex) (\<lambda>v out. out\<lparr>dc_resp_error_message := v\<rparr>) out"

definition DescribeClusterResponse_decode_field_3 :: "DescribeClusterResponse \<Rightarrow> i16 \<Rightarrow> bool \<Rightarrow> DescribeClusterResponse decoder" where
  "DescribeClusterResponse_decode_field_3 out version flex = get_into (1 \<le>s version) get_i8 (\<lambda>v out. out\<lparr>dc_resp_endpoint_type := v\<rparr>) out"

definition DescribeClusterResponse_decode_field_4 :: "DescribeClusterResponse \<Rightarrow> i16 \<Rightarrow> bool \<Rightarrow> DescribeClusterResponse decoder" where
  "DescribeClusterResponse_decode_field_4 out version flex = get_into (0 \<le>s version) (get_str flex) (\<lambda>v out. out\<lparr>dc_resp_cluster_id := v\<rparr>) out"

definition DescribeClusterResponse_decode_field_5 :: "DescribeClusterResponse \<Rightarrow> i16 \<Rightarrow> bool \<Rightarrow> DescribeClusterResponse decoder" where
  "DescribeClusterResponse_decode_field_5 out version flex = get_into (0 \<le>s version) get_i32 (\<lambda>v out. out\<lparr>dc_resp_controller_id := v\<rparr>) out"

definition DescribeClusterResponse_decode_field_6 :: "DescribeClusterResponse \<Rightarrow> i16 \<Rightarrow> bool \<Rightarrow> DescribeClusterResponse decoder" where
  "DescribeClusterResponse_decode_field_6 out version flex = get_into (0 \<le>s version) (get_array flex (DescribeClusterResponse_DescribeClusterBroker_decode version)) (\<lambda>v out. out\<lparr>dc_resp_brokers := v\<rparr>) out"

definition DescribeClusterResponse_decode_field_7 :: "DescribeClusterResponse \<Rightarrow> i16 \<Rightarrow> bool \<Rightarrow> DescribeClusterResponse decoder" where
  "DescribeClusterResponse_decode_field_7 out version flex = get_into (0 \<le>s version) get_i32 (\<lambda>v out. out\<lparr>dc_resp_cluster_authorized_operations := v\<rparr>) out"

definition DescribeClusterResponse_decode_tagged_fields :: "DescribeClusterResponse \<Rightarrow> i16 \<Rightarrow> bool \<Rightarrow> DescribeClusterResponse decoder" where
  "DescribeClusterResponse_decode_tagged_fields out version flex =
     get_trailer flex
       []
       (\<lambda>u out. out\<lparr>dc_resp_unknown_tagged_fields := u\<rparr>) out"

definition DescribeClusterResponse_decode :: "i16 \<Rightarrow> DescribeClusterResponse decoder" where
  "DescribeClusterResponse_decode version =
     (let flex = DescribeClusterResponse_is_flexible version in
      checked (check_version DescribeClusterResponse_API_KEY version DescribeClusterResponse_MIN_VERSION DescribeClusterResponse_MAX_VERSION) (
        read_then (DescribeClusterResponse_decode_field_0 DescribeClusterResponse_default version flex) (\<lambda>out.
        read_then (DescribeClusterResponse_decode_field_1 out version flex) (\<lambda>out.
        read_then (DescribeClusterResponse_decode_field_2 out version flex) (\<lambda>out.
        read_then (DescribeClusterResponse_decode_field_3 out version flex) (\<lambda>out.
        read_then (DescribeClusterResponse_decode_field_4 out version flex) (\<lambda>out.
        read_then (DescribeClusterResponse_decode_field_5 out version flex) (\<lambda>out.
        read_then (DescribeClusterResponse_decode_field_6 out version flex) (\<lambda>out.
        read_then (DescribeClusterResponse_decode_field_7 out version flex) (\<lambda>out.
        DescribeClusterResponse_decode_tagged_fields out version flex))))))))))"

definition DescribeClusterResponse_fields_wf :: "i16 \<Rightarrow> DescribeClusterResponse \<Rightarrow> bool" where
  "DescribeClusterResponse_fields_wf version x \<longleftrightarrow>
     (let flex = DescribeClusterResponse_is_flexible version in
      nullable_str_wf flex (dc_resp_error_message x)
      \<and> field_ok (1 \<le>s version) 1 (\<lambda>_. True) (dc_resp_endpoint_type x)
      \<and> str_wf flex (dc_resp_cluster_id x)
      \<and> array_ok flex (DescribeClusterResponse_DescribeClusterBroker_wf version) (dc_resp_brokers x))"

definition DescribeClusterResponse_wf :: "i16 \<Rightarrow> DescribeClusterResponse \<Rightarrow> bool" where
  "DescribeClusterResponse_wf version x \<longleftrightarrow>
     version_in DescribeClusterResponse_MIN_VERSION DescribeClusterResponse_MAX_VERSION version \<and> DescribeClusterResponse_fields_wf version x \<and> trailer_ok [] [] (dc_resp_unknown_tagged_fields x)"

lemmas describe_cluster_response_versions =
    DescribeClusterResponse_is_flexible_def DescribeClusterResponse_FLEXIBLE_MIN_def
    DescribeClusterResponse_MIN_VERSION_def DescribeClusterResponse_MAX_VERSION_def version_in_def

lemmas describe_cluster_response_fields =
    Let_def field_ok_def DescribeClusterResponse_fields_wf_def DescribeClusterResponse_is_flexible_def
    DescribeClusterResponse_FLEXIBLE_MIN_def

lemmas describe_cluster_response_writers =
    DescribeClusterResponse_encode_field_0_def DescribeClusterResponse_encode_field_1_def
    DescribeClusterResponse_encode_field_2_def DescribeClusterResponse_encode_field_3_def
    DescribeClusterResponse_encode_field_4_def DescribeClusterResponse_encode_field_5_def
    DescribeClusterResponse_encode_field_6_def DescribeClusterResponse_encode_field_7_def
    DescribeClusterResponse_encode_tagged_fields_def

lemmas describe_cluster_response_readers =
    DescribeClusterResponse_decode_field_0_def DescribeClusterResponse_decode_field_1_def
    DescribeClusterResponse_decode_field_2_def DescribeClusterResponse_decode_field_3_def
    DescribeClusterResponse_decode_field_4_def DescribeClusterResponse_decode_field_5_def
    DescribeClusterResponse_decode_field_6_def DescribeClusterResponse_decode_field_7_def
    DescribeClusterResponse_decode_tagged_fields_def

lemma describe_cluster_response_steps:
  assumes v: "0 \<le>s version" and flex: "flex = (DescribeClusterResponse_is_flexible version)"
  shows "keeps (DescribeClusterResponse_fields_wf version) (\<lambda>out. DescribeClusterResponse_decode_field_0 out version flex)"
    and "keeps (DescribeClusterResponse_fields_wf version) (\<lambda>out. DescribeClusterResponse_decode_field_1 out version flex)"
    and "keeps (DescribeClusterResponse_fields_wf version) (\<lambda>out. DescribeClusterResponse_decode_field_2 out version flex)"
    and "keeps (DescribeClusterResponse_fields_wf version) (\<lambda>out. DescribeClusterResponse_decode_field_3 out version flex)"
    and "keeps (DescribeClusterResponse_fields_wf version) (\<lambda>out. DescribeClusterResponse_decode_field_4 out version flex)"
    and "keeps (DescribeClusterResponse_fields_wf version) (\<lambda>out. DescribeClusterResponse_decode_field_5 out version flex)"
    and "keeps (DescribeClusterResponse_fields_wf version) (\<lambda>out. DescribeClusterResponse_decode_field_6 out version flex)"
    and "keeps (DescribeClusterResponse_fields_wf version) (\<lambda>out. DescribeClusterResponse_decode_field_7 out version flex)"
  unfolding flex describe_cluster_response_readers
  by (rule keeps_into; (rule yields_rules)?; simp add: v describe_cluster_response_fields)+

lemma describe_cluster_response_unknown:
  "DescribeClusterResponse_fields_wf version (s\<lparr>dc_resp_unknown_tagged_fields := u\<rparr>) = DescribeClusterResponse_fields_wf version s"
  by (simp_all add: DescribeClusterResponse_fields_wf_def)

lemma describe_cluster_response_yields:
  assumes r: "version_in DescribeClusterResponse_MIN_VERSION DescribeClusterResponse_MAX_VERSION version"
  shows "yields 1 (DescribeClusterResponse_decode version) (DescribeClusterResponse_wf version)"
proof -
  have v: "0 \<le>s version"
    using r by (simp add: describe_cluster_response_versions)
  have d: "DescribeClusterResponse_fields_wf version DescribeClusterResponse_default"
    by (simp add: DescribeClusterResponse_default_def v describe_cluster_response_fields)
  show ?thesis
    unfolding DescribeClusterResponse_decode_def Let_def DescribeClusterResponse_decode_tagged_fields_def
    by (rule yields_checked, (rule describe_cluster_response_steps[OF v refl, THEN yields_step], (rule d | assumption))+, rule yields_trailer[OF _ arms_keep_Nil[of "DescribeClusterResponse_fields_wf version" "\<lambda>_. 0"]])
      (simp_all add: v d describe_cluster_response_unknown DescribeClusterResponse_wf_def trailer_ok_def r DescribeClusterResponse_is_flexible_def DescribeClusterResponse_FLEXIBLE_MIN_def)
qed

interpretation describe_cluster_response: message_codec
  DescribeClusterResponse_encode DescribeClusterResponse_decode DescribeClusterResponse_encoded_len "DescribeClusterResponse_wf version" version
  for version
proof
  fix x
  assume w: "DescribeClusterResponse_wf version x"
  then have v: "0 \<le>s version"
    by (simp add: DescribeClusterResponse_wf_def describe_cluster_response_versions)
  show "carries (DescribeClusterResponse_encode x version) (DescribeClusterResponse_decode version) (DescribeClusterResponse_encoded_len x version) x"
    unfolding DescribeClusterResponse_encode_def describe_cluster_response_writers DescribeClusterResponse_encoded_len_def DescribeClusterResponse_decode_def describe_cluster_response_readers Let_def
    by (use w[unfolded DescribeClusterResponse_wf_def DescribeClusterResponse_fields_wf_def Let_def] in \<open>elim conjE\<close>, rule carries_cong_len)
      ((rule carries_rules check_version_in[THEN iffD2] | (erule absent_guarded, assumption) | erule absent_plain
        | simp add: v field_ok_def DescribeClusterResponse_default_def describe_cluster_response_versions)+)
next
  show "yields 1 (DescribeClusterResponse_decode version) (DescribeClusterResponse_wf version)"
    by (rule case_split[OF describe_cluster_response_yields]) (auto simp: DescribeClusterResponse_decode_def Let_def yields_refused yields_unsupported)
  show "extends_input (DescribeClusterResponse_decode version)"
    unfolding DescribeClusterResponse_decode_def Let_def describe_cluster_response_readers by (intro extends_rules)
qed

section \<open>Properties\<close>

definition sample_registration :: BrokerRegistrationRequest where
  "sample_registration = BrokerRegistrationRequest_default
     \<lparr>br_req_broker_id := 7, br_req_cluster_id := [0x63],
      br_req_features := [BrokerRegistrationRequest_Feature_default\<lparr>br_req_f_name := [0x6D], br_req_f_max_supported_version := 25\<rparr>],
      br_req_log_dirs := [Uuid_ZERO], br_req_previous_broker_epoch := 4\<rparr>"

lemma sample_registration_wf: "BrokerRegistrationRequest_wf 4 sample_registration"
  by (simp add: sample_registration_def BrokerRegistrationRequest_wf_def broker_registration_request_versions
      broker_registration_request_fields BrokerRegistrationRequest_default_def array_ok_def array_len_wf_def
      BrokerRegistrationRequest_Feature_wf_def broker_registration_request_feature_fields
      BrokerRegistrationRequest_Feature_default_def str_wf_def compact_string_wf_def utf8_def from_utf8.simps utf8_width_def word_sle_eq)

text \<open>
  C33: A broker registers with exactly the versions both sides know. A registration request that fits a
  version between 0 and 4 is written in the predicted number of bytes and read back whatever follows, no
  proper prefix of it is read, and at every other version both the encoder and the decoder return
  \<open>UnsupportedVersion\<close> with the request's key and the version.
\<close>

theorem registration_request_contract:
  assumes "BrokerRegistrationRequest_wf version x"
  shows "(\<exists>bs. BrokerRegistrationRequest_encode x version buf = Ok (buf @ bs)
       \<and> length bs = BrokerRegistrationRequest_encoded_len x version
       \<and> BrokerRegistrationRequest_decode version (bs @ rest) = Ok (x, rest)
       \<and> (\<forall>n. n < length bs \<longrightarrow> (\<exists>e. BrokerRegistrationRequest_decode version (take n bs) = Err e)))
    \<and> (\<forall>w input. \<not> (0 \<le>s w \<and> w \<le>s 4) \<longrightarrow>
        BrokerRegistrationRequest_encode x w buf = Err (UnsupportedVersion 62 w)
        \<and> BrokerRegistrationRequest_decode w input = Err (UnsupportedVersion 62 w))"
proof
  show "\<forall>w input. \<not> (0 \<le>s w \<and> w \<le>s 4) \<longrightarrow>
        BrokerRegistrationRequest_encode x w buf = Err (UnsupportedVersion 62 w)
        \<and> BrokerRegistrationRequest_decode w input = Err (UnsupportedVersion 62 w)"
    by (simp add: BrokerRegistrationRequest_encode_def BrokerRegistrationRequest_decode_def Let_def write_check_def checked_def
        check_version_def BrokerRegistrationRequest_API_KEY_def BrokerRegistrationRequest_MIN_VERSION_def
        BrokerRegistrationRequest_MAX_VERSION_def)
qed (rule broker_registration_request.item.contract[OF assms])

theorem registration_request_contract_witness:
  "(\<exists>bs. BrokerRegistrationRequest_encode sample_registration 4 [] = Ok ([] @ bs)
     \<and> BrokerRegistrationRequest_decode 4 (bs @ [9]) = Ok (sample_registration, [9]))
   \<and> BrokerRegistrationRequest_decode 5 [] = Err (UnsupportedVersion 62 5)"
  using registration_request_contract[OF sample_registration_wf, of "[]" "[9]"] by (auto simp: word_sle_eq)

end
