(* ===== verification/ShareGroupMessages.thy ===== *)
theory ShareGroupMessages
  imports GeneratedCodec
begin

text \<open>
  The generated codecs of the messages about share groups: heartbeats, acknowledgements, offsets and the
  persisted share state
  (\<open>crates/protocol/generated/*.owned.rs\<close>): the structs with their defaults, and \<open>encode\<close>, \<open>encoded_len\<close> and
  \<open>decode\<close> put together from the shapes of \<open>GeneratedCodec\<close>. A nested struct \<open>S\<close> of a message \<open>M\<close> is \<open>M_S\<close>.
  \<open>M_wf\<close> says which messages can be written at a version: a field that the version does not carry holds its
  default, and lengths fit their prefixes. The interpretation of \<open>message_codec\<close> after each message
  discharges the contract of a versioned message for its three methods.
\<close>

section \<open>AlterShareGroupOffsetsRequest\<close>

record AlterShareGroupOffsetsRequest_AlterShareGroupOffsetsRequestPartition =
  asgo_req_asgorp_partition_index :: i32
  asgo_req_asgorp_start_offset :: i64
  asgo_req_asgorp_unknown_tagged_fields :: "UnknownTaggedField list"

definition AlterShareGroupOffsetsRequest_AlterShareGroupOffsetsRequestPartition_default :: AlterShareGroupOffsetsRequest_AlterShareGroupOffsetsRequestPartition where
  "AlterShareGroupOffsetsRequest_AlterShareGroupOffsetsRequestPartition_default =
     \<lparr>asgo_req_asgorp_partition_index = 0, asgo_req_asgorp_start_offset = 0, asgo_req_asgorp_unknown_tagged_fields = []\<rparr>"

definition AlterShareGroupOffsetsRequest_AlterShareGroupOffsetsRequestPartition_encode :: "AlterShareGroupOffsetsRequest_AlterShareGroupOffsetsRequestPartition \<Rightarrow> i16 \<Rightarrow> encoder" where
  "AlterShareGroupOffsetsRequest_AlterShareGroupOffsetsRequestPartition_encode x version =
     (let flex = 0 \<le>s version in
      write_all
        [put_when (0 \<le>s version) (put_i32 (asgo_req_asgorp_partition_index x)),
         put_when (0 \<le>s version) (put_i64 (asgo_req_asgorp_start_offset x)),
         put_when flex (put_tagged [] (asgo_req_asgorp_unknown_tagged_fields x))])"

definition AlterShareGroupOffsetsRequest_AlterShareGroupOffsetsRequestPartition_encoded_len :: "AlterShareGroupOffsetsRequest_AlterShareGroupOffsetsRequestPartition \<Rightarrow> i16 \<Rightarrow> nat" where
  "AlterShareGroupOffsetsRequest_AlterShareGroupOffsetsRequestPartition_encoded_len x version =
     (let flex = 0 \<le>s version in
      len_when (0 \<le>s version) 4
      + len_when (0 \<le>s version) 8
      + len_when flex (tagged_size [] (asgo_req_asgorp_unknown_tagged_fields x)))"

definition AlterShareGroupOffsetsRequest_AlterShareGroupOffsetsRequestPartition_decode :: "i16 \<Rightarrow> AlterShareGroupOffsetsRequest_AlterShareGroupOffsetsRequestPartition decoder" where
  "AlterShareGroupOffsetsRequest_AlterShareGroupOffsetsRequestPartition_decode version =
     (let flex = 0 \<le>s version in
      read_then (get_into (0 \<le>s version) get_i32 (\<lambda>v out. out\<lparr>asgo_req_asgorp_partition_index := v\<rparr>) AlterShareGroupOffsetsRequest_AlterShareGroupOffsetsRequestPartition_default) (\<lambda>out.
        read_then (get_into (0 \<le>s version) get_i64 (\<lambda>v out. out\<lparr>asgo_req_asgorp_start_offset := v\<rparr>) out) (\<lambda>out.
        get_trailer flex [] (\<lambda>u out. out\<lparr>asgo_req_asgorp_unknown_tagged_fields := u\<rparr>) out)))"

definition AlterShareGroupOffsetsRequest_AlterShareGroupOffsetsRequestPartition_fields_wf :: "i16 \<Rightarrow> AlterShareGroupOffsetsRequest_AlterShareGroupOffsetsRequestPartition \<Rightarrow> bool" where
  "AlterShareGroupOffsetsRequest_AlterShareGroupOffsetsRequestPartition_fields_wf version x \<longleftrightarrow>
     True"

definition AlterShareGroupOffsetsRequest_AlterShareGroupOffsetsRequestPartition_wf :: "i16 \<Rightarrow> AlterShareGroupOffsetsRequest_AlterShareGroupOffsetsRequestPartition \<Rightarrow> bool" where
  "AlterShareGroupOffsetsRequest_AlterShareGroupOffsetsRequestPartition_wf version x \<longleftrightarrow>
     AlterShareGroupOffsetsRequest_AlterShareGroupOffsetsRequestPartition_fields_wf version x \<and> trailer_ok [] [] (asgo_req_asgorp_unknown_tagged_fields x)"

lemmas alter_share_group_offsets_request_alter_share_group_offsets_request_partition_fields =
    Let_def field_ok_def AlterShareGroupOffsetsRequest_AlterShareGroupOffsetsRequestPartition_fields_wf_def

lemma alter_share_group_offsets_request_alter_share_group_offsets_request_partition_steps:
  assumes v: "0 \<le>s version" and flex: "flex = (0 \<le>s version)"
  shows "keeps (AlterShareGroupOffsetsRequest_AlterShareGroupOffsetsRequestPartition_fields_wf version) (get_into (0 \<le>s version) get_i32 (\<lambda>v out. out\<lparr>asgo_req_asgorp_partition_index := v\<rparr>))"
    and "keeps (AlterShareGroupOffsetsRequest_AlterShareGroupOffsetsRequestPartition_fields_wf version) (get_into (0 \<le>s version) get_i64 (\<lambda>v out. out\<lparr>asgo_req_asgorp_start_offset := v\<rparr>))"
  unfolding flex 
  by (rule keeps_into; (rule yields_rules)?; simp add: v alter_share_group_offsets_request_alter_share_group_offsets_request_partition_fields)+

lemma alter_share_group_offsets_request_alter_share_group_offsets_request_partition_unknown:
  "AlterShareGroupOffsetsRequest_AlterShareGroupOffsetsRequestPartition_fields_wf version (s\<lparr>asgo_req_asgorp_unknown_tagged_fields := u\<rparr>) = AlterShareGroupOffsetsRequest_AlterShareGroupOffsetsRequestPartition_fields_wf version s"
  by (simp_all add: AlterShareGroupOffsetsRequest_AlterShareGroupOffsetsRequestPartition_fields_wf_def)

lemma alter_share_group_offsets_request_alter_share_group_offsets_request_partition_yields:
  assumes v: "0 \<le>s version"
  shows "yields 1 (AlterShareGroupOffsetsRequest_AlterShareGroupOffsetsRequestPartition_decode version) (AlterShareGroupOffsetsRequest_AlterShareGroupOffsetsRequestPartition_wf version)"
proof -
  have d: "AlterShareGroupOffsetsRequest_AlterShareGroupOffsetsRequestPartition_fields_wf version AlterShareGroupOffsetsRequest_AlterShareGroupOffsetsRequestPartition_default"
    by (simp add: AlterShareGroupOffsetsRequest_AlterShareGroupOffsetsRequestPartition_default_def v alter_share_group_offsets_request_alter_share_group_offsets_request_partition_fields)
  show ?thesis
    unfolding AlterShareGroupOffsetsRequest_AlterShareGroupOffsetsRequestPartition_decode_def Let_def
    by ((rule alter_share_group_offsets_request_alter_share_group_offsets_request_partition_steps[OF v refl, THEN yields_step], (rule d | assumption))+, rule yields_trailer[OF _ arms_keep_Nil[of "AlterShareGroupOffsetsRequest_AlterShareGroupOffsetsRequestPartition_fields_wf version" "\<lambda>_. 0"]])
      (simp_all add: v d alter_share_group_offsets_request_alter_share_group_offsets_request_partition_unknown AlterShareGroupOffsetsRequest_AlterShareGroupOffsetsRequestPartition_wf_def trailer_ok_def )
qed

lemma alter_share_group_offsets_request_alter_share_group_offsets_request_partition_extends [extends_rules]: "extends_input (AlterShareGroupOffsetsRequest_AlterShareGroupOffsetsRequestPartition_decode version)"
  unfolding AlterShareGroupOffsetsRequest_AlterShareGroupOffsetsRequestPartition_decode_def Let_def by (intro extends_rules)

lemma alter_share_group_offsets_request_alter_share_group_offsets_request_partition_codec:
  assumes v: "0 \<le>s version"
  shows "message_codec AlterShareGroupOffsetsRequest_AlterShareGroupOffsetsRequestPartition_encode AlterShareGroupOffsetsRequest_AlterShareGroupOffsetsRequestPartition_decode AlterShareGroupOffsetsRequest_AlterShareGroupOffsetsRequestPartition_encoded_len (AlterShareGroupOffsetsRequest_AlterShareGroupOffsetsRequestPartition_wf version) version"
proof
  fix x
  assume w: "AlterShareGroupOffsetsRequest_AlterShareGroupOffsetsRequestPartition_wf version x"
  show "carries (AlterShareGroupOffsetsRequest_AlterShareGroupOffsetsRequestPartition_encode x version) (AlterShareGroupOffsetsRequest_AlterShareGroupOffsetsRequestPartition_decode version) (AlterShareGroupOffsetsRequest_AlterShareGroupOffsetsRequestPartition_encoded_len x version) x"
    unfolding AlterShareGroupOffsetsRequest_AlterShareGroupOffsetsRequestPartition_encode_def AlterShareGroupOffsetsRequest_AlterShareGroupOffsetsRequestPartition_encoded_len_def AlterShareGroupOffsetsRequest_AlterShareGroupOffsetsRequestPartition_decode_def Let_def
    by (use w[unfolded AlterShareGroupOffsetsRequest_AlterShareGroupOffsetsRequestPartition_wf_def AlterShareGroupOffsetsRequest_AlterShareGroupOffsetsRequestPartition_fields_wf_def Let_def] in \<open>elim conjE\<close>, rule carries_cong_len)
      ((rule carries_rules | (erule absent_guarded, assumption) | erule absent_plain
        | simp add: v field_ok_def AlterShareGroupOffsetsRequest_AlterShareGroupOffsetsRequestPartition_default_def )+)
next
  show "yields 1 (AlterShareGroupOffsetsRequest_AlterShareGroupOffsetsRequestPartition_decode version) (AlterShareGroupOffsetsRequest_AlterShareGroupOffsetsRequestPartition_wf version)"
    by (rule alter_share_group_offsets_request_alter_share_group_offsets_request_partition_yields[OF v])
qed (rule alter_share_group_offsets_request_alter_share_group_offsets_request_partition_extends)

lemma alter_share_group_offsets_request_alter_share_group_offsets_request_partition_default_wf [simp]: "0 \<le>s version \<Longrightarrow> AlterShareGroupOffsetsRequest_AlterShareGroupOffsetsRequestPartition_wf version AlterShareGroupOffsetsRequest_AlterShareGroupOffsetsRequestPartition_default"
  by (simp add: AlterShareGroupOffsetsRequest_AlterShareGroupOffsetsRequestPartition_wf_def AlterShareGroupOffsetsRequest_AlterShareGroupOffsetsRequestPartition_default_def trailer_ok_def alter_share_group_offsets_request_alter_share_group_offsets_request_partition_fields)

lemmas [carries_rules] = message_codec.message_carries[OF alter_share_group_offsets_request_alter_share_group_offsets_request_partition_codec]
lemmas [yields_rules] = message_codec.message_yields[OF alter_share_group_offsets_request_alter_share_group_offsets_request_partition_codec]

lemmas [carries_rules] = protocol_codec.put_array_carries[OF message_codec.message_protocol[OF alter_share_group_offsets_request_alter_share_group_offsets_request_partition_codec]]
lemmas [yields_rules] = protocol_codec.get_array_yields[OF message_codec.message_protocol[OF alter_share_group_offsets_request_alter_share_group_offsets_request_partition_codec]]
lemmas [carries_rules] = protocol_codec.put_nullable_array_carries[OF message_codec.message_protocol[OF alter_share_group_offsets_request_alter_share_group_offsets_request_partition_codec]]
lemmas [yields_rules] = protocol_codec.get_nullable_array_yields[OF message_codec.message_protocol[OF alter_share_group_offsets_request_alter_share_group_offsets_request_partition_codec]]

record AlterShareGroupOffsetsRequest_AlterShareGroupOffsetsRequestTopic =
  asgo_req_asgort_topic_name :: bytes
  asgo_req_asgort_partitions :: "AlterShareGroupOffsetsRequest_AlterShareGroupOffsetsRequestPartition list"
  asgo_req_asgort_unknown_tagged_fields :: "UnknownTaggedField list"

definition AlterShareGroupOffsetsRequest_AlterShareGroupOffsetsRequestTopic_default :: AlterShareGroupOffsetsRequest_AlterShareGroupOffsetsRequestTopic where
  "AlterShareGroupOffsetsRequest_AlterShareGroupOffsetsRequestTopic_default =
     \<lparr>asgo_req_asgort_topic_name = [], asgo_req_asgort_partitions = [], asgo_req_asgort_unknown_tagged_fields = []\<rparr>"

definition AlterShareGroupOffsetsRequest_AlterShareGroupOffsetsRequestTopic_encode :: "AlterShareGroupOffsetsRequest_AlterShareGroupOffsetsRequestTopic \<Rightarrow> i16 \<Rightarrow> encoder" where
  "AlterShareGroupOffsetsRequest_AlterShareGroupOffsetsRequestTopic_encode x version =
     (let flex = 0 \<le>s version in
      write_all
        [put_when (0 \<le>s version) (put_str flex (asgo_req_asgort_topic_name x)),
         put_when (0 \<le>s version) (put_array flex (\<lambda>it. AlterShareGroupOffsetsRequest_AlterShareGroupOffsetsRequestPartition_encode it version) (asgo_req_asgort_partitions x)),
         put_when flex (put_tagged [] (asgo_req_asgort_unknown_tagged_fields x))])"

definition AlterShareGroupOffsetsRequest_AlterShareGroupOffsetsRequestTopic_encoded_len :: "AlterShareGroupOffsetsRequest_AlterShareGroupOffsetsRequestTopic \<Rightarrow> i16 \<Rightarrow> nat" where
  "AlterShareGroupOffsetsRequest_AlterShareGroupOffsetsRequestTopic_encoded_len x version =
     (let flex = 0 \<le>s version in
      len_when (0 \<le>s version) (str_len flex (asgo_req_asgort_topic_name x))
      + len_when (0 \<le>s version) (array_size flex (\<lambda>it. AlterShareGroupOffsetsRequest_AlterShareGroupOffsetsRequestPartition_encoded_len it version) (asgo_req_asgort_partitions x))
      + len_when flex (tagged_size [] (asgo_req_asgort_unknown_tagged_fields x)))"

definition AlterShareGroupOffsetsRequest_AlterShareGroupOffsetsRequestTopic_decode :: "i16 \<Rightarrow> AlterShareGroupOffsetsRequest_AlterShareGroupOffsetsRequestTopic decoder" where
  "AlterShareGroupOffsetsRequest_AlterShareGroupOffsetsRequestTopic_decode version =
     (let flex = 0 \<le>s version in
      read_then (get_into (0 \<le>s version) (get_str flex) (\<lambda>v out. out\<lparr>asgo_req_asgort_topic_name := v\<rparr>) AlterShareGroupOffsetsRequest_AlterShareGroupOffsetsRequestTopic_default) (\<lambda>out.
        read_then (get_into (0 \<le>s version) (get_array flex (AlterShareGroupOffsetsRequest_AlterShareGroupOffsetsRequestPartition_decode version)) (\<lambda>v out. out\<lparr>asgo_req_asgort_partitions := v\<rparr>) out) (\<lambda>out.
        get_trailer flex [] (\<lambda>u out. out\<lparr>asgo_req_asgort_unknown_tagged_fields := u\<rparr>) out)))"

definition AlterShareGroupOffsetsRequest_AlterShareGroupOffsetsRequestTopic_fields_wf :: "i16 \<Rightarrow> AlterShareGroupOffsetsRequest_AlterShareGroupOffsetsRequestTopic \<Rightarrow> bool" where
  "AlterShareGroupOffsetsRequest_AlterShareGroupOffsetsRequestTopic_fields_wf version x \<longleftrightarrow>
     (let flex = 0 \<le>s version in
      str_wf flex (asgo_req_asgort_topic_name x)
      \<and> array_ok flex (AlterShareGroupOffsetsRequest_AlterShareGroupOffsetsRequestPartition_wf version) (asgo_req_asgort_partitions x))"

definition AlterShareGroupOffsetsRequest_AlterShareGroupOffsetsRequestTopic_wf :: "i16 \<Rightarrow> AlterShareGroupOffsetsRequest_AlterShareGroupOffsetsRequestTopic \<Rightarrow> bool" where
  "AlterShareGroupOffsetsRequest_AlterShareGroupOffsetsRequestTopic_wf version x \<longleftrightarrow>
     AlterShareGroupOffsetsRequest_AlterShareGroupOffsetsRequestTopic_fields_wf version x \<and> trailer_ok [] [] (asgo_req_asgort_unknown_tagged_fields x)"

lemmas alter_share_group_offsets_request_alter_share_group_offsets_request_topic_fields =
    Let_def field_ok_def AlterShareGroupOffsetsRequest_AlterShareGroupOffsetsRequestTopic_fields_wf_def

lemma alter_share_group_offsets_request_alter_share_group_offsets_request_topic_steps:
  assumes v: "0 \<le>s version" and flex: "flex = (0 \<le>s version)"
  shows "keeps (AlterShareGroupOffsetsRequest_AlterShareGroupOffsetsRequestTopic_fields_wf version) (get_into (0 \<le>s version) (get_str flex) (\<lambda>v out. out\<lparr>asgo_req_asgort_topic_name := v\<rparr>))"
    and "keeps (AlterShareGroupOffsetsRequest_AlterShareGroupOffsetsRequestTopic_fields_wf version) (get_into (0 \<le>s version) (get_array flex (AlterShareGroupOffsetsRequest_AlterShareGroupOffsetsRequestPartition_decode version)) (\<lambda>v out. out\<lparr>asgo_req_asgort_partitions := v\<rparr>))"
  unfolding flex 
  by (rule keeps_into; (rule yields_rules)?; simp add: v alter_share_group_offsets_request_alter_share_group_offsets_request_topic_fields)+

lemma alter_share_group_offsets_request_alter_share_group_offsets_request_topic_unknown:
  "AlterShareGroupOffsetsRequest_AlterShareGroupOffsetsRequestTopic_fields_wf version (s\<lparr>asgo_req_asgort_unknown_tagged_fields := u\<rparr>) = AlterShareGroupOffsetsRequest_AlterShareGroupOffsetsRequestTopic_fields_wf version s"
  by (simp_all add: AlterShareGroupOffsetsRequest_AlterShareGroupOffsetsRequestTopic_fields_wf_def)

lemma alter_share_group_offsets_request_alter_share_group_offsets_request_topic_yields:
  assumes v: "0 \<le>s version"
  shows "yields 1 (AlterShareGroupOffsetsRequest_AlterShareGroupOffsetsRequestTopic_decode version) (AlterShareGroupOffsetsRequest_AlterShareGroupOffsetsRequestTopic_wf version)"
proof -
  have d: "AlterShareGroupOffsetsRequest_AlterShareGroupOffsetsRequestTopic_fields_wf version AlterShareGroupOffsetsRequest_AlterShareGroupOffsetsRequestTopic_default"
    by (simp add: AlterShareGroupOffsetsRequest_AlterShareGroupOffsetsRequestTopic_default_def v alter_share_group_offsets_request_alter_share_group_offsets_request_topic_fields)
  show ?thesis
    unfolding AlterShareGroupOffsetsRequest_AlterShareGroupOffsetsRequestTopic_decode_def Let_def
    by ((rule alter_share_group_offsets_request_alter_share_group_offsets_request_topic_steps[OF v refl, THEN yields_step], (rule d | assumption))+, rule yields_trailer[OF _ arms_keep_Nil[of "AlterShareGroupOffsetsRequest_AlterShareGroupOffsetsRequestTopic_fields_wf version" "\<lambda>_. 0"]])
      (simp_all add: v d alter_share_group_offsets_request_alter_share_group_offsets_request_topic_unknown AlterShareGroupOffsetsRequest_AlterShareGroupOffsetsRequestTopic_wf_def trailer_ok_def )
qed

lemma alter_share_group_offsets_request_alter_share_group_offsets_request_topic_extends [extends_rules]: "extends_input (AlterShareGroupOffsetsRequest_AlterShareGroupOffsetsRequestTopic_decode version)"
  unfolding AlterShareGroupOffsetsRequest_AlterShareGroupOffsetsRequestTopic_decode_def Let_def by (intro extends_rules)

lemma alter_share_group_offsets_request_alter_share_group_offsets_request_topic_codec:
  assumes v: "0 \<le>s version"
  shows "message_codec AlterShareGroupOffsetsRequest_AlterShareGroupOffsetsRequestTopic_encode AlterShareGroupOffsetsRequest_AlterShareGroupOffsetsRequestTopic_decode AlterShareGroupOffsetsRequest_AlterShareGroupOffsetsRequestTopic_encoded_len (AlterShareGroupOffsetsRequest_AlterShareGroupOffsetsRequestTopic_wf version) version"
proof
  fix x
  assume w: "AlterShareGroupOffsetsRequest_AlterShareGroupOffsetsRequestTopic_wf version x"
  show "carries (AlterShareGroupOffsetsRequest_AlterShareGroupOffsetsRequestTopic_encode x version) (AlterShareGroupOffsetsRequest_AlterShareGroupOffsetsRequestTopic_decode version) (AlterShareGroupOffsetsRequest_AlterShareGroupOffsetsRequestTopic_encoded_len x version) x"
    unfolding AlterShareGroupOffsetsRequest_AlterShareGroupOffsetsRequestTopic_encode_def AlterShareGroupOffsetsRequest_AlterShareGroupOffsetsRequestTopic_encoded_len_def AlterShareGroupOffsetsRequest_AlterShareGroupOffsetsRequestTopic_decode_def Let_def
    by (use w[unfolded AlterShareGroupOffsetsRequest_AlterShareGroupOffsetsRequestTopic_wf_def AlterShareGroupOffsetsRequest_AlterShareGroupOffsetsRequestTopic_fields_wf_def Let_def] in \<open>elim conjE\<close>, rule carries_cong_len)
      ((rule carries_rules | (erule absent_guarded, assumption) | erule absent_plain
        | simp add: v field_ok_def AlterShareGroupOffsetsRequest_AlterShareGroupOffsetsRequestTopic_default_def )+)
next
  show "yields 1 (AlterShareGroupOffsetsRequest_AlterShareGroupOffsetsRequestTopic_decode version) (AlterShareGroupOffsetsRequest_AlterShareGroupOffsetsRequestTopic_wf version)"
    by (rule alter_share_group_offsets_request_alter_share_group_offsets_request_topic_yields[OF v])
qed (rule alter_share_group_offsets_request_alter_share_group_offsets_request_topic_extends)

lemma alter_share_group_offsets_request_alter_share_group_offsets_request_topic_default_wf [simp]: "0 \<le>s version \<Longrightarrow> AlterShareGroupOffsetsRequest_AlterShareGroupOffsetsRequestTopic_wf version AlterShareGroupOffsetsRequest_AlterShareGroupOffsetsRequestTopic_default"
  by (simp add: AlterShareGroupOffsetsRequest_AlterShareGroupOffsetsRequestTopic_wf_def AlterShareGroupOffsetsRequest_AlterShareGroupOffsetsRequestTopic_default_def trailer_ok_def alter_share_group_offsets_request_alter_share_group_offsets_request_topic_fields)

lemmas [carries_rules] = message_codec.message_carries[OF alter_share_group_offsets_request_alter_share_group_offsets_request_topic_codec]
lemmas [yields_rules] = message_codec.message_yields[OF alter_share_group_offsets_request_alter_share_group_offsets_request_topic_codec]

lemmas [carries_rules] = protocol_codec.put_array_carries[OF message_codec.message_protocol[OF alter_share_group_offsets_request_alter_share_group_offsets_request_topic_codec]]
lemmas [yields_rules] = protocol_codec.get_array_yields[OF message_codec.message_protocol[OF alter_share_group_offsets_request_alter_share_group_offsets_request_topic_codec]]
lemmas [carries_rules] = protocol_codec.put_nullable_array_carries[OF message_codec.message_protocol[OF alter_share_group_offsets_request_alter_share_group_offsets_request_topic_codec]]
lemmas [yields_rules] = protocol_codec.get_nullable_array_yields[OF message_codec.message_protocol[OF alter_share_group_offsets_request_alter_share_group_offsets_request_topic_codec]]

record AlterShareGroupOffsetsRequest =
  asgo_req_group_id :: bytes
  asgo_req_topics :: "AlterShareGroupOffsetsRequest_AlterShareGroupOffsetsRequestTopic list"
  asgo_req_unknown_tagged_fields :: "UnknownTaggedField list"

definition AlterShareGroupOffsetsRequest_default :: AlterShareGroupOffsetsRequest where
  "AlterShareGroupOffsetsRequest_default =
     \<lparr>asgo_req_group_id = [], asgo_req_topics = [], asgo_req_unknown_tagged_fields = []\<rparr>"

definition AlterShareGroupOffsetsRequest_MIN_VERSION :: i16 where
  "AlterShareGroupOffsetsRequest_MIN_VERSION = 0"

definition AlterShareGroupOffsetsRequest_MAX_VERSION :: i16 where
  "AlterShareGroupOffsetsRequest_MAX_VERSION = 0"

definition AlterShareGroupOffsetsRequest_FLEXIBLE_MIN :: i16 where
  "AlterShareGroupOffsetsRequest_FLEXIBLE_MIN = 0"

definition AlterShareGroupOffsetsRequest_API_KEY :: i16 where
  "AlterShareGroupOffsetsRequest_API_KEY = 91"

definition AlterShareGroupOffsetsRequest_is_flexible :: "i16 \<Rightarrow> bool" where
  "AlterShareGroupOffsetsRequest_is_flexible version \<longleftrightarrow> AlterShareGroupOffsetsRequest_FLEXIBLE_MIN \<le>s version"

definition AlterShareGroupOffsetsRequest_encode :: "AlterShareGroupOffsetsRequest \<Rightarrow> i16 \<Rightarrow> encoder" where
  "AlterShareGroupOffsetsRequest_encode x version =
     (let flex = AlterShareGroupOffsetsRequest_is_flexible version in
      write_all
        [write_check (check_version AlterShareGroupOffsetsRequest_API_KEY version AlterShareGroupOffsetsRequest_MIN_VERSION AlterShareGroupOffsetsRequest_MAX_VERSION),
         put_when (0 \<le>s version) (put_str flex (asgo_req_group_id x)),
         put_when (0 \<le>s version) (put_array flex (\<lambda>it. AlterShareGroupOffsetsRequest_AlterShareGroupOffsetsRequestTopic_encode it version) (asgo_req_topics x)),
         put_when flex (put_tagged [] (asgo_req_unknown_tagged_fields x))])"

definition AlterShareGroupOffsetsRequest_encoded_len :: "AlterShareGroupOffsetsRequest \<Rightarrow> i16 \<Rightarrow> nat" where
  "AlterShareGroupOffsetsRequest_encoded_len x version =
     (let flex = AlterShareGroupOffsetsRequest_is_flexible version in
      len_when (0 \<le>s version) (str_len flex (asgo_req_group_id x))
      + len_when (0 \<le>s version) (array_size flex (\<lambda>it. AlterShareGroupOffsetsRequest_AlterShareGroupOffsetsRequestTopic_encoded_len it version) (asgo_req_topics x))
      + len_when flex (tagged_size [] (asgo_req_unknown_tagged_fields x)))"

definition AlterShareGroupOffsetsRequest_decode :: "i16 \<Rightarrow> AlterShareGroupOffsetsRequest decoder" where
  "AlterShareGroupOffsetsRequest_decode version =
     (let flex = AlterShareGroupOffsetsRequest_is_flexible version in
      checked (check_version AlterShareGroupOffsetsRequest_API_KEY version AlterShareGroupOffsetsRequest_MIN_VERSION AlterShareGroupOffsetsRequest_MAX_VERSION) (
        read_then (get_into (0 \<le>s version) (get_str flex) (\<lambda>v out. out\<lparr>asgo_req_group_id := v\<rparr>) AlterShareGroupOffsetsRequest_default) (\<lambda>out.
        read_then (get_into (0 \<le>s version) (get_array flex (AlterShareGroupOffsetsRequest_AlterShareGroupOffsetsRequestTopic_decode version)) (\<lambda>v out. out\<lparr>asgo_req_topics := v\<rparr>) out) (\<lambda>out.
        get_trailer flex [] (\<lambda>u out. out\<lparr>asgo_req_unknown_tagged_fields := u\<rparr>) out))))"

definition AlterShareGroupOffsetsRequest_fields_wf :: "i16 \<Rightarrow> AlterShareGroupOffsetsRequest \<Rightarrow> bool" where
  "AlterShareGroupOffsetsRequest_fields_wf version x \<longleftrightarrow>
     (let flex = AlterShareGroupOffsetsRequest_is_flexible version in
      str_wf flex (asgo_req_group_id x)
      \<and> array_ok flex (AlterShareGroupOffsetsRequest_AlterShareGroupOffsetsRequestTopic_wf version) (asgo_req_topics x))"

definition AlterShareGroupOffsetsRequest_wf :: "i16 \<Rightarrow> AlterShareGroupOffsetsRequest \<Rightarrow> bool" where
  "AlterShareGroupOffsetsRequest_wf version x \<longleftrightarrow>
     version_in AlterShareGroupOffsetsRequest_MIN_VERSION AlterShareGroupOffsetsRequest_MAX_VERSION version \<and> AlterShareGroupOffsetsRequest_fields_wf version x \<and> trailer_ok [] [] (asgo_req_unknown_tagged_fields x)"

lemmas alter_share_group_offsets_request_versions =
    AlterShareGroupOffsetsRequest_is_flexible_def AlterShareGroupOffsetsRequest_FLEXIBLE_MIN_def
    AlterShareGroupOffsetsRequest_MIN_VERSION_def AlterShareGroupOffsetsRequest_MAX_VERSION_def version_in_def

lemmas alter_share_group_offsets_request_fields =
    Let_def field_ok_def AlterShareGroupOffsetsRequest_fields_wf_def AlterShareGroupOffsetsRequest_is_flexible_def
    AlterShareGroupOffsetsRequest_FLEXIBLE_MIN_def

lemma alter_share_group_offsets_request_steps:
  assumes v: "0 \<le>s version" and flex: "flex = (AlterShareGroupOffsetsRequest_is_flexible version)"
  shows "keeps (AlterShareGroupOffsetsRequest_fields_wf version) (get_into (0 \<le>s version) (get_str flex) (\<lambda>v out. out\<lparr>asgo_req_group_id := v\<rparr>))"
    and "keeps (AlterShareGroupOffsetsRequest_fields_wf version) (get_into (0 \<le>s version) (get_array flex (AlterShareGroupOffsetsRequest_AlterShareGroupOffsetsRequestTopic_decode version)) (\<lambda>v out. out\<lparr>asgo_req_topics := v\<rparr>))"
  unfolding flex 
  by (rule keeps_into; (rule yields_rules)?; simp add: v alter_share_group_offsets_request_fields)+

lemma alter_share_group_offsets_request_unknown:
  "AlterShareGroupOffsetsRequest_fields_wf version (s\<lparr>asgo_req_unknown_tagged_fields := u\<rparr>) = AlterShareGroupOffsetsRequest_fields_wf version s"
  by (simp_all add: AlterShareGroupOffsetsRequest_fields_wf_def)

lemma alter_share_group_offsets_request_yields:
  assumes r: "version_in AlterShareGroupOffsetsRequest_MIN_VERSION AlterShareGroupOffsetsRequest_MAX_VERSION version"
  shows "yields 1 (AlterShareGroupOffsetsRequest_decode version) (AlterShareGroupOffsetsRequest_wf version)"
proof -
  have v: "0 \<le>s version"
    using r by (simp add: alter_share_group_offsets_request_versions)
  have d: "AlterShareGroupOffsetsRequest_fields_wf version AlterShareGroupOffsetsRequest_default"
    by (simp add: AlterShareGroupOffsetsRequest_default_def v alter_share_group_offsets_request_fields)
  show ?thesis
    unfolding AlterShareGroupOffsetsRequest_decode_def Let_def
    by (rule yields_checked, (rule alter_share_group_offsets_request_steps[OF v refl, THEN yields_step], (rule d | assumption))+, rule yields_trailer[OF _ arms_keep_Nil[of "AlterShareGroupOffsetsRequest_fields_wf version" "\<lambda>_. 0"]])
      (simp_all add: v d alter_share_group_offsets_request_unknown AlterShareGroupOffsetsRequest_wf_def trailer_ok_def r AlterShareGroupOffsetsRequest_is_flexible_def AlterShareGroupOffsetsRequest_FLEXIBLE_MIN_def)
qed

interpretation alter_share_group_offsets_request: message_codec
  AlterShareGroupOffsetsRequest_encode AlterShareGroupOffsetsRequest_decode AlterShareGroupOffsetsRequest_encoded_len "AlterShareGroupOffsetsRequest_wf version" version
  for version
proof
  fix x
  assume w: "AlterShareGroupOffsetsRequest_wf version x"
  then have v: "0 \<le>s version"
    by (simp add: AlterShareGroupOffsetsRequest_wf_def alter_share_group_offsets_request_versions)
  show "carries (AlterShareGroupOffsetsRequest_encode x version) (AlterShareGroupOffsetsRequest_decode version) (AlterShareGroupOffsetsRequest_encoded_len x version) x"
    unfolding AlterShareGroupOffsetsRequest_encode_def AlterShareGroupOffsetsRequest_encoded_len_def AlterShareGroupOffsetsRequest_decode_def Let_def
    by (use w[unfolded AlterShareGroupOffsetsRequest_wf_def AlterShareGroupOffsetsRequest_fields_wf_def Let_def] in \<open>elim conjE\<close>, rule carries_cong_len)
      ((rule carries_rules check_version_in[THEN iffD2] | (erule absent_guarded, assumption) | erule absent_plain
        | simp add: v field_ok_def AlterShareGroupOffsetsRequest_default_def alter_share_group_offsets_request_versions)+)
next
  show "yields 1 (AlterShareGroupOffsetsRequest_decode version) (AlterShareGroupOffsetsRequest_wf version)"
    by (rule case_split[OF alter_share_group_offsets_request_yields]) (auto simp: AlterShareGroupOffsetsRequest_decode_def Let_def yields_refused yields_unsupported)
  show "extends_input (AlterShareGroupOffsetsRequest_decode version)"
    unfolding AlterShareGroupOffsetsRequest_decode_def Let_def by (intro extends_rules)
qed

section \<open>AlterShareGroupOffsetsResponse\<close>

record AlterShareGroupOffsetsResponse_AlterShareGroupOffsetsResponsePartition =
  asgo_resp_asgorp_partition_index :: i32
  asgo_resp_asgorp_error_code :: i16
  asgo_resp_asgorp_error_message :: "bytes option"
  asgo_resp_asgorp_unknown_tagged_fields :: "UnknownTaggedField list"

definition AlterShareGroupOffsetsResponse_AlterShareGroupOffsetsResponsePartition_default :: AlterShareGroupOffsetsResponse_AlterShareGroupOffsetsResponsePartition where
  "AlterShareGroupOffsetsResponse_AlterShareGroupOffsetsResponsePartition_default =
     \<lparr>asgo_resp_asgorp_partition_index = 0, asgo_resp_asgorp_error_code = 0, asgo_resp_asgorp_error_message = None, asgo_resp_asgorp_unknown_tagged_fields = []\<rparr>"

definition AlterShareGroupOffsetsResponse_AlterShareGroupOffsetsResponsePartition_encode :: "AlterShareGroupOffsetsResponse_AlterShareGroupOffsetsResponsePartition \<Rightarrow> i16 \<Rightarrow> encoder" where
  "AlterShareGroupOffsetsResponse_AlterShareGroupOffsetsResponsePartition_encode x version =
     (let flex = 0 \<le>s version in
      write_all
        [put_when (0 \<le>s version) (put_i32 (asgo_resp_asgorp_partition_index x)),
         put_when (0 \<le>s version) (put_i16 (asgo_resp_asgorp_error_code x)),
         put_when (0 \<le>s version) (put_nullable_str flex (asgo_resp_asgorp_error_message x)),
         put_when flex (put_tagged [] (asgo_resp_asgorp_unknown_tagged_fields x))])"

definition AlterShareGroupOffsetsResponse_AlterShareGroupOffsetsResponsePartition_encoded_len :: "AlterShareGroupOffsetsResponse_AlterShareGroupOffsetsResponsePartition \<Rightarrow> i16 \<Rightarrow> nat" where
  "AlterShareGroupOffsetsResponse_AlterShareGroupOffsetsResponsePartition_encoded_len x version =
     (let flex = 0 \<le>s version in
      len_when (0 \<le>s version) 4
      + len_when (0 \<le>s version) 2
      + len_when (0 \<le>s version) (nullable_str_len flex (asgo_resp_asgorp_error_message x))
      + len_when flex (tagged_size [] (asgo_resp_asgorp_unknown_tagged_fields x)))"

definition AlterShareGroupOffsetsResponse_AlterShareGroupOffsetsResponsePartition_decode :: "i16 \<Rightarrow> AlterShareGroupOffsetsResponse_AlterShareGroupOffsetsResponsePartition decoder" where
  "AlterShareGroupOffsetsResponse_AlterShareGroupOffsetsResponsePartition_decode version =
     (let flex = 0 \<le>s version in
      read_then (get_into (0 \<le>s version) get_i32 (\<lambda>v out. out\<lparr>asgo_resp_asgorp_partition_index := v\<rparr>) AlterShareGroupOffsetsResponse_AlterShareGroupOffsetsResponsePartition_default) (\<lambda>out.
        read_then (get_into (0 \<le>s version) get_i16 (\<lambda>v out. out\<lparr>asgo_resp_asgorp_error_code := v\<rparr>) out) (\<lambda>out.
        read_then (get_into (0 \<le>s version) (get_nullable_str flex) (\<lambda>v out. out\<lparr>asgo_resp_asgorp_error_message := v\<rparr>) out) (\<lambda>out.
        get_trailer flex [] (\<lambda>u out. out\<lparr>asgo_resp_asgorp_unknown_tagged_fields := u\<rparr>) out))))"

definition AlterShareGroupOffsetsResponse_AlterShareGroupOffsetsResponsePartition_fields_wf :: "i16 \<Rightarrow> AlterShareGroupOffsetsResponse_AlterShareGroupOffsetsResponsePartition \<Rightarrow> bool" where
  "AlterShareGroupOffsetsResponse_AlterShareGroupOffsetsResponsePartition_fields_wf version x \<longleftrightarrow>
     (let flex = 0 \<le>s version in
      nullable_str_wf flex (asgo_resp_asgorp_error_message x))"

definition AlterShareGroupOffsetsResponse_AlterShareGroupOffsetsResponsePartition_wf :: "i16 \<Rightarrow> AlterShareGroupOffsetsResponse_AlterShareGroupOffsetsResponsePartition \<Rightarrow> bool" where
  "AlterShareGroupOffsetsResponse_AlterShareGroupOffsetsResponsePartition_wf version x \<longleftrightarrow>
     AlterShareGroupOffsetsResponse_AlterShareGroupOffsetsResponsePartition_fields_wf version x \<and> trailer_ok [] [] (asgo_resp_asgorp_unknown_tagged_fields x)"

lemmas alter_share_group_offsets_response_alter_share_group_offsets_response_partition_fields =
    Let_def field_ok_def AlterShareGroupOffsetsResponse_AlterShareGroupOffsetsResponsePartition_fields_wf_def

lemma alter_share_group_offsets_response_alter_share_group_offsets_response_partition_steps:
  assumes v: "0 \<le>s version" and flex: "flex = (0 \<le>s version)"
  shows "keeps (AlterShareGroupOffsetsResponse_AlterShareGroupOffsetsResponsePartition_fields_wf version) (get_into (0 \<le>s version) get_i32 (\<lambda>v out. out\<lparr>asgo_resp_asgorp_partition_index := v\<rparr>))"
    and "keeps (AlterShareGroupOffsetsResponse_AlterShareGroupOffsetsResponsePartition_fields_wf version) (get_into (0 \<le>s version) get_i16 (\<lambda>v out. out\<lparr>asgo_resp_asgorp_error_code := v\<rparr>))"
    and "keeps (AlterShareGroupOffsetsResponse_AlterShareGroupOffsetsResponsePartition_fields_wf version) (get_into (0 \<le>s version) (get_nullable_str flex) (\<lambda>v out. out\<lparr>asgo_resp_asgorp_error_message := v\<rparr>))"
  unfolding flex 
  by (rule keeps_into; (rule yields_rules)?; simp add: v alter_share_group_offsets_response_alter_share_group_offsets_response_partition_fields)+

lemma alter_share_group_offsets_response_alter_share_group_offsets_response_partition_unknown:
  "AlterShareGroupOffsetsResponse_AlterShareGroupOffsetsResponsePartition_fields_wf version (s\<lparr>asgo_resp_asgorp_unknown_tagged_fields := u\<rparr>) = AlterShareGroupOffsetsResponse_AlterShareGroupOffsetsResponsePartition_fields_wf version s"
  by (simp_all add: AlterShareGroupOffsetsResponse_AlterShareGroupOffsetsResponsePartition_fields_wf_def)

lemma alter_share_group_offsets_response_alter_share_group_offsets_response_partition_yields:
  assumes v: "0 \<le>s version"
  shows "yields 1 (AlterShareGroupOffsetsResponse_AlterShareGroupOffsetsResponsePartition_decode version) (AlterShareGroupOffsetsResponse_AlterShareGroupOffsetsResponsePartition_wf version)"
proof -
  have d: "AlterShareGroupOffsetsResponse_AlterShareGroupOffsetsResponsePartition_fields_wf version AlterShareGroupOffsetsResponse_AlterShareGroupOffsetsResponsePartition_default"
    by (simp add: AlterShareGroupOffsetsResponse_AlterShareGroupOffsetsResponsePartition_default_def v alter_share_group_offsets_response_alter_share_group_offsets_response_partition_fields)
  show ?thesis
    unfolding AlterShareGroupOffsetsResponse_AlterShareGroupOffsetsResponsePartition_decode_def Let_def
    by ((rule alter_share_group_offsets_response_alter_share_group_offsets_response_partition_steps[OF v refl, THEN yields_step], (rule d | assumption))+, rule yields_trailer[OF _ arms_keep_Nil[of "AlterShareGroupOffsetsResponse_AlterShareGroupOffsetsResponsePartition_fields_wf version" "\<lambda>_. 0"]])
      (simp_all add: v d alter_share_group_offsets_response_alter_share_group_offsets_response_partition_unknown AlterShareGroupOffsetsResponse_AlterShareGroupOffsetsResponsePartition_wf_def trailer_ok_def )
qed

lemma alter_share_group_offsets_response_alter_share_group_offsets_response_partition_extends [extends_rules]: "extends_input (AlterShareGroupOffsetsResponse_AlterShareGroupOffsetsResponsePartition_decode version)"
  unfolding AlterShareGroupOffsetsResponse_AlterShareGroupOffsetsResponsePartition_decode_def Let_def by (intro extends_rules)

lemma alter_share_group_offsets_response_alter_share_group_offsets_response_partition_codec:
  assumes v: "0 \<le>s version"
  shows "message_codec AlterShareGroupOffsetsResponse_AlterShareGroupOffsetsResponsePartition_encode AlterShareGroupOffsetsResponse_AlterShareGroupOffsetsResponsePartition_decode AlterShareGroupOffsetsResponse_AlterShareGroupOffsetsResponsePartition_encoded_len (AlterShareGroupOffsetsResponse_AlterShareGroupOffsetsResponsePartition_wf version) version"
proof
  fix x
  assume w: "AlterShareGroupOffsetsResponse_AlterShareGroupOffsetsResponsePartition_wf version x"
  show "carries (AlterShareGroupOffsetsResponse_AlterShareGroupOffsetsResponsePartition_encode x version) (AlterShareGroupOffsetsResponse_AlterShareGroupOffsetsResponsePartition_decode version) (AlterShareGroupOffsetsResponse_AlterShareGroupOffsetsResponsePartition_encoded_len x version) x"
    unfolding AlterShareGroupOffsetsResponse_AlterShareGroupOffsetsResponsePartition_encode_def AlterShareGroupOffsetsResponse_AlterShareGroupOffsetsResponsePartition_encoded_len_def AlterShareGroupOffsetsResponse_AlterShareGroupOffsetsResponsePartition_decode_def Let_def
    by (use w[unfolded AlterShareGroupOffsetsResponse_AlterShareGroupOffsetsResponsePartition_wf_def AlterShareGroupOffsetsResponse_AlterShareGroupOffsetsResponsePartition_fields_wf_def Let_def] in \<open>elim conjE\<close>, rule carries_cong_len)
      ((rule carries_rules | (erule absent_guarded, assumption) | erule absent_plain
        | simp add: v field_ok_def AlterShareGroupOffsetsResponse_AlterShareGroupOffsetsResponsePartition_default_def )+)
next
  show "yields 1 (AlterShareGroupOffsetsResponse_AlterShareGroupOffsetsResponsePartition_decode version) (AlterShareGroupOffsetsResponse_AlterShareGroupOffsetsResponsePartition_wf version)"
    by (rule alter_share_group_offsets_response_alter_share_group_offsets_response_partition_yields[OF v])
qed (rule alter_share_group_offsets_response_alter_share_group_offsets_response_partition_extends)

lemma alter_share_group_offsets_response_alter_share_group_offsets_response_partition_default_wf [simp]: "0 \<le>s version \<Longrightarrow> AlterShareGroupOffsetsResponse_AlterShareGroupOffsetsResponsePartition_wf version AlterShareGroupOffsetsResponse_AlterShareGroupOffsetsResponsePartition_default"
  by (simp add: AlterShareGroupOffsetsResponse_AlterShareGroupOffsetsResponsePartition_wf_def AlterShareGroupOffsetsResponse_AlterShareGroupOffsetsResponsePartition_default_def trailer_ok_def alter_share_group_offsets_response_alter_share_group_offsets_response_partition_fields)

lemmas [carries_rules] = message_codec.message_carries[OF alter_share_group_offsets_response_alter_share_group_offsets_response_partition_codec]
lemmas [yields_rules] = message_codec.message_yields[OF alter_share_group_offsets_response_alter_share_group_offsets_response_partition_codec]

lemmas [carries_rules] = protocol_codec.put_array_carries[OF message_codec.message_protocol[OF alter_share_group_offsets_response_alter_share_group_offsets_response_partition_codec]]
lemmas [yields_rules] = protocol_codec.get_array_yields[OF message_codec.message_protocol[OF alter_share_group_offsets_response_alter_share_group_offsets_response_partition_codec]]
lemmas [carries_rules] = protocol_codec.put_nullable_array_carries[OF message_codec.message_protocol[OF alter_share_group_offsets_response_alter_share_group_offsets_response_partition_codec]]
lemmas [yields_rules] = protocol_codec.get_nullable_array_yields[OF message_codec.message_protocol[OF alter_share_group_offsets_response_alter_share_group_offsets_response_partition_codec]]

record AlterShareGroupOffsetsResponse_AlterShareGroupOffsetsResponseTopic =
  asgo_resp_asgort_topic_name :: bytes
  asgo_resp_asgort_topic_id :: Uuid
  asgo_resp_asgort_partitions :: "AlterShareGroupOffsetsResponse_AlterShareGroupOffsetsResponsePartition list"
  asgo_resp_asgort_unknown_tagged_fields :: "UnknownTaggedField list"

definition AlterShareGroupOffsetsResponse_AlterShareGroupOffsetsResponseTopic_default :: AlterShareGroupOffsetsResponse_AlterShareGroupOffsetsResponseTopic where
  "AlterShareGroupOffsetsResponse_AlterShareGroupOffsetsResponseTopic_default =
     \<lparr>asgo_resp_asgort_topic_name = [], asgo_resp_asgort_topic_id = Uuid_ZERO, asgo_resp_asgort_partitions = [], asgo_resp_asgort_unknown_tagged_fields = []\<rparr>"

definition AlterShareGroupOffsetsResponse_AlterShareGroupOffsetsResponseTopic_encode :: "AlterShareGroupOffsetsResponse_AlterShareGroupOffsetsResponseTopic \<Rightarrow> i16 \<Rightarrow> encoder" where
  "AlterShareGroupOffsetsResponse_AlterShareGroupOffsetsResponseTopic_encode x version =
     (let flex = 0 \<le>s version in
      write_all
        [put_when (0 \<le>s version) (put_str flex (asgo_resp_asgort_topic_name x)),
         put_when (0 \<le>s version) (put_uuid (asgo_resp_asgort_topic_id x)),
         put_when (0 \<le>s version) (put_array flex (\<lambda>it. AlterShareGroupOffsetsResponse_AlterShareGroupOffsetsResponsePartition_encode it version) (asgo_resp_asgort_partitions x)),
         put_when flex (put_tagged [] (asgo_resp_asgort_unknown_tagged_fields x))])"

definition AlterShareGroupOffsetsResponse_AlterShareGroupOffsetsResponseTopic_encoded_len :: "AlterShareGroupOffsetsResponse_AlterShareGroupOffsetsResponseTopic \<Rightarrow> i16 \<Rightarrow> nat" where
  "AlterShareGroupOffsetsResponse_AlterShareGroupOffsetsResponseTopic_encoded_len x version =
     (let flex = 0 \<le>s version in
      len_when (0 \<le>s version) (str_len flex (asgo_resp_asgort_topic_name x))
      + len_when (0 \<le>s version) 16
      + len_when (0 \<le>s version) (array_size flex (\<lambda>it. AlterShareGroupOffsetsResponse_AlterShareGroupOffsetsResponsePartition_encoded_len it version) (asgo_resp_asgort_partitions x))
      + len_when flex (tagged_size [] (asgo_resp_asgort_unknown_tagged_fields x)))"

definition AlterShareGroupOffsetsResponse_AlterShareGroupOffsetsResponseTopic_decode :: "i16 \<Rightarrow> AlterShareGroupOffsetsResponse_AlterShareGroupOffsetsResponseTopic decoder" where
  "AlterShareGroupOffsetsResponse_AlterShareGroupOffsetsResponseTopic_decode version =
     (let flex = 0 \<le>s version in
      read_then (get_into (0 \<le>s version) (get_str flex) (\<lambda>v out. out\<lparr>asgo_resp_asgort_topic_name := v\<rparr>) AlterShareGroupOffsetsResponse_AlterShareGroupOffsetsResponseTopic_default) (\<lambda>out.
        read_then (get_into (0 \<le>s version) get_uuid (\<lambda>v out. out\<lparr>asgo_resp_asgort_topic_id := v\<rparr>) out) (\<lambda>out.
        read_then (get_into (0 \<le>s version) (get_array flex (AlterShareGroupOffsetsResponse_AlterShareGroupOffsetsResponsePartition_decode version)) (\<lambda>v out. out\<lparr>asgo_resp_asgort_partitions := v\<rparr>) out) (\<lambda>out.
        get_trailer flex [] (\<lambda>u out. out\<lparr>asgo_resp_asgort_unknown_tagged_fields := u\<rparr>) out))))"

definition AlterShareGroupOffsetsResponse_AlterShareGroupOffsetsResponseTopic_fields_wf :: "i16 \<Rightarrow> AlterShareGroupOffsetsResponse_AlterShareGroupOffsetsResponseTopic \<Rightarrow> bool" where
  "AlterShareGroupOffsetsResponse_AlterShareGroupOffsetsResponseTopic_fields_wf version x \<longleftrightarrow>
     (let flex = 0 \<le>s version in
      str_wf flex (asgo_resp_asgort_topic_name x)
      \<and> uuid_wf (asgo_resp_asgort_topic_id x)
      \<and> array_ok flex (AlterShareGroupOffsetsResponse_AlterShareGroupOffsetsResponsePartition_wf version) (asgo_resp_asgort_partitions x))"

definition AlterShareGroupOffsetsResponse_AlterShareGroupOffsetsResponseTopic_wf :: "i16 \<Rightarrow> AlterShareGroupOffsetsResponse_AlterShareGroupOffsetsResponseTopic \<Rightarrow> bool" where
  "AlterShareGroupOffsetsResponse_AlterShareGroupOffsetsResponseTopic_wf version x \<longleftrightarrow>
     AlterShareGroupOffsetsResponse_AlterShareGroupOffsetsResponseTopic_fields_wf version x \<and> trailer_ok [] [] (asgo_resp_asgort_unknown_tagged_fields x)"

lemmas alter_share_group_offsets_response_alter_share_group_offsets_response_topic_fields =
    Let_def field_ok_def AlterShareGroupOffsetsResponse_AlterShareGroupOffsetsResponseTopic_fields_wf_def

lemma alter_share_group_offsets_response_alter_share_group_offsets_response_topic_steps:
  assumes v: "0 \<le>s version" and flex: "flex = (0 \<le>s version)"
  shows "keeps (AlterShareGroupOffsetsResponse_AlterShareGroupOffsetsResponseTopic_fields_wf version) (get_into (0 \<le>s version) (get_str flex) (\<lambda>v out. out\<lparr>asgo_resp_asgort_topic_name := v\<rparr>))"
    and "keeps (AlterShareGroupOffsetsResponse_AlterShareGroupOffsetsResponseTopic_fields_wf version) (get_into (0 \<le>s version) get_uuid (\<lambda>v out. out\<lparr>asgo_resp_asgort_topic_id := v\<rparr>))"
    and "keeps (AlterShareGroupOffsetsResponse_AlterShareGroupOffsetsResponseTopic_fields_wf version) (get_into (0 \<le>s version) (get_array flex (AlterShareGroupOffsetsResponse_AlterShareGroupOffsetsResponsePartition_decode version)) (\<lambda>v out. out\<lparr>asgo_resp_asgort_partitions := v\<rparr>))"
  unfolding flex 
  by (rule keeps_into; (rule yields_rules)?; simp add: v alter_share_group_offsets_response_alter_share_group_offsets_response_topic_fields)+

lemma alter_share_group_offsets_response_alter_share_group_offsets_response_topic_unknown:
  "AlterShareGroupOffsetsResponse_AlterShareGroupOffsetsResponseTopic_fields_wf version (s\<lparr>asgo_resp_asgort_unknown_tagged_fields := u\<rparr>) = AlterShareGroupOffsetsResponse_AlterShareGroupOffsetsResponseTopic_fields_wf version s"
  by (simp_all add: AlterShareGroupOffsetsResponse_AlterShareGroupOffsetsResponseTopic_fields_wf_def)

lemma alter_share_group_offsets_response_alter_share_group_offsets_response_topic_yields:
  assumes v: "0 \<le>s version"
  shows "yields 1 (AlterShareGroupOffsetsResponse_AlterShareGroupOffsetsResponseTopic_decode version) (AlterShareGroupOffsetsResponse_AlterShareGroupOffsetsResponseTopic_wf version)"
proof -
  have d: "AlterShareGroupOffsetsResponse_AlterShareGroupOffsetsResponseTopic_fields_wf version AlterShareGroupOffsetsResponse_AlterShareGroupOffsetsResponseTopic_default"
    by (simp add: AlterShareGroupOffsetsResponse_AlterShareGroupOffsetsResponseTopic_default_def v alter_share_group_offsets_response_alter_share_group_offsets_response_topic_fields)
  show ?thesis
    unfolding AlterShareGroupOffsetsResponse_AlterShareGroupOffsetsResponseTopic_decode_def Let_def
    by ((rule alter_share_group_offsets_response_alter_share_group_offsets_response_topic_steps[OF v refl, THEN yields_step], (rule d | assumption))+, rule yields_trailer[OF _ arms_keep_Nil[of "AlterShareGroupOffsetsResponse_AlterShareGroupOffsetsResponseTopic_fields_wf version" "\<lambda>_. 0"]])
      (simp_all add: v d alter_share_group_offsets_response_alter_share_group_offsets_response_topic_unknown AlterShareGroupOffsetsResponse_AlterShareGroupOffsetsResponseTopic_wf_def trailer_ok_def )
qed

lemma alter_share_group_offsets_response_alter_share_group_offsets_response_topic_extends [extends_rules]: "extends_input (AlterShareGroupOffsetsResponse_AlterShareGroupOffsetsResponseTopic_decode version)"
  unfolding AlterShareGroupOffsetsResponse_AlterShareGroupOffsetsResponseTopic_decode_def Let_def by (intro extends_rules)

lemma alter_share_group_offsets_response_alter_share_group_offsets_response_topic_codec:
  assumes v: "0 \<le>s version"
  shows "message_codec AlterShareGroupOffsetsResponse_AlterShareGroupOffsetsResponseTopic_encode AlterShareGroupOffsetsResponse_AlterShareGroupOffsetsResponseTopic_decode AlterShareGroupOffsetsResponse_AlterShareGroupOffsetsResponseTopic_encoded_len (AlterShareGroupOffsetsResponse_AlterShareGroupOffsetsResponseTopic_wf version) version"
proof
  fix x
  assume w: "AlterShareGroupOffsetsResponse_AlterShareGroupOffsetsResponseTopic_wf version x"
  show "carries (AlterShareGroupOffsetsResponse_AlterShareGroupOffsetsResponseTopic_encode x version) (AlterShareGroupOffsetsResponse_AlterShareGroupOffsetsResponseTopic_decode version) (AlterShareGroupOffsetsResponse_AlterShareGroupOffsetsResponseTopic_encoded_len x version) x"
    unfolding AlterShareGroupOffsetsResponse_AlterShareGroupOffsetsResponseTopic_encode_def AlterShareGroupOffsetsResponse_AlterShareGroupOffsetsResponseTopic_encoded_len_def AlterShareGroupOffsetsResponse_AlterShareGroupOffsetsResponseTopic_decode_def Let_def
    by (use w[unfolded AlterShareGroupOffsetsResponse_AlterShareGroupOffsetsResponseTopic_wf_def AlterShareGroupOffsetsResponse_AlterShareGroupOffsetsResponseTopic_fields_wf_def Let_def] in \<open>elim conjE\<close>, rule carries_cong_len)
      ((rule carries_rules | (erule absent_guarded, assumption) | erule absent_plain
        | simp add: v field_ok_def AlterShareGroupOffsetsResponse_AlterShareGroupOffsetsResponseTopic_default_def )+)
next
  show "yields 1 (AlterShareGroupOffsetsResponse_AlterShareGroupOffsetsResponseTopic_decode version) (AlterShareGroupOffsetsResponse_AlterShareGroupOffsetsResponseTopic_wf version)"
    by (rule alter_share_group_offsets_response_alter_share_group_offsets_response_topic_yields[OF v])
qed (rule alter_share_group_offsets_response_alter_share_group_offsets_response_topic_extends)

lemma alter_share_group_offsets_response_alter_share_group_offsets_response_topic_default_wf [simp]: "0 \<le>s version \<Longrightarrow> AlterShareGroupOffsetsResponse_AlterShareGroupOffsetsResponseTopic_wf version AlterShareGroupOffsetsResponse_AlterShareGroupOffsetsResponseTopic_default"
  by (simp add: AlterShareGroupOffsetsResponse_AlterShareGroupOffsetsResponseTopic_wf_def AlterShareGroupOffsetsResponse_AlterShareGroupOffsetsResponseTopic_default_def trailer_ok_def alter_share_group_offsets_response_alter_share_group_offsets_response_topic_fields)

lemmas [carries_rules] = message_codec.message_carries[OF alter_share_group_offsets_response_alter_share_group_offsets_response_topic_codec]
lemmas [yields_rules] = message_codec.message_yields[OF alter_share_group_offsets_response_alter_share_group_offsets_response_topic_codec]

lemmas [carries_rules] = protocol_codec.put_array_carries[OF message_codec.message_protocol[OF alter_share_group_offsets_response_alter_share_group_offsets_response_topic_codec]]
lemmas [yields_rules] = protocol_codec.get_array_yields[OF message_codec.message_protocol[OF alter_share_group_offsets_response_alter_share_group_offsets_response_topic_codec]]
lemmas [carries_rules] = protocol_codec.put_nullable_array_carries[OF message_codec.message_protocol[OF alter_share_group_offsets_response_alter_share_group_offsets_response_topic_codec]]
lemmas [yields_rules] = protocol_codec.get_nullable_array_yields[OF message_codec.message_protocol[OF alter_share_group_offsets_response_alter_share_group_offsets_response_topic_codec]]

record AlterShareGroupOffsetsResponse =
  asgo_resp_throttle_time_ms :: i32
  asgo_resp_error_code :: i16
  asgo_resp_error_message :: "bytes option"
  asgo_resp_responses :: "AlterShareGroupOffsetsResponse_AlterShareGroupOffsetsResponseTopic list"
  asgo_resp_unknown_tagged_fields :: "UnknownTaggedField list"

definition AlterShareGroupOffsetsResponse_default :: AlterShareGroupOffsetsResponse where
  "AlterShareGroupOffsetsResponse_default =
     \<lparr>asgo_resp_throttle_time_ms = 0, asgo_resp_error_code = 0, asgo_resp_error_message = None, asgo_resp_responses = [], asgo_resp_unknown_tagged_fields = []\<rparr>"

definition AlterShareGroupOffsetsResponse_MIN_VERSION :: i16 where
  "AlterShareGroupOffsetsResponse_MIN_VERSION = 0"

definition AlterShareGroupOffsetsResponse_MAX_VERSION :: i16 where
  "AlterShareGroupOffsetsResponse_MAX_VERSION = 0"

definition AlterShareGroupOffsetsResponse_FLEXIBLE_MIN :: i16 where
  "AlterShareGroupOffsetsResponse_FLEXIBLE_MIN = 0"

definition AlterShareGroupOffsetsResponse_API_KEY :: i16 where
  "AlterShareGroupOffsetsResponse_API_KEY = 91"

definition AlterShareGroupOffsetsResponse_is_flexible :: "i16 \<Rightarrow> bool" where
  "AlterShareGroupOffsetsResponse_is_flexible version \<longleftrightarrow> AlterShareGroupOffsetsResponse_FLEXIBLE_MIN \<le>s version"

definition AlterShareGroupOffsetsResponse_encode :: "AlterShareGroupOffsetsResponse \<Rightarrow> i16 \<Rightarrow> encoder" where
  "AlterShareGroupOffsetsResponse_encode x version =
     (let flex = AlterShareGroupOffsetsResponse_is_flexible version in
      write_all
        [write_check (check_version AlterShareGroupOffsetsResponse_API_KEY version AlterShareGroupOffsetsResponse_MIN_VERSION AlterShareGroupOffsetsResponse_MAX_VERSION),
         put_when (0 \<le>s version) (put_i32 (asgo_resp_throttle_time_ms x)),
         put_when (0 \<le>s version) (put_i16 (asgo_resp_error_code x)),
         put_when (0 \<le>s version) (put_nullable_str flex (asgo_resp_error_message x)),
         put_when (0 \<le>s version) (put_array flex (\<lambda>it. AlterShareGroupOffsetsResponse_AlterShareGroupOffsetsResponseTopic_encode it version) (asgo_resp_responses x)),
         put_when flex (put_tagged [] (asgo_resp_unknown_tagged_fields x))])"

definition AlterShareGroupOffsetsResponse_encoded_len :: "AlterShareGroupOffsetsResponse \<Rightarrow> i16 \<Rightarrow> nat" where
  "AlterShareGroupOffsetsResponse_encoded_len x version =
     (let flex = AlterShareGroupOffsetsResponse_is_flexible version in
      len_when (0 \<le>s version) 4
      + len_when (0 \<le>s version) 2
      + len_when (0 \<le>s version) (nullable_str_len flex (asgo_resp_error_message x))
      + len_when (0 \<le>s version) (array_size flex (\<lambda>it. AlterShareGroupOffsetsResponse_AlterShareGroupOffsetsResponseTopic_encoded_len it version) (asgo_resp_responses x))
      + len_when flex (tagged_size [] (asgo_resp_unknown_tagged_fields x)))"

definition AlterShareGroupOffsetsResponse_decode :: "i16 \<Rightarrow> AlterShareGroupOffsetsResponse decoder" where
  "AlterShareGroupOffsetsResponse_decode version =
     (let flex = AlterShareGroupOffsetsResponse_is_flexible version in
      checked (check_version AlterShareGroupOffsetsResponse_API_KEY version AlterShareGroupOffsetsResponse_MIN_VERSION AlterShareGroupOffsetsResponse_MAX_VERSION) (
        read_then (get_into (0 \<le>s version) get_i32 (\<lambda>v out. out\<lparr>asgo_resp_throttle_time_ms := v\<rparr>) AlterShareGroupOffsetsResponse_default) (\<lambda>out.
        read_then (get_into (0 \<le>s version) get_i16 (\<lambda>v out. out\<lparr>asgo_resp_error_code := v\<rparr>) out) (\<lambda>out.
        read_then (get_into (0 \<le>s version) (get_nullable_str flex) (\<lambda>v out. out\<lparr>asgo_resp_error_message := v\<rparr>) out) (\<lambda>out.
        read_then (get_into (0 \<le>s version) (get_array flex (AlterShareGroupOffsetsResponse_AlterShareGroupOffsetsResponseTopic_decode version)) (\<lambda>v out. out\<lparr>asgo_resp_responses := v\<rparr>) out) (\<lambda>out.
        get_trailer flex [] (\<lambda>u out. out\<lparr>asgo_resp_unknown_tagged_fields := u\<rparr>) out))))))"

definition AlterShareGroupOffsetsResponse_fields_wf :: "i16 \<Rightarrow> AlterShareGroupOffsetsResponse \<Rightarrow> bool" where
  "AlterShareGroupOffsetsResponse_fields_wf version x \<longleftrightarrow>
     (let flex = AlterShareGroupOffsetsResponse_is_flexible version in
      nullable_str_wf flex (asgo_resp_error_message x)
      \<and> array_ok flex (AlterShareGroupOffsetsResponse_AlterShareGroupOffsetsResponseTopic_wf version) (asgo_resp_responses x))"

definition AlterShareGroupOffsetsResponse_wf :: "i16 \<Rightarrow> AlterShareGroupOffsetsResponse \<Rightarrow> bool" where
  "AlterShareGroupOffsetsResponse_wf version x \<longleftrightarrow>
     version_in AlterShareGroupOffsetsResponse_MIN_VERSION AlterShareGroupOffsetsResponse_MAX_VERSION version \<and> AlterShareGroupOffsetsResponse_fields_wf version x \<and> trailer_ok [] [] (asgo_resp_unknown_tagged_fields x)"

lemmas alter_share_group_offsets_response_versions =
    AlterShareGroupOffsetsResponse_is_flexible_def AlterShareGroupOffsetsResponse_FLEXIBLE_MIN_def
    AlterShareGroupOffsetsResponse_MIN_VERSION_def AlterShareGroupOffsetsResponse_MAX_VERSION_def version_in_def

lemmas alter_share_group_offsets_response_fields =
    Let_def field_ok_def AlterShareGroupOffsetsResponse_fields_wf_def
    AlterShareGroupOffsetsResponse_is_flexible_def AlterShareGroupOffsetsResponse_FLEXIBLE_MIN_def

lemma alter_share_group_offsets_response_steps:
  assumes v: "0 \<le>s version" and flex: "flex = (AlterShareGroupOffsetsResponse_is_flexible version)"
  shows "keeps (AlterShareGroupOffsetsResponse_fields_wf version) (get_into (0 \<le>s version) get_i32 (\<lambda>v out. out\<lparr>asgo_resp_throttle_time_ms := v\<rparr>))"
    and "keeps (AlterShareGroupOffsetsResponse_fields_wf version) (get_into (0 \<le>s version) get_i16 (\<lambda>v out. out\<lparr>asgo_resp_error_code := v\<rparr>))"
    and "keeps (AlterShareGroupOffsetsResponse_fields_wf version) (get_into (0 \<le>s version) (get_nullable_str flex) (\<lambda>v out. out\<lparr>asgo_resp_error_message := v\<rparr>))"
    and "keeps (AlterShareGroupOffsetsResponse_fields_wf version) (get_into (0 \<le>s version) (get_array flex (AlterShareGroupOffsetsResponse_AlterShareGroupOffsetsResponseTopic_decode version)) (\<lambda>v out. out\<lparr>asgo_resp_responses := v\<rparr>))"
  unfolding flex 
  by (rule keeps_into; (rule yields_rules)?; simp add: v alter_share_group_offsets_response_fields)+

lemma alter_share_group_offsets_response_unknown:
  "AlterShareGroupOffsetsResponse_fields_wf version (s\<lparr>asgo_resp_unknown_tagged_fields := u\<rparr>) = AlterShareGroupOffsetsResponse_fields_wf version s"
  by (simp_all add: AlterShareGroupOffsetsResponse_fields_wf_def)

lemma alter_share_group_offsets_response_yields:
  assumes r: "version_in AlterShareGroupOffsetsResponse_MIN_VERSION AlterShareGroupOffsetsResponse_MAX_VERSION version"
  shows "yields 1 (AlterShareGroupOffsetsResponse_decode version) (AlterShareGroupOffsetsResponse_wf version)"
proof -
  have v: "0 \<le>s version"
    using r by (simp add: alter_share_group_offsets_response_versions)
  have d: "AlterShareGroupOffsetsResponse_fields_wf version AlterShareGroupOffsetsResponse_default"
    by (simp add: AlterShareGroupOffsetsResponse_default_def v alter_share_group_offsets_response_fields)
  show ?thesis
    unfolding AlterShareGroupOffsetsResponse_decode_def Let_def
    by (rule yields_checked, (rule alter_share_group_offsets_response_steps[OF v refl, THEN yields_step], (rule d | assumption))+, rule yields_trailer[OF _ arms_keep_Nil[of "AlterShareGroupOffsetsResponse_fields_wf version" "\<lambda>_. 0"]])
      (simp_all add: v d alter_share_group_offsets_response_unknown AlterShareGroupOffsetsResponse_wf_def trailer_ok_def r AlterShareGroupOffsetsResponse_is_flexible_def AlterShareGroupOffsetsResponse_FLEXIBLE_MIN_def)
qed

interpretation alter_share_group_offsets_response: message_codec
  AlterShareGroupOffsetsResponse_encode AlterShareGroupOffsetsResponse_decode AlterShareGroupOffsetsResponse_encoded_len "AlterShareGroupOffsetsResponse_wf version" version
  for version
proof
  fix x
  assume w: "AlterShareGroupOffsetsResponse_wf version x"
  then have v: "0 \<le>s version"
    by (simp add: AlterShareGroupOffsetsResponse_wf_def alter_share_group_offsets_response_versions)
  show "carries (AlterShareGroupOffsetsResponse_encode x version) (AlterShareGroupOffsetsResponse_decode version) (AlterShareGroupOffsetsResponse_encoded_len x version) x"
    unfolding AlterShareGroupOffsetsResponse_encode_def AlterShareGroupOffsetsResponse_encoded_len_def AlterShareGroupOffsetsResponse_decode_def Let_def
    by (use w[unfolded AlterShareGroupOffsetsResponse_wf_def AlterShareGroupOffsetsResponse_fields_wf_def Let_def] in \<open>elim conjE\<close>, rule carries_cong_len)
      ((rule carries_rules check_version_in[THEN iffD2] | (erule absent_guarded, assumption) | erule absent_plain
        | simp add: v field_ok_def AlterShareGroupOffsetsResponse_default_def alter_share_group_offsets_response_versions)+)
next
  show "yields 1 (AlterShareGroupOffsetsResponse_decode version) (AlterShareGroupOffsetsResponse_wf version)"
    by (rule case_split[OF alter_share_group_offsets_response_yields]) (auto simp: AlterShareGroupOffsetsResponse_decode_def Let_def yields_refused yields_unsupported)
  show "extends_input (AlterShareGroupOffsetsResponse_decode version)"
    unfolding AlterShareGroupOffsetsResponse_decode_def Let_def by (intro extends_rules)
qed

section \<open>DeleteShareGroupOffsetsRequest\<close>

record DeleteShareGroupOffsetsRequest_DeleteShareGroupOffsetsRequestTopic =
  dsgo_req_dsgort_topic_name :: bytes
  dsgo_req_dsgort_unknown_tagged_fields :: "UnknownTaggedField list"

definition DeleteShareGroupOffsetsRequest_DeleteShareGroupOffsetsRequestTopic_default :: DeleteShareGroupOffsetsRequest_DeleteShareGroupOffsetsRequestTopic where
  "DeleteShareGroupOffsetsRequest_DeleteShareGroupOffsetsRequestTopic_default =
     \<lparr>dsgo_req_dsgort_topic_name = [], dsgo_req_dsgort_unknown_tagged_fields = []\<rparr>"

definition DeleteShareGroupOffsetsRequest_DeleteShareGroupOffsetsRequestTopic_encode :: "DeleteShareGroupOffsetsRequest_DeleteShareGroupOffsetsRequestTopic \<Rightarrow> i16 \<Rightarrow> encoder" where
  "DeleteShareGroupOffsetsRequest_DeleteShareGroupOffsetsRequestTopic_encode x version =
     (let flex = 0 \<le>s version in
      write_all
        [put_when (0 \<le>s version) (put_str flex (dsgo_req_dsgort_topic_name x)),
         put_when flex (put_tagged [] (dsgo_req_dsgort_unknown_tagged_fields x))])"

definition DeleteShareGroupOffsetsRequest_DeleteShareGroupOffsetsRequestTopic_encoded_len :: "DeleteShareGroupOffsetsRequest_DeleteShareGroupOffsetsRequestTopic \<Rightarrow> i16 \<Rightarrow> nat" where
  "DeleteShareGroupOffsetsRequest_DeleteShareGroupOffsetsRequestTopic_encoded_len x version =
     (let flex = 0 \<le>s version in
      len_when (0 \<le>s version) (str_len flex (dsgo_req_dsgort_topic_name x))
      + len_when flex (tagged_size [] (dsgo_req_dsgort_unknown_tagged_fields x)))"

definition DeleteShareGroupOffsetsRequest_DeleteShareGroupOffsetsRequestTopic_decode :: "i16 \<Rightarrow> DeleteShareGroupOffsetsRequest_DeleteShareGroupOffsetsRequestTopic decoder" where
  "DeleteShareGroupOffsetsRequest_DeleteShareGroupOffsetsRequestTopic_decode version =
     (let flex = 0 \<le>s version in
      read_then (get_into (0 \<le>s version) (get_str flex) (\<lambda>v out. out\<lparr>dsgo_req_dsgort_topic_name := v\<rparr>) DeleteShareGroupOffsetsRequest_DeleteShareGroupOffsetsRequestTopic_default) (\<lambda>out.
        get_trailer flex [] (\<lambda>u out. out\<lparr>dsgo_req_dsgort_unknown_tagged_fields := u\<rparr>) out))"

definition DeleteShareGroupOffsetsRequest_DeleteShareGroupOffsetsRequestTopic_fields_wf :: "i16 \<Rightarrow> DeleteShareGroupOffsetsRequest_DeleteShareGroupOffsetsRequestTopic \<Rightarrow> bool" where
  "DeleteShareGroupOffsetsRequest_DeleteShareGroupOffsetsRequestTopic_fields_wf version x \<longleftrightarrow>
     (let flex = 0 \<le>s version in
      str_wf flex (dsgo_req_dsgort_topic_name x))"

definition DeleteShareGroupOffsetsRequest_DeleteShareGroupOffsetsRequestTopic_wf :: "i16 \<Rightarrow> DeleteShareGroupOffsetsRequest_DeleteShareGroupOffsetsRequestTopic \<Rightarrow> bool" where
  "DeleteShareGroupOffsetsRequest_DeleteShareGroupOffsetsRequestTopic_wf version x \<longleftrightarrow>
     DeleteShareGroupOffsetsRequest_DeleteShareGroupOffsetsRequestTopic_fields_wf version x \<and> trailer_ok [] [] (dsgo_req_dsgort_unknown_tagged_fields x)"

lemmas delete_share_group_offsets_request_delete_share_group_offsets_request_topic_fields =
    Let_def field_ok_def DeleteShareGroupOffsetsRequest_DeleteShareGroupOffsetsRequestTopic_fields_wf_def

lemma delete_share_group_offsets_request_delete_share_group_offsets_request_topic_steps:
  assumes v: "0 \<le>s version" and flex: "flex = (0 \<le>s version)"
  shows "keeps (DeleteShareGroupOffsetsRequest_DeleteShareGroupOffsetsRequestTopic_fields_wf version) (get_into (0 \<le>s version) (get_str flex) (\<lambda>v out. out\<lparr>dsgo_req_dsgort_topic_name := v\<rparr>))"
  unfolding flex 
  by (rule keeps_into; (rule yields_rules)?; simp add: v delete_share_group_offsets_request_delete_share_group_offsets_request_topic_fields)+

lemma delete_share_group_offsets_request_delete_share_group_offsets_request_topic_unknown:
  "DeleteShareGroupOffsetsRequest_DeleteShareGroupOffsetsRequestTopic_fields_wf version (s\<lparr>dsgo_req_dsgort_unknown_tagged_fields := u\<rparr>) = DeleteShareGroupOffsetsRequest_DeleteShareGroupOffsetsRequestTopic_fields_wf version s"
  by (simp_all add: DeleteShareGroupOffsetsRequest_DeleteShareGroupOffsetsRequestTopic_fields_wf_def)

lemma delete_share_group_offsets_request_delete_share_group_offsets_request_topic_yields:
  assumes v: "0 \<le>s version"
  shows "yields 1 (DeleteShareGroupOffsetsRequest_DeleteShareGroupOffsetsRequestTopic_decode version) (DeleteShareGroupOffsetsRequest_DeleteShareGroupOffsetsRequestTopic_wf version)"
proof -
  have d: "DeleteShareGroupOffsetsRequest_DeleteShareGroupOffsetsRequestTopic_fields_wf version DeleteShareGroupOffsetsRequest_DeleteShareGroupOffsetsRequestTopic_default"
    by (simp add: DeleteShareGroupOffsetsRequest_DeleteShareGroupOffsetsRequestTopic_default_def v delete_share_group_offsets_request_delete_share_group_offsets_request_topic_fields)
  show ?thesis
    unfolding DeleteShareGroupOffsetsRequest_DeleteShareGroupOffsetsRequestTopic_decode_def Let_def
    by ((rule delete_share_group_offsets_request_delete_share_group_offsets_request_topic_steps[OF v refl, THEN yields_step], (rule d | assumption))+, rule yields_trailer[OF _ arms_keep_Nil[of "DeleteShareGroupOffsetsRequest_DeleteShareGroupOffsetsRequestTopic_fields_wf version" "\<lambda>_. 0"]])
      (simp_all add: v d delete_share_group_offsets_request_delete_share_group_offsets_request_topic_unknown DeleteShareGroupOffsetsRequest_DeleteShareGroupOffsetsRequestTopic_wf_def trailer_ok_def )
qed

lemma delete_share_group_offsets_request_delete_share_group_offsets_request_topic_extends [extends_rules]: "extends_input (DeleteShareGroupOffsetsRequest_DeleteShareGroupOffsetsRequestTopic_decode version)"
  unfolding DeleteShareGroupOffsetsRequest_DeleteShareGroupOffsetsRequestTopic_decode_def Let_def by (intro extends_rules)

lemma delete_share_group_offsets_request_delete_share_group_offsets_request_topic_codec:
  assumes v: "0 \<le>s version"
  shows "message_codec DeleteShareGroupOffsetsRequest_DeleteShareGroupOffsetsRequestTopic_encode DeleteShareGroupOffsetsRequest_DeleteShareGroupOffsetsRequestTopic_decode DeleteShareGroupOffsetsRequest_DeleteShareGroupOffsetsRequestTopic_encoded_len (DeleteShareGroupOffsetsRequest_DeleteShareGroupOffsetsRequestTopic_wf version) version"
proof
  fix x
  assume w: "DeleteShareGroupOffsetsRequest_DeleteShareGroupOffsetsRequestTopic_wf version x"
  show "carries (DeleteShareGroupOffsetsRequest_DeleteShareGroupOffsetsRequestTopic_encode x version) (DeleteShareGroupOffsetsRequest_DeleteShareGroupOffsetsRequestTopic_decode version) (DeleteShareGroupOffsetsRequest_DeleteShareGroupOffsetsRequestTopic_encoded_len x version) x"
    unfolding DeleteShareGroupOffsetsRequest_DeleteShareGroupOffsetsRequestTopic_encode_def DeleteShareGroupOffsetsRequest_DeleteShareGroupOffsetsRequestTopic_encoded_len_def DeleteShareGroupOffsetsRequest_DeleteShareGroupOffsetsRequestTopic_decode_def Let_def
    by (use w[unfolded DeleteShareGroupOffsetsRequest_DeleteShareGroupOffsetsRequestTopic_wf_def DeleteShareGroupOffsetsRequest_DeleteShareGroupOffsetsRequestTopic_fields_wf_def Let_def] in \<open>elim conjE\<close>, rule carries_cong_len)
      ((rule carries_rules | (erule absent_guarded, assumption) | erule absent_plain
        | simp add: v field_ok_def DeleteShareGroupOffsetsRequest_DeleteShareGroupOffsetsRequestTopic_default_def )+)
next
  show "yields 1 (DeleteShareGroupOffsetsRequest_DeleteShareGroupOffsetsRequestTopic_decode version) (DeleteShareGroupOffsetsRequest_DeleteShareGroupOffsetsRequestTopic_wf version)"
    by (rule delete_share_group_offsets_request_delete_share_group_offsets_request_topic_yields[OF v])
qed (rule delete_share_group_offsets_request_delete_share_group_offsets_request_topic_extends)

lemma delete_share_group_offsets_request_delete_share_group_offsets_request_topic_default_wf [simp]: "0 \<le>s version \<Longrightarrow> DeleteShareGroupOffsetsRequest_DeleteShareGroupOffsetsRequestTopic_wf version DeleteShareGroupOffsetsRequest_DeleteShareGroupOffsetsRequestTopic_default"
  by (simp add: DeleteShareGroupOffsetsRequest_DeleteShareGroupOffsetsRequestTopic_wf_def DeleteShareGroupOffsetsRequest_DeleteShareGroupOffsetsRequestTopic_default_def trailer_ok_def delete_share_group_offsets_request_delete_share_group_offsets_request_topic_fields)

lemmas [carries_rules] = message_codec.message_carries[OF delete_share_group_offsets_request_delete_share_group_offsets_request_topic_codec]
lemmas [yields_rules] = message_codec.message_yields[OF delete_share_group_offsets_request_delete_share_group_offsets_request_topic_codec]

lemmas [carries_rules] = protocol_codec.put_array_carries[OF message_codec.message_protocol[OF delete_share_group_offsets_request_delete_share_group_offsets_request_topic_codec]]
lemmas [yields_rules] = protocol_codec.get_array_yields[OF message_codec.message_protocol[OF delete_share_group_offsets_request_delete_share_group_offsets_request_topic_codec]]
lemmas [carries_rules] = protocol_codec.put_nullable_array_carries[OF message_codec.message_protocol[OF delete_share_group_offsets_request_delete_share_group_offsets_request_topic_codec]]
lemmas [yields_rules] = protocol_codec.get_nullable_array_yields[OF message_codec.message_protocol[OF delete_share_group_offsets_request_delete_share_group_offsets_request_topic_codec]]

record DeleteShareGroupOffsetsRequest =
  dsgo_req_group_id :: bytes
  dsgo_req_topics :: "DeleteShareGroupOffsetsRequest_DeleteShareGroupOffsetsRequestTopic list"
  dsgo_req_unknown_tagged_fields :: "UnknownTaggedField list"

definition DeleteShareGroupOffsetsRequest_default :: DeleteShareGroupOffsetsRequest where
  "DeleteShareGroupOffsetsRequest_default =
     \<lparr>dsgo_req_group_id = [], dsgo_req_topics = [], dsgo_req_unknown_tagged_fields = []\<rparr>"

definition DeleteShareGroupOffsetsRequest_MIN_VERSION :: i16 where
  "DeleteShareGroupOffsetsRequest_MIN_VERSION = 0"

definition DeleteShareGroupOffsetsRequest_MAX_VERSION :: i16 where
  "DeleteShareGroupOffsetsRequest_MAX_VERSION = 0"

definition DeleteShareGroupOffsetsRequest_FLEXIBLE_MIN :: i16 where
  "DeleteShareGroupOffsetsRequest_FLEXIBLE_MIN = 0"

definition DeleteShareGroupOffsetsRequest_API_KEY :: i16 where
  "DeleteShareGroupOffsetsRequest_API_KEY = 92"

definition DeleteShareGroupOffsetsRequest_is_flexible :: "i16 \<Rightarrow> bool" where
  "DeleteShareGroupOffsetsRequest_is_flexible version \<longleftrightarrow> DeleteShareGroupOffsetsRequest_FLEXIBLE_MIN \<le>s version"

definition DeleteShareGroupOffsetsRequest_encode :: "DeleteShareGroupOffsetsRequest \<Rightarrow> i16 \<Rightarrow> encoder" where
  "DeleteShareGroupOffsetsRequest_encode x version =
     (let flex = DeleteShareGroupOffsetsRequest_is_flexible version in
      write_all
        [write_check (check_version DeleteShareGroupOffsetsRequest_API_KEY version DeleteShareGroupOffsetsRequest_MIN_VERSION DeleteShareGroupOffsetsRequest_MAX_VERSION),
         put_when (0 \<le>s version) (put_str flex (dsgo_req_group_id x)),
         put_when (0 \<le>s version) (put_array flex (\<lambda>it. DeleteShareGroupOffsetsRequest_DeleteShareGroupOffsetsRequestTopic_encode it version) (dsgo_req_topics x)),
         put_when flex (put_tagged [] (dsgo_req_unknown_tagged_fields x))])"

definition DeleteShareGroupOffsetsRequest_encoded_len :: "DeleteShareGroupOffsetsRequest \<Rightarrow> i16 \<Rightarrow> nat" where
  "DeleteShareGroupOffsetsRequest_encoded_len x version =
     (let flex = DeleteShareGroupOffsetsRequest_is_flexible version in
      len_when (0 \<le>s version) (str_len flex (dsgo_req_group_id x))
      + len_when (0 \<le>s version) (array_size flex (\<lambda>it. DeleteShareGroupOffsetsRequest_DeleteShareGroupOffsetsRequestTopic_encoded_len it version) (dsgo_req_topics x))
      + len_when flex (tagged_size [] (dsgo_req_unknown_tagged_fields x)))"

definition DeleteShareGroupOffsetsRequest_decode :: "i16 \<Rightarrow> DeleteShareGroupOffsetsRequest decoder" where
  "DeleteShareGroupOffsetsRequest_decode version =
     (let flex = DeleteShareGroupOffsetsRequest_is_flexible version in
      checked (check_version DeleteShareGroupOffsetsRequest_API_KEY version DeleteShareGroupOffsetsRequest_MIN_VERSION DeleteShareGroupOffsetsRequest_MAX_VERSION) (
        read_then (get_into (0 \<le>s version) (get_str flex) (\<lambda>v out. out\<lparr>dsgo_req_group_id := v\<rparr>) DeleteShareGroupOffsetsRequest_default) (\<lambda>out.
        read_then (get_into (0 \<le>s version) (get_array flex (DeleteShareGroupOffsetsRequest_DeleteShareGroupOffsetsRequestTopic_decode version)) (\<lambda>v out. out\<lparr>dsgo_req_topics := v\<rparr>) out) (\<lambda>out.
        get_trailer flex [] (\<lambda>u out. out\<lparr>dsgo_req_unknown_tagged_fields := u\<rparr>) out))))"

definition DeleteShareGroupOffsetsRequest_fields_wf :: "i16 \<Rightarrow> DeleteShareGroupOffsetsRequest \<Rightarrow> bool" where
  "DeleteShareGroupOffsetsRequest_fields_wf version x \<longleftrightarrow>
     (let flex = DeleteShareGroupOffsetsRequest_is_flexible version in
      str_wf flex (dsgo_req_group_id x)
      \<and> array_ok flex (DeleteShareGroupOffsetsRequest_DeleteShareGroupOffsetsRequestTopic_wf version) (dsgo_req_topics x))"

definition DeleteShareGroupOffsetsRequest_wf :: "i16 \<Rightarrow> DeleteShareGroupOffsetsRequest \<Rightarrow> bool" where
  "DeleteShareGroupOffsetsRequest_wf version x \<longleftrightarrow>
     version_in DeleteShareGroupOffsetsRequest_MIN_VERSION DeleteShareGroupOffsetsRequest_MAX_VERSION version \<and> DeleteShareGroupOffsetsRequest_fields_wf version x \<and> trailer_ok [] [] (dsgo_req_unknown_tagged_fields x)"

lemmas delete_share_group_offsets_request_versions =
    DeleteShareGroupOffsetsRequest_is_flexible_def DeleteShareGroupOffsetsRequest_FLEXIBLE_MIN_def
    DeleteShareGroupOffsetsRequest_MIN_VERSION_def DeleteShareGroupOffsetsRequest_MAX_VERSION_def version_in_def

lemmas delete_share_group_offsets_request_fields =
    Let_def field_ok_def DeleteShareGroupOffsetsRequest_fields_wf_def
    DeleteShareGroupOffsetsRequest_is_flexible_def DeleteShareGroupOffsetsRequest_FLEXIBLE_MIN_def

lemma delete_share_group_offsets_request_steps:
  assumes v: "0 \<le>s version" and flex: "flex = (DeleteShareGroupOffsetsRequest_is_flexible version)"
  shows "keeps (DeleteShareGroupOffsetsRequest_fields_wf version) (get_into (0 \<le>s version) (get_str flex) (\<lambda>v out. out\<lparr>dsgo_req_group_id := v\<rparr>))"
    and "keeps (DeleteShareGroupOffsetsRequest_fields_wf version) (get_into (0 \<le>s version) (get_array flex (DeleteShareGroupOffsetsRequest_DeleteShareGroupOffsetsRequestTopic_decode version)) (\<lambda>v out. out\<lparr>dsgo_req_topics := v\<rparr>))"
  unfolding flex 
  by (rule keeps_into; (rule yields_rules)?; simp add: v delete_share_group_offsets_request_fields)+

lemma delete_share_group_offsets_request_unknown:
  "DeleteShareGroupOffsetsRequest_fields_wf version (s\<lparr>dsgo_req_unknown_tagged_fields := u\<rparr>) = DeleteShareGroupOffsetsRequest_fields_wf version s"
  by (simp_all add: DeleteShareGroupOffsetsRequest_fields_wf_def)

lemma delete_share_group_offsets_request_yields:
  assumes r: "version_in DeleteShareGroupOffsetsRequest_MIN_VERSION DeleteShareGroupOffsetsRequest_MAX_VERSION version"
  shows "yields 1 (DeleteShareGroupOffsetsRequest_decode version) (DeleteShareGroupOffsetsRequest_wf version)"
proof -
  have v: "0 \<le>s version"
    using r by (simp add: delete_share_group_offsets_request_versions)
  have d: "DeleteShareGroupOffsetsRequest_fields_wf version DeleteShareGroupOffsetsRequest_default"
    by (simp add: DeleteShareGroupOffsetsRequest_default_def v delete_share_group_offsets_request_fields)
  show ?thesis
    unfolding DeleteShareGroupOffsetsRequest_decode_def Let_def
    by (rule yields_checked, (rule delete_share_group_offsets_request_steps[OF v refl, THEN yields_step], (rule d | assumption))+, rule yields_trailer[OF _ arms_keep_Nil[of "DeleteShareGroupOffsetsRequest_fields_wf version" "\<lambda>_. 0"]])
      (simp_all add: v d delete_share_group_offsets_request_unknown DeleteShareGroupOffsetsRequest_wf_def trailer_ok_def r DeleteShareGroupOffsetsRequest_is_flexible_def DeleteShareGroupOffsetsRequest_FLEXIBLE_MIN_def)
qed

interpretation delete_share_group_offsets_request: message_codec
  DeleteShareGroupOffsetsRequest_encode DeleteShareGroupOffsetsRequest_decode DeleteShareGroupOffsetsRequest_encoded_len "DeleteShareGroupOffsetsRequest_wf version" version
  for version
proof
  fix x
  assume w: "DeleteShareGroupOffsetsRequest_wf version x"
  then have v: "0 \<le>s version"
    by (simp add: DeleteShareGroupOffsetsRequest_wf_def delete_share_group_offsets_request_versions)
  show "carries (DeleteShareGroupOffsetsRequest_encode x version) (DeleteShareGroupOffsetsRequest_decode version) (DeleteShareGroupOffsetsRequest_encoded_len x version) x"
    unfolding DeleteShareGroupOffsetsRequest_encode_def DeleteShareGroupOffsetsRequest_encoded_len_def DeleteShareGroupOffsetsRequest_decode_def Let_def
    by (use w[unfolded DeleteShareGroupOffsetsRequest_wf_def DeleteShareGroupOffsetsRequest_fields_wf_def Let_def] in \<open>elim conjE\<close>, rule carries_cong_len)
      ((rule carries_rules check_version_in[THEN iffD2] | (erule absent_guarded, assumption) | erule absent_plain
        | simp add: v field_ok_def DeleteShareGroupOffsetsRequest_default_def delete_share_group_offsets_request_versions)+)
next
  show "yields 1 (DeleteShareGroupOffsetsRequest_decode version) (DeleteShareGroupOffsetsRequest_wf version)"
    by (rule case_split[OF delete_share_group_offsets_request_yields]) (auto simp: DeleteShareGroupOffsetsRequest_decode_def Let_def yields_refused yields_unsupported)
  show "extends_input (DeleteShareGroupOffsetsRequest_decode version)"
    unfolding DeleteShareGroupOffsetsRequest_decode_def Let_def by (intro extends_rules)
qed

section \<open>DeleteShareGroupOffsetsResponse\<close>

record DeleteShareGroupOffsetsResponse_DeleteShareGroupOffsetsResponseTopic =
  dsgo_resp_dsgort_topic_name :: bytes
  dsgo_resp_dsgort_topic_id :: Uuid
  dsgo_resp_dsgort_error_code :: i16
  dsgo_resp_dsgort_error_message :: "bytes option"
  dsgo_resp_dsgort_unknown_tagged_fields :: "UnknownTaggedField list"

definition DeleteShareGroupOffsetsResponse_DeleteShareGroupOffsetsResponseTopic_default :: DeleteShareGroupOffsetsResponse_DeleteShareGroupOffsetsResponseTopic where
  "DeleteShareGroupOffsetsResponse_DeleteShareGroupOffsetsResponseTopic_default =
     \<lparr>dsgo_resp_dsgort_topic_name = [], dsgo_resp_dsgort_topic_id = Uuid_ZERO, dsgo_resp_dsgort_error_code = 0, dsgo_resp_dsgort_error_message = None, dsgo_resp_dsgort_unknown_tagged_fields = []\<rparr>"

definition DeleteShareGroupOffsetsResponse_DeleteShareGroupOffsetsResponseTopic_encode :: "DeleteShareGroupOffsetsResponse_DeleteShareGroupOffsetsResponseTopic \<Rightarrow> i16 \<Rightarrow> encoder" where
  "DeleteShareGroupOffsetsResponse_DeleteShareGroupOffsetsResponseTopic_encode x version =
     (let flex = 0 \<le>s version in
      write_all
        [put_when (0 \<le>s version) (put_str flex (dsgo_resp_dsgort_topic_name x)),
         put_when (0 \<le>s version) (put_uuid (dsgo_resp_dsgort_topic_id x)),
         put_when (0 \<le>s version) (put_i16 (dsgo_resp_dsgort_error_code x)),
         put_when (0 \<le>s version) (put_nullable_str flex (dsgo_resp_dsgort_error_message x)),
         put_when flex (put_tagged [] (dsgo_resp_dsgort_unknown_tagged_fields x))])"

definition DeleteShareGroupOffsetsResponse_DeleteShareGroupOffsetsResponseTopic_encoded_len :: "DeleteShareGroupOffsetsResponse_DeleteShareGroupOffsetsResponseTopic \<Rightarrow> i16 \<Rightarrow> nat" where
  "DeleteShareGroupOffsetsResponse_DeleteShareGroupOffsetsResponseTopic_encoded_len x version =
     (let flex = 0 \<le>s version in
      len_when (0 \<le>s version) (str_len flex (dsgo_resp_dsgort_topic_name x))
      + len_when (0 \<le>s version) 16
      + len_when (0 \<le>s version) 2
      + len_when (0 \<le>s version) (nullable_str_len flex (dsgo_resp_dsgort_error_message x))
      + len_when flex (tagged_size [] (dsgo_resp_dsgort_unknown_tagged_fields x)))"

definition DeleteShareGroupOffsetsResponse_DeleteShareGroupOffsetsResponseTopic_decode :: "i16 \<Rightarrow> DeleteShareGroupOffsetsResponse_DeleteShareGroupOffsetsResponseTopic decoder" where
  "DeleteShareGroupOffsetsResponse_DeleteShareGroupOffsetsResponseTopic_decode version =
     (let flex = 0 \<le>s version in
      read_then (get_into (0 \<le>s version) (get_str flex) (\<lambda>v out. out\<lparr>dsgo_resp_dsgort_topic_name := v\<rparr>) DeleteShareGroupOffsetsResponse_DeleteShareGroupOffsetsResponseTopic_default) (\<lambda>out.
        read_then (get_into (0 \<le>s version) get_uuid (\<lambda>v out. out\<lparr>dsgo_resp_dsgort_topic_id := v\<rparr>) out) (\<lambda>out.
        read_then (get_into (0 \<le>s version) get_i16 (\<lambda>v out. out\<lparr>dsgo_resp_dsgort_error_code := v\<rparr>) out) (\<lambda>out.
        read_then (get_into (0 \<le>s version) (get_nullable_str flex) (\<lambda>v out. out\<lparr>dsgo_resp_dsgort_error_message := v\<rparr>) out) (\<lambda>out.
        get_trailer flex [] (\<lambda>u out. out\<lparr>dsgo_resp_dsgort_unknown_tagged_fields := u\<rparr>) out)))))"

definition DeleteShareGroupOffsetsResponse_DeleteShareGroupOffsetsResponseTopic_fields_wf :: "i16 \<Rightarrow> DeleteShareGroupOffsetsResponse_DeleteShareGroupOffsetsResponseTopic \<Rightarrow> bool" where
  "DeleteShareGroupOffsetsResponse_DeleteShareGroupOffsetsResponseTopic_fields_wf version x \<longleftrightarrow>
     (let flex = 0 \<le>s version in
      str_wf flex (dsgo_resp_dsgort_topic_name x)
      \<and> uuid_wf (dsgo_resp_dsgort_topic_id x)
      \<and> nullable_str_wf flex (dsgo_resp_dsgort_error_message x))"

definition DeleteShareGroupOffsetsResponse_DeleteShareGroupOffsetsResponseTopic_wf :: "i16 \<Rightarrow> DeleteShareGroupOffsetsResponse_DeleteShareGroupOffsetsResponseTopic \<Rightarrow> bool" where
  "DeleteShareGroupOffsetsResponse_DeleteShareGroupOffsetsResponseTopic_wf version x \<longleftrightarrow>
     DeleteShareGroupOffsetsResponse_DeleteShareGroupOffsetsResponseTopic_fields_wf version x \<and> trailer_ok [] [] (dsgo_resp_dsgort_unknown_tagged_fields x)"

lemmas delete_share_group_offsets_response_delete_share_group_offsets_response_topic_fields =
    Let_def field_ok_def DeleteShareGroupOffsetsResponse_DeleteShareGroupOffsetsResponseTopic_fields_wf_def

lemma delete_share_group_offsets_response_delete_share_group_offsets_response_topic_steps:
  assumes v: "0 \<le>s version" and flex: "flex = (0 \<le>s version)"
  shows "keeps (DeleteShareGroupOffsetsResponse_DeleteShareGroupOffsetsResponseTopic_fields_wf version) (get_into (0 \<le>s version) (get_str flex) (\<lambda>v out. out\<lparr>dsgo_resp_dsgort_topic_name := v\<rparr>))"
    and "keeps (DeleteShareGroupOffsetsResponse_DeleteShareGroupOffsetsResponseTopic_fields_wf version) (get_into (0 \<le>s version) get_uuid (\<lambda>v out. out\<lparr>dsgo_resp_dsgort_topic_id := v\<rparr>))"
    and "keeps (DeleteShareGroupOffsetsResponse_DeleteShareGroupOffsetsResponseTopic_fields_wf version) (get_into (0 \<le>s version) get_i16 (\<lambda>v out. out\<lparr>dsgo_resp_dsgort_error_code := v\<rparr>))"
    and "keeps (DeleteShareGroupOffsetsResponse_DeleteShareGroupOffsetsResponseTopic_fields_wf version) (get_into (0 \<le>s version) (get_nullable_str flex) (\<lambda>v out. out\<lparr>dsgo_resp_dsgort_error_message := v\<rparr>))"
  unfolding flex 
  by (rule keeps_into; (rule yields_rules)?; simp add: v delete_share_group_offsets_response_delete_share_group_offsets_response_topic_fields)+

lemma delete_share_group_offsets_response_delete_share_group_offsets_response_topic_unknown:
  "DeleteShareGroupOffsetsResponse_DeleteShareGroupOffsetsResponseTopic_fields_wf version (s\<lparr>dsgo_resp_dsgort_unknown_tagged_fields := u\<rparr>) = DeleteShareGroupOffsetsResponse_DeleteShareGroupOffsetsResponseTopic_fields_wf version s"
  by (simp_all add: DeleteShareGroupOffsetsResponse_DeleteShareGroupOffsetsResponseTopic_fields_wf_def)

lemma delete_share_group_offsets_response_delete_share_group_offsets_response_topic_yields:
  assumes v: "0 \<le>s version"
  shows "yields 1 (DeleteShareGroupOffsetsResponse_DeleteShareGroupOffsetsResponseTopic_decode version) (DeleteShareGroupOffsetsResponse_DeleteShareGroupOffsetsResponseTopic_wf version)"
proof -
  have d: "DeleteShareGroupOffsetsResponse_DeleteShareGroupOffsetsResponseTopic_fields_wf version DeleteShareGroupOffsetsResponse_DeleteShareGroupOffsetsResponseTopic_default"
    by (simp add: DeleteShareGroupOffsetsResponse_DeleteShareGroupOffsetsResponseTopic_default_def v delete_share_group_offsets_response_delete_share_group_offsets_response_topic_fields)
  show ?thesis
    unfolding DeleteShareGroupOffsetsResponse_DeleteShareGroupOffsetsResponseTopic_decode_def Let_def
    by ((rule delete_share_group_offsets_response_delete_share_group_offsets_response_topic_steps[OF v refl, THEN yields_step], (rule d | assumption))+, rule yields_trailer[OF _ arms_keep_Nil[of "DeleteShareGroupOffsetsResponse_DeleteShareGroupOffsetsResponseTopic_fields_wf version" "\<lambda>_. 0"]])
      (simp_all add: v d delete_share_group_offsets_response_delete_share_group_offsets_response_topic_unknown DeleteShareGroupOffsetsResponse_DeleteShareGroupOffsetsResponseTopic_wf_def trailer_ok_def )
qed

lemma delete_share_group_offsets_response_delete_share_group_offsets_response_topic_extends [extends_rules]: "extends_input (DeleteShareGroupOffsetsResponse_DeleteShareGroupOffsetsResponseTopic_decode version)"
  unfolding DeleteShareGroupOffsetsResponse_DeleteShareGroupOffsetsResponseTopic_decode_def Let_def by (intro extends_rules)

lemma delete_share_group_offsets_response_delete_share_group_offsets_response_topic_codec:
  assumes v: "0 \<le>s version"
  shows "message_codec DeleteShareGroupOffsetsResponse_DeleteShareGroupOffsetsResponseTopic_encode DeleteShareGroupOffsetsResponse_DeleteShareGroupOffsetsResponseTopic_decode DeleteShareGroupOffsetsResponse_DeleteShareGroupOffsetsResponseTopic_encoded_len (DeleteShareGroupOffsetsResponse_DeleteShareGroupOffsetsResponseTopic_wf version) version"
proof
  fix x
  assume w: "DeleteShareGroupOffsetsResponse_DeleteShareGroupOffsetsResponseTopic_wf version x"
  show "carries (DeleteShareGroupOffsetsResponse_DeleteShareGroupOffsetsResponseTopic_encode x version) (DeleteShareGroupOffsetsResponse_DeleteShareGroupOffsetsResponseTopic_decode version) (DeleteShareGroupOffsetsResponse_DeleteShareGroupOffsetsResponseTopic_encoded_len x version) x"
    unfolding DeleteShareGroupOffsetsResponse_DeleteShareGroupOffsetsResponseTopic_encode_def DeleteShareGroupOffsetsResponse_DeleteShareGroupOffsetsResponseTopic_encoded_len_def DeleteShareGroupOffsetsResponse_DeleteShareGroupOffsetsResponseTopic_decode_def Let_def
    by (use w[unfolded DeleteShareGroupOffsetsResponse_DeleteShareGroupOffsetsResponseTopic_wf_def DeleteShareGroupOffsetsResponse_DeleteShareGroupOffsetsResponseTopic_fields_wf_def Let_def] in \<open>elim conjE\<close>, rule carries_cong_len)
      ((rule carries_rules | (erule absent_guarded, assumption) | erule absent_plain
        | simp add: v field_ok_def DeleteShareGroupOffsetsResponse_DeleteShareGroupOffsetsResponseTopic_default_def )+)
next
  show "yields 1 (DeleteShareGroupOffsetsResponse_DeleteShareGroupOffsetsResponseTopic_decode version) (DeleteShareGroupOffsetsResponse_DeleteShareGroupOffsetsResponseTopic_wf version)"
    by (rule delete_share_group_offsets_response_delete_share_group_offsets_response_topic_yields[OF v])
qed (rule delete_share_group_offsets_response_delete_share_group_offsets_response_topic_extends)

lemma delete_share_group_offsets_response_delete_share_group_offsets_response_topic_default_wf [simp]: "0 \<le>s version \<Longrightarrow> DeleteShareGroupOffsetsResponse_DeleteShareGroupOffsetsResponseTopic_wf version DeleteShareGroupOffsetsResponse_DeleteShareGroupOffsetsResponseTopic_default"
  by (simp add: DeleteShareGroupOffsetsResponse_DeleteShareGroupOffsetsResponseTopic_wf_def DeleteShareGroupOffsetsResponse_DeleteShareGroupOffsetsResponseTopic_default_def trailer_ok_def delete_share_group_offsets_response_delete_share_group_offsets_response_topic_fields)

lemmas [carries_rules] = message_codec.message_carries[OF delete_share_group_offsets_response_delete_share_group_offsets_response_topic_codec]
lemmas [yields_rules] = message_codec.message_yields[OF delete_share_group_offsets_response_delete_share_group_offsets_response_topic_codec]

lemmas [carries_rules] = protocol_codec.put_array_carries[OF message_codec.message_protocol[OF delete_share_group_offsets_response_delete_share_group_offsets_response_topic_codec]]
lemmas [yields_rules] = protocol_codec.get_array_yields[OF message_codec.message_protocol[OF delete_share_group_offsets_response_delete_share_group_offsets_response_topic_codec]]
lemmas [carries_rules] = protocol_codec.put_nullable_array_carries[OF message_codec.message_protocol[OF delete_share_group_offsets_response_delete_share_group_offsets_response_topic_codec]]
lemmas [yields_rules] = protocol_codec.get_nullable_array_yields[OF message_codec.message_protocol[OF delete_share_group_offsets_response_delete_share_group_offsets_response_topic_codec]]

record DeleteShareGroupOffsetsResponse =
  dsgo_resp_throttle_time_ms :: i32
  dsgo_resp_error_code :: i16
  dsgo_resp_error_message :: "bytes option"
  dsgo_resp_responses :: "DeleteShareGroupOffsetsResponse_DeleteShareGroupOffsetsResponseTopic list"
  dsgo_resp_unknown_tagged_fields :: "UnknownTaggedField list"

definition DeleteShareGroupOffsetsResponse_default :: DeleteShareGroupOffsetsResponse where
  "DeleteShareGroupOffsetsResponse_default =
     \<lparr>dsgo_resp_throttle_time_ms = 0, dsgo_resp_error_code = 0, dsgo_resp_error_message = None, dsgo_resp_responses = [], dsgo_resp_unknown_tagged_fields = []\<rparr>"

definition DeleteShareGroupOffsetsResponse_MIN_VERSION :: i16 where
  "DeleteShareGroupOffsetsResponse_MIN_VERSION = 0"

definition DeleteShareGroupOffsetsResponse_MAX_VERSION :: i16 where
  "DeleteShareGroupOffsetsResponse_MAX_VERSION = 0"

definition DeleteShareGroupOffsetsResponse_FLEXIBLE_MIN :: i16 where
  "DeleteShareGroupOffsetsResponse_FLEXIBLE_MIN = 0"

definition DeleteShareGroupOffsetsResponse_API_KEY :: i16 where
  "DeleteShareGroupOffsetsResponse_API_KEY = 92"

definition DeleteShareGroupOffsetsResponse_is_flexible :: "i16 \<Rightarrow> bool" where
  "DeleteShareGroupOffsetsResponse_is_flexible version \<longleftrightarrow> DeleteShareGroupOffsetsResponse_FLEXIBLE_MIN \<le>s version"

definition DeleteShareGroupOffsetsResponse_encode :: "DeleteShareGroupOffsetsResponse \<Rightarrow> i16 \<Rightarrow> encoder" where
  "DeleteShareGroupOffsetsResponse_encode x version =
     (let flex = DeleteShareGroupOffsetsResponse_is_flexible version in
      write_all
        [write_check (check_version DeleteShareGroupOffsetsResponse_API_KEY version DeleteShareGroupOffsetsResponse_MIN_VERSION DeleteShareGroupOffsetsResponse_MAX_VERSION),
         put_when (0 \<le>s version) (put_i32 (dsgo_resp_throttle_time_ms x)),
         put_when (0 \<le>s version) (put_i16 (dsgo_resp_error_code x)),
         put_when (0 \<le>s version) (put_nullable_str flex (dsgo_resp_error_message x)),
         put_when (0 \<le>s version) (put_array flex (\<lambda>it. DeleteShareGroupOffsetsResponse_DeleteShareGroupOffsetsResponseTopic_encode it version) (dsgo_resp_responses x)),
         put_when flex (put_tagged [] (dsgo_resp_unknown_tagged_fields x))])"

definition DeleteShareGroupOffsetsResponse_encoded_len :: "DeleteShareGroupOffsetsResponse \<Rightarrow> i16 \<Rightarrow> nat" where
  "DeleteShareGroupOffsetsResponse_encoded_len x version =
     (let flex = DeleteShareGroupOffsetsResponse_is_flexible version in
      len_when (0 \<le>s version) 4
      + len_when (0 \<le>s version) 2
      + len_when (0 \<le>s version) (nullable_str_len flex (dsgo_resp_error_message x))
      + len_when (0 \<le>s version) (array_size flex (\<lambda>it. DeleteShareGroupOffsetsResponse_DeleteShareGroupOffsetsResponseTopic_encoded_len it version) (dsgo_resp_responses x))
      + len_when flex (tagged_size [] (dsgo_resp_unknown_tagged_fields x)))"

definition DeleteShareGroupOffsetsResponse_decode :: "i16 \<Rightarrow> DeleteShareGroupOffsetsResponse decoder" where
  "DeleteShareGroupOffsetsResponse_decode version =
     (let flex = DeleteShareGroupOffsetsResponse_is_flexible version in
      checked (check_version DeleteShareGroupOffsetsResponse_API_KEY version DeleteShareGroupOffsetsResponse_MIN_VERSION DeleteShareGroupOffsetsResponse_MAX_VERSION) (
        read_then (get_into (0 \<le>s version) get_i32 (\<lambda>v out. out\<lparr>dsgo_resp_throttle_time_ms := v\<rparr>) DeleteShareGroupOffsetsResponse_default) (\<lambda>out.
        read_then (get_into (0 \<le>s version) get_i16 (\<lambda>v out. out\<lparr>dsgo_resp_error_code := v\<rparr>) out) (\<lambda>out.
        read_then (get_into (0 \<le>s version) (get_nullable_str flex) (\<lambda>v out. out\<lparr>dsgo_resp_error_message := v\<rparr>) out) (\<lambda>out.
        read_then (get_into (0 \<le>s version) (get_array flex (DeleteShareGroupOffsetsResponse_DeleteShareGroupOffsetsResponseTopic_decode version)) (\<lambda>v out. out\<lparr>dsgo_resp_responses := v\<rparr>) out) (\<lambda>out.
        get_trailer flex [] (\<lambda>u out. out\<lparr>dsgo_resp_unknown_tagged_fields := u\<rparr>) out))))))"

definition DeleteShareGroupOffsetsResponse_fields_wf :: "i16 \<Rightarrow> DeleteShareGroupOffsetsResponse \<Rightarrow> bool" where
  "DeleteShareGroupOffsetsResponse_fields_wf version x \<longleftrightarrow>
     (let flex = DeleteShareGroupOffsetsResponse_is_flexible version in
      nullable_str_wf flex (dsgo_resp_error_message x)
      \<and> array_ok flex (DeleteShareGroupOffsetsResponse_DeleteShareGroupOffsetsResponseTopic_wf version) (dsgo_resp_responses x))"

definition DeleteShareGroupOffsetsResponse_wf :: "i16 \<Rightarrow> DeleteShareGroupOffsetsResponse \<Rightarrow> bool" where
  "DeleteShareGroupOffsetsResponse_wf version x \<longleftrightarrow>
     version_in DeleteShareGroupOffsetsResponse_MIN_VERSION DeleteShareGroupOffsetsResponse_MAX_VERSION version \<and> DeleteShareGroupOffsetsResponse_fields_wf version x \<and> trailer_ok [] [] (dsgo_resp_unknown_tagged_fields x)"

lemmas delete_share_group_offsets_response_versions =
    DeleteShareGroupOffsetsResponse_is_flexible_def DeleteShareGroupOffsetsResponse_FLEXIBLE_MIN_def
    DeleteShareGroupOffsetsResponse_MIN_VERSION_def DeleteShareGroupOffsetsResponse_MAX_VERSION_def version_in_def

lemmas delete_share_group_offsets_response_fields =
    Let_def field_ok_def DeleteShareGroupOffsetsResponse_fields_wf_def
    DeleteShareGroupOffsetsResponse_is_flexible_def DeleteShareGroupOffsetsResponse_FLEXIBLE_MIN_def

lemma delete_share_group_offsets_response_steps:
  assumes v: "0 \<le>s version" and flex: "flex = (DeleteShareGroupOffsetsResponse_is_flexible version)"
  shows "keeps (DeleteShareGroupOffsetsResponse_fields_wf version) (get_into (0 \<le>s version) get_i32 (\<lambda>v out. out\<lparr>dsgo_resp_throttle_time_ms := v\<rparr>))"
    and "keeps (DeleteShareGroupOffsetsResponse_fields_wf version) (get_into (0 \<le>s version) get_i16 (\<lambda>v out. out\<lparr>dsgo_resp_error_code := v\<rparr>))"
    and "keeps (DeleteShareGroupOffsetsResponse_fields_wf version) (get_into (0 \<le>s version) (get_nullable_str flex) (\<lambda>v out. out\<lparr>dsgo_resp_error_message := v\<rparr>))"
    and "keeps (DeleteShareGroupOffsetsResponse_fields_wf version) (get_into (0 \<le>s version) (get_array flex (DeleteShareGroupOffsetsResponse_DeleteShareGroupOffsetsResponseTopic_decode version)) (\<lambda>v out. out\<lparr>dsgo_resp_responses := v\<rparr>))"
  unfolding flex 
  by (rule keeps_into; (rule yields_rules)?; simp add: v delete_share_group_offsets_response_fields)+

lemma delete_share_group_offsets_response_unknown:
  "DeleteShareGroupOffsetsResponse_fields_wf version (s\<lparr>dsgo_resp_unknown_tagged_fields := u\<rparr>) = DeleteShareGroupOffsetsResponse_fields_wf version s"
  by (simp_all add: DeleteShareGroupOffsetsResponse_fields_wf_def)

lemma delete_share_group_offsets_response_yields:
  assumes r: "version_in DeleteShareGroupOffsetsResponse_MIN_VERSION DeleteShareGroupOffsetsResponse_MAX_VERSION version"
  shows "yields 1 (DeleteShareGroupOffsetsResponse_decode version) (DeleteShareGroupOffsetsResponse_wf version)"
proof -
  have v: "0 \<le>s version"
    using r by (simp add: delete_share_group_offsets_response_versions)
  have d: "DeleteShareGroupOffsetsResponse_fields_wf version DeleteShareGroupOffsetsResponse_default"
    by (simp add: DeleteShareGroupOffsetsResponse_default_def v delete_share_group_offsets_response_fields)
  show ?thesis
    unfolding DeleteShareGroupOffsetsResponse_decode_def Let_def
    by (rule yields_checked, (rule delete_share_group_offsets_response_steps[OF v refl, THEN yields_step], (rule d | assumption))+, rule yields_trailer[OF _ arms_keep_Nil[of "DeleteShareGroupOffsetsResponse_fields_wf version" "\<lambda>_. 0"]])
      (simp_all add: v d delete_share_group_offsets_response_unknown DeleteShareGroupOffsetsResponse_wf_def trailer_ok_def r DeleteShareGroupOffsetsResponse_is_flexible_def DeleteShareGroupOffsetsResponse_FLEXIBLE_MIN_def)
qed

interpretation delete_share_group_offsets_response: message_codec
  DeleteShareGroupOffsetsResponse_encode DeleteShareGroupOffsetsResponse_decode DeleteShareGroupOffsetsResponse_encoded_len "DeleteShareGroupOffsetsResponse_wf version" version
  for version
proof
  fix x
  assume w: "DeleteShareGroupOffsetsResponse_wf version x"
  then have v: "0 \<le>s version"
    by (simp add: DeleteShareGroupOffsetsResponse_wf_def delete_share_group_offsets_response_versions)
  show "carries (DeleteShareGroupOffsetsResponse_encode x version) (DeleteShareGroupOffsetsResponse_decode version) (DeleteShareGroupOffsetsResponse_encoded_len x version) x"
    unfolding DeleteShareGroupOffsetsResponse_encode_def DeleteShareGroupOffsetsResponse_encoded_len_def DeleteShareGroupOffsetsResponse_decode_def Let_def
    by (use w[unfolded DeleteShareGroupOffsetsResponse_wf_def DeleteShareGroupOffsetsResponse_fields_wf_def Let_def] in \<open>elim conjE\<close>, rule carries_cong_len)
      ((rule carries_rules check_version_in[THEN iffD2] | (erule absent_guarded, assumption) | erule absent_plain
        | simp add: v field_ok_def DeleteShareGroupOffsetsResponse_default_def delete_share_group_offsets_response_versions)+)
next
  show "yields 1 (DeleteShareGroupOffsetsResponse_decode version) (DeleteShareGroupOffsetsResponse_wf version)"
    by (rule case_split[OF delete_share_group_offsets_response_yields]) (auto simp: DeleteShareGroupOffsetsResponse_decode_def Let_def yields_refused yields_unsupported)
  show "extends_input (DeleteShareGroupOffsetsResponse_decode version)"
    unfolding DeleteShareGroupOffsetsResponse_decode_def Let_def by (intro extends_rules)
qed

section \<open>DeleteShareGroupStateRequest\<close>

record DeleteShareGroupStateRequest_PartitionData =
  dsgs_req_pd_partition :: i32
  dsgs_req_pd_unknown_tagged_fields :: "UnknownTaggedField list"

definition DeleteShareGroupStateRequest_PartitionData_default :: DeleteShareGroupStateRequest_PartitionData where
  "DeleteShareGroupStateRequest_PartitionData_default =
     \<lparr>dsgs_req_pd_partition = 0, dsgs_req_pd_unknown_tagged_fields = []\<rparr>"

definition DeleteShareGroupStateRequest_PartitionData_encode :: "DeleteShareGroupStateRequest_PartitionData \<Rightarrow> i16 \<Rightarrow> encoder" where
  "DeleteShareGroupStateRequest_PartitionData_encode x version =
     (let flex = 0 \<le>s version in
      write_all
        [put_when (0 \<le>s version) (put_i32 (dsgs_req_pd_partition x)),
         put_when flex (put_tagged [] (dsgs_req_pd_unknown_tagged_fields x))])"

definition DeleteShareGroupStateRequest_PartitionData_encoded_len :: "DeleteShareGroupStateRequest_PartitionData \<Rightarrow> i16 \<Rightarrow> nat" where
  "DeleteShareGroupStateRequest_PartitionData_encoded_len x version =
     (let flex = 0 \<le>s version in
      len_when (0 \<le>s version) 4
      + len_when flex (tagged_size [] (dsgs_req_pd_unknown_tagged_fields x)))"

definition DeleteShareGroupStateRequest_PartitionData_decode :: "i16 \<Rightarrow> DeleteShareGroupStateRequest_PartitionData decoder" where
  "DeleteShareGroupStateRequest_PartitionData_decode version =
     (let flex = 0 \<le>s version in
      read_then (get_into (0 \<le>s version) get_i32 (\<lambda>v out. out\<lparr>dsgs_req_pd_partition := v\<rparr>) DeleteShareGroupStateRequest_PartitionData_default) (\<lambda>out.
        get_trailer flex [] (\<lambda>u out. out\<lparr>dsgs_req_pd_unknown_tagged_fields := u\<rparr>) out))"

definition DeleteShareGroupStateRequest_PartitionData_fields_wf :: "i16 \<Rightarrow> DeleteShareGroupStateRequest_PartitionData \<Rightarrow> bool" where
  "DeleteShareGroupStateRequest_PartitionData_fields_wf version x \<longleftrightarrow>
     True"

definition DeleteShareGroupStateRequest_PartitionData_wf :: "i16 \<Rightarrow> DeleteShareGroupStateRequest_PartitionData \<Rightarrow> bool" where
  "DeleteShareGroupStateRequest_PartitionData_wf version x \<longleftrightarrow>
     DeleteShareGroupStateRequest_PartitionData_fields_wf version x \<and> trailer_ok [] [] (dsgs_req_pd_unknown_tagged_fields x)"

lemmas delete_share_group_state_request_partition_data_fields =
    Let_def field_ok_def DeleteShareGroupStateRequest_PartitionData_fields_wf_def

lemma delete_share_group_state_request_partition_data_steps:
  assumes v: "0 \<le>s version" and flex: "flex = (0 \<le>s version)"
  shows "keeps (DeleteShareGroupStateRequest_PartitionData_fields_wf version) (get_into (0 \<le>s version) get_i32 (\<lambda>v out. out\<lparr>dsgs_req_pd_partition := v\<rparr>))"
  unfolding flex 
  by (rule keeps_into; (rule yields_rules)?; simp add: v delete_share_group_state_request_partition_data_fields)+

lemma delete_share_group_state_request_partition_data_unknown:
  "DeleteShareGroupStateRequest_PartitionData_fields_wf version (s\<lparr>dsgs_req_pd_unknown_tagged_fields := u\<rparr>) = DeleteShareGroupStateRequest_PartitionData_fields_wf version s"
  by (simp_all add: DeleteShareGroupStateRequest_PartitionData_fields_wf_def)

lemma delete_share_group_state_request_partition_data_yields:
  assumes v: "0 \<le>s version"
  shows "yields 1 (DeleteShareGroupStateRequest_PartitionData_decode version) (DeleteShareGroupStateRequest_PartitionData_wf version)"
proof -
  have d: "DeleteShareGroupStateRequest_PartitionData_fields_wf version DeleteShareGroupStateRequest_PartitionData_default"
    by (simp add: DeleteShareGroupStateRequest_PartitionData_default_def v delete_share_group_state_request_partition_data_fields)
  show ?thesis
    unfolding DeleteShareGroupStateRequest_PartitionData_decode_def Let_def
    by ((rule delete_share_group_state_request_partition_data_steps[OF v refl, THEN yields_step], (rule d | assumption))+, rule yields_trailer[OF _ arms_keep_Nil[of "DeleteShareGroupStateRequest_PartitionData_fields_wf version" "\<lambda>_. 0"]])
      (simp_all add: v d delete_share_group_state_request_partition_data_unknown DeleteShareGroupStateRequest_PartitionData_wf_def trailer_ok_def )
qed

lemma delete_share_group_state_request_partition_data_extends [extends_rules]: "extends_input (DeleteShareGroupStateRequest_PartitionData_decode version)"
  unfolding DeleteShareGroupStateRequest_PartitionData_decode_def Let_def by (intro extends_rules)

lemma delete_share_group_state_request_partition_data_codec:
  assumes v: "0 \<le>s version"
  shows "message_codec DeleteShareGroupStateRequest_PartitionData_encode DeleteShareGroupStateRequest_PartitionData_decode DeleteShareGroupStateRequest_PartitionData_encoded_len (DeleteShareGroupStateRequest_PartitionData_wf version) version"
proof
  fix x
  assume w: "DeleteShareGroupStateRequest_PartitionData_wf version x"
  show "carries (DeleteShareGroupStateRequest_PartitionData_encode x version) (DeleteShareGroupStateRequest_PartitionData_decode version) (DeleteShareGroupStateRequest_PartitionData_encoded_len x version) x"
    unfolding DeleteShareGroupStateRequest_PartitionData_encode_def DeleteShareGroupStateRequest_PartitionData_encoded_len_def DeleteShareGroupStateRequest_PartitionData_decode_def Let_def
    by (use w[unfolded DeleteShareGroupStateRequest_PartitionData_wf_def DeleteShareGroupStateRequest_PartitionData_fields_wf_def Let_def] in \<open>elim conjE\<close>, rule carries_cong_len)
      ((rule carries_rules | (erule absent_guarded, assumption) | erule absent_plain
        | simp add: v field_ok_def DeleteShareGroupStateRequest_PartitionData_default_def )+)
next
  show "yields 1 (DeleteShareGroupStateRequest_PartitionData_decode version) (DeleteShareGroupStateRequest_PartitionData_wf version)"
    by (rule delete_share_group_state_request_partition_data_yields[OF v])
qed (rule delete_share_group_state_request_partition_data_extends)

lemma delete_share_group_state_request_partition_data_default_wf [simp]: "0 \<le>s version \<Longrightarrow> DeleteShareGroupStateRequest_PartitionData_wf version DeleteShareGroupStateRequest_PartitionData_default"
  by (simp add: DeleteShareGroupStateRequest_PartitionData_wf_def DeleteShareGroupStateRequest_PartitionData_default_def trailer_ok_def delete_share_group_state_request_partition_data_fields)

lemmas [carries_rules] = message_codec.message_carries[OF delete_share_group_state_request_partition_data_codec]
lemmas [yields_rules] = message_codec.message_yields[OF delete_share_group_state_request_partition_data_codec]

lemmas [carries_rules] = protocol_codec.put_array_carries[OF message_codec.message_protocol[OF delete_share_group_state_request_partition_data_codec]]
lemmas [yields_rules] = protocol_codec.get_array_yields[OF message_codec.message_protocol[OF delete_share_group_state_request_partition_data_codec]]
lemmas [carries_rules] = protocol_codec.put_nullable_array_carries[OF message_codec.message_protocol[OF delete_share_group_state_request_partition_data_codec]]
lemmas [yields_rules] = protocol_codec.get_nullable_array_yields[OF message_codec.message_protocol[OF delete_share_group_state_request_partition_data_codec]]

record DeleteShareGroupStateRequest_DeleteStateData =
  dsgs_req_dsd_topic_id :: Uuid
  dsgs_req_dsd_partitions :: "DeleteShareGroupStateRequest_PartitionData list"
  dsgs_req_dsd_unknown_tagged_fields :: "UnknownTaggedField list"

definition DeleteShareGroupStateRequest_DeleteStateData_default :: DeleteShareGroupStateRequest_DeleteStateData where
  "DeleteShareGroupStateRequest_DeleteStateData_default =
     \<lparr>dsgs_req_dsd_topic_id = Uuid_ZERO, dsgs_req_dsd_partitions = [], dsgs_req_dsd_unknown_tagged_fields = []\<rparr>"

definition DeleteShareGroupStateRequest_DeleteStateData_encode :: "DeleteShareGroupStateRequest_DeleteStateData \<Rightarrow> i16 \<Rightarrow> encoder" where
  "DeleteShareGroupStateRequest_DeleteStateData_encode x version =
     (let flex = 0 \<le>s version in
      write_all
        [put_when (0 \<le>s version) (put_uuid (dsgs_req_dsd_topic_id x)),
         put_when (0 \<le>s version) (put_array flex (\<lambda>it. DeleteShareGroupStateRequest_PartitionData_encode it version) (dsgs_req_dsd_partitions x)),
         put_when flex (put_tagged [] (dsgs_req_dsd_unknown_tagged_fields x))])"

definition DeleteShareGroupStateRequest_DeleteStateData_encoded_len :: "DeleteShareGroupStateRequest_DeleteStateData \<Rightarrow> i16 \<Rightarrow> nat" where
  "DeleteShareGroupStateRequest_DeleteStateData_encoded_len x version =
     (let flex = 0 \<le>s version in
      len_when (0 \<le>s version) 16
      + len_when (0 \<le>s version) (array_size flex (\<lambda>it. DeleteShareGroupStateRequest_PartitionData_encoded_len it version) (dsgs_req_dsd_partitions x))
      + len_when flex (tagged_size [] (dsgs_req_dsd_unknown_tagged_fields x)))"

definition DeleteShareGroupStateRequest_DeleteStateData_decode :: "i16 \<Rightarrow> DeleteShareGroupStateRequest_DeleteStateData decoder" where
  "DeleteShareGroupStateRequest_DeleteStateData_decode version =
     (let flex = 0 \<le>s version in
      read_then (get_into (0 \<le>s version) get_uuid (\<lambda>v out. out\<lparr>dsgs_req_dsd_topic_id := v\<rparr>) DeleteShareGroupStateRequest_DeleteStateData_default) (\<lambda>out.
        read_then (get_into (0 \<le>s version) (get_array flex (DeleteShareGroupStateRequest_PartitionData_decode version)) (\<lambda>v out. out\<lparr>dsgs_req_dsd_partitions := v\<rparr>) out) (\<lambda>out.
        get_trailer flex [] (\<lambda>u out. out\<lparr>dsgs_req_dsd_unknown_tagged_fields := u\<rparr>) out)))"

definition DeleteShareGroupStateRequest_DeleteStateData_fields_wf :: "i16 \<Rightarrow> DeleteShareGroupStateRequest_DeleteStateData \<Rightarrow> bool" where
  "DeleteShareGroupStateRequest_DeleteStateData_fields_wf version x \<longleftrightarrow>
     (let flex = 0 \<le>s version in
      uuid_wf (dsgs_req_dsd_topic_id x)
      \<and> array_ok flex (DeleteShareGroupStateRequest_PartitionData_wf version) (dsgs_req_dsd_partitions x))"

definition DeleteShareGroupStateRequest_DeleteStateData_wf :: "i16 \<Rightarrow> DeleteShareGroupStateRequest_DeleteStateData \<Rightarrow> bool" where
  "DeleteShareGroupStateRequest_DeleteStateData_wf version x \<longleftrightarrow>
     DeleteShareGroupStateRequest_DeleteStateData_fields_wf version x \<and> trailer_ok [] [] (dsgs_req_dsd_unknown_tagged_fields x)"

lemmas delete_share_group_state_request_delete_state_data_fields =
    Let_def field_ok_def DeleteShareGroupStateRequest_DeleteStateData_fields_wf_def

lemma delete_share_group_state_request_delete_state_data_steps:
  assumes v: "0 \<le>s version" and flex: "flex = (0 \<le>s version)"
  shows "keeps (DeleteShareGroupStateRequest_DeleteStateData_fields_wf version) (get_into (0 \<le>s version) get_uuid (\<lambda>v out. out\<lparr>dsgs_req_dsd_topic_id := v\<rparr>))"
    and "keeps (DeleteShareGroupStateRequest_DeleteStateData_fields_wf version) (get_into (0 \<le>s version) (get_array flex (DeleteShareGroupStateRequest_PartitionData_decode version)) (\<lambda>v out. out\<lparr>dsgs_req_dsd_partitions := v\<rparr>))"
  unfolding flex 
  by (rule keeps_into; (rule yields_rules)?; simp add: v delete_share_group_state_request_delete_state_data_fields)+

lemma delete_share_group_state_request_delete_state_data_unknown:
  "DeleteShareGroupStateRequest_DeleteStateData_fields_wf version (s\<lparr>dsgs_req_dsd_unknown_tagged_fields := u\<rparr>) = DeleteShareGroupStateRequest_DeleteStateData_fields_wf version s"
  by (simp_all add: DeleteShareGroupStateRequest_DeleteStateData_fields_wf_def)

lemma delete_share_group_state_request_delete_state_data_yields:
  assumes v: "0 \<le>s version"
  shows "yields 1 (DeleteShareGroupStateRequest_DeleteStateData_decode version) (DeleteShareGroupStateRequest_DeleteStateData_wf version)"
proof -
  have d: "DeleteShareGroupStateRequest_DeleteStateData_fields_wf version DeleteShareGroupStateRequest_DeleteStateData_default"
    by (simp add: DeleteShareGroupStateRequest_DeleteStateData_default_def v delete_share_group_state_request_delete_state_data_fields)
  show ?thesis
    unfolding DeleteShareGroupStateRequest_DeleteStateData_decode_def Let_def
    by ((rule delete_share_group_state_request_delete_state_data_steps[OF v refl, THEN yields_step], (rule d | assumption))+, rule yields_trailer[OF _ arms_keep_Nil[of "DeleteShareGroupStateRequest_DeleteStateData_fields_wf version" "\<lambda>_. 0"]])
      (simp_all add: v d delete_share_group_state_request_delete_state_data_unknown DeleteShareGroupStateRequest_DeleteStateData_wf_def trailer_ok_def )
qed

lemma delete_share_group_state_request_delete_state_data_extends [extends_rules]: "extends_input (DeleteShareGroupStateRequest_DeleteStateData_decode version)"
  unfolding DeleteShareGroupStateRequest_DeleteStateData_decode_def Let_def by (intro extends_rules)

lemma delete_share_group_state_request_delete_state_data_codec:
  assumes v: "0 \<le>s version"
  shows "message_codec DeleteShareGroupStateRequest_DeleteStateData_encode DeleteShareGroupStateRequest_DeleteStateData_decode DeleteShareGroupStateRequest_DeleteStateData_encoded_len (DeleteShareGroupStateRequest_DeleteStateData_wf version) version"
proof
  fix x
  assume w: "DeleteShareGroupStateRequest_DeleteStateData_wf version x"
  show "carries (DeleteShareGroupStateRequest_DeleteStateData_encode x version) (DeleteShareGroupStateRequest_DeleteStateData_decode version) (DeleteShareGroupStateRequest_DeleteStateData_encoded_len x version) x"
    unfolding DeleteShareGroupStateRequest_DeleteStateData_encode_def DeleteShareGroupStateRequest_DeleteStateData_encoded_len_def DeleteShareGroupStateRequest_DeleteStateData_decode_def Let_def
    by (use w[unfolded DeleteShareGroupStateRequest_DeleteStateData_wf_def DeleteShareGroupStateRequest_DeleteStateData_fields_wf_def Let_def] in \<open>elim conjE\<close>, rule carries_cong_len)
      ((rule carries_rules | (erule absent_guarded, assumption) | erule absent_plain
        | simp add: v field_ok_def DeleteShareGroupStateRequest_DeleteStateData_default_def )+)
next
  show "yields 1 (DeleteShareGroupStateRequest_DeleteStateData_decode version) (DeleteShareGroupStateRequest_DeleteStateData_wf version)"
    by (rule delete_share_group_state_request_delete_state_data_yields[OF v])
qed (rule delete_share_group_state_request_delete_state_data_extends)

lemma delete_share_group_state_request_delete_state_data_default_wf [simp]: "0 \<le>s version \<Longrightarrow> DeleteShareGroupStateRequest_DeleteStateData_wf version DeleteShareGroupStateRequest_DeleteStateData_default"
  by (simp add: DeleteShareGroupStateRequest_DeleteStateData_wf_def DeleteShareGroupStateRequest_DeleteStateData_default_def trailer_ok_def delete_share_group_state_request_delete_state_data_fields)

lemmas [carries_rules] = message_codec.message_carries[OF delete_share_group_state_request_delete_state_data_codec]
lemmas [yields_rules] = message_codec.message_yields[OF delete_share_group_state_request_delete_state_data_codec]

lemmas [carries_rules] = protocol_codec.put_array_carries[OF message_codec.message_protocol[OF delete_share_group_state_request_delete_state_data_codec]]
lemmas [yields_rules] = protocol_codec.get_array_yields[OF message_codec.message_protocol[OF delete_share_group_state_request_delete_state_data_codec]]
lemmas [carries_rules] = protocol_codec.put_nullable_array_carries[OF message_codec.message_protocol[OF delete_share_group_state_request_delete_state_data_codec]]
lemmas [yields_rules] = protocol_codec.get_nullable_array_yields[OF message_codec.message_protocol[OF delete_share_group_state_request_delete_state_data_codec]]

record DeleteShareGroupStateRequest =
  dsgs_req_group_id :: bytes
  dsgs_req_topics :: "DeleteShareGroupStateRequest_DeleteStateData list"
  dsgs_req_unknown_tagged_fields :: "UnknownTaggedField list"

definition DeleteShareGroupStateRequest_default :: DeleteShareGroupStateRequest where
  "DeleteShareGroupStateRequest_default =
     \<lparr>dsgs_req_group_id = [], dsgs_req_topics = [], dsgs_req_unknown_tagged_fields = []\<rparr>"

definition DeleteShareGroupStateRequest_MIN_VERSION :: i16 where
  "DeleteShareGroupStateRequest_MIN_VERSION = 0"

definition DeleteShareGroupStateRequest_MAX_VERSION :: i16 where
  "DeleteShareGroupStateRequest_MAX_VERSION = 0"

definition DeleteShareGroupStateRequest_FLEXIBLE_MIN :: i16 where
  "DeleteShareGroupStateRequest_FLEXIBLE_MIN = 0"

definition DeleteShareGroupStateRequest_API_KEY :: i16 where
  "DeleteShareGroupStateRequest_API_KEY = 86"

definition DeleteShareGroupStateRequest_is_flexible :: "i16 \<Rightarrow> bool" where
  "DeleteShareGroupStateRequest_is_flexible version \<longleftrightarrow> DeleteShareGroupStateRequest_FLEXIBLE_MIN \<le>s version"

definition DeleteShareGroupStateRequest_encode :: "DeleteShareGroupStateRequest \<Rightarrow> i16 \<Rightarrow> encoder" where
  "DeleteShareGroupStateRequest_encode x version =
     (let flex = DeleteShareGroupStateRequest_is_flexible version in
      write_all
        [write_check (check_version DeleteShareGroupStateRequest_API_KEY version DeleteShareGroupStateRequest_MIN_VERSION DeleteShareGroupStateRequest_MAX_VERSION),
         put_when (0 \<le>s version) (put_str flex (dsgs_req_group_id x)),
         put_when (0 \<le>s version) (put_array flex (\<lambda>it. DeleteShareGroupStateRequest_DeleteStateData_encode it version) (dsgs_req_topics x)),
         put_when flex (put_tagged [] (dsgs_req_unknown_tagged_fields x))])"

definition DeleteShareGroupStateRequest_encoded_len :: "DeleteShareGroupStateRequest \<Rightarrow> i16 \<Rightarrow> nat" where
  "DeleteShareGroupStateRequest_encoded_len x version =
     (let flex = DeleteShareGroupStateRequest_is_flexible version in
      len_when (0 \<le>s version) (str_len flex (dsgs_req_group_id x))
      + len_when (0 \<le>s version) (array_size flex (\<lambda>it. DeleteShareGroupStateRequest_DeleteStateData_encoded_len it version) (dsgs_req_topics x))
      + len_when flex (tagged_size [] (dsgs_req_unknown_tagged_fields x)))"

definition DeleteShareGroupStateRequest_decode :: "i16 \<Rightarrow> DeleteShareGroupStateRequest decoder" where
  "DeleteShareGroupStateRequest_decode version =
     (let flex = DeleteShareGroupStateRequest_is_flexible version in
      checked (check_version DeleteShareGroupStateRequest_API_KEY version DeleteShareGroupStateRequest_MIN_VERSION DeleteShareGroupStateRequest_MAX_VERSION) (
        read_then (get_into (0 \<le>s version) (get_str flex) (\<lambda>v out. out\<lparr>dsgs_req_group_id := v\<rparr>) DeleteShareGroupStateRequest_default) (\<lambda>out.
        read_then (get_into (0 \<le>s version) (get_array flex (DeleteShareGroupStateRequest_DeleteStateData_decode version)) (\<lambda>v out. out\<lparr>dsgs_req_topics := v\<rparr>) out) (\<lambda>out.
        get_trailer flex [] (\<lambda>u out. out\<lparr>dsgs_req_unknown_tagged_fields := u\<rparr>) out))))"

definition DeleteShareGroupStateRequest_fields_wf :: "i16 \<Rightarrow> DeleteShareGroupStateRequest \<Rightarrow> bool" where
  "DeleteShareGroupStateRequest_fields_wf version x \<longleftrightarrow>
     (let flex = DeleteShareGroupStateRequest_is_flexible version in
      str_wf flex (dsgs_req_group_id x)
      \<and> array_ok flex (DeleteShareGroupStateRequest_DeleteStateData_wf version) (dsgs_req_topics x))"

definition DeleteShareGroupStateRequest_wf :: "i16 \<Rightarrow> DeleteShareGroupStateRequest \<Rightarrow> bool" where
  "DeleteShareGroupStateRequest_wf version x \<longleftrightarrow>
     version_in DeleteShareGroupStateRequest_MIN_VERSION DeleteShareGroupStateRequest_MAX_VERSION version \<and> DeleteShareGroupStateRequest_fields_wf version x \<and> trailer_ok [] [] (dsgs_req_unknown_tagged_fields x)"

lemmas delete_share_group_state_request_versions =
    DeleteShareGroupStateRequest_is_flexible_def DeleteShareGroupStateRequest_FLEXIBLE_MIN_def
    DeleteShareGroupStateRequest_MIN_VERSION_def DeleteShareGroupStateRequest_MAX_VERSION_def version_in_def

lemmas delete_share_group_state_request_fields =
    Let_def field_ok_def DeleteShareGroupStateRequest_fields_wf_def DeleteShareGroupStateRequest_is_flexible_def
    DeleteShareGroupStateRequest_FLEXIBLE_MIN_def

lemma delete_share_group_state_request_steps:
  assumes v: "0 \<le>s version" and flex: "flex = (DeleteShareGroupStateRequest_is_flexible version)"
  shows "keeps (DeleteShareGroupStateRequest_fields_wf version) (get_into (0 \<le>s version) (get_str flex) (\<lambda>v out. out\<lparr>dsgs_req_group_id := v\<rparr>))"
    and "keeps (DeleteShareGroupStateRequest_fields_wf version) (get_into (0 \<le>s version) (get_array flex (DeleteShareGroupStateRequest_DeleteStateData_decode version)) (\<lambda>v out. out\<lparr>dsgs_req_topics := v\<rparr>))"
  unfolding flex 
  by (rule keeps_into; (rule yields_rules)?; simp add: v delete_share_group_state_request_fields)+

lemma delete_share_group_state_request_unknown:
  "DeleteShareGroupStateRequest_fields_wf version (s\<lparr>dsgs_req_unknown_tagged_fields := u\<rparr>) = DeleteShareGroupStateRequest_fields_wf version s"
  by (simp_all add: DeleteShareGroupStateRequest_fields_wf_def)

lemma delete_share_group_state_request_yields:
  assumes r: "version_in DeleteShareGroupStateRequest_MIN_VERSION DeleteShareGroupStateRequest_MAX_VERSION version"
  shows "yields 1 (DeleteShareGroupStateRequest_decode version) (DeleteShareGroupStateRequest_wf version)"
proof -
  have v: "0 \<le>s version"
    using r by (simp add: delete_share_group_state_request_versions)
  have d: "DeleteShareGroupStateRequest_fields_wf version DeleteShareGroupStateRequest_default"
    by (simp add: DeleteShareGroupStateRequest_default_def v delete_share_group_state_request_fields)
  show ?thesis
    unfolding DeleteShareGroupStateRequest_decode_def Let_def
    by (rule yields_checked, (rule delete_share_group_state_request_steps[OF v refl, THEN yields_step], (rule d | assumption))+, rule yields_trailer[OF _ arms_keep_Nil[of "DeleteShareGroupStateRequest_fields_wf version" "\<lambda>_. 0"]])
      (simp_all add: v d delete_share_group_state_request_unknown DeleteShareGroupStateRequest_wf_def trailer_ok_def r DeleteShareGroupStateRequest_is_flexible_def DeleteShareGroupStateRequest_FLEXIBLE_MIN_def)
qed

interpretation delete_share_group_state_request: message_codec
  DeleteShareGroupStateRequest_encode DeleteShareGroupStateRequest_decode DeleteShareGroupStateRequest_encoded_len "DeleteShareGroupStateRequest_wf version" version
  for version
proof
  fix x
  assume w: "DeleteShareGroupStateRequest_wf version x"
  then have v: "0 \<le>s version"
    by (simp add: DeleteShareGroupStateRequest_wf_def delete_share_group_state_request_versions)
  show "carries (DeleteShareGroupStateRequest_encode x version) (DeleteShareGroupStateRequest_decode version) (DeleteShareGroupStateRequest_encoded_len x version) x"
    unfolding DeleteShareGroupStateRequest_encode_def DeleteShareGroupStateRequest_encoded_len_def DeleteShareGroupStateRequest_decode_def Let_def
    by (use w[unfolded DeleteShareGroupStateRequest_wf_def DeleteShareGroupStateRequest_fields_wf_def Let_def] in \<open>elim conjE\<close>, rule carries_cong_len)
      ((rule carries_rules check_version_in[THEN iffD2] | (erule absent_guarded, assumption) | erule absent_plain
        | simp add: v field_ok_def DeleteShareGroupStateRequest_default_def delete_share_group_state_request_versions)+)
next
  show "yields 1 (DeleteShareGroupStateRequest_decode version) (DeleteShareGroupStateRequest_wf version)"
    by (rule case_split[OF delete_share_group_state_request_yields]) (auto simp: DeleteShareGroupStateRequest_decode_def Let_def yields_refused yields_unsupported)
  show "extends_input (DeleteShareGroupStateRequest_decode version)"
    unfolding DeleteShareGroupStateRequest_decode_def Let_def by (intro extends_rules)
qed

section \<open>DeleteShareGroupStateResponse\<close>

record DeleteShareGroupStateResponse_PartitionResult =
  dsgs_resp_pr_partition :: i32
  dsgs_resp_pr_error_code :: i16
  dsgs_resp_pr_error_message :: "bytes option"
  dsgs_resp_pr_unknown_tagged_fields :: "UnknownTaggedField list"

definition DeleteShareGroupStateResponse_PartitionResult_default :: DeleteShareGroupStateResponse_PartitionResult where
  "DeleteShareGroupStateResponse_PartitionResult_default =
     \<lparr>dsgs_resp_pr_partition = 0, dsgs_resp_pr_error_code = 0, dsgs_resp_pr_error_message = None, dsgs_resp_pr_unknown_tagged_fields = []\<rparr>"

definition DeleteShareGroupStateResponse_PartitionResult_encode :: "DeleteShareGroupStateResponse_PartitionResult \<Rightarrow> i16 \<Rightarrow> encoder" where
  "DeleteShareGroupStateResponse_PartitionResult_encode x version =
     (let flex = 0 \<le>s version in
      write_all
        [put_when (0 \<le>s version) (put_i32 (dsgs_resp_pr_partition x)),
         put_when (0 \<le>s version) (put_i16 (dsgs_resp_pr_error_code x)),
         put_when (0 \<le>s version) (put_nullable_str flex (dsgs_resp_pr_error_message x)),
         put_when flex (put_tagged [] (dsgs_resp_pr_unknown_tagged_fields x))])"

definition DeleteShareGroupStateResponse_PartitionResult_encoded_len :: "DeleteShareGroupStateResponse_PartitionResult \<Rightarrow> i16 \<Rightarrow> nat" where
  "DeleteShareGroupStateResponse_PartitionResult_encoded_len x version =
     (let flex = 0 \<le>s version in
      len_when (0 \<le>s version) 4
      + len_when (0 \<le>s version) 2
      + len_when (0 \<le>s version) (nullable_str_len flex (dsgs_resp_pr_error_message x))
      + len_when flex (tagged_size [] (dsgs_resp_pr_unknown_tagged_fields x)))"

definition DeleteShareGroupStateResponse_PartitionResult_decode :: "i16 \<Rightarrow> DeleteShareGroupStateResponse_PartitionResult decoder" where
  "DeleteShareGroupStateResponse_PartitionResult_decode version =
     (let flex = 0 \<le>s version in
      read_then (get_into (0 \<le>s version) get_i32 (\<lambda>v out. out\<lparr>dsgs_resp_pr_partition := v\<rparr>) DeleteShareGroupStateResponse_PartitionResult_default) (\<lambda>out.
        read_then (get_into (0 \<le>s version) get_i16 (\<lambda>v out. out\<lparr>dsgs_resp_pr_error_code := v\<rparr>) out) (\<lambda>out.
        read_then (get_into (0 \<le>s version) (get_nullable_str flex) (\<lambda>v out. out\<lparr>dsgs_resp_pr_error_message := v\<rparr>) out) (\<lambda>out.
        get_trailer flex [] (\<lambda>u out. out\<lparr>dsgs_resp_pr_unknown_tagged_fields := u\<rparr>) out))))"

definition DeleteShareGroupStateResponse_PartitionResult_fields_wf :: "i16 \<Rightarrow> DeleteShareGroupStateResponse_PartitionResult \<Rightarrow> bool" where
  "DeleteShareGroupStateResponse_PartitionResult_fields_wf version x \<longleftrightarrow>
     (let flex = 0 \<le>s version in
      nullable_str_wf flex (dsgs_resp_pr_error_message x))"

definition DeleteShareGroupStateResponse_PartitionResult_wf :: "i16 \<Rightarrow> DeleteShareGroupStateResponse_PartitionResult \<Rightarrow> bool" where
  "DeleteShareGroupStateResponse_PartitionResult_wf version x \<longleftrightarrow>
     DeleteShareGroupStateResponse_PartitionResult_fields_wf version x \<and> trailer_ok [] [] (dsgs_resp_pr_unknown_tagged_fields x)"

lemmas delete_share_group_state_response_partition_result_fields =
    Let_def field_ok_def DeleteShareGroupStateResponse_PartitionResult_fields_wf_def

lemma delete_share_group_state_response_partition_result_steps:
  assumes v: "0 \<le>s version" and flex: "flex = (0 \<le>s version)"
  shows "keeps (DeleteShareGroupStateResponse_PartitionResult_fields_wf version) (get_into (0 \<le>s version) get_i32 (\<lambda>v out. out\<lparr>dsgs_resp_pr_partition := v\<rparr>))"
    and "keeps (DeleteShareGroupStateResponse_PartitionResult_fields_wf version) (get_into (0 \<le>s version) get_i16 (\<lambda>v out. out\<lparr>dsgs_resp_pr_error_code := v\<rparr>))"
    and "keeps (DeleteShareGroupStateResponse_PartitionResult_fields_wf version) (get_into (0 \<le>s version) (get_nullable_str flex) (\<lambda>v out. out\<lparr>dsgs_resp_pr_error_message := v\<rparr>))"
  unfolding flex 
  by (rule keeps_into; (rule yields_rules)?; simp add: v delete_share_group_state_response_partition_result_fields)+

lemma delete_share_group_state_response_partition_result_unknown:
  "DeleteShareGroupStateResponse_PartitionResult_fields_wf version (s\<lparr>dsgs_resp_pr_unknown_tagged_fields := u\<rparr>) = DeleteShareGroupStateResponse_PartitionResult_fields_wf version s"
  by (simp_all add: DeleteShareGroupStateResponse_PartitionResult_fields_wf_def)

lemma delete_share_group_state_response_partition_result_yields:
  assumes v: "0 \<le>s version"
  shows "yields 1 (DeleteShareGroupStateResponse_PartitionResult_decode version) (DeleteShareGroupStateResponse_PartitionResult_wf version)"
proof -
  have d: "DeleteShareGroupStateResponse_PartitionResult_fields_wf version DeleteShareGroupStateResponse_PartitionResult_default"
    by (simp add: DeleteShareGroupStateResponse_PartitionResult_default_def v delete_share_group_state_response_partition_result_fields)
  show ?thesis
    unfolding DeleteShareGroupStateResponse_PartitionResult_decode_def Let_def
    by ((rule delete_share_group_state_response_partition_result_steps[OF v refl, THEN yields_step], (rule d | assumption))+, rule yields_trailer[OF _ arms_keep_Nil[of "DeleteShareGroupStateResponse_PartitionResult_fields_wf version" "\<lambda>_. 0"]])
      (simp_all add: v d delete_share_group_state_response_partition_result_unknown DeleteShareGroupStateResponse_PartitionResult_wf_def trailer_ok_def )
qed

lemma delete_share_group_state_response_partition_result_extends [extends_rules]: "extends_input (DeleteShareGroupStateResponse_PartitionResult_decode version)"
  unfolding DeleteShareGroupStateResponse_PartitionResult_decode_def Let_def by (intro extends_rules)

lemma delete_share_group_state_response_partition_result_codec:
  assumes v: "0 \<le>s version"
  shows "message_codec DeleteShareGroupStateResponse_PartitionResult_encode DeleteShareGroupStateResponse_PartitionResult_decode DeleteShareGroupStateResponse_PartitionResult_encoded_len (DeleteShareGroupStateResponse_PartitionResult_wf version) version"
proof
  fix x
  assume w: "DeleteShareGroupStateResponse_PartitionResult_wf version x"
  show "carries (DeleteShareGroupStateResponse_PartitionResult_encode x version) (DeleteShareGroupStateResponse_PartitionResult_decode version) (DeleteShareGroupStateResponse_PartitionResult_encoded_len x version) x"
    unfolding DeleteShareGroupStateResponse_PartitionResult_encode_def DeleteShareGroupStateResponse_PartitionResult_encoded_len_def DeleteShareGroupStateResponse_PartitionResult_decode_def Let_def
    by (use w[unfolded DeleteShareGroupStateResponse_PartitionResult_wf_def DeleteShareGroupStateResponse_PartitionResult_fields_wf_def Let_def] in \<open>elim conjE\<close>, rule carries_cong_len)
      ((rule carries_rules | (erule absent_guarded, assumption) | erule absent_plain
        | simp add: v field_ok_def DeleteShareGroupStateResponse_PartitionResult_default_def )+)
next
  show "yields 1 (DeleteShareGroupStateResponse_PartitionResult_decode version) (DeleteShareGroupStateResponse_PartitionResult_wf version)"
    by (rule delete_share_group_state_response_partition_result_yields[OF v])
qed (rule delete_share_group_state_response_partition_result_extends)

lemma delete_share_group_state_response_partition_result_default_wf [simp]: "0 \<le>s version \<Longrightarrow> DeleteShareGroupStateResponse_PartitionResult_wf version DeleteShareGroupStateResponse_PartitionResult_default"
  by (simp add: DeleteShareGroupStateResponse_PartitionResult_wf_def DeleteShareGroupStateResponse_PartitionResult_default_def trailer_ok_def delete_share_group_state_response_partition_result_fields)

lemmas [carries_rules] = message_codec.message_carries[OF delete_share_group_state_response_partition_result_codec]
lemmas [yields_rules] = message_codec.message_yields[OF delete_share_group_state_response_partition_result_codec]

lemmas [carries_rules] = protocol_codec.put_array_carries[OF message_codec.message_protocol[OF delete_share_group_state_response_partition_result_codec]]
lemmas [yields_rules] = protocol_codec.get_array_yields[OF message_codec.message_protocol[OF delete_share_group_state_response_partition_result_codec]]
lemmas [carries_rules] = protocol_codec.put_nullable_array_carries[OF message_codec.message_protocol[OF delete_share_group_state_response_partition_result_codec]]
lemmas [yields_rules] = protocol_codec.get_nullable_array_yields[OF message_codec.message_protocol[OF delete_share_group_state_response_partition_result_codec]]

record DeleteShareGroupStateResponse_DeleteStateResult =
  dsgs_resp_dsr_topic_id :: Uuid
  dsgs_resp_dsr_partitions :: "DeleteShareGroupStateResponse_PartitionResult list"
  dsgs_resp_dsr_unknown_tagged_fields :: "UnknownTaggedField list"

definition DeleteShareGroupStateResponse_DeleteStateResult_default :: DeleteShareGroupStateResponse_DeleteStateResult where
  "DeleteShareGroupStateResponse_DeleteStateResult_default =
     \<lparr>dsgs_resp_dsr_topic_id = Uuid_ZERO, dsgs_resp_dsr_partitions = [], dsgs_resp_dsr_unknown_tagged_fields = []\<rparr>"

definition DeleteShareGroupStateResponse_DeleteStateResult_encode :: "DeleteShareGroupStateResponse_DeleteStateResult \<Rightarrow> i16 \<Rightarrow> encoder" where
  "DeleteShareGroupStateResponse_DeleteStateResult_encode x version =
     (let flex = 0 \<le>s version in
      write_all
        [put_when (0 \<le>s version) (put_uuid (dsgs_resp_dsr_topic_id x)),
         put_when (0 \<le>s version) (put_array flex (\<lambda>it. DeleteShareGroupStateResponse_PartitionResult_encode it version) (dsgs_resp_dsr_partitions x)),
         put_when flex (put_tagged [] (dsgs_resp_dsr_unknown_tagged_fields x))])"

definition DeleteShareGroupStateResponse_DeleteStateResult_encoded_len :: "DeleteShareGroupStateResponse_DeleteStateResult \<Rightarrow> i16 \<Rightarrow> nat" where
  "DeleteShareGroupStateResponse_DeleteStateResult_encoded_len x version =
     (let flex = 0 \<le>s version in
      len_when (0 \<le>s version) 16
      + len_when (0 \<le>s version) (array_size flex (\<lambda>it. DeleteShareGroupStateResponse_PartitionResult_encoded_len it version) (dsgs_resp_dsr_partitions x))
      + len_when flex (tagged_size [] (dsgs_resp_dsr_unknown_tagged_fields x)))"

definition DeleteShareGroupStateResponse_DeleteStateResult_decode :: "i16 \<Rightarrow> DeleteShareGroupStateResponse_DeleteStateResult decoder" where
  "DeleteShareGroupStateResponse_DeleteStateResult_decode version =
     (let flex = 0 \<le>s version in
      read_then (get_into (0 \<le>s version) get_uuid (\<lambda>v out. out\<lparr>dsgs_resp_dsr_topic_id := v\<rparr>) DeleteShareGroupStateResponse_DeleteStateResult_default) (\<lambda>out.
        read_then (get_into (0 \<le>s version) (get_array flex (DeleteShareGroupStateResponse_PartitionResult_decode version)) (\<lambda>v out. out\<lparr>dsgs_resp_dsr_partitions := v\<rparr>) out) (\<lambda>out.
        get_trailer flex [] (\<lambda>u out. out\<lparr>dsgs_resp_dsr_unknown_tagged_fields := u\<rparr>) out)))"

definition DeleteShareGroupStateResponse_DeleteStateResult_fields_wf :: "i16 \<Rightarrow> DeleteShareGroupStateResponse_DeleteStateResult \<Rightarrow> bool" where
  "DeleteShareGroupStateResponse_DeleteStateResult_fields_wf version x \<longleftrightarrow>
     (let flex = 0 \<le>s version in
      uuid_wf (dsgs_resp_dsr_topic_id x)
      \<and> array_ok flex (DeleteShareGroupStateResponse_PartitionResult_wf version) (dsgs_resp_dsr_partitions x))"

definition DeleteShareGroupStateResponse_DeleteStateResult_wf :: "i16 \<Rightarrow> DeleteShareGroupStateResponse_DeleteStateResult \<Rightarrow> bool" where
  "DeleteShareGroupStateResponse_DeleteStateResult_wf version x \<longleftrightarrow>
     DeleteShareGroupStateResponse_DeleteStateResult_fields_wf version x \<and> trailer_ok [] [] (dsgs_resp_dsr_unknown_tagged_fields x)"

lemmas delete_share_group_state_response_delete_state_result_fields =
    Let_def field_ok_def DeleteShareGroupStateResponse_DeleteStateResult_fields_wf_def

lemma delete_share_group_state_response_delete_state_result_steps:
  assumes v: "0 \<le>s version" and flex: "flex = (0 \<le>s version)"
  shows "keeps (DeleteShareGroupStateResponse_DeleteStateResult_fields_wf version) (get_into (0 \<le>s version) get_uuid (\<lambda>v out. out\<lparr>dsgs_resp_dsr_topic_id := v\<rparr>))"
    and "keeps (DeleteShareGroupStateResponse_DeleteStateResult_fields_wf version) (get_into (0 \<le>s version) (get_array flex (DeleteShareGroupStateResponse_PartitionResult_decode version)) (\<lambda>v out. out\<lparr>dsgs_resp_dsr_partitions := v\<rparr>))"
  unfolding flex 
  by (rule keeps_into; (rule yields_rules)?; simp add: v delete_share_group_state_response_delete_state_result_fields)+

lemma delete_share_group_state_response_delete_state_result_unknown:
  "DeleteShareGroupStateResponse_DeleteStateResult_fields_wf version (s\<lparr>dsgs_resp_dsr_unknown_tagged_fields := u\<rparr>) = DeleteShareGroupStateResponse_DeleteStateResult_fields_wf version s"
  by (simp_all add: DeleteShareGroupStateResponse_DeleteStateResult_fields_wf_def)

lemma delete_share_group_state_response_delete_state_result_yields:
  assumes v: "0 \<le>s version"
  shows "yields 1 (DeleteShareGroupStateResponse_DeleteStateResult_decode version) (DeleteShareGroupStateResponse_DeleteStateResult_wf version)"
proof -
  have d: "DeleteShareGroupStateResponse_DeleteStateResult_fields_wf version DeleteShareGroupStateResponse_DeleteStateResult_default"
    by (simp add: DeleteShareGroupStateResponse_DeleteStateResult_default_def v delete_share_group_state_response_delete_state_result_fields)
  show ?thesis
    unfolding DeleteShareGroupStateResponse_DeleteStateResult_decode_def Let_def
    by ((rule delete_share_group_state_response_delete_state_result_steps[OF v refl, THEN yields_step], (rule d | assumption))+, rule yields_trailer[OF _ arms_keep_Nil[of "DeleteShareGroupStateResponse_DeleteStateResult_fields_wf version" "\<lambda>_. 0"]])
      (simp_all add: v d delete_share_group_state_response_delete_state_result_unknown DeleteShareGroupStateResponse_DeleteStateResult_wf_def trailer_ok_def )
qed

lemma delete_share_group_state_response_delete_state_result_extends [extends_rules]: "extends_input (DeleteShareGroupStateResponse_DeleteStateResult_decode version)"
  unfolding DeleteShareGroupStateResponse_DeleteStateResult_decode_def Let_def by (intro extends_rules)

lemma delete_share_group_state_response_delete_state_result_codec:
  assumes v: "0 \<le>s version"
  shows "message_codec DeleteShareGroupStateResponse_DeleteStateResult_encode DeleteShareGroupStateResponse_DeleteStateResult_decode DeleteShareGroupStateResponse_DeleteStateResult_encoded_len (DeleteShareGroupStateResponse_DeleteStateResult_wf version) version"
proof
  fix x
  assume w: "DeleteShareGroupStateResponse_DeleteStateResult_wf version x"
  show "carries (DeleteShareGroupStateResponse_DeleteStateResult_encode x version) (DeleteShareGroupStateResponse_DeleteStateResult_decode version) (DeleteShareGroupStateResponse_DeleteStateResult_encoded_len x version) x"
    unfolding DeleteShareGroupStateResponse_DeleteStateResult_encode_def DeleteShareGroupStateResponse_DeleteStateResult_encoded_len_def DeleteShareGroupStateResponse_DeleteStateResult_decode_def Let_def
    by (use w[unfolded DeleteShareGroupStateResponse_DeleteStateResult_wf_def DeleteShareGroupStateResponse_DeleteStateResult_fields_wf_def Let_def] in \<open>elim conjE\<close>, rule carries_cong_len)
      ((rule carries_rules | (erule absent_guarded, assumption) | erule absent_plain
        | simp add: v field_ok_def DeleteShareGroupStateResponse_DeleteStateResult_default_def )+)
next
  show "yields 1 (DeleteShareGroupStateResponse_DeleteStateResult_decode version) (DeleteShareGroupStateResponse_DeleteStateResult_wf version)"
    by (rule delete_share_group_state_response_delete_state_result_yields[OF v])
qed (rule delete_share_group_state_response_delete_state_result_extends)

lemma delete_share_group_state_response_delete_state_result_default_wf [simp]: "0 \<le>s version \<Longrightarrow> DeleteShareGroupStateResponse_DeleteStateResult_wf version DeleteShareGroupStateResponse_DeleteStateResult_default"
  by (simp add: DeleteShareGroupStateResponse_DeleteStateResult_wf_def DeleteShareGroupStateResponse_DeleteStateResult_default_def trailer_ok_def delete_share_group_state_response_delete_state_result_fields)

lemmas [carries_rules] = message_codec.message_carries[OF delete_share_group_state_response_delete_state_result_codec]
lemmas [yields_rules] = message_codec.message_yields[OF delete_share_group_state_response_delete_state_result_codec]

lemmas [carries_rules] = protocol_codec.put_array_carries[OF message_codec.message_protocol[OF delete_share_group_state_response_delete_state_result_codec]]
lemmas [yields_rules] = protocol_codec.get_array_yields[OF message_codec.message_protocol[OF delete_share_group_state_response_delete_state_result_codec]]
lemmas [carries_rules] = protocol_codec.put_nullable_array_carries[OF message_codec.message_protocol[OF delete_share_group_state_response_delete_state_result_codec]]
lemmas [yields_rules] = protocol_codec.get_nullable_array_yields[OF message_codec.message_protocol[OF delete_share_group_state_response_delete_state_result_codec]]

record DeleteShareGroupStateResponse =
  dsgs_resp_results :: "DeleteShareGroupStateResponse_DeleteStateResult list"
  dsgs_resp_unknown_tagged_fields :: "UnknownTaggedField list"

definition DeleteShareGroupStateResponse_default :: DeleteShareGroupStateResponse where
  "DeleteShareGroupStateResponse_default =
     \<lparr>dsgs_resp_results = [], dsgs_resp_unknown_tagged_fields = []\<rparr>"

definition DeleteShareGroupStateResponse_MIN_VERSION :: i16 where
  "DeleteShareGroupStateResponse_MIN_VERSION = 0"

definition DeleteShareGroupStateResponse_MAX_VERSION :: i16 where
  "DeleteShareGroupStateResponse_MAX_VERSION = 0"

definition DeleteShareGroupStateResponse_FLEXIBLE_MIN :: i16 where
  "DeleteShareGroupStateResponse_FLEXIBLE_MIN = 0"

definition DeleteShareGroupStateResponse_API_KEY :: i16 where
  "DeleteShareGroupStateResponse_API_KEY = 86"

definition DeleteShareGroupStateResponse_is_flexible :: "i16 \<Rightarrow> bool" where
  "DeleteShareGroupStateResponse_is_flexible version \<longleftrightarrow> DeleteShareGroupStateResponse_FLEXIBLE_MIN \<le>s version"

definition DeleteShareGroupStateResponse_encode :: "DeleteShareGroupStateResponse \<Rightarrow> i16 \<Rightarrow> encoder" where
  "DeleteShareGroupStateResponse_encode x version =
     (let flex = DeleteShareGroupStateResponse_is_flexible version in
      write_all
        [write_check (check_version DeleteShareGroupStateResponse_API_KEY version DeleteShareGroupStateResponse_MIN_VERSION DeleteShareGroupStateResponse_MAX_VERSION),
         put_when (0 \<le>s version) (put_array flex (\<lambda>it. DeleteShareGroupStateResponse_DeleteStateResult_encode it version) (dsgs_resp_results x)),
         put_when flex (put_tagged [] (dsgs_resp_unknown_tagged_fields x))])"

definition DeleteShareGroupStateResponse_encoded_len :: "DeleteShareGroupStateResponse \<Rightarrow> i16 \<Rightarrow> nat" where
  "DeleteShareGroupStateResponse_encoded_len x version =
     (let flex = DeleteShareGroupStateResponse_is_flexible version in
      len_when (0 \<le>s version) (array_size flex (\<lambda>it. DeleteShareGroupStateResponse_DeleteStateResult_encoded_len it version) (dsgs_resp_results x))
      + len_when flex (tagged_size [] (dsgs_resp_unknown_tagged_fields x)))"

definition DeleteShareGroupStateResponse_decode :: "i16 \<Rightarrow> DeleteShareGroupStateResponse decoder" where
  "DeleteShareGroupStateResponse_decode version =
     (let flex = DeleteShareGroupStateResponse_is_flexible version in
      checked (check_version DeleteShareGroupStateResponse_API_KEY version DeleteShareGroupStateResponse_MIN_VERSION DeleteShareGroupStateResponse_MAX_VERSION) (
        read_then (get_into (0 \<le>s version) (get_array flex (DeleteShareGroupStateResponse_DeleteStateResult_decode version)) (\<lambda>v out. out\<lparr>dsgs_resp_results := v\<rparr>) DeleteShareGroupStateResponse_default) (\<lambda>out.
        get_trailer flex [] (\<lambda>u out. out\<lparr>dsgs_resp_unknown_tagged_fields := u\<rparr>) out)))"

definition DeleteShareGroupStateResponse_fields_wf :: "i16 \<Rightarrow> DeleteShareGroupStateResponse \<Rightarrow> bool" where
  "DeleteShareGroupStateResponse_fields_wf version x \<longleftrightarrow>
     (let flex = DeleteShareGroupStateResponse_is_flexible version in
      array_ok flex (DeleteShareGroupStateResponse_DeleteStateResult_wf version) (dsgs_resp_results x))"

definition DeleteShareGroupStateResponse_wf :: "i16 \<Rightarrow> DeleteShareGroupStateResponse \<Rightarrow> bool" where
  "DeleteShareGroupStateResponse_wf version x \<longleftrightarrow>
     version_in DeleteShareGroupStateResponse_MIN_VERSION DeleteShareGroupStateResponse_MAX_VERSION version \<and> DeleteShareGroupStateResponse_fields_wf version x \<and> trailer_ok [] [] (dsgs_resp_unknown_tagged_fields x)"

lemmas delete_share_group_state_response_versions =
    DeleteShareGroupStateResponse_is_flexible_def DeleteShareGroupStateResponse_FLEXIBLE_MIN_def
    DeleteShareGroupStateResponse_MIN_VERSION_def DeleteShareGroupStateResponse_MAX_VERSION_def version_in_def

lemmas delete_share_group_state_response_fields =
    Let_def field_ok_def DeleteShareGroupStateResponse_fields_wf_def DeleteShareGroupStateResponse_is_flexible_def
    DeleteShareGroupStateResponse_FLEXIBLE_MIN_def

lemma delete_share_group_state_response_steps:
  assumes v: "0 \<le>s version" and flex: "flex = (DeleteShareGroupStateResponse_is_flexible version)"
  shows "keeps (DeleteShareGroupStateResponse_fields_wf version) (get_into (0 \<le>s version) (get_array flex (DeleteShareGroupStateResponse_DeleteStateResult_decode version)) (\<lambda>v out. out\<lparr>dsgs_resp_results := v\<rparr>))"
  unfolding flex 
  by (rule keeps_into; (rule yields_rules)?; simp add: v delete_share_group_state_response_fields)+

lemma delete_share_group_state_response_unknown:
  "DeleteShareGroupStateResponse_fields_wf version (s\<lparr>dsgs_resp_unknown_tagged_fields := u\<rparr>) = DeleteShareGroupStateResponse_fields_wf version s"
  by (simp_all add: DeleteShareGroupStateResponse_fields_wf_def)

lemma delete_share_group_state_response_yields:
  assumes r: "version_in DeleteShareGroupStateResponse_MIN_VERSION DeleteShareGroupStateResponse_MAX_VERSION version"
  shows "yields 1 (DeleteShareGroupStateResponse_decode version) (DeleteShareGroupStateResponse_wf version)"
proof -
  have v: "0 \<le>s version"
    using r by (simp add: delete_share_group_state_response_versions)
  have d: "DeleteShareGroupStateResponse_fields_wf version DeleteShareGroupStateResponse_default"
    by (simp add: DeleteShareGroupStateResponse_default_def v delete_share_group_state_response_fields)
  show ?thesis
    unfolding DeleteShareGroupStateResponse_decode_def Let_def
    by (rule yields_checked, (rule delete_share_group_state_response_steps[OF v refl, THEN yields_step], (rule d | assumption))+, rule yields_trailer[OF _ arms_keep_Nil[of "DeleteShareGroupStateResponse_fields_wf version" "\<lambda>_. 0"]])
      (simp_all add: v d delete_share_group_state_response_unknown DeleteShareGroupStateResponse_wf_def trailer_ok_def r DeleteShareGroupStateResponse_is_flexible_def DeleteShareGroupStateResponse_FLEXIBLE_MIN_def)
qed

interpretation delete_share_group_state_response: message_codec
  DeleteShareGroupStateResponse_encode DeleteShareGroupStateResponse_decode DeleteShareGroupStateResponse_encoded_len "DeleteShareGroupStateResponse_wf version" version
  for version
proof
  fix x
  assume w: "DeleteShareGroupStateResponse_wf version x"
  then have v: "0 \<le>s version"
    by (simp add: DeleteShareGroupStateResponse_wf_def delete_share_group_state_response_versions)
  show "carries (DeleteShareGroupStateResponse_encode x version) (DeleteShareGroupStateResponse_decode version) (DeleteShareGroupStateResponse_encoded_len x version) x"
    unfolding DeleteShareGroupStateResponse_encode_def DeleteShareGroupStateResponse_encoded_len_def DeleteShareGroupStateResponse_decode_def Let_def
    by (use w[unfolded DeleteShareGroupStateResponse_wf_def DeleteShareGroupStateResponse_fields_wf_def Let_def] in \<open>elim conjE\<close>, rule carries_cong_len)
      ((rule carries_rules check_version_in[THEN iffD2] | (erule absent_guarded, assumption) | erule absent_plain
        | simp add: v field_ok_def DeleteShareGroupStateResponse_default_def delete_share_group_state_response_versions)+)
next
  show "yields 1 (DeleteShareGroupStateResponse_decode version) (DeleteShareGroupStateResponse_wf version)"
    by (rule case_split[OF delete_share_group_state_response_yields]) (auto simp: DeleteShareGroupStateResponse_decode_def Let_def yields_refused yields_unsupported)
  show "extends_input (DeleteShareGroupStateResponse_decode version)"
    unfolding DeleteShareGroupStateResponse_decode_def Let_def by (intro extends_rules)
qed

section \<open>DescribeShareGroupOffsetsRequest\<close>

record DescribeShareGroupOffsetsRequest_DescribeShareGroupOffsetsRequestTopic =
  deshgrof_req_deshgrofreto_topic_name :: bytes
  deshgrof_req_deshgrofreto_partitions :: "i32 list"
  deshgrof_req_deshgrofreto_unknown_tagged_fields :: "UnknownTaggedField list"

definition DescribeShareGroupOffsetsRequest_DescribeShareGroupOffsetsRequestTopic_default :: DescribeShareGroupOffsetsRequest_DescribeShareGroupOffsetsRequestTopic where
  "DescribeShareGroupOffsetsRequest_DescribeShareGroupOffsetsRequestTopic_default =
     \<lparr>deshgrof_req_deshgrofreto_topic_name = [], deshgrof_req_deshgrofreto_partitions = [], deshgrof_req_deshgrofreto_unknown_tagged_fields = []\<rparr>"

definition DescribeShareGroupOffsetsRequest_DescribeShareGroupOffsetsRequestTopic_encode :: "DescribeShareGroupOffsetsRequest_DescribeShareGroupOffsetsRequestTopic \<Rightarrow> i16 \<Rightarrow> encoder" where
  "DescribeShareGroupOffsetsRequest_DescribeShareGroupOffsetsRequestTopic_encode x version =
     (let flex = 0 \<le>s version in
      write_all
        [put_when (0 \<le>s version) (put_str flex (deshgrof_req_deshgrofreto_topic_name x)),
         put_when (0 \<le>s version) (put_array flex put_i32 (deshgrof_req_deshgrofreto_partitions x)),
         put_when flex (put_tagged [] (deshgrof_req_deshgrofreto_unknown_tagged_fields x))])"

definition DescribeShareGroupOffsetsRequest_DescribeShareGroupOffsetsRequestTopic_encoded_len :: "DescribeShareGroupOffsetsRequest_DescribeShareGroupOffsetsRequestTopic \<Rightarrow> i16 \<Rightarrow> nat" where
  "DescribeShareGroupOffsetsRequest_DescribeShareGroupOffsetsRequestTopic_encoded_len x version =
     (let flex = 0 \<le>s version in
      len_when (0 \<le>s version) (str_len flex (deshgrof_req_deshgrofreto_topic_name x))
      + len_when (0 \<le>s version) (array_size flex (\<lambda>_. 4) (deshgrof_req_deshgrofreto_partitions x))
      + len_when flex (tagged_size [] (deshgrof_req_deshgrofreto_unknown_tagged_fields x)))"

definition DescribeShareGroupOffsetsRequest_DescribeShareGroupOffsetsRequestTopic_decode :: "i16 \<Rightarrow> DescribeShareGroupOffsetsRequest_DescribeShareGroupOffsetsRequestTopic decoder" where
  "DescribeShareGroupOffsetsRequest_DescribeShareGroupOffsetsRequestTopic_decode version =
     (let flex = 0 \<le>s version in
      read_then (get_into (0 \<le>s version) (get_str flex) (\<lambda>v out. out\<lparr>deshgrof_req_deshgrofreto_topic_name := v\<rparr>) DescribeShareGroupOffsetsRequest_DescribeShareGroupOffsetsRequestTopic_default) (\<lambda>out.
        read_then (get_into (0 \<le>s version) (get_array flex get_i32) (\<lambda>v out. out\<lparr>deshgrof_req_deshgrofreto_partitions := v\<rparr>) out) (\<lambda>out.
        get_trailer flex [] (\<lambda>u out. out\<lparr>deshgrof_req_deshgrofreto_unknown_tagged_fields := u\<rparr>) out)))"

definition DescribeShareGroupOffsetsRequest_DescribeShareGroupOffsetsRequestTopic_fields_wf :: "i16 \<Rightarrow> DescribeShareGroupOffsetsRequest_DescribeShareGroupOffsetsRequestTopic \<Rightarrow> bool" where
  "DescribeShareGroupOffsetsRequest_DescribeShareGroupOffsetsRequestTopic_fields_wf version x \<longleftrightarrow>
     (let flex = 0 \<le>s version in
      str_wf flex (deshgrof_req_deshgrofreto_topic_name x)
      \<and> array_ok flex (\<lambda>_. True) (deshgrof_req_deshgrofreto_partitions x))"

definition DescribeShareGroupOffsetsRequest_DescribeShareGroupOffsetsRequestTopic_wf :: "i16 \<Rightarrow> DescribeShareGroupOffsetsRequest_DescribeShareGroupOffsetsRequestTopic \<Rightarrow> bool" where
  "DescribeShareGroupOffsetsRequest_DescribeShareGroupOffsetsRequestTopic_wf version x \<longleftrightarrow>
     DescribeShareGroupOffsetsRequest_DescribeShareGroupOffsetsRequestTopic_fields_wf version x \<and> trailer_ok [] [] (deshgrof_req_deshgrofreto_unknown_tagged_fields x)"

lemmas describe_share_group_offsets_request_describe_share_group_offsets_request_topic_fields =
    Let_def field_ok_def DescribeShareGroupOffsetsRequest_DescribeShareGroupOffsetsRequestTopic_fields_wf_def

lemma describe_share_group_offsets_request_describe_share_group_offsets_request_topic_steps:
  assumes v: "0 \<le>s version" and flex: "flex = (0 \<le>s version)"
  shows "keeps (DescribeShareGroupOffsetsRequest_DescribeShareGroupOffsetsRequestTopic_fields_wf version) (get_into (0 \<le>s version) (get_str flex) (\<lambda>v out. out\<lparr>deshgrof_req_deshgrofreto_topic_name := v\<rparr>))"
    and "keeps (DescribeShareGroupOffsetsRequest_DescribeShareGroupOffsetsRequestTopic_fields_wf version) (get_into (0 \<le>s version) (get_array flex get_i32) (\<lambda>v out. out\<lparr>deshgrof_req_deshgrofreto_partitions := v\<rparr>))"
  unfolding flex 
  by (rule keeps_into; (rule yields_rules)?; simp add: v describe_share_group_offsets_request_describe_share_group_offsets_request_topic_fields)+

lemma describe_share_group_offsets_request_describe_share_group_offsets_request_topic_unknown:
  "DescribeShareGroupOffsetsRequest_DescribeShareGroupOffsetsRequestTopic_fields_wf version (s\<lparr>deshgrof_req_deshgrofreto_unknown_tagged_fields := u\<rparr>) = DescribeShareGroupOffsetsRequest_DescribeShareGroupOffsetsRequestTopic_fields_wf version s"
  by (simp_all add: DescribeShareGroupOffsetsRequest_DescribeShareGroupOffsetsRequestTopic_fields_wf_def)

lemma describe_share_group_offsets_request_describe_share_group_offsets_request_topic_yields:
  assumes v: "0 \<le>s version"
  shows "yields 1 (DescribeShareGroupOffsetsRequest_DescribeShareGroupOffsetsRequestTopic_decode version) (DescribeShareGroupOffsetsRequest_DescribeShareGroupOffsetsRequestTopic_wf version)"
proof -
  have d: "DescribeShareGroupOffsetsRequest_DescribeShareGroupOffsetsRequestTopic_fields_wf version DescribeShareGroupOffsetsRequest_DescribeShareGroupOffsetsRequestTopic_default"
    by (simp add: DescribeShareGroupOffsetsRequest_DescribeShareGroupOffsetsRequestTopic_default_def v describe_share_group_offsets_request_describe_share_group_offsets_request_topic_fields)
  show ?thesis
    unfolding DescribeShareGroupOffsetsRequest_DescribeShareGroupOffsetsRequestTopic_decode_def Let_def
    by ((rule describe_share_group_offsets_request_describe_share_group_offsets_request_topic_steps[OF v refl, THEN yields_step], (rule d | assumption))+, rule yields_trailer[OF _ arms_keep_Nil[of "DescribeShareGroupOffsetsRequest_DescribeShareGroupOffsetsRequestTopic_fields_wf version" "\<lambda>_. 0"]])
      (simp_all add: v d describe_share_group_offsets_request_describe_share_group_offsets_request_topic_unknown DescribeShareGroupOffsetsRequest_DescribeShareGroupOffsetsRequestTopic_wf_def trailer_ok_def )
qed

lemma describe_share_group_offsets_request_describe_share_group_offsets_request_topic_extends [extends_rules]: "extends_input (DescribeShareGroupOffsetsRequest_DescribeShareGroupOffsetsRequestTopic_decode version)"
  unfolding DescribeShareGroupOffsetsRequest_DescribeShareGroupOffsetsRequestTopic_decode_def Let_def by (intro extends_rules)

lemma describe_share_group_offsets_request_describe_share_group_offsets_request_topic_codec:
  assumes v: "0 \<le>s version"
  shows "message_codec DescribeShareGroupOffsetsRequest_DescribeShareGroupOffsetsRequestTopic_encode DescribeShareGroupOffsetsRequest_DescribeShareGroupOffsetsRequestTopic_decode DescribeShareGroupOffsetsRequest_DescribeShareGroupOffsetsRequestTopic_encoded_len (DescribeShareGroupOffsetsRequest_DescribeShareGroupOffsetsRequestTopic_wf version) version"
proof
  fix x
  assume w: "DescribeShareGroupOffsetsRequest_DescribeShareGroupOffsetsRequestTopic_wf version x"
  show "carries (DescribeShareGroupOffsetsRequest_DescribeShareGroupOffsetsRequestTopic_encode x version) (DescribeShareGroupOffsetsRequest_DescribeShareGroupOffsetsRequestTopic_decode version) (DescribeShareGroupOffsetsRequest_DescribeShareGroupOffsetsRequestTopic_encoded_len x version) x"
    unfolding DescribeShareGroupOffsetsRequest_DescribeShareGroupOffsetsRequestTopic_encode_def DescribeShareGroupOffsetsRequest_DescribeShareGroupOffsetsRequestTopic_encoded_len_def DescribeShareGroupOffsetsRequest_DescribeShareGroupOffsetsRequestTopic_decode_def Let_def
    by (use w[unfolded DescribeShareGroupOffsetsRequest_DescribeShareGroupOffsetsRequestTopic_wf_def DescribeShareGroupOffsetsRequest_DescribeShareGroupOffsetsRequestTopic_fields_wf_def Let_def] in \<open>elim conjE\<close>, rule carries_cong_len)
      ((rule carries_rules | (erule absent_guarded, assumption) | erule absent_plain
        | simp add: v field_ok_def DescribeShareGroupOffsetsRequest_DescribeShareGroupOffsetsRequestTopic_default_def )+)
next
  show "yields 1 (DescribeShareGroupOffsetsRequest_DescribeShareGroupOffsetsRequestTopic_decode version) (DescribeShareGroupOffsetsRequest_DescribeShareGroupOffsetsRequestTopic_wf version)"
    by (rule describe_share_group_offsets_request_describe_share_group_offsets_request_topic_yields[OF v])
qed (rule describe_share_group_offsets_request_describe_share_group_offsets_request_topic_extends)

lemma describe_share_group_offsets_request_describe_share_group_offsets_request_topic_default_wf [simp]: "0 \<le>s version \<Longrightarrow> DescribeShareGroupOffsetsRequest_DescribeShareGroupOffsetsRequestTopic_wf version DescribeShareGroupOffsetsRequest_DescribeShareGroupOffsetsRequestTopic_default"
  by (simp add: DescribeShareGroupOffsetsRequest_DescribeShareGroupOffsetsRequestTopic_wf_def DescribeShareGroupOffsetsRequest_DescribeShareGroupOffsetsRequestTopic_default_def trailer_ok_def describe_share_group_offsets_request_describe_share_group_offsets_request_topic_fields)

lemmas [carries_rules] = message_codec.message_carries[OF describe_share_group_offsets_request_describe_share_group_offsets_request_topic_codec]
lemmas [yields_rules] = message_codec.message_yields[OF describe_share_group_offsets_request_describe_share_group_offsets_request_topic_codec]

lemmas [carries_rules] = protocol_codec.put_array_carries[OF message_codec.message_protocol[OF describe_share_group_offsets_request_describe_share_group_offsets_request_topic_codec]]
lemmas [yields_rules] = protocol_codec.get_array_yields[OF message_codec.message_protocol[OF describe_share_group_offsets_request_describe_share_group_offsets_request_topic_codec]]
lemmas [carries_rules] = protocol_codec.put_nullable_array_carries[OF message_codec.message_protocol[OF describe_share_group_offsets_request_describe_share_group_offsets_request_topic_codec]]
lemmas [yields_rules] = protocol_codec.get_nullable_array_yields[OF message_codec.message_protocol[OF describe_share_group_offsets_request_describe_share_group_offsets_request_topic_codec]]

record DescribeShareGroupOffsetsRequest_DescribeShareGroupOffsetsRequestGroup =
  dsgo_req_dsgorg_group_id :: bytes
  dsgo_req_dsgorg_topics :: "DescribeShareGroupOffsetsRequest_DescribeShareGroupOffsetsRequestTopic list option"
  dsgo_req_dsgorg_unknown_tagged_fields :: "UnknownTaggedField list"

definition DescribeShareGroupOffsetsRequest_DescribeShareGroupOffsetsRequestGroup_default :: DescribeShareGroupOffsetsRequest_DescribeShareGroupOffsetsRequestGroup where
  "DescribeShareGroupOffsetsRequest_DescribeShareGroupOffsetsRequestGroup_default =
     \<lparr>dsgo_req_dsgorg_group_id = [], dsgo_req_dsgorg_topics = Some [], dsgo_req_dsgorg_unknown_tagged_fields = []\<rparr>"

definition DescribeShareGroupOffsetsRequest_DescribeShareGroupOffsetsRequestGroup_encode :: "DescribeShareGroupOffsetsRequest_DescribeShareGroupOffsetsRequestGroup \<Rightarrow> i16 \<Rightarrow> encoder" where
  "DescribeShareGroupOffsetsRequest_DescribeShareGroupOffsetsRequestGroup_encode x version =
     (let flex = 0 \<le>s version in
      write_all
        [put_when (0 \<le>s version) (put_str flex (dsgo_req_dsgorg_group_id x)),
         put_when (0 \<le>s version) (put_nullable_array flex (\<lambda>it. DescribeShareGroupOffsetsRequest_DescribeShareGroupOffsetsRequestTopic_encode it version) (dsgo_req_dsgorg_topics x)),
         put_when flex (put_tagged [] (dsgo_req_dsgorg_unknown_tagged_fields x))])"

definition DescribeShareGroupOffsetsRequest_DescribeShareGroupOffsetsRequestGroup_encoded_len :: "DescribeShareGroupOffsetsRequest_DescribeShareGroupOffsetsRequestGroup \<Rightarrow> i16 \<Rightarrow> nat" where
  "DescribeShareGroupOffsetsRequest_DescribeShareGroupOffsetsRequestGroup_encoded_len x version =
     (let flex = 0 \<le>s version in
      len_when (0 \<le>s version) (str_len flex (dsgo_req_dsgorg_group_id x))
      + len_when (0 \<le>s version) (nullable_array_size flex (\<lambda>it. DescribeShareGroupOffsetsRequest_DescribeShareGroupOffsetsRequestTopic_encoded_len it version) (dsgo_req_dsgorg_topics x))
      + len_when flex (tagged_size [] (dsgo_req_dsgorg_unknown_tagged_fields x)))"

definition DescribeShareGroupOffsetsRequest_DescribeShareGroupOffsetsRequestGroup_decode :: "i16 \<Rightarrow> DescribeShareGroupOffsetsRequest_DescribeShareGroupOffsetsRequestGroup decoder" where
  "DescribeShareGroupOffsetsRequest_DescribeShareGroupOffsetsRequestGroup_decode version =
     (let flex = 0 \<le>s version in
      read_then (get_into (0 \<le>s version) (get_str flex) (\<lambda>v out. out\<lparr>dsgo_req_dsgorg_group_id := v\<rparr>) DescribeShareGroupOffsetsRequest_DescribeShareGroupOffsetsRequestGroup_default) (\<lambda>out.
        read_then (get_into (0 \<le>s version) (get_nullable_array flex (DescribeShareGroupOffsetsRequest_DescribeShareGroupOffsetsRequestTopic_decode version)) (\<lambda>v out. out\<lparr>dsgo_req_dsgorg_topics := v\<rparr>) out) (\<lambda>out.
        get_trailer flex [] (\<lambda>u out. out\<lparr>dsgo_req_dsgorg_unknown_tagged_fields := u\<rparr>) out)))"

definition DescribeShareGroupOffsetsRequest_DescribeShareGroupOffsetsRequestGroup_fields_wf :: "i16 \<Rightarrow> DescribeShareGroupOffsetsRequest_DescribeShareGroupOffsetsRequestGroup \<Rightarrow> bool" where
  "DescribeShareGroupOffsetsRequest_DescribeShareGroupOffsetsRequestGroup_fields_wf version x \<longleftrightarrow>
     (let flex = 0 \<le>s version in
      str_wf flex (dsgo_req_dsgorg_group_id x)
      \<and> pred_option (array_ok flex (DescribeShareGroupOffsetsRequest_DescribeShareGroupOffsetsRequestTopic_wf version)) (dsgo_req_dsgorg_topics x))"

definition DescribeShareGroupOffsetsRequest_DescribeShareGroupOffsetsRequestGroup_wf :: "i16 \<Rightarrow> DescribeShareGroupOffsetsRequest_DescribeShareGroupOffsetsRequestGroup \<Rightarrow> bool" where
  "DescribeShareGroupOffsetsRequest_DescribeShareGroupOffsetsRequestGroup_wf version x \<longleftrightarrow>
     DescribeShareGroupOffsetsRequest_DescribeShareGroupOffsetsRequestGroup_fields_wf version x \<and> trailer_ok [] [] (dsgo_req_dsgorg_unknown_tagged_fields x)"

lemmas describe_share_group_offsets_request_describe_share_group_offsets_request_group_fields =
    Let_def field_ok_def DescribeShareGroupOffsetsRequest_DescribeShareGroupOffsetsRequestGroup_fields_wf_def

lemma describe_share_group_offsets_request_describe_share_group_offsets_request_group_steps:
  assumes v: "0 \<le>s version" and flex: "flex = (0 \<le>s version)"
  shows "keeps (DescribeShareGroupOffsetsRequest_DescribeShareGroupOffsetsRequestGroup_fields_wf version) (get_into (0 \<le>s version) (get_str flex) (\<lambda>v out. out\<lparr>dsgo_req_dsgorg_group_id := v\<rparr>))"
    and "keeps (DescribeShareGroupOffsetsRequest_DescribeShareGroupOffsetsRequestGroup_fields_wf version) (get_into (0 \<le>s version) (get_nullable_array flex (DescribeShareGroupOffsetsRequest_DescribeShareGroupOffsetsRequestTopic_decode version)) (\<lambda>v out. out\<lparr>dsgo_req_dsgorg_topics := v\<rparr>))"
  unfolding flex 
  by (rule keeps_into; (rule yields_rules)?; simp add: v describe_share_group_offsets_request_describe_share_group_offsets_request_group_fields)+

lemma describe_share_group_offsets_request_describe_share_group_offsets_request_group_unknown:
  "DescribeShareGroupOffsetsRequest_DescribeShareGroupOffsetsRequestGroup_fields_wf version (s\<lparr>dsgo_req_dsgorg_unknown_tagged_fields := u\<rparr>) = DescribeShareGroupOffsetsRequest_DescribeShareGroupOffsetsRequestGroup_fields_wf version s"
  by (simp_all add: DescribeShareGroupOffsetsRequest_DescribeShareGroupOffsetsRequestGroup_fields_wf_def)

lemma describe_share_group_offsets_request_describe_share_group_offsets_request_group_yields:
  assumes v: "0 \<le>s version"
  shows "yields 1 (DescribeShareGroupOffsetsRequest_DescribeShareGroupOffsetsRequestGroup_decode version) (DescribeShareGroupOffsetsRequest_DescribeShareGroupOffsetsRequestGroup_wf version)"
proof -
  have d: "DescribeShareGroupOffsetsRequest_DescribeShareGroupOffsetsRequestGroup_fields_wf version DescribeShareGroupOffsetsRequest_DescribeShareGroupOffsetsRequestGroup_default"
    by (simp add: DescribeShareGroupOffsetsRequest_DescribeShareGroupOffsetsRequestGroup_default_def v describe_share_group_offsets_request_describe_share_group_offsets_request_group_fields)
  show ?thesis
    unfolding DescribeShareGroupOffsetsRequest_DescribeShareGroupOffsetsRequestGroup_decode_def Let_def
    by ((rule describe_share_group_offsets_request_describe_share_group_offsets_request_group_steps[OF v refl, THEN yields_step], (rule d | assumption))+, rule yields_trailer[OF _ arms_keep_Nil[of "DescribeShareGroupOffsetsRequest_DescribeShareGroupOffsetsRequestGroup_fields_wf version" "\<lambda>_. 0"]])
      (simp_all add: v d describe_share_group_offsets_request_describe_share_group_offsets_request_group_unknown DescribeShareGroupOffsetsRequest_DescribeShareGroupOffsetsRequestGroup_wf_def trailer_ok_def )
qed

lemma describe_share_group_offsets_request_describe_share_group_offsets_request_group_extends [extends_rules]: "extends_input (DescribeShareGroupOffsetsRequest_DescribeShareGroupOffsetsRequestGroup_decode version)"
  unfolding DescribeShareGroupOffsetsRequest_DescribeShareGroupOffsetsRequestGroup_decode_def Let_def by (intro extends_rules)

lemma describe_share_group_offsets_request_describe_share_group_offsets_request_group_codec:
  assumes v: "0 \<le>s version"
  shows "message_codec DescribeShareGroupOffsetsRequest_DescribeShareGroupOffsetsRequestGroup_encode DescribeShareGroupOffsetsRequest_DescribeShareGroupOffsetsRequestGroup_decode DescribeShareGroupOffsetsRequest_DescribeShareGroupOffsetsRequestGroup_encoded_len (DescribeShareGroupOffsetsRequest_DescribeShareGroupOffsetsRequestGroup_wf version) version"
proof
  fix x
  assume w: "DescribeShareGroupOffsetsRequest_DescribeShareGroupOffsetsRequestGroup_wf version x"
  show "carries (DescribeShareGroupOffsetsRequest_DescribeShareGroupOffsetsRequestGroup_encode x version) (DescribeShareGroupOffsetsRequest_DescribeShareGroupOffsetsRequestGroup_decode version) (DescribeShareGroupOffsetsRequest_DescribeShareGroupOffsetsRequestGroup_encoded_len x version) x"
    unfolding DescribeShareGroupOffsetsRequest_DescribeShareGroupOffsetsRequestGroup_encode_def DescribeShareGroupOffsetsRequest_DescribeShareGroupOffsetsRequestGroup_encoded_len_def DescribeShareGroupOffsetsRequest_DescribeShareGroupOffsetsRequestGroup_decode_def Let_def
    by (use w[unfolded DescribeShareGroupOffsetsRequest_DescribeShareGroupOffsetsRequestGroup_wf_def DescribeShareGroupOffsetsRequest_DescribeShareGroupOffsetsRequestGroup_fields_wf_def Let_def] in \<open>elim conjE\<close>, rule carries_cong_len)
      ((rule carries_rules | (erule absent_guarded, assumption) | erule absent_plain
        | simp add: v field_ok_def DescribeShareGroupOffsetsRequest_DescribeShareGroupOffsetsRequestGroup_default_def )+)
next
  show "yields 1 (DescribeShareGroupOffsetsRequest_DescribeShareGroupOffsetsRequestGroup_decode version) (DescribeShareGroupOffsetsRequest_DescribeShareGroupOffsetsRequestGroup_wf version)"
    by (rule describe_share_group_offsets_request_describe_share_group_offsets_request_group_yields[OF v])
qed (rule describe_share_group_offsets_request_describe_share_group_offsets_request_group_extends)

lemma describe_share_group_offsets_request_describe_share_group_offsets_request_group_default_wf [simp]: "0 \<le>s version \<Longrightarrow> DescribeShareGroupOffsetsRequest_DescribeShareGroupOffsetsRequestGroup_wf version DescribeShareGroupOffsetsRequest_DescribeShareGroupOffsetsRequestGroup_default"
  by (simp add: DescribeShareGroupOffsetsRequest_DescribeShareGroupOffsetsRequestGroup_wf_def DescribeShareGroupOffsetsRequest_DescribeShareGroupOffsetsRequestGroup_default_def trailer_ok_def describe_share_group_offsets_request_describe_share_group_offsets_request_group_fields)

lemmas [carries_rules] = message_codec.message_carries[OF describe_share_group_offsets_request_describe_share_group_offsets_request_group_codec]
lemmas [yields_rules] = message_codec.message_yields[OF describe_share_group_offsets_request_describe_share_group_offsets_request_group_codec]

lemmas [carries_rules] = protocol_codec.put_array_carries[OF message_codec.message_protocol[OF describe_share_group_offsets_request_describe_share_group_offsets_request_group_codec]]
lemmas [yields_rules] = protocol_codec.get_array_yields[OF message_codec.message_protocol[OF describe_share_group_offsets_request_describe_share_group_offsets_request_group_codec]]
lemmas [carries_rules] = protocol_codec.put_nullable_array_carries[OF message_codec.message_protocol[OF describe_share_group_offsets_request_describe_share_group_offsets_request_group_codec]]
lemmas [yields_rules] = protocol_codec.get_nullable_array_yields[OF message_codec.message_protocol[OF describe_share_group_offsets_request_describe_share_group_offsets_request_group_codec]]

record DescribeShareGroupOffsetsRequest =
  deshgrof_req_groups :: "DescribeShareGroupOffsetsRequest_DescribeShareGroupOffsetsRequestGroup list"
  deshgrof_req_unknown_tagged_fields :: "UnknownTaggedField list"

definition DescribeShareGroupOffsetsRequest_default :: DescribeShareGroupOffsetsRequest where
  "DescribeShareGroupOffsetsRequest_default =
     \<lparr>deshgrof_req_groups = [], deshgrof_req_unknown_tagged_fields = []\<rparr>"

definition DescribeShareGroupOffsetsRequest_MIN_VERSION :: i16 where
  "DescribeShareGroupOffsetsRequest_MIN_VERSION = 0"

definition DescribeShareGroupOffsetsRequest_MAX_VERSION :: i16 where
  "DescribeShareGroupOffsetsRequest_MAX_VERSION = 1"

definition DescribeShareGroupOffsetsRequest_FLEXIBLE_MIN :: i16 where
  "DescribeShareGroupOffsetsRequest_FLEXIBLE_MIN = 0"

definition DescribeShareGroupOffsetsRequest_API_KEY :: i16 where
  "DescribeShareGroupOffsetsRequest_API_KEY = 90"

definition DescribeShareGroupOffsetsRequest_is_flexible :: "i16 \<Rightarrow> bool" where
  "DescribeShareGroupOffsetsRequest_is_flexible version \<longleftrightarrow> DescribeShareGroupOffsetsRequest_FLEXIBLE_MIN \<le>s version"

definition DescribeShareGroupOffsetsRequest_encode :: "DescribeShareGroupOffsetsRequest \<Rightarrow> i16 \<Rightarrow> encoder" where
  "DescribeShareGroupOffsetsRequest_encode x version =
     (let flex = DescribeShareGroupOffsetsRequest_is_flexible version in
      write_all
        [write_check (check_version DescribeShareGroupOffsetsRequest_API_KEY version DescribeShareGroupOffsetsRequest_MIN_VERSION DescribeShareGroupOffsetsRequest_MAX_VERSION),
         put_when (0 \<le>s version) (put_array flex (\<lambda>it. DescribeShareGroupOffsetsRequest_DescribeShareGroupOffsetsRequestGroup_encode it version) (deshgrof_req_groups x)),
         put_when flex (put_tagged [] (deshgrof_req_unknown_tagged_fields x))])"

definition DescribeShareGroupOffsetsRequest_encoded_len :: "DescribeShareGroupOffsetsRequest \<Rightarrow> i16 \<Rightarrow> nat" where
  "DescribeShareGroupOffsetsRequest_encoded_len x version =
     (let flex = DescribeShareGroupOffsetsRequest_is_flexible version in
      len_when (0 \<le>s version) (array_size flex (\<lambda>it. DescribeShareGroupOffsetsRequest_DescribeShareGroupOffsetsRequestGroup_encoded_len it version) (deshgrof_req_groups x))
      + len_when flex (tagged_size [] (deshgrof_req_unknown_tagged_fields x)))"

definition DescribeShareGroupOffsetsRequest_decode :: "i16 \<Rightarrow> DescribeShareGroupOffsetsRequest decoder" where
  "DescribeShareGroupOffsetsRequest_decode version =
     (let flex = DescribeShareGroupOffsetsRequest_is_flexible version in
      checked (check_version DescribeShareGroupOffsetsRequest_API_KEY version DescribeShareGroupOffsetsRequest_MIN_VERSION DescribeShareGroupOffsetsRequest_MAX_VERSION) (
        read_then (get_into (0 \<le>s version) (get_array flex (DescribeShareGroupOffsetsRequest_DescribeShareGroupOffsetsRequestGroup_decode version)) (\<lambda>v out. out\<lparr>deshgrof_req_groups := v\<rparr>) DescribeShareGroupOffsetsRequest_default) (\<lambda>out.
        get_trailer flex [] (\<lambda>u out. out\<lparr>deshgrof_req_unknown_tagged_fields := u\<rparr>) out)))"

definition DescribeShareGroupOffsetsRequest_fields_wf :: "i16 \<Rightarrow> DescribeShareGroupOffsetsRequest \<Rightarrow> bool" where
  "DescribeShareGroupOffsetsRequest_fields_wf version x \<longleftrightarrow>
     (let flex = DescribeShareGroupOffsetsRequest_is_flexible version in
      array_ok flex (DescribeShareGroupOffsetsRequest_DescribeShareGroupOffsetsRequestGroup_wf version) (deshgrof_req_groups x))"

definition DescribeShareGroupOffsetsRequest_wf :: "i16 \<Rightarrow> DescribeShareGroupOffsetsRequest \<Rightarrow> bool" where
  "DescribeShareGroupOffsetsRequest_wf version x \<longleftrightarrow>
     version_in DescribeShareGroupOffsetsRequest_MIN_VERSION DescribeShareGroupOffsetsRequest_MAX_VERSION version \<and> DescribeShareGroupOffsetsRequest_fields_wf version x \<and> trailer_ok [] [] (deshgrof_req_unknown_tagged_fields x)"

lemmas describe_share_group_offsets_request_versions =
    DescribeShareGroupOffsetsRequest_is_flexible_def DescribeShareGroupOffsetsRequest_FLEXIBLE_MIN_def
    DescribeShareGroupOffsetsRequest_MIN_VERSION_def DescribeShareGroupOffsetsRequest_MAX_VERSION_def
    version_in_def

lemmas describe_share_group_offsets_request_fields =
    Let_def field_ok_def DescribeShareGroupOffsetsRequest_fields_wf_def
    DescribeShareGroupOffsetsRequest_is_flexible_def DescribeShareGroupOffsetsRequest_FLEXIBLE_MIN_def

lemma describe_share_group_offsets_request_steps:
  assumes v: "0 \<le>s version" and flex: "flex = (DescribeShareGroupOffsetsRequest_is_flexible version)"
  shows "keeps (DescribeShareGroupOffsetsRequest_fields_wf version) (get_into (0 \<le>s version) (get_array flex (DescribeShareGroupOffsetsRequest_DescribeShareGroupOffsetsRequestGroup_decode version)) (\<lambda>v out. out\<lparr>deshgrof_req_groups := v\<rparr>))"
  unfolding flex 
  by (rule keeps_into; (rule yields_rules)?; simp add: v describe_share_group_offsets_request_fields)+

lemma describe_share_group_offsets_request_unknown:
  "DescribeShareGroupOffsetsRequest_fields_wf version (s\<lparr>deshgrof_req_unknown_tagged_fields := u\<rparr>) = DescribeShareGroupOffsetsRequest_fields_wf version s"
  by (simp_all add: DescribeShareGroupOffsetsRequest_fields_wf_def)

lemma describe_share_group_offsets_request_yields:
  assumes r: "version_in DescribeShareGroupOffsetsRequest_MIN_VERSION DescribeShareGroupOffsetsRequest_MAX_VERSION version"
  shows "yields 1 (DescribeShareGroupOffsetsRequest_decode version) (DescribeShareGroupOffsetsRequest_wf version)"
proof -
  have v: "0 \<le>s version"
    using r by (simp add: describe_share_group_offsets_request_versions)
  have d: "DescribeShareGroupOffsetsRequest_fields_wf version DescribeShareGroupOffsetsRequest_default"
    by (simp add: DescribeShareGroupOffsetsRequest_default_def v describe_share_group_offsets_request_fields)
  show ?thesis
    unfolding DescribeShareGroupOffsetsRequest_decode_def Let_def
    by (rule yields_checked, (rule describe_share_group_offsets_request_steps[OF v refl, THEN yields_step], (rule d | assumption))+, rule yields_trailer[OF _ arms_keep_Nil[of "DescribeShareGroupOffsetsRequest_fields_wf version" "\<lambda>_. 0"]])
      (simp_all add: v d describe_share_group_offsets_request_unknown DescribeShareGroupOffsetsRequest_wf_def trailer_ok_def r DescribeShareGroupOffsetsRequest_is_flexible_def DescribeShareGroupOffsetsRequest_FLEXIBLE_MIN_def)
qed

interpretation describe_share_group_offsets_request: message_codec
  DescribeShareGroupOffsetsRequest_encode DescribeShareGroupOffsetsRequest_decode DescribeShareGroupOffsetsRequest_encoded_len "DescribeShareGroupOffsetsRequest_wf version" version
  for version
proof
  fix x
  assume w: "DescribeShareGroupOffsetsRequest_wf version x"
  then have v: "0 \<le>s version"
    by (simp add: DescribeShareGroupOffsetsRequest_wf_def describe_share_group_offsets_request_versions)
  show "carries (DescribeShareGroupOffsetsRequest_encode x version) (DescribeShareGroupOffsetsRequest_decode version) (DescribeShareGroupOffsetsRequest_encoded_len x version) x"
    unfolding DescribeShareGroupOffsetsRequest_encode_def DescribeShareGroupOffsetsRequest_encoded_len_def DescribeShareGroupOffsetsRequest_decode_def Let_def
    by (use w[unfolded DescribeShareGroupOffsetsRequest_wf_def DescribeShareGroupOffsetsRequest_fields_wf_def Let_def] in \<open>elim conjE\<close>, rule carries_cong_len)
      ((rule carries_rules check_version_in[THEN iffD2] | (erule absent_guarded, assumption) | erule absent_plain
        | simp add: v field_ok_def DescribeShareGroupOffsetsRequest_default_def describe_share_group_offsets_request_versions)+)
next
  show "yields 1 (DescribeShareGroupOffsetsRequest_decode version) (DescribeShareGroupOffsetsRequest_wf version)"
    by (rule case_split[OF describe_share_group_offsets_request_yields]) (auto simp: DescribeShareGroupOffsetsRequest_decode_def Let_def yields_refused yields_unsupported)
  show "extends_input (DescribeShareGroupOffsetsRequest_decode version)"
    unfolding DescribeShareGroupOffsetsRequest_decode_def Let_def by (intro extends_rules)
qed

section \<open>DescribeShareGroupOffsetsResponse\<close>

record DescribeShareGroupOffsetsResponse_DescribeShareGroupOffsetsResponsePartition =
  dsgo_resp_dsgorp_partition_index :: i32
  dsgo_resp_dsgorp_start_offset :: i64
  dsgo_resp_dsgorp_leader_epoch :: i32
  dsgo_resp_dsgorp_lag :: i64
  dsgo_resp_dsgorp_error_code :: i16
  dsgo_resp_dsgorp_error_message :: "bytes option"
  dsgo_resp_dsgorp_unknown_tagged_fields :: "UnknownTaggedField list"

definition DescribeShareGroupOffsetsResponse_DescribeShareGroupOffsetsResponsePartition_default :: DescribeShareGroupOffsetsResponse_DescribeShareGroupOffsetsResponsePartition where
  "DescribeShareGroupOffsetsResponse_DescribeShareGroupOffsetsResponsePartition_default =
     \<lparr>dsgo_resp_dsgorp_partition_index = 0, dsgo_resp_dsgorp_start_offset = 0, dsgo_resp_dsgorp_leader_epoch = 0, dsgo_resp_dsgorp_lag = - 1, dsgo_resp_dsgorp_error_code = 0, dsgo_resp_dsgorp_error_message = None, dsgo_resp_dsgorp_unknown_tagged_fields = []\<rparr>"

definition DescribeShareGroupOffsetsResponse_DescribeShareGroupOffsetsResponsePartition_encode :: "DescribeShareGroupOffsetsResponse_DescribeShareGroupOffsetsResponsePartition \<Rightarrow> i16 \<Rightarrow> encoder" where
  "DescribeShareGroupOffsetsResponse_DescribeShareGroupOffsetsResponsePartition_encode x version =
     (let flex = 0 \<le>s version in
      write_all
        [put_when (0 \<le>s version) (put_i32 (dsgo_resp_dsgorp_partition_index x)),
         put_when (0 \<le>s version) (put_i64 (dsgo_resp_dsgorp_start_offset x)),
         put_when (0 \<le>s version) (put_i32 (dsgo_resp_dsgorp_leader_epoch x)),
         put_when (1 \<le>s version) (put_i64 (dsgo_resp_dsgorp_lag x)),
         put_when (0 \<le>s version) (put_i16 (dsgo_resp_dsgorp_error_code x)),
         put_when (0 \<le>s version) (put_nullable_str flex (dsgo_resp_dsgorp_error_message x)),
         put_when flex (put_tagged [] (dsgo_resp_dsgorp_unknown_tagged_fields x))])"

definition DescribeShareGroupOffsetsResponse_DescribeShareGroupOffsetsResponsePartition_encoded_len :: "DescribeShareGroupOffsetsResponse_DescribeShareGroupOffsetsResponsePartition \<Rightarrow> i16 \<Rightarrow> nat" where
  "DescribeShareGroupOffsetsResponse_DescribeShareGroupOffsetsResponsePartition_encoded_len x version =
     (let flex = 0 \<le>s version in
      len_when (0 \<le>s version) 4
      + len_when (0 \<le>s version) 8
      + len_when (0 \<le>s version) 4
      + len_when (1 \<le>s version) 8
      + len_when (0 \<le>s version) 2
      + len_when (0 \<le>s version) (nullable_str_len flex (dsgo_resp_dsgorp_error_message x))
      + len_when flex (tagged_size [] (dsgo_resp_dsgorp_unknown_tagged_fields x)))"

definition DescribeShareGroupOffsetsResponse_DescribeShareGroupOffsetsResponsePartition_decode :: "i16 \<Rightarrow> DescribeShareGroupOffsetsResponse_DescribeShareGroupOffsetsResponsePartition decoder" where
  "DescribeShareGroupOffsetsResponse_DescribeShareGroupOffsetsResponsePartition_decode version =
     (let flex = 0 \<le>s version in
      read_then (get_into (0 \<le>s version) get_i32 (\<lambda>v out. out\<lparr>dsgo_resp_dsgorp_partition_index := v\<rparr>) DescribeShareGroupOffsetsResponse_DescribeShareGroupOffsetsResponsePartition_default) (\<lambda>out.
        read_then (get_into (0 \<le>s version) get_i64 (\<lambda>v out. out\<lparr>dsgo_resp_dsgorp_start_offset := v\<rparr>) out) (\<lambda>out.
        read_then (get_into (0 \<le>s version) get_i32 (\<lambda>v out. out\<lparr>dsgo_resp_dsgorp_leader_epoch := v\<rparr>) out) (\<lambda>out.
        read_then (get_into (1 \<le>s version) get_i64 (\<lambda>v out. out\<lparr>dsgo_resp_dsgorp_lag := v\<rparr>) out) (\<lambda>out.
        read_then (get_into (0 \<le>s version) get_i16 (\<lambda>v out. out\<lparr>dsgo_resp_dsgorp_error_code := v\<rparr>) out) (\<lambda>out.
        read_then (get_into (0 \<le>s version) (get_nullable_str flex) (\<lambda>v out. out\<lparr>dsgo_resp_dsgorp_error_message := v\<rparr>) out) (\<lambda>out.
        get_trailer flex [] (\<lambda>u out. out\<lparr>dsgo_resp_dsgorp_unknown_tagged_fields := u\<rparr>) out)))))))"

definition DescribeShareGroupOffsetsResponse_DescribeShareGroupOffsetsResponsePartition_fields_wf :: "i16 \<Rightarrow> DescribeShareGroupOffsetsResponse_DescribeShareGroupOffsetsResponsePartition \<Rightarrow> bool" where
  "DescribeShareGroupOffsetsResponse_DescribeShareGroupOffsetsResponsePartition_fields_wf version x \<longleftrightarrow>
     (let flex = 0 \<le>s version in
      field_ok (1 \<le>s version) (- 1) (\<lambda>_. True) (dsgo_resp_dsgorp_lag x)
      \<and> nullable_str_wf flex (dsgo_resp_dsgorp_error_message x))"

definition DescribeShareGroupOffsetsResponse_DescribeShareGroupOffsetsResponsePartition_wf :: "i16 \<Rightarrow> DescribeShareGroupOffsetsResponse_DescribeShareGroupOffsetsResponsePartition \<Rightarrow> bool" where
  "DescribeShareGroupOffsetsResponse_DescribeShareGroupOffsetsResponsePartition_wf version x \<longleftrightarrow>
     DescribeShareGroupOffsetsResponse_DescribeShareGroupOffsetsResponsePartition_fields_wf version x \<and> trailer_ok [] [] (dsgo_resp_dsgorp_unknown_tagged_fields x)"

lemmas describe_share_group_offsets_response_describe_share_group_offsets_response_partition_fields =
    Let_def field_ok_def
    DescribeShareGroupOffsetsResponse_DescribeShareGroupOffsetsResponsePartition_fields_wf_def

lemma describe_share_group_offsets_response_describe_share_group_offsets_response_partition_steps:
  assumes v: "0 \<le>s version" and flex: "flex = (0 \<le>s version)"
  shows "keeps (DescribeShareGroupOffsetsResponse_DescribeShareGroupOffsetsResponsePartition_fields_wf version) (get_into (0 \<le>s version) get_i32 (\<lambda>v out. out\<lparr>dsgo_resp_dsgorp_partition_index := v\<rparr>))"
    and "keeps (DescribeShareGroupOffsetsResponse_DescribeShareGroupOffsetsResponsePartition_fields_wf version) (get_into (0 \<le>s version) get_i64 (\<lambda>v out. out\<lparr>dsgo_resp_dsgorp_start_offset := v\<rparr>))"
    and "keeps (DescribeShareGroupOffsetsResponse_DescribeShareGroupOffsetsResponsePartition_fields_wf version) (get_into (0 \<le>s version) get_i32 (\<lambda>v out. out\<lparr>dsgo_resp_dsgorp_leader_epoch := v\<rparr>))"
    and "keeps (DescribeShareGroupOffsetsResponse_DescribeShareGroupOffsetsResponsePartition_fields_wf version) (get_into (1 \<le>s version) get_i64 (\<lambda>v out. out\<lparr>dsgo_resp_dsgorp_lag := v\<rparr>))"
    and "keeps (DescribeShareGroupOffsetsResponse_DescribeShareGroupOffsetsResponsePartition_fields_wf version) (get_into (0 \<le>s version) get_i16 (\<lambda>v out. out\<lparr>dsgo_resp_dsgorp_error_code := v\<rparr>))"
    and "keeps (DescribeShareGroupOffsetsResponse_DescribeShareGroupOffsetsResponsePartition_fields_wf version) (get_into (0 \<le>s version) (get_nullable_str flex) (\<lambda>v out. out\<lparr>dsgo_resp_dsgorp_error_message := v\<rparr>))"
  unfolding flex 
  by (rule keeps_into; (rule yields_rules)?; simp add: v describe_share_group_offsets_response_describe_share_group_offsets_response_partition_fields)+

lemma describe_share_group_offsets_response_describe_share_group_offsets_response_partition_unknown:
  "DescribeShareGroupOffsetsResponse_DescribeShareGroupOffsetsResponsePartition_fields_wf version (s\<lparr>dsgo_resp_dsgorp_unknown_tagged_fields := u\<rparr>) = DescribeShareGroupOffsetsResponse_DescribeShareGroupOffsetsResponsePartition_fields_wf version s"
  by (simp_all add: DescribeShareGroupOffsetsResponse_DescribeShareGroupOffsetsResponsePartition_fields_wf_def)

lemma describe_share_group_offsets_response_describe_share_group_offsets_response_partition_yields:
  assumes v: "0 \<le>s version"
  shows "yields 1 (DescribeShareGroupOffsetsResponse_DescribeShareGroupOffsetsResponsePartition_decode version) (DescribeShareGroupOffsetsResponse_DescribeShareGroupOffsetsResponsePartition_wf version)"
proof -
  have d: "DescribeShareGroupOffsetsResponse_DescribeShareGroupOffsetsResponsePartition_fields_wf version DescribeShareGroupOffsetsResponse_DescribeShareGroupOffsetsResponsePartition_default"
    by (simp add: DescribeShareGroupOffsetsResponse_DescribeShareGroupOffsetsResponsePartition_default_def v describe_share_group_offsets_response_describe_share_group_offsets_response_partition_fields)
  show ?thesis
    unfolding DescribeShareGroupOffsetsResponse_DescribeShareGroupOffsetsResponsePartition_decode_def Let_def
    by ((rule describe_share_group_offsets_response_describe_share_group_offsets_response_partition_steps[OF v refl, THEN yields_step], (rule d | assumption))+, rule yields_trailer[OF _ arms_keep_Nil[of "DescribeShareGroupOffsetsResponse_DescribeShareGroupOffsetsResponsePartition_fields_wf version" "\<lambda>_. 0"]])
      (simp_all add: v d describe_share_group_offsets_response_describe_share_group_offsets_response_partition_unknown DescribeShareGroupOffsetsResponse_DescribeShareGroupOffsetsResponsePartition_wf_def trailer_ok_def )
qed

lemma describe_share_group_offsets_response_describe_share_group_offsets_response_partition_extends [extends_rules]: "extends_input (DescribeShareGroupOffsetsResponse_DescribeShareGroupOffsetsResponsePartition_decode version)"
  unfolding DescribeShareGroupOffsetsResponse_DescribeShareGroupOffsetsResponsePartition_decode_def Let_def by (intro extends_rules)

lemma describe_share_group_offsets_response_describe_share_group_offsets_response_partition_codec:
  assumes v: "0 \<le>s version"
  shows "message_codec DescribeShareGroupOffsetsResponse_DescribeShareGroupOffsetsResponsePartition_encode DescribeShareGroupOffsetsResponse_DescribeShareGroupOffsetsResponsePartition_decode DescribeShareGroupOffsetsResponse_DescribeShareGroupOffsetsResponsePartition_encoded_len (DescribeShareGroupOffsetsResponse_DescribeShareGroupOffsetsResponsePartition_wf version) version"
proof
  fix x
  assume w: "DescribeShareGroupOffsetsResponse_DescribeShareGroupOffsetsResponsePartition_wf version x"
  show "carries (DescribeShareGroupOffsetsResponse_DescribeShareGroupOffsetsResponsePartition_encode x version) (DescribeShareGroupOffsetsResponse_DescribeShareGroupOffsetsResponsePartition_decode version) (DescribeShareGroupOffsetsResponse_DescribeShareGroupOffsetsResponsePartition_encoded_len x version) x"
    unfolding DescribeShareGroupOffsetsResponse_DescribeShareGroupOffsetsResponsePartition_encode_def DescribeShareGroupOffsetsResponse_DescribeShareGroupOffsetsResponsePartition_encoded_len_def DescribeShareGroupOffsetsResponse_DescribeShareGroupOffsetsResponsePartition_decode_def Let_def
    by (use w[unfolded DescribeShareGroupOffsetsResponse_DescribeShareGroupOffsetsResponsePartition_wf_def DescribeShareGroupOffsetsResponse_DescribeShareGroupOffsetsResponsePartition_fields_wf_def Let_def] in \<open>elim conjE\<close>, rule carries_cong_len)
      ((rule carries_rules | (erule absent_guarded, assumption) | erule absent_plain
        | simp add: v field_ok_def DescribeShareGroupOffsetsResponse_DescribeShareGroupOffsetsResponsePartition_default_def )+)
next
  show "yields 1 (DescribeShareGroupOffsetsResponse_DescribeShareGroupOffsetsResponsePartition_decode version) (DescribeShareGroupOffsetsResponse_DescribeShareGroupOffsetsResponsePartition_wf version)"
    by (rule describe_share_group_offsets_response_describe_share_group_offsets_response_partition_yields[OF v])
qed (rule describe_share_group_offsets_response_describe_share_group_offsets_response_partition_extends)

lemma describe_share_group_offsets_response_describe_share_group_offsets_response_partition_default_wf [simp]: "0 \<le>s version \<Longrightarrow> DescribeShareGroupOffsetsResponse_DescribeShareGroupOffsetsResponsePartition_wf version DescribeShareGroupOffsetsResponse_DescribeShareGroupOffsetsResponsePartition_default"
  by (simp add: DescribeShareGroupOffsetsResponse_DescribeShareGroupOffsetsResponsePartition_wf_def DescribeShareGroupOffsetsResponse_DescribeShareGroupOffsetsResponsePartition_default_def trailer_ok_def describe_share_group_offsets_response_describe_share_group_offsets_response_partition_fields)

lemmas [carries_rules] = message_codec.message_carries[OF describe_share_group_offsets_response_describe_share_group_offsets_response_partition_codec]
lemmas [yields_rules] = message_codec.message_yields[OF describe_share_group_offsets_response_describe_share_group_offsets_response_partition_codec]

lemmas [carries_rules] = protocol_codec.put_array_carries[OF message_codec.message_protocol[OF describe_share_group_offsets_response_describe_share_group_offsets_response_partition_codec]]
lemmas [yields_rules] = protocol_codec.get_array_yields[OF message_codec.message_protocol[OF describe_share_group_offsets_response_describe_share_group_offsets_response_partition_codec]]
lemmas [carries_rules] = protocol_codec.put_nullable_array_carries[OF message_codec.message_protocol[OF describe_share_group_offsets_response_describe_share_group_offsets_response_partition_codec]]
lemmas [yields_rules] = protocol_codec.get_nullable_array_yields[OF message_codec.message_protocol[OF describe_share_group_offsets_response_describe_share_group_offsets_response_partition_codec]]

record DescribeShareGroupOffsetsResponse_DescribeShareGroupOffsetsResponseTopic =
  deshgrof_resp_deshgrofreto_topic_name :: bytes
  deshgrof_resp_deshgrofreto_topic_id :: Uuid
  deshgrof_resp_deshgrofreto_partitions :: "DescribeShareGroupOffsetsResponse_DescribeShareGroupOffsetsResponsePartition list"
  deshgrof_resp_deshgrofreto_unknown_tagged_fields :: "UnknownTaggedField list"

definition DescribeShareGroupOffsetsResponse_DescribeShareGroupOffsetsResponseTopic_default :: DescribeShareGroupOffsetsResponse_DescribeShareGroupOffsetsResponseTopic where
  "DescribeShareGroupOffsetsResponse_DescribeShareGroupOffsetsResponseTopic_default =
     \<lparr>deshgrof_resp_deshgrofreto_topic_name = [], deshgrof_resp_deshgrofreto_topic_id = Uuid_ZERO, deshgrof_resp_deshgrofreto_partitions = [], deshgrof_resp_deshgrofreto_unknown_tagged_fields = []\<rparr>"

definition DescribeShareGroupOffsetsResponse_DescribeShareGroupOffsetsResponseTopic_encode :: "DescribeShareGroupOffsetsResponse_DescribeShareGroupOffsetsResponseTopic \<Rightarrow> i16 \<Rightarrow> encoder" where
  "DescribeShareGroupOffsetsResponse_DescribeShareGroupOffsetsResponseTopic_encode x version =
     (let flex = 0 \<le>s version in
      write_all
        [put_when (0 \<le>s version) (put_str flex (deshgrof_resp_deshgrofreto_topic_name x)),
         put_when (0 \<le>s version) (put_uuid (deshgrof_resp_deshgrofreto_topic_id x)),
         put_when (0 \<le>s version) (put_array flex (\<lambda>it. DescribeShareGroupOffsetsResponse_DescribeShareGroupOffsetsResponsePartition_encode it version) (deshgrof_resp_deshgrofreto_partitions x)),
         put_when flex (put_tagged [] (deshgrof_resp_deshgrofreto_unknown_tagged_fields x))])"

definition DescribeShareGroupOffsetsResponse_DescribeShareGroupOffsetsResponseTopic_encoded_len :: "DescribeShareGroupOffsetsResponse_DescribeShareGroupOffsetsResponseTopic \<Rightarrow> i16 \<Rightarrow> nat" where
  "DescribeShareGroupOffsetsResponse_DescribeShareGroupOffsetsResponseTopic_encoded_len x version =
     (let flex = 0 \<le>s version in
      len_when (0 \<le>s version) (str_len flex (deshgrof_resp_deshgrofreto_topic_name x))
      + len_when (0 \<le>s version) 16
      + len_when (0 \<le>s version) (array_size flex (\<lambda>it. DescribeShareGroupOffsetsResponse_DescribeShareGroupOffsetsResponsePartition_encoded_len it version) (deshgrof_resp_deshgrofreto_partitions x))
      + len_when flex (tagged_size [] (deshgrof_resp_deshgrofreto_unknown_tagged_fields x)))"

definition DescribeShareGroupOffsetsResponse_DescribeShareGroupOffsetsResponseTopic_decode :: "i16 \<Rightarrow> DescribeShareGroupOffsetsResponse_DescribeShareGroupOffsetsResponseTopic decoder" where
  "DescribeShareGroupOffsetsResponse_DescribeShareGroupOffsetsResponseTopic_decode version =
     (let flex = 0 \<le>s version in
      read_then (get_into (0 \<le>s version) (get_str flex) (\<lambda>v out. out\<lparr>deshgrof_resp_deshgrofreto_topic_name := v\<rparr>) DescribeShareGroupOffsetsResponse_DescribeShareGroupOffsetsResponseTopic_default) (\<lambda>out.
        read_then (get_into (0 \<le>s version) get_uuid (\<lambda>v out. out\<lparr>deshgrof_resp_deshgrofreto_topic_id := v\<rparr>) out) (\<lambda>out.
        read_then (get_into (0 \<le>s version) (get_array flex (DescribeShareGroupOffsetsResponse_DescribeShareGroupOffsetsResponsePartition_decode version)) (\<lambda>v out. out\<lparr>deshgrof_resp_deshgrofreto_partitions := v\<rparr>) out) (\<lambda>out.
        get_trailer flex [] (\<lambda>u out. out\<lparr>deshgrof_resp_deshgrofreto_unknown_tagged_fields := u\<rparr>) out))))"

definition DescribeShareGroupOffsetsResponse_DescribeShareGroupOffsetsResponseTopic_fields_wf :: "i16 \<Rightarrow> DescribeShareGroupOffsetsResponse_DescribeShareGroupOffsetsResponseTopic \<Rightarrow> bool" where
  "DescribeShareGroupOffsetsResponse_DescribeShareGroupOffsetsResponseTopic_fields_wf version x \<longleftrightarrow>
     (let flex = 0 \<le>s version in
      str_wf flex (deshgrof_resp_deshgrofreto_topic_name x)
      \<and> uuid_wf (deshgrof_resp_deshgrofreto_topic_id x)
      \<and> array_ok flex (DescribeShareGroupOffsetsResponse_DescribeShareGroupOffsetsResponsePartition_wf version) (deshgrof_resp_deshgrofreto_partitions x))"

definition DescribeShareGroupOffsetsResponse_DescribeShareGroupOffsetsResponseTopic_wf :: "i16 \<Rightarrow> DescribeShareGroupOffsetsResponse_DescribeShareGroupOffsetsResponseTopic \<Rightarrow> bool" where
  "DescribeShareGroupOffsetsResponse_DescribeShareGroupOffsetsResponseTopic_wf version x \<longleftrightarrow>
     DescribeShareGroupOffsetsResponse_DescribeShareGroupOffsetsResponseTopic_fields_wf version x \<and> trailer_ok [] [] (deshgrof_resp_deshgrofreto_unknown_tagged_fields x)"

lemmas describe_share_group_offsets_response_describe_share_group_offsets_response_topic_fields =
    Let_def field_ok_def DescribeShareGroupOffsetsResponse_DescribeShareGroupOffsetsResponseTopic_fields_wf_def

lemma describe_share_group_offsets_response_describe_share_group_offsets_response_topic_steps:
  assumes v: "0 \<le>s version" and flex: "flex = (0 \<le>s version)"
  shows "keeps (DescribeShareGroupOffsetsResponse_DescribeShareGroupOffsetsResponseTopic_fields_wf version) (get_into (0 \<le>s version) (get_str flex) (\<lambda>v out. out\<lparr>deshgrof_resp_deshgrofreto_topic_name := v\<rparr>))"
    and "keeps (DescribeShareGroupOffsetsResponse_DescribeShareGroupOffsetsResponseTopic_fields_wf version) (get_into (0 \<le>s version) get_uuid (\<lambda>v out. out\<lparr>deshgrof_resp_deshgrofreto_topic_id := v\<rparr>))"
    and "keeps (DescribeShareGroupOffsetsResponse_DescribeShareGroupOffsetsResponseTopic_fields_wf version) (get_into (0 \<le>s version) (get_array flex (DescribeShareGroupOffsetsResponse_DescribeShareGroupOffsetsResponsePartition_decode version)) (\<lambda>v out. out\<lparr>deshgrof_resp_deshgrofreto_partitions := v\<rparr>))"
  unfolding flex 
  by (rule keeps_into; (rule yields_rules)?; simp add: v describe_share_group_offsets_response_describe_share_group_offsets_response_topic_fields)+

lemma describe_share_group_offsets_response_describe_share_group_offsets_response_topic_unknown:
  "DescribeShareGroupOffsetsResponse_DescribeShareGroupOffsetsResponseTopic_fields_wf version (s\<lparr>deshgrof_resp_deshgrofreto_unknown_tagged_fields := u\<rparr>) = DescribeShareGroupOffsetsResponse_DescribeShareGroupOffsetsResponseTopic_fields_wf version s"
  by (simp_all add: DescribeShareGroupOffsetsResponse_DescribeShareGroupOffsetsResponseTopic_fields_wf_def)

lemma describe_share_group_offsets_response_describe_share_group_offsets_response_topic_yields:
  assumes v: "0 \<le>s version"
  shows "yields 1 (DescribeShareGroupOffsetsResponse_DescribeShareGroupOffsetsResponseTopic_decode version) (DescribeShareGroupOffsetsResponse_DescribeShareGroupOffsetsResponseTopic_wf version)"
proof -
  have d: "DescribeShareGroupOffsetsResponse_DescribeShareGroupOffsetsResponseTopic_fields_wf version DescribeShareGroupOffsetsResponse_DescribeShareGroupOffsetsResponseTopic_default"
    by (simp add: DescribeShareGroupOffsetsResponse_DescribeShareGroupOffsetsResponseTopic_default_def v describe_share_group_offsets_response_describe_share_group_offsets_response_topic_fields)
  show ?thesis
    unfolding DescribeShareGroupOffsetsResponse_DescribeShareGroupOffsetsResponseTopic_decode_def Let_def
    by ((rule describe_share_group_offsets_response_describe_share_group_offsets_response_topic_steps[OF v refl, THEN yields_step], (rule d | assumption))+, rule yields_trailer[OF _ arms_keep_Nil[of "DescribeShareGroupOffsetsResponse_DescribeShareGroupOffsetsResponseTopic_fields_wf version" "\<lambda>_. 0"]])
      (simp_all add: v d describe_share_group_offsets_response_describe_share_group_offsets_response_topic_unknown DescribeShareGroupOffsetsResponse_DescribeShareGroupOffsetsResponseTopic_wf_def trailer_ok_def )
qed

lemma describe_share_group_offsets_response_describe_share_group_offsets_response_topic_extends [extends_rules]: "extends_input (DescribeShareGroupOffsetsResponse_DescribeShareGroupOffsetsResponseTopic_decode version)"
  unfolding DescribeShareGroupOffsetsResponse_DescribeShareGroupOffsetsResponseTopic_decode_def Let_def by (intro extends_rules)

lemma describe_share_group_offsets_response_describe_share_group_offsets_response_topic_codec:
  assumes v: "0 \<le>s version"
  shows "message_codec DescribeShareGroupOffsetsResponse_DescribeShareGroupOffsetsResponseTopic_encode DescribeShareGroupOffsetsResponse_DescribeShareGroupOffsetsResponseTopic_decode DescribeShareGroupOffsetsResponse_DescribeShareGroupOffsetsResponseTopic_encoded_len (DescribeShareGroupOffsetsResponse_DescribeShareGroupOffsetsResponseTopic_wf version) version"
proof
  fix x
  assume w: "DescribeShareGroupOffsetsResponse_DescribeShareGroupOffsetsResponseTopic_wf version x"
  show "carries (DescribeShareGroupOffsetsResponse_DescribeShareGroupOffsetsResponseTopic_encode x version) (DescribeShareGroupOffsetsResponse_DescribeShareGroupOffsetsResponseTopic_decode version) (DescribeShareGroupOffsetsResponse_DescribeShareGroupOffsetsResponseTopic_encoded_len x version) x"
    unfolding DescribeShareGroupOffsetsResponse_DescribeShareGroupOffsetsResponseTopic_encode_def DescribeShareGroupOffsetsResponse_DescribeShareGroupOffsetsResponseTopic_encoded_len_def DescribeShareGroupOffsetsResponse_DescribeShareGroupOffsetsResponseTopic_decode_def Let_def
    by (use w[unfolded DescribeShareGroupOffsetsResponse_DescribeShareGroupOffsetsResponseTopic_wf_def DescribeShareGroupOffsetsResponse_DescribeShareGroupOffsetsResponseTopic_fields_wf_def Let_def] in \<open>elim conjE\<close>, rule carries_cong_len)
      ((rule carries_rules | (erule absent_guarded, assumption) | erule absent_plain
        | simp add: v field_ok_def DescribeShareGroupOffsetsResponse_DescribeShareGroupOffsetsResponseTopic_default_def )+)
next
  show "yields 1 (DescribeShareGroupOffsetsResponse_DescribeShareGroupOffsetsResponseTopic_decode version) (DescribeShareGroupOffsetsResponse_DescribeShareGroupOffsetsResponseTopic_wf version)"
    by (rule describe_share_group_offsets_response_describe_share_group_offsets_response_topic_yields[OF v])
qed (rule describe_share_group_offsets_response_describe_share_group_offsets_response_topic_extends)

lemma describe_share_group_offsets_response_describe_share_group_offsets_response_topic_default_wf [simp]: "0 \<le>s version \<Longrightarrow> DescribeShareGroupOffsetsResponse_DescribeShareGroupOffsetsResponseTopic_wf version DescribeShareGroupOffsetsResponse_DescribeShareGroupOffsetsResponseTopic_default"
  by (simp add: DescribeShareGroupOffsetsResponse_DescribeShareGroupOffsetsResponseTopic_wf_def DescribeShareGroupOffsetsResponse_DescribeShareGroupOffsetsResponseTopic_default_def trailer_ok_def describe_share_group_offsets_response_describe_share_group_offsets_response_topic_fields)

lemmas [carries_rules] = message_codec.message_carries[OF describe_share_group_offsets_response_describe_share_group_offsets_response_topic_codec]
lemmas [yields_rules] = message_codec.message_yields[OF describe_share_group_offsets_response_describe_share_group_offsets_response_topic_codec]

lemmas [carries_rules] = protocol_codec.put_array_carries[OF message_codec.message_protocol[OF describe_share_group_offsets_response_describe_share_group_offsets_response_topic_codec]]
lemmas [yields_rules] = protocol_codec.get_array_yields[OF message_codec.message_protocol[OF describe_share_group_offsets_response_describe_share_group_offsets_response_topic_codec]]
lemmas [carries_rules] = protocol_codec.put_nullable_array_carries[OF message_codec.message_protocol[OF describe_share_group_offsets_response_describe_share_group_offsets_response_topic_codec]]
lemmas [yields_rules] = protocol_codec.get_nullable_array_yields[OF message_codec.message_protocol[OF describe_share_group_offsets_response_describe_share_group_offsets_response_topic_codec]]

record DescribeShareGroupOffsetsResponse_DescribeShareGroupOffsetsResponseGroup =
  dsgo_resp_dsgorg_group_id :: bytes
  dsgo_resp_dsgorg_topics :: "DescribeShareGroupOffsetsResponse_DescribeShareGroupOffsetsResponseTopic list"
  dsgo_resp_dsgorg_error_code :: i16
  dsgo_resp_dsgorg_error_message :: "bytes option"
  dsgo_resp_dsgorg_unknown_tagged_fields :: "UnknownTaggedField list"

definition DescribeShareGroupOffsetsResponse_DescribeShareGroupOffsetsResponseGroup_default :: DescribeShareGroupOffsetsResponse_DescribeShareGroupOffsetsResponseGroup where
  "DescribeShareGroupOffsetsResponse_DescribeShareGroupOffsetsResponseGroup_default =
     \<lparr>dsgo_resp_dsgorg_group_id = [], dsgo_resp_dsgorg_topics = [], dsgo_resp_dsgorg_error_code = 0, dsgo_resp_dsgorg_error_message = None, dsgo_resp_dsgorg_unknown_tagged_fields = []\<rparr>"

definition DescribeShareGroupOffsetsResponse_DescribeShareGroupOffsetsResponseGroup_encode :: "DescribeShareGroupOffsetsResponse_DescribeShareGroupOffsetsResponseGroup \<Rightarrow> i16 \<Rightarrow> encoder" where
  "DescribeShareGroupOffsetsResponse_DescribeShareGroupOffsetsResponseGroup_encode x version =
     (let flex = 0 \<le>s version in
      write_all
        [put_when (0 \<le>s version) (put_str flex (dsgo_resp_dsgorg_group_id x)),
         put_when (0 \<le>s version) (put_array flex (\<lambda>it. DescribeShareGroupOffsetsResponse_DescribeShareGroupOffsetsResponseTopic_encode it version) (dsgo_resp_dsgorg_topics x)),
         put_when (0 \<le>s version) (put_i16 (dsgo_resp_dsgorg_error_code x)),
         put_when (0 \<le>s version) (put_nullable_str flex (dsgo_resp_dsgorg_error_message x)),
         put_when flex (put_tagged [] (dsgo_resp_dsgorg_unknown_tagged_fields x))])"

definition DescribeShareGroupOffsetsResponse_DescribeShareGroupOffsetsResponseGroup_encoded_len :: "DescribeShareGroupOffsetsResponse_DescribeShareGroupOffsetsResponseGroup \<Rightarrow> i16 \<Rightarrow> nat" where
  "DescribeShareGroupOffsetsResponse_DescribeShareGroupOffsetsResponseGroup_encoded_len x version =
     (let flex = 0 \<le>s version in
      len_when (0 \<le>s version) (str_len flex (dsgo_resp_dsgorg_group_id x))
      + len_when (0 \<le>s version) (array_size flex (\<lambda>it. DescribeShareGroupOffsetsResponse_DescribeShareGroupOffsetsResponseTopic_encoded_len it version) (dsgo_resp_dsgorg_topics x))
      + len_when (0 \<le>s version) 2
      + len_when (0 \<le>s version) (nullable_str_len flex (dsgo_resp_dsgorg_error_message x))
      + len_when flex (tagged_size [] (dsgo_resp_dsgorg_unknown_tagged_fields x)))"

definition DescribeShareGroupOffsetsResponse_DescribeShareGroupOffsetsResponseGroup_decode :: "i16 \<Rightarrow> DescribeShareGroupOffsetsResponse_DescribeShareGroupOffsetsResponseGroup decoder" where
  "DescribeShareGroupOffsetsResponse_DescribeShareGroupOffsetsResponseGroup_decode version =
     (let flex = 0 \<le>s version in
      read_then (get_into (0 \<le>s version) (get_str flex) (\<lambda>v out. out\<lparr>dsgo_resp_dsgorg_group_id := v\<rparr>) DescribeShareGroupOffsetsResponse_DescribeShareGroupOffsetsResponseGroup_default) (\<lambda>out.
        read_then (get_into (0 \<le>s version) (get_array flex (DescribeShareGroupOffsetsResponse_DescribeShareGroupOffsetsResponseTopic_decode version)) (\<lambda>v out. out\<lparr>dsgo_resp_dsgorg_topics := v\<rparr>) out) (\<lambda>out.
        read_then (get_into (0 \<le>s version) get_i16 (\<lambda>v out. out\<lparr>dsgo_resp_dsgorg_error_code := v\<rparr>) out) (\<lambda>out.
        read_then (get_into (0 \<le>s version) (get_nullable_str flex) (\<lambda>v out. out\<lparr>dsgo_resp_dsgorg_error_message := v\<rparr>) out) (\<lambda>out.
        get_trailer flex [] (\<lambda>u out. out\<lparr>dsgo_resp_dsgorg_unknown_tagged_fields := u\<rparr>) out)))))"

definition DescribeShareGroupOffsetsResponse_DescribeShareGroupOffsetsResponseGroup_fields_wf :: "i16 \<Rightarrow> DescribeShareGroupOffsetsResponse_DescribeShareGroupOffsetsResponseGroup \<Rightarrow> bool" where
  "DescribeShareGroupOffsetsResponse_DescribeShareGroupOffsetsResponseGroup_fields_wf version x \<longleftrightarrow>
     (let flex = 0 \<le>s version in
      str_wf flex (dsgo_resp_dsgorg_group_id x)
      \<and> array_ok flex (DescribeShareGroupOffsetsResponse_DescribeShareGroupOffsetsResponseTopic_wf version) (dsgo_resp_dsgorg_topics x)
      \<and> nullable_str_wf flex (dsgo_resp_dsgorg_error_message x))"

definition DescribeShareGroupOffsetsResponse_DescribeShareGroupOffsetsResponseGroup_wf :: "i16 \<Rightarrow> DescribeShareGroupOffsetsResponse_DescribeShareGroupOffsetsResponseGroup \<Rightarrow> bool" where
  "DescribeShareGroupOffsetsResponse_DescribeShareGroupOffsetsResponseGroup_wf version x \<longleftrightarrow>
     DescribeShareGroupOffsetsResponse_DescribeShareGroupOffsetsResponseGroup_fields_wf version x \<and> trailer_ok [] [] (dsgo_resp_dsgorg_unknown_tagged_fields x)"

lemmas describe_share_group_offsets_response_describe_share_group_offsets_response_group_fields =
    Let_def field_ok_def DescribeShareGroupOffsetsResponse_DescribeShareGroupOffsetsResponseGroup_fields_wf_def

lemma describe_share_group_offsets_response_describe_share_group_offsets_response_group_steps:
  assumes v: "0 \<le>s version" and flex: "flex = (0 \<le>s version)"
  shows "keeps (DescribeShareGroupOffsetsResponse_DescribeShareGroupOffsetsResponseGroup_fields_wf version) (get_into (0 \<le>s version) (get_str flex) (\<lambda>v out. out\<lparr>dsgo_resp_dsgorg_group_id := v\<rparr>))"
    and "keeps (DescribeShareGroupOffsetsResponse_DescribeShareGroupOffsetsResponseGroup_fields_wf version) (get_into (0 \<le>s version) (get_array flex (DescribeShareGroupOffsetsResponse_DescribeShareGroupOffsetsResponseTopic_decode version)) (\<lambda>v out. out\<lparr>dsgo_resp_dsgorg_topics := v\<rparr>))"
    and "keeps (DescribeShareGroupOffsetsResponse_DescribeShareGroupOffsetsResponseGroup_fields_wf version) (get_into (0 \<le>s version) get_i16 (\<lambda>v out. out\<lparr>dsgo_resp_dsgorg_error_code := v\<rparr>))"
    and "keeps (DescribeShareGroupOffsetsResponse_DescribeShareGroupOffsetsResponseGroup_fields_wf version) (get_into (0 \<le>s version) (get_nullable_str flex) (\<lambda>v out. out\<lparr>dsgo_resp_dsgorg_error_message := v\<rparr>))"
  unfolding flex 
  by (rule keeps_into; (rule yields_rules)?; simp add: v describe_share_group_offsets_response_describe_share_group_offsets_response_group_fields)+

lemma describe_share_group_offsets_response_describe_share_group_offsets_response_group_unknown:
  "DescribeShareGroupOffsetsResponse_DescribeShareGroupOffsetsResponseGroup_fields_wf version (s\<lparr>dsgo_resp_dsgorg_unknown_tagged_fields := u\<rparr>) = DescribeShareGroupOffsetsResponse_DescribeShareGroupOffsetsResponseGroup_fields_wf version s"
  by (simp_all add: DescribeShareGroupOffsetsResponse_DescribeShareGroupOffsetsResponseGroup_fields_wf_def)

lemma describe_share_group_offsets_response_describe_share_group_offsets_response_group_yields:
  assumes v: "0 \<le>s version"
  shows "yields 1 (DescribeShareGroupOffsetsResponse_DescribeShareGroupOffsetsResponseGroup_decode version) (DescribeShareGroupOffsetsResponse_DescribeShareGroupOffsetsResponseGroup_wf version)"
proof -
  have d: "DescribeShareGroupOffsetsResponse_DescribeShareGroupOffsetsResponseGroup_fields_wf version DescribeShareGroupOffsetsResponse_DescribeShareGroupOffsetsResponseGroup_default"
    by (simp add: DescribeShareGroupOffsetsResponse_DescribeShareGroupOffsetsResponseGroup_default_def v describe_share_group_offsets_response_describe_share_group_offsets_response_group_fields)
  show ?thesis
    unfolding DescribeShareGroupOffsetsResponse_DescribeShareGroupOffsetsResponseGroup_decode_def Let_def
    by ((rule describe_share_group_offsets_response_describe_share_group_offsets_response_group_steps[OF v refl, THEN yields_step], (rule d | assumption))+, rule yields_trailer[OF _ arms_keep_Nil[of "DescribeShareGroupOffsetsResponse_DescribeShareGroupOffsetsResponseGroup_fields_wf version" "\<lambda>_. 0"]])
      (simp_all add: v d describe_share_group_offsets_response_describe_share_group_offsets_response_group_unknown DescribeShareGroupOffsetsResponse_DescribeShareGroupOffsetsResponseGroup_wf_def trailer_ok_def )
qed

lemma describe_share_group_offsets_response_describe_share_group_offsets_response_group_extends [extends_rules]: "extends_input (DescribeShareGroupOffsetsResponse_DescribeShareGroupOffsetsResponseGroup_decode version)"
  unfolding DescribeShareGroupOffsetsResponse_DescribeShareGroupOffsetsResponseGroup_decode_def Let_def by (intro extends_rules)

lemma describe_share_group_offsets_response_describe_share_group_offsets_response_group_codec:
  assumes v: "0 \<le>s version"
  shows "message_codec DescribeShareGroupOffsetsResponse_DescribeShareGroupOffsetsResponseGroup_encode DescribeShareGroupOffsetsResponse_DescribeShareGroupOffsetsResponseGroup_decode DescribeShareGroupOffsetsResponse_DescribeShareGroupOffsetsResponseGroup_encoded_len (DescribeShareGroupOffsetsResponse_DescribeShareGroupOffsetsResponseGroup_wf version) version"
proof
  fix x
  assume w: "DescribeShareGroupOffsetsResponse_DescribeShareGroupOffsetsResponseGroup_wf version x"
  show "carries (DescribeShareGroupOffsetsResponse_DescribeShareGroupOffsetsResponseGroup_encode x version) (DescribeShareGroupOffsetsResponse_DescribeShareGroupOffsetsResponseGroup_decode version) (DescribeShareGroupOffsetsResponse_DescribeShareGroupOffsetsResponseGroup_encoded_len x version) x"
    unfolding DescribeShareGroupOffsetsResponse_DescribeShareGroupOffsetsResponseGroup_encode_def DescribeShareGroupOffsetsResponse_DescribeShareGroupOffsetsResponseGroup_encoded_len_def DescribeShareGroupOffsetsResponse_DescribeShareGroupOffsetsResponseGroup_decode_def Let_def
    by (use w[unfolded DescribeShareGroupOffsetsResponse_DescribeShareGroupOffsetsResponseGroup_wf_def DescribeShareGroupOffsetsResponse_DescribeShareGroupOffsetsResponseGroup_fields_wf_def Let_def] in \<open>elim conjE\<close>, rule carries_cong_len)
      ((rule carries_rules | (erule absent_guarded, assumption) | erule absent_plain
        | simp add: v field_ok_def DescribeShareGroupOffsetsResponse_DescribeShareGroupOffsetsResponseGroup_default_def )+)
next
  show "yields 1 (DescribeShareGroupOffsetsResponse_DescribeShareGroupOffsetsResponseGroup_decode version) (DescribeShareGroupOffsetsResponse_DescribeShareGroupOffsetsResponseGroup_wf version)"
    by (rule describe_share_group_offsets_response_describe_share_group_offsets_response_group_yields[OF v])
qed (rule describe_share_group_offsets_response_describe_share_group_offsets_response_group_extends)

lemma describe_share_group_offsets_response_describe_share_group_offsets_response_group_default_wf [simp]: "0 \<le>s version \<Longrightarrow> DescribeShareGroupOffsetsResponse_DescribeShareGroupOffsetsResponseGroup_wf version DescribeShareGroupOffsetsResponse_DescribeShareGroupOffsetsResponseGroup_default"
  by (simp add: DescribeShareGroupOffsetsResponse_DescribeShareGroupOffsetsResponseGroup_wf_def DescribeShareGroupOffsetsResponse_DescribeShareGroupOffsetsResponseGroup_default_def trailer_ok_def describe_share_group_offsets_response_describe_share_group_offsets_response_group_fields)

lemmas [carries_rules] = message_codec.message_carries[OF describe_share_group_offsets_response_describe_share_group_offsets_response_group_codec]
lemmas [yields_rules] = message_codec.message_yields[OF describe_share_group_offsets_response_describe_share_group_offsets_response_group_codec]

lemmas [carries_rules] = protocol_codec.put_array_carries[OF message_codec.message_protocol[OF describe_share_group_offsets_response_describe_share_group_offsets_response_group_codec]]
lemmas [yields_rules] = protocol_codec.get_array_yields[OF message_codec.message_protocol[OF describe_share_group_offsets_response_describe_share_group_offsets_response_group_codec]]
lemmas [carries_rules] = protocol_codec.put_nullable_array_carries[OF message_codec.message_protocol[OF describe_share_group_offsets_response_describe_share_group_offsets_response_group_codec]]
lemmas [yields_rules] = protocol_codec.get_nullable_array_yields[OF message_codec.message_protocol[OF describe_share_group_offsets_response_describe_share_group_offsets_response_group_codec]]

record DescribeShareGroupOffsetsResponse =
  deshgrof_resp_throttle_time_ms :: i32
  deshgrof_resp_groups :: "DescribeShareGroupOffsetsResponse_DescribeShareGroupOffsetsResponseGroup list"
  deshgrof_resp_unknown_tagged_fields :: "UnknownTaggedField list"

definition DescribeShareGroupOffsetsResponse_default :: DescribeShareGroupOffsetsResponse where
  "DescribeShareGroupOffsetsResponse_default =
     \<lparr>deshgrof_resp_throttle_time_ms = 0, deshgrof_resp_groups = [], deshgrof_resp_unknown_tagged_fields = []\<rparr>"

definition DescribeShareGroupOffsetsResponse_MIN_VERSION :: i16 where
  "DescribeShareGroupOffsetsResponse_MIN_VERSION = 0"

definition DescribeShareGroupOffsetsResponse_MAX_VERSION :: i16 where
  "DescribeShareGroupOffsetsResponse_MAX_VERSION = 1"

definition DescribeShareGroupOffsetsResponse_FLEXIBLE_MIN :: i16 where
  "DescribeShareGroupOffsetsResponse_FLEXIBLE_MIN = 0"

definition DescribeShareGroupOffsetsResponse_API_KEY :: i16 where
  "DescribeShareGroupOffsetsResponse_API_KEY = 90"

definition DescribeShareGroupOffsetsResponse_is_flexible :: "i16 \<Rightarrow> bool" where
  "DescribeShareGroupOffsetsResponse_is_flexible version \<longleftrightarrow> DescribeShareGroupOffsetsResponse_FLEXIBLE_MIN \<le>s version"

definition DescribeShareGroupOffsetsResponse_encode :: "DescribeShareGroupOffsetsResponse \<Rightarrow> i16 \<Rightarrow> encoder" where
  "DescribeShareGroupOffsetsResponse_encode x version =
     (let flex = DescribeShareGroupOffsetsResponse_is_flexible version in
      write_all
        [write_check (check_version DescribeShareGroupOffsetsResponse_API_KEY version DescribeShareGroupOffsetsResponse_MIN_VERSION DescribeShareGroupOffsetsResponse_MAX_VERSION),
         put_when (0 \<le>s version) (put_i32 (deshgrof_resp_throttle_time_ms x)),
         put_when (0 \<le>s version) (put_array flex (\<lambda>it. DescribeShareGroupOffsetsResponse_DescribeShareGroupOffsetsResponseGroup_encode it version) (deshgrof_resp_groups x)),
         put_when flex (put_tagged [] (deshgrof_resp_unknown_tagged_fields x))])"

definition DescribeShareGroupOffsetsResponse_encoded_len :: "DescribeShareGroupOffsetsResponse \<Rightarrow> i16 \<Rightarrow> nat" where
  "DescribeShareGroupOffsetsResponse_encoded_len x version =
     (let flex = DescribeShareGroupOffsetsResponse_is_flexible version in
      len_when (0 \<le>s version) 4
      + len_when (0 \<le>s version) (array_size flex (\<lambda>it. DescribeShareGroupOffsetsResponse_DescribeShareGroupOffsetsResponseGroup_encoded_len it version) (deshgrof_resp_groups x))
      + len_when flex (tagged_size [] (deshgrof_resp_unknown_tagged_fields x)))"

definition DescribeShareGroupOffsetsResponse_decode :: "i16 \<Rightarrow> DescribeShareGroupOffsetsResponse decoder" where
  "DescribeShareGroupOffsetsResponse_decode version =
     (let flex = DescribeShareGroupOffsetsResponse_is_flexible version in
      checked (check_version DescribeShareGroupOffsetsResponse_API_KEY version DescribeShareGroupOffsetsResponse_MIN_VERSION DescribeShareGroupOffsetsResponse_MAX_VERSION) (
        read_then (get_into (0 \<le>s version) get_i32 (\<lambda>v out. out\<lparr>deshgrof_resp_throttle_time_ms := v\<rparr>) DescribeShareGroupOffsetsResponse_default) (\<lambda>out.
        read_then (get_into (0 \<le>s version) (get_array flex (DescribeShareGroupOffsetsResponse_DescribeShareGroupOffsetsResponseGroup_decode version)) (\<lambda>v out. out\<lparr>deshgrof_resp_groups := v\<rparr>) out) (\<lambda>out.
        get_trailer flex [] (\<lambda>u out. out\<lparr>deshgrof_resp_unknown_tagged_fields := u\<rparr>) out))))"

definition DescribeShareGroupOffsetsResponse_fields_wf :: "i16 \<Rightarrow> DescribeShareGroupOffsetsResponse \<Rightarrow> bool" where
  "DescribeShareGroupOffsetsResponse_fields_wf version x \<longleftrightarrow>
     (let flex = DescribeShareGroupOffsetsResponse_is_flexible version in
      array_ok flex (DescribeShareGroupOffsetsResponse_DescribeShareGroupOffsetsResponseGroup_wf version) (deshgrof_resp_groups x))"

definition DescribeShareGroupOffsetsResponse_wf :: "i16 \<Rightarrow> DescribeShareGroupOffsetsResponse \<Rightarrow> bool" where
  "DescribeShareGroupOffsetsResponse_wf version x \<longleftrightarrow>
     version_in DescribeShareGroupOffsetsResponse_MIN_VERSION DescribeShareGroupOffsetsResponse_MAX_VERSION version \<and> DescribeShareGroupOffsetsResponse_fields_wf version x \<and> trailer_ok [] [] (deshgrof_resp_unknown_tagged_fields x)"

lemmas describe_share_group_offsets_response_versions =
    DescribeShareGroupOffsetsResponse_is_flexible_def DescribeShareGroupOffsetsResponse_FLEXIBLE_MIN_def
    DescribeShareGroupOffsetsResponse_MIN_VERSION_def DescribeShareGroupOffsetsResponse_MAX_VERSION_def
    version_in_def

lemmas describe_share_group_offsets_response_fields =
    Let_def field_ok_def DescribeShareGroupOffsetsResponse_fields_wf_def
    DescribeShareGroupOffsetsResponse_is_flexible_def DescribeShareGroupOffsetsResponse_FLEXIBLE_MIN_def

lemma describe_share_group_offsets_response_steps:
  assumes v: "0 \<le>s version" and flex: "flex = (DescribeShareGroupOffsetsResponse_is_flexible version)"
  shows "keeps (DescribeShareGroupOffsetsResponse_fields_wf version) (get_into (0 \<le>s version) get_i32 (\<lambda>v out. out\<lparr>deshgrof_resp_throttle_time_ms := v\<rparr>))"
    and "keeps (DescribeShareGroupOffsetsResponse_fields_wf version) (get_into (0 \<le>s version) (get_array flex (DescribeShareGroupOffsetsResponse_DescribeShareGroupOffsetsResponseGroup_decode version)) (\<lambda>v out. out\<lparr>deshgrof_resp_groups := v\<rparr>))"
  unfolding flex 
  by (rule keeps_into; (rule yields_rules)?; simp add: v describe_share_group_offsets_response_fields)+

lemma describe_share_group_offsets_response_unknown:
  "DescribeShareGroupOffsetsResponse_fields_wf version (s\<lparr>deshgrof_resp_unknown_tagged_fields := u\<rparr>) = DescribeShareGroupOffsetsResponse_fields_wf version s"
  by (simp_all add: DescribeShareGroupOffsetsResponse_fields_wf_def)

lemma describe_share_group_offsets_response_yields:
  assumes r: "version_in DescribeShareGroupOffsetsResponse_MIN_VERSION DescribeShareGroupOffsetsResponse_MAX_VERSION version"
  shows "yields 1 (DescribeShareGroupOffsetsResponse_decode version) (DescribeShareGroupOffsetsResponse_wf version)"
proof -
  have v: "0 \<le>s version"
    using r by (simp add: describe_share_group_offsets_response_versions)
  have d: "DescribeShareGroupOffsetsResponse_fields_wf version DescribeShareGroupOffsetsResponse_default"
    by (simp add: DescribeShareGroupOffsetsResponse_default_def v describe_share_group_offsets_response_fields)
  show ?thesis
    unfolding DescribeShareGroupOffsetsResponse_decode_def Let_def
    by (rule yields_checked, (rule describe_share_group_offsets_response_steps[OF v refl, THEN yields_step], (rule d | assumption))+, rule yields_trailer[OF _ arms_keep_Nil[of "DescribeShareGroupOffsetsResponse_fields_wf version" "\<lambda>_. 0"]])
      (simp_all add: v d describe_share_group_offsets_response_unknown DescribeShareGroupOffsetsResponse_wf_def trailer_ok_def r DescribeShareGroupOffsetsResponse_is_flexible_def DescribeShareGroupOffsetsResponse_FLEXIBLE_MIN_def)
qed

interpretation describe_share_group_offsets_response: message_codec
  DescribeShareGroupOffsetsResponse_encode DescribeShareGroupOffsetsResponse_decode DescribeShareGroupOffsetsResponse_encoded_len "DescribeShareGroupOffsetsResponse_wf version" version
  for version
proof
  fix x
  assume w: "DescribeShareGroupOffsetsResponse_wf version x"
  then have v: "0 \<le>s version"
    by (simp add: DescribeShareGroupOffsetsResponse_wf_def describe_share_group_offsets_response_versions)
  show "carries (DescribeShareGroupOffsetsResponse_encode x version) (DescribeShareGroupOffsetsResponse_decode version) (DescribeShareGroupOffsetsResponse_encoded_len x version) x"
    unfolding DescribeShareGroupOffsetsResponse_encode_def DescribeShareGroupOffsetsResponse_encoded_len_def DescribeShareGroupOffsetsResponse_decode_def Let_def
    by (use w[unfolded DescribeShareGroupOffsetsResponse_wf_def DescribeShareGroupOffsetsResponse_fields_wf_def Let_def] in \<open>elim conjE\<close>, rule carries_cong_len)
      ((rule carries_rules check_version_in[THEN iffD2] | (erule absent_guarded, assumption) | erule absent_plain
        | simp add: v field_ok_def DescribeShareGroupOffsetsResponse_default_def describe_share_group_offsets_response_versions)+)
next
  show "yields 1 (DescribeShareGroupOffsetsResponse_decode version) (DescribeShareGroupOffsetsResponse_wf version)"
    by (rule case_split[OF describe_share_group_offsets_response_yields]) (auto simp: DescribeShareGroupOffsetsResponse_decode_def Let_def yields_refused yields_unsupported)
  show "extends_input (DescribeShareGroupOffsetsResponse_decode version)"
    unfolding DescribeShareGroupOffsetsResponse_decode_def Let_def by (intro extends_rules)
qed

section \<open>InitializeShareGroupStateRequest\<close>

record InitializeShareGroupStateRequest_PartitionData =
  isgs_req_pd_partition :: i32
  isgs_req_pd_state_epoch :: i32
  isgs_req_pd_start_offset :: i64
  isgs_req_pd_unknown_tagged_fields :: "UnknownTaggedField list"

definition InitializeShareGroupStateRequest_PartitionData_default :: InitializeShareGroupStateRequest_PartitionData where
  "InitializeShareGroupStateRequest_PartitionData_default =
     \<lparr>isgs_req_pd_partition = 0, isgs_req_pd_state_epoch = 0, isgs_req_pd_start_offset = 0, isgs_req_pd_unknown_tagged_fields = []\<rparr>"

definition InitializeShareGroupStateRequest_PartitionData_encode :: "InitializeShareGroupStateRequest_PartitionData \<Rightarrow> i16 \<Rightarrow> encoder" where
  "InitializeShareGroupStateRequest_PartitionData_encode x version =
     (let flex = 0 \<le>s version in
      write_all
        [put_when (0 \<le>s version) (put_i32 (isgs_req_pd_partition x)),
         put_when (0 \<le>s version) (put_i32 (isgs_req_pd_state_epoch x)),
         put_when (0 \<le>s version) (put_i64 (isgs_req_pd_start_offset x)),
         put_when flex (put_tagged [] (isgs_req_pd_unknown_tagged_fields x))])"

definition InitializeShareGroupStateRequest_PartitionData_encoded_len :: "InitializeShareGroupStateRequest_PartitionData \<Rightarrow> i16 \<Rightarrow> nat" where
  "InitializeShareGroupStateRequest_PartitionData_encoded_len x version =
     (let flex = 0 \<le>s version in
      len_when (0 \<le>s version) 4
      + len_when (0 \<le>s version) 4
      + len_when (0 \<le>s version) 8
      + len_when flex (tagged_size [] (isgs_req_pd_unknown_tagged_fields x)))"

definition InitializeShareGroupStateRequest_PartitionData_decode :: "i16 \<Rightarrow> InitializeShareGroupStateRequest_PartitionData decoder" where
  "InitializeShareGroupStateRequest_PartitionData_decode version =
     (let flex = 0 \<le>s version in
      read_then (get_into (0 \<le>s version) get_i32 (\<lambda>v out. out\<lparr>isgs_req_pd_partition := v\<rparr>) InitializeShareGroupStateRequest_PartitionData_default) (\<lambda>out.
        read_then (get_into (0 \<le>s version) get_i32 (\<lambda>v out. out\<lparr>isgs_req_pd_state_epoch := v\<rparr>) out) (\<lambda>out.
        read_then (get_into (0 \<le>s version) get_i64 (\<lambda>v out. out\<lparr>isgs_req_pd_start_offset := v\<rparr>) out) (\<lambda>out.
        get_trailer flex [] (\<lambda>u out. out\<lparr>isgs_req_pd_unknown_tagged_fields := u\<rparr>) out))))"

definition InitializeShareGroupStateRequest_PartitionData_fields_wf :: "i16 \<Rightarrow> InitializeShareGroupStateRequest_PartitionData \<Rightarrow> bool" where
  "InitializeShareGroupStateRequest_PartitionData_fields_wf version x \<longleftrightarrow>
     True"

definition InitializeShareGroupStateRequest_PartitionData_wf :: "i16 \<Rightarrow> InitializeShareGroupStateRequest_PartitionData \<Rightarrow> bool" where
  "InitializeShareGroupStateRequest_PartitionData_wf version x \<longleftrightarrow>
     InitializeShareGroupStateRequest_PartitionData_fields_wf version x \<and> trailer_ok [] [] (isgs_req_pd_unknown_tagged_fields x)"

lemmas initialize_share_group_state_request_partition_data_fields =
    Let_def field_ok_def InitializeShareGroupStateRequest_PartitionData_fields_wf_def

lemma initialize_share_group_state_request_partition_data_steps:
  assumes v: "0 \<le>s version" and flex: "flex = (0 \<le>s version)"
  shows "keeps (InitializeShareGroupStateRequest_PartitionData_fields_wf version) (get_into (0 \<le>s version) get_i32 (\<lambda>v out. out\<lparr>isgs_req_pd_partition := v\<rparr>))"
    and "keeps (InitializeShareGroupStateRequest_PartitionData_fields_wf version) (get_into (0 \<le>s version) get_i32 (\<lambda>v out. out\<lparr>isgs_req_pd_state_epoch := v\<rparr>))"
    and "keeps (InitializeShareGroupStateRequest_PartitionData_fields_wf version) (get_into (0 \<le>s version) get_i64 (\<lambda>v out. out\<lparr>isgs_req_pd_start_offset := v\<rparr>))"
  unfolding flex 
  by (rule keeps_into; (rule yields_rules)?; simp add: v initialize_share_group_state_request_partition_data_fields)+

lemma initialize_share_group_state_request_partition_data_unknown:
  "InitializeShareGroupStateRequest_PartitionData_fields_wf version (s\<lparr>isgs_req_pd_unknown_tagged_fields := u\<rparr>) = InitializeShareGroupStateRequest_PartitionData_fields_wf version s"
  by (simp_all add: InitializeShareGroupStateRequest_PartitionData_fields_wf_def)

lemma initialize_share_group_state_request_partition_data_yields:
  assumes v: "0 \<le>s version"
  shows "yields 1 (InitializeShareGroupStateRequest_PartitionData_decode version) (InitializeShareGroupStateRequest_PartitionData_wf version)"
proof -
  have d: "InitializeShareGroupStateRequest_PartitionData_fields_wf version InitializeShareGroupStateRequest_PartitionData_default"
    by (simp add: InitializeShareGroupStateRequest_PartitionData_default_def v initialize_share_group_state_request_partition_data_fields)
  show ?thesis
    unfolding InitializeShareGroupStateRequest_PartitionData_decode_def Let_def
    by ((rule initialize_share_group_state_request_partition_data_steps[OF v refl, THEN yields_step], (rule d | assumption))+, rule yields_trailer[OF _ arms_keep_Nil[of "InitializeShareGroupStateRequest_PartitionData_fields_wf version" "\<lambda>_. 0"]])
      (simp_all add: v d initialize_share_group_state_request_partition_data_unknown InitializeShareGroupStateRequest_PartitionData_wf_def trailer_ok_def )
qed

lemma initialize_share_group_state_request_partition_data_extends [extends_rules]: "extends_input (InitializeShareGroupStateRequest_PartitionData_decode version)"
  unfolding InitializeShareGroupStateRequest_PartitionData_decode_def Let_def by (intro extends_rules)

lemma initialize_share_group_state_request_partition_data_codec:
  assumes v: "0 \<le>s version"
  shows "message_codec InitializeShareGroupStateRequest_PartitionData_encode InitializeShareGroupStateRequest_PartitionData_decode InitializeShareGroupStateRequest_PartitionData_encoded_len (InitializeShareGroupStateRequest_PartitionData_wf version) version"
proof
  fix x
  assume w: "InitializeShareGroupStateRequest_PartitionData_wf version x"
  show "carries (InitializeShareGroupStateRequest_PartitionData_encode x version) (InitializeShareGroupStateRequest_PartitionData_decode version) (InitializeShareGroupStateRequest_PartitionData_encoded_len x version) x"
    unfolding InitializeShareGroupStateRequest_PartitionData_encode_def InitializeShareGroupStateRequest_PartitionData_encoded_len_def InitializeShareGroupStateRequest_PartitionData_decode_def Let_def
    by (use w[unfolded InitializeShareGroupStateRequest_PartitionData_wf_def InitializeShareGroupStateRequest_PartitionData_fields_wf_def Let_def] in \<open>elim conjE\<close>, rule carries_cong_len)
      ((rule carries_rules | (erule absent_guarded, assumption) | erule absent_plain
        | simp add: v field_ok_def InitializeShareGroupStateRequest_PartitionData_default_def )+)
next
  show "yields 1 (InitializeShareGroupStateRequest_PartitionData_decode version) (InitializeShareGroupStateRequest_PartitionData_wf version)"
    by (rule initialize_share_group_state_request_partition_data_yields[OF v])
qed (rule initialize_share_group_state_request_partition_data_extends)

lemma initialize_share_group_state_request_partition_data_default_wf [simp]: "0 \<le>s version \<Longrightarrow> InitializeShareGroupStateRequest_PartitionData_wf version InitializeShareGroupStateRequest_PartitionData_default"
  by (simp add: InitializeShareGroupStateRequest_PartitionData_wf_def InitializeShareGroupStateRequest_PartitionData_default_def trailer_ok_def initialize_share_group_state_request_partition_data_fields)

lemmas [carries_rules] = message_codec.message_carries[OF initialize_share_group_state_request_partition_data_codec]
lemmas [yields_rules] = message_codec.message_yields[OF initialize_share_group_state_request_partition_data_codec]

lemmas [carries_rules] = protocol_codec.put_array_carries[OF message_codec.message_protocol[OF initialize_share_group_state_request_partition_data_codec]]
lemmas [yields_rules] = protocol_codec.get_array_yields[OF message_codec.message_protocol[OF initialize_share_group_state_request_partition_data_codec]]
lemmas [carries_rules] = protocol_codec.put_nullable_array_carries[OF message_codec.message_protocol[OF initialize_share_group_state_request_partition_data_codec]]
lemmas [yields_rules] = protocol_codec.get_nullable_array_yields[OF message_codec.message_protocol[OF initialize_share_group_state_request_partition_data_codec]]

record InitializeShareGroupStateRequest_InitializeStateData =
  isgs_req_isd_topic_id :: Uuid
  isgs_req_isd_partitions :: "InitializeShareGroupStateRequest_PartitionData list"
  isgs_req_isd_unknown_tagged_fields :: "UnknownTaggedField list"

definition InitializeShareGroupStateRequest_InitializeStateData_default :: InitializeShareGroupStateRequest_InitializeStateData where
  "InitializeShareGroupStateRequest_InitializeStateData_default =
     \<lparr>isgs_req_isd_topic_id = Uuid_ZERO, isgs_req_isd_partitions = [], isgs_req_isd_unknown_tagged_fields = []\<rparr>"

definition InitializeShareGroupStateRequest_InitializeStateData_encode :: "InitializeShareGroupStateRequest_InitializeStateData \<Rightarrow> i16 \<Rightarrow> encoder" where
  "InitializeShareGroupStateRequest_InitializeStateData_encode x version =
     (let flex = 0 \<le>s version in
      write_all
        [put_when (0 \<le>s version) (put_uuid (isgs_req_isd_topic_id x)),
         put_when (0 \<le>s version) (put_array flex (\<lambda>it. InitializeShareGroupStateRequest_PartitionData_encode it version) (isgs_req_isd_partitions x)),
         put_when flex (put_tagged [] (isgs_req_isd_unknown_tagged_fields x))])"

definition InitializeShareGroupStateRequest_InitializeStateData_encoded_len :: "InitializeShareGroupStateRequest_InitializeStateData \<Rightarrow> i16 \<Rightarrow> nat" where
  "InitializeShareGroupStateRequest_InitializeStateData_encoded_len x version =
     (let flex = 0 \<le>s version in
      len_when (0 \<le>s version) 16
      + len_when (0 \<le>s version) (array_size flex (\<lambda>it. InitializeShareGroupStateRequest_PartitionData_encoded_len it version) (isgs_req_isd_partitions x))
      + len_when flex (tagged_size [] (isgs_req_isd_unknown_tagged_fields x)))"

definition InitializeShareGroupStateRequest_InitializeStateData_decode :: "i16 \<Rightarrow> InitializeShareGroupStateRequest_InitializeStateData decoder" where
  "InitializeShareGroupStateRequest_InitializeStateData_decode version =
     (let flex = 0 \<le>s version in
      read_then (get_into (0 \<le>s version) get_uuid (\<lambda>v out. out\<lparr>isgs_req_isd_topic_id := v\<rparr>) InitializeShareGroupStateRequest_InitializeStateData_default) (\<lambda>out.
        read_then (get_into (0 \<le>s version) (get_array flex (InitializeShareGroupStateRequest_PartitionData_decode version)) (\<lambda>v out. out\<lparr>isgs_req_isd_partitions := v\<rparr>) out) (\<lambda>out.
        get_trailer flex [] (\<lambda>u out. out\<lparr>isgs_req_isd_unknown_tagged_fields := u\<rparr>) out)))"

definition InitializeShareGroupStateRequest_InitializeStateData_fields_wf :: "i16 \<Rightarrow> InitializeShareGroupStateRequest_InitializeStateData \<Rightarrow> bool" where
  "InitializeShareGroupStateRequest_InitializeStateData_fields_wf version x \<longleftrightarrow>
     (let flex = 0 \<le>s version in
      uuid_wf (isgs_req_isd_topic_id x)
      \<and> array_ok flex (InitializeShareGroupStateRequest_PartitionData_wf version) (isgs_req_isd_partitions x))"

definition InitializeShareGroupStateRequest_InitializeStateData_wf :: "i16 \<Rightarrow> InitializeShareGroupStateRequest_InitializeStateData \<Rightarrow> bool" where
  "InitializeShareGroupStateRequest_InitializeStateData_wf version x \<longleftrightarrow>
     InitializeShareGroupStateRequest_InitializeStateData_fields_wf version x \<and> trailer_ok [] [] (isgs_req_isd_unknown_tagged_fields x)"

lemmas initialize_share_group_state_request_initialize_state_data_fields =
    Let_def field_ok_def InitializeShareGroupStateRequest_InitializeStateData_fields_wf_def

lemma initialize_share_group_state_request_initialize_state_data_steps:
  assumes v: "0 \<le>s version" and flex: "flex = (0 \<le>s version)"
  shows "keeps (InitializeShareGroupStateRequest_InitializeStateData_fields_wf version) (get_into (0 \<le>s version) get_uuid (\<lambda>v out. out\<lparr>isgs_req_isd_topic_id := v\<rparr>))"
    and "keeps (InitializeShareGroupStateRequest_InitializeStateData_fields_wf version) (get_into (0 \<le>s version) (get_array flex (InitializeShareGroupStateRequest_PartitionData_decode version)) (\<lambda>v out. out\<lparr>isgs_req_isd_partitions := v\<rparr>))"
  unfolding flex 
  by (rule keeps_into; (rule yields_rules)?; simp add: v initialize_share_group_state_request_initialize_state_data_fields)+

lemma initialize_share_group_state_request_initialize_state_data_unknown:
  "InitializeShareGroupStateRequest_InitializeStateData_fields_wf version (s\<lparr>isgs_req_isd_unknown_tagged_fields := u\<rparr>) = InitializeShareGroupStateRequest_InitializeStateData_fields_wf version s"
  by (simp_all add: InitializeShareGroupStateRequest_InitializeStateData_fields_wf_def)

lemma initialize_share_group_state_request_initialize_state_data_yields:
  assumes v: "0 \<le>s version"
  shows "yields 1 (InitializeShareGroupStateRequest_InitializeStateData_decode version) (InitializeShareGroupStateRequest_InitializeStateData_wf version)"
proof -
  have d: "InitializeShareGroupStateRequest_InitializeStateData_fields_wf version InitializeShareGroupStateRequest_InitializeStateData_default"
    by (simp add: InitializeShareGroupStateRequest_InitializeStateData_default_def v initialize_share_group_state_request_initialize_state_data_fields)
  show ?thesis
    unfolding InitializeShareGroupStateRequest_InitializeStateData_decode_def Let_def
    by ((rule initialize_share_group_state_request_initialize_state_data_steps[OF v refl, THEN yields_step], (rule d | assumption))+, rule yields_trailer[OF _ arms_keep_Nil[of "InitializeShareGroupStateRequest_InitializeStateData_fields_wf version" "\<lambda>_. 0"]])
      (simp_all add: v d initialize_share_group_state_request_initialize_state_data_unknown InitializeShareGroupStateRequest_InitializeStateData_wf_def trailer_ok_def )
qed

lemma initialize_share_group_state_request_initialize_state_data_extends [extends_rules]: "extends_input (InitializeShareGroupStateRequest_InitializeStateData_decode version)"
  unfolding InitializeShareGroupStateRequest_InitializeStateData_decode_def Let_def by (intro extends_rules)

lemma initialize_share_group_state_request_initialize_state_data_codec:
  assumes v: "0 \<le>s version"
  shows "message_codec InitializeShareGroupStateRequest_InitializeStateData_encode InitializeShareGroupStateRequest_InitializeStateData_decode InitializeShareGroupStateRequest_InitializeStateData_encoded_len (InitializeShareGroupStateRequest_InitializeStateData_wf version) version"
proof
  fix x
  assume w: "InitializeShareGroupStateRequest_InitializeStateData_wf version x"
  show "carries (InitializeShareGroupStateRequest_InitializeStateData_encode x version) (InitializeShareGroupStateRequest_InitializeStateData_decode version) (InitializeShareGroupStateRequest_InitializeStateData_encoded_len x version) x"
    unfolding InitializeShareGroupStateRequest_InitializeStateData_encode_def InitializeShareGroupStateRequest_InitializeStateData_encoded_len_def InitializeShareGroupStateRequest_InitializeStateData_decode_def Let_def
    by (use w[unfolded InitializeShareGroupStateRequest_InitializeStateData_wf_def InitializeShareGroupStateRequest_InitializeStateData_fields_wf_def Let_def] in \<open>elim conjE\<close>, rule carries_cong_len)
      ((rule carries_rules | (erule absent_guarded, assumption) | erule absent_plain
        | simp add: v field_ok_def InitializeShareGroupStateRequest_InitializeStateData_default_def )+)
next
  show "yields 1 (InitializeShareGroupStateRequest_InitializeStateData_decode version) (InitializeShareGroupStateRequest_InitializeStateData_wf version)"
    by (rule initialize_share_group_state_request_initialize_state_data_yields[OF v])
qed (rule initialize_share_group_state_request_initialize_state_data_extends)

lemma initialize_share_group_state_request_initialize_state_data_default_wf [simp]: "0 \<le>s version \<Longrightarrow> InitializeShareGroupStateRequest_InitializeStateData_wf version InitializeShareGroupStateRequest_InitializeStateData_default"
  by (simp add: InitializeShareGroupStateRequest_InitializeStateData_wf_def InitializeShareGroupStateRequest_InitializeStateData_default_def trailer_ok_def initialize_share_group_state_request_initialize_state_data_fields)

lemmas [carries_rules] = message_codec.message_carries[OF initialize_share_group_state_request_initialize_state_data_codec]
lemmas [yields_rules] = message_codec.message_yields[OF initialize_share_group_state_request_initialize_state_data_codec]

lemmas [carries_rules] = protocol_codec.put_array_carries[OF message_codec.message_protocol[OF initialize_share_group_state_request_initialize_state_data_codec]]
lemmas [yields_rules] = protocol_codec.get_array_yields[OF message_codec.message_protocol[OF initialize_share_group_state_request_initialize_state_data_codec]]
lemmas [carries_rules] = protocol_codec.put_nullable_array_carries[OF message_codec.message_protocol[OF initialize_share_group_state_request_initialize_state_data_codec]]
lemmas [yields_rules] = protocol_codec.get_nullable_array_yields[OF message_codec.message_protocol[OF initialize_share_group_state_request_initialize_state_data_codec]]

record InitializeShareGroupStateRequest =
  isgs_req_group_id :: bytes
  isgs_req_topics :: "InitializeShareGroupStateRequest_InitializeStateData list"
  isgs_req_unknown_tagged_fields :: "UnknownTaggedField list"

definition InitializeShareGroupStateRequest_default :: InitializeShareGroupStateRequest where
  "InitializeShareGroupStateRequest_default =
     \<lparr>isgs_req_group_id = [], isgs_req_topics = [], isgs_req_unknown_tagged_fields = []\<rparr>"

definition InitializeShareGroupStateRequest_MIN_VERSION :: i16 where
  "InitializeShareGroupStateRequest_MIN_VERSION = 0"

definition InitializeShareGroupStateRequest_MAX_VERSION :: i16 where
  "InitializeShareGroupStateRequest_MAX_VERSION = 0"

definition InitializeShareGroupStateRequest_FLEXIBLE_MIN :: i16 where
  "InitializeShareGroupStateRequest_FLEXIBLE_MIN = 0"

definition InitializeShareGroupStateRequest_API_KEY :: i16 where
  "InitializeShareGroupStateRequest_API_KEY = 83"

definition InitializeShareGroupStateRequest_is_flexible :: "i16 \<Rightarrow> bool" where
  "InitializeShareGroupStateRequest_is_flexible version \<longleftrightarrow> InitializeShareGroupStateRequest_FLEXIBLE_MIN \<le>s version"

definition InitializeShareGroupStateRequest_encode :: "InitializeShareGroupStateRequest \<Rightarrow> i16 \<Rightarrow> encoder" where
  "InitializeShareGroupStateRequest_encode x version =
     (let flex = InitializeShareGroupStateRequest_is_flexible version in
      write_all
        [write_check (check_version InitializeShareGroupStateRequest_API_KEY version InitializeShareGroupStateRequest_MIN_VERSION InitializeShareGroupStateRequest_MAX_VERSION),
         put_when (0 \<le>s version) (put_str flex (isgs_req_group_id x)),
         put_when (0 \<le>s version) (put_array flex (\<lambda>it. InitializeShareGroupStateRequest_InitializeStateData_encode it version) (isgs_req_topics x)),
         put_when flex (put_tagged [] (isgs_req_unknown_tagged_fields x))])"

definition InitializeShareGroupStateRequest_encoded_len :: "InitializeShareGroupStateRequest \<Rightarrow> i16 \<Rightarrow> nat" where
  "InitializeShareGroupStateRequest_encoded_len x version =
     (let flex = InitializeShareGroupStateRequest_is_flexible version in
      len_when (0 \<le>s version) (str_len flex (isgs_req_group_id x))
      + len_when (0 \<le>s version) (array_size flex (\<lambda>it. InitializeShareGroupStateRequest_InitializeStateData_encoded_len it version) (isgs_req_topics x))
      + len_when flex (tagged_size [] (isgs_req_unknown_tagged_fields x)))"

definition InitializeShareGroupStateRequest_decode :: "i16 \<Rightarrow> InitializeShareGroupStateRequest decoder" where
  "InitializeShareGroupStateRequest_decode version =
     (let flex = InitializeShareGroupStateRequest_is_flexible version in
      checked (check_version InitializeShareGroupStateRequest_API_KEY version InitializeShareGroupStateRequest_MIN_VERSION InitializeShareGroupStateRequest_MAX_VERSION) (
        read_then (get_into (0 \<le>s version) (get_str flex) (\<lambda>v out. out\<lparr>isgs_req_group_id := v\<rparr>) InitializeShareGroupStateRequest_default) (\<lambda>out.
        read_then (get_into (0 \<le>s version) (get_array flex (InitializeShareGroupStateRequest_InitializeStateData_decode version)) (\<lambda>v out. out\<lparr>isgs_req_topics := v\<rparr>) out) (\<lambda>out.
        get_trailer flex [] (\<lambda>u out. out\<lparr>isgs_req_unknown_tagged_fields := u\<rparr>) out))))"

definition InitializeShareGroupStateRequest_fields_wf :: "i16 \<Rightarrow> InitializeShareGroupStateRequest \<Rightarrow> bool" where
  "InitializeShareGroupStateRequest_fields_wf version x \<longleftrightarrow>
     (let flex = InitializeShareGroupStateRequest_is_flexible version in
      str_wf flex (isgs_req_group_id x)
      \<and> array_ok flex (InitializeShareGroupStateRequest_InitializeStateData_wf version) (isgs_req_topics x))"

definition InitializeShareGroupStateRequest_wf :: "i16 \<Rightarrow> InitializeShareGroupStateRequest \<Rightarrow> bool" where
  "InitializeShareGroupStateRequest_wf version x \<longleftrightarrow>
     version_in InitializeShareGroupStateRequest_MIN_VERSION InitializeShareGroupStateRequest_MAX_VERSION version \<and> InitializeShareGroupStateRequest_fields_wf version x \<and> trailer_ok [] [] (isgs_req_unknown_tagged_fields x)"

lemmas initialize_share_group_state_request_versions =
    InitializeShareGroupStateRequest_is_flexible_def InitializeShareGroupStateRequest_FLEXIBLE_MIN_def
    InitializeShareGroupStateRequest_MIN_VERSION_def InitializeShareGroupStateRequest_MAX_VERSION_def
    version_in_def

lemmas initialize_share_group_state_request_fields =
    Let_def field_ok_def InitializeShareGroupStateRequest_fields_wf_def
    InitializeShareGroupStateRequest_is_flexible_def InitializeShareGroupStateRequest_FLEXIBLE_MIN_def

lemma initialize_share_group_state_request_steps:
  assumes v: "0 \<le>s version" and flex: "flex = (InitializeShareGroupStateRequest_is_flexible version)"
  shows "keeps (InitializeShareGroupStateRequest_fields_wf version) (get_into (0 \<le>s version) (get_str flex) (\<lambda>v out. out\<lparr>isgs_req_group_id := v\<rparr>))"
    and "keeps (InitializeShareGroupStateRequest_fields_wf version) (get_into (0 \<le>s version) (get_array flex (InitializeShareGroupStateRequest_InitializeStateData_decode version)) (\<lambda>v out. out\<lparr>isgs_req_topics := v\<rparr>))"
  unfolding flex 
  by (rule keeps_into; (rule yields_rules)?; simp add: v initialize_share_group_state_request_fields)+

lemma initialize_share_group_state_request_unknown:
  "InitializeShareGroupStateRequest_fields_wf version (s\<lparr>isgs_req_unknown_tagged_fields := u\<rparr>) = InitializeShareGroupStateRequest_fields_wf version s"
  by (simp_all add: InitializeShareGroupStateRequest_fields_wf_def)

lemma initialize_share_group_state_request_yields:
  assumes r: "version_in InitializeShareGroupStateRequest_MIN_VERSION InitializeShareGroupStateRequest_MAX_VERSION version"
  shows "yields 1 (InitializeShareGroupStateRequest_decode version) (InitializeShareGroupStateRequest_wf version)"
proof -
  have v: "0 \<le>s version"
    using r by (simp add: initialize_share_group_state_request_versions)
  have d: "InitializeShareGroupStateRequest_fields_wf version InitializeShareGroupStateRequest_default"
    by (simp add: InitializeShareGroupStateRequest_default_def v initialize_share_group_state_request_fields)
  show ?thesis
    unfolding InitializeShareGroupStateRequest_decode_def Let_def
    by (rule yields_checked, (rule initialize_share_group_state_request_steps[OF v refl, THEN yields_step], (rule d | assumption))+, rule yields_trailer[OF _ arms_keep_Nil[of "InitializeShareGroupStateRequest_fields_wf version" "\<lambda>_. 0"]])
      (simp_all add: v d initialize_share_group_state_request_unknown InitializeShareGroupStateRequest_wf_def trailer_ok_def r InitializeShareGroupStateRequest_is_flexible_def InitializeShareGroupStateRequest_FLEXIBLE_MIN_def)
qed

interpretation initialize_share_group_state_request: message_codec
  InitializeShareGroupStateRequest_encode InitializeShareGroupStateRequest_decode InitializeShareGroupStateRequest_encoded_len "InitializeShareGroupStateRequest_wf version" version
  for version
proof
  fix x
  assume w: "InitializeShareGroupStateRequest_wf version x"
  then have v: "0 \<le>s version"
    by (simp add: InitializeShareGroupStateRequest_wf_def initialize_share_group_state_request_versions)
  show "carries (InitializeShareGroupStateRequest_encode x version) (InitializeShareGroupStateRequest_decode version) (InitializeShareGroupStateRequest_encoded_len x version) x"
    unfolding InitializeShareGroupStateRequest_encode_def InitializeShareGroupStateRequest_encoded_len_def InitializeShareGroupStateRequest_decode_def Let_def
    by (use w[unfolded InitializeShareGroupStateRequest_wf_def InitializeShareGroupStateRequest_fields_wf_def Let_def] in \<open>elim conjE\<close>, rule carries_cong_len)
      ((rule carries_rules check_version_in[THEN iffD2] | (erule absent_guarded, assumption) | erule absent_plain
        | simp add: v field_ok_def InitializeShareGroupStateRequest_default_def initialize_share_group_state_request_versions)+)
next
  show "yields 1 (InitializeShareGroupStateRequest_decode version) (InitializeShareGroupStateRequest_wf version)"
    by (rule case_split[OF initialize_share_group_state_request_yields]) (auto simp: InitializeShareGroupStateRequest_decode_def Let_def yields_refused yields_unsupported)
  show "extends_input (InitializeShareGroupStateRequest_decode version)"
    unfolding InitializeShareGroupStateRequest_decode_def Let_def by (intro extends_rules)
qed

section \<open>InitializeShareGroupStateResponse\<close>

record InitializeShareGroupStateResponse_PartitionResult =
  isgs_resp_pr_partition :: i32
  isgs_resp_pr_error_code :: i16
  isgs_resp_pr_error_message :: "bytes option"
  isgs_resp_pr_unknown_tagged_fields :: "UnknownTaggedField list"

definition InitializeShareGroupStateResponse_PartitionResult_default :: InitializeShareGroupStateResponse_PartitionResult where
  "InitializeShareGroupStateResponse_PartitionResult_default =
     \<lparr>isgs_resp_pr_partition = 0, isgs_resp_pr_error_code = 0, isgs_resp_pr_error_message = None, isgs_resp_pr_unknown_tagged_fields = []\<rparr>"

definition InitializeShareGroupStateResponse_PartitionResult_encode :: "InitializeShareGroupStateResponse_PartitionResult \<Rightarrow> i16 \<Rightarrow> encoder" where
  "InitializeShareGroupStateResponse_PartitionResult_encode x version =
     (let flex = 0 \<le>s version in
      write_all
        [put_when (0 \<le>s version) (put_i32 (isgs_resp_pr_partition x)),
         put_when (0 \<le>s version) (put_i16 (isgs_resp_pr_error_code x)),
         put_when (0 \<le>s version) (put_nullable_str flex (isgs_resp_pr_error_message x)),
         put_when flex (put_tagged [] (isgs_resp_pr_unknown_tagged_fields x))])"

definition InitializeShareGroupStateResponse_PartitionResult_encoded_len :: "InitializeShareGroupStateResponse_PartitionResult \<Rightarrow> i16 \<Rightarrow> nat" where
  "InitializeShareGroupStateResponse_PartitionResult_encoded_len x version =
     (let flex = 0 \<le>s version in
      len_when (0 \<le>s version) 4
      + len_when (0 \<le>s version) 2
      + len_when (0 \<le>s version) (nullable_str_len flex (isgs_resp_pr_error_message x))
      + len_when flex (tagged_size [] (isgs_resp_pr_unknown_tagged_fields x)))"

definition InitializeShareGroupStateResponse_PartitionResult_decode :: "i16 \<Rightarrow> InitializeShareGroupStateResponse_PartitionResult decoder" where
  "InitializeShareGroupStateResponse_PartitionResult_decode version =
     (let flex = 0 \<le>s version in
      read_then (get_into (0 \<le>s version) get_i32 (\<lambda>v out. out\<lparr>isgs_resp_pr_partition := v\<rparr>) InitializeShareGroupStateResponse_PartitionResult_default) (\<lambda>out.
        read_then (get_into (0 \<le>s version) get_i16 (\<lambda>v out. out\<lparr>isgs_resp_pr_error_code := v\<rparr>) out) (\<lambda>out.
        read_then (get_into (0 \<le>s version) (get_nullable_str flex) (\<lambda>v out. out\<lparr>isgs_resp_pr_error_message := v\<rparr>) out) (\<lambda>out.
        get_trailer flex [] (\<lambda>u out. out\<lparr>isgs_resp_pr_unknown_tagged_fields := u\<rparr>) out))))"

definition InitializeShareGroupStateResponse_PartitionResult_fields_wf :: "i16 \<Rightarrow> InitializeShareGroupStateResponse_PartitionResult \<Rightarrow> bool" where
  "InitializeShareGroupStateResponse_PartitionResult_fields_wf version x \<longleftrightarrow>
     (let flex = 0 \<le>s version in
      nullable_str_wf flex (isgs_resp_pr_error_message x))"

definition InitializeShareGroupStateResponse_PartitionResult_wf :: "i16 \<Rightarrow> InitializeShareGroupStateResponse_PartitionResult \<Rightarrow> bool" where
  "InitializeShareGroupStateResponse_PartitionResult_wf version x \<longleftrightarrow>
     InitializeShareGroupStateResponse_PartitionResult_fields_wf version x \<and> trailer_ok [] [] (isgs_resp_pr_unknown_tagged_fields x)"

lemmas initialize_share_group_state_response_partition_result_fields =
    Let_def field_ok_def InitializeShareGroupStateResponse_PartitionResult_fields_wf_def

lemma initialize_share_group_state_response_partition_result_steps:
  assumes v: "0 \<le>s version" and flex: "flex = (0 \<le>s version)"
  shows "keeps (InitializeShareGroupStateResponse_PartitionResult_fields_wf version) (get_into (0 \<le>s version) get_i32 (\<lambda>v out. out\<lparr>isgs_resp_pr_partition := v\<rparr>))"
    and "keeps (InitializeShareGroupStateResponse_PartitionResult_fields_wf version) (get_into (0 \<le>s version) get_i16 (\<lambda>v out. out\<lparr>isgs_resp_pr_error_code := v\<rparr>))"
    and "keeps (InitializeShareGroupStateResponse_PartitionResult_fields_wf version) (get_into (0 \<le>s version) (get_nullable_str flex) (\<lambda>v out. out\<lparr>isgs_resp_pr_error_message := v\<rparr>))"
  unfolding flex 
  by (rule keeps_into; (rule yields_rules)?; simp add: v initialize_share_group_state_response_partition_result_fields)+

lemma initialize_share_group_state_response_partition_result_unknown:
  "InitializeShareGroupStateResponse_PartitionResult_fields_wf version (s\<lparr>isgs_resp_pr_unknown_tagged_fields := u\<rparr>) = InitializeShareGroupStateResponse_PartitionResult_fields_wf version s"
  by (simp_all add: InitializeShareGroupStateResponse_PartitionResult_fields_wf_def)

lemma initialize_share_group_state_response_partition_result_yields:
  assumes v: "0 \<le>s version"
  shows "yields 1 (InitializeShareGroupStateResponse_PartitionResult_decode version) (InitializeShareGroupStateResponse_PartitionResult_wf version)"
proof -
  have d: "InitializeShareGroupStateResponse_PartitionResult_fields_wf version InitializeShareGroupStateResponse_PartitionResult_default"
    by (simp add: InitializeShareGroupStateResponse_PartitionResult_default_def v initialize_share_group_state_response_partition_result_fields)
  show ?thesis
    unfolding InitializeShareGroupStateResponse_PartitionResult_decode_def Let_def
    by ((rule initialize_share_group_state_response_partition_result_steps[OF v refl, THEN yields_step], (rule d | assumption))+, rule yields_trailer[OF _ arms_keep_Nil[of "InitializeShareGroupStateResponse_PartitionResult_fields_wf version" "\<lambda>_. 0"]])
      (simp_all add: v d initialize_share_group_state_response_partition_result_unknown InitializeShareGroupStateResponse_PartitionResult_wf_def trailer_ok_def )
qed

lemma initialize_share_group_state_response_partition_result_extends [extends_rules]: "extends_input (InitializeShareGroupStateResponse_PartitionResult_decode version)"
  unfolding InitializeShareGroupStateResponse_PartitionResult_decode_def Let_def by (intro extends_rules)

lemma initialize_share_group_state_response_partition_result_codec:
  assumes v: "0 \<le>s version"
  shows "message_codec InitializeShareGroupStateResponse_PartitionResult_encode InitializeShareGroupStateResponse_PartitionResult_decode InitializeShareGroupStateResponse_PartitionResult_encoded_len (InitializeShareGroupStateResponse_PartitionResult_wf version) version"
proof
  fix x
  assume w: "InitializeShareGroupStateResponse_PartitionResult_wf version x"
  show "carries (InitializeShareGroupStateResponse_PartitionResult_encode x version) (InitializeShareGroupStateResponse_PartitionResult_decode version) (InitializeShareGroupStateResponse_PartitionResult_encoded_len x version) x"
    unfolding InitializeShareGroupStateResponse_PartitionResult_encode_def InitializeShareGroupStateResponse_PartitionResult_encoded_len_def InitializeShareGroupStateResponse_PartitionResult_decode_def Let_def
    by (use w[unfolded InitializeShareGroupStateResponse_PartitionResult_wf_def InitializeShareGroupStateResponse_PartitionResult_fields_wf_def Let_def] in \<open>elim conjE\<close>, rule carries_cong_len)
      ((rule carries_rules | (erule absent_guarded, assumption) | erule absent_plain
        | simp add: v field_ok_def InitializeShareGroupStateResponse_PartitionResult_default_def )+)
next
  show "yields 1 (InitializeShareGroupStateResponse_PartitionResult_decode version) (InitializeShareGroupStateResponse_PartitionResult_wf version)"
    by (rule initialize_share_group_state_response_partition_result_yields[OF v])
qed (rule initialize_share_group_state_response_partition_result_extends)

lemma initialize_share_group_state_response_partition_result_default_wf [simp]: "0 \<le>s version \<Longrightarrow> InitializeShareGroupStateResponse_PartitionResult_wf version InitializeShareGroupStateResponse_PartitionResult_default"
  by (simp add: InitializeShareGroupStateResponse_PartitionResult_wf_def InitializeShareGroupStateResponse_PartitionResult_default_def trailer_ok_def initialize_share_group_state_response_partition_result_fields)

lemmas [carries_rules] = message_codec.message_carries[OF initialize_share_group_state_response_partition_result_codec]
lemmas [yields_rules] = message_codec.message_yields[OF initialize_share_group_state_response_partition_result_codec]

lemmas [carries_rules] = protocol_codec.put_array_carries[OF message_codec.message_protocol[OF initialize_share_group_state_response_partition_result_codec]]
lemmas [yields_rules] = protocol_codec.get_array_yields[OF message_codec.message_protocol[OF initialize_share_group_state_response_partition_result_codec]]
lemmas [carries_rules] = protocol_codec.put_nullable_array_carries[OF message_codec.message_protocol[OF initialize_share_group_state_response_partition_result_codec]]
lemmas [yields_rules] = protocol_codec.get_nullable_array_yields[OF message_codec.message_protocol[OF initialize_share_group_state_response_partition_result_codec]]

record InitializeShareGroupStateResponse_InitializeStateResult =
  isgs_resp_isr_topic_id :: Uuid
  isgs_resp_isr_partitions :: "InitializeShareGroupStateResponse_PartitionResult list"
  isgs_resp_isr_unknown_tagged_fields :: "UnknownTaggedField list"

definition InitializeShareGroupStateResponse_InitializeStateResult_default :: InitializeShareGroupStateResponse_InitializeStateResult where
  "InitializeShareGroupStateResponse_InitializeStateResult_default =
     \<lparr>isgs_resp_isr_topic_id = Uuid_ZERO, isgs_resp_isr_partitions = [], isgs_resp_isr_unknown_tagged_fields = []\<rparr>"

definition InitializeShareGroupStateResponse_InitializeStateResult_encode :: "InitializeShareGroupStateResponse_InitializeStateResult \<Rightarrow> i16 \<Rightarrow> encoder" where
  "InitializeShareGroupStateResponse_InitializeStateResult_encode x version =
     (let flex = 0 \<le>s version in
      write_all
        [put_when (0 \<le>s version) (put_uuid (isgs_resp_isr_topic_id x)),
         put_when (0 \<le>s version) (put_array flex (\<lambda>it. InitializeShareGroupStateResponse_PartitionResult_encode it version) (isgs_resp_isr_partitions x)),
         put_when flex (put_tagged [] (isgs_resp_isr_unknown_tagged_fields x))])"

definition InitializeShareGroupStateResponse_InitializeStateResult_encoded_len :: "InitializeShareGroupStateResponse_InitializeStateResult \<Rightarrow> i16 \<Rightarrow> nat" where
  "InitializeShareGroupStateResponse_InitializeStateResult_encoded_len x version =
     (let flex = 0 \<le>s version in
      len_when (0 \<le>s version) 16
      + len_when (0 \<le>s version) (array_size flex (\<lambda>it. InitializeShareGroupStateResponse_PartitionResult_encoded_len it version) (isgs_resp_isr_partitions x))
      + len_when flex (tagged_size [] (isgs_resp_isr_unknown_tagged_fields x)))"

definition InitializeShareGroupStateResponse_InitializeStateResult_decode :: "i16 \<Rightarrow> InitializeShareGroupStateResponse_InitializeStateResult decoder" where
  "InitializeShareGroupStateResponse_InitializeStateResult_decode version =
     (let flex = 0 \<le>s version in
      read_then (get_into (0 \<le>s version) get_uuid (\<lambda>v out. out\<lparr>isgs_resp_isr_topic_id := v\<rparr>) InitializeShareGroupStateResponse_InitializeStateResult_default) (\<lambda>out.
        read_then (get_into (0 \<le>s version) (get_array flex (InitializeShareGroupStateResponse_PartitionResult_decode version)) (\<lambda>v out. out\<lparr>isgs_resp_isr_partitions := v\<rparr>) out) (\<lambda>out.
        get_trailer flex [] (\<lambda>u out. out\<lparr>isgs_resp_isr_unknown_tagged_fields := u\<rparr>) out)))"

definition InitializeShareGroupStateResponse_InitializeStateResult_fields_wf :: "i16 \<Rightarrow> InitializeShareGroupStateResponse_InitializeStateResult \<Rightarrow> bool" where
  "InitializeShareGroupStateResponse_InitializeStateResult_fields_wf version x \<longleftrightarrow>
     (let flex = 0 \<le>s version in
      uuid_wf (isgs_resp_isr_topic_id x)
      \<and> array_ok flex (InitializeShareGroupStateResponse_PartitionResult_wf version) (isgs_resp_isr_partitions x))"

definition InitializeShareGroupStateResponse_InitializeStateResult_wf :: "i16 \<Rightarrow> InitializeShareGroupStateResponse_InitializeStateResult \<Rightarrow> bool" where
  "InitializeShareGroupStateResponse_InitializeStateResult_wf version x \<longleftrightarrow>
     InitializeShareGroupStateResponse_InitializeStateResult_fields_wf version x \<and> trailer_ok [] [] (isgs_resp_isr_unknown_tagged_fields x)"

lemmas initialize_share_group_state_response_initialize_state_result_fields =
    Let_def field_ok_def InitializeShareGroupStateResponse_InitializeStateResult_fields_wf_def

lemma initialize_share_group_state_response_initialize_state_result_steps:
  assumes v: "0 \<le>s version" and flex: "flex = (0 \<le>s version)"
  shows "keeps (InitializeShareGroupStateResponse_InitializeStateResult_fields_wf version) (get_into (0 \<le>s version) get_uuid (\<lambda>v out. out\<lparr>isgs_resp_isr_topic_id := v\<rparr>))"
    and "keeps (InitializeShareGroupStateResponse_InitializeStateResult_fields_wf version) (get_into (0 \<le>s version) (get_array flex (InitializeShareGroupStateResponse_PartitionResult_decode version)) (\<lambda>v out. out\<lparr>isgs_resp_isr_partitions := v\<rparr>))"
  unfolding flex 
  by (rule keeps_into; (rule yields_rules)?; simp add: v initialize_share_group_state_response_initialize_state_result_fields)+

lemma initialize_share_group_state_response_initialize_state_result_unknown:
  "InitializeShareGroupStateResponse_InitializeStateResult_fields_wf version (s\<lparr>isgs_resp_isr_unknown_tagged_fields := u\<rparr>) = InitializeShareGroupStateResponse_InitializeStateResult_fields_wf version s"
  by (simp_all add: InitializeShareGroupStateResponse_InitializeStateResult_fields_wf_def)

lemma initialize_share_group_state_response_initialize_state_result_yields:
  assumes v: "0 \<le>s version"
  shows "yields 1 (InitializeShareGroupStateResponse_InitializeStateResult_decode version) (InitializeShareGroupStateResponse_InitializeStateResult_wf version)"
proof -
  have d: "InitializeShareGroupStateResponse_InitializeStateResult_fields_wf version InitializeShareGroupStateResponse_InitializeStateResult_default"
    by (simp add: InitializeShareGroupStateResponse_InitializeStateResult_default_def v initialize_share_group_state_response_initialize_state_result_fields)
  show ?thesis
    unfolding InitializeShareGroupStateResponse_InitializeStateResult_decode_def Let_def
    by ((rule initialize_share_group_state_response_initialize_state_result_steps[OF v refl, THEN yields_step], (rule d | assumption))+, rule yields_trailer[OF _ arms_keep_Nil[of "InitializeShareGroupStateResponse_InitializeStateResult_fields_wf version" "\<lambda>_. 0"]])
      (simp_all add: v d initialize_share_group_state_response_initialize_state_result_unknown InitializeShareGroupStateResponse_InitializeStateResult_wf_def trailer_ok_def )
qed

lemma initialize_share_group_state_response_initialize_state_result_extends [extends_rules]: "extends_input (InitializeShareGroupStateResponse_InitializeStateResult_decode version)"
  unfolding InitializeShareGroupStateResponse_InitializeStateResult_decode_def Let_def by (intro extends_rules)

lemma initialize_share_group_state_response_initialize_state_result_codec:
  assumes v: "0 \<le>s version"
  shows "message_codec InitializeShareGroupStateResponse_InitializeStateResult_encode InitializeShareGroupStateResponse_InitializeStateResult_decode InitializeShareGroupStateResponse_InitializeStateResult_encoded_len (InitializeShareGroupStateResponse_InitializeStateResult_wf version) version"
proof
  fix x
  assume w: "InitializeShareGroupStateResponse_InitializeStateResult_wf version x"
  show "carries (InitializeShareGroupStateResponse_InitializeStateResult_encode x version) (InitializeShareGroupStateResponse_InitializeStateResult_decode version) (InitializeShareGroupStateResponse_InitializeStateResult_encoded_len x version) x"
    unfolding InitializeShareGroupStateResponse_InitializeStateResult_encode_def InitializeShareGroupStateResponse_InitializeStateResult_encoded_len_def InitializeShareGroupStateResponse_InitializeStateResult_decode_def Let_def
    by (use w[unfolded InitializeShareGroupStateResponse_InitializeStateResult_wf_def InitializeShareGroupStateResponse_InitializeStateResult_fields_wf_def Let_def] in \<open>elim conjE\<close>, rule carries_cong_len)
      ((rule carries_rules | (erule absent_guarded, assumption) | erule absent_plain
        | simp add: v field_ok_def InitializeShareGroupStateResponse_InitializeStateResult_default_def )+)
next
  show "yields 1 (InitializeShareGroupStateResponse_InitializeStateResult_decode version) (InitializeShareGroupStateResponse_InitializeStateResult_wf version)"
    by (rule initialize_share_group_state_response_initialize_state_result_yields[OF v])
qed (rule initialize_share_group_state_response_initialize_state_result_extends)

lemma initialize_share_group_state_response_initialize_state_result_default_wf [simp]: "0 \<le>s version \<Longrightarrow> InitializeShareGroupStateResponse_InitializeStateResult_wf version InitializeShareGroupStateResponse_InitializeStateResult_default"
  by (simp add: InitializeShareGroupStateResponse_InitializeStateResult_wf_def InitializeShareGroupStateResponse_InitializeStateResult_default_def trailer_ok_def initialize_share_group_state_response_initialize_state_result_fields)

lemmas [carries_rules] = message_codec.message_carries[OF initialize_share_group_state_response_initialize_state_result_codec]
lemmas [yields_rules] = message_codec.message_yields[OF initialize_share_group_state_response_initialize_state_result_codec]

lemmas [carries_rules] = protocol_codec.put_array_carries[OF message_codec.message_protocol[OF initialize_share_group_state_response_initialize_state_result_codec]]
lemmas [yields_rules] = protocol_codec.get_array_yields[OF message_codec.message_protocol[OF initialize_share_group_state_response_initialize_state_result_codec]]
lemmas [carries_rules] = protocol_codec.put_nullable_array_carries[OF message_codec.message_protocol[OF initialize_share_group_state_response_initialize_state_result_codec]]
lemmas [yields_rules] = protocol_codec.get_nullable_array_yields[OF message_codec.message_protocol[OF initialize_share_group_state_response_initialize_state_result_codec]]

record InitializeShareGroupStateResponse =
  isgs_resp_results :: "InitializeShareGroupStateResponse_InitializeStateResult list"
  isgs_resp_unknown_tagged_fields :: "UnknownTaggedField list"

definition InitializeShareGroupStateResponse_default :: InitializeShareGroupStateResponse where
  "InitializeShareGroupStateResponse_default =
     \<lparr>isgs_resp_results = [], isgs_resp_unknown_tagged_fields = []\<rparr>"

definition InitializeShareGroupStateResponse_MIN_VERSION :: i16 where
  "InitializeShareGroupStateResponse_MIN_VERSION = 0"

definition InitializeShareGroupStateResponse_MAX_VERSION :: i16 where
  "InitializeShareGroupStateResponse_MAX_VERSION = 0"

definition InitializeShareGroupStateResponse_FLEXIBLE_MIN :: i16 where
  "InitializeShareGroupStateResponse_FLEXIBLE_MIN = 0"

definition InitializeShareGroupStateResponse_API_KEY :: i16 where
  "InitializeShareGroupStateResponse_API_KEY = 83"

definition InitializeShareGroupStateResponse_is_flexible :: "i16 \<Rightarrow> bool" where
  "InitializeShareGroupStateResponse_is_flexible version \<longleftrightarrow> InitializeShareGroupStateResponse_FLEXIBLE_MIN \<le>s version"

definition InitializeShareGroupStateResponse_encode :: "InitializeShareGroupStateResponse \<Rightarrow> i16 \<Rightarrow> encoder" where
  "InitializeShareGroupStateResponse_encode x version =
     (let flex = InitializeShareGroupStateResponse_is_flexible version in
      write_all
        [write_check (check_version InitializeShareGroupStateResponse_API_KEY version InitializeShareGroupStateResponse_MIN_VERSION InitializeShareGroupStateResponse_MAX_VERSION),
         put_when (0 \<le>s version) (put_array flex (\<lambda>it. InitializeShareGroupStateResponse_InitializeStateResult_encode it version) (isgs_resp_results x)),
         put_when flex (put_tagged [] (isgs_resp_unknown_tagged_fields x))])"

definition InitializeShareGroupStateResponse_encoded_len :: "InitializeShareGroupStateResponse \<Rightarrow> i16 \<Rightarrow> nat" where
  "InitializeShareGroupStateResponse_encoded_len x version =
     (let flex = InitializeShareGroupStateResponse_is_flexible version in
      len_when (0 \<le>s version) (array_size flex (\<lambda>it. InitializeShareGroupStateResponse_InitializeStateResult_encoded_len it version) (isgs_resp_results x))
      + len_when flex (tagged_size [] (isgs_resp_unknown_tagged_fields x)))"

definition InitializeShareGroupStateResponse_decode :: "i16 \<Rightarrow> InitializeShareGroupStateResponse decoder" where
  "InitializeShareGroupStateResponse_decode version =
     (let flex = InitializeShareGroupStateResponse_is_flexible version in
      checked (check_version InitializeShareGroupStateResponse_API_KEY version InitializeShareGroupStateResponse_MIN_VERSION InitializeShareGroupStateResponse_MAX_VERSION) (
        read_then (get_into (0 \<le>s version) (get_array flex (InitializeShareGroupStateResponse_InitializeStateResult_decode version)) (\<lambda>v out. out\<lparr>isgs_resp_results := v\<rparr>) InitializeShareGroupStateResponse_default) (\<lambda>out.
        get_trailer flex [] (\<lambda>u out. out\<lparr>isgs_resp_unknown_tagged_fields := u\<rparr>) out)))"

definition InitializeShareGroupStateResponse_fields_wf :: "i16 \<Rightarrow> InitializeShareGroupStateResponse \<Rightarrow> bool" where
  "InitializeShareGroupStateResponse_fields_wf version x \<longleftrightarrow>
     (let flex = InitializeShareGroupStateResponse_is_flexible version in
      array_ok flex (InitializeShareGroupStateResponse_InitializeStateResult_wf version) (isgs_resp_results x))"

definition InitializeShareGroupStateResponse_wf :: "i16 \<Rightarrow> InitializeShareGroupStateResponse \<Rightarrow> bool" where
  "InitializeShareGroupStateResponse_wf version x \<longleftrightarrow>
     version_in InitializeShareGroupStateResponse_MIN_VERSION InitializeShareGroupStateResponse_MAX_VERSION version \<and> InitializeShareGroupStateResponse_fields_wf version x \<and> trailer_ok [] [] (isgs_resp_unknown_tagged_fields x)"

lemmas initialize_share_group_state_response_versions =
    InitializeShareGroupStateResponse_is_flexible_def InitializeShareGroupStateResponse_FLEXIBLE_MIN_def
    InitializeShareGroupStateResponse_MIN_VERSION_def InitializeShareGroupStateResponse_MAX_VERSION_def
    version_in_def

lemmas initialize_share_group_state_response_fields =
    Let_def field_ok_def InitializeShareGroupStateResponse_fields_wf_def
    InitializeShareGroupStateResponse_is_flexible_def InitializeShareGroupStateResponse_FLEXIBLE_MIN_def

lemma initialize_share_group_state_response_steps:
  assumes v: "0 \<le>s version" and flex: "flex = (InitializeShareGroupStateResponse_is_flexible version)"
  shows "keeps (InitializeShareGroupStateResponse_fields_wf version) (get_into (0 \<le>s version) (get_array flex (InitializeShareGroupStateResponse_InitializeStateResult_decode version)) (\<lambda>v out. out\<lparr>isgs_resp_results := v\<rparr>))"
  unfolding flex 
  by (rule keeps_into; (rule yields_rules)?; simp add: v initialize_share_group_state_response_fields)+

lemma initialize_share_group_state_response_unknown:
  "InitializeShareGroupStateResponse_fields_wf version (s\<lparr>isgs_resp_unknown_tagged_fields := u\<rparr>) = InitializeShareGroupStateResponse_fields_wf version s"
  by (simp_all add: InitializeShareGroupStateResponse_fields_wf_def)

lemma initialize_share_group_state_response_yields:
  assumes r: "version_in InitializeShareGroupStateResponse_MIN_VERSION InitializeShareGroupStateResponse_MAX_VERSION version"
  shows "yields 1 (InitializeShareGroupStateResponse_decode version) (InitializeShareGroupStateResponse_wf version)"
proof -
  have v: "0 \<le>s version"
    using r by (simp add: initialize_share_group_state_response_versions)
  have d: "InitializeShareGroupStateResponse_fields_wf version InitializeShareGroupStateResponse_default"
    by (simp add: InitializeShareGroupStateResponse_default_def v initialize_share_group_state_response_fields)
  show ?thesis
    unfolding InitializeShareGroupStateResponse_decode_def Let_def
    by (rule yields_checked, (rule initialize_share_group_state_response_steps[OF v refl, THEN yields_step], (rule d | assumption))+, rule yields_trailer[OF _ arms_keep_Nil[of "InitializeShareGroupStateResponse_fields_wf version" "\<lambda>_. 0"]])
      (simp_all add: v d initialize_share_group_state_response_unknown InitializeShareGroupStateResponse_wf_def trailer_ok_def r InitializeShareGroupStateResponse_is_flexible_def InitializeShareGroupStateResponse_FLEXIBLE_MIN_def)
qed

interpretation initialize_share_group_state_response: message_codec
  InitializeShareGroupStateResponse_encode InitializeShareGroupStateResponse_decode InitializeShareGroupStateResponse_encoded_len "InitializeShareGroupStateResponse_wf version" version
  for version
proof
  fix x
  assume w: "InitializeShareGroupStateResponse_wf version x"
  then have v: "0 \<le>s version"
    by (simp add: InitializeShareGroupStateResponse_wf_def initialize_share_group_state_response_versions)
  show "carries (InitializeShareGroupStateResponse_encode x version) (InitializeShareGroupStateResponse_decode version) (InitializeShareGroupStateResponse_encoded_len x version) x"
    unfolding InitializeShareGroupStateResponse_encode_def InitializeShareGroupStateResponse_encoded_len_def InitializeShareGroupStateResponse_decode_def Let_def
    by (use w[unfolded InitializeShareGroupStateResponse_wf_def InitializeShareGroupStateResponse_fields_wf_def Let_def] in \<open>elim conjE\<close>, rule carries_cong_len)
      ((rule carries_rules check_version_in[THEN iffD2] | (erule absent_guarded, assumption) | erule absent_plain
        | simp add: v field_ok_def InitializeShareGroupStateResponse_default_def initialize_share_group_state_response_versions)+)
next
  show "yields 1 (InitializeShareGroupStateResponse_decode version) (InitializeShareGroupStateResponse_wf version)"
    by (rule case_split[OF initialize_share_group_state_response_yields]) (auto simp: InitializeShareGroupStateResponse_decode_def Let_def yields_refused yields_unsupported)
  show "extends_input (InitializeShareGroupStateResponse_decode version)"
    unfolding InitializeShareGroupStateResponse_decode_def Let_def by (intro extends_rules)
qed

section \<open>ReadShareGroupStateRequest\<close>

record ReadShareGroupStateRequest_PartitionData =
  rsgs_req_pd_partition :: i32
  rsgs_req_pd_leader_epoch :: i32
  rsgs_req_pd_unknown_tagged_fields :: "UnknownTaggedField list"

definition ReadShareGroupStateRequest_PartitionData_default :: ReadShareGroupStateRequest_PartitionData where
  "ReadShareGroupStateRequest_PartitionData_default =
     \<lparr>rsgs_req_pd_partition = 0, rsgs_req_pd_leader_epoch = 0, rsgs_req_pd_unknown_tagged_fields = []\<rparr>"

definition ReadShareGroupStateRequest_PartitionData_encode :: "ReadShareGroupStateRequest_PartitionData \<Rightarrow> i16 \<Rightarrow> encoder" where
  "ReadShareGroupStateRequest_PartitionData_encode x version =
     (let flex = 0 \<le>s version in
      write_all
        [put_when (0 \<le>s version) (put_i32 (rsgs_req_pd_partition x)),
         put_when (0 \<le>s version) (put_i32 (rsgs_req_pd_leader_epoch x)),
         put_when flex (put_tagged [] (rsgs_req_pd_unknown_tagged_fields x))])"

definition ReadShareGroupStateRequest_PartitionData_encoded_len :: "ReadShareGroupStateRequest_PartitionData \<Rightarrow> i16 \<Rightarrow> nat" where
  "ReadShareGroupStateRequest_PartitionData_encoded_len x version =
     (let flex = 0 \<le>s version in
      len_when (0 \<le>s version) 4
      + len_when (0 \<le>s version) 4
      + len_when flex (tagged_size [] (rsgs_req_pd_unknown_tagged_fields x)))"

definition ReadShareGroupStateRequest_PartitionData_decode :: "i16 \<Rightarrow> ReadShareGroupStateRequest_PartitionData decoder" where
  "ReadShareGroupStateRequest_PartitionData_decode version =
     (let flex = 0 \<le>s version in
      read_then (get_into (0 \<le>s version) get_i32 (\<lambda>v out. out\<lparr>rsgs_req_pd_partition := v\<rparr>) ReadShareGroupStateRequest_PartitionData_default) (\<lambda>out.
        read_then (get_into (0 \<le>s version) get_i32 (\<lambda>v out. out\<lparr>rsgs_req_pd_leader_epoch := v\<rparr>) out) (\<lambda>out.
        get_trailer flex [] (\<lambda>u out. out\<lparr>rsgs_req_pd_unknown_tagged_fields := u\<rparr>) out)))"

definition ReadShareGroupStateRequest_PartitionData_fields_wf :: "i16 \<Rightarrow> ReadShareGroupStateRequest_PartitionData \<Rightarrow> bool" where
  "ReadShareGroupStateRequest_PartitionData_fields_wf version x \<longleftrightarrow>
     True"

definition ReadShareGroupStateRequest_PartitionData_wf :: "i16 \<Rightarrow> ReadShareGroupStateRequest_PartitionData \<Rightarrow> bool" where
  "ReadShareGroupStateRequest_PartitionData_wf version x \<longleftrightarrow>
     ReadShareGroupStateRequest_PartitionData_fields_wf version x \<and> trailer_ok [] [] (rsgs_req_pd_unknown_tagged_fields x)"

lemmas read_share_group_state_request_partition_data_fields =
    Let_def field_ok_def ReadShareGroupStateRequest_PartitionData_fields_wf_def

lemma read_share_group_state_request_partition_data_steps:
  assumes v: "0 \<le>s version" and flex: "flex = (0 \<le>s version)"
  shows "keeps (ReadShareGroupStateRequest_PartitionData_fields_wf version) (get_into (0 \<le>s version) get_i32 (\<lambda>v out. out\<lparr>rsgs_req_pd_partition := v\<rparr>))"
    and "keeps (ReadShareGroupStateRequest_PartitionData_fields_wf version) (get_into (0 \<le>s version) get_i32 (\<lambda>v out. out\<lparr>rsgs_req_pd_leader_epoch := v\<rparr>))"
  unfolding flex 
  by (rule keeps_into; (rule yields_rules)?; simp add: v read_share_group_state_request_partition_data_fields)+

lemma read_share_group_state_request_partition_data_unknown:
  "ReadShareGroupStateRequest_PartitionData_fields_wf version (s\<lparr>rsgs_req_pd_unknown_tagged_fields := u\<rparr>) = ReadShareGroupStateRequest_PartitionData_fields_wf version s"
  by (simp_all add: ReadShareGroupStateRequest_PartitionData_fields_wf_def)

lemma read_share_group_state_request_partition_data_yields:
  assumes v: "0 \<le>s version"
  shows "yields 1 (ReadShareGroupStateRequest_PartitionData_decode version) (ReadShareGroupStateRequest_PartitionData_wf version)"
proof -
  have d: "ReadShareGroupStateRequest_PartitionData_fields_wf version ReadShareGroupStateRequest_PartitionData_default"
    by (simp add: ReadShareGroupStateRequest_PartitionData_default_def v read_share_group_state_request_partition_data_fields)
  show ?thesis
    unfolding ReadShareGroupStateRequest_PartitionData_decode_def Let_def
    by ((rule read_share_group_state_request_partition_data_steps[OF v refl, THEN yields_step], (rule d | assumption))+, rule yields_trailer[OF _ arms_keep_Nil[of "ReadShareGroupStateRequest_PartitionData_fields_wf version" "\<lambda>_. 0"]])
      (simp_all add: v d read_share_group_state_request_partition_data_unknown ReadShareGroupStateRequest_PartitionData_wf_def trailer_ok_def )
qed

lemma read_share_group_state_request_partition_data_extends [extends_rules]: "extends_input (ReadShareGroupStateRequest_PartitionData_decode version)"
  unfolding ReadShareGroupStateRequest_PartitionData_decode_def Let_def by (intro extends_rules)

lemma read_share_group_state_request_partition_data_codec:
  assumes v: "0 \<le>s version"
  shows "message_codec ReadShareGroupStateRequest_PartitionData_encode ReadShareGroupStateRequest_PartitionData_decode ReadShareGroupStateRequest_PartitionData_encoded_len (ReadShareGroupStateRequest_PartitionData_wf version) version"
proof
  fix x
  assume w: "ReadShareGroupStateRequest_PartitionData_wf version x"
  show "carries (ReadShareGroupStateRequest_PartitionData_encode x version) (ReadShareGroupStateRequest_PartitionData_decode version) (ReadShareGroupStateRequest_PartitionData_encoded_len x version) x"
    unfolding ReadShareGroupStateRequest_PartitionData_encode_def ReadShareGroupStateRequest_PartitionData_encoded_len_def ReadShareGroupStateRequest_PartitionData_decode_def Let_def
    by (use w[unfolded ReadShareGroupStateRequest_PartitionData_wf_def ReadShareGroupStateRequest_PartitionData_fields_wf_def Let_def] in \<open>elim conjE\<close>, rule carries_cong_len)
      ((rule carries_rules | (erule absent_guarded, assumption) | erule absent_plain
        | simp add: v field_ok_def ReadShareGroupStateRequest_PartitionData_default_def )+)
next
  show "yields 1 (ReadShareGroupStateRequest_PartitionData_decode version) (ReadShareGroupStateRequest_PartitionData_wf version)"
    by (rule read_share_group_state_request_partition_data_yields[OF v])
qed (rule read_share_group_state_request_partition_data_extends)

lemma read_share_group_state_request_partition_data_default_wf [simp]: "0 \<le>s version \<Longrightarrow> ReadShareGroupStateRequest_PartitionData_wf version ReadShareGroupStateRequest_PartitionData_default"
  by (simp add: ReadShareGroupStateRequest_PartitionData_wf_def ReadShareGroupStateRequest_PartitionData_default_def trailer_ok_def read_share_group_state_request_partition_data_fields)

lemmas [carries_rules] = message_codec.message_carries[OF read_share_group_state_request_partition_data_codec]
lemmas [yields_rules] = message_codec.message_yields[OF read_share_group_state_request_partition_data_codec]

lemmas [carries_rules] = protocol_codec.put_array_carries[OF message_codec.message_protocol[OF read_share_group_state_request_partition_data_codec]]
lemmas [yields_rules] = protocol_codec.get_array_yields[OF message_codec.message_protocol[OF read_share_group_state_request_partition_data_codec]]
lemmas [carries_rules] = protocol_codec.put_nullable_array_carries[OF message_codec.message_protocol[OF read_share_group_state_request_partition_data_codec]]
lemmas [yields_rules] = protocol_codec.get_nullable_array_yields[OF message_codec.message_protocol[OF read_share_group_state_request_partition_data_codec]]

record ReadShareGroupStateRequest_ReadStateData =
  rsgs_req_rsd_topic_id :: Uuid
  rsgs_req_rsd_partitions :: "ReadShareGroupStateRequest_PartitionData list"
  rsgs_req_rsd_unknown_tagged_fields :: "UnknownTaggedField list"

definition ReadShareGroupStateRequest_ReadStateData_default :: ReadShareGroupStateRequest_ReadStateData where
  "ReadShareGroupStateRequest_ReadStateData_default =
     \<lparr>rsgs_req_rsd_topic_id = Uuid_ZERO, rsgs_req_rsd_partitions = [], rsgs_req_rsd_unknown_tagged_fields = []\<rparr>"

definition ReadShareGroupStateRequest_ReadStateData_encode :: "ReadShareGroupStateRequest_ReadStateData \<Rightarrow> i16 \<Rightarrow> encoder" where
  "ReadShareGroupStateRequest_ReadStateData_encode x version =
     (let flex = 0 \<le>s version in
      write_all
        [put_when (0 \<le>s version) (put_uuid (rsgs_req_rsd_topic_id x)),
         put_when (0 \<le>s version) (put_array flex (\<lambda>it. ReadShareGroupStateRequest_PartitionData_encode it version) (rsgs_req_rsd_partitions x)),
         put_when flex (put_tagged [] (rsgs_req_rsd_unknown_tagged_fields x))])"

definition ReadShareGroupStateRequest_ReadStateData_encoded_len :: "ReadShareGroupStateRequest_ReadStateData \<Rightarrow> i16 \<Rightarrow> nat" where
  "ReadShareGroupStateRequest_ReadStateData_encoded_len x version =
     (let flex = 0 \<le>s version in
      len_when (0 \<le>s version) 16
      + len_when (0 \<le>s version) (array_size flex (\<lambda>it. ReadShareGroupStateRequest_PartitionData_encoded_len it version) (rsgs_req_rsd_partitions x))
      + len_when flex (tagged_size [] (rsgs_req_rsd_unknown_tagged_fields x)))"

definition ReadShareGroupStateRequest_ReadStateData_decode :: "i16 \<Rightarrow> ReadShareGroupStateRequest_ReadStateData decoder" where
  "ReadShareGroupStateRequest_ReadStateData_decode version =
     (let flex = 0 \<le>s version in
      read_then (get_into (0 \<le>s version) get_uuid (\<lambda>v out. out\<lparr>rsgs_req_rsd_topic_id := v\<rparr>) ReadShareGroupStateRequest_ReadStateData_default) (\<lambda>out.
        read_then (get_into (0 \<le>s version) (get_array flex (ReadShareGroupStateRequest_PartitionData_decode version)) (\<lambda>v out. out\<lparr>rsgs_req_rsd_partitions := v\<rparr>) out) (\<lambda>out.
        get_trailer flex [] (\<lambda>u out. out\<lparr>rsgs_req_rsd_unknown_tagged_fields := u\<rparr>) out)))"

definition ReadShareGroupStateRequest_ReadStateData_fields_wf :: "i16 \<Rightarrow> ReadShareGroupStateRequest_ReadStateData \<Rightarrow> bool" where
  "ReadShareGroupStateRequest_ReadStateData_fields_wf version x \<longleftrightarrow>
     (let flex = 0 \<le>s version in
      uuid_wf (rsgs_req_rsd_topic_id x)
      \<and> array_ok flex (ReadShareGroupStateRequest_PartitionData_wf version) (rsgs_req_rsd_partitions x))"

definition ReadShareGroupStateRequest_ReadStateData_wf :: "i16 \<Rightarrow> ReadShareGroupStateRequest_ReadStateData \<Rightarrow> bool" where
  "ReadShareGroupStateRequest_ReadStateData_wf version x \<longleftrightarrow>
     ReadShareGroupStateRequest_ReadStateData_fields_wf version x \<and> trailer_ok [] [] (rsgs_req_rsd_unknown_tagged_fields x)"

lemmas read_share_group_state_request_read_state_data_fields =
    Let_def field_ok_def ReadShareGroupStateRequest_ReadStateData_fields_wf_def

lemma read_share_group_state_request_read_state_data_steps:
  assumes v: "0 \<le>s version" and flex: "flex = (0 \<le>s version)"
  shows "keeps (ReadShareGroupStateRequest_ReadStateData_fields_wf version) (get_into (0 \<le>s version) get_uuid (\<lambda>v out. out\<lparr>rsgs_req_rsd_topic_id := v\<rparr>))"
    and "keeps (ReadShareGroupStateRequest_ReadStateData_fields_wf version) (get_into (0 \<le>s version) (get_array flex (ReadShareGroupStateRequest_PartitionData_decode version)) (\<lambda>v out. out\<lparr>rsgs_req_rsd_partitions := v\<rparr>))"
  unfolding flex 
  by (rule keeps_into; (rule yields_rules)?; simp add: v read_share_group_state_request_read_state_data_fields)+

lemma read_share_group_state_request_read_state_data_unknown:
  "ReadShareGroupStateRequest_ReadStateData_fields_wf version (s\<lparr>rsgs_req_rsd_unknown_tagged_fields := u\<rparr>) = ReadShareGroupStateRequest_ReadStateData_fields_wf version s"
  by (simp_all add: ReadShareGroupStateRequest_ReadStateData_fields_wf_def)

lemma read_share_group_state_request_read_state_data_yields:
  assumes v: "0 \<le>s version"
  shows "yields 1 (ReadShareGroupStateRequest_ReadStateData_decode version) (ReadShareGroupStateRequest_ReadStateData_wf version)"
proof -
  have d: "ReadShareGroupStateRequest_ReadStateData_fields_wf version ReadShareGroupStateRequest_ReadStateData_default"
    by (simp add: ReadShareGroupStateRequest_ReadStateData_default_def v read_share_group_state_request_read_state_data_fields)
  show ?thesis
    unfolding ReadShareGroupStateRequest_ReadStateData_decode_def Let_def
    by ((rule read_share_group_state_request_read_state_data_steps[OF v refl, THEN yields_step], (rule d | assumption))+, rule yields_trailer[OF _ arms_keep_Nil[of "ReadShareGroupStateRequest_ReadStateData_fields_wf version" "\<lambda>_. 0"]])
      (simp_all add: v d read_share_group_state_request_read_state_data_unknown ReadShareGroupStateRequest_ReadStateData_wf_def trailer_ok_def )
qed

lemma read_share_group_state_request_read_state_data_extends [extends_rules]: "extends_input (ReadShareGroupStateRequest_ReadStateData_decode version)"
  unfolding ReadShareGroupStateRequest_ReadStateData_decode_def Let_def by (intro extends_rules)

lemma read_share_group_state_request_read_state_data_codec:
  assumes v: "0 \<le>s version"
  shows "message_codec ReadShareGroupStateRequest_ReadStateData_encode ReadShareGroupStateRequest_ReadStateData_decode ReadShareGroupStateRequest_ReadStateData_encoded_len (ReadShareGroupStateRequest_ReadStateData_wf version) version"
proof
  fix x
  assume w: "ReadShareGroupStateRequest_ReadStateData_wf version x"
  show "carries (ReadShareGroupStateRequest_ReadStateData_encode x version) (ReadShareGroupStateRequest_ReadStateData_decode version) (ReadShareGroupStateRequest_ReadStateData_encoded_len x version) x"
    unfolding ReadShareGroupStateRequest_ReadStateData_encode_def ReadShareGroupStateRequest_ReadStateData_encoded_len_def ReadShareGroupStateRequest_ReadStateData_decode_def Let_def
    by (use w[unfolded ReadShareGroupStateRequest_ReadStateData_wf_def ReadShareGroupStateRequest_ReadStateData_fields_wf_def Let_def] in \<open>elim conjE\<close>, rule carries_cong_len)
      ((rule carries_rules | (erule absent_guarded, assumption) | erule absent_plain
        | simp add: v field_ok_def ReadShareGroupStateRequest_ReadStateData_default_def )+)
next
  show "yields 1 (ReadShareGroupStateRequest_ReadStateData_decode version) (ReadShareGroupStateRequest_ReadStateData_wf version)"
    by (rule read_share_group_state_request_read_state_data_yields[OF v])
qed (rule read_share_group_state_request_read_state_data_extends)

lemma read_share_group_state_request_read_state_data_default_wf [simp]: "0 \<le>s version \<Longrightarrow> ReadShareGroupStateRequest_ReadStateData_wf version ReadShareGroupStateRequest_ReadStateData_default"
  by (simp add: ReadShareGroupStateRequest_ReadStateData_wf_def ReadShareGroupStateRequest_ReadStateData_default_def trailer_ok_def read_share_group_state_request_read_state_data_fields)

lemmas [carries_rules] = message_codec.message_carries[OF read_share_group_state_request_read_state_data_codec]
lemmas [yields_rules] = message_codec.message_yields[OF read_share_group_state_request_read_state_data_codec]

lemmas [carries_rules] = protocol_codec.put_array_carries[OF message_codec.message_protocol[OF read_share_group_state_request_read_state_data_codec]]
lemmas [yields_rules] = protocol_codec.get_array_yields[OF message_codec.message_protocol[OF read_share_group_state_request_read_state_data_codec]]
lemmas [carries_rules] = protocol_codec.put_nullable_array_carries[OF message_codec.message_protocol[OF read_share_group_state_request_read_state_data_codec]]
lemmas [yields_rules] = protocol_codec.get_nullable_array_yields[OF message_codec.message_protocol[OF read_share_group_state_request_read_state_data_codec]]

record ReadShareGroupStateRequest =
  rsgs_req_group_id :: bytes
  rsgs_req_topics :: "ReadShareGroupStateRequest_ReadStateData list"
  rsgs_req_unknown_tagged_fields :: "UnknownTaggedField list"

definition ReadShareGroupStateRequest_default :: ReadShareGroupStateRequest where
  "ReadShareGroupStateRequest_default =
     \<lparr>rsgs_req_group_id = [], rsgs_req_topics = [], rsgs_req_unknown_tagged_fields = []\<rparr>"

definition ReadShareGroupStateRequest_MIN_VERSION :: i16 where
  "ReadShareGroupStateRequest_MIN_VERSION = 0"

definition ReadShareGroupStateRequest_MAX_VERSION :: i16 where
  "ReadShareGroupStateRequest_MAX_VERSION = 0"

definition ReadShareGroupStateRequest_FLEXIBLE_MIN :: i16 where
  "ReadShareGroupStateRequest_FLEXIBLE_MIN = 0"

definition ReadShareGroupStateRequest_API_KEY :: i16 where
  "ReadShareGroupStateRequest_API_KEY = 84"

definition ReadShareGroupStateRequest_is_flexible :: "i16 \<Rightarrow> bool" where
  "ReadShareGroupStateRequest_is_flexible version \<longleftrightarrow> ReadShareGroupStateRequest_FLEXIBLE_MIN \<le>s version"

definition ReadShareGroupStateRequest_encode :: "ReadShareGroupStateRequest \<Rightarrow> i16 \<Rightarrow> encoder" where
  "ReadShareGroupStateRequest_encode x version =
     (let flex = ReadShareGroupStateRequest_is_flexible version in
      write_all
        [write_check (check_version ReadShareGroupStateRequest_API_KEY version ReadShareGroupStateRequest_MIN_VERSION ReadShareGroupStateRequest_MAX_VERSION),
         put_when (0 \<le>s version) (put_str flex (rsgs_req_group_id x)),
         put_when (0 \<le>s version) (put_array flex (\<lambda>it. ReadShareGroupStateRequest_ReadStateData_encode it version) (rsgs_req_topics x)),
         put_when flex (put_tagged [] (rsgs_req_unknown_tagged_fields x))])"

definition ReadShareGroupStateRequest_encoded_len :: "ReadShareGroupStateRequest \<Rightarrow> i16 \<Rightarrow> nat" where
  "ReadShareGroupStateRequest_encoded_len x version =
     (let flex = ReadShareGroupStateRequest_is_flexible version in
      len_when (0 \<le>s version) (str_len flex (rsgs_req_group_id x))
      + len_when (0 \<le>s version) (array_size flex (\<lambda>it. ReadShareGroupStateRequest_ReadStateData_encoded_len it version) (rsgs_req_topics x))
      + len_when flex (tagged_size [] (rsgs_req_unknown_tagged_fields x)))"

definition ReadShareGroupStateRequest_decode :: "i16 \<Rightarrow> ReadShareGroupStateRequest decoder" where
  "ReadShareGroupStateRequest_decode version =
     (let flex = ReadShareGroupStateRequest_is_flexible version in
      checked (check_version ReadShareGroupStateRequest_API_KEY version ReadShareGroupStateRequest_MIN_VERSION ReadShareGroupStateRequest_MAX_VERSION) (
        read_then (get_into (0 \<le>s version) (get_str flex) (\<lambda>v out. out\<lparr>rsgs_req_group_id := v\<rparr>) ReadShareGroupStateRequest_default) (\<lambda>out.
        read_then (get_into (0 \<le>s version) (get_array flex (ReadShareGroupStateRequest_ReadStateData_decode version)) (\<lambda>v out. out\<lparr>rsgs_req_topics := v\<rparr>) out) (\<lambda>out.
        get_trailer flex [] (\<lambda>u out. out\<lparr>rsgs_req_unknown_tagged_fields := u\<rparr>) out))))"

definition ReadShareGroupStateRequest_fields_wf :: "i16 \<Rightarrow> ReadShareGroupStateRequest \<Rightarrow> bool" where
  "ReadShareGroupStateRequest_fields_wf version x \<longleftrightarrow>
     (let flex = ReadShareGroupStateRequest_is_flexible version in
      str_wf flex (rsgs_req_group_id x)
      \<and> array_ok flex (ReadShareGroupStateRequest_ReadStateData_wf version) (rsgs_req_topics x))"

definition ReadShareGroupStateRequest_wf :: "i16 \<Rightarrow> ReadShareGroupStateRequest \<Rightarrow> bool" where
  "ReadShareGroupStateRequest_wf version x \<longleftrightarrow>
     version_in ReadShareGroupStateRequest_MIN_VERSION ReadShareGroupStateRequest_MAX_VERSION version \<and> ReadShareGroupStateRequest_fields_wf version x \<and> trailer_ok [] [] (rsgs_req_unknown_tagged_fields x)"

lemmas read_share_group_state_request_versions =
    ReadShareGroupStateRequest_is_flexible_def ReadShareGroupStateRequest_FLEXIBLE_MIN_def
    ReadShareGroupStateRequest_MIN_VERSION_def ReadShareGroupStateRequest_MAX_VERSION_def version_in_def

lemmas read_share_group_state_request_fields =
    Let_def field_ok_def ReadShareGroupStateRequest_fields_wf_def ReadShareGroupStateRequest_is_flexible_def
    ReadShareGroupStateRequest_FLEXIBLE_MIN_def

lemma read_share_group_state_request_steps:
  assumes v: "0 \<le>s version" and flex: "flex = (ReadShareGroupStateRequest_is_flexible version)"
  shows "keeps (ReadShareGroupStateRequest_fields_wf version) (get_into (0 \<le>s version) (get_str flex) (\<lambda>v out. out\<lparr>rsgs_req_group_id := v\<rparr>))"
    and "keeps (ReadShareGroupStateRequest_fields_wf version) (get_into (0 \<le>s version) (get_array flex (ReadShareGroupStateRequest_ReadStateData_decode version)) (\<lambda>v out. out\<lparr>rsgs_req_topics := v\<rparr>))"
  unfolding flex 
  by (rule keeps_into; (rule yields_rules)?; simp add: v read_share_group_state_request_fields)+

lemma read_share_group_state_request_unknown:
  "ReadShareGroupStateRequest_fields_wf version (s\<lparr>rsgs_req_unknown_tagged_fields := u\<rparr>) = ReadShareGroupStateRequest_fields_wf version s"
  by (simp_all add: ReadShareGroupStateRequest_fields_wf_def)

lemma read_share_group_state_request_yields:
  assumes r: "version_in ReadShareGroupStateRequest_MIN_VERSION ReadShareGroupStateRequest_MAX_VERSION version"
  shows "yields 1 (ReadShareGroupStateRequest_decode version) (ReadShareGroupStateRequest_wf version)"
proof -
  have v: "0 \<le>s version"
    using r by (simp add: read_share_group_state_request_versions)
  have d: "ReadShareGroupStateRequest_fields_wf version ReadShareGroupStateRequest_default"
    by (simp add: ReadShareGroupStateRequest_default_def v read_share_group_state_request_fields)
  show ?thesis
    unfolding ReadShareGroupStateRequest_decode_def Let_def
    by (rule yields_checked, (rule read_share_group_state_request_steps[OF v refl, THEN yields_step], (rule d | assumption))+, rule yields_trailer[OF _ arms_keep_Nil[of "ReadShareGroupStateRequest_fields_wf version" "\<lambda>_. 0"]])
      (simp_all add: v d read_share_group_state_request_unknown ReadShareGroupStateRequest_wf_def trailer_ok_def r ReadShareGroupStateRequest_is_flexible_def ReadShareGroupStateRequest_FLEXIBLE_MIN_def)
qed

interpretation read_share_group_state_request: message_codec
  ReadShareGroupStateRequest_encode ReadShareGroupStateRequest_decode ReadShareGroupStateRequest_encoded_len "ReadShareGroupStateRequest_wf version" version
  for version
proof
  fix x
  assume w: "ReadShareGroupStateRequest_wf version x"
  then have v: "0 \<le>s version"
    by (simp add: ReadShareGroupStateRequest_wf_def read_share_group_state_request_versions)
  show "carries (ReadShareGroupStateRequest_encode x version) (ReadShareGroupStateRequest_decode version) (ReadShareGroupStateRequest_encoded_len x version) x"
    unfolding ReadShareGroupStateRequest_encode_def ReadShareGroupStateRequest_encoded_len_def ReadShareGroupStateRequest_decode_def Let_def
    by (use w[unfolded ReadShareGroupStateRequest_wf_def ReadShareGroupStateRequest_fields_wf_def Let_def] in \<open>elim conjE\<close>, rule carries_cong_len)
      ((rule carries_rules check_version_in[THEN iffD2] | (erule absent_guarded, assumption) | erule absent_plain
        | simp add: v field_ok_def ReadShareGroupStateRequest_default_def read_share_group_state_request_versions)+)
next
  show "yields 1 (ReadShareGroupStateRequest_decode version) (ReadShareGroupStateRequest_wf version)"
    by (rule case_split[OF read_share_group_state_request_yields]) (auto simp: ReadShareGroupStateRequest_decode_def Let_def yields_refused yields_unsupported)
  show "extends_input (ReadShareGroupStateRequest_decode version)"
    unfolding ReadShareGroupStateRequest_decode_def Let_def by (intro extends_rules)
qed

section \<open>ReadShareGroupStateResponse\<close>

record ReadShareGroupStateResponse_StateBatch =
  rsgs_resp_sb_first_offset :: i64
  rsgs_resp_sb_last_offset :: i64
  rsgs_resp_sb_delivery_state :: i8
  rsgs_resp_sb_delivery_count :: i16
  rsgs_resp_sb_unknown_tagged_fields :: "UnknownTaggedField list"

definition ReadShareGroupStateResponse_StateBatch_default :: ReadShareGroupStateResponse_StateBatch where
  "ReadShareGroupStateResponse_StateBatch_default =
     \<lparr>rsgs_resp_sb_first_offset = 0, rsgs_resp_sb_last_offset = 0, rsgs_resp_sb_delivery_state = 0, rsgs_resp_sb_delivery_count = 0, rsgs_resp_sb_unknown_tagged_fields = []\<rparr>"

definition ReadShareGroupStateResponse_StateBatch_encode :: "ReadShareGroupStateResponse_StateBatch \<Rightarrow> i16 \<Rightarrow> encoder" where
  "ReadShareGroupStateResponse_StateBatch_encode x version =
     (let flex = 0 \<le>s version in
      write_all
        [put_when (0 \<le>s version) (put_i64 (rsgs_resp_sb_first_offset x)),
         put_when (0 \<le>s version) (put_i64 (rsgs_resp_sb_last_offset x)),
         put_when (0 \<le>s version) (put_i8 (rsgs_resp_sb_delivery_state x)),
         put_when (0 \<le>s version) (put_i16 (rsgs_resp_sb_delivery_count x)),
         put_when flex (put_tagged [] (rsgs_resp_sb_unknown_tagged_fields x))])"

definition ReadShareGroupStateResponse_StateBatch_encoded_len :: "ReadShareGroupStateResponse_StateBatch \<Rightarrow> i16 \<Rightarrow> nat" where
  "ReadShareGroupStateResponse_StateBatch_encoded_len x version =
     (let flex = 0 \<le>s version in
      len_when (0 \<le>s version) 8
      + len_when (0 \<le>s version) 8
      + len_when (0 \<le>s version) 1
      + len_when (0 \<le>s version) 2
      + len_when flex (tagged_size [] (rsgs_resp_sb_unknown_tagged_fields x)))"

definition ReadShareGroupStateResponse_StateBatch_decode :: "i16 \<Rightarrow> ReadShareGroupStateResponse_StateBatch decoder" where
  "ReadShareGroupStateResponse_StateBatch_decode version =
     (let flex = 0 \<le>s version in
      read_then (get_into (0 \<le>s version) get_i64 (\<lambda>v out. out\<lparr>rsgs_resp_sb_first_offset := v\<rparr>) ReadShareGroupStateResponse_StateBatch_default) (\<lambda>out.
        read_then (get_into (0 \<le>s version) get_i64 (\<lambda>v out. out\<lparr>rsgs_resp_sb_last_offset := v\<rparr>) out) (\<lambda>out.
        read_then (get_into (0 \<le>s version) get_i8 (\<lambda>v out. out\<lparr>rsgs_resp_sb_delivery_state := v\<rparr>) out) (\<lambda>out.
        read_then (get_into (0 \<le>s version) get_i16 (\<lambda>v out. out\<lparr>rsgs_resp_sb_delivery_count := v\<rparr>) out) (\<lambda>out.
        get_trailer flex [] (\<lambda>u out. out\<lparr>rsgs_resp_sb_unknown_tagged_fields := u\<rparr>) out)))))"

definition ReadShareGroupStateResponse_StateBatch_fields_wf :: "i16 \<Rightarrow> ReadShareGroupStateResponse_StateBatch \<Rightarrow> bool" where
  "ReadShareGroupStateResponse_StateBatch_fields_wf version x \<longleftrightarrow>
     True"

definition ReadShareGroupStateResponse_StateBatch_wf :: "i16 \<Rightarrow> ReadShareGroupStateResponse_StateBatch \<Rightarrow> bool" where
  "ReadShareGroupStateResponse_StateBatch_wf version x \<longleftrightarrow>
     ReadShareGroupStateResponse_StateBatch_fields_wf version x \<and> trailer_ok [] [] (rsgs_resp_sb_unknown_tagged_fields x)"

lemmas read_share_group_state_response_state_batch_fields =
    Let_def field_ok_def ReadShareGroupStateResponse_StateBatch_fields_wf_def

lemma read_share_group_state_response_state_batch_steps:
  assumes v: "0 \<le>s version" and flex: "flex = (0 \<le>s version)"
  shows "keeps (ReadShareGroupStateResponse_StateBatch_fields_wf version) (get_into (0 \<le>s version) get_i64 (\<lambda>v out. out\<lparr>rsgs_resp_sb_first_offset := v\<rparr>))"
    and "keeps (ReadShareGroupStateResponse_StateBatch_fields_wf version) (get_into (0 \<le>s version) get_i64 (\<lambda>v out. out\<lparr>rsgs_resp_sb_last_offset := v\<rparr>))"
    and "keeps (ReadShareGroupStateResponse_StateBatch_fields_wf version) (get_into (0 \<le>s version) get_i8 (\<lambda>v out. out\<lparr>rsgs_resp_sb_delivery_state := v\<rparr>))"
    and "keeps (ReadShareGroupStateResponse_StateBatch_fields_wf version) (get_into (0 \<le>s version) get_i16 (\<lambda>v out. out\<lparr>rsgs_resp_sb_delivery_count := v\<rparr>))"
  unfolding flex 
  by (rule keeps_into; (rule yields_rules)?; simp add: v read_share_group_state_response_state_batch_fields)+

lemma read_share_group_state_response_state_batch_unknown:
  "ReadShareGroupStateResponse_StateBatch_fields_wf version (s\<lparr>rsgs_resp_sb_unknown_tagged_fields := u\<rparr>) = ReadShareGroupStateResponse_StateBatch_fields_wf version s"
  by (simp_all add: ReadShareGroupStateResponse_StateBatch_fields_wf_def)

lemma read_share_group_state_response_state_batch_yields:
  assumes v: "0 \<le>s version"
  shows "yields 1 (ReadShareGroupStateResponse_StateBatch_decode version) (ReadShareGroupStateResponse_StateBatch_wf version)"
proof -
  have d: "ReadShareGroupStateResponse_StateBatch_fields_wf version ReadShareGroupStateResponse_StateBatch_default"
    by (simp add: ReadShareGroupStateResponse_StateBatch_default_def v read_share_group_state_response_state_batch_fields)
  show ?thesis
    unfolding ReadShareGroupStateResponse_StateBatch_decode_def Let_def
    by ((rule read_share_group_state_response_state_batch_steps[OF v refl, THEN yields_step], (rule d | assumption))+, rule yields_trailer[OF _ arms_keep_Nil[of "ReadShareGroupStateResponse_StateBatch_fields_wf version" "\<lambda>_. 0"]])
      (simp_all add: v d read_share_group_state_response_state_batch_unknown ReadShareGroupStateResponse_StateBatch_wf_def trailer_ok_def )
qed

lemma read_share_group_state_response_state_batch_extends [extends_rules]: "extends_input (ReadShareGroupStateResponse_StateBatch_decode version)"
  unfolding ReadShareGroupStateResponse_StateBatch_decode_def Let_def by (intro extends_rules)

lemma read_share_group_state_response_state_batch_codec:
  assumes v: "0 \<le>s version"
  shows "message_codec ReadShareGroupStateResponse_StateBatch_encode ReadShareGroupStateResponse_StateBatch_decode ReadShareGroupStateResponse_StateBatch_encoded_len (ReadShareGroupStateResponse_StateBatch_wf version) version"
proof
  fix x
  assume w: "ReadShareGroupStateResponse_StateBatch_wf version x"
  show "carries (ReadShareGroupStateResponse_StateBatch_encode x version) (ReadShareGroupStateResponse_StateBatch_decode version) (ReadShareGroupStateResponse_StateBatch_encoded_len x version) x"
    unfolding ReadShareGroupStateResponse_StateBatch_encode_def ReadShareGroupStateResponse_StateBatch_encoded_len_def ReadShareGroupStateResponse_StateBatch_decode_def Let_def
    by (use w[unfolded ReadShareGroupStateResponse_StateBatch_wf_def ReadShareGroupStateResponse_StateBatch_fields_wf_def Let_def] in \<open>elim conjE\<close>, rule carries_cong_len)
      ((rule carries_rules | (erule absent_guarded, assumption) | erule absent_plain
        | simp add: v field_ok_def ReadShareGroupStateResponse_StateBatch_default_def )+)
next
  show "yields 1 (ReadShareGroupStateResponse_StateBatch_decode version) (ReadShareGroupStateResponse_StateBatch_wf version)"
    by (rule read_share_group_state_response_state_batch_yields[OF v])
qed (rule read_share_group_state_response_state_batch_extends)

lemma read_share_group_state_response_state_batch_default_wf [simp]: "0 \<le>s version \<Longrightarrow> ReadShareGroupStateResponse_StateBatch_wf version ReadShareGroupStateResponse_StateBatch_default"
  by (simp add: ReadShareGroupStateResponse_StateBatch_wf_def ReadShareGroupStateResponse_StateBatch_default_def trailer_ok_def read_share_group_state_response_state_batch_fields)

lemmas [carries_rules] = message_codec.message_carries[OF read_share_group_state_response_state_batch_codec]
lemmas [yields_rules] = message_codec.message_yields[OF read_share_group_state_response_state_batch_codec]

lemmas [carries_rules] = protocol_codec.put_array_carries[OF message_codec.message_protocol[OF read_share_group_state_response_state_batch_codec]]
lemmas [yields_rules] = protocol_codec.get_array_yields[OF message_codec.message_protocol[OF read_share_group_state_response_state_batch_codec]]
lemmas [carries_rules] = protocol_codec.put_nullable_array_carries[OF message_codec.message_protocol[OF read_share_group_state_response_state_batch_codec]]
lemmas [yields_rules] = protocol_codec.get_nullable_array_yields[OF message_codec.message_protocol[OF read_share_group_state_response_state_batch_codec]]

record ReadShareGroupStateResponse_PartitionResult =
  rsgs_resp_pr_partition :: i32
  rsgs_resp_pr_error_code :: i16
  rsgs_resp_pr_error_message :: "bytes option"
  rsgs_resp_pr_state_epoch :: i32
  rsgs_resp_pr_start_offset :: i64
  rsgs_resp_pr_state_batches :: "ReadShareGroupStateResponse_StateBatch list"
  rsgs_resp_pr_unknown_tagged_fields :: "UnknownTaggedField list"

definition ReadShareGroupStateResponse_PartitionResult_default :: ReadShareGroupStateResponse_PartitionResult where
  "ReadShareGroupStateResponse_PartitionResult_default =
     \<lparr>rsgs_resp_pr_partition = 0, rsgs_resp_pr_error_code = 0, rsgs_resp_pr_error_message = None, rsgs_resp_pr_state_epoch = 0, rsgs_resp_pr_start_offset = 0, rsgs_resp_pr_state_batches = [], rsgs_resp_pr_unknown_tagged_fields = []\<rparr>"

definition ReadShareGroupStateResponse_PartitionResult_encode :: "ReadShareGroupStateResponse_PartitionResult \<Rightarrow> i16 \<Rightarrow> encoder" where
  "ReadShareGroupStateResponse_PartitionResult_encode x version =
     (let flex = 0 \<le>s version in
      write_all
        [put_when (0 \<le>s version) (put_i32 (rsgs_resp_pr_partition x)),
         put_when (0 \<le>s version) (put_i16 (rsgs_resp_pr_error_code x)),
         put_when (0 \<le>s version) (put_nullable_str flex (rsgs_resp_pr_error_message x)),
         put_when (0 \<le>s version) (put_i32 (rsgs_resp_pr_state_epoch x)),
         put_when (0 \<le>s version) (put_i64 (rsgs_resp_pr_start_offset x)),
         put_when (0 \<le>s version) (put_array flex (\<lambda>it. ReadShareGroupStateResponse_StateBatch_encode it version) (rsgs_resp_pr_state_batches x)),
         put_when flex (put_tagged [] (rsgs_resp_pr_unknown_tagged_fields x))])"

definition ReadShareGroupStateResponse_PartitionResult_encoded_len :: "ReadShareGroupStateResponse_PartitionResult \<Rightarrow> i16 \<Rightarrow> nat" where
  "ReadShareGroupStateResponse_PartitionResult_encoded_len x version =
     (let flex = 0 \<le>s version in
      len_when (0 \<le>s version) 4
      + len_when (0 \<le>s version) 2
      + len_when (0 \<le>s version) (nullable_str_len flex (rsgs_resp_pr_error_message x))
      + len_when (0 \<le>s version) 4
      + len_when (0 \<le>s version) 8
      + len_when (0 \<le>s version) (array_size flex (\<lambda>it. ReadShareGroupStateResponse_StateBatch_encoded_len it version) (rsgs_resp_pr_state_batches x))
      + len_when flex (tagged_size [] (rsgs_resp_pr_unknown_tagged_fields x)))"

definition ReadShareGroupStateResponse_PartitionResult_decode :: "i16 \<Rightarrow> ReadShareGroupStateResponse_PartitionResult decoder" where
  "ReadShareGroupStateResponse_PartitionResult_decode version =
     (let flex = 0 \<le>s version in
      read_then (get_into (0 \<le>s version) get_i32 (\<lambda>v out. out\<lparr>rsgs_resp_pr_partition := v\<rparr>) ReadShareGroupStateResponse_PartitionResult_default) (\<lambda>out.
        read_then (get_into (0 \<le>s version) get_i16 (\<lambda>v out. out\<lparr>rsgs_resp_pr_error_code := v\<rparr>) out) (\<lambda>out.
        read_then (get_into (0 \<le>s version) (get_nullable_str flex) (\<lambda>v out. out\<lparr>rsgs_resp_pr_error_message := v\<rparr>) out) (\<lambda>out.
        read_then (get_into (0 \<le>s version) get_i32 (\<lambda>v out. out\<lparr>rsgs_resp_pr_state_epoch := v\<rparr>) out) (\<lambda>out.
        read_then (get_into (0 \<le>s version) get_i64 (\<lambda>v out. out\<lparr>rsgs_resp_pr_start_offset := v\<rparr>) out) (\<lambda>out.
        read_then (get_into (0 \<le>s version) (get_array flex (ReadShareGroupStateResponse_StateBatch_decode version)) (\<lambda>v out. out\<lparr>rsgs_resp_pr_state_batches := v\<rparr>) out) (\<lambda>out.
        get_trailer flex [] (\<lambda>u out. out\<lparr>rsgs_resp_pr_unknown_tagged_fields := u\<rparr>) out)))))))"

definition ReadShareGroupStateResponse_PartitionResult_fields_wf :: "i16 \<Rightarrow> ReadShareGroupStateResponse_PartitionResult \<Rightarrow> bool" where
  "ReadShareGroupStateResponse_PartitionResult_fields_wf version x \<longleftrightarrow>
     (let flex = 0 \<le>s version in
      nullable_str_wf flex (rsgs_resp_pr_error_message x)
      \<and> array_ok flex (ReadShareGroupStateResponse_StateBatch_wf version) (rsgs_resp_pr_state_batches x))"

definition ReadShareGroupStateResponse_PartitionResult_wf :: "i16 \<Rightarrow> ReadShareGroupStateResponse_PartitionResult \<Rightarrow> bool" where
  "ReadShareGroupStateResponse_PartitionResult_wf version x \<longleftrightarrow>
     ReadShareGroupStateResponse_PartitionResult_fields_wf version x \<and> trailer_ok [] [] (rsgs_resp_pr_unknown_tagged_fields x)"

lemmas read_share_group_state_response_partition_result_fields =
    Let_def field_ok_def ReadShareGroupStateResponse_PartitionResult_fields_wf_def

lemma read_share_group_state_response_partition_result_steps:
  assumes v: "0 \<le>s version" and flex: "flex = (0 \<le>s version)"
  shows "keeps (ReadShareGroupStateResponse_PartitionResult_fields_wf version) (get_into (0 \<le>s version) get_i32 (\<lambda>v out. out\<lparr>rsgs_resp_pr_partition := v\<rparr>))"
    and "keeps (ReadShareGroupStateResponse_PartitionResult_fields_wf version) (get_into (0 \<le>s version) get_i16 (\<lambda>v out. out\<lparr>rsgs_resp_pr_error_code := v\<rparr>))"
    and "keeps (ReadShareGroupStateResponse_PartitionResult_fields_wf version) (get_into (0 \<le>s version) (get_nullable_str flex) (\<lambda>v out. out\<lparr>rsgs_resp_pr_error_message := v\<rparr>))"
    and "keeps (ReadShareGroupStateResponse_PartitionResult_fields_wf version) (get_into (0 \<le>s version) get_i32 (\<lambda>v out. out\<lparr>rsgs_resp_pr_state_epoch := v\<rparr>))"
    and "keeps (ReadShareGroupStateResponse_PartitionResult_fields_wf version) (get_into (0 \<le>s version) get_i64 (\<lambda>v out. out\<lparr>rsgs_resp_pr_start_offset := v\<rparr>))"
    and "keeps (ReadShareGroupStateResponse_PartitionResult_fields_wf version) (get_into (0 \<le>s version) (get_array flex (ReadShareGroupStateResponse_StateBatch_decode version)) (\<lambda>v out. out\<lparr>rsgs_resp_pr_state_batches := v\<rparr>))"
  unfolding flex 
  by (rule keeps_into; (rule yields_rules)?; simp add: v read_share_group_state_response_partition_result_fields)+

lemma read_share_group_state_response_partition_result_unknown:
  "ReadShareGroupStateResponse_PartitionResult_fields_wf version (s\<lparr>rsgs_resp_pr_unknown_tagged_fields := u\<rparr>) = ReadShareGroupStateResponse_PartitionResult_fields_wf version s"
  by (simp_all add: ReadShareGroupStateResponse_PartitionResult_fields_wf_def)

lemma read_share_group_state_response_partition_result_yields:
  assumes v: "0 \<le>s version"
  shows "yields 1 (ReadShareGroupStateResponse_PartitionResult_decode version) (ReadShareGroupStateResponse_PartitionResult_wf version)"
proof -
  have d: "ReadShareGroupStateResponse_PartitionResult_fields_wf version ReadShareGroupStateResponse_PartitionResult_default"
    by (simp add: ReadShareGroupStateResponse_PartitionResult_default_def v read_share_group_state_response_partition_result_fields)
  show ?thesis
    unfolding ReadShareGroupStateResponse_PartitionResult_decode_def Let_def
    by ((rule read_share_group_state_response_partition_result_steps[OF v refl, THEN yields_step], (rule d | assumption))+, rule yields_trailer[OF _ arms_keep_Nil[of "ReadShareGroupStateResponse_PartitionResult_fields_wf version" "\<lambda>_. 0"]])
      (simp_all add: v d read_share_group_state_response_partition_result_unknown ReadShareGroupStateResponse_PartitionResult_wf_def trailer_ok_def )
qed

lemma read_share_group_state_response_partition_result_extends [extends_rules]: "extends_input (ReadShareGroupStateResponse_PartitionResult_decode version)"
  unfolding ReadShareGroupStateResponse_PartitionResult_decode_def Let_def by (intro extends_rules)

lemma read_share_group_state_response_partition_result_codec:
  assumes v: "0 \<le>s version"
  shows "message_codec ReadShareGroupStateResponse_PartitionResult_encode ReadShareGroupStateResponse_PartitionResult_decode ReadShareGroupStateResponse_PartitionResult_encoded_len (ReadShareGroupStateResponse_PartitionResult_wf version) version"
proof
  fix x
  assume w: "ReadShareGroupStateResponse_PartitionResult_wf version x"
  show "carries (ReadShareGroupStateResponse_PartitionResult_encode x version) (ReadShareGroupStateResponse_PartitionResult_decode version) (ReadShareGroupStateResponse_PartitionResult_encoded_len x version) x"
    unfolding ReadShareGroupStateResponse_PartitionResult_encode_def ReadShareGroupStateResponse_PartitionResult_encoded_len_def ReadShareGroupStateResponse_PartitionResult_decode_def Let_def
    by (use w[unfolded ReadShareGroupStateResponse_PartitionResult_wf_def ReadShareGroupStateResponse_PartitionResult_fields_wf_def Let_def] in \<open>elim conjE\<close>, rule carries_cong_len)
      ((rule carries_rules | (erule absent_guarded, assumption) | erule absent_plain
        | simp add: v field_ok_def ReadShareGroupStateResponse_PartitionResult_default_def )+)
next
  show "yields 1 (ReadShareGroupStateResponse_PartitionResult_decode version) (ReadShareGroupStateResponse_PartitionResult_wf version)"
    by (rule read_share_group_state_response_partition_result_yields[OF v])
qed (rule read_share_group_state_response_partition_result_extends)

lemma read_share_group_state_response_partition_result_default_wf [simp]: "0 \<le>s version \<Longrightarrow> ReadShareGroupStateResponse_PartitionResult_wf version ReadShareGroupStateResponse_PartitionResult_default"
  by (simp add: ReadShareGroupStateResponse_PartitionResult_wf_def ReadShareGroupStateResponse_PartitionResult_default_def trailer_ok_def read_share_group_state_response_partition_result_fields)

lemmas [carries_rules] = message_codec.message_carries[OF read_share_group_state_response_partition_result_codec]
lemmas [yields_rules] = message_codec.message_yields[OF read_share_group_state_response_partition_result_codec]

lemmas [carries_rules] = protocol_codec.put_array_carries[OF message_codec.message_protocol[OF read_share_group_state_response_partition_result_codec]]
lemmas [yields_rules] = protocol_codec.get_array_yields[OF message_codec.message_protocol[OF read_share_group_state_response_partition_result_codec]]
lemmas [carries_rules] = protocol_codec.put_nullable_array_carries[OF message_codec.message_protocol[OF read_share_group_state_response_partition_result_codec]]
lemmas [yields_rules] = protocol_codec.get_nullable_array_yields[OF message_codec.message_protocol[OF read_share_group_state_response_partition_result_codec]]

record ReadShareGroupStateResponse_ReadStateResult =
  rsgs_resp_rsr_topic_id :: Uuid
  rsgs_resp_rsr_partitions :: "ReadShareGroupStateResponse_PartitionResult list"
  rsgs_resp_rsr_unknown_tagged_fields :: "UnknownTaggedField list"

definition ReadShareGroupStateResponse_ReadStateResult_default :: ReadShareGroupStateResponse_ReadStateResult where
  "ReadShareGroupStateResponse_ReadStateResult_default =
     \<lparr>rsgs_resp_rsr_topic_id = Uuid_ZERO, rsgs_resp_rsr_partitions = [], rsgs_resp_rsr_unknown_tagged_fields = []\<rparr>"

definition ReadShareGroupStateResponse_ReadStateResult_encode :: "ReadShareGroupStateResponse_ReadStateResult \<Rightarrow> i16 \<Rightarrow> encoder" where
  "ReadShareGroupStateResponse_ReadStateResult_encode x version =
     (let flex = 0 \<le>s version in
      write_all
        [put_when (0 \<le>s version) (put_uuid (rsgs_resp_rsr_topic_id x)),
         put_when (0 \<le>s version) (put_array flex (\<lambda>it. ReadShareGroupStateResponse_PartitionResult_encode it version) (rsgs_resp_rsr_partitions x)),
         put_when flex (put_tagged [] (rsgs_resp_rsr_unknown_tagged_fields x))])"

definition ReadShareGroupStateResponse_ReadStateResult_encoded_len :: "ReadShareGroupStateResponse_ReadStateResult \<Rightarrow> i16 \<Rightarrow> nat" where
  "ReadShareGroupStateResponse_ReadStateResult_encoded_len x version =
     (let flex = 0 \<le>s version in
      len_when (0 \<le>s version) 16
      + len_when (0 \<le>s version) (array_size flex (\<lambda>it. ReadShareGroupStateResponse_PartitionResult_encoded_len it version) (rsgs_resp_rsr_partitions x))
      + len_when flex (tagged_size [] (rsgs_resp_rsr_unknown_tagged_fields x)))"

definition ReadShareGroupStateResponse_ReadStateResult_decode :: "i16 \<Rightarrow> ReadShareGroupStateResponse_ReadStateResult decoder" where
  "ReadShareGroupStateResponse_ReadStateResult_decode version =
     (let flex = 0 \<le>s version in
      read_then (get_into (0 \<le>s version) get_uuid (\<lambda>v out. out\<lparr>rsgs_resp_rsr_topic_id := v\<rparr>) ReadShareGroupStateResponse_ReadStateResult_default) (\<lambda>out.
        read_then (get_into (0 \<le>s version) (get_array flex (ReadShareGroupStateResponse_PartitionResult_decode version)) (\<lambda>v out. out\<lparr>rsgs_resp_rsr_partitions := v\<rparr>) out) (\<lambda>out.
        get_trailer flex [] (\<lambda>u out. out\<lparr>rsgs_resp_rsr_unknown_tagged_fields := u\<rparr>) out)))"

definition ReadShareGroupStateResponse_ReadStateResult_fields_wf :: "i16 \<Rightarrow> ReadShareGroupStateResponse_ReadStateResult \<Rightarrow> bool" where
  "ReadShareGroupStateResponse_ReadStateResult_fields_wf version x \<longleftrightarrow>
     (let flex = 0 \<le>s version in
      uuid_wf (rsgs_resp_rsr_topic_id x)
      \<and> array_ok flex (ReadShareGroupStateResponse_PartitionResult_wf version) (rsgs_resp_rsr_partitions x))"

definition ReadShareGroupStateResponse_ReadStateResult_wf :: "i16 \<Rightarrow> ReadShareGroupStateResponse_ReadStateResult \<Rightarrow> bool" where
  "ReadShareGroupStateResponse_ReadStateResult_wf version x \<longleftrightarrow>
     ReadShareGroupStateResponse_ReadStateResult_fields_wf version x \<and> trailer_ok [] [] (rsgs_resp_rsr_unknown_tagged_fields x)"

lemmas read_share_group_state_response_read_state_result_fields =
    Let_def field_ok_def ReadShareGroupStateResponse_ReadStateResult_fields_wf_def

lemma read_share_group_state_response_read_state_result_steps:
  assumes v: "0 \<le>s version" and flex: "flex = (0 \<le>s version)"
  shows "keeps (ReadShareGroupStateResponse_ReadStateResult_fields_wf version) (get_into (0 \<le>s version) get_uuid (\<lambda>v out. out\<lparr>rsgs_resp_rsr_topic_id := v\<rparr>))"
    and "keeps (ReadShareGroupStateResponse_ReadStateResult_fields_wf version) (get_into (0 \<le>s version) (get_array flex (ReadShareGroupStateResponse_PartitionResult_decode version)) (\<lambda>v out. out\<lparr>rsgs_resp_rsr_partitions := v\<rparr>))"
  unfolding flex 
  by (rule keeps_into; (rule yields_rules)?; simp add: v read_share_group_state_response_read_state_result_fields)+

lemma read_share_group_state_response_read_state_result_unknown:
  "ReadShareGroupStateResponse_ReadStateResult_fields_wf version (s\<lparr>rsgs_resp_rsr_unknown_tagged_fields := u\<rparr>) = ReadShareGroupStateResponse_ReadStateResult_fields_wf version s"
  by (simp_all add: ReadShareGroupStateResponse_ReadStateResult_fields_wf_def)

lemma read_share_group_state_response_read_state_result_yields:
  assumes v: "0 \<le>s version"
  shows "yields 1 (ReadShareGroupStateResponse_ReadStateResult_decode version) (ReadShareGroupStateResponse_ReadStateResult_wf version)"
proof -
  have d: "ReadShareGroupStateResponse_ReadStateResult_fields_wf version ReadShareGroupStateResponse_ReadStateResult_default"
    by (simp add: ReadShareGroupStateResponse_ReadStateResult_default_def v read_share_group_state_response_read_state_result_fields)
  show ?thesis
    unfolding ReadShareGroupStateResponse_ReadStateResult_decode_def Let_def
    by ((rule read_share_group_state_response_read_state_result_steps[OF v refl, THEN yields_step], (rule d | assumption))+, rule yields_trailer[OF _ arms_keep_Nil[of "ReadShareGroupStateResponse_ReadStateResult_fields_wf version" "\<lambda>_. 0"]])
      (simp_all add: v d read_share_group_state_response_read_state_result_unknown ReadShareGroupStateResponse_ReadStateResult_wf_def trailer_ok_def )
qed

lemma read_share_group_state_response_read_state_result_extends [extends_rules]: "extends_input (ReadShareGroupStateResponse_ReadStateResult_decode version)"
  unfolding ReadShareGroupStateResponse_ReadStateResult_decode_def Let_def by (intro extends_rules)

lemma read_share_group_state_response_read_state_result_codec:
  assumes v: "0 \<le>s version"
  shows "message_codec ReadShareGroupStateResponse_ReadStateResult_encode ReadShareGroupStateResponse_ReadStateResult_decode ReadShareGroupStateResponse_ReadStateResult_encoded_len (ReadShareGroupStateResponse_ReadStateResult_wf version) version"
proof
  fix x
  assume w: "ReadShareGroupStateResponse_ReadStateResult_wf version x"
  show "carries (ReadShareGroupStateResponse_ReadStateResult_encode x version) (ReadShareGroupStateResponse_ReadStateResult_decode version) (ReadShareGroupStateResponse_ReadStateResult_encoded_len x version) x"
    unfolding ReadShareGroupStateResponse_ReadStateResult_encode_def ReadShareGroupStateResponse_ReadStateResult_encoded_len_def ReadShareGroupStateResponse_ReadStateResult_decode_def Let_def
    by (use w[unfolded ReadShareGroupStateResponse_ReadStateResult_wf_def ReadShareGroupStateResponse_ReadStateResult_fields_wf_def Let_def] in \<open>elim conjE\<close>, rule carries_cong_len)
      ((rule carries_rules | (erule absent_guarded, assumption) | erule absent_plain
        | simp add: v field_ok_def ReadShareGroupStateResponse_ReadStateResult_default_def )+)
next
  show "yields 1 (ReadShareGroupStateResponse_ReadStateResult_decode version) (ReadShareGroupStateResponse_ReadStateResult_wf version)"
    by (rule read_share_group_state_response_read_state_result_yields[OF v])
qed (rule read_share_group_state_response_read_state_result_extends)

lemma read_share_group_state_response_read_state_result_default_wf [simp]: "0 \<le>s version \<Longrightarrow> ReadShareGroupStateResponse_ReadStateResult_wf version ReadShareGroupStateResponse_ReadStateResult_default"
  by (simp add: ReadShareGroupStateResponse_ReadStateResult_wf_def ReadShareGroupStateResponse_ReadStateResult_default_def trailer_ok_def read_share_group_state_response_read_state_result_fields)

lemmas [carries_rules] = message_codec.message_carries[OF read_share_group_state_response_read_state_result_codec]
lemmas [yields_rules] = message_codec.message_yields[OF read_share_group_state_response_read_state_result_codec]

lemmas [carries_rules] = protocol_codec.put_array_carries[OF message_codec.message_protocol[OF read_share_group_state_response_read_state_result_codec]]
lemmas [yields_rules] = protocol_codec.get_array_yields[OF message_codec.message_protocol[OF read_share_group_state_response_read_state_result_codec]]
lemmas [carries_rules] = protocol_codec.put_nullable_array_carries[OF message_codec.message_protocol[OF read_share_group_state_response_read_state_result_codec]]
lemmas [yields_rules] = protocol_codec.get_nullable_array_yields[OF message_codec.message_protocol[OF read_share_group_state_response_read_state_result_codec]]

record ReadShareGroupStateResponse =
  rsgs_resp_results :: "ReadShareGroupStateResponse_ReadStateResult list"
  rsgs_resp_unknown_tagged_fields :: "UnknownTaggedField list"

definition ReadShareGroupStateResponse_default :: ReadShareGroupStateResponse where
  "ReadShareGroupStateResponse_default =
     \<lparr>rsgs_resp_results = [], rsgs_resp_unknown_tagged_fields = []\<rparr>"

definition ReadShareGroupStateResponse_MIN_VERSION :: i16 where
  "ReadShareGroupStateResponse_MIN_VERSION = 0"

definition ReadShareGroupStateResponse_MAX_VERSION :: i16 where
  "ReadShareGroupStateResponse_MAX_VERSION = 0"

definition ReadShareGroupStateResponse_FLEXIBLE_MIN :: i16 where
  "ReadShareGroupStateResponse_FLEXIBLE_MIN = 0"

definition ReadShareGroupStateResponse_API_KEY :: i16 where
  "ReadShareGroupStateResponse_API_KEY = 84"

definition ReadShareGroupStateResponse_is_flexible :: "i16 \<Rightarrow> bool" where
  "ReadShareGroupStateResponse_is_flexible version \<longleftrightarrow> ReadShareGroupStateResponse_FLEXIBLE_MIN \<le>s version"

definition ReadShareGroupStateResponse_encode :: "ReadShareGroupStateResponse \<Rightarrow> i16 \<Rightarrow> encoder" where
  "ReadShareGroupStateResponse_encode x version =
     (let flex = ReadShareGroupStateResponse_is_flexible version in
      write_all
        [write_check (check_version ReadShareGroupStateResponse_API_KEY version ReadShareGroupStateResponse_MIN_VERSION ReadShareGroupStateResponse_MAX_VERSION),
         put_when (0 \<le>s version) (put_array flex (\<lambda>it. ReadShareGroupStateResponse_ReadStateResult_encode it version) (rsgs_resp_results x)),
         put_when flex (put_tagged [] (rsgs_resp_unknown_tagged_fields x))])"

definition ReadShareGroupStateResponse_encoded_len :: "ReadShareGroupStateResponse \<Rightarrow> i16 \<Rightarrow> nat" where
  "ReadShareGroupStateResponse_encoded_len x version =
     (let flex = ReadShareGroupStateResponse_is_flexible version in
      len_when (0 \<le>s version) (array_size flex (\<lambda>it. ReadShareGroupStateResponse_ReadStateResult_encoded_len it version) (rsgs_resp_results x))
      + len_when flex (tagged_size [] (rsgs_resp_unknown_tagged_fields x)))"

definition ReadShareGroupStateResponse_decode :: "i16 \<Rightarrow> ReadShareGroupStateResponse decoder" where
  "ReadShareGroupStateResponse_decode version =
     (let flex = ReadShareGroupStateResponse_is_flexible version in
      checked (check_version ReadShareGroupStateResponse_API_KEY version ReadShareGroupStateResponse_MIN_VERSION ReadShareGroupStateResponse_MAX_VERSION) (
        read_then (get_into (0 \<le>s version) (get_array flex (ReadShareGroupStateResponse_ReadStateResult_decode version)) (\<lambda>v out. out\<lparr>rsgs_resp_results := v\<rparr>) ReadShareGroupStateResponse_default) (\<lambda>out.
        get_trailer flex [] (\<lambda>u out. out\<lparr>rsgs_resp_unknown_tagged_fields := u\<rparr>) out)))"

definition ReadShareGroupStateResponse_fields_wf :: "i16 \<Rightarrow> ReadShareGroupStateResponse \<Rightarrow> bool" where
  "ReadShareGroupStateResponse_fields_wf version x \<longleftrightarrow>
     (let flex = ReadShareGroupStateResponse_is_flexible version in
      array_ok flex (ReadShareGroupStateResponse_ReadStateResult_wf version) (rsgs_resp_results x))"

definition ReadShareGroupStateResponse_wf :: "i16 \<Rightarrow> ReadShareGroupStateResponse \<Rightarrow> bool" where
  "ReadShareGroupStateResponse_wf version x \<longleftrightarrow>
     version_in ReadShareGroupStateResponse_MIN_VERSION ReadShareGroupStateResponse_MAX_VERSION version \<and> ReadShareGroupStateResponse_fields_wf version x \<and> trailer_ok [] [] (rsgs_resp_unknown_tagged_fields x)"

lemmas read_share_group_state_response_versions =
    ReadShareGroupStateResponse_is_flexible_def ReadShareGroupStateResponse_FLEXIBLE_MIN_def
    ReadShareGroupStateResponse_MIN_VERSION_def ReadShareGroupStateResponse_MAX_VERSION_def version_in_def

lemmas read_share_group_state_response_fields =
    Let_def field_ok_def ReadShareGroupStateResponse_fields_wf_def ReadShareGroupStateResponse_is_flexible_def
    ReadShareGroupStateResponse_FLEXIBLE_MIN_def

lemma read_share_group_state_response_steps:
  assumes v: "0 \<le>s version" and flex: "flex = (ReadShareGroupStateResponse_is_flexible version)"
  shows "keeps (ReadShareGroupStateResponse_fields_wf version) (get_into (0 \<le>s version) (get_array flex (ReadShareGroupStateResponse_ReadStateResult_decode version)) (\<lambda>v out. out\<lparr>rsgs_resp_results := v\<rparr>))"
  unfolding flex 
  by (rule keeps_into; (rule yields_rules)?; simp add: v read_share_group_state_response_fields)+

lemma read_share_group_state_response_unknown:
  "ReadShareGroupStateResponse_fields_wf version (s\<lparr>rsgs_resp_unknown_tagged_fields := u\<rparr>) = ReadShareGroupStateResponse_fields_wf version s"
  by (simp_all add: ReadShareGroupStateResponse_fields_wf_def)

lemma read_share_group_state_response_yields:
  assumes r: "version_in ReadShareGroupStateResponse_MIN_VERSION ReadShareGroupStateResponse_MAX_VERSION version"
  shows "yields 1 (ReadShareGroupStateResponse_decode version) (ReadShareGroupStateResponse_wf version)"
proof -
  have v: "0 \<le>s version"
    using r by (simp add: read_share_group_state_response_versions)
  have d: "ReadShareGroupStateResponse_fields_wf version ReadShareGroupStateResponse_default"
    by (simp add: ReadShareGroupStateResponse_default_def v read_share_group_state_response_fields)
  show ?thesis
    unfolding ReadShareGroupStateResponse_decode_def Let_def
    by (rule yields_checked, (rule read_share_group_state_response_steps[OF v refl, THEN yields_step], (rule d | assumption))+, rule yields_trailer[OF _ arms_keep_Nil[of "ReadShareGroupStateResponse_fields_wf version" "\<lambda>_. 0"]])
      (simp_all add: v d read_share_group_state_response_unknown ReadShareGroupStateResponse_wf_def trailer_ok_def r ReadShareGroupStateResponse_is_flexible_def ReadShareGroupStateResponse_FLEXIBLE_MIN_def)
qed

interpretation read_share_group_state_response: message_codec
  ReadShareGroupStateResponse_encode ReadShareGroupStateResponse_decode ReadShareGroupStateResponse_encoded_len "ReadShareGroupStateResponse_wf version" version
  for version
proof
  fix x
  assume w: "ReadShareGroupStateResponse_wf version x"
  then have v: "0 \<le>s version"
    by (simp add: ReadShareGroupStateResponse_wf_def read_share_group_state_response_versions)
  show "carries (ReadShareGroupStateResponse_encode x version) (ReadShareGroupStateResponse_decode version) (ReadShareGroupStateResponse_encoded_len x version) x"
    unfolding ReadShareGroupStateResponse_encode_def ReadShareGroupStateResponse_encoded_len_def ReadShareGroupStateResponse_decode_def Let_def
    by (use w[unfolded ReadShareGroupStateResponse_wf_def ReadShareGroupStateResponse_fields_wf_def Let_def] in \<open>elim conjE\<close>, rule carries_cong_len)
      ((rule carries_rules check_version_in[THEN iffD2] | (erule absent_guarded, assumption) | erule absent_plain
        | simp add: v field_ok_def ReadShareGroupStateResponse_default_def read_share_group_state_response_versions)+)
next
  show "yields 1 (ReadShareGroupStateResponse_decode version) (ReadShareGroupStateResponse_wf version)"
    by (rule case_split[OF read_share_group_state_response_yields]) (auto simp: ReadShareGroupStateResponse_decode_def Let_def yields_refused yields_unsupported)
  show "extends_input (ReadShareGroupStateResponse_decode version)"
    unfolding ReadShareGroupStateResponse_decode_def Let_def by (intro extends_rules)
qed

section \<open>ReadShareGroupStateSummaryRequest\<close>

record ReadShareGroupStateSummaryRequest_PartitionData =
  rsgss_req_pd_partition :: i32
  rsgss_req_pd_leader_epoch :: i32
  rsgss_req_pd_unknown_tagged_fields :: "UnknownTaggedField list"

definition ReadShareGroupStateSummaryRequest_PartitionData_default :: ReadShareGroupStateSummaryRequest_PartitionData where
  "ReadShareGroupStateSummaryRequest_PartitionData_default =
     \<lparr>rsgss_req_pd_partition = 0, rsgss_req_pd_leader_epoch = 0, rsgss_req_pd_unknown_tagged_fields = []\<rparr>"

definition ReadShareGroupStateSummaryRequest_PartitionData_encode :: "ReadShareGroupStateSummaryRequest_PartitionData \<Rightarrow> i16 \<Rightarrow> encoder" where
  "ReadShareGroupStateSummaryRequest_PartitionData_encode x version =
     (let flex = 0 \<le>s version in
      write_all
        [put_when (0 \<le>s version) (put_i32 (rsgss_req_pd_partition x)),
         put_when (0 \<le>s version) (put_i32 (rsgss_req_pd_leader_epoch x)),
         put_when flex (put_tagged [] (rsgss_req_pd_unknown_tagged_fields x))])"

definition ReadShareGroupStateSummaryRequest_PartitionData_encoded_len :: "ReadShareGroupStateSummaryRequest_PartitionData \<Rightarrow> i16 \<Rightarrow> nat" where
  "ReadShareGroupStateSummaryRequest_PartitionData_encoded_len x version =
     (let flex = 0 \<le>s version in
      len_when (0 \<le>s version) 4
      + len_when (0 \<le>s version) 4
      + len_when flex (tagged_size [] (rsgss_req_pd_unknown_tagged_fields x)))"

definition ReadShareGroupStateSummaryRequest_PartitionData_decode :: "i16 \<Rightarrow> ReadShareGroupStateSummaryRequest_PartitionData decoder" where
  "ReadShareGroupStateSummaryRequest_PartitionData_decode version =
     (let flex = 0 \<le>s version in
      read_then (get_into (0 \<le>s version) get_i32 (\<lambda>v out. out\<lparr>rsgss_req_pd_partition := v\<rparr>) ReadShareGroupStateSummaryRequest_PartitionData_default) (\<lambda>out.
        read_then (get_into (0 \<le>s version) get_i32 (\<lambda>v out. out\<lparr>rsgss_req_pd_leader_epoch := v\<rparr>) out) (\<lambda>out.
        get_trailer flex [] (\<lambda>u out. out\<lparr>rsgss_req_pd_unknown_tagged_fields := u\<rparr>) out)))"

definition ReadShareGroupStateSummaryRequest_PartitionData_fields_wf :: "i16 \<Rightarrow> ReadShareGroupStateSummaryRequest_PartitionData \<Rightarrow> bool" where
  "ReadShareGroupStateSummaryRequest_PartitionData_fields_wf version x \<longleftrightarrow>
     True"

definition ReadShareGroupStateSummaryRequest_PartitionData_wf :: "i16 \<Rightarrow> ReadShareGroupStateSummaryRequest_PartitionData \<Rightarrow> bool" where
  "ReadShareGroupStateSummaryRequest_PartitionData_wf version x \<longleftrightarrow>
     ReadShareGroupStateSummaryRequest_PartitionData_fields_wf version x \<and> trailer_ok [] [] (rsgss_req_pd_unknown_tagged_fields x)"

lemmas read_share_group_state_summary_request_partition_data_fields =
    Let_def field_ok_def ReadShareGroupStateSummaryRequest_PartitionData_fields_wf_def

lemma read_share_group_state_summary_request_partition_data_steps:
  assumes v: "0 \<le>s version" and flex: "flex = (0 \<le>s version)"
  shows "keeps (ReadShareGroupStateSummaryRequest_PartitionData_fields_wf version) (get_into (0 \<le>s version) get_i32 (\<lambda>v out. out\<lparr>rsgss_req_pd_partition := v\<rparr>))"
    and "keeps (ReadShareGroupStateSummaryRequest_PartitionData_fields_wf version) (get_into (0 \<le>s version) get_i32 (\<lambda>v out. out\<lparr>rsgss_req_pd_leader_epoch := v\<rparr>))"
  unfolding flex 
  by (rule keeps_into; (rule yields_rules)?; simp add: v read_share_group_state_summary_request_partition_data_fields)+

lemma read_share_group_state_summary_request_partition_data_unknown:
  "ReadShareGroupStateSummaryRequest_PartitionData_fields_wf version (s\<lparr>rsgss_req_pd_unknown_tagged_fields := u\<rparr>) = ReadShareGroupStateSummaryRequest_PartitionData_fields_wf version s"
  by (simp_all add: ReadShareGroupStateSummaryRequest_PartitionData_fields_wf_def)

lemma read_share_group_state_summary_request_partition_data_yields:
  assumes v: "0 \<le>s version"
  shows "yields 1 (ReadShareGroupStateSummaryRequest_PartitionData_decode version) (ReadShareGroupStateSummaryRequest_PartitionData_wf version)"
proof -
  have d: "ReadShareGroupStateSummaryRequest_PartitionData_fields_wf version ReadShareGroupStateSummaryRequest_PartitionData_default"
    by (simp add: ReadShareGroupStateSummaryRequest_PartitionData_default_def v read_share_group_state_summary_request_partition_data_fields)
  show ?thesis
    unfolding ReadShareGroupStateSummaryRequest_PartitionData_decode_def Let_def
    by ((rule read_share_group_state_summary_request_partition_data_steps[OF v refl, THEN yields_step], (rule d | assumption))+, rule yields_trailer[OF _ arms_keep_Nil[of "ReadShareGroupStateSummaryRequest_PartitionData_fields_wf version" "\<lambda>_. 0"]])
      (simp_all add: v d read_share_group_state_summary_request_partition_data_unknown ReadShareGroupStateSummaryRequest_PartitionData_wf_def trailer_ok_def )
qed

lemma read_share_group_state_summary_request_partition_data_extends [extends_rules]: "extends_input (ReadShareGroupStateSummaryRequest_PartitionData_decode version)"
  unfolding ReadShareGroupStateSummaryRequest_PartitionData_decode_def Let_def by (intro extends_rules)

lemma read_share_group_state_summary_request_partition_data_codec:
  assumes v: "0 \<le>s version"
  shows "message_codec ReadShareGroupStateSummaryRequest_PartitionData_encode ReadShareGroupStateSummaryRequest_PartitionData_decode ReadShareGroupStateSummaryRequest_PartitionData_encoded_len (ReadShareGroupStateSummaryRequest_PartitionData_wf version) version"
proof
  fix x
  assume w: "ReadShareGroupStateSummaryRequest_PartitionData_wf version x"
  show "carries (ReadShareGroupStateSummaryRequest_PartitionData_encode x version) (ReadShareGroupStateSummaryRequest_PartitionData_decode version) (ReadShareGroupStateSummaryRequest_PartitionData_encoded_len x version) x"
    unfolding ReadShareGroupStateSummaryRequest_PartitionData_encode_def ReadShareGroupStateSummaryRequest_PartitionData_encoded_len_def ReadShareGroupStateSummaryRequest_PartitionData_decode_def Let_def
    by (use w[unfolded ReadShareGroupStateSummaryRequest_PartitionData_wf_def ReadShareGroupStateSummaryRequest_PartitionData_fields_wf_def Let_def] in \<open>elim conjE\<close>, rule carries_cong_len)
      ((rule carries_rules | (erule absent_guarded, assumption) | erule absent_plain
        | simp add: v field_ok_def ReadShareGroupStateSummaryRequest_PartitionData_default_def )+)
next
  show "yields 1 (ReadShareGroupStateSummaryRequest_PartitionData_decode version) (ReadShareGroupStateSummaryRequest_PartitionData_wf version)"
    by (rule read_share_group_state_summary_request_partition_data_yields[OF v])
qed (rule read_share_group_state_summary_request_partition_data_extends)

lemma read_share_group_state_summary_request_partition_data_default_wf [simp]: "0 \<le>s version \<Longrightarrow> ReadShareGroupStateSummaryRequest_PartitionData_wf version ReadShareGroupStateSummaryRequest_PartitionData_default"
  by (simp add: ReadShareGroupStateSummaryRequest_PartitionData_wf_def ReadShareGroupStateSummaryRequest_PartitionData_default_def trailer_ok_def read_share_group_state_summary_request_partition_data_fields)

lemmas [carries_rules] = message_codec.message_carries[OF read_share_group_state_summary_request_partition_data_codec]
lemmas [yields_rules] = message_codec.message_yields[OF read_share_group_state_summary_request_partition_data_codec]

lemmas [carries_rules] = protocol_codec.put_array_carries[OF message_codec.message_protocol[OF read_share_group_state_summary_request_partition_data_codec]]
lemmas [yields_rules] = protocol_codec.get_array_yields[OF message_codec.message_protocol[OF read_share_group_state_summary_request_partition_data_codec]]
lemmas [carries_rules] = protocol_codec.put_nullable_array_carries[OF message_codec.message_protocol[OF read_share_group_state_summary_request_partition_data_codec]]
lemmas [yields_rules] = protocol_codec.get_nullable_array_yields[OF message_codec.message_protocol[OF read_share_group_state_summary_request_partition_data_codec]]

record ReadShareGroupStateSummaryRequest_ReadStateSummaryData =
  rsgss_req_rssd_topic_id :: Uuid
  rsgss_req_rssd_partitions :: "ReadShareGroupStateSummaryRequest_PartitionData list"
  rsgss_req_rssd_unknown_tagged_fields :: "UnknownTaggedField list"

definition ReadShareGroupStateSummaryRequest_ReadStateSummaryData_default :: ReadShareGroupStateSummaryRequest_ReadStateSummaryData where
  "ReadShareGroupStateSummaryRequest_ReadStateSummaryData_default =
     \<lparr>rsgss_req_rssd_topic_id = Uuid_ZERO, rsgss_req_rssd_partitions = [], rsgss_req_rssd_unknown_tagged_fields = []\<rparr>"

definition ReadShareGroupStateSummaryRequest_ReadStateSummaryData_encode :: "ReadShareGroupStateSummaryRequest_ReadStateSummaryData \<Rightarrow> i16 \<Rightarrow> encoder" where
  "ReadShareGroupStateSummaryRequest_ReadStateSummaryData_encode x version =
     (let flex = 0 \<le>s version in
      write_all
        [put_when (0 \<le>s version) (put_uuid (rsgss_req_rssd_topic_id x)),
         put_when (0 \<le>s version) (put_array flex (\<lambda>it. ReadShareGroupStateSummaryRequest_PartitionData_encode it version) (rsgss_req_rssd_partitions x)),
         put_when flex (put_tagged [] (rsgss_req_rssd_unknown_tagged_fields x))])"

definition ReadShareGroupStateSummaryRequest_ReadStateSummaryData_encoded_len :: "ReadShareGroupStateSummaryRequest_ReadStateSummaryData \<Rightarrow> i16 \<Rightarrow> nat" where
  "ReadShareGroupStateSummaryRequest_ReadStateSummaryData_encoded_len x version =
     (let flex = 0 \<le>s version in
      len_when (0 \<le>s version) 16
      + len_when (0 \<le>s version) (array_size flex (\<lambda>it. ReadShareGroupStateSummaryRequest_PartitionData_encoded_len it version) (rsgss_req_rssd_partitions x))
      + len_when flex (tagged_size [] (rsgss_req_rssd_unknown_tagged_fields x)))"

definition ReadShareGroupStateSummaryRequest_ReadStateSummaryData_decode :: "i16 \<Rightarrow> ReadShareGroupStateSummaryRequest_ReadStateSummaryData decoder" where
  "ReadShareGroupStateSummaryRequest_ReadStateSummaryData_decode version =
     (let flex = 0 \<le>s version in
      read_then (get_into (0 \<le>s version) get_uuid (\<lambda>v out. out\<lparr>rsgss_req_rssd_topic_id := v\<rparr>) ReadShareGroupStateSummaryRequest_ReadStateSummaryData_default) (\<lambda>out.
        read_then (get_into (0 \<le>s version) (get_array flex (ReadShareGroupStateSummaryRequest_PartitionData_decode version)) (\<lambda>v out. out\<lparr>rsgss_req_rssd_partitions := v\<rparr>) out) (\<lambda>out.
        get_trailer flex [] (\<lambda>u out. out\<lparr>rsgss_req_rssd_unknown_tagged_fields := u\<rparr>) out)))"

definition ReadShareGroupStateSummaryRequest_ReadStateSummaryData_fields_wf :: "i16 \<Rightarrow> ReadShareGroupStateSummaryRequest_ReadStateSummaryData \<Rightarrow> bool" where
  "ReadShareGroupStateSummaryRequest_ReadStateSummaryData_fields_wf version x \<longleftrightarrow>
     (let flex = 0 \<le>s version in
      uuid_wf (rsgss_req_rssd_topic_id x)
      \<and> array_ok flex (ReadShareGroupStateSummaryRequest_PartitionData_wf version) (rsgss_req_rssd_partitions x))"

definition ReadShareGroupStateSummaryRequest_ReadStateSummaryData_wf :: "i16 \<Rightarrow> ReadShareGroupStateSummaryRequest_ReadStateSummaryData \<Rightarrow> bool" where
  "ReadShareGroupStateSummaryRequest_ReadStateSummaryData_wf version x \<longleftrightarrow>
     ReadShareGroupStateSummaryRequest_ReadStateSummaryData_fields_wf version x \<and> trailer_ok [] [] (rsgss_req_rssd_unknown_tagged_fields x)"

lemmas read_share_group_state_summary_request_read_state_summary_data_fields =
    Let_def field_ok_def ReadShareGroupStateSummaryRequest_ReadStateSummaryData_fields_wf_def

lemma read_share_group_state_summary_request_read_state_summary_data_steps:
  assumes v: "0 \<le>s version" and flex: "flex = (0 \<le>s version)"
  shows "keeps (ReadShareGroupStateSummaryRequest_ReadStateSummaryData_fields_wf version) (get_into (0 \<le>s version) get_uuid (\<lambda>v out. out\<lparr>rsgss_req_rssd_topic_id := v\<rparr>))"
    and "keeps (ReadShareGroupStateSummaryRequest_ReadStateSummaryData_fields_wf version) (get_into (0 \<le>s version) (get_array flex (ReadShareGroupStateSummaryRequest_PartitionData_decode version)) (\<lambda>v out. out\<lparr>rsgss_req_rssd_partitions := v\<rparr>))"
  unfolding flex 
  by (rule keeps_into; (rule yields_rules)?; simp add: v read_share_group_state_summary_request_read_state_summary_data_fields)+

lemma read_share_group_state_summary_request_read_state_summary_data_unknown:
  "ReadShareGroupStateSummaryRequest_ReadStateSummaryData_fields_wf version (s\<lparr>rsgss_req_rssd_unknown_tagged_fields := u\<rparr>) = ReadShareGroupStateSummaryRequest_ReadStateSummaryData_fields_wf version s"
  by (simp_all add: ReadShareGroupStateSummaryRequest_ReadStateSummaryData_fields_wf_def)

lemma read_share_group_state_summary_request_read_state_summary_data_yields:
  assumes v: "0 \<le>s version"
  shows "yields 1 (ReadShareGroupStateSummaryRequest_ReadStateSummaryData_decode version) (ReadShareGroupStateSummaryRequest_ReadStateSummaryData_wf version)"
proof -
  have d: "ReadShareGroupStateSummaryRequest_ReadStateSummaryData_fields_wf version ReadShareGroupStateSummaryRequest_ReadStateSummaryData_default"
    by (simp add: ReadShareGroupStateSummaryRequest_ReadStateSummaryData_default_def v read_share_group_state_summary_request_read_state_summary_data_fields)
  show ?thesis
    unfolding ReadShareGroupStateSummaryRequest_ReadStateSummaryData_decode_def Let_def
    by ((rule read_share_group_state_summary_request_read_state_summary_data_steps[OF v refl, THEN yields_step], (rule d | assumption))+, rule yields_trailer[OF _ arms_keep_Nil[of "ReadShareGroupStateSummaryRequest_ReadStateSummaryData_fields_wf version" "\<lambda>_. 0"]])
      (simp_all add: v d read_share_group_state_summary_request_read_state_summary_data_unknown ReadShareGroupStateSummaryRequest_ReadStateSummaryData_wf_def trailer_ok_def )
qed

lemma read_share_group_state_summary_request_read_state_summary_data_extends [extends_rules]: "extends_input (ReadShareGroupStateSummaryRequest_ReadStateSummaryData_decode version)"
  unfolding ReadShareGroupStateSummaryRequest_ReadStateSummaryData_decode_def Let_def by (intro extends_rules)

lemma read_share_group_state_summary_request_read_state_summary_data_codec:
  assumes v: "0 \<le>s version"
  shows "message_codec ReadShareGroupStateSummaryRequest_ReadStateSummaryData_encode ReadShareGroupStateSummaryRequest_ReadStateSummaryData_decode ReadShareGroupStateSummaryRequest_ReadStateSummaryData_encoded_len (ReadShareGroupStateSummaryRequest_ReadStateSummaryData_wf version) version"
proof
  fix x
  assume w: "ReadShareGroupStateSummaryRequest_ReadStateSummaryData_wf version x"
  show "carries (ReadShareGroupStateSummaryRequest_ReadStateSummaryData_encode x version) (ReadShareGroupStateSummaryRequest_ReadStateSummaryData_decode version) (ReadShareGroupStateSummaryRequest_ReadStateSummaryData_encoded_len x version) x"
    unfolding ReadShareGroupStateSummaryRequest_ReadStateSummaryData_encode_def ReadShareGroupStateSummaryRequest_ReadStateSummaryData_encoded_len_def ReadShareGroupStateSummaryRequest_ReadStateSummaryData_decode_def Let_def
    by (use w[unfolded ReadShareGroupStateSummaryRequest_ReadStateSummaryData_wf_def ReadShareGroupStateSummaryRequest_ReadStateSummaryData_fields_wf_def Let_def] in \<open>elim conjE\<close>, rule carries_cong_len)
      ((rule carries_rules | (erule absent_guarded, assumption) | erule absent_plain
        | simp add: v field_ok_def ReadShareGroupStateSummaryRequest_ReadStateSummaryData_default_def )+)
next
  show "yields 1 (ReadShareGroupStateSummaryRequest_ReadStateSummaryData_decode version) (ReadShareGroupStateSummaryRequest_ReadStateSummaryData_wf version)"
    by (rule read_share_group_state_summary_request_read_state_summary_data_yields[OF v])
qed (rule read_share_group_state_summary_request_read_state_summary_data_extends)

lemma read_share_group_state_summary_request_read_state_summary_data_default_wf [simp]: "0 \<le>s version \<Longrightarrow> ReadShareGroupStateSummaryRequest_ReadStateSummaryData_wf version ReadShareGroupStateSummaryRequest_ReadStateSummaryData_default"
  by (simp add: ReadShareGroupStateSummaryRequest_ReadStateSummaryData_wf_def ReadShareGroupStateSummaryRequest_ReadStateSummaryData_default_def trailer_ok_def read_share_group_state_summary_request_read_state_summary_data_fields)

lemmas [carries_rules] = message_codec.message_carries[OF read_share_group_state_summary_request_read_state_summary_data_codec]
lemmas [yields_rules] = message_codec.message_yields[OF read_share_group_state_summary_request_read_state_summary_data_codec]

lemmas [carries_rules] = protocol_codec.put_array_carries[OF message_codec.message_protocol[OF read_share_group_state_summary_request_read_state_summary_data_codec]]
lemmas [yields_rules] = protocol_codec.get_array_yields[OF message_codec.message_protocol[OF read_share_group_state_summary_request_read_state_summary_data_codec]]
lemmas [carries_rules] = protocol_codec.put_nullable_array_carries[OF message_codec.message_protocol[OF read_share_group_state_summary_request_read_state_summary_data_codec]]
lemmas [yields_rules] = protocol_codec.get_nullable_array_yields[OF message_codec.message_protocol[OF read_share_group_state_summary_request_read_state_summary_data_codec]]

record ReadShareGroupStateSummaryRequest =
  rsgss_req_group_id :: bytes
  rsgss_req_topics :: "ReadShareGroupStateSummaryRequest_ReadStateSummaryData list"
  rsgss_req_unknown_tagged_fields :: "UnknownTaggedField list"

definition ReadShareGroupStateSummaryRequest_default :: ReadShareGroupStateSummaryRequest where
  "ReadShareGroupStateSummaryRequest_default =
     \<lparr>rsgss_req_group_id = [], rsgss_req_topics = [], rsgss_req_unknown_tagged_fields = []\<rparr>"

definition ReadShareGroupStateSummaryRequest_MIN_VERSION :: i16 where
  "ReadShareGroupStateSummaryRequest_MIN_VERSION = 0"

definition ReadShareGroupStateSummaryRequest_MAX_VERSION :: i16 where
  "ReadShareGroupStateSummaryRequest_MAX_VERSION = 1"

definition ReadShareGroupStateSummaryRequest_FLEXIBLE_MIN :: i16 where
  "ReadShareGroupStateSummaryRequest_FLEXIBLE_MIN = 0"

definition ReadShareGroupStateSummaryRequest_API_KEY :: i16 where
  "ReadShareGroupStateSummaryRequest_API_KEY = 87"

definition ReadShareGroupStateSummaryRequest_is_flexible :: "i16 \<Rightarrow> bool" where
  "ReadShareGroupStateSummaryRequest_is_flexible version \<longleftrightarrow> ReadShareGroupStateSummaryRequest_FLEXIBLE_MIN \<le>s version"

definition ReadShareGroupStateSummaryRequest_encode :: "ReadShareGroupStateSummaryRequest \<Rightarrow> i16 \<Rightarrow> encoder" where
  "ReadShareGroupStateSummaryRequest_encode x version =
     (let flex = ReadShareGroupStateSummaryRequest_is_flexible version in
      write_all
        [write_check (check_version ReadShareGroupStateSummaryRequest_API_KEY version ReadShareGroupStateSummaryRequest_MIN_VERSION ReadShareGroupStateSummaryRequest_MAX_VERSION),
         put_when (0 \<le>s version) (put_str flex (rsgss_req_group_id x)),
         put_when (0 \<le>s version) (put_array flex (\<lambda>it. ReadShareGroupStateSummaryRequest_ReadStateSummaryData_encode it version) (rsgss_req_topics x)),
         put_when flex (put_tagged [] (rsgss_req_unknown_tagged_fields x))])"

definition ReadShareGroupStateSummaryRequest_encoded_len :: "ReadShareGroupStateSummaryRequest \<Rightarrow> i16 \<Rightarrow> nat" where
  "ReadShareGroupStateSummaryRequest_encoded_len x version =
     (let flex = ReadShareGroupStateSummaryRequest_is_flexible version in
      len_when (0 \<le>s version) (str_len flex (rsgss_req_group_id x))
      + len_when (0 \<le>s version) (array_size flex (\<lambda>it. ReadShareGroupStateSummaryRequest_ReadStateSummaryData_encoded_len it version) (rsgss_req_topics x))
      + len_when flex (tagged_size [] (rsgss_req_unknown_tagged_fields x)))"

definition ReadShareGroupStateSummaryRequest_decode :: "i16 \<Rightarrow> ReadShareGroupStateSummaryRequest decoder" where
  "ReadShareGroupStateSummaryRequest_decode version =
     (let flex = ReadShareGroupStateSummaryRequest_is_flexible version in
      checked (check_version ReadShareGroupStateSummaryRequest_API_KEY version ReadShareGroupStateSummaryRequest_MIN_VERSION ReadShareGroupStateSummaryRequest_MAX_VERSION) (
        read_then (get_into (0 \<le>s version) (get_str flex) (\<lambda>v out. out\<lparr>rsgss_req_group_id := v\<rparr>) ReadShareGroupStateSummaryRequest_default) (\<lambda>out.
        read_then (get_into (0 \<le>s version) (get_array flex (ReadShareGroupStateSummaryRequest_ReadStateSummaryData_decode version)) (\<lambda>v out. out\<lparr>rsgss_req_topics := v\<rparr>) out) (\<lambda>out.
        get_trailer flex [] (\<lambda>u out. out\<lparr>rsgss_req_unknown_tagged_fields := u\<rparr>) out))))"

definition ReadShareGroupStateSummaryRequest_fields_wf :: "i16 \<Rightarrow> ReadShareGroupStateSummaryRequest \<Rightarrow> bool" where
  "ReadShareGroupStateSummaryRequest_fields_wf version x \<longleftrightarrow>
     (let flex = ReadShareGroupStateSummaryRequest_is_flexible version in
      str_wf flex (rsgss_req_group_id x)
      \<and> array_ok flex (ReadShareGroupStateSummaryRequest_ReadStateSummaryData_wf version) (rsgss_req_topics x))"

definition ReadShareGroupStateSummaryRequest_wf :: "i16 \<Rightarrow> ReadShareGroupStateSummaryRequest \<Rightarrow> bool" where
  "ReadShareGroupStateSummaryRequest_wf version x \<longleftrightarrow>
     version_in ReadShareGroupStateSummaryRequest_MIN_VERSION ReadShareGroupStateSummaryRequest_MAX_VERSION version \<and> ReadShareGroupStateSummaryRequest_fields_wf version x \<and> trailer_ok [] [] (rsgss_req_unknown_tagged_fields x)"

lemmas read_share_group_state_summary_request_versions =
    ReadShareGroupStateSummaryRequest_is_flexible_def ReadShareGroupStateSummaryRequest_FLEXIBLE_MIN_def
    ReadShareGroupStateSummaryRequest_MIN_VERSION_def ReadShareGroupStateSummaryRequest_MAX_VERSION_def
    version_in_def

lemmas read_share_group_state_summary_request_fields =
    Let_def field_ok_def ReadShareGroupStateSummaryRequest_fields_wf_def
    ReadShareGroupStateSummaryRequest_is_flexible_def ReadShareGroupStateSummaryRequest_FLEXIBLE_MIN_def

lemma read_share_group_state_summary_request_steps:
  assumes v: "0 \<le>s version" and flex: "flex = (ReadShareGroupStateSummaryRequest_is_flexible version)"
  shows "keeps (ReadShareGroupStateSummaryRequest_fields_wf version) (get_into (0 \<le>s version) (get_str flex) (\<lambda>v out. out\<lparr>rsgss_req_group_id := v\<rparr>))"
    and "keeps (ReadShareGroupStateSummaryRequest_fields_wf version) (get_into (0 \<le>s version) (get_array flex (ReadShareGroupStateSummaryRequest_ReadStateSummaryData_decode version)) (\<lambda>v out. out\<lparr>rsgss_req_topics := v\<rparr>))"
  unfolding flex 
  by (rule keeps_into; (rule yields_rules)?; simp add: v read_share_group_state_summary_request_fields)+

lemma read_share_group_state_summary_request_unknown:
  "ReadShareGroupStateSummaryRequest_fields_wf version (s\<lparr>rsgss_req_unknown_tagged_fields := u\<rparr>) = ReadShareGroupStateSummaryRequest_fields_wf version s"
  by (simp_all add: ReadShareGroupStateSummaryRequest_fields_wf_def)

lemma read_share_group_state_summary_request_yields:
  assumes r: "version_in ReadShareGroupStateSummaryRequest_MIN_VERSION ReadShareGroupStateSummaryRequest_MAX_VERSION version"
  shows "yields 1 (ReadShareGroupStateSummaryRequest_decode version) (ReadShareGroupStateSummaryRequest_wf version)"
proof -
  have v: "0 \<le>s version"
    using r by (simp add: read_share_group_state_summary_request_versions)
  have d: "ReadShareGroupStateSummaryRequest_fields_wf version ReadShareGroupStateSummaryRequest_default"
    by (simp add: ReadShareGroupStateSummaryRequest_default_def v read_share_group_state_summary_request_fields)
  show ?thesis
    unfolding ReadShareGroupStateSummaryRequest_decode_def Let_def
    by (rule yields_checked, (rule read_share_group_state_summary_request_steps[OF v refl, THEN yields_step], (rule d | assumption))+, rule yields_trailer[OF _ arms_keep_Nil[of "ReadShareGroupStateSummaryRequest_fields_wf version" "\<lambda>_. 0"]])
      (simp_all add: v d read_share_group_state_summary_request_unknown ReadShareGroupStateSummaryRequest_wf_def trailer_ok_def r ReadShareGroupStateSummaryRequest_is_flexible_def ReadShareGroupStateSummaryRequest_FLEXIBLE_MIN_def)
qed

interpretation read_share_group_state_summary_request: message_codec
  ReadShareGroupStateSummaryRequest_encode ReadShareGroupStateSummaryRequest_decode ReadShareGroupStateSummaryRequest_encoded_len "ReadShareGroupStateSummaryRequest_wf version" version
  for version
proof
  fix x
  assume w: "ReadShareGroupStateSummaryRequest_wf version x"
  then have v: "0 \<le>s version"
    by (simp add: ReadShareGroupStateSummaryRequest_wf_def read_share_group_state_summary_request_versions)
  show "carries (ReadShareGroupStateSummaryRequest_encode x version) (ReadShareGroupStateSummaryRequest_decode version) (ReadShareGroupStateSummaryRequest_encoded_len x version) x"
    unfolding ReadShareGroupStateSummaryRequest_encode_def ReadShareGroupStateSummaryRequest_encoded_len_def ReadShareGroupStateSummaryRequest_decode_def Let_def
    by (use w[unfolded ReadShareGroupStateSummaryRequest_wf_def ReadShareGroupStateSummaryRequest_fields_wf_def Let_def] in \<open>elim conjE\<close>, rule carries_cong_len)
      ((rule carries_rules check_version_in[THEN iffD2] | (erule absent_guarded, assumption) | erule absent_plain
        | simp add: v field_ok_def ReadShareGroupStateSummaryRequest_default_def read_share_group_state_summary_request_versions)+)
next
  show "yields 1 (ReadShareGroupStateSummaryRequest_decode version) (ReadShareGroupStateSummaryRequest_wf version)"
    by (rule case_split[OF read_share_group_state_summary_request_yields]) (auto simp: ReadShareGroupStateSummaryRequest_decode_def Let_def yields_refused yields_unsupported)
  show "extends_input (ReadShareGroupStateSummaryRequest_decode version)"
    unfolding ReadShareGroupStateSummaryRequest_decode_def Let_def by (intro extends_rules)
qed

section \<open>ReadShareGroupStateSummaryResponse\<close>

record ReadShareGroupStateSummaryResponse_PartitionResult =
  rsgss_resp_pr_partition :: i32
  rsgss_resp_pr_error_code :: i16
  rsgss_resp_pr_error_message :: "bytes option"
  rsgss_resp_pr_state_epoch :: i32
  rsgss_resp_pr_leader_epoch :: i32
  rsgss_resp_pr_start_offset :: i64
  rsgss_resp_pr_delivery_complete_count :: i32
  rsgss_resp_pr_unknown_tagged_fields :: "UnknownTaggedField list"

definition ReadShareGroupStateSummaryResponse_PartitionResult_default :: ReadShareGroupStateSummaryResponse_PartitionResult where
  "ReadShareGroupStateSummaryResponse_PartitionResult_default =
     \<lparr>rsgss_resp_pr_partition = 0, rsgss_resp_pr_error_code = 0, rsgss_resp_pr_error_message = None, rsgss_resp_pr_state_epoch = 0, rsgss_resp_pr_leader_epoch = 0, rsgss_resp_pr_start_offset = 0, rsgss_resp_pr_delivery_complete_count = - 1, rsgss_resp_pr_unknown_tagged_fields = []\<rparr>"

definition ReadShareGroupStateSummaryResponse_PartitionResult_encode :: "ReadShareGroupStateSummaryResponse_PartitionResult \<Rightarrow> i16 \<Rightarrow> encoder" where
  "ReadShareGroupStateSummaryResponse_PartitionResult_encode x version =
     (let flex = 0 \<le>s version in
      write_all
        [put_when (0 \<le>s version) (put_i32 (rsgss_resp_pr_partition x)),
         put_when (0 \<le>s version) (put_i16 (rsgss_resp_pr_error_code x)),
         put_when (0 \<le>s version) (put_nullable_str flex (rsgss_resp_pr_error_message x)),
         put_when (0 \<le>s version) (put_i32 (rsgss_resp_pr_state_epoch x)),
         put_when (0 \<le>s version) (put_i32 (rsgss_resp_pr_leader_epoch x)),
         put_when (0 \<le>s version) (put_i64 (rsgss_resp_pr_start_offset x)),
         put_when (1 \<le>s version) (put_i32 (rsgss_resp_pr_delivery_complete_count x)),
         put_when flex (put_tagged [] (rsgss_resp_pr_unknown_tagged_fields x))])"

definition ReadShareGroupStateSummaryResponse_PartitionResult_encoded_len :: "ReadShareGroupStateSummaryResponse_PartitionResult \<Rightarrow> i16 \<Rightarrow> nat" where
  "ReadShareGroupStateSummaryResponse_PartitionResult_encoded_len x version =
     (let flex = 0 \<le>s version in
      len_when (0 \<le>s version) 4
      + len_when (0 \<le>s version) 2
      + len_when (0 \<le>s version) (nullable_str_len flex (rsgss_resp_pr_error_message x))
      + len_when (0 \<le>s version) 4
      + len_when (0 \<le>s version) 4
      + len_when (0 \<le>s version) 8
      + len_when (1 \<le>s version) 4
      + len_when flex (tagged_size [] (rsgss_resp_pr_unknown_tagged_fields x)))"

definition ReadShareGroupStateSummaryResponse_PartitionResult_decode :: "i16 \<Rightarrow> ReadShareGroupStateSummaryResponse_PartitionResult decoder" where
  "ReadShareGroupStateSummaryResponse_PartitionResult_decode version =
     (let flex = 0 \<le>s version in
      read_then (get_into (0 \<le>s version) get_i32 (\<lambda>v out. out\<lparr>rsgss_resp_pr_partition := v\<rparr>) ReadShareGroupStateSummaryResponse_PartitionResult_default) (\<lambda>out.
        read_then (get_into (0 \<le>s version) get_i16 (\<lambda>v out. out\<lparr>rsgss_resp_pr_error_code := v\<rparr>) out) (\<lambda>out.
        read_then (get_into (0 \<le>s version) (get_nullable_str flex) (\<lambda>v out. out\<lparr>rsgss_resp_pr_error_message := v\<rparr>) out) (\<lambda>out.
        read_then (get_into (0 \<le>s version) get_i32 (\<lambda>v out. out\<lparr>rsgss_resp_pr_state_epoch := v\<rparr>) out) (\<lambda>out.
        read_then (get_into (0 \<le>s version) get_i32 (\<lambda>v out. out\<lparr>rsgss_resp_pr_leader_epoch := v\<rparr>) out) (\<lambda>out.
        read_then (get_into (0 \<le>s version) get_i64 (\<lambda>v out. out\<lparr>rsgss_resp_pr_start_offset := v\<rparr>) out) (\<lambda>out.
        read_then (get_into (1 \<le>s version) get_i32 (\<lambda>v out. out\<lparr>rsgss_resp_pr_delivery_complete_count := v\<rparr>) out) (\<lambda>out.
        get_trailer flex [] (\<lambda>u out. out\<lparr>rsgss_resp_pr_unknown_tagged_fields := u\<rparr>) out))))))))"

definition ReadShareGroupStateSummaryResponse_PartitionResult_fields_wf :: "i16 \<Rightarrow> ReadShareGroupStateSummaryResponse_PartitionResult \<Rightarrow> bool" where
  "ReadShareGroupStateSummaryResponse_PartitionResult_fields_wf version x \<longleftrightarrow>
     (let flex = 0 \<le>s version in
      nullable_str_wf flex (rsgss_resp_pr_error_message x)
      \<and> field_ok (1 \<le>s version) (- 1) (\<lambda>_. True) (rsgss_resp_pr_delivery_complete_count x))"

definition ReadShareGroupStateSummaryResponse_PartitionResult_wf :: "i16 \<Rightarrow> ReadShareGroupStateSummaryResponse_PartitionResult \<Rightarrow> bool" where
  "ReadShareGroupStateSummaryResponse_PartitionResult_wf version x \<longleftrightarrow>
     ReadShareGroupStateSummaryResponse_PartitionResult_fields_wf version x \<and> trailer_ok [] [] (rsgss_resp_pr_unknown_tagged_fields x)"

lemmas read_share_group_state_summary_response_partition_result_fields =
    Let_def field_ok_def ReadShareGroupStateSummaryResponse_PartitionResult_fields_wf_def

lemma read_share_group_state_summary_response_partition_result_steps:
  assumes v: "0 \<le>s version" and flex: "flex = (0 \<le>s version)"
  shows "keeps (ReadShareGroupStateSummaryResponse_PartitionResult_fields_wf version) (get_into (0 \<le>s version) get_i32 (\<lambda>v out. out\<lparr>rsgss_resp_pr_partition := v\<rparr>))"
    and "keeps (ReadShareGroupStateSummaryResponse_PartitionResult_fields_wf version) (get_into (0 \<le>s version) get_i16 (\<lambda>v out. out\<lparr>rsgss_resp_pr_error_code := v\<rparr>))"
    and "keeps (ReadShareGroupStateSummaryResponse_PartitionResult_fields_wf version) (get_into (0 \<le>s version) (get_nullable_str flex) (\<lambda>v out. out\<lparr>rsgss_resp_pr_error_message := v\<rparr>))"
    and "keeps (ReadShareGroupStateSummaryResponse_PartitionResult_fields_wf version) (get_into (0 \<le>s version) get_i32 (\<lambda>v out. out\<lparr>rsgss_resp_pr_state_epoch := v\<rparr>))"
    and "keeps (ReadShareGroupStateSummaryResponse_PartitionResult_fields_wf version) (get_into (0 \<le>s version) get_i32 (\<lambda>v out. out\<lparr>rsgss_resp_pr_leader_epoch := v\<rparr>))"
    and "keeps (ReadShareGroupStateSummaryResponse_PartitionResult_fields_wf version) (get_into (0 \<le>s version) get_i64 (\<lambda>v out. out\<lparr>rsgss_resp_pr_start_offset := v\<rparr>))"
    and "keeps (ReadShareGroupStateSummaryResponse_PartitionResult_fields_wf version) (get_into (1 \<le>s version) get_i32 (\<lambda>v out. out\<lparr>rsgss_resp_pr_delivery_complete_count := v\<rparr>))"
  unfolding flex 
  by (rule keeps_into; (rule yields_rules)?; simp add: v read_share_group_state_summary_response_partition_result_fields)+

lemma read_share_group_state_summary_response_partition_result_unknown:
  "ReadShareGroupStateSummaryResponse_PartitionResult_fields_wf version (s\<lparr>rsgss_resp_pr_unknown_tagged_fields := u\<rparr>) = ReadShareGroupStateSummaryResponse_PartitionResult_fields_wf version s"
  by (simp_all add: ReadShareGroupStateSummaryResponse_PartitionResult_fields_wf_def)

lemma read_share_group_state_summary_response_partition_result_yields:
  assumes v: "0 \<le>s version"
  shows "yields 1 (ReadShareGroupStateSummaryResponse_PartitionResult_decode version) (ReadShareGroupStateSummaryResponse_PartitionResult_wf version)"
proof -
  have d: "ReadShareGroupStateSummaryResponse_PartitionResult_fields_wf version ReadShareGroupStateSummaryResponse_PartitionResult_default"
    by (simp add: ReadShareGroupStateSummaryResponse_PartitionResult_default_def v read_share_group_state_summary_response_partition_result_fields)
  show ?thesis
    unfolding ReadShareGroupStateSummaryResponse_PartitionResult_decode_def Let_def
    by ((rule read_share_group_state_summary_response_partition_result_steps[OF v refl, THEN yields_step], (rule d | assumption))+, rule yields_trailer[OF _ arms_keep_Nil[of "ReadShareGroupStateSummaryResponse_PartitionResult_fields_wf version" "\<lambda>_. 0"]])
      (simp_all add: v d read_share_group_state_summary_response_partition_result_unknown ReadShareGroupStateSummaryResponse_PartitionResult_wf_def trailer_ok_def )
qed

lemma read_share_group_state_summary_response_partition_result_extends [extends_rules]: "extends_input (ReadShareGroupStateSummaryResponse_PartitionResult_decode version)"
  unfolding ReadShareGroupStateSummaryResponse_PartitionResult_decode_def Let_def by (intro extends_rules)

lemma read_share_group_state_summary_response_partition_result_codec:
  assumes v: "0 \<le>s version"
  shows "message_codec ReadShareGroupStateSummaryResponse_PartitionResult_encode ReadShareGroupStateSummaryResponse_PartitionResult_decode ReadShareGroupStateSummaryResponse_PartitionResult_encoded_len (ReadShareGroupStateSummaryResponse_PartitionResult_wf version) version"
proof
  fix x
  assume w: "ReadShareGroupStateSummaryResponse_PartitionResult_wf version x"
  show "carries (ReadShareGroupStateSummaryResponse_PartitionResult_encode x version) (ReadShareGroupStateSummaryResponse_PartitionResult_decode version) (ReadShareGroupStateSummaryResponse_PartitionResult_encoded_len x version) x"
    unfolding ReadShareGroupStateSummaryResponse_PartitionResult_encode_def ReadShareGroupStateSummaryResponse_PartitionResult_encoded_len_def ReadShareGroupStateSummaryResponse_PartitionResult_decode_def Let_def
    by (use w[unfolded ReadShareGroupStateSummaryResponse_PartitionResult_wf_def ReadShareGroupStateSummaryResponse_PartitionResult_fields_wf_def Let_def] in \<open>elim conjE\<close>, rule carries_cong_len)
      ((rule carries_rules | (erule absent_guarded, assumption) | erule absent_plain
        | simp add: v field_ok_def ReadShareGroupStateSummaryResponse_PartitionResult_default_def )+)
next
  show "yields 1 (ReadShareGroupStateSummaryResponse_PartitionResult_decode version) (ReadShareGroupStateSummaryResponse_PartitionResult_wf version)"
    by (rule read_share_group_state_summary_response_partition_result_yields[OF v])
qed (rule read_share_group_state_summary_response_partition_result_extends)

lemma read_share_group_state_summary_response_partition_result_default_wf [simp]: "0 \<le>s version \<Longrightarrow> ReadShareGroupStateSummaryResponse_PartitionResult_wf version ReadShareGroupStateSummaryResponse_PartitionResult_default"
  by (simp add: ReadShareGroupStateSummaryResponse_PartitionResult_wf_def ReadShareGroupStateSummaryResponse_PartitionResult_default_def trailer_ok_def read_share_group_state_summary_response_partition_result_fields)

lemmas [carries_rules] = message_codec.message_carries[OF read_share_group_state_summary_response_partition_result_codec]
lemmas [yields_rules] = message_codec.message_yields[OF read_share_group_state_summary_response_partition_result_codec]

lemmas [carries_rules] = protocol_codec.put_array_carries[OF message_codec.message_protocol[OF read_share_group_state_summary_response_partition_result_codec]]
lemmas [yields_rules] = protocol_codec.get_array_yields[OF message_codec.message_protocol[OF read_share_group_state_summary_response_partition_result_codec]]
lemmas [carries_rules] = protocol_codec.put_nullable_array_carries[OF message_codec.message_protocol[OF read_share_group_state_summary_response_partition_result_codec]]
lemmas [yields_rules] = protocol_codec.get_nullable_array_yields[OF message_codec.message_protocol[OF read_share_group_state_summary_response_partition_result_codec]]

record ReadShareGroupStateSummaryResponse_ReadStateSummaryResult =
  rsgss_resp_rssr_topic_id :: Uuid
  rsgss_resp_rssr_partitions :: "ReadShareGroupStateSummaryResponse_PartitionResult list"
  rsgss_resp_rssr_unknown_tagged_fields :: "UnknownTaggedField list"

definition ReadShareGroupStateSummaryResponse_ReadStateSummaryResult_default :: ReadShareGroupStateSummaryResponse_ReadStateSummaryResult where
  "ReadShareGroupStateSummaryResponse_ReadStateSummaryResult_default =
     \<lparr>rsgss_resp_rssr_topic_id = Uuid_ZERO, rsgss_resp_rssr_partitions = [], rsgss_resp_rssr_unknown_tagged_fields = []\<rparr>"

definition ReadShareGroupStateSummaryResponse_ReadStateSummaryResult_encode :: "ReadShareGroupStateSummaryResponse_ReadStateSummaryResult \<Rightarrow> i16 \<Rightarrow> encoder" where
  "ReadShareGroupStateSummaryResponse_ReadStateSummaryResult_encode x version =
     (let flex = 0 \<le>s version in
      write_all
        [put_when (0 \<le>s version) (put_uuid (rsgss_resp_rssr_topic_id x)),
         put_when (0 \<le>s version) (put_array flex (\<lambda>it. ReadShareGroupStateSummaryResponse_PartitionResult_encode it version) (rsgss_resp_rssr_partitions x)),
         put_when flex (put_tagged [] (rsgss_resp_rssr_unknown_tagged_fields x))])"

definition ReadShareGroupStateSummaryResponse_ReadStateSummaryResult_encoded_len :: "ReadShareGroupStateSummaryResponse_ReadStateSummaryResult \<Rightarrow> i16 \<Rightarrow> nat" where
  "ReadShareGroupStateSummaryResponse_ReadStateSummaryResult_encoded_len x version =
     (let flex = 0 \<le>s version in
      len_when (0 \<le>s version) 16
      + len_when (0 \<le>s version) (array_size flex (\<lambda>it. ReadShareGroupStateSummaryResponse_PartitionResult_encoded_len it version) (rsgss_resp_rssr_partitions x))
      + len_when flex (tagged_size [] (rsgss_resp_rssr_unknown_tagged_fields x)))"

definition ReadShareGroupStateSummaryResponse_ReadStateSummaryResult_decode :: "i16 \<Rightarrow> ReadShareGroupStateSummaryResponse_ReadStateSummaryResult decoder" where
  "ReadShareGroupStateSummaryResponse_ReadStateSummaryResult_decode version =
     (let flex = 0 \<le>s version in
      read_then (get_into (0 \<le>s version) get_uuid (\<lambda>v out. out\<lparr>rsgss_resp_rssr_topic_id := v\<rparr>) ReadShareGroupStateSummaryResponse_ReadStateSummaryResult_default) (\<lambda>out.
        read_then (get_into (0 \<le>s version) (get_array flex (ReadShareGroupStateSummaryResponse_PartitionResult_decode version)) (\<lambda>v out. out\<lparr>rsgss_resp_rssr_partitions := v\<rparr>) out) (\<lambda>out.
        get_trailer flex [] (\<lambda>u out. out\<lparr>rsgss_resp_rssr_unknown_tagged_fields := u\<rparr>) out)))"

definition ReadShareGroupStateSummaryResponse_ReadStateSummaryResult_fields_wf :: "i16 \<Rightarrow> ReadShareGroupStateSummaryResponse_ReadStateSummaryResult \<Rightarrow> bool" where
  "ReadShareGroupStateSummaryResponse_ReadStateSummaryResult_fields_wf version x \<longleftrightarrow>
     (let flex = 0 \<le>s version in
      uuid_wf (rsgss_resp_rssr_topic_id x)
      \<and> array_ok flex (ReadShareGroupStateSummaryResponse_PartitionResult_wf version) (rsgss_resp_rssr_partitions x))"

definition ReadShareGroupStateSummaryResponse_ReadStateSummaryResult_wf :: "i16 \<Rightarrow> ReadShareGroupStateSummaryResponse_ReadStateSummaryResult \<Rightarrow> bool" where
  "ReadShareGroupStateSummaryResponse_ReadStateSummaryResult_wf version x \<longleftrightarrow>
     ReadShareGroupStateSummaryResponse_ReadStateSummaryResult_fields_wf version x \<and> trailer_ok [] [] (rsgss_resp_rssr_unknown_tagged_fields x)"

lemmas read_share_group_state_summary_response_read_state_summary_result_fields =
    Let_def field_ok_def ReadShareGroupStateSummaryResponse_ReadStateSummaryResult_fields_wf_def

lemma read_share_group_state_summary_response_read_state_summary_result_steps:
  assumes v: "0 \<le>s version" and flex: "flex = (0 \<le>s version)"
  shows "keeps (ReadShareGroupStateSummaryResponse_ReadStateSummaryResult_fields_wf version) (get_into (0 \<le>s version) get_uuid (\<lambda>v out. out\<lparr>rsgss_resp_rssr_topic_id := v\<rparr>))"
    and "keeps (ReadShareGroupStateSummaryResponse_ReadStateSummaryResult_fields_wf version) (get_into (0 \<le>s version) (get_array flex (ReadShareGroupStateSummaryResponse_PartitionResult_decode version)) (\<lambda>v out. out\<lparr>rsgss_resp_rssr_partitions := v\<rparr>))"
  unfolding flex 
  by (rule keeps_into; (rule yields_rules)?; simp add: v read_share_group_state_summary_response_read_state_summary_result_fields)+

lemma read_share_group_state_summary_response_read_state_summary_result_unknown:
  "ReadShareGroupStateSummaryResponse_ReadStateSummaryResult_fields_wf version (s\<lparr>rsgss_resp_rssr_unknown_tagged_fields := u\<rparr>) = ReadShareGroupStateSummaryResponse_ReadStateSummaryResult_fields_wf version s"
  by (simp_all add: ReadShareGroupStateSummaryResponse_ReadStateSummaryResult_fields_wf_def)

lemma read_share_group_state_summary_response_read_state_summary_result_yields:
  assumes v: "0 \<le>s version"
  shows "yields 1 (ReadShareGroupStateSummaryResponse_ReadStateSummaryResult_decode version) (ReadShareGroupStateSummaryResponse_ReadStateSummaryResult_wf version)"
proof -
  have d: "ReadShareGroupStateSummaryResponse_ReadStateSummaryResult_fields_wf version ReadShareGroupStateSummaryResponse_ReadStateSummaryResult_default"
    by (simp add: ReadShareGroupStateSummaryResponse_ReadStateSummaryResult_default_def v read_share_group_state_summary_response_read_state_summary_result_fields)
  show ?thesis
    unfolding ReadShareGroupStateSummaryResponse_ReadStateSummaryResult_decode_def Let_def
    by ((rule read_share_group_state_summary_response_read_state_summary_result_steps[OF v refl, THEN yields_step], (rule d | assumption))+, rule yields_trailer[OF _ arms_keep_Nil[of "ReadShareGroupStateSummaryResponse_ReadStateSummaryResult_fields_wf version" "\<lambda>_. 0"]])
      (simp_all add: v d read_share_group_state_summary_response_read_state_summary_result_unknown ReadShareGroupStateSummaryResponse_ReadStateSummaryResult_wf_def trailer_ok_def )
qed

lemma read_share_group_state_summary_response_read_state_summary_result_extends [extends_rules]: "extends_input (ReadShareGroupStateSummaryResponse_ReadStateSummaryResult_decode version)"
  unfolding ReadShareGroupStateSummaryResponse_ReadStateSummaryResult_decode_def Let_def by (intro extends_rules)

lemma read_share_group_state_summary_response_read_state_summary_result_codec:
  assumes v: "0 \<le>s version"
  shows "message_codec ReadShareGroupStateSummaryResponse_ReadStateSummaryResult_encode ReadShareGroupStateSummaryResponse_ReadStateSummaryResult_decode ReadShareGroupStateSummaryResponse_ReadStateSummaryResult_encoded_len (ReadShareGroupStateSummaryResponse_ReadStateSummaryResult_wf version) version"
proof
  fix x
  assume w: "ReadShareGroupStateSummaryResponse_ReadStateSummaryResult_wf version x"
  show "carries (ReadShareGroupStateSummaryResponse_ReadStateSummaryResult_encode x version) (ReadShareGroupStateSummaryResponse_ReadStateSummaryResult_decode version) (ReadShareGroupStateSummaryResponse_ReadStateSummaryResult_encoded_len x version) x"
    unfolding ReadShareGroupStateSummaryResponse_ReadStateSummaryResult_encode_def ReadShareGroupStateSummaryResponse_ReadStateSummaryResult_encoded_len_def ReadShareGroupStateSummaryResponse_ReadStateSummaryResult_decode_def Let_def
    by (use w[unfolded ReadShareGroupStateSummaryResponse_ReadStateSummaryResult_wf_def ReadShareGroupStateSummaryResponse_ReadStateSummaryResult_fields_wf_def Let_def] in \<open>elim conjE\<close>, rule carries_cong_len)
      ((rule carries_rules | (erule absent_guarded, assumption) | erule absent_plain
        | simp add: v field_ok_def ReadShareGroupStateSummaryResponse_ReadStateSummaryResult_default_def )+)
next
  show "yields 1 (ReadShareGroupStateSummaryResponse_ReadStateSummaryResult_decode version) (ReadShareGroupStateSummaryResponse_ReadStateSummaryResult_wf version)"
    by (rule read_share_group_state_summary_response_read_state_summary_result_yields[OF v])
qed (rule read_share_group_state_summary_response_read_state_summary_result_extends)

lemma read_share_group_state_summary_response_read_state_summary_result_default_wf [simp]: "0 \<le>s version \<Longrightarrow> ReadShareGroupStateSummaryResponse_ReadStateSummaryResult_wf version ReadShareGroupStateSummaryResponse_ReadStateSummaryResult_default"
  by (simp add: ReadShareGroupStateSummaryResponse_ReadStateSummaryResult_wf_def ReadShareGroupStateSummaryResponse_ReadStateSummaryResult_default_def trailer_ok_def read_share_group_state_summary_response_read_state_summary_result_fields)

lemmas [carries_rules] = message_codec.message_carries[OF read_share_group_state_summary_response_read_state_summary_result_codec]
lemmas [yields_rules] = message_codec.message_yields[OF read_share_group_state_summary_response_read_state_summary_result_codec]

lemmas [carries_rules] = protocol_codec.put_array_carries[OF message_codec.message_protocol[OF read_share_group_state_summary_response_read_state_summary_result_codec]]
lemmas [yields_rules] = protocol_codec.get_array_yields[OF message_codec.message_protocol[OF read_share_group_state_summary_response_read_state_summary_result_codec]]
lemmas [carries_rules] = protocol_codec.put_nullable_array_carries[OF message_codec.message_protocol[OF read_share_group_state_summary_response_read_state_summary_result_codec]]
lemmas [yields_rules] = protocol_codec.get_nullable_array_yields[OF message_codec.message_protocol[OF read_share_group_state_summary_response_read_state_summary_result_codec]]

record ReadShareGroupStateSummaryResponse =
  rsgss_resp_results :: "ReadShareGroupStateSummaryResponse_ReadStateSummaryResult list"
  rsgss_resp_unknown_tagged_fields :: "UnknownTaggedField list"

definition ReadShareGroupStateSummaryResponse_default :: ReadShareGroupStateSummaryResponse where
  "ReadShareGroupStateSummaryResponse_default =
     \<lparr>rsgss_resp_results = [], rsgss_resp_unknown_tagged_fields = []\<rparr>"

definition ReadShareGroupStateSummaryResponse_MIN_VERSION :: i16 where
  "ReadShareGroupStateSummaryResponse_MIN_VERSION = 0"

definition ReadShareGroupStateSummaryResponse_MAX_VERSION :: i16 where
  "ReadShareGroupStateSummaryResponse_MAX_VERSION = 1"

definition ReadShareGroupStateSummaryResponse_FLEXIBLE_MIN :: i16 where
  "ReadShareGroupStateSummaryResponse_FLEXIBLE_MIN = 0"

definition ReadShareGroupStateSummaryResponse_API_KEY :: i16 where
  "ReadShareGroupStateSummaryResponse_API_KEY = 87"

definition ReadShareGroupStateSummaryResponse_is_flexible :: "i16 \<Rightarrow> bool" where
  "ReadShareGroupStateSummaryResponse_is_flexible version \<longleftrightarrow> ReadShareGroupStateSummaryResponse_FLEXIBLE_MIN \<le>s version"

definition ReadShareGroupStateSummaryResponse_encode :: "ReadShareGroupStateSummaryResponse \<Rightarrow> i16 \<Rightarrow> encoder" where
  "ReadShareGroupStateSummaryResponse_encode x version =
     (let flex = ReadShareGroupStateSummaryResponse_is_flexible version in
      write_all
        [write_check (check_version ReadShareGroupStateSummaryResponse_API_KEY version ReadShareGroupStateSummaryResponse_MIN_VERSION ReadShareGroupStateSummaryResponse_MAX_VERSION),
         put_when (0 \<le>s version) (put_array flex (\<lambda>it. ReadShareGroupStateSummaryResponse_ReadStateSummaryResult_encode it version) (rsgss_resp_results x)),
         put_when flex (put_tagged [] (rsgss_resp_unknown_tagged_fields x))])"

definition ReadShareGroupStateSummaryResponse_encoded_len :: "ReadShareGroupStateSummaryResponse \<Rightarrow> i16 \<Rightarrow> nat" where
  "ReadShareGroupStateSummaryResponse_encoded_len x version =
     (let flex = ReadShareGroupStateSummaryResponse_is_flexible version in
      len_when (0 \<le>s version) (array_size flex (\<lambda>it. ReadShareGroupStateSummaryResponse_ReadStateSummaryResult_encoded_len it version) (rsgss_resp_results x))
      + len_when flex (tagged_size [] (rsgss_resp_unknown_tagged_fields x)))"

definition ReadShareGroupStateSummaryResponse_decode :: "i16 \<Rightarrow> ReadShareGroupStateSummaryResponse decoder" where
  "ReadShareGroupStateSummaryResponse_decode version =
     (let flex = ReadShareGroupStateSummaryResponse_is_flexible version in
      checked (check_version ReadShareGroupStateSummaryResponse_API_KEY version ReadShareGroupStateSummaryResponse_MIN_VERSION ReadShareGroupStateSummaryResponse_MAX_VERSION) (
        read_then (get_into (0 \<le>s version) (get_array flex (ReadShareGroupStateSummaryResponse_ReadStateSummaryResult_decode version)) (\<lambda>v out. out\<lparr>rsgss_resp_results := v\<rparr>) ReadShareGroupStateSummaryResponse_default) (\<lambda>out.
        get_trailer flex [] (\<lambda>u out. out\<lparr>rsgss_resp_unknown_tagged_fields := u\<rparr>) out)))"

definition ReadShareGroupStateSummaryResponse_fields_wf :: "i16 \<Rightarrow> ReadShareGroupStateSummaryResponse \<Rightarrow> bool" where
  "ReadShareGroupStateSummaryResponse_fields_wf version x \<longleftrightarrow>
     (let flex = ReadShareGroupStateSummaryResponse_is_flexible version in
      array_ok flex (ReadShareGroupStateSummaryResponse_ReadStateSummaryResult_wf version) (rsgss_resp_results x))"

definition ReadShareGroupStateSummaryResponse_wf :: "i16 \<Rightarrow> ReadShareGroupStateSummaryResponse \<Rightarrow> bool" where
  "ReadShareGroupStateSummaryResponse_wf version x \<longleftrightarrow>
     version_in ReadShareGroupStateSummaryResponse_MIN_VERSION ReadShareGroupStateSummaryResponse_MAX_VERSION version \<and> ReadShareGroupStateSummaryResponse_fields_wf version x \<and> trailer_ok [] [] (rsgss_resp_unknown_tagged_fields x)"

lemmas read_share_group_state_summary_response_versions =
    ReadShareGroupStateSummaryResponse_is_flexible_def ReadShareGroupStateSummaryResponse_FLEXIBLE_MIN_def
    ReadShareGroupStateSummaryResponse_MIN_VERSION_def ReadShareGroupStateSummaryResponse_MAX_VERSION_def
    version_in_def

lemmas read_share_group_state_summary_response_fields =
    Let_def field_ok_def ReadShareGroupStateSummaryResponse_fields_wf_def
    ReadShareGroupStateSummaryResponse_is_flexible_def ReadShareGroupStateSummaryResponse_FLEXIBLE_MIN_def

lemma read_share_group_state_summary_response_steps:
  assumes v: "0 \<le>s version" and flex: "flex = (ReadShareGroupStateSummaryResponse_is_flexible version)"
  shows "keeps (ReadShareGroupStateSummaryResponse_fields_wf version) (get_into (0 \<le>s version) (get_array flex (ReadShareGroupStateSummaryResponse_ReadStateSummaryResult_decode version)) (\<lambda>v out. out\<lparr>rsgss_resp_results := v\<rparr>))"
  unfolding flex 
  by (rule keeps_into; (rule yields_rules)?; simp add: v read_share_group_state_summary_response_fields)+

lemma read_share_group_state_summary_response_unknown:
  "ReadShareGroupStateSummaryResponse_fields_wf version (s\<lparr>rsgss_resp_unknown_tagged_fields := u\<rparr>) = ReadShareGroupStateSummaryResponse_fields_wf version s"
  by (simp_all add: ReadShareGroupStateSummaryResponse_fields_wf_def)

lemma read_share_group_state_summary_response_yields:
  assumes r: "version_in ReadShareGroupStateSummaryResponse_MIN_VERSION ReadShareGroupStateSummaryResponse_MAX_VERSION version"
  shows "yields 1 (ReadShareGroupStateSummaryResponse_decode version) (ReadShareGroupStateSummaryResponse_wf version)"
proof -
  have v: "0 \<le>s version"
    using r by (simp add: read_share_group_state_summary_response_versions)
  have d: "ReadShareGroupStateSummaryResponse_fields_wf version ReadShareGroupStateSummaryResponse_default"
    by (simp add: ReadShareGroupStateSummaryResponse_default_def v read_share_group_state_summary_response_fields)
  show ?thesis
    unfolding ReadShareGroupStateSummaryResponse_decode_def Let_def
    by (rule yields_checked, (rule read_share_group_state_summary_response_steps[OF v refl, THEN yields_step], (rule d | assumption))+, rule yields_trailer[OF _ arms_keep_Nil[of "ReadShareGroupStateSummaryResponse_fields_wf version" "\<lambda>_. 0"]])
      (simp_all add: v d read_share_group_state_summary_response_unknown ReadShareGroupStateSummaryResponse_wf_def trailer_ok_def r ReadShareGroupStateSummaryResponse_is_flexible_def ReadShareGroupStateSummaryResponse_FLEXIBLE_MIN_def)
qed

interpretation read_share_group_state_summary_response: message_codec
  ReadShareGroupStateSummaryResponse_encode ReadShareGroupStateSummaryResponse_decode ReadShareGroupStateSummaryResponse_encoded_len "ReadShareGroupStateSummaryResponse_wf version" version
  for version
proof
  fix x
  assume w: "ReadShareGroupStateSummaryResponse_wf version x"
  then have v: "0 \<le>s version"
    by (simp add: ReadShareGroupStateSummaryResponse_wf_def read_share_group_state_summary_response_versions)
  show "carries (ReadShareGroupStateSummaryResponse_encode x version) (ReadShareGroupStateSummaryResponse_decode version) (ReadShareGroupStateSummaryResponse_encoded_len x version) x"
    unfolding ReadShareGroupStateSummaryResponse_encode_def ReadShareGroupStateSummaryResponse_encoded_len_def ReadShareGroupStateSummaryResponse_decode_def Let_def
    by (use w[unfolded ReadShareGroupStateSummaryResponse_wf_def ReadShareGroupStateSummaryResponse_fields_wf_def Let_def] in \<open>elim conjE\<close>, rule carries_cong_len)
      ((rule carries_rules check_version_in[THEN iffD2] | (erule absent_guarded, assumption) | erule absent_plain
        | simp add: v field_ok_def ReadShareGroupStateSummaryResponse_default_def read_share_group_state_summary_response_versions)+)
next
  show "yields 1 (ReadShareGroupStateSummaryResponse_decode version) (ReadShareGroupStateSummaryResponse_wf version)"
    by (rule case_split[OF read_share_group_state_summary_response_yields]) (auto simp: ReadShareGroupStateSummaryResponse_decode_def Let_def yields_refused yields_unsupported)
  show "extends_input (ReadShareGroupStateSummaryResponse_decode version)"
    unfolding ReadShareGroupStateSummaryResponse_decode_def Let_def by (intro extends_rules)
qed

section \<open>ShareAcknowledgeRequest\<close>

record ShareAcknowledgeRequest_AcknowledgementBatch =
  sa_req_ab_first_offset :: i64
  sa_req_ab_last_offset :: i64
  sa_req_ab_acknowledge_types :: "i8 list"
  sa_req_ab_unknown_tagged_fields :: "UnknownTaggedField list"

definition ShareAcknowledgeRequest_AcknowledgementBatch_default :: ShareAcknowledgeRequest_AcknowledgementBatch where
  "ShareAcknowledgeRequest_AcknowledgementBatch_default =
     \<lparr>sa_req_ab_first_offset = 0, sa_req_ab_last_offset = 0, sa_req_ab_acknowledge_types = [], sa_req_ab_unknown_tagged_fields = []\<rparr>"

definition ShareAcknowledgeRequest_AcknowledgementBatch_encode :: "ShareAcknowledgeRequest_AcknowledgementBatch \<Rightarrow> i16 \<Rightarrow> encoder" where
  "ShareAcknowledgeRequest_AcknowledgementBatch_encode x version =
     (let flex = 0 \<le>s version in
      write_all
        [put_when (0 \<le>s version) (put_i64 (sa_req_ab_first_offset x)),
         put_when (0 \<le>s version) (put_i64 (sa_req_ab_last_offset x)),
         put_when (0 \<le>s version) (put_array flex put_i8 (sa_req_ab_acknowledge_types x)),
         put_when flex (put_tagged [] (sa_req_ab_unknown_tagged_fields x))])"

definition ShareAcknowledgeRequest_AcknowledgementBatch_encoded_len :: "ShareAcknowledgeRequest_AcknowledgementBatch \<Rightarrow> i16 \<Rightarrow> nat" where
  "ShareAcknowledgeRequest_AcknowledgementBatch_encoded_len x version =
     (let flex = 0 \<le>s version in
      len_when (0 \<le>s version) 8
      + len_when (0 \<le>s version) 8
      + len_when (0 \<le>s version) (array_size flex (\<lambda>_. 1) (sa_req_ab_acknowledge_types x))
      + len_when flex (tagged_size [] (sa_req_ab_unknown_tagged_fields x)))"

definition ShareAcknowledgeRequest_AcknowledgementBatch_decode :: "i16 \<Rightarrow> ShareAcknowledgeRequest_AcknowledgementBatch decoder" where
  "ShareAcknowledgeRequest_AcknowledgementBatch_decode version =
     (let flex = 0 \<le>s version in
      read_then (get_into (0 \<le>s version) get_i64 (\<lambda>v out. out\<lparr>sa_req_ab_first_offset := v\<rparr>) ShareAcknowledgeRequest_AcknowledgementBatch_default) (\<lambda>out.
        read_then (get_into (0 \<le>s version) get_i64 (\<lambda>v out. out\<lparr>sa_req_ab_last_offset := v\<rparr>) out) (\<lambda>out.
        read_then (get_into (0 \<le>s version) (get_array flex get_i8) (\<lambda>v out. out\<lparr>sa_req_ab_acknowledge_types := v\<rparr>) out) (\<lambda>out.
        get_trailer flex [] (\<lambda>u out. out\<lparr>sa_req_ab_unknown_tagged_fields := u\<rparr>) out))))"

definition ShareAcknowledgeRequest_AcknowledgementBatch_fields_wf :: "i16 \<Rightarrow> ShareAcknowledgeRequest_AcknowledgementBatch \<Rightarrow> bool" where
  "ShareAcknowledgeRequest_AcknowledgementBatch_fields_wf version x \<longleftrightarrow>
     (let flex = 0 \<le>s version in
      array_ok flex (\<lambda>_. True) (sa_req_ab_acknowledge_types x))"

definition ShareAcknowledgeRequest_AcknowledgementBatch_wf :: "i16 \<Rightarrow> ShareAcknowledgeRequest_AcknowledgementBatch \<Rightarrow> bool" where
  "ShareAcknowledgeRequest_AcknowledgementBatch_wf version x \<longleftrightarrow>
     ShareAcknowledgeRequest_AcknowledgementBatch_fields_wf version x \<and> trailer_ok [] [] (sa_req_ab_unknown_tagged_fields x)"

lemmas share_acknowledge_request_acknowledgement_batch_fields =
    Let_def field_ok_def ShareAcknowledgeRequest_AcknowledgementBatch_fields_wf_def

lemma share_acknowledge_request_acknowledgement_batch_steps:
  assumes v: "0 \<le>s version" and flex: "flex = (0 \<le>s version)"
  shows "keeps (ShareAcknowledgeRequest_AcknowledgementBatch_fields_wf version) (get_into (0 \<le>s version) get_i64 (\<lambda>v out. out\<lparr>sa_req_ab_first_offset := v\<rparr>))"
    and "keeps (ShareAcknowledgeRequest_AcknowledgementBatch_fields_wf version) (get_into (0 \<le>s version) get_i64 (\<lambda>v out. out\<lparr>sa_req_ab_last_offset := v\<rparr>))"
    and "keeps (ShareAcknowledgeRequest_AcknowledgementBatch_fields_wf version) (get_into (0 \<le>s version) (get_array flex get_i8) (\<lambda>v out. out\<lparr>sa_req_ab_acknowledge_types := v\<rparr>))"
  unfolding flex 
  by (rule keeps_into; (rule yields_rules)?; simp add: v share_acknowledge_request_acknowledgement_batch_fields)+

lemma share_acknowledge_request_acknowledgement_batch_unknown:
  "ShareAcknowledgeRequest_AcknowledgementBatch_fields_wf version (s\<lparr>sa_req_ab_unknown_tagged_fields := u\<rparr>) = ShareAcknowledgeRequest_AcknowledgementBatch_fields_wf version s"
  by (simp_all add: ShareAcknowledgeRequest_AcknowledgementBatch_fields_wf_def)

lemma share_acknowledge_request_acknowledgement_batch_yields:
  assumes v: "0 \<le>s version"
  shows "yields 1 (ShareAcknowledgeRequest_AcknowledgementBatch_decode version) (ShareAcknowledgeRequest_AcknowledgementBatch_wf version)"
proof -
  have d: "ShareAcknowledgeRequest_AcknowledgementBatch_fields_wf version ShareAcknowledgeRequest_AcknowledgementBatch_default"
    by (simp add: ShareAcknowledgeRequest_AcknowledgementBatch_default_def v share_acknowledge_request_acknowledgement_batch_fields)
  show ?thesis
    unfolding ShareAcknowledgeRequest_AcknowledgementBatch_decode_def Let_def
    by ((rule share_acknowledge_request_acknowledgement_batch_steps[OF v refl, THEN yields_step], (rule d | assumption))+, rule yields_trailer[OF _ arms_keep_Nil[of "ShareAcknowledgeRequest_AcknowledgementBatch_fields_wf version" "\<lambda>_. 0"]])
      (simp_all add: v d share_acknowledge_request_acknowledgement_batch_unknown ShareAcknowledgeRequest_AcknowledgementBatch_wf_def trailer_ok_def )
qed

lemma share_acknowledge_request_acknowledgement_batch_extends [extends_rules]: "extends_input (ShareAcknowledgeRequest_AcknowledgementBatch_decode version)"
  unfolding ShareAcknowledgeRequest_AcknowledgementBatch_decode_def Let_def by (intro extends_rules)

lemma share_acknowledge_request_acknowledgement_batch_codec:
  assumes v: "0 \<le>s version"
  shows "message_codec ShareAcknowledgeRequest_AcknowledgementBatch_encode ShareAcknowledgeRequest_AcknowledgementBatch_decode ShareAcknowledgeRequest_AcknowledgementBatch_encoded_len (ShareAcknowledgeRequest_AcknowledgementBatch_wf version) version"
proof
  fix x
  assume w: "ShareAcknowledgeRequest_AcknowledgementBatch_wf version x"
  show "carries (ShareAcknowledgeRequest_AcknowledgementBatch_encode x version) (ShareAcknowledgeRequest_AcknowledgementBatch_decode version) (ShareAcknowledgeRequest_AcknowledgementBatch_encoded_len x version) x"
    unfolding ShareAcknowledgeRequest_AcknowledgementBatch_encode_def ShareAcknowledgeRequest_AcknowledgementBatch_encoded_len_def ShareAcknowledgeRequest_AcknowledgementBatch_decode_def Let_def
    by (use w[unfolded ShareAcknowledgeRequest_AcknowledgementBatch_wf_def ShareAcknowledgeRequest_AcknowledgementBatch_fields_wf_def Let_def] in \<open>elim conjE\<close>, rule carries_cong_len)
      ((rule carries_rules | (erule absent_guarded, assumption) | erule absent_plain
        | simp add: v field_ok_def ShareAcknowledgeRequest_AcknowledgementBatch_default_def )+)
next
  show "yields 1 (ShareAcknowledgeRequest_AcknowledgementBatch_decode version) (ShareAcknowledgeRequest_AcknowledgementBatch_wf version)"
    by (rule share_acknowledge_request_acknowledgement_batch_yields[OF v])
qed (rule share_acknowledge_request_acknowledgement_batch_extends)

lemma share_acknowledge_request_acknowledgement_batch_default_wf [simp]: "0 \<le>s version \<Longrightarrow> ShareAcknowledgeRequest_AcknowledgementBatch_wf version ShareAcknowledgeRequest_AcknowledgementBatch_default"
  by (simp add: ShareAcknowledgeRequest_AcknowledgementBatch_wf_def ShareAcknowledgeRequest_AcknowledgementBatch_default_def trailer_ok_def share_acknowledge_request_acknowledgement_batch_fields)

lemmas [carries_rules] = message_codec.message_carries[OF share_acknowledge_request_acknowledgement_batch_codec]
lemmas [yields_rules] = message_codec.message_yields[OF share_acknowledge_request_acknowledgement_batch_codec]

lemmas [carries_rules] = protocol_codec.put_array_carries[OF message_codec.message_protocol[OF share_acknowledge_request_acknowledgement_batch_codec]]
lemmas [yields_rules] = protocol_codec.get_array_yields[OF message_codec.message_protocol[OF share_acknowledge_request_acknowledgement_batch_codec]]
lemmas [carries_rules] = protocol_codec.put_nullable_array_carries[OF message_codec.message_protocol[OF share_acknowledge_request_acknowledgement_batch_codec]]
lemmas [yields_rules] = protocol_codec.get_nullable_array_yields[OF message_codec.message_protocol[OF share_acknowledge_request_acknowledgement_batch_codec]]

record ShareAcknowledgeRequest_AcknowledgePartition =
  sa_req_ap_partition_index :: i32
  sa_req_ap_acknowledgement_batches :: "ShareAcknowledgeRequest_AcknowledgementBatch list"
  sa_req_ap_unknown_tagged_fields :: "UnknownTaggedField list"

definition ShareAcknowledgeRequest_AcknowledgePartition_default :: ShareAcknowledgeRequest_AcknowledgePartition where
  "ShareAcknowledgeRequest_AcknowledgePartition_default =
     \<lparr>sa_req_ap_partition_index = 0, sa_req_ap_acknowledgement_batches = [], sa_req_ap_unknown_tagged_fields = []\<rparr>"

definition ShareAcknowledgeRequest_AcknowledgePartition_encode :: "ShareAcknowledgeRequest_AcknowledgePartition \<Rightarrow> i16 \<Rightarrow> encoder" where
  "ShareAcknowledgeRequest_AcknowledgePartition_encode x version =
     (let flex = 0 \<le>s version in
      write_all
        [put_when (0 \<le>s version) (put_i32 (sa_req_ap_partition_index x)),
         put_when (0 \<le>s version) (put_array flex (\<lambda>it. ShareAcknowledgeRequest_AcknowledgementBatch_encode it version) (sa_req_ap_acknowledgement_batches x)),
         put_when flex (put_tagged [] (sa_req_ap_unknown_tagged_fields x))])"

definition ShareAcknowledgeRequest_AcknowledgePartition_encoded_len :: "ShareAcknowledgeRequest_AcknowledgePartition \<Rightarrow> i16 \<Rightarrow> nat" where
  "ShareAcknowledgeRequest_AcknowledgePartition_encoded_len x version =
     (let flex = 0 \<le>s version in
      len_when (0 \<le>s version) 4
      + len_when (0 \<le>s version) (array_size flex (\<lambda>it. ShareAcknowledgeRequest_AcknowledgementBatch_encoded_len it version) (sa_req_ap_acknowledgement_batches x))
      + len_when flex (tagged_size [] (sa_req_ap_unknown_tagged_fields x)))"

definition ShareAcknowledgeRequest_AcknowledgePartition_decode :: "i16 \<Rightarrow> ShareAcknowledgeRequest_AcknowledgePartition decoder" where
  "ShareAcknowledgeRequest_AcknowledgePartition_decode version =
     (let flex = 0 \<le>s version in
      read_then (get_into (0 \<le>s version) get_i32 (\<lambda>v out. out\<lparr>sa_req_ap_partition_index := v\<rparr>) ShareAcknowledgeRequest_AcknowledgePartition_default) (\<lambda>out.
        read_then (get_into (0 \<le>s version) (get_array flex (ShareAcknowledgeRequest_AcknowledgementBatch_decode version)) (\<lambda>v out. out\<lparr>sa_req_ap_acknowledgement_batches := v\<rparr>) out) (\<lambda>out.
        get_trailer flex [] (\<lambda>u out. out\<lparr>sa_req_ap_unknown_tagged_fields := u\<rparr>) out)))"

definition ShareAcknowledgeRequest_AcknowledgePartition_fields_wf :: "i16 \<Rightarrow> ShareAcknowledgeRequest_AcknowledgePartition \<Rightarrow> bool" where
  "ShareAcknowledgeRequest_AcknowledgePartition_fields_wf version x \<longleftrightarrow>
     (let flex = 0 \<le>s version in
      array_ok flex (ShareAcknowledgeRequest_AcknowledgementBatch_wf version) (sa_req_ap_acknowledgement_batches x))"

definition ShareAcknowledgeRequest_AcknowledgePartition_wf :: "i16 \<Rightarrow> ShareAcknowledgeRequest_AcknowledgePartition \<Rightarrow> bool" where
  "ShareAcknowledgeRequest_AcknowledgePartition_wf version x \<longleftrightarrow>
     ShareAcknowledgeRequest_AcknowledgePartition_fields_wf version x \<and> trailer_ok [] [] (sa_req_ap_unknown_tagged_fields x)"

lemmas share_acknowledge_request_acknowledge_partition_fields =
    Let_def field_ok_def ShareAcknowledgeRequest_AcknowledgePartition_fields_wf_def

lemma share_acknowledge_request_acknowledge_partition_steps:
  assumes v: "0 \<le>s version" and flex: "flex = (0 \<le>s version)"
  shows "keeps (ShareAcknowledgeRequest_AcknowledgePartition_fields_wf version) (get_into (0 \<le>s version) get_i32 (\<lambda>v out. out\<lparr>sa_req_ap_partition_index := v\<rparr>))"
    and "keeps (ShareAcknowledgeRequest_AcknowledgePartition_fields_wf version) (get_into (0 \<le>s version) (get_array flex (ShareAcknowledgeRequest_AcknowledgementBatch_decode version)) (\<lambda>v out. out\<lparr>sa_req_ap_acknowledgement_batches := v\<rparr>))"
  unfolding flex 
  by (rule keeps_into; (rule yields_rules)?; simp add: v share_acknowledge_request_acknowledge_partition_fields)+

lemma share_acknowledge_request_acknowledge_partition_unknown:
  "ShareAcknowledgeRequest_AcknowledgePartition_fields_wf version (s\<lparr>sa_req_ap_unknown_tagged_fields := u\<rparr>) = ShareAcknowledgeRequest_AcknowledgePartition_fields_wf version s"
  by (simp_all add: ShareAcknowledgeRequest_AcknowledgePartition_fields_wf_def)

lemma share_acknowledge_request_acknowledge_partition_yields:
  assumes v: "0 \<le>s version"
  shows "yields 1 (ShareAcknowledgeRequest_AcknowledgePartition_decode version) (ShareAcknowledgeRequest_AcknowledgePartition_wf version)"
proof -
  have d: "ShareAcknowledgeRequest_AcknowledgePartition_fields_wf version ShareAcknowledgeRequest_AcknowledgePartition_default"
    by (simp add: ShareAcknowledgeRequest_AcknowledgePartition_default_def v share_acknowledge_request_acknowledge_partition_fields)
  show ?thesis
    unfolding ShareAcknowledgeRequest_AcknowledgePartition_decode_def Let_def
    by ((rule share_acknowledge_request_acknowledge_partition_steps[OF v refl, THEN yields_step], (rule d | assumption))+, rule yields_trailer[OF _ arms_keep_Nil[of "ShareAcknowledgeRequest_AcknowledgePartition_fields_wf version" "\<lambda>_. 0"]])
      (simp_all add: v d share_acknowledge_request_acknowledge_partition_unknown ShareAcknowledgeRequest_AcknowledgePartition_wf_def trailer_ok_def )
qed

lemma share_acknowledge_request_acknowledge_partition_extends [extends_rules]: "extends_input (ShareAcknowledgeRequest_AcknowledgePartition_decode version)"
  unfolding ShareAcknowledgeRequest_AcknowledgePartition_decode_def Let_def by (intro extends_rules)

lemma share_acknowledge_request_acknowledge_partition_codec:
  assumes v: "0 \<le>s version"
  shows "message_codec ShareAcknowledgeRequest_AcknowledgePartition_encode ShareAcknowledgeRequest_AcknowledgePartition_decode ShareAcknowledgeRequest_AcknowledgePartition_encoded_len (ShareAcknowledgeRequest_AcknowledgePartition_wf version) version"
proof
  fix x
  assume w: "ShareAcknowledgeRequest_AcknowledgePartition_wf version x"
  show "carries (ShareAcknowledgeRequest_AcknowledgePartition_encode x version) (ShareAcknowledgeRequest_AcknowledgePartition_decode version) (ShareAcknowledgeRequest_AcknowledgePartition_encoded_len x version) x"
    unfolding ShareAcknowledgeRequest_AcknowledgePartition_encode_def ShareAcknowledgeRequest_AcknowledgePartition_encoded_len_def ShareAcknowledgeRequest_AcknowledgePartition_decode_def Let_def
    by (use w[unfolded ShareAcknowledgeRequest_AcknowledgePartition_wf_def ShareAcknowledgeRequest_AcknowledgePartition_fields_wf_def Let_def] in \<open>elim conjE\<close>, rule carries_cong_len)
      ((rule carries_rules | (erule absent_guarded, assumption) | erule absent_plain
        | simp add: v field_ok_def ShareAcknowledgeRequest_AcknowledgePartition_default_def )+)
next
  show "yields 1 (ShareAcknowledgeRequest_AcknowledgePartition_decode version) (ShareAcknowledgeRequest_AcknowledgePartition_wf version)"
    by (rule share_acknowledge_request_acknowledge_partition_yields[OF v])
qed (rule share_acknowledge_request_acknowledge_partition_extends)

lemma share_acknowledge_request_acknowledge_partition_default_wf [simp]: "0 \<le>s version \<Longrightarrow> ShareAcknowledgeRequest_AcknowledgePartition_wf version ShareAcknowledgeRequest_AcknowledgePartition_default"
  by (simp add: ShareAcknowledgeRequest_AcknowledgePartition_wf_def ShareAcknowledgeRequest_AcknowledgePartition_default_def trailer_ok_def share_acknowledge_request_acknowledge_partition_fields)

lemmas [carries_rules] = message_codec.message_carries[OF share_acknowledge_request_acknowledge_partition_codec]
lemmas [yields_rules] = message_codec.message_yields[OF share_acknowledge_request_acknowledge_partition_codec]

lemmas [carries_rules] = protocol_codec.put_array_carries[OF message_codec.message_protocol[OF share_acknowledge_request_acknowledge_partition_codec]]
lemmas [yields_rules] = protocol_codec.get_array_yields[OF message_codec.message_protocol[OF share_acknowledge_request_acknowledge_partition_codec]]
lemmas [carries_rules] = protocol_codec.put_nullable_array_carries[OF message_codec.message_protocol[OF share_acknowledge_request_acknowledge_partition_codec]]
lemmas [yields_rules] = protocol_codec.get_nullable_array_yields[OF message_codec.message_protocol[OF share_acknowledge_request_acknowledge_partition_codec]]

record ShareAcknowledgeRequest_AcknowledgeTopic =
  sa_req_at_topic_id :: Uuid
  sa_req_at_partitions :: "ShareAcknowledgeRequest_AcknowledgePartition list"
  sa_req_at_unknown_tagged_fields :: "UnknownTaggedField list"

definition ShareAcknowledgeRequest_AcknowledgeTopic_default :: ShareAcknowledgeRequest_AcknowledgeTopic where
  "ShareAcknowledgeRequest_AcknowledgeTopic_default =
     \<lparr>sa_req_at_topic_id = Uuid_ZERO, sa_req_at_partitions = [], sa_req_at_unknown_tagged_fields = []\<rparr>"

definition ShareAcknowledgeRequest_AcknowledgeTopic_encode :: "ShareAcknowledgeRequest_AcknowledgeTopic \<Rightarrow> i16 \<Rightarrow> encoder" where
  "ShareAcknowledgeRequest_AcknowledgeTopic_encode x version =
     (let flex = 0 \<le>s version in
      write_all
        [put_when (0 \<le>s version) (put_uuid (sa_req_at_topic_id x)),
         put_when (0 \<le>s version) (put_array flex (\<lambda>it. ShareAcknowledgeRequest_AcknowledgePartition_encode it version) (sa_req_at_partitions x)),
         put_when flex (put_tagged [] (sa_req_at_unknown_tagged_fields x))])"

definition ShareAcknowledgeRequest_AcknowledgeTopic_encoded_len :: "ShareAcknowledgeRequest_AcknowledgeTopic \<Rightarrow> i16 \<Rightarrow> nat" where
  "ShareAcknowledgeRequest_AcknowledgeTopic_encoded_len x version =
     (let flex = 0 \<le>s version in
      len_when (0 \<le>s version) 16
      + len_when (0 \<le>s version) (array_size flex (\<lambda>it. ShareAcknowledgeRequest_AcknowledgePartition_encoded_len it version) (sa_req_at_partitions x))
      + len_when flex (tagged_size [] (sa_req_at_unknown_tagged_fields x)))"

definition ShareAcknowledgeRequest_AcknowledgeTopic_decode :: "i16 \<Rightarrow> ShareAcknowledgeRequest_AcknowledgeTopic decoder" where
  "ShareAcknowledgeRequest_AcknowledgeTopic_decode version =
     (let flex = 0 \<le>s version in
      read_then (get_into (0 \<le>s version) get_uuid (\<lambda>v out. out\<lparr>sa_req_at_topic_id := v\<rparr>) ShareAcknowledgeRequest_AcknowledgeTopic_default) (\<lambda>out.
        read_then (get_into (0 \<le>s version) (get_array flex (ShareAcknowledgeRequest_AcknowledgePartition_decode version)) (\<lambda>v out. out\<lparr>sa_req_at_partitions := v\<rparr>) out) (\<lambda>out.
        get_trailer flex [] (\<lambda>u out. out\<lparr>sa_req_at_unknown_tagged_fields := u\<rparr>) out)))"

definition ShareAcknowledgeRequest_AcknowledgeTopic_fields_wf :: "i16 \<Rightarrow> ShareAcknowledgeRequest_AcknowledgeTopic \<Rightarrow> bool" where
  "ShareAcknowledgeRequest_AcknowledgeTopic_fields_wf version x \<longleftrightarrow>
     (let flex = 0 \<le>s version in
      uuid_wf (sa_req_at_topic_id x)
      \<and> array_ok flex (ShareAcknowledgeRequest_AcknowledgePartition_wf version) (sa_req_at_partitions x))"

definition ShareAcknowledgeRequest_AcknowledgeTopic_wf :: "i16 \<Rightarrow> ShareAcknowledgeRequest_AcknowledgeTopic \<Rightarrow> bool" where
  "ShareAcknowledgeRequest_AcknowledgeTopic_wf version x \<longleftrightarrow>
     ShareAcknowledgeRequest_AcknowledgeTopic_fields_wf version x \<and> trailer_ok [] [] (sa_req_at_unknown_tagged_fields x)"

lemmas share_acknowledge_request_acknowledge_topic_fields =
    Let_def field_ok_def ShareAcknowledgeRequest_AcknowledgeTopic_fields_wf_def

lemma share_acknowledge_request_acknowledge_topic_steps:
  assumes v: "0 \<le>s version" and flex: "flex = (0 \<le>s version)"
  shows "keeps (ShareAcknowledgeRequest_AcknowledgeTopic_fields_wf version) (get_into (0 \<le>s version) get_uuid (\<lambda>v out. out\<lparr>sa_req_at_topic_id := v\<rparr>))"
    and "keeps (ShareAcknowledgeRequest_AcknowledgeTopic_fields_wf version) (get_into (0 \<le>s version) (get_array flex (ShareAcknowledgeRequest_AcknowledgePartition_decode version)) (\<lambda>v out. out\<lparr>sa_req_at_partitions := v\<rparr>))"
  unfolding flex 
  by (rule keeps_into; (rule yields_rules)?; simp add: v share_acknowledge_request_acknowledge_topic_fields)+

lemma share_acknowledge_request_acknowledge_topic_unknown:
  "ShareAcknowledgeRequest_AcknowledgeTopic_fields_wf version (s\<lparr>sa_req_at_unknown_tagged_fields := u\<rparr>) = ShareAcknowledgeRequest_AcknowledgeTopic_fields_wf version s"
  by (simp_all add: ShareAcknowledgeRequest_AcknowledgeTopic_fields_wf_def)

lemma share_acknowledge_request_acknowledge_topic_yields:
  assumes v: "0 \<le>s version"
  shows "yields 1 (ShareAcknowledgeRequest_AcknowledgeTopic_decode version) (ShareAcknowledgeRequest_AcknowledgeTopic_wf version)"
proof -
  have d: "ShareAcknowledgeRequest_AcknowledgeTopic_fields_wf version ShareAcknowledgeRequest_AcknowledgeTopic_default"
    by (simp add: ShareAcknowledgeRequest_AcknowledgeTopic_default_def v share_acknowledge_request_acknowledge_topic_fields)
  show ?thesis
    unfolding ShareAcknowledgeRequest_AcknowledgeTopic_decode_def Let_def
    by ((rule share_acknowledge_request_acknowledge_topic_steps[OF v refl, THEN yields_step], (rule d | assumption))+, rule yields_trailer[OF _ arms_keep_Nil[of "ShareAcknowledgeRequest_AcknowledgeTopic_fields_wf version" "\<lambda>_. 0"]])
      (simp_all add: v d share_acknowledge_request_acknowledge_topic_unknown ShareAcknowledgeRequest_AcknowledgeTopic_wf_def trailer_ok_def )
qed

lemma share_acknowledge_request_acknowledge_topic_extends [extends_rules]: "extends_input (ShareAcknowledgeRequest_AcknowledgeTopic_decode version)"
  unfolding ShareAcknowledgeRequest_AcknowledgeTopic_decode_def Let_def by (intro extends_rules)

lemma share_acknowledge_request_acknowledge_topic_codec:
  assumes v: "0 \<le>s version"
  shows "message_codec ShareAcknowledgeRequest_AcknowledgeTopic_encode ShareAcknowledgeRequest_AcknowledgeTopic_decode ShareAcknowledgeRequest_AcknowledgeTopic_encoded_len (ShareAcknowledgeRequest_AcknowledgeTopic_wf version) version"
proof
  fix x
  assume w: "ShareAcknowledgeRequest_AcknowledgeTopic_wf version x"
  show "carries (ShareAcknowledgeRequest_AcknowledgeTopic_encode x version) (ShareAcknowledgeRequest_AcknowledgeTopic_decode version) (ShareAcknowledgeRequest_AcknowledgeTopic_encoded_len x version) x"
    unfolding ShareAcknowledgeRequest_AcknowledgeTopic_encode_def ShareAcknowledgeRequest_AcknowledgeTopic_encoded_len_def ShareAcknowledgeRequest_AcknowledgeTopic_decode_def Let_def
    by (use w[unfolded ShareAcknowledgeRequest_AcknowledgeTopic_wf_def ShareAcknowledgeRequest_AcknowledgeTopic_fields_wf_def Let_def] in \<open>elim conjE\<close>, rule carries_cong_len)
      ((rule carries_rules | (erule absent_guarded, assumption) | erule absent_plain
        | simp add: v field_ok_def ShareAcknowledgeRequest_AcknowledgeTopic_default_def )+)
next
  show "yields 1 (ShareAcknowledgeRequest_AcknowledgeTopic_decode version) (ShareAcknowledgeRequest_AcknowledgeTopic_wf version)"
    by (rule share_acknowledge_request_acknowledge_topic_yields[OF v])
qed (rule share_acknowledge_request_acknowledge_topic_extends)

lemma share_acknowledge_request_acknowledge_topic_default_wf [simp]: "0 \<le>s version \<Longrightarrow> ShareAcknowledgeRequest_AcknowledgeTopic_wf version ShareAcknowledgeRequest_AcknowledgeTopic_default"
  by (simp add: ShareAcknowledgeRequest_AcknowledgeTopic_wf_def ShareAcknowledgeRequest_AcknowledgeTopic_default_def trailer_ok_def share_acknowledge_request_acknowledge_topic_fields)

lemmas [carries_rules] = message_codec.message_carries[OF share_acknowledge_request_acknowledge_topic_codec]
lemmas [yields_rules] = message_codec.message_yields[OF share_acknowledge_request_acknowledge_topic_codec]

lemmas [carries_rules] = protocol_codec.put_array_carries[OF message_codec.message_protocol[OF share_acknowledge_request_acknowledge_topic_codec]]
lemmas [yields_rules] = protocol_codec.get_array_yields[OF message_codec.message_protocol[OF share_acknowledge_request_acknowledge_topic_codec]]
lemmas [carries_rules] = protocol_codec.put_nullable_array_carries[OF message_codec.message_protocol[OF share_acknowledge_request_acknowledge_topic_codec]]
lemmas [yields_rules] = protocol_codec.get_nullable_array_yields[OF message_codec.message_protocol[OF share_acknowledge_request_acknowledge_topic_codec]]

record ShareAcknowledgeRequest =
  sa_req_group_id :: "bytes option"
  sa_req_member_id :: "bytes option"
  sa_req_share_session_epoch :: i32
  sa_req_is_renew_ack :: bool
  sa_req_topics :: "ShareAcknowledgeRequest_AcknowledgeTopic list"
  sa_req_unknown_tagged_fields :: "UnknownTaggedField list"

definition ShareAcknowledgeRequest_default :: ShareAcknowledgeRequest where
  "ShareAcknowledgeRequest_default =
     \<lparr>sa_req_group_id = None, sa_req_member_id = Some [], sa_req_share_session_epoch = 0, sa_req_is_renew_ack = False, sa_req_topics = [], sa_req_unknown_tagged_fields = []\<rparr>"

definition ShareAcknowledgeRequest_MIN_VERSION :: i16 where
  "ShareAcknowledgeRequest_MIN_VERSION = 1"

definition ShareAcknowledgeRequest_MAX_VERSION :: i16 where
  "ShareAcknowledgeRequest_MAX_VERSION = 2"

definition ShareAcknowledgeRequest_FLEXIBLE_MIN :: i16 where
  "ShareAcknowledgeRequest_FLEXIBLE_MIN = 0"

definition ShareAcknowledgeRequest_API_KEY :: i16 where
  "ShareAcknowledgeRequest_API_KEY = 79"

definition ShareAcknowledgeRequest_is_flexible :: "i16 \<Rightarrow> bool" where
  "ShareAcknowledgeRequest_is_flexible version \<longleftrightarrow> ShareAcknowledgeRequest_FLEXIBLE_MIN \<le>s version"

definition ShareAcknowledgeRequest_encode :: "ShareAcknowledgeRequest \<Rightarrow> i16 \<Rightarrow> encoder" where
  "ShareAcknowledgeRequest_encode x version =
     (let flex = ShareAcknowledgeRequest_is_flexible version in
      write_all
        [write_check (check_version ShareAcknowledgeRequest_API_KEY version ShareAcknowledgeRequest_MIN_VERSION ShareAcknowledgeRequest_MAX_VERSION),
         put_when (0 \<le>s version) (put_nullable_str flex (sa_req_group_id x)),
         put_when (0 \<le>s version) (put_nullable_str flex (sa_req_member_id x)),
         put_when (0 \<le>s version) (put_i32 (sa_req_share_session_epoch x)),
         put_when (2 \<le>s version) (put_bool (sa_req_is_renew_ack x)),
         put_when (0 \<le>s version) (put_array flex (\<lambda>it. ShareAcknowledgeRequest_AcknowledgeTopic_encode it version) (sa_req_topics x)),
         put_when flex (put_tagged [] (sa_req_unknown_tagged_fields x))])"

definition ShareAcknowledgeRequest_encoded_len :: "ShareAcknowledgeRequest \<Rightarrow> i16 \<Rightarrow> nat" where
  "ShareAcknowledgeRequest_encoded_len x version =
     (let flex = ShareAcknowledgeRequest_is_flexible version in
      len_when (0 \<le>s version) (nullable_str_len flex (sa_req_group_id x))
      + len_when (0 \<le>s version) (nullable_str_len flex (sa_req_member_id x))
      + len_when (0 \<le>s version) 4
      + len_when (2 \<le>s version) 1
      + len_when (0 \<le>s version) (array_size flex (\<lambda>it. ShareAcknowledgeRequest_AcknowledgeTopic_encoded_len it version) (sa_req_topics x))
      + len_when flex (tagged_size [] (sa_req_unknown_tagged_fields x)))"

definition ShareAcknowledgeRequest_decode :: "i16 \<Rightarrow> ShareAcknowledgeRequest decoder" where
  "ShareAcknowledgeRequest_decode version =
     (let flex = ShareAcknowledgeRequest_is_flexible version in
      checked (check_version ShareAcknowledgeRequest_API_KEY version ShareAcknowledgeRequest_MIN_VERSION ShareAcknowledgeRequest_MAX_VERSION) (
        read_then (get_into (0 \<le>s version) (get_nullable_str flex) (\<lambda>v out. out\<lparr>sa_req_group_id := v\<rparr>) ShareAcknowledgeRequest_default) (\<lambda>out.
        read_then (get_into (0 \<le>s version) (get_nullable_str flex) (\<lambda>v out. out\<lparr>sa_req_member_id := v\<rparr>) out) (\<lambda>out.
        read_then (get_into (0 \<le>s version) get_i32 (\<lambda>v out. out\<lparr>sa_req_share_session_epoch := v\<rparr>) out) (\<lambda>out.
        read_then (get_into (2 \<le>s version) get_bool (\<lambda>v out. out\<lparr>sa_req_is_renew_ack := v\<rparr>) out) (\<lambda>out.
        read_then (get_into (0 \<le>s version) (get_array flex (ShareAcknowledgeRequest_AcknowledgeTopic_decode version)) (\<lambda>v out. out\<lparr>sa_req_topics := v\<rparr>) out) (\<lambda>out.
        get_trailer flex [] (\<lambda>u out. out\<lparr>sa_req_unknown_tagged_fields := u\<rparr>) out)))))))"

definition ShareAcknowledgeRequest_fields_wf :: "i16 \<Rightarrow> ShareAcknowledgeRequest \<Rightarrow> bool" where
  "ShareAcknowledgeRequest_fields_wf version x \<longleftrightarrow>
     (let flex = ShareAcknowledgeRequest_is_flexible version in
      nullable_str_wf flex (sa_req_group_id x)
      \<and> nullable_str_wf flex (sa_req_member_id x)
      \<and> field_ok (2 \<le>s version) False (\<lambda>_. True) (sa_req_is_renew_ack x)
      \<and> array_ok flex (ShareAcknowledgeRequest_AcknowledgeTopic_wf version) (sa_req_topics x))"

definition ShareAcknowledgeRequest_wf :: "i16 \<Rightarrow> ShareAcknowledgeRequest \<Rightarrow> bool" where
  "ShareAcknowledgeRequest_wf version x \<longleftrightarrow>
     version_in ShareAcknowledgeRequest_MIN_VERSION ShareAcknowledgeRequest_MAX_VERSION version \<and> ShareAcknowledgeRequest_fields_wf version x \<and> trailer_ok [] [] (sa_req_unknown_tagged_fields x)"

lemmas share_acknowledge_request_versions =
    ShareAcknowledgeRequest_is_flexible_def ShareAcknowledgeRequest_FLEXIBLE_MIN_def
    ShareAcknowledgeRequest_MIN_VERSION_def ShareAcknowledgeRequest_MAX_VERSION_def version_in_def

lemmas share_acknowledge_request_fields =
    Let_def field_ok_def ShareAcknowledgeRequest_fields_wf_def ShareAcknowledgeRequest_is_flexible_def
    ShareAcknowledgeRequest_FLEXIBLE_MIN_def

lemma share_acknowledge_request_steps:
  assumes v: "0 \<le>s version" and flex: "flex = (ShareAcknowledgeRequest_is_flexible version)"
  shows "keeps (ShareAcknowledgeRequest_fields_wf version) (get_into (0 \<le>s version) (get_nullable_str flex) (\<lambda>v out. out\<lparr>sa_req_group_id := v\<rparr>))"
    and "keeps (ShareAcknowledgeRequest_fields_wf version) (get_into (0 \<le>s version) (get_nullable_str flex) (\<lambda>v out. out\<lparr>sa_req_member_id := v\<rparr>))"
    and "keeps (ShareAcknowledgeRequest_fields_wf version) (get_into (0 \<le>s version) get_i32 (\<lambda>v out. out\<lparr>sa_req_share_session_epoch := v\<rparr>))"
    and "keeps (ShareAcknowledgeRequest_fields_wf version) (get_into (2 \<le>s version) get_bool (\<lambda>v out. out\<lparr>sa_req_is_renew_ack := v\<rparr>))"
    and "keeps (ShareAcknowledgeRequest_fields_wf version) (get_into (0 \<le>s version) (get_array flex (ShareAcknowledgeRequest_AcknowledgeTopic_decode version)) (\<lambda>v out. out\<lparr>sa_req_topics := v\<rparr>))"
  unfolding flex 
  by (rule keeps_into; (rule yields_rules)?; simp add: v share_acknowledge_request_fields)+

lemma share_acknowledge_request_unknown:
  "ShareAcknowledgeRequest_fields_wf version (s\<lparr>sa_req_unknown_tagged_fields := u\<rparr>) = ShareAcknowledgeRequest_fields_wf version s"
  by (simp_all add: ShareAcknowledgeRequest_fields_wf_def)

lemma share_acknowledge_request_yields:
  assumes r: "version_in ShareAcknowledgeRequest_MIN_VERSION ShareAcknowledgeRequest_MAX_VERSION version"
  shows "yields 1 (ShareAcknowledgeRequest_decode version) (ShareAcknowledgeRequest_wf version)"
proof -
  have v: "0 \<le>s version"
    using r by (rule version_not_negative) (simp add: ShareAcknowledgeRequest_MIN_VERSION_def word_sle_eq)
  have d: "ShareAcknowledgeRequest_fields_wf version ShareAcknowledgeRequest_default"
    by (simp add: ShareAcknowledgeRequest_default_def v share_acknowledge_request_fields)
  show ?thesis
    unfolding ShareAcknowledgeRequest_decode_def Let_def
    by (rule yields_checked, (rule share_acknowledge_request_steps[OF v refl, THEN yields_step], (rule d | assumption))+, rule yields_trailer[OF _ arms_keep_Nil[of "ShareAcknowledgeRequest_fields_wf version" "\<lambda>_. 0"]])
      (simp_all add: v d share_acknowledge_request_unknown ShareAcknowledgeRequest_wf_def trailer_ok_def r ShareAcknowledgeRequest_is_flexible_def ShareAcknowledgeRequest_FLEXIBLE_MIN_def)
qed

interpretation share_acknowledge_request: message_codec
  ShareAcknowledgeRequest_encode ShareAcknowledgeRequest_decode ShareAcknowledgeRequest_encoded_len "ShareAcknowledgeRequest_wf version" version
  for version
proof
  fix x
  assume w: "ShareAcknowledgeRequest_wf version x"
  then have "version_in ShareAcknowledgeRequest_MIN_VERSION ShareAcknowledgeRequest_MAX_VERSION version"
    by (simp add: ShareAcknowledgeRequest_wf_def)
  then have v: "0 \<le>s version"
    by (rule version_not_negative) (simp add: ShareAcknowledgeRequest_MIN_VERSION_def word_sle_eq)
  show "carries (ShareAcknowledgeRequest_encode x version) (ShareAcknowledgeRequest_decode version) (ShareAcknowledgeRequest_encoded_len x version) x"
    unfolding ShareAcknowledgeRequest_encode_def ShareAcknowledgeRequest_encoded_len_def ShareAcknowledgeRequest_decode_def Let_def
    by (use w[unfolded ShareAcknowledgeRequest_wf_def ShareAcknowledgeRequest_fields_wf_def Let_def] in \<open>elim conjE\<close>, rule carries_cong_len)
      ((rule carries_rules check_version_in[THEN iffD2] | (erule absent_guarded, assumption) | erule absent_plain
        | simp add: v field_ok_def ShareAcknowledgeRequest_default_def share_acknowledge_request_versions)+)
next
  show "yields 1 (ShareAcknowledgeRequest_decode version) (ShareAcknowledgeRequest_wf version)"
    by (rule case_split[OF share_acknowledge_request_yields]) (auto simp: ShareAcknowledgeRequest_decode_def Let_def yields_refused yields_unsupported)
  show "extends_input (ShareAcknowledgeRequest_decode version)"
    unfolding ShareAcknowledgeRequest_decode_def Let_def by (intro extends_rules)
qed

section \<open>ShareAcknowledgeResponse\<close>

record ShareAcknowledgeResponse_LeaderIdAndEpoch =
  sa_resp_liae_leader_id :: i32
  sa_resp_liae_leader_epoch :: i32
  sa_resp_liae_unknown_tagged_fields :: "UnknownTaggedField list"

definition ShareAcknowledgeResponse_LeaderIdAndEpoch_default :: ShareAcknowledgeResponse_LeaderIdAndEpoch where
  "ShareAcknowledgeResponse_LeaderIdAndEpoch_default =
     \<lparr>sa_resp_liae_leader_id = 0, sa_resp_liae_leader_epoch = 0, sa_resp_liae_unknown_tagged_fields = []\<rparr>"

definition ShareAcknowledgeResponse_LeaderIdAndEpoch_encode :: "ShareAcknowledgeResponse_LeaderIdAndEpoch \<Rightarrow> i16 \<Rightarrow> encoder" where
  "ShareAcknowledgeResponse_LeaderIdAndEpoch_encode x version =
     (let flex = 0 \<le>s version in
      write_all
        [put_when (0 \<le>s version) (put_i32 (sa_resp_liae_leader_id x)),
         put_when (0 \<le>s version) (put_i32 (sa_resp_liae_leader_epoch x)),
         put_when flex (put_tagged [] (sa_resp_liae_unknown_tagged_fields x))])"

definition ShareAcknowledgeResponse_LeaderIdAndEpoch_encoded_len :: "ShareAcknowledgeResponse_LeaderIdAndEpoch \<Rightarrow> i16 \<Rightarrow> nat" where
  "ShareAcknowledgeResponse_LeaderIdAndEpoch_encoded_len x version =
     (let flex = 0 \<le>s version in
      len_when (0 \<le>s version) 4
      + len_when (0 \<le>s version) 4
      + len_when flex (tagged_size [] (sa_resp_liae_unknown_tagged_fields x)))"

definition ShareAcknowledgeResponse_LeaderIdAndEpoch_decode :: "i16 \<Rightarrow> ShareAcknowledgeResponse_LeaderIdAndEpoch decoder" where
  "ShareAcknowledgeResponse_LeaderIdAndEpoch_decode version =
     (let flex = 0 \<le>s version in
      read_then (get_into (0 \<le>s version) get_i32 (\<lambda>v out. out\<lparr>sa_resp_liae_leader_id := v\<rparr>) ShareAcknowledgeResponse_LeaderIdAndEpoch_default) (\<lambda>out.
        read_then (get_into (0 \<le>s version) get_i32 (\<lambda>v out. out\<lparr>sa_resp_liae_leader_epoch := v\<rparr>) out) (\<lambda>out.
        get_trailer flex [] (\<lambda>u out. out\<lparr>sa_resp_liae_unknown_tagged_fields := u\<rparr>) out)))"

definition ShareAcknowledgeResponse_LeaderIdAndEpoch_fields_wf :: "i16 \<Rightarrow> ShareAcknowledgeResponse_LeaderIdAndEpoch \<Rightarrow> bool" where
  "ShareAcknowledgeResponse_LeaderIdAndEpoch_fields_wf version x \<longleftrightarrow>
     True"

definition ShareAcknowledgeResponse_LeaderIdAndEpoch_wf :: "i16 \<Rightarrow> ShareAcknowledgeResponse_LeaderIdAndEpoch \<Rightarrow> bool" where
  "ShareAcknowledgeResponse_LeaderIdAndEpoch_wf version x \<longleftrightarrow>
     ShareAcknowledgeResponse_LeaderIdAndEpoch_fields_wf version x \<and> trailer_ok [] [] (sa_resp_liae_unknown_tagged_fields x)"

lemmas share_acknowledge_response_leader_id_and_epoch_fields =
    Let_def field_ok_def ShareAcknowledgeResponse_LeaderIdAndEpoch_fields_wf_def

lemma share_acknowledge_response_leader_id_and_epoch_steps:
  assumes v: "0 \<le>s version" and flex: "flex = (0 \<le>s version)"
  shows "keeps (ShareAcknowledgeResponse_LeaderIdAndEpoch_fields_wf version) (get_into (0 \<le>s version) get_i32 (\<lambda>v out. out\<lparr>sa_resp_liae_leader_id := v\<rparr>))"
    and "keeps (ShareAcknowledgeResponse_LeaderIdAndEpoch_fields_wf version) (get_into (0 \<le>s version) get_i32 (\<lambda>v out. out\<lparr>sa_resp_liae_leader_epoch := v\<rparr>))"
  unfolding flex 
  by (rule keeps_into; (rule yields_rules)?; simp add: v share_acknowledge_response_leader_id_and_epoch_fields)+

lemma share_acknowledge_response_leader_id_and_epoch_unknown:
  "ShareAcknowledgeResponse_LeaderIdAndEpoch_fields_wf version (s\<lparr>sa_resp_liae_unknown_tagged_fields := u\<rparr>) = ShareAcknowledgeResponse_LeaderIdAndEpoch_fields_wf version s"
  by (simp_all add: ShareAcknowledgeResponse_LeaderIdAndEpoch_fields_wf_def)

lemma share_acknowledge_response_leader_id_and_epoch_yields:
  assumes v: "0 \<le>s version"
  shows "yields 1 (ShareAcknowledgeResponse_LeaderIdAndEpoch_decode version) (ShareAcknowledgeResponse_LeaderIdAndEpoch_wf version)"
proof -
  have d: "ShareAcknowledgeResponse_LeaderIdAndEpoch_fields_wf version ShareAcknowledgeResponse_LeaderIdAndEpoch_default"
    by (simp add: ShareAcknowledgeResponse_LeaderIdAndEpoch_default_def v share_acknowledge_response_leader_id_and_epoch_fields)
  show ?thesis
    unfolding ShareAcknowledgeResponse_LeaderIdAndEpoch_decode_def Let_def
    by ((rule share_acknowledge_response_leader_id_and_epoch_steps[OF v refl, THEN yields_step], (rule d | assumption))+, rule yields_trailer[OF _ arms_keep_Nil[of "ShareAcknowledgeResponse_LeaderIdAndEpoch_fields_wf version" "\<lambda>_. 0"]])
      (simp_all add: v d share_acknowledge_response_leader_id_and_epoch_unknown ShareAcknowledgeResponse_LeaderIdAndEpoch_wf_def trailer_ok_def )
qed

lemma share_acknowledge_response_leader_id_and_epoch_extends [extends_rules]: "extends_input (ShareAcknowledgeResponse_LeaderIdAndEpoch_decode version)"
  unfolding ShareAcknowledgeResponse_LeaderIdAndEpoch_decode_def Let_def by (intro extends_rules)

lemma share_acknowledge_response_leader_id_and_epoch_codec:
  assumes v: "0 \<le>s version"
  shows "message_codec ShareAcknowledgeResponse_LeaderIdAndEpoch_encode ShareAcknowledgeResponse_LeaderIdAndEpoch_decode ShareAcknowledgeResponse_LeaderIdAndEpoch_encoded_len (ShareAcknowledgeResponse_LeaderIdAndEpoch_wf version) version"
proof
  fix x
  assume w: "ShareAcknowledgeResponse_LeaderIdAndEpoch_wf version x"
  show "carries (ShareAcknowledgeResponse_LeaderIdAndEpoch_encode x version) (ShareAcknowledgeResponse_LeaderIdAndEpoch_decode version) (ShareAcknowledgeResponse_LeaderIdAndEpoch_encoded_len x version) x"
    unfolding ShareAcknowledgeResponse_LeaderIdAndEpoch_encode_def ShareAcknowledgeResponse_LeaderIdAndEpoch_encoded_len_def ShareAcknowledgeResponse_LeaderIdAndEpoch_decode_def Let_def
    by (use w[unfolded ShareAcknowledgeResponse_LeaderIdAndEpoch_wf_def ShareAcknowledgeResponse_LeaderIdAndEpoch_fields_wf_def Let_def] in \<open>elim conjE\<close>, rule carries_cong_len)
      ((rule carries_rules | (erule absent_guarded, assumption) | erule absent_plain
        | simp add: v field_ok_def ShareAcknowledgeResponse_LeaderIdAndEpoch_default_def )+)
next
  show "yields 1 (ShareAcknowledgeResponse_LeaderIdAndEpoch_decode version) (ShareAcknowledgeResponse_LeaderIdAndEpoch_wf version)"
    by (rule share_acknowledge_response_leader_id_and_epoch_yields[OF v])
qed (rule share_acknowledge_response_leader_id_and_epoch_extends)

lemma share_acknowledge_response_leader_id_and_epoch_default_wf [simp]: "0 \<le>s version \<Longrightarrow> ShareAcknowledgeResponse_LeaderIdAndEpoch_wf version ShareAcknowledgeResponse_LeaderIdAndEpoch_default"
  by (simp add: ShareAcknowledgeResponse_LeaderIdAndEpoch_wf_def ShareAcknowledgeResponse_LeaderIdAndEpoch_default_def trailer_ok_def share_acknowledge_response_leader_id_and_epoch_fields)

lemmas [carries_rules] = message_codec.message_carries[OF share_acknowledge_response_leader_id_and_epoch_codec]
lemmas [yields_rules] = message_codec.message_yields[OF share_acknowledge_response_leader_id_and_epoch_codec]

lemmas [carries_rules] = protocol_codec.put_array_carries[OF message_codec.message_protocol[OF share_acknowledge_response_leader_id_and_epoch_codec]]
lemmas [yields_rules] = protocol_codec.get_array_yields[OF message_codec.message_protocol[OF share_acknowledge_response_leader_id_and_epoch_codec]]
lemmas [carries_rules] = protocol_codec.put_nullable_array_carries[OF message_codec.message_protocol[OF share_acknowledge_response_leader_id_and_epoch_codec]]
lemmas [yields_rules] = protocol_codec.get_nullable_array_yields[OF message_codec.message_protocol[OF share_acknowledge_response_leader_id_and_epoch_codec]]

record ShareAcknowledgeResponse_PartitionData =
  sa_resp_pd_partition_index :: i32
  sa_resp_pd_error_code :: i16
  sa_resp_pd_error_message :: "bytes option"
  sa_resp_pd_current_leader :: ShareAcknowledgeResponse_LeaderIdAndEpoch
  sa_resp_pd_unknown_tagged_fields :: "UnknownTaggedField list"

definition ShareAcknowledgeResponse_PartitionData_default :: ShareAcknowledgeResponse_PartitionData where
  "ShareAcknowledgeResponse_PartitionData_default =
     \<lparr>sa_resp_pd_partition_index = 0, sa_resp_pd_error_code = 0, sa_resp_pd_error_message = None, sa_resp_pd_current_leader = ShareAcknowledgeResponse_LeaderIdAndEpoch_default, sa_resp_pd_unknown_tagged_fields = []\<rparr>"

definition ShareAcknowledgeResponse_PartitionData_encode :: "ShareAcknowledgeResponse_PartitionData \<Rightarrow> i16 \<Rightarrow> encoder" where
  "ShareAcknowledgeResponse_PartitionData_encode x version =
     (let flex = 0 \<le>s version in
      write_all
        [put_when (0 \<le>s version) (put_i32 (sa_resp_pd_partition_index x)),
         put_when (0 \<le>s version) (put_i16 (sa_resp_pd_error_code x)),
         put_when (0 \<le>s version) (put_nullable_str flex (sa_resp_pd_error_message x)),
         put_when (0 \<le>s version) ((\<lambda>it. ShareAcknowledgeResponse_LeaderIdAndEpoch_encode it version) (sa_resp_pd_current_leader x)),
         put_when flex (put_tagged [] (sa_resp_pd_unknown_tagged_fields x))])"

definition ShareAcknowledgeResponse_PartitionData_encoded_len :: "ShareAcknowledgeResponse_PartitionData \<Rightarrow> i16 \<Rightarrow> nat" where
  "ShareAcknowledgeResponse_PartitionData_encoded_len x version =
     (let flex = 0 \<le>s version in
      len_when (0 \<le>s version) 4
      + len_when (0 \<le>s version) 2
      + len_when (0 \<le>s version) (nullable_str_len flex (sa_resp_pd_error_message x))
      + len_when (0 \<le>s version) (ShareAcknowledgeResponse_LeaderIdAndEpoch_encoded_len (sa_resp_pd_current_leader x) version)
      + len_when flex (tagged_size [] (sa_resp_pd_unknown_tagged_fields x)))"

definition ShareAcknowledgeResponse_PartitionData_decode :: "i16 \<Rightarrow> ShareAcknowledgeResponse_PartitionData decoder" where
  "ShareAcknowledgeResponse_PartitionData_decode version =
     (let flex = 0 \<le>s version in
      read_then (get_into (0 \<le>s version) get_i32 (\<lambda>v out. out\<lparr>sa_resp_pd_partition_index := v\<rparr>) ShareAcknowledgeResponse_PartitionData_default) (\<lambda>out.
        read_then (get_into (0 \<le>s version) get_i16 (\<lambda>v out. out\<lparr>sa_resp_pd_error_code := v\<rparr>) out) (\<lambda>out.
        read_then (get_into (0 \<le>s version) (get_nullable_str flex) (\<lambda>v out. out\<lparr>sa_resp_pd_error_message := v\<rparr>) out) (\<lambda>out.
        read_then (get_into (0 \<le>s version) (ShareAcknowledgeResponse_LeaderIdAndEpoch_decode version) (\<lambda>v out. out\<lparr>sa_resp_pd_current_leader := v\<rparr>) out) (\<lambda>out.
        get_trailer flex [] (\<lambda>u out. out\<lparr>sa_resp_pd_unknown_tagged_fields := u\<rparr>) out)))))"

definition ShareAcknowledgeResponse_PartitionData_fields_wf :: "i16 \<Rightarrow> ShareAcknowledgeResponse_PartitionData \<Rightarrow> bool" where
  "ShareAcknowledgeResponse_PartitionData_fields_wf version x \<longleftrightarrow>
     (let flex = 0 \<le>s version in
      nullable_str_wf flex (sa_resp_pd_error_message x)
      \<and> ShareAcknowledgeResponse_LeaderIdAndEpoch_wf version (sa_resp_pd_current_leader x))"

definition ShareAcknowledgeResponse_PartitionData_wf :: "i16 \<Rightarrow> ShareAcknowledgeResponse_PartitionData \<Rightarrow> bool" where
  "ShareAcknowledgeResponse_PartitionData_wf version x \<longleftrightarrow>
     ShareAcknowledgeResponse_PartitionData_fields_wf version x \<and> trailer_ok [] [] (sa_resp_pd_unknown_tagged_fields x)"

lemmas share_acknowledge_response_partition_data_fields =
    Let_def field_ok_def ShareAcknowledgeResponse_PartitionData_fields_wf_def

lemma share_acknowledge_response_partition_data_steps:
  assumes v: "0 \<le>s version" and flex: "flex = (0 \<le>s version)"
  shows "keeps (ShareAcknowledgeResponse_PartitionData_fields_wf version) (get_into (0 \<le>s version) get_i32 (\<lambda>v out. out\<lparr>sa_resp_pd_partition_index := v\<rparr>))"
    and "keeps (ShareAcknowledgeResponse_PartitionData_fields_wf version) (get_into (0 \<le>s version) get_i16 (\<lambda>v out. out\<lparr>sa_resp_pd_error_code := v\<rparr>))"
    and "keeps (ShareAcknowledgeResponse_PartitionData_fields_wf version) (get_into (0 \<le>s version) (get_nullable_str flex) (\<lambda>v out. out\<lparr>sa_resp_pd_error_message := v\<rparr>))"
    and "keeps (ShareAcknowledgeResponse_PartitionData_fields_wf version) (get_into (0 \<le>s version) (ShareAcknowledgeResponse_LeaderIdAndEpoch_decode version) (\<lambda>v out. out\<lparr>sa_resp_pd_current_leader := v\<rparr>))"
  unfolding flex 
  by (rule keeps_into; (rule yields_rules)?; simp add: v share_acknowledge_response_partition_data_fields)+

lemma share_acknowledge_response_partition_data_unknown:
  "ShareAcknowledgeResponse_PartitionData_fields_wf version (s\<lparr>sa_resp_pd_unknown_tagged_fields := u\<rparr>) = ShareAcknowledgeResponse_PartitionData_fields_wf version s"
  by (simp_all add: ShareAcknowledgeResponse_PartitionData_fields_wf_def)

lemma share_acknowledge_response_partition_data_yields:
  assumes v: "0 \<le>s version"
  shows "yields 1 (ShareAcknowledgeResponse_PartitionData_decode version) (ShareAcknowledgeResponse_PartitionData_wf version)"
proof -
  have d: "ShareAcknowledgeResponse_PartitionData_fields_wf version ShareAcknowledgeResponse_PartitionData_default"
    by (simp add: ShareAcknowledgeResponse_PartitionData_default_def v share_acknowledge_response_partition_data_fields)
  show ?thesis
    unfolding ShareAcknowledgeResponse_PartitionData_decode_def Let_def
    by ((rule share_acknowledge_response_partition_data_steps[OF v refl, THEN yields_step], (rule d | assumption))+, rule yields_trailer[OF _ arms_keep_Nil[of "ShareAcknowledgeResponse_PartitionData_fields_wf version" "\<lambda>_. 0"]])
      (simp_all add: v d share_acknowledge_response_partition_data_unknown ShareAcknowledgeResponse_PartitionData_wf_def trailer_ok_def )
qed

lemma share_acknowledge_response_partition_data_extends [extends_rules]: "extends_input (ShareAcknowledgeResponse_PartitionData_decode version)"
  unfolding ShareAcknowledgeResponse_PartitionData_decode_def Let_def by (intro extends_rules)

lemma share_acknowledge_response_partition_data_codec:
  assumes v: "0 \<le>s version"
  shows "message_codec ShareAcknowledgeResponse_PartitionData_encode ShareAcknowledgeResponse_PartitionData_decode ShareAcknowledgeResponse_PartitionData_encoded_len (ShareAcknowledgeResponse_PartitionData_wf version) version"
proof
  fix x
  assume w: "ShareAcknowledgeResponse_PartitionData_wf version x"
  show "carries (ShareAcknowledgeResponse_PartitionData_encode x version) (ShareAcknowledgeResponse_PartitionData_decode version) (ShareAcknowledgeResponse_PartitionData_encoded_len x version) x"
    unfolding ShareAcknowledgeResponse_PartitionData_encode_def ShareAcknowledgeResponse_PartitionData_encoded_len_def ShareAcknowledgeResponse_PartitionData_decode_def Let_def
    by (use w[unfolded ShareAcknowledgeResponse_PartitionData_wf_def ShareAcknowledgeResponse_PartitionData_fields_wf_def Let_def] in \<open>elim conjE\<close>, rule carries_cong_len)
      ((rule carries_rules | (erule absent_guarded, assumption) | erule absent_plain
        | simp add: v field_ok_def ShareAcknowledgeResponse_PartitionData_default_def )+)
next
  show "yields 1 (ShareAcknowledgeResponse_PartitionData_decode version) (ShareAcknowledgeResponse_PartitionData_wf version)"
    by (rule share_acknowledge_response_partition_data_yields[OF v])
qed (rule share_acknowledge_response_partition_data_extends)

lemma share_acknowledge_response_partition_data_default_wf [simp]: "0 \<le>s version \<Longrightarrow> ShareAcknowledgeResponse_PartitionData_wf version ShareAcknowledgeResponse_PartitionData_default"
  by (simp add: ShareAcknowledgeResponse_PartitionData_wf_def ShareAcknowledgeResponse_PartitionData_default_def trailer_ok_def share_acknowledge_response_partition_data_fields)

lemmas [carries_rules] = message_codec.message_carries[OF share_acknowledge_response_partition_data_codec]
lemmas [yields_rules] = message_codec.message_yields[OF share_acknowledge_response_partition_data_codec]

lemmas [carries_rules] = protocol_codec.put_array_carries[OF message_codec.message_protocol[OF share_acknowledge_response_partition_data_codec]]
lemmas [yields_rules] = protocol_codec.get_array_yields[OF message_codec.message_protocol[OF share_acknowledge_response_partition_data_codec]]
lemmas [carries_rules] = protocol_codec.put_nullable_array_carries[OF message_codec.message_protocol[OF share_acknowledge_response_partition_data_codec]]
lemmas [yields_rules] = protocol_codec.get_nullable_array_yields[OF message_codec.message_protocol[OF share_acknowledge_response_partition_data_codec]]

record ShareAcknowledgeResponse_ShareAcknowledgeTopicResponse =
  sa_resp_satr_topic_id :: Uuid
  sa_resp_satr_partitions :: "ShareAcknowledgeResponse_PartitionData list"
  sa_resp_satr_unknown_tagged_fields :: "UnknownTaggedField list"

definition ShareAcknowledgeResponse_ShareAcknowledgeTopicResponse_default :: ShareAcknowledgeResponse_ShareAcknowledgeTopicResponse where
  "ShareAcknowledgeResponse_ShareAcknowledgeTopicResponse_default =
     \<lparr>sa_resp_satr_topic_id = Uuid_ZERO, sa_resp_satr_partitions = [], sa_resp_satr_unknown_tagged_fields = []\<rparr>"

definition ShareAcknowledgeResponse_ShareAcknowledgeTopicResponse_encode :: "ShareAcknowledgeResponse_ShareAcknowledgeTopicResponse \<Rightarrow> i16 \<Rightarrow> encoder" where
  "ShareAcknowledgeResponse_ShareAcknowledgeTopicResponse_encode x version =
     (let flex = 0 \<le>s version in
      write_all
        [put_when (0 \<le>s version) (put_uuid (sa_resp_satr_topic_id x)),
         put_when (0 \<le>s version) (put_array flex (\<lambda>it. ShareAcknowledgeResponse_PartitionData_encode it version) (sa_resp_satr_partitions x)),
         put_when flex (put_tagged [] (sa_resp_satr_unknown_tagged_fields x))])"

definition ShareAcknowledgeResponse_ShareAcknowledgeTopicResponse_encoded_len :: "ShareAcknowledgeResponse_ShareAcknowledgeTopicResponse \<Rightarrow> i16 \<Rightarrow> nat" where
  "ShareAcknowledgeResponse_ShareAcknowledgeTopicResponse_encoded_len x version =
     (let flex = 0 \<le>s version in
      len_when (0 \<le>s version) 16
      + len_when (0 \<le>s version) (array_size flex (\<lambda>it. ShareAcknowledgeResponse_PartitionData_encoded_len it version) (sa_resp_satr_partitions x))
      + len_when flex (tagged_size [] (sa_resp_satr_unknown_tagged_fields x)))"

definition ShareAcknowledgeResponse_ShareAcknowledgeTopicResponse_decode :: "i16 \<Rightarrow> ShareAcknowledgeResponse_ShareAcknowledgeTopicResponse decoder" where
  "ShareAcknowledgeResponse_ShareAcknowledgeTopicResponse_decode version =
     (let flex = 0 \<le>s version in
      read_then (get_into (0 \<le>s version) get_uuid (\<lambda>v out. out\<lparr>sa_resp_satr_topic_id := v\<rparr>) ShareAcknowledgeResponse_ShareAcknowledgeTopicResponse_default) (\<lambda>out.
        read_then (get_into (0 \<le>s version) (get_array flex (ShareAcknowledgeResponse_PartitionData_decode version)) (\<lambda>v out. out\<lparr>sa_resp_satr_partitions := v\<rparr>) out) (\<lambda>out.
        get_trailer flex [] (\<lambda>u out. out\<lparr>sa_resp_satr_unknown_tagged_fields := u\<rparr>) out)))"

definition ShareAcknowledgeResponse_ShareAcknowledgeTopicResponse_fields_wf :: "i16 \<Rightarrow> ShareAcknowledgeResponse_ShareAcknowledgeTopicResponse \<Rightarrow> bool" where
  "ShareAcknowledgeResponse_ShareAcknowledgeTopicResponse_fields_wf version x \<longleftrightarrow>
     (let flex = 0 \<le>s version in
      uuid_wf (sa_resp_satr_topic_id x)
      \<and> array_ok flex (ShareAcknowledgeResponse_PartitionData_wf version) (sa_resp_satr_partitions x))"

definition ShareAcknowledgeResponse_ShareAcknowledgeTopicResponse_wf :: "i16 \<Rightarrow> ShareAcknowledgeResponse_ShareAcknowledgeTopicResponse \<Rightarrow> bool" where
  "ShareAcknowledgeResponse_ShareAcknowledgeTopicResponse_wf version x \<longleftrightarrow>
     ShareAcknowledgeResponse_ShareAcknowledgeTopicResponse_fields_wf version x \<and> trailer_ok [] [] (sa_resp_satr_unknown_tagged_fields x)"

lemmas share_acknowledge_response_share_acknowledge_topic_response_fields =
    Let_def field_ok_def ShareAcknowledgeResponse_ShareAcknowledgeTopicResponse_fields_wf_def

lemma share_acknowledge_response_share_acknowledge_topic_response_steps:
  assumes v: "0 \<le>s version" and flex: "flex = (0 \<le>s version)"
  shows "keeps (ShareAcknowledgeResponse_ShareAcknowledgeTopicResponse_fields_wf version) (get_into (0 \<le>s version) get_uuid (\<lambda>v out. out\<lparr>sa_resp_satr_topic_id := v\<rparr>))"
    and "keeps (ShareAcknowledgeResponse_ShareAcknowledgeTopicResponse_fields_wf version) (get_into (0 \<le>s version) (get_array flex (ShareAcknowledgeResponse_PartitionData_decode version)) (\<lambda>v out. out\<lparr>sa_resp_satr_partitions := v\<rparr>))"
  unfolding flex 
  by (rule keeps_into; (rule yields_rules)?; simp add: v share_acknowledge_response_share_acknowledge_topic_response_fields)+

lemma share_acknowledge_response_share_acknowledge_topic_response_unknown:
  "ShareAcknowledgeResponse_ShareAcknowledgeTopicResponse_fields_wf version (s\<lparr>sa_resp_satr_unknown_tagged_fields := u\<rparr>) = ShareAcknowledgeResponse_ShareAcknowledgeTopicResponse_fields_wf version s"
  by (simp_all add: ShareAcknowledgeResponse_ShareAcknowledgeTopicResponse_fields_wf_def)

lemma share_acknowledge_response_share_acknowledge_topic_response_yields:
  assumes v: "0 \<le>s version"
  shows "yields 1 (ShareAcknowledgeResponse_ShareAcknowledgeTopicResponse_decode version) (ShareAcknowledgeResponse_ShareAcknowledgeTopicResponse_wf version)"
proof -
  have d: "ShareAcknowledgeResponse_ShareAcknowledgeTopicResponse_fields_wf version ShareAcknowledgeResponse_ShareAcknowledgeTopicResponse_default"
    by (simp add: ShareAcknowledgeResponse_ShareAcknowledgeTopicResponse_default_def v share_acknowledge_response_share_acknowledge_topic_response_fields)
  show ?thesis
    unfolding ShareAcknowledgeResponse_ShareAcknowledgeTopicResponse_decode_def Let_def
    by ((rule share_acknowledge_response_share_acknowledge_topic_response_steps[OF v refl, THEN yields_step], (rule d | assumption))+, rule yields_trailer[OF _ arms_keep_Nil[of "ShareAcknowledgeResponse_ShareAcknowledgeTopicResponse_fields_wf version" "\<lambda>_. 0"]])
      (simp_all add: v d share_acknowledge_response_share_acknowledge_topic_response_unknown ShareAcknowledgeResponse_ShareAcknowledgeTopicResponse_wf_def trailer_ok_def )
qed

lemma share_acknowledge_response_share_acknowledge_topic_response_extends [extends_rules]: "extends_input (ShareAcknowledgeResponse_ShareAcknowledgeTopicResponse_decode version)"
  unfolding ShareAcknowledgeResponse_ShareAcknowledgeTopicResponse_decode_def Let_def by (intro extends_rules)

lemma share_acknowledge_response_share_acknowledge_topic_response_codec:
  assumes v: "0 \<le>s version"
  shows "message_codec ShareAcknowledgeResponse_ShareAcknowledgeTopicResponse_encode ShareAcknowledgeResponse_ShareAcknowledgeTopicResponse_decode ShareAcknowledgeResponse_ShareAcknowledgeTopicResponse_encoded_len (ShareAcknowledgeResponse_ShareAcknowledgeTopicResponse_wf version) version"
proof
  fix x
  assume w: "ShareAcknowledgeResponse_ShareAcknowledgeTopicResponse_wf version x"
  show "carries (ShareAcknowledgeResponse_ShareAcknowledgeTopicResponse_encode x version) (ShareAcknowledgeResponse_ShareAcknowledgeTopicResponse_decode version) (ShareAcknowledgeResponse_ShareAcknowledgeTopicResponse_encoded_len x version) x"
    unfolding ShareAcknowledgeResponse_ShareAcknowledgeTopicResponse_encode_def ShareAcknowledgeResponse_ShareAcknowledgeTopicResponse_encoded_len_def ShareAcknowledgeResponse_ShareAcknowledgeTopicResponse_decode_def Let_def
    by (use w[unfolded ShareAcknowledgeResponse_ShareAcknowledgeTopicResponse_wf_def ShareAcknowledgeResponse_ShareAcknowledgeTopicResponse_fields_wf_def Let_def] in \<open>elim conjE\<close>, rule carries_cong_len)
      ((rule carries_rules | (erule absent_guarded, assumption) | erule absent_plain
        | simp add: v field_ok_def ShareAcknowledgeResponse_ShareAcknowledgeTopicResponse_default_def )+)
next
  show "yields 1 (ShareAcknowledgeResponse_ShareAcknowledgeTopicResponse_decode version) (ShareAcknowledgeResponse_ShareAcknowledgeTopicResponse_wf version)"
    by (rule share_acknowledge_response_share_acknowledge_topic_response_yields[OF v])
qed (rule share_acknowledge_response_share_acknowledge_topic_response_extends)

lemma share_acknowledge_response_share_acknowledge_topic_response_default_wf [simp]: "0 \<le>s version \<Longrightarrow> ShareAcknowledgeResponse_ShareAcknowledgeTopicResponse_wf version ShareAcknowledgeResponse_ShareAcknowledgeTopicResponse_default"
  by (simp add: ShareAcknowledgeResponse_ShareAcknowledgeTopicResponse_wf_def ShareAcknowledgeResponse_ShareAcknowledgeTopicResponse_default_def trailer_ok_def share_acknowledge_response_share_acknowledge_topic_response_fields)

lemmas [carries_rules] = message_codec.message_carries[OF share_acknowledge_response_share_acknowledge_topic_response_codec]
lemmas [yields_rules] = message_codec.message_yields[OF share_acknowledge_response_share_acknowledge_topic_response_codec]

lemmas [carries_rules] = protocol_codec.put_array_carries[OF message_codec.message_protocol[OF share_acknowledge_response_share_acknowledge_topic_response_codec]]
lemmas [yields_rules] = protocol_codec.get_array_yields[OF message_codec.message_protocol[OF share_acknowledge_response_share_acknowledge_topic_response_codec]]
lemmas [carries_rules] = protocol_codec.put_nullable_array_carries[OF message_codec.message_protocol[OF share_acknowledge_response_share_acknowledge_topic_response_codec]]
lemmas [yields_rules] = protocol_codec.get_nullable_array_yields[OF message_codec.message_protocol[OF share_acknowledge_response_share_acknowledge_topic_response_codec]]

record ShareAcknowledgeResponse_NodeEndpoint =
  sa_resp_ne_node_id :: i32
  sa_resp_ne_host :: bytes
  sa_resp_ne_port :: i32
  sa_resp_ne_rack :: "bytes option"
  sa_resp_ne_unknown_tagged_fields :: "UnknownTaggedField list"

definition ShareAcknowledgeResponse_NodeEndpoint_default :: ShareAcknowledgeResponse_NodeEndpoint where
  "ShareAcknowledgeResponse_NodeEndpoint_default =
     \<lparr>sa_resp_ne_node_id = 0, sa_resp_ne_host = [], sa_resp_ne_port = 0, sa_resp_ne_rack = None, sa_resp_ne_unknown_tagged_fields = []\<rparr>"

definition ShareAcknowledgeResponse_NodeEndpoint_encode :: "ShareAcknowledgeResponse_NodeEndpoint \<Rightarrow> i16 \<Rightarrow> encoder" where
  "ShareAcknowledgeResponse_NodeEndpoint_encode x version =
     (let flex = 0 \<le>s version in
      write_all
        [put_when (0 \<le>s version) (put_i32 (sa_resp_ne_node_id x)),
         put_when (0 \<le>s version) (put_str flex (sa_resp_ne_host x)),
         put_when (0 \<le>s version) (put_i32 (sa_resp_ne_port x)),
         put_when (0 \<le>s version) (put_nullable_str flex (sa_resp_ne_rack x)),
         put_when flex (put_tagged [] (sa_resp_ne_unknown_tagged_fields x))])"

definition ShareAcknowledgeResponse_NodeEndpoint_encoded_len :: "ShareAcknowledgeResponse_NodeEndpoint \<Rightarrow> i16 \<Rightarrow> nat" where
  "ShareAcknowledgeResponse_NodeEndpoint_encoded_len x version =
     (let flex = 0 \<le>s version in
      len_when (0 \<le>s version) 4
      + len_when (0 \<le>s version) (str_len flex (sa_resp_ne_host x))
      + len_when (0 \<le>s version) 4
      + len_when (0 \<le>s version) (nullable_str_len flex (sa_resp_ne_rack x))
      + len_when flex (tagged_size [] (sa_resp_ne_unknown_tagged_fields x)))"

definition ShareAcknowledgeResponse_NodeEndpoint_decode :: "i16 \<Rightarrow> ShareAcknowledgeResponse_NodeEndpoint decoder" where
  "ShareAcknowledgeResponse_NodeEndpoint_decode version =
     (let flex = 0 \<le>s version in
      read_then (get_into (0 \<le>s version) get_i32 (\<lambda>v out. out\<lparr>sa_resp_ne_node_id := v\<rparr>) ShareAcknowledgeResponse_NodeEndpoint_default) (\<lambda>out.
        read_then (get_into (0 \<le>s version) (get_str flex) (\<lambda>v out. out\<lparr>sa_resp_ne_host := v\<rparr>) out) (\<lambda>out.
        read_then (get_into (0 \<le>s version) get_i32 (\<lambda>v out. out\<lparr>sa_resp_ne_port := v\<rparr>) out) (\<lambda>out.
        read_then (get_into (0 \<le>s version) (get_nullable_str flex) (\<lambda>v out. out\<lparr>sa_resp_ne_rack := v\<rparr>) out) (\<lambda>out.
        get_trailer flex [] (\<lambda>u out. out\<lparr>sa_resp_ne_unknown_tagged_fields := u\<rparr>) out)))))"

definition ShareAcknowledgeResponse_NodeEndpoint_fields_wf :: "i16 \<Rightarrow> ShareAcknowledgeResponse_NodeEndpoint \<Rightarrow> bool" where
  "ShareAcknowledgeResponse_NodeEndpoint_fields_wf version x \<longleftrightarrow>
     (let flex = 0 \<le>s version in
      str_wf flex (sa_resp_ne_host x)
      \<and> nullable_str_wf flex (sa_resp_ne_rack x))"

definition ShareAcknowledgeResponse_NodeEndpoint_wf :: "i16 \<Rightarrow> ShareAcknowledgeResponse_NodeEndpoint \<Rightarrow> bool" where
  "ShareAcknowledgeResponse_NodeEndpoint_wf version x \<longleftrightarrow>
     ShareAcknowledgeResponse_NodeEndpoint_fields_wf version x \<and> trailer_ok [] [] (sa_resp_ne_unknown_tagged_fields x)"

lemmas share_acknowledge_response_node_endpoint_fields =
    Let_def field_ok_def ShareAcknowledgeResponse_NodeEndpoint_fields_wf_def

lemma share_acknowledge_response_node_endpoint_steps:
  assumes v: "0 \<le>s version" and flex: "flex = (0 \<le>s version)"
  shows "keeps (ShareAcknowledgeResponse_NodeEndpoint_fields_wf version) (get_into (0 \<le>s version) get_i32 (\<lambda>v out. out\<lparr>sa_resp_ne_node_id := v\<rparr>))"
    and "keeps (ShareAcknowledgeResponse_NodeEndpoint_fields_wf version) (get_into (0 \<le>s version) (get_str flex) (\<lambda>v out. out\<lparr>sa_resp_ne_host := v\<rparr>))"
    and "keeps (ShareAcknowledgeResponse_NodeEndpoint_fields_wf version) (get_into (0 \<le>s version) get_i32 (\<lambda>v out. out\<lparr>sa_resp_ne_port := v\<rparr>))"
    and "keeps (ShareAcknowledgeResponse_NodeEndpoint_fields_wf version) (get_into (0 \<le>s version) (get_nullable_str flex) (\<lambda>v out. out\<lparr>sa_resp_ne_rack := v\<rparr>))"
  unfolding flex 
  by (rule keeps_into; (rule yields_rules)?; simp add: v share_acknowledge_response_node_endpoint_fields)+

lemma share_acknowledge_response_node_endpoint_unknown:
  "ShareAcknowledgeResponse_NodeEndpoint_fields_wf version (s\<lparr>sa_resp_ne_unknown_tagged_fields := u\<rparr>) = ShareAcknowledgeResponse_NodeEndpoint_fields_wf version s"
  by (simp_all add: ShareAcknowledgeResponse_NodeEndpoint_fields_wf_def)

lemma share_acknowledge_response_node_endpoint_yields:
  assumes v: "0 \<le>s version"
  shows "yields 1 (ShareAcknowledgeResponse_NodeEndpoint_decode version) (ShareAcknowledgeResponse_NodeEndpoint_wf version)"
proof -
  have d: "ShareAcknowledgeResponse_NodeEndpoint_fields_wf version ShareAcknowledgeResponse_NodeEndpoint_default"
    by (simp add: ShareAcknowledgeResponse_NodeEndpoint_default_def v share_acknowledge_response_node_endpoint_fields)
  show ?thesis
    unfolding ShareAcknowledgeResponse_NodeEndpoint_decode_def Let_def
    by ((rule share_acknowledge_response_node_endpoint_steps[OF v refl, THEN yields_step], (rule d | assumption))+, rule yields_trailer[OF _ arms_keep_Nil[of "ShareAcknowledgeResponse_NodeEndpoint_fields_wf version" "\<lambda>_. 0"]])
      (simp_all add: v d share_acknowledge_response_node_endpoint_unknown ShareAcknowledgeResponse_NodeEndpoint_wf_def trailer_ok_def )
qed

lemma share_acknowledge_response_node_endpoint_extends [extends_rules]: "extends_input (ShareAcknowledgeResponse_NodeEndpoint_decode version)"
  unfolding ShareAcknowledgeResponse_NodeEndpoint_decode_def Let_def by (intro extends_rules)

lemma share_acknowledge_response_node_endpoint_codec:
  assumes v: "0 \<le>s version"
  shows "message_codec ShareAcknowledgeResponse_NodeEndpoint_encode ShareAcknowledgeResponse_NodeEndpoint_decode ShareAcknowledgeResponse_NodeEndpoint_encoded_len (ShareAcknowledgeResponse_NodeEndpoint_wf version) version"
proof
  fix x
  assume w: "ShareAcknowledgeResponse_NodeEndpoint_wf version x"
  show "carries (ShareAcknowledgeResponse_NodeEndpoint_encode x version) (ShareAcknowledgeResponse_NodeEndpoint_decode version) (ShareAcknowledgeResponse_NodeEndpoint_encoded_len x version) x"
    unfolding ShareAcknowledgeResponse_NodeEndpoint_encode_def ShareAcknowledgeResponse_NodeEndpoint_encoded_len_def ShareAcknowledgeResponse_NodeEndpoint_decode_def Let_def
    by (use w[unfolded ShareAcknowledgeResponse_NodeEndpoint_wf_def ShareAcknowledgeResponse_NodeEndpoint_fields_wf_def Let_def] in \<open>elim conjE\<close>, rule carries_cong_len)
      ((rule carries_rules | (erule absent_guarded, assumption) | erule absent_plain
        | simp add: v field_ok_def ShareAcknowledgeResponse_NodeEndpoint_default_def )+)
next
  show "yields 1 (ShareAcknowledgeResponse_NodeEndpoint_decode version) (ShareAcknowledgeResponse_NodeEndpoint_wf version)"
    by (rule share_acknowledge_response_node_endpoint_yields[OF v])
qed (rule share_acknowledge_response_node_endpoint_extends)

lemma share_acknowledge_response_node_endpoint_default_wf [simp]: "0 \<le>s version \<Longrightarrow> ShareAcknowledgeResponse_NodeEndpoint_wf version ShareAcknowledgeResponse_NodeEndpoint_default"
  by (simp add: ShareAcknowledgeResponse_NodeEndpoint_wf_def ShareAcknowledgeResponse_NodeEndpoint_default_def trailer_ok_def share_acknowledge_response_node_endpoint_fields)

lemmas [carries_rules] = message_codec.message_carries[OF share_acknowledge_response_node_endpoint_codec]
lemmas [yields_rules] = message_codec.message_yields[OF share_acknowledge_response_node_endpoint_codec]

lemmas [carries_rules] = protocol_codec.put_array_carries[OF message_codec.message_protocol[OF share_acknowledge_response_node_endpoint_codec]]
lemmas [yields_rules] = protocol_codec.get_array_yields[OF message_codec.message_protocol[OF share_acknowledge_response_node_endpoint_codec]]
lemmas [carries_rules] = protocol_codec.put_nullable_array_carries[OF message_codec.message_protocol[OF share_acknowledge_response_node_endpoint_codec]]
lemmas [yields_rules] = protocol_codec.get_nullable_array_yields[OF message_codec.message_protocol[OF share_acknowledge_response_node_endpoint_codec]]

record ShareAcknowledgeResponse =
  sa_resp_throttle_time_ms :: i32
  sa_resp_error_code :: i16
  sa_resp_error_message :: "bytes option"
  sa_resp_acquisition_lock_timeout_ms :: i32
  sa_resp_responses :: "ShareAcknowledgeResponse_ShareAcknowledgeTopicResponse list"
  sa_resp_node_endpoints :: "ShareAcknowledgeResponse_NodeEndpoint list"
  sa_resp_unknown_tagged_fields :: "UnknownTaggedField list"

definition ShareAcknowledgeResponse_default :: ShareAcknowledgeResponse where
  "ShareAcknowledgeResponse_default =
     \<lparr>sa_resp_throttle_time_ms = 0, sa_resp_error_code = 0, sa_resp_error_message = None, sa_resp_acquisition_lock_timeout_ms = 0, sa_resp_responses = [], sa_resp_node_endpoints = [], sa_resp_unknown_tagged_fields = []\<rparr>"

definition ShareAcknowledgeResponse_MIN_VERSION :: i16 where
  "ShareAcknowledgeResponse_MIN_VERSION = 1"

definition ShareAcknowledgeResponse_MAX_VERSION :: i16 where
  "ShareAcknowledgeResponse_MAX_VERSION = 2"

definition ShareAcknowledgeResponse_FLEXIBLE_MIN :: i16 where
  "ShareAcknowledgeResponse_FLEXIBLE_MIN = 0"

definition ShareAcknowledgeResponse_API_KEY :: i16 where
  "ShareAcknowledgeResponse_API_KEY = 79"

definition ShareAcknowledgeResponse_is_flexible :: "i16 \<Rightarrow> bool" where
  "ShareAcknowledgeResponse_is_flexible version \<longleftrightarrow> ShareAcknowledgeResponse_FLEXIBLE_MIN \<le>s version"

definition ShareAcknowledgeResponse_encode :: "ShareAcknowledgeResponse \<Rightarrow> i16 \<Rightarrow> encoder" where
  "ShareAcknowledgeResponse_encode x version =
     (let flex = ShareAcknowledgeResponse_is_flexible version in
      write_all
        [write_check (check_version ShareAcknowledgeResponse_API_KEY version ShareAcknowledgeResponse_MIN_VERSION ShareAcknowledgeResponse_MAX_VERSION),
         put_when (0 \<le>s version) (put_i32 (sa_resp_throttle_time_ms x)),
         put_when (0 \<le>s version) (put_i16 (sa_resp_error_code x)),
         put_when (0 \<le>s version) (put_nullable_str flex (sa_resp_error_message x)),
         put_when (2 \<le>s version) (put_i32 (sa_resp_acquisition_lock_timeout_ms x)),
         put_when (0 \<le>s version) (put_array flex (\<lambda>it. ShareAcknowledgeResponse_ShareAcknowledgeTopicResponse_encode it version) (sa_resp_responses x)),
         put_when (0 \<le>s version) (put_array flex (\<lambda>it. ShareAcknowledgeResponse_NodeEndpoint_encode it version) (sa_resp_node_endpoints x)),
         put_when flex (put_tagged [] (sa_resp_unknown_tagged_fields x))])"

definition ShareAcknowledgeResponse_encoded_len :: "ShareAcknowledgeResponse \<Rightarrow> i16 \<Rightarrow> nat" where
  "ShareAcknowledgeResponse_encoded_len x version =
     (let flex = ShareAcknowledgeResponse_is_flexible version in
      len_when (0 \<le>s version) 4
      + len_when (0 \<le>s version) 2
      + len_when (0 \<le>s version) (nullable_str_len flex (sa_resp_error_message x))
      + len_when (2 \<le>s version) 4
      + len_when (0 \<le>s version) (array_size flex (\<lambda>it. ShareAcknowledgeResponse_ShareAcknowledgeTopicResponse_encoded_len it version) (sa_resp_responses x))
      + len_when (0 \<le>s version) (array_size flex (\<lambda>it. ShareAcknowledgeResponse_NodeEndpoint_encoded_len it version) (sa_resp_node_endpoints x))
      + len_when flex (tagged_size [] (sa_resp_unknown_tagged_fields x)))"

definition ShareAcknowledgeResponse_decode :: "i16 \<Rightarrow> ShareAcknowledgeResponse decoder" where
  "ShareAcknowledgeResponse_decode version =
     (let flex = ShareAcknowledgeResponse_is_flexible version in
      checked (check_version ShareAcknowledgeResponse_API_KEY version ShareAcknowledgeResponse_MIN_VERSION ShareAcknowledgeResponse_MAX_VERSION) (
        read_then (get_into (0 \<le>s version) get_i32 (\<lambda>v out. out\<lparr>sa_resp_throttle_time_ms := v\<rparr>) ShareAcknowledgeResponse_default) (\<lambda>out.
        read_then (get_into (0 \<le>s version) get_i16 (\<lambda>v out. out\<lparr>sa_resp_error_code := v\<rparr>) out) (\<lambda>out.
        read_then (get_into (0 \<le>s version) (get_nullable_str flex) (\<lambda>v out. out\<lparr>sa_resp_error_message := v\<rparr>) out) (\<lambda>out.
        read_then (get_into (2 \<le>s version) get_i32 (\<lambda>v out. out\<lparr>sa_resp_acquisition_lock_timeout_ms := v\<rparr>) out) (\<lambda>out.
        read_then (get_into (0 \<le>s version) (get_array flex (ShareAcknowledgeResponse_ShareAcknowledgeTopicResponse_decode version)) (\<lambda>v out. out\<lparr>sa_resp_responses := v\<rparr>) out) (\<lambda>out.
        read_then (get_into (0 \<le>s version) (get_array flex (ShareAcknowledgeResponse_NodeEndpoint_decode version)) (\<lambda>v out. out\<lparr>sa_resp_node_endpoints := v\<rparr>) out) (\<lambda>out.
        get_trailer flex [] (\<lambda>u out. out\<lparr>sa_resp_unknown_tagged_fields := u\<rparr>) out))))))))"

definition ShareAcknowledgeResponse_fields_wf :: "i16 \<Rightarrow> ShareAcknowledgeResponse \<Rightarrow> bool" where
  "ShareAcknowledgeResponse_fields_wf version x \<longleftrightarrow>
     (let flex = ShareAcknowledgeResponse_is_flexible version in
      nullable_str_wf flex (sa_resp_error_message x)
      \<and> field_ok (2 \<le>s version) 0 (\<lambda>_. True) (sa_resp_acquisition_lock_timeout_ms x)
      \<and> array_ok flex (ShareAcknowledgeResponse_ShareAcknowledgeTopicResponse_wf version) (sa_resp_responses x)
      \<and> array_ok flex (ShareAcknowledgeResponse_NodeEndpoint_wf version) (sa_resp_node_endpoints x))"

definition ShareAcknowledgeResponse_wf :: "i16 \<Rightarrow> ShareAcknowledgeResponse \<Rightarrow> bool" where
  "ShareAcknowledgeResponse_wf version x \<longleftrightarrow>
     version_in ShareAcknowledgeResponse_MIN_VERSION ShareAcknowledgeResponse_MAX_VERSION version \<and> ShareAcknowledgeResponse_fields_wf version x \<and> trailer_ok [] [] (sa_resp_unknown_tagged_fields x)"

lemmas share_acknowledge_response_versions =
    ShareAcknowledgeResponse_is_flexible_def ShareAcknowledgeResponse_FLEXIBLE_MIN_def
    ShareAcknowledgeResponse_MIN_VERSION_def ShareAcknowledgeResponse_MAX_VERSION_def version_in_def

lemmas share_acknowledge_response_fields =
    Let_def field_ok_def ShareAcknowledgeResponse_fields_wf_def ShareAcknowledgeResponse_is_flexible_def
    ShareAcknowledgeResponse_FLEXIBLE_MIN_def

lemma share_acknowledge_response_steps:
  assumes v: "0 \<le>s version" and flex: "flex = (ShareAcknowledgeResponse_is_flexible version)"
  shows "keeps (ShareAcknowledgeResponse_fields_wf version) (get_into (0 \<le>s version) get_i32 (\<lambda>v out. out\<lparr>sa_resp_throttle_time_ms := v\<rparr>))"
    and "keeps (ShareAcknowledgeResponse_fields_wf version) (get_into (0 \<le>s version) get_i16 (\<lambda>v out. out\<lparr>sa_resp_error_code := v\<rparr>))"
    and "keeps (ShareAcknowledgeResponse_fields_wf version) (get_into (0 \<le>s version) (get_nullable_str flex) (\<lambda>v out. out\<lparr>sa_resp_error_message := v\<rparr>))"
    and "keeps (ShareAcknowledgeResponse_fields_wf version) (get_into (2 \<le>s version) get_i32 (\<lambda>v out. out\<lparr>sa_resp_acquisition_lock_timeout_ms := v\<rparr>))"
    and "keeps (ShareAcknowledgeResponse_fields_wf version) (get_into (0 \<le>s version) (get_array flex (ShareAcknowledgeResponse_ShareAcknowledgeTopicResponse_decode version)) (\<lambda>v out. out\<lparr>sa_resp_responses := v\<rparr>))"
    and "keeps (ShareAcknowledgeResponse_fields_wf version) (get_into (0 \<le>s version) (get_array flex (ShareAcknowledgeResponse_NodeEndpoint_decode version)) (\<lambda>v out. out\<lparr>sa_resp_node_endpoints := v\<rparr>))"
  unfolding flex 
  by (rule keeps_into; (rule yields_rules)?; simp add: v share_acknowledge_response_fields)+

lemma share_acknowledge_response_unknown:
  "ShareAcknowledgeResponse_fields_wf version (s\<lparr>sa_resp_unknown_tagged_fields := u\<rparr>) = ShareAcknowledgeResponse_fields_wf version s"
  by (simp_all add: ShareAcknowledgeResponse_fields_wf_def)

lemma share_acknowledge_response_yields:
  assumes r: "version_in ShareAcknowledgeResponse_MIN_VERSION ShareAcknowledgeResponse_MAX_VERSION version"
  shows "yields 1 (ShareAcknowledgeResponse_decode version) (ShareAcknowledgeResponse_wf version)"
proof -
  have v: "0 \<le>s version"
    using r by (rule version_not_negative) (simp add: ShareAcknowledgeResponse_MIN_VERSION_def word_sle_eq)
  have d: "ShareAcknowledgeResponse_fields_wf version ShareAcknowledgeResponse_default"
    by (simp add: ShareAcknowledgeResponse_default_def v share_acknowledge_response_fields)
  show ?thesis
    unfolding ShareAcknowledgeResponse_decode_def Let_def
    by (rule yields_checked, (rule share_acknowledge_response_steps[OF v refl, THEN yields_step], (rule d | assumption))+, rule yields_trailer[OF _ arms_keep_Nil[of "ShareAcknowledgeResponse_fields_wf version" "\<lambda>_. 0"]])
      (simp_all add: v d share_acknowledge_response_unknown ShareAcknowledgeResponse_wf_def trailer_ok_def r ShareAcknowledgeResponse_is_flexible_def ShareAcknowledgeResponse_FLEXIBLE_MIN_def)
qed

interpretation share_acknowledge_response: message_codec
  ShareAcknowledgeResponse_encode ShareAcknowledgeResponse_decode ShareAcknowledgeResponse_encoded_len "ShareAcknowledgeResponse_wf version" version
  for version
proof
  fix x
  assume w: "ShareAcknowledgeResponse_wf version x"
  then have "version_in ShareAcknowledgeResponse_MIN_VERSION ShareAcknowledgeResponse_MAX_VERSION version"
    by (simp add: ShareAcknowledgeResponse_wf_def)
  then have v: "0 \<le>s version"
    by (rule version_not_negative) (simp add: ShareAcknowledgeResponse_MIN_VERSION_def word_sle_eq)
  show "carries (ShareAcknowledgeResponse_encode x version) (ShareAcknowledgeResponse_decode version) (ShareAcknowledgeResponse_encoded_len x version) x"
    unfolding ShareAcknowledgeResponse_encode_def ShareAcknowledgeResponse_encoded_len_def ShareAcknowledgeResponse_decode_def Let_def
    by (use w[unfolded ShareAcknowledgeResponse_wf_def ShareAcknowledgeResponse_fields_wf_def Let_def] in \<open>elim conjE\<close>, rule carries_cong_len)
      ((rule carries_rules check_version_in[THEN iffD2] | (erule absent_guarded, assumption) | erule absent_plain
        | simp add: v field_ok_def ShareAcknowledgeResponse_default_def share_acknowledge_response_versions)+)
next
  show "yields 1 (ShareAcknowledgeResponse_decode version) (ShareAcknowledgeResponse_wf version)"
    by (rule case_split[OF share_acknowledge_response_yields]) (auto simp: ShareAcknowledgeResponse_decode_def Let_def yields_refused yields_unsupported)
  show "extends_input (ShareAcknowledgeResponse_decode version)"
    unfolding ShareAcknowledgeResponse_decode_def Let_def by (intro extends_rules)
qed

section \<open>ShareGroupDescribeRequest\<close>

record ShareGroupDescribeRequest =
  sgd_req_group_ids :: "bytes list"
  sgd_req_include_authorized_operations :: bool
  sgd_req_unknown_tagged_fields :: "UnknownTaggedField list"

definition ShareGroupDescribeRequest_default :: ShareGroupDescribeRequest where
  "ShareGroupDescribeRequest_default =
     \<lparr>sgd_req_group_ids = [], sgd_req_include_authorized_operations = False, sgd_req_unknown_tagged_fields = []\<rparr>"

definition ShareGroupDescribeRequest_MIN_VERSION :: i16 where
  "ShareGroupDescribeRequest_MIN_VERSION = 1"

definition ShareGroupDescribeRequest_MAX_VERSION :: i16 where
  "ShareGroupDescribeRequest_MAX_VERSION = 1"

definition ShareGroupDescribeRequest_FLEXIBLE_MIN :: i16 where
  "ShareGroupDescribeRequest_FLEXIBLE_MIN = 0"

definition ShareGroupDescribeRequest_API_KEY :: i16 where
  "ShareGroupDescribeRequest_API_KEY = 77"

definition ShareGroupDescribeRequest_is_flexible :: "i16 \<Rightarrow> bool" where
  "ShareGroupDescribeRequest_is_flexible version \<longleftrightarrow> ShareGroupDescribeRequest_FLEXIBLE_MIN \<le>s version"

definition ShareGroupDescribeRequest_encode :: "ShareGroupDescribeRequest \<Rightarrow> i16 \<Rightarrow> encoder" where
  "ShareGroupDescribeRequest_encode x version =
     (let flex = ShareGroupDescribeRequest_is_flexible version in
      write_all
        [write_check (check_version ShareGroupDescribeRequest_API_KEY version ShareGroupDescribeRequest_MIN_VERSION ShareGroupDescribeRequest_MAX_VERSION),
         put_when (0 \<le>s version) (put_array flex (put_str flex) (sgd_req_group_ids x)),
         put_when (0 \<le>s version) (put_bool (sgd_req_include_authorized_operations x)),
         put_when flex (put_tagged [] (sgd_req_unknown_tagged_fields x))])"

definition ShareGroupDescribeRequest_encoded_len :: "ShareGroupDescribeRequest \<Rightarrow> i16 \<Rightarrow> nat" where
  "ShareGroupDescribeRequest_encoded_len x version =
     (let flex = ShareGroupDescribeRequest_is_flexible version in
      len_when (0 \<le>s version) (array_size flex (str_len flex) (sgd_req_group_ids x))
      + len_when (0 \<le>s version) 1
      + len_when flex (tagged_size [] (sgd_req_unknown_tagged_fields x)))"

definition ShareGroupDescribeRequest_decode :: "i16 \<Rightarrow> ShareGroupDescribeRequest decoder" where
  "ShareGroupDescribeRequest_decode version =
     (let flex = ShareGroupDescribeRequest_is_flexible version in
      checked (check_version ShareGroupDescribeRequest_API_KEY version ShareGroupDescribeRequest_MIN_VERSION ShareGroupDescribeRequest_MAX_VERSION) (
        read_then (get_into (0 \<le>s version) (get_array flex (get_str flex)) (\<lambda>v out. out\<lparr>sgd_req_group_ids := v\<rparr>) ShareGroupDescribeRequest_default) (\<lambda>out.
        read_then (get_into (0 \<le>s version) get_bool (\<lambda>v out. out\<lparr>sgd_req_include_authorized_operations := v\<rparr>) out) (\<lambda>out.
        get_trailer flex [] (\<lambda>u out. out\<lparr>sgd_req_unknown_tagged_fields := u\<rparr>) out))))"

definition ShareGroupDescribeRequest_fields_wf :: "i16 \<Rightarrow> ShareGroupDescribeRequest \<Rightarrow> bool" where
  "ShareGroupDescribeRequest_fields_wf version x \<longleftrightarrow>
     (let flex = ShareGroupDescribeRequest_is_flexible version in
      array_ok flex (str_wf flex) (sgd_req_group_ids x))"

definition ShareGroupDescribeRequest_wf :: "i16 \<Rightarrow> ShareGroupDescribeRequest \<Rightarrow> bool" where
  "ShareGroupDescribeRequest_wf version x \<longleftrightarrow>
     version_in ShareGroupDescribeRequest_MIN_VERSION ShareGroupDescribeRequest_MAX_VERSION version \<and> ShareGroupDescribeRequest_fields_wf version x \<and> trailer_ok [] [] (sgd_req_unknown_tagged_fields x)"

lemmas share_group_describe_request_versions =
    ShareGroupDescribeRequest_is_flexible_def ShareGroupDescribeRequest_FLEXIBLE_MIN_def
    ShareGroupDescribeRequest_MIN_VERSION_def ShareGroupDescribeRequest_MAX_VERSION_def version_in_def

lemmas share_group_describe_request_fields =
    Let_def field_ok_def ShareGroupDescribeRequest_fields_wf_def ShareGroupDescribeRequest_is_flexible_def
    ShareGroupDescribeRequest_FLEXIBLE_MIN_def

lemma share_group_describe_request_steps:
  assumes v: "0 \<le>s version" and flex: "flex = (ShareGroupDescribeRequest_is_flexible version)"
  shows "keeps (ShareGroupDescribeRequest_fields_wf version) (get_into (0 \<le>s version) (get_array flex (get_str flex)) (\<lambda>v out. out\<lparr>sgd_req_group_ids := v\<rparr>))"
    and "keeps (ShareGroupDescribeRequest_fields_wf version) (get_into (0 \<le>s version) get_bool (\<lambda>v out. out\<lparr>sgd_req_include_authorized_operations := v\<rparr>))"
  unfolding flex 
  by (rule keeps_into; (rule yields_rules)?; simp add: v share_group_describe_request_fields)+

lemma share_group_describe_request_unknown:
  "ShareGroupDescribeRequest_fields_wf version (s\<lparr>sgd_req_unknown_tagged_fields := u\<rparr>) = ShareGroupDescribeRequest_fields_wf version s"
  by (simp_all add: ShareGroupDescribeRequest_fields_wf_def)

lemma share_group_describe_request_yields:
  assumes r: "version_in ShareGroupDescribeRequest_MIN_VERSION ShareGroupDescribeRequest_MAX_VERSION version"
  shows "yields 1 (ShareGroupDescribeRequest_decode version) (ShareGroupDescribeRequest_wf version)"
proof -
  have v: "0 \<le>s version"
    using r by (rule version_not_negative) (simp add: ShareGroupDescribeRequest_MIN_VERSION_def word_sle_eq)
  have d: "ShareGroupDescribeRequest_fields_wf version ShareGroupDescribeRequest_default"
    by (simp add: ShareGroupDescribeRequest_default_def v share_group_describe_request_fields)
  show ?thesis
    unfolding ShareGroupDescribeRequest_decode_def Let_def
    by (rule yields_checked, (rule share_group_describe_request_steps[OF v refl, THEN yields_step], (rule d | assumption))+, rule yields_trailer[OF _ arms_keep_Nil[of "ShareGroupDescribeRequest_fields_wf version" "\<lambda>_. 0"]])
      (simp_all add: v d share_group_describe_request_unknown ShareGroupDescribeRequest_wf_def trailer_ok_def r ShareGroupDescribeRequest_is_flexible_def ShareGroupDescribeRequest_FLEXIBLE_MIN_def)
qed

interpretation share_group_describe_request: message_codec
  ShareGroupDescribeRequest_encode ShareGroupDescribeRequest_decode ShareGroupDescribeRequest_encoded_len "ShareGroupDescribeRequest_wf version" version
  for version
proof
  fix x
  assume w: "ShareGroupDescribeRequest_wf version x"
  then have "version_in ShareGroupDescribeRequest_MIN_VERSION ShareGroupDescribeRequest_MAX_VERSION version"
    by (simp add: ShareGroupDescribeRequest_wf_def)
  then have v: "0 \<le>s version"
    by (rule version_not_negative) (simp add: ShareGroupDescribeRequest_MIN_VERSION_def word_sle_eq)
  show "carries (ShareGroupDescribeRequest_encode x version) (ShareGroupDescribeRequest_decode version) (ShareGroupDescribeRequest_encoded_len x version) x"
    unfolding ShareGroupDescribeRequest_encode_def ShareGroupDescribeRequest_encoded_len_def ShareGroupDescribeRequest_decode_def Let_def
    by (use w[unfolded ShareGroupDescribeRequest_wf_def ShareGroupDescribeRequest_fields_wf_def Let_def] in \<open>elim conjE\<close>, rule carries_cong_len)
      ((rule carries_rules check_version_in[THEN iffD2] | (erule absent_guarded, assumption) | erule absent_plain
        | simp add: v field_ok_def ShareGroupDescribeRequest_default_def share_group_describe_request_versions)+)
next
  show "yields 1 (ShareGroupDescribeRequest_decode version) (ShareGroupDescribeRequest_wf version)"
    by (rule case_split[OF share_group_describe_request_yields]) (auto simp: ShareGroupDescribeRequest_decode_def Let_def yields_refused yields_unsupported)
  show "extends_input (ShareGroupDescribeRequest_decode version)"
    unfolding ShareGroupDescribeRequest_decode_def Let_def by (intro extends_rules)
qed

section \<open>ShareGroupHeartbeatRequest\<close>

record ShareGroupHeartbeatRequest =
  sgh_req_group_id :: bytes
  sgh_req_member_id :: bytes
  sgh_req_member_epoch :: i32
  sgh_req_rack_id :: "bytes option"
  sgh_req_subscribed_topic_names :: "bytes list option"
  sgh_req_unknown_tagged_fields :: "UnknownTaggedField list"

definition ShareGroupHeartbeatRequest_default :: ShareGroupHeartbeatRequest where
  "ShareGroupHeartbeatRequest_default =
     \<lparr>sgh_req_group_id = [], sgh_req_member_id = [], sgh_req_member_epoch = 0, sgh_req_rack_id = None, sgh_req_subscribed_topic_names = None, sgh_req_unknown_tagged_fields = []\<rparr>"

definition ShareGroupHeartbeatRequest_MIN_VERSION :: i16 where
  "ShareGroupHeartbeatRequest_MIN_VERSION = 1"

definition ShareGroupHeartbeatRequest_MAX_VERSION :: i16 where
  "ShareGroupHeartbeatRequest_MAX_VERSION = 1"

definition ShareGroupHeartbeatRequest_FLEXIBLE_MIN :: i16 where
  "ShareGroupHeartbeatRequest_FLEXIBLE_MIN = 0"

definition ShareGroupHeartbeatRequest_API_KEY :: i16 where
  "ShareGroupHeartbeatRequest_API_KEY = 76"

definition ShareGroupHeartbeatRequest_is_flexible :: "i16 \<Rightarrow> bool" where
  "ShareGroupHeartbeatRequest_is_flexible version \<longleftrightarrow> ShareGroupHeartbeatRequest_FLEXIBLE_MIN \<le>s version"

definition ShareGroupHeartbeatRequest_encode :: "ShareGroupHeartbeatRequest \<Rightarrow> i16 \<Rightarrow> encoder" where
  "ShareGroupHeartbeatRequest_encode x version =
     (let flex = ShareGroupHeartbeatRequest_is_flexible version in
      write_all
        [write_check (check_version ShareGroupHeartbeatRequest_API_KEY version ShareGroupHeartbeatRequest_MIN_VERSION ShareGroupHeartbeatRequest_MAX_VERSION),
         put_when (0 \<le>s version) (put_str flex (sgh_req_group_id x)),
         put_when (0 \<le>s version) (put_str flex (sgh_req_member_id x)),
         put_when (0 \<le>s version) (put_i32 (sgh_req_member_epoch x)),
         put_when (0 \<le>s version) (put_nullable_str flex (sgh_req_rack_id x)),
         put_when (0 \<le>s version) (put_nullable_array flex (put_str flex) (sgh_req_subscribed_topic_names x)),
         put_when flex (put_tagged [] (sgh_req_unknown_tagged_fields x))])"

definition ShareGroupHeartbeatRequest_encoded_len :: "ShareGroupHeartbeatRequest \<Rightarrow> i16 \<Rightarrow> nat" where
  "ShareGroupHeartbeatRequest_encoded_len x version =
     (let flex = ShareGroupHeartbeatRequest_is_flexible version in
      len_when (0 \<le>s version) (str_len flex (sgh_req_group_id x))
      + len_when (0 \<le>s version) (str_len flex (sgh_req_member_id x))
      + len_when (0 \<le>s version) 4
      + len_when (0 \<le>s version) (nullable_str_len flex (sgh_req_rack_id x))
      + len_when (0 \<le>s version) (nullable_array_size flex (str_len flex) (sgh_req_subscribed_topic_names x))
      + len_when flex (tagged_size [] (sgh_req_unknown_tagged_fields x)))"

definition ShareGroupHeartbeatRequest_decode :: "i16 \<Rightarrow> ShareGroupHeartbeatRequest decoder" where
  "ShareGroupHeartbeatRequest_decode version =
     (let flex = ShareGroupHeartbeatRequest_is_flexible version in
      checked (check_version ShareGroupHeartbeatRequest_API_KEY version ShareGroupHeartbeatRequest_MIN_VERSION ShareGroupHeartbeatRequest_MAX_VERSION) (
        read_then (get_into (0 \<le>s version) (get_str flex) (\<lambda>v out. out\<lparr>sgh_req_group_id := v\<rparr>) ShareGroupHeartbeatRequest_default) (\<lambda>out.
        read_then (get_into (0 \<le>s version) (get_str flex) (\<lambda>v out. out\<lparr>sgh_req_member_id := v\<rparr>) out) (\<lambda>out.
        read_then (get_into (0 \<le>s version) get_i32 (\<lambda>v out. out\<lparr>sgh_req_member_epoch := v\<rparr>) out) (\<lambda>out.
        read_then (get_into (0 \<le>s version) (get_nullable_str flex) (\<lambda>v out. out\<lparr>sgh_req_rack_id := v\<rparr>) out) (\<lambda>out.
        read_then (get_into (0 \<le>s version) (get_nullable_array flex (get_str flex)) (\<lambda>v out. out\<lparr>sgh_req_subscribed_topic_names := v\<rparr>) out) (\<lambda>out.
        get_trailer flex [] (\<lambda>u out. out\<lparr>sgh_req_unknown_tagged_fields := u\<rparr>) out)))))))"

definition ShareGroupHeartbeatRequest_fields_wf :: "i16 \<Rightarrow> ShareGroupHeartbeatRequest \<Rightarrow> bool" where
  "ShareGroupHeartbeatRequest_fields_wf version x \<longleftrightarrow>
     (let flex = ShareGroupHeartbeatRequest_is_flexible version in
      str_wf flex (sgh_req_group_id x)
      \<and> str_wf flex (sgh_req_member_id x)
      \<and> nullable_str_wf flex (sgh_req_rack_id x)
      \<and> pred_option (array_ok flex (str_wf flex)) (sgh_req_subscribed_topic_names x))"

definition ShareGroupHeartbeatRequest_wf :: "i16 \<Rightarrow> ShareGroupHeartbeatRequest \<Rightarrow> bool" where
  "ShareGroupHeartbeatRequest_wf version x \<longleftrightarrow>
     version_in ShareGroupHeartbeatRequest_MIN_VERSION ShareGroupHeartbeatRequest_MAX_VERSION version \<and> ShareGroupHeartbeatRequest_fields_wf version x \<and> trailer_ok [] [] (sgh_req_unknown_tagged_fields x)"

lemmas share_group_heartbeat_request_versions =
    ShareGroupHeartbeatRequest_is_flexible_def ShareGroupHeartbeatRequest_FLEXIBLE_MIN_def
    ShareGroupHeartbeatRequest_MIN_VERSION_def ShareGroupHeartbeatRequest_MAX_VERSION_def version_in_def

lemmas share_group_heartbeat_request_fields =
    Let_def field_ok_def ShareGroupHeartbeatRequest_fields_wf_def ShareGroupHeartbeatRequest_is_flexible_def
    ShareGroupHeartbeatRequest_FLEXIBLE_MIN_def

lemma share_group_heartbeat_request_steps:
  assumes v: "0 \<le>s version" and flex: "flex = (ShareGroupHeartbeatRequest_is_flexible version)"
  shows "keeps (ShareGroupHeartbeatRequest_fields_wf version) (get_into (0 \<le>s version) (get_str flex) (\<lambda>v out. out\<lparr>sgh_req_group_id := v\<rparr>))"
    and "keeps (ShareGroupHeartbeatRequest_fields_wf version) (get_into (0 \<le>s version) (get_str flex) (\<lambda>v out. out\<lparr>sgh_req_member_id := v\<rparr>))"
    and "keeps (ShareGroupHeartbeatRequest_fields_wf version) (get_into (0 \<le>s version) get_i32 (\<lambda>v out. out\<lparr>sgh_req_member_epoch := v\<rparr>))"
    and "keeps (ShareGroupHeartbeatRequest_fields_wf version) (get_into (0 \<le>s version) (get_nullable_str flex) (\<lambda>v out. out\<lparr>sgh_req_rack_id := v\<rparr>))"
    and "keeps (ShareGroupHeartbeatRequest_fields_wf version) (get_into (0 \<le>s version) (get_nullable_array flex (get_str flex)) (\<lambda>v out. out\<lparr>sgh_req_subscribed_topic_names := v\<rparr>))"
  unfolding flex 
  by (rule keeps_into; (rule yields_rules)?; simp add: v share_group_heartbeat_request_fields)+

lemma share_group_heartbeat_request_unknown:
  "ShareGroupHeartbeatRequest_fields_wf version (s\<lparr>sgh_req_unknown_tagged_fields := u\<rparr>) = ShareGroupHeartbeatRequest_fields_wf version s"
  by (simp_all add: ShareGroupHeartbeatRequest_fields_wf_def)

lemma share_group_heartbeat_request_yields:
  assumes r: "version_in ShareGroupHeartbeatRequest_MIN_VERSION ShareGroupHeartbeatRequest_MAX_VERSION version"
  shows "yields 1 (ShareGroupHeartbeatRequest_decode version) (ShareGroupHeartbeatRequest_wf version)"
proof -
  have v: "0 \<le>s version"
    using r by (rule version_not_negative) (simp add: ShareGroupHeartbeatRequest_MIN_VERSION_def word_sle_eq)
  have d: "ShareGroupHeartbeatRequest_fields_wf version ShareGroupHeartbeatRequest_default"
    by (simp add: ShareGroupHeartbeatRequest_default_def v share_group_heartbeat_request_fields)
  show ?thesis
    unfolding ShareGroupHeartbeatRequest_decode_def Let_def
    by (rule yields_checked, (rule share_group_heartbeat_request_steps[OF v refl, THEN yields_step], (rule d | assumption))+, rule yields_trailer[OF _ arms_keep_Nil[of "ShareGroupHeartbeatRequest_fields_wf version" "\<lambda>_. 0"]])
      (simp_all add: v d share_group_heartbeat_request_unknown ShareGroupHeartbeatRequest_wf_def trailer_ok_def r ShareGroupHeartbeatRequest_is_flexible_def ShareGroupHeartbeatRequest_FLEXIBLE_MIN_def)
qed

interpretation share_group_heartbeat_request: message_codec
  ShareGroupHeartbeatRequest_encode ShareGroupHeartbeatRequest_decode ShareGroupHeartbeatRequest_encoded_len "ShareGroupHeartbeatRequest_wf version" version
  for version
proof
  fix x
  assume w: "ShareGroupHeartbeatRequest_wf version x"
  then have "version_in ShareGroupHeartbeatRequest_MIN_VERSION ShareGroupHeartbeatRequest_MAX_VERSION version"
    by (simp add: ShareGroupHeartbeatRequest_wf_def)
  then have v: "0 \<le>s version"
    by (rule version_not_negative) (simp add: ShareGroupHeartbeatRequest_MIN_VERSION_def word_sle_eq)
  show "carries (ShareGroupHeartbeatRequest_encode x version) (ShareGroupHeartbeatRequest_decode version) (ShareGroupHeartbeatRequest_encoded_len x version) x"
    unfolding ShareGroupHeartbeatRequest_encode_def ShareGroupHeartbeatRequest_encoded_len_def ShareGroupHeartbeatRequest_decode_def Let_def
    by (use w[unfolded ShareGroupHeartbeatRequest_wf_def ShareGroupHeartbeatRequest_fields_wf_def Let_def] in \<open>elim conjE\<close>, rule carries_cong_len)
      ((rule carries_rules check_version_in[THEN iffD2] | (erule absent_guarded, assumption) | erule absent_plain
        | simp add: v field_ok_def ShareGroupHeartbeatRequest_default_def share_group_heartbeat_request_versions)+)
next
  show "yields 1 (ShareGroupHeartbeatRequest_decode version) (ShareGroupHeartbeatRequest_wf version)"
    by (rule case_split[OF share_group_heartbeat_request_yields]) (auto simp: ShareGroupHeartbeatRequest_decode_def Let_def yields_refused yields_unsupported)
  show "extends_input (ShareGroupHeartbeatRequest_decode version)"
    unfolding ShareGroupHeartbeatRequest_decode_def Let_def by (intro extends_rules)
qed

section \<open>WriteShareGroupStateRequest\<close>

record WriteShareGroupStateRequest_StateBatch =
  wsgs_req_sb_first_offset :: i64
  wsgs_req_sb_last_offset :: i64
  wsgs_req_sb_delivery_state :: i8
  wsgs_req_sb_delivery_count :: i16
  wsgs_req_sb_unknown_tagged_fields :: "UnknownTaggedField list"

definition WriteShareGroupStateRequest_StateBatch_default :: WriteShareGroupStateRequest_StateBatch where
  "WriteShareGroupStateRequest_StateBatch_default =
     \<lparr>wsgs_req_sb_first_offset = 0, wsgs_req_sb_last_offset = 0, wsgs_req_sb_delivery_state = 0, wsgs_req_sb_delivery_count = 0, wsgs_req_sb_unknown_tagged_fields = []\<rparr>"

definition WriteShareGroupStateRequest_StateBatch_encode :: "WriteShareGroupStateRequest_StateBatch \<Rightarrow> i16 \<Rightarrow> encoder" where
  "WriteShareGroupStateRequest_StateBatch_encode x version =
     (let flex = 0 \<le>s version in
      write_all
        [put_when (0 \<le>s version) (put_i64 (wsgs_req_sb_first_offset x)),
         put_when (0 \<le>s version) (put_i64 (wsgs_req_sb_last_offset x)),
         put_when (0 \<le>s version) (put_i8 (wsgs_req_sb_delivery_state x)),
         put_when (0 \<le>s version) (put_i16 (wsgs_req_sb_delivery_count x)),
         put_when flex (put_tagged [] (wsgs_req_sb_unknown_tagged_fields x))])"

definition WriteShareGroupStateRequest_StateBatch_encoded_len :: "WriteShareGroupStateRequest_StateBatch \<Rightarrow> i16 \<Rightarrow> nat" where
  "WriteShareGroupStateRequest_StateBatch_encoded_len x version =
     (let flex = 0 \<le>s version in
      len_when (0 \<le>s version) 8
      + len_when (0 \<le>s version) 8
      + len_when (0 \<le>s version) 1
      + len_when (0 \<le>s version) 2
      + len_when flex (tagged_size [] (wsgs_req_sb_unknown_tagged_fields x)))"

definition WriteShareGroupStateRequest_StateBatch_decode :: "i16 \<Rightarrow> WriteShareGroupStateRequest_StateBatch decoder" where
  "WriteShareGroupStateRequest_StateBatch_decode version =
     (let flex = 0 \<le>s version in
      read_then (get_into (0 \<le>s version) get_i64 (\<lambda>v out. out\<lparr>wsgs_req_sb_first_offset := v\<rparr>) WriteShareGroupStateRequest_StateBatch_default) (\<lambda>out.
        read_then (get_into (0 \<le>s version) get_i64 (\<lambda>v out. out\<lparr>wsgs_req_sb_last_offset := v\<rparr>) out) (\<lambda>out.
        read_then (get_into (0 \<le>s version) get_i8 (\<lambda>v out. out\<lparr>wsgs_req_sb_delivery_state := v\<rparr>) out) (\<lambda>out.
        read_then (get_into (0 \<le>s version) get_i16 (\<lambda>v out. out\<lparr>wsgs_req_sb_delivery_count := v\<rparr>) out) (\<lambda>out.
        get_trailer flex [] (\<lambda>u out. out\<lparr>wsgs_req_sb_unknown_tagged_fields := u\<rparr>) out)))))"

definition WriteShareGroupStateRequest_StateBatch_fields_wf :: "i16 \<Rightarrow> WriteShareGroupStateRequest_StateBatch \<Rightarrow> bool" where
  "WriteShareGroupStateRequest_StateBatch_fields_wf version x \<longleftrightarrow>
     True"

definition WriteShareGroupStateRequest_StateBatch_wf :: "i16 \<Rightarrow> WriteShareGroupStateRequest_StateBatch \<Rightarrow> bool" where
  "WriteShareGroupStateRequest_StateBatch_wf version x \<longleftrightarrow>
     WriteShareGroupStateRequest_StateBatch_fields_wf version x \<and> trailer_ok [] [] (wsgs_req_sb_unknown_tagged_fields x)"

lemmas write_share_group_state_request_state_batch_fields =
    Let_def field_ok_def WriteShareGroupStateRequest_StateBatch_fields_wf_def

lemma write_share_group_state_request_state_batch_steps:
  assumes v: "0 \<le>s version" and flex: "flex = (0 \<le>s version)"
  shows "keeps (WriteShareGroupStateRequest_StateBatch_fields_wf version) (get_into (0 \<le>s version) get_i64 (\<lambda>v out. out\<lparr>wsgs_req_sb_first_offset := v\<rparr>))"
    and "keeps (WriteShareGroupStateRequest_StateBatch_fields_wf version) (get_into (0 \<le>s version) get_i64 (\<lambda>v out. out\<lparr>wsgs_req_sb_last_offset := v\<rparr>))"
    and "keeps (WriteShareGroupStateRequest_StateBatch_fields_wf version) (get_into (0 \<le>s version) get_i8 (\<lambda>v out. out\<lparr>wsgs_req_sb_delivery_state := v\<rparr>))"
    and "keeps (WriteShareGroupStateRequest_StateBatch_fields_wf version) (get_into (0 \<le>s version) get_i16 (\<lambda>v out. out\<lparr>wsgs_req_sb_delivery_count := v\<rparr>))"
  unfolding flex 
  by (rule keeps_into; (rule yields_rules)?; simp add: v write_share_group_state_request_state_batch_fields)+

lemma write_share_group_state_request_state_batch_unknown:
  "WriteShareGroupStateRequest_StateBatch_fields_wf version (s\<lparr>wsgs_req_sb_unknown_tagged_fields := u\<rparr>) = WriteShareGroupStateRequest_StateBatch_fields_wf version s"
  by (simp_all add: WriteShareGroupStateRequest_StateBatch_fields_wf_def)

lemma write_share_group_state_request_state_batch_yields:
  assumes v: "0 \<le>s version"
  shows "yields 1 (WriteShareGroupStateRequest_StateBatch_decode version) (WriteShareGroupStateRequest_StateBatch_wf version)"
proof -
  have d: "WriteShareGroupStateRequest_StateBatch_fields_wf version WriteShareGroupStateRequest_StateBatch_default"
    by (simp add: WriteShareGroupStateRequest_StateBatch_default_def v write_share_group_state_request_state_batch_fields)
  show ?thesis
    unfolding WriteShareGroupStateRequest_StateBatch_decode_def Let_def
    by ((rule write_share_group_state_request_state_batch_steps[OF v refl, THEN yields_step], (rule d | assumption))+, rule yields_trailer[OF _ arms_keep_Nil[of "WriteShareGroupStateRequest_StateBatch_fields_wf version" "\<lambda>_. 0"]])
      (simp_all add: v d write_share_group_state_request_state_batch_unknown WriteShareGroupStateRequest_StateBatch_wf_def trailer_ok_def )
qed

lemma write_share_group_state_request_state_batch_extends [extends_rules]: "extends_input (WriteShareGroupStateRequest_StateBatch_decode version)"
  unfolding WriteShareGroupStateRequest_StateBatch_decode_def Let_def by (intro extends_rules)

lemma write_share_group_state_request_state_batch_codec:
  assumes v: "0 \<le>s version"
  shows "message_codec WriteShareGroupStateRequest_StateBatch_encode WriteShareGroupStateRequest_StateBatch_decode WriteShareGroupStateRequest_StateBatch_encoded_len (WriteShareGroupStateRequest_StateBatch_wf version) version"
proof
  fix x
  assume w: "WriteShareGroupStateRequest_StateBatch_wf version x"
  show "carries (WriteShareGroupStateRequest_StateBatch_encode x version) (WriteShareGroupStateRequest_StateBatch_decode version) (WriteShareGroupStateRequest_StateBatch_encoded_len x version) x"
    unfolding WriteShareGroupStateRequest_StateBatch_encode_def WriteShareGroupStateRequest_StateBatch_encoded_len_def WriteShareGroupStateRequest_StateBatch_decode_def Let_def
    by (use w[unfolded WriteShareGroupStateRequest_StateBatch_wf_def WriteShareGroupStateRequest_StateBatch_fields_wf_def Let_def] in \<open>elim conjE\<close>, rule carries_cong_len)
      ((rule carries_rules | (erule absent_guarded, assumption) | erule absent_plain
        | simp add: v field_ok_def WriteShareGroupStateRequest_StateBatch_default_def )+)
next
  show "yields 1 (WriteShareGroupStateRequest_StateBatch_decode version) (WriteShareGroupStateRequest_StateBatch_wf version)"
    by (rule write_share_group_state_request_state_batch_yields[OF v])
qed (rule write_share_group_state_request_state_batch_extends)

lemma write_share_group_state_request_state_batch_default_wf [simp]: "0 \<le>s version \<Longrightarrow> WriteShareGroupStateRequest_StateBatch_wf version WriteShareGroupStateRequest_StateBatch_default"
  by (simp add: WriteShareGroupStateRequest_StateBatch_wf_def WriteShareGroupStateRequest_StateBatch_default_def trailer_ok_def write_share_group_state_request_state_batch_fields)

lemmas [carries_rules] = message_codec.message_carries[OF write_share_group_state_request_state_batch_codec]
lemmas [yields_rules] = message_codec.message_yields[OF write_share_group_state_request_state_batch_codec]

lemmas [carries_rules] = protocol_codec.put_array_carries[OF message_codec.message_protocol[OF write_share_group_state_request_state_batch_codec]]
lemmas [yields_rules] = protocol_codec.get_array_yields[OF message_codec.message_protocol[OF write_share_group_state_request_state_batch_codec]]
lemmas [carries_rules] = protocol_codec.put_nullable_array_carries[OF message_codec.message_protocol[OF write_share_group_state_request_state_batch_codec]]
lemmas [yields_rules] = protocol_codec.get_nullable_array_yields[OF message_codec.message_protocol[OF write_share_group_state_request_state_batch_codec]]

record WriteShareGroupStateRequest_PartitionData =
  wsgs_req_pd_partition :: i32
  wsgs_req_pd_state_epoch :: i32
  wsgs_req_pd_leader_epoch :: i32
  wsgs_req_pd_start_offset :: i64
  wsgs_req_pd_delivery_complete_count :: i32
  wsgs_req_pd_state_batches :: "WriteShareGroupStateRequest_StateBatch list"
  wsgs_req_pd_unknown_tagged_fields :: "UnknownTaggedField list"

definition WriteShareGroupStateRequest_PartitionData_default :: WriteShareGroupStateRequest_PartitionData where
  "WriteShareGroupStateRequest_PartitionData_default =
     \<lparr>wsgs_req_pd_partition = 0, wsgs_req_pd_state_epoch = 0, wsgs_req_pd_leader_epoch = 0, wsgs_req_pd_start_offset = 0, wsgs_req_pd_delivery_complete_count = - 1, wsgs_req_pd_state_batches = [], wsgs_req_pd_unknown_tagged_fields = []\<rparr>"

definition WriteShareGroupStateRequest_PartitionData_encode :: "WriteShareGroupStateRequest_PartitionData \<Rightarrow> i16 \<Rightarrow> encoder" where
  "WriteShareGroupStateRequest_PartitionData_encode x version =
     (let flex = 0 \<le>s version in
      write_all
        [put_when (0 \<le>s version) (put_i32 (wsgs_req_pd_partition x)),
         put_when (0 \<le>s version) (put_i32 (wsgs_req_pd_state_epoch x)),
         put_when (0 \<le>s version) (put_i32 (wsgs_req_pd_leader_epoch x)),
         put_when (0 \<le>s version) (put_i64 (wsgs_req_pd_start_offset x)),
         put_when (1 \<le>s version) (put_i32 (wsgs_req_pd_delivery_complete_count x)),
         put_when (0 \<le>s version) (put_array flex (\<lambda>it. WriteShareGroupStateRequest_StateBatch_encode it version) (wsgs_req_pd_state_batches x)),
         put_when flex (put_tagged [] (wsgs_req_pd_unknown_tagged_fields x))])"

definition WriteShareGroupStateRequest_PartitionData_encoded_len :: "WriteShareGroupStateRequest_PartitionData \<Rightarrow> i16 \<Rightarrow> nat" where
  "WriteShareGroupStateRequest_PartitionData_encoded_len x version =
     (let flex = 0 \<le>s version in
      len_when (0 \<le>s version) 4
      + len_when (0 \<le>s version) 4
      + len_when (0 \<le>s version) 4
      + len_when (0 \<le>s version) 8
      + len_when (1 \<le>s version) 4
      + len_when (0 \<le>s version) (array_size flex (\<lambda>it. WriteShareGroupStateRequest_StateBatch_encoded_len it version) (wsgs_req_pd_state_batches x))
      + len_when flex (tagged_size [] (wsgs_req_pd_unknown_tagged_fields x)))"

definition WriteShareGroupStateRequest_PartitionData_decode :: "i16 \<Rightarrow> WriteShareGroupStateRequest_PartitionData decoder" where
  "WriteShareGroupStateRequest_PartitionData_decode version =
     (let flex = 0 \<le>s version in
      read_then (get_into (0 \<le>s version) get_i32 (\<lambda>v out. out\<lparr>wsgs_req_pd_partition := v\<rparr>) WriteShareGroupStateRequest_PartitionData_default) (\<lambda>out.
        read_then (get_into (0 \<le>s version) get_i32 (\<lambda>v out. out\<lparr>wsgs_req_pd_state_epoch := v\<rparr>) out) (\<lambda>out.
        read_then (get_into (0 \<le>s version) get_i32 (\<lambda>v out. out\<lparr>wsgs_req_pd_leader_epoch := v\<rparr>) out) (\<lambda>out.
        read_then (get_into (0 \<le>s version) get_i64 (\<lambda>v out. out\<lparr>wsgs_req_pd_start_offset := v\<rparr>) out) (\<lambda>out.
        read_then (get_into (1 \<le>s version) get_i32 (\<lambda>v out. out\<lparr>wsgs_req_pd_delivery_complete_count := v\<rparr>) out) (\<lambda>out.
        read_then (get_into (0 \<le>s version) (get_array flex (WriteShareGroupStateRequest_StateBatch_decode version)) (\<lambda>v out. out\<lparr>wsgs_req_pd_state_batches := v\<rparr>) out) (\<lambda>out.
        get_trailer flex [] (\<lambda>u out. out\<lparr>wsgs_req_pd_unknown_tagged_fields := u\<rparr>) out)))))))"

definition WriteShareGroupStateRequest_PartitionData_fields_wf :: "i16 \<Rightarrow> WriteShareGroupStateRequest_PartitionData \<Rightarrow> bool" where
  "WriteShareGroupStateRequest_PartitionData_fields_wf version x \<longleftrightarrow>
     (let flex = 0 \<le>s version in
      field_ok (1 \<le>s version) (- 1) (\<lambda>_. True) (wsgs_req_pd_delivery_complete_count x)
      \<and> array_ok flex (WriteShareGroupStateRequest_StateBatch_wf version) (wsgs_req_pd_state_batches x))"

definition WriteShareGroupStateRequest_PartitionData_wf :: "i16 \<Rightarrow> WriteShareGroupStateRequest_PartitionData \<Rightarrow> bool" where
  "WriteShareGroupStateRequest_PartitionData_wf version x \<longleftrightarrow>
     WriteShareGroupStateRequest_PartitionData_fields_wf version x \<and> trailer_ok [] [] (wsgs_req_pd_unknown_tagged_fields x)"

lemmas write_share_group_state_request_partition_data_fields =
    Let_def field_ok_def WriteShareGroupStateRequest_PartitionData_fields_wf_def

lemma write_share_group_state_request_partition_data_steps:
  assumes v: "0 \<le>s version" and flex: "flex = (0 \<le>s version)"
  shows "keeps (WriteShareGroupStateRequest_PartitionData_fields_wf version) (get_into (0 \<le>s version) get_i32 (\<lambda>v out. out\<lparr>wsgs_req_pd_partition := v\<rparr>))"
    and "keeps (WriteShareGroupStateRequest_PartitionData_fields_wf version) (get_into (0 \<le>s version) get_i32 (\<lambda>v out. out\<lparr>wsgs_req_pd_state_epoch := v\<rparr>))"
    and "keeps (WriteShareGroupStateRequest_PartitionData_fields_wf version) (get_into (0 \<le>s version) get_i32 (\<lambda>v out. out\<lparr>wsgs_req_pd_leader_epoch := v\<rparr>))"
    and "keeps (WriteShareGroupStateRequest_PartitionData_fields_wf version) (get_into (0 \<le>s version) get_i64 (\<lambda>v out. out\<lparr>wsgs_req_pd_start_offset := v\<rparr>))"
    and "keeps (WriteShareGroupStateRequest_PartitionData_fields_wf version) (get_into (1 \<le>s version) get_i32 (\<lambda>v out. out\<lparr>wsgs_req_pd_delivery_complete_count := v\<rparr>))"
    and "keeps (WriteShareGroupStateRequest_PartitionData_fields_wf version) (get_into (0 \<le>s version) (get_array flex (WriteShareGroupStateRequest_StateBatch_decode version)) (\<lambda>v out. out\<lparr>wsgs_req_pd_state_batches := v\<rparr>))"
  unfolding flex 
  by (rule keeps_into; (rule yields_rules)?; simp add: v write_share_group_state_request_partition_data_fields)+

lemma write_share_group_state_request_partition_data_unknown:
  "WriteShareGroupStateRequest_PartitionData_fields_wf version (s\<lparr>wsgs_req_pd_unknown_tagged_fields := u\<rparr>) = WriteShareGroupStateRequest_PartitionData_fields_wf version s"
  by (simp_all add: WriteShareGroupStateRequest_PartitionData_fields_wf_def)

lemma write_share_group_state_request_partition_data_yields:
  assumes v: "0 \<le>s version"
  shows "yields 1 (WriteShareGroupStateRequest_PartitionData_decode version) (WriteShareGroupStateRequest_PartitionData_wf version)"
proof -
  have d: "WriteShareGroupStateRequest_PartitionData_fields_wf version WriteShareGroupStateRequest_PartitionData_default"
    by (simp add: WriteShareGroupStateRequest_PartitionData_default_def v write_share_group_state_request_partition_data_fields)
  show ?thesis
    unfolding WriteShareGroupStateRequest_PartitionData_decode_def Let_def
    by ((rule write_share_group_state_request_partition_data_steps[OF v refl, THEN yields_step], (rule d | assumption))+, rule yields_trailer[OF _ arms_keep_Nil[of "WriteShareGroupStateRequest_PartitionData_fields_wf version" "\<lambda>_. 0"]])
      (simp_all add: v d write_share_group_state_request_partition_data_unknown WriteShareGroupStateRequest_PartitionData_wf_def trailer_ok_def )
qed

lemma write_share_group_state_request_partition_data_extends [extends_rules]: "extends_input (WriteShareGroupStateRequest_PartitionData_decode version)"
  unfolding WriteShareGroupStateRequest_PartitionData_decode_def Let_def by (intro extends_rules)

lemma write_share_group_state_request_partition_data_codec:
  assumes v: "0 \<le>s version"
  shows "message_codec WriteShareGroupStateRequest_PartitionData_encode WriteShareGroupStateRequest_PartitionData_decode WriteShareGroupStateRequest_PartitionData_encoded_len (WriteShareGroupStateRequest_PartitionData_wf version) version"
proof
  fix x
  assume w: "WriteShareGroupStateRequest_PartitionData_wf version x"
  show "carries (WriteShareGroupStateRequest_PartitionData_encode x version) (WriteShareGroupStateRequest_PartitionData_decode version) (WriteShareGroupStateRequest_PartitionData_encoded_len x version) x"
    unfolding WriteShareGroupStateRequest_PartitionData_encode_def WriteShareGroupStateRequest_PartitionData_encoded_len_def WriteShareGroupStateRequest_PartitionData_decode_def Let_def
    by (use w[unfolded WriteShareGroupStateRequest_PartitionData_wf_def WriteShareGroupStateRequest_PartitionData_fields_wf_def Let_def] in \<open>elim conjE\<close>, rule carries_cong_len)
      ((rule carries_rules | (erule absent_guarded, assumption) | erule absent_plain
        | simp add: v field_ok_def WriteShareGroupStateRequest_PartitionData_default_def )+)
next
  show "yields 1 (WriteShareGroupStateRequest_PartitionData_decode version) (WriteShareGroupStateRequest_PartitionData_wf version)"
    by (rule write_share_group_state_request_partition_data_yields[OF v])
qed (rule write_share_group_state_request_partition_data_extends)

lemma write_share_group_state_request_partition_data_default_wf [simp]: "0 \<le>s version \<Longrightarrow> WriteShareGroupStateRequest_PartitionData_wf version WriteShareGroupStateRequest_PartitionData_default"
  by (simp add: WriteShareGroupStateRequest_PartitionData_wf_def WriteShareGroupStateRequest_PartitionData_default_def trailer_ok_def write_share_group_state_request_partition_data_fields)

lemmas [carries_rules] = message_codec.message_carries[OF write_share_group_state_request_partition_data_codec]
lemmas [yields_rules] = message_codec.message_yields[OF write_share_group_state_request_partition_data_codec]

lemmas [carries_rules] = protocol_codec.put_array_carries[OF message_codec.message_protocol[OF write_share_group_state_request_partition_data_codec]]
lemmas [yields_rules] = protocol_codec.get_array_yields[OF message_codec.message_protocol[OF write_share_group_state_request_partition_data_codec]]
lemmas [carries_rules] = protocol_codec.put_nullable_array_carries[OF message_codec.message_protocol[OF write_share_group_state_request_partition_data_codec]]
lemmas [yields_rules] = protocol_codec.get_nullable_array_yields[OF message_codec.message_protocol[OF write_share_group_state_request_partition_data_codec]]

record WriteShareGroupStateRequest_WriteStateData =
  wsgs_req_wsd_topic_id :: Uuid
  wsgs_req_wsd_partitions :: "WriteShareGroupStateRequest_PartitionData list"
  wsgs_req_wsd_unknown_tagged_fields :: "UnknownTaggedField list"

definition WriteShareGroupStateRequest_WriteStateData_default :: WriteShareGroupStateRequest_WriteStateData where
  "WriteShareGroupStateRequest_WriteStateData_default =
     \<lparr>wsgs_req_wsd_topic_id = Uuid_ZERO, wsgs_req_wsd_partitions = [], wsgs_req_wsd_unknown_tagged_fields = []\<rparr>"

definition WriteShareGroupStateRequest_WriteStateData_encode :: "WriteShareGroupStateRequest_WriteStateData \<Rightarrow> i16 \<Rightarrow> encoder" where
  "WriteShareGroupStateRequest_WriteStateData_encode x version =
     (let flex = 0 \<le>s version in
      write_all
        [put_when (0 \<le>s version) (put_uuid (wsgs_req_wsd_topic_id x)),
         put_when (0 \<le>s version) (put_array flex (\<lambda>it. WriteShareGroupStateRequest_PartitionData_encode it version) (wsgs_req_wsd_partitions x)),
         put_when flex (put_tagged [] (wsgs_req_wsd_unknown_tagged_fields x))])"

definition WriteShareGroupStateRequest_WriteStateData_encoded_len :: "WriteShareGroupStateRequest_WriteStateData \<Rightarrow> i16 \<Rightarrow> nat" where
  "WriteShareGroupStateRequest_WriteStateData_encoded_len x version =
     (let flex = 0 \<le>s version in
      len_when (0 \<le>s version) 16
      + len_when (0 \<le>s version) (array_size flex (\<lambda>it. WriteShareGroupStateRequest_PartitionData_encoded_len it version) (wsgs_req_wsd_partitions x))
      + len_when flex (tagged_size [] (wsgs_req_wsd_unknown_tagged_fields x)))"

definition WriteShareGroupStateRequest_WriteStateData_decode :: "i16 \<Rightarrow> WriteShareGroupStateRequest_WriteStateData decoder" where
  "WriteShareGroupStateRequest_WriteStateData_decode version =
     (let flex = 0 \<le>s version in
      read_then (get_into (0 \<le>s version) get_uuid (\<lambda>v out. out\<lparr>wsgs_req_wsd_topic_id := v\<rparr>) WriteShareGroupStateRequest_WriteStateData_default) (\<lambda>out.
        read_then (get_into (0 \<le>s version) (get_array flex (WriteShareGroupStateRequest_PartitionData_decode version)) (\<lambda>v out. out\<lparr>wsgs_req_wsd_partitions := v\<rparr>) out) (\<lambda>out.
        get_trailer flex [] (\<lambda>u out. out\<lparr>wsgs_req_wsd_unknown_tagged_fields := u\<rparr>) out)))"

definition WriteShareGroupStateRequest_WriteStateData_fields_wf :: "i16 \<Rightarrow> WriteShareGroupStateRequest_WriteStateData \<Rightarrow> bool" where
  "WriteShareGroupStateRequest_WriteStateData_fields_wf version x \<longleftrightarrow>
     (let flex = 0 \<le>s version in
      uuid_wf (wsgs_req_wsd_topic_id x)
      \<and> array_ok flex (WriteShareGroupStateRequest_PartitionData_wf version) (wsgs_req_wsd_partitions x))"

definition WriteShareGroupStateRequest_WriteStateData_wf :: "i16 \<Rightarrow> WriteShareGroupStateRequest_WriteStateData \<Rightarrow> bool" where
  "WriteShareGroupStateRequest_WriteStateData_wf version x \<longleftrightarrow>
     WriteShareGroupStateRequest_WriteStateData_fields_wf version x \<and> trailer_ok [] [] (wsgs_req_wsd_unknown_tagged_fields x)"

lemmas write_share_group_state_request_write_state_data_fields =
    Let_def field_ok_def WriteShareGroupStateRequest_WriteStateData_fields_wf_def

lemma write_share_group_state_request_write_state_data_steps:
  assumes v: "0 \<le>s version" and flex: "flex = (0 \<le>s version)"
  shows "keeps (WriteShareGroupStateRequest_WriteStateData_fields_wf version) (get_into (0 \<le>s version) get_uuid (\<lambda>v out. out\<lparr>wsgs_req_wsd_topic_id := v\<rparr>))"
    and "keeps (WriteShareGroupStateRequest_WriteStateData_fields_wf version) (get_into (0 \<le>s version) (get_array flex (WriteShareGroupStateRequest_PartitionData_decode version)) (\<lambda>v out. out\<lparr>wsgs_req_wsd_partitions := v\<rparr>))"
  unfolding flex 
  by (rule keeps_into; (rule yields_rules)?; simp add: v write_share_group_state_request_write_state_data_fields)+

lemma write_share_group_state_request_write_state_data_unknown:
  "WriteShareGroupStateRequest_WriteStateData_fields_wf version (s\<lparr>wsgs_req_wsd_unknown_tagged_fields := u\<rparr>) = WriteShareGroupStateRequest_WriteStateData_fields_wf version s"
  by (simp_all add: WriteShareGroupStateRequest_WriteStateData_fields_wf_def)

lemma write_share_group_state_request_write_state_data_yields:
  assumes v: "0 \<le>s version"
  shows "yields 1 (WriteShareGroupStateRequest_WriteStateData_decode version) (WriteShareGroupStateRequest_WriteStateData_wf version)"
proof -
  have d: "WriteShareGroupStateRequest_WriteStateData_fields_wf version WriteShareGroupStateRequest_WriteStateData_default"
    by (simp add: WriteShareGroupStateRequest_WriteStateData_default_def v write_share_group_state_request_write_state_data_fields)
  show ?thesis
    unfolding WriteShareGroupStateRequest_WriteStateData_decode_def Let_def
    by ((rule write_share_group_state_request_write_state_data_steps[OF v refl, THEN yields_step], (rule d | assumption))+, rule yields_trailer[OF _ arms_keep_Nil[of "WriteShareGroupStateRequest_WriteStateData_fields_wf version" "\<lambda>_. 0"]])
      (simp_all add: v d write_share_group_state_request_write_state_data_unknown WriteShareGroupStateRequest_WriteStateData_wf_def trailer_ok_def )
qed

lemma write_share_group_state_request_write_state_data_extends [extends_rules]: "extends_input (WriteShareGroupStateRequest_WriteStateData_decode version)"
  unfolding WriteShareGroupStateRequest_WriteStateData_decode_def Let_def by (intro extends_rules)

lemma write_share_group_state_request_write_state_data_codec:
  assumes v: "0 \<le>s version"
  shows "message_codec WriteShareGroupStateRequest_WriteStateData_encode WriteShareGroupStateRequest_WriteStateData_decode WriteShareGroupStateRequest_WriteStateData_encoded_len (WriteShareGroupStateRequest_WriteStateData_wf version) version"
proof
  fix x
  assume w: "WriteShareGroupStateRequest_WriteStateData_wf version x"
  show "carries (WriteShareGroupStateRequest_WriteStateData_encode x version) (WriteShareGroupStateRequest_WriteStateData_decode version) (WriteShareGroupStateRequest_WriteStateData_encoded_len x version) x"
    unfolding WriteShareGroupStateRequest_WriteStateData_encode_def WriteShareGroupStateRequest_WriteStateData_encoded_len_def WriteShareGroupStateRequest_WriteStateData_decode_def Let_def
    by (use w[unfolded WriteShareGroupStateRequest_WriteStateData_wf_def WriteShareGroupStateRequest_WriteStateData_fields_wf_def Let_def] in \<open>elim conjE\<close>, rule carries_cong_len)
      ((rule carries_rules | (erule absent_guarded, assumption) | erule absent_plain
        | simp add: v field_ok_def WriteShareGroupStateRequest_WriteStateData_default_def )+)
next
  show "yields 1 (WriteShareGroupStateRequest_WriteStateData_decode version) (WriteShareGroupStateRequest_WriteStateData_wf version)"
    by (rule write_share_group_state_request_write_state_data_yields[OF v])
qed (rule write_share_group_state_request_write_state_data_extends)

lemma write_share_group_state_request_write_state_data_default_wf [simp]: "0 \<le>s version \<Longrightarrow> WriteShareGroupStateRequest_WriteStateData_wf version WriteShareGroupStateRequest_WriteStateData_default"
  by (simp add: WriteShareGroupStateRequest_WriteStateData_wf_def WriteShareGroupStateRequest_WriteStateData_default_def trailer_ok_def write_share_group_state_request_write_state_data_fields)

lemmas [carries_rules] = message_codec.message_carries[OF write_share_group_state_request_write_state_data_codec]
lemmas [yields_rules] = message_codec.message_yields[OF write_share_group_state_request_write_state_data_codec]

lemmas [carries_rules] = protocol_codec.put_array_carries[OF message_codec.message_protocol[OF write_share_group_state_request_write_state_data_codec]]
lemmas [yields_rules] = protocol_codec.get_array_yields[OF message_codec.message_protocol[OF write_share_group_state_request_write_state_data_codec]]
lemmas [carries_rules] = protocol_codec.put_nullable_array_carries[OF message_codec.message_protocol[OF write_share_group_state_request_write_state_data_codec]]
lemmas [yields_rules] = protocol_codec.get_nullable_array_yields[OF message_codec.message_protocol[OF write_share_group_state_request_write_state_data_codec]]

record WriteShareGroupStateRequest =
  wsgs_req_group_id :: bytes
  wsgs_req_topics :: "WriteShareGroupStateRequest_WriteStateData list"
  wsgs_req_unknown_tagged_fields :: "UnknownTaggedField list"

definition WriteShareGroupStateRequest_default :: WriteShareGroupStateRequest where
  "WriteShareGroupStateRequest_default =
     \<lparr>wsgs_req_group_id = [], wsgs_req_topics = [], wsgs_req_unknown_tagged_fields = []\<rparr>"

definition WriteShareGroupStateRequest_MIN_VERSION :: i16 where
  "WriteShareGroupStateRequest_MIN_VERSION = 0"

definition WriteShareGroupStateRequest_MAX_VERSION :: i16 where
  "WriteShareGroupStateRequest_MAX_VERSION = 1"

definition WriteShareGroupStateRequest_FLEXIBLE_MIN :: i16 where
  "WriteShareGroupStateRequest_FLEXIBLE_MIN = 0"

definition WriteShareGroupStateRequest_API_KEY :: i16 where
  "WriteShareGroupStateRequest_API_KEY = 85"

definition WriteShareGroupStateRequest_is_flexible :: "i16 \<Rightarrow> bool" where
  "WriteShareGroupStateRequest_is_flexible version \<longleftrightarrow> WriteShareGroupStateRequest_FLEXIBLE_MIN \<le>s version"

definition WriteShareGroupStateRequest_encode :: "WriteShareGroupStateRequest \<Rightarrow> i16 \<Rightarrow> encoder" where
  "WriteShareGroupStateRequest_encode x version =
     (let flex = WriteShareGroupStateRequest_is_flexible version in
      write_all
        [write_check (check_version WriteShareGroupStateRequest_API_KEY version WriteShareGroupStateRequest_MIN_VERSION WriteShareGroupStateRequest_MAX_VERSION),
         put_when (0 \<le>s version) (put_str flex (wsgs_req_group_id x)),
         put_when (0 \<le>s version) (put_array flex (\<lambda>it. WriteShareGroupStateRequest_WriteStateData_encode it version) (wsgs_req_topics x)),
         put_when flex (put_tagged [] (wsgs_req_unknown_tagged_fields x))])"

definition WriteShareGroupStateRequest_encoded_len :: "WriteShareGroupStateRequest \<Rightarrow> i16 \<Rightarrow> nat" where
  "WriteShareGroupStateRequest_encoded_len x version =
     (let flex = WriteShareGroupStateRequest_is_flexible version in
      len_when (0 \<le>s version) (str_len flex (wsgs_req_group_id x))
      + len_when (0 \<le>s version) (array_size flex (\<lambda>it. WriteShareGroupStateRequest_WriteStateData_encoded_len it version) (wsgs_req_topics x))
      + len_when flex (tagged_size [] (wsgs_req_unknown_tagged_fields x)))"

definition WriteShareGroupStateRequest_decode :: "i16 \<Rightarrow> WriteShareGroupStateRequest decoder" where
  "WriteShareGroupStateRequest_decode version =
     (let flex = WriteShareGroupStateRequest_is_flexible version in
      checked (check_version WriteShareGroupStateRequest_API_KEY version WriteShareGroupStateRequest_MIN_VERSION WriteShareGroupStateRequest_MAX_VERSION) (
        read_then (get_into (0 \<le>s version) (get_str flex) (\<lambda>v out. out\<lparr>wsgs_req_group_id := v\<rparr>) WriteShareGroupStateRequest_default) (\<lambda>out.
        read_then (get_into (0 \<le>s version) (get_array flex (WriteShareGroupStateRequest_WriteStateData_decode version)) (\<lambda>v out. out\<lparr>wsgs_req_topics := v\<rparr>) out) (\<lambda>out.
        get_trailer flex [] (\<lambda>u out. out\<lparr>wsgs_req_unknown_tagged_fields := u\<rparr>) out))))"

definition WriteShareGroupStateRequest_fields_wf :: "i16 \<Rightarrow> WriteShareGroupStateRequest \<Rightarrow> bool" where
  "WriteShareGroupStateRequest_fields_wf version x \<longleftrightarrow>
     (let flex = WriteShareGroupStateRequest_is_flexible version in
      str_wf flex (wsgs_req_group_id x)
      \<and> array_ok flex (WriteShareGroupStateRequest_WriteStateData_wf version) (wsgs_req_topics x))"

definition WriteShareGroupStateRequest_wf :: "i16 \<Rightarrow> WriteShareGroupStateRequest \<Rightarrow> bool" where
  "WriteShareGroupStateRequest_wf version x \<longleftrightarrow>
     version_in WriteShareGroupStateRequest_MIN_VERSION WriteShareGroupStateRequest_MAX_VERSION version \<and> WriteShareGroupStateRequest_fields_wf version x \<and> trailer_ok [] [] (wsgs_req_unknown_tagged_fields x)"

lemmas write_share_group_state_request_versions =
    WriteShareGroupStateRequest_is_flexible_def WriteShareGroupStateRequest_FLEXIBLE_MIN_def
    WriteShareGroupStateRequest_MIN_VERSION_def WriteShareGroupStateRequest_MAX_VERSION_def version_in_def

lemmas write_share_group_state_request_fields =
    Let_def field_ok_def WriteShareGroupStateRequest_fields_wf_def WriteShareGroupStateRequest_is_flexible_def
    WriteShareGroupStateRequest_FLEXIBLE_MIN_def

lemma write_share_group_state_request_steps:
  assumes v: "0 \<le>s version" and flex: "flex = (WriteShareGroupStateRequest_is_flexible version)"
  shows "keeps (WriteShareGroupStateRequest_fields_wf version) (get_into (0 \<le>s version) (get_str flex) (\<lambda>v out. out\<lparr>wsgs_req_group_id := v\<rparr>))"
    and "keeps (WriteShareGroupStateRequest_fields_wf version) (get_into (0 \<le>s version) (get_array flex (WriteShareGroupStateRequest_WriteStateData_decode version)) (\<lambda>v out. out\<lparr>wsgs_req_topics := v\<rparr>))"
  unfolding flex 
  by (rule keeps_into; (rule yields_rules)?; simp add: v write_share_group_state_request_fields)+

lemma write_share_group_state_request_unknown:
  "WriteShareGroupStateRequest_fields_wf version (s\<lparr>wsgs_req_unknown_tagged_fields := u\<rparr>) = WriteShareGroupStateRequest_fields_wf version s"
  by (simp_all add: WriteShareGroupStateRequest_fields_wf_def)

lemma write_share_group_state_request_yields:
  assumes r: "version_in WriteShareGroupStateRequest_MIN_VERSION WriteShareGroupStateRequest_MAX_VERSION version"
  shows "yields 1 (WriteShareGroupStateRequest_decode version) (WriteShareGroupStateRequest_wf version)"
proof -
  have v: "0 \<le>s version"
    using r by (simp add: write_share_group_state_request_versions)
  have d: "WriteShareGroupStateRequest_fields_wf version WriteShareGroupStateRequest_default"
    by (simp add: WriteShareGroupStateRequest_default_def v write_share_group_state_request_fields)
  show ?thesis
    unfolding WriteShareGroupStateRequest_decode_def Let_def
    by (rule yields_checked, (rule write_share_group_state_request_steps[OF v refl, THEN yields_step], (rule d | assumption))+, rule yields_trailer[OF _ arms_keep_Nil[of "WriteShareGroupStateRequest_fields_wf version" "\<lambda>_. 0"]])
      (simp_all add: v d write_share_group_state_request_unknown WriteShareGroupStateRequest_wf_def trailer_ok_def r WriteShareGroupStateRequest_is_flexible_def WriteShareGroupStateRequest_FLEXIBLE_MIN_def)
qed

interpretation write_share_group_state_request: message_codec
  WriteShareGroupStateRequest_encode WriteShareGroupStateRequest_decode WriteShareGroupStateRequest_encoded_len "WriteShareGroupStateRequest_wf version" version
  for version
proof
  fix x
  assume w: "WriteShareGroupStateRequest_wf version x"
  then have v: "0 \<le>s version"
    by (simp add: WriteShareGroupStateRequest_wf_def write_share_group_state_request_versions)
  show "carries (WriteShareGroupStateRequest_encode x version) (WriteShareGroupStateRequest_decode version) (WriteShareGroupStateRequest_encoded_len x version) x"
    unfolding WriteShareGroupStateRequest_encode_def WriteShareGroupStateRequest_encoded_len_def WriteShareGroupStateRequest_decode_def Let_def
    by (use w[unfolded WriteShareGroupStateRequest_wf_def WriteShareGroupStateRequest_fields_wf_def Let_def] in \<open>elim conjE\<close>, rule carries_cong_len)
      ((rule carries_rules check_version_in[THEN iffD2] | (erule absent_guarded, assumption) | erule absent_plain
        | simp add: v field_ok_def WriteShareGroupStateRequest_default_def write_share_group_state_request_versions)+)
next
  show "yields 1 (WriteShareGroupStateRequest_decode version) (WriteShareGroupStateRequest_wf version)"
    by (rule case_split[OF write_share_group_state_request_yields]) (auto simp: WriteShareGroupStateRequest_decode_def Let_def yields_refused yields_unsupported)
  show "extends_input (WriteShareGroupStateRequest_decode version)"
    unfolding WriteShareGroupStateRequest_decode_def Let_def by (intro extends_rules)
qed

section \<open>WriteShareGroupStateResponse\<close>

record WriteShareGroupStateResponse_PartitionResult =
  wsgs_resp_pr_partition :: i32
  wsgs_resp_pr_error_code :: i16
  wsgs_resp_pr_error_message :: "bytes option"
  wsgs_resp_pr_unknown_tagged_fields :: "UnknownTaggedField list"

definition WriteShareGroupStateResponse_PartitionResult_default :: WriteShareGroupStateResponse_PartitionResult where
  "WriteShareGroupStateResponse_PartitionResult_default =
     \<lparr>wsgs_resp_pr_partition = 0, wsgs_resp_pr_error_code = 0, wsgs_resp_pr_error_message = None, wsgs_resp_pr_unknown_tagged_fields = []\<rparr>"

definition WriteShareGroupStateResponse_PartitionResult_encode :: "WriteShareGroupStateResponse_PartitionResult \<Rightarrow> i16 \<Rightarrow> encoder" where
  "WriteShareGroupStateResponse_PartitionResult_encode x version =
     (let flex = 0 \<le>s version in
      write_all
        [put_when (0 \<le>s version) (put_i32 (wsgs_resp_pr_partition x)),
         put_when (0 \<le>s version) (put_i16 (wsgs_resp_pr_error_code x)),
         put_when (0 \<le>s version) (put_nullable_str flex (wsgs_resp_pr_error_message x)),
         put_when flex (put_tagged [] (wsgs_resp_pr_unknown_tagged_fields x))])"

definition WriteShareGroupStateResponse_PartitionResult_encoded_len :: "WriteShareGroupStateResponse_PartitionResult \<Rightarrow> i16 \<Rightarrow> nat" where
  "WriteShareGroupStateResponse_PartitionResult_encoded_len x version =
     (let flex = 0 \<le>s version in
      len_when (0 \<le>s version) 4
      + len_when (0 \<le>s version) 2
      + len_when (0 \<le>s version) (nullable_str_len flex (wsgs_resp_pr_error_message x))
      + len_when flex (tagged_size [] (wsgs_resp_pr_unknown_tagged_fields x)))"

definition WriteShareGroupStateResponse_PartitionResult_decode :: "i16 \<Rightarrow> WriteShareGroupStateResponse_PartitionResult decoder" where
  "WriteShareGroupStateResponse_PartitionResult_decode version =
     (let flex = 0 \<le>s version in
      read_then (get_into (0 \<le>s version) get_i32 (\<lambda>v out. out\<lparr>wsgs_resp_pr_partition := v\<rparr>) WriteShareGroupStateResponse_PartitionResult_default) (\<lambda>out.
        read_then (get_into (0 \<le>s version) get_i16 (\<lambda>v out. out\<lparr>wsgs_resp_pr_error_code := v\<rparr>) out) (\<lambda>out.
        read_then (get_into (0 \<le>s version) (get_nullable_str flex) (\<lambda>v out. out\<lparr>wsgs_resp_pr_error_message := v\<rparr>) out) (\<lambda>out.
        get_trailer flex [] (\<lambda>u out. out\<lparr>wsgs_resp_pr_unknown_tagged_fields := u\<rparr>) out))))"

definition WriteShareGroupStateResponse_PartitionResult_fields_wf :: "i16 \<Rightarrow> WriteShareGroupStateResponse_PartitionResult \<Rightarrow> bool" where
  "WriteShareGroupStateResponse_PartitionResult_fields_wf version x \<longleftrightarrow>
     (let flex = 0 \<le>s version in
      nullable_str_wf flex (wsgs_resp_pr_error_message x))"

definition WriteShareGroupStateResponse_PartitionResult_wf :: "i16 \<Rightarrow> WriteShareGroupStateResponse_PartitionResult \<Rightarrow> bool" where
  "WriteShareGroupStateResponse_PartitionResult_wf version x \<longleftrightarrow>
     WriteShareGroupStateResponse_PartitionResult_fields_wf version x \<and> trailer_ok [] [] (wsgs_resp_pr_unknown_tagged_fields x)"

lemmas write_share_group_state_response_partition_result_fields =
    Let_def field_ok_def WriteShareGroupStateResponse_PartitionResult_fields_wf_def

lemma write_share_group_state_response_partition_result_steps:
  assumes v: "0 \<le>s version" and flex: "flex = (0 \<le>s version)"
  shows "keeps (WriteShareGroupStateResponse_PartitionResult_fields_wf version) (get_into (0 \<le>s version) get_i32 (\<lambda>v out. out\<lparr>wsgs_resp_pr_partition := v\<rparr>))"
    and "keeps (WriteShareGroupStateResponse_PartitionResult_fields_wf version) (get_into (0 \<le>s version) get_i16 (\<lambda>v out. out\<lparr>wsgs_resp_pr_error_code := v\<rparr>))"
    and "keeps (WriteShareGroupStateResponse_PartitionResult_fields_wf version) (get_into (0 \<le>s version) (get_nullable_str flex) (\<lambda>v out. out\<lparr>wsgs_resp_pr_error_message := v\<rparr>))"
  unfolding flex 
  by (rule keeps_into; (rule yields_rules)?; simp add: v write_share_group_state_response_partition_result_fields)+

lemma write_share_group_state_response_partition_result_unknown:
  "WriteShareGroupStateResponse_PartitionResult_fields_wf version (s\<lparr>wsgs_resp_pr_unknown_tagged_fields := u\<rparr>) = WriteShareGroupStateResponse_PartitionResult_fields_wf version s"
  by (simp_all add: WriteShareGroupStateResponse_PartitionResult_fields_wf_def)

lemma write_share_group_state_response_partition_result_yields:
  assumes v: "0 \<le>s version"
  shows "yields 1 (WriteShareGroupStateResponse_PartitionResult_decode version) (WriteShareGroupStateResponse_PartitionResult_wf version)"
proof -
  have d: "WriteShareGroupStateResponse_PartitionResult_fields_wf version WriteShareGroupStateResponse_PartitionResult_default"
    by (simp add: WriteShareGroupStateResponse_PartitionResult_default_def v write_share_group_state_response_partition_result_fields)
  show ?thesis
    unfolding WriteShareGroupStateResponse_PartitionResult_decode_def Let_def
    by ((rule write_share_group_state_response_partition_result_steps[OF v refl, THEN yields_step], (rule d | assumption))+, rule yields_trailer[OF _ arms_keep_Nil[of "WriteShareGroupStateResponse_PartitionResult_fields_wf version" "\<lambda>_. 0"]])
      (simp_all add: v d write_share_group_state_response_partition_result_unknown WriteShareGroupStateResponse_PartitionResult_wf_def trailer_ok_def )
qed

lemma write_share_group_state_response_partition_result_extends [extends_rules]: "extends_input (WriteShareGroupStateResponse_PartitionResult_decode version)"
  unfolding WriteShareGroupStateResponse_PartitionResult_decode_def Let_def by (intro extends_rules)

lemma write_share_group_state_response_partition_result_codec:
  assumes v: "0 \<le>s version"
  shows "message_codec WriteShareGroupStateResponse_PartitionResult_encode WriteShareGroupStateResponse_PartitionResult_decode WriteShareGroupStateResponse_PartitionResult_encoded_len (WriteShareGroupStateResponse_PartitionResult_wf version) version"
proof
  fix x
  assume w: "WriteShareGroupStateResponse_PartitionResult_wf version x"
  show "carries (WriteShareGroupStateResponse_PartitionResult_encode x version) (WriteShareGroupStateResponse_PartitionResult_decode version) (WriteShareGroupStateResponse_PartitionResult_encoded_len x version) x"
    unfolding WriteShareGroupStateResponse_PartitionResult_encode_def WriteShareGroupStateResponse_PartitionResult_encoded_len_def WriteShareGroupStateResponse_PartitionResult_decode_def Let_def
    by (use w[unfolded WriteShareGroupStateResponse_PartitionResult_wf_def WriteShareGroupStateResponse_PartitionResult_fields_wf_def Let_def] in \<open>elim conjE\<close>, rule carries_cong_len)
      ((rule carries_rules | (erule absent_guarded, assumption) | erule absent_plain
        | simp add: v field_ok_def WriteShareGroupStateResponse_PartitionResult_default_def )+)
next
  show "yields 1 (WriteShareGroupStateResponse_PartitionResult_decode version) (WriteShareGroupStateResponse_PartitionResult_wf version)"
    by (rule write_share_group_state_response_partition_result_yields[OF v])
qed (rule write_share_group_state_response_partition_result_extends)

lemma write_share_group_state_response_partition_result_default_wf [simp]: "0 \<le>s version \<Longrightarrow> WriteShareGroupStateResponse_PartitionResult_wf version WriteShareGroupStateResponse_PartitionResult_default"
  by (simp add: WriteShareGroupStateResponse_PartitionResult_wf_def WriteShareGroupStateResponse_PartitionResult_default_def trailer_ok_def write_share_group_state_response_partition_result_fields)

lemmas [carries_rules] = message_codec.message_carries[OF write_share_group_state_response_partition_result_codec]
lemmas [yields_rules] = message_codec.message_yields[OF write_share_group_state_response_partition_result_codec]

lemmas [carries_rules] = protocol_codec.put_array_carries[OF message_codec.message_protocol[OF write_share_group_state_response_partition_result_codec]]
lemmas [yields_rules] = protocol_codec.get_array_yields[OF message_codec.message_protocol[OF write_share_group_state_response_partition_result_codec]]
lemmas [carries_rules] = protocol_codec.put_nullable_array_carries[OF message_codec.message_protocol[OF write_share_group_state_response_partition_result_codec]]
lemmas [yields_rules] = protocol_codec.get_nullable_array_yields[OF message_codec.message_protocol[OF write_share_group_state_response_partition_result_codec]]

record WriteShareGroupStateResponse_WriteStateResult =
  wsgs_resp_wsr_topic_id :: Uuid
  wsgs_resp_wsr_partitions :: "WriteShareGroupStateResponse_PartitionResult list"
  wsgs_resp_wsr_unknown_tagged_fields :: "UnknownTaggedField list"

definition WriteShareGroupStateResponse_WriteStateResult_default :: WriteShareGroupStateResponse_WriteStateResult where
  "WriteShareGroupStateResponse_WriteStateResult_default =
     \<lparr>wsgs_resp_wsr_topic_id = Uuid_ZERO, wsgs_resp_wsr_partitions = [], wsgs_resp_wsr_unknown_tagged_fields = []\<rparr>"

definition WriteShareGroupStateResponse_WriteStateResult_encode :: "WriteShareGroupStateResponse_WriteStateResult \<Rightarrow> i16 \<Rightarrow> encoder" where
  "WriteShareGroupStateResponse_WriteStateResult_encode x version =
     (let flex = 0 \<le>s version in
      write_all
        [put_when (0 \<le>s version) (put_uuid (wsgs_resp_wsr_topic_id x)),
         put_when (0 \<le>s version) (put_array flex (\<lambda>it. WriteShareGroupStateResponse_PartitionResult_encode it version) (wsgs_resp_wsr_partitions x)),
         put_when flex (put_tagged [] (wsgs_resp_wsr_unknown_tagged_fields x))])"

definition WriteShareGroupStateResponse_WriteStateResult_encoded_len :: "WriteShareGroupStateResponse_WriteStateResult \<Rightarrow> i16 \<Rightarrow> nat" where
  "WriteShareGroupStateResponse_WriteStateResult_encoded_len x version =
     (let flex = 0 \<le>s version in
      len_when (0 \<le>s version) 16
      + len_when (0 \<le>s version) (array_size flex (\<lambda>it. WriteShareGroupStateResponse_PartitionResult_encoded_len it version) (wsgs_resp_wsr_partitions x))
      + len_when flex (tagged_size [] (wsgs_resp_wsr_unknown_tagged_fields x)))"

definition WriteShareGroupStateResponse_WriteStateResult_decode :: "i16 \<Rightarrow> WriteShareGroupStateResponse_WriteStateResult decoder" where
  "WriteShareGroupStateResponse_WriteStateResult_decode version =
     (let flex = 0 \<le>s version in
      read_then (get_into (0 \<le>s version) get_uuid (\<lambda>v out. out\<lparr>wsgs_resp_wsr_topic_id := v\<rparr>) WriteShareGroupStateResponse_WriteStateResult_default) (\<lambda>out.
        read_then (get_into (0 \<le>s version) (get_array flex (WriteShareGroupStateResponse_PartitionResult_decode version)) (\<lambda>v out. out\<lparr>wsgs_resp_wsr_partitions := v\<rparr>) out) (\<lambda>out.
        get_trailer flex [] (\<lambda>u out. out\<lparr>wsgs_resp_wsr_unknown_tagged_fields := u\<rparr>) out)))"

definition WriteShareGroupStateResponse_WriteStateResult_fields_wf :: "i16 \<Rightarrow> WriteShareGroupStateResponse_WriteStateResult \<Rightarrow> bool" where
  "WriteShareGroupStateResponse_WriteStateResult_fields_wf version x \<longleftrightarrow>
     (let flex = 0 \<le>s version in
      uuid_wf (wsgs_resp_wsr_topic_id x)
      \<and> array_ok flex (WriteShareGroupStateResponse_PartitionResult_wf version) (wsgs_resp_wsr_partitions x))"

definition WriteShareGroupStateResponse_WriteStateResult_wf :: "i16 \<Rightarrow> WriteShareGroupStateResponse_WriteStateResult \<Rightarrow> bool" where
  "WriteShareGroupStateResponse_WriteStateResult_wf version x \<longleftrightarrow>
     WriteShareGroupStateResponse_WriteStateResult_fields_wf version x \<and> trailer_ok [] [] (wsgs_resp_wsr_unknown_tagged_fields x)"

lemmas write_share_group_state_response_write_state_result_fields =
    Let_def field_ok_def WriteShareGroupStateResponse_WriteStateResult_fields_wf_def

lemma write_share_group_state_response_write_state_result_steps:
  assumes v: "0 \<le>s version" and flex: "flex = (0 \<le>s version)"
  shows "keeps (WriteShareGroupStateResponse_WriteStateResult_fields_wf version) (get_into (0 \<le>s version) get_uuid (\<lambda>v out. out\<lparr>wsgs_resp_wsr_topic_id := v\<rparr>))"
    and "keeps (WriteShareGroupStateResponse_WriteStateResult_fields_wf version) (get_into (0 \<le>s version) (get_array flex (WriteShareGroupStateResponse_PartitionResult_decode version)) (\<lambda>v out. out\<lparr>wsgs_resp_wsr_partitions := v\<rparr>))"
  unfolding flex 
  by (rule keeps_into; (rule yields_rules)?; simp add: v write_share_group_state_response_write_state_result_fields)+

lemma write_share_group_state_response_write_state_result_unknown:
  "WriteShareGroupStateResponse_WriteStateResult_fields_wf version (s\<lparr>wsgs_resp_wsr_unknown_tagged_fields := u\<rparr>) = WriteShareGroupStateResponse_WriteStateResult_fields_wf version s"
  by (simp_all add: WriteShareGroupStateResponse_WriteStateResult_fields_wf_def)

lemma write_share_group_state_response_write_state_result_yields:
  assumes v: "0 \<le>s version"
  shows "yields 1 (WriteShareGroupStateResponse_WriteStateResult_decode version) (WriteShareGroupStateResponse_WriteStateResult_wf version)"
proof -
  have d: "WriteShareGroupStateResponse_WriteStateResult_fields_wf version WriteShareGroupStateResponse_WriteStateResult_default"
    by (simp add: WriteShareGroupStateResponse_WriteStateResult_default_def v write_share_group_state_response_write_state_result_fields)
  show ?thesis
    unfolding WriteShareGroupStateResponse_WriteStateResult_decode_def Let_def
    by ((rule write_share_group_state_response_write_state_result_steps[OF v refl, THEN yields_step], (rule d | assumption))+, rule yields_trailer[OF _ arms_keep_Nil[of "WriteShareGroupStateResponse_WriteStateResult_fields_wf version" "\<lambda>_. 0"]])
      (simp_all add: v d write_share_group_state_response_write_state_result_unknown WriteShareGroupStateResponse_WriteStateResult_wf_def trailer_ok_def )
qed

lemma write_share_group_state_response_write_state_result_extends [extends_rules]: "extends_input (WriteShareGroupStateResponse_WriteStateResult_decode version)"
  unfolding WriteShareGroupStateResponse_WriteStateResult_decode_def Let_def by (intro extends_rules)

lemma write_share_group_state_response_write_state_result_codec:
  assumes v: "0 \<le>s version"
  shows "message_codec WriteShareGroupStateResponse_WriteStateResult_encode WriteShareGroupStateResponse_WriteStateResult_decode WriteShareGroupStateResponse_WriteStateResult_encoded_len (WriteShareGroupStateResponse_WriteStateResult_wf version) version"
proof
  fix x
  assume w: "WriteShareGroupStateResponse_WriteStateResult_wf version x"
  show "carries (WriteShareGroupStateResponse_WriteStateResult_encode x version) (WriteShareGroupStateResponse_WriteStateResult_decode version) (WriteShareGroupStateResponse_WriteStateResult_encoded_len x version) x"
    unfolding WriteShareGroupStateResponse_WriteStateResult_encode_def WriteShareGroupStateResponse_WriteStateResult_encoded_len_def WriteShareGroupStateResponse_WriteStateResult_decode_def Let_def
    by (use w[unfolded WriteShareGroupStateResponse_WriteStateResult_wf_def WriteShareGroupStateResponse_WriteStateResult_fields_wf_def Let_def] in \<open>elim conjE\<close>, rule carries_cong_len)
      ((rule carries_rules | (erule absent_guarded, assumption) | erule absent_plain
        | simp add: v field_ok_def WriteShareGroupStateResponse_WriteStateResult_default_def )+)
next
  show "yields 1 (WriteShareGroupStateResponse_WriteStateResult_decode version) (WriteShareGroupStateResponse_WriteStateResult_wf version)"
    by (rule write_share_group_state_response_write_state_result_yields[OF v])
qed (rule write_share_group_state_response_write_state_result_extends)

lemma write_share_group_state_response_write_state_result_default_wf [simp]: "0 \<le>s version \<Longrightarrow> WriteShareGroupStateResponse_WriteStateResult_wf version WriteShareGroupStateResponse_WriteStateResult_default"
  by (simp add: WriteShareGroupStateResponse_WriteStateResult_wf_def WriteShareGroupStateResponse_WriteStateResult_default_def trailer_ok_def write_share_group_state_response_write_state_result_fields)

lemmas [carries_rules] = message_codec.message_carries[OF write_share_group_state_response_write_state_result_codec]
lemmas [yields_rules] = message_codec.message_yields[OF write_share_group_state_response_write_state_result_codec]

lemmas [carries_rules] = protocol_codec.put_array_carries[OF message_codec.message_protocol[OF write_share_group_state_response_write_state_result_codec]]
lemmas [yields_rules] = protocol_codec.get_array_yields[OF message_codec.message_protocol[OF write_share_group_state_response_write_state_result_codec]]
lemmas [carries_rules] = protocol_codec.put_nullable_array_carries[OF message_codec.message_protocol[OF write_share_group_state_response_write_state_result_codec]]
lemmas [yields_rules] = protocol_codec.get_nullable_array_yields[OF message_codec.message_protocol[OF write_share_group_state_response_write_state_result_codec]]

record WriteShareGroupStateResponse =
  wsgs_resp_results :: "WriteShareGroupStateResponse_WriteStateResult list"
  wsgs_resp_unknown_tagged_fields :: "UnknownTaggedField list"

definition WriteShareGroupStateResponse_default :: WriteShareGroupStateResponse where
  "WriteShareGroupStateResponse_default =
     \<lparr>wsgs_resp_results = [], wsgs_resp_unknown_tagged_fields = []\<rparr>"

definition WriteShareGroupStateResponse_MIN_VERSION :: i16 where
  "WriteShareGroupStateResponse_MIN_VERSION = 0"

definition WriteShareGroupStateResponse_MAX_VERSION :: i16 where
  "WriteShareGroupStateResponse_MAX_VERSION = 1"

definition WriteShareGroupStateResponse_FLEXIBLE_MIN :: i16 where
  "WriteShareGroupStateResponse_FLEXIBLE_MIN = 0"

definition WriteShareGroupStateResponse_API_KEY :: i16 where
  "WriteShareGroupStateResponse_API_KEY = 85"

definition WriteShareGroupStateResponse_is_flexible :: "i16 \<Rightarrow> bool" where
  "WriteShareGroupStateResponse_is_flexible version \<longleftrightarrow> WriteShareGroupStateResponse_FLEXIBLE_MIN \<le>s version"

definition WriteShareGroupStateResponse_encode :: "WriteShareGroupStateResponse \<Rightarrow> i16 \<Rightarrow> encoder" where
  "WriteShareGroupStateResponse_encode x version =
     (let flex = WriteShareGroupStateResponse_is_flexible version in
      write_all
        [write_check (check_version WriteShareGroupStateResponse_API_KEY version WriteShareGroupStateResponse_MIN_VERSION WriteShareGroupStateResponse_MAX_VERSION),
         put_when (0 \<le>s version) (put_array flex (\<lambda>it. WriteShareGroupStateResponse_WriteStateResult_encode it version) (wsgs_resp_results x)),
         put_when flex (put_tagged [] (wsgs_resp_unknown_tagged_fields x))])"

definition WriteShareGroupStateResponse_encoded_len :: "WriteShareGroupStateResponse \<Rightarrow> i16 \<Rightarrow> nat" where
  "WriteShareGroupStateResponse_encoded_len x version =
     (let flex = WriteShareGroupStateResponse_is_flexible version in
      len_when (0 \<le>s version) (array_size flex (\<lambda>it. WriteShareGroupStateResponse_WriteStateResult_encoded_len it version) (wsgs_resp_results x))
      + len_when flex (tagged_size [] (wsgs_resp_unknown_tagged_fields x)))"

definition WriteShareGroupStateResponse_decode :: "i16 \<Rightarrow> WriteShareGroupStateResponse decoder" where
  "WriteShareGroupStateResponse_decode version =
     (let flex = WriteShareGroupStateResponse_is_flexible version in
      checked (check_version WriteShareGroupStateResponse_API_KEY version WriteShareGroupStateResponse_MIN_VERSION WriteShareGroupStateResponse_MAX_VERSION) (
        read_then (get_into (0 \<le>s version) (get_array flex (WriteShareGroupStateResponse_WriteStateResult_decode version)) (\<lambda>v out. out\<lparr>wsgs_resp_results := v\<rparr>) WriteShareGroupStateResponse_default) (\<lambda>out.
        get_trailer flex [] (\<lambda>u out. out\<lparr>wsgs_resp_unknown_tagged_fields := u\<rparr>) out)))"

definition WriteShareGroupStateResponse_fields_wf :: "i16 \<Rightarrow> WriteShareGroupStateResponse \<Rightarrow> bool" where
  "WriteShareGroupStateResponse_fields_wf version x \<longleftrightarrow>
     (let flex = WriteShareGroupStateResponse_is_flexible version in
      array_ok flex (WriteShareGroupStateResponse_WriteStateResult_wf version) (wsgs_resp_results x))"

definition WriteShareGroupStateResponse_wf :: "i16 \<Rightarrow> WriteShareGroupStateResponse \<Rightarrow> bool" where
  "WriteShareGroupStateResponse_wf version x \<longleftrightarrow>
     version_in WriteShareGroupStateResponse_MIN_VERSION WriteShareGroupStateResponse_MAX_VERSION version \<and> WriteShareGroupStateResponse_fields_wf version x \<and> trailer_ok [] [] (wsgs_resp_unknown_tagged_fields x)"

lemmas write_share_group_state_response_versions =
    WriteShareGroupStateResponse_is_flexible_def WriteShareGroupStateResponse_FLEXIBLE_MIN_def
    WriteShareGroupStateResponse_MIN_VERSION_def WriteShareGroupStateResponse_MAX_VERSION_def version_in_def

lemmas write_share_group_state_response_fields =
    Let_def field_ok_def WriteShareGroupStateResponse_fields_wf_def WriteShareGroupStateResponse_is_flexible_def
    WriteShareGroupStateResponse_FLEXIBLE_MIN_def

lemma write_share_group_state_response_steps:
  assumes v: "0 \<le>s version" and flex: "flex = (WriteShareGroupStateResponse_is_flexible version)"
  shows "keeps (WriteShareGroupStateResponse_fields_wf version) (get_into (0 \<le>s version) (get_array flex (WriteShareGroupStateResponse_WriteStateResult_decode version)) (\<lambda>v out. out\<lparr>wsgs_resp_results := v\<rparr>))"
  unfolding flex 
  by (rule keeps_into; (rule yields_rules)?; simp add: v write_share_group_state_response_fields)+

lemma write_share_group_state_response_unknown:
  "WriteShareGroupStateResponse_fields_wf version (s\<lparr>wsgs_resp_unknown_tagged_fields := u\<rparr>) = WriteShareGroupStateResponse_fields_wf version s"
  by (simp_all add: WriteShareGroupStateResponse_fields_wf_def)

lemma write_share_group_state_response_yields:
  assumes r: "version_in WriteShareGroupStateResponse_MIN_VERSION WriteShareGroupStateResponse_MAX_VERSION version"
  shows "yields 1 (WriteShareGroupStateResponse_decode version) (WriteShareGroupStateResponse_wf version)"
proof -
  have v: "0 \<le>s version"
    using r by (simp add: write_share_group_state_response_versions)
  have d: "WriteShareGroupStateResponse_fields_wf version WriteShareGroupStateResponse_default"
    by (simp add: WriteShareGroupStateResponse_default_def v write_share_group_state_response_fields)
  show ?thesis
    unfolding WriteShareGroupStateResponse_decode_def Let_def
    by (rule yields_checked, (rule write_share_group_state_response_steps[OF v refl, THEN yields_step], (rule d | assumption))+, rule yields_trailer[OF _ arms_keep_Nil[of "WriteShareGroupStateResponse_fields_wf version" "\<lambda>_. 0"]])
      (simp_all add: v d write_share_group_state_response_unknown WriteShareGroupStateResponse_wf_def trailer_ok_def r WriteShareGroupStateResponse_is_flexible_def WriteShareGroupStateResponse_FLEXIBLE_MIN_def)
qed

interpretation write_share_group_state_response: message_codec
  WriteShareGroupStateResponse_encode WriteShareGroupStateResponse_decode WriteShareGroupStateResponse_encoded_len "WriteShareGroupStateResponse_wf version" version
  for version
proof
  fix x
  assume w: "WriteShareGroupStateResponse_wf version x"
  then have v: "0 \<le>s version"
    by (simp add: WriteShareGroupStateResponse_wf_def write_share_group_state_response_versions)
  show "carries (WriteShareGroupStateResponse_encode x version) (WriteShareGroupStateResponse_decode version) (WriteShareGroupStateResponse_encoded_len x version) x"
    unfolding WriteShareGroupStateResponse_encode_def WriteShareGroupStateResponse_encoded_len_def WriteShareGroupStateResponse_decode_def Let_def
    by (use w[unfolded WriteShareGroupStateResponse_wf_def WriteShareGroupStateResponse_fields_wf_def Let_def] in \<open>elim conjE\<close>, rule carries_cong_len)
      ((rule carries_rules check_version_in[THEN iffD2] | (erule absent_guarded, assumption) | erule absent_plain
        | simp add: v field_ok_def WriteShareGroupStateResponse_default_def write_share_group_state_response_versions)+)
next
  show "yields 1 (WriteShareGroupStateResponse_decode version) (WriteShareGroupStateResponse_wf version)"
    by (rule case_split[OF write_share_group_state_response_yields]) (auto simp: WriteShareGroupStateResponse_decode_def Let_def yields_refused yields_unsupported)
  show "extends_input (WriteShareGroupStateResponse_decode version)"
    unfolding WriteShareGroupStateResponse_decode_def Let_def by (intro extends_rules)
qed

end
