(* ===== verification/AdminMessages.thy ===== *)
theory AdminMessages
  imports GeneratedCodec
begin

text \<open>
  The generated codecs of the messages about administration: credentials, transactions, telemetry, group
  descriptions
  (\<open>crates/protocol/generated/*.owned.rs\<close>): the structs with their defaults, and \<open>encode\<close>, \<open>encoded_len\<close> and
  \<open>decode\<close> put together from the shapes of \<open>GeneratedCodec\<close>. A nested struct \<open>S\<close> of a message \<open>M\<close> is \<open>M_S\<close>.
  \<open>M_wf\<close> says which messages can be written at a version: a field that the version does not carry holds its
  default, and lengths fit their prefixes. The interpretation of \<open>message_codec\<close> after each message
  discharges the contract of a versioned message for its three methods.
\<close>

section \<open>AlterUserScramCredentialsRequest\<close>

record AlterUserScramCredentialsRequest_ScramCredentialDeletion =
  ausc_req_scd_name :: bytes
  ausc_req_scd_mechanism :: i8
  ausc_req_scd_unknown_tagged_fields :: "UnknownTaggedField list"

definition AlterUserScramCredentialsRequest_ScramCredentialDeletion_default :: AlterUserScramCredentialsRequest_ScramCredentialDeletion where
  "AlterUserScramCredentialsRequest_ScramCredentialDeletion_default =
     \<lparr>ausc_req_scd_name = [], ausc_req_scd_mechanism = 0, ausc_req_scd_unknown_tagged_fields = []\<rparr>"

definition AlterUserScramCredentialsRequest_ScramCredentialDeletion_encode :: "AlterUserScramCredentialsRequest_ScramCredentialDeletion \<Rightarrow> i16 \<Rightarrow> encoder" where
  "AlterUserScramCredentialsRequest_ScramCredentialDeletion_encode x version =
     (let flex = 0 \<le>s version in
      write_all
        [put_when (0 \<le>s version) (put_str flex (ausc_req_scd_name x)),
         put_when (0 \<le>s version) (put_i8 (ausc_req_scd_mechanism x)),
         put_when flex (put_tagged [] (ausc_req_scd_unknown_tagged_fields x))])"

definition AlterUserScramCredentialsRequest_ScramCredentialDeletion_encoded_len :: "AlterUserScramCredentialsRequest_ScramCredentialDeletion \<Rightarrow> i16 \<Rightarrow> nat" where
  "AlterUserScramCredentialsRequest_ScramCredentialDeletion_encoded_len x version =
     (let flex = 0 \<le>s version in
      len_when (0 \<le>s version) (str_len flex (ausc_req_scd_name x))
      + len_when (0 \<le>s version) 1
      + len_when flex (tagged_size [] (ausc_req_scd_unknown_tagged_fields x)))"

definition AlterUserScramCredentialsRequest_ScramCredentialDeletion_decode :: "i16 \<Rightarrow> AlterUserScramCredentialsRequest_ScramCredentialDeletion decoder" where
  "AlterUserScramCredentialsRequest_ScramCredentialDeletion_decode version =
     (let flex = 0 \<le>s version in
      read_then (get_into (0 \<le>s version) (get_str flex) (\<lambda>v out. out\<lparr>ausc_req_scd_name := v\<rparr>) AlterUserScramCredentialsRequest_ScramCredentialDeletion_default) (\<lambda>out.
        read_then (get_into (0 \<le>s version) get_i8 (\<lambda>v out. out\<lparr>ausc_req_scd_mechanism := v\<rparr>) out) (\<lambda>out.
        get_trailer flex [] (\<lambda>u out. out\<lparr>ausc_req_scd_unknown_tagged_fields := u\<rparr>) out)))"

definition AlterUserScramCredentialsRequest_ScramCredentialDeletion_fields_wf :: "i16 \<Rightarrow> AlterUserScramCredentialsRequest_ScramCredentialDeletion \<Rightarrow> bool" where
  "AlterUserScramCredentialsRequest_ScramCredentialDeletion_fields_wf version x \<longleftrightarrow>
     (let flex = 0 \<le>s version in
      str_wf flex (ausc_req_scd_name x))"

definition AlterUserScramCredentialsRequest_ScramCredentialDeletion_wf :: "i16 \<Rightarrow> AlterUserScramCredentialsRequest_ScramCredentialDeletion \<Rightarrow> bool" where
  "AlterUserScramCredentialsRequest_ScramCredentialDeletion_wf version x \<longleftrightarrow>
     AlterUserScramCredentialsRequest_ScramCredentialDeletion_fields_wf version x \<and> trailer_ok [] [] (ausc_req_scd_unknown_tagged_fields x)"

lemmas alter_user_scram_credentials_request_scram_credential_deletion_fields =
    Let_def field_ok_def AlterUserScramCredentialsRequest_ScramCredentialDeletion_fields_wf_def

lemma alter_user_scram_credentials_request_scram_credential_deletion_steps:
  assumes v: "0 \<le>s version" and flex: "flex = (0 \<le>s version)"
  shows "keeps (AlterUserScramCredentialsRequest_ScramCredentialDeletion_fields_wf version) (get_into (0 \<le>s version) (get_str flex) (\<lambda>v out. out\<lparr>ausc_req_scd_name := v\<rparr>))"
    and "keeps (AlterUserScramCredentialsRequest_ScramCredentialDeletion_fields_wf version) (get_into (0 \<le>s version) get_i8 (\<lambda>v out. out\<lparr>ausc_req_scd_mechanism := v\<rparr>))"
  unfolding flex 
  by (rule keeps_into; (rule yields_rules)?; simp add: v alter_user_scram_credentials_request_scram_credential_deletion_fields)+

lemma alter_user_scram_credentials_request_scram_credential_deletion_unknown:
  "AlterUserScramCredentialsRequest_ScramCredentialDeletion_fields_wf version (s\<lparr>ausc_req_scd_unknown_tagged_fields := u\<rparr>) = AlterUserScramCredentialsRequest_ScramCredentialDeletion_fields_wf version s"
  by (simp_all add: AlterUserScramCredentialsRequest_ScramCredentialDeletion_fields_wf_def)

lemma alter_user_scram_credentials_request_scram_credential_deletion_yields:
  assumes v: "0 \<le>s version"
  shows "yields 1 (AlterUserScramCredentialsRequest_ScramCredentialDeletion_decode version) (AlterUserScramCredentialsRequest_ScramCredentialDeletion_wf version)"
proof -
  have d: "AlterUserScramCredentialsRequest_ScramCredentialDeletion_fields_wf version AlterUserScramCredentialsRequest_ScramCredentialDeletion_default"
    by (simp add: AlterUserScramCredentialsRequest_ScramCredentialDeletion_default_def v alter_user_scram_credentials_request_scram_credential_deletion_fields)
  show ?thesis
    unfolding AlterUserScramCredentialsRequest_ScramCredentialDeletion_decode_def Let_def
    by ((rule alter_user_scram_credentials_request_scram_credential_deletion_steps[OF v refl, THEN yields_step], (rule d | assumption))+, rule yields_trailer[OF _ arms_keep_Nil[of "AlterUserScramCredentialsRequest_ScramCredentialDeletion_fields_wf version" "\<lambda>_. 0"]])
      (simp_all add: v d alter_user_scram_credentials_request_scram_credential_deletion_unknown AlterUserScramCredentialsRequest_ScramCredentialDeletion_wf_def trailer_ok_def )
qed

lemma alter_user_scram_credentials_request_scram_credential_deletion_extends [extends_rules]: "extends_input (AlterUserScramCredentialsRequest_ScramCredentialDeletion_decode version)"
  unfolding AlterUserScramCredentialsRequest_ScramCredentialDeletion_decode_def Let_def by (intro extends_rules)

lemma alter_user_scram_credentials_request_scram_credential_deletion_codec:
  assumes v: "0 \<le>s version"
  shows "message_codec AlterUserScramCredentialsRequest_ScramCredentialDeletion_encode AlterUserScramCredentialsRequest_ScramCredentialDeletion_decode AlterUserScramCredentialsRequest_ScramCredentialDeletion_encoded_len (AlterUserScramCredentialsRequest_ScramCredentialDeletion_wf version) version"
proof
  fix x
  assume w: "AlterUserScramCredentialsRequest_ScramCredentialDeletion_wf version x"
  show "carries (AlterUserScramCredentialsRequest_ScramCredentialDeletion_encode x version) (AlterUserScramCredentialsRequest_ScramCredentialDeletion_decode version) (AlterUserScramCredentialsRequest_ScramCredentialDeletion_encoded_len x version) x"
    unfolding AlterUserScramCredentialsRequest_ScramCredentialDeletion_encode_def AlterUserScramCredentialsRequest_ScramCredentialDeletion_encoded_len_def AlterUserScramCredentialsRequest_ScramCredentialDeletion_decode_def Let_def
    by (use w[unfolded AlterUserScramCredentialsRequest_ScramCredentialDeletion_wf_def AlterUserScramCredentialsRequest_ScramCredentialDeletion_fields_wf_def Let_def] in \<open>elim conjE\<close>, rule carries_cong_len)
      ((rule carries_rules | (erule absent_guarded, assumption) | erule absent_plain
        | simp add: v field_ok_def AlterUserScramCredentialsRequest_ScramCredentialDeletion_default_def )+)
next
  show "yields 1 (AlterUserScramCredentialsRequest_ScramCredentialDeletion_decode version) (AlterUserScramCredentialsRequest_ScramCredentialDeletion_wf version)"
    by (rule alter_user_scram_credentials_request_scram_credential_deletion_yields[OF v])
qed (rule alter_user_scram_credentials_request_scram_credential_deletion_extends)

lemma alter_user_scram_credentials_request_scram_credential_deletion_default_wf [simp]: "0 \<le>s version \<Longrightarrow> AlterUserScramCredentialsRequest_ScramCredentialDeletion_wf version AlterUserScramCredentialsRequest_ScramCredentialDeletion_default"
  by (simp add: AlterUserScramCredentialsRequest_ScramCredentialDeletion_wf_def AlterUserScramCredentialsRequest_ScramCredentialDeletion_default_def trailer_ok_def alter_user_scram_credentials_request_scram_credential_deletion_fields)

lemmas [carries_rules] = message_codec.message_carries[OF alter_user_scram_credentials_request_scram_credential_deletion_codec]
lemmas [yields_rules] = message_codec.message_yields[OF alter_user_scram_credentials_request_scram_credential_deletion_codec]

lemmas [carries_rules] = protocol_codec.put_array_carries[OF message_codec.message_protocol[OF alter_user_scram_credentials_request_scram_credential_deletion_codec]]
lemmas [yields_rules] = protocol_codec.get_array_yields[OF message_codec.message_protocol[OF alter_user_scram_credentials_request_scram_credential_deletion_codec]]
lemmas [carries_rules] = protocol_codec.put_nullable_array_carries[OF message_codec.message_protocol[OF alter_user_scram_credentials_request_scram_credential_deletion_codec]]
lemmas [yields_rules] = protocol_codec.get_nullable_array_yields[OF message_codec.message_protocol[OF alter_user_scram_credentials_request_scram_credential_deletion_codec]]

record AlterUserScramCredentialsRequest_ScramCredentialUpsertion =
  ausc_req_scu_name :: bytes
  ausc_req_scu_mechanism :: i8
  ausc_req_scu_iterations :: i32
  ausc_req_scu_salt :: bytes
  ausc_req_scu_salted_password :: bytes
  ausc_req_scu_unknown_tagged_fields :: "UnknownTaggedField list"

definition AlterUserScramCredentialsRequest_ScramCredentialUpsertion_default :: AlterUserScramCredentialsRequest_ScramCredentialUpsertion where
  "AlterUserScramCredentialsRequest_ScramCredentialUpsertion_default =
     \<lparr>ausc_req_scu_name = [], ausc_req_scu_mechanism = 0, ausc_req_scu_iterations = 0, ausc_req_scu_salt = [], ausc_req_scu_salted_password = [], ausc_req_scu_unknown_tagged_fields = []\<rparr>"

definition AlterUserScramCredentialsRequest_ScramCredentialUpsertion_encode :: "AlterUserScramCredentialsRequest_ScramCredentialUpsertion \<Rightarrow> i16 \<Rightarrow> encoder" where
  "AlterUserScramCredentialsRequest_ScramCredentialUpsertion_encode x version =
     (let flex = 0 \<le>s version in
      write_all
        [put_when (0 \<le>s version) (put_str flex (ausc_req_scu_name x)),
         put_when (0 \<le>s version) (put_i8 (ausc_req_scu_mechanism x)),
         put_when (0 \<le>s version) (put_i32 (ausc_req_scu_iterations x)),
         put_when (0 \<le>s version) (put_blob flex (ausc_req_scu_salt x)),
         put_when (0 \<le>s version) (put_blob flex (ausc_req_scu_salted_password x)),
         put_when flex (put_tagged [] (ausc_req_scu_unknown_tagged_fields x))])"

definition AlterUserScramCredentialsRequest_ScramCredentialUpsertion_encoded_len :: "AlterUserScramCredentialsRequest_ScramCredentialUpsertion \<Rightarrow> i16 \<Rightarrow> nat" where
  "AlterUserScramCredentialsRequest_ScramCredentialUpsertion_encoded_len x version =
     (let flex = 0 \<le>s version in
      len_when (0 \<le>s version) (str_len flex (ausc_req_scu_name x))
      + len_when (0 \<le>s version) 1
      + len_when (0 \<le>s version) 4
      + len_when (0 \<le>s version) (blob_len flex (ausc_req_scu_salt x))
      + len_when (0 \<le>s version) (blob_len flex (ausc_req_scu_salted_password x))
      + len_when flex (tagged_size [] (ausc_req_scu_unknown_tagged_fields x)))"

definition AlterUserScramCredentialsRequest_ScramCredentialUpsertion_decode :: "i16 \<Rightarrow> AlterUserScramCredentialsRequest_ScramCredentialUpsertion decoder" where
  "AlterUserScramCredentialsRequest_ScramCredentialUpsertion_decode version =
     (let flex = 0 \<le>s version in
      read_then (get_into (0 \<le>s version) (get_str flex) (\<lambda>v out. out\<lparr>ausc_req_scu_name := v\<rparr>) AlterUserScramCredentialsRequest_ScramCredentialUpsertion_default) (\<lambda>out.
        read_then (get_into (0 \<le>s version) get_i8 (\<lambda>v out. out\<lparr>ausc_req_scu_mechanism := v\<rparr>) out) (\<lambda>out.
        read_then (get_into (0 \<le>s version) get_i32 (\<lambda>v out. out\<lparr>ausc_req_scu_iterations := v\<rparr>) out) (\<lambda>out.
        read_then (get_into (0 \<le>s version) (get_blob flex) (\<lambda>v out. out\<lparr>ausc_req_scu_salt := v\<rparr>) out) (\<lambda>out.
        read_then (get_into (0 \<le>s version) (get_blob flex) (\<lambda>v out. out\<lparr>ausc_req_scu_salted_password := v\<rparr>) out) (\<lambda>out.
        get_trailer flex [] (\<lambda>u out. out\<lparr>ausc_req_scu_unknown_tagged_fields := u\<rparr>) out))))))"

definition AlterUserScramCredentialsRequest_ScramCredentialUpsertion_fields_wf :: "i16 \<Rightarrow> AlterUserScramCredentialsRequest_ScramCredentialUpsertion \<Rightarrow> bool" where
  "AlterUserScramCredentialsRequest_ScramCredentialUpsertion_fields_wf version x \<longleftrightarrow>
     (let flex = 0 \<le>s version in
      str_wf flex (ausc_req_scu_name x)
      \<and> blob_wf flex (ausc_req_scu_salt x)
      \<and> blob_wf flex (ausc_req_scu_salted_password x))"

definition AlterUserScramCredentialsRequest_ScramCredentialUpsertion_wf :: "i16 \<Rightarrow> AlterUserScramCredentialsRequest_ScramCredentialUpsertion \<Rightarrow> bool" where
  "AlterUserScramCredentialsRequest_ScramCredentialUpsertion_wf version x \<longleftrightarrow>
     AlterUserScramCredentialsRequest_ScramCredentialUpsertion_fields_wf version x \<and> trailer_ok [] [] (ausc_req_scu_unknown_tagged_fields x)"

lemmas alter_user_scram_credentials_request_scram_credential_upsertion_fields =
    Let_def field_ok_def AlterUserScramCredentialsRequest_ScramCredentialUpsertion_fields_wf_def

lemma alter_user_scram_credentials_request_scram_credential_upsertion_steps:
  assumes v: "0 \<le>s version" and flex: "flex = (0 \<le>s version)"
  shows "keeps (AlterUserScramCredentialsRequest_ScramCredentialUpsertion_fields_wf version) (get_into (0 \<le>s version) (get_str flex) (\<lambda>v out. out\<lparr>ausc_req_scu_name := v\<rparr>))"
    and "keeps (AlterUserScramCredentialsRequest_ScramCredentialUpsertion_fields_wf version) (get_into (0 \<le>s version) get_i8 (\<lambda>v out. out\<lparr>ausc_req_scu_mechanism := v\<rparr>))"
    and "keeps (AlterUserScramCredentialsRequest_ScramCredentialUpsertion_fields_wf version) (get_into (0 \<le>s version) get_i32 (\<lambda>v out. out\<lparr>ausc_req_scu_iterations := v\<rparr>))"
    and "keeps (AlterUserScramCredentialsRequest_ScramCredentialUpsertion_fields_wf version) (get_into (0 \<le>s version) (get_blob flex) (\<lambda>v out. out\<lparr>ausc_req_scu_salt := v\<rparr>))"
    and "keeps (AlterUserScramCredentialsRequest_ScramCredentialUpsertion_fields_wf version) (get_into (0 \<le>s version) (get_blob flex) (\<lambda>v out. out\<lparr>ausc_req_scu_salted_password := v\<rparr>))"
  unfolding flex 
  by (rule keeps_into; (rule yields_rules)?; simp add: v alter_user_scram_credentials_request_scram_credential_upsertion_fields)+

lemma alter_user_scram_credentials_request_scram_credential_upsertion_unknown:
  "AlterUserScramCredentialsRequest_ScramCredentialUpsertion_fields_wf version (s\<lparr>ausc_req_scu_unknown_tagged_fields := u\<rparr>) = AlterUserScramCredentialsRequest_ScramCredentialUpsertion_fields_wf version s"
  by (simp_all add: AlterUserScramCredentialsRequest_ScramCredentialUpsertion_fields_wf_def)

lemma alter_user_scram_credentials_request_scram_credential_upsertion_yields:
  assumes v: "0 \<le>s version"
  shows "yields 1 (AlterUserScramCredentialsRequest_ScramCredentialUpsertion_decode version) (AlterUserScramCredentialsRequest_ScramCredentialUpsertion_wf version)"
proof -
  have d: "AlterUserScramCredentialsRequest_ScramCredentialUpsertion_fields_wf version AlterUserScramCredentialsRequest_ScramCredentialUpsertion_default"
    by (simp add: AlterUserScramCredentialsRequest_ScramCredentialUpsertion_default_def v alter_user_scram_credentials_request_scram_credential_upsertion_fields)
  show ?thesis
    unfolding AlterUserScramCredentialsRequest_ScramCredentialUpsertion_decode_def Let_def
    by ((rule alter_user_scram_credentials_request_scram_credential_upsertion_steps[OF v refl, THEN yields_step], (rule d | assumption))+, rule yields_trailer[OF _ arms_keep_Nil[of "AlterUserScramCredentialsRequest_ScramCredentialUpsertion_fields_wf version" "\<lambda>_. 0"]])
      (simp_all add: v d alter_user_scram_credentials_request_scram_credential_upsertion_unknown AlterUserScramCredentialsRequest_ScramCredentialUpsertion_wf_def trailer_ok_def )
qed

lemma alter_user_scram_credentials_request_scram_credential_upsertion_extends [extends_rules]: "extends_input (AlterUserScramCredentialsRequest_ScramCredentialUpsertion_decode version)"
  unfolding AlterUserScramCredentialsRequest_ScramCredentialUpsertion_decode_def Let_def by (intro extends_rules)

lemma alter_user_scram_credentials_request_scram_credential_upsertion_codec:
  assumes v: "0 \<le>s version"
  shows "message_codec AlterUserScramCredentialsRequest_ScramCredentialUpsertion_encode AlterUserScramCredentialsRequest_ScramCredentialUpsertion_decode AlterUserScramCredentialsRequest_ScramCredentialUpsertion_encoded_len (AlterUserScramCredentialsRequest_ScramCredentialUpsertion_wf version) version"
proof
  fix x
  assume w: "AlterUserScramCredentialsRequest_ScramCredentialUpsertion_wf version x"
  show "carries (AlterUserScramCredentialsRequest_ScramCredentialUpsertion_encode x version) (AlterUserScramCredentialsRequest_ScramCredentialUpsertion_decode version) (AlterUserScramCredentialsRequest_ScramCredentialUpsertion_encoded_len x version) x"
    unfolding AlterUserScramCredentialsRequest_ScramCredentialUpsertion_encode_def AlterUserScramCredentialsRequest_ScramCredentialUpsertion_encoded_len_def AlterUserScramCredentialsRequest_ScramCredentialUpsertion_decode_def Let_def
    by (use w[unfolded AlterUserScramCredentialsRequest_ScramCredentialUpsertion_wf_def AlterUserScramCredentialsRequest_ScramCredentialUpsertion_fields_wf_def Let_def] in \<open>elim conjE\<close>, rule carries_cong_len)
      ((rule carries_rules | (erule absent_guarded, assumption) | erule absent_plain
        | simp add: v field_ok_def AlterUserScramCredentialsRequest_ScramCredentialUpsertion_default_def )+)
next
  show "yields 1 (AlterUserScramCredentialsRequest_ScramCredentialUpsertion_decode version) (AlterUserScramCredentialsRequest_ScramCredentialUpsertion_wf version)"
    by (rule alter_user_scram_credentials_request_scram_credential_upsertion_yields[OF v])
qed (rule alter_user_scram_credentials_request_scram_credential_upsertion_extends)

lemma alter_user_scram_credentials_request_scram_credential_upsertion_default_wf [simp]: "0 \<le>s version \<Longrightarrow> AlterUserScramCredentialsRequest_ScramCredentialUpsertion_wf version AlterUserScramCredentialsRequest_ScramCredentialUpsertion_default"
  by (simp add: AlterUserScramCredentialsRequest_ScramCredentialUpsertion_wf_def AlterUserScramCredentialsRequest_ScramCredentialUpsertion_default_def trailer_ok_def alter_user_scram_credentials_request_scram_credential_upsertion_fields)

lemmas [carries_rules] = message_codec.message_carries[OF alter_user_scram_credentials_request_scram_credential_upsertion_codec]
lemmas [yields_rules] = message_codec.message_yields[OF alter_user_scram_credentials_request_scram_credential_upsertion_codec]

lemmas [carries_rules] = protocol_codec.put_array_carries[OF message_codec.message_protocol[OF alter_user_scram_credentials_request_scram_credential_upsertion_codec]]
lemmas [yields_rules] = protocol_codec.get_array_yields[OF message_codec.message_protocol[OF alter_user_scram_credentials_request_scram_credential_upsertion_codec]]
lemmas [carries_rules] = protocol_codec.put_nullable_array_carries[OF message_codec.message_protocol[OF alter_user_scram_credentials_request_scram_credential_upsertion_codec]]
lemmas [yields_rules] = protocol_codec.get_nullable_array_yields[OF message_codec.message_protocol[OF alter_user_scram_credentials_request_scram_credential_upsertion_codec]]

record AlterUserScramCredentialsRequest =
  ausc_req_deletions :: "AlterUserScramCredentialsRequest_ScramCredentialDeletion list"
  ausc_req_upsertions :: "AlterUserScramCredentialsRequest_ScramCredentialUpsertion list"
  ausc_req_unknown_tagged_fields :: "UnknownTaggedField list"

definition AlterUserScramCredentialsRequest_default :: AlterUserScramCredentialsRequest where
  "AlterUserScramCredentialsRequest_default =
     \<lparr>ausc_req_deletions = [], ausc_req_upsertions = [], ausc_req_unknown_tagged_fields = []\<rparr>"

definition AlterUserScramCredentialsRequest_MIN_VERSION :: i16 where
  "AlterUserScramCredentialsRequest_MIN_VERSION = 0"

definition AlterUserScramCredentialsRequest_MAX_VERSION :: i16 where
  "AlterUserScramCredentialsRequest_MAX_VERSION = 0"

definition AlterUserScramCredentialsRequest_FLEXIBLE_MIN :: i16 where
  "AlterUserScramCredentialsRequest_FLEXIBLE_MIN = 0"

definition AlterUserScramCredentialsRequest_API_KEY :: i16 where
  "AlterUserScramCredentialsRequest_API_KEY = 51"

definition AlterUserScramCredentialsRequest_is_flexible :: "i16 \<Rightarrow> bool" where
  "AlterUserScramCredentialsRequest_is_flexible version \<longleftrightarrow> AlterUserScramCredentialsRequest_FLEXIBLE_MIN \<le>s version"

definition AlterUserScramCredentialsRequest_encode :: "AlterUserScramCredentialsRequest \<Rightarrow> i16 \<Rightarrow> encoder" where
  "AlterUserScramCredentialsRequest_encode x version =
     (let flex = AlterUserScramCredentialsRequest_is_flexible version in
      write_all
        [write_check (check_version AlterUserScramCredentialsRequest_API_KEY version AlterUserScramCredentialsRequest_MIN_VERSION AlterUserScramCredentialsRequest_MAX_VERSION),
         put_when (0 \<le>s version) (put_array flex (\<lambda>it. AlterUserScramCredentialsRequest_ScramCredentialDeletion_encode it version) (ausc_req_deletions x)),
         put_when (0 \<le>s version) (put_array flex (\<lambda>it. AlterUserScramCredentialsRequest_ScramCredentialUpsertion_encode it version) (ausc_req_upsertions x)),
         put_when flex (put_tagged [] (ausc_req_unknown_tagged_fields x))])"

definition AlterUserScramCredentialsRequest_encoded_len :: "AlterUserScramCredentialsRequest \<Rightarrow> i16 \<Rightarrow> nat" where
  "AlterUserScramCredentialsRequest_encoded_len x version =
     (let flex = AlterUserScramCredentialsRequest_is_flexible version in
      len_when (0 \<le>s version) (array_size flex (\<lambda>it. AlterUserScramCredentialsRequest_ScramCredentialDeletion_encoded_len it version) (ausc_req_deletions x))
      + len_when (0 \<le>s version) (array_size flex (\<lambda>it. AlterUserScramCredentialsRequest_ScramCredentialUpsertion_encoded_len it version) (ausc_req_upsertions x))
      + len_when flex (tagged_size [] (ausc_req_unknown_tagged_fields x)))"

definition AlterUserScramCredentialsRequest_decode :: "i16 \<Rightarrow> AlterUserScramCredentialsRequest decoder" where
  "AlterUserScramCredentialsRequest_decode version =
     (let flex = AlterUserScramCredentialsRequest_is_flexible version in
      checked (check_version AlterUserScramCredentialsRequest_API_KEY version AlterUserScramCredentialsRequest_MIN_VERSION AlterUserScramCredentialsRequest_MAX_VERSION) (
        read_then (get_into (0 \<le>s version) (get_array flex (AlterUserScramCredentialsRequest_ScramCredentialDeletion_decode version)) (\<lambda>v out. out\<lparr>ausc_req_deletions := v\<rparr>) AlterUserScramCredentialsRequest_default) (\<lambda>out.
        read_then (get_into (0 \<le>s version) (get_array flex (AlterUserScramCredentialsRequest_ScramCredentialUpsertion_decode version)) (\<lambda>v out. out\<lparr>ausc_req_upsertions := v\<rparr>) out) (\<lambda>out.
        get_trailer flex [] (\<lambda>u out. out\<lparr>ausc_req_unknown_tagged_fields := u\<rparr>) out))))"

definition AlterUserScramCredentialsRequest_fields_wf :: "i16 \<Rightarrow> AlterUserScramCredentialsRequest \<Rightarrow> bool" where
  "AlterUserScramCredentialsRequest_fields_wf version x \<longleftrightarrow>
     (let flex = AlterUserScramCredentialsRequest_is_flexible version in
      array_ok flex (AlterUserScramCredentialsRequest_ScramCredentialDeletion_wf version) (ausc_req_deletions x)
      \<and> array_ok flex (AlterUserScramCredentialsRequest_ScramCredentialUpsertion_wf version) (ausc_req_upsertions x))"

definition AlterUserScramCredentialsRequest_wf :: "i16 \<Rightarrow> AlterUserScramCredentialsRequest \<Rightarrow> bool" where
  "AlterUserScramCredentialsRequest_wf version x \<longleftrightarrow>
     version_in AlterUserScramCredentialsRequest_MIN_VERSION AlterUserScramCredentialsRequest_MAX_VERSION version \<and> AlterUserScramCredentialsRequest_fields_wf version x \<and> trailer_ok [] [] (ausc_req_unknown_tagged_fields x)"

lemmas alter_user_scram_credentials_request_versions =
    AlterUserScramCredentialsRequest_is_flexible_def AlterUserScramCredentialsRequest_FLEXIBLE_MIN_def
    AlterUserScramCredentialsRequest_MIN_VERSION_def AlterUserScramCredentialsRequest_MAX_VERSION_def
    version_in_def

lemmas alter_user_scram_credentials_request_fields =
    Let_def field_ok_def AlterUserScramCredentialsRequest_fields_wf_def
    AlterUserScramCredentialsRequest_is_flexible_def AlterUserScramCredentialsRequest_FLEXIBLE_MIN_def

lemma alter_user_scram_credentials_request_steps:
  assumes v: "0 \<le>s version" and flex: "flex = (AlterUserScramCredentialsRequest_is_flexible version)"
  shows "keeps (AlterUserScramCredentialsRequest_fields_wf version) (get_into (0 \<le>s version) (get_array flex (AlterUserScramCredentialsRequest_ScramCredentialDeletion_decode version)) (\<lambda>v out. out\<lparr>ausc_req_deletions := v\<rparr>))"
    and "keeps (AlterUserScramCredentialsRequest_fields_wf version) (get_into (0 \<le>s version) (get_array flex (AlterUserScramCredentialsRequest_ScramCredentialUpsertion_decode version)) (\<lambda>v out. out\<lparr>ausc_req_upsertions := v\<rparr>))"
  unfolding flex 
  by (rule keeps_into; (rule yields_rules)?; simp add: v alter_user_scram_credentials_request_fields)+

lemma alter_user_scram_credentials_request_unknown:
  "AlterUserScramCredentialsRequest_fields_wf version (s\<lparr>ausc_req_unknown_tagged_fields := u\<rparr>) = AlterUserScramCredentialsRequest_fields_wf version s"
  by (simp_all add: AlterUserScramCredentialsRequest_fields_wf_def)

lemma alter_user_scram_credentials_request_yields:
  assumes r: "version_in AlterUserScramCredentialsRequest_MIN_VERSION AlterUserScramCredentialsRequest_MAX_VERSION version"
  shows "yields 1 (AlterUserScramCredentialsRequest_decode version) (AlterUserScramCredentialsRequest_wf version)"
proof -
  have v: "0 \<le>s version"
    using r by (simp add: alter_user_scram_credentials_request_versions)
  have d: "AlterUserScramCredentialsRequest_fields_wf version AlterUserScramCredentialsRequest_default"
    by (simp add: AlterUserScramCredentialsRequest_default_def v alter_user_scram_credentials_request_fields)
  show ?thesis
    unfolding AlterUserScramCredentialsRequest_decode_def Let_def
    by (rule yields_checked, (rule alter_user_scram_credentials_request_steps[OF v refl, THEN yields_step], (rule d | assumption))+, rule yields_trailer[OF _ arms_keep_Nil[of "AlterUserScramCredentialsRequest_fields_wf version" "\<lambda>_. 0"]])
      (simp_all add: v d alter_user_scram_credentials_request_unknown AlterUserScramCredentialsRequest_wf_def trailer_ok_def r AlterUserScramCredentialsRequest_is_flexible_def AlterUserScramCredentialsRequest_FLEXIBLE_MIN_def)
qed

interpretation alter_user_scram_credentials_request: message_codec
  AlterUserScramCredentialsRequest_encode AlterUserScramCredentialsRequest_decode AlterUserScramCredentialsRequest_encoded_len "AlterUserScramCredentialsRequest_wf version" version
  for version
proof
  fix x
  assume w: "AlterUserScramCredentialsRequest_wf version x"
  then have v: "0 \<le>s version"
    by (simp add: AlterUserScramCredentialsRequest_wf_def alter_user_scram_credentials_request_versions)
  show "carries (AlterUserScramCredentialsRequest_encode x version) (AlterUserScramCredentialsRequest_decode version) (AlterUserScramCredentialsRequest_encoded_len x version) x"
    unfolding AlterUserScramCredentialsRequest_encode_def AlterUserScramCredentialsRequest_encoded_len_def AlterUserScramCredentialsRequest_decode_def Let_def
    by (use w[unfolded AlterUserScramCredentialsRequest_wf_def AlterUserScramCredentialsRequest_fields_wf_def Let_def] in \<open>elim conjE\<close>, rule carries_cong_len)
      ((rule carries_rules check_version_in[THEN iffD2] | (erule absent_guarded, assumption) | erule absent_plain
        | simp add: v field_ok_def AlterUserScramCredentialsRequest_default_def alter_user_scram_credentials_request_versions)+)
next
  show "yields 1 (AlterUserScramCredentialsRequest_decode version) (AlterUserScramCredentialsRequest_wf version)"
    by (rule case_split[OF alter_user_scram_credentials_request_yields]) (auto simp: AlterUserScramCredentialsRequest_decode_def Let_def yields_refused yields_unsupported)
  show "extends_input (AlterUserScramCredentialsRequest_decode version)"
    unfolding AlterUserScramCredentialsRequest_decode_def Let_def by (intro extends_rules)
qed

section \<open>AlterUserScramCredentialsResponse\<close>

record AlterUserScramCredentialsResponse_AlterUserScramCredentialsResult =
  ausc_resp_auscr_user :: bytes
  ausc_resp_auscr_error_code :: i16
  ausc_resp_auscr_error_message :: "bytes option"
  ausc_resp_auscr_unknown_tagged_fields :: "UnknownTaggedField list"

definition AlterUserScramCredentialsResponse_AlterUserScramCredentialsResult_default :: AlterUserScramCredentialsResponse_AlterUserScramCredentialsResult where
  "AlterUserScramCredentialsResponse_AlterUserScramCredentialsResult_default =
     \<lparr>ausc_resp_auscr_user = [], ausc_resp_auscr_error_code = 0, ausc_resp_auscr_error_message = Some [], ausc_resp_auscr_unknown_tagged_fields = []\<rparr>"

definition AlterUserScramCredentialsResponse_AlterUserScramCredentialsResult_encode :: "AlterUserScramCredentialsResponse_AlterUserScramCredentialsResult \<Rightarrow> i16 \<Rightarrow> encoder" where
  "AlterUserScramCredentialsResponse_AlterUserScramCredentialsResult_encode x version =
     (let flex = 0 \<le>s version in
      write_all
        [put_when (0 \<le>s version) (put_str flex (ausc_resp_auscr_user x)),
         put_when (0 \<le>s version) (put_i16 (ausc_resp_auscr_error_code x)),
         put_when (0 \<le>s version) (put_nullable_str flex (ausc_resp_auscr_error_message x)),
         put_when flex (put_tagged [] (ausc_resp_auscr_unknown_tagged_fields x))])"

definition AlterUserScramCredentialsResponse_AlterUserScramCredentialsResult_encoded_len :: "AlterUserScramCredentialsResponse_AlterUserScramCredentialsResult \<Rightarrow> i16 \<Rightarrow> nat" where
  "AlterUserScramCredentialsResponse_AlterUserScramCredentialsResult_encoded_len x version =
     (let flex = 0 \<le>s version in
      len_when (0 \<le>s version) (str_len flex (ausc_resp_auscr_user x))
      + len_when (0 \<le>s version) 2
      + len_when (0 \<le>s version) (nullable_str_len flex (ausc_resp_auscr_error_message x))
      + len_when flex (tagged_size [] (ausc_resp_auscr_unknown_tagged_fields x)))"

definition AlterUserScramCredentialsResponse_AlterUserScramCredentialsResult_decode :: "i16 \<Rightarrow> AlterUserScramCredentialsResponse_AlterUserScramCredentialsResult decoder" where
  "AlterUserScramCredentialsResponse_AlterUserScramCredentialsResult_decode version =
     (let flex = 0 \<le>s version in
      read_then (get_into (0 \<le>s version) (get_str flex) (\<lambda>v out. out\<lparr>ausc_resp_auscr_user := v\<rparr>) AlterUserScramCredentialsResponse_AlterUserScramCredentialsResult_default) (\<lambda>out.
        read_then (get_into (0 \<le>s version) get_i16 (\<lambda>v out. out\<lparr>ausc_resp_auscr_error_code := v\<rparr>) out) (\<lambda>out.
        read_then (get_into (0 \<le>s version) (get_nullable_str flex) (\<lambda>v out. out\<lparr>ausc_resp_auscr_error_message := v\<rparr>) out) (\<lambda>out.
        get_trailer flex [] (\<lambda>u out. out\<lparr>ausc_resp_auscr_unknown_tagged_fields := u\<rparr>) out))))"

definition AlterUserScramCredentialsResponse_AlterUserScramCredentialsResult_fields_wf :: "i16 \<Rightarrow> AlterUserScramCredentialsResponse_AlterUserScramCredentialsResult \<Rightarrow> bool" where
  "AlterUserScramCredentialsResponse_AlterUserScramCredentialsResult_fields_wf version x \<longleftrightarrow>
     (let flex = 0 \<le>s version in
      str_wf flex (ausc_resp_auscr_user x)
      \<and> nullable_str_wf flex (ausc_resp_auscr_error_message x))"

definition AlterUserScramCredentialsResponse_AlterUserScramCredentialsResult_wf :: "i16 \<Rightarrow> AlterUserScramCredentialsResponse_AlterUserScramCredentialsResult \<Rightarrow> bool" where
  "AlterUserScramCredentialsResponse_AlterUserScramCredentialsResult_wf version x \<longleftrightarrow>
     AlterUserScramCredentialsResponse_AlterUserScramCredentialsResult_fields_wf version x \<and> trailer_ok [] [] (ausc_resp_auscr_unknown_tagged_fields x)"

lemmas alter_user_scram_credentials_response_alter_user_scram_credentials_result_fields =
    Let_def field_ok_def AlterUserScramCredentialsResponse_AlterUserScramCredentialsResult_fields_wf_def

lemma alter_user_scram_credentials_response_alter_user_scram_credentials_result_steps:
  assumes v: "0 \<le>s version" and flex: "flex = (0 \<le>s version)"
  shows "keeps (AlterUserScramCredentialsResponse_AlterUserScramCredentialsResult_fields_wf version) (get_into (0 \<le>s version) (get_str flex) (\<lambda>v out. out\<lparr>ausc_resp_auscr_user := v\<rparr>))"
    and "keeps (AlterUserScramCredentialsResponse_AlterUserScramCredentialsResult_fields_wf version) (get_into (0 \<le>s version) get_i16 (\<lambda>v out. out\<lparr>ausc_resp_auscr_error_code := v\<rparr>))"
    and "keeps (AlterUserScramCredentialsResponse_AlterUserScramCredentialsResult_fields_wf version) (get_into (0 \<le>s version) (get_nullable_str flex) (\<lambda>v out. out\<lparr>ausc_resp_auscr_error_message := v\<rparr>))"
  unfolding flex 
  by (rule keeps_into; (rule yields_rules)?; simp add: v alter_user_scram_credentials_response_alter_user_scram_credentials_result_fields)+

lemma alter_user_scram_credentials_response_alter_user_scram_credentials_result_unknown:
  "AlterUserScramCredentialsResponse_AlterUserScramCredentialsResult_fields_wf version (s\<lparr>ausc_resp_auscr_unknown_tagged_fields := u\<rparr>) = AlterUserScramCredentialsResponse_AlterUserScramCredentialsResult_fields_wf version s"
  by (simp_all add: AlterUserScramCredentialsResponse_AlterUserScramCredentialsResult_fields_wf_def)

lemma alter_user_scram_credentials_response_alter_user_scram_credentials_result_yields:
  assumes v: "0 \<le>s version"
  shows "yields 1 (AlterUserScramCredentialsResponse_AlterUserScramCredentialsResult_decode version) (AlterUserScramCredentialsResponse_AlterUserScramCredentialsResult_wf version)"
proof -
  have d: "AlterUserScramCredentialsResponse_AlterUserScramCredentialsResult_fields_wf version AlterUserScramCredentialsResponse_AlterUserScramCredentialsResult_default"
    by (simp add: AlterUserScramCredentialsResponse_AlterUserScramCredentialsResult_default_def v alter_user_scram_credentials_response_alter_user_scram_credentials_result_fields)
  show ?thesis
    unfolding AlterUserScramCredentialsResponse_AlterUserScramCredentialsResult_decode_def Let_def
    by ((rule alter_user_scram_credentials_response_alter_user_scram_credentials_result_steps[OF v refl, THEN yields_step], (rule d | assumption))+, rule yields_trailer[OF _ arms_keep_Nil[of "AlterUserScramCredentialsResponse_AlterUserScramCredentialsResult_fields_wf version" "\<lambda>_. 0"]])
      (simp_all add: v d alter_user_scram_credentials_response_alter_user_scram_credentials_result_unknown AlterUserScramCredentialsResponse_AlterUserScramCredentialsResult_wf_def trailer_ok_def )
qed

lemma alter_user_scram_credentials_response_alter_user_scram_credentials_result_extends [extends_rules]: "extends_input (AlterUserScramCredentialsResponse_AlterUserScramCredentialsResult_decode version)"
  unfolding AlterUserScramCredentialsResponse_AlterUserScramCredentialsResult_decode_def Let_def by (intro extends_rules)

lemma alter_user_scram_credentials_response_alter_user_scram_credentials_result_codec:
  assumes v: "0 \<le>s version"
  shows "message_codec AlterUserScramCredentialsResponse_AlterUserScramCredentialsResult_encode AlterUserScramCredentialsResponse_AlterUserScramCredentialsResult_decode AlterUserScramCredentialsResponse_AlterUserScramCredentialsResult_encoded_len (AlterUserScramCredentialsResponse_AlterUserScramCredentialsResult_wf version) version"
proof
  fix x
  assume w: "AlterUserScramCredentialsResponse_AlterUserScramCredentialsResult_wf version x"
  show "carries (AlterUserScramCredentialsResponse_AlterUserScramCredentialsResult_encode x version) (AlterUserScramCredentialsResponse_AlterUserScramCredentialsResult_decode version) (AlterUserScramCredentialsResponse_AlterUserScramCredentialsResult_encoded_len x version) x"
    unfolding AlterUserScramCredentialsResponse_AlterUserScramCredentialsResult_encode_def AlterUserScramCredentialsResponse_AlterUserScramCredentialsResult_encoded_len_def AlterUserScramCredentialsResponse_AlterUserScramCredentialsResult_decode_def Let_def
    by (use w[unfolded AlterUserScramCredentialsResponse_AlterUserScramCredentialsResult_wf_def AlterUserScramCredentialsResponse_AlterUserScramCredentialsResult_fields_wf_def Let_def] in \<open>elim conjE\<close>, rule carries_cong_len)
      ((rule carries_rules | (erule absent_guarded, assumption) | erule absent_plain
        | simp add: v field_ok_def AlterUserScramCredentialsResponse_AlterUserScramCredentialsResult_default_def )+)
next
  show "yields 1 (AlterUserScramCredentialsResponse_AlterUserScramCredentialsResult_decode version) (AlterUserScramCredentialsResponse_AlterUserScramCredentialsResult_wf version)"
    by (rule alter_user_scram_credentials_response_alter_user_scram_credentials_result_yields[OF v])
qed (rule alter_user_scram_credentials_response_alter_user_scram_credentials_result_extends)

lemma alter_user_scram_credentials_response_alter_user_scram_credentials_result_default_wf [simp]: "0 \<le>s version \<Longrightarrow> AlterUserScramCredentialsResponse_AlterUserScramCredentialsResult_wf version AlterUserScramCredentialsResponse_AlterUserScramCredentialsResult_default"
  by (simp add: AlterUserScramCredentialsResponse_AlterUserScramCredentialsResult_wf_def AlterUserScramCredentialsResponse_AlterUserScramCredentialsResult_default_def trailer_ok_def alter_user_scram_credentials_response_alter_user_scram_credentials_result_fields)

lemmas [carries_rules] = message_codec.message_carries[OF alter_user_scram_credentials_response_alter_user_scram_credentials_result_codec]
lemmas [yields_rules] = message_codec.message_yields[OF alter_user_scram_credentials_response_alter_user_scram_credentials_result_codec]

lemmas [carries_rules] = protocol_codec.put_array_carries[OF message_codec.message_protocol[OF alter_user_scram_credentials_response_alter_user_scram_credentials_result_codec]]
lemmas [yields_rules] = protocol_codec.get_array_yields[OF message_codec.message_protocol[OF alter_user_scram_credentials_response_alter_user_scram_credentials_result_codec]]
lemmas [carries_rules] = protocol_codec.put_nullable_array_carries[OF message_codec.message_protocol[OF alter_user_scram_credentials_response_alter_user_scram_credentials_result_codec]]
lemmas [yields_rules] = protocol_codec.get_nullable_array_yields[OF message_codec.message_protocol[OF alter_user_scram_credentials_response_alter_user_scram_credentials_result_codec]]

record AlterUserScramCredentialsResponse =
  ausc_resp_throttle_time_ms :: i32
  ausc_resp_results :: "AlterUserScramCredentialsResponse_AlterUserScramCredentialsResult list"
  ausc_resp_unknown_tagged_fields :: "UnknownTaggedField list"

definition AlterUserScramCredentialsResponse_default :: AlterUserScramCredentialsResponse where
  "AlterUserScramCredentialsResponse_default =
     \<lparr>ausc_resp_throttle_time_ms = 0, ausc_resp_results = [], ausc_resp_unknown_tagged_fields = []\<rparr>"

definition AlterUserScramCredentialsResponse_MIN_VERSION :: i16 where
  "AlterUserScramCredentialsResponse_MIN_VERSION = 0"

definition AlterUserScramCredentialsResponse_MAX_VERSION :: i16 where
  "AlterUserScramCredentialsResponse_MAX_VERSION = 0"

definition AlterUserScramCredentialsResponse_FLEXIBLE_MIN :: i16 where
  "AlterUserScramCredentialsResponse_FLEXIBLE_MIN = 0"

definition AlterUserScramCredentialsResponse_API_KEY :: i16 where
  "AlterUserScramCredentialsResponse_API_KEY = 51"

definition AlterUserScramCredentialsResponse_is_flexible :: "i16 \<Rightarrow> bool" where
  "AlterUserScramCredentialsResponse_is_flexible version \<longleftrightarrow> AlterUserScramCredentialsResponse_FLEXIBLE_MIN \<le>s version"

definition AlterUserScramCredentialsResponse_encode :: "AlterUserScramCredentialsResponse \<Rightarrow> i16 \<Rightarrow> encoder" where
  "AlterUserScramCredentialsResponse_encode x version =
     (let flex = AlterUserScramCredentialsResponse_is_flexible version in
      write_all
        [write_check (check_version AlterUserScramCredentialsResponse_API_KEY version AlterUserScramCredentialsResponse_MIN_VERSION AlterUserScramCredentialsResponse_MAX_VERSION),
         put_when (0 \<le>s version) (put_i32 (ausc_resp_throttle_time_ms x)),
         put_when (0 \<le>s version) (put_array flex (\<lambda>it. AlterUserScramCredentialsResponse_AlterUserScramCredentialsResult_encode it version) (ausc_resp_results x)),
         put_when flex (put_tagged [] (ausc_resp_unknown_tagged_fields x))])"

definition AlterUserScramCredentialsResponse_encoded_len :: "AlterUserScramCredentialsResponse \<Rightarrow> i16 \<Rightarrow> nat" where
  "AlterUserScramCredentialsResponse_encoded_len x version =
     (let flex = AlterUserScramCredentialsResponse_is_flexible version in
      len_when (0 \<le>s version) 4
      + len_when (0 \<le>s version) (array_size flex (\<lambda>it. AlterUserScramCredentialsResponse_AlterUserScramCredentialsResult_encoded_len it version) (ausc_resp_results x))
      + len_when flex (tagged_size [] (ausc_resp_unknown_tagged_fields x)))"

definition AlterUserScramCredentialsResponse_decode :: "i16 \<Rightarrow> AlterUserScramCredentialsResponse decoder" where
  "AlterUserScramCredentialsResponse_decode version =
     (let flex = AlterUserScramCredentialsResponse_is_flexible version in
      checked (check_version AlterUserScramCredentialsResponse_API_KEY version AlterUserScramCredentialsResponse_MIN_VERSION AlterUserScramCredentialsResponse_MAX_VERSION) (
        read_then (get_into (0 \<le>s version) get_i32 (\<lambda>v out. out\<lparr>ausc_resp_throttle_time_ms := v\<rparr>) AlterUserScramCredentialsResponse_default) (\<lambda>out.
        read_then (get_into (0 \<le>s version) (get_array flex (AlterUserScramCredentialsResponse_AlterUserScramCredentialsResult_decode version)) (\<lambda>v out. out\<lparr>ausc_resp_results := v\<rparr>) out) (\<lambda>out.
        get_trailer flex [] (\<lambda>u out. out\<lparr>ausc_resp_unknown_tagged_fields := u\<rparr>) out))))"

definition AlterUserScramCredentialsResponse_fields_wf :: "i16 \<Rightarrow> AlterUserScramCredentialsResponse \<Rightarrow> bool" where
  "AlterUserScramCredentialsResponse_fields_wf version x \<longleftrightarrow>
     (let flex = AlterUserScramCredentialsResponse_is_flexible version in
      array_ok flex (AlterUserScramCredentialsResponse_AlterUserScramCredentialsResult_wf version) (ausc_resp_results x))"

definition AlterUserScramCredentialsResponse_wf :: "i16 \<Rightarrow> AlterUserScramCredentialsResponse \<Rightarrow> bool" where
  "AlterUserScramCredentialsResponse_wf version x \<longleftrightarrow>
     version_in AlterUserScramCredentialsResponse_MIN_VERSION AlterUserScramCredentialsResponse_MAX_VERSION version \<and> AlterUserScramCredentialsResponse_fields_wf version x \<and> trailer_ok [] [] (ausc_resp_unknown_tagged_fields x)"

lemmas alter_user_scram_credentials_response_versions =
    AlterUserScramCredentialsResponse_is_flexible_def AlterUserScramCredentialsResponse_FLEXIBLE_MIN_def
    AlterUserScramCredentialsResponse_MIN_VERSION_def AlterUserScramCredentialsResponse_MAX_VERSION_def
    version_in_def

lemmas alter_user_scram_credentials_response_fields =
    Let_def field_ok_def AlterUserScramCredentialsResponse_fields_wf_def
    AlterUserScramCredentialsResponse_is_flexible_def AlterUserScramCredentialsResponse_FLEXIBLE_MIN_def

lemma alter_user_scram_credentials_response_steps:
  assumes v: "0 \<le>s version" and flex: "flex = (AlterUserScramCredentialsResponse_is_flexible version)"
  shows "keeps (AlterUserScramCredentialsResponse_fields_wf version) (get_into (0 \<le>s version) get_i32 (\<lambda>v out. out\<lparr>ausc_resp_throttle_time_ms := v\<rparr>))"
    and "keeps (AlterUserScramCredentialsResponse_fields_wf version) (get_into (0 \<le>s version) (get_array flex (AlterUserScramCredentialsResponse_AlterUserScramCredentialsResult_decode version)) (\<lambda>v out. out\<lparr>ausc_resp_results := v\<rparr>))"
  unfolding flex 
  by (rule keeps_into; (rule yields_rules)?; simp add: v alter_user_scram_credentials_response_fields)+

lemma alter_user_scram_credentials_response_unknown:
  "AlterUserScramCredentialsResponse_fields_wf version (s\<lparr>ausc_resp_unknown_tagged_fields := u\<rparr>) = AlterUserScramCredentialsResponse_fields_wf version s"
  by (simp_all add: AlterUserScramCredentialsResponse_fields_wf_def)

lemma alter_user_scram_credentials_response_yields:
  assumes r: "version_in AlterUserScramCredentialsResponse_MIN_VERSION AlterUserScramCredentialsResponse_MAX_VERSION version"
  shows "yields 1 (AlterUserScramCredentialsResponse_decode version) (AlterUserScramCredentialsResponse_wf version)"
proof -
  have v: "0 \<le>s version"
    using r by (simp add: alter_user_scram_credentials_response_versions)
  have d: "AlterUserScramCredentialsResponse_fields_wf version AlterUserScramCredentialsResponse_default"
    by (simp add: AlterUserScramCredentialsResponse_default_def v alter_user_scram_credentials_response_fields)
  show ?thesis
    unfolding AlterUserScramCredentialsResponse_decode_def Let_def
    by (rule yields_checked, (rule alter_user_scram_credentials_response_steps[OF v refl, THEN yields_step], (rule d | assumption))+, rule yields_trailer[OF _ arms_keep_Nil[of "AlterUserScramCredentialsResponse_fields_wf version" "\<lambda>_. 0"]])
      (simp_all add: v d alter_user_scram_credentials_response_unknown AlterUserScramCredentialsResponse_wf_def trailer_ok_def r AlterUserScramCredentialsResponse_is_flexible_def AlterUserScramCredentialsResponse_FLEXIBLE_MIN_def)
qed

interpretation alter_user_scram_credentials_response: message_codec
  AlterUserScramCredentialsResponse_encode AlterUserScramCredentialsResponse_decode AlterUserScramCredentialsResponse_encoded_len "AlterUserScramCredentialsResponse_wf version" version
  for version
proof
  fix x
  assume w: "AlterUserScramCredentialsResponse_wf version x"
  then have v: "0 \<le>s version"
    by (simp add: AlterUserScramCredentialsResponse_wf_def alter_user_scram_credentials_response_versions)
  show "carries (AlterUserScramCredentialsResponse_encode x version) (AlterUserScramCredentialsResponse_decode version) (AlterUserScramCredentialsResponse_encoded_len x version) x"
    unfolding AlterUserScramCredentialsResponse_encode_def AlterUserScramCredentialsResponse_encoded_len_def AlterUserScramCredentialsResponse_decode_def Let_def
    by (use w[unfolded AlterUserScramCredentialsResponse_wf_def AlterUserScramCredentialsResponse_fields_wf_def Let_def] in \<open>elim conjE\<close>, rule carries_cong_len)
      ((rule carries_rules check_version_in[THEN iffD2] | (erule absent_guarded, assumption) | erule absent_plain
        | simp add: v field_ok_def AlterUserScramCredentialsResponse_default_def alter_user_scram_credentials_response_versions)+)
next
  show "yields 1 (AlterUserScramCredentialsResponse_decode version) (AlterUserScramCredentialsResponse_wf version)"
    by (rule case_split[OF alter_user_scram_credentials_response_yields]) (auto simp: AlterUserScramCredentialsResponse_decode_def Let_def yields_refused yields_unsupported)
  show "extends_input (AlterUserScramCredentialsResponse_decode version)"
    unfolding AlterUserScramCredentialsResponse_decode_def Let_def by (intro extends_rules)
qed

section \<open>ConsumerGroupDescribeRequest\<close>

record ConsumerGroupDescribeRequest =
  cgd_req_group_ids :: "bytes list"
  cgd_req_include_authorized_operations :: bool
  cgd_req_unknown_tagged_fields :: "UnknownTaggedField list"

definition ConsumerGroupDescribeRequest_default :: ConsumerGroupDescribeRequest where
  "ConsumerGroupDescribeRequest_default =
     \<lparr>cgd_req_group_ids = [], cgd_req_include_authorized_operations = False, cgd_req_unknown_tagged_fields = []\<rparr>"

definition ConsumerGroupDescribeRequest_MIN_VERSION :: i16 where
  "ConsumerGroupDescribeRequest_MIN_VERSION = 0"

definition ConsumerGroupDescribeRequest_MAX_VERSION :: i16 where
  "ConsumerGroupDescribeRequest_MAX_VERSION = 1"

definition ConsumerGroupDescribeRequest_FLEXIBLE_MIN :: i16 where
  "ConsumerGroupDescribeRequest_FLEXIBLE_MIN = 0"

definition ConsumerGroupDescribeRequest_API_KEY :: i16 where
  "ConsumerGroupDescribeRequest_API_KEY = 69"

definition ConsumerGroupDescribeRequest_is_flexible :: "i16 \<Rightarrow> bool" where
  "ConsumerGroupDescribeRequest_is_flexible version \<longleftrightarrow> ConsumerGroupDescribeRequest_FLEXIBLE_MIN \<le>s version"

definition ConsumerGroupDescribeRequest_encode :: "ConsumerGroupDescribeRequest \<Rightarrow> i16 \<Rightarrow> encoder" where
  "ConsumerGroupDescribeRequest_encode x version =
     (let flex = ConsumerGroupDescribeRequest_is_flexible version in
      write_all
        [write_check (check_version ConsumerGroupDescribeRequest_API_KEY version ConsumerGroupDescribeRequest_MIN_VERSION ConsumerGroupDescribeRequest_MAX_VERSION),
         put_when (0 \<le>s version) (put_array flex (put_str flex) (cgd_req_group_ids x)),
         put_when (0 \<le>s version) (put_bool (cgd_req_include_authorized_operations x)),
         put_when flex (put_tagged [] (cgd_req_unknown_tagged_fields x))])"

definition ConsumerGroupDescribeRequest_encoded_len :: "ConsumerGroupDescribeRequest \<Rightarrow> i16 \<Rightarrow> nat" where
  "ConsumerGroupDescribeRequest_encoded_len x version =
     (let flex = ConsumerGroupDescribeRequest_is_flexible version in
      len_when (0 \<le>s version) (array_size flex (str_len flex) (cgd_req_group_ids x))
      + len_when (0 \<le>s version) 1
      + len_when flex (tagged_size [] (cgd_req_unknown_tagged_fields x)))"

definition ConsumerGroupDescribeRequest_decode :: "i16 \<Rightarrow> ConsumerGroupDescribeRequest decoder" where
  "ConsumerGroupDescribeRequest_decode version =
     (let flex = ConsumerGroupDescribeRequest_is_flexible version in
      checked (check_version ConsumerGroupDescribeRequest_API_KEY version ConsumerGroupDescribeRequest_MIN_VERSION ConsumerGroupDescribeRequest_MAX_VERSION) (
        read_then (get_into (0 \<le>s version) (get_array flex (get_str flex)) (\<lambda>v out. out\<lparr>cgd_req_group_ids := v\<rparr>) ConsumerGroupDescribeRequest_default) (\<lambda>out.
        read_then (get_into (0 \<le>s version) get_bool (\<lambda>v out. out\<lparr>cgd_req_include_authorized_operations := v\<rparr>) out) (\<lambda>out.
        get_trailer flex [] (\<lambda>u out. out\<lparr>cgd_req_unknown_tagged_fields := u\<rparr>) out))))"

definition ConsumerGroupDescribeRequest_fields_wf :: "i16 \<Rightarrow> ConsumerGroupDescribeRequest \<Rightarrow> bool" where
  "ConsumerGroupDescribeRequest_fields_wf version x \<longleftrightarrow>
     (let flex = ConsumerGroupDescribeRequest_is_flexible version in
      array_ok flex (str_wf flex) (cgd_req_group_ids x))"

definition ConsumerGroupDescribeRequest_wf :: "i16 \<Rightarrow> ConsumerGroupDescribeRequest \<Rightarrow> bool" where
  "ConsumerGroupDescribeRequest_wf version x \<longleftrightarrow>
     version_in ConsumerGroupDescribeRequest_MIN_VERSION ConsumerGroupDescribeRequest_MAX_VERSION version \<and> ConsumerGroupDescribeRequest_fields_wf version x \<and> trailer_ok [] [] (cgd_req_unknown_tagged_fields x)"

lemmas consumer_group_describe_request_versions =
    ConsumerGroupDescribeRequest_is_flexible_def ConsumerGroupDescribeRequest_FLEXIBLE_MIN_def
    ConsumerGroupDescribeRequest_MIN_VERSION_def ConsumerGroupDescribeRequest_MAX_VERSION_def version_in_def

lemmas consumer_group_describe_request_fields =
    Let_def field_ok_def ConsumerGroupDescribeRequest_fields_wf_def ConsumerGroupDescribeRequest_is_flexible_def
    ConsumerGroupDescribeRequest_FLEXIBLE_MIN_def

lemma consumer_group_describe_request_steps:
  assumes v: "0 \<le>s version" and flex: "flex = (ConsumerGroupDescribeRequest_is_flexible version)"
  shows "keeps (ConsumerGroupDescribeRequest_fields_wf version) (get_into (0 \<le>s version) (get_array flex (get_str flex)) (\<lambda>v out. out\<lparr>cgd_req_group_ids := v\<rparr>))"
    and "keeps (ConsumerGroupDescribeRequest_fields_wf version) (get_into (0 \<le>s version) get_bool (\<lambda>v out. out\<lparr>cgd_req_include_authorized_operations := v\<rparr>))"
  unfolding flex 
  by (rule keeps_into; (rule yields_rules)?; simp add: v consumer_group_describe_request_fields)+

lemma consumer_group_describe_request_unknown:
  "ConsumerGroupDescribeRequest_fields_wf version (s\<lparr>cgd_req_unknown_tagged_fields := u\<rparr>) = ConsumerGroupDescribeRequest_fields_wf version s"
  by (simp_all add: ConsumerGroupDescribeRequest_fields_wf_def)

lemma consumer_group_describe_request_yields:
  assumes r: "version_in ConsumerGroupDescribeRequest_MIN_VERSION ConsumerGroupDescribeRequest_MAX_VERSION version"
  shows "yields 1 (ConsumerGroupDescribeRequest_decode version) (ConsumerGroupDescribeRequest_wf version)"
proof -
  have v: "0 \<le>s version"
    using r by (simp add: consumer_group_describe_request_versions)
  have d: "ConsumerGroupDescribeRequest_fields_wf version ConsumerGroupDescribeRequest_default"
    by (simp add: ConsumerGroupDescribeRequest_default_def v consumer_group_describe_request_fields)
  show ?thesis
    unfolding ConsumerGroupDescribeRequest_decode_def Let_def
    by (rule yields_checked, (rule consumer_group_describe_request_steps[OF v refl, THEN yields_step], (rule d | assumption))+, rule yields_trailer[OF _ arms_keep_Nil[of "ConsumerGroupDescribeRequest_fields_wf version" "\<lambda>_. 0"]])
      (simp_all add: v d consumer_group_describe_request_unknown ConsumerGroupDescribeRequest_wf_def trailer_ok_def r ConsumerGroupDescribeRequest_is_flexible_def ConsumerGroupDescribeRequest_FLEXIBLE_MIN_def)
qed

interpretation consumer_group_describe_request: message_codec
  ConsumerGroupDescribeRequest_encode ConsumerGroupDescribeRequest_decode ConsumerGroupDescribeRequest_encoded_len "ConsumerGroupDescribeRequest_wf version" version
  for version
proof
  fix x
  assume w: "ConsumerGroupDescribeRequest_wf version x"
  then have v: "0 \<le>s version"
    by (simp add: ConsumerGroupDescribeRequest_wf_def consumer_group_describe_request_versions)
  show "carries (ConsumerGroupDescribeRequest_encode x version) (ConsumerGroupDescribeRequest_decode version) (ConsumerGroupDescribeRequest_encoded_len x version) x"
    unfolding ConsumerGroupDescribeRequest_encode_def ConsumerGroupDescribeRequest_encoded_len_def ConsumerGroupDescribeRequest_decode_def Let_def
    by (use w[unfolded ConsumerGroupDescribeRequest_wf_def ConsumerGroupDescribeRequest_fields_wf_def Let_def] in \<open>elim conjE\<close>, rule carries_cong_len)
      ((rule carries_rules check_version_in[THEN iffD2] | (erule absent_guarded, assumption) | erule absent_plain
        | simp add: v field_ok_def ConsumerGroupDescribeRequest_default_def consumer_group_describe_request_versions)+)
next
  show "yields 1 (ConsumerGroupDescribeRequest_decode version) (ConsumerGroupDescribeRequest_wf version)"
    by (rule case_split[OF consumer_group_describe_request_yields]) (auto simp: ConsumerGroupDescribeRequest_decode_def Let_def yields_refused yields_unsupported)
  show "extends_input (ConsumerGroupDescribeRequest_decode version)"
    unfolding ConsumerGroupDescribeRequest_decode_def Let_def by (intro extends_rules)
qed

section \<open>ConsumerGroupHeartbeatRequest\<close>

record ConsumerGroupHeartbeatRequest_TopicPartitions =
  cgh_req_tp_topic_id :: Uuid
  cgh_req_tp_partitions :: "i32 list"
  cgh_req_tp_unknown_tagged_fields :: "UnknownTaggedField list"

definition ConsumerGroupHeartbeatRequest_TopicPartitions_default :: ConsumerGroupHeartbeatRequest_TopicPartitions where
  "ConsumerGroupHeartbeatRequest_TopicPartitions_default =
     \<lparr>cgh_req_tp_topic_id = Uuid_ZERO, cgh_req_tp_partitions = [], cgh_req_tp_unknown_tagged_fields = []\<rparr>"

definition ConsumerGroupHeartbeatRequest_TopicPartitions_encode :: "ConsumerGroupHeartbeatRequest_TopicPartitions \<Rightarrow> i16 \<Rightarrow> encoder" where
  "ConsumerGroupHeartbeatRequest_TopicPartitions_encode x version =
     (let flex = 0 \<le>s version in
      write_all
        [put_when (0 \<le>s version) (put_uuid (cgh_req_tp_topic_id x)),
         put_when (0 \<le>s version) (put_array flex put_i32 (cgh_req_tp_partitions x)),
         put_when flex (put_tagged [] (cgh_req_tp_unknown_tagged_fields x))])"

definition ConsumerGroupHeartbeatRequest_TopicPartitions_encoded_len :: "ConsumerGroupHeartbeatRequest_TopicPartitions \<Rightarrow> i16 \<Rightarrow> nat" where
  "ConsumerGroupHeartbeatRequest_TopicPartitions_encoded_len x version =
     (let flex = 0 \<le>s version in
      len_when (0 \<le>s version) 16
      + len_when (0 \<le>s version) (array_size flex (\<lambda>_. 4) (cgh_req_tp_partitions x))
      + len_when flex (tagged_size [] (cgh_req_tp_unknown_tagged_fields x)))"

definition ConsumerGroupHeartbeatRequest_TopicPartitions_decode :: "i16 \<Rightarrow> ConsumerGroupHeartbeatRequest_TopicPartitions decoder" where
  "ConsumerGroupHeartbeatRequest_TopicPartitions_decode version =
     (let flex = 0 \<le>s version in
      read_then (get_into (0 \<le>s version) get_uuid (\<lambda>v out. out\<lparr>cgh_req_tp_topic_id := v\<rparr>) ConsumerGroupHeartbeatRequest_TopicPartitions_default) (\<lambda>out.
        read_then (get_into (0 \<le>s version) (get_array flex get_i32) (\<lambda>v out. out\<lparr>cgh_req_tp_partitions := v\<rparr>) out) (\<lambda>out.
        get_trailer flex [] (\<lambda>u out. out\<lparr>cgh_req_tp_unknown_tagged_fields := u\<rparr>) out)))"

definition ConsumerGroupHeartbeatRequest_TopicPartitions_fields_wf :: "i16 \<Rightarrow> ConsumerGroupHeartbeatRequest_TopicPartitions \<Rightarrow> bool" where
  "ConsumerGroupHeartbeatRequest_TopicPartitions_fields_wf version x \<longleftrightarrow>
     (let flex = 0 \<le>s version in
      uuid_wf (cgh_req_tp_topic_id x)
      \<and> array_ok flex (\<lambda>_. True) (cgh_req_tp_partitions x))"

definition ConsumerGroupHeartbeatRequest_TopicPartitions_wf :: "i16 \<Rightarrow> ConsumerGroupHeartbeatRequest_TopicPartitions \<Rightarrow> bool" where
  "ConsumerGroupHeartbeatRequest_TopicPartitions_wf version x \<longleftrightarrow>
     ConsumerGroupHeartbeatRequest_TopicPartitions_fields_wf version x \<and> trailer_ok [] [] (cgh_req_tp_unknown_tagged_fields x)"

lemmas consumer_group_heartbeat_request_topic_partitions_fields =
    Let_def field_ok_def ConsumerGroupHeartbeatRequest_TopicPartitions_fields_wf_def

lemma consumer_group_heartbeat_request_topic_partitions_steps:
  assumes v: "0 \<le>s version" and flex: "flex = (0 \<le>s version)"
  shows "keeps (ConsumerGroupHeartbeatRequest_TopicPartitions_fields_wf version) (get_into (0 \<le>s version) get_uuid (\<lambda>v out. out\<lparr>cgh_req_tp_topic_id := v\<rparr>))"
    and "keeps (ConsumerGroupHeartbeatRequest_TopicPartitions_fields_wf version) (get_into (0 \<le>s version) (get_array flex get_i32) (\<lambda>v out. out\<lparr>cgh_req_tp_partitions := v\<rparr>))"
  unfolding flex 
  by (rule keeps_into; (rule yields_rules)?; simp add: v consumer_group_heartbeat_request_topic_partitions_fields)+

lemma consumer_group_heartbeat_request_topic_partitions_unknown:
  "ConsumerGroupHeartbeatRequest_TopicPartitions_fields_wf version (s\<lparr>cgh_req_tp_unknown_tagged_fields := u\<rparr>) = ConsumerGroupHeartbeatRequest_TopicPartitions_fields_wf version s"
  by (simp_all add: ConsumerGroupHeartbeatRequest_TopicPartitions_fields_wf_def)

lemma consumer_group_heartbeat_request_topic_partitions_yields:
  assumes v: "0 \<le>s version"
  shows "yields 1 (ConsumerGroupHeartbeatRequest_TopicPartitions_decode version) (ConsumerGroupHeartbeatRequest_TopicPartitions_wf version)"
proof -
  have d: "ConsumerGroupHeartbeatRequest_TopicPartitions_fields_wf version ConsumerGroupHeartbeatRequest_TopicPartitions_default"
    by (simp add: ConsumerGroupHeartbeatRequest_TopicPartitions_default_def v consumer_group_heartbeat_request_topic_partitions_fields)
  show ?thesis
    unfolding ConsumerGroupHeartbeatRequest_TopicPartitions_decode_def Let_def
    by ((rule consumer_group_heartbeat_request_topic_partitions_steps[OF v refl, THEN yields_step], (rule d | assumption))+, rule yields_trailer[OF _ arms_keep_Nil[of "ConsumerGroupHeartbeatRequest_TopicPartitions_fields_wf version" "\<lambda>_. 0"]])
      (simp_all add: v d consumer_group_heartbeat_request_topic_partitions_unknown ConsumerGroupHeartbeatRequest_TopicPartitions_wf_def trailer_ok_def )
qed

lemma consumer_group_heartbeat_request_topic_partitions_extends [extends_rules]: "extends_input (ConsumerGroupHeartbeatRequest_TopicPartitions_decode version)"
  unfolding ConsumerGroupHeartbeatRequest_TopicPartitions_decode_def Let_def by (intro extends_rules)

lemma consumer_group_heartbeat_request_topic_partitions_codec:
  assumes v: "0 \<le>s version"
  shows "message_codec ConsumerGroupHeartbeatRequest_TopicPartitions_encode ConsumerGroupHeartbeatRequest_TopicPartitions_decode ConsumerGroupHeartbeatRequest_TopicPartitions_encoded_len (ConsumerGroupHeartbeatRequest_TopicPartitions_wf version) version"
proof
  fix x
  assume w: "ConsumerGroupHeartbeatRequest_TopicPartitions_wf version x"
  show "carries (ConsumerGroupHeartbeatRequest_TopicPartitions_encode x version) (ConsumerGroupHeartbeatRequest_TopicPartitions_decode version) (ConsumerGroupHeartbeatRequest_TopicPartitions_encoded_len x version) x"
    unfolding ConsumerGroupHeartbeatRequest_TopicPartitions_encode_def ConsumerGroupHeartbeatRequest_TopicPartitions_encoded_len_def ConsumerGroupHeartbeatRequest_TopicPartitions_decode_def Let_def
    by (use w[unfolded ConsumerGroupHeartbeatRequest_TopicPartitions_wf_def ConsumerGroupHeartbeatRequest_TopicPartitions_fields_wf_def Let_def] in \<open>elim conjE\<close>, rule carries_cong_len)
      ((rule carries_rules | (erule absent_guarded, assumption) | erule absent_plain
        | simp add: v field_ok_def ConsumerGroupHeartbeatRequest_TopicPartitions_default_def )+)
next
  show "yields 1 (ConsumerGroupHeartbeatRequest_TopicPartitions_decode version) (ConsumerGroupHeartbeatRequest_TopicPartitions_wf version)"
    by (rule consumer_group_heartbeat_request_topic_partitions_yields[OF v])
qed (rule consumer_group_heartbeat_request_topic_partitions_extends)

lemma consumer_group_heartbeat_request_topic_partitions_default_wf [simp]: "0 \<le>s version \<Longrightarrow> ConsumerGroupHeartbeatRequest_TopicPartitions_wf version ConsumerGroupHeartbeatRequest_TopicPartitions_default"
  by (simp add: ConsumerGroupHeartbeatRequest_TopicPartitions_wf_def ConsumerGroupHeartbeatRequest_TopicPartitions_default_def trailer_ok_def consumer_group_heartbeat_request_topic_partitions_fields)

lemmas [carries_rules] = message_codec.message_carries[OF consumer_group_heartbeat_request_topic_partitions_codec]
lemmas [yields_rules] = message_codec.message_yields[OF consumer_group_heartbeat_request_topic_partitions_codec]

lemmas [carries_rules] = protocol_codec.put_array_carries[OF message_codec.message_protocol[OF consumer_group_heartbeat_request_topic_partitions_codec]]
lemmas [yields_rules] = protocol_codec.get_array_yields[OF message_codec.message_protocol[OF consumer_group_heartbeat_request_topic_partitions_codec]]
lemmas [carries_rules] = protocol_codec.put_nullable_array_carries[OF message_codec.message_protocol[OF consumer_group_heartbeat_request_topic_partitions_codec]]
lemmas [yields_rules] = protocol_codec.get_nullable_array_yields[OF message_codec.message_protocol[OF consumer_group_heartbeat_request_topic_partitions_codec]]

record ConsumerGroupHeartbeatRequest =
  cgh_req_group_id :: bytes
  cgh_req_member_id :: bytes
  cgh_req_member_epoch :: i32
  cgh_req_instance_id :: "bytes option"
  cgh_req_rack_id :: "bytes option"
  cgh_req_rebalance_timeout_ms :: i32
  cgh_req_subscribed_topic_names :: "bytes list option"
  cgh_req_subscribed_topic_regex :: "bytes option"
  cgh_req_server_assignor :: "bytes option"
  cgh_req_topic_partitions :: "ConsumerGroupHeartbeatRequest_TopicPartitions list option"
  cgh_req_unknown_tagged_fields :: "UnknownTaggedField list"

definition ConsumerGroupHeartbeatRequest_default :: ConsumerGroupHeartbeatRequest where
  "ConsumerGroupHeartbeatRequest_default =
     \<lparr>cgh_req_group_id = [], cgh_req_member_id = [], cgh_req_member_epoch = 0, cgh_req_instance_id = None, cgh_req_rack_id = None, cgh_req_rebalance_timeout_ms = - 1, cgh_req_subscribed_topic_names = None, cgh_req_subscribed_topic_regex = None, cgh_req_server_assignor = None, cgh_req_topic_partitions = None, cgh_req_unknown_tagged_fields = []\<rparr>"

definition ConsumerGroupHeartbeatRequest_MIN_VERSION :: i16 where
  "ConsumerGroupHeartbeatRequest_MIN_VERSION = 0"

definition ConsumerGroupHeartbeatRequest_MAX_VERSION :: i16 where
  "ConsumerGroupHeartbeatRequest_MAX_VERSION = 1"

definition ConsumerGroupHeartbeatRequest_FLEXIBLE_MIN :: i16 where
  "ConsumerGroupHeartbeatRequest_FLEXIBLE_MIN = 0"

definition ConsumerGroupHeartbeatRequest_API_KEY :: i16 where
  "ConsumerGroupHeartbeatRequest_API_KEY = 68"

definition ConsumerGroupHeartbeatRequest_is_flexible :: "i16 \<Rightarrow> bool" where
  "ConsumerGroupHeartbeatRequest_is_flexible version \<longleftrightarrow> ConsumerGroupHeartbeatRequest_FLEXIBLE_MIN \<le>s version"

definition ConsumerGroupHeartbeatRequest_encode_field_0 :: "ConsumerGroupHeartbeatRequest \<Rightarrow> i16 \<Rightarrow> bool \<Rightarrow> encoder" where
  "ConsumerGroupHeartbeatRequest_encode_field_0 x version flex = put_when (0 \<le>s version) (put_str flex (cgh_req_group_id x))"

definition ConsumerGroupHeartbeatRequest_encode_field_1 :: "ConsumerGroupHeartbeatRequest \<Rightarrow> i16 \<Rightarrow> bool \<Rightarrow> encoder" where
  "ConsumerGroupHeartbeatRequest_encode_field_1 x version flex = put_when (0 \<le>s version) (put_str flex (cgh_req_member_id x))"

definition ConsumerGroupHeartbeatRequest_encode_field_2 :: "ConsumerGroupHeartbeatRequest \<Rightarrow> i16 \<Rightarrow> bool \<Rightarrow> encoder" where
  "ConsumerGroupHeartbeatRequest_encode_field_2 x version flex = put_when (0 \<le>s version) (put_i32 (cgh_req_member_epoch x))"

definition ConsumerGroupHeartbeatRequest_encode_field_3 :: "ConsumerGroupHeartbeatRequest \<Rightarrow> i16 \<Rightarrow> bool \<Rightarrow> encoder" where
  "ConsumerGroupHeartbeatRequest_encode_field_3 x version flex = put_when (0 \<le>s version) (put_nullable_str flex (cgh_req_instance_id x))"

definition ConsumerGroupHeartbeatRequest_encode_field_4 :: "ConsumerGroupHeartbeatRequest \<Rightarrow> i16 \<Rightarrow> bool \<Rightarrow> encoder" where
  "ConsumerGroupHeartbeatRequest_encode_field_4 x version flex = put_when (0 \<le>s version) (put_nullable_str flex (cgh_req_rack_id x))"

definition ConsumerGroupHeartbeatRequest_encode_field_5 :: "ConsumerGroupHeartbeatRequest \<Rightarrow> i16 \<Rightarrow> bool \<Rightarrow> encoder" where
  "ConsumerGroupHeartbeatRequest_encode_field_5 x version flex = put_when (0 \<le>s version) (put_i32 (cgh_req_rebalance_timeout_ms x))"

definition ConsumerGroupHeartbeatRequest_encode_field_6 :: "ConsumerGroupHeartbeatRequest \<Rightarrow> i16 \<Rightarrow> bool \<Rightarrow> encoder" where
  "ConsumerGroupHeartbeatRequest_encode_field_6 x version flex = put_when (0 \<le>s version) (put_nullable_array flex (put_str flex) (cgh_req_subscribed_topic_names x))"

definition ConsumerGroupHeartbeatRequest_encode_field_7 :: "ConsumerGroupHeartbeatRequest \<Rightarrow> i16 \<Rightarrow> bool \<Rightarrow> encoder" where
  "ConsumerGroupHeartbeatRequest_encode_field_7 x version flex = put_when (1 \<le>s version) (put_nullable_str flex (cgh_req_subscribed_topic_regex x))"

definition ConsumerGroupHeartbeatRequest_encode_field_8 :: "ConsumerGroupHeartbeatRequest \<Rightarrow> i16 \<Rightarrow> bool \<Rightarrow> encoder" where
  "ConsumerGroupHeartbeatRequest_encode_field_8 x version flex = put_when (0 \<le>s version) (put_nullable_str flex (cgh_req_server_assignor x))"

definition ConsumerGroupHeartbeatRequest_encode_field_9 :: "ConsumerGroupHeartbeatRequest \<Rightarrow> i16 \<Rightarrow> bool \<Rightarrow> encoder" where
  "ConsumerGroupHeartbeatRequest_encode_field_9 x version flex = put_when (0 \<le>s version) (put_nullable_array flex (\<lambda>it. ConsumerGroupHeartbeatRequest_TopicPartitions_encode it version) (cgh_req_topic_partitions x))"

definition ConsumerGroupHeartbeatRequest_encode_tagged_fields :: "ConsumerGroupHeartbeatRequest \<Rightarrow> i16 \<Rightarrow> bool \<Rightarrow> encoder" where
  "ConsumerGroupHeartbeatRequest_encode_tagged_fields x version flex =
     put_when flex (put_tagged
       []
       (cgh_req_unknown_tagged_fields x))"

definition ConsumerGroupHeartbeatRequest_encode :: "ConsumerGroupHeartbeatRequest \<Rightarrow> i16 \<Rightarrow> encoder" where
  "ConsumerGroupHeartbeatRequest_encode x version =
     (let flex = ConsumerGroupHeartbeatRequest_is_flexible version in
      write_all
        [write_check (check_version ConsumerGroupHeartbeatRequest_API_KEY version ConsumerGroupHeartbeatRequest_MIN_VERSION ConsumerGroupHeartbeatRequest_MAX_VERSION),
         ConsumerGroupHeartbeatRequest_encode_field_0 x version flex,
         ConsumerGroupHeartbeatRequest_encode_field_1 x version flex,
         ConsumerGroupHeartbeatRequest_encode_field_2 x version flex,
         ConsumerGroupHeartbeatRequest_encode_field_3 x version flex,
         ConsumerGroupHeartbeatRequest_encode_field_4 x version flex,
         ConsumerGroupHeartbeatRequest_encode_field_5 x version flex,
         ConsumerGroupHeartbeatRequest_encode_field_6 x version flex,
         ConsumerGroupHeartbeatRequest_encode_field_7 x version flex,
         ConsumerGroupHeartbeatRequest_encode_field_8 x version flex,
         ConsumerGroupHeartbeatRequest_encode_field_9 x version flex,
         ConsumerGroupHeartbeatRequest_encode_tagged_fields x version flex])"

definition ConsumerGroupHeartbeatRequest_encoded_len :: "ConsumerGroupHeartbeatRequest \<Rightarrow> i16 \<Rightarrow> nat" where
  "ConsumerGroupHeartbeatRequest_encoded_len x version =
     (let flex = ConsumerGroupHeartbeatRequest_is_flexible version in
      len_when (0 \<le>s version) (str_len flex (cgh_req_group_id x))
      + len_when (0 \<le>s version) (str_len flex (cgh_req_member_id x))
      + len_when (0 \<le>s version) 4
      + len_when (0 \<le>s version) (nullable_str_len flex (cgh_req_instance_id x))
      + len_when (0 \<le>s version) (nullable_str_len flex (cgh_req_rack_id x))
      + len_when (0 \<le>s version) 4
      + len_when (0 \<le>s version) (nullable_array_size flex (str_len flex) (cgh_req_subscribed_topic_names x))
      + len_when (1 \<le>s version) (nullable_str_len flex (cgh_req_subscribed_topic_regex x))
      + len_when (0 \<le>s version) (nullable_str_len flex (cgh_req_server_assignor x))
      + len_when (0 \<le>s version) (nullable_array_size flex (\<lambda>it. ConsumerGroupHeartbeatRequest_TopicPartitions_encoded_len it version) (cgh_req_topic_partitions x))
      + len_when flex (tagged_size [] (cgh_req_unknown_tagged_fields x)))"

definition ConsumerGroupHeartbeatRequest_decode_field_0 :: "ConsumerGroupHeartbeatRequest \<Rightarrow> i16 \<Rightarrow> bool \<Rightarrow> ConsumerGroupHeartbeatRequest decoder" where
  "ConsumerGroupHeartbeatRequest_decode_field_0 out version flex = get_into (0 \<le>s version) (get_str flex) (\<lambda>v out. out\<lparr>cgh_req_group_id := v\<rparr>) out"

definition ConsumerGroupHeartbeatRequest_decode_field_1 :: "ConsumerGroupHeartbeatRequest \<Rightarrow> i16 \<Rightarrow> bool \<Rightarrow> ConsumerGroupHeartbeatRequest decoder" where
  "ConsumerGroupHeartbeatRequest_decode_field_1 out version flex = get_into (0 \<le>s version) (get_str flex) (\<lambda>v out. out\<lparr>cgh_req_member_id := v\<rparr>) out"

definition ConsumerGroupHeartbeatRequest_decode_field_2 :: "ConsumerGroupHeartbeatRequest \<Rightarrow> i16 \<Rightarrow> bool \<Rightarrow> ConsumerGroupHeartbeatRequest decoder" where
  "ConsumerGroupHeartbeatRequest_decode_field_2 out version flex = get_into (0 \<le>s version) get_i32 (\<lambda>v out. out\<lparr>cgh_req_member_epoch := v\<rparr>) out"

definition ConsumerGroupHeartbeatRequest_decode_field_3 :: "ConsumerGroupHeartbeatRequest \<Rightarrow> i16 \<Rightarrow> bool \<Rightarrow> ConsumerGroupHeartbeatRequest decoder" where
  "ConsumerGroupHeartbeatRequest_decode_field_3 out version flex = get_into (0 \<le>s version) (get_nullable_str flex) (\<lambda>v out. out\<lparr>cgh_req_instance_id := v\<rparr>) out"

definition ConsumerGroupHeartbeatRequest_decode_field_4 :: "ConsumerGroupHeartbeatRequest \<Rightarrow> i16 \<Rightarrow> bool \<Rightarrow> ConsumerGroupHeartbeatRequest decoder" where
  "ConsumerGroupHeartbeatRequest_decode_field_4 out version flex = get_into (0 \<le>s version) (get_nullable_str flex) (\<lambda>v out. out\<lparr>cgh_req_rack_id := v\<rparr>) out"

definition ConsumerGroupHeartbeatRequest_decode_field_5 :: "ConsumerGroupHeartbeatRequest \<Rightarrow> i16 \<Rightarrow> bool \<Rightarrow> ConsumerGroupHeartbeatRequest decoder" where
  "ConsumerGroupHeartbeatRequest_decode_field_5 out version flex = get_into (0 \<le>s version) get_i32 (\<lambda>v out. out\<lparr>cgh_req_rebalance_timeout_ms := v\<rparr>) out"

definition ConsumerGroupHeartbeatRequest_decode_field_6 :: "ConsumerGroupHeartbeatRequest \<Rightarrow> i16 \<Rightarrow> bool \<Rightarrow> ConsumerGroupHeartbeatRequest decoder" where
  "ConsumerGroupHeartbeatRequest_decode_field_6 out version flex = get_into (0 \<le>s version) (get_nullable_array flex (get_str flex)) (\<lambda>v out. out\<lparr>cgh_req_subscribed_topic_names := v\<rparr>) out"

definition ConsumerGroupHeartbeatRequest_decode_field_7 :: "ConsumerGroupHeartbeatRequest \<Rightarrow> i16 \<Rightarrow> bool \<Rightarrow> ConsumerGroupHeartbeatRequest decoder" where
  "ConsumerGroupHeartbeatRequest_decode_field_7 out version flex = get_into (1 \<le>s version) (get_nullable_str flex) (\<lambda>v out. out\<lparr>cgh_req_subscribed_topic_regex := v\<rparr>) out"

definition ConsumerGroupHeartbeatRequest_decode_field_8 :: "ConsumerGroupHeartbeatRequest \<Rightarrow> i16 \<Rightarrow> bool \<Rightarrow> ConsumerGroupHeartbeatRequest decoder" where
  "ConsumerGroupHeartbeatRequest_decode_field_8 out version flex = get_into (0 \<le>s version) (get_nullable_str flex) (\<lambda>v out. out\<lparr>cgh_req_server_assignor := v\<rparr>) out"

definition ConsumerGroupHeartbeatRequest_decode_field_9 :: "ConsumerGroupHeartbeatRequest \<Rightarrow> i16 \<Rightarrow> bool \<Rightarrow> ConsumerGroupHeartbeatRequest decoder" where
  "ConsumerGroupHeartbeatRequest_decode_field_9 out version flex = get_into (0 \<le>s version) (get_nullable_array flex (ConsumerGroupHeartbeatRequest_TopicPartitions_decode version)) (\<lambda>v out. out\<lparr>cgh_req_topic_partitions := v\<rparr>) out"

definition ConsumerGroupHeartbeatRequest_decode_tagged_fields :: "ConsumerGroupHeartbeatRequest \<Rightarrow> i16 \<Rightarrow> bool \<Rightarrow> ConsumerGroupHeartbeatRequest decoder" where
  "ConsumerGroupHeartbeatRequest_decode_tagged_fields out version flex =
     get_trailer flex
       []
       (\<lambda>u out. out\<lparr>cgh_req_unknown_tagged_fields := u\<rparr>) out"

definition ConsumerGroupHeartbeatRequest_decode :: "i16 \<Rightarrow> ConsumerGroupHeartbeatRequest decoder" where
  "ConsumerGroupHeartbeatRequest_decode version =
     (let flex = ConsumerGroupHeartbeatRequest_is_flexible version in
      checked (check_version ConsumerGroupHeartbeatRequest_API_KEY version ConsumerGroupHeartbeatRequest_MIN_VERSION ConsumerGroupHeartbeatRequest_MAX_VERSION) (
        read_then (ConsumerGroupHeartbeatRequest_decode_field_0 ConsumerGroupHeartbeatRequest_default version flex) (\<lambda>out.
        read_then (ConsumerGroupHeartbeatRequest_decode_field_1 out version flex) (\<lambda>out.
        read_then (ConsumerGroupHeartbeatRequest_decode_field_2 out version flex) (\<lambda>out.
        read_then (ConsumerGroupHeartbeatRequest_decode_field_3 out version flex) (\<lambda>out.
        read_then (ConsumerGroupHeartbeatRequest_decode_field_4 out version flex) (\<lambda>out.
        read_then (ConsumerGroupHeartbeatRequest_decode_field_5 out version flex) (\<lambda>out.
        read_then (ConsumerGroupHeartbeatRequest_decode_field_6 out version flex) (\<lambda>out.
        read_then (ConsumerGroupHeartbeatRequest_decode_field_7 out version flex) (\<lambda>out.
        read_then (ConsumerGroupHeartbeatRequest_decode_field_8 out version flex) (\<lambda>out.
        read_then (ConsumerGroupHeartbeatRequest_decode_field_9 out version flex) (\<lambda>out.
        ConsumerGroupHeartbeatRequest_decode_tagged_fields out version flex))))))))))))"

definition ConsumerGroupHeartbeatRequest_fields_wf :: "i16 \<Rightarrow> ConsumerGroupHeartbeatRequest \<Rightarrow> bool" where
  "ConsumerGroupHeartbeatRequest_fields_wf version x \<longleftrightarrow>
     (let flex = ConsumerGroupHeartbeatRequest_is_flexible version in
      str_wf flex (cgh_req_group_id x)
      \<and> str_wf flex (cgh_req_member_id x)
      \<and> nullable_str_wf flex (cgh_req_instance_id x)
      \<and> nullable_str_wf flex (cgh_req_rack_id x)
      \<and> pred_option (array_ok flex (str_wf flex)) (cgh_req_subscribed_topic_names x)
      \<and> field_ok (1 \<le>s version) None (nullable_str_wf flex) (cgh_req_subscribed_topic_regex x)
      \<and> nullable_str_wf flex (cgh_req_server_assignor x)
      \<and> pred_option (array_ok flex (ConsumerGroupHeartbeatRequest_TopicPartitions_wf version)) (cgh_req_topic_partitions x))"

definition ConsumerGroupHeartbeatRequest_wf :: "i16 \<Rightarrow> ConsumerGroupHeartbeatRequest \<Rightarrow> bool" where
  "ConsumerGroupHeartbeatRequest_wf version x \<longleftrightarrow>
     version_in ConsumerGroupHeartbeatRequest_MIN_VERSION ConsumerGroupHeartbeatRequest_MAX_VERSION version \<and> ConsumerGroupHeartbeatRequest_fields_wf version x \<and> trailer_ok [] [] (cgh_req_unknown_tagged_fields x)"

lemmas consumer_group_heartbeat_request_versions =
    ConsumerGroupHeartbeatRequest_is_flexible_def ConsumerGroupHeartbeatRequest_FLEXIBLE_MIN_def
    ConsumerGroupHeartbeatRequest_MIN_VERSION_def ConsumerGroupHeartbeatRequest_MAX_VERSION_def version_in_def

lemmas consumer_group_heartbeat_request_fields =
    Let_def field_ok_def ConsumerGroupHeartbeatRequest_fields_wf_def ConsumerGroupHeartbeatRequest_is_flexible_def
    ConsumerGroupHeartbeatRequest_FLEXIBLE_MIN_def

lemmas consumer_group_heartbeat_request_writers =
    ConsumerGroupHeartbeatRequest_encode_field_0_def ConsumerGroupHeartbeatRequest_encode_field_1_def
    ConsumerGroupHeartbeatRequest_encode_field_2_def ConsumerGroupHeartbeatRequest_encode_field_3_def
    ConsumerGroupHeartbeatRequest_encode_field_4_def ConsumerGroupHeartbeatRequest_encode_field_5_def
    ConsumerGroupHeartbeatRequest_encode_field_6_def ConsumerGroupHeartbeatRequest_encode_field_7_def
    ConsumerGroupHeartbeatRequest_encode_field_8_def ConsumerGroupHeartbeatRequest_encode_field_9_def
    ConsumerGroupHeartbeatRequest_encode_tagged_fields_def

lemmas consumer_group_heartbeat_request_readers =
    ConsumerGroupHeartbeatRequest_decode_field_0_def ConsumerGroupHeartbeatRequest_decode_field_1_def
    ConsumerGroupHeartbeatRequest_decode_field_2_def ConsumerGroupHeartbeatRequest_decode_field_3_def
    ConsumerGroupHeartbeatRequest_decode_field_4_def ConsumerGroupHeartbeatRequest_decode_field_5_def
    ConsumerGroupHeartbeatRequest_decode_field_6_def ConsumerGroupHeartbeatRequest_decode_field_7_def
    ConsumerGroupHeartbeatRequest_decode_field_8_def ConsumerGroupHeartbeatRequest_decode_field_9_def
    ConsumerGroupHeartbeatRequest_decode_tagged_fields_def

lemma consumer_group_heartbeat_request_steps:
  assumes v: "0 \<le>s version" and flex: "flex = (ConsumerGroupHeartbeatRequest_is_flexible version)"
  shows "keeps (ConsumerGroupHeartbeatRequest_fields_wf version) (\<lambda>out. ConsumerGroupHeartbeatRequest_decode_field_0 out version flex)"
    and "keeps (ConsumerGroupHeartbeatRequest_fields_wf version) (\<lambda>out. ConsumerGroupHeartbeatRequest_decode_field_1 out version flex)"
    and "keeps (ConsumerGroupHeartbeatRequest_fields_wf version) (\<lambda>out. ConsumerGroupHeartbeatRequest_decode_field_2 out version flex)"
    and "keeps (ConsumerGroupHeartbeatRequest_fields_wf version) (\<lambda>out. ConsumerGroupHeartbeatRequest_decode_field_3 out version flex)"
    and "keeps (ConsumerGroupHeartbeatRequest_fields_wf version) (\<lambda>out. ConsumerGroupHeartbeatRequest_decode_field_4 out version flex)"
    and "keeps (ConsumerGroupHeartbeatRequest_fields_wf version) (\<lambda>out. ConsumerGroupHeartbeatRequest_decode_field_5 out version flex)"
    and "keeps (ConsumerGroupHeartbeatRequest_fields_wf version) (\<lambda>out. ConsumerGroupHeartbeatRequest_decode_field_6 out version flex)"
    and "keeps (ConsumerGroupHeartbeatRequest_fields_wf version) (\<lambda>out. ConsumerGroupHeartbeatRequest_decode_field_7 out version flex)"
    and "keeps (ConsumerGroupHeartbeatRequest_fields_wf version) (\<lambda>out. ConsumerGroupHeartbeatRequest_decode_field_8 out version flex)"
    and "keeps (ConsumerGroupHeartbeatRequest_fields_wf version) (\<lambda>out. ConsumerGroupHeartbeatRequest_decode_field_9 out version flex)"
  unfolding flex consumer_group_heartbeat_request_readers
  by (rule keeps_into; (rule yields_rules)?; simp add: v consumer_group_heartbeat_request_fields)+

lemma consumer_group_heartbeat_request_unknown:
  "ConsumerGroupHeartbeatRequest_fields_wf version (s\<lparr>cgh_req_unknown_tagged_fields := u\<rparr>) = ConsumerGroupHeartbeatRequest_fields_wf version s"
  by (simp_all add: ConsumerGroupHeartbeatRequest_fields_wf_def)

lemma consumer_group_heartbeat_request_yields:
  assumes r: "version_in ConsumerGroupHeartbeatRequest_MIN_VERSION ConsumerGroupHeartbeatRequest_MAX_VERSION version"
  shows "yields 1 (ConsumerGroupHeartbeatRequest_decode version) (ConsumerGroupHeartbeatRequest_wf version)"
proof -
  have v: "0 \<le>s version"
    using r by (simp add: consumer_group_heartbeat_request_versions)
  have d: "ConsumerGroupHeartbeatRequest_fields_wf version ConsumerGroupHeartbeatRequest_default"
    by (simp add: ConsumerGroupHeartbeatRequest_default_def v consumer_group_heartbeat_request_fields)
  show ?thesis
    unfolding ConsumerGroupHeartbeatRequest_decode_def Let_def ConsumerGroupHeartbeatRequest_decode_tagged_fields_def
    by (rule yields_checked, (rule consumer_group_heartbeat_request_steps[OF v refl, THEN yields_step], (rule d | assumption))+, rule yields_trailer[OF _ arms_keep_Nil[of "ConsumerGroupHeartbeatRequest_fields_wf version" "\<lambda>_. 0"]])
      (simp_all add: v d consumer_group_heartbeat_request_unknown ConsumerGroupHeartbeatRequest_wf_def trailer_ok_def r ConsumerGroupHeartbeatRequest_is_flexible_def ConsumerGroupHeartbeatRequest_FLEXIBLE_MIN_def)
qed

interpretation consumer_group_heartbeat_request: message_codec
  ConsumerGroupHeartbeatRequest_encode ConsumerGroupHeartbeatRequest_decode ConsumerGroupHeartbeatRequest_encoded_len "ConsumerGroupHeartbeatRequest_wf version" version
  for version
proof
  fix x
  assume w: "ConsumerGroupHeartbeatRequest_wf version x"
  then have v: "0 \<le>s version"
    by (simp add: ConsumerGroupHeartbeatRequest_wf_def consumer_group_heartbeat_request_versions)
  show "carries (ConsumerGroupHeartbeatRequest_encode x version) (ConsumerGroupHeartbeatRequest_decode version) (ConsumerGroupHeartbeatRequest_encoded_len x version) x"
    unfolding ConsumerGroupHeartbeatRequest_encode_def consumer_group_heartbeat_request_writers ConsumerGroupHeartbeatRequest_encoded_len_def ConsumerGroupHeartbeatRequest_decode_def consumer_group_heartbeat_request_readers Let_def
    by (use w[unfolded ConsumerGroupHeartbeatRequest_wf_def ConsumerGroupHeartbeatRequest_fields_wf_def Let_def] in \<open>elim conjE\<close>, rule carries_cong_len)
      ((rule carries_rules check_version_in[THEN iffD2] | (erule absent_guarded, assumption) | erule absent_plain
        | simp add: v field_ok_def ConsumerGroupHeartbeatRequest_default_def consumer_group_heartbeat_request_versions)+)
next
  show "yields 1 (ConsumerGroupHeartbeatRequest_decode version) (ConsumerGroupHeartbeatRequest_wf version)"
    by (rule case_split[OF consumer_group_heartbeat_request_yields]) (auto simp: ConsumerGroupHeartbeatRequest_decode_def Let_def yields_refused yields_unsupported)
  show "extends_input (ConsumerGroupHeartbeatRequest_decode version)"
    unfolding ConsumerGroupHeartbeatRequest_decode_def Let_def consumer_group_heartbeat_request_readers by (intro extends_rules)
qed

section \<open>DescribeProducersRequest\<close>

record DescribeProducersRequest_TopicRequest =
  dp_req_tr_name :: bytes
  dp_req_tr_partition_indexes :: "i32 list"
  dp_req_tr_unknown_tagged_fields :: "UnknownTaggedField list"

definition DescribeProducersRequest_TopicRequest_default :: DescribeProducersRequest_TopicRequest where
  "DescribeProducersRequest_TopicRequest_default =
     \<lparr>dp_req_tr_name = [], dp_req_tr_partition_indexes = [], dp_req_tr_unknown_tagged_fields = []\<rparr>"

definition DescribeProducersRequest_TopicRequest_encode :: "DescribeProducersRequest_TopicRequest \<Rightarrow> i16 \<Rightarrow> encoder" where
  "DescribeProducersRequest_TopicRequest_encode x version =
     (let flex = 0 \<le>s version in
      write_all
        [put_when (0 \<le>s version) (put_str flex (dp_req_tr_name x)),
         put_when (0 \<le>s version) (put_array flex put_i32 (dp_req_tr_partition_indexes x)),
         put_when flex (put_tagged [] (dp_req_tr_unknown_tagged_fields x))])"

definition DescribeProducersRequest_TopicRequest_encoded_len :: "DescribeProducersRequest_TopicRequest \<Rightarrow> i16 \<Rightarrow> nat" where
  "DescribeProducersRequest_TopicRequest_encoded_len x version =
     (let flex = 0 \<le>s version in
      len_when (0 \<le>s version) (str_len flex (dp_req_tr_name x))
      + len_when (0 \<le>s version) (array_size flex (\<lambda>_. 4) (dp_req_tr_partition_indexes x))
      + len_when flex (tagged_size [] (dp_req_tr_unknown_tagged_fields x)))"

definition DescribeProducersRequest_TopicRequest_decode :: "i16 \<Rightarrow> DescribeProducersRequest_TopicRequest decoder" where
  "DescribeProducersRequest_TopicRequest_decode version =
     (let flex = 0 \<le>s version in
      read_then (get_into (0 \<le>s version) (get_str flex) (\<lambda>v out. out\<lparr>dp_req_tr_name := v\<rparr>) DescribeProducersRequest_TopicRequest_default) (\<lambda>out.
        read_then (get_into (0 \<le>s version) (get_array flex get_i32) (\<lambda>v out. out\<lparr>dp_req_tr_partition_indexes := v\<rparr>) out) (\<lambda>out.
        get_trailer flex [] (\<lambda>u out. out\<lparr>dp_req_tr_unknown_tagged_fields := u\<rparr>) out)))"

definition DescribeProducersRequest_TopicRequest_fields_wf :: "i16 \<Rightarrow> DescribeProducersRequest_TopicRequest \<Rightarrow> bool" where
  "DescribeProducersRequest_TopicRequest_fields_wf version x \<longleftrightarrow>
     (let flex = 0 \<le>s version in
      str_wf flex (dp_req_tr_name x)
      \<and> array_ok flex (\<lambda>_. True) (dp_req_tr_partition_indexes x))"

definition DescribeProducersRequest_TopicRequest_wf :: "i16 \<Rightarrow> DescribeProducersRequest_TopicRequest \<Rightarrow> bool" where
  "DescribeProducersRequest_TopicRequest_wf version x \<longleftrightarrow>
     DescribeProducersRequest_TopicRequest_fields_wf version x \<and> trailer_ok [] [] (dp_req_tr_unknown_tagged_fields x)"

lemmas describe_producers_request_topic_request_fields =
    Let_def field_ok_def DescribeProducersRequest_TopicRequest_fields_wf_def

lemma describe_producers_request_topic_request_steps:
  assumes v: "0 \<le>s version" and flex: "flex = (0 \<le>s version)"
  shows "keeps (DescribeProducersRequest_TopicRequest_fields_wf version) (get_into (0 \<le>s version) (get_str flex) (\<lambda>v out. out\<lparr>dp_req_tr_name := v\<rparr>))"
    and "keeps (DescribeProducersRequest_TopicRequest_fields_wf version) (get_into (0 \<le>s version) (get_array flex get_i32) (\<lambda>v out. out\<lparr>dp_req_tr_partition_indexes := v\<rparr>))"
  unfolding flex 
  by (rule keeps_into; (rule yields_rules)?; simp add: v describe_producers_request_topic_request_fields)+

lemma describe_producers_request_topic_request_unknown:
  "DescribeProducersRequest_TopicRequest_fields_wf version (s\<lparr>dp_req_tr_unknown_tagged_fields := u\<rparr>) = DescribeProducersRequest_TopicRequest_fields_wf version s"
  by (simp_all add: DescribeProducersRequest_TopicRequest_fields_wf_def)

lemma describe_producers_request_topic_request_yields:
  assumes v: "0 \<le>s version"
  shows "yields 1 (DescribeProducersRequest_TopicRequest_decode version) (DescribeProducersRequest_TopicRequest_wf version)"
proof -
  have d: "DescribeProducersRequest_TopicRequest_fields_wf version DescribeProducersRequest_TopicRequest_default"
    by (simp add: DescribeProducersRequest_TopicRequest_default_def v describe_producers_request_topic_request_fields)
  show ?thesis
    unfolding DescribeProducersRequest_TopicRequest_decode_def Let_def
    by ((rule describe_producers_request_topic_request_steps[OF v refl, THEN yields_step], (rule d | assumption))+, rule yields_trailer[OF _ arms_keep_Nil[of "DescribeProducersRequest_TopicRequest_fields_wf version" "\<lambda>_. 0"]])
      (simp_all add: v d describe_producers_request_topic_request_unknown DescribeProducersRequest_TopicRequest_wf_def trailer_ok_def )
qed

lemma describe_producers_request_topic_request_extends [extends_rules]: "extends_input (DescribeProducersRequest_TopicRequest_decode version)"
  unfolding DescribeProducersRequest_TopicRequest_decode_def Let_def by (intro extends_rules)

lemma describe_producers_request_topic_request_codec:
  assumes v: "0 \<le>s version"
  shows "message_codec DescribeProducersRequest_TopicRequest_encode DescribeProducersRequest_TopicRequest_decode DescribeProducersRequest_TopicRequest_encoded_len (DescribeProducersRequest_TopicRequest_wf version) version"
proof
  fix x
  assume w: "DescribeProducersRequest_TopicRequest_wf version x"
  show "carries (DescribeProducersRequest_TopicRequest_encode x version) (DescribeProducersRequest_TopicRequest_decode version) (DescribeProducersRequest_TopicRequest_encoded_len x version) x"
    unfolding DescribeProducersRequest_TopicRequest_encode_def DescribeProducersRequest_TopicRequest_encoded_len_def DescribeProducersRequest_TopicRequest_decode_def Let_def
    by (use w[unfolded DescribeProducersRequest_TopicRequest_wf_def DescribeProducersRequest_TopicRequest_fields_wf_def Let_def] in \<open>elim conjE\<close>, rule carries_cong_len)
      ((rule carries_rules | (erule absent_guarded, assumption) | erule absent_plain
        | simp add: v field_ok_def DescribeProducersRequest_TopicRequest_default_def )+)
next
  show "yields 1 (DescribeProducersRequest_TopicRequest_decode version) (DescribeProducersRequest_TopicRequest_wf version)"
    by (rule describe_producers_request_topic_request_yields[OF v])
qed (rule describe_producers_request_topic_request_extends)

lemma describe_producers_request_topic_request_default_wf [simp]: "0 \<le>s version \<Longrightarrow> DescribeProducersRequest_TopicRequest_wf version DescribeProducersRequest_TopicRequest_default"
  by (simp add: DescribeProducersRequest_TopicRequest_wf_def DescribeProducersRequest_TopicRequest_default_def trailer_ok_def describe_producers_request_topic_request_fields)

lemmas [carries_rules] = message_codec.message_carries[OF describe_producers_request_topic_request_codec]
lemmas [yields_rules] = message_codec.message_yields[OF describe_producers_request_topic_request_codec]

lemmas [carries_rules] = protocol_codec.put_array_carries[OF message_codec.message_protocol[OF describe_producers_request_topic_request_codec]]
lemmas [yields_rules] = protocol_codec.get_array_yields[OF message_codec.message_protocol[OF describe_producers_request_topic_request_codec]]
lemmas [carries_rules] = protocol_codec.put_nullable_array_carries[OF message_codec.message_protocol[OF describe_producers_request_topic_request_codec]]
lemmas [yields_rules] = protocol_codec.get_nullable_array_yields[OF message_codec.message_protocol[OF describe_producers_request_topic_request_codec]]

record DescribeProducersRequest =
  dp_req_topics :: "DescribeProducersRequest_TopicRequest list"
  dp_req_unknown_tagged_fields :: "UnknownTaggedField list"

definition DescribeProducersRequest_default :: DescribeProducersRequest where
  "DescribeProducersRequest_default =
     \<lparr>dp_req_topics = [], dp_req_unknown_tagged_fields = []\<rparr>"

definition DescribeProducersRequest_MIN_VERSION :: i16 where
  "DescribeProducersRequest_MIN_VERSION = 0"

definition DescribeProducersRequest_MAX_VERSION :: i16 where
  "DescribeProducersRequest_MAX_VERSION = 0"

definition DescribeProducersRequest_FLEXIBLE_MIN :: i16 where
  "DescribeProducersRequest_FLEXIBLE_MIN = 0"

definition DescribeProducersRequest_API_KEY :: i16 where
  "DescribeProducersRequest_API_KEY = 61"

definition DescribeProducersRequest_is_flexible :: "i16 \<Rightarrow> bool" where
  "DescribeProducersRequest_is_flexible version \<longleftrightarrow> DescribeProducersRequest_FLEXIBLE_MIN \<le>s version"

definition DescribeProducersRequest_encode :: "DescribeProducersRequest \<Rightarrow> i16 \<Rightarrow> encoder" where
  "DescribeProducersRequest_encode x version =
     (let flex = DescribeProducersRequest_is_flexible version in
      write_all
        [write_check (check_version DescribeProducersRequest_API_KEY version DescribeProducersRequest_MIN_VERSION DescribeProducersRequest_MAX_VERSION),
         put_when (0 \<le>s version) (put_array flex (\<lambda>it. DescribeProducersRequest_TopicRequest_encode it version) (dp_req_topics x)),
         put_when flex (put_tagged [] (dp_req_unknown_tagged_fields x))])"

definition DescribeProducersRequest_encoded_len :: "DescribeProducersRequest \<Rightarrow> i16 \<Rightarrow> nat" where
  "DescribeProducersRequest_encoded_len x version =
     (let flex = DescribeProducersRequest_is_flexible version in
      len_when (0 \<le>s version) (array_size flex (\<lambda>it. DescribeProducersRequest_TopicRequest_encoded_len it version) (dp_req_topics x))
      + len_when flex (tagged_size [] (dp_req_unknown_tagged_fields x)))"

definition DescribeProducersRequest_decode :: "i16 \<Rightarrow> DescribeProducersRequest decoder" where
  "DescribeProducersRequest_decode version =
     (let flex = DescribeProducersRequest_is_flexible version in
      checked (check_version DescribeProducersRequest_API_KEY version DescribeProducersRequest_MIN_VERSION DescribeProducersRequest_MAX_VERSION) (
        read_then (get_into (0 \<le>s version) (get_array flex (DescribeProducersRequest_TopicRequest_decode version)) (\<lambda>v out. out\<lparr>dp_req_topics := v\<rparr>) DescribeProducersRequest_default) (\<lambda>out.
        get_trailer flex [] (\<lambda>u out. out\<lparr>dp_req_unknown_tagged_fields := u\<rparr>) out)))"

definition DescribeProducersRequest_fields_wf :: "i16 \<Rightarrow> DescribeProducersRequest \<Rightarrow> bool" where
  "DescribeProducersRequest_fields_wf version x \<longleftrightarrow>
     (let flex = DescribeProducersRequest_is_flexible version in
      array_ok flex (DescribeProducersRequest_TopicRequest_wf version) (dp_req_topics x))"

definition DescribeProducersRequest_wf :: "i16 \<Rightarrow> DescribeProducersRequest \<Rightarrow> bool" where
  "DescribeProducersRequest_wf version x \<longleftrightarrow>
     version_in DescribeProducersRequest_MIN_VERSION DescribeProducersRequest_MAX_VERSION version \<and> DescribeProducersRequest_fields_wf version x \<and> trailer_ok [] [] (dp_req_unknown_tagged_fields x)"

lemmas describe_producers_request_versions =
    DescribeProducersRequest_is_flexible_def DescribeProducersRequest_FLEXIBLE_MIN_def
    DescribeProducersRequest_MIN_VERSION_def DescribeProducersRequest_MAX_VERSION_def version_in_def

lemmas describe_producers_request_fields =
    Let_def field_ok_def DescribeProducersRequest_fields_wf_def DescribeProducersRequest_is_flexible_def
    DescribeProducersRequest_FLEXIBLE_MIN_def

lemma describe_producers_request_steps:
  assumes v: "0 \<le>s version" and flex: "flex = (DescribeProducersRequest_is_flexible version)"
  shows "keeps (DescribeProducersRequest_fields_wf version) (get_into (0 \<le>s version) (get_array flex (DescribeProducersRequest_TopicRequest_decode version)) (\<lambda>v out. out\<lparr>dp_req_topics := v\<rparr>))"
  unfolding flex 
  by (rule keeps_into; (rule yields_rules)?; simp add: v describe_producers_request_fields)+

lemma describe_producers_request_unknown:
  "DescribeProducersRequest_fields_wf version (s\<lparr>dp_req_unknown_tagged_fields := u\<rparr>) = DescribeProducersRequest_fields_wf version s"
  by (simp_all add: DescribeProducersRequest_fields_wf_def)

lemma describe_producers_request_yields:
  assumes r: "version_in DescribeProducersRequest_MIN_VERSION DescribeProducersRequest_MAX_VERSION version"
  shows "yields 1 (DescribeProducersRequest_decode version) (DescribeProducersRequest_wf version)"
proof -
  have v: "0 \<le>s version"
    using r by (simp add: describe_producers_request_versions)
  have d: "DescribeProducersRequest_fields_wf version DescribeProducersRequest_default"
    by (simp add: DescribeProducersRequest_default_def v describe_producers_request_fields)
  show ?thesis
    unfolding DescribeProducersRequest_decode_def Let_def
    by (rule yields_checked, (rule describe_producers_request_steps[OF v refl, THEN yields_step], (rule d | assumption))+, rule yields_trailer[OF _ arms_keep_Nil[of "DescribeProducersRequest_fields_wf version" "\<lambda>_. 0"]])
      (simp_all add: v d describe_producers_request_unknown DescribeProducersRequest_wf_def trailer_ok_def r DescribeProducersRequest_is_flexible_def DescribeProducersRequest_FLEXIBLE_MIN_def)
qed

interpretation describe_producers_request: message_codec
  DescribeProducersRequest_encode DescribeProducersRequest_decode DescribeProducersRequest_encoded_len "DescribeProducersRequest_wf version" version
  for version
proof
  fix x
  assume w: "DescribeProducersRequest_wf version x"
  then have v: "0 \<le>s version"
    by (simp add: DescribeProducersRequest_wf_def describe_producers_request_versions)
  show "carries (DescribeProducersRequest_encode x version) (DescribeProducersRequest_decode version) (DescribeProducersRequest_encoded_len x version) x"
    unfolding DescribeProducersRequest_encode_def DescribeProducersRequest_encoded_len_def DescribeProducersRequest_decode_def Let_def
    by (use w[unfolded DescribeProducersRequest_wf_def DescribeProducersRequest_fields_wf_def Let_def] in \<open>elim conjE\<close>, rule carries_cong_len)
      ((rule carries_rules check_version_in[THEN iffD2] | (erule absent_guarded, assumption) | erule absent_plain
        | simp add: v field_ok_def DescribeProducersRequest_default_def describe_producers_request_versions)+)
next
  show "yields 1 (DescribeProducersRequest_decode version) (DescribeProducersRequest_wf version)"
    by (rule case_split[OF describe_producers_request_yields]) (auto simp: DescribeProducersRequest_decode_def Let_def yields_refused yields_unsupported)
  show "extends_input (DescribeProducersRequest_decode version)"
    unfolding DescribeProducersRequest_decode_def Let_def by (intro extends_rules)
qed

section \<open>DescribeProducersResponse\<close>

record DescribeProducersResponse_ProducerState =
  dp_resp_ps_producer_id :: i64
  dp_resp_ps_producer_epoch :: i32
  dp_resp_ps_last_sequence :: i32
  dp_resp_ps_last_timestamp :: i64
  dp_resp_ps_coordinator_epoch :: i32
  dp_resp_ps_current_txn_start_offset :: i64
  dp_resp_ps_unknown_tagged_fields :: "UnknownTaggedField list"

definition DescribeProducersResponse_ProducerState_default :: DescribeProducersResponse_ProducerState where
  "DescribeProducersResponse_ProducerState_default =
     \<lparr>dp_resp_ps_producer_id = 0, dp_resp_ps_producer_epoch = 0, dp_resp_ps_last_sequence = - 1, dp_resp_ps_last_timestamp = - 1, dp_resp_ps_coordinator_epoch = 0, dp_resp_ps_current_txn_start_offset = - 1, dp_resp_ps_unknown_tagged_fields = []\<rparr>"

definition DescribeProducersResponse_ProducerState_encode :: "DescribeProducersResponse_ProducerState \<Rightarrow> i16 \<Rightarrow> encoder" where
  "DescribeProducersResponse_ProducerState_encode x version =
     (let flex = 0 \<le>s version in
      write_all
        [put_when (0 \<le>s version) (put_i64 (dp_resp_ps_producer_id x)),
         put_when (0 \<le>s version) (put_i32 (dp_resp_ps_producer_epoch x)),
         put_when (0 \<le>s version) (put_i32 (dp_resp_ps_last_sequence x)),
         put_when (0 \<le>s version) (put_i64 (dp_resp_ps_last_timestamp x)),
         put_when (0 \<le>s version) (put_i32 (dp_resp_ps_coordinator_epoch x)),
         put_when (0 \<le>s version) (put_i64 (dp_resp_ps_current_txn_start_offset x)),
         put_when flex (put_tagged [] (dp_resp_ps_unknown_tagged_fields x))])"

definition DescribeProducersResponse_ProducerState_encoded_len :: "DescribeProducersResponse_ProducerState \<Rightarrow> i16 \<Rightarrow> nat" where
  "DescribeProducersResponse_ProducerState_encoded_len x version =
     (let flex = 0 \<le>s version in
      len_when (0 \<le>s version) 8
      + len_when (0 \<le>s version) 4
      + len_when (0 \<le>s version) 4
      + len_when (0 \<le>s version) 8
      + len_when (0 \<le>s version) 4
      + len_when (0 \<le>s version) 8
      + len_when flex (tagged_size [] (dp_resp_ps_unknown_tagged_fields x)))"

definition DescribeProducersResponse_ProducerState_decode :: "i16 \<Rightarrow> DescribeProducersResponse_ProducerState decoder" where
  "DescribeProducersResponse_ProducerState_decode version =
     (let flex = 0 \<le>s version in
      read_then (get_into (0 \<le>s version) get_i64 (\<lambda>v out. out\<lparr>dp_resp_ps_producer_id := v\<rparr>) DescribeProducersResponse_ProducerState_default) (\<lambda>out.
        read_then (get_into (0 \<le>s version) get_i32 (\<lambda>v out. out\<lparr>dp_resp_ps_producer_epoch := v\<rparr>) out) (\<lambda>out.
        read_then (get_into (0 \<le>s version) get_i32 (\<lambda>v out. out\<lparr>dp_resp_ps_last_sequence := v\<rparr>) out) (\<lambda>out.
        read_then (get_into (0 \<le>s version) get_i64 (\<lambda>v out. out\<lparr>dp_resp_ps_last_timestamp := v\<rparr>) out) (\<lambda>out.
        read_then (get_into (0 \<le>s version) get_i32 (\<lambda>v out. out\<lparr>dp_resp_ps_coordinator_epoch := v\<rparr>) out) (\<lambda>out.
        read_then (get_into (0 \<le>s version) get_i64 (\<lambda>v out. out\<lparr>dp_resp_ps_current_txn_start_offset := v\<rparr>) out) (\<lambda>out.
        get_trailer flex [] (\<lambda>u out. out\<lparr>dp_resp_ps_unknown_tagged_fields := u\<rparr>) out)))))))"

definition DescribeProducersResponse_ProducerState_fields_wf :: "i16 \<Rightarrow> DescribeProducersResponse_ProducerState \<Rightarrow> bool" where
  "DescribeProducersResponse_ProducerState_fields_wf version x \<longleftrightarrow>
     True"

definition DescribeProducersResponse_ProducerState_wf :: "i16 \<Rightarrow> DescribeProducersResponse_ProducerState \<Rightarrow> bool" where
  "DescribeProducersResponse_ProducerState_wf version x \<longleftrightarrow>
     DescribeProducersResponse_ProducerState_fields_wf version x \<and> trailer_ok [] [] (dp_resp_ps_unknown_tagged_fields x)"

lemmas describe_producers_response_producer_state_fields =
    Let_def field_ok_def DescribeProducersResponse_ProducerState_fields_wf_def

lemma describe_producers_response_producer_state_steps:
  assumes v: "0 \<le>s version" and flex: "flex = (0 \<le>s version)"
  shows "keeps (DescribeProducersResponse_ProducerState_fields_wf version) (get_into (0 \<le>s version) get_i64 (\<lambda>v out. out\<lparr>dp_resp_ps_producer_id := v\<rparr>))"
    and "keeps (DescribeProducersResponse_ProducerState_fields_wf version) (get_into (0 \<le>s version) get_i32 (\<lambda>v out. out\<lparr>dp_resp_ps_producer_epoch := v\<rparr>))"
    and "keeps (DescribeProducersResponse_ProducerState_fields_wf version) (get_into (0 \<le>s version) get_i32 (\<lambda>v out. out\<lparr>dp_resp_ps_last_sequence := v\<rparr>))"
    and "keeps (DescribeProducersResponse_ProducerState_fields_wf version) (get_into (0 \<le>s version) get_i64 (\<lambda>v out. out\<lparr>dp_resp_ps_last_timestamp := v\<rparr>))"
    and "keeps (DescribeProducersResponse_ProducerState_fields_wf version) (get_into (0 \<le>s version) get_i32 (\<lambda>v out. out\<lparr>dp_resp_ps_coordinator_epoch := v\<rparr>))"
    and "keeps (DescribeProducersResponse_ProducerState_fields_wf version) (get_into (0 \<le>s version) get_i64 (\<lambda>v out. out\<lparr>dp_resp_ps_current_txn_start_offset := v\<rparr>))"
  unfolding flex 
  by (rule keeps_into; (rule yields_rules)?; simp add: v describe_producers_response_producer_state_fields)+

lemma describe_producers_response_producer_state_unknown:
  "DescribeProducersResponse_ProducerState_fields_wf version (s\<lparr>dp_resp_ps_unknown_tagged_fields := u\<rparr>) = DescribeProducersResponse_ProducerState_fields_wf version s"
  by (simp_all add: DescribeProducersResponse_ProducerState_fields_wf_def)

lemma describe_producers_response_producer_state_yields:
  assumes v: "0 \<le>s version"
  shows "yields 1 (DescribeProducersResponse_ProducerState_decode version) (DescribeProducersResponse_ProducerState_wf version)"
proof -
  have d: "DescribeProducersResponse_ProducerState_fields_wf version DescribeProducersResponse_ProducerState_default"
    by (simp add: DescribeProducersResponse_ProducerState_default_def v describe_producers_response_producer_state_fields)
  show ?thesis
    unfolding DescribeProducersResponse_ProducerState_decode_def Let_def
    by ((rule describe_producers_response_producer_state_steps[OF v refl, THEN yields_step], (rule d | assumption))+, rule yields_trailer[OF _ arms_keep_Nil[of "DescribeProducersResponse_ProducerState_fields_wf version" "\<lambda>_. 0"]])
      (simp_all add: v d describe_producers_response_producer_state_unknown DescribeProducersResponse_ProducerState_wf_def trailer_ok_def )
qed

lemma describe_producers_response_producer_state_extends [extends_rules]: "extends_input (DescribeProducersResponse_ProducerState_decode version)"
  unfolding DescribeProducersResponse_ProducerState_decode_def Let_def by (intro extends_rules)

lemma describe_producers_response_producer_state_codec:
  assumes v: "0 \<le>s version"
  shows "message_codec DescribeProducersResponse_ProducerState_encode DescribeProducersResponse_ProducerState_decode DescribeProducersResponse_ProducerState_encoded_len (DescribeProducersResponse_ProducerState_wf version) version"
proof
  fix x
  assume w: "DescribeProducersResponse_ProducerState_wf version x"
  show "carries (DescribeProducersResponse_ProducerState_encode x version) (DescribeProducersResponse_ProducerState_decode version) (DescribeProducersResponse_ProducerState_encoded_len x version) x"
    unfolding DescribeProducersResponse_ProducerState_encode_def DescribeProducersResponse_ProducerState_encoded_len_def DescribeProducersResponse_ProducerState_decode_def Let_def
    by (use w[unfolded DescribeProducersResponse_ProducerState_wf_def DescribeProducersResponse_ProducerState_fields_wf_def Let_def] in \<open>elim conjE\<close>, rule carries_cong_len)
      ((rule carries_rules | (erule absent_guarded, assumption) | erule absent_plain
        | simp add: v field_ok_def DescribeProducersResponse_ProducerState_default_def )+)
next
  show "yields 1 (DescribeProducersResponse_ProducerState_decode version) (DescribeProducersResponse_ProducerState_wf version)"
    by (rule describe_producers_response_producer_state_yields[OF v])
qed (rule describe_producers_response_producer_state_extends)

lemma describe_producers_response_producer_state_default_wf [simp]: "0 \<le>s version \<Longrightarrow> DescribeProducersResponse_ProducerState_wf version DescribeProducersResponse_ProducerState_default"
  by (simp add: DescribeProducersResponse_ProducerState_wf_def DescribeProducersResponse_ProducerState_default_def trailer_ok_def describe_producers_response_producer_state_fields)

lemmas [carries_rules] = message_codec.message_carries[OF describe_producers_response_producer_state_codec]
lemmas [yields_rules] = message_codec.message_yields[OF describe_producers_response_producer_state_codec]

lemmas [carries_rules] = protocol_codec.put_array_carries[OF message_codec.message_protocol[OF describe_producers_response_producer_state_codec]]
lemmas [yields_rules] = protocol_codec.get_array_yields[OF message_codec.message_protocol[OF describe_producers_response_producer_state_codec]]
lemmas [carries_rules] = protocol_codec.put_nullable_array_carries[OF message_codec.message_protocol[OF describe_producers_response_producer_state_codec]]
lemmas [yields_rules] = protocol_codec.get_nullable_array_yields[OF message_codec.message_protocol[OF describe_producers_response_producer_state_codec]]

record DescribeProducersResponse_PartitionResponse =
  dp_resp_pr_partition_index :: i32
  dp_resp_pr_error_code :: i16
  dp_resp_pr_error_message :: "bytes option"
  dp_resp_pr_active_producers :: "DescribeProducersResponse_ProducerState list"
  dp_resp_pr_unknown_tagged_fields :: "UnknownTaggedField list"

definition DescribeProducersResponse_PartitionResponse_default :: DescribeProducersResponse_PartitionResponse where
  "DescribeProducersResponse_PartitionResponse_default =
     \<lparr>dp_resp_pr_partition_index = 0, dp_resp_pr_error_code = 0, dp_resp_pr_error_message = None, dp_resp_pr_active_producers = [], dp_resp_pr_unknown_tagged_fields = []\<rparr>"

definition DescribeProducersResponse_PartitionResponse_encode :: "DescribeProducersResponse_PartitionResponse \<Rightarrow> i16 \<Rightarrow> encoder" where
  "DescribeProducersResponse_PartitionResponse_encode x version =
     (let flex = 0 \<le>s version in
      write_all
        [put_when (0 \<le>s version) (put_i32 (dp_resp_pr_partition_index x)),
         put_when (0 \<le>s version) (put_i16 (dp_resp_pr_error_code x)),
         put_when (0 \<le>s version) (put_nullable_str flex (dp_resp_pr_error_message x)),
         put_when (0 \<le>s version) (put_array flex (\<lambda>it. DescribeProducersResponse_ProducerState_encode it version) (dp_resp_pr_active_producers x)),
         put_when flex (put_tagged [] (dp_resp_pr_unknown_tagged_fields x))])"

definition DescribeProducersResponse_PartitionResponse_encoded_len :: "DescribeProducersResponse_PartitionResponse \<Rightarrow> i16 \<Rightarrow> nat" where
  "DescribeProducersResponse_PartitionResponse_encoded_len x version =
     (let flex = 0 \<le>s version in
      len_when (0 \<le>s version) 4
      + len_when (0 \<le>s version) 2
      + len_when (0 \<le>s version) (nullable_str_len flex (dp_resp_pr_error_message x))
      + len_when (0 \<le>s version) (array_size flex (\<lambda>it. DescribeProducersResponse_ProducerState_encoded_len it version) (dp_resp_pr_active_producers x))
      + len_when flex (tagged_size [] (dp_resp_pr_unknown_tagged_fields x)))"

definition DescribeProducersResponse_PartitionResponse_decode :: "i16 \<Rightarrow> DescribeProducersResponse_PartitionResponse decoder" where
  "DescribeProducersResponse_PartitionResponse_decode version =
     (let flex = 0 \<le>s version in
      read_then (get_into (0 \<le>s version) get_i32 (\<lambda>v out. out\<lparr>dp_resp_pr_partition_index := v\<rparr>) DescribeProducersResponse_PartitionResponse_default) (\<lambda>out.
        read_then (get_into (0 \<le>s version) get_i16 (\<lambda>v out. out\<lparr>dp_resp_pr_error_code := v\<rparr>) out) (\<lambda>out.
        read_then (get_into (0 \<le>s version) (get_nullable_str flex) (\<lambda>v out. out\<lparr>dp_resp_pr_error_message := v\<rparr>) out) (\<lambda>out.
        read_then (get_into (0 \<le>s version) (get_array flex (DescribeProducersResponse_ProducerState_decode version)) (\<lambda>v out. out\<lparr>dp_resp_pr_active_producers := v\<rparr>) out) (\<lambda>out.
        get_trailer flex [] (\<lambda>u out. out\<lparr>dp_resp_pr_unknown_tagged_fields := u\<rparr>) out)))))"

definition DescribeProducersResponse_PartitionResponse_fields_wf :: "i16 \<Rightarrow> DescribeProducersResponse_PartitionResponse \<Rightarrow> bool" where
  "DescribeProducersResponse_PartitionResponse_fields_wf version x \<longleftrightarrow>
     (let flex = 0 \<le>s version in
      nullable_str_wf flex (dp_resp_pr_error_message x)
      \<and> array_ok flex (DescribeProducersResponse_ProducerState_wf version) (dp_resp_pr_active_producers x))"

definition DescribeProducersResponse_PartitionResponse_wf :: "i16 \<Rightarrow> DescribeProducersResponse_PartitionResponse \<Rightarrow> bool" where
  "DescribeProducersResponse_PartitionResponse_wf version x \<longleftrightarrow>
     DescribeProducersResponse_PartitionResponse_fields_wf version x \<and> trailer_ok [] [] (dp_resp_pr_unknown_tagged_fields x)"

lemmas describe_producers_response_partition_response_fields =
    Let_def field_ok_def DescribeProducersResponse_PartitionResponse_fields_wf_def

lemma describe_producers_response_partition_response_steps:
  assumes v: "0 \<le>s version" and flex: "flex = (0 \<le>s version)"
  shows "keeps (DescribeProducersResponse_PartitionResponse_fields_wf version) (get_into (0 \<le>s version) get_i32 (\<lambda>v out. out\<lparr>dp_resp_pr_partition_index := v\<rparr>))"
    and "keeps (DescribeProducersResponse_PartitionResponse_fields_wf version) (get_into (0 \<le>s version) get_i16 (\<lambda>v out. out\<lparr>dp_resp_pr_error_code := v\<rparr>))"
    and "keeps (DescribeProducersResponse_PartitionResponse_fields_wf version) (get_into (0 \<le>s version) (get_nullable_str flex) (\<lambda>v out. out\<lparr>dp_resp_pr_error_message := v\<rparr>))"
    and "keeps (DescribeProducersResponse_PartitionResponse_fields_wf version) (get_into (0 \<le>s version) (get_array flex (DescribeProducersResponse_ProducerState_decode version)) (\<lambda>v out. out\<lparr>dp_resp_pr_active_producers := v\<rparr>))"
  unfolding flex 
  by (rule keeps_into; (rule yields_rules)?; simp add: v describe_producers_response_partition_response_fields)+

lemma describe_producers_response_partition_response_unknown:
  "DescribeProducersResponse_PartitionResponse_fields_wf version (s\<lparr>dp_resp_pr_unknown_tagged_fields := u\<rparr>) = DescribeProducersResponse_PartitionResponse_fields_wf version s"
  by (simp_all add: DescribeProducersResponse_PartitionResponse_fields_wf_def)

lemma describe_producers_response_partition_response_yields:
  assumes v: "0 \<le>s version"
  shows "yields 1 (DescribeProducersResponse_PartitionResponse_decode version) (DescribeProducersResponse_PartitionResponse_wf version)"
proof -
  have d: "DescribeProducersResponse_PartitionResponse_fields_wf version DescribeProducersResponse_PartitionResponse_default"
    by (simp add: DescribeProducersResponse_PartitionResponse_default_def v describe_producers_response_partition_response_fields)
  show ?thesis
    unfolding DescribeProducersResponse_PartitionResponse_decode_def Let_def
    by ((rule describe_producers_response_partition_response_steps[OF v refl, THEN yields_step], (rule d | assumption))+, rule yields_trailer[OF _ arms_keep_Nil[of "DescribeProducersResponse_PartitionResponse_fields_wf version" "\<lambda>_. 0"]])
      (simp_all add: v d describe_producers_response_partition_response_unknown DescribeProducersResponse_PartitionResponse_wf_def trailer_ok_def )
qed

lemma describe_producers_response_partition_response_extends [extends_rules]: "extends_input (DescribeProducersResponse_PartitionResponse_decode version)"
  unfolding DescribeProducersResponse_PartitionResponse_decode_def Let_def by (intro extends_rules)

lemma describe_producers_response_partition_response_codec:
  assumes v: "0 \<le>s version"
  shows "message_codec DescribeProducersResponse_PartitionResponse_encode DescribeProducersResponse_PartitionResponse_decode DescribeProducersResponse_PartitionResponse_encoded_len (DescribeProducersResponse_PartitionResponse_wf version) version"
proof
  fix x
  assume w: "DescribeProducersResponse_PartitionResponse_wf version x"
  show "carries (DescribeProducersResponse_PartitionResponse_encode x version) (DescribeProducersResponse_PartitionResponse_decode version) (DescribeProducersResponse_PartitionResponse_encoded_len x version) x"
    unfolding DescribeProducersResponse_PartitionResponse_encode_def DescribeProducersResponse_PartitionResponse_encoded_len_def DescribeProducersResponse_PartitionResponse_decode_def Let_def
    by (use w[unfolded DescribeProducersResponse_PartitionResponse_wf_def DescribeProducersResponse_PartitionResponse_fields_wf_def Let_def] in \<open>elim conjE\<close>, rule carries_cong_len)
      ((rule carries_rules | (erule absent_guarded, assumption) | erule absent_plain
        | simp add: v field_ok_def DescribeProducersResponse_PartitionResponse_default_def )+)
next
  show "yields 1 (DescribeProducersResponse_PartitionResponse_decode version) (DescribeProducersResponse_PartitionResponse_wf version)"
    by (rule describe_producers_response_partition_response_yields[OF v])
qed (rule describe_producers_response_partition_response_extends)

lemma describe_producers_response_partition_response_default_wf [simp]: "0 \<le>s version \<Longrightarrow> DescribeProducersResponse_PartitionResponse_wf version DescribeProducersResponse_PartitionResponse_default"
  by (simp add: DescribeProducersResponse_PartitionResponse_wf_def DescribeProducersResponse_PartitionResponse_default_def trailer_ok_def describe_producers_response_partition_response_fields)

lemmas [carries_rules] = message_codec.message_carries[OF describe_producers_response_partition_response_codec]
lemmas [yields_rules] = message_codec.message_yields[OF describe_producers_response_partition_response_codec]

lemmas [carries_rules] = protocol_codec.put_array_carries[OF message_codec.message_protocol[OF describe_producers_response_partition_response_codec]]
lemmas [yields_rules] = protocol_codec.get_array_yields[OF message_codec.message_protocol[OF describe_producers_response_partition_response_codec]]
lemmas [carries_rules] = protocol_codec.put_nullable_array_carries[OF message_codec.message_protocol[OF describe_producers_response_partition_response_codec]]
lemmas [yields_rules] = protocol_codec.get_nullable_array_yields[OF message_codec.message_protocol[OF describe_producers_response_partition_response_codec]]

record DescribeProducersResponse_TopicResponse =
  dp_resp_tr_name :: bytes
  dp_resp_tr_partitions :: "DescribeProducersResponse_PartitionResponse list"
  dp_resp_tr_unknown_tagged_fields :: "UnknownTaggedField list"

definition DescribeProducersResponse_TopicResponse_default :: DescribeProducersResponse_TopicResponse where
  "DescribeProducersResponse_TopicResponse_default =
     \<lparr>dp_resp_tr_name = [], dp_resp_tr_partitions = [], dp_resp_tr_unknown_tagged_fields = []\<rparr>"

definition DescribeProducersResponse_TopicResponse_encode :: "DescribeProducersResponse_TopicResponse \<Rightarrow> i16 \<Rightarrow> encoder" where
  "DescribeProducersResponse_TopicResponse_encode x version =
     (let flex = 0 \<le>s version in
      write_all
        [put_when (0 \<le>s version) (put_str flex (dp_resp_tr_name x)),
         put_when (0 \<le>s version) (put_array flex (\<lambda>it. DescribeProducersResponse_PartitionResponse_encode it version) (dp_resp_tr_partitions x)),
         put_when flex (put_tagged [] (dp_resp_tr_unknown_tagged_fields x))])"

definition DescribeProducersResponse_TopicResponse_encoded_len :: "DescribeProducersResponse_TopicResponse \<Rightarrow> i16 \<Rightarrow> nat" where
  "DescribeProducersResponse_TopicResponse_encoded_len x version =
     (let flex = 0 \<le>s version in
      len_when (0 \<le>s version) (str_len flex (dp_resp_tr_name x))
      + len_when (0 \<le>s version) (array_size flex (\<lambda>it. DescribeProducersResponse_PartitionResponse_encoded_len it version) (dp_resp_tr_partitions x))
      + len_when flex (tagged_size [] (dp_resp_tr_unknown_tagged_fields x)))"

definition DescribeProducersResponse_TopicResponse_decode :: "i16 \<Rightarrow> DescribeProducersResponse_TopicResponse decoder" where
  "DescribeProducersResponse_TopicResponse_decode version =
     (let flex = 0 \<le>s version in
      read_then (get_into (0 \<le>s version) (get_str flex) (\<lambda>v out. out\<lparr>dp_resp_tr_name := v\<rparr>) DescribeProducersResponse_TopicResponse_default) (\<lambda>out.
        read_then (get_into (0 \<le>s version) (get_array flex (DescribeProducersResponse_PartitionResponse_decode version)) (\<lambda>v out. out\<lparr>dp_resp_tr_partitions := v\<rparr>) out) (\<lambda>out.
        get_trailer flex [] (\<lambda>u out. out\<lparr>dp_resp_tr_unknown_tagged_fields := u\<rparr>) out)))"

definition DescribeProducersResponse_TopicResponse_fields_wf :: "i16 \<Rightarrow> DescribeProducersResponse_TopicResponse \<Rightarrow> bool" where
  "DescribeProducersResponse_TopicResponse_fields_wf version x \<longleftrightarrow>
     (let flex = 0 \<le>s version in
      str_wf flex (dp_resp_tr_name x)
      \<and> array_ok flex (DescribeProducersResponse_PartitionResponse_wf version) (dp_resp_tr_partitions x))"

definition DescribeProducersResponse_TopicResponse_wf :: "i16 \<Rightarrow> DescribeProducersResponse_TopicResponse \<Rightarrow> bool" where
  "DescribeProducersResponse_TopicResponse_wf version x \<longleftrightarrow>
     DescribeProducersResponse_TopicResponse_fields_wf version x \<and> trailer_ok [] [] (dp_resp_tr_unknown_tagged_fields x)"

lemmas describe_producers_response_topic_response_fields =
    Let_def field_ok_def DescribeProducersResponse_TopicResponse_fields_wf_def

lemma describe_producers_response_topic_response_steps:
  assumes v: "0 \<le>s version" and flex: "flex = (0 \<le>s version)"
  shows "keeps (DescribeProducersResponse_TopicResponse_fields_wf version) (get_into (0 \<le>s version) (get_str flex) (\<lambda>v out. out\<lparr>dp_resp_tr_name := v\<rparr>))"
    and "keeps (DescribeProducersResponse_TopicResponse_fields_wf version) (get_into (0 \<le>s version) (get_array flex (DescribeProducersResponse_PartitionResponse_decode version)) (\<lambda>v out. out\<lparr>dp_resp_tr_partitions := v\<rparr>))"
  unfolding flex 
  by (rule keeps_into; (rule yields_rules)?; simp add: v describe_producers_response_topic_response_fields)+

lemma describe_producers_response_topic_response_unknown:
  "DescribeProducersResponse_TopicResponse_fields_wf version (s\<lparr>dp_resp_tr_unknown_tagged_fields := u\<rparr>) = DescribeProducersResponse_TopicResponse_fields_wf version s"
  by (simp_all add: DescribeProducersResponse_TopicResponse_fields_wf_def)

lemma describe_producers_response_topic_response_yields:
  assumes v: "0 \<le>s version"
  shows "yields 1 (DescribeProducersResponse_TopicResponse_decode version) (DescribeProducersResponse_TopicResponse_wf version)"
proof -
  have d: "DescribeProducersResponse_TopicResponse_fields_wf version DescribeProducersResponse_TopicResponse_default"
    by (simp add: DescribeProducersResponse_TopicResponse_default_def v describe_producers_response_topic_response_fields)
  show ?thesis
    unfolding DescribeProducersResponse_TopicResponse_decode_def Let_def
    by ((rule describe_producers_response_topic_response_steps[OF v refl, THEN yields_step], (rule d | assumption))+, rule yields_trailer[OF _ arms_keep_Nil[of "DescribeProducersResponse_TopicResponse_fields_wf version" "\<lambda>_. 0"]])
      (simp_all add: v d describe_producers_response_topic_response_unknown DescribeProducersResponse_TopicResponse_wf_def trailer_ok_def )
qed

lemma describe_producers_response_topic_response_extends [extends_rules]: "extends_input (DescribeProducersResponse_TopicResponse_decode version)"
  unfolding DescribeProducersResponse_TopicResponse_decode_def Let_def by (intro extends_rules)

lemma describe_producers_response_topic_response_codec:
  assumes v: "0 \<le>s version"
  shows "message_codec DescribeProducersResponse_TopicResponse_encode DescribeProducersResponse_TopicResponse_decode DescribeProducersResponse_TopicResponse_encoded_len (DescribeProducersResponse_TopicResponse_wf version) version"
proof
  fix x
  assume w: "DescribeProducersResponse_TopicResponse_wf version x"
  show "carries (DescribeProducersResponse_TopicResponse_encode x version) (DescribeProducersResponse_TopicResponse_decode version) (DescribeProducersResponse_TopicResponse_encoded_len x version) x"
    unfolding DescribeProducersResponse_TopicResponse_encode_def DescribeProducersResponse_TopicResponse_encoded_len_def DescribeProducersResponse_TopicResponse_decode_def Let_def
    by (use w[unfolded DescribeProducersResponse_TopicResponse_wf_def DescribeProducersResponse_TopicResponse_fields_wf_def Let_def] in \<open>elim conjE\<close>, rule carries_cong_len)
      ((rule carries_rules | (erule absent_guarded, assumption) | erule absent_plain
        | simp add: v field_ok_def DescribeProducersResponse_TopicResponse_default_def )+)
next
  show "yields 1 (DescribeProducersResponse_TopicResponse_decode version) (DescribeProducersResponse_TopicResponse_wf version)"
    by (rule describe_producers_response_topic_response_yields[OF v])
qed (rule describe_producers_response_topic_response_extends)

lemma describe_producers_response_topic_response_default_wf [simp]: "0 \<le>s version \<Longrightarrow> DescribeProducersResponse_TopicResponse_wf version DescribeProducersResponse_TopicResponse_default"
  by (simp add: DescribeProducersResponse_TopicResponse_wf_def DescribeProducersResponse_TopicResponse_default_def trailer_ok_def describe_producers_response_topic_response_fields)

lemmas [carries_rules] = message_codec.message_carries[OF describe_producers_response_topic_response_codec]
lemmas [yields_rules] = message_codec.message_yields[OF describe_producers_response_topic_response_codec]

lemmas [carries_rules] = protocol_codec.put_array_carries[OF message_codec.message_protocol[OF describe_producers_response_topic_response_codec]]
lemmas [yields_rules] = protocol_codec.get_array_yields[OF message_codec.message_protocol[OF describe_producers_response_topic_response_codec]]
lemmas [carries_rules] = protocol_codec.put_nullable_array_carries[OF message_codec.message_protocol[OF describe_producers_response_topic_response_codec]]
lemmas [yields_rules] = protocol_codec.get_nullable_array_yields[OF message_codec.message_protocol[OF describe_producers_response_topic_response_codec]]

record DescribeProducersResponse =
  dp_resp_throttle_time_ms :: i32
  dp_resp_topics :: "DescribeProducersResponse_TopicResponse list"
  dp_resp_unknown_tagged_fields :: "UnknownTaggedField list"

definition DescribeProducersResponse_default :: DescribeProducersResponse where
  "DescribeProducersResponse_default =
     \<lparr>dp_resp_throttle_time_ms = 0, dp_resp_topics = [], dp_resp_unknown_tagged_fields = []\<rparr>"

definition DescribeProducersResponse_MIN_VERSION :: i16 where
  "DescribeProducersResponse_MIN_VERSION = 0"

definition DescribeProducersResponse_MAX_VERSION :: i16 where
  "DescribeProducersResponse_MAX_VERSION = 0"

definition DescribeProducersResponse_FLEXIBLE_MIN :: i16 where
  "DescribeProducersResponse_FLEXIBLE_MIN = 0"

definition DescribeProducersResponse_API_KEY :: i16 where
  "DescribeProducersResponse_API_KEY = 61"

definition DescribeProducersResponse_is_flexible :: "i16 \<Rightarrow> bool" where
  "DescribeProducersResponse_is_flexible version \<longleftrightarrow> DescribeProducersResponse_FLEXIBLE_MIN \<le>s version"

definition DescribeProducersResponse_encode :: "DescribeProducersResponse \<Rightarrow> i16 \<Rightarrow> encoder" where
  "DescribeProducersResponse_encode x version =
     (let flex = DescribeProducersResponse_is_flexible version in
      write_all
        [write_check (check_version DescribeProducersResponse_API_KEY version DescribeProducersResponse_MIN_VERSION DescribeProducersResponse_MAX_VERSION),
         put_when (0 \<le>s version) (put_i32 (dp_resp_throttle_time_ms x)),
         put_when (0 \<le>s version) (put_array flex (\<lambda>it. DescribeProducersResponse_TopicResponse_encode it version) (dp_resp_topics x)),
         put_when flex (put_tagged [] (dp_resp_unknown_tagged_fields x))])"

definition DescribeProducersResponse_encoded_len :: "DescribeProducersResponse \<Rightarrow> i16 \<Rightarrow> nat" where
  "DescribeProducersResponse_encoded_len x version =
     (let flex = DescribeProducersResponse_is_flexible version in
      len_when (0 \<le>s version) 4
      + len_when (0 \<le>s version) (array_size flex (\<lambda>it. DescribeProducersResponse_TopicResponse_encoded_len it version) (dp_resp_topics x))
      + len_when flex (tagged_size [] (dp_resp_unknown_tagged_fields x)))"

definition DescribeProducersResponse_decode :: "i16 \<Rightarrow> DescribeProducersResponse decoder" where
  "DescribeProducersResponse_decode version =
     (let flex = DescribeProducersResponse_is_flexible version in
      checked (check_version DescribeProducersResponse_API_KEY version DescribeProducersResponse_MIN_VERSION DescribeProducersResponse_MAX_VERSION) (
        read_then (get_into (0 \<le>s version) get_i32 (\<lambda>v out. out\<lparr>dp_resp_throttle_time_ms := v\<rparr>) DescribeProducersResponse_default) (\<lambda>out.
        read_then (get_into (0 \<le>s version) (get_array flex (DescribeProducersResponse_TopicResponse_decode version)) (\<lambda>v out. out\<lparr>dp_resp_topics := v\<rparr>) out) (\<lambda>out.
        get_trailer flex [] (\<lambda>u out. out\<lparr>dp_resp_unknown_tagged_fields := u\<rparr>) out))))"

definition DescribeProducersResponse_fields_wf :: "i16 \<Rightarrow> DescribeProducersResponse \<Rightarrow> bool" where
  "DescribeProducersResponse_fields_wf version x \<longleftrightarrow>
     (let flex = DescribeProducersResponse_is_flexible version in
      array_ok flex (DescribeProducersResponse_TopicResponse_wf version) (dp_resp_topics x))"

definition DescribeProducersResponse_wf :: "i16 \<Rightarrow> DescribeProducersResponse \<Rightarrow> bool" where
  "DescribeProducersResponse_wf version x \<longleftrightarrow>
     version_in DescribeProducersResponse_MIN_VERSION DescribeProducersResponse_MAX_VERSION version \<and> DescribeProducersResponse_fields_wf version x \<and> trailer_ok [] [] (dp_resp_unknown_tagged_fields x)"

lemmas describe_producers_response_versions =
    DescribeProducersResponse_is_flexible_def DescribeProducersResponse_FLEXIBLE_MIN_def
    DescribeProducersResponse_MIN_VERSION_def DescribeProducersResponse_MAX_VERSION_def version_in_def

lemmas describe_producers_response_fields =
    Let_def field_ok_def DescribeProducersResponse_fields_wf_def DescribeProducersResponse_is_flexible_def
    DescribeProducersResponse_FLEXIBLE_MIN_def

lemma describe_producers_response_steps:
  assumes v: "0 \<le>s version" and flex: "flex = (DescribeProducersResponse_is_flexible version)"
  shows "keeps (DescribeProducersResponse_fields_wf version) (get_into (0 \<le>s version) get_i32 (\<lambda>v out. out\<lparr>dp_resp_throttle_time_ms := v\<rparr>))"
    and "keeps (DescribeProducersResponse_fields_wf version) (get_into (0 \<le>s version) (get_array flex (DescribeProducersResponse_TopicResponse_decode version)) (\<lambda>v out. out\<lparr>dp_resp_topics := v\<rparr>))"
  unfolding flex 
  by (rule keeps_into; (rule yields_rules)?; simp add: v describe_producers_response_fields)+

lemma describe_producers_response_unknown:
  "DescribeProducersResponse_fields_wf version (s\<lparr>dp_resp_unknown_tagged_fields := u\<rparr>) = DescribeProducersResponse_fields_wf version s"
  by (simp_all add: DescribeProducersResponse_fields_wf_def)

lemma describe_producers_response_yields:
  assumes r: "version_in DescribeProducersResponse_MIN_VERSION DescribeProducersResponse_MAX_VERSION version"
  shows "yields 1 (DescribeProducersResponse_decode version) (DescribeProducersResponse_wf version)"
proof -
  have v: "0 \<le>s version"
    using r by (simp add: describe_producers_response_versions)
  have d: "DescribeProducersResponse_fields_wf version DescribeProducersResponse_default"
    by (simp add: DescribeProducersResponse_default_def v describe_producers_response_fields)
  show ?thesis
    unfolding DescribeProducersResponse_decode_def Let_def
    by (rule yields_checked, (rule describe_producers_response_steps[OF v refl, THEN yields_step], (rule d | assumption))+, rule yields_trailer[OF _ arms_keep_Nil[of "DescribeProducersResponse_fields_wf version" "\<lambda>_. 0"]])
      (simp_all add: v d describe_producers_response_unknown DescribeProducersResponse_wf_def trailer_ok_def r DescribeProducersResponse_is_flexible_def DescribeProducersResponse_FLEXIBLE_MIN_def)
qed

interpretation describe_producers_response: message_codec
  DescribeProducersResponse_encode DescribeProducersResponse_decode DescribeProducersResponse_encoded_len "DescribeProducersResponse_wf version" version
  for version
proof
  fix x
  assume w: "DescribeProducersResponse_wf version x"
  then have v: "0 \<le>s version"
    by (simp add: DescribeProducersResponse_wf_def describe_producers_response_versions)
  show "carries (DescribeProducersResponse_encode x version) (DescribeProducersResponse_decode version) (DescribeProducersResponse_encoded_len x version) x"
    unfolding DescribeProducersResponse_encode_def DescribeProducersResponse_encoded_len_def DescribeProducersResponse_decode_def Let_def
    by (use w[unfolded DescribeProducersResponse_wf_def DescribeProducersResponse_fields_wf_def Let_def] in \<open>elim conjE\<close>, rule carries_cong_len)
      ((rule carries_rules check_version_in[THEN iffD2] | (erule absent_guarded, assumption) | erule absent_plain
        | simp add: v field_ok_def DescribeProducersResponse_default_def describe_producers_response_versions)+)
next
  show "yields 1 (DescribeProducersResponse_decode version) (DescribeProducersResponse_wf version)"
    by (rule case_split[OF describe_producers_response_yields]) (auto simp: DescribeProducersResponse_decode_def Let_def yields_refused yields_unsupported)
  show "extends_input (DescribeProducersResponse_decode version)"
    unfolding DescribeProducersResponse_decode_def Let_def by (intro extends_rules)
qed

section \<open>DescribeTransactionsRequest\<close>

record DescribeTransactionsRequest =
  dt_req_transactional_ids :: "bytes list"
  dt_req_unknown_tagged_fields :: "UnknownTaggedField list"

definition DescribeTransactionsRequest_default :: DescribeTransactionsRequest where
  "DescribeTransactionsRequest_default =
     \<lparr>dt_req_transactional_ids = [], dt_req_unknown_tagged_fields = []\<rparr>"

definition DescribeTransactionsRequest_MIN_VERSION :: i16 where
  "DescribeTransactionsRequest_MIN_VERSION = 0"

definition DescribeTransactionsRequest_MAX_VERSION :: i16 where
  "DescribeTransactionsRequest_MAX_VERSION = 0"

definition DescribeTransactionsRequest_FLEXIBLE_MIN :: i16 where
  "DescribeTransactionsRequest_FLEXIBLE_MIN = 0"

definition DescribeTransactionsRequest_API_KEY :: i16 where
  "DescribeTransactionsRequest_API_KEY = 65"

definition DescribeTransactionsRequest_is_flexible :: "i16 \<Rightarrow> bool" where
  "DescribeTransactionsRequest_is_flexible version \<longleftrightarrow> DescribeTransactionsRequest_FLEXIBLE_MIN \<le>s version"

definition DescribeTransactionsRequest_encode :: "DescribeTransactionsRequest \<Rightarrow> i16 \<Rightarrow> encoder" where
  "DescribeTransactionsRequest_encode x version =
     (let flex = DescribeTransactionsRequest_is_flexible version in
      write_all
        [write_check (check_version DescribeTransactionsRequest_API_KEY version DescribeTransactionsRequest_MIN_VERSION DescribeTransactionsRequest_MAX_VERSION),
         put_when (0 \<le>s version) (put_array flex (put_str flex) (dt_req_transactional_ids x)),
         put_when flex (put_tagged [] (dt_req_unknown_tagged_fields x))])"

definition DescribeTransactionsRequest_encoded_len :: "DescribeTransactionsRequest \<Rightarrow> i16 \<Rightarrow> nat" where
  "DescribeTransactionsRequest_encoded_len x version =
     (let flex = DescribeTransactionsRequest_is_flexible version in
      len_when (0 \<le>s version) (array_size flex (str_len flex) (dt_req_transactional_ids x))
      + len_when flex (tagged_size [] (dt_req_unknown_tagged_fields x)))"

definition DescribeTransactionsRequest_decode :: "i16 \<Rightarrow> DescribeTransactionsRequest decoder" where
  "DescribeTransactionsRequest_decode version =
     (let flex = DescribeTransactionsRequest_is_flexible version in
      checked (check_version DescribeTransactionsRequest_API_KEY version DescribeTransactionsRequest_MIN_VERSION DescribeTransactionsRequest_MAX_VERSION) (
        read_then (get_into (0 \<le>s version) (get_array flex (get_str flex)) (\<lambda>v out. out\<lparr>dt_req_transactional_ids := v\<rparr>) DescribeTransactionsRequest_default) (\<lambda>out.
        get_trailer flex [] (\<lambda>u out. out\<lparr>dt_req_unknown_tagged_fields := u\<rparr>) out)))"

definition DescribeTransactionsRequest_fields_wf :: "i16 \<Rightarrow> DescribeTransactionsRequest \<Rightarrow> bool" where
  "DescribeTransactionsRequest_fields_wf version x \<longleftrightarrow>
     (let flex = DescribeTransactionsRequest_is_flexible version in
      array_ok flex (str_wf flex) (dt_req_transactional_ids x))"

definition DescribeTransactionsRequest_wf :: "i16 \<Rightarrow> DescribeTransactionsRequest \<Rightarrow> bool" where
  "DescribeTransactionsRequest_wf version x \<longleftrightarrow>
     version_in DescribeTransactionsRequest_MIN_VERSION DescribeTransactionsRequest_MAX_VERSION version \<and> DescribeTransactionsRequest_fields_wf version x \<and> trailer_ok [] [] (dt_req_unknown_tagged_fields x)"

lemmas describe_transactions_request_versions =
    DescribeTransactionsRequest_is_flexible_def DescribeTransactionsRequest_FLEXIBLE_MIN_def
    DescribeTransactionsRequest_MIN_VERSION_def DescribeTransactionsRequest_MAX_VERSION_def version_in_def

lemmas describe_transactions_request_fields =
    Let_def field_ok_def DescribeTransactionsRequest_fields_wf_def DescribeTransactionsRequest_is_flexible_def
    DescribeTransactionsRequest_FLEXIBLE_MIN_def

lemma describe_transactions_request_steps:
  assumes v: "0 \<le>s version" and flex: "flex = (DescribeTransactionsRequest_is_flexible version)"
  shows "keeps (DescribeTransactionsRequest_fields_wf version) (get_into (0 \<le>s version) (get_array flex (get_str flex)) (\<lambda>v out. out\<lparr>dt_req_transactional_ids := v\<rparr>))"
  unfolding flex 
  by (rule keeps_into; (rule yields_rules)?; simp add: v describe_transactions_request_fields)+

lemma describe_transactions_request_unknown:
  "DescribeTransactionsRequest_fields_wf version (s\<lparr>dt_req_unknown_tagged_fields := u\<rparr>) = DescribeTransactionsRequest_fields_wf version s"
  by (simp_all add: DescribeTransactionsRequest_fields_wf_def)

lemma describe_transactions_request_yields:
  assumes r: "version_in DescribeTransactionsRequest_MIN_VERSION DescribeTransactionsRequest_MAX_VERSION version"
  shows "yields 1 (DescribeTransactionsRequest_decode version) (DescribeTransactionsRequest_wf version)"
proof -
  have v: "0 \<le>s version"
    using r by (simp add: describe_transactions_request_versions)
  have d: "DescribeTransactionsRequest_fields_wf version DescribeTransactionsRequest_default"
    by (simp add: DescribeTransactionsRequest_default_def v describe_transactions_request_fields)
  show ?thesis
    unfolding DescribeTransactionsRequest_decode_def Let_def
    by (rule yields_checked, (rule describe_transactions_request_steps[OF v refl, THEN yields_step], (rule d | assumption))+, rule yields_trailer[OF _ arms_keep_Nil[of "DescribeTransactionsRequest_fields_wf version" "\<lambda>_. 0"]])
      (simp_all add: v d describe_transactions_request_unknown DescribeTransactionsRequest_wf_def trailer_ok_def r DescribeTransactionsRequest_is_flexible_def DescribeTransactionsRequest_FLEXIBLE_MIN_def)
qed

interpretation describe_transactions_request: message_codec
  DescribeTransactionsRequest_encode DescribeTransactionsRequest_decode DescribeTransactionsRequest_encoded_len "DescribeTransactionsRequest_wf version" version
  for version
proof
  fix x
  assume w: "DescribeTransactionsRequest_wf version x"
  then have v: "0 \<le>s version"
    by (simp add: DescribeTransactionsRequest_wf_def describe_transactions_request_versions)
  show "carries (DescribeTransactionsRequest_encode x version) (DescribeTransactionsRequest_decode version) (DescribeTransactionsRequest_encoded_len x version) x"
    unfolding DescribeTransactionsRequest_encode_def DescribeTransactionsRequest_encoded_len_def DescribeTransactionsRequest_decode_def Let_def
    by (use w[unfolded DescribeTransactionsRequest_wf_def DescribeTransactionsRequest_fields_wf_def Let_def] in \<open>elim conjE\<close>, rule carries_cong_len)
      ((rule carries_rules check_version_in[THEN iffD2] | (erule absent_guarded, assumption) | erule absent_plain
        | simp add: v field_ok_def DescribeTransactionsRequest_default_def describe_transactions_request_versions)+)
next
  show "yields 1 (DescribeTransactionsRequest_decode version) (DescribeTransactionsRequest_wf version)"
    by (rule case_split[OF describe_transactions_request_yields]) (auto simp: DescribeTransactionsRequest_decode_def Let_def yields_refused yields_unsupported)
  show "extends_input (DescribeTransactionsRequest_decode version)"
    unfolding DescribeTransactionsRequest_decode_def Let_def by (intro extends_rules)
qed

section \<open>DescribeTransactionsResponse\<close>

record DescribeTransactionsResponse_TopicData =
  dt_resp_td_topic :: bytes
  dt_resp_td_partitions :: "i32 list"
  dt_resp_td_unknown_tagged_fields :: "UnknownTaggedField list"

definition DescribeTransactionsResponse_TopicData_default :: DescribeTransactionsResponse_TopicData where
  "DescribeTransactionsResponse_TopicData_default =
     \<lparr>dt_resp_td_topic = [], dt_resp_td_partitions = [], dt_resp_td_unknown_tagged_fields = []\<rparr>"

definition DescribeTransactionsResponse_TopicData_encode :: "DescribeTransactionsResponse_TopicData \<Rightarrow> i16 \<Rightarrow> encoder" where
  "DescribeTransactionsResponse_TopicData_encode x version =
     (let flex = 0 \<le>s version in
      write_all
        [put_when (0 \<le>s version) (put_str flex (dt_resp_td_topic x)),
         put_when (0 \<le>s version) (put_array flex put_i32 (dt_resp_td_partitions x)),
         put_when flex (put_tagged [] (dt_resp_td_unknown_tagged_fields x))])"

definition DescribeTransactionsResponse_TopicData_encoded_len :: "DescribeTransactionsResponse_TopicData \<Rightarrow> i16 \<Rightarrow> nat" where
  "DescribeTransactionsResponse_TopicData_encoded_len x version =
     (let flex = 0 \<le>s version in
      len_when (0 \<le>s version) (str_len flex (dt_resp_td_topic x))
      + len_when (0 \<le>s version) (array_size flex (\<lambda>_. 4) (dt_resp_td_partitions x))
      + len_when flex (tagged_size [] (dt_resp_td_unknown_tagged_fields x)))"

definition DescribeTransactionsResponse_TopicData_decode :: "i16 \<Rightarrow> DescribeTransactionsResponse_TopicData decoder" where
  "DescribeTransactionsResponse_TopicData_decode version =
     (let flex = 0 \<le>s version in
      read_then (get_into (0 \<le>s version) (get_str flex) (\<lambda>v out. out\<lparr>dt_resp_td_topic := v\<rparr>) DescribeTransactionsResponse_TopicData_default) (\<lambda>out.
        read_then (get_into (0 \<le>s version) (get_array flex get_i32) (\<lambda>v out. out\<lparr>dt_resp_td_partitions := v\<rparr>) out) (\<lambda>out.
        get_trailer flex [] (\<lambda>u out. out\<lparr>dt_resp_td_unknown_tagged_fields := u\<rparr>) out)))"

definition DescribeTransactionsResponse_TopicData_fields_wf :: "i16 \<Rightarrow> DescribeTransactionsResponse_TopicData \<Rightarrow> bool" where
  "DescribeTransactionsResponse_TopicData_fields_wf version x \<longleftrightarrow>
     (let flex = 0 \<le>s version in
      str_wf flex (dt_resp_td_topic x)
      \<and> array_ok flex (\<lambda>_. True) (dt_resp_td_partitions x))"

definition DescribeTransactionsResponse_TopicData_wf :: "i16 \<Rightarrow> DescribeTransactionsResponse_TopicData \<Rightarrow> bool" where
  "DescribeTransactionsResponse_TopicData_wf version x \<longleftrightarrow>
     DescribeTransactionsResponse_TopicData_fields_wf version x \<and> trailer_ok [] [] (dt_resp_td_unknown_tagged_fields x)"

lemmas describe_transactions_response_topic_data_fields =
    Let_def field_ok_def DescribeTransactionsResponse_TopicData_fields_wf_def

lemma describe_transactions_response_topic_data_steps:
  assumes v: "0 \<le>s version" and flex: "flex = (0 \<le>s version)"
  shows "keeps (DescribeTransactionsResponse_TopicData_fields_wf version) (get_into (0 \<le>s version) (get_str flex) (\<lambda>v out. out\<lparr>dt_resp_td_topic := v\<rparr>))"
    and "keeps (DescribeTransactionsResponse_TopicData_fields_wf version) (get_into (0 \<le>s version) (get_array flex get_i32) (\<lambda>v out. out\<lparr>dt_resp_td_partitions := v\<rparr>))"
  unfolding flex 
  by (rule keeps_into; (rule yields_rules)?; simp add: v describe_transactions_response_topic_data_fields)+

lemma describe_transactions_response_topic_data_unknown:
  "DescribeTransactionsResponse_TopicData_fields_wf version (s\<lparr>dt_resp_td_unknown_tagged_fields := u\<rparr>) = DescribeTransactionsResponse_TopicData_fields_wf version s"
  by (simp_all add: DescribeTransactionsResponse_TopicData_fields_wf_def)

lemma describe_transactions_response_topic_data_yields:
  assumes v: "0 \<le>s version"
  shows "yields 1 (DescribeTransactionsResponse_TopicData_decode version) (DescribeTransactionsResponse_TopicData_wf version)"
proof -
  have d: "DescribeTransactionsResponse_TopicData_fields_wf version DescribeTransactionsResponse_TopicData_default"
    by (simp add: DescribeTransactionsResponse_TopicData_default_def v describe_transactions_response_topic_data_fields)
  show ?thesis
    unfolding DescribeTransactionsResponse_TopicData_decode_def Let_def
    by ((rule describe_transactions_response_topic_data_steps[OF v refl, THEN yields_step], (rule d | assumption))+, rule yields_trailer[OF _ arms_keep_Nil[of "DescribeTransactionsResponse_TopicData_fields_wf version" "\<lambda>_. 0"]])
      (simp_all add: v d describe_transactions_response_topic_data_unknown DescribeTransactionsResponse_TopicData_wf_def trailer_ok_def )
qed

lemma describe_transactions_response_topic_data_extends [extends_rules]: "extends_input (DescribeTransactionsResponse_TopicData_decode version)"
  unfolding DescribeTransactionsResponse_TopicData_decode_def Let_def by (intro extends_rules)

lemma describe_transactions_response_topic_data_codec:
  assumes v: "0 \<le>s version"
  shows "message_codec DescribeTransactionsResponse_TopicData_encode DescribeTransactionsResponse_TopicData_decode DescribeTransactionsResponse_TopicData_encoded_len (DescribeTransactionsResponse_TopicData_wf version) version"
proof
  fix x
  assume w: "DescribeTransactionsResponse_TopicData_wf version x"
  show "carries (DescribeTransactionsResponse_TopicData_encode x version) (DescribeTransactionsResponse_TopicData_decode version) (DescribeTransactionsResponse_TopicData_encoded_len x version) x"
    unfolding DescribeTransactionsResponse_TopicData_encode_def DescribeTransactionsResponse_TopicData_encoded_len_def DescribeTransactionsResponse_TopicData_decode_def Let_def
    by (use w[unfolded DescribeTransactionsResponse_TopicData_wf_def DescribeTransactionsResponse_TopicData_fields_wf_def Let_def] in \<open>elim conjE\<close>, rule carries_cong_len)
      ((rule carries_rules | (erule absent_guarded, assumption) | erule absent_plain
        | simp add: v field_ok_def DescribeTransactionsResponse_TopicData_default_def )+)
next
  show "yields 1 (DescribeTransactionsResponse_TopicData_decode version) (DescribeTransactionsResponse_TopicData_wf version)"
    by (rule describe_transactions_response_topic_data_yields[OF v])
qed (rule describe_transactions_response_topic_data_extends)

lemma describe_transactions_response_topic_data_default_wf [simp]: "0 \<le>s version \<Longrightarrow> DescribeTransactionsResponse_TopicData_wf version DescribeTransactionsResponse_TopicData_default"
  by (simp add: DescribeTransactionsResponse_TopicData_wf_def DescribeTransactionsResponse_TopicData_default_def trailer_ok_def describe_transactions_response_topic_data_fields)

lemmas [carries_rules] = message_codec.message_carries[OF describe_transactions_response_topic_data_codec]
lemmas [yields_rules] = message_codec.message_yields[OF describe_transactions_response_topic_data_codec]

lemmas [carries_rules] = protocol_codec.put_array_carries[OF message_codec.message_protocol[OF describe_transactions_response_topic_data_codec]]
lemmas [yields_rules] = protocol_codec.get_array_yields[OF message_codec.message_protocol[OF describe_transactions_response_topic_data_codec]]
lemmas [carries_rules] = protocol_codec.put_nullable_array_carries[OF message_codec.message_protocol[OF describe_transactions_response_topic_data_codec]]
lemmas [yields_rules] = protocol_codec.get_nullable_array_yields[OF message_codec.message_protocol[OF describe_transactions_response_topic_data_codec]]

record DescribeTransactionsResponse_TransactionState =
  dt_resp_ts_error_code :: i16
  dt_resp_ts_transactional_id :: bytes
  dt_resp_ts_transaction_state :: bytes
  dt_resp_ts_transaction_timeout_ms :: i32
  dt_resp_ts_transaction_start_time_ms :: i64
  dt_resp_ts_producer_id :: i64
  dt_resp_ts_producer_epoch :: i16
  dt_resp_ts_topics :: "DescribeTransactionsResponse_TopicData list"
  dt_resp_ts_unknown_tagged_fields :: "UnknownTaggedField list"

definition DescribeTransactionsResponse_TransactionState_default :: DescribeTransactionsResponse_TransactionState where
  "DescribeTransactionsResponse_TransactionState_default =
     \<lparr>dt_resp_ts_error_code = 0, dt_resp_ts_transactional_id = [], dt_resp_ts_transaction_state = [], dt_resp_ts_transaction_timeout_ms = 0, dt_resp_ts_transaction_start_time_ms = 0, dt_resp_ts_producer_id = 0, dt_resp_ts_producer_epoch = 0, dt_resp_ts_topics = [], dt_resp_ts_unknown_tagged_fields = []\<rparr>"

definition DescribeTransactionsResponse_TransactionState_encode_field_0 :: "DescribeTransactionsResponse_TransactionState \<Rightarrow> i16 \<Rightarrow> bool \<Rightarrow> encoder" where
  "DescribeTransactionsResponse_TransactionState_encode_field_0 x version flex = put_when (0 \<le>s version) (put_i16 (dt_resp_ts_error_code x))"

definition DescribeTransactionsResponse_TransactionState_encode_field_1 :: "DescribeTransactionsResponse_TransactionState \<Rightarrow> i16 \<Rightarrow> bool \<Rightarrow> encoder" where
  "DescribeTransactionsResponse_TransactionState_encode_field_1 x version flex = put_when (0 \<le>s version) (put_str flex (dt_resp_ts_transactional_id x))"

definition DescribeTransactionsResponse_TransactionState_encode_field_2 :: "DescribeTransactionsResponse_TransactionState \<Rightarrow> i16 \<Rightarrow> bool \<Rightarrow> encoder" where
  "DescribeTransactionsResponse_TransactionState_encode_field_2 x version flex = put_when (0 \<le>s version) (put_str flex (dt_resp_ts_transaction_state x))"

definition DescribeTransactionsResponse_TransactionState_encode_field_3 :: "DescribeTransactionsResponse_TransactionState \<Rightarrow> i16 \<Rightarrow> bool \<Rightarrow> encoder" where
  "DescribeTransactionsResponse_TransactionState_encode_field_3 x version flex = put_when (0 \<le>s version) (put_i32 (dt_resp_ts_transaction_timeout_ms x))"

definition DescribeTransactionsResponse_TransactionState_encode_field_4 :: "DescribeTransactionsResponse_TransactionState \<Rightarrow> i16 \<Rightarrow> bool \<Rightarrow> encoder" where
  "DescribeTransactionsResponse_TransactionState_encode_field_4 x version flex = put_when (0 \<le>s version) (put_i64 (dt_resp_ts_transaction_start_time_ms x))"

definition DescribeTransactionsResponse_TransactionState_encode_field_5 :: "DescribeTransactionsResponse_TransactionState \<Rightarrow> i16 \<Rightarrow> bool \<Rightarrow> encoder" where
  "DescribeTransactionsResponse_TransactionState_encode_field_5 x version flex = put_when (0 \<le>s version) (put_i64 (dt_resp_ts_producer_id x))"

definition DescribeTransactionsResponse_TransactionState_encode_field_6 :: "DescribeTransactionsResponse_TransactionState \<Rightarrow> i16 \<Rightarrow> bool \<Rightarrow> encoder" where
  "DescribeTransactionsResponse_TransactionState_encode_field_6 x version flex = put_when (0 \<le>s version) (put_i16 (dt_resp_ts_producer_epoch x))"

definition DescribeTransactionsResponse_TransactionState_encode_field_7 :: "DescribeTransactionsResponse_TransactionState \<Rightarrow> i16 \<Rightarrow> bool \<Rightarrow> encoder" where
  "DescribeTransactionsResponse_TransactionState_encode_field_7 x version flex = put_when (0 \<le>s version) (put_array flex (\<lambda>it. DescribeTransactionsResponse_TopicData_encode it version) (dt_resp_ts_topics x))"

definition DescribeTransactionsResponse_TransactionState_encode_tagged_fields :: "DescribeTransactionsResponse_TransactionState \<Rightarrow> i16 \<Rightarrow> bool \<Rightarrow> encoder" where
  "DescribeTransactionsResponse_TransactionState_encode_tagged_fields x version flex =
     put_when flex (put_tagged
       []
       (dt_resp_ts_unknown_tagged_fields x))"

definition DescribeTransactionsResponse_TransactionState_encode :: "DescribeTransactionsResponse_TransactionState \<Rightarrow> i16 \<Rightarrow> encoder" where
  "DescribeTransactionsResponse_TransactionState_encode x version =
     (let flex = 0 \<le>s version in
      write_all
        [DescribeTransactionsResponse_TransactionState_encode_field_0 x version flex,
         DescribeTransactionsResponse_TransactionState_encode_field_1 x version flex,
         DescribeTransactionsResponse_TransactionState_encode_field_2 x version flex,
         DescribeTransactionsResponse_TransactionState_encode_field_3 x version flex,
         DescribeTransactionsResponse_TransactionState_encode_field_4 x version flex,
         DescribeTransactionsResponse_TransactionState_encode_field_5 x version flex,
         DescribeTransactionsResponse_TransactionState_encode_field_6 x version flex,
         DescribeTransactionsResponse_TransactionState_encode_field_7 x version flex,
         DescribeTransactionsResponse_TransactionState_encode_tagged_fields x version flex])"

definition DescribeTransactionsResponse_TransactionState_encoded_len :: "DescribeTransactionsResponse_TransactionState \<Rightarrow> i16 \<Rightarrow> nat" where
  "DescribeTransactionsResponse_TransactionState_encoded_len x version =
     (let flex = 0 \<le>s version in
      len_when (0 \<le>s version) 2
      + len_when (0 \<le>s version) (str_len flex (dt_resp_ts_transactional_id x))
      + len_when (0 \<le>s version) (str_len flex (dt_resp_ts_transaction_state x))
      + len_when (0 \<le>s version) 4
      + len_when (0 \<le>s version) 8
      + len_when (0 \<le>s version) 8
      + len_when (0 \<le>s version) 2
      + len_when (0 \<le>s version) (array_size flex (\<lambda>it. DescribeTransactionsResponse_TopicData_encoded_len it version) (dt_resp_ts_topics x))
      + len_when flex (tagged_size [] (dt_resp_ts_unknown_tagged_fields x)))"

definition DescribeTransactionsResponse_TransactionState_decode_field_0 :: "DescribeTransactionsResponse_TransactionState \<Rightarrow> i16 \<Rightarrow> bool \<Rightarrow> DescribeTransactionsResponse_TransactionState decoder" where
  "DescribeTransactionsResponse_TransactionState_decode_field_0 out version flex = get_into (0 \<le>s version) get_i16 (\<lambda>v out. out\<lparr>dt_resp_ts_error_code := v\<rparr>) out"

definition DescribeTransactionsResponse_TransactionState_decode_field_1 :: "DescribeTransactionsResponse_TransactionState \<Rightarrow> i16 \<Rightarrow> bool \<Rightarrow> DescribeTransactionsResponse_TransactionState decoder" where
  "DescribeTransactionsResponse_TransactionState_decode_field_1 out version flex = get_into (0 \<le>s version) (get_str flex) (\<lambda>v out. out\<lparr>dt_resp_ts_transactional_id := v\<rparr>) out"

definition DescribeTransactionsResponse_TransactionState_decode_field_2 :: "DescribeTransactionsResponse_TransactionState \<Rightarrow> i16 \<Rightarrow> bool \<Rightarrow> DescribeTransactionsResponse_TransactionState decoder" where
  "DescribeTransactionsResponse_TransactionState_decode_field_2 out version flex = get_into (0 \<le>s version) (get_str flex) (\<lambda>v out. out\<lparr>dt_resp_ts_transaction_state := v\<rparr>) out"

definition DescribeTransactionsResponse_TransactionState_decode_field_3 :: "DescribeTransactionsResponse_TransactionState \<Rightarrow> i16 \<Rightarrow> bool \<Rightarrow> DescribeTransactionsResponse_TransactionState decoder" where
  "DescribeTransactionsResponse_TransactionState_decode_field_3 out version flex = get_into (0 \<le>s version) get_i32 (\<lambda>v out. out\<lparr>dt_resp_ts_transaction_timeout_ms := v\<rparr>) out"

definition DescribeTransactionsResponse_TransactionState_decode_field_4 :: "DescribeTransactionsResponse_TransactionState \<Rightarrow> i16 \<Rightarrow> bool \<Rightarrow> DescribeTransactionsResponse_TransactionState decoder" where
  "DescribeTransactionsResponse_TransactionState_decode_field_4 out version flex = get_into (0 \<le>s version) get_i64 (\<lambda>v out. out\<lparr>dt_resp_ts_transaction_start_time_ms := v\<rparr>) out"

definition DescribeTransactionsResponse_TransactionState_decode_field_5 :: "DescribeTransactionsResponse_TransactionState \<Rightarrow> i16 \<Rightarrow> bool \<Rightarrow> DescribeTransactionsResponse_TransactionState decoder" where
  "DescribeTransactionsResponse_TransactionState_decode_field_5 out version flex = get_into (0 \<le>s version) get_i64 (\<lambda>v out. out\<lparr>dt_resp_ts_producer_id := v\<rparr>) out"

definition DescribeTransactionsResponse_TransactionState_decode_field_6 :: "DescribeTransactionsResponse_TransactionState \<Rightarrow> i16 \<Rightarrow> bool \<Rightarrow> DescribeTransactionsResponse_TransactionState decoder" where
  "DescribeTransactionsResponse_TransactionState_decode_field_6 out version flex = get_into (0 \<le>s version) get_i16 (\<lambda>v out. out\<lparr>dt_resp_ts_producer_epoch := v\<rparr>) out"

definition DescribeTransactionsResponse_TransactionState_decode_field_7 :: "DescribeTransactionsResponse_TransactionState \<Rightarrow> i16 \<Rightarrow> bool \<Rightarrow> DescribeTransactionsResponse_TransactionState decoder" where
  "DescribeTransactionsResponse_TransactionState_decode_field_7 out version flex = get_into (0 \<le>s version) (get_array flex (DescribeTransactionsResponse_TopicData_decode version)) (\<lambda>v out. out\<lparr>dt_resp_ts_topics := v\<rparr>) out"

definition DescribeTransactionsResponse_TransactionState_decode_tagged_fields :: "DescribeTransactionsResponse_TransactionState \<Rightarrow> i16 \<Rightarrow> bool \<Rightarrow> DescribeTransactionsResponse_TransactionState decoder" where
  "DescribeTransactionsResponse_TransactionState_decode_tagged_fields out version flex =
     get_trailer flex
       []
       (\<lambda>u out. out\<lparr>dt_resp_ts_unknown_tagged_fields := u\<rparr>) out"

definition DescribeTransactionsResponse_TransactionState_decode :: "i16 \<Rightarrow> DescribeTransactionsResponse_TransactionState decoder" where
  "DescribeTransactionsResponse_TransactionState_decode version =
     (let flex = 0 \<le>s version in
      read_then (DescribeTransactionsResponse_TransactionState_decode_field_0 DescribeTransactionsResponse_TransactionState_default version flex) (\<lambda>out.
        read_then (DescribeTransactionsResponse_TransactionState_decode_field_1 out version flex) (\<lambda>out.
        read_then (DescribeTransactionsResponse_TransactionState_decode_field_2 out version flex) (\<lambda>out.
        read_then (DescribeTransactionsResponse_TransactionState_decode_field_3 out version flex) (\<lambda>out.
        read_then (DescribeTransactionsResponse_TransactionState_decode_field_4 out version flex) (\<lambda>out.
        read_then (DescribeTransactionsResponse_TransactionState_decode_field_5 out version flex) (\<lambda>out.
        read_then (DescribeTransactionsResponse_TransactionState_decode_field_6 out version flex) (\<lambda>out.
        read_then (DescribeTransactionsResponse_TransactionState_decode_field_7 out version flex) (\<lambda>out.
        DescribeTransactionsResponse_TransactionState_decode_tagged_fields out version flex)))))))))"

definition DescribeTransactionsResponse_TransactionState_fields_wf :: "i16 \<Rightarrow> DescribeTransactionsResponse_TransactionState \<Rightarrow> bool" where
  "DescribeTransactionsResponse_TransactionState_fields_wf version x \<longleftrightarrow>
     (let flex = 0 \<le>s version in
      str_wf flex (dt_resp_ts_transactional_id x)
      \<and> str_wf flex (dt_resp_ts_transaction_state x)
      \<and> array_ok flex (DescribeTransactionsResponse_TopicData_wf version) (dt_resp_ts_topics x))"

definition DescribeTransactionsResponse_TransactionState_wf :: "i16 \<Rightarrow> DescribeTransactionsResponse_TransactionState \<Rightarrow> bool" where
  "DescribeTransactionsResponse_TransactionState_wf version x \<longleftrightarrow>
     DescribeTransactionsResponse_TransactionState_fields_wf version x \<and> trailer_ok [] [] (dt_resp_ts_unknown_tagged_fields x)"

lemmas describe_transactions_response_transaction_state_fields =
    Let_def field_ok_def DescribeTransactionsResponse_TransactionState_fields_wf_def

lemmas describe_transactions_response_transaction_state_writers =
    DescribeTransactionsResponse_TransactionState_encode_field_0_def
    DescribeTransactionsResponse_TransactionState_encode_field_1_def
    DescribeTransactionsResponse_TransactionState_encode_field_2_def
    DescribeTransactionsResponse_TransactionState_encode_field_3_def
    DescribeTransactionsResponse_TransactionState_encode_field_4_def
    DescribeTransactionsResponse_TransactionState_encode_field_5_def
    DescribeTransactionsResponse_TransactionState_encode_field_6_def
    DescribeTransactionsResponse_TransactionState_encode_field_7_def
    DescribeTransactionsResponse_TransactionState_encode_tagged_fields_def

lemmas describe_transactions_response_transaction_state_readers =
    DescribeTransactionsResponse_TransactionState_decode_field_0_def
    DescribeTransactionsResponse_TransactionState_decode_field_1_def
    DescribeTransactionsResponse_TransactionState_decode_field_2_def
    DescribeTransactionsResponse_TransactionState_decode_field_3_def
    DescribeTransactionsResponse_TransactionState_decode_field_4_def
    DescribeTransactionsResponse_TransactionState_decode_field_5_def
    DescribeTransactionsResponse_TransactionState_decode_field_6_def
    DescribeTransactionsResponse_TransactionState_decode_field_7_def
    DescribeTransactionsResponse_TransactionState_decode_tagged_fields_def

lemma describe_transactions_response_transaction_state_steps:
  assumes v: "0 \<le>s version" and flex: "flex = (0 \<le>s version)"
  shows "keeps (DescribeTransactionsResponse_TransactionState_fields_wf version) (\<lambda>out. DescribeTransactionsResponse_TransactionState_decode_field_0 out version flex)"
    and "keeps (DescribeTransactionsResponse_TransactionState_fields_wf version) (\<lambda>out. DescribeTransactionsResponse_TransactionState_decode_field_1 out version flex)"
    and "keeps (DescribeTransactionsResponse_TransactionState_fields_wf version) (\<lambda>out. DescribeTransactionsResponse_TransactionState_decode_field_2 out version flex)"
    and "keeps (DescribeTransactionsResponse_TransactionState_fields_wf version) (\<lambda>out. DescribeTransactionsResponse_TransactionState_decode_field_3 out version flex)"
    and "keeps (DescribeTransactionsResponse_TransactionState_fields_wf version) (\<lambda>out. DescribeTransactionsResponse_TransactionState_decode_field_4 out version flex)"
    and "keeps (DescribeTransactionsResponse_TransactionState_fields_wf version) (\<lambda>out. DescribeTransactionsResponse_TransactionState_decode_field_5 out version flex)"
    and "keeps (DescribeTransactionsResponse_TransactionState_fields_wf version) (\<lambda>out. DescribeTransactionsResponse_TransactionState_decode_field_6 out version flex)"
    and "keeps (DescribeTransactionsResponse_TransactionState_fields_wf version) (\<lambda>out. DescribeTransactionsResponse_TransactionState_decode_field_7 out version flex)"
  unfolding flex describe_transactions_response_transaction_state_readers
  by (rule keeps_into; (rule yields_rules)?; simp add: v describe_transactions_response_transaction_state_fields)+

lemma describe_transactions_response_transaction_state_unknown:
  "DescribeTransactionsResponse_TransactionState_fields_wf version (s\<lparr>dt_resp_ts_unknown_tagged_fields := u\<rparr>) = DescribeTransactionsResponse_TransactionState_fields_wf version s"
  by (simp_all add: DescribeTransactionsResponse_TransactionState_fields_wf_def)

lemma describe_transactions_response_transaction_state_yields:
  assumes v: "0 \<le>s version"
  shows "yields 1 (DescribeTransactionsResponse_TransactionState_decode version) (DescribeTransactionsResponse_TransactionState_wf version)"
proof -
  have d: "DescribeTransactionsResponse_TransactionState_fields_wf version DescribeTransactionsResponse_TransactionState_default"
    by (simp add: DescribeTransactionsResponse_TransactionState_default_def v describe_transactions_response_transaction_state_fields)
  show ?thesis
    unfolding DescribeTransactionsResponse_TransactionState_decode_def Let_def DescribeTransactionsResponse_TransactionState_decode_tagged_fields_def
    by ((rule describe_transactions_response_transaction_state_steps[OF v refl, THEN yields_step], (rule d | assumption))+, rule yields_trailer[OF _ arms_keep_Nil[of "DescribeTransactionsResponse_TransactionState_fields_wf version" "\<lambda>_. 0"]])
      (simp_all add: v d describe_transactions_response_transaction_state_unknown DescribeTransactionsResponse_TransactionState_wf_def trailer_ok_def )
qed

lemma describe_transactions_response_transaction_state_extends [extends_rules]: "extends_input (DescribeTransactionsResponse_TransactionState_decode version)"
  unfolding DescribeTransactionsResponse_TransactionState_decode_def Let_def describe_transactions_response_transaction_state_readers by (intro extends_rules)

lemma describe_transactions_response_transaction_state_codec:
  assumes v: "0 \<le>s version"
  shows "message_codec DescribeTransactionsResponse_TransactionState_encode DescribeTransactionsResponse_TransactionState_decode DescribeTransactionsResponse_TransactionState_encoded_len (DescribeTransactionsResponse_TransactionState_wf version) version"
proof
  fix x
  assume w: "DescribeTransactionsResponse_TransactionState_wf version x"
  show "carries (DescribeTransactionsResponse_TransactionState_encode x version) (DescribeTransactionsResponse_TransactionState_decode version) (DescribeTransactionsResponse_TransactionState_encoded_len x version) x"
    unfolding DescribeTransactionsResponse_TransactionState_encode_def describe_transactions_response_transaction_state_writers DescribeTransactionsResponse_TransactionState_encoded_len_def DescribeTransactionsResponse_TransactionState_decode_def describe_transactions_response_transaction_state_readers Let_def
    by (use w[unfolded DescribeTransactionsResponse_TransactionState_wf_def DescribeTransactionsResponse_TransactionState_fields_wf_def Let_def] in \<open>elim conjE\<close>, rule carries_cong_len)
      ((rule carries_rules | (erule absent_guarded, assumption) | erule absent_plain
        | simp add: v field_ok_def DescribeTransactionsResponse_TransactionState_default_def )+)
next
  show "yields 1 (DescribeTransactionsResponse_TransactionState_decode version) (DescribeTransactionsResponse_TransactionState_wf version)"
    by (rule describe_transactions_response_transaction_state_yields[OF v])
qed (rule describe_transactions_response_transaction_state_extends)

lemma describe_transactions_response_transaction_state_default_wf [simp]: "0 \<le>s version \<Longrightarrow> DescribeTransactionsResponse_TransactionState_wf version DescribeTransactionsResponse_TransactionState_default"
  by (simp add: DescribeTransactionsResponse_TransactionState_wf_def DescribeTransactionsResponse_TransactionState_default_def trailer_ok_def describe_transactions_response_transaction_state_fields)

lemmas [carries_rules] = message_codec.message_carries[OF describe_transactions_response_transaction_state_codec]
lemmas [yields_rules] = message_codec.message_yields[OF describe_transactions_response_transaction_state_codec]

lemmas [carries_rules] = protocol_codec.put_array_carries[OF message_codec.message_protocol[OF describe_transactions_response_transaction_state_codec]]
lemmas [yields_rules] = protocol_codec.get_array_yields[OF message_codec.message_protocol[OF describe_transactions_response_transaction_state_codec]]
lemmas [carries_rules] = protocol_codec.put_nullable_array_carries[OF message_codec.message_protocol[OF describe_transactions_response_transaction_state_codec]]
lemmas [yields_rules] = protocol_codec.get_nullable_array_yields[OF message_codec.message_protocol[OF describe_transactions_response_transaction_state_codec]]

record DescribeTransactionsResponse =
  dt_resp_throttle_time_ms :: i32
  dt_resp_transaction_states :: "DescribeTransactionsResponse_TransactionState list"
  dt_resp_unknown_tagged_fields :: "UnknownTaggedField list"

definition DescribeTransactionsResponse_default :: DescribeTransactionsResponse where
  "DescribeTransactionsResponse_default =
     \<lparr>dt_resp_throttle_time_ms = 0, dt_resp_transaction_states = [], dt_resp_unknown_tagged_fields = []\<rparr>"

definition DescribeTransactionsResponse_MIN_VERSION :: i16 where
  "DescribeTransactionsResponse_MIN_VERSION = 0"

definition DescribeTransactionsResponse_MAX_VERSION :: i16 where
  "DescribeTransactionsResponse_MAX_VERSION = 0"

definition DescribeTransactionsResponse_FLEXIBLE_MIN :: i16 where
  "DescribeTransactionsResponse_FLEXIBLE_MIN = 0"

definition DescribeTransactionsResponse_API_KEY :: i16 where
  "DescribeTransactionsResponse_API_KEY = 65"

definition DescribeTransactionsResponse_is_flexible :: "i16 \<Rightarrow> bool" where
  "DescribeTransactionsResponse_is_flexible version \<longleftrightarrow> DescribeTransactionsResponse_FLEXIBLE_MIN \<le>s version"

definition DescribeTransactionsResponse_encode :: "DescribeTransactionsResponse \<Rightarrow> i16 \<Rightarrow> encoder" where
  "DescribeTransactionsResponse_encode x version =
     (let flex = DescribeTransactionsResponse_is_flexible version in
      write_all
        [write_check (check_version DescribeTransactionsResponse_API_KEY version DescribeTransactionsResponse_MIN_VERSION DescribeTransactionsResponse_MAX_VERSION),
         put_when (0 \<le>s version) (put_i32 (dt_resp_throttle_time_ms x)),
         put_when (0 \<le>s version) (put_array flex (\<lambda>it. DescribeTransactionsResponse_TransactionState_encode it version) (dt_resp_transaction_states x)),
         put_when flex (put_tagged [] (dt_resp_unknown_tagged_fields x))])"

definition DescribeTransactionsResponse_encoded_len :: "DescribeTransactionsResponse \<Rightarrow> i16 \<Rightarrow> nat" where
  "DescribeTransactionsResponse_encoded_len x version =
     (let flex = DescribeTransactionsResponse_is_flexible version in
      len_when (0 \<le>s version) 4
      + len_when (0 \<le>s version) (array_size flex (\<lambda>it. DescribeTransactionsResponse_TransactionState_encoded_len it version) (dt_resp_transaction_states x))
      + len_when flex (tagged_size [] (dt_resp_unknown_tagged_fields x)))"

definition DescribeTransactionsResponse_decode :: "i16 \<Rightarrow> DescribeTransactionsResponse decoder" where
  "DescribeTransactionsResponse_decode version =
     (let flex = DescribeTransactionsResponse_is_flexible version in
      checked (check_version DescribeTransactionsResponse_API_KEY version DescribeTransactionsResponse_MIN_VERSION DescribeTransactionsResponse_MAX_VERSION) (
        read_then (get_into (0 \<le>s version) get_i32 (\<lambda>v out. out\<lparr>dt_resp_throttle_time_ms := v\<rparr>) DescribeTransactionsResponse_default) (\<lambda>out.
        read_then (get_into (0 \<le>s version) (get_array flex (DescribeTransactionsResponse_TransactionState_decode version)) (\<lambda>v out. out\<lparr>dt_resp_transaction_states := v\<rparr>) out) (\<lambda>out.
        get_trailer flex [] (\<lambda>u out. out\<lparr>dt_resp_unknown_tagged_fields := u\<rparr>) out))))"

definition DescribeTransactionsResponse_fields_wf :: "i16 \<Rightarrow> DescribeTransactionsResponse \<Rightarrow> bool" where
  "DescribeTransactionsResponse_fields_wf version x \<longleftrightarrow>
     (let flex = DescribeTransactionsResponse_is_flexible version in
      array_ok flex (DescribeTransactionsResponse_TransactionState_wf version) (dt_resp_transaction_states x))"

definition DescribeTransactionsResponse_wf :: "i16 \<Rightarrow> DescribeTransactionsResponse \<Rightarrow> bool" where
  "DescribeTransactionsResponse_wf version x \<longleftrightarrow>
     version_in DescribeTransactionsResponse_MIN_VERSION DescribeTransactionsResponse_MAX_VERSION version \<and> DescribeTransactionsResponse_fields_wf version x \<and> trailer_ok [] [] (dt_resp_unknown_tagged_fields x)"

lemmas describe_transactions_response_versions =
    DescribeTransactionsResponse_is_flexible_def DescribeTransactionsResponse_FLEXIBLE_MIN_def
    DescribeTransactionsResponse_MIN_VERSION_def DescribeTransactionsResponse_MAX_VERSION_def version_in_def

lemmas describe_transactions_response_fields =
    Let_def field_ok_def DescribeTransactionsResponse_fields_wf_def DescribeTransactionsResponse_is_flexible_def
    DescribeTransactionsResponse_FLEXIBLE_MIN_def

lemma describe_transactions_response_steps:
  assumes v: "0 \<le>s version" and flex: "flex = (DescribeTransactionsResponse_is_flexible version)"
  shows "keeps (DescribeTransactionsResponse_fields_wf version) (get_into (0 \<le>s version) get_i32 (\<lambda>v out. out\<lparr>dt_resp_throttle_time_ms := v\<rparr>))"
    and "keeps (DescribeTransactionsResponse_fields_wf version) (get_into (0 \<le>s version) (get_array flex (DescribeTransactionsResponse_TransactionState_decode version)) (\<lambda>v out. out\<lparr>dt_resp_transaction_states := v\<rparr>))"
  unfolding flex 
  by (rule keeps_into; (rule yields_rules)?; simp add: v describe_transactions_response_fields)+

lemma describe_transactions_response_unknown:
  "DescribeTransactionsResponse_fields_wf version (s\<lparr>dt_resp_unknown_tagged_fields := u\<rparr>) = DescribeTransactionsResponse_fields_wf version s"
  by (simp_all add: DescribeTransactionsResponse_fields_wf_def)

lemma describe_transactions_response_yields:
  assumes r: "version_in DescribeTransactionsResponse_MIN_VERSION DescribeTransactionsResponse_MAX_VERSION version"
  shows "yields 1 (DescribeTransactionsResponse_decode version) (DescribeTransactionsResponse_wf version)"
proof -
  have v: "0 \<le>s version"
    using r by (simp add: describe_transactions_response_versions)
  have d: "DescribeTransactionsResponse_fields_wf version DescribeTransactionsResponse_default"
    by (simp add: DescribeTransactionsResponse_default_def v describe_transactions_response_fields)
  show ?thesis
    unfolding DescribeTransactionsResponse_decode_def Let_def
    by (rule yields_checked, (rule describe_transactions_response_steps[OF v refl, THEN yields_step], (rule d | assumption))+, rule yields_trailer[OF _ arms_keep_Nil[of "DescribeTransactionsResponse_fields_wf version" "\<lambda>_. 0"]])
      (simp_all add: v d describe_transactions_response_unknown DescribeTransactionsResponse_wf_def trailer_ok_def r DescribeTransactionsResponse_is_flexible_def DescribeTransactionsResponse_FLEXIBLE_MIN_def)
qed

interpretation describe_transactions_response: message_codec
  DescribeTransactionsResponse_encode DescribeTransactionsResponse_decode DescribeTransactionsResponse_encoded_len "DescribeTransactionsResponse_wf version" version
  for version
proof
  fix x
  assume w: "DescribeTransactionsResponse_wf version x"
  then have v: "0 \<le>s version"
    by (simp add: DescribeTransactionsResponse_wf_def describe_transactions_response_versions)
  show "carries (DescribeTransactionsResponse_encode x version) (DescribeTransactionsResponse_decode version) (DescribeTransactionsResponse_encoded_len x version) x"
    unfolding DescribeTransactionsResponse_encode_def DescribeTransactionsResponse_encoded_len_def DescribeTransactionsResponse_decode_def Let_def
    by (use w[unfolded DescribeTransactionsResponse_wf_def DescribeTransactionsResponse_fields_wf_def Let_def] in \<open>elim conjE\<close>, rule carries_cong_len)
      ((rule carries_rules check_version_in[THEN iffD2] | (erule absent_guarded, assumption) | erule absent_plain
        | simp add: v field_ok_def DescribeTransactionsResponse_default_def describe_transactions_response_versions)+)
next
  show "yields 1 (DescribeTransactionsResponse_decode version) (DescribeTransactionsResponse_wf version)"
    by (rule case_split[OF describe_transactions_response_yields]) (auto simp: DescribeTransactionsResponse_decode_def Let_def yields_refused yields_unsupported)
  show "extends_input (DescribeTransactionsResponse_decode version)"
    unfolding DescribeTransactionsResponse_decode_def Let_def by (intro extends_rules)
qed

section \<open>DescribeUserScramCredentialsRequest\<close>

record DescribeUserScramCredentialsRequest_UserName =
  dusc_req_un_name :: bytes
  dusc_req_un_unknown_tagged_fields :: "UnknownTaggedField list"

definition DescribeUserScramCredentialsRequest_UserName_default :: DescribeUserScramCredentialsRequest_UserName where
  "DescribeUserScramCredentialsRequest_UserName_default =
     \<lparr>dusc_req_un_name = [], dusc_req_un_unknown_tagged_fields = []\<rparr>"

definition DescribeUserScramCredentialsRequest_UserName_encode :: "DescribeUserScramCredentialsRequest_UserName \<Rightarrow> i16 \<Rightarrow> encoder" where
  "DescribeUserScramCredentialsRequest_UserName_encode x version =
     (let flex = 0 \<le>s version in
      write_all
        [put_when (0 \<le>s version) (put_str flex (dusc_req_un_name x)),
         put_when flex (put_tagged [] (dusc_req_un_unknown_tagged_fields x))])"

definition DescribeUserScramCredentialsRequest_UserName_encoded_len :: "DescribeUserScramCredentialsRequest_UserName \<Rightarrow> i16 \<Rightarrow> nat" where
  "DescribeUserScramCredentialsRequest_UserName_encoded_len x version =
     (let flex = 0 \<le>s version in
      len_when (0 \<le>s version) (str_len flex (dusc_req_un_name x))
      + len_when flex (tagged_size [] (dusc_req_un_unknown_tagged_fields x)))"

definition DescribeUserScramCredentialsRequest_UserName_decode :: "i16 \<Rightarrow> DescribeUserScramCredentialsRequest_UserName decoder" where
  "DescribeUserScramCredentialsRequest_UserName_decode version =
     (let flex = 0 \<le>s version in
      read_then (get_into (0 \<le>s version) (get_str flex) (\<lambda>v out. out\<lparr>dusc_req_un_name := v\<rparr>) DescribeUserScramCredentialsRequest_UserName_default) (\<lambda>out.
        get_trailer flex [] (\<lambda>u out. out\<lparr>dusc_req_un_unknown_tagged_fields := u\<rparr>) out))"

definition DescribeUserScramCredentialsRequest_UserName_fields_wf :: "i16 \<Rightarrow> DescribeUserScramCredentialsRequest_UserName \<Rightarrow> bool" where
  "DescribeUserScramCredentialsRequest_UserName_fields_wf version x \<longleftrightarrow>
     (let flex = 0 \<le>s version in
      str_wf flex (dusc_req_un_name x))"

definition DescribeUserScramCredentialsRequest_UserName_wf :: "i16 \<Rightarrow> DescribeUserScramCredentialsRequest_UserName \<Rightarrow> bool" where
  "DescribeUserScramCredentialsRequest_UserName_wf version x \<longleftrightarrow>
     DescribeUserScramCredentialsRequest_UserName_fields_wf version x \<and> trailer_ok [] [] (dusc_req_un_unknown_tagged_fields x)"

lemmas describe_user_scram_credentials_request_user_name_fields =
    Let_def field_ok_def DescribeUserScramCredentialsRequest_UserName_fields_wf_def

lemma describe_user_scram_credentials_request_user_name_steps:
  assumes v: "0 \<le>s version" and flex: "flex = (0 \<le>s version)"
  shows "keeps (DescribeUserScramCredentialsRequest_UserName_fields_wf version) (get_into (0 \<le>s version) (get_str flex) (\<lambda>v out. out\<lparr>dusc_req_un_name := v\<rparr>))"
  unfolding flex 
  by (rule keeps_into; (rule yields_rules)?; simp add: v describe_user_scram_credentials_request_user_name_fields)+

lemma describe_user_scram_credentials_request_user_name_unknown:
  "DescribeUserScramCredentialsRequest_UserName_fields_wf version (s\<lparr>dusc_req_un_unknown_tagged_fields := u\<rparr>) = DescribeUserScramCredentialsRequest_UserName_fields_wf version s"
  by (simp_all add: DescribeUserScramCredentialsRequest_UserName_fields_wf_def)

lemma describe_user_scram_credentials_request_user_name_yields:
  assumes v: "0 \<le>s version"
  shows "yields 1 (DescribeUserScramCredentialsRequest_UserName_decode version) (DescribeUserScramCredentialsRequest_UserName_wf version)"
proof -
  have d: "DescribeUserScramCredentialsRequest_UserName_fields_wf version DescribeUserScramCredentialsRequest_UserName_default"
    by (simp add: DescribeUserScramCredentialsRequest_UserName_default_def v describe_user_scram_credentials_request_user_name_fields)
  show ?thesis
    unfolding DescribeUserScramCredentialsRequest_UserName_decode_def Let_def
    by ((rule describe_user_scram_credentials_request_user_name_steps[OF v refl, THEN yields_step], (rule d | assumption))+, rule yields_trailer[OF _ arms_keep_Nil[of "DescribeUserScramCredentialsRequest_UserName_fields_wf version" "\<lambda>_. 0"]])
      (simp_all add: v d describe_user_scram_credentials_request_user_name_unknown DescribeUserScramCredentialsRequest_UserName_wf_def trailer_ok_def )
qed

lemma describe_user_scram_credentials_request_user_name_extends [extends_rules]: "extends_input (DescribeUserScramCredentialsRequest_UserName_decode version)"
  unfolding DescribeUserScramCredentialsRequest_UserName_decode_def Let_def by (intro extends_rules)

lemma describe_user_scram_credentials_request_user_name_codec:
  assumes v: "0 \<le>s version"
  shows "message_codec DescribeUserScramCredentialsRequest_UserName_encode DescribeUserScramCredentialsRequest_UserName_decode DescribeUserScramCredentialsRequest_UserName_encoded_len (DescribeUserScramCredentialsRequest_UserName_wf version) version"
proof
  fix x
  assume w: "DescribeUserScramCredentialsRequest_UserName_wf version x"
  show "carries (DescribeUserScramCredentialsRequest_UserName_encode x version) (DescribeUserScramCredentialsRequest_UserName_decode version) (DescribeUserScramCredentialsRequest_UserName_encoded_len x version) x"
    unfolding DescribeUserScramCredentialsRequest_UserName_encode_def DescribeUserScramCredentialsRequest_UserName_encoded_len_def DescribeUserScramCredentialsRequest_UserName_decode_def Let_def
    by (use w[unfolded DescribeUserScramCredentialsRequest_UserName_wf_def DescribeUserScramCredentialsRequest_UserName_fields_wf_def Let_def] in \<open>elim conjE\<close>, rule carries_cong_len)
      ((rule carries_rules | (erule absent_guarded, assumption) | erule absent_plain
        | simp add: v field_ok_def DescribeUserScramCredentialsRequest_UserName_default_def )+)
next
  show "yields 1 (DescribeUserScramCredentialsRequest_UserName_decode version) (DescribeUserScramCredentialsRequest_UserName_wf version)"
    by (rule describe_user_scram_credentials_request_user_name_yields[OF v])
qed (rule describe_user_scram_credentials_request_user_name_extends)

lemma describe_user_scram_credentials_request_user_name_default_wf [simp]: "0 \<le>s version \<Longrightarrow> DescribeUserScramCredentialsRequest_UserName_wf version DescribeUserScramCredentialsRequest_UserName_default"
  by (simp add: DescribeUserScramCredentialsRequest_UserName_wf_def DescribeUserScramCredentialsRequest_UserName_default_def trailer_ok_def describe_user_scram_credentials_request_user_name_fields)

lemmas [carries_rules] = message_codec.message_carries[OF describe_user_scram_credentials_request_user_name_codec]
lemmas [yields_rules] = message_codec.message_yields[OF describe_user_scram_credentials_request_user_name_codec]

lemmas [carries_rules] = protocol_codec.put_array_carries[OF message_codec.message_protocol[OF describe_user_scram_credentials_request_user_name_codec]]
lemmas [yields_rules] = protocol_codec.get_array_yields[OF message_codec.message_protocol[OF describe_user_scram_credentials_request_user_name_codec]]
lemmas [carries_rules] = protocol_codec.put_nullable_array_carries[OF message_codec.message_protocol[OF describe_user_scram_credentials_request_user_name_codec]]
lemmas [yields_rules] = protocol_codec.get_nullable_array_yields[OF message_codec.message_protocol[OF describe_user_scram_credentials_request_user_name_codec]]

record DescribeUserScramCredentialsRequest =
  dusc_req_users :: "DescribeUserScramCredentialsRequest_UserName list option"
  dusc_req_unknown_tagged_fields :: "UnknownTaggedField list"

definition DescribeUserScramCredentialsRequest_default :: DescribeUserScramCredentialsRequest where
  "DescribeUserScramCredentialsRequest_default =
     \<lparr>dusc_req_users = Some [], dusc_req_unknown_tagged_fields = []\<rparr>"

definition DescribeUserScramCredentialsRequest_MIN_VERSION :: i16 where
  "DescribeUserScramCredentialsRequest_MIN_VERSION = 0"

definition DescribeUserScramCredentialsRequest_MAX_VERSION :: i16 where
  "DescribeUserScramCredentialsRequest_MAX_VERSION = 0"

definition DescribeUserScramCredentialsRequest_FLEXIBLE_MIN :: i16 where
  "DescribeUserScramCredentialsRequest_FLEXIBLE_MIN = 0"

definition DescribeUserScramCredentialsRequest_API_KEY :: i16 where
  "DescribeUserScramCredentialsRequest_API_KEY = 50"

definition DescribeUserScramCredentialsRequest_is_flexible :: "i16 \<Rightarrow> bool" where
  "DescribeUserScramCredentialsRequest_is_flexible version \<longleftrightarrow> DescribeUserScramCredentialsRequest_FLEXIBLE_MIN \<le>s version"

definition DescribeUserScramCredentialsRequest_encode :: "DescribeUserScramCredentialsRequest \<Rightarrow> i16 \<Rightarrow> encoder" where
  "DescribeUserScramCredentialsRequest_encode x version =
     (let flex = DescribeUserScramCredentialsRequest_is_flexible version in
      write_all
        [write_check (check_version DescribeUserScramCredentialsRequest_API_KEY version DescribeUserScramCredentialsRequest_MIN_VERSION DescribeUserScramCredentialsRequest_MAX_VERSION),
         put_when (0 \<le>s version) (put_nullable_array flex (\<lambda>it. DescribeUserScramCredentialsRequest_UserName_encode it version) (dusc_req_users x)),
         put_when flex (put_tagged [] (dusc_req_unknown_tagged_fields x))])"

definition DescribeUserScramCredentialsRequest_encoded_len :: "DescribeUserScramCredentialsRequest \<Rightarrow> i16 \<Rightarrow> nat" where
  "DescribeUserScramCredentialsRequest_encoded_len x version =
     (let flex = DescribeUserScramCredentialsRequest_is_flexible version in
      len_when (0 \<le>s version) (nullable_array_size flex (\<lambda>it. DescribeUserScramCredentialsRequest_UserName_encoded_len it version) (dusc_req_users x))
      + len_when flex (tagged_size [] (dusc_req_unknown_tagged_fields x)))"

definition DescribeUserScramCredentialsRequest_decode :: "i16 \<Rightarrow> DescribeUserScramCredentialsRequest decoder" where
  "DescribeUserScramCredentialsRequest_decode version =
     (let flex = DescribeUserScramCredentialsRequest_is_flexible version in
      checked (check_version DescribeUserScramCredentialsRequest_API_KEY version DescribeUserScramCredentialsRequest_MIN_VERSION DescribeUserScramCredentialsRequest_MAX_VERSION) (
        read_then (get_into (0 \<le>s version) (get_nullable_array flex (DescribeUserScramCredentialsRequest_UserName_decode version)) (\<lambda>v out. out\<lparr>dusc_req_users := v\<rparr>) DescribeUserScramCredentialsRequest_default) (\<lambda>out.
        get_trailer flex [] (\<lambda>u out. out\<lparr>dusc_req_unknown_tagged_fields := u\<rparr>) out)))"

definition DescribeUserScramCredentialsRequest_fields_wf :: "i16 \<Rightarrow> DescribeUserScramCredentialsRequest \<Rightarrow> bool" where
  "DescribeUserScramCredentialsRequest_fields_wf version x \<longleftrightarrow>
     (let flex = DescribeUserScramCredentialsRequest_is_flexible version in
      pred_option (array_ok flex (DescribeUserScramCredentialsRequest_UserName_wf version)) (dusc_req_users x))"

definition DescribeUserScramCredentialsRequest_wf :: "i16 \<Rightarrow> DescribeUserScramCredentialsRequest \<Rightarrow> bool" where
  "DescribeUserScramCredentialsRequest_wf version x \<longleftrightarrow>
     version_in DescribeUserScramCredentialsRequest_MIN_VERSION DescribeUserScramCredentialsRequest_MAX_VERSION version \<and> DescribeUserScramCredentialsRequest_fields_wf version x \<and> trailer_ok [] [] (dusc_req_unknown_tagged_fields x)"

lemmas describe_user_scram_credentials_request_versions =
    DescribeUserScramCredentialsRequest_is_flexible_def DescribeUserScramCredentialsRequest_FLEXIBLE_MIN_def
    DescribeUserScramCredentialsRequest_MIN_VERSION_def DescribeUserScramCredentialsRequest_MAX_VERSION_def
    version_in_def

lemmas describe_user_scram_credentials_request_fields =
    Let_def field_ok_def DescribeUserScramCredentialsRequest_fields_wf_def
    DescribeUserScramCredentialsRequest_is_flexible_def DescribeUserScramCredentialsRequest_FLEXIBLE_MIN_def

lemma describe_user_scram_credentials_request_steps:
  assumes v: "0 \<le>s version" and flex: "flex = (DescribeUserScramCredentialsRequest_is_flexible version)"
  shows "keeps (DescribeUserScramCredentialsRequest_fields_wf version) (get_into (0 \<le>s version) (get_nullable_array flex (DescribeUserScramCredentialsRequest_UserName_decode version)) (\<lambda>v out. out\<lparr>dusc_req_users := v\<rparr>))"
  unfolding flex 
  by (rule keeps_into; (rule yields_rules)?; simp add: v describe_user_scram_credentials_request_fields)+

lemma describe_user_scram_credentials_request_unknown:
  "DescribeUserScramCredentialsRequest_fields_wf version (s\<lparr>dusc_req_unknown_tagged_fields := u\<rparr>) = DescribeUserScramCredentialsRequest_fields_wf version s"
  by (simp_all add: DescribeUserScramCredentialsRequest_fields_wf_def)

lemma describe_user_scram_credentials_request_yields:
  assumes r: "version_in DescribeUserScramCredentialsRequest_MIN_VERSION DescribeUserScramCredentialsRequest_MAX_VERSION version"
  shows "yields 1 (DescribeUserScramCredentialsRequest_decode version) (DescribeUserScramCredentialsRequest_wf version)"
proof -
  have v: "0 \<le>s version"
    using r by (simp add: describe_user_scram_credentials_request_versions)
  have d: "DescribeUserScramCredentialsRequest_fields_wf version DescribeUserScramCredentialsRequest_default"
    by (simp add: DescribeUserScramCredentialsRequest_default_def v describe_user_scram_credentials_request_fields)
  show ?thesis
    unfolding DescribeUserScramCredentialsRequest_decode_def Let_def
    by (rule yields_checked, (rule describe_user_scram_credentials_request_steps[OF v refl, THEN yields_step], (rule d | assumption))+, rule yields_trailer[OF _ arms_keep_Nil[of "DescribeUserScramCredentialsRequest_fields_wf version" "\<lambda>_. 0"]])
      (simp_all add: v d describe_user_scram_credentials_request_unknown DescribeUserScramCredentialsRequest_wf_def trailer_ok_def r DescribeUserScramCredentialsRequest_is_flexible_def DescribeUserScramCredentialsRequest_FLEXIBLE_MIN_def)
qed

interpretation describe_user_scram_credentials_request: message_codec
  DescribeUserScramCredentialsRequest_encode DescribeUserScramCredentialsRequest_decode DescribeUserScramCredentialsRequest_encoded_len "DescribeUserScramCredentialsRequest_wf version" version
  for version
proof
  fix x
  assume w: "DescribeUserScramCredentialsRequest_wf version x"
  then have v: "0 \<le>s version"
    by (simp add: DescribeUserScramCredentialsRequest_wf_def describe_user_scram_credentials_request_versions)
  show "carries (DescribeUserScramCredentialsRequest_encode x version) (DescribeUserScramCredentialsRequest_decode version) (DescribeUserScramCredentialsRequest_encoded_len x version) x"
    unfolding DescribeUserScramCredentialsRequest_encode_def DescribeUserScramCredentialsRequest_encoded_len_def DescribeUserScramCredentialsRequest_decode_def Let_def
    by (use w[unfolded DescribeUserScramCredentialsRequest_wf_def DescribeUserScramCredentialsRequest_fields_wf_def Let_def] in \<open>elim conjE\<close>, rule carries_cong_len)
      ((rule carries_rules check_version_in[THEN iffD2] | (erule absent_guarded, assumption) | erule absent_plain
        | simp add: v field_ok_def DescribeUserScramCredentialsRequest_default_def describe_user_scram_credentials_request_versions)+)
next
  show "yields 1 (DescribeUserScramCredentialsRequest_decode version) (DescribeUserScramCredentialsRequest_wf version)"
    by (rule case_split[OF describe_user_scram_credentials_request_yields]) (auto simp: DescribeUserScramCredentialsRequest_decode_def Let_def yields_refused yields_unsupported)
  show "extends_input (DescribeUserScramCredentialsRequest_decode version)"
    unfolding DescribeUserScramCredentialsRequest_decode_def Let_def by (intro extends_rules)
qed

section \<open>DescribeUserScramCredentialsResponse\<close>

record DescribeUserScramCredentialsResponse_CredentialInfo =
  dusc_resp_ci_mechanism :: i8
  dusc_resp_ci_iterations :: i32
  dusc_resp_ci_unknown_tagged_fields :: "UnknownTaggedField list"

definition DescribeUserScramCredentialsResponse_CredentialInfo_default :: DescribeUserScramCredentialsResponse_CredentialInfo where
  "DescribeUserScramCredentialsResponse_CredentialInfo_default =
     \<lparr>dusc_resp_ci_mechanism = 0, dusc_resp_ci_iterations = 0, dusc_resp_ci_unknown_tagged_fields = []\<rparr>"

definition DescribeUserScramCredentialsResponse_CredentialInfo_encode :: "DescribeUserScramCredentialsResponse_CredentialInfo \<Rightarrow> i16 \<Rightarrow> encoder" where
  "DescribeUserScramCredentialsResponse_CredentialInfo_encode x version =
     (let flex = 0 \<le>s version in
      write_all
        [put_when (0 \<le>s version) (put_i8 (dusc_resp_ci_mechanism x)),
         put_when (0 \<le>s version) (put_i32 (dusc_resp_ci_iterations x)),
         put_when flex (put_tagged [] (dusc_resp_ci_unknown_tagged_fields x))])"

definition DescribeUserScramCredentialsResponse_CredentialInfo_encoded_len :: "DescribeUserScramCredentialsResponse_CredentialInfo \<Rightarrow> i16 \<Rightarrow> nat" where
  "DescribeUserScramCredentialsResponse_CredentialInfo_encoded_len x version =
     (let flex = 0 \<le>s version in
      len_when (0 \<le>s version) 1
      + len_when (0 \<le>s version) 4
      + len_when flex (tagged_size [] (dusc_resp_ci_unknown_tagged_fields x)))"

definition DescribeUserScramCredentialsResponse_CredentialInfo_decode :: "i16 \<Rightarrow> DescribeUserScramCredentialsResponse_CredentialInfo decoder" where
  "DescribeUserScramCredentialsResponse_CredentialInfo_decode version =
     (let flex = 0 \<le>s version in
      read_then (get_into (0 \<le>s version) get_i8 (\<lambda>v out. out\<lparr>dusc_resp_ci_mechanism := v\<rparr>) DescribeUserScramCredentialsResponse_CredentialInfo_default) (\<lambda>out.
        read_then (get_into (0 \<le>s version) get_i32 (\<lambda>v out. out\<lparr>dusc_resp_ci_iterations := v\<rparr>) out) (\<lambda>out.
        get_trailer flex [] (\<lambda>u out. out\<lparr>dusc_resp_ci_unknown_tagged_fields := u\<rparr>) out)))"

definition DescribeUserScramCredentialsResponse_CredentialInfo_fields_wf :: "i16 \<Rightarrow> DescribeUserScramCredentialsResponse_CredentialInfo \<Rightarrow> bool" where
  "DescribeUserScramCredentialsResponse_CredentialInfo_fields_wf version x \<longleftrightarrow>
     True"

definition DescribeUserScramCredentialsResponse_CredentialInfo_wf :: "i16 \<Rightarrow> DescribeUserScramCredentialsResponse_CredentialInfo \<Rightarrow> bool" where
  "DescribeUserScramCredentialsResponse_CredentialInfo_wf version x \<longleftrightarrow>
     DescribeUserScramCredentialsResponse_CredentialInfo_fields_wf version x \<and> trailer_ok [] [] (dusc_resp_ci_unknown_tagged_fields x)"

lemmas describe_user_scram_credentials_response_credential_info_fields =
    Let_def field_ok_def DescribeUserScramCredentialsResponse_CredentialInfo_fields_wf_def

lemma describe_user_scram_credentials_response_credential_info_steps:
  assumes v: "0 \<le>s version" and flex: "flex = (0 \<le>s version)"
  shows "keeps (DescribeUserScramCredentialsResponse_CredentialInfo_fields_wf version) (get_into (0 \<le>s version) get_i8 (\<lambda>v out. out\<lparr>dusc_resp_ci_mechanism := v\<rparr>))"
    and "keeps (DescribeUserScramCredentialsResponse_CredentialInfo_fields_wf version) (get_into (0 \<le>s version) get_i32 (\<lambda>v out. out\<lparr>dusc_resp_ci_iterations := v\<rparr>))"
  unfolding flex 
  by (rule keeps_into; (rule yields_rules)?; simp add: v describe_user_scram_credentials_response_credential_info_fields)+

lemma describe_user_scram_credentials_response_credential_info_unknown:
  "DescribeUserScramCredentialsResponse_CredentialInfo_fields_wf version (s\<lparr>dusc_resp_ci_unknown_tagged_fields := u\<rparr>) = DescribeUserScramCredentialsResponse_CredentialInfo_fields_wf version s"
  by (simp_all add: DescribeUserScramCredentialsResponse_CredentialInfo_fields_wf_def)

lemma describe_user_scram_credentials_response_credential_info_yields:
  assumes v: "0 \<le>s version"
  shows "yields 1 (DescribeUserScramCredentialsResponse_CredentialInfo_decode version) (DescribeUserScramCredentialsResponse_CredentialInfo_wf version)"
proof -
  have d: "DescribeUserScramCredentialsResponse_CredentialInfo_fields_wf version DescribeUserScramCredentialsResponse_CredentialInfo_default"
    by (simp add: DescribeUserScramCredentialsResponse_CredentialInfo_default_def v describe_user_scram_credentials_response_credential_info_fields)
  show ?thesis
    unfolding DescribeUserScramCredentialsResponse_CredentialInfo_decode_def Let_def
    by ((rule describe_user_scram_credentials_response_credential_info_steps[OF v refl, THEN yields_step], (rule d | assumption))+, rule yields_trailer[OF _ arms_keep_Nil[of "DescribeUserScramCredentialsResponse_CredentialInfo_fields_wf version" "\<lambda>_. 0"]])
      (simp_all add: v d describe_user_scram_credentials_response_credential_info_unknown DescribeUserScramCredentialsResponse_CredentialInfo_wf_def trailer_ok_def )
qed

lemma describe_user_scram_credentials_response_credential_info_extends [extends_rules]: "extends_input (DescribeUserScramCredentialsResponse_CredentialInfo_decode version)"
  unfolding DescribeUserScramCredentialsResponse_CredentialInfo_decode_def Let_def by (intro extends_rules)

lemma describe_user_scram_credentials_response_credential_info_codec:
  assumes v: "0 \<le>s version"
  shows "message_codec DescribeUserScramCredentialsResponse_CredentialInfo_encode DescribeUserScramCredentialsResponse_CredentialInfo_decode DescribeUserScramCredentialsResponse_CredentialInfo_encoded_len (DescribeUserScramCredentialsResponse_CredentialInfo_wf version) version"
proof
  fix x
  assume w: "DescribeUserScramCredentialsResponse_CredentialInfo_wf version x"
  show "carries (DescribeUserScramCredentialsResponse_CredentialInfo_encode x version) (DescribeUserScramCredentialsResponse_CredentialInfo_decode version) (DescribeUserScramCredentialsResponse_CredentialInfo_encoded_len x version) x"
    unfolding DescribeUserScramCredentialsResponse_CredentialInfo_encode_def DescribeUserScramCredentialsResponse_CredentialInfo_encoded_len_def DescribeUserScramCredentialsResponse_CredentialInfo_decode_def Let_def
    by (use w[unfolded DescribeUserScramCredentialsResponse_CredentialInfo_wf_def DescribeUserScramCredentialsResponse_CredentialInfo_fields_wf_def Let_def] in \<open>elim conjE\<close>, rule carries_cong_len)
      ((rule carries_rules | (erule absent_guarded, assumption) | erule absent_plain
        | simp add: v field_ok_def DescribeUserScramCredentialsResponse_CredentialInfo_default_def )+)
next
  show "yields 1 (DescribeUserScramCredentialsResponse_CredentialInfo_decode version) (DescribeUserScramCredentialsResponse_CredentialInfo_wf version)"
    by (rule describe_user_scram_credentials_response_credential_info_yields[OF v])
qed (rule describe_user_scram_credentials_response_credential_info_extends)

lemma describe_user_scram_credentials_response_credential_info_default_wf [simp]: "0 \<le>s version \<Longrightarrow> DescribeUserScramCredentialsResponse_CredentialInfo_wf version DescribeUserScramCredentialsResponse_CredentialInfo_default"
  by (simp add: DescribeUserScramCredentialsResponse_CredentialInfo_wf_def DescribeUserScramCredentialsResponse_CredentialInfo_default_def trailer_ok_def describe_user_scram_credentials_response_credential_info_fields)

lemmas [carries_rules] = message_codec.message_carries[OF describe_user_scram_credentials_response_credential_info_codec]
lemmas [yields_rules] = message_codec.message_yields[OF describe_user_scram_credentials_response_credential_info_codec]

lemmas [carries_rules] = protocol_codec.put_array_carries[OF message_codec.message_protocol[OF describe_user_scram_credentials_response_credential_info_codec]]
lemmas [yields_rules] = protocol_codec.get_array_yields[OF message_codec.message_protocol[OF describe_user_scram_credentials_response_credential_info_codec]]
lemmas [carries_rules] = protocol_codec.put_nullable_array_carries[OF message_codec.message_protocol[OF describe_user_scram_credentials_response_credential_info_codec]]
lemmas [yields_rules] = protocol_codec.get_nullable_array_yields[OF message_codec.message_protocol[OF describe_user_scram_credentials_response_credential_info_codec]]

record DescribeUserScramCredentialsResponse_DescribeUserScramCredentialsResult =
  dusc_resp_duscr_user :: bytes
  dusc_resp_duscr_error_code :: i16
  dusc_resp_duscr_error_message :: "bytes option"
  dusc_resp_duscr_credential_infos :: "DescribeUserScramCredentialsResponse_CredentialInfo list"
  dusc_resp_duscr_unknown_tagged_fields :: "UnknownTaggedField list"

definition DescribeUserScramCredentialsResponse_DescribeUserScramCredentialsResult_default :: DescribeUserScramCredentialsResponse_DescribeUserScramCredentialsResult where
  "DescribeUserScramCredentialsResponse_DescribeUserScramCredentialsResult_default =
     \<lparr>dusc_resp_duscr_user = [], dusc_resp_duscr_error_code = 0, dusc_resp_duscr_error_message = Some [], dusc_resp_duscr_credential_infos = [], dusc_resp_duscr_unknown_tagged_fields = []\<rparr>"

definition DescribeUserScramCredentialsResponse_DescribeUserScramCredentialsResult_encode :: "DescribeUserScramCredentialsResponse_DescribeUserScramCredentialsResult \<Rightarrow> i16 \<Rightarrow> encoder" where
  "DescribeUserScramCredentialsResponse_DescribeUserScramCredentialsResult_encode x version =
     (let flex = 0 \<le>s version in
      write_all
        [put_when (0 \<le>s version) (put_str flex (dusc_resp_duscr_user x)),
         put_when (0 \<le>s version) (put_i16 (dusc_resp_duscr_error_code x)),
         put_when (0 \<le>s version) (put_nullable_str flex (dusc_resp_duscr_error_message x)),
         put_when (0 \<le>s version) (put_array flex (\<lambda>it. DescribeUserScramCredentialsResponse_CredentialInfo_encode it version) (dusc_resp_duscr_credential_infos x)),
         put_when flex (put_tagged [] (dusc_resp_duscr_unknown_tagged_fields x))])"

definition DescribeUserScramCredentialsResponse_DescribeUserScramCredentialsResult_encoded_len :: "DescribeUserScramCredentialsResponse_DescribeUserScramCredentialsResult \<Rightarrow> i16 \<Rightarrow> nat" where
  "DescribeUserScramCredentialsResponse_DescribeUserScramCredentialsResult_encoded_len x version =
     (let flex = 0 \<le>s version in
      len_when (0 \<le>s version) (str_len flex (dusc_resp_duscr_user x))
      + len_when (0 \<le>s version) 2
      + len_when (0 \<le>s version) (nullable_str_len flex (dusc_resp_duscr_error_message x))
      + len_when (0 \<le>s version) (array_size flex (\<lambda>it. DescribeUserScramCredentialsResponse_CredentialInfo_encoded_len it version) (dusc_resp_duscr_credential_infos x))
      + len_when flex (tagged_size [] (dusc_resp_duscr_unknown_tagged_fields x)))"

definition DescribeUserScramCredentialsResponse_DescribeUserScramCredentialsResult_decode :: "i16 \<Rightarrow> DescribeUserScramCredentialsResponse_DescribeUserScramCredentialsResult decoder" where
  "DescribeUserScramCredentialsResponse_DescribeUserScramCredentialsResult_decode version =
     (let flex = 0 \<le>s version in
      read_then (get_into (0 \<le>s version) (get_str flex) (\<lambda>v out. out\<lparr>dusc_resp_duscr_user := v\<rparr>) DescribeUserScramCredentialsResponse_DescribeUserScramCredentialsResult_default) (\<lambda>out.
        read_then (get_into (0 \<le>s version) get_i16 (\<lambda>v out. out\<lparr>dusc_resp_duscr_error_code := v\<rparr>) out) (\<lambda>out.
        read_then (get_into (0 \<le>s version) (get_nullable_str flex) (\<lambda>v out. out\<lparr>dusc_resp_duscr_error_message := v\<rparr>) out) (\<lambda>out.
        read_then (get_into (0 \<le>s version) (get_array flex (DescribeUserScramCredentialsResponse_CredentialInfo_decode version)) (\<lambda>v out. out\<lparr>dusc_resp_duscr_credential_infos := v\<rparr>) out) (\<lambda>out.
        get_trailer flex [] (\<lambda>u out. out\<lparr>dusc_resp_duscr_unknown_tagged_fields := u\<rparr>) out)))))"

definition DescribeUserScramCredentialsResponse_DescribeUserScramCredentialsResult_fields_wf :: "i16 \<Rightarrow> DescribeUserScramCredentialsResponse_DescribeUserScramCredentialsResult \<Rightarrow> bool" where
  "DescribeUserScramCredentialsResponse_DescribeUserScramCredentialsResult_fields_wf version x \<longleftrightarrow>
     (let flex = 0 \<le>s version in
      str_wf flex (dusc_resp_duscr_user x)
      \<and> nullable_str_wf flex (dusc_resp_duscr_error_message x)
      \<and> array_ok flex (DescribeUserScramCredentialsResponse_CredentialInfo_wf version) (dusc_resp_duscr_credential_infos x))"

definition DescribeUserScramCredentialsResponse_DescribeUserScramCredentialsResult_wf :: "i16 \<Rightarrow> DescribeUserScramCredentialsResponse_DescribeUserScramCredentialsResult \<Rightarrow> bool" where
  "DescribeUserScramCredentialsResponse_DescribeUserScramCredentialsResult_wf version x \<longleftrightarrow>
     DescribeUserScramCredentialsResponse_DescribeUserScramCredentialsResult_fields_wf version x \<and> trailer_ok [] [] (dusc_resp_duscr_unknown_tagged_fields x)"

lemmas describe_user_scram_credentials_response_describe_user_scram_credentials_result_fields =
    Let_def field_ok_def DescribeUserScramCredentialsResponse_DescribeUserScramCredentialsResult_fields_wf_def

lemma describe_user_scram_credentials_response_describe_user_scram_credentials_result_steps:
  assumes v: "0 \<le>s version" and flex: "flex = (0 \<le>s version)"
  shows "keeps (DescribeUserScramCredentialsResponse_DescribeUserScramCredentialsResult_fields_wf version) (get_into (0 \<le>s version) (get_str flex) (\<lambda>v out. out\<lparr>dusc_resp_duscr_user := v\<rparr>))"
    and "keeps (DescribeUserScramCredentialsResponse_DescribeUserScramCredentialsResult_fields_wf version) (get_into (0 \<le>s version) get_i16 (\<lambda>v out. out\<lparr>dusc_resp_duscr_error_code := v\<rparr>))"
    and "keeps (DescribeUserScramCredentialsResponse_DescribeUserScramCredentialsResult_fields_wf version) (get_into (0 \<le>s version) (get_nullable_str flex) (\<lambda>v out. out\<lparr>dusc_resp_duscr_error_message := v\<rparr>))"
    and "keeps (DescribeUserScramCredentialsResponse_DescribeUserScramCredentialsResult_fields_wf version) (get_into (0 \<le>s version) (get_array flex (DescribeUserScramCredentialsResponse_CredentialInfo_decode version)) (\<lambda>v out. out\<lparr>dusc_resp_duscr_credential_infos := v\<rparr>))"
  unfolding flex 
  by (rule keeps_into; (rule yields_rules)?; simp add: v describe_user_scram_credentials_response_describe_user_scram_credentials_result_fields)+

lemma describe_user_scram_credentials_response_describe_user_scram_credentials_result_unknown:
  "DescribeUserScramCredentialsResponse_DescribeUserScramCredentialsResult_fields_wf version (s\<lparr>dusc_resp_duscr_unknown_tagged_fields := u\<rparr>) = DescribeUserScramCredentialsResponse_DescribeUserScramCredentialsResult_fields_wf version s"
  by (simp_all add: DescribeUserScramCredentialsResponse_DescribeUserScramCredentialsResult_fields_wf_def)

lemma describe_user_scram_credentials_response_describe_user_scram_credentials_result_yields:
  assumes v: "0 \<le>s version"
  shows "yields 1 (DescribeUserScramCredentialsResponse_DescribeUserScramCredentialsResult_decode version) (DescribeUserScramCredentialsResponse_DescribeUserScramCredentialsResult_wf version)"
proof -
  have d: "DescribeUserScramCredentialsResponse_DescribeUserScramCredentialsResult_fields_wf version DescribeUserScramCredentialsResponse_DescribeUserScramCredentialsResult_default"
    by (simp add: DescribeUserScramCredentialsResponse_DescribeUserScramCredentialsResult_default_def v describe_user_scram_credentials_response_describe_user_scram_credentials_result_fields)
  show ?thesis
    unfolding DescribeUserScramCredentialsResponse_DescribeUserScramCredentialsResult_decode_def Let_def
    by ((rule describe_user_scram_credentials_response_describe_user_scram_credentials_result_steps[OF v refl, THEN yields_step], (rule d | assumption))+, rule yields_trailer[OF _ arms_keep_Nil[of "DescribeUserScramCredentialsResponse_DescribeUserScramCredentialsResult_fields_wf version" "\<lambda>_. 0"]])
      (simp_all add: v d describe_user_scram_credentials_response_describe_user_scram_credentials_result_unknown DescribeUserScramCredentialsResponse_DescribeUserScramCredentialsResult_wf_def trailer_ok_def )
qed

lemma describe_user_scram_credentials_response_describe_user_scram_credentials_result_extends [extends_rules]: "extends_input (DescribeUserScramCredentialsResponse_DescribeUserScramCredentialsResult_decode version)"
  unfolding DescribeUserScramCredentialsResponse_DescribeUserScramCredentialsResult_decode_def Let_def by (intro extends_rules)

lemma describe_user_scram_credentials_response_describe_user_scram_credentials_result_codec:
  assumes v: "0 \<le>s version"
  shows "message_codec DescribeUserScramCredentialsResponse_DescribeUserScramCredentialsResult_encode DescribeUserScramCredentialsResponse_DescribeUserScramCredentialsResult_decode DescribeUserScramCredentialsResponse_DescribeUserScramCredentialsResult_encoded_len (DescribeUserScramCredentialsResponse_DescribeUserScramCredentialsResult_wf version) version"
proof
  fix x
  assume w: "DescribeUserScramCredentialsResponse_DescribeUserScramCredentialsResult_wf version x"
  show "carries (DescribeUserScramCredentialsResponse_DescribeUserScramCredentialsResult_encode x version) (DescribeUserScramCredentialsResponse_DescribeUserScramCredentialsResult_decode version) (DescribeUserScramCredentialsResponse_DescribeUserScramCredentialsResult_encoded_len x version) x"
    unfolding DescribeUserScramCredentialsResponse_DescribeUserScramCredentialsResult_encode_def DescribeUserScramCredentialsResponse_DescribeUserScramCredentialsResult_encoded_len_def DescribeUserScramCredentialsResponse_DescribeUserScramCredentialsResult_decode_def Let_def
    by (use w[unfolded DescribeUserScramCredentialsResponse_DescribeUserScramCredentialsResult_wf_def DescribeUserScramCredentialsResponse_DescribeUserScramCredentialsResult_fields_wf_def Let_def] in \<open>elim conjE\<close>, rule carries_cong_len)
      ((rule carries_rules | (erule absent_guarded, assumption) | erule absent_plain
        | simp add: v field_ok_def DescribeUserScramCredentialsResponse_DescribeUserScramCredentialsResult_default_def )+)
next
  show "yields 1 (DescribeUserScramCredentialsResponse_DescribeUserScramCredentialsResult_decode version) (DescribeUserScramCredentialsResponse_DescribeUserScramCredentialsResult_wf version)"
    by (rule describe_user_scram_credentials_response_describe_user_scram_credentials_result_yields[OF v])
qed (rule describe_user_scram_credentials_response_describe_user_scram_credentials_result_extends)

lemma describe_user_scram_credentials_response_describe_user_scram_credentials_result_default_wf [simp]: "0 \<le>s version \<Longrightarrow> DescribeUserScramCredentialsResponse_DescribeUserScramCredentialsResult_wf version DescribeUserScramCredentialsResponse_DescribeUserScramCredentialsResult_default"
  by (simp add: DescribeUserScramCredentialsResponse_DescribeUserScramCredentialsResult_wf_def DescribeUserScramCredentialsResponse_DescribeUserScramCredentialsResult_default_def trailer_ok_def describe_user_scram_credentials_response_describe_user_scram_credentials_result_fields)

lemmas [carries_rules] = message_codec.message_carries[OF describe_user_scram_credentials_response_describe_user_scram_credentials_result_codec]
lemmas [yields_rules] = message_codec.message_yields[OF describe_user_scram_credentials_response_describe_user_scram_credentials_result_codec]

lemmas [carries_rules] = protocol_codec.put_array_carries[OF message_codec.message_protocol[OF describe_user_scram_credentials_response_describe_user_scram_credentials_result_codec]]
lemmas [yields_rules] = protocol_codec.get_array_yields[OF message_codec.message_protocol[OF describe_user_scram_credentials_response_describe_user_scram_credentials_result_codec]]
lemmas [carries_rules] = protocol_codec.put_nullable_array_carries[OF message_codec.message_protocol[OF describe_user_scram_credentials_response_describe_user_scram_credentials_result_codec]]
lemmas [yields_rules] = protocol_codec.get_nullable_array_yields[OF message_codec.message_protocol[OF describe_user_scram_credentials_response_describe_user_scram_credentials_result_codec]]

record DescribeUserScramCredentialsResponse =
  dusc_resp_throttle_time_ms :: i32
  dusc_resp_error_code :: i16
  dusc_resp_error_message :: "bytes option"
  dusc_resp_results :: "DescribeUserScramCredentialsResponse_DescribeUserScramCredentialsResult list"
  dusc_resp_unknown_tagged_fields :: "UnknownTaggedField list"

definition DescribeUserScramCredentialsResponse_default :: DescribeUserScramCredentialsResponse where
  "DescribeUserScramCredentialsResponse_default =
     \<lparr>dusc_resp_throttle_time_ms = 0, dusc_resp_error_code = 0, dusc_resp_error_message = Some [], dusc_resp_results = [], dusc_resp_unknown_tagged_fields = []\<rparr>"

definition DescribeUserScramCredentialsResponse_MIN_VERSION :: i16 where
  "DescribeUserScramCredentialsResponse_MIN_VERSION = 0"

definition DescribeUserScramCredentialsResponse_MAX_VERSION :: i16 where
  "DescribeUserScramCredentialsResponse_MAX_VERSION = 0"

definition DescribeUserScramCredentialsResponse_FLEXIBLE_MIN :: i16 where
  "DescribeUserScramCredentialsResponse_FLEXIBLE_MIN = 0"

definition DescribeUserScramCredentialsResponse_API_KEY :: i16 where
  "DescribeUserScramCredentialsResponse_API_KEY = 50"

definition DescribeUserScramCredentialsResponse_is_flexible :: "i16 \<Rightarrow> bool" where
  "DescribeUserScramCredentialsResponse_is_flexible version \<longleftrightarrow> DescribeUserScramCredentialsResponse_FLEXIBLE_MIN \<le>s version"

definition DescribeUserScramCredentialsResponse_encode :: "DescribeUserScramCredentialsResponse \<Rightarrow> i16 \<Rightarrow> encoder" where
  "DescribeUserScramCredentialsResponse_encode x version =
     (let flex = DescribeUserScramCredentialsResponse_is_flexible version in
      write_all
        [write_check (check_version DescribeUserScramCredentialsResponse_API_KEY version DescribeUserScramCredentialsResponse_MIN_VERSION DescribeUserScramCredentialsResponse_MAX_VERSION),
         put_when (0 \<le>s version) (put_i32 (dusc_resp_throttle_time_ms x)),
         put_when (0 \<le>s version) (put_i16 (dusc_resp_error_code x)),
         put_when (0 \<le>s version) (put_nullable_str flex (dusc_resp_error_message x)),
         put_when (0 \<le>s version) (put_array flex (\<lambda>it. DescribeUserScramCredentialsResponse_DescribeUserScramCredentialsResult_encode it version) (dusc_resp_results x)),
         put_when flex (put_tagged [] (dusc_resp_unknown_tagged_fields x))])"

definition DescribeUserScramCredentialsResponse_encoded_len :: "DescribeUserScramCredentialsResponse \<Rightarrow> i16 \<Rightarrow> nat" where
  "DescribeUserScramCredentialsResponse_encoded_len x version =
     (let flex = DescribeUserScramCredentialsResponse_is_flexible version in
      len_when (0 \<le>s version) 4
      + len_when (0 \<le>s version) 2
      + len_when (0 \<le>s version) (nullable_str_len flex (dusc_resp_error_message x))
      + len_when (0 \<le>s version) (array_size flex (\<lambda>it. DescribeUserScramCredentialsResponse_DescribeUserScramCredentialsResult_encoded_len it version) (dusc_resp_results x))
      + len_when flex (tagged_size [] (dusc_resp_unknown_tagged_fields x)))"

definition DescribeUserScramCredentialsResponse_decode :: "i16 \<Rightarrow> DescribeUserScramCredentialsResponse decoder" where
  "DescribeUserScramCredentialsResponse_decode version =
     (let flex = DescribeUserScramCredentialsResponse_is_flexible version in
      checked (check_version DescribeUserScramCredentialsResponse_API_KEY version DescribeUserScramCredentialsResponse_MIN_VERSION DescribeUserScramCredentialsResponse_MAX_VERSION) (
        read_then (get_into (0 \<le>s version) get_i32 (\<lambda>v out. out\<lparr>dusc_resp_throttle_time_ms := v\<rparr>) DescribeUserScramCredentialsResponse_default) (\<lambda>out.
        read_then (get_into (0 \<le>s version) get_i16 (\<lambda>v out. out\<lparr>dusc_resp_error_code := v\<rparr>) out) (\<lambda>out.
        read_then (get_into (0 \<le>s version) (get_nullable_str flex) (\<lambda>v out. out\<lparr>dusc_resp_error_message := v\<rparr>) out) (\<lambda>out.
        read_then (get_into (0 \<le>s version) (get_array flex (DescribeUserScramCredentialsResponse_DescribeUserScramCredentialsResult_decode version)) (\<lambda>v out. out\<lparr>dusc_resp_results := v\<rparr>) out) (\<lambda>out.
        get_trailer flex [] (\<lambda>u out. out\<lparr>dusc_resp_unknown_tagged_fields := u\<rparr>) out))))))"

definition DescribeUserScramCredentialsResponse_fields_wf :: "i16 \<Rightarrow> DescribeUserScramCredentialsResponse \<Rightarrow> bool" where
  "DescribeUserScramCredentialsResponse_fields_wf version x \<longleftrightarrow>
     (let flex = DescribeUserScramCredentialsResponse_is_flexible version in
      nullable_str_wf flex (dusc_resp_error_message x)
      \<and> array_ok flex (DescribeUserScramCredentialsResponse_DescribeUserScramCredentialsResult_wf version) (dusc_resp_results x))"

definition DescribeUserScramCredentialsResponse_wf :: "i16 \<Rightarrow> DescribeUserScramCredentialsResponse \<Rightarrow> bool" where
  "DescribeUserScramCredentialsResponse_wf version x \<longleftrightarrow>
     version_in DescribeUserScramCredentialsResponse_MIN_VERSION DescribeUserScramCredentialsResponse_MAX_VERSION version \<and> DescribeUserScramCredentialsResponse_fields_wf version x \<and> trailer_ok [] [] (dusc_resp_unknown_tagged_fields x)"

lemmas describe_user_scram_credentials_response_versions =
    DescribeUserScramCredentialsResponse_is_flexible_def DescribeUserScramCredentialsResponse_FLEXIBLE_MIN_def
    DescribeUserScramCredentialsResponse_MIN_VERSION_def DescribeUserScramCredentialsResponse_MAX_VERSION_def
    version_in_def

lemmas describe_user_scram_credentials_response_fields =
    Let_def field_ok_def DescribeUserScramCredentialsResponse_fields_wf_def
    DescribeUserScramCredentialsResponse_is_flexible_def DescribeUserScramCredentialsResponse_FLEXIBLE_MIN_def

lemma describe_user_scram_credentials_response_steps:
  assumes v: "0 \<le>s version" and flex: "flex = (DescribeUserScramCredentialsResponse_is_flexible version)"
  shows "keeps (DescribeUserScramCredentialsResponse_fields_wf version) (get_into (0 \<le>s version) get_i32 (\<lambda>v out. out\<lparr>dusc_resp_throttle_time_ms := v\<rparr>))"
    and "keeps (DescribeUserScramCredentialsResponse_fields_wf version) (get_into (0 \<le>s version) get_i16 (\<lambda>v out. out\<lparr>dusc_resp_error_code := v\<rparr>))"
    and "keeps (DescribeUserScramCredentialsResponse_fields_wf version) (get_into (0 \<le>s version) (get_nullable_str flex) (\<lambda>v out. out\<lparr>dusc_resp_error_message := v\<rparr>))"
    and "keeps (DescribeUserScramCredentialsResponse_fields_wf version) (get_into (0 \<le>s version) (get_array flex (DescribeUserScramCredentialsResponse_DescribeUserScramCredentialsResult_decode version)) (\<lambda>v out. out\<lparr>dusc_resp_results := v\<rparr>))"
  unfolding flex 
  by (rule keeps_into; (rule yields_rules)?; simp add: v describe_user_scram_credentials_response_fields)+

lemma describe_user_scram_credentials_response_unknown:
  "DescribeUserScramCredentialsResponse_fields_wf version (s\<lparr>dusc_resp_unknown_tagged_fields := u\<rparr>) = DescribeUserScramCredentialsResponse_fields_wf version s"
  by (simp_all add: DescribeUserScramCredentialsResponse_fields_wf_def)

lemma describe_user_scram_credentials_response_yields:
  assumes r: "version_in DescribeUserScramCredentialsResponse_MIN_VERSION DescribeUserScramCredentialsResponse_MAX_VERSION version"
  shows "yields 1 (DescribeUserScramCredentialsResponse_decode version) (DescribeUserScramCredentialsResponse_wf version)"
proof -
  have v: "0 \<le>s version"
    using r by (simp add: describe_user_scram_credentials_response_versions)
  have d: "DescribeUserScramCredentialsResponse_fields_wf version DescribeUserScramCredentialsResponse_default"
    by (simp add: DescribeUserScramCredentialsResponse_default_def v describe_user_scram_credentials_response_fields)
  show ?thesis
    unfolding DescribeUserScramCredentialsResponse_decode_def Let_def
    by (rule yields_checked, (rule describe_user_scram_credentials_response_steps[OF v refl, THEN yields_step], (rule d | assumption))+, rule yields_trailer[OF _ arms_keep_Nil[of "DescribeUserScramCredentialsResponse_fields_wf version" "\<lambda>_. 0"]])
      (simp_all add: v d describe_user_scram_credentials_response_unknown DescribeUserScramCredentialsResponse_wf_def trailer_ok_def r DescribeUserScramCredentialsResponse_is_flexible_def DescribeUserScramCredentialsResponse_FLEXIBLE_MIN_def)
qed

interpretation describe_user_scram_credentials_response: message_codec
  DescribeUserScramCredentialsResponse_encode DescribeUserScramCredentialsResponse_decode DescribeUserScramCredentialsResponse_encoded_len "DescribeUserScramCredentialsResponse_wf version" version
  for version
proof
  fix x
  assume w: "DescribeUserScramCredentialsResponse_wf version x"
  then have v: "0 \<le>s version"
    by (simp add: DescribeUserScramCredentialsResponse_wf_def describe_user_scram_credentials_response_versions)
  show "carries (DescribeUserScramCredentialsResponse_encode x version) (DescribeUserScramCredentialsResponse_decode version) (DescribeUserScramCredentialsResponse_encoded_len x version) x"
    unfolding DescribeUserScramCredentialsResponse_encode_def DescribeUserScramCredentialsResponse_encoded_len_def DescribeUserScramCredentialsResponse_decode_def Let_def
    by (use w[unfolded DescribeUserScramCredentialsResponse_wf_def DescribeUserScramCredentialsResponse_fields_wf_def Let_def] in \<open>elim conjE\<close>, rule carries_cong_len)
      ((rule carries_rules check_version_in[THEN iffD2] | (erule absent_guarded, assumption) | erule absent_plain
        | simp add: v field_ok_def DescribeUserScramCredentialsResponse_default_def describe_user_scram_credentials_response_versions)+)
next
  show "yields 1 (DescribeUserScramCredentialsResponse_decode version) (DescribeUserScramCredentialsResponse_wf version)"
    by (rule case_split[OF describe_user_scram_credentials_response_yields]) (auto simp: DescribeUserScramCredentialsResponse_decode_def Let_def yields_refused yields_unsupported)
  show "extends_input (DescribeUserScramCredentialsResponse_decode version)"
    unfolding DescribeUserScramCredentialsResponse_decode_def Let_def by (intro extends_rules)
qed

section \<open>GetTelemetrySubscriptionsRequest\<close>

record GetTelemetrySubscriptionsRequest =
  gts_req_client_instance_id :: Uuid
  gts_req_unknown_tagged_fields :: "UnknownTaggedField list"

definition GetTelemetrySubscriptionsRequest_default :: GetTelemetrySubscriptionsRequest where
  "GetTelemetrySubscriptionsRequest_default =
     \<lparr>gts_req_client_instance_id = Uuid_ZERO, gts_req_unknown_tagged_fields = []\<rparr>"

definition GetTelemetrySubscriptionsRequest_MIN_VERSION :: i16 where
  "GetTelemetrySubscriptionsRequest_MIN_VERSION = 0"

definition GetTelemetrySubscriptionsRequest_MAX_VERSION :: i16 where
  "GetTelemetrySubscriptionsRequest_MAX_VERSION = 0"

definition GetTelemetrySubscriptionsRequest_FLEXIBLE_MIN :: i16 where
  "GetTelemetrySubscriptionsRequest_FLEXIBLE_MIN = 0"

definition GetTelemetrySubscriptionsRequest_API_KEY :: i16 where
  "GetTelemetrySubscriptionsRequest_API_KEY = 71"

definition GetTelemetrySubscriptionsRequest_is_flexible :: "i16 \<Rightarrow> bool" where
  "GetTelemetrySubscriptionsRequest_is_flexible version \<longleftrightarrow> GetTelemetrySubscriptionsRequest_FLEXIBLE_MIN \<le>s version"

definition GetTelemetrySubscriptionsRequest_encode :: "GetTelemetrySubscriptionsRequest \<Rightarrow> i16 \<Rightarrow> encoder" where
  "GetTelemetrySubscriptionsRequest_encode x version =
     (let flex = GetTelemetrySubscriptionsRequest_is_flexible version in
      write_all
        [write_check (check_version GetTelemetrySubscriptionsRequest_API_KEY version GetTelemetrySubscriptionsRequest_MIN_VERSION GetTelemetrySubscriptionsRequest_MAX_VERSION),
         put_when (0 \<le>s version) (put_uuid (gts_req_client_instance_id x)),
         put_when flex (put_tagged [] (gts_req_unknown_tagged_fields x))])"

definition GetTelemetrySubscriptionsRequest_encoded_len :: "GetTelemetrySubscriptionsRequest \<Rightarrow> i16 \<Rightarrow> nat" where
  "GetTelemetrySubscriptionsRequest_encoded_len x version =
     (let flex = GetTelemetrySubscriptionsRequest_is_flexible version in
      len_when (0 \<le>s version) 16
      + len_when flex (tagged_size [] (gts_req_unknown_tagged_fields x)))"

definition GetTelemetrySubscriptionsRequest_decode :: "i16 \<Rightarrow> GetTelemetrySubscriptionsRequest decoder" where
  "GetTelemetrySubscriptionsRequest_decode version =
     (let flex = GetTelemetrySubscriptionsRequest_is_flexible version in
      checked (check_version GetTelemetrySubscriptionsRequest_API_KEY version GetTelemetrySubscriptionsRequest_MIN_VERSION GetTelemetrySubscriptionsRequest_MAX_VERSION) (
        read_then (get_into (0 \<le>s version) get_uuid (\<lambda>v out. out\<lparr>gts_req_client_instance_id := v\<rparr>) GetTelemetrySubscriptionsRequest_default) (\<lambda>out.
        get_trailer flex [] (\<lambda>u out. out\<lparr>gts_req_unknown_tagged_fields := u\<rparr>) out)))"

definition GetTelemetrySubscriptionsRequest_fields_wf :: "i16 \<Rightarrow> GetTelemetrySubscriptionsRequest \<Rightarrow> bool" where
  "GetTelemetrySubscriptionsRequest_fields_wf version x \<longleftrightarrow>
     uuid_wf (gts_req_client_instance_id x)"

definition GetTelemetrySubscriptionsRequest_wf :: "i16 \<Rightarrow> GetTelemetrySubscriptionsRequest \<Rightarrow> bool" where
  "GetTelemetrySubscriptionsRequest_wf version x \<longleftrightarrow>
     version_in GetTelemetrySubscriptionsRequest_MIN_VERSION GetTelemetrySubscriptionsRequest_MAX_VERSION version \<and> GetTelemetrySubscriptionsRequest_fields_wf version x \<and> trailer_ok [] [] (gts_req_unknown_tagged_fields x)"

lemmas get_telemetry_subscriptions_request_versions =
    GetTelemetrySubscriptionsRequest_is_flexible_def GetTelemetrySubscriptionsRequest_FLEXIBLE_MIN_def
    GetTelemetrySubscriptionsRequest_MIN_VERSION_def GetTelemetrySubscriptionsRequest_MAX_VERSION_def
    version_in_def

lemmas get_telemetry_subscriptions_request_fields =
    Let_def field_ok_def GetTelemetrySubscriptionsRequest_fields_wf_def
    GetTelemetrySubscriptionsRequest_is_flexible_def GetTelemetrySubscriptionsRequest_FLEXIBLE_MIN_def

lemma get_telemetry_subscriptions_request_steps:
  assumes v: "0 \<le>s version" and flex: "flex = (GetTelemetrySubscriptionsRequest_is_flexible version)"
  shows "keeps (GetTelemetrySubscriptionsRequest_fields_wf version) (get_into (0 \<le>s version) get_uuid (\<lambda>v out. out\<lparr>gts_req_client_instance_id := v\<rparr>))"
  unfolding flex 
  by (rule keeps_into; (rule yields_rules)?; simp add: v get_telemetry_subscriptions_request_fields)+

lemma get_telemetry_subscriptions_request_unknown:
  "GetTelemetrySubscriptionsRequest_fields_wf version (s\<lparr>gts_req_unknown_tagged_fields := u\<rparr>) = GetTelemetrySubscriptionsRequest_fields_wf version s"
  by (simp_all add: GetTelemetrySubscriptionsRequest_fields_wf_def)

lemma get_telemetry_subscriptions_request_yields:
  assumes r: "version_in GetTelemetrySubscriptionsRequest_MIN_VERSION GetTelemetrySubscriptionsRequest_MAX_VERSION version"
  shows "yields 1 (GetTelemetrySubscriptionsRequest_decode version) (GetTelemetrySubscriptionsRequest_wf version)"
proof -
  have v: "0 \<le>s version"
    using r by (simp add: get_telemetry_subscriptions_request_versions)
  have d: "GetTelemetrySubscriptionsRequest_fields_wf version GetTelemetrySubscriptionsRequest_default"
    by (simp add: GetTelemetrySubscriptionsRequest_default_def v get_telemetry_subscriptions_request_fields)
  show ?thesis
    unfolding GetTelemetrySubscriptionsRequest_decode_def Let_def
    by (rule yields_checked, (rule get_telemetry_subscriptions_request_steps[OF v refl, THEN yields_step], (rule d | assumption))+, rule yields_trailer[OF _ arms_keep_Nil[of "GetTelemetrySubscriptionsRequest_fields_wf version" "\<lambda>_. 0"]])
      (simp_all add: v d get_telemetry_subscriptions_request_unknown GetTelemetrySubscriptionsRequest_wf_def trailer_ok_def r GetTelemetrySubscriptionsRequest_is_flexible_def GetTelemetrySubscriptionsRequest_FLEXIBLE_MIN_def)
qed

interpretation get_telemetry_subscriptions_request: message_codec
  GetTelemetrySubscriptionsRequest_encode GetTelemetrySubscriptionsRequest_decode GetTelemetrySubscriptionsRequest_encoded_len "GetTelemetrySubscriptionsRequest_wf version" version
  for version
proof
  fix x
  assume w: "GetTelemetrySubscriptionsRequest_wf version x"
  then have v: "0 \<le>s version"
    by (simp add: GetTelemetrySubscriptionsRequest_wf_def get_telemetry_subscriptions_request_versions)
  show "carries (GetTelemetrySubscriptionsRequest_encode x version) (GetTelemetrySubscriptionsRequest_decode version) (GetTelemetrySubscriptionsRequest_encoded_len x version) x"
    unfolding GetTelemetrySubscriptionsRequest_encode_def GetTelemetrySubscriptionsRequest_encoded_len_def GetTelemetrySubscriptionsRequest_decode_def Let_def
    by (use w[unfolded GetTelemetrySubscriptionsRequest_wf_def GetTelemetrySubscriptionsRequest_fields_wf_def Let_def] in \<open>elim conjE\<close>, rule carries_cong_len)
      ((rule carries_rules check_version_in[THEN iffD2] | (erule absent_guarded, assumption) | erule absent_plain
        | simp add: v field_ok_def GetTelemetrySubscriptionsRequest_default_def get_telemetry_subscriptions_request_versions)+)
next
  show "yields 1 (GetTelemetrySubscriptionsRequest_decode version) (GetTelemetrySubscriptionsRequest_wf version)"
    by (rule case_split[OF get_telemetry_subscriptions_request_yields]) (auto simp: GetTelemetrySubscriptionsRequest_decode_def Let_def yields_refused yields_unsupported)
  show "extends_input (GetTelemetrySubscriptionsRequest_decode version)"
    unfolding GetTelemetrySubscriptionsRequest_decode_def Let_def by (intro extends_rules)
qed

section \<open>GetTelemetrySubscriptionsResponse\<close>

record GetTelemetrySubscriptionsResponse =
  gts_resp_throttle_time_ms :: i32
  gts_resp_error_code :: i16
  gts_resp_client_instance_id :: Uuid
  gts_resp_subscription_id :: i32
  gts_resp_accepted_compression_types :: "i8 list"
  gts_resp_push_interval_ms :: i32
  gts_resp_telemetry_max_bytes :: i32
  gts_resp_delta_temporality :: bool
  gts_resp_requested_metrics :: "bytes list"
  gts_resp_unknown_tagged_fields :: "UnknownTaggedField list"

definition GetTelemetrySubscriptionsResponse_default :: GetTelemetrySubscriptionsResponse where
  "GetTelemetrySubscriptionsResponse_default =
     \<lparr>gts_resp_throttle_time_ms = 0, gts_resp_error_code = 0, gts_resp_client_instance_id = Uuid_ZERO, gts_resp_subscription_id = 0, gts_resp_accepted_compression_types = [], gts_resp_push_interval_ms = 0, gts_resp_telemetry_max_bytes = 0, gts_resp_delta_temporality = False, gts_resp_requested_metrics = [], gts_resp_unknown_tagged_fields = []\<rparr>"

definition GetTelemetrySubscriptionsResponse_MIN_VERSION :: i16 where
  "GetTelemetrySubscriptionsResponse_MIN_VERSION = 0"

definition GetTelemetrySubscriptionsResponse_MAX_VERSION :: i16 where
  "GetTelemetrySubscriptionsResponse_MAX_VERSION = 0"

definition GetTelemetrySubscriptionsResponse_FLEXIBLE_MIN :: i16 where
  "GetTelemetrySubscriptionsResponse_FLEXIBLE_MIN = 0"

definition GetTelemetrySubscriptionsResponse_API_KEY :: i16 where
  "GetTelemetrySubscriptionsResponse_API_KEY = 71"

definition GetTelemetrySubscriptionsResponse_is_flexible :: "i16 \<Rightarrow> bool" where
  "GetTelemetrySubscriptionsResponse_is_flexible version \<longleftrightarrow> GetTelemetrySubscriptionsResponse_FLEXIBLE_MIN \<le>s version"

definition GetTelemetrySubscriptionsResponse_encode_field_0 :: "GetTelemetrySubscriptionsResponse \<Rightarrow> i16 \<Rightarrow> bool \<Rightarrow> encoder" where
  "GetTelemetrySubscriptionsResponse_encode_field_0 x version flex = put_when (0 \<le>s version) (put_i32 (gts_resp_throttle_time_ms x))"

definition GetTelemetrySubscriptionsResponse_encode_field_1 :: "GetTelemetrySubscriptionsResponse \<Rightarrow> i16 \<Rightarrow> bool \<Rightarrow> encoder" where
  "GetTelemetrySubscriptionsResponse_encode_field_1 x version flex = put_when (0 \<le>s version) (put_i16 (gts_resp_error_code x))"

definition GetTelemetrySubscriptionsResponse_encode_field_2 :: "GetTelemetrySubscriptionsResponse \<Rightarrow> i16 \<Rightarrow> bool \<Rightarrow> encoder" where
  "GetTelemetrySubscriptionsResponse_encode_field_2 x version flex = put_when (0 \<le>s version) (put_uuid (gts_resp_client_instance_id x))"

definition GetTelemetrySubscriptionsResponse_encode_field_3 :: "GetTelemetrySubscriptionsResponse \<Rightarrow> i16 \<Rightarrow> bool \<Rightarrow> encoder" where
  "GetTelemetrySubscriptionsResponse_encode_field_3 x version flex = put_when (0 \<le>s version) (put_i32 (gts_resp_subscription_id x))"

definition GetTelemetrySubscriptionsResponse_encode_field_4 :: "GetTelemetrySubscriptionsResponse \<Rightarrow> i16 \<Rightarrow> bool \<Rightarrow> encoder" where
  "GetTelemetrySubscriptionsResponse_encode_field_4 x version flex = put_when (0 \<le>s version) (put_array flex put_i8 (gts_resp_accepted_compression_types x))"

definition GetTelemetrySubscriptionsResponse_encode_field_5 :: "GetTelemetrySubscriptionsResponse \<Rightarrow> i16 \<Rightarrow> bool \<Rightarrow> encoder" where
  "GetTelemetrySubscriptionsResponse_encode_field_5 x version flex = put_when (0 \<le>s version) (put_i32 (gts_resp_push_interval_ms x))"

definition GetTelemetrySubscriptionsResponse_encode_field_6 :: "GetTelemetrySubscriptionsResponse \<Rightarrow> i16 \<Rightarrow> bool \<Rightarrow> encoder" where
  "GetTelemetrySubscriptionsResponse_encode_field_6 x version flex = put_when (0 \<le>s version) (put_i32 (gts_resp_telemetry_max_bytes x))"

definition GetTelemetrySubscriptionsResponse_encode_field_7 :: "GetTelemetrySubscriptionsResponse \<Rightarrow> i16 \<Rightarrow> bool \<Rightarrow> encoder" where
  "GetTelemetrySubscriptionsResponse_encode_field_7 x version flex = put_when (0 \<le>s version) (put_bool (gts_resp_delta_temporality x))"

definition GetTelemetrySubscriptionsResponse_encode_field_8 :: "GetTelemetrySubscriptionsResponse \<Rightarrow> i16 \<Rightarrow> bool \<Rightarrow> encoder" where
  "GetTelemetrySubscriptionsResponse_encode_field_8 x version flex = put_when (0 \<le>s version) (put_array flex (put_str flex) (gts_resp_requested_metrics x))"

definition GetTelemetrySubscriptionsResponse_encode_tagged_fields :: "GetTelemetrySubscriptionsResponse \<Rightarrow> i16 \<Rightarrow> bool \<Rightarrow> encoder" where
  "GetTelemetrySubscriptionsResponse_encode_tagged_fields x version flex =
     put_when flex (put_tagged
       []
       (gts_resp_unknown_tagged_fields x))"

definition GetTelemetrySubscriptionsResponse_encode :: "GetTelemetrySubscriptionsResponse \<Rightarrow> i16 \<Rightarrow> encoder" where
  "GetTelemetrySubscriptionsResponse_encode x version =
     (let flex = GetTelemetrySubscriptionsResponse_is_flexible version in
      write_all
        [write_check (check_version GetTelemetrySubscriptionsResponse_API_KEY version GetTelemetrySubscriptionsResponse_MIN_VERSION GetTelemetrySubscriptionsResponse_MAX_VERSION),
         GetTelemetrySubscriptionsResponse_encode_field_0 x version flex,
         GetTelemetrySubscriptionsResponse_encode_field_1 x version flex,
         GetTelemetrySubscriptionsResponse_encode_field_2 x version flex,
         GetTelemetrySubscriptionsResponse_encode_field_3 x version flex,
         GetTelemetrySubscriptionsResponse_encode_field_4 x version flex,
         GetTelemetrySubscriptionsResponse_encode_field_5 x version flex,
         GetTelemetrySubscriptionsResponse_encode_field_6 x version flex,
         GetTelemetrySubscriptionsResponse_encode_field_7 x version flex,
         GetTelemetrySubscriptionsResponse_encode_field_8 x version flex,
         GetTelemetrySubscriptionsResponse_encode_tagged_fields x version flex])"

definition GetTelemetrySubscriptionsResponse_encoded_len :: "GetTelemetrySubscriptionsResponse \<Rightarrow> i16 \<Rightarrow> nat" where
  "GetTelemetrySubscriptionsResponse_encoded_len x version =
     (let flex = GetTelemetrySubscriptionsResponse_is_flexible version in
      len_when (0 \<le>s version) 4
      + len_when (0 \<le>s version) 2
      + len_when (0 \<le>s version) 16
      + len_when (0 \<le>s version) 4
      + len_when (0 \<le>s version) (array_size flex (\<lambda>_. 1) (gts_resp_accepted_compression_types x))
      + len_when (0 \<le>s version) 4
      + len_when (0 \<le>s version) 4
      + len_when (0 \<le>s version) 1
      + len_when (0 \<le>s version) (array_size flex (str_len flex) (gts_resp_requested_metrics x))
      + len_when flex (tagged_size [] (gts_resp_unknown_tagged_fields x)))"

definition GetTelemetrySubscriptionsResponse_decode_field_0 :: "GetTelemetrySubscriptionsResponse \<Rightarrow> i16 \<Rightarrow> bool \<Rightarrow> GetTelemetrySubscriptionsResponse decoder" where
  "GetTelemetrySubscriptionsResponse_decode_field_0 out version flex = get_into (0 \<le>s version) get_i32 (\<lambda>v out. out\<lparr>gts_resp_throttle_time_ms := v\<rparr>) out"

definition GetTelemetrySubscriptionsResponse_decode_field_1 :: "GetTelemetrySubscriptionsResponse \<Rightarrow> i16 \<Rightarrow> bool \<Rightarrow> GetTelemetrySubscriptionsResponse decoder" where
  "GetTelemetrySubscriptionsResponse_decode_field_1 out version flex = get_into (0 \<le>s version) get_i16 (\<lambda>v out. out\<lparr>gts_resp_error_code := v\<rparr>) out"

definition GetTelemetrySubscriptionsResponse_decode_field_2 :: "GetTelemetrySubscriptionsResponse \<Rightarrow> i16 \<Rightarrow> bool \<Rightarrow> GetTelemetrySubscriptionsResponse decoder" where
  "GetTelemetrySubscriptionsResponse_decode_field_2 out version flex = get_into (0 \<le>s version) get_uuid (\<lambda>v out. out\<lparr>gts_resp_client_instance_id := v\<rparr>) out"

definition GetTelemetrySubscriptionsResponse_decode_field_3 :: "GetTelemetrySubscriptionsResponse \<Rightarrow> i16 \<Rightarrow> bool \<Rightarrow> GetTelemetrySubscriptionsResponse decoder" where
  "GetTelemetrySubscriptionsResponse_decode_field_3 out version flex = get_into (0 \<le>s version) get_i32 (\<lambda>v out. out\<lparr>gts_resp_subscription_id := v\<rparr>) out"

definition GetTelemetrySubscriptionsResponse_decode_field_4 :: "GetTelemetrySubscriptionsResponse \<Rightarrow> i16 \<Rightarrow> bool \<Rightarrow> GetTelemetrySubscriptionsResponse decoder" where
  "GetTelemetrySubscriptionsResponse_decode_field_4 out version flex = get_into (0 \<le>s version) (get_array flex get_i8) (\<lambda>v out. out\<lparr>gts_resp_accepted_compression_types := v\<rparr>) out"

definition GetTelemetrySubscriptionsResponse_decode_field_5 :: "GetTelemetrySubscriptionsResponse \<Rightarrow> i16 \<Rightarrow> bool \<Rightarrow> GetTelemetrySubscriptionsResponse decoder" where
  "GetTelemetrySubscriptionsResponse_decode_field_5 out version flex = get_into (0 \<le>s version) get_i32 (\<lambda>v out. out\<lparr>gts_resp_push_interval_ms := v\<rparr>) out"

definition GetTelemetrySubscriptionsResponse_decode_field_6 :: "GetTelemetrySubscriptionsResponse \<Rightarrow> i16 \<Rightarrow> bool \<Rightarrow> GetTelemetrySubscriptionsResponse decoder" where
  "GetTelemetrySubscriptionsResponse_decode_field_6 out version flex = get_into (0 \<le>s version) get_i32 (\<lambda>v out. out\<lparr>gts_resp_telemetry_max_bytes := v\<rparr>) out"

definition GetTelemetrySubscriptionsResponse_decode_field_7 :: "GetTelemetrySubscriptionsResponse \<Rightarrow> i16 \<Rightarrow> bool \<Rightarrow> GetTelemetrySubscriptionsResponse decoder" where
  "GetTelemetrySubscriptionsResponse_decode_field_7 out version flex = get_into (0 \<le>s version) get_bool (\<lambda>v out. out\<lparr>gts_resp_delta_temporality := v\<rparr>) out"

definition GetTelemetrySubscriptionsResponse_decode_field_8 :: "GetTelemetrySubscriptionsResponse \<Rightarrow> i16 \<Rightarrow> bool \<Rightarrow> GetTelemetrySubscriptionsResponse decoder" where
  "GetTelemetrySubscriptionsResponse_decode_field_8 out version flex = get_into (0 \<le>s version) (get_array flex (get_str flex)) (\<lambda>v out. out\<lparr>gts_resp_requested_metrics := v\<rparr>) out"

definition GetTelemetrySubscriptionsResponse_decode_tagged_fields :: "GetTelemetrySubscriptionsResponse \<Rightarrow> i16 \<Rightarrow> bool \<Rightarrow> GetTelemetrySubscriptionsResponse decoder" where
  "GetTelemetrySubscriptionsResponse_decode_tagged_fields out version flex =
     get_trailer flex
       []
       (\<lambda>u out. out\<lparr>gts_resp_unknown_tagged_fields := u\<rparr>) out"

definition GetTelemetrySubscriptionsResponse_decode :: "i16 \<Rightarrow> GetTelemetrySubscriptionsResponse decoder" where
  "GetTelemetrySubscriptionsResponse_decode version =
     (let flex = GetTelemetrySubscriptionsResponse_is_flexible version in
      checked (check_version GetTelemetrySubscriptionsResponse_API_KEY version GetTelemetrySubscriptionsResponse_MIN_VERSION GetTelemetrySubscriptionsResponse_MAX_VERSION) (
        read_then (GetTelemetrySubscriptionsResponse_decode_field_0 GetTelemetrySubscriptionsResponse_default version flex) (\<lambda>out.
        read_then (GetTelemetrySubscriptionsResponse_decode_field_1 out version flex) (\<lambda>out.
        read_then (GetTelemetrySubscriptionsResponse_decode_field_2 out version flex) (\<lambda>out.
        read_then (GetTelemetrySubscriptionsResponse_decode_field_3 out version flex) (\<lambda>out.
        read_then (GetTelemetrySubscriptionsResponse_decode_field_4 out version flex) (\<lambda>out.
        read_then (GetTelemetrySubscriptionsResponse_decode_field_5 out version flex) (\<lambda>out.
        read_then (GetTelemetrySubscriptionsResponse_decode_field_6 out version flex) (\<lambda>out.
        read_then (GetTelemetrySubscriptionsResponse_decode_field_7 out version flex) (\<lambda>out.
        read_then (GetTelemetrySubscriptionsResponse_decode_field_8 out version flex) (\<lambda>out.
        GetTelemetrySubscriptionsResponse_decode_tagged_fields out version flex)))))))))))"

definition GetTelemetrySubscriptionsResponse_fields_wf :: "i16 \<Rightarrow> GetTelemetrySubscriptionsResponse \<Rightarrow> bool" where
  "GetTelemetrySubscriptionsResponse_fields_wf version x \<longleftrightarrow>
     (let flex = GetTelemetrySubscriptionsResponse_is_flexible version in
      uuid_wf (gts_resp_client_instance_id x)
      \<and> array_ok flex (\<lambda>_. True) (gts_resp_accepted_compression_types x)
      \<and> array_ok flex (str_wf flex) (gts_resp_requested_metrics x))"

definition GetTelemetrySubscriptionsResponse_wf :: "i16 \<Rightarrow> GetTelemetrySubscriptionsResponse \<Rightarrow> bool" where
  "GetTelemetrySubscriptionsResponse_wf version x \<longleftrightarrow>
     version_in GetTelemetrySubscriptionsResponse_MIN_VERSION GetTelemetrySubscriptionsResponse_MAX_VERSION version \<and> GetTelemetrySubscriptionsResponse_fields_wf version x \<and> trailer_ok [] [] (gts_resp_unknown_tagged_fields x)"

lemmas get_telemetry_subscriptions_response_versions =
    GetTelemetrySubscriptionsResponse_is_flexible_def GetTelemetrySubscriptionsResponse_FLEXIBLE_MIN_def
    GetTelemetrySubscriptionsResponse_MIN_VERSION_def GetTelemetrySubscriptionsResponse_MAX_VERSION_def
    version_in_def

lemmas get_telemetry_subscriptions_response_fields =
    Let_def field_ok_def GetTelemetrySubscriptionsResponse_fields_wf_def
    GetTelemetrySubscriptionsResponse_is_flexible_def GetTelemetrySubscriptionsResponse_FLEXIBLE_MIN_def

lemmas get_telemetry_subscriptions_response_writers =
    GetTelemetrySubscriptionsResponse_encode_field_0_def GetTelemetrySubscriptionsResponse_encode_field_1_def
    GetTelemetrySubscriptionsResponse_encode_field_2_def GetTelemetrySubscriptionsResponse_encode_field_3_def
    GetTelemetrySubscriptionsResponse_encode_field_4_def GetTelemetrySubscriptionsResponse_encode_field_5_def
    GetTelemetrySubscriptionsResponse_encode_field_6_def GetTelemetrySubscriptionsResponse_encode_field_7_def
    GetTelemetrySubscriptionsResponse_encode_field_8_def
    GetTelemetrySubscriptionsResponse_encode_tagged_fields_def

lemmas get_telemetry_subscriptions_response_readers =
    GetTelemetrySubscriptionsResponse_decode_field_0_def GetTelemetrySubscriptionsResponse_decode_field_1_def
    GetTelemetrySubscriptionsResponse_decode_field_2_def GetTelemetrySubscriptionsResponse_decode_field_3_def
    GetTelemetrySubscriptionsResponse_decode_field_4_def GetTelemetrySubscriptionsResponse_decode_field_5_def
    GetTelemetrySubscriptionsResponse_decode_field_6_def GetTelemetrySubscriptionsResponse_decode_field_7_def
    GetTelemetrySubscriptionsResponse_decode_field_8_def
    GetTelemetrySubscriptionsResponse_decode_tagged_fields_def

lemma get_telemetry_subscriptions_response_steps:
  assumes v: "0 \<le>s version" and flex: "flex = (GetTelemetrySubscriptionsResponse_is_flexible version)"
  shows "keeps (GetTelemetrySubscriptionsResponse_fields_wf version) (\<lambda>out. GetTelemetrySubscriptionsResponse_decode_field_0 out version flex)"
    and "keeps (GetTelemetrySubscriptionsResponse_fields_wf version) (\<lambda>out. GetTelemetrySubscriptionsResponse_decode_field_1 out version flex)"
    and "keeps (GetTelemetrySubscriptionsResponse_fields_wf version) (\<lambda>out. GetTelemetrySubscriptionsResponse_decode_field_2 out version flex)"
    and "keeps (GetTelemetrySubscriptionsResponse_fields_wf version) (\<lambda>out. GetTelemetrySubscriptionsResponse_decode_field_3 out version flex)"
    and "keeps (GetTelemetrySubscriptionsResponse_fields_wf version) (\<lambda>out. GetTelemetrySubscriptionsResponse_decode_field_4 out version flex)"
    and "keeps (GetTelemetrySubscriptionsResponse_fields_wf version) (\<lambda>out. GetTelemetrySubscriptionsResponse_decode_field_5 out version flex)"
    and "keeps (GetTelemetrySubscriptionsResponse_fields_wf version) (\<lambda>out. GetTelemetrySubscriptionsResponse_decode_field_6 out version flex)"
    and "keeps (GetTelemetrySubscriptionsResponse_fields_wf version) (\<lambda>out. GetTelemetrySubscriptionsResponse_decode_field_7 out version flex)"
    and "keeps (GetTelemetrySubscriptionsResponse_fields_wf version) (\<lambda>out. GetTelemetrySubscriptionsResponse_decode_field_8 out version flex)"
  unfolding flex get_telemetry_subscriptions_response_readers
  by (rule keeps_into; (rule yields_rules)?; simp add: v get_telemetry_subscriptions_response_fields)+

lemma get_telemetry_subscriptions_response_unknown:
  "GetTelemetrySubscriptionsResponse_fields_wf version (s\<lparr>gts_resp_unknown_tagged_fields := u\<rparr>) = GetTelemetrySubscriptionsResponse_fields_wf version s"
  by (simp_all add: GetTelemetrySubscriptionsResponse_fields_wf_def)

lemma get_telemetry_subscriptions_response_yields:
  assumes r: "version_in GetTelemetrySubscriptionsResponse_MIN_VERSION GetTelemetrySubscriptionsResponse_MAX_VERSION version"
  shows "yields 1 (GetTelemetrySubscriptionsResponse_decode version) (GetTelemetrySubscriptionsResponse_wf version)"
proof -
  have v: "0 \<le>s version"
    using r by (simp add: get_telemetry_subscriptions_response_versions)
  have d: "GetTelemetrySubscriptionsResponse_fields_wf version GetTelemetrySubscriptionsResponse_default"
    by (simp add: GetTelemetrySubscriptionsResponse_default_def v get_telemetry_subscriptions_response_fields)
  show ?thesis
    unfolding GetTelemetrySubscriptionsResponse_decode_def Let_def GetTelemetrySubscriptionsResponse_decode_tagged_fields_def
    by (rule yields_checked, (rule get_telemetry_subscriptions_response_steps[OF v refl, THEN yields_step], (rule d | assumption))+, rule yields_trailer[OF _ arms_keep_Nil[of "GetTelemetrySubscriptionsResponse_fields_wf version" "\<lambda>_. 0"]])
      (simp_all add: v d get_telemetry_subscriptions_response_unknown GetTelemetrySubscriptionsResponse_wf_def trailer_ok_def r GetTelemetrySubscriptionsResponse_is_flexible_def GetTelemetrySubscriptionsResponse_FLEXIBLE_MIN_def)
qed

interpretation get_telemetry_subscriptions_response: message_codec
  GetTelemetrySubscriptionsResponse_encode GetTelemetrySubscriptionsResponse_decode GetTelemetrySubscriptionsResponse_encoded_len "GetTelemetrySubscriptionsResponse_wf version" version
  for version
proof
  fix x
  assume w: "GetTelemetrySubscriptionsResponse_wf version x"
  then have v: "0 \<le>s version"
    by (simp add: GetTelemetrySubscriptionsResponse_wf_def get_telemetry_subscriptions_response_versions)
  show "carries (GetTelemetrySubscriptionsResponse_encode x version) (GetTelemetrySubscriptionsResponse_decode version) (GetTelemetrySubscriptionsResponse_encoded_len x version) x"
    unfolding GetTelemetrySubscriptionsResponse_encode_def get_telemetry_subscriptions_response_writers GetTelemetrySubscriptionsResponse_encoded_len_def GetTelemetrySubscriptionsResponse_decode_def get_telemetry_subscriptions_response_readers Let_def
    by (use w[unfolded GetTelemetrySubscriptionsResponse_wf_def GetTelemetrySubscriptionsResponse_fields_wf_def Let_def] in \<open>elim conjE\<close>, rule carries_cong_len)
      ((rule carries_rules check_version_in[THEN iffD2] | (erule absent_guarded, assumption) | erule absent_plain
        | simp add: v field_ok_def GetTelemetrySubscriptionsResponse_default_def get_telemetry_subscriptions_response_versions)+)
next
  show "yields 1 (GetTelemetrySubscriptionsResponse_decode version) (GetTelemetrySubscriptionsResponse_wf version)"
    by (rule case_split[OF get_telemetry_subscriptions_response_yields]) (auto simp: GetTelemetrySubscriptionsResponse_decode_def Let_def yields_refused yields_unsupported)
  show "extends_input (GetTelemetrySubscriptionsResponse_decode version)"
    unfolding GetTelemetrySubscriptionsResponse_decode_def Let_def get_telemetry_subscriptions_response_readers by (intro extends_rules)
qed

section \<open>ListConfigResourcesRequest\<close>

record ListConfigResourcesRequest =
  lcr_req_resource_types :: "i8 list"
  lcr_req_unknown_tagged_fields :: "UnknownTaggedField list"

definition ListConfigResourcesRequest_default :: ListConfigResourcesRequest where
  "ListConfigResourcesRequest_default =
     \<lparr>lcr_req_resource_types = [], lcr_req_unknown_tagged_fields = []\<rparr>"

definition ListConfigResourcesRequest_MIN_VERSION :: i16 where
  "ListConfigResourcesRequest_MIN_VERSION = 0"

definition ListConfigResourcesRequest_MAX_VERSION :: i16 where
  "ListConfigResourcesRequest_MAX_VERSION = 1"

definition ListConfigResourcesRequest_FLEXIBLE_MIN :: i16 where
  "ListConfigResourcesRequest_FLEXIBLE_MIN = 0"

definition ListConfigResourcesRequest_API_KEY :: i16 where
  "ListConfigResourcesRequest_API_KEY = 74"

definition ListConfigResourcesRequest_is_flexible :: "i16 \<Rightarrow> bool" where
  "ListConfigResourcesRequest_is_flexible version \<longleftrightarrow> ListConfigResourcesRequest_FLEXIBLE_MIN \<le>s version"

definition ListConfigResourcesRequest_encode :: "ListConfigResourcesRequest \<Rightarrow> i16 \<Rightarrow> encoder" where
  "ListConfigResourcesRequest_encode x version =
     (let flex = ListConfigResourcesRequest_is_flexible version in
      write_all
        [write_check (check_version ListConfigResourcesRequest_API_KEY version ListConfigResourcesRequest_MIN_VERSION ListConfigResourcesRequest_MAX_VERSION),
         put_when (1 \<le>s version) (put_array flex put_i8 (lcr_req_resource_types x)),
         put_when flex (put_tagged [] (lcr_req_unknown_tagged_fields x))])"

definition ListConfigResourcesRequest_encoded_len :: "ListConfigResourcesRequest \<Rightarrow> i16 \<Rightarrow> nat" where
  "ListConfigResourcesRequest_encoded_len x version =
     (let flex = ListConfigResourcesRequest_is_flexible version in
      len_when (1 \<le>s version) (array_size flex (\<lambda>_. 1) (lcr_req_resource_types x))
      + len_when flex (tagged_size [] (lcr_req_unknown_tagged_fields x)))"

definition ListConfigResourcesRequest_decode :: "i16 \<Rightarrow> ListConfigResourcesRequest decoder" where
  "ListConfigResourcesRequest_decode version =
     (let flex = ListConfigResourcesRequest_is_flexible version in
      checked (check_version ListConfigResourcesRequest_API_KEY version ListConfigResourcesRequest_MIN_VERSION ListConfigResourcesRequest_MAX_VERSION) (
        read_then (get_into (1 \<le>s version) (get_array flex get_i8) (\<lambda>v out. out\<lparr>lcr_req_resource_types := v\<rparr>) ListConfigResourcesRequest_default) (\<lambda>out.
        get_trailer flex [] (\<lambda>u out. out\<lparr>lcr_req_unknown_tagged_fields := u\<rparr>) out)))"

definition ListConfigResourcesRequest_fields_wf :: "i16 \<Rightarrow> ListConfigResourcesRequest \<Rightarrow> bool" where
  "ListConfigResourcesRequest_fields_wf version x \<longleftrightarrow>
     (let flex = ListConfigResourcesRequest_is_flexible version in
      field_ok (1 \<le>s version) [] (array_ok flex (\<lambda>_. True)) (lcr_req_resource_types x))"

definition ListConfigResourcesRequest_wf :: "i16 \<Rightarrow> ListConfigResourcesRequest \<Rightarrow> bool" where
  "ListConfigResourcesRequest_wf version x \<longleftrightarrow>
     version_in ListConfigResourcesRequest_MIN_VERSION ListConfigResourcesRequest_MAX_VERSION version \<and> ListConfigResourcesRequest_fields_wf version x \<and> trailer_ok [] [] (lcr_req_unknown_tagged_fields x)"

lemmas list_config_resources_request_versions =
    ListConfigResourcesRequest_is_flexible_def ListConfigResourcesRequest_FLEXIBLE_MIN_def
    ListConfigResourcesRequest_MIN_VERSION_def ListConfigResourcesRequest_MAX_VERSION_def version_in_def

lemmas list_config_resources_request_fields =
    Let_def field_ok_def ListConfigResourcesRequest_fields_wf_def ListConfigResourcesRequest_is_flexible_def
    ListConfigResourcesRequest_FLEXIBLE_MIN_def

lemma list_config_resources_request_steps:
  assumes v: "0 \<le>s version" and flex: "flex = (ListConfigResourcesRequest_is_flexible version)"
  shows "keeps (ListConfigResourcesRequest_fields_wf version) (get_into (1 \<le>s version) (get_array flex get_i8) (\<lambda>v out. out\<lparr>lcr_req_resource_types := v\<rparr>))"
  unfolding flex 
  by (rule keeps_into; (rule yields_rules)?; simp add: v list_config_resources_request_fields)+

lemma list_config_resources_request_unknown:
  "ListConfigResourcesRequest_fields_wf version (s\<lparr>lcr_req_unknown_tagged_fields := u\<rparr>) = ListConfigResourcesRequest_fields_wf version s"
  by (simp_all add: ListConfigResourcesRequest_fields_wf_def)

lemma list_config_resources_request_yields:
  assumes r: "version_in ListConfigResourcesRequest_MIN_VERSION ListConfigResourcesRequest_MAX_VERSION version"
  shows "yields 1 (ListConfigResourcesRequest_decode version) (ListConfigResourcesRequest_wf version)"
proof -
  have v: "0 \<le>s version"
    using r by (simp add: list_config_resources_request_versions)
  have d: "ListConfigResourcesRequest_fields_wf version ListConfigResourcesRequest_default"
    by (simp add: ListConfigResourcesRequest_default_def v list_config_resources_request_fields)
  show ?thesis
    unfolding ListConfigResourcesRequest_decode_def Let_def
    by (rule yields_checked, (rule list_config_resources_request_steps[OF v refl, THEN yields_step], (rule d | assumption))+, rule yields_trailer[OF _ arms_keep_Nil[of "ListConfigResourcesRequest_fields_wf version" "\<lambda>_. 0"]])
      (simp_all add: v d list_config_resources_request_unknown ListConfigResourcesRequest_wf_def trailer_ok_def r ListConfigResourcesRequest_is_flexible_def ListConfigResourcesRequest_FLEXIBLE_MIN_def)
qed

interpretation list_config_resources_request: message_codec
  ListConfigResourcesRequest_encode ListConfigResourcesRequest_decode ListConfigResourcesRequest_encoded_len "ListConfigResourcesRequest_wf version" version
  for version
proof
  fix x
  assume w: "ListConfigResourcesRequest_wf version x"
  then have v: "0 \<le>s version"
    by (simp add: ListConfigResourcesRequest_wf_def list_config_resources_request_versions)
  show "carries (ListConfigResourcesRequest_encode x version) (ListConfigResourcesRequest_decode version) (ListConfigResourcesRequest_encoded_len x version) x"
    unfolding ListConfigResourcesRequest_encode_def ListConfigResourcesRequest_encoded_len_def ListConfigResourcesRequest_decode_def Let_def
    by (use w[unfolded ListConfigResourcesRequest_wf_def ListConfigResourcesRequest_fields_wf_def Let_def] in \<open>elim conjE\<close>, rule carries_cong_len)
      ((rule carries_rules check_version_in[THEN iffD2] | (erule absent_guarded, assumption) | erule absent_plain
        | simp add: v field_ok_def ListConfigResourcesRequest_default_def list_config_resources_request_versions)+)
next
  show "yields 1 (ListConfigResourcesRequest_decode version) (ListConfigResourcesRequest_wf version)"
    by (rule case_split[OF list_config_resources_request_yields]) (auto simp: ListConfigResourcesRequest_decode_def Let_def yields_refused yields_unsupported)
  show "extends_input (ListConfigResourcesRequest_decode version)"
    unfolding ListConfigResourcesRequest_decode_def Let_def by (intro extends_rules)
qed

section \<open>ListConfigResourcesResponse\<close>

record ListConfigResourcesResponse_ConfigResource =
  lcr_resp_cr_resource_name :: bytes
  lcr_resp_cr_resource_type :: i8
  lcr_resp_cr_unknown_tagged_fields :: "UnknownTaggedField list"

definition ListConfigResourcesResponse_ConfigResource_default :: ListConfigResourcesResponse_ConfigResource where
  "ListConfigResourcesResponse_ConfigResource_default =
     \<lparr>lcr_resp_cr_resource_name = [], lcr_resp_cr_resource_type = 16, lcr_resp_cr_unknown_tagged_fields = []\<rparr>"

definition ListConfigResourcesResponse_ConfigResource_encode :: "ListConfigResourcesResponse_ConfigResource \<Rightarrow> i16 \<Rightarrow> encoder" where
  "ListConfigResourcesResponse_ConfigResource_encode x version =
     (let flex = 0 \<le>s version in
      write_all
        [put_when (0 \<le>s version) (put_str flex (lcr_resp_cr_resource_name x)),
         put_when (1 \<le>s version) (put_i8 (lcr_resp_cr_resource_type x)),
         put_when flex (put_tagged [] (lcr_resp_cr_unknown_tagged_fields x))])"

definition ListConfigResourcesResponse_ConfigResource_encoded_len :: "ListConfigResourcesResponse_ConfigResource \<Rightarrow> i16 \<Rightarrow> nat" where
  "ListConfigResourcesResponse_ConfigResource_encoded_len x version =
     (let flex = 0 \<le>s version in
      len_when (0 \<le>s version) (str_len flex (lcr_resp_cr_resource_name x))
      + len_when (1 \<le>s version) 1
      + len_when flex (tagged_size [] (lcr_resp_cr_unknown_tagged_fields x)))"

definition ListConfigResourcesResponse_ConfigResource_decode :: "i16 \<Rightarrow> ListConfigResourcesResponse_ConfigResource decoder" where
  "ListConfigResourcesResponse_ConfigResource_decode version =
     (let flex = 0 \<le>s version in
      read_then (get_into (0 \<le>s version) (get_str flex) (\<lambda>v out. out\<lparr>lcr_resp_cr_resource_name := v\<rparr>) ListConfigResourcesResponse_ConfigResource_default) (\<lambda>out.
        read_then (get_into (1 \<le>s version) get_i8 (\<lambda>v out. out\<lparr>lcr_resp_cr_resource_type := v\<rparr>) out) (\<lambda>out.
        get_trailer flex [] (\<lambda>u out. out\<lparr>lcr_resp_cr_unknown_tagged_fields := u\<rparr>) out)))"

definition ListConfigResourcesResponse_ConfigResource_fields_wf :: "i16 \<Rightarrow> ListConfigResourcesResponse_ConfigResource \<Rightarrow> bool" where
  "ListConfigResourcesResponse_ConfigResource_fields_wf version x \<longleftrightarrow>
     (let flex = 0 \<le>s version in
      str_wf flex (lcr_resp_cr_resource_name x)
      \<and> field_ok (1 \<le>s version) 16 (\<lambda>_. True) (lcr_resp_cr_resource_type x))"

definition ListConfigResourcesResponse_ConfigResource_wf :: "i16 \<Rightarrow> ListConfigResourcesResponse_ConfigResource \<Rightarrow> bool" where
  "ListConfigResourcesResponse_ConfigResource_wf version x \<longleftrightarrow>
     ListConfigResourcesResponse_ConfigResource_fields_wf version x \<and> trailer_ok [] [] (lcr_resp_cr_unknown_tagged_fields x)"

lemmas list_config_resources_response_config_resource_fields =
    Let_def field_ok_def ListConfigResourcesResponse_ConfigResource_fields_wf_def

lemma list_config_resources_response_config_resource_steps:
  assumes v: "0 \<le>s version" and flex: "flex = (0 \<le>s version)"
  shows "keeps (ListConfigResourcesResponse_ConfigResource_fields_wf version) (get_into (0 \<le>s version) (get_str flex) (\<lambda>v out. out\<lparr>lcr_resp_cr_resource_name := v\<rparr>))"
    and "keeps (ListConfigResourcesResponse_ConfigResource_fields_wf version) (get_into (1 \<le>s version) get_i8 (\<lambda>v out. out\<lparr>lcr_resp_cr_resource_type := v\<rparr>))"
  unfolding flex 
  by (rule keeps_into; (rule yields_rules)?; simp add: v list_config_resources_response_config_resource_fields)+

lemma list_config_resources_response_config_resource_unknown:
  "ListConfigResourcesResponse_ConfigResource_fields_wf version (s\<lparr>lcr_resp_cr_unknown_tagged_fields := u\<rparr>) = ListConfigResourcesResponse_ConfigResource_fields_wf version s"
  by (simp_all add: ListConfigResourcesResponse_ConfigResource_fields_wf_def)

lemma list_config_resources_response_config_resource_yields:
  assumes v: "0 \<le>s version"
  shows "yields 1 (ListConfigResourcesResponse_ConfigResource_decode version) (ListConfigResourcesResponse_ConfigResource_wf version)"
proof -
  have d: "ListConfigResourcesResponse_ConfigResource_fields_wf version ListConfigResourcesResponse_ConfigResource_default"
    by (simp add: ListConfigResourcesResponse_ConfigResource_default_def v list_config_resources_response_config_resource_fields)
  show ?thesis
    unfolding ListConfigResourcesResponse_ConfigResource_decode_def Let_def
    by ((rule list_config_resources_response_config_resource_steps[OF v refl, THEN yields_step], (rule d | assumption))+, rule yields_trailer[OF _ arms_keep_Nil[of "ListConfigResourcesResponse_ConfigResource_fields_wf version" "\<lambda>_. 0"]])
      (simp_all add: v d list_config_resources_response_config_resource_unknown ListConfigResourcesResponse_ConfigResource_wf_def trailer_ok_def )
qed

lemma list_config_resources_response_config_resource_extends [extends_rules]: "extends_input (ListConfigResourcesResponse_ConfigResource_decode version)"
  unfolding ListConfigResourcesResponse_ConfigResource_decode_def Let_def by (intro extends_rules)

lemma list_config_resources_response_config_resource_codec:
  assumes v: "0 \<le>s version"
  shows "message_codec ListConfigResourcesResponse_ConfigResource_encode ListConfigResourcesResponse_ConfigResource_decode ListConfigResourcesResponse_ConfigResource_encoded_len (ListConfigResourcesResponse_ConfigResource_wf version) version"
proof
  fix x
  assume w: "ListConfigResourcesResponse_ConfigResource_wf version x"
  show "carries (ListConfigResourcesResponse_ConfigResource_encode x version) (ListConfigResourcesResponse_ConfigResource_decode version) (ListConfigResourcesResponse_ConfigResource_encoded_len x version) x"
    unfolding ListConfigResourcesResponse_ConfigResource_encode_def ListConfigResourcesResponse_ConfigResource_encoded_len_def ListConfigResourcesResponse_ConfigResource_decode_def Let_def
    by (use w[unfolded ListConfigResourcesResponse_ConfigResource_wf_def ListConfigResourcesResponse_ConfigResource_fields_wf_def Let_def] in \<open>elim conjE\<close>, rule carries_cong_len)
      ((rule carries_rules | (erule absent_guarded, assumption) | erule absent_plain
        | simp add: v field_ok_def ListConfigResourcesResponse_ConfigResource_default_def )+)
next
  show "yields 1 (ListConfigResourcesResponse_ConfigResource_decode version) (ListConfigResourcesResponse_ConfigResource_wf version)"
    by (rule list_config_resources_response_config_resource_yields[OF v])
qed (rule list_config_resources_response_config_resource_extends)

lemma list_config_resources_response_config_resource_default_wf [simp]: "0 \<le>s version \<Longrightarrow> ListConfigResourcesResponse_ConfigResource_wf version ListConfigResourcesResponse_ConfigResource_default"
  by (simp add: ListConfigResourcesResponse_ConfigResource_wf_def ListConfigResourcesResponse_ConfigResource_default_def trailer_ok_def list_config_resources_response_config_resource_fields)

lemmas [carries_rules] = message_codec.message_carries[OF list_config_resources_response_config_resource_codec]
lemmas [yields_rules] = message_codec.message_yields[OF list_config_resources_response_config_resource_codec]

lemmas [carries_rules] = protocol_codec.put_array_carries[OF message_codec.message_protocol[OF list_config_resources_response_config_resource_codec]]
lemmas [yields_rules] = protocol_codec.get_array_yields[OF message_codec.message_protocol[OF list_config_resources_response_config_resource_codec]]
lemmas [carries_rules] = protocol_codec.put_nullable_array_carries[OF message_codec.message_protocol[OF list_config_resources_response_config_resource_codec]]
lemmas [yields_rules] = protocol_codec.get_nullable_array_yields[OF message_codec.message_protocol[OF list_config_resources_response_config_resource_codec]]

record ListConfigResourcesResponse =
  lcr_resp_throttle_time_ms :: i32
  lcr_resp_error_code :: i16
  lcr_resp_config_resources :: "ListConfigResourcesResponse_ConfigResource list"
  lcr_resp_unknown_tagged_fields :: "UnknownTaggedField list"

definition ListConfigResourcesResponse_default :: ListConfigResourcesResponse where
  "ListConfigResourcesResponse_default =
     \<lparr>lcr_resp_throttle_time_ms = 0, lcr_resp_error_code = 0, lcr_resp_config_resources = [], lcr_resp_unknown_tagged_fields = []\<rparr>"

definition ListConfigResourcesResponse_MIN_VERSION :: i16 where
  "ListConfigResourcesResponse_MIN_VERSION = 0"

definition ListConfigResourcesResponse_MAX_VERSION :: i16 where
  "ListConfigResourcesResponse_MAX_VERSION = 1"

definition ListConfigResourcesResponse_FLEXIBLE_MIN :: i16 where
  "ListConfigResourcesResponse_FLEXIBLE_MIN = 0"

definition ListConfigResourcesResponse_API_KEY :: i16 where
  "ListConfigResourcesResponse_API_KEY = 74"

definition ListConfigResourcesResponse_is_flexible :: "i16 \<Rightarrow> bool" where
  "ListConfigResourcesResponse_is_flexible version \<longleftrightarrow> ListConfigResourcesResponse_FLEXIBLE_MIN \<le>s version"

definition ListConfigResourcesResponse_encode :: "ListConfigResourcesResponse \<Rightarrow> i16 \<Rightarrow> encoder" where
  "ListConfigResourcesResponse_encode x version =
     (let flex = ListConfigResourcesResponse_is_flexible version in
      write_all
        [write_check (check_version ListConfigResourcesResponse_API_KEY version ListConfigResourcesResponse_MIN_VERSION ListConfigResourcesResponse_MAX_VERSION),
         put_when (0 \<le>s version) (put_i32 (lcr_resp_throttle_time_ms x)),
         put_when (0 \<le>s version) (put_i16 (lcr_resp_error_code x)),
         put_when (0 \<le>s version) (put_array flex (\<lambda>it. ListConfigResourcesResponse_ConfigResource_encode it version) (lcr_resp_config_resources x)),
         put_when flex (put_tagged [] (lcr_resp_unknown_tagged_fields x))])"

definition ListConfigResourcesResponse_encoded_len :: "ListConfigResourcesResponse \<Rightarrow> i16 \<Rightarrow> nat" where
  "ListConfigResourcesResponse_encoded_len x version =
     (let flex = ListConfigResourcesResponse_is_flexible version in
      len_when (0 \<le>s version) 4
      + len_when (0 \<le>s version) 2
      + len_when (0 \<le>s version) (array_size flex (\<lambda>it. ListConfigResourcesResponse_ConfigResource_encoded_len it version) (lcr_resp_config_resources x))
      + len_when flex (tagged_size [] (lcr_resp_unknown_tagged_fields x)))"

definition ListConfigResourcesResponse_decode :: "i16 \<Rightarrow> ListConfigResourcesResponse decoder" where
  "ListConfigResourcesResponse_decode version =
     (let flex = ListConfigResourcesResponse_is_flexible version in
      checked (check_version ListConfigResourcesResponse_API_KEY version ListConfigResourcesResponse_MIN_VERSION ListConfigResourcesResponse_MAX_VERSION) (
        read_then (get_into (0 \<le>s version) get_i32 (\<lambda>v out. out\<lparr>lcr_resp_throttle_time_ms := v\<rparr>) ListConfigResourcesResponse_default) (\<lambda>out.
        read_then (get_into (0 \<le>s version) get_i16 (\<lambda>v out. out\<lparr>lcr_resp_error_code := v\<rparr>) out) (\<lambda>out.
        read_then (get_into (0 \<le>s version) (get_array flex (ListConfigResourcesResponse_ConfigResource_decode version)) (\<lambda>v out. out\<lparr>lcr_resp_config_resources := v\<rparr>) out) (\<lambda>out.
        get_trailer flex [] (\<lambda>u out. out\<lparr>lcr_resp_unknown_tagged_fields := u\<rparr>) out)))))"

definition ListConfigResourcesResponse_fields_wf :: "i16 \<Rightarrow> ListConfigResourcesResponse \<Rightarrow> bool" where
  "ListConfigResourcesResponse_fields_wf version x \<longleftrightarrow>
     (let flex = ListConfigResourcesResponse_is_flexible version in
      array_ok flex (ListConfigResourcesResponse_ConfigResource_wf version) (lcr_resp_config_resources x))"

definition ListConfigResourcesResponse_wf :: "i16 \<Rightarrow> ListConfigResourcesResponse \<Rightarrow> bool" where
  "ListConfigResourcesResponse_wf version x \<longleftrightarrow>
     version_in ListConfigResourcesResponse_MIN_VERSION ListConfigResourcesResponse_MAX_VERSION version \<and> ListConfigResourcesResponse_fields_wf version x \<and> trailer_ok [] [] (lcr_resp_unknown_tagged_fields x)"

lemmas list_config_resources_response_versions =
    ListConfigResourcesResponse_is_flexible_def ListConfigResourcesResponse_FLEXIBLE_MIN_def
    ListConfigResourcesResponse_MIN_VERSION_def ListConfigResourcesResponse_MAX_VERSION_def version_in_def

lemmas list_config_resources_response_fields =
    Let_def field_ok_def ListConfigResourcesResponse_fields_wf_def ListConfigResourcesResponse_is_flexible_def
    ListConfigResourcesResponse_FLEXIBLE_MIN_def

lemma list_config_resources_response_steps:
  assumes v: "0 \<le>s version" and flex: "flex = (ListConfigResourcesResponse_is_flexible version)"
  shows "keeps (ListConfigResourcesResponse_fields_wf version) (get_into (0 \<le>s version) get_i32 (\<lambda>v out. out\<lparr>lcr_resp_throttle_time_ms := v\<rparr>))"
    and "keeps (ListConfigResourcesResponse_fields_wf version) (get_into (0 \<le>s version) get_i16 (\<lambda>v out. out\<lparr>lcr_resp_error_code := v\<rparr>))"
    and "keeps (ListConfigResourcesResponse_fields_wf version) (get_into (0 \<le>s version) (get_array flex (ListConfigResourcesResponse_ConfigResource_decode version)) (\<lambda>v out. out\<lparr>lcr_resp_config_resources := v\<rparr>))"
  unfolding flex 
  by (rule keeps_into; (rule yields_rules)?; simp add: v list_config_resources_response_fields)+

lemma list_config_resources_response_unknown:
  "ListConfigResourcesResponse_fields_wf version (s\<lparr>lcr_resp_unknown_tagged_fields := u\<rparr>) = ListConfigResourcesResponse_fields_wf version s"
  by (simp_all add: ListConfigResourcesResponse_fields_wf_def)

lemma list_config_resources_response_yields:
  assumes r: "version_in ListConfigResourcesResponse_MIN_VERSION ListConfigResourcesResponse_MAX_VERSION version"
  shows "yields 1 (ListConfigResourcesResponse_decode version) (ListConfigResourcesResponse_wf version)"
proof -
  have v: "0 \<le>s version"
    using r by (simp add: list_config_resources_response_versions)
  have d: "ListConfigResourcesResponse_fields_wf version ListConfigResourcesResponse_default"
    by (simp add: ListConfigResourcesResponse_default_def v list_config_resources_response_fields)
  show ?thesis
    unfolding ListConfigResourcesResponse_decode_def Let_def
    by (rule yields_checked, (rule list_config_resources_response_steps[OF v refl, THEN yields_step], (rule d | assumption))+, rule yields_trailer[OF _ arms_keep_Nil[of "ListConfigResourcesResponse_fields_wf version" "\<lambda>_. 0"]])
      (simp_all add: v d list_config_resources_response_unknown ListConfigResourcesResponse_wf_def trailer_ok_def r ListConfigResourcesResponse_is_flexible_def ListConfigResourcesResponse_FLEXIBLE_MIN_def)
qed

interpretation list_config_resources_response: message_codec
  ListConfigResourcesResponse_encode ListConfigResourcesResponse_decode ListConfigResourcesResponse_encoded_len "ListConfigResourcesResponse_wf version" version
  for version
proof
  fix x
  assume w: "ListConfigResourcesResponse_wf version x"
  then have v: "0 \<le>s version"
    by (simp add: ListConfigResourcesResponse_wf_def list_config_resources_response_versions)
  show "carries (ListConfigResourcesResponse_encode x version) (ListConfigResourcesResponse_decode version) (ListConfigResourcesResponse_encoded_len x version) x"
    unfolding ListConfigResourcesResponse_encode_def ListConfigResourcesResponse_encoded_len_def ListConfigResourcesResponse_decode_def Let_def
    by (use w[unfolded ListConfigResourcesResponse_wf_def ListConfigResourcesResponse_fields_wf_def Let_def] in \<open>elim conjE\<close>, rule carries_cong_len)
      ((rule carries_rules check_version_in[THEN iffD2] | (erule absent_guarded, assumption) | erule absent_plain
        | simp add: v field_ok_def ListConfigResourcesResponse_default_def list_config_resources_response_versions)+)
next
  show "yields 1 (ListConfigResourcesResponse_decode version) (ListConfigResourcesResponse_wf version)"
    by (rule case_split[OF list_config_resources_response_yields]) (auto simp: ListConfigResourcesResponse_decode_def Let_def yields_refused yields_unsupported)
  show "extends_input (ListConfigResourcesResponse_decode version)"
    unfolding ListConfigResourcesResponse_decode_def Let_def by (intro extends_rules)
qed

section \<open>ListTransactionsRequest\<close>

record ListTransactionsRequest =
  lt_req_state_filters :: "bytes list"
  lt_req_producer_id_filters :: "i64 list"
  lt_req_duration_filter :: i64
  lt_req_transactional_id_pattern :: "bytes option"
  lt_req_unknown_tagged_fields :: "UnknownTaggedField list"

definition ListTransactionsRequest_default :: ListTransactionsRequest where
  "ListTransactionsRequest_default =
     \<lparr>lt_req_state_filters = [], lt_req_producer_id_filters = [], lt_req_duration_filter = - 1, lt_req_transactional_id_pattern = None, lt_req_unknown_tagged_fields = []\<rparr>"

definition ListTransactionsRequest_MIN_VERSION :: i16 where
  "ListTransactionsRequest_MIN_VERSION = 0"

definition ListTransactionsRequest_MAX_VERSION :: i16 where
  "ListTransactionsRequest_MAX_VERSION = 2"

definition ListTransactionsRequest_FLEXIBLE_MIN :: i16 where
  "ListTransactionsRequest_FLEXIBLE_MIN = 0"

definition ListTransactionsRequest_API_KEY :: i16 where
  "ListTransactionsRequest_API_KEY = 66"

definition ListTransactionsRequest_is_flexible :: "i16 \<Rightarrow> bool" where
  "ListTransactionsRequest_is_flexible version \<longleftrightarrow> ListTransactionsRequest_FLEXIBLE_MIN \<le>s version"

definition ListTransactionsRequest_encode :: "ListTransactionsRequest \<Rightarrow> i16 \<Rightarrow> encoder" where
  "ListTransactionsRequest_encode x version =
     (let flex = ListTransactionsRequest_is_flexible version in
      write_all
        [write_check (check_version ListTransactionsRequest_API_KEY version ListTransactionsRequest_MIN_VERSION ListTransactionsRequest_MAX_VERSION),
         put_when (0 \<le>s version) (put_array flex (put_str flex) (lt_req_state_filters x)),
         put_when (0 \<le>s version) (put_array flex put_i64 (lt_req_producer_id_filters x)),
         put_when (1 \<le>s version) (put_i64 (lt_req_duration_filter x)),
         put_when (2 \<le>s version) (put_nullable_str flex (lt_req_transactional_id_pattern x)),
         put_when flex (put_tagged [] (lt_req_unknown_tagged_fields x))])"

definition ListTransactionsRequest_encoded_len :: "ListTransactionsRequest \<Rightarrow> i16 \<Rightarrow> nat" where
  "ListTransactionsRequest_encoded_len x version =
     (let flex = ListTransactionsRequest_is_flexible version in
      len_when (0 \<le>s version) (array_size flex (str_len flex) (lt_req_state_filters x))
      + len_when (0 \<le>s version) (array_size flex (\<lambda>_. 8) (lt_req_producer_id_filters x))
      + len_when (1 \<le>s version) 8
      + len_when (2 \<le>s version) (nullable_str_len flex (lt_req_transactional_id_pattern x))
      + len_when flex (tagged_size [] (lt_req_unknown_tagged_fields x)))"

definition ListTransactionsRequest_decode :: "i16 \<Rightarrow> ListTransactionsRequest decoder" where
  "ListTransactionsRequest_decode version =
     (let flex = ListTransactionsRequest_is_flexible version in
      checked (check_version ListTransactionsRequest_API_KEY version ListTransactionsRequest_MIN_VERSION ListTransactionsRequest_MAX_VERSION) (
        read_then (get_into (0 \<le>s version) (get_array flex (get_str flex)) (\<lambda>v out. out\<lparr>lt_req_state_filters := v\<rparr>) ListTransactionsRequest_default) (\<lambda>out.
        read_then (get_into (0 \<le>s version) (get_array flex get_i64) (\<lambda>v out. out\<lparr>lt_req_producer_id_filters := v\<rparr>) out) (\<lambda>out.
        read_then (get_into (1 \<le>s version) get_i64 (\<lambda>v out. out\<lparr>lt_req_duration_filter := v\<rparr>) out) (\<lambda>out.
        read_then (get_into (2 \<le>s version) (get_nullable_str flex) (\<lambda>v out. out\<lparr>lt_req_transactional_id_pattern := v\<rparr>) out) (\<lambda>out.
        get_trailer flex [] (\<lambda>u out. out\<lparr>lt_req_unknown_tagged_fields := u\<rparr>) out))))))"

definition ListTransactionsRequest_fields_wf :: "i16 \<Rightarrow> ListTransactionsRequest \<Rightarrow> bool" where
  "ListTransactionsRequest_fields_wf version x \<longleftrightarrow>
     (let flex = ListTransactionsRequest_is_flexible version in
      array_ok flex (str_wf flex) (lt_req_state_filters x)
      \<and> array_ok flex (\<lambda>_. True) (lt_req_producer_id_filters x)
      \<and> field_ok (1 \<le>s version) (- 1) (\<lambda>_. True) (lt_req_duration_filter x)
      \<and> field_ok (2 \<le>s version) None (nullable_str_wf flex) (lt_req_transactional_id_pattern x))"

definition ListTransactionsRequest_wf :: "i16 \<Rightarrow> ListTransactionsRequest \<Rightarrow> bool" where
  "ListTransactionsRequest_wf version x \<longleftrightarrow>
     version_in ListTransactionsRequest_MIN_VERSION ListTransactionsRequest_MAX_VERSION version \<and> ListTransactionsRequest_fields_wf version x \<and> trailer_ok [] [] (lt_req_unknown_tagged_fields x)"

lemmas list_transactions_request_versions =
    ListTransactionsRequest_is_flexible_def ListTransactionsRequest_FLEXIBLE_MIN_def
    ListTransactionsRequest_MIN_VERSION_def ListTransactionsRequest_MAX_VERSION_def version_in_def

lemmas list_transactions_request_fields =
    Let_def field_ok_def ListTransactionsRequest_fields_wf_def ListTransactionsRequest_is_flexible_def
    ListTransactionsRequest_FLEXIBLE_MIN_def

lemma list_transactions_request_steps:
  assumes v: "0 \<le>s version" and flex: "flex = (ListTransactionsRequest_is_flexible version)"
  shows "keeps (ListTransactionsRequest_fields_wf version) (get_into (0 \<le>s version) (get_array flex (get_str flex)) (\<lambda>v out. out\<lparr>lt_req_state_filters := v\<rparr>))"
    and "keeps (ListTransactionsRequest_fields_wf version) (get_into (0 \<le>s version) (get_array flex get_i64) (\<lambda>v out. out\<lparr>lt_req_producer_id_filters := v\<rparr>))"
    and "keeps (ListTransactionsRequest_fields_wf version) (get_into (1 \<le>s version) get_i64 (\<lambda>v out. out\<lparr>lt_req_duration_filter := v\<rparr>))"
    and "keeps (ListTransactionsRequest_fields_wf version) (get_into (2 \<le>s version) (get_nullable_str flex) (\<lambda>v out. out\<lparr>lt_req_transactional_id_pattern := v\<rparr>))"
  unfolding flex 
  by (rule keeps_into; (rule yields_rules)?; simp add: v list_transactions_request_fields)+

lemma list_transactions_request_unknown:
  "ListTransactionsRequest_fields_wf version (s\<lparr>lt_req_unknown_tagged_fields := u\<rparr>) = ListTransactionsRequest_fields_wf version s"
  by (simp_all add: ListTransactionsRequest_fields_wf_def)

lemma list_transactions_request_yields:
  assumes r: "version_in ListTransactionsRequest_MIN_VERSION ListTransactionsRequest_MAX_VERSION version"
  shows "yields 1 (ListTransactionsRequest_decode version) (ListTransactionsRequest_wf version)"
proof -
  have v: "0 \<le>s version"
    using r by (simp add: list_transactions_request_versions)
  have d: "ListTransactionsRequest_fields_wf version ListTransactionsRequest_default"
    by (simp add: ListTransactionsRequest_default_def v list_transactions_request_fields)
  show ?thesis
    unfolding ListTransactionsRequest_decode_def Let_def
    by (rule yields_checked, (rule list_transactions_request_steps[OF v refl, THEN yields_step], (rule d | assumption))+, rule yields_trailer[OF _ arms_keep_Nil[of "ListTransactionsRequest_fields_wf version" "\<lambda>_. 0"]])
      (simp_all add: v d list_transactions_request_unknown ListTransactionsRequest_wf_def trailer_ok_def r ListTransactionsRequest_is_flexible_def ListTransactionsRequest_FLEXIBLE_MIN_def)
qed

interpretation list_transactions_request: message_codec
  ListTransactionsRequest_encode ListTransactionsRequest_decode ListTransactionsRequest_encoded_len "ListTransactionsRequest_wf version" version
  for version
proof
  fix x
  assume w: "ListTransactionsRequest_wf version x"
  then have v: "0 \<le>s version"
    by (simp add: ListTransactionsRequest_wf_def list_transactions_request_versions)
  show "carries (ListTransactionsRequest_encode x version) (ListTransactionsRequest_decode version) (ListTransactionsRequest_encoded_len x version) x"
    unfolding ListTransactionsRequest_encode_def ListTransactionsRequest_encoded_len_def ListTransactionsRequest_decode_def Let_def
    by (use w[unfolded ListTransactionsRequest_wf_def ListTransactionsRequest_fields_wf_def Let_def] in \<open>elim conjE\<close>, rule carries_cong_len)
      ((rule carries_rules check_version_in[THEN iffD2] | (erule absent_guarded, assumption) | erule absent_plain
        | simp add: v field_ok_def ListTransactionsRequest_default_def list_transactions_request_versions)+)
next
  show "yields 1 (ListTransactionsRequest_decode version) (ListTransactionsRequest_wf version)"
    by (rule case_split[OF list_transactions_request_yields]) (auto simp: ListTransactionsRequest_decode_def Let_def yields_refused yields_unsupported)
  show "extends_input (ListTransactionsRequest_decode version)"
    unfolding ListTransactionsRequest_decode_def Let_def by (intro extends_rules)
qed

section \<open>ListTransactionsResponse\<close>

record ListTransactionsResponse_TransactionState =
  lt_resp_ts_transactional_id :: bytes
  lt_resp_ts_producer_id :: i64
  lt_resp_ts_transaction_state :: bytes
  lt_resp_ts_unknown_tagged_fields :: "UnknownTaggedField list"

definition ListTransactionsResponse_TransactionState_default :: ListTransactionsResponse_TransactionState where
  "ListTransactionsResponse_TransactionState_default =
     \<lparr>lt_resp_ts_transactional_id = [], lt_resp_ts_producer_id = 0, lt_resp_ts_transaction_state = [], lt_resp_ts_unknown_tagged_fields = []\<rparr>"

definition ListTransactionsResponse_TransactionState_encode :: "ListTransactionsResponse_TransactionState \<Rightarrow> i16 \<Rightarrow> encoder" where
  "ListTransactionsResponse_TransactionState_encode x version =
     (let flex = 0 \<le>s version in
      write_all
        [put_when (0 \<le>s version) (put_str flex (lt_resp_ts_transactional_id x)),
         put_when (0 \<le>s version) (put_i64 (lt_resp_ts_producer_id x)),
         put_when (0 \<le>s version) (put_str flex (lt_resp_ts_transaction_state x)),
         put_when flex (put_tagged [] (lt_resp_ts_unknown_tagged_fields x))])"

definition ListTransactionsResponse_TransactionState_encoded_len :: "ListTransactionsResponse_TransactionState \<Rightarrow> i16 \<Rightarrow> nat" where
  "ListTransactionsResponse_TransactionState_encoded_len x version =
     (let flex = 0 \<le>s version in
      len_when (0 \<le>s version) (str_len flex (lt_resp_ts_transactional_id x))
      + len_when (0 \<le>s version) 8
      + len_when (0 \<le>s version) (str_len flex (lt_resp_ts_transaction_state x))
      + len_when flex (tagged_size [] (lt_resp_ts_unknown_tagged_fields x)))"

definition ListTransactionsResponse_TransactionState_decode :: "i16 \<Rightarrow> ListTransactionsResponse_TransactionState decoder" where
  "ListTransactionsResponse_TransactionState_decode version =
     (let flex = 0 \<le>s version in
      read_then (get_into (0 \<le>s version) (get_str flex) (\<lambda>v out. out\<lparr>lt_resp_ts_transactional_id := v\<rparr>) ListTransactionsResponse_TransactionState_default) (\<lambda>out.
        read_then (get_into (0 \<le>s version) get_i64 (\<lambda>v out. out\<lparr>lt_resp_ts_producer_id := v\<rparr>) out) (\<lambda>out.
        read_then (get_into (0 \<le>s version) (get_str flex) (\<lambda>v out. out\<lparr>lt_resp_ts_transaction_state := v\<rparr>) out) (\<lambda>out.
        get_trailer flex [] (\<lambda>u out. out\<lparr>lt_resp_ts_unknown_tagged_fields := u\<rparr>) out))))"

definition ListTransactionsResponse_TransactionState_fields_wf :: "i16 \<Rightarrow> ListTransactionsResponse_TransactionState \<Rightarrow> bool" where
  "ListTransactionsResponse_TransactionState_fields_wf version x \<longleftrightarrow>
     (let flex = 0 \<le>s version in
      str_wf flex (lt_resp_ts_transactional_id x)
      \<and> str_wf flex (lt_resp_ts_transaction_state x))"

definition ListTransactionsResponse_TransactionState_wf :: "i16 \<Rightarrow> ListTransactionsResponse_TransactionState \<Rightarrow> bool" where
  "ListTransactionsResponse_TransactionState_wf version x \<longleftrightarrow>
     ListTransactionsResponse_TransactionState_fields_wf version x \<and> trailer_ok [] [] (lt_resp_ts_unknown_tagged_fields x)"

lemmas list_transactions_response_transaction_state_fields =
    Let_def field_ok_def ListTransactionsResponse_TransactionState_fields_wf_def

lemma list_transactions_response_transaction_state_steps:
  assumes v: "0 \<le>s version" and flex: "flex = (0 \<le>s version)"
  shows "keeps (ListTransactionsResponse_TransactionState_fields_wf version) (get_into (0 \<le>s version) (get_str flex) (\<lambda>v out. out\<lparr>lt_resp_ts_transactional_id := v\<rparr>))"
    and "keeps (ListTransactionsResponse_TransactionState_fields_wf version) (get_into (0 \<le>s version) get_i64 (\<lambda>v out. out\<lparr>lt_resp_ts_producer_id := v\<rparr>))"
    and "keeps (ListTransactionsResponse_TransactionState_fields_wf version) (get_into (0 \<le>s version) (get_str flex) (\<lambda>v out. out\<lparr>lt_resp_ts_transaction_state := v\<rparr>))"
  unfolding flex 
  by (rule keeps_into; (rule yields_rules)?; simp add: v list_transactions_response_transaction_state_fields)+

lemma list_transactions_response_transaction_state_unknown:
  "ListTransactionsResponse_TransactionState_fields_wf version (s\<lparr>lt_resp_ts_unknown_tagged_fields := u\<rparr>) = ListTransactionsResponse_TransactionState_fields_wf version s"
  by (simp_all add: ListTransactionsResponse_TransactionState_fields_wf_def)

lemma list_transactions_response_transaction_state_yields:
  assumes v: "0 \<le>s version"
  shows "yields 1 (ListTransactionsResponse_TransactionState_decode version) (ListTransactionsResponse_TransactionState_wf version)"
proof -
  have d: "ListTransactionsResponse_TransactionState_fields_wf version ListTransactionsResponse_TransactionState_default"
    by (simp add: ListTransactionsResponse_TransactionState_default_def v list_transactions_response_transaction_state_fields)
  show ?thesis
    unfolding ListTransactionsResponse_TransactionState_decode_def Let_def
    by ((rule list_transactions_response_transaction_state_steps[OF v refl, THEN yields_step], (rule d | assumption))+, rule yields_trailer[OF _ arms_keep_Nil[of "ListTransactionsResponse_TransactionState_fields_wf version" "\<lambda>_. 0"]])
      (simp_all add: v d list_transactions_response_transaction_state_unknown ListTransactionsResponse_TransactionState_wf_def trailer_ok_def )
qed

lemma list_transactions_response_transaction_state_extends [extends_rules]: "extends_input (ListTransactionsResponse_TransactionState_decode version)"
  unfolding ListTransactionsResponse_TransactionState_decode_def Let_def by (intro extends_rules)

lemma list_transactions_response_transaction_state_codec:
  assumes v: "0 \<le>s version"
  shows "message_codec ListTransactionsResponse_TransactionState_encode ListTransactionsResponse_TransactionState_decode ListTransactionsResponse_TransactionState_encoded_len (ListTransactionsResponse_TransactionState_wf version) version"
proof
  fix x
  assume w: "ListTransactionsResponse_TransactionState_wf version x"
  show "carries (ListTransactionsResponse_TransactionState_encode x version) (ListTransactionsResponse_TransactionState_decode version) (ListTransactionsResponse_TransactionState_encoded_len x version) x"
    unfolding ListTransactionsResponse_TransactionState_encode_def ListTransactionsResponse_TransactionState_encoded_len_def ListTransactionsResponse_TransactionState_decode_def Let_def
    by (use w[unfolded ListTransactionsResponse_TransactionState_wf_def ListTransactionsResponse_TransactionState_fields_wf_def Let_def] in \<open>elim conjE\<close>, rule carries_cong_len)
      ((rule carries_rules | (erule absent_guarded, assumption) | erule absent_plain
        | simp add: v field_ok_def ListTransactionsResponse_TransactionState_default_def )+)
next
  show "yields 1 (ListTransactionsResponse_TransactionState_decode version) (ListTransactionsResponse_TransactionState_wf version)"
    by (rule list_transactions_response_transaction_state_yields[OF v])
qed (rule list_transactions_response_transaction_state_extends)

lemma list_transactions_response_transaction_state_default_wf [simp]: "0 \<le>s version \<Longrightarrow> ListTransactionsResponse_TransactionState_wf version ListTransactionsResponse_TransactionState_default"
  by (simp add: ListTransactionsResponse_TransactionState_wf_def ListTransactionsResponse_TransactionState_default_def trailer_ok_def list_transactions_response_transaction_state_fields)

lemmas [carries_rules] = message_codec.message_carries[OF list_transactions_response_transaction_state_codec]
lemmas [yields_rules] = message_codec.message_yields[OF list_transactions_response_transaction_state_codec]

lemmas [carries_rules] = protocol_codec.put_array_carries[OF message_codec.message_protocol[OF list_transactions_response_transaction_state_codec]]
lemmas [yields_rules] = protocol_codec.get_array_yields[OF message_codec.message_protocol[OF list_transactions_response_transaction_state_codec]]
lemmas [carries_rules] = protocol_codec.put_nullable_array_carries[OF message_codec.message_protocol[OF list_transactions_response_transaction_state_codec]]
lemmas [yields_rules] = protocol_codec.get_nullable_array_yields[OF message_codec.message_protocol[OF list_transactions_response_transaction_state_codec]]

record ListTransactionsResponse =
  lt_resp_throttle_time_ms :: i32
  lt_resp_error_code :: i16
  lt_resp_unknown_state_filters :: "bytes list"
  lt_resp_transaction_states :: "ListTransactionsResponse_TransactionState list"
  lt_resp_unknown_tagged_fields :: "UnknownTaggedField list"

definition ListTransactionsResponse_default :: ListTransactionsResponse where
  "ListTransactionsResponse_default =
     \<lparr>lt_resp_throttle_time_ms = 0, lt_resp_error_code = 0, lt_resp_unknown_state_filters = [], lt_resp_transaction_states = [], lt_resp_unknown_tagged_fields = []\<rparr>"

definition ListTransactionsResponse_MIN_VERSION :: i16 where
  "ListTransactionsResponse_MIN_VERSION = 0"

definition ListTransactionsResponse_MAX_VERSION :: i16 where
  "ListTransactionsResponse_MAX_VERSION = 2"

definition ListTransactionsResponse_FLEXIBLE_MIN :: i16 where
  "ListTransactionsResponse_FLEXIBLE_MIN = 0"

definition ListTransactionsResponse_API_KEY :: i16 where
  "ListTransactionsResponse_API_KEY = 66"

definition ListTransactionsResponse_is_flexible :: "i16 \<Rightarrow> bool" where
  "ListTransactionsResponse_is_flexible version \<longleftrightarrow> ListTransactionsResponse_FLEXIBLE_MIN \<le>s version"

definition ListTransactionsResponse_encode :: "ListTransactionsResponse \<Rightarrow> i16 \<Rightarrow> encoder" where
  "ListTransactionsResponse_encode x version =
     (let flex = ListTransactionsResponse_is_flexible version in
      write_all
        [write_check (check_version ListTransactionsResponse_API_KEY version ListTransactionsResponse_MIN_VERSION ListTransactionsResponse_MAX_VERSION),
         put_when (0 \<le>s version) (put_i32 (lt_resp_throttle_time_ms x)),
         put_when (0 \<le>s version) (put_i16 (lt_resp_error_code x)),
         put_when (0 \<le>s version) (put_array flex (put_str flex) (lt_resp_unknown_state_filters x)),
         put_when (0 \<le>s version) (put_array flex (\<lambda>it. ListTransactionsResponse_TransactionState_encode it version) (lt_resp_transaction_states x)),
         put_when flex (put_tagged [] (lt_resp_unknown_tagged_fields x))])"

definition ListTransactionsResponse_encoded_len :: "ListTransactionsResponse \<Rightarrow> i16 \<Rightarrow> nat" where
  "ListTransactionsResponse_encoded_len x version =
     (let flex = ListTransactionsResponse_is_flexible version in
      len_when (0 \<le>s version) 4
      + len_when (0 \<le>s version) 2
      + len_when (0 \<le>s version) (array_size flex (str_len flex) (lt_resp_unknown_state_filters x))
      + len_when (0 \<le>s version) (array_size flex (\<lambda>it. ListTransactionsResponse_TransactionState_encoded_len it version) (lt_resp_transaction_states x))
      + len_when flex (tagged_size [] (lt_resp_unknown_tagged_fields x)))"

definition ListTransactionsResponse_decode :: "i16 \<Rightarrow> ListTransactionsResponse decoder" where
  "ListTransactionsResponse_decode version =
     (let flex = ListTransactionsResponse_is_flexible version in
      checked (check_version ListTransactionsResponse_API_KEY version ListTransactionsResponse_MIN_VERSION ListTransactionsResponse_MAX_VERSION) (
        read_then (get_into (0 \<le>s version) get_i32 (\<lambda>v out. out\<lparr>lt_resp_throttle_time_ms := v\<rparr>) ListTransactionsResponse_default) (\<lambda>out.
        read_then (get_into (0 \<le>s version) get_i16 (\<lambda>v out. out\<lparr>lt_resp_error_code := v\<rparr>) out) (\<lambda>out.
        read_then (get_into (0 \<le>s version) (get_array flex (get_str flex)) (\<lambda>v out. out\<lparr>lt_resp_unknown_state_filters := v\<rparr>) out) (\<lambda>out.
        read_then (get_into (0 \<le>s version) (get_array flex (ListTransactionsResponse_TransactionState_decode version)) (\<lambda>v out. out\<lparr>lt_resp_transaction_states := v\<rparr>) out) (\<lambda>out.
        get_trailer flex [] (\<lambda>u out. out\<lparr>lt_resp_unknown_tagged_fields := u\<rparr>) out))))))"

definition ListTransactionsResponse_fields_wf :: "i16 \<Rightarrow> ListTransactionsResponse \<Rightarrow> bool" where
  "ListTransactionsResponse_fields_wf version x \<longleftrightarrow>
     (let flex = ListTransactionsResponse_is_flexible version in
      array_ok flex (str_wf flex) (lt_resp_unknown_state_filters x)
      \<and> array_ok flex (ListTransactionsResponse_TransactionState_wf version) (lt_resp_transaction_states x))"

definition ListTransactionsResponse_wf :: "i16 \<Rightarrow> ListTransactionsResponse \<Rightarrow> bool" where
  "ListTransactionsResponse_wf version x \<longleftrightarrow>
     version_in ListTransactionsResponse_MIN_VERSION ListTransactionsResponse_MAX_VERSION version \<and> ListTransactionsResponse_fields_wf version x \<and> trailer_ok [] [] (lt_resp_unknown_tagged_fields x)"

lemmas list_transactions_response_versions =
    ListTransactionsResponse_is_flexible_def ListTransactionsResponse_FLEXIBLE_MIN_def
    ListTransactionsResponse_MIN_VERSION_def ListTransactionsResponse_MAX_VERSION_def version_in_def

lemmas list_transactions_response_fields =
    Let_def field_ok_def ListTransactionsResponse_fields_wf_def ListTransactionsResponse_is_flexible_def
    ListTransactionsResponse_FLEXIBLE_MIN_def

lemma list_transactions_response_steps:
  assumes v: "0 \<le>s version" and flex: "flex = (ListTransactionsResponse_is_flexible version)"
  shows "keeps (ListTransactionsResponse_fields_wf version) (get_into (0 \<le>s version) get_i32 (\<lambda>v out. out\<lparr>lt_resp_throttle_time_ms := v\<rparr>))"
    and "keeps (ListTransactionsResponse_fields_wf version) (get_into (0 \<le>s version) get_i16 (\<lambda>v out. out\<lparr>lt_resp_error_code := v\<rparr>))"
    and "keeps (ListTransactionsResponse_fields_wf version) (get_into (0 \<le>s version) (get_array flex (get_str flex)) (\<lambda>v out. out\<lparr>lt_resp_unknown_state_filters := v\<rparr>))"
    and "keeps (ListTransactionsResponse_fields_wf version) (get_into (0 \<le>s version) (get_array flex (ListTransactionsResponse_TransactionState_decode version)) (\<lambda>v out. out\<lparr>lt_resp_transaction_states := v\<rparr>))"
  unfolding flex 
  by (rule keeps_into; (rule yields_rules)?; simp add: v list_transactions_response_fields)+

lemma list_transactions_response_unknown:
  "ListTransactionsResponse_fields_wf version (s\<lparr>lt_resp_unknown_tagged_fields := u\<rparr>) = ListTransactionsResponse_fields_wf version s"
  by (simp_all add: ListTransactionsResponse_fields_wf_def)

lemma list_transactions_response_yields:
  assumes r: "version_in ListTransactionsResponse_MIN_VERSION ListTransactionsResponse_MAX_VERSION version"
  shows "yields 1 (ListTransactionsResponse_decode version) (ListTransactionsResponse_wf version)"
proof -
  have v: "0 \<le>s version"
    using r by (simp add: list_transactions_response_versions)
  have d: "ListTransactionsResponse_fields_wf version ListTransactionsResponse_default"
    by (simp add: ListTransactionsResponse_default_def v list_transactions_response_fields)
  show ?thesis
    unfolding ListTransactionsResponse_decode_def Let_def
    by (rule yields_checked, (rule list_transactions_response_steps[OF v refl, THEN yields_step], (rule d | assumption))+, rule yields_trailer[OF _ arms_keep_Nil[of "ListTransactionsResponse_fields_wf version" "\<lambda>_. 0"]])
      (simp_all add: v d list_transactions_response_unknown ListTransactionsResponse_wf_def trailer_ok_def r ListTransactionsResponse_is_flexible_def ListTransactionsResponse_FLEXIBLE_MIN_def)
qed

interpretation list_transactions_response: message_codec
  ListTransactionsResponse_encode ListTransactionsResponse_decode ListTransactionsResponse_encoded_len "ListTransactionsResponse_wf version" version
  for version
proof
  fix x
  assume w: "ListTransactionsResponse_wf version x"
  then have v: "0 \<le>s version"
    by (simp add: ListTransactionsResponse_wf_def list_transactions_response_versions)
  show "carries (ListTransactionsResponse_encode x version) (ListTransactionsResponse_decode version) (ListTransactionsResponse_encoded_len x version) x"
    unfolding ListTransactionsResponse_encode_def ListTransactionsResponse_encoded_len_def ListTransactionsResponse_decode_def Let_def
    by (use w[unfolded ListTransactionsResponse_wf_def ListTransactionsResponse_fields_wf_def Let_def] in \<open>elim conjE\<close>, rule carries_cong_len)
      ((rule carries_rules check_version_in[THEN iffD2] | (erule absent_guarded, assumption) | erule absent_plain
        | simp add: v field_ok_def ListTransactionsResponse_default_def list_transactions_response_versions)+)
next
  show "yields 1 (ListTransactionsResponse_decode version) (ListTransactionsResponse_wf version)"
    by (rule case_split[OF list_transactions_response_yields]) (auto simp: ListTransactionsResponse_decode_def Let_def yields_refused yields_unsupported)
  show "extends_input (ListTransactionsResponse_decode version)"
    unfolding ListTransactionsResponse_decode_def Let_def by (intro extends_rules)
qed

section \<open>PushTelemetryRequest\<close>

record PushTelemetryRequest =
  pt_req_client_instance_id :: Uuid
  pt_req_subscription_id :: i32
  pt_req_terminating :: bool
  pt_req_compression_type :: i8
  pt_req_metrics :: bytes
  pt_req_unknown_tagged_fields :: "UnknownTaggedField list"

definition PushTelemetryRequest_default :: PushTelemetryRequest where
  "PushTelemetryRequest_default =
     \<lparr>pt_req_client_instance_id = Uuid_ZERO, pt_req_subscription_id = 0, pt_req_terminating = False, pt_req_compression_type = 0, pt_req_metrics = [], pt_req_unknown_tagged_fields = []\<rparr>"

definition PushTelemetryRequest_MIN_VERSION :: i16 where
  "PushTelemetryRequest_MIN_VERSION = 0"

definition PushTelemetryRequest_MAX_VERSION :: i16 where
  "PushTelemetryRequest_MAX_VERSION = 0"

definition PushTelemetryRequest_FLEXIBLE_MIN :: i16 where
  "PushTelemetryRequest_FLEXIBLE_MIN = 0"

definition PushTelemetryRequest_API_KEY :: i16 where
  "PushTelemetryRequest_API_KEY = 72"

definition PushTelemetryRequest_is_flexible :: "i16 \<Rightarrow> bool" where
  "PushTelemetryRequest_is_flexible version \<longleftrightarrow> PushTelemetryRequest_FLEXIBLE_MIN \<le>s version"

definition PushTelemetryRequest_encode :: "PushTelemetryRequest \<Rightarrow> i16 \<Rightarrow> encoder" where
  "PushTelemetryRequest_encode x version =
     (let flex = PushTelemetryRequest_is_flexible version in
      write_all
        [write_check (check_version PushTelemetryRequest_API_KEY version PushTelemetryRequest_MIN_VERSION PushTelemetryRequest_MAX_VERSION),
         put_when (0 \<le>s version) (put_uuid (pt_req_client_instance_id x)),
         put_when (0 \<le>s version) (put_i32 (pt_req_subscription_id x)),
         put_when (0 \<le>s version) (put_bool (pt_req_terminating x)),
         put_when (0 \<le>s version) (put_i8 (pt_req_compression_type x)),
         put_when (0 \<le>s version) (put_blob flex (pt_req_metrics x)),
         put_when flex (put_tagged [] (pt_req_unknown_tagged_fields x))])"

definition PushTelemetryRequest_encoded_len :: "PushTelemetryRequest \<Rightarrow> i16 \<Rightarrow> nat" where
  "PushTelemetryRequest_encoded_len x version =
     (let flex = PushTelemetryRequest_is_flexible version in
      len_when (0 \<le>s version) 16
      + len_when (0 \<le>s version) 4
      + len_when (0 \<le>s version) 1
      + len_when (0 \<le>s version) 1
      + len_when (0 \<le>s version) (blob_len flex (pt_req_metrics x))
      + len_when flex (tagged_size [] (pt_req_unknown_tagged_fields x)))"

definition PushTelemetryRequest_decode :: "i16 \<Rightarrow> PushTelemetryRequest decoder" where
  "PushTelemetryRequest_decode version =
     (let flex = PushTelemetryRequest_is_flexible version in
      checked (check_version PushTelemetryRequest_API_KEY version PushTelemetryRequest_MIN_VERSION PushTelemetryRequest_MAX_VERSION) (
        read_then (get_into (0 \<le>s version) get_uuid (\<lambda>v out. out\<lparr>pt_req_client_instance_id := v\<rparr>) PushTelemetryRequest_default) (\<lambda>out.
        read_then (get_into (0 \<le>s version) get_i32 (\<lambda>v out. out\<lparr>pt_req_subscription_id := v\<rparr>) out) (\<lambda>out.
        read_then (get_into (0 \<le>s version) get_bool (\<lambda>v out. out\<lparr>pt_req_terminating := v\<rparr>) out) (\<lambda>out.
        read_then (get_into (0 \<le>s version) get_i8 (\<lambda>v out. out\<lparr>pt_req_compression_type := v\<rparr>) out) (\<lambda>out.
        read_then (get_into (0 \<le>s version) (get_blob flex) (\<lambda>v out. out\<lparr>pt_req_metrics := v\<rparr>) out) (\<lambda>out.
        get_trailer flex [] (\<lambda>u out. out\<lparr>pt_req_unknown_tagged_fields := u\<rparr>) out)))))))"

definition PushTelemetryRequest_fields_wf :: "i16 \<Rightarrow> PushTelemetryRequest \<Rightarrow> bool" where
  "PushTelemetryRequest_fields_wf version x \<longleftrightarrow>
     (let flex = PushTelemetryRequest_is_flexible version in
      uuid_wf (pt_req_client_instance_id x)
      \<and> blob_wf flex (pt_req_metrics x))"

definition PushTelemetryRequest_wf :: "i16 \<Rightarrow> PushTelemetryRequest \<Rightarrow> bool" where
  "PushTelemetryRequest_wf version x \<longleftrightarrow>
     version_in PushTelemetryRequest_MIN_VERSION PushTelemetryRequest_MAX_VERSION version \<and> PushTelemetryRequest_fields_wf version x \<and> trailer_ok [] [] (pt_req_unknown_tagged_fields x)"

lemmas push_telemetry_request_versions =
    PushTelemetryRequest_is_flexible_def PushTelemetryRequest_FLEXIBLE_MIN_def
    PushTelemetryRequest_MIN_VERSION_def PushTelemetryRequest_MAX_VERSION_def version_in_def

lemmas push_telemetry_request_fields =
    Let_def field_ok_def PushTelemetryRequest_fields_wf_def PushTelemetryRequest_is_flexible_def
    PushTelemetryRequest_FLEXIBLE_MIN_def

lemma push_telemetry_request_steps:
  assumes v: "0 \<le>s version" and flex: "flex = (PushTelemetryRequest_is_flexible version)"
  shows "keeps (PushTelemetryRequest_fields_wf version) (get_into (0 \<le>s version) get_uuid (\<lambda>v out. out\<lparr>pt_req_client_instance_id := v\<rparr>))"
    and "keeps (PushTelemetryRequest_fields_wf version) (get_into (0 \<le>s version) get_i32 (\<lambda>v out. out\<lparr>pt_req_subscription_id := v\<rparr>))"
    and "keeps (PushTelemetryRequest_fields_wf version) (get_into (0 \<le>s version) get_bool (\<lambda>v out. out\<lparr>pt_req_terminating := v\<rparr>))"
    and "keeps (PushTelemetryRequest_fields_wf version) (get_into (0 \<le>s version) get_i8 (\<lambda>v out. out\<lparr>pt_req_compression_type := v\<rparr>))"
    and "keeps (PushTelemetryRequest_fields_wf version) (get_into (0 \<le>s version) (get_blob flex) (\<lambda>v out. out\<lparr>pt_req_metrics := v\<rparr>))"
  unfolding flex 
  by (rule keeps_into; (rule yields_rules)?; simp add: v push_telemetry_request_fields)+

lemma push_telemetry_request_unknown:
  "PushTelemetryRequest_fields_wf version (s\<lparr>pt_req_unknown_tagged_fields := u\<rparr>) = PushTelemetryRequest_fields_wf version s"
  by (simp_all add: PushTelemetryRequest_fields_wf_def)

lemma push_telemetry_request_yields:
  assumes r: "version_in PushTelemetryRequest_MIN_VERSION PushTelemetryRequest_MAX_VERSION version"
  shows "yields 1 (PushTelemetryRequest_decode version) (PushTelemetryRequest_wf version)"
proof -
  have v: "0 \<le>s version"
    using r by (simp add: push_telemetry_request_versions)
  have d: "PushTelemetryRequest_fields_wf version PushTelemetryRequest_default"
    by (simp add: PushTelemetryRequest_default_def v push_telemetry_request_fields)
  show ?thesis
    unfolding PushTelemetryRequest_decode_def Let_def
    by (rule yields_checked, (rule push_telemetry_request_steps[OF v refl, THEN yields_step], (rule d | assumption))+, rule yields_trailer[OF _ arms_keep_Nil[of "PushTelemetryRequest_fields_wf version" "\<lambda>_. 0"]])
      (simp_all add: v d push_telemetry_request_unknown PushTelemetryRequest_wf_def trailer_ok_def r PushTelemetryRequest_is_flexible_def PushTelemetryRequest_FLEXIBLE_MIN_def)
qed

interpretation push_telemetry_request: message_codec
  PushTelemetryRequest_encode PushTelemetryRequest_decode PushTelemetryRequest_encoded_len "PushTelemetryRequest_wf version" version
  for version
proof
  fix x
  assume w: "PushTelemetryRequest_wf version x"
  then have v: "0 \<le>s version"
    by (simp add: PushTelemetryRequest_wf_def push_telemetry_request_versions)
  show "carries (PushTelemetryRequest_encode x version) (PushTelemetryRequest_decode version) (PushTelemetryRequest_encoded_len x version) x"
    unfolding PushTelemetryRequest_encode_def PushTelemetryRequest_encoded_len_def PushTelemetryRequest_decode_def Let_def
    by (use w[unfolded PushTelemetryRequest_wf_def PushTelemetryRequest_fields_wf_def Let_def] in \<open>elim conjE\<close>, rule carries_cong_len)
      ((rule carries_rules check_version_in[THEN iffD2] | (erule absent_guarded, assumption) | erule absent_plain
        | simp add: v field_ok_def PushTelemetryRequest_default_def push_telemetry_request_versions)+)
next
  show "yields 1 (PushTelemetryRequest_decode version) (PushTelemetryRequest_wf version)"
    by (rule case_split[OF push_telemetry_request_yields]) (auto simp: PushTelemetryRequest_decode_def Let_def yields_refused yields_unsupported)
  show "extends_input (PushTelemetryRequest_decode version)"
    unfolding PushTelemetryRequest_decode_def Let_def by (intro extends_rules)
qed

section \<open>PushTelemetryResponse\<close>

record PushTelemetryResponse =
  pt_resp_throttle_time_ms :: i32
  pt_resp_error_code :: i16
  pt_resp_unknown_tagged_fields :: "UnknownTaggedField list"

definition PushTelemetryResponse_default :: PushTelemetryResponse where
  "PushTelemetryResponse_default =
     \<lparr>pt_resp_throttle_time_ms = 0, pt_resp_error_code = 0, pt_resp_unknown_tagged_fields = []\<rparr>"

definition PushTelemetryResponse_MIN_VERSION :: i16 where
  "PushTelemetryResponse_MIN_VERSION = 0"

definition PushTelemetryResponse_MAX_VERSION :: i16 where
  "PushTelemetryResponse_MAX_VERSION = 0"

definition PushTelemetryResponse_FLEXIBLE_MIN :: i16 where
  "PushTelemetryResponse_FLEXIBLE_MIN = 0"

definition PushTelemetryResponse_API_KEY :: i16 where
  "PushTelemetryResponse_API_KEY = 72"

definition PushTelemetryResponse_is_flexible :: "i16 \<Rightarrow> bool" where
  "PushTelemetryResponse_is_flexible version \<longleftrightarrow> PushTelemetryResponse_FLEXIBLE_MIN \<le>s version"

definition PushTelemetryResponse_encode :: "PushTelemetryResponse \<Rightarrow> i16 \<Rightarrow> encoder" where
  "PushTelemetryResponse_encode x version =
     (let flex = PushTelemetryResponse_is_flexible version in
      write_all
        [write_check (check_version PushTelemetryResponse_API_KEY version PushTelemetryResponse_MIN_VERSION PushTelemetryResponse_MAX_VERSION),
         put_when (0 \<le>s version) (put_i32 (pt_resp_throttle_time_ms x)),
         put_when (0 \<le>s version) (put_i16 (pt_resp_error_code x)),
         put_when flex (put_tagged [] (pt_resp_unknown_tagged_fields x))])"

definition PushTelemetryResponse_encoded_len :: "PushTelemetryResponse \<Rightarrow> i16 \<Rightarrow> nat" where
  "PushTelemetryResponse_encoded_len x version =
     (let flex = PushTelemetryResponse_is_flexible version in
      len_when (0 \<le>s version) 4
      + len_when (0 \<le>s version) 2
      + len_when flex (tagged_size [] (pt_resp_unknown_tagged_fields x)))"

definition PushTelemetryResponse_decode :: "i16 \<Rightarrow> PushTelemetryResponse decoder" where
  "PushTelemetryResponse_decode version =
     (let flex = PushTelemetryResponse_is_flexible version in
      checked (check_version PushTelemetryResponse_API_KEY version PushTelemetryResponse_MIN_VERSION PushTelemetryResponse_MAX_VERSION) (
        read_then (get_into (0 \<le>s version) get_i32 (\<lambda>v out. out\<lparr>pt_resp_throttle_time_ms := v\<rparr>) PushTelemetryResponse_default) (\<lambda>out.
        read_then (get_into (0 \<le>s version) get_i16 (\<lambda>v out. out\<lparr>pt_resp_error_code := v\<rparr>) out) (\<lambda>out.
        get_trailer flex [] (\<lambda>u out. out\<lparr>pt_resp_unknown_tagged_fields := u\<rparr>) out))))"

definition PushTelemetryResponse_fields_wf :: "i16 \<Rightarrow> PushTelemetryResponse \<Rightarrow> bool" where
  "PushTelemetryResponse_fields_wf version x \<longleftrightarrow>
     True"

definition PushTelemetryResponse_wf :: "i16 \<Rightarrow> PushTelemetryResponse \<Rightarrow> bool" where
  "PushTelemetryResponse_wf version x \<longleftrightarrow>
     version_in PushTelemetryResponse_MIN_VERSION PushTelemetryResponse_MAX_VERSION version \<and> PushTelemetryResponse_fields_wf version x \<and> trailer_ok [] [] (pt_resp_unknown_tagged_fields x)"

lemmas push_telemetry_response_versions =
    PushTelemetryResponse_is_flexible_def PushTelemetryResponse_FLEXIBLE_MIN_def
    PushTelemetryResponse_MIN_VERSION_def PushTelemetryResponse_MAX_VERSION_def version_in_def

lemmas push_telemetry_response_fields =
    Let_def field_ok_def PushTelemetryResponse_fields_wf_def PushTelemetryResponse_is_flexible_def
    PushTelemetryResponse_FLEXIBLE_MIN_def

lemma push_telemetry_response_steps:
  assumes v: "0 \<le>s version" and flex: "flex = (PushTelemetryResponse_is_flexible version)"
  shows "keeps (PushTelemetryResponse_fields_wf version) (get_into (0 \<le>s version) get_i32 (\<lambda>v out. out\<lparr>pt_resp_throttle_time_ms := v\<rparr>))"
    and "keeps (PushTelemetryResponse_fields_wf version) (get_into (0 \<le>s version) get_i16 (\<lambda>v out. out\<lparr>pt_resp_error_code := v\<rparr>))"
  unfolding flex 
  by (rule keeps_into; (rule yields_rules)?; simp add: v push_telemetry_response_fields)+

lemma push_telemetry_response_unknown:
  "PushTelemetryResponse_fields_wf version (s\<lparr>pt_resp_unknown_tagged_fields := u\<rparr>) = PushTelemetryResponse_fields_wf version s"
  by (simp_all add: PushTelemetryResponse_fields_wf_def)

lemma push_telemetry_response_yields:
  assumes r: "version_in PushTelemetryResponse_MIN_VERSION PushTelemetryResponse_MAX_VERSION version"
  shows "yields 1 (PushTelemetryResponse_decode version) (PushTelemetryResponse_wf version)"
proof -
  have v: "0 \<le>s version"
    using r by (simp add: push_telemetry_response_versions)
  have d: "PushTelemetryResponse_fields_wf version PushTelemetryResponse_default"
    by (simp add: PushTelemetryResponse_default_def v push_telemetry_response_fields)
  show ?thesis
    unfolding PushTelemetryResponse_decode_def Let_def
    by (rule yields_checked, (rule push_telemetry_response_steps[OF v refl, THEN yields_step], (rule d | assumption))+, rule yields_trailer[OF _ arms_keep_Nil[of "PushTelemetryResponse_fields_wf version" "\<lambda>_. 0"]])
      (simp_all add: v d push_telemetry_response_unknown PushTelemetryResponse_wf_def trailer_ok_def r PushTelemetryResponse_is_flexible_def PushTelemetryResponse_FLEXIBLE_MIN_def)
qed

interpretation push_telemetry_response: message_codec
  PushTelemetryResponse_encode PushTelemetryResponse_decode PushTelemetryResponse_encoded_len "PushTelemetryResponse_wf version" version
  for version
proof
  fix x
  assume w: "PushTelemetryResponse_wf version x"
  then have v: "0 \<le>s version"
    by (simp add: PushTelemetryResponse_wf_def push_telemetry_response_versions)
  show "carries (PushTelemetryResponse_encode x version) (PushTelemetryResponse_decode version) (PushTelemetryResponse_encoded_len x version) x"
    unfolding PushTelemetryResponse_encode_def PushTelemetryResponse_encoded_len_def PushTelemetryResponse_decode_def Let_def
    by (use w[unfolded PushTelemetryResponse_wf_def PushTelemetryResponse_fields_wf_def Let_def] in \<open>elim conjE\<close>, rule carries_cong_len)
      ((rule carries_rules check_version_in[THEN iffD2] | (erule absent_guarded, assumption) | erule absent_plain
        | simp add: v field_ok_def PushTelemetryResponse_default_def push_telemetry_response_versions)+)
next
  show "yields 1 (PushTelemetryResponse_decode version) (PushTelemetryResponse_wf version)"
    by (rule case_split[OF push_telemetry_response_yields]) (auto simp: PushTelemetryResponse_decode_def Let_def yields_refused yields_unsupported)
  show "extends_input (PushTelemetryResponse_decode version)"
    unfolding PushTelemetryResponse_decode_def Let_def by (intro extends_rules)
qed

section \<open>RemotePartitionDeleteMetadataRecord\<close>

record RemotePartitionDeleteMetadataRecord_TopicIdPartitionEntry =
  rpdmr_tipe_name :: bytes
  rpdmr_tipe_id :: Uuid
  rpdmr_tipe_partition :: i32
  rpdmr_tipe_unknown_tagged_fields :: "UnknownTaggedField list"

definition RemotePartitionDeleteMetadataRecord_TopicIdPartitionEntry_default :: RemotePartitionDeleteMetadataRecord_TopicIdPartitionEntry where
  "RemotePartitionDeleteMetadataRecord_TopicIdPartitionEntry_default =
     \<lparr>rpdmr_tipe_name = [], rpdmr_tipe_id = Uuid_ZERO, rpdmr_tipe_partition = 0, rpdmr_tipe_unknown_tagged_fields = []\<rparr>"

definition RemotePartitionDeleteMetadataRecord_TopicIdPartitionEntry_encode :: "RemotePartitionDeleteMetadataRecord_TopicIdPartitionEntry \<Rightarrow> i16 \<Rightarrow> encoder" where
  "RemotePartitionDeleteMetadataRecord_TopicIdPartitionEntry_encode x version =
     (let flex = 0 \<le>s version in
      write_all
        [put_when (0 \<le>s version) (put_str flex (rpdmr_tipe_name x)),
         put_when (0 \<le>s version) (put_uuid (rpdmr_tipe_id x)),
         put_when (0 \<le>s version) (put_i32 (rpdmr_tipe_partition x)),
         put_when flex (put_tagged [] (rpdmr_tipe_unknown_tagged_fields x))])"

definition RemotePartitionDeleteMetadataRecord_TopicIdPartitionEntry_encoded_len :: "RemotePartitionDeleteMetadataRecord_TopicIdPartitionEntry \<Rightarrow> i16 \<Rightarrow> nat" where
  "RemotePartitionDeleteMetadataRecord_TopicIdPartitionEntry_encoded_len x version =
     (let flex = 0 \<le>s version in
      len_when (0 \<le>s version) (str_len flex (rpdmr_tipe_name x))
      + len_when (0 \<le>s version) 16
      + len_when (0 \<le>s version) 4
      + len_when flex (tagged_size [] (rpdmr_tipe_unknown_tagged_fields x)))"

definition RemotePartitionDeleteMetadataRecord_TopicIdPartitionEntry_decode :: "i16 \<Rightarrow> RemotePartitionDeleteMetadataRecord_TopicIdPartitionEntry decoder" where
  "RemotePartitionDeleteMetadataRecord_TopicIdPartitionEntry_decode version =
     (let flex = 0 \<le>s version in
      read_then (get_into (0 \<le>s version) (get_str flex) (\<lambda>v out. out\<lparr>rpdmr_tipe_name := v\<rparr>) RemotePartitionDeleteMetadataRecord_TopicIdPartitionEntry_default) (\<lambda>out.
        read_then (get_into (0 \<le>s version) get_uuid (\<lambda>v out. out\<lparr>rpdmr_tipe_id := v\<rparr>) out) (\<lambda>out.
        read_then (get_into (0 \<le>s version) get_i32 (\<lambda>v out. out\<lparr>rpdmr_tipe_partition := v\<rparr>) out) (\<lambda>out.
        get_trailer flex [] (\<lambda>u out. out\<lparr>rpdmr_tipe_unknown_tagged_fields := u\<rparr>) out))))"

definition RemotePartitionDeleteMetadataRecord_TopicIdPartitionEntry_fields_wf :: "i16 \<Rightarrow> RemotePartitionDeleteMetadataRecord_TopicIdPartitionEntry \<Rightarrow> bool" where
  "RemotePartitionDeleteMetadataRecord_TopicIdPartitionEntry_fields_wf version x \<longleftrightarrow>
     (let flex = 0 \<le>s version in
      str_wf flex (rpdmr_tipe_name x)
      \<and> uuid_wf (rpdmr_tipe_id x))"

definition RemotePartitionDeleteMetadataRecord_TopicIdPartitionEntry_wf :: "i16 \<Rightarrow> RemotePartitionDeleteMetadataRecord_TopicIdPartitionEntry \<Rightarrow> bool" where
  "RemotePartitionDeleteMetadataRecord_TopicIdPartitionEntry_wf version x \<longleftrightarrow>
     RemotePartitionDeleteMetadataRecord_TopicIdPartitionEntry_fields_wf version x \<and> trailer_ok [] [] (rpdmr_tipe_unknown_tagged_fields x)"

lemmas remote_partition_delete_metadata_record_topic_id_partition_entry_fields =
    Let_def field_ok_def RemotePartitionDeleteMetadataRecord_TopicIdPartitionEntry_fields_wf_def

lemma remote_partition_delete_metadata_record_topic_id_partition_entry_steps:
  assumes v: "0 \<le>s version" and flex: "flex = (0 \<le>s version)"
  shows "keeps (RemotePartitionDeleteMetadataRecord_TopicIdPartitionEntry_fields_wf version) (get_into (0 \<le>s version) (get_str flex) (\<lambda>v out. out\<lparr>rpdmr_tipe_name := v\<rparr>))"
    and "keeps (RemotePartitionDeleteMetadataRecord_TopicIdPartitionEntry_fields_wf version) (get_into (0 \<le>s version) get_uuid (\<lambda>v out. out\<lparr>rpdmr_tipe_id := v\<rparr>))"
    and "keeps (RemotePartitionDeleteMetadataRecord_TopicIdPartitionEntry_fields_wf version) (get_into (0 \<le>s version) get_i32 (\<lambda>v out. out\<lparr>rpdmr_tipe_partition := v\<rparr>))"
  unfolding flex 
  by (rule keeps_into; (rule yields_rules)?; simp add: v remote_partition_delete_metadata_record_topic_id_partition_entry_fields)+

lemma remote_partition_delete_metadata_record_topic_id_partition_entry_unknown:
  "RemotePartitionDeleteMetadataRecord_TopicIdPartitionEntry_fields_wf version (s\<lparr>rpdmr_tipe_unknown_tagged_fields := u\<rparr>) = RemotePartitionDeleteMetadataRecord_TopicIdPartitionEntry_fields_wf version s"
  by (simp_all add: RemotePartitionDeleteMetadataRecord_TopicIdPartitionEntry_fields_wf_def)

lemma remote_partition_delete_metadata_record_topic_id_partition_entry_yields:
  assumes v: "0 \<le>s version"
  shows "yields 1 (RemotePartitionDeleteMetadataRecord_TopicIdPartitionEntry_decode version) (RemotePartitionDeleteMetadataRecord_TopicIdPartitionEntry_wf version)"
proof -
  have d: "RemotePartitionDeleteMetadataRecord_TopicIdPartitionEntry_fields_wf version RemotePartitionDeleteMetadataRecord_TopicIdPartitionEntry_default"
    by (simp add: RemotePartitionDeleteMetadataRecord_TopicIdPartitionEntry_default_def v remote_partition_delete_metadata_record_topic_id_partition_entry_fields)
  show ?thesis
    unfolding RemotePartitionDeleteMetadataRecord_TopicIdPartitionEntry_decode_def Let_def
    by ((rule remote_partition_delete_metadata_record_topic_id_partition_entry_steps[OF v refl, THEN yields_step], (rule d | assumption))+, rule yields_trailer[OF _ arms_keep_Nil[of "RemotePartitionDeleteMetadataRecord_TopicIdPartitionEntry_fields_wf version" "\<lambda>_. 0"]])
      (simp_all add: v d remote_partition_delete_metadata_record_topic_id_partition_entry_unknown RemotePartitionDeleteMetadataRecord_TopicIdPartitionEntry_wf_def trailer_ok_def )
qed

lemma remote_partition_delete_metadata_record_topic_id_partition_entry_extends [extends_rules]: "extends_input (RemotePartitionDeleteMetadataRecord_TopicIdPartitionEntry_decode version)"
  unfolding RemotePartitionDeleteMetadataRecord_TopicIdPartitionEntry_decode_def Let_def by (intro extends_rules)

lemma remote_partition_delete_metadata_record_topic_id_partition_entry_codec:
  assumes v: "0 \<le>s version"
  shows "message_codec RemotePartitionDeleteMetadataRecord_TopicIdPartitionEntry_encode RemotePartitionDeleteMetadataRecord_TopicIdPartitionEntry_decode RemotePartitionDeleteMetadataRecord_TopicIdPartitionEntry_encoded_len (RemotePartitionDeleteMetadataRecord_TopicIdPartitionEntry_wf version) version"
proof
  fix x
  assume w: "RemotePartitionDeleteMetadataRecord_TopicIdPartitionEntry_wf version x"
  show "carries (RemotePartitionDeleteMetadataRecord_TopicIdPartitionEntry_encode x version) (RemotePartitionDeleteMetadataRecord_TopicIdPartitionEntry_decode version) (RemotePartitionDeleteMetadataRecord_TopicIdPartitionEntry_encoded_len x version) x"
    unfolding RemotePartitionDeleteMetadataRecord_TopicIdPartitionEntry_encode_def RemotePartitionDeleteMetadataRecord_TopicIdPartitionEntry_encoded_len_def RemotePartitionDeleteMetadataRecord_TopicIdPartitionEntry_decode_def Let_def
    by (use w[unfolded RemotePartitionDeleteMetadataRecord_TopicIdPartitionEntry_wf_def RemotePartitionDeleteMetadataRecord_TopicIdPartitionEntry_fields_wf_def Let_def] in \<open>elim conjE\<close>, rule carries_cong_len)
      ((rule carries_rules | (erule absent_guarded, assumption) | erule absent_plain
        | simp add: v field_ok_def RemotePartitionDeleteMetadataRecord_TopicIdPartitionEntry_default_def )+)
next
  show "yields 1 (RemotePartitionDeleteMetadataRecord_TopicIdPartitionEntry_decode version) (RemotePartitionDeleteMetadataRecord_TopicIdPartitionEntry_wf version)"
    by (rule remote_partition_delete_metadata_record_topic_id_partition_entry_yields[OF v])
qed (rule remote_partition_delete_metadata_record_topic_id_partition_entry_extends)

lemma remote_partition_delete_metadata_record_topic_id_partition_entry_default_wf [simp]: "0 \<le>s version \<Longrightarrow> RemotePartitionDeleteMetadataRecord_TopicIdPartitionEntry_wf version RemotePartitionDeleteMetadataRecord_TopicIdPartitionEntry_default"
  by (simp add: RemotePartitionDeleteMetadataRecord_TopicIdPartitionEntry_wf_def RemotePartitionDeleteMetadataRecord_TopicIdPartitionEntry_default_def trailer_ok_def remote_partition_delete_metadata_record_topic_id_partition_entry_fields)

lemmas [carries_rules] = message_codec.message_carries[OF remote_partition_delete_metadata_record_topic_id_partition_entry_codec]
lemmas [yields_rules] = message_codec.message_yields[OF remote_partition_delete_metadata_record_topic_id_partition_entry_codec]

lemmas [carries_rules] = protocol_codec.put_array_carries[OF message_codec.message_protocol[OF remote_partition_delete_metadata_record_topic_id_partition_entry_codec]]
lemmas [yields_rules] = protocol_codec.get_array_yields[OF message_codec.message_protocol[OF remote_partition_delete_metadata_record_topic_id_partition_entry_codec]]
lemmas [carries_rules] = protocol_codec.put_nullable_array_carries[OF message_codec.message_protocol[OF remote_partition_delete_metadata_record_topic_id_partition_entry_codec]]
lemmas [yields_rules] = protocol_codec.get_nullable_array_yields[OF message_codec.message_protocol[OF remote_partition_delete_metadata_record_topic_id_partition_entry_codec]]

record RemotePartitionDeleteMetadataRecord =
  rpdmr_topic_id_partition :: RemotePartitionDeleteMetadataRecord_TopicIdPartitionEntry
  rpdmr_broker_id :: i32
  rpdmr_event_timestamp_ms :: i64
  rpdmr_remote_partition_delete_state :: i8
  rpdmr_unknown_tagged_fields :: "UnknownTaggedField list"

definition RemotePartitionDeleteMetadataRecord_default :: RemotePartitionDeleteMetadataRecord where
  "RemotePartitionDeleteMetadataRecord_default =
     \<lparr>rpdmr_topic_id_partition = RemotePartitionDeleteMetadataRecord_TopicIdPartitionEntry_default, rpdmr_broker_id = 0, rpdmr_event_timestamp_ms = 0, rpdmr_remote_partition_delete_state = 0, rpdmr_unknown_tagged_fields = []\<rparr>"

definition RemotePartitionDeleteMetadataRecord_MIN_VERSION :: i16 where
  "RemotePartitionDeleteMetadataRecord_MIN_VERSION = 0"

definition RemotePartitionDeleteMetadataRecord_MAX_VERSION :: i16 where
  "RemotePartitionDeleteMetadataRecord_MAX_VERSION = 0"

definition RemotePartitionDeleteMetadataRecord_FLEXIBLE_MIN :: i16 where
  "RemotePartitionDeleteMetadataRecord_FLEXIBLE_MIN = 0"

definition RemotePartitionDeleteMetadataRecord_is_flexible :: "i16 \<Rightarrow> bool" where
  "RemotePartitionDeleteMetadataRecord_is_flexible version \<longleftrightarrow> RemotePartitionDeleteMetadataRecord_FLEXIBLE_MIN \<le>s version"

definition RemotePartitionDeleteMetadataRecord_encode :: "RemotePartitionDeleteMetadataRecord \<Rightarrow> i16 \<Rightarrow> encoder" where
  "RemotePartitionDeleteMetadataRecord_encode x version =
     (let flex = RemotePartitionDeleteMetadataRecord_is_flexible version in
      write_all
        [write_check (contains_version RemotePartitionDeleteMetadataRecord_MIN_VERSION RemotePartitionDeleteMetadataRecord_MAX_VERSION ''RemotePartitionDeleteMetadataRecord version out of range'' version),
         put_when (0 \<le>s version) ((\<lambda>it. RemotePartitionDeleteMetadataRecord_TopicIdPartitionEntry_encode it version) (rpdmr_topic_id_partition x)),
         put_when (0 \<le>s version) (put_i32 (rpdmr_broker_id x)),
         put_when (0 \<le>s version) (put_i64 (rpdmr_event_timestamp_ms x)),
         put_when (0 \<le>s version) (put_i8 (rpdmr_remote_partition_delete_state x)),
         put_when flex (put_tagged [] (rpdmr_unknown_tagged_fields x))])"

definition RemotePartitionDeleteMetadataRecord_encoded_len :: "RemotePartitionDeleteMetadataRecord \<Rightarrow> i16 \<Rightarrow> nat" where
  "RemotePartitionDeleteMetadataRecord_encoded_len x version =
     (let flex = RemotePartitionDeleteMetadataRecord_is_flexible version in
      len_when (0 \<le>s version) (RemotePartitionDeleteMetadataRecord_TopicIdPartitionEntry_encoded_len (rpdmr_topic_id_partition x) version)
      + len_when (0 \<le>s version) 4
      + len_when (0 \<le>s version) 8
      + len_when (0 \<le>s version) 1
      + len_when flex (tagged_size [] (rpdmr_unknown_tagged_fields x)))"

definition RemotePartitionDeleteMetadataRecord_decode :: "i16 \<Rightarrow> RemotePartitionDeleteMetadataRecord decoder" where
  "RemotePartitionDeleteMetadataRecord_decode version =
     (let flex = RemotePartitionDeleteMetadataRecord_is_flexible version in
      checked (contains_version RemotePartitionDeleteMetadataRecord_MIN_VERSION RemotePartitionDeleteMetadataRecord_MAX_VERSION ''RemotePartitionDeleteMetadataRecord version out of range'' version) (
        read_then (get_into (0 \<le>s version) (RemotePartitionDeleteMetadataRecord_TopicIdPartitionEntry_decode version) (\<lambda>v out. out\<lparr>rpdmr_topic_id_partition := v\<rparr>) RemotePartitionDeleteMetadataRecord_default) (\<lambda>out.
        read_then (get_into (0 \<le>s version) get_i32 (\<lambda>v out. out\<lparr>rpdmr_broker_id := v\<rparr>) out) (\<lambda>out.
        read_then (get_into (0 \<le>s version) get_i64 (\<lambda>v out. out\<lparr>rpdmr_event_timestamp_ms := v\<rparr>) out) (\<lambda>out.
        read_then (get_into (0 \<le>s version) get_i8 (\<lambda>v out. out\<lparr>rpdmr_remote_partition_delete_state := v\<rparr>) out) (\<lambda>out.
        get_trailer flex [] (\<lambda>u out. out\<lparr>rpdmr_unknown_tagged_fields := u\<rparr>) out))))))"

definition RemotePartitionDeleteMetadataRecord_fields_wf :: "i16 \<Rightarrow> RemotePartitionDeleteMetadataRecord \<Rightarrow> bool" where
  "RemotePartitionDeleteMetadataRecord_fields_wf version x \<longleftrightarrow>
     RemotePartitionDeleteMetadataRecord_TopicIdPartitionEntry_wf version (rpdmr_topic_id_partition x)"

definition RemotePartitionDeleteMetadataRecord_wf :: "i16 \<Rightarrow> RemotePartitionDeleteMetadataRecord \<Rightarrow> bool" where
  "RemotePartitionDeleteMetadataRecord_wf version x \<longleftrightarrow>
     version_in RemotePartitionDeleteMetadataRecord_MIN_VERSION RemotePartitionDeleteMetadataRecord_MAX_VERSION version \<and> RemotePartitionDeleteMetadataRecord_fields_wf version x \<and> trailer_ok [] [] (rpdmr_unknown_tagged_fields x)"

lemmas remote_partition_delete_metadata_record_versions =
    RemotePartitionDeleteMetadataRecord_is_flexible_def RemotePartitionDeleteMetadataRecord_FLEXIBLE_MIN_def
    RemotePartitionDeleteMetadataRecord_MIN_VERSION_def RemotePartitionDeleteMetadataRecord_MAX_VERSION_def
    version_in_def

lemmas remote_partition_delete_metadata_record_fields =
    Let_def field_ok_def RemotePartitionDeleteMetadataRecord_fields_wf_def
    RemotePartitionDeleteMetadataRecord_is_flexible_def RemotePartitionDeleteMetadataRecord_FLEXIBLE_MIN_def

lemma remote_partition_delete_metadata_record_steps:
  assumes v: "0 \<le>s version" and flex: "flex = (RemotePartitionDeleteMetadataRecord_is_flexible version)"
  shows "keeps (RemotePartitionDeleteMetadataRecord_fields_wf version) (get_into (0 \<le>s version) (RemotePartitionDeleteMetadataRecord_TopicIdPartitionEntry_decode version) (\<lambda>v out. out\<lparr>rpdmr_topic_id_partition := v\<rparr>))"
    and "keeps (RemotePartitionDeleteMetadataRecord_fields_wf version) (get_into (0 \<le>s version) get_i32 (\<lambda>v out. out\<lparr>rpdmr_broker_id := v\<rparr>))"
    and "keeps (RemotePartitionDeleteMetadataRecord_fields_wf version) (get_into (0 \<le>s version) get_i64 (\<lambda>v out. out\<lparr>rpdmr_event_timestamp_ms := v\<rparr>))"
    and "keeps (RemotePartitionDeleteMetadataRecord_fields_wf version) (get_into (0 \<le>s version) get_i8 (\<lambda>v out. out\<lparr>rpdmr_remote_partition_delete_state := v\<rparr>))"
  unfolding flex 
  by (rule keeps_into; (rule yields_rules)?; simp add: v remote_partition_delete_metadata_record_fields)+

lemma remote_partition_delete_metadata_record_unknown:
  "RemotePartitionDeleteMetadataRecord_fields_wf version (s\<lparr>rpdmr_unknown_tagged_fields := u\<rparr>) = RemotePartitionDeleteMetadataRecord_fields_wf version s"
  by (simp_all add: RemotePartitionDeleteMetadataRecord_fields_wf_def)

lemma remote_partition_delete_metadata_record_yields:
  assumes r: "version_in RemotePartitionDeleteMetadataRecord_MIN_VERSION RemotePartitionDeleteMetadataRecord_MAX_VERSION version"
  shows "yields 1 (RemotePartitionDeleteMetadataRecord_decode version) (RemotePartitionDeleteMetadataRecord_wf version)"
proof -
  have v: "0 \<le>s version"
    using r by (simp add: remote_partition_delete_metadata_record_versions)
  have d: "RemotePartitionDeleteMetadataRecord_fields_wf version RemotePartitionDeleteMetadataRecord_default"
    by (simp add: RemotePartitionDeleteMetadataRecord_default_def v remote_partition_delete_metadata_record_fields)
  show ?thesis
    unfolding RemotePartitionDeleteMetadataRecord_decode_def Let_def
    by (rule yields_checked, (rule remote_partition_delete_metadata_record_steps[OF v refl, THEN yields_step], (rule d | assumption))+, rule yields_trailer[OF _ arms_keep_Nil[of "RemotePartitionDeleteMetadataRecord_fields_wf version" "\<lambda>_. 0"]])
      (simp_all add: v d remote_partition_delete_metadata_record_unknown RemotePartitionDeleteMetadataRecord_wf_def trailer_ok_def r RemotePartitionDeleteMetadataRecord_is_flexible_def RemotePartitionDeleteMetadataRecord_FLEXIBLE_MIN_def)
qed

interpretation remote_partition_delete_metadata_record: message_codec
  RemotePartitionDeleteMetadataRecord_encode RemotePartitionDeleteMetadataRecord_decode RemotePartitionDeleteMetadataRecord_encoded_len "RemotePartitionDeleteMetadataRecord_wf version" version
  for version
proof
  fix x
  assume w: "RemotePartitionDeleteMetadataRecord_wf version x"
  then have v: "0 \<le>s version"
    by (simp add: RemotePartitionDeleteMetadataRecord_wf_def remote_partition_delete_metadata_record_versions)
  show "carries (RemotePartitionDeleteMetadataRecord_encode x version) (RemotePartitionDeleteMetadataRecord_decode version) (RemotePartitionDeleteMetadataRecord_encoded_len x version) x"
    unfolding RemotePartitionDeleteMetadataRecord_encode_def RemotePartitionDeleteMetadataRecord_encoded_len_def RemotePartitionDeleteMetadataRecord_decode_def Let_def
    by (use w[unfolded RemotePartitionDeleteMetadataRecord_wf_def RemotePartitionDeleteMetadataRecord_fields_wf_def Let_def] in \<open>elim conjE\<close>, rule carries_cong_len)
      ((rule carries_rules | (erule absent_guarded, assumption) | erule absent_plain
        | simp add: v field_ok_def RemotePartitionDeleteMetadataRecord_default_def remote_partition_delete_metadata_record_versions)+)
next
  show "yields 1 (RemotePartitionDeleteMetadataRecord_decode version) (RemotePartitionDeleteMetadataRecord_wf version)"
    by (rule case_split[OF remote_partition_delete_metadata_record_yields]) (auto simp: RemotePartitionDeleteMetadataRecord_decode_def Let_def yields_refused yields_unsupported)
  show "extends_input (RemotePartitionDeleteMetadataRecord_decode version)"
    unfolding RemotePartitionDeleteMetadataRecord_decode_def Let_def by (intro extends_rules)
qed

section \<open>StreamsGroupDescribeRequest\<close>

record StreamsGroupDescribeRequest =
  stgrde_req_group_ids :: "bytes list"
  stgrde_req_include_authorized_operations :: bool
  stgrde_req_include_topology_description :: bool
  stgrde_req_unknown_tagged_fields :: "UnknownTaggedField list"

definition StreamsGroupDescribeRequest_default :: StreamsGroupDescribeRequest where
  "StreamsGroupDescribeRequest_default =
     \<lparr>stgrde_req_group_ids = [], stgrde_req_include_authorized_operations = False, stgrde_req_include_topology_description = False, stgrde_req_unknown_tagged_fields = []\<rparr>"

definition StreamsGroupDescribeRequest_MIN_VERSION :: i16 where
  "StreamsGroupDescribeRequest_MIN_VERSION = 0"

definition StreamsGroupDescribeRequest_MAX_VERSION :: i16 where
  "StreamsGroupDescribeRequest_MAX_VERSION = 1"

definition StreamsGroupDescribeRequest_FLEXIBLE_MIN :: i16 where
  "StreamsGroupDescribeRequest_FLEXIBLE_MIN = 0"

definition StreamsGroupDescribeRequest_API_KEY :: i16 where
  "StreamsGroupDescribeRequest_API_KEY = 89"

definition StreamsGroupDescribeRequest_is_flexible :: "i16 \<Rightarrow> bool" where
  "StreamsGroupDescribeRequest_is_flexible version \<longleftrightarrow> StreamsGroupDescribeRequest_FLEXIBLE_MIN \<le>s version"

definition StreamsGroupDescribeRequest_encode :: "StreamsGroupDescribeRequest \<Rightarrow> i16 \<Rightarrow> encoder" where
  "StreamsGroupDescribeRequest_encode x version =
     (let flex = StreamsGroupDescribeRequest_is_flexible version in
      write_all
        [write_check (check_version StreamsGroupDescribeRequest_API_KEY version StreamsGroupDescribeRequest_MIN_VERSION StreamsGroupDescribeRequest_MAX_VERSION),
         put_when (0 \<le>s version) (put_array flex (put_str flex) (stgrde_req_group_ids x)),
         put_when (0 \<le>s version) (put_bool (stgrde_req_include_authorized_operations x)),
         put_when (1 \<le>s version) (put_bool (stgrde_req_include_topology_description x)),
         put_when flex (put_tagged [] (stgrde_req_unknown_tagged_fields x))])"

definition StreamsGroupDescribeRequest_encoded_len :: "StreamsGroupDescribeRequest \<Rightarrow> i16 \<Rightarrow> nat" where
  "StreamsGroupDescribeRequest_encoded_len x version =
     (let flex = StreamsGroupDescribeRequest_is_flexible version in
      len_when (0 \<le>s version) (array_size flex (str_len flex) (stgrde_req_group_ids x))
      + len_when (0 \<le>s version) 1
      + len_when (1 \<le>s version) 1
      + len_when flex (tagged_size [] (stgrde_req_unknown_tagged_fields x)))"

definition StreamsGroupDescribeRequest_decode :: "i16 \<Rightarrow> StreamsGroupDescribeRequest decoder" where
  "StreamsGroupDescribeRequest_decode version =
     (let flex = StreamsGroupDescribeRequest_is_flexible version in
      checked (check_version StreamsGroupDescribeRequest_API_KEY version StreamsGroupDescribeRequest_MIN_VERSION StreamsGroupDescribeRequest_MAX_VERSION) (
        read_then (get_into (0 \<le>s version) (get_array flex (get_str flex)) (\<lambda>v out. out\<lparr>stgrde_req_group_ids := v\<rparr>) StreamsGroupDescribeRequest_default) (\<lambda>out.
        read_then (get_into (0 \<le>s version) get_bool (\<lambda>v out. out\<lparr>stgrde_req_include_authorized_operations := v\<rparr>) out) (\<lambda>out.
        read_then (get_into (1 \<le>s version) get_bool (\<lambda>v out. out\<lparr>stgrde_req_include_topology_description := v\<rparr>) out) (\<lambda>out.
        get_trailer flex [] (\<lambda>u out. out\<lparr>stgrde_req_unknown_tagged_fields := u\<rparr>) out)))))"

definition StreamsGroupDescribeRequest_fields_wf :: "i16 \<Rightarrow> StreamsGroupDescribeRequest \<Rightarrow> bool" where
  "StreamsGroupDescribeRequest_fields_wf version x \<longleftrightarrow>
     (let flex = StreamsGroupDescribeRequest_is_flexible version in
      array_ok flex (str_wf flex) (stgrde_req_group_ids x)
      \<and> field_ok (1 \<le>s version) False (\<lambda>_. True) (stgrde_req_include_topology_description x))"

definition StreamsGroupDescribeRequest_wf :: "i16 \<Rightarrow> StreamsGroupDescribeRequest \<Rightarrow> bool" where
  "StreamsGroupDescribeRequest_wf version x \<longleftrightarrow>
     version_in StreamsGroupDescribeRequest_MIN_VERSION StreamsGroupDescribeRequest_MAX_VERSION version \<and> StreamsGroupDescribeRequest_fields_wf version x \<and> trailer_ok [] [] (stgrde_req_unknown_tagged_fields x)"

lemmas streams_group_describe_request_versions =
    StreamsGroupDescribeRequest_is_flexible_def StreamsGroupDescribeRequest_FLEXIBLE_MIN_def
    StreamsGroupDescribeRequest_MIN_VERSION_def StreamsGroupDescribeRequest_MAX_VERSION_def version_in_def

lemmas streams_group_describe_request_fields =
    Let_def field_ok_def StreamsGroupDescribeRequest_fields_wf_def StreamsGroupDescribeRequest_is_flexible_def
    StreamsGroupDescribeRequest_FLEXIBLE_MIN_def

lemma streams_group_describe_request_steps:
  assumes v: "0 \<le>s version" and flex: "flex = (StreamsGroupDescribeRequest_is_flexible version)"
  shows "keeps (StreamsGroupDescribeRequest_fields_wf version) (get_into (0 \<le>s version) (get_array flex (get_str flex)) (\<lambda>v out. out\<lparr>stgrde_req_group_ids := v\<rparr>))"
    and "keeps (StreamsGroupDescribeRequest_fields_wf version) (get_into (0 \<le>s version) get_bool (\<lambda>v out. out\<lparr>stgrde_req_include_authorized_operations := v\<rparr>))"
    and "keeps (StreamsGroupDescribeRequest_fields_wf version) (get_into (1 \<le>s version) get_bool (\<lambda>v out. out\<lparr>stgrde_req_include_topology_description := v\<rparr>))"
  unfolding flex 
  by (rule keeps_into; (rule yields_rules)?; simp add: v streams_group_describe_request_fields)+

lemma streams_group_describe_request_unknown:
  "StreamsGroupDescribeRequest_fields_wf version (s\<lparr>stgrde_req_unknown_tagged_fields := u\<rparr>) = StreamsGroupDescribeRequest_fields_wf version s"
  by (simp_all add: StreamsGroupDescribeRequest_fields_wf_def)

lemma streams_group_describe_request_yields:
  assumes r: "version_in StreamsGroupDescribeRequest_MIN_VERSION StreamsGroupDescribeRequest_MAX_VERSION version"
  shows "yields 1 (StreamsGroupDescribeRequest_decode version) (StreamsGroupDescribeRequest_wf version)"
proof -
  have v: "0 \<le>s version"
    using r by (simp add: streams_group_describe_request_versions)
  have d: "StreamsGroupDescribeRequest_fields_wf version StreamsGroupDescribeRequest_default"
    by (simp add: StreamsGroupDescribeRequest_default_def v streams_group_describe_request_fields)
  show ?thesis
    unfolding StreamsGroupDescribeRequest_decode_def Let_def
    by (rule yields_checked, (rule streams_group_describe_request_steps[OF v refl, THEN yields_step], (rule d | assumption))+, rule yields_trailer[OF _ arms_keep_Nil[of "StreamsGroupDescribeRequest_fields_wf version" "\<lambda>_. 0"]])
      (simp_all add: v d streams_group_describe_request_unknown StreamsGroupDescribeRequest_wf_def trailer_ok_def r StreamsGroupDescribeRequest_is_flexible_def StreamsGroupDescribeRequest_FLEXIBLE_MIN_def)
qed

interpretation streams_group_describe_request: message_codec
  StreamsGroupDescribeRequest_encode StreamsGroupDescribeRequest_decode StreamsGroupDescribeRequest_encoded_len "StreamsGroupDescribeRequest_wf version" version
  for version
proof
  fix x
  assume w: "StreamsGroupDescribeRequest_wf version x"
  then have v: "0 \<le>s version"
    by (simp add: StreamsGroupDescribeRequest_wf_def streams_group_describe_request_versions)
  show "carries (StreamsGroupDescribeRequest_encode x version) (StreamsGroupDescribeRequest_decode version) (StreamsGroupDescribeRequest_encoded_len x version) x"
    unfolding StreamsGroupDescribeRequest_encode_def StreamsGroupDescribeRequest_encoded_len_def StreamsGroupDescribeRequest_decode_def Let_def
    by (use w[unfolded StreamsGroupDescribeRequest_wf_def StreamsGroupDescribeRequest_fields_wf_def Let_def] in \<open>elim conjE\<close>, rule carries_cong_len)
      ((rule carries_rules check_version_in[THEN iffD2] | (erule absent_guarded, assumption) | erule absent_plain
        | simp add: v field_ok_def StreamsGroupDescribeRequest_default_def streams_group_describe_request_versions)+)
next
  show "yields 1 (StreamsGroupDescribeRequest_decode version) (StreamsGroupDescribeRequest_wf version)"
    by (rule case_split[OF streams_group_describe_request_yields]) (auto simp: StreamsGroupDescribeRequest_decode_def Let_def yields_refused yields_unsupported)
  show "extends_input (StreamsGroupDescribeRequest_decode version)"
    unfolding StreamsGroupDescribeRequest_decode_def Let_def by (intro extends_rules)
qed

section \<open>StreamsGroupTopologyDescriptionUpdateResponse\<close>

record StreamsGroupTopologyDescriptionUpdateResponse =
  sgtdu_resp_throttle_time_ms :: i32
  sgtdu_resp_error_code :: i16
  sgtdu_resp_error_message :: "bytes option"
  sgtdu_resp_unknown_tagged_fields :: "UnknownTaggedField list"

definition StreamsGroupTopologyDescriptionUpdateResponse_default :: StreamsGroupTopologyDescriptionUpdateResponse where
  "StreamsGroupTopologyDescriptionUpdateResponse_default =
     \<lparr>sgtdu_resp_throttle_time_ms = 0, sgtdu_resp_error_code = 0, sgtdu_resp_error_message = None, sgtdu_resp_unknown_tagged_fields = []\<rparr>"

definition StreamsGroupTopologyDescriptionUpdateResponse_MIN_VERSION :: i16 where
  "StreamsGroupTopologyDescriptionUpdateResponse_MIN_VERSION = 0"

definition StreamsGroupTopologyDescriptionUpdateResponse_MAX_VERSION :: i16 where
  "StreamsGroupTopologyDescriptionUpdateResponse_MAX_VERSION = 0"

definition StreamsGroupTopologyDescriptionUpdateResponse_FLEXIBLE_MIN :: i16 where
  "StreamsGroupTopologyDescriptionUpdateResponse_FLEXIBLE_MIN = 0"

definition StreamsGroupTopologyDescriptionUpdateResponse_API_KEY :: i16 where
  "StreamsGroupTopologyDescriptionUpdateResponse_API_KEY = 93"

definition StreamsGroupTopologyDescriptionUpdateResponse_is_flexible :: "i16 \<Rightarrow> bool" where
  "StreamsGroupTopologyDescriptionUpdateResponse_is_flexible version \<longleftrightarrow> StreamsGroupTopologyDescriptionUpdateResponse_FLEXIBLE_MIN \<le>s version"

definition StreamsGroupTopologyDescriptionUpdateResponse_encode :: "StreamsGroupTopologyDescriptionUpdateResponse \<Rightarrow> i16 \<Rightarrow> encoder" where
  "StreamsGroupTopologyDescriptionUpdateResponse_encode x version =
     (let flex = StreamsGroupTopologyDescriptionUpdateResponse_is_flexible version in
      write_all
        [write_check (check_version StreamsGroupTopologyDescriptionUpdateResponse_API_KEY version StreamsGroupTopologyDescriptionUpdateResponse_MIN_VERSION StreamsGroupTopologyDescriptionUpdateResponse_MAX_VERSION),
         put_when (0 \<le>s version) (put_i32 (sgtdu_resp_throttle_time_ms x)),
         put_when (0 \<le>s version) (put_i16 (sgtdu_resp_error_code x)),
         put_when (0 \<le>s version) (put_nullable_str flex (sgtdu_resp_error_message x)),
         put_when flex (put_tagged [] (sgtdu_resp_unknown_tagged_fields x))])"

definition StreamsGroupTopologyDescriptionUpdateResponse_encoded_len :: "StreamsGroupTopologyDescriptionUpdateResponse \<Rightarrow> i16 \<Rightarrow> nat" where
  "StreamsGroupTopologyDescriptionUpdateResponse_encoded_len x version =
     (let flex = StreamsGroupTopologyDescriptionUpdateResponse_is_flexible version in
      len_when (0 \<le>s version) 4
      + len_when (0 \<le>s version) 2
      + len_when (0 \<le>s version) (nullable_str_len flex (sgtdu_resp_error_message x))
      + len_when flex (tagged_size [] (sgtdu_resp_unknown_tagged_fields x)))"

definition StreamsGroupTopologyDescriptionUpdateResponse_decode :: "i16 \<Rightarrow> StreamsGroupTopologyDescriptionUpdateResponse decoder" where
  "StreamsGroupTopologyDescriptionUpdateResponse_decode version =
     (let flex = StreamsGroupTopologyDescriptionUpdateResponse_is_flexible version in
      checked (check_version StreamsGroupTopologyDescriptionUpdateResponse_API_KEY version StreamsGroupTopologyDescriptionUpdateResponse_MIN_VERSION StreamsGroupTopologyDescriptionUpdateResponse_MAX_VERSION) (
        read_then (get_into (0 \<le>s version) get_i32 (\<lambda>v out. out\<lparr>sgtdu_resp_throttle_time_ms := v\<rparr>) StreamsGroupTopologyDescriptionUpdateResponse_default) (\<lambda>out.
        read_then (get_into (0 \<le>s version) get_i16 (\<lambda>v out. out\<lparr>sgtdu_resp_error_code := v\<rparr>) out) (\<lambda>out.
        read_then (get_into (0 \<le>s version) (get_nullable_str flex) (\<lambda>v out. out\<lparr>sgtdu_resp_error_message := v\<rparr>) out) (\<lambda>out.
        get_trailer flex [] (\<lambda>u out. out\<lparr>sgtdu_resp_unknown_tagged_fields := u\<rparr>) out)))))"

definition StreamsGroupTopologyDescriptionUpdateResponse_fields_wf :: "i16 \<Rightarrow> StreamsGroupTopologyDescriptionUpdateResponse \<Rightarrow> bool" where
  "StreamsGroupTopologyDescriptionUpdateResponse_fields_wf version x \<longleftrightarrow>
     (let flex = StreamsGroupTopologyDescriptionUpdateResponse_is_flexible version in
      nullable_str_wf flex (sgtdu_resp_error_message x))"

definition StreamsGroupTopologyDescriptionUpdateResponse_wf :: "i16 \<Rightarrow> StreamsGroupTopologyDescriptionUpdateResponse \<Rightarrow> bool" where
  "StreamsGroupTopologyDescriptionUpdateResponse_wf version x \<longleftrightarrow>
     version_in StreamsGroupTopologyDescriptionUpdateResponse_MIN_VERSION StreamsGroupTopologyDescriptionUpdateResponse_MAX_VERSION version \<and> StreamsGroupTopologyDescriptionUpdateResponse_fields_wf version x \<and> trailer_ok [] [] (sgtdu_resp_unknown_tagged_fields x)"

lemmas streams_group_topology_description_update_response_versions =
    StreamsGroupTopologyDescriptionUpdateResponse_is_flexible_def
    StreamsGroupTopologyDescriptionUpdateResponse_FLEXIBLE_MIN_def
    StreamsGroupTopologyDescriptionUpdateResponse_MIN_VERSION_def
    StreamsGroupTopologyDescriptionUpdateResponse_MAX_VERSION_def version_in_def

lemmas streams_group_topology_description_update_response_fields =
    Let_def field_ok_def StreamsGroupTopologyDescriptionUpdateResponse_fields_wf_def
    StreamsGroupTopologyDescriptionUpdateResponse_is_flexible_def
    StreamsGroupTopologyDescriptionUpdateResponse_FLEXIBLE_MIN_def

lemma streams_group_topology_description_update_response_steps:
  assumes v: "0 \<le>s version" and flex: "flex = (StreamsGroupTopologyDescriptionUpdateResponse_is_flexible version)"
  shows "keeps (StreamsGroupTopologyDescriptionUpdateResponse_fields_wf version) (get_into (0 \<le>s version) get_i32 (\<lambda>v out. out\<lparr>sgtdu_resp_throttle_time_ms := v\<rparr>))"
    and "keeps (StreamsGroupTopologyDescriptionUpdateResponse_fields_wf version) (get_into (0 \<le>s version) get_i16 (\<lambda>v out. out\<lparr>sgtdu_resp_error_code := v\<rparr>))"
    and "keeps (StreamsGroupTopologyDescriptionUpdateResponse_fields_wf version) (get_into (0 \<le>s version) (get_nullable_str flex) (\<lambda>v out. out\<lparr>sgtdu_resp_error_message := v\<rparr>))"
  unfolding flex 
  by (rule keeps_into; (rule yields_rules)?; simp add: v streams_group_topology_description_update_response_fields)+

lemma streams_group_topology_description_update_response_unknown:
  "StreamsGroupTopologyDescriptionUpdateResponse_fields_wf version (s\<lparr>sgtdu_resp_unknown_tagged_fields := u\<rparr>) = StreamsGroupTopologyDescriptionUpdateResponse_fields_wf version s"
  by (simp_all add: StreamsGroupTopologyDescriptionUpdateResponse_fields_wf_def)

lemma streams_group_topology_description_update_response_yields:
  assumes r: "version_in StreamsGroupTopologyDescriptionUpdateResponse_MIN_VERSION StreamsGroupTopologyDescriptionUpdateResponse_MAX_VERSION version"
  shows "yields 1 (StreamsGroupTopologyDescriptionUpdateResponse_decode version) (StreamsGroupTopologyDescriptionUpdateResponse_wf version)"
proof -
  have v: "0 \<le>s version"
    using r by (simp add: streams_group_topology_description_update_response_versions)
  have d: "StreamsGroupTopologyDescriptionUpdateResponse_fields_wf version StreamsGroupTopologyDescriptionUpdateResponse_default"
    by (simp add: StreamsGroupTopologyDescriptionUpdateResponse_default_def v streams_group_topology_description_update_response_fields)
  show ?thesis
    unfolding StreamsGroupTopologyDescriptionUpdateResponse_decode_def Let_def
    by (rule yields_checked, (rule streams_group_topology_description_update_response_steps[OF v refl, THEN yields_step], (rule d | assumption))+, rule yields_trailer[OF _ arms_keep_Nil[of "StreamsGroupTopologyDescriptionUpdateResponse_fields_wf version" "\<lambda>_. 0"]])
      (simp_all add: v d streams_group_topology_description_update_response_unknown StreamsGroupTopologyDescriptionUpdateResponse_wf_def trailer_ok_def r StreamsGroupTopologyDescriptionUpdateResponse_is_flexible_def StreamsGroupTopologyDescriptionUpdateResponse_FLEXIBLE_MIN_def)
qed

interpretation streams_group_topology_description_update_response: message_codec
  StreamsGroupTopologyDescriptionUpdateResponse_encode StreamsGroupTopologyDescriptionUpdateResponse_decode StreamsGroupTopologyDescriptionUpdateResponse_encoded_len "StreamsGroupTopologyDescriptionUpdateResponse_wf version" version
  for version
proof
  fix x
  assume w: "StreamsGroupTopologyDescriptionUpdateResponse_wf version x"
  then have v: "0 \<le>s version"
    by (simp add: StreamsGroupTopologyDescriptionUpdateResponse_wf_def streams_group_topology_description_update_response_versions)
  show "carries (StreamsGroupTopologyDescriptionUpdateResponse_encode x version) (StreamsGroupTopologyDescriptionUpdateResponse_decode version) (StreamsGroupTopologyDescriptionUpdateResponse_encoded_len x version) x"
    unfolding StreamsGroupTopologyDescriptionUpdateResponse_encode_def StreamsGroupTopologyDescriptionUpdateResponse_encoded_len_def StreamsGroupTopologyDescriptionUpdateResponse_decode_def Let_def
    by (use w[unfolded StreamsGroupTopologyDescriptionUpdateResponse_wf_def StreamsGroupTopologyDescriptionUpdateResponse_fields_wf_def Let_def] in \<open>elim conjE\<close>, rule carries_cong_len)
      ((rule carries_rules check_version_in[THEN iffD2] | (erule absent_guarded, assumption) | erule absent_plain
        | simp add: v field_ok_def StreamsGroupTopologyDescriptionUpdateResponse_default_def streams_group_topology_description_update_response_versions)+)
next
  show "yields 1 (StreamsGroupTopologyDescriptionUpdateResponse_decode version) (StreamsGroupTopologyDescriptionUpdateResponse_wf version)"
    by (rule case_split[OF streams_group_topology_description_update_response_yields]) (auto simp: StreamsGroupTopologyDescriptionUpdateResponse_decode_def Let_def yields_refused yields_unsupported)
  show "extends_input (StreamsGroupTopologyDescriptionUpdateResponse_decode version)"
    unfolding StreamsGroupTopologyDescriptionUpdateResponse_decode_def Let_def by (intro extends_rules)
qed

end
