(* ===== verification/Spec2Isabelle.thy ===== *)
theory Spec2Isabelle
  imports BarrierMessages FreezeMessages BreakGlassMessages Hlc RecordBatch ImageProperties Features KafkaUuid KraftValues QuorumMessages ControllerMessages ShareGroupMessages AdminMessages
begin

text \<open>
  A verification of the Rust workspace \<^emph>\<open>krabka-protocol\<close>: the wire formats, record batches, clocks
  and replicated cluster metadata of a Kafka-compatible broker. All paths below are relative to
  \<open>src/crates\<close>.

  \<^bold>\<open>The program.\<close> Messages are built from the primitives of \<open>protocol/src/primitives\<close> and end in a
  trailer of tagged fields (\<open>protocol/src/tagged_fields.rs\<close>). The private messages of
  \<open>protocol/src/krabka\<close> (barriers, write freezes, break-glass approvals) are written by hand on top of
  them. Data travels as record batches (\<open>protocol/src/records\<close>), compressed by \<open>compression\<close> and
  stamped by the hybrid logical clock of \<open>hlc\<close>. The cluster's state is the image of \<open>metadata\<close>: the
  controller validates a record against its image, replicates it, and every node applies it; an image
  is saved as the records that rebuild it. Access control entries live in an index inside the image.

  \<^bold>\<open>Conventions.\<close> A byte buffer is a list of 8-bit words. A writer maps the bytes written so far to a
  result with more bytes, a reader maps the remaining bytes to a value and the rest; a failure is a
  value \<open>Err\<close> of the source's error enum, and a panic is \<open>None\<close> where the source can panic. Rust strings are byte lists that satisfy \<open>utf8\<close>. Integers keep their width as words
  in the codecs and the clock. In the metadata image, where the code only compares, adds one or
  saturates, they are \<open>int\<close> with the saturation or wrap-around written out. A hash map is an
  association list with distinct keys, whose order stands for the unspecified order of its iterators;
  an ordered map is an association list in key order (theory \<open>Containers\<close>).

  \<^bold>\<open>Theories.\<close>
  \<^item> \<open>Prelude\<close>: results, readers and writers with their sequencing rules, generic lemmas on lists and
    words. \<open>Wire\<close>: the error enum, UTF-8 validation of the standard library, and the locale
    \<open>wire_codec\<close>, the contract of the traits \<open>Encode\<close> and \<open>Decode\<close> (exact predicted length, round
    trip, refusal of every truncation), whose consequences are proved once and reach each primitive
    and message through an interpretation.
  \<^item> \<open>Fixed\<close>, \<open>Varint\<close>, \<open>StringBytes\<close>, \<open>ArrayLen\<close>, \<open>TaggedFields\<close>: the primitives, one theory per file
    of \<open>protocol/src/primitives\<close> and \<open>tagged_fields.rs\<close>. They show round trips, predicted sizes, that a
    length never exceeds the remaining input, that zero-copy and owned decoders agree, and that the
    trailer is read and written in ascending tag order.
  \<^item> \<open>KrabkaCommon\<close>, \<open>BarrierMessages\<close>, \<open>FreezeMessages\<close>, \<open>BreakGlassMessages\<close>: \<open>krabka/common.rs\<close>
    and the twenty private messages with their nested structs. Each
    interprets the locale \<open>message_codec\<close>, the contract of a versioned message.
  \<^item> \<open>Hlc\<close>: stamps, headers and the clock as a state machine over the readings of the physical clock.
    It shows monotone stamps, causality, bounded drift and the fence against far-ahead peers.
  \<^item> \<open>Compression\<close>: codec ids, level checks, dispatch and the snappy framing. \<open>BatchHeader\<close>: attributes,
    the 61-byte header and the in-place patch. \<open>Records\<close>: single records, both decoders and the
    encoder's prefix array. \<open>RecordBatch\<close>: whole batches from chunked buffers, zero-copy decoding,
    validation on the produce path, counting.
  \<^item> \<open>Containers\<close>: the locale \<open>finite_map\<close> with the laws of \<open>HashMap\<close> and \<open>BTreeMap\<close>, interpreted for
    both. \<open>Acl\<close>: entries and filters of \<open>metadata/src/acl.rs\<close> and the two-level index of
    \<open>image/acl_index.rs\<close>; the locale \<open>index_level\<close> carries what each level of the index promises, and
    \<open>acl_store\<close> the contract of an entry store, which the index refines: it answers every lookup as a
    linear scan over a plain set does.
  \<^item> \<open>MetadataTypes\<close>: the records of \<open>records.rs\<close>, \<open>write_freeze.rs\<close>, \<open>break_glass.rs\<close>, voters and ids.
    \<open>MetadataImage\<close>: the struct and functions of \<open>image.rs\<close>. \<open>ImageInvariant\<close>: the well-formedness of
    an image and that \<open>apply\<close> keeps it. \<open>ImageSnapshot\<close>: the locale \<open>image_field\<close>, one interpretation
    per table, from which the replay of a snapshot follows. \<open>ImageCommits\<close>: images reached by validated
    records, as an inductive predicate with invariants by rule induction. \<open>ImageReads\<close>,
    \<open>ImageProperties\<close>: what readers return after each change, and the properties with their
    instances.
  \<^item> \<open>Features\<close>: the table of \<open>metadata_version.rs\<close>, the features of \<open>feature.rs\<close>,
    \<open>group_version.rs\<close>, \<open>transaction_version.rs\<close> and \<open>krabka_version.rs\<close>; a freshly formatted
    cluster is valid for every release and the dependency check is exact. \<open>KafkaUuid\<close>: the ids of
    \<open>ids/src/kafka_uuid.rs\<close>; the parser loop equals a reference decoding and inverts the printer.
  \<^item> \<open>KraftRecords\<close>: the structs of the generated Kafka metadata records. \<open>KraftTranslate\<close>: every
    function of \<open>metadata/src/kraft_translate.rs\<close>, in its order. \<open>KraftReplay\<close>: what a translated record
    does to the image that reads it back; the locale \<open>config_kind\<close>, interpreted for topics, groups and
    client metrics, carries the fan-out of a config map into per-key records. \<open>KraftLog\<close>: whole logs,
    that replaying the log a controller wrote rebuilds its image, and the places where it does not.
  \<^item> \<open>GeneratedCodec\<close>: the shapes that the generated codecs (\<open>crates/protocol/generated\<close>) are put
    together from, version-gated fields, arrays, strings of either length form and tagged fields, each
    with one rule per part of the codec contract. \<open>KraftTopicCodecs\<close>, \<open>KraftBrokerCodecs\<close>,
    \<open>KraftAccessCodecs\<close>: \<open>encode\<close>, \<open>encoded_len\<close> and \<open>decode\<close> of the 22 metadata records and their
    nested structs, each an interpretation of \<open>message_codec\<close>. \<open>QuorumMessages\<close>, \<open>ControllerMessages\<close>,
    \<open>ShareGroupMessages\<close>, \<open>AdminMessages\<close>: the same for 76 requests, responses and control records.
  \<^item> \<open>KraftEnvelope\<close>: \<open>records/metadata/envelope.rs\<close> and \<open>record.rs\<close>, the bytes of one record; what is
    read is exactly what can be written, and nothing can be cut off or appended. \<open>KraftValues\<close>:
    \<open>to_kraft_values\<close> and \<open>from_kraft_value\<close>, logs of bytes, and what an older version keeps of a record.
  \<^bold>\<open>Parameters.\<close> Code outside the repository is an argument of the definitions that call it: the CRC
  library (with the law that appending to a checksum is the checksum of the concatenation), the gzip,
  lz4, zstd and raw snappy coders (decompressing what was compressed gives it back), the output limit
  of the decompression policy, and the readings of the physical clock. Each property that uses such a
  law has an instance with a concrete function. Further
  parameters are the base64 encoder and the hyphenated parser of the \<open>base64\<close> and \<open>uuid\<close> crates, the
  ids drawn at random, and the \<open>wincode\<close> serializer of the private records.

  \<^bold>\<open>Bounds.\<close> All loops of the model end by structural recursion or by a measure on the remaining input;
  there is no fuel. Loops over a declared count first compare the count with the remaining bytes, as
  the code does.

  \<^bold>\<open>Not modelled.\<close> Of the generated codecs under \<open>protocol/generated\<close> the messages with versions
  older than the flexible encoding, with nested structs in shared modules or inside tagged fields, and all
  zero-copy variants (machine-written in the same shapes from the Kafka schemas), the generator itself, control records and checkpoints (\<open>records/metadata/control.rs\<close>,
  \<open>checkpoint.rs\<close>), TLS, OAuth, Kerberos and other glue over third-party cryptography, the test proxy, trace propagation, floating-point units, file
  regions, \<open>Display\<close> and \<open>Debug\<close> texts, tracing calls, and the test modules.
\<close>

text \<open>The ten requests with the constants that \<open>ProtocolRequest\<close> gives the client.\<close>

definition private_apis :: "protocol_request list" where
  "private_apis =
     [AlterBarrierGroupsRequest_api,
      DescribeBarrierGroupsRequest_api,
      TriggerBarrierRequest_api,
      ListBarrierCutsRequest_api,
      WriteBarrierMarkersRequest_api,
      SetTopicFreezeRequest_api,
      DescribeTopicFreezesRequest_api,
      ProposeBreakGlassRequest_api,
      ApproveBreakGlassRequest_api,
      DescribeBreakGlassRequest_api]"

text \<open>Two messages with every kind of field.\<close>

definition sample_cut_response :: TriggerBarrierResponse where
  "sample_cut_response =
     \<lparr>tb_resp_throttle_time_ms = 3, tb_resp_error_code = 0, tb_resp_error_message = None,
      tb_resp_epoch = 41, tb_resp_status = CUT_STATUS_PARTIAL,
      tb_resp_topics =
        [\<lparr>bct_topic = [0x61],
          bct_partitions =
            [\<lparr>bcp_partition = 0, bcp_offset = 10, bcp_unknown_tagged_fields = []\<rparr>],
          bct_unknown_tagged_fields = [\<lparr>uf_tag = 2, uf_bytes = [1]\<rparr>]\<rparr>],
      tb_resp_missing = [\<lparr>bmp_topic = [0x62], bmp_partition = 3, bmp_unknown_tagged_fields = []\<rparr>],
      tb_resp_unknown_tagged_fields = []\<rparr>"

definition sample_proposals :: DescribeBreakGlassResponse where
  "sample_proposals =
     \<lparr>dbg_resp_throttle_time_ms = 0, dbg_resp_error_code = 0, dbg_resp_error_message = Some [0x6F],
      dbg_resp_proposals =
        [\<lparr>dbgp_proposal_id = Uuid_ZERO, dbgp_action = 6, dbgp_target = [0x74], dbgp_proposer = [0x70],
          dbgp_reason = [], dbgp_created_at_ms = 1, dbgp_expires_at_ms = 2, dbgp_consumed_at_ms = 0,
          dbgp_withdrawn = False,
          dbgp_approvals =
            [\<lparr>bga_principal = [0x71], bga_approved_at_ms = 1, bga_key_id = [], bga_signature = [0xFF],
              bga_unknown_tagged_fields = []\<rparr>],
          dbgp_unknown_tagged_fields = []\<rparr>],
      dbg_resp_unknown_tagged_fields = [\<lparr>uf_tag = 1, uf_bytes = []\<rparr>]\<rparr>"

text \<open>The well-formedness predicates, for evaluation on concrete messages.\<close>

lemmas wf_eval = TriggerBarrierResponse_wf_def BarrierCutTopic_wf_def BarrierCutPartition_wf_def
  BarrierMissingPartition_wf_def DescribeBreakGlassResponse_wf_def DescribedBreakGlassProposal_wf_def
  BreakGlassApproval_wf_def SetTopicFreezeRequest_wf_def array_wf_def unknown_wf_def
  compact_string_wf_def compact_bytes_wf_def uuid_wf_def Uuid_ZERO_def
  utf8_def from_utf8.simps utf8_width_def

section \<open>Properties of the private messages\<close>

text \<open>
  C21: a cut response that fits its length prefixes is encoded in exactly the predicted number of
  bytes, decodes to itself, and every truncation of it is refused.
\<close>

theorem trigger_barrier_response_contract:
  assumes "TriggerBarrierResponse_wf x"
  shows "\<exists>bs. TriggerBarrierResponse_encode x 0 buf = Ok (buf @ bs)
    \<and> length bs = TriggerBarrierResponse_encoded_len x 0
    \<and> TriggerBarrierResponse_decode 0 (bs @ rest) = Ok (x, rest)
    \<and> (\<forall>n. n < length bs \<longrightarrow> (\<exists>e. TriggerBarrierResponse_decode 0 (take n bs) = Err e))"
  by (rule trigger_barrier_response.item.contract[OF assms])

theorem trigger_barrier_response_contract_witness:
  "\<exists>bs. TriggerBarrierResponse_encode sample_cut_response 0 [] = Ok ([] @ bs)
    \<and> length bs = TriggerBarrierResponse_encoded_len sample_cut_response 0
    \<and> TriggerBarrierResponse_decode 0 (bs @ [1]) = Ok (sample_cut_response, [1])
    \<and> (\<forall>n. n < length bs \<longrightarrow> (\<exists>e. TriggerBarrierResponse_decode 0 (take n bs) = Err e))"
  by (rule trigger_barrier_response_contract) (simp add: sample_cut_response_def wf_eval)

text \<open>
  The list of proposals with their approvals, the deepest nesting of the private messages,
  satisfies the same contract.
\<close>

theorem describe_break_glass_response_contract:
  assumes "DescribeBreakGlassResponse_wf x"
  shows "\<exists>bs. DescribeBreakGlassResponse_encode x 0 buf = Ok (buf @ bs)
    \<and> length bs = DescribeBreakGlassResponse_encoded_len x 0
    \<and> DescribeBreakGlassResponse_decode 0 (bs @ rest) = Ok (x, rest)
    \<and> (\<forall>n. n < length bs \<longrightarrow> (\<exists>e. DescribeBreakGlassResponse_decode 0 (take n bs) = Err e))"
  by (rule describe_break_glass_response.item.contract[OF assms])

theorem describe_break_glass_response_contract_witness:
  "\<exists>bs. DescribeBreakGlassResponse_encode sample_proposals 0 [] = Ok ([] @ bs)
    \<and> length bs = DescribeBreakGlassResponse_encoded_len sample_proposals 0
    \<and> DescribeBreakGlassResponse_decode 0 (bs @ []) = Ok (sample_proposals, [])
    \<and> (\<forall>n. n < length bs \<longrightarrow> (\<exists>e. DescribeBreakGlassResponse_decode 0 (take n bs) = Err e))"
  by (rule describe_break_glass_response_contract) (simp add: sample_proposals_def wf_eval)

text \<open>
  Two write-freeze requests with one encoding are the same request, and no encoding is a
  proper prefix of another, so a stream of requests is read back without framing.
\<close>

theorem set_topic_freeze_prefix_free:
  assumes "SetTopicFreezeRequest_wf x" and "SetTopicFreezeRequest_wf y"
    and "SetTopicFreezeRequest_encode x 0 [] = Ok bs"
    and "SetTopicFreezeRequest_encode y 0 [] = Ok (bs @ cs)"
  shows "x = y \<and> cs = []"
  using assms by (rule set_topic_freeze_request.item.prefix_free)

theorem set_topic_freeze_prefix_free_witness:
  "SetTopicFreezeRequest_default = SetTopicFreezeRequest_default \<and> ([] :: bytes) = []"
proof -
  have wf: "SetTopicFreezeRequest_wf SetTopicFreezeRequest_default"
    by (simp add: SetTopicFreezeRequest_default_def wf_eval)
  then obtain bs where "SetTopicFreezeRequest_encode SetTopicFreezeRequest_default 0 [] = Ok bs"
    by (rule set_topic_freeze_request.item.encodes)
  then show ?thesis
    using set_topic_freeze_prefix_free[OF wf wf, of bs "[]"] by simp
qed

text \<open>
  C23: every private message exists at version 0 only: at any other version its encoder and its
  decoder return \<open>UnsupportedVersion\<close> with the api key of the message and read or write nothing.
\<close>

theorem private_messages_refuse_other_versions:
  assumes "version \<noteq> 0"
  shows "(\<forall>x. AlterBarrierGroupsRequest_encode x version buf = Err (UnsupportedVersion 1010 version))
    \<and> AlterBarrierGroupsRequest_decode version buf = Err (UnsupportedVersion 1010 version)
    \<and> (\<forall>x. AlterBarrierGroupsResponse_encode x version buf = Err (UnsupportedVersion 1010 version))
    \<and> AlterBarrierGroupsResponse_decode version buf = Err (UnsupportedVersion 1010 version)
    \<and> (\<forall>x. DescribeBarrierGroupsRequest_encode x version buf = Err (UnsupportedVersion 1011 version))
    \<and> DescribeBarrierGroupsRequest_decode version buf = Err (UnsupportedVersion 1011 version)
    \<and> (\<forall>x. DescribeBarrierGroupsResponse_encode x version buf = Err (UnsupportedVersion 1011 version))
    \<and> DescribeBarrierGroupsResponse_decode version buf = Err (UnsupportedVersion 1011 version)
    \<and> (\<forall>x. TriggerBarrierRequest_encode x version buf = Err (UnsupportedVersion 1012 version))
    \<and> TriggerBarrierRequest_decode version buf = Err (UnsupportedVersion 1012 version)
    \<and> (\<forall>x. TriggerBarrierResponse_encode x version buf = Err (UnsupportedVersion 1012 version))
    \<and> TriggerBarrierResponse_decode version buf = Err (UnsupportedVersion 1012 version)
    \<and> (\<forall>x. ListBarrierCutsRequest_encode x version buf = Err (UnsupportedVersion 1013 version))
    \<and> ListBarrierCutsRequest_decode version buf = Err (UnsupportedVersion 1013 version)
    \<and> (\<forall>x. ListBarrierCutsResponse_encode x version buf = Err (UnsupportedVersion 1013 version))
    \<and> ListBarrierCutsResponse_decode version buf = Err (UnsupportedVersion 1013 version)
    \<and> (\<forall>x. WriteBarrierMarkersRequest_encode x version buf = Err (UnsupportedVersion 1014 version))
    \<and> WriteBarrierMarkersRequest_decode version buf = Err (UnsupportedVersion 1014 version)
    \<and> (\<forall>x. WriteBarrierMarkersResponse_encode x version buf = Err (UnsupportedVersion 1014 version))
    \<and> WriteBarrierMarkersResponse_decode version buf = Err (UnsupportedVersion 1014 version)
    \<and> (\<forall>x. SetTopicFreezeRequest_encode x version buf = Err (UnsupportedVersion 1015 version))
    \<and> SetTopicFreezeRequest_decode version buf = Err (UnsupportedVersion 1015 version)
    \<and> (\<forall>x. SetTopicFreezeResponse_encode x version buf = Err (UnsupportedVersion 1015 version))
    \<and> SetTopicFreezeResponse_decode version buf = Err (UnsupportedVersion 1015 version)
    \<and> (\<forall>x. DescribeTopicFreezesRequest_encode x version buf = Err (UnsupportedVersion 1016 version))
    \<and> DescribeTopicFreezesRequest_decode version buf = Err (UnsupportedVersion 1016 version)
    \<and> (\<forall>x. DescribeTopicFreezesResponse_encode x version buf = Err (UnsupportedVersion 1016 version))
    \<and> DescribeTopicFreezesResponse_decode version buf = Err (UnsupportedVersion 1016 version)
    \<and> (\<forall>x. ProposeBreakGlassRequest_encode x version buf = Err (UnsupportedVersion 1017 version))
    \<and> ProposeBreakGlassRequest_decode version buf = Err (UnsupportedVersion 1017 version)
    \<and> (\<forall>x. ProposeBreakGlassResponse_encode x version buf = Err (UnsupportedVersion 1017 version))
    \<and> ProposeBreakGlassResponse_decode version buf = Err (UnsupportedVersion 1017 version)
    \<and> (\<forall>x. ApproveBreakGlassRequest_encode x version buf = Err (UnsupportedVersion 1018 version))
    \<and> ApproveBreakGlassRequest_decode version buf = Err (UnsupportedVersion 1018 version)
    \<and> (\<forall>x. ApproveBreakGlassResponse_encode x version buf = Err (UnsupportedVersion 1018 version))
    \<and> ApproveBreakGlassResponse_decode version buf = Err (UnsupportedVersion 1018 version)
    \<and> (\<forall>x. DescribeBreakGlassRequest_encode x version buf = Err (UnsupportedVersion 1019 version))
    \<and> DescribeBreakGlassRequest_decode version buf = Err (UnsupportedVersion 1019 version)
    \<and> (\<forall>x. DescribeBreakGlassResponse_encode x version buf = Err (UnsupportedVersion 1019 version))
    \<and> DescribeBreakGlassResponse_decode version buf = Err (UnsupportedVersion 1019 version)"
  using check_version_refuses[OF assms]
  by (simp add: write_check_def checked_def version_bounds
      AlterBarrierGroupsRequest_encode_def AlterBarrierGroupsRequest_decode_def
      AlterBarrierGroupsResponse_encode_def AlterBarrierGroupsResponse_decode_def
      alter_barrier_groups_API_KEY_def DescribeBarrierGroupsRequest_encode_def
      DescribeBarrierGroupsRequest_decode_def DescribeBarrierGroupsResponse_encode_def
      DescribeBarrierGroupsResponse_decode_def describe_barrier_groups_API_KEY_def
      TriggerBarrierRequest_encode_def TriggerBarrierRequest_decode_def
      TriggerBarrierResponse_encode_def TriggerBarrierResponse_decode_def trigger_barrier_API_KEY_def
      ListBarrierCutsRequest_encode_def ListBarrierCutsRequest_decode_def
      ListBarrierCutsResponse_encode_def ListBarrierCutsResponse_decode_def
      list_barrier_cuts_API_KEY_def WriteBarrierMarkersRequest_encode_def
      WriteBarrierMarkersRequest_decode_def WriteBarrierMarkersResponse_encode_def
      WriteBarrierMarkersResponse_decode_def write_barrier_markers_API_KEY_def
      SetTopicFreezeRequest_encode_def SetTopicFreezeRequest_decode_def
      SetTopicFreezeResponse_encode_def SetTopicFreezeResponse_decode_def
      set_topic_freeze_API_KEY_def DescribeTopicFreezesRequest_encode_def
      DescribeTopicFreezesRequest_decode_def DescribeTopicFreezesResponse_encode_def
      DescribeTopicFreezesResponse_decode_def describe_topic_freezes_API_KEY_def
      ProposeBreakGlassRequest_encode_def ProposeBreakGlassRequest_decode_def
      ProposeBreakGlassResponse_encode_def ProposeBreakGlassResponse_decode_def propose_API_KEY_def
      ApproveBreakGlassRequest_encode_def ApproveBreakGlassRequest_decode_def
      ApproveBreakGlassResponse_encode_def ApproveBreakGlassResponse_decode_def approve_API_KEY_def
      DescribeBreakGlassRequest_encode_def DescribeBreakGlassRequest_decode_def
      DescribeBreakGlassResponse_encode_def DescribeBreakGlassResponse_decode_def
      describe_API_KEY_def)

theorem private_messages_refuse_other_versions_witness:
  "TriggerBarrierRequest_decode 1 [] = Err (UnsupportedVersion 1012 1)"
  using private_messages_refuse_other_versions[of 1 "[]"] by simp

text \<open>
  The private api keys are distinct, lie at 1000 and above where Kafka assigns none, and
  each request can be sent at its stable version with flexible framing.
\<close>

theorem private_api_keys:
  "distinct (map api_key private_apis)
   \<and> (\<forall>a \<in> set private_apis. 1000 \<le> sint (api_key a)
        \<and> min_version a \<le>s latest_stable_version a \<and> latest_stable_version a \<le>s max_version a
        \<and> flexible_min a \<le>s min_version a)"
  by (simp add: private_apis_def version_bounds
      AlterBarrierGroupsRequest_api_def DescribeBarrierGroupsRequest_api_def
      TriggerBarrierRequest_api_def ListBarrierCutsRequest_api_def WriteBarrierMarkersRequest_api_def
      SetTopicFreezeRequest_api_def DescribeTopicFreezesRequest_api_def
      ProposeBreakGlassRequest_api_def ApproveBreakGlassRequest_api_def
      DescribeBreakGlassRequest_api_def alter_barrier_groups_API_KEY_def
      alter_barrier_groups_FLEXIBLE_MIN_def describe_barrier_groups_API_KEY_def
      describe_barrier_groups_FLEXIBLE_MIN_def trigger_barrier_API_KEY_def
      trigger_barrier_FLEXIBLE_MIN_def list_barrier_cuts_API_KEY_def
      list_barrier_cuts_FLEXIBLE_MIN_def write_barrier_markers_API_KEY_def
      write_barrier_markers_FLEXIBLE_MIN_def set_topic_freeze_API_KEY_def
      set_topic_freeze_FLEXIBLE_MIN_def describe_topic_freezes_API_KEY_def
      describe_topic_freezes_FLEXIBLE_MIN_def propose_API_KEY_def propose_FLEXIBLE_MIN_def
      approve_API_KEY_def approve_FLEXIBLE_MIN_def describe_API_KEY_def describe_FLEXIBLE_MIN_def)

theorem private_api_keys_witness:
  "1000 \<le> sint (api_key TriggerBarrierRequest_api)"
  using private_api_keys by (simp add: private_apis_def)

end
